(* ===== verification/Prelude.thy ===== *)
theory Prelude
  imports Main "HOL-Library.Char_ord" "HOL-Library.List_Lexorder"
    "HOL-Library.Product_Lexorder" "HOL-Library.Sublist" "HOL-Library.Multiset"
begin

text \<open>
  What every component shares: byte strings as Rust's standard library treats them
  (\<open>str::find\<close>, \<open>lines\<close>, \<open>trim\<close>, \<open>parse::<usize>\<close>, \<open>to_lowercase\<close>, the
  UTF-8 check), paths as lists of components with Rust's component-wise
  comparison, and stable sorting. A \<open>string\<close> is a list of bytes, as a Rust
  \<open>str\<close> or \<open>[u8]\<close> is.
\<close>

named_theorems strs "byte string operations"
named_theorems paths "path operations"

section \<open>Substring search\<close>

definition occurs_at :: "'a list \<Rightarrow> 'a list \<Rightarrow> nat \<Rightarrow> bool" where
  "occurs_at p s i \<longleftrightarrow> i + length p \<le> length s \<and> take (length p) (drop i s) = p"

definition starts_with :: "'a list \<Rightarrow> 'a list \<Rightarrow> bool" where
  "starts_with p s \<longleftrightarrow> take (length p) s = p"

fun find_sub :: "'a list \<Rightarrow> 'a list \<Rightarrow> nat option" where
  "find_sub p [] = (if p = [] then Some 0 else None)"
| "find_sub p (c # cs) =
     (if starts_with p (c # cs) then Some 0 else map_option Suc (find_sub p cs))"

definition contains_sub :: "'a list \<Rightarrow> 'a list \<Rightarrow> bool" where
  "contains_sub s p \<longleftrightarrow> find_sub p s \<noteq> None"

lemma starts_with_occurs [strs]: "starts_with p s \<longleftrightarrow> occurs_at p s 0"
  by (auto simp: starts_with_def occurs_at_def) (metis length_take min.cobounded1)

lemma occurs_at_Cons_Suc [simp]: "occurs_at p (c # cs) (Suc i) \<longleftrightarrow> occurs_at p cs i"
  by (simp add: occurs_at_def)

lemma occurs_at_Nil [simp]: "occurs_at p [] i \<longleftrightarrow> p = [] \<and> i = 0"
  by (auto simp: occurs_at_def)

lemma occurs_at_drop: "k \<le> length s \<Longrightarrow> occurs_at p (drop k s) i \<longleftrightarrow> occurs_at p s (k + i)"
  by (auto simp: occurs_at_def add.commute)

lemma find_sub_Some:
  "find_sub p s = Some i \<Longrightarrow> occurs_at p s i \<and> (\<forall>j < i. \<not> occurs_at p s j)"
proof (induction s arbitrary: i)
  case Nil
  then show ?case by (auto split: if_splits)
next
  case (Cons c cs)
  show ?case
  proof (cases "starts_with p (c # cs)")
    case True
    with Cons.prems show ?thesis by (auto simp: strs)
  next
    case False
    with Cons.prems obtain k where k: "find_sub p cs = Some k" "i = Suc k" by auto
    with Cons.IH have "occurs_at p cs k" "\<forall>j < k. \<not> occurs_at p cs j" by auto
    moreover from False have "\<not> occurs_at p (c # cs) 0" by (simp add: strs)
    ultimately show ?thesis using k by (auto simp: less_Suc_eq_0_disj)
  qed
qed

lemma find_sub_None: "find_sub p s = None \<longleftrightarrow> (\<forall>i. \<not> occurs_at p s i)"
proof (induction s)
  case Nil
  then show ?case by auto
next
  case (Cons c cs)
  have "(\<forall>i. \<not> occurs_at p (c # cs) i) \<longleftrightarrow>
      \<not> occurs_at p (c # cs) 0 \<and> (\<forall>i. \<not> occurs_at p cs i)"
    by (metis not0_implies_Suc occurs_at_Cons_Suc)
  with Cons show ?case by (auto simp: strs)
qed

lemma contains_sub_iff: "contains_sub s p \<longleftrightarrow> (\<exists>i. occurs_at p s i)"
  by (simp add: contains_sub_def find_sub_None)

lemma occurs_at_imp_le: "occurs_at p s i \<Longrightarrow> i \<le> length s"
  by (simp add: occurs_at_def)

section \<open>Characters and bytes\<close>

definition byte :: "char \<Rightarrow> nat" where
  "byte c = of_char c"

definition is_ascii_digit :: "char \<Rightarrow> bool" where
  "is_ascii_digit c \<longleftrightarrow> 48 \<le> byte c \<and> byte c \<le> 57"

definition is_ascii_alphabetic :: "char \<Rightarrow> bool" where
  "is_ascii_alphabetic c \<longleftrightarrow>
     65 \<le> byte c \<and> byte c \<le> 90 \<or> 97 \<le> byte c \<and> byte c \<le> 122"

definition is_ascii_alphanumeric :: "char \<Rightarrow> bool" where
  "is_ascii_alphanumeric c \<longleftrightarrow> is_ascii_digit c \<or> is_ascii_alphabetic c"

definition to_ascii_lower :: "char \<Rightarrow> char" where
  "to_ascii_lower c = (if 65 \<le> byte c \<and> byte c \<le> 90 then char_of (byte c + 32) else c)"

text \<open>
  \<open>str::to_lowercase\<close>. The only character outside ASCII that lowercases to an ASCII
  string is the Kelvin sign U+212A (bytes E2 84 AA, giving \<open>k\<close>); every other one lowercases to
  a string that still holds a byte above 127, so it is left alone here: no caller can
  tell the difference, because each compares the result with ASCII literals.
\<close>

fun to_lowercase :: "string \<Rightarrow> string" where
  "to_lowercase (a # b # c # cs) =
     (if byte a = 226 \<and> byte b = 132 \<and> byte c = 170 then CHR ''k'' # to_lowercase cs
      else to_ascii_lower a # to_lowercase (b # c # cs))"
| "to_lowercase (a # cs) = to_ascii_lower a # to_lowercase cs"
| "to_lowercase [] = []"

text \<open>\<open>String::from_utf8\<close>: the well-formed byte sequences of the Unicode standard.\<close>

definition utf8_cont :: "char \<Rightarrow> bool" where
  "utf8_cont c \<longleftrightarrow> 128 \<le> byte c \<and> byte c \<le> 191"

definition utf8_second :: "char \<Rightarrow> char \<Rightarrow> bool" where
  "utf8_second a b \<longleftrightarrow> utf8_cont b \<and>
     (byte a = 224 \<longrightarrow> 160 \<le> byte b) \<and> (byte a = 237 \<longrightarrow> byte b \<le> 159) \<and>
     (byte a = 240 \<longrightarrow> 144 \<le> byte b) \<and> (byte a = 244 \<longrightarrow> byte b \<le> 143)"

fun utf8_valid :: "string \<Rightarrow> bool" where
  "utf8_valid [] \<longleftrightarrow> True"
| "utf8_valid (a # s) \<longleftrightarrow>
     (if byte a \<le> 127 then utf8_valid s
      else if 194 \<le> byte a \<and> byte a \<le> 223 then
        (case s of b # r \<Rightarrow> utf8_cont b \<and> utf8_valid r | _ \<Rightarrow> False)
      else if 224 \<le> byte a \<and> byte a \<le> 239 then
        (case s of b # c # r \<Rightarrow> utf8_second a b \<and> utf8_cont c \<and> utf8_valid r | _ \<Rightarrow> False)
      else if 240 \<le> byte a \<and> byte a \<le> 244 then
        (case s of b # c # d # r \<Rightarrow>
            utf8_second a b \<and> utf8_cont c \<and> utf8_cont d \<and> utf8_valid r | _ \<Rightarrow> False)
      else False)"

definition is_ascii :: "string \<Rightarrow> bool" where
  "is_ascii s \<longleftrightarrow> (\<forall>c \<in> set s. byte c \<le> 127)"

lemma utf8_valid_ascii [intro]: "is_ascii s \<Longrightarrow> utf8_valid s"
  by (induction s) (auto simp: is_ascii_def)

text \<open>\<open>str::lines\<close>: split at newlines, drop a carriage return before one; a final
  newline does not start another line.\<close>

definition strip_cr :: "string \<Rightarrow> string" where
  "strip_cr l = (if l \<noteq> [] \<and> last l = CHR 0x0D then butlast l else l)"

fun lines_from :: "string \<Rightarrow> string \<Rightarrow> string list" where
  "lines_from acc [] = (if acc = [] then [] else [rev acc])"
| "lines_from acc (c # cs) =
     (if c = CHR 0x0A then strip_cr (rev acc) # lines_from [] cs else lines_from (c # acc) cs)"

definition str_lines :: "string \<Rightarrow> string list" where
  "str_lines s = lines_from [] s"

text \<open>\<open>join\<close>, and \<open>ends_with\<close> of a character.\<close>

fun join_with :: "string \<Rightarrow> string list \<Rightarrow> string" where
  "join_with sep [] = []"
| "join_with sep [x] = x"
| "join_with sep (x # xs) = x @ sep @ join_with sep xs"

definition ends_with_char :: "char \<Rightarrow> string \<Rightarrow> bool" where
  "ends_with_char c s \<longleftrightarrow> s \<noteq> [] \<and> last s = c"

text \<open>\<open>slice.get(i)\<close> and \<open>iter().nth(i)\<close>.\<close>

definition get_nth :: "'a list \<Rightarrow> nat \<Rightarrow> 'a option" where
  "get_nth xs i = (if i < length xs then Some (xs ! i) else None)"

lemma get_nth_Some [simp]: "get_nth xs i = Some x \<longleftrightarrow> i < length xs \<and> xs ! i = x"
  by (auto simp: get_nth_def)

lemma get_nth_None [simp]: "get_nth xs i = None \<longleftrightarrow> length xs \<le> i"
  by (auto simp: get_nth_def)

text \<open>\<open>str::trim\<close>: the encodings of the characters with the property White_Space.\<close>

definition white_space :: "string list" where
  "white_space = map (map char_of)
     ([[9], [10], [11], [12], [13], [32], [194, 133], [194, 160], [225, 154, 128]]
      @ map (\<lambda>k. [226, 128, k]) [128..<139]
      @ [[226, 128, 168], [226, 128, 169], [226, 128, 175], [226, 129, 159], [227, 128, 128 :: nat]])"

fun strip_one :: "string list \<Rightarrow> string \<Rightarrow> string option" where
  "strip_one [] s = None"
| "strip_one (w # ws) s = (if w \<noteq> [] \<and> starts_with w s then Some (drop (length w) s) else strip_one ws s)"

lemma strip_one_less: "strip_one ws s = Some r \<Longrightarrow> length r < length s"
proof (induction ws)
  case (Cons w ws)
  have "length s - length w < length s" if "w \<noteq> []" "starts_with w s"
    using that by (cases s; cases w) (auto simp: starts_with_def)
  with Cons show ?case by (auto split: if_splits)
qed simp

function strip_all :: "string list \<Rightarrow> string \<Rightarrow> string" where
  "strip_all ws s = (case strip_one ws s of None \<Rightarrow> s | Some r \<Rightarrow> strip_all ws r)"
  by pat_completeness auto
termination
  by (relation "measure (\<lambda>(ws, s). length s)") (auto dest: strip_one_less)

declare strip_all.simps [simp del]

definition str_trim :: "string \<Rightarrow> string" where
  "str_trim s = rev (strip_all (map rev white_space) (rev (strip_all white_space s)))"

lemma strip_all_id: "strip_one ws s = None \<Longrightarrow> strip_all ws s = s"
  by (subst strip_all.simps) simp

section \<open>Decimal numbers\<close>

definition usize_max :: nat where
  "usize_max = 2 ^ 64 - 1"

definition digit_of :: "nat \<Rightarrow> char" where
  "digit_of d = char_of (48 + d)"

fun dec :: "nat \<Rightarrow> string" where
  "dec n = (if n < 10 then [digit_of n] else dec (n div 10) @ [digit_of (n mod 10)])"

declare dec.simps [simp del]

definition digits_val :: "string \<Rightarrow> nat" where
  "digits_val ds = foldl (\<lambda>a c. 10 * a + (byte c - 48)) 0 ds"

text \<open>\<open>str::parse\<close> at an unsigned type: an optional plus sign, then at least one digit,
  with a value that the type can hold.\<close>

definition parse_unsigned :: "nat \<Rightarrow> string \<Rightarrow> nat option" where
  "parse_unsigned limit s =
     (let ds = (case s of c # r \<Rightarrow> if c = CHR ''+'' then r else s | [] \<Rightarrow> s) in
      if ds = [] \<or> \<not> list_all is_ascii_digit ds then None
      else if digits_val ds \<le> limit then Some (digits_val ds) else None)"

lemma byte_digit_of [simp]: "d < 10 \<Longrightarrow> byte (digit_of d) = 48 + d"
  by (simp add: byte_def digit_of_def)

lemma dec_nonempty [simp]: "dec n \<noteq> []"
  by (subst dec.simps) simp

lemma dec_digits: "list_all is_ascii_digit (dec n)"
proof (induction n rule: dec.induct)
  case (1 n)
  have "is_ascii_digit (digit_of d)" if "d < 10" for d
    using that by (simp add: is_ascii_digit_def)
  with 1 show ?case by (subst dec.simps) simp
qed

lemma digits_val_dec [simp]: "digits_val (dec n) = n"
proof (induction n rule: dec.induct)
  case (1 n)
  then show ?case by (subst dec.simps) (auto simp: digits_val_def)
qed

lemma hd_dec_not_plus: "c # r = dec n \<Longrightarrow> c \<noteq> CHR ''+''"
  using dec_digits[of n] by (auto simp: is_ascii_digit_def byte_def list_all_iff dest!: sym[of "_ # _"])

lemma parse_unsigned_dec [strs]:
  "parse_unsigned limit (dec n) = (if n \<le> limit then Some n else None)"
proof -
  obtain c r where d: "dec n = c # r" by (cases "dec n") auto
  then have "c \<noteq> CHR ''+''" using hd_dec_not_plus by metis
  with d have "(case dec n of c # r \<Rightarrow> if c = CHR ''+'' then r else dec n | [] \<Rightarrow> dec n) = dec n"
    by simp
  then show ?thesis using dec_digits[of n] by (simp add: parse_unsigned_def)
qed

lemma parse_unsigned_bound: "parse_unsigned limit s = Some n \<Longrightarrow> n \<le> limit"
  by (auto simp: parse_unsigned_def Let_def split: if_splits)

section \<open>Paths\<close>

text \<open>
  A \<open>std::path::Path\<close> as the list \<open>Path::components\<close> yields on Unix: repeated
  separators, trailing separators and inner \<open>.\<close> components are gone. Rust compares,
  orders, hashes, strips and joins paths by these components.
\<close>

datatype component = RootDir | CurDir | ParentDir | Normal string

type_synonym path = "component list"

fun component_rank :: "component \<Rightarrow> nat \<times> string" where
  "component_rank RootDir = (0, [])"
| "component_rank CurDir = (1, [])"
| "component_rank ParentDir = (2, [])"
| "component_rank (Normal s) = (3, s)"

lemma component_rank_inj: "component_rank a = component_rank b \<Longrightarrow> a = b"
  by (cases a; cases b) auto

instantiation component :: linorder
begin

definition less_eq_component :: "component \<Rightarrow> component \<Rightarrow> bool" where
  "a \<le> b \<longleftrightarrow> component_rank a \<le> component_rank b"

definition less_component :: "component \<Rightarrow> component \<Rightarrow> bool" where
  "a < b \<longleftrightarrow> component_rank a < component_rank b"

instance
  by standard
    (auto simp: less_eq_component_def less_component_def
      intro: component_rank_inj antisym)

end

definition is_absolute :: "path \<Rightarrow> bool" where
  "is_absolute p \<longleftrightarrow> (case p of RootDir # _ \<Rightarrow> True | _ \<Rightarrow> False)"

definition path_join :: "path \<Rightarrow> path \<Rightarrow> path" where
  "path_join a b =
     (if is_absolute b \<or> a = [] then b else a @ dropWhile (\<lambda>c. c = CurDir) b)"

definition path_starts_with :: "path \<Rightarrow> path \<Rightarrow> bool" where
  "path_starts_with p base \<longleftrightarrow> starts_with base p"

definition strip_prefix_path :: "path \<Rightarrow> path \<Rightarrow> path option" where
  "strip_prefix_path p base =
     (if path_starts_with p base then Some (drop (length base) p) else None)"

text \<open>\<open>Path::parent\<close>: none for the root, for the empty path.\<close>

definition path_parent :: "path \<Rightarrow> path option" where
  "path_parent p =
     (case p of [] \<Rightarrow> None | _ \<Rightarrow> if last p = RootDir then None else Some (butlast p))"

definition path_file_name :: "path \<Rightarrow> string option" where
  "path_file_name p =
     (if p = [] then None else case last p of Normal s \<Rightarrow> Some s | _ \<Rightarrow> None)"

text \<open>The part after the last dot of a file name, unless the only dot starts the name.\<close>

definition name_extension :: "string \<Rightarrow> string option" where
  "name_extension s =
     (let ext = rev (takeWhile (\<lambda>c. c \<noteq> CHR ''.'') (rev s)) in
      if length s \<le> length ext + 1 then None else Some ext)"

definition path_extension :: "path \<Rightarrow> string option" where
  "path_extension p = Option.bind (path_file_name p) name_extension"

fun component_str :: "component \<Rightarrow> string" where
  "component_str RootDir = ''/''"
| "component_str CurDir = ''.''"
| "component_str ParentDir = ''..''"
| "component_str (Normal s) = s"

text \<open>\<open>Path::display\<close> of a path in this normal form.\<close>

fun path_display :: "path \<Rightarrow> string" where
  "path_display [] = []"
| "path_display [c] = component_str c"
| "path_display (RootDir # cs) = CHR ''/'' # path_display cs"
| "path_display (c # cs) = component_str c @ CHR ''/'' # path_display cs"

text \<open>\<open>PathBuf::from\<close> a string: its components.\<close>

fun split_on :: "char \<Rightarrow> string \<Rightarrow> string list" where
  "split_on d [] = [[]]"
| "split_on d (c # cs) =
     (if c = d then [] # split_on d cs
      else (case split_on d cs of [] \<Rightarrow> [[c]] | w # ws \<Rightarrow> (c # w) # ws))"

definition segment_component :: "string \<Rightarrow> component" where
  "segment_component s =
     (if s = ''..'' then ParentDir else if s = ''.'' then CurDir else Normal s)"

definition path_of_string :: "string \<Rightarrow> path" where
  "path_of_string s =
     (let segs = map segment_component (filter (\<lambda>w. w \<noteq> []) (split_on CHR ''/'' s));
          rest = filter (\<lambda>c. c \<noteq> CurDir) segs
      in if s \<noteq> [] \<and> hd s = CHR ''/'' then RootDir # rest
         else if segs \<noteq> [] \<and> hd segs = CurDir then CurDir # rest else rest)"

text \<open>A canonical absolute path, as \<open>canonicalize\<close> returns it.\<close>

definition name_ok :: "string \<Rightarrow> bool" where
  "name_ok s \<longleftrightarrow> s \<noteq> [] \<and> s \<noteq> ''.'' \<and> s \<noteq> ''..'' \<and> CHR ''/'' \<notin> set s"

definition canonical_path :: "path \<Rightarrow> bool" where
  "canonical_path p \<longleftrightarrow>
     (\<exists>names. p = RootDir # map Normal names \<and> (\<forall>s \<in> set names. name_ok s))"

lemma split_on_nonempty [simp]: "split_on d s \<noteq> []"
  by (induction s) (auto split: list.splits)

lemma split_on_append:
  "d \<notin> set w \<Longrightarrow> split_on d (w @ d # s) = w # split_on d s"
  by (induction w) auto

lemma split_on_no_sep: "d \<notin> set w \<Longrightarrow> split_on d w = [w]"
  by (induction w) auto

lemma split_on_display_names:
  "names \<noteq> [] \<Longrightarrow> \<forall>s \<in> set names. name_ok s \<Longrightarrow>
    split_on CHR ''/'' (path_display (map Normal names)) = names"
proof (induction names rule: induct_list012)
  case (2 x)
  then show ?case by (simp add: split_on_no_sep name_ok_def)
next
  case (3 x y zs)
  then have "CHR ''/'' \<notin> set x" by (simp add: name_ok_def)
  with 3 show ?case by (simp add: split_on_append)
qed simp

lemma path_display_root: "path_display (RootDir # cs) = CHR ''/'' # path_display cs"
  by (cases cs) auto

lemma path_of_string_display [paths]:
  assumes "canonical_path p"
  shows "path_of_string (path_display p) = p"
proof -
  from assms obtain names where p: "p = RootDir # map Normal names" and ok: "\<forall>s \<in> set names. name_ok s"
    by (auto simp: canonical_path_def)
  have seg: "map segment_component names = map Normal names"
    and ne: "filter (\<lambda>w. w \<noteq> []) names = names"
    using ok by (auto simp: segment_component_def name_ok_def intro!: filter_True)
  have cur: "filter (\<lambda>c. c \<noteq> CurDir) (map Normal names) = map Normal names"
    by (auto intro!: filter_True)
  show ?thesis
  proof (cases names)
    case Nil
    with p show ?thesis by (simp add: path_of_string_def)
  next
    case (Cons n ns)
    then have "split_on CHR ''/'' (path_display p) = [] # names"
      using split_on_display_names[OF _ ok] by (simp add: p path_display_root del: path_display.simps)
    then show ?thesis
      using seg ne cur by (simp add: path_of_string_def p path_display_root del: path_display.simps)
  qed
qed

text \<open>A relative path of plain names, as the scanner stores them.\<close>

definition plain_relative :: "path \<Rightarrow> bool" where
  "plain_relative p \<longleftrightarrow> (\<forall>c \<in> set p. \<exists>s. c = Normal s)"

lemma starts_with_append [simp]: "starts_with p (p @ s)"
  by (simp add: starts_with_def)

lemma starts_with_refl [simp]: "starts_with p p"
  by (simp add: starts_with_def)

lemma starts_with_iff: "starts_with p s \<longleftrightarrow> (\<exists>r. s = p @ r)"
  by (auto simp: starts_with_def) (metis append_take_drop_id)

lemma plain_not_absolute [simp]: "plain_relative p \<Longrightarrow> \<not> is_absolute p"
  by (auto simp: plain_relative_def is_absolute_def split: list.splits component.splits)

lemma plain_dropWhile [simp]: "plain_relative p \<Longrightarrow> dropWhile (\<lambda>c. c = CurDir) p = p"
  by (cases p) (auto simp: plain_relative_def)

lemma path_join_plain [paths]: "plain_relative p \<Longrightarrow> path_join root p = root @ p"
  by (auto simp: path_join_def)

lemma strip_prefix_join [paths]:
  "plain_relative p \<Longrightarrow> strip_prefix_path (path_join root p) root = Some p"
  by (simp add: strip_prefix_path_def path_starts_with_def path_join_plain)

lemma strip_prefix_Some: "strip_prefix_path p base = Some r \<longleftrightarrow> p = base @ r"
  by (auto simp: strip_prefix_path_def path_starts_with_def starts_with_iff)

lemma strip_prefix_append [simp]: "strip_prefix_path (base @ r) base = Some r"
  by (simp add: strip_prefix_Some)

lemma path_parent_less: "path_parent p = Some q \<Longrightarrow> length q < length p"
  by (auto simp: path_parent_def split: list.splits if_splits)

section \<open>Stable sorting and filtering\<close>

text \<open>\<open>sort_by\<close> with a key is the stable \<open>sort_key\<close>; \<open>filter_map\<close> is
  \<open>List.map_filter\<close>.\<close>

lemma filter_key_inj:
  assumes "inj_on f A" and "set xs \<subseteq> A" and "k \<in> A"
  shows "filter (\<lambda>x. f k = f x) xs = replicate (count (mset xs) k) k"
proof -
  have "filter (\<lambda>x. f k = f x) xs = filter (HOL.eq k) xs"
    using assms by (intro filter_cong) (auto dest: inj_onD)
  then show ?thesis by (simp add: replicate_count_mset_eq_filter_eq)
qed

lemma sort_key_perm_inj:
  assumes "mset xs = mset ys" and "inj_on f (set xs)"
  shows "sort_key f xs = sort_key f ys"
proof (rule properties_for_sort_key)
  have set_eq: "set xs = set ys" using assms(1) by (rule mset_eq_setD)
  show "mset (sort_key f ys) = mset xs" using assms(1) by simp
  show "sorted (map f (sort_key f ys))" by simp
  fix k assume k: "k \<in> set (sort_key f ys)"
  have "filter (\<lambda>x. f k = f x) (sort_key f ys) = replicate (count (mset (sort_key f ys)) k) k"
    using k assms(2) set_eq by (intro filter_key_inj[OF assms(2)]) auto
  moreover have "filter (\<lambda>x. f k = f x) xs = replicate (count (mset xs) k) k"
    using k set_eq by (intro filter_key_inj[OF assms(2)]) auto
  ultimately show "filter (\<lambda>x. f k = f x) (sort_key f ys) = filter (\<lambda>x. f k = f x) xs"
    using assms(1) by simp
qed

lemma set_map_filter [simp]: "set (List.map_filter g xs) = {y. \<exists>x \<in> set xs. g x = Some y}"
  by (force simp: List.map_filter_def)

lemma mset_map_filter_cong:
  "mset xs = mset ys \<Longrightarrow> mset (List.map_filter g xs) = mset (List.map_filter g ys)"
  by (simp add: List.map_filter_def)

section \<open>Characters of a string slice\<close>

text \<open>Walking a UTF-8 string by characters. \<open>alnum\<close> stands for the Unicode tables: it
  says which characters outside ASCII, given by their bytes, \<open>char::is_alphanumeric\<close>
  accepts. Slicing at an index that is no character boundary panics (none).\<close>

definition char_len :: "char \<Rightarrow> nat" where
  "char_len c = (if byte c \<le> 127 then 1 else if byte c \<le> 223 then 2 else if byte c \<le> 239 then 3 else 4)"

definition ident_char :: "(string \<Rightarrow> bool) \<Rightarrow> string \<Rightarrow> bool" where
  "ident_char alnum ch =
     (case ch of [c] \<Rightarrow> is_ascii_alphanumeric c \<or> c = CHR ''_'' | _ \<Rightarrow> alnum ch)"

function ident_prefix :: "(string \<Rightarrow> bool) \<Rightarrow> string \<Rightarrow> string" where
  "ident_prefix alnum [] = []"
| "ident_prefix alnum (c # cs) =
     (if ident_char alnum (take (char_len c) (c # cs))
      then take (char_len c) (c # cs) @ ident_prefix alnum (drop (char_len c) (c # cs)) else [])"
  by pat_completeness auto
termination
  by (relation "measure (\<lambda>(al, s). length s)") (auto simp: char_len_def)

definition slice_from :: "string \<Rightarrow> nat \<Rightarrow> string option" where
  "slice_from s i =
     (if i = length s \<or> i < length s \<and> (i = 0 \<or> \<not> utf8_cont (s ! i)) then Some (drop i s) else None)"

text \<open>Character boundaries, and slicing a string: None is the panic.\<close>

definition boundary :: "string \<Rightarrow> nat \<Rightarrow> bool" where
  "boundary s i \<longleftrightarrow> slice_from s i \<noteq> None"

definition str_slice :: "string \<Rightarrow> nat \<Rightarrow> nat \<Rightarrow> string option" where
  "str_slice s a b =
     (if a \<le> b \<and> b \<le> length s \<and> boundary s a \<and> boundary s b then Some (take (b - a) (drop a s)) else None)"

section \<open>Trimming and first lines\<close>

definition trim_start :: "string \<Rightarrow> string" where
  "trim_start s = strip_all white_space s"

definition trim_end :: "string \<Rightarrow> string" where
  "trim_end s = rev (strip_all (map rev white_space) (rev s))"

text \<open>\<open>trim_start_matches\<close>, \<open>trim_end_matches\<close> and \<open>trim_matches\<close> of a character.\<close>

definition trim_start_char :: "char \<Rightarrow> string \<Rightarrow> string" where
  "trim_start_char c s = dropWhile (\<lambda>x. x = c) s"

definition trim_end_char :: "char \<Rightarrow> string \<Rightarrow> string" where
  "trim_end_char c s = rev (dropWhile (\<lambda>x. x = c) (rev s))"

definition trim_char :: "char \<Rightarrow> string \<Rightarrow> string" where
  "trim_char c s = trim_end_char c (trim_start_char c s)"

text \<open>\<open>lines().next().unwrap_or("")\<close>.\<close>

definition first_line :: "string \<Rightarrow> string" where
  "first_line s = (case str_lines s of [] \<Rightarrow> [] | l # _ \<Rightarrow> l)"

definition strip_prefix_str :: "string \<Rightarrow> string \<Rightarrow> string option" where
  "strip_prefix_str p s = (if starts_with p s then Some (drop (length p) s) else None)"

end
