(* ===== verification/Core_Types.thy ===== *)
theory Core_Types
  imports Prelude
begin

text \<open>
  The shared data of codequery-core: symbols and their kinds (\<open>symbol.rs\<close>), references
  (\<open>reference.rs\<close>), result metadata (\<open>query.rs\<close>), call chains (\<open>callchain.rs\<close>), errors
  (\<open>error.rs\<close>), display paths (\<open>path_utils.rs\<close>), and JSON values as the code reads them
  (\<open>get\<close>, \<open>as_str\<close>, \<open>as_array\<close>). Line and column numbers are \<open>usize\<close> values, kept as
  \<open>nat\<close>.
\<close>

section \<open>Symbols\<close>

datatype (plugins only: code size) symbol_kind =
    Function | Method | Struct | Class | Trait | Interface | Enum | Type | Const | Static
  | Module | Impl | Test | Macro | Variable
  | Namespace | Package | Record | Signature | Mixin | Extension | Export | Port | Exception
  | Event
  | Resource | Data | Output | Config | Rule | Stage | Label | Route | Block | Service | Message
  | Section | Element | Environment | Property | Table | View | Procedure | Index | Field | File
  | Hunk | Alias

primrec kind_display :: "symbol_kind \<Rightarrow> string" where
  "kind_display Function = ''function''"
| "kind_display Method = ''method''"
| "kind_display Struct = ''struct''"
| "kind_display Class = ''class''"
| "kind_display Trait = ''trait''"
| "kind_display Interface = ''interface''"
| "kind_display Enum = ''enum''"
| "kind_display Type = ''type''"
| "kind_display Const = ''const''"
| "kind_display Static = ''static''"
| "kind_display Module = ''module''"
| "kind_display Impl = ''impl''"
| "kind_display Test = ''test''"
| "kind_display Macro = ''macro''"
| "kind_display Variable = ''variable''"
| "kind_display Namespace = ''namespace''"
| "kind_display Package = ''package''"
| "kind_display Record = ''record''"
| "kind_display Signature = ''signature''"
| "kind_display Mixin = ''mixin''"
| "kind_display Extension = ''extension''"
| "kind_display Export = ''export''"
| "kind_display Port = ''port''"
| "kind_display Exception = ''exception''"
| "kind_display Event = ''event''"
| "kind_display Resource = ''resource''"
| "kind_display Data = ''data''"
| "kind_display Output = ''output''"
| "kind_display Config = ''config''"
| "kind_display Rule = ''rule''"
| "kind_display Stage = ''stage''"
| "kind_display Label = ''label''"
| "kind_display Route = ''route''"
| "kind_display Block = ''block''"
| "kind_display Service = ''service''"
| "kind_display Message = ''message''"
| "kind_display Section = ''section''"
| "kind_display Element = ''element''"
| "kind_display Environment = ''environment''"
| "kind_display Property = ''property''"
| "kind_display Table = ''table''"
| "kind_display View = ''view''"
| "kind_display Procedure = ''procedure''"
| "kind_display Index = ''index''"
| "kind_display Field = ''field''"
| "kind_display File = ''file''"
| "kind_display Hunk = ''hunk''"
| "kind_display Alias = ''alias''"

datatype visibility = Public | Private | Crate

primrec visibility_display :: "visibility \<Rightarrow> string" where
  "visibility_display Public = ''pub''"
| "visibility_display Private = ''priv''"
| "visibility_display Crate = ''pub(crate)''"

datatype symbol = Symbol
  (sym_name: string) (sym_kind: symbol_kind) (sym_file: path)
  (sym_line: nat) (sym_column: nat) (sym_end_line: nat) (sym_visibility: visibility)
  (sym_children: "symbol list")
  (sym_doc: "string option") (sym_body: "string option") (sym_signature: "string option")

record location =
  loc_file :: path
  loc_line :: nat
  loc_column :: nat

section \<open>References\<close>

datatype reference_kind = Call | TypeUsage | Import | Assignment | Definition

primrec reference_kind_display :: "reference_kind \<Rightarrow> string" where
  "reference_kind_display Call = ''call''"
| "reference_kind_display TypeUsage = ''type_usage''"
| "reference_kind_display Import = ''import''"
| "reference_kind_display Assignment = ''assignment''"
| "reference_kind_display Definition = ''definition''"

record reference =
  ref_file :: path
  ref_line :: nat
  ref_column :: nat
  ref_kind :: reference_kind
  ref_context :: string
  ref_caller :: "string option"
  ref_caller_kind :: "symbol_kind option"

section \<open>Result metadata\<close>

datatype resolution = Syntactic | Resolved | Semantic

primrec resolution_display :: "resolution \<Rightarrow> string" where
  "resolution_display Syntactic = ''syntactic''"
| "resolution_display Resolved = ''resolved''"
| "resolution_display Semantic = ''semantic''"

datatype completeness = Exhaustive | BestEffort

primrec completeness_display :: "completeness \<Rightarrow> string" where
  "completeness_display Exhaustive = ''exhaustive''"
| "completeness_display BestEffort = ''best_effort''"

section \<open>Call chains\<close>

datatype call_chain_node = CallChainNode
  (ccn_name: string) (ccn_kind: symbol_kind) (ccn_file: path) (ccn_line: nat) (ccn_column: nat)
  (ccn_callers: "call_chain_node list")

section \<open>Errors and display paths\<close>

datatype io_error = NotFound | WouldBlock | UnexpectedEof | InvalidData | OtherIo string

datatype core_error =
    ProjectNotFound path
  | NoSourceFiles path
  | CoreIo io_error
  | PathError string
  | ConfigError string

definition resolve_display_path :: "path \<Rightarrow> path \<Rightarrow> path" where
  "resolve_display_path file project_root =
     (case strip_prefix_path file project_root of None \<Rightarrow> file | Some r \<Rightarrow> r)"

lemma resolve_display_path_inside [paths, simp]:
  "plain_relative p \<Longrightarrow> resolve_display_path (path_join root p) root = p"
  by (simp add: resolve_display_path_def strip_prefix_join)

section \<open>JSON values\<close>

datatype json =
    JNull | JBool bool | JInt int | JFloat string | JStr string
  | JArr "json list" | JObj "(string \<times> json) list"

fun json_get :: "string \<Rightarrow> json \<Rightarrow> json option" where
  "json_get k (JObj kvs) = map_of kvs k"
| "json_get k _ = None"

fun json_as_str :: "json \<Rightarrow> string option" where
  "json_as_str (JStr s) = Some s"
| "json_as_str _ = None"

fun json_as_array :: "json \<Rightarrow> json list option" where
  "json_as_array (JArr xs) = Some xs"
| "json_as_array _ = None"

end
