(* ===== verification/Project.thy ===== *)
theory Project
  imports Core_Types
begin

text \<open>
  \<open>project.rs\<close> and \<open>dirs.rs\<close> of codequery-core: the walk from a start directory up
  to the project root, and the directories cq stores data in. \<open>Path::canonicalize\<close> and
  \<open>Path::exists\<close> read the file system and are arguments; so are the environment
  variables and the home directory.
\<close>

section \<open>Project root detection\<close>

definition markers :: "string list" where
  "markers =
     [''.git'', ''Cargo.toml'', ''package.json'', ''go.mod'', ''pyproject.toml'', ''setup.py'',
      ''pom.xml'', ''build.gradle'', ''Makefile'', ''CMakeLists.txt'', ''.cq.toml'']"

definition has_marker :: "(path \<Rightarrow> bool) \<Rightarrow> path \<Rightarrow> bool" where
  "has_marker exists current \<longleftrightarrow>
     list_ex (\<lambda>m. exists (path_join current [Normal m])) markers"

function detect_loop :: "(path \<Rightarrow> bool) \<Rightarrow> path \<Rightarrow> path \<Rightarrow> core_error + path" where
  "detect_loop exists start current =
     (if has_marker exists current then Inr current
      else (case path_parent current of
              Some parent \<Rightarrow> detect_loop exists start parent
            | None \<Rightarrow> Inl (ProjectNotFound start)))"
  by pat_completeness auto
termination
  by (relation "measure (\<lambda>(ex, s, c). length c)") (auto dest: path_parent_less)

declare detect_loop.simps [simp del]

definition detect_project_root ::
  "(path \<Rightarrow> string + path) \<Rightarrow> (path \<Rightarrow> bool) \<Rightarrow> path \<Rightarrow> core_error + path" where
  "detect_project_root canonicalize exists start =
     (case canonicalize start of
        Inl e \<Rightarrow> Inl (PathError (''cannot canonicalize '' @ path_display start @ '': '' @ e))
      | Inr canonical \<Rightarrow> detect_loop exists start canonical)"

definition detect_project_root_or ::
  "(path \<Rightarrow> string + path) \<Rightarrow> (path \<Rightarrow> bool) \<Rightarrow> path \<Rightarrow> path option \<Rightarrow> core_error + path" where
  "detect_project_root_or canonicalize exists start explicit =
     (case explicit of
        Some p \<Rightarrow>
          if exists p then
            (case canonicalize p of
               Inl e \<Rightarrow> Inl (PathError (''cannot canonicalize explicit path '' @ path_display p
                           @ '': '' @ e))
             | Inr c \<Rightarrow> Inr c)
          else Inl (PathError (''explicit project path does not exist: '' @ path_display p))
      | None \<Rightarrow> detect_project_root canonicalize exists start)"

lemma detect_loop_result:
  assumes "canonical_path c"
  shows "(case detect_loop exists start c of
      Inr r \<Rightarrow> canonical_path r \<and> prefix r c \<and> has_marker exists r \<and>
        (\<forall>q. prefix q c \<and> strict_prefix r q \<longrightarrow> \<not> has_marker exists q)
    | Inl e \<Rightarrow> e = ProjectNotFound start \<and>
        (\<forall>q. prefix q c \<and> q \<noteq> [] \<longrightarrow> \<not> has_marker exists q))"
  using assms
proof (induction c rule: length_induct)
  case (1 c)
  from "1.prems" obtain names where c: "c = RootDir # map Normal names"
    and ok: "\<forall>s \<in> set names. name_ok s" by (auto simp: canonical_path_def)
  show ?case
  proof (cases "has_marker exists c")
    case True
    with "1.prems" show ?thesis
      by (simp add: detect_loop.simps[of exists start c])
        (meson prefix_order.less_le_not_le)
  next
    case unmarked: False
    show ?thesis
    proof (cases names rule: rev_cases)
      case Nil
      with c have par: "path_parent c = None" and pre: "prefix q c \<longleftrightarrow> q = [] \<or> q = c" for q
        by (auto simp: path_parent_def prefix_Cons)
      from par unmarked have "detect_loop exists start c = Inl (ProjectNotFound start)"
        by (simp add: detect_loop.simps[of exists start c])
      with unmarked show ?thesis unfolding pre by auto
    next
      case (snoc ns n)
      let ?p = "RootDir # map Normal ns"
      have par: "path_parent c = Some ?p" using c snoc by (auto simp: path_parent_def)
      have eq: "detect_loop exists start c = detect_loop exists start ?p"
        using unmarked par by (simp add: detect_loop.simps[of exists start c])
      have pre: "prefix q c \<longleftrightarrow> prefix q ?p \<or> q = c" for q
        using c snoc by (auto simp: prefix_Cons)
      have "canonical_path ?p" using ok snoc by (auto simp: canonical_path_def)
      with "1.IH" c snoc have IH: "(case detect_loop exists start ?p of
          Inr r \<Rightarrow> canonical_path r \<and> prefix r ?p \<and> has_marker exists r \<and>
            (\<forall>q. prefix q ?p \<and> strict_prefix r q \<longrightarrow> \<not> has_marker exists q)
        | Inl e \<Rightarrow> e = ProjectNotFound start \<and>
            (\<forall>q. prefix q ?p \<and> q \<noteq> [] \<longrightarrow> \<not> has_marker exists q))"
        by simp
      show ?thesis
        using IH unmarked unfolding eq pre by (auto split: sum.splits)
    qed
  qed
qed

text \<open>
  C16: the detected root is the nearest ancestor of the canonical start path (itself
  included) that holds a marker of the code's list: no directory between the start and the root has
  one. The guide also names \<open>.hg\<close> and \<open>*.sln\<close> as markers; they are not in that list, so a directory
  with only one of these is passed over.
\<close>

theorem detect_project_root_nearest:
  assumes "canonicalize start = Inr c" and "canonical_path c"
    and "detect_project_root canonicalize exists start = Inr r"
  shows "canonical_path r \<and> prefix r c \<and> has_marker exists r \<and>
    (\<forall>q. prefix q c \<and> strict_prefix r q \<longrightarrow> \<not> has_marker exists q)"
  using detect_loop_result[OF assms(2), where exists = exists and start = start] assms(1,3)
  by (simp add: detect_project_root_def)

theorem detect_project_root_nearest_witness:
  "has_marker (\<lambda>p. p = [RootDir, Normal ''a'', Normal ''.git'']) [RootDir, Normal ''a'']"
proof -
  let ?ex = "\<lambda>p. p = [RootDir, Normal ''a'', Normal ''.git'']"
  have "canonical_path [RootDir, Normal ''a'', Normal ''b'']"
    unfolding canonical_path_def by (rule exI[of _ "[''a'', ''b'']"]) (simp add: name_ok_def)
  moreover have "detect_project_root Inr ?ex [RootDir, Normal ''a'', Normal ''b''] =
      Inr [RootDir, Normal ''a'']"
    by (simp add: detect_project_root_def detect_loop.simps has_marker_def markers_def
        path_join_def path_parent_def is_absolute_def)
  ultimately show ?thesis using detect_project_root_nearest[of Inr _ _ ?ex] by blast
qed

text \<open>
  Detection fails with \<open>ProjectNotFound\<close> exactly when no ancestor of the
  canonical start path holds a marker; on a canonical path it always returns.
\<close>

theorem detect_project_root_not_found:
  assumes "canonicalize start = Inr c" and "canonical_path c"
  shows "detect_project_root canonicalize exists start = Inl (ProjectNotFound start) \<longleftrightarrow>
    (\<forall>q. prefix q c \<and> q \<noteq> [] \<longrightarrow> \<not> has_marker exists q)"
proof -
  have "r \<noteq> []" if "canonical_path r" for r using that by (auto simp: canonical_path_def)
  with detect_loop_result[OF assms(2), where exists = exists and start = start] assms(1) show ?thesis
    by (auto simp: detect_project_root_def split: sum.splits)
qed

theorem detect_project_root_not_found_witness:
  "detect_project_root Inr (\<lambda>_. False) [RootDir, Normal ''a''] =
     Inl (ProjectNotFound [RootDir, Normal ''a''])"
proof -
  have "canonical_path [RootDir, Normal ''a'']"
    unfolding canonical_path_def by (rule exI[of _ "[''a'']"]) (simp add: name_ok_def)
  from detect_project_root_not_found[of Inr, OF refl this, of "\<lambda>_. False"] show ?thesis
    by (simp add: has_marker_def markers_def)
qed

section \<open>Storage directories\<close>

text \<open>The environment maps a variable to its Unicode contents, as \<open>std::env::var\<close>
  reads it.\<close>

type_synonym env = "string \<rightharpoonup> string"

definition data_dir :: "env \<Rightarrow> path option \<Rightarrow> path option" where
  "data_dir env home =
     (case env ''CQ_DATA_DIR'' of
        Some dir \<Rightarrow> Some (path_of_string dir)
      | None \<Rightarrow>
          (case env ''XDG_DATA_HOME'' of
             Some xdg \<Rightarrow> Some (path_join (path_of_string xdg) [Normal ''cq''])
           | None \<Rightarrow> map_option (\<lambda>h. path_join h
               [Normal ''.local'', Normal ''share'', Normal ''cq'']) home))"

definition cache_dir :: "env \<Rightarrow> path option \<Rightarrow> path option" where
  "cache_dir env home =
     (case env ''CQ_CACHE_DIR'' of
        Some dir \<Rightarrow> Some (path_of_string dir)
      | None \<Rightarrow>
          (case env ''XDG_CACHE_HOME'' of
             Some xdg \<Rightarrow> Some (path_join (path_of_string xdg) [Normal ''cq''])
           | None \<Rightarrow> map_option (\<lambda>h. path_join h [Normal ''.cache'', Normal ''cq'']) home))"

definition languages_dir :: "env \<Rightarrow> path option \<Rightarrow> path option" where
  "languages_dir env home = map_option (\<lambda>d. path_join d [Normal ''languages'']) (data_dir env home)"

definition cwasm_dir :: "env \<Rightarrow> path option \<Rightarrow> path option" where
  "cwasm_dir env home = map_option (\<lambda>d. path_join d [Normal ''cwasm'']) (cache_dir env home)"

definition daemons_dir :: "env \<Rightarrow> path option \<Rightarrow> path option" where
  "daemons_dir env home = map_option (\<lambda>d. path_join d [Normal ''daemons'']) (cache_dir env home)"

definition registry_cache_path :: "env \<Rightarrow> path option \<Rightarrow> path option" where
  "registry_cache_path env home =
     map_option (\<lambda>d. path_join d [Normal ''registry.json'']) (cache_dir env home)"

definition runtime_dir :: "env \<Rightarrow> path \<Rightarrow> path option" where
  "runtime_dir env temp_dir =
     (case env ''CQ_RUNTIME_DIR'' of
        Some dir \<Rightarrow> Some (path_of_string dir)
      | None \<Rightarrow>
          (case env ''XDG_RUNTIME_DIR'' of
             Some xdg \<Rightarrow> Some (path_join (path_of_string xdg) [Normal ''cq''])
           | None \<Rightarrow> Some (path_join temp_dir [Normal ''cq''])))"

end
