(* ===== verification/Grep.thy ===== *)
theory Grep
  imports Core_Types
begin

text \<open>
  \<open>grep.rs\<close> of codequery-index: the word-boundary text filter that runs before parsing.
  \<open>memmem::Finder::find\<close> is an argument, with its documented contract (the leftmost
  occurrence) as the locale \<open>leftmost_search\<close>; file metadata, reads and memory maps are
  arguments too.
\<close>

datatype index_error = IndexCore core_error | IndexParse string | IndexIo io_error

definition MMAP_THRESHOLD :: nat where
  "MMAP_THRESHOLD = 32 * 1024"

definition is_word_char :: "char \<Rightarrow> bool" where
  "is_word_char b \<longleftrightarrow> is_ascii_alphanumeric b \<or> b = CHR ''_''"

definition is_word_boundary :: "string \<Rightarrow> nat \<Rightarrow> nat \<Rightarrow> bool" where
  "is_word_boundary data pos len =
     (if pos > 0 \<and> is_word_char (data ! (pos - 1)) then False
      else if pos + len < length data \<and> is_word_char (data ! (pos + len)) then False
      else True)"

type_synonym finder = "string \<Rightarrow> string \<Rightarrow> nat option"

function word_loop :: "finder \<Rightarrow> string \<Rightarrow> string \<Rightarrow> nat \<Rightarrow> bool" where
  "word_loop search data needle start =
     (if start \<le> length data then
        (case search needle (drop start data) of
           None \<Rightarrow> False
         | Some pos \<Rightarrow>
             if is_word_boundary data (start + pos) (length needle) then True
             else word_loop search data needle (start + pos + 1))
      else False)"
  by pat_completeness auto
termination
  by (relation "measure (\<lambda>(search, data, needle, start). Suc (length data) - start)") auto

declare word_loop.simps [simp del]

definition data_contains_word :: "finder \<Rightarrow> string \<Rightarrow> string \<Rightarrow> bool" where
  "data_contains_word search data word =
     (if word = [] then False else word_loop search data word 0)"

record file_sys =
  metadata_len :: "path \<Rightarrow> io_error + nat"
  read_file :: "path \<Rightarrow> io_error + string"
  mmap_file :: "path \<Rightarrow> io_error + string"

definition file_contains_word ::
  "finder \<Rightarrow> file_sys \<Rightarrow> path \<Rightarrow> string \<Rightarrow> index_error + bool" where
  "file_contains_word search fsys p word =
     (case metadata_len fsys p of
        Inl e \<Rightarrow> Inl (IndexIo e)
      | Inr len \<Rightarrow>
          if len = 0 then Inr False
          else if len < MMAP_THRESHOLD then
            (case read_file fsys p of
               Inl e \<Rightarrow> Inl (IndexIo e) | Inr data \<Rightarrow> Inr (data_contains_word search data word))
          else
            (case mmap_file fsys p of
               Inl e \<Rightarrow> Inl (IndexIo e) | Inr data \<Rightarrow> Inr (data_contains_word search data word)))"

definition filter_files ::
  "finder \<Rightarrow> file_sys \<Rightarrow> path list \<Rightarrow> path \<Rightarrow> string \<Rightarrow> path list" where
  "filter_files search fsys files root word =
     filter (\<lambda>f. case file_contains_word search fsys (path_join root f) word of
                   Inr b \<Rightarrow> b | Inl _ \<Rightarrow> False) files"

section \<open>The contract of the substring search\<close>

locale leftmost_search =
  fixes search :: finder
  assumes found: "search p s = Some i \<Longrightarrow> occurs_at p s i \<and> (\<forall>j < i. \<not> occurs_at p s j)"
    and absent: "search p s = None \<Longrightarrow> \<not> occurs_at p s i"

text \<open>What the filter looks for: an occurrence of the word with no word character on
  either side.\<close>

definition standalone_at :: "string \<Rightarrow> string \<Rightarrow> nat \<Rightarrow> bool" where
  "standalone_at data word i \<longleftrightarrow>
     occurs_at word data i \<and>
     (\<forall>k < length data. Suc k = i \<or> k = i + length word \<longrightarrow> \<not> is_word_char (data ! k))"

lemma boundary_standalone:
  "occurs_at word data i \<Longrightarrow>
    is_word_boundary data i (length word) \<longleftrightarrow> standalone_at data word i"
proof -
  assume occ: "occurs_at word data i"
  have "0 < i \<and> is_word_char (data ! (i - 1)) \<longleftrightarrow>
      (\<exists>k < length data. Suc k = i \<and> is_word_char (data ! k))"
    using occ by (cases i) (auto simp: occurs_at_def)
  with occ show ?thesis by (auto simp: is_word_boundary_def standalone_at_def)
qed

context leftmost_search
begin

lemma next_candidate:
  assumes "start \<le> length data" and "search needle (drop start data) = Some pos"
    and "start \<le> i" and "standalone_at data needle i"
  shows "occurs_at needle data (start + pos) \<and> start + pos \<le> i"
proof -
  from found[OF assms(2)] have "occurs_at needle data (start + pos)"
    and "\<forall>j < pos. \<not> occurs_at needle data (start + j)"
    using assms(1) by (auto simp: occurs_at_drop)
  moreover have "occurs_at needle data (start + (i - start))"
    using assms(3,4) by (simp add: standalone_at_def)
  moreover have "start + pos \<le> i" if "\<not> i - start < pos" using that assms(3) by linarith
  ultimately show ?thesis by blast
qed

lemma word_loop_iff:
  "word_loop search data needle start \<longleftrightarrow> (\<exists>i \<ge> start. standalone_at data needle i)"
proof (induction "Suc (length data) - start" arbitrary: start rule: less_induct)
  case less
  show ?case
  proof (cases "start \<le> length data")
    case False
    then show ?thesis
      by (subst word_loop.simps) (auto simp: standalone_at_def dest: occurs_at_imp_le)
  next
    case le: True
    show ?thesis
    proof (cases "search needle (drop start data)")
      case None
      have "\<not> standalone_at data needle i" if "i \<ge> start" for i
        using absent[OF None, of "i - start"] that le by (simp add: occurs_at_drop standalone_at_def)
      then show ?thesis using le None by (subst word_loop.simps) auto
    next
      case (Some pos)
      let ?i = "start + pos"
      from found[OF Some] have occ: "occurs_at needle data ?i" using le by (simp add: occurs_at_drop)
      have unfold: "word_loop search data needle start \<longleftrightarrow>
          is_word_boundary data ?i (length needle) \<or> word_loop search data needle (?i + 1)"
        using le Some by (subst word_loop.simps) simp
      have IH: "word_loop search data needle (?i + 1) \<longleftrightarrow> (\<exists>i \<ge> ?i + 1. standalone_at data needle i)"
        using le by (intro less) linarith
      have "i = ?i \<or> ?i + 1 \<le> i" if "start \<le> i" "standalone_at data needle i" for i
        using next_candidate[OF le Some that] by auto
      moreover have "start \<le> i" if "i = ?i \<or> ?i + 1 \<le> i" for i
        using that by auto
      ultimately have "(\<exists>i \<ge> start. standalone_at data needle i) \<longleftrightarrow>
          standalone_at data needle ?i \<or> (\<exists>i \<ge> ?i + 1. standalone_at data needle i)"
        by blast
      then show ?thesis unfolding unfold IH boundary_standalone[OF occ] by simp
    qed
  qed
qed

lemma data_contains_word_iff:
  "data_contains_word search data word \<longleftrightarrow> word \<noteq> [] \<and> (\<exists>i. standalone_at data word i)"
  by (simp add: data_contains_word_def word_loop_iff)

end

text \<open>The substring search of the standard library, as the prelude models it, keeps the
  contract, so the contract can be met.\<close>

interpretation std_find: leftmost_search find_sub
  by unfold_locales (use find_sub_Some find_sub_None in blast)+

section \<open>Correctness of the filter\<close>

text \<open>
  C1: for any leftmost substring search, the scan answers true exactly when the
  word is not empty and occurs somewhere with no word character next to it; occurrences
  inside longer identifiers neither count nor hide a later standalone one.
\<close>

theorem data_contains_word_spec:
  assumes "leftmost_search search"
  shows "data_contains_word search data word \<longleftrightarrow>
    word \<noteq> [] \<and> (\<exists>i. standalone_at data word i)"
  using assms by (rule leftmost_search.data_contains_word_iff)

theorem data_contains_word_spec_witness:
  "data_contains_word find_sub ''foobar foo'' ''foo''"
proof -
  have "standalone_at ''foobar foo'' ''foo'' 7" by code_simp
  with data_contains_word_spec[OF std_find.leftmost_search_axioms] show ?thesis by blast
qed

text \<open>Metadata, reads and maps agree on a file's bytes.\<close>

definition stable_fs :: "file_sys \<Rightarrow> bool" where
  "stable_fs fsys \<longleftrightarrow>
     (\<forall>p d. read_file fsys p = Inr d \<longrightarrow> metadata_len fsys p = Inr (length d)) \<and>
     (\<forall>p. metadata_len fsys p \<noteq> Inr 0 \<longrightarrow> mmap_file fsys p = read_file fsys p)"

lemma filter_files_standalone:
  assumes "leftmost_search search" and "stable_fs fsys"
  shows "filter_files search fsys files root word =
    filter (\<lambda>f. \<exists>d i. read_file fsys (path_join root f) = Inr d \<and> word \<noteq> [] \<and>
      standalone_at d word i) files"
proof -
  have no_bytes: "\<not> standalone_at [] word i" if "word \<noteq> []" for i
    using that by (simp add: standalone_at_def)
  have "(case file_contains_word search fsys p word of Inr b \<Rightarrow> b | Inl _ \<Rightarrow> False) \<longleftrightarrow>
      (\<exists>d i. read_file fsys p = Inr d \<and> word \<noteq> [] \<and> standalone_at d word i)" for p
  proof (cases "read_file fsys p")
    case (Inl e)
    with assms(2) show ?thesis
      by (auto simp: file_contains_word_def stable_fs_def split: sum.splits)
  next
    case (Inr d)
    with assms(2) have "metadata_len fsys p = Inr (length d)"
      and "d \<noteq> [] \<longrightarrow> mmap_file fsys p = Inr d" by (auto simp: stable_fs_def)
    with Inr show ?thesis
      using no_bytes by (auto simp: file_contains_word_def leftmost_search.data_contains_word_iff[OF assms(1)])
  qed
  then show ?thesis by (simp add: filter_files_def)
qed

text \<open>
  On a file system that does not change meanwhile, the filter keeps, in order,
  exactly the readable files with a standalone occurrence of the word, whether they are read
  or mapped; unreadable files are dropped without an error.
\<close>

theorem filter_files_spec:
  assumes "leftmost_search search" and "stable_fs fsys"
  shows "filter_files search fsys files root word =
    filter (\<lambda>f. \<exists>d i. read_file fsys (path_join root f) = Inr d \<and> word \<noteq> [] \<and>
      standalone_at d word i) files"
  using assms by (rule filter_files_standalone)

definition fs_of :: "(path \<Rightarrow> io_error + string) \<Rightarrow> file_sys" where
  "fs_of content = \<lparr>metadata_len = (\<lambda>p. map_sum id length (content p)),
     read_file = content, mmap_file = content\<rparr>"

lemma stable_fs_of [simp]: "stable_fs (fs_of content)"
  by (auto simp: stable_fs_def fs_of_def)

definition two_files :: file_sys where
  "two_files = fs_of (\<lambda>p. if p = [RootDir, Normal ''a''] then Inr ''foo()''
     else if p = [RootDir, Normal ''b''] then Inr ''foobar'' else Inl NotFound)"

theorem filter_files_spec_witness:
  "filter_files find_sub two_files [[Normal ''a''], [Normal ''b''], [Normal ''c'']] [RootDir] ''foo'' =
    [[Normal ''a'']]"
proof -
  have st: "stable_fs two_files"
    by (simp add: two_files_def)
  have "data_contains_word find_sub ''foo()'' ''foo''" by code_simp
  then have a: "\<exists>i. standalone_at ''foo()'' ''foo'' i"
    using std_find.data_contains_word_iff[of "''foo()''" "''foo''"]
    by blast
  have "\<not> data_contains_word find_sub ''foobar'' ''foo''" by code_simp
  then have b: "\<not> standalone_at ''foobar'' ''foo'' i" for i
    using std_find.data_contains_word_iff[of "''foobar''" "''foo''"]
    by blast
  have "read_file two_files (path_join [RootDir] [Normal ''a'']) = Inr ''foo()''"
    and "read_file two_files (path_join [RootDir] [Normal ''b'']) = Inr ''foobar''"
    and "read_file two_files (path_join [RootDir] [Normal ''c'']) = Inl NotFound"
    by code_simp+
  with a b show ?thesis
    unfolding filter_files_spec[OF std_find.leftmost_search_axioms st] by auto
qed

end
