(* ===== verification/Syntax_Tree.thy ===== *)
theory Syntax_Tree
  imports Core_Types
begin

text \<open>
  Parse trees as the code reads them through the tree-sitter API (\<open>kind\<close>, \<open>child\<close>,
  \<open>child_by_field_name\<close>, \<open>start_position\<close>, \<open>end_position\<close>, \<open>utf8_text\<close>), and the result of
  scanning one file (\<open>FileSymbols\<close> of \<open>scanner.rs\<close>). A tree is data that the parser
  hands to the code; nothing here parses. The field name a node has in its parent is kept in
  the node.
\<close>

datatype node = Node
  (node_kind: string) (node_field: "string option")
  (node_is_named: bool) (node_is_error: bool) (node_is_missing: bool)
  (start_row: nat) (start_column: nat) (end_row: nat) (end_column: nat)
  (start_byte: nat) (end_byte: nat)
  (node_children: "node list")

definition child_by_field_name :: "node \<Rightarrow> string \<Rightarrow> node option" where
  "child_by_field_name n f = List.find (\<lambda>c. node_field c = Some f) (node_children n)"

text \<open>\<open>utf8_text\<close> slices the source at the node's bytes and checks the encoding.\<close>

definition node_text :: "node \<Rightarrow> string \<Rightarrow> string option" where
  "node_text n source =
     (let t = take (end_byte n - start_byte n) (drop (start_byte n) source) in
      if utf8_valid t then Some t else None)"

record file_symbols =
  fs_file :: path
  fs_symbols :: "symbol list"
  fs_source :: string
  fs_tree :: node

text \<open>The nodes of a tree, parents first.\<close>

fun subtrees :: "node \<Rightarrow> node list" where
  "subtrees (Node k f nm er mi r c re ce sb eb ch) =
     Node k f nm er mi r c re ce sb eb ch # concat (map subtrees ch)"

lemma subtrees_self [simp]: "n \<in> set (subtrees n)"
  by (cases n) simp

lemma subtrees_child: "c \<in> set (node_children n) \<Longrightarrow> set (subtrees c) \<subseteq> set (subtrees n)"
  by (cases n) auto

lemma child_by_field_name_child:
  "child_by_field_name n f = Some c \<Longrightarrow> c \<in> set (node_children n)"
  by (auto simp: child_by_field_name_def find_Some_iff)

lemma child_by_field_name_subtree:
  "child_by_field_name n f = Some c \<Longrightarrow> c \<in> set (subtrees n)"
  using child_by_field_name_child subtrees_child subtrees_self by blast

lemma subtrees_trans:
  "m \<in> set (subtrees a) \<Longrightarrow> a \<in> set (subtrees n) \<Longrightarrow> m \<in> set (subtrees n)"
proof (induction n arbitrary: a)
  case (Node k f nm er mi r c re ce sb eb ch)
  then show ?case by auto
qed

end
