(* ===== verification/Symbol_Index.thy ===== *)
theory Symbol_Index
  imports Syntax_Tree
begin

text \<open>
  \<open>index.rs\<close> of codequery-index: the flat symbol vector with its three secondary hash
  maps from a key (name, file, kind) to positions, and the lookups through them. The hash
  maps share one contract, the locale \<open>secondary_index\<close>.
\<close>

section \<open>The model\<close>

text \<open>\<open>map.entry(k).or_default().push(i)\<close>, and reading the vector at a key.\<close>

definition push_entry :: "('k \<rightharpoonup> nat list) \<Rightarrow> 'k \<Rightarrow> nat \<Rightarrow> ('k \<rightharpoonup> nat list)" where
  "push_entry m k i = m(k \<mapsto> (case m k of None \<Rightarrow> [] | Some is \<Rightarrow> is) @ [i])"

definition entry_indices :: "('k \<rightharpoonup> nat list) \<Rightarrow> 'k \<Rightarrow> nat list" where
  "entry_indices m k = (case m k of None \<Rightarrow> [] | Some is \<Rightarrow> is)"

record symbol_index =
  symbols :: "symbol list"
  by_name :: "string \<rightharpoonup> nat list"
  by_file :: "path \<rightharpoonup> nat list"
  by_kind :: "symbol_kind \<rightharpoonup> nat list"

definition add_symbol :: "symbol \<Rightarrow> symbol_index \<Rightarrow> symbol_index" where
  "add_symbol s ix =
     (let idx = length (symbols ix) in
      \<lparr>symbols = symbols ix @ [s],
       by_name = push_entry (by_name ix) (sym_name s) idx,
       by_file = push_entry (by_file ix) (sym_file s) idx,
       by_kind = push_entry (by_kind ix) (sym_kind s) idx\<rparr>)"

fun collect_symbols :: "symbol list \<Rightarrow> symbol_index \<Rightarrow> symbol_index" where
  "collect_symbols [] ix = ix"
| "collect_symbols (Symbol n k f l c e v ch d b s # rest) ix =
     (let ix1 = add_symbol (Symbol n k f l c e v ch d b s) ix;
          ix2 = (if ch \<noteq> [] then collect_symbols ch ix1 else ix1)
      in collect_symbols rest ix2)"

definition empty_index :: symbol_index where
  "empty_index = \<lparr>symbols = [], by_name = Map.empty, by_file = Map.empty, by_kind = Map.empty\<rparr>"

definition from_scan :: "file_symbols list \<Rightarrow> symbol_index" where
  "from_scan scan = fold (\<lambda>fs ix. collect_symbols (fs_symbols fs) ix) scan empty_index"

definition find_by_name :: "symbol_index \<Rightarrow> string \<Rightarrow> symbol list" where
  "find_by_name ix name =
     (case by_name ix name of None \<Rightarrow> [] | Some is \<Rightarrow> map (\<lambda>i. symbols ix ! i) is)"

definition find_by_kind :: "symbol_index \<Rightarrow> symbol_kind \<Rightarrow> symbol list" where
  "find_by_kind ix kind =
     (case by_kind ix kind of None \<Rightarrow> [] | Some is \<Rightarrow> map (\<lambda>i. symbols ix ! i) is)"

definition symbols_in_file :: "symbol_index \<Rightarrow> path \<Rightarrow> symbol list" where
  "symbols_in_file ix file =
     (case by_file ix file of None \<Rightarrow> [] | Some is \<Rightarrow> map (\<lambda>i. symbols ix ! i) is)"

definition all_symbols :: "symbol_index \<Rightarrow> symbol list" where
  "all_symbols ix = symbols ix"

section \<open>The contract of a secondary index\<close>

locale secondary_index =
  fixes new :: 'm
    and push :: "'m \<Rightarrow> 'k \<Rightarrow> nat \<Rightarrow> 'm"
    and look :: "'m \<Rightarrow> 'k \<Rightarrow> nat list"
  assumes look_new: "look new k = []"
    and look_push: "look (push m k i) k' = look m k' @ (if k' = k then [i] else [])"
begin

definition covers :: "('v \<Rightarrow> 'k) \<Rightarrow> 'm \<Rightarrow> 'v list \<Rightarrow> bool" where
  "covers key m xs \<longleftrightarrow>
     (\<forall>k. look m k = filter (\<lambda>i. key (xs ! i) = k) [0..<length xs])"

lemma covers_new [simp]: "covers key new []"
  by (simp add: covers_def look_new)

lemma covers_push:
  assumes "covers key m xs"
  shows "covers key (push m (key x) (length xs)) (xs @ [x])"
proof -
  have "filter (\<lambda>i. key ((xs @ [x]) ! i) = k) [0..<length xs] =
      filter (\<lambda>i. key (xs ! i) = k) [0..<length xs]" for k
    by (rule filter_cong) (auto simp: nth_append)
  with assms show ?thesis by (simp add: covers_def look_push)
qed

lemma covers_lookup:
  assumes "covers key m xs"
  shows "map (\<lambda>i. xs ! i) (look m k) = filter (\<lambda>x. key x = k) xs"
proof -
  have "filter (\<lambda>x. key x = k) xs = filter (\<lambda>x. key x = k) (map (\<lambda>i. xs ! i) [0..<length xs])"
    by (simp add: map_nth)
  also have "\<dots> = map (\<lambda>i. xs ! i) (filter (\<lambda>i. key (xs ! i) = k) [0..<length xs])"
    by (simp add: filter_map o_def)
  finally show ?thesis using assms by (simp add: covers_def)
qed

lemma covers_in_range:
  "covers key m xs \<Longrightarrow> i \<in> set (look m k) \<Longrightarrow> i < length xs"
  by (auto simp: covers_def)

end

interpretation hash_index: secondary_index Map.empty push_entry entry_indices
  by unfold_locales (auto simp: push_entry_def entry_indices_def)

section \<open>The index covers the scan\<close>

text \<open>Symbols in the order the index flattens them: each before its children.\<close>

fun preorder :: "symbol list \<Rightarrow> symbol list" where
  "preorder [] = []"
| "preorder (Symbol n k f l c e v ch d b s # rest) =
     Symbol n k f l c e v ch d b s # preorder ch @ preorder rest"

definition index_ok :: "symbol_index \<Rightarrow> bool" where
  "index_ok ix \<longleftrightarrow>
     hash_index.covers sym_name (by_name ix) (symbols ix) \<and>
     hash_index.covers sym_file (by_file ix) (symbols ix) \<and>
     hash_index.covers sym_kind (by_kind ix) (symbols ix)"

lemma index_ok_empty: "index_ok empty_index"
  by (simp add: index_ok_def empty_index_def)

lemma index_ok_add: "index_ok ix \<Longrightarrow> index_ok (add_symbol s ix)"
  by (simp add: index_ok_def add_symbol_def Let_def hash_index.covers_push)

lemma collect_symbols_ok: "index_ok ix \<Longrightarrow> index_ok (collect_symbols syms ix)"
  by (induction syms ix rule: collect_symbols.induct) (simp_all add: Let_def index_ok_add)

lemma collect_symbols_symbols: "symbols (collect_symbols syms ix) = symbols ix @ preorder syms"
  by (induction syms ix rule: collect_symbols.induct) (simp_all add: Let_def add_symbol_def)

lemma preorder_append [simp]: "preorder (xs @ ys) = preorder xs @ preorder ys"
  by (induction xs rule: preorder.induct) simp_all

lemma preorder_concat: "preorder (concat xss) = concat (map preorder xss)"
  by (induction xss) simp_all

lemma from_scan_fold:
  "index_ok ix \<Longrightarrow>
    index_ok (fold (\<lambda>fs ix. collect_symbols (fs_symbols fs) ix) scan ix) \<and>
    symbols (fold (\<lambda>fs ix. collect_symbols (fs_symbols fs) ix) scan ix) =
      symbols ix @ preorder (concat (map fs_symbols scan))"
  by (induction scan arbitrary: ix) (simp_all add: collect_symbols_ok collect_symbols_symbols)

lemma from_scan_ok: "index_ok (from_scan scan)"
  unfolding from_scan_def using from_scan_fold[OF index_ok_empty] by blast

lemma from_scan_symbols:
  "symbols (from_scan scan) = preorder (concat (map fs_symbols scan))"
  unfolding from_scan_def using from_scan_fold[OF index_ok_empty, of scan]
  by (simp add: empty_index_def)

lemma indices_option:
  "(case m k of None \<Rightarrow> [] | Some is \<Rightarrow> map g is) = map g (entry_indices m k)"
  by (simp add: entry_indices_def split: option.splits)

lemma find_by_name_index:
  "index_ok ix \<Longrightarrow> find_by_name ix name = filter (\<lambda>s. sym_name s = name) (symbols ix)"
  by (simp add: find_by_name_def indices_option hash_index.covers_lookup index_ok_def)

lemma find_by_kind_index:
  "index_ok ix \<Longrightarrow> find_by_kind ix kind = filter (\<lambda>s. sym_kind s = kind) (symbols ix)"
  by (simp add: find_by_kind_def indices_option hash_index.covers_lookup index_ok_def)

lemma symbols_in_file_index:
  "index_ok ix \<Longrightarrow> symbols_in_file ix file = filter (\<lambda>s. sym_file s = file) (symbols ix)"
  by (simp add: symbols_in_file_def indices_option hash_index.covers_lookup index_ok_def)

text \<open>
  C4: the three lookups through the hash maps return exactly what a linear search of
  all scanned symbols (children included, in scan order) returns.
\<close>

theorem index_lookups:
  "find_by_name (from_scan scan) name =
     filter (\<lambda>s. sym_name s = name) (preorder (concat (map fs_symbols scan))) \<and>
   find_by_kind (from_scan scan) kind =
     filter (\<lambda>s. sym_kind s = kind) (preorder (concat (map fs_symbols scan))) \<and>
   symbols_in_file (from_scan scan) file =
     filter (\<lambda>s. sym_file s = file) (preorder (concat (map fs_symbols scan)))"
  using from_scan_ok[of scan]
  by (simp add: find_by_name_index find_by_kind_index symbols_in_file_index from_scan_symbols)

text \<open>
  Every position stored in one of the hash maps is a position of the symbol
  vector, so the indexing in the lookups cannot panic.
\<close>

theorem index_in_range:
  assumes "by_name (from_scan scan) name = Some is" and "i \<in> set is"
  shows "i < length (all_symbols (from_scan scan)) \<and>
    sym_name (all_symbols (from_scan scan) ! i) = name"
proof -
  have "entry_indices (by_name (from_scan scan)) name = is"
    using assms(1) by (simp add: entry_indices_def)
  with from_scan_ok[of scan] assms(2) show ?thesis
    by (auto simp: index_ok_def hash_index.covers_def all_symbols_def)
qed

definition sample_symbol :: "string \<Rightarrow> symbol list \<Rightarrow> symbol" where
  "sample_symbol n ch = Symbol n Function [Normal ''a.rs''] 1 0 3 Public ch None None None"

definition sample_scan :: "file_symbols list" where
  "sample_scan =
     [\<lparr>fs_file = [Normal ''a.rs''], fs_symbols = [sample_symbol ''f'' [sample_symbol ''g'' []]],
       fs_source = [], fs_tree = Node ''source_file'' None True False False 0 0 0 0 0 0 []\<rparr>]"

theorem index_in_range_witness:
  "1 < length (all_symbols (from_scan sample_scan))"
proof -
  have "by_name (from_scan sample_scan) ''g'' = Some [1]" by code_simp
  from index_in_range[OF this, of 1] show ?thesis by simp
qed

end
