(* ===== verification/Cache.thy ===== *)
theory Cache
  imports Project Syntax_Tree
begin

text \<open>
  \<open>cache.rs\<close> of codequery-index: the serialisable mirror of symbols, the cache store of one
  project (load, store, clear, validity) and the choice of its directory. bincode, SHA-256
  and the file system's answers are arguments; the disk is a state that \<open>store\<close> and
  \<open>clear\<close> return updated.
\<close>

section \<open>Cached symbols and files\<close>

datatype cached_symbol = CachedSymbol
  (cs_name: string) (cs_kind: symbol_kind) (cs_file: path)
  (cs_line: nat) (cs_column: nat) (cs_end_line: nat) (cs_visibility: visibility)
  (cs_children: "cached_symbol list")
  (cs_doc: "string option") (cs_body: "string option") (cs_signature: "string option")

fun to_cached :: "symbol \<Rightarrow> cached_symbol" where
  "to_cached (Symbol n k f l c e v ch d b s) =
     CachedSymbol n k f l c e v (map to_cached ch) d b s"

fun from_cached :: "cached_symbol \<Rightarrow> symbol" where
  "from_cached (CachedSymbol n k f l c e v ch d b s) =
     Symbol n k f l c e v (map from_cached ch) d b s"

record cached_file =
  cf_path :: path
  cf_mtime :: nat
  cf_size :: nat
  cf_symbols :: "symbol list"

record cached_file_data =
  cfd_path :: path
  cfd_mtime :: nat
  cfd_size :: nat
  cfd_symbols :: "cached_symbol list"

definition to_file_data :: "cached_file \<Rightarrow> cached_file_data" where
  "to_file_data f =
     \<lparr>cfd_path = cf_path f, cfd_mtime = cf_mtime f, cfd_size = cf_size f,
      cfd_symbols = map to_cached (cf_symbols f)\<rparr>"

definition from_file_data :: "cached_file_data \<Rightarrow> cached_file" where
  "from_file_data f =
     \<lparr>cf_path = cfd_path f, cf_mtime = cfd_mtime f, cf_size = cfd_size f,
      cf_symbols = map from_cached (cfd_symbols f)\<rparr>"

record cache_manifest =
  manifest_version :: nat
  manifest_files :: "cached_file_data list"

definition CACHE_VERSION :: nat where
  "CACHE_VERSION = 1"

datatype cache_error = CacheNotFound | Corrupt string | CacheIo io_error | Stale

fun io_error_display :: "io_error \<Rightarrow> string" where
  "io_error_display NotFound = ''entity not found''"
| "io_error_display WouldBlock = ''operation would block''"
| "io_error_display UnexpectedEof = ''unexpected end of file''"
| "io_error_display InvalidData = ''invalid data''"
| "io_error_display (OtherIo m) = m"

fun cache_error_display :: "cache_error \<Rightarrow> string" where
  "cache_error_display CacheNotFound = ''cache not found''"
| "cache_error_display (Corrupt msg) = ''corrupt cache: '' @ msg"
| "cache_error_display (CacheIo e) = ''cache I/O error: '' @ io_error_display e"
| "cache_error_display Stale = ''cache is stale''"

lemma from_to_cached [simp]: "from_cached (to_cached s) = s"
  by (induction s rule: to_cached.induct) (simp add: map_idI)

lemma from_to_file_data [simp]: "from_file_data (to_file_data f) = f"
  by (simp add: from_file_data_def to_file_data_def map_idI)

section \<open>The cache directory and key\<close>

definition resolve_cache_dir :: "env \<Rightarrow> path option \<Rightarrow> path option" where
  "resolve_cache_dir env home =
     (case env ''CQ_CACHE_DIR'' of
        Some dir \<Rightarrow>
          if dir \<noteq> [] then Some (path_of_string dir)
          else (case env ''XDG_CACHE_HOME'' of
                  Some xdg \<Rightarrow>
                    if xdg \<noteq> [] then Some (path_join (path_of_string xdg) [Normal ''cq''])
                    else map_option (\<lambda>h. path_join h [Normal ''.cache'', Normal ''cq'']) home
                | None \<Rightarrow> map_option (\<lambda>h. path_join h [Normal ''.cache'', Normal ''cq'']) home)
      | None \<Rightarrow>
          (case env ''XDG_CACHE_HOME'' of
             Some xdg \<Rightarrow>
               if xdg \<noteq> [] then Some (path_join (path_of_string xdg) [Normal ''cq''])
               else map_option (\<lambda>h. path_join h [Normal ''.cache'', Normal ''cq'']) home
           | None \<Rightarrow> map_option (\<lambda>h. path_join h [Normal ''.cache'', Normal ''cq'']) home))"

text \<open>\<open>sha256\<close> gives the lower-case hex digest. Paths are taken to be Unicode, where
  \<open>to_string_lossy\<close> changes nothing.\<close>

definition cache_key :: "(path \<Rightarrow> string + path) \<Rightarrow> (string \<Rightarrow> string) \<Rightarrow> path \<Rightarrow> string" where
  "cache_key canonicalize sha256 project_root =
     (let canonical = (case canonicalize project_root of Inr c \<Rightarrow> c | Inl _ \<Rightarrow> project_root)
      in take 16 (sha256 (path_display canonical)))"

definition cache_store_new ::
  "env \<Rightarrow> path option \<Rightarrow> (path \<Rightarrow> string + path) \<Rightarrow> (string \<Rightarrow> string) \<Rightarrow> path \<Rightarrow> path option" where
  "cache_store_new env home canonicalize sha256 project_root =
     map_option
       (\<lambda>dir. path_join dir [Normal (cache_key canonicalize sha256 project_root @ ''.bin'')])
       (resolve_cache_dir env home)"

section \<open>The disk\<close>

text \<open>File contents, and the faults the file system answers with: a failed read, a failed
  create (the directory or the file), a write that stops after some bytes, a failed removal.\<close>

record disk =
  disk_files :: "path \<rightharpoonup> string"
  read_fault :: "path \<Rightarrow> io_error option"
  create_fault :: "path \<Rightarrow> io_error option"
  write_fault :: "path \<Rightarrow> (nat \<times> io_error) option"
  remove_fault :: "path \<Rightarrow> io_error option"

definition disk_read :: "disk \<Rightarrow> path \<Rightarrow> io_error + string" where
  "disk_read d p =
     (case read_fault d p of
        Some e \<Rightarrow> Inl e
      | None \<Rightarrow> (case disk_files d p of None \<Rightarrow> Inl NotFound | Some b \<Rightarrow> Inr b))"

text \<open>A write or a removal answers with its error, if it fails.\<close>

definition disk_write :: "disk \<Rightarrow> path \<Rightarrow> string \<Rightarrow> io_error option \<times> disk" where
  "disk_write d p data =
     (case create_fault d p of
        Some e \<Rightarrow> (Some e, d)
      | None \<Rightarrow>
          (case write_fault d p of
             Some (n, e) \<Rightarrow> (Some e, d\<lparr>disk_files := (disk_files d)(p \<mapsto> take n data)\<rparr>)
           | None \<Rightarrow> (None, d\<lparr>disk_files := (disk_files d)(p \<mapsto> data)\<rparr>)))"

definition disk_remove :: "disk \<Rightarrow> path \<Rightarrow> io_error option \<times> disk" where
  "disk_remove d p =
     (case disk_files d p of
        None \<Rightarrow> (Some NotFound, d)
      | Some _ \<Rightarrow>
          (case remove_fault d p of
             Some e \<Rightarrow> (Some e, d)
           | None \<Rightarrow> (None, d\<lparr>disk_files := (disk_files d)(p := None)\<rparr>)))"

section \<open>Load, store, clear, validity\<close>

definition cache_load ::
  "(string \<Rightarrow> string + cache_manifest) \<Rightarrow> disk \<Rightarrow> path \<Rightarrow> cache_error + cached_file list" where
  "cache_load deserialize d cache_path =
     (case disk_read d cache_path of
        Inl e \<Rightarrow> if e = NotFound then Inl CacheNotFound else Inl (CacheIo e)
      | Inr data \<Rightarrow>
          (case deserialize data of
             Inl e \<Rightarrow> Inl (Corrupt e)
           | Inr manifest \<Rightarrow>
               if manifest_version manifest \<noteq> CACHE_VERSION then
                 Inl (Corrupt (''version mismatch: expected '' @ dec CACHE_VERSION @ '', got ''
                        @ dec (manifest_version manifest)))
               else Inr (map from_file_data (manifest_files manifest))))"

definition cache_store ::
  "(cache_manifest \<Rightarrow> string + string) \<Rightarrow> disk \<Rightarrow> path \<Rightarrow> cached_file list
    \<Rightarrow> cache_error option \<times> disk" where
  "cache_store serialize d cache_path fs =
     (let manifest = \<lparr>manifest_version = CACHE_VERSION, manifest_files = map to_file_data fs\<rparr> in
      (case serialize manifest of
         Inl e \<Rightarrow> (Some (Corrupt (''serialization failed: '' @ e)), d)
       | Inr data \<Rightarrow>
           (case disk_write d cache_path data of
              (Some e, d') \<Rightarrow> (Some (CacheIo e), d')
            | (None, d') \<Rightarrow> (None, d'))))"

definition cache_clear :: "disk \<Rightarrow> path \<Rightarrow> (cache_error + bool) \<times> disk" where
  "cache_clear d cache_path =
     (case disk_remove d cache_path of
        (None, d') \<Rightarrow> (Inr True, d')
      | (Some e, d') \<Rightarrow> if e = NotFound then (Inr False, d') else (Inl (CacheIo e), d'))"

text \<open>\<open>fs::metadata\<close>: nothing when it fails, else the modification time in nanoseconds
  since the epoch, where the platform has one, and the length.\<close>

type_synonym metadata = "path \<Rightarrow> (int option \<times> nat) option"

definition file_metadata :: "metadata \<Rightarrow> path \<Rightarrow> (nat \<times> nat) option" where
  "file_metadata meta p =
     (case meta p of
        None \<Rightarrow> None
      | Some (modified, len) \<Rightarrow>
          (case modified of
             None \<Rightarrow> None
           | Some t \<Rightarrow> if t < 0 then None else Some (nat (t div 1000000000), len)))"

fun cache_is_valid :: "metadata \<Rightarrow> cached_file list \<Rightarrow> path \<Rightarrow> bool" where
  "cache_is_valid meta [] project_root = True"
| "cache_is_valid meta (entry # rest) project_root =
     (case file_metadata meta (path_join project_root (cf_path entry)) of
        Some (mtime, len) \<Rightarrow>
          if mtime \<noteq> cf_mtime entry \<or> len \<noteq> cf_size entry then False
          else cache_is_valid meta rest project_root
      | None \<Rightarrow> False)"

section \<open>Correctness of the store\<close>

lemma cache_is_valid_iff:
  "cache_is_valid meta fs root \<longleftrightarrow>
    (\<forall>f \<in> set fs. file_metadata meta (path_join root (cf_path f)) = Some (cf_mtime f, cf_size f))"
  by (induction fs) (auto split: option.splits)

lemma cache_store_ok:
  assumes "cache_store serialize d p fs = (None, d')"
  shows "\<exists>data. serialize \<lparr>manifest_version = CACHE_VERSION, manifest_files = map to_file_data fs\<rparr> = Inr data \<and>
    d' = d\<lparr>disk_files := (disk_files d)(p \<mapsto> data)\<rparr>"
proof (cases "serialize \<lparr>manifest_version = CACHE_VERSION, manifest_files = map to_file_data fs\<rparr>")
  case (Inl e)
  with assms show ?thesis by (simp add: cache_store_def)
next
  case (Inr data)
  with assms show ?thesis
    by (cases "create_fault d p"; cases "write_fault d p")
      (auto simp: cache_store_def disk_write_def)
qed

text \<open>
  A successful store followed by a load returns the stored entries unchanged,
  whatever the serialisation format, as long as it decodes what it encoded.
\<close>

theorem cache_round_trip:
  assumes "\<And>m data. serialize m = Inr data \<Longrightarrow> deserialize data = Inr m"
    and "read_fault d p = None" and "cache_store serialize d p fs = (None, d')"
  shows "cache_load deserialize d' p = Inr fs"
  using cache_store_ok[OF assms(3)] assms(1,2)
  by (auto simp: cache_load_def disk_read_def map_idI)

definition plain_disk :: disk where
  "plain_disk = \<lparr>disk_files = Map.empty, read_fault = (\<lambda>_. None), create_fault = (\<lambda>_. None),
     write_fault = (\<lambda>_. None), remove_fault = (\<lambda>_. None)\<rparr>"

text \<open>A codec that knows one manifest, to instantiate the law at a concrete store.\<close>

definition toy_entry :: cached_file where
  "toy_entry = \<lparr>cf_path = [Normal ''a.rs''], cf_mtime = 7, cf_size = 3, cf_symbols = []\<rparr>"

definition toy_manifest :: cache_manifest where
  "toy_manifest = \<lparr>manifest_version = CACHE_VERSION, manifest_files = [to_file_data toy_entry]\<rparr>"

definition toy_serialize :: "cache_manifest \<Rightarrow> string + string" where
  "toy_serialize m = (if m = toy_manifest then Inr ''e'' else Inl ''unsupported'')"

definition toy_deserialize :: "string \<Rightarrow> string + cache_manifest" where
  "toy_deserialize s = (if s = ''e'' then Inr toy_manifest else Inl ''bad'')"

lemma toy_codec: "toy_serialize m = Inr data \<Longrightarrow> toy_deserialize data = Inr m"
  by (auto simp: toy_serialize_def toy_deserialize_def split: if_splits)

theorem cache_round_trip_witness:
  "cache_load toy_deserialize (snd (cache_store toy_serialize plain_disk [Normal ''c.bin''] [toy_entry]))
     [Normal ''c.bin''] = Inr [toy_entry]"
proof (rule cache_round_trip[where serialize = toy_serialize and d = plain_disk])
  show "cache_store toy_serialize plain_disk [Normal ''c.bin''] [toy_entry] =
      (None, snd (cache_store toy_serialize plain_disk [Normal ''c.bin''] [toy_entry]))"
    by (simp add: plain_disk_def cache_store_def disk_write_def toy_serialize_def toy_manifest_def)
qed (simp_all add: toy_codec plain_disk_def)

text \<open>
  After a clear that reports success, a load finds no cache; other files are
  untouched.
\<close>

theorem cache_clear_spec:
  assumes "cache_clear d p = (Inr removed, d')" and "read_fault d p = None"
    and "remove_fault d p \<noteq> Some NotFound"
  shows "cache_load deserialize d' p = Inl CacheNotFound \<and> (removed \<longleftrightarrow> disk_files d p \<noteq> None) \<and>
    (\<forall>q. q \<noteq> p \<longrightarrow> disk_files d' q = disk_files d q)"
proof (cases "disk_files d p")
  case None
  with assms show ?thesis
    by (auto simp: cache_clear_def disk_remove_def cache_load_def disk_read_def)
next
  case (Some b)
  with assms show ?thesis
    by (cases "remove_fault d p")
      (auto simp: cache_clear_def disk_remove_def cache_load_def disk_read_def split: if_splits)
qed

theorem cache_clear_spec_witness:
  "cache_load toy_deserialize plain_disk [Normal ''c''] = Inl CacheNotFound"
proof -
  let ?d = "plain_disk\<lparr>disk_files := [[Normal ''c''] \<mapsto> ''x'']\<rparr>"
  have "cache_clear ?d [Normal ''c''] = (Inr True, plain_disk)"
    by (simp add: cache_clear_def disk_remove_def plain_disk_def)
  from cache_clear_spec[OF this, of toy_deserialize] show ?thesis
    by (simp add: plain_disk_def)
qed

text \<open>
  The cache module and \<open>dirs.rs\<close> choose the same cache directory unless an
  environment variable is set to the empty string, which only the cache module skips.
\<close>

theorem cache_dirs_agree:
  assumes "env ''CQ_CACHE_DIR'' \<noteq> Some []" and "env ''XDG_CACHE_HOME'' \<noteq> Some []"
  shows "resolve_cache_dir env home = cache_dir env home"
proof (cases "env ''CQ_CACHE_DIR''")
  case None
  with assms(2) show ?thesis
    by (cases "env ''XDG_CACHE_HOME''") (auto simp: resolve_cache_dir_def cache_dir_def)
next
  case (Some dir)
  with assms(1) show ?thesis by (simp add: resolve_cache_dir_def cache_dir_def)
qed

theorem cache_dirs_agree_witness:
  "resolve_cache_dir [''XDG_CACHE_HOME'' \<mapsto> ''/c''] None =
   cache_dir [''XDG_CACHE_HOME'' \<mapsto> ''/c''] None"
  by (rule cache_dirs_agree) auto

end
