(* ===== verification/Languages.thy ===== *)
theory Languages
  imports Core_Types
begin

text \<open>
  \<open>discovery.rs\<close> of codequery-core: the \<open>Language\<close> enum and its names, the extension
  map built from the language registry, language detection with overrides, and file
  discovery. The parsed registry, the directory walker of the \<open>ignore\<close> crate and the
  matcher of the \<open>glob\<close> crate are arguments.
\<close>

section \<open>Languages and their names\<close>

datatype (plugins only: code size) language =
    Rust | TypeScript | JavaScript | Python | Go | C | Cpp | Java
  | Ruby | Php | CSharp | Swift | Kotlin | Scala | Zig | Lua | Bash
  | Html | Css | Json | Yaml | Toml

primrec language_name :: "language \<Rightarrow> string" where
  "language_name Rust = ''rust''"
| "language_name TypeScript = ''typescript''"
| "language_name JavaScript = ''javascript''"
| "language_name Python = ''python''"
| "language_name Go = ''go''"
| "language_name C = ''c''"
| "language_name Cpp = ''cpp''"
| "language_name Java = ''java''"
| "language_name Ruby = ''ruby''"
| "language_name Php = ''php''"
| "language_name CSharp = ''csharp''"
| "language_name Swift = ''swift''"
| "language_name Kotlin = ''kotlin''"
| "language_name Scala = ''scala''"
| "language_name Zig = ''zig''"
| "language_name Lua = ''lua''"
| "language_name Bash = ''bash''"
| "language_name Html = ''html''"
| "language_name Css = ''css''"
| "language_name Json = ''json''"
| "language_name Yaml = ''yaml''"
| "language_name Toml = ''toml''"

text \<open>The match of \<open>from_name\<close>, arm by arm in the order of the source.\<close>

definition name_arms :: "(string list \<times> language) list" where
  "name_arms =
     [([''rust'', ''rs''], Rust),
      ([''typescript'', ''ts''], TypeScript),
      ([''javascript'', ''js''], JavaScript),
      ([''python'', ''py''], Python),
      ([''go''], Go),
      ([''c''], C),
      ([''cpp'', ''c++'', ''cxx''], Cpp),
      ([''java''], Java),
      ([''ruby'', ''rb''], Ruby),
      ([''php''], Php),
      ([''csharp'', ''c#'', ''cs''], CSharp),
      ([''swift''], Swift),
      ([''kotlin'', ''kt''], Kotlin),
      ([''scala''], Scala),
      ([''zig''], Zig),
      ([''lua''], Lua),
      ([''bash'', ''sh''], Bash),
      ([''html''], Html),
      ([''css''], Css),
      ([''json''], Json),
      ([''yaml'', ''yml''], Yaml),
      ([''toml''], Toml)]"

fun match_arms :: "('k list \<times> 'v) list \<Rightarrow> 'k \<Rightarrow> 'v option" where
  "match_arms [] s = None"
| "match_arms ((pats, v) # arms) s = (if s \<in> set pats then Some v else match_arms arms s)"

definition from_name :: "string \<Rightarrow> language option" where
  "from_name s = match_arms name_arms (to_lowercase s)"

section \<open>The registry\<close>

text \<open>\<open>extension_map\<close> and \<open>wasm_name_for_language\<close> over the parsed registry; a registry
  that does not parse gives the empty map. A later entry overwrites an earlier one, as
  \<open>HashMap::insert\<close> does.\<close>

definition registry_languages :: "json option \<Rightarrow> json list" where
  "registry_languages parsed =
     (case Option.bind (Option.bind parsed (json_get ''languages'')) json_as_array of
        None \<Rightarrow> [] | Some ls \<Rightarrow> ls)"

definition insert_extension :: "string \<Rightarrow> json \<Rightarrow> (string \<rightharpoonup> string) \<Rightarrow> (string \<rightharpoonup> string)" where
  "insert_extension name ext m =
     (case json_as_str ext of
        None \<Rightarrow> m
      | Some e \<Rightarrow> m((case strip_prefix_str ''.'' e of None \<Rightarrow> e | Some k \<Rightarrow> k) \<mapsto> name))"

definition insert_language :: "json \<Rightarrow> (string \<rightharpoonup> string) \<Rightarrow> (string \<rightharpoonup> string)" where
  "insert_language lang m =
     (case Option.bind (json_get ''name'' lang) json_as_str of
        None \<Rightarrow> m
      | Some name \<Rightarrow>
          (case Option.bind (json_get ''extensions'' lang) json_as_array of
             None \<Rightarrow> m
           | Some exts \<Rightarrow> fold (insert_extension name) exts m))"

definition extension_map :: "json option \<Rightarrow> (string \<rightharpoonup> string)" where
  "extension_map parsed = fold insert_language (registry_languages parsed) Map.empty"

text \<open>\<open>rsplit('/').next()\<close> is what follows the last slash.\<close>

definition after_last_slash :: "string \<Rightarrow> string" where
  "after_last_slash s = rev (takeWhile (\<lambda>c. c \<noteq> CHR ''/'') (rev s))"

definition insert_wasm_name :: "json \<Rightarrow> (string \<rightharpoonup> string) \<Rightarrow> (string \<rightharpoonup> string)" where
  "insert_wasm_name lang m =
     (case Option.bind (json_get ''name'' lang) json_as_str of
        None \<Rightarrow> m
      | Some name \<Rightarrow>
          (case Option.bind (json_get ''grammar_repo'' lang) json_as_str of
             None \<Rightarrow> m
           | Some repo \<Rightarrow>
               let repo_name = after_last_slash repo;
                   suffix = (case strip_prefix_str ''tree-sitter-'' repo_name of
                               None \<Rightarrow> repo_name | Some r \<Rightarrow> r)
               in m(name \<mapsto> map (\<lambda>c. if c = CHR ''-'' then CHR ''_'' else c) suffix)))"

definition wasm_name_for_language :: "json option \<Rightarrow> string \<Rightarrow> string option" where
  "wasm_name_for_language parsed name =
     fold insert_wasm_name (registry_languages parsed) Map.empty name"

section \<open>Language detection\<close>

definition language_name_for_file :: "(string \<rightharpoonup> string) \<Rightarrow> path \<Rightarrow> string option" where
  "language_name_for_file exts p = Option.bind (path_extension p) exts"

definition extension_arms :: "(string list \<times> language) list" where
  "extension_arms =
     [([''rs''], Rust),
      ([''ts'', ''tsx''], TypeScript),
      ([''js'', ''jsx''], JavaScript),
      ([''py''], Python),
      ([''go''], Go),
      ([''c'', ''h''], C),
      ([''cpp'', ''cc'', ''cxx'', ''hpp'', ''hxx'', ''hh''], Cpp),
      ([''java''], Java),
      ([''rb''], Ruby),
      ([''php''], Php),
      ([''cs''], CSharp),
      ([''swift''], Swift),
      ([''kt''], Kotlin),
      ([''scala''], Scala),
      ([''zig''], Zig),
      ([''lua''], Lua),
      ([''sh'', ''bash''], Bash),
      ([''html'', ''htm''], Html),
      ([''css''], Css),
      ([''json''], Json),
      ([''yaml'', ''yml''], Yaml),
      ([''toml''], Toml)]"

definition language_for_file_with_overrides ::
  "(string \<rightharpoonup> string) \<Rightarrow> path \<Rightarrow> (string \<rightharpoonup> string) \<Rightarrow> language option" where
  "language_for_file_with_overrides exts p overrides =
     (case path_extension p of
        None \<Rightarrow> None
      | Some ext \<Rightarrow>
          (case overrides (CHR ''.'' # ext) of
             Some lang_name \<Rightarrow> from_name lang_name
           | None \<Rightarrow>
               (case match_arms extension_arms ext of
                  Some l \<Rightarrow> Some l
                | None \<Rightarrow> Option.bind (exts ext) from_name)))"

definition language_for_file :: "(string \<rightharpoonup> string) \<Rightarrow> path \<Rightarrow> language option" where
  "language_for_file exts p = language_for_file_with_overrides exts p Map.empty"

section \<open>The baked-in registry\<close>

text \<open>The name, extensions and grammar repository of the entries of
  \<open>languages/registry.json\<close>, in file order, and the JSON value the code walks over.\<close>

definition registry_entries :: "(string \<times> string list \<times> string) list" where
  "registry_entries =
     [(''rust'', [''.rs''], ''tree-sitter/tree-sitter-rust''),
      (''typescript'', [''.ts'', ''.tsx''], ''tree-sitter/tree-sitter-typescript''),
      (''javascript'', [''.js'', ''.jsx'', ''.mjs'', ''.cjs''], ''tree-sitter/tree-sitter-javascript''),
      (''python'', [''.py'', ''.pyi''], ''tree-sitter/tree-sitter-python''),
      (''go'', [''.go''], ''tree-sitter/tree-sitter-go''),
      (''c'', [''.c'', ''.h''], ''tree-sitter/tree-sitter-c''),
      (''cpp'', [''.cpp'', ''.cc'', ''.cxx'', ''.hpp'', ''.hxx'', ''.hh''], ''tree-sitter/tree-sitter-cpp''),
      (''java'', [''.java''], ''tree-sitter/tree-sitter-java''),
      (''ruby'', [''.rb'', ''.rake'', ''.gemspec''], ''tree-sitter/tree-sitter-ruby''),
      (''php'', [''.php''], ''tree-sitter/tree-sitter-php''),
      (''html'', [''.html'', ''.htm''], ''tree-sitter/tree-sitter-html''),
      (''css'', [''.css''], ''tree-sitter/tree-sitter-css''),
      (''json'', [''.json''], ''tree-sitter/tree-sitter-json''),
      (''yaml'', [''.yaml'', ''.yml''], ''tree-sitter-grammars/tree-sitter-yaml''),
      (''toml'', [''.toml''], ''tree-sitter-grammars/tree-sitter-toml''),
      (''csharp'', [''.cs''], ''tree-sitter/tree-sitter-c-sharp''),
      (''swift'', [''.swift''], ''alex-pinkus/tree-sitter-swift''),
      (''kotlin'', [''.kt''], ''tree-sitter-grammars/tree-sitter-kotlin''),
      (''scala'', [''.scala''], ''tree-sitter/tree-sitter-scala''),
      (''zig'', [''.zig''], ''tree-sitter-grammars/tree-sitter-zig''),
      (''lua'', [''.lua''], ''tree-sitter-grammars/tree-sitter-lua''),
      (''bash'', [''.sh'', ''.bash''], ''tree-sitter/tree-sitter-bash''),
      (''elixir'', [''.ex'', ''.exs''], ''elixir-lang/tree-sitter-elixir''),
      (''haskell'', [''.hs''], ''tree-sitter/tree-sitter-haskell''),
      (''dart'', [''.dart''], ''UserNobody14/tree-sitter-dart''),
      (''sql'', [''.sql''], ''DerekStride/tree-sitter-sql''),
      (''ocaml'', [''.ml'', ''.mli''], ''tree-sitter/tree-sitter-ocaml''),
      (''r'', [''.r'', ''.R''], ''r-lib/tree-sitter-r''),
      (''perl'', [''.pl'', ''.pm''], ''tree-sitter-perl/tree-sitter-perl''),
      (''clojure'', [''.clj'', ''.cljs'', ''.cljc''], ''sogaiu/tree-sitter-clojure''),
      (''erlang'', [''.erl'', ''.hrl''], ''WhatsApp/tree-sitter-erlang''),
      (''julia'', [''.jl''], ''tree-sitter/tree-sitter-julia''),
      (''objective-c'', [''.m'', ''.h''], ''amaanq/tree-sitter-objc''),
      (''fsharp'', [''.fs'', ''.fsi''], ''ionide/tree-sitter-fsharp''),
      (''groovy'', [''.groovy'', ''.gradle''], ''murtaza64/tree-sitter-groovy''),
      (''dockerfile'', [''.dockerfile''], ''camdencheek/tree-sitter-dockerfile''),
      (''terraform'', [''.tf'', ''.hcl''], ''MichaHoffmann/tree-sitter-hcl''),
      (''xml'', [''.xml'', ''.xsl'', ''.xsd'', ''.svg'', ''.plist''], ''tree-sitter-grammars/tree-sitter-xml''),
      (''markdown'', [''.md'', ''.markdown''], ''tree-sitter-grammars/tree-sitter-markdown''),
      (''protobuf'', [''.proto''], ''mitchellh/tree-sitter-proto''),
      (''graphql'', [''.graphql'', ''.gql''], ''bkegley/tree-sitter-graphql''),
      (''scss'', [''.scss''], ''serenadeai/tree-sitter-scss''),
      (''makefile'', [''.mk''], ''alemuller/tree-sitter-make''),
      (''cmake'', [''.cmake''], ''uyha/tree-sitter-cmake''),
      (''nix'', [''.nix''], ''nix-community/tree-sitter-nix''),
      (''svelte'', [''.svelte''], ''Himujjal/tree-sitter-svelte''),
      (''elm'', [''.elm''], ''elm-tooling/tree-sitter-elm''),
      (''solidity'', [''.sol''], ''JoranHonig/tree-sitter-solidity''),
      (''verilog'', [''.v'', ''.sv''], ''tree-sitter/tree-sitter-verilog''),
      (''glsl'', [''.glsl'', ''.vert'', ''.frag'', ''.geom'', ''.comp'', ''.tesc'', ''.tese''], ''theHamsta/tree-sitter-glsl''),
      (''cuda'', [''.cu'', ''.cuh''], ''theHamsta/tree-sitter-cuda''),
      (''fortran'', [''.f90'', ''.f95'', ''.f03'', ''.f08'', ''.F90''], ''stadelmanma/tree-sitter-fortran''),
      (''ada'', [''.adb'', ''.ads''], ''briot/tree-sitter-ada''),
      (''pascal'', [''.pas'', ''.pp'', ''.lpr''], ''Isopod/tree-sitter-pascal''),
      (''ini'', [''.ini'', ''.cfg'', ''.conf''], ''justinmk/tree-sitter-ini''),
      (''csv'', [''.csv'', ''.tsv''], ''amaanq/tree-sitter-csv''),
      (''latex'', [''.tex'', ''.sty'', ''.cls''], ''latex-lsp/tree-sitter-latex''),
      (''restructuredtext'', [''.rst''], ''stsewd/tree-sitter-rst''),
      (''org'', [''.org''], ''milisims/tree-sitter-org''),
      (''diff'', [''.diff'', ''.patch''], ''the-mikedavis/tree-sitter-diff''),
      (''starlark'', [''.bzl'', ''.star''], ''amaanq/tree-sitter-starlark''),
      (''just'', [''.just''], ''IndianBoy42/tree-sitter-just''),
      (''nginx'', [''.nginx''], ''opa-oz/tree-sitter-nginx''),
      (''bicep'', [''.bicep''], ''amaanq/tree-sitter-bicep''),
      (''prisma'', [''.prisma''], ''victorhqc/tree-sitter-prisma''),
      (''pkl'', [''.pkl''], ''apple/tree-sitter-pkl''),
      (''cairo'', [''.cairo''], ''amaanq/tree-sitter-cairo''),
      (''purescript'', [''.purs''], ''postsolar/tree-sitter-purescript''),
      (''scheme'', [''.scm'', ''.ss''], ''6cdh/tree-sitter-scheme''),
      (''racket'', [''.rkt''], ''6cdh/tree-sitter-racket''),
      (''common-lisp'', [''.lisp'', ''.cl'', ''.lsp'', ''.asd''], ''theHamsta/tree-sitter-commonlisp'')]"

definition registry_entry_json :: "string \<times> string list \<times> string \<Rightarrow> json" where
  "registry_entry_json = (\<lambda>(name, exts, repo).
     JObj [(''name'', JStr name), (''extensions'', JArr (map JStr exts)),
           (''grammar_repo'', JStr repo)])"

definition registry_json :: "json option" where
  "registry_json =
     Some (JObj [(''languages'', JArr (map registry_entry_json registry_entries))])"

section \<open>File discovery\<close>

text \<open>One result of the walker: a path and, where the file type is known, whether it is a
  regular file.\<close>

record dir_entry =
  entry_path :: path
  entry_is_file :: "bool option"

type_synonym walk = "path \<Rightarrow> (string + dir_entry) list"

text \<open>The loop both discovery functions run over the walker: an error of the walker stops
  it, entries that are not regular files are skipped, recognised files are made relative to
  the root and pushed unless they are filtered out.\<close>

fun discover_loop ::
  "(path \<Rightarrow> bool) \<Rightarrow> (path \<Rightarrow> bool) \<Rightarrow> path \<Rightarrow> (string + dir_entry) list \<Rightarrow> path list
    \<Rightarrow> core_error + path list" where
  "discover_loop recognised keep root [] files = Inr files"
| "discover_loop recognised keep root (Inl e # es) files =
     Inl (PathError (''walk error: '' @ e))"
| "discover_loop recognised keep root (Inr d # es) files =
     (if entry_is_file d \<noteq> Some True then discover_loop recognised keep root es files
      else if recognised (entry_path d) then
        (case strip_prefix_path (entry_path d) root of
           None \<Rightarrow> Inl (PathError ''cannot make path relative: prefix not found'')
         | Some relative \<Rightarrow>
             discover_loop recognised keep root es
               (if keep relative then files @ [relative] else files))
      else discover_loop recognised keep root es files)"

definition walk_root_of :: "path \<Rightarrow> path option \<Rightarrow> path" where
  "walk_root_of root scope = (case scope of Some s \<Rightarrow> path_join root s | None \<Rightarrow> root)"

definition discover_files ::
  "(path \<Rightarrow> bool) \<Rightarrow> walk \<Rightarrow> (string \<rightharpoonup> string) \<Rightarrow> path \<Rightarrow> path option
    \<Rightarrow> core_error + path list" where
  "discover_files exists walk exts root scope =
     (let walk_root = walk_root_of root scope in
      if \<not> exists walk_root then
        Inl (PathError (''discovery path does not exist: '' @ path_display walk_root))
      else
        (case discover_loop (\<lambda>p. language_name_for_file exts p \<noteq> None) (\<lambda>_. True) root
                (walk walk_root) [] of
           Inl e \<Rightarrow> Inl e
         | Inr files \<Rightarrow> Inr (sort files)))"

record project_config =
  exclude :: "string list"
  language_overrides :: "string \<rightharpoonup> string"
  cache_enabled :: "bool option"

text \<open>\<open>glob::Pattern::new\<close> is \<open>compile\<close>, \<open>Pattern::matches\<close> is \<open>matches\<close>;
  a pattern that does not compile is dropped.\<close>

definition build_exclude_matchers :: "(string \<Rightarrow> 'g option) \<Rightarrow> string list \<Rightarrow> 'g list" where
  "build_exclude_matchers compile patterns = List.map_filter compile patterns"

definition is_excluded :: "('g \<Rightarrow> string \<Rightarrow> bool) \<Rightarrow> path \<Rightarrow> 'g list \<Rightarrow> bool" where
  "is_excluded matches p matchers \<longleftrightarrow> list_ex (\<lambda>m. matches m (path_display p)) matchers"

definition discover_files_with_config ::
  "(path \<Rightarrow> bool) \<Rightarrow> walk \<Rightarrow> (string \<Rightarrow> 'g option) \<Rightarrow> ('g \<Rightarrow> string \<Rightarrow> bool)
    \<Rightarrow> (string \<rightharpoonup> string) \<Rightarrow> path \<Rightarrow> path option \<Rightarrow> project_config
    \<Rightarrow> core_error + path list" where
  "discover_files_with_config exists walk compile matches exts root scope config =
     (let walk_root = walk_root_of root scope in
      if \<not> exists walk_root then
        Inl (PathError (''discovery path does not exist: '' @ path_display walk_root))
      else
        let exclude_matchers = build_exclude_matchers compile (exclude config) in
        (case discover_loop
                (\<lambda>p. language_for_file_with_overrides exts p (language_overrides config) \<noteq> None)
                (\<lambda>rel. \<not> is_excluded matches rel exclude_matchers) root (walk walk_root) [] of
           Inl e \<Rightarrow> Inl e
         | Inr files \<Rightarrow> Inr (sort files)))"

section \<open>What discovery returns\<close>

lemma match_arms_Some: "match_arms arms s = Some v \<Longrightarrow> \<exists>ps. (ps, v) \<in> set arms \<and> s \<in> set ps"
  by (induction arms s rule: match_arms.induct) (auto split: if_splits)

lemma discover_loop_acc:
  "discover_loop rc kp root es files =
     (case discover_loop rc kp root es [] of Inl e \<Rightarrow> Inl e | Inr new \<Rightarrow> Inr (files @ new))"
proof (induction es arbitrary: files)
  case Nil
  then show ?case by simp
next
  case (Cons x es)
  show ?case
  proof (cases x)
    case (Inr d)
    then show ?thesis
    proof (cases "strip_prefix_path (entry_path d) root")
      case (Some rel)
      with Inr Cons[of files] Cons[of "files @ [rel]"] Cons[of "[rel]"] show ?thesis
        by (simp split: sum.splits)
    qed (use Inr Cons[of files] in simp)
  qed simp
qed

text \<open>The files a walk holds, as the loop selects them.\<close>

definition selected ::
  "(path \<Rightarrow> bool) \<Rightarrow> (path \<Rightarrow> bool) \<Rightarrow> path \<Rightarrow> dir_entry \<Rightarrow> path option" where
  "selected rc kp root d =
     (if entry_is_file d = Some True \<and> rc (entry_path d)
      then (case strip_prefix_path (entry_path d) root of
              Some rel \<Rightarrow> if kp rel then Some rel else None | None \<Rightarrow> None)
      else None)"

lemma discover_loop_ok:
  assumes "\<forall>x \<in> set es. \<exists>d. x = Inr d \<and> path_starts_with (entry_path d) root"
  shows "discover_loop rc kp root es [] =
     Inr (List.map_filter (\<lambda>x. Option.bind (case x of Inr d \<Rightarrow> Some d | Inl _ \<Rightarrow> None)
            (selected rc kp root)) es)"
  using assms
proof (induction es)
  case Nil
  then show ?case by (simp add: List.map_filter_def)
next
  case (Cons x es)
  then obtain d where x: "x = Inr d" "path_starts_with (entry_path d) root" by auto
  with Cons show ?case
    by (auto simp: selected_def strip_prefix_path_def List.map_filter_def
        discover_loop_acc[of _ _ _ _ "[_]"])
qed

lemma discover_loop_err:
  "discover_loop rc kp root es files = Inl e \<Longrightarrow> \<exists>m. e = PathError m"
  by (induction rc kp root es files rule: discover_loop.induct)
    (auto split: if_splits option.splits)

lemma from_name_language_name [simp]: "from_name (language_name l) = Some l"
  by (cases l; hypsubst; code_simp)

lemma language_name_inj: "language_name a = language_name b \<Longrightarrow> a = b"
  by (metis from_name_language_name option.inject)

section \<open>The baked-in registry and the built-in extensions\<close>

definition dotless :: "string \<Rightarrow> string" where
  "dotless e = (case strip_prefix_str ''.'' e of None \<Rightarrow> e | Some k \<Rightarrow> k)"

definition entry_pairs :: "string \<times> string list \<times> string \<Rightarrow> (string \<times> string) list" where
  "entry_pairs = (\<lambda>(name, exts, repo). map (\<lambda>e. (dotless e, name)) exts)"

lemma fold_insert_extension:
  "fold (insert_extension name) (map JStr es) m = m ++ map_of (rev (map (\<lambda>e. (dotless e, name)) es))"
  by (induction es arbitrary: m)
    (simp_all add: insert_extension_def dotless_def map_add_upd_left fun_eq_iff map_add_def
      split: option.splits)

lemma insert_language_entry:
  "insert_language (registry_entry_json e) m = m ++ map_of (rev (entry_pairs e))"
  by (cases e) (simp add: insert_language_def registry_entry_json_def entry_pairs_def
      fold_insert_extension)

lemma fold_insert_language:
  "fold insert_language (map registry_entry_json es) m =
     m ++ map_of (rev (concat (map entry_pairs es)))"
  by (induction es arbitrary: m) (simp_all add: insert_language_entry)

lemma extension_map_registry:
  "extension_map registry_json = map_of (rev (concat (map entry_pairs registry_entries)))"
  by (simp add: extension_map_def registry_languages_def registry_json_def fold_insert_language)

text \<open>The same pairs written out, the last entry first.\<close>

definition registry_table :: "(string \<times> string) list" where
  "registry_table =
     [(''asd'', ''common-lisp''),
      (''lsp'', ''common-lisp''),
      (''cl'', ''common-lisp''),
      (''lisp'', ''common-lisp''),
      (''rkt'', ''racket''),
      (''ss'', ''scheme''),
      (''scm'', ''scheme''),
      (''purs'', ''purescript''),
      (''cairo'', ''cairo''),
      (''pkl'', ''pkl''),
      (''prisma'', ''prisma''),
      (''bicep'', ''bicep''),
      (''nginx'', ''nginx''),
      (''just'', ''just''),
      (''star'', ''starlark''),
      (''bzl'', ''starlark''),
      (''patch'', ''diff''),
      (''diff'', ''diff''),
      (''org'', ''org''),
      (''rst'', ''restructuredtext''),
      (''cls'', ''latex''),
      (''sty'', ''latex''),
      (''tex'', ''latex''),
      (''tsv'', ''csv''),
      (''csv'', ''csv''),
      (''conf'', ''ini''),
      (''cfg'', ''ini''),
      (''ini'', ''ini''),
      (''lpr'', ''pascal''),
      (''pp'', ''pascal''),
      (''pas'', ''pascal''),
      (''ads'', ''ada''),
      (''adb'', ''ada''),
      (''F90'', ''fortran''),
      (''f08'', ''fortran''),
      (''f03'', ''fortran''),
      (''f95'', ''fortran''),
      (''f90'', ''fortran''),
      (''cuh'', ''cuda''),
      (''cu'', ''cuda''),
      (''tese'', ''glsl''),
      (''tesc'', ''glsl''),
      (''comp'', ''glsl''),
      (''geom'', ''glsl''),
      (''frag'', ''glsl''),
      (''vert'', ''glsl''),
      (''glsl'', ''glsl''),
      (''sv'', ''verilog''),
      (''v'', ''verilog''),
      (''sol'', ''solidity''),
      (''elm'', ''elm''),
      (''svelte'', ''svelte''),
      (''nix'', ''nix''),
      (''cmake'', ''cmake''),
      (''mk'', ''makefile''),
      (''scss'', ''scss''),
      (''gql'', ''graphql''),
      (''graphql'', ''graphql''),
      (''proto'', ''protobuf''),
      (''markdown'', ''markdown''),
      (''md'', ''markdown''),
      (''plist'', ''xml''),
      (''svg'', ''xml''),
      (''xsd'', ''xml''),
      (''xsl'', ''xml''),
      (''xml'', ''xml''),
      (''hcl'', ''terraform''),
      (''tf'', ''terraform''),
      (''dockerfile'', ''dockerfile''),
      (''gradle'', ''groovy''),
      (''groovy'', ''groovy''),
      (''fsi'', ''fsharp''),
      (''fs'', ''fsharp''),
      (''h'', ''objective-c''),
      (''m'', ''objective-c''),
      (''jl'', ''julia''),
      (''hrl'', ''erlang''),
      (''erl'', ''erlang''),
      (''cljc'', ''clojure''),
      (''cljs'', ''clojure''),
      (''clj'', ''clojure''),
      (''pm'', ''perl''),
      (''pl'', ''perl''),
      (''R'', ''r''),
      (''r'', ''r''),
      (''mli'', ''ocaml''),
      (''ml'', ''ocaml''),
      (''sql'', ''sql''),
      (''dart'', ''dart''),
      (''hs'', ''haskell''),
      (''exs'', ''elixir''),
      (''ex'', ''elixir''),
      (''bash'', ''bash''),
      (''sh'', ''bash''),
      (''lua'', ''lua''),
      (''zig'', ''zig''),
      (''scala'', ''scala''),
      (''kt'', ''kotlin''),
      (''swift'', ''swift''),
      (''cs'', ''csharp''),
      (''toml'', ''toml''),
      (''yml'', ''yaml''),
      (''yaml'', ''yaml''),
      (''json'', ''json''),
      (''css'', ''css''),
      (''htm'', ''html''),
      (''html'', ''html''),
      (''php'', ''php''),
      (''gemspec'', ''ruby''),
      (''rake'', ''ruby''),
      (''rb'', ''ruby''),
      (''java'', ''java''),
      (''hh'', ''cpp''),
      (''hxx'', ''cpp''),
      (''hpp'', ''cpp''),
      (''cxx'', ''cpp''),
      (''cc'', ''cpp''),
      (''cpp'', ''cpp''),
      (''h'', ''c''),
      (''c'', ''c''),
      (''go'', ''go''),
      (''pyi'', ''python''),
      (''py'', ''python''),
      (''cjs'', ''javascript''),
      (''mjs'', ''javascript''),
      (''jsx'', ''javascript''),
      (''js'', ''javascript''),
      (''tsx'', ''typescript''),
      (''ts'', ''typescript''),
      (''rs'', ''rust'')]"

lemma registry_table: "rev (concat (map entry_pairs registry_entries)) = registry_table"
  by code_simp

definition registry_agrees_on :: "string \<Rightarrow> language \<Rightarrow> bool" where
  "registry_agrees_on e l \<longleftrightarrow>
     e = ''h'' \<or>
     map_of registry_table e = Some (language_name l)"

lemma registry_arms_agree:
  "list_all (\<lambda>(es, l). list_all (\<lambda>e. registry_agrees_on e l) es) extension_arms"
  by code_simp

lemma registry_h: "extension_map registry_json ''h'' = Some ''objective-c''"
  unfolding extension_map_registry registry_table by code_simp

text \<open>
  With the registry that is baked in, every file whose extension the built-in
  table of \<open>language_for_file\<close> knows, \<open>.h\<close> aside, gets the same language from the
  registry lookup that file discovery uses: no built-in file escapes discovery.
\<close>

theorem registry_agrees:
  assumes "path_extension p = Some e" and "e \<noteq> ''h''" and "match_arms extension_arms e = Some l"
  shows "language_name_for_file (extension_map registry_json) p = Some (language_name l) \<and>
    language_for_file (extension_map registry_json) p = Some l"
proof -
  from match_arms_Some[OF assms(3)] obtain es where "(es, l) \<in> set extension_arms" "e \<in> set es"
    by blast
  with registry_arms_agree have "registry_agrees_on e l"
    by (auto simp: list_all_iff)
  with assms show ?thesis
    by (simp add: registry_agrees_on_def language_name_for_file_def language_for_file_def
        language_for_file_with_overrides_def extension_map_registry registry_table)
qed

theorem registry_agrees_witness:
  "language_for_file (extension_map registry_json) [Normal ''src'', Normal ''main.rs''] = Some Rust"
proof -
  have "path_extension [Normal ''src'', Normal ''main.rs''] = Some ''rs''"
    and "match_arms extension_arms ''rs'' = Some Rust" by code_simp+
  from registry_agrees[OF this(1) _ this(2)] show ?thesis by simp
qed

text \<open>
  The registry lists \<open>.h\<close> for C and, later, for Objective-C; the map keeps the
  later entry, so the two lookups disagree on header files: \<open>language_name_for_file\<close>
  says \<open>objective-c\<close>, \<open>language_for_file\<close> says C.
\<close>

theorem header_files_disagree:
  "language_name_for_file (extension_map registry_json) [Normal ''a.h''] = Some ''objective-c'' \<and>
   language_for_file (extension_map registry_json) [Normal ''a.h''] = Some C"
proof -
  have "path_extension [Normal ''a.h''] = Some ''h''"
    and "match_arms extension_arms ''h'' = Some C" by code_simp+
  then show ?thesis
    by (simp add: language_name_for_file_def language_for_file_def
        language_for_file_with_overrides_def registry_h)
qed

section \<open>Correctness of discovery\<close>

lemma discover_files_ok:
  assumes "exists (walk_root_of root scope)"
    and "\<forall>x \<in> set (walk (walk_root_of root scope)).
           \<exists>d. x = Inr d \<and> path_starts_with (entry_path d) root"
  shows "discover_files exists walk exts root scope =
     Inr (sort (List.map_filter (\<lambda>x. Option.bind (case x of Inr d \<Rightarrow> Some d | Inl _ \<Rightarrow> None)
            (selected (\<lambda>p. language_name_for_file exts p \<noteq> None) (\<lambda>_. True) root))
          (walk (walk_root_of root scope))))"
  using assms by (simp add: discover_files_def Let_def discover_loop_ok)

text \<open>
  C17: when the walk root exists and the walker reports entries under the project root,
  discovery succeeds with a sorted list that holds exactly the root-relative paths of the
  regular files whose extension the registry knows.
\<close>

theorem discover_files_spec:
  assumes "exists (walk_root_of root scope)"
    and "\<forall>x \<in> set (walk (walk_root_of root scope)).
           \<exists>d. x = Inr d \<and> path_starts_with (entry_path d) root"
  shows "\<exists>fs. discover_files exists walk exts root scope = Inr fs \<and> sorted fs \<and>
    (\<forall>p. p \<in> set fs \<longleftrightarrow>
      (\<exists>d. Inr d \<in> set (walk (walk_root_of root scope)) \<and> entry_is_file d = Some True \<and>
        entry_path d = root @ p \<and> language_name_for_file exts (root @ p) \<noteq> None))"
proof -
  define S where "S = selected (\<lambda>p. language_name_for_file exts p \<noteq> None) (\<lambda>_. True) root"
  have sel: "S d = Some p \<longleftrightarrow> entry_is_file d = Some True \<and> entry_path d = root @ p \<and>
      language_name_for_file exts (root @ p) \<noteq> None" for d p
    by (cases "strip_prefix_path (entry_path d) root")
      (auto simp: S_def selected_def strip_prefix_Some)
  have bind: "Option.bind (case x of Inr d \<Rightarrow> Some d | Inl _ \<Rightarrow> None) S = Some p \<longleftrightarrow>
      (\<exists>d. x = Inr d \<and> S d = Some p)" for x :: "string + dir_entry" and p
    by (cases x) auto
  show ?thesis
    unfolding discover_files_ok[of exists root scope walk exts, OF assms] S_def[symmetric]
    by (rule exI, rule conjI[OF refl], rule conjI, rule sorted_sort) (auto simp: bind sel)
qed

theorem discover_files_spec_witness:
  "\<exists>fs. discover_files (\<lambda>_. True)
      (\<lambda>r. [Inr \<lparr>entry_path = r @ [Normal ''b.rs''], entry_is_file = Some True\<rparr>,
            Inr \<lparr>entry_path = r @ [Normal ''a''], entry_is_file = Some False\<rparr>])
      [''rs'' \<mapsto> ''rust''] [RootDir] None = Inr fs \<and> sorted fs"
proof -
  let ?w = "\<lambda>r. [Inr \<lparr>entry_path = r @ [Normal ''b.rs''], entry_is_file = Some True\<rparr>,
            Inr \<lparr>entry_path = r @ [Normal ''a''], entry_is_file = Some False\<rparr>]"
  have "\<forall>x \<in> set (?w (walk_root_of [RootDir] None)).
          \<exists>d. x = Inr d \<and> path_starts_with (entry_path d) [RootDir]"
    by (simp add: walk_root_of_def path_starts_with_def starts_with_def)
  from discover_files_spec[where walk = ?w and exists = "\<lambda>_. True", OF _ this] show ?thesis by blast
qed

text \<open>
  The order in which the walker reports a directory tree does not change what
  discovery returns.
\<close>

theorem discover_files_order:
  assumes "exists (walk_root_of root scope)"
    and "\<forall>x \<in> set (walk (walk_root_of root scope)).
           \<exists>d. x = Inr d \<and> path_starts_with (entry_path d) root"
    and "mset (walk2 (walk_root_of root scope)) = mset (walk (walk_root_of root scope))"
  shows "discover_files exists walk2 exts root scope = discover_files exists walk exts root scope"
proof -
  from mset_eq_setD[OF assms(3)] assms(2)
  have ok2: "\<forall>x \<in> set (walk2 (walk_root_of root scope)).
           \<exists>d. x = Inr d \<and> path_starts_with (entry_path d) root" by simp
  show ?thesis
    unfolding discover_files_ok[of exists root scope walk exts, OF assms(1,2)]
      discover_files_ok[of exists root scope walk2 exts, OF assms(1) ok2]
    using mset_map_filter_cong[OF assms(3)]
    by (auto intro!: sort_key_perm_inj inj_onI)
qed

theorem discover_files_order_witness:
  "discover_files (\<lambda>_. True)
      (\<lambda>r. [Inr \<lparr>entry_path = r @ [Normal ''b.rs''], entry_is_file = Some True\<rparr>,
            Inr \<lparr>entry_path = r @ [Normal ''a.rs''], entry_is_file = Some True\<rparr>])
      [''rs'' \<mapsto> ''rust''] [RootDir] None =
   discover_files (\<lambda>_. True)
      (\<lambda>r. [Inr \<lparr>entry_path = r @ [Normal ''a.rs''], entry_is_file = Some True\<rparr>,
            Inr \<lparr>entry_path = r @ [Normal ''b.rs''], entry_is_file = Some True\<rparr>])
      [''rs'' \<mapsto> ''rust''] [RootDir] None"
  by (rule discover_files_order)
    (auto simp: walk_root_of_def path_starts_with_def starts_with_def)

definition one_file_walk :: "string \<Rightarrow> walk" where
  "one_file_walk name r = [Inr \<lparr>entry_path = r @ [Normal name], entry_is_file = Some True\<rparr>]"

text \<open>
  \<open>discover_files_with_config\<close> with an empty configuration is not
  \<open>discover_files\<close>: it asks for a built-in \<open>Language\<close>, so a file of an installable
  language such as Elixir is found by the one and not by the other.
\<close>

theorem empty_config_differs:
  "discover_files (\<lambda>_. True) (one_file_walk ''a.ex'') [''ex'' \<mapsto> ''elixir''] [RootDir] None =
     Inr [[Normal ''a.ex'']] \<and>
   discover_files_with_config (\<lambda>_. True) (one_file_walk ''a.ex'') compile matches
     [''ex'' \<mapsto> ''elixir''] [RootDir] None
     \<lparr>exclude = [], language_overrides = Map.empty, cache_enabled = None\<rparr> = Inr []"
proof -
  have ext: "path_extension [RootDir, Normal ''a.ex''] = Some ''ex''"
    and none: "match_arms extension_arms ''ex'' = None" "from_name ''elixir'' = None"
    by code_simp+
  then show ?thesis
    by (simp add: one_file_walk_def discover_files_def discover_files_with_config_def
        walk_root_of_def language_name_for_file_def language_for_file_with_overrides_def
        strip_prefix_path_def path_starts_with_def starts_with_def)
qed

end
