(* ===== verification/Scanner.thy ===== *)
theory Scanner
  imports Languages Grep Cache
begin

text \<open>
  \<open>scanner.rs\<close> of codequery-index: scanning one file, the whole project, a pre-filtered
  project, and the cached scan with its rebuild from the cache. Parsing
  (\<open>Parser::for_language\<close> with \<open>parse_file\<close>) and symbol extraction are arguments, as are
  the walker and the file system; rayon's parallel \<open>filter_map\<close> keeps the input order.
\<close>

section \<open>The model\<close>

record scan_env =
  se_exists :: "path \<Rightarrow> bool"
  se_walk :: walk
  se_exts :: "string \<rightharpoonup> string"
  se_parse_file :: "language \<Rightarrow> path \<Rightarrow> (string \<times> node) option"
  se_extract :: "string \<Rightarrow> node \<Rightarrow> path \<Rightarrow> language \<Rightarrow> symbol list"
  se_search :: finder
  se_fsys :: file_sys
  se_meta :: metadata

definition scan_single_file :: "scan_env \<Rightarrow> path \<Rightarrow> path \<Rightarrow> file_symbols option" where
  "scan_single_file env root relative =
     (let absolute = path_join root relative in
      (case language_for_file (se_exts env) absolute of
         None \<Rightarrow> None
       | Some language \<Rightarrow>
           (case se_parse_file env language absolute of
              None \<Rightarrow> None
            | Some (source, tree) \<Rightarrow>
                Some \<lparr>fs_file = relative, fs_symbols = se_extract env source tree relative language,
                      fs_source = source, fs_tree = tree\<rparr>)))"

definition env_discover :: "scan_env \<Rightarrow> path \<Rightarrow> path option \<Rightarrow> core_error + path list" where
  "env_discover env root scope =
     discover_files (se_exists env) (se_walk env) (se_exts env) root scope"

definition scan_files :: "scan_env \<Rightarrow> path \<Rightarrow> path list \<Rightarrow> file_symbols list" where
  "scan_files env root fs = sort_key fs_file (List.map_filter (scan_single_file env root) fs)"

definition scan_project ::
  "scan_env \<Rightarrow> path \<Rightarrow> path option \<Rightarrow> index_error + file_symbols list" where
  "scan_project env root scope =
     (case env_discover env root scope of
        Inl e \<Rightarrow> Inl (IndexCore e)
      | Inr fs \<Rightarrow> Inr (scan_files env root fs))"

definition scan_with_filter ::
  "scan_env \<Rightarrow> path \<Rightarrow> path option \<Rightarrow> string \<Rightarrow> index_error + file_symbols list" where
  "scan_with_filter env root scope word =
     (case env_discover env root scope of
        Inl e \<Rightarrow> Inl (IndexCore e)
      | Inr fs \<Rightarrow>
          Inr (scan_files env root (filter_files (se_search env) (se_fsys env) fs root word)))"

definition rebuild_one :: "scan_env \<Rightarrow> path \<Rightarrow> cached_file \<Rightarrow> file_symbols option" where
  "rebuild_one env root entry =
     (let absolute = path_join root (cf_path entry) in
      (case language_for_file (se_exts env) absolute of
         None \<Rightarrow> None
       | Some language \<Rightarrow>
           (case se_parse_file env language absolute of
              None \<Rightarrow> None
            | Some (source, tree) \<Rightarrow>
                Some \<lparr>fs_file = cf_path entry, fs_symbols = cf_symbols entry,
                      fs_source = source, fs_tree = tree\<rparr>)))"

definition rebuild_from_cache ::
  "scan_env \<Rightarrow> cached_file list \<Rightarrow> path \<Rightarrow> path option \<Rightarrow> file_symbols list" where
  "rebuild_from_cache env cached root scope =
     sort_key fs_file
       (List.map_filter (rebuild_one env root)
         (filter (\<lambda>entry. case scope of None \<Rightarrow> True | Some s \<Rightarrow> path_starts_with (cf_path entry) s)
           cached))"

definition cache_entry :: "scan_env \<Rightarrow> path \<Rightarrow> file_symbols \<Rightarrow> cached_file option" where
  "cache_entry env root fs =
     (case file_metadata (se_meta env) (path_join root (fs_file fs)) of
        None \<Rightarrow> None
      | Some (mtime, len) \<Rightarrow>
          Some \<lparr>cf_path = fs_file fs, cf_mtime = mtime, cf_size = len, cf_symbols = fs_symbols fs\<rparr>)"

definition build_cache_entries ::
  "scan_env \<Rightarrow> file_symbols list \<Rightarrow> path \<Rightarrow> cached_file list" where
  "build_cache_entries env results root = List.map_filter (cache_entry env root) results"

text \<open>The cache of the root: where it is, if anywhere, and how it is serialised.\<close>

record cache_cfg =
  cc_path :: "path \<Rightarrow> path option"
  cc_serialize :: "cache_manifest \<Rightarrow> string + string"
  cc_deserialize :: "string \<Rightarrow> string + cache_manifest"

text \<open>A usable cache: the store exists, loads, and every entry is up to date.\<close>

definition cache_hit :: "scan_env \<Rightarrow> cache_cfg \<Rightarrow> disk \<Rightarrow> path \<Rightarrow> cached_file list option" where
  "cache_hit env cfg d root =
     (case cc_path cfg root of
        None \<Rightarrow> None
      | Some store \<Rightarrow>
          (case cache_load (cc_deserialize cfg) d store of
             Inl e \<Rightarrow> None
           | Inr cached \<Rightarrow>
               if cache_is_valid (se_meta env) cached root then Some cached else None))"

definition scan_project_cached ::
  "scan_env \<Rightarrow> cache_cfg \<Rightarrow> disk \<Rightarrow> path \<Rightarrow> path option \<Rightarrow> bool
    \<Rightarrow> (index_error + file_symbols list) \<times> disk" where
  "scan_project_cached env cfg d root scope use_cache =
     (if \<not> use_cache then (scan_project env root scope, d)
      else
        (case cache_hit env cfg d root of
           Some cached \<Rightarrow> (Inr (rebuild_from_cache env cached root scope), d)
         | None \<Rightarrow>
             (case scan_project env root scope of
                Inl e \<Rightarrow> (Inl e, d)
              | Inr results \<Rightarrow>
                  (case cc_path cfg root of
                     None \<Rightarrow> (Inr results, d)
                   | Some store \<Rightarrow>
                       (Inr results,
                        snd (cache_store (cc_serialize cfg) d store
                               (build_cache_entries env results root)))))))"

section \<open>What a scan returns\<close>

lemma scan_single_file_file: "scan_single_file env root p = Some fs \<Longrightarrow> fs_file fs = p"
  by (auto simp: scan_single_file_def Let_def split: option.splits prod.splits)

lemma rebuild_one_file: "rebuild_one env root e = Some fs \<Longrightarrow> fs_file fs = cf_path e"
  by (auto simp: rebuild_one_def Let_def split: option.splits prod.splits)

lemma set_scan_files:
  "fs \<in> set (scan_files env root files) \<longleftrightarrow>
    fs_file fs \<in> set files \<and> scan_single_file env root (fs_file fs) = Some fs"
  by (auto simp: scan_files_def dest: scan_single_file_file)

lemma sorted_scan_files: "sorted (map fs_file (scan_files env root files))"
  by (simp add: scan_files_def)

text \<open>
  C2: a successful scan is sorted by path and holds, for exactly the discovered
  files that parse, the result of scanning that file alone; a failed discovery is the only
  error.
\<close>

theorem scan_project_spec:
  "(case scan_project env root scope of
      Inr results \<Rightarrow>
        sorted (map fs_file results) \<and>
        (\<exists>fs. env_discover env root scope = Inr fs \<and>
          (\<forall>r. r \<in> set results \<longleftrightarrow>
            fs_file r \<in> set fs \<and> scan_single_file env root (fs_file r) = Some r))
    | Inl e \<Rightarrow> \<exists>c. e = IndexCore c \<and> env_discover env root scope = Inl c)"
  by (auto simp: scan_project_def sorted_scan_files set_scan_files split: sum.splits)

lemma filter_map_filter_file:
  "filter (\<lambda>r. P (fs_file r)) (List.map_filter (scan_single_file env root) fs) =
    List.map_filter (scan_single_file env root) (filter P fs)"
  by (induction fs) (auto simp: List.map_filter_simps dest: scan_single_file_file split: option.splits)

lemma filter_scan_files:
  "filter (\<lambda>r. P (fs_file r)) (scan_files env root fs) = scan_files env root (filter P fs)"
  by (simp add: scan_files_def filter_sort filter_map_filter_file)

text \<open>
  C3: on a file system that does not change meanwhile, the pre-filtered scan is the full
  scan restricted to the files where the word occurs on its own: the text filter drops no
  file in which a parsed identifier could equal the word.
\<close>

theorem scan_with_filter_spec:
  assumes "leftmost_search (se_search env)" and "stable_fs (se_fsys env)"
    and "scan_project env root scope = Inr results"
  shows "scan_with_filter env root scope word =
    Inr (filter (\<lambda>r. \<exists>d i. read_file (se_fsys env) (path_join root (fs_file r)) = Inr d \<and>
           word \<noteq> [] \<and> standalone_at d word i) results)"
  using assms(3)
  by (auto simp: scan_project_def scan_with_filter_def filter_files_standalone[OF assms(1,2)]
      filter_scan_files[symmetric] split: sum.splits)

section \<open>The cached scan\<close>

lemma rebuild_cache_entry:
  assumes "scan_single_file env root (fs_file r) = Some r" and "cache_entry env root r = Some e"
  shows "rebuild_one env root e = Some r"
  using assms
  by (cases r) (auto simp: scan_single_file_def rebuild_one_def cache_entry_def Let_def
      split: option.splits prod.splits)

lemma rebuild_cache_entries:
  assumes "\<forall>r \<in> set rs. scan_single_file env root (fs_file r) = Some r"
    and "\<forall>r \<in> set rs. cache_entry env root r \<noteq> None"
  shows "List.map_filter (rebuild_one env root) (build_cache_entries env rs root) = rs"
  using assms
proof (induction rs)
  case Nil
  then show ?case by (simp add: build_cache_entries_def List.map_filter_def)
next
  case (Cons r rs)
  then obtain e where e: "cache_entry env root r = Some e" by auto
  with Cons have "rebuild_one env root e = Some r" by (auto intro: rebuild_cache_entry)
  with e Cons show ?case by (simp add: build_cache_entries_def List.map_filter_simps)
qed

lemma cache_entries_valid: "cache_is_valid (se_meta env) (build_cache_entries env rs root) root"
  by (auto simp: cache_is_valid_iff build_cache_entries_def cache_entry_def
      split: option.splits prod.splits)

text \<open>Everything the file system still has for the results of a scan.\<close>

definition all_stamped :: "scan_env \<Rightarrow> path \<Rightarrow> file_symbols list \<Rightarrow> bool" where
  "all_stamped env root results \<longleftrightarrow>
     list_all (\<lambda>r. file_metadata (se_meta env) (path_join root (fs_file r)) \<noteq> None) results"

definition codec_ok :: "cache_cfg \<Rightarrow> bool" where
  "codec_ok cfg \<longleftrightarrow>
     (\<forall>m data. cc_serialize cfg m = Inr data \<longrightarrow> cc_deserialize cfg data = Inr m)"

lemma cached_scan_replay:
  assumes "codec_ok cfg" and "cc_path cfg root = Some store" and "read_fault d store = None"
    and "scan_project env root scope = Inr results" and "all_stamped env root results"
    and "cache_store (cc_serialize cfg) d store (build_cache_entries env results root) = (None, d')"
  shows "scan_project_cached env cfg d' root None True = (Inr results, d')"
proof -
  let ?entries = "build_cache_entries env results root"
  have "cache_load (cc_deserialize cfg) d' store = Inr ?entries"
    using cache_store_ok[OF assms(6)] assms(1,3)
    by (auto simp: cache_load_def disk_read_def codec_ok_def map_idI)
  with assms(2) have hit: "cache_hit env cfg d' root = Some ?entries"
    by (simp add: cache_hit_def cache_entries_valid)
  from assms(4) obtain fs where res: "results = scan_files env root fs"
    by (auto simp: scan_project_def split: sum.splits)
  have single: "\<forall>r \<in> set results. scan_single_file env root (fs_file r) = Some r"
    by (simp add: res set_scan_files)
  have stamped: "\<forall>r \<in> set results. cache_entry env root r \<noteq> None"
    using assms(5) by (auto simp: all_stamped_def cache_entry_def list_all_iff split: option.splits)
  have "rebuild_from_cache env ?entries root None = results"
    using rebuild_cache_entries[OF single stamped] sorted_scan_files[of env root fs]
    by (simp add: rebuild_from_cache_def sort_key_id_if_sorted res)
  with hit show ?thesis by (simp add: scan_project_cached_def)
qed

text \<open>
  C12: when a cached scan of the whole project missed the cache and stored its results,
  the next cached scan of the unchanged project returns the same results, and the plain scan
  returns them too: the cache is transparent.
\<close>

theorem cached_scan_transparent:
  assumes "codec_ok cfg" and "cc_path cfg root = Some store" and "read_fault d store = None"
    and "scan_project_cached env cfg d root None True = (Inr results, d')"
    and "cache_hit env cfg d root = None" and "all_stamped env root results"
    and "fst (cache_store (cc_serialize cfg) d store (build_cache_entries env results root)) = None"
  shows "scan_project_cached env cfg d' root None True = (Inr results, d') \<and>
    scan_project env root None = Inr results"
proof -
  from assms(2,4,5) have scan: "scan_project env root None = Inr results"
    and d': "d' = snd (cache_store (cc_serialize cfg) d store (build_cache_entries env results root))"
    by (auto simp: scan_project_cached_def split: sum.splits)
  from d' assms(7)
  have "cache_store (cc_serialize cfg) d store (build_cache_entries env results root) = (None, d')"
    by (simp add: prod_eq_iff)
  from cached_scan_replay[OF assms(1-3) scan assms(6) this] scan show ?thesis by blast
qed

text \<open>
  The store is keyed by the root alone, so a cached scan limited to a subdirectory
  fills it with that subdirectory's files, and the next cached scan of the whole project
  returns only those, whatever the project holds.
\<close>

theorem scoped_scan_poisons_cache:
  assumes "codec_ok cfg" and "cc_path cfg root = Some store" and "read_fault d store = None"
    and "cache_hit env cfg d root = None"
    and "scan_project_cached env cfg d root (Some scope) True = (Inr results, d')"
    and "all_stamped env root results"
    and "fst (cache_store (cc_serialize cfg) d store (build_cache_entries env results root)) = None"
  shows "scan_project_cached env cfg d' root None True = (Inr results, d')"
proof -
  from assms(2,4,5) have scan: "scan_project env root (Some scope) = Inr results"
    and d': "d' = snd (cache_store (cc_serialize cfg) d store (build_cache_entries env results root))"
    by (auto simp: scan_project_cached_def split: sum.splits)
  from d' assms(7)
  have "cache_store (cc_serialize cfg) d store (build_cache_entries env results root) = (None, d')"
    by (simp add: prod_eq_iff)
  from cached_scan_replay[OF assms(1-3) scan assms(6) this] show ?thesis .
qed

text \<open>A project with a file at the root and one under \<open>src\<close>, to instantiate the two
  properties; its cache codec knows the manifest that the scan in question writes.\<close>

definition demo_tree :: node where
  "demo_tree = Node ''source_file'' None True False False 0 0 0 0 0 0 []"

definition scan_demo_env :: scan_env where
  "scan_demo_env =
     \<lparr>se_exists = (\<lambda>_. True),
      se_walk = (\<lambda>r. if r = [RootDir]
        then [Inr \<lparr>entry_path = [RootDir, Normal ''a.rs''], entry_is_file = Some True\<rparr>,
              Inr \<lparr>entry_path = [RootDir, Normal ''src'', Normal ''b.rs''], entry_is_file = Some True\<rparr>]
        else [Inr \<lparr>entry_path = [RootDir, Normal ''src'', Normal ''b.rs''], entry_is_file = Some True\<rparr>]),
      se_exts = [''rs'' \<mapsto> ''rust''],
      se_parse_file = (\<lambda>_ _. Some ([], demo_tree)),
      se_extract = (\<lambda>_ _ _ _. []),
      se_search = find_sub,
      se_fsys = fs_of (\<lambda>_. Inr []),
      se_meta = (\<lambda>_. Some (Some 5000000000, 0))\<rparr>"

definition demo_file :: "path \<Rightarrow> file_symbols" where
  "demo_file p = \<lparr>fs_file = p, fs_symbols = [], fs_source = [], fs_tree = demo_tree\<rparr>"

definition demo_cfg :: "cache_manifest \<Rightarrow> cache_cfg" where
  "demo_cfg m0 =
     \<lparr>cc_path = (\<lambda>_. Some [Normal ''c.bin'']),
      cc_serialize = (\<lambda>m. if m = m0 then Inr ''e'' else Inl ''unsupported''),
      cc_deserialize = (\<lambda>s. if s = ''e'' then Inr m0 else Inl ''bad'')\<rparr>"

definition demo_manifest :: "file_symbols list \<Rightarrow> cache_manifest" where
  "demo_manifest results =
     \<lparr>manifest_version = CACHE_VERSION,
      manifest_files = map to_file_data (build_cache_entries scan_demo_env results [RootDir])\<rparr>"

lemma demo_codec [simp]: "codec_ok (demo_cfg m0)"
  by (simp add: codec_ok_def demo_cfg_def)

lemma demo_miss: "cache_hit scan_demo_env (demo_cfg m0) plain_disk [RootDir] = None"
  by (simp add: cache_hit_def demo_cfg_def cache_load_def disk_read_def plain_disk_def)

lemma demo_stamped [simp]: "all_stamped scan_demo_env [RootDir] results"
  by (simp add: all_stamped_def scan_demo_env_def file_metadata_def list_all_iff)

lemma demo_store:
  "fst (cache_store (cc_serialize (demo_cfg (demo_manifest results))) plain_disk [Normal ''c.bin'']
     (build_cache_entries scan_demo_env results [RootDir])) = None"
  by (simp add: cache_store_def demo_cfg_def demo_manifest_def disk_write_def plain_disk_def)

lemma demo_scan:
  "scan_project scan_demo_env [RootDir] None =
     Inr [demo_file [Normal ''a.rs''], demo_file [Normal ''src'', Normal ''b.rs'']]"
  "scan_project scan_demo_env [RootDir] (Some [Normal ''src'']) =
     Inr [demo_file [Normal ''src'', Normal ''b.rs'']]"
  by code_simp+

theorem cached_scan_transparent_witness:
  "\<exists>d'. scan_project_cached scan_demo_env
      (demo_cfg (demo_manifest [demo_file [Normal ''a.rs''], demo_file [Normal ''src'', Normal ''b.rs'']]))
      d' [RootDir] None True =
    (Inr [demo_file [Normal ''a.rs''], demo_file [Normal ''src'', Normal ''b.rs'']], d')"
proof -
  let ?rs = "[demo_file [Normal ''a.rs''], demo_file [Normal ''src'', Normal ''b.rs'']]"
  let ?cfg = "demo_cfg (demo_manifest ?rs)"
  obtain d' where run: "scan_project_cached scan_demo_env ?cfg plain_disk [RootDir] None True = (Inr ?rs, d')"
    by (simp add: scan_project_cached_def demo_miss demo_scan) (simp add: demo_cfg_def)
  have "cc_path ?cfg [RootDir] = Some [Normal ''c.bin'']" "read_fault plain_disk [Normal ''c.bin''] = None"
    by (simp_all add: demo_cfg_def plain_disk_def)
  from cached_scan_transparent[OF demo_codec this run demo_miss demo_stamped demo_store]
  show ?thesis by blast
qed

theorem scoped_scan_poisons_cache_witness:
  "\<exists>d'. scan_project_cached scan_demo_env (demo_cfg (demo_manifest [demo_file [Normal ''src'', Normal ''b.rs'']]))
      d' [RootDir] None True = (Inr [demo_file [Normal ''src'', Normal ''b.rs'']], d') \<and>
    scan_project scan_demo_env [RootDir] None \<noteq> Inr [demo_file [Normal ''src'', Normal ''b.rs'']]"
proof -
  let ?rs = "[demo_file [Normal ''src'', Normal ''b.rs'']]"
  let ?cfg = "demo_cfg (demo_manifest ?rs)"
  obtain d' where run:
    "scan_project_cached scan_demo_env ?cfg plain_disk [RootDir] (Some [Normal ''src'']) True = (Inr ?rs, d')"
    by (simp add: scan_project_cached_def demo_miss demo_scan) (simp add: demo_cfg_def)
  have "cc_path ?cfg [RootDir] = Some [Normal ''c.bin'']" "read_fault plain_disk [Normal ''c.bin''] = None"
    by (simp_all add: demo_cfg_def plain_disk_def)
  from scoped_scan_poisons_cache[OF demo_codec this demo_miss run demo_stamped demo_store]
  show ?thesis by (auto simp: demo_scan)
qed

theorem scan_with_filter_spec_witness:
  "scan_with_filter scan_demo_env [RootDir] None ''f'' =
    Inr (filter (\<lambda>r. \<exists>d i. read_file (se_fsys scan_demo_env) (path_join [RootDir] (fs_file r)) = Inr d \<and>
           ''f'' \<noteq> [] \<and> standalone_at d ''f'' i)
      [demo_file [Normal ''a.rs''], demo_file [Normal ''src'', Normal ''b.rs'']])"
  by (rule scan_with_filter_spec) (simp_all add: demo_scan, simp_all add: scan_demo_env_def
      std_find.leftmost_search_axioms)

text \<open>
  A cache hit returns only files that are in the cache: a file created after the
  cache was written is not scanned, because the validity check looks at cached entries only.
\<close>

theorem cache_hit_sees_only_cached:
  assumes "cache_hit env cfg d root = Some cached"
    and "scan_project_cached env cfg d root scope True = (Inr results, d')"
  shows "set (map fs_file results) \<subseteq> set (map cf_path cached) \<and> d' = d"
  using assms
  by (fastforce simp: scan_project_cached_def rebuild_from_cache_def dest: rebuild_one_file)

theorem cache_hit_sees_only_cached_witness:
  "\<exists>cfg d rs. scan_project_cached scan_demo_env cfg d [RootDir] None True = (Inr rs, d) \<and>
    set (map fs_file rs) \<subseteq> {[Normal ''a.rs'']} \<and> scan_project scan_demo_env [RootDir] None \<noteq> Inr rs"
proof -
  let ?rs = "[demo_file [Normal ''a.rs'']]"
  let ?cfg = "demo_cfg (demo_manifest ?rs)"
  let ?d = "plain_disk\<lparr>disk_files := [[Normal ''c.bin''] \<mapsto> ''e'']\<rparr>"
  let ?cached = "build_cache_entries scan_demo_env ?rs [RootDir]"
  have "cache_load (cc_deserialize ?cfg) ?d [Normal ''c.bin''] = Inr ?cached"
    by (simp add: cache_load_def disk_read_def plain_disk_def demo_cfg_def demo_manifest_def map_idI)
  then have hit: "cache_hit scan_demo_env ?cfg ?d [RootDir] = Some ?cached"
    by (simp add: cache_hit_def cache_entries_valid) (simp add: demo_cfg_def cache_entries_valid)
  obtain rs where run: "scan_project_cached scan_demo_env ?cfg ?d [RootDir] None True = (Inr rs, ?d)"
    by (simp add: scan_project_cached_def hit)
  have "set (map cf_path ?cached) \<subseteq> {[Normal ''a.rs'']}"
    by (auto simp: build_cache_entries_def cache_entry_def demo_file_def split: option.splits)
  with cache_hit_sees_only_cached[OF hit run] have "set (map fs_file rs) \<subseteq> {[Normal ''a.rs'']}"
    by blast
  moreover from this have "scan_project scan_demo_env [RootDir] None \<noteq> Inr rs"
    by (auto simp: demo_scan demo_file_def)
  ultimately show ?thesis using run by blast
qed

end
