(* ===== verification/Refs.thy ===== *)
theory Refs
  imports Languages Syntax_Tree
begin

text \<open>
  \<open>refs.rs\<close> of codequery-index: reference extraction from a parse tree, the
  Rust-specific walk (imports, calls, type usages, assignments, calls inside macro token
  trees) and the generic walk for other languages. A walk returns the references it pushes, in
  order; the parent of a node is passed down where the code asks for \<open>node.parent()\<close>.
\<close>

section \<open>Word lists\<close>

definition rust_macro_names :: "string list" where
  "rust_macro_names =
     [''assert'', ''assert_eq'', ''assert_ne'', ''debug_assert'', ''debug_assert_eq'',
      ''debug_assert_ne'', ''println'', ''print'', ''eprintln'', ''eprint'', ''format'', ''write'',
      ''writeln'', ''panic'', ''todo'', ''unimplemented'', ''unreachable'', ''vec'', ''cfg'',
      ''include'', ''include_str'', ''include_bytes'', ''env'', ''option_env'', ''concat'',
      ''line'', ''column'', ''file'', ''stringify'', ''module_path'', ''compile_error'']"

definition is_rust_macro_name :: "string \<Rightarrow> bool" where
  "is_rust_macro_name name \<longleftrightarrow> name \<in> set rust_macro_names"

definition rust_primitives :: "string list" where
  "rust_primitives =
     [''bool'', ''char'', ''f32'', ''f64'', ''i8'', ''i16'', ''i32'', ''i64'', ''i128'', ''isize'',
      ''u8'', ''u16'', ''u32'', ''u64'', ''u128'', ''usize'', ''str'', ''Self'']"

definition is_rust_primitive :: "string \<Rightarrow> bool" where
  "is_rust_primitive name \<longleftrightarrow> name \<in> set rust_primitives"

definition is_use_keyword :: "string \<Rightarrow> bool" where
  "is_use_keyword name \<longleftrightarrow> name \<in> set [''crate'', ''self'', ''super'']"

definition common_keywords :: "string list" where
  "common_keywords =
     [''true'', ''false'', ''null'', ''None'', ''self'', ''this'', ''super'', ''return'', ''break'',
      ''continue'', ''if'', ''else'', ''for'', ''while'', ''match'', ''let'', ''mut'', ''ref'',
      ''pub'', ''fn'', ''struct'', ''enum'', ''trait'', ''impl'', ''use'', ''mod'', ''const'',
      ''static'', ''type'', ''where'', ''as'', ''in'']"

definition is_common_keyword :: "string \<Rightarrow> bool" where
  "is_common_keyword name \<longleftrightarrow> name \<in> set common_keywords"

section \<open>Building a reference\<close>

type_synonym enclosing = "(string \<times> symbol_kind) option"

definition line_at :: "string list \<Rightarrow> nat \<Rightarrow> string" where
  "line_at lines row = (case get_nth lines row of Some l \<Rightarrow> l | None \<Rightarrow> [])"

definition make_ref ::
  "path \<Rightarrow> string list \<Rightarrow> enclosing \<Rightarrow> reference_kind \<Rightarrow> node \<Rightarrow> reference" where
  "make_ref file lines encl kind n =
     \<lparr>ref_file = file, ref_line = start_row n + 1, ref_column = start_column n,
      ref_kind = kind, ref_context = line_at lines (start_row n),
      ref_caller = map_option fst encl, ref_caller_kind = map_option snd encl\<rparr>"

definition is_name_child :: "node \<Rightarrow> node \<Rightarrow> bool" where
  "is_name_child parent n =
     (case child_by_field_name parent ''name'' of
        None \<Rightarrow> False
      | Some name_child \<Rightarrow> start_byte name_child = start_byte n \<and> end_byte name_child = end_byte n)"

definition is_definition_name :: "node option \<Rightarrow> node \<Rightarrow> bool" where
  "is_definition_name parent n =
     (case parent of
        None \<Rightarrow> False
      | Some p \<Rightarrow>
          if node_kind p \<in> set [''struct_item'', ''enum_item'', ''trait_item'', ''type_item'', ''union_item'']
          then is_name_child p n else False)"

definition is_generic_definition_name :: "node option \<Rightarrow> node \<Rightarrow> bool" where
  "is_generic_definition_name parent n =
     (case parent of
        None \<Rightarrow> False
      | Some p \<Rightarrow>
          if contains_sub (node_kind p) ''definition'' \<or> contains_sub (node_kind p) ''declaration''
             \<or> contains_sub (node_kind p) ''_item''
          then is_name_child p n else False)"

section \<open>The Rust walk\<close>

fun walk_use_tree ::
  "node \<Rightarrow> string \<Rightarrow> path \<Rightarrow> string list \<Rightarrow> enclosing \<Rightarrow> reference list" where
  "walk_use_tree (Node k f nm er mi r c re ce sb eb ch) source file lines encl =
     (let n = Node k f nm er mi r c re ce sb eb ch in
      (if k = ''identifier'' \<or> k = ''type_identifier'' then
         (case node_text n source of
            Some text \<Rightarrow> if \<not> is_use_keyword text then [make_ref file lines encl Import n] else []
          | None \<Rightarrow> [])
       else [])
      @ concat (map (\<lambda>child. walk_use_tree child source file lines encl) ch))"

definition extract_use_refs ::
  "node \<Rightarrow> string \<Rightarrow> path \<Rightarrow> string list \<Rightarrow> enclosing \<Rightarrow> reference list" where
  "extract_use_refs n source file lines encl = walk_use_tree n source file lines encl"

definition extract_call_ref ::
  "node \<Rightarrow> string \<Rightarrow> path \<Rightarrow> string list \<Rightarrow> enclosing \<Rightarrow> reference list" where
  "extract_call_ref func_node source file lines encl =
     (let target =
        (if node_kind func_node = ''identifier'' then Some func_node
         else if node_kind func_node = ''scoped_identifier'' then child_by_field_name func_node ''name''
         else if node_kind func_node = ''field_expression'' then child_by_field_name func_node ''field''
         else None) in
      (case target of
         None \<Rightarrow> []
       | Some name_node \<Rightarrow>
           if node_text name_node source \<noteq> None then [make_ref file lines encl Call name_node] else []))"

definition extract_assignment_ref ::
  "node \<Rightarrow> string \<Rightarrow> path \<Rightarrow> string list \<Rightarrow> enclosing \<Rightarrow> reference list" where
  "extract_assignment_ref left_node source file lines encl =
     (let target =
        (if node_kind left_node = ''identifier'' then Some left_node
         else if node_kind left_node = ''field_expression'' then child_by_field_name left_node ''field''
         else None) in
      (case target of
         None \<Rightarrow> []
       | Some name_node \<Rightarrow>
           if node_text name_node source \<noteq> None
           then [make_ref file lines encl Assignment name_node] else []))"

text \<open>One identifier of a token tree, with the sibling that follows it.\<close>

definition token_call ::
  "node \<Rightarrow> node option \<Rightarrow> string \<Rightarrow> path \<Rightarrow> string list \<Rightarrow> enclosing \<Rightarrow> reference list" where
  "token_call child following source file lines encl =
     (if node_kind child = ''identifier'' then
        (case node_text child source of
           None \<Rightarrow> []
         | Some text \<Rightarrow>
             if \<not> is_common_keyword text \<and> \<not> is_rust_macro_name text then
               (case following of
                  Some nx \<Rightarrow>
                    if node_kind nx = ''token_tree'' \<or> node_kind nx = ''(''
                    then [make_ref file lines encl Call child] else []
                | None \<Rightarrow> [])
             else [])
      else [])"

fun extract_token_tree_calls ::
  "node \<Rightarrow> string \<Rightarrow> path \<Rightarrow> string list \<Rightarrow> enclosing \<Rightarrow> reference list"
and token_children ::
  "node list \<Rightarrow> string \<Rightarrow> path \<Rightarrow> string list \<Rightarrow> enclosing \<Rightarrow> reference list" where
  "extract_token_tree_calls (Node k f nm er mi r c re ce sb eb ch) source file lines encl =
     token_children ch source file lines encl"
| "token_children [] source file lines encl = []"
| "token_children (child # rest) source file lines encl =
     (if node_is_error child \<or> node_is_missing child then token_children rest source file lines encl
      else
        token_call child (case rest of [] \<Rightarrow> None | nx # _ \<Rightarrow> Some nx) source file lines encl
        @ (if node_kind child = ''token_tree''
           then extract_token_tree_calls child source file lines encl else [])
        @ token_children rest source file lines encl)"

definition enclosing_of :: "node \<Rightarrow> string \<Rightarrow> enclosing" where
  "enclosing_of n source =
     (if node_kind n = ''function_item'' then
        map_option (\<lambda>name. (name, Function))
          (Option.bind (child_by_field_name n ''name'') (\<lambda>m. node_text m source))
      else None)"

definition or_else :: "'a option \<Rightarrow> 'a option \<Rightarrow> 'a option" where
  "or_else a b = (case a of None \<Rightarrow> b | Some _ \<Rightarrow> a)"

definition type_ref ::
  "node option \<Rightarrow> node \<Rightarrow> string \<Rightarrow> path \<Rightarrow> string list \<Rightarrow> enclosing \<Rightarrow> reference list" where
  "type_ref parent n source file lines encl =
     (if \<not> is_definition_name parent n then
        (case node_text n source of
           Some text \<Rightarrow>
             if \<not> is_rust_primitive text then [make_ref file lines encl TypeUsage n] else []
         | None \<Rightarrow> [])
      else [])"

fun walk_rust_node ::
  "node option \<Rightarrow> node \<Rightarrow> string \<Rightarrow> path \<Rightarrow> string list \<Rightarrow> enclosing \<Rightarrow> reference list" where
  "walk_rust_node parent (Node k f nm er mi r c re ce sb eb ch) source file lines encl =
     (let n = Node k f nm er mi r c re ce sb eb ch;
          current = or_else (enclosing_of n source) encl in
      if k = ''use_declaration'' then extract_use_refs n source file lines current
      else if k = ''type_identifier'' then type_ref parent n source file lines current
      else if k = ''token_tree'' then extract_token_tree_calls n source file lines current
      else
        (if k = ''call_expression'' then
           (case child_by_field_name n ''function'' of
              Some func_node \<Rightarrow> extract_call_ref func_node source file lines current
            | None \<Rightarrow> [])
         else if k = ''assignment_expression'' \<or> k = ''compound_assignment_expr'' then
           (case child_by_field_name n ''left'' of
              Some left \<Rightarrow> extract_assignment_ref left source file lines current
            | None \<Rightarrow> [])
         else [])
        @ concat (map (\<lambda>child.
            if node_is_error child \<or> node_is_missing child then []
            else walk_rust_node (Some n) child source file lines current) ch))"

definition extract_rust_references ::
  "string \<Rightarrow> node \<Rightarrow> path \<Rightarrow> string list \<Rightarrow> reference list" where
  "extract_rust_references source tree file lines =
     walk_rust_node None tree source file lines None"

section \<open>The generic walk\<close>

definition generic_ref ::
  "node option \<Rightarrow> node \<Rightarrow> string \<Rightarrow> path \<Rightarrow> string list \<Rightarrow> reference list" where
  "generic_ref parent n source file lines =
     (if node_kind n = ''identifier'' \<and> \<not> is_generic_definition_name parent n then
        (case node_text n source of
           Some text \<Rightarrow>
             if \<not> is_common_keyword text then [make_ref file lines None Call n] else []
         | None \<Rightarrow> [])
      else [])"

fun walk_generic_node ::
  "node option \<Rightarrow> node \<Rightarrow> string \<Rightarrow> path \<Rightarrow> string list \<Rightarrow> reference list" where
  "walk_generic_node parent (Node k f nm er mi r c re ce sb eb ch) source file lines =
     (let n = Node k f nm er mi r c re ce sb eb ch in
      generic_ref parent n source file lines
      @ concat (map (\<lambda>child.
          if node_is_error child \<or> node_is_missing child then []
          else walk_generic_node (Some n) child source file lines) ch))"

definition extract_generic_references ::
  "string \<Rightarrow> node \<Rightarrow> path \<Rightarrow> string list \<Rightarrow> reference list" where
  "extract_generic_references source tree file lines =
     walk_generic_node None tree source file lines"

definition extract_references ::
  "string \<Rightarrow> node \<Rightarrow> path \<Rightarrow> language \<Rightarrow> reference list" where
  "extract_references source tree file language =
     (let lines = str_lines source in
      if language = Rust then extract_rust_references source tree file lines
      else extract_generic_references source tree file lines)"

section \<open>What the walks collect\<close>

text \<open>The nodes the Rust walk visits, with their parent and the enclosing function, and
  what the walk pushes at one of them. The generic walk visits every node that is not
  below an error.\<close>

fun rust_visits ::
  "string \<Rightarrow> node option \<Rightarrow> enclosing \<Rightarrow> node \<Rightarrow> (node option \<times> node \<times> enclosing) list" where
  "rust_visits source parent encl (Node k f nm er mi r c re ce sb eb ch) =
     (let n = Node k f nm er mi r c re ce sb eb ch;
          current = or_else (enclosing_of n source) encl in
      (parent, n, current) #
      (if k \<in> set [''use_declaration'', ''type_identifier'', ''token_tree''] then []
       else concat (map (\<lambda>child.
          if node_is_error child \<or> node_is_missing child then []
          else rust_visits source (Some n) current child) ch)))"

definition own_refs ::
  "string \<Rightarrow> path \<Rightarrow> string list \<Rightarrow> node option \<times> node \<times> enclosing \<Rightarrow> reference list" where
  "own_refs source file lines v =
     (case v of (parent, n, encl) \<Rightarrow>
        if node_kind n = ''use_declaration'' then extract_use_refs n source file lines encl
        else if node_kind n = ''type_identifier'' then type_ref parent n source file lines encl
        else if node_kind n = ''token_tree'' then extract_token_tree_calls n source file lines encl
        else if node_kind n = ''call_expression'' then
          (case child_by_field_name n ''function'' of
             Some func_node \<Rightarrow> extract_call_ref func_node source file lines encl
           | None \<Rightarrow> [])
        else if node_kind n = ''assignment_expression'' \<or> node_kind n = ''compound_assignment_expr'' then
          (case child_by_field_name n ''left'' of
             Some left \<Rightarrow> extract_assignment_ref left source file lines encl
           | None \<Rightarrow> [])
        else [])"

lemmas own_refs_at = own_refs_def[of _ _ _ "(parent, n, encl)" for parent n encl, unfolded prod.case]

fun live_nodes :: "node option \<Rightarrow> node \<Rightarrow> (node option \<times> node) list" where
  "live_nodes parent (Node k f nm er mi r c re ce sb eb ch) =
     (let n = Node k f nm er mi r c re ce sb eb ch in
      (parent, n) # concat (map (\<lambda>child.
          if node_is_error child \<or> node_is_missing child then []
          else live_nodes (Some n) child) ch))"

lemma concat_map_concat_map:
  "(\<And>x. x \<in> set xs \<Longrightarrow> f x = concat (map g (h x))) \<Longrightarrow>
     concat (map f xs) = concat (map g (concat (map h xs)))"
  by (induction xs) auto

lemma walk_rust_visits:
  "walk_rust_node parent n source file lines encl =
     concat (map (own_refs source file lines) (rust_visits source parent encl n))"
proof (induction n arbitrary: parent encl)
  case (Node k f nm er mi r c re ce sb eb ch)
  define cur where "cur = or_else (enclosing_of (Node k f nm er mi r c re ce sb eb ch) source) encl"
  define me where "me = Some (Node k f nm er mi r c re ce sb eb ch)"
  have "concat (map (\<lambda>child. if node_is_error child \<or> node_is_missing child then []
            else walk_rust_node me child source file lines cur) ch)
      = concat (map (own_refs source file lines) (concat (map (\<lambda>child.
            if node_is_error child \<or> node_is_missing child then []
            else rust_visits source me cur child) ch)))"
    by (rule concat_map_concat_map) (auto simp: Node.IH)
  from this[unfolded cur_def me_def] show ?case
    by (simp add: Let_def own_refs_at split: option.splits)
qed

lemma walk_generic_live:
  "walk_generic_node parent n source file lines =
     concat (map (\<lambda>(p, m). generic_ref p m source file lines) (live_nodes parent n))"
proof (induction n arbitrary: parent)
  case (Node k f nm er mi r c re ce sb eb ch)
  define me where "me = Some (Node k f nm er mi r c re ce sb eb ch)"
  have "concat (map (\<lambda>child. if node_is_error child \<or> node_is_missing child then []
            else walk_generic_node me child source file lines) ch)
      = concat (map (\<lambda>(p, m). generic_ref p m source file lines) (concat (map (\<lambda>child.
            if node_is_error child \<or> node_is_missing child then []
            else live_nodes me child) ch)))"
    by (rule concat_map_concat_map) (auto simp: Node.IH)
  from this[unfolded me_def] show ?case by (simp add: Let_def)
qed

lemma rust_visits_subtrees:
  "(p, m, e) \<in> set (rust_visits source parent encl n) \<Longrightarrow> m \<in> set (subtrees n)"
proof (induction n arbitrary: parent encl)
  case (Node k f nm er mi r c re ce sb eb ch)
  then show ?case by (auto simp: Let_def split: if_splits)
qed

section \<open>Every reference sits at a node\<close>

text \<open>What the node of a reference of each kind must be, with its text.\<close>

definition ref_kind_ok :: "reference_kind \<Rightarrow> node \<Rightarrow> string \<Rightarrow> bool" where
  "ref_kind_ok k m t =
     (case k of
        Import \<Rightarrow> node_kind m \<in> {''identifier'', ''type_identifier''} \<and> \<not> is_use_keyword t
      | TypeUsage \<Rightarrow> node_kind m = ''type_identifier'' \<and> \<not> is_rust_primitive t
      | Call \<Rightarrow> True
      | Assignment \<Rightarrow> True
      | Definition \<Rightarrow> False)"

definition ref_at :: "string \<Rightarrow> path \<Rightarrow> string list \<Rightarrow> enclosing \<Rightarrow> node \<Rightarrow> reference \<Rightarrow> bool" where
  "ref_at source file lines encl a r \<longleftrightarrow>
     (\<exists>m t. m \<in> set (subtrees a) \<and> node_text m source = Some t \<and>
        r = make_ref file lines encl (ref_kind r) m \<and> ref_kind_ok (ref_kind r) m t)"

lemma ref_kind_make_ref [simp]: "ref_kind (make_ref file lines encl k n) = k"
  by (simp add: make_ref_def)

lemma ref_atI:
  "m \<in> set (subtrees a) \<Longrightarrow> node_text m source = Some t \<Longrightarrow> ref_kind_ok k m t \<Longrightarrow>
     ref_at source file lines encl a (make_ref file lines encl k m)"
  unfolding ref_at_def by (intro exI[of _ m] exI[of _ t]) simp

lemma ref_at_child:
  "ref_at source file lines encl c r \<Longrightarrow> c \<in> set (node_children a) \<Longrightarrow>
     ref_at source file lines encl a r"
  unfolding ref_at_def using subtrees_child by blast

lemma walk_use_tree_at:
  "r \<in> set (walk_use_tree n source file lines encl) \<Longrightarrow> ref_at source file lines encl n r"
proof (induction n)
  case (Node k f nm er mi ro c re ce sb eb ch)
  let ?n = "Node k f nm er mi ro c re ce sb eb ch"
  from Node.prems consider
      (own) t where "k = ''identifier'' \<or> k = ''type_identifier''" "node_text ?n source = Some t"
        "\<not> is_use_keyword t" "r = make_ref file lines encl Import ?n"
    | (child) d where "d \<in> set ch" "r \<in> set (walk_use_tree d source file lines encl)"
    by (cases "node_text ?n source"; cases "k = ''identifier'' \<or> k = ''type_identifier''")
      (auto simp: Let_def split: if_split_asm)
  then show ?case
  proof cases
    case own
    then show ?thesis by (auto intro!: ref_atI simp: ref_kind_ok_def)
  next
    case child
    with Node.IH have "ref_at source file lines encl d r" by blast
    then show ?thesis by (rule ref_at_child) (simp add: child)
  qed
qed

lemma token_call_at:
  "r \<in> set (token_call d nx source file lines encl) \<Longrightarrow> ref_at source file lines encl d r"
  by (simp only: token_call_def list.set empty_iff insert_iff split: if_split_asm option.split_asm)
    (auto simp: ref_kind_ok_def intro!: ref_atI)

lemma token_tree_calls_at:
  "r \<in> set (extract_token_tree_calls n source file lines encl) \<Longrightarrow> ref_at source file lines encl n r"
  and "r \<in> set (token_children ch source file lines encl) \<Longrightarrow>
     \<exists>d \<in> set ch. ref_at source file lines encl d r"
proof (induction rule: extract_token_tree_calls_token_children.induct)
  case (1 k f nm er mi ro c sb eb ch)
  then show ?case by (auto intro: ref_at_child)
next
  case (3 child rest)
  then show ?case by (auto dest: token_call_at split: if_splits)
qed simp

lemma extract_call_ref_at:
  "r \<in> set (extract_call_ref g source file lines encl) \<Longrightarrow> ref_at source file lines encl g r"
  by (auto simp: extract_call_ref_def ref_kind_ok_def split: if_splits option.splits
      intro!: ref_atI dest: child_by_field_name_subtree[OF sym])

lemma extract_assignment_ref_at:
  "r \<in> set (extract_assignment_ref g source file lines encl) \<Longrightarrow> ref_at source file lines encl g r"
  by (auto simp: extract_assignment_ref_def ref_kind_ok_def split: if_splits option.splits
      intro!: ref_atI dest: child_by_field_name_subtree[OF sym])

lemma type_ref_at:
  "node_kind n = ''type_identifier'' \<Longrightarrow> r \<in> set (type_ref p n source file lines encl) \<Longrightarrow>
     ref_at source file lines encl n r"
  by (simp only: type_ref_def list.set empty_iff insert_iff split: if_split_asm option.split_asm)
    (auto simp: ref_kind_ok_def intro!: ref_atI)

lemma own_refs_located:
  assumes "r \<in> set (own_refs source file lines (p, n, encl))"
  shows "ref_at source file lines encl n r"
proof -
  have child: "ref_at source file lines encl n r"
    if "child_by_field_name n f = Some g" "ref_at source file lines encl g r" for f g
    using that child_by_field_name_child ref_at_child by blast
  from assms show ?thesis
    by (simp only: own_refs_at extract_use_refs_def list.set empty_iff split: if_split_asm option.split_asm)
      (auto intro: walk_use_tree_at type_ref_at token_tree_calls_at(1) child
        dest: extract_call_ref_at extract_assignment_ref_at)
qed

text \<open>The enclosing function the walk carries is a \<open>function_item\<close> above the node.\<close>

lemma rust_visits_enclosing:
  assumes "(p, m, Some (nm, sk)) \<in> set (rust_visits source parent encl n)"
  shows "encl = Some (nm, sk) \<or>
    (\<exists>g \<in> set (subtrees n). enclosing_of g source = Some (nm, sk) \<and> m \<in> set (subtrees g))"
  using assms
proof (induction n arbitrary: parent encl)
  case (Node k f nm' er mi ro c re ce sb eb ch)
  let ?n = "Node k f nm' er mi ro c re ce sb eb ch"
  let ?cur = "or_else (enclosing_of ?n source) encl"
  have sub: "m \<in> set (subtrees ?n)" using rust_visits_subtrees[OF Node.prems] .
  from Node.prems consider (own) "?cur = Some (nm, sk)"
    | (child) d where "d \<in> set ch" "(p, m, Some (nm, sk)) \<in> set (rust_visits source (Some ?n) ?cur d)"
    by (auto simp: Let_def split: if_splits)
  then show ?case
  proof cases
    case own
    then show ?thesis
      using sub subtrees_self[of ?n] by (auto simp: or_else_def split: option.splits)
  next
    case child
    from Node.IH[OF child] have "?cur = Some (nm, sk) \<or>
      (\<exists>g \<in> set (subtrees d). enclosing_of g source = Some (nm, sk) \<and> m \<in> set (subtrees g))" .
    moreover have "set (subtrees d) \<subseteq> set (subtrees ?n)" using child(1) subtrees_child by auto
    ultimately show ?thesis
      using sub subtrees_self[of ?n] by (auto simp: or_else_def split: option.splits)
  qed
qed

text \<open>
  C5: every reference extracted from a Rust file points at a node of its parse tree: its line
  and column are that node's, its context is that line of the source, the node's text is valid
  UTF-8 and fits the reference's kind (an import is an identifier other than \<open>crate\<close>,
  \<open>self\<close> and \<open>super\<close>; a type usage is a type identifier that is not a primitive), and the
  caller it names is a \<open>function_item\<close> whose subtree holds the node.
\<close>

theorem rust_references_located:
  assumes "r \<in> set (extract_references source tree file Rust)"
  shows "\<exists>m t. m \<in> set (subtrees tree) \<and> node_text m source = Some t \<and>
    ref_file r = file \<and> ref_line r = start_row m + 1 \<and> ref_column r = start_column m \<and>
    ref_context r = line_at (str_lines source) (start_row m) \<and> ref_kind_ok (ref_kind r) m t \<and>
    (\<forall>nm. ref_caller r = Some nm \<longrightarrow>
       (\<exists>g \<in> set (subtrees tree). enclosing_of g source = Some (nm, Function) \<and> m \<in> set (subtrees g)))"
proof -
  from assms obtain p a encl where v: "(p, a, encl) \<in> set (rust_visits source None None tree)"
    and own: "r \<in> set (own_refs source file (str_lines source) (p, a, encl))"
    by (auto simp: extract_references_def extract_rust_references_def walk_rust_visits)
  from own_refs_located[OF own] obtain m t where m: "m \<in> set (subtrees a)" "node_text m source = Some t"
    and r: "r = make_ref file (str_lines source) encl (ref_kind r) m" and ok: "ref_kind_ok (ref_kind r) m t"
    unfolding ref_at_def by blast
  have tree: "m \<in> set (subtrees tree)"
    using m(1) rust_visits_subtrees[OF v] subtrees_trans by blast
  have caller: "\<exists>g \<in> set (subtrees tree). enclosing_of g source = Some (nm, Function) \<and> m \<in> set (subtrees g)"
    if "ref_caller r = Some nm" for nm
  proof -
    from r that obtain sk where e: "encl = Some (nm, sk)"
      by (cases encl) (auto simp: make_ref_def dest!: arg_cong[of r _ ref_caller])
    from rust_visits_enclosing[OF v[unfolded e]] obtain g where
      g: "g \<in> set (subtrees tree)" "enclosing_of g source = Some (nm, sk)" "a \<in> set (subtrees g)" by auto
    then have "sk = Function" by (auto simp: enclosing_of_def split: if_splits)
    with g m(1) show ?thesis using subtrees_trans by blast
  qed
  have "ref_file r = file \<and> ref_line r = start_row m + 1 \<and> ref_column r = start_column m \<and>
      ref_context r = line_at (str_lines source) (start_row m)"
    by (subst (1 2 3 4) r) (simp add: make_ref_def)
  with m(2) tree ok caller show ?thesis by blast
qed

definition call_example :: node where
  "call_example =
     Node ''source_file'' None True False False 0 0 0 16 0 16
       [Node ''function_item'' None True False False 0 0 0 16 0 16
          [Node ''identifier'' (Some ''name'') True False False 0 3 0 4 3 4 [],
           Node ''call_expression'' None True False False 0 10 0 13 10 13
             [Node ''identifier'' (Some ''function'') True False False 0 10 0 11 10 11 []]]]"

theorem rust_references_located_witness:
  "\<exists>r \<in> set (extract_references ''fn f() -> { g() }'' call_example [Normal ''a.rs''] Rust).
     ref_caller r = Some ''f'' \<and> ref_column r = 10 \<and>
     (\<exists>m t. m \<in> set (subtrees call_example) \<and> node_text m ''fn f() -> { g() }'' = Some t \<and>
        ref_line r = start_row m + 1)"
proof -
  have refs: "extract_references ''fn f() -> { g() }'' call_example [Normal ''a.rs''] Rust =
      [\<lparr>ref_file = [Normal ''a.rs''], ref_line = 1, ref_column = 10, ref_kind = Call,
        ref_context = ''fn f() -> { g() }'', ref_caller = Some ''f'', ref_caller_kind = Some Function\<rparr>]"
    by code_simp
  then show ?thesis
    using rust_references_located[of _ "''fn f() -> { g() }''" call_example "[Normal ''a.rs'']"]
    by auto
qed

section \<open>The generic walk, exactly\<close>

definition generic_use :: "string \<Rightarrow> node option \<times> node \<Rightarrow> bool" where
  "generic_use source v =
     (case v of (parent, n) \<Rightarrow>
        node_kind n = ''identifier'' \<and> \<not> is_generic_definition_name parent n \<and>
        (case node_text n source of None \<Rightarrow> False | Some t \<Rightarrow> \<not> is_common_keyword t))"

lemma generic_ref_use:
  "generic_ref p n source file lines =
     (if generic_use source (p, n) then [make_ref file lines None Call n] else [])"
  by (simp add: generic_ref_def generic_use_def split: option.split)

lemma concat_map_if: "concat (map (\<lambda>x. if P x then [f x] else []) xs) = map f (filter P xs)"
  by (induction xs) auto

text \<open>
  For a language other than Rust the references are exactly the identifiers outside error
  subtrees, in the order of the tree, that are not the name of the definition, declaration or
  item directly above them and whose text is valid and no keyword; each is reported as a call
  without a caller.
\<close>

theorem generic_references_exact:
  "extract_generic_references source tree file lines =
     map (\<lambda>(_, n). make_ref file lines None Call n) (filter (generic_use source) (live_nodes None tree))"
proof -
  have "(\<lambda>(p, m). generic_ref p m source file lines) =
      (\<lambda>v. if generic_use source v then [(\<lambda>(_, n). make_ref file lines None Call n) v] else [])"
    by (auto simp: generic_ref_use)
  then show ?thesis
    by (simp add: extract_generic_references_def walk_generic_live concat_map_if)
qed

lemma extract_references_context:
  assumes "r \<in> set (extract_references source tree file lang)"
  shows "ref_file r = file \<and> 1 \<le> ref_line r \<and> ref_context r = line_at (str_lines source) (ref_line r - 1)"
proof -
  have made: "ref_file (make_ref file lines encl k n) = file \<and> 1 \<le> ref_line (make_ref file lines encl k n) \<and>
      ref_context (make_ref file lines encl k n) = line_at lines (ref_line (make_ref file lines encl k n) - 1)"
    for lines encl k n
    by (simp add: make_ref_def)
  show ?thesis
  proof (cases "lang = Rust")
    case True
    with assms obtain p a encl where "r \<in> set (own_refs source file (str_lines source) (p, a, encl))"
      by (auto simp: extract_references_def extract_rust_references_def walk_rust_visits)
    from own_refs_located[OF this] obtain m where "r = make_ref file (str_lines source) encl (ref_kind r) m"
      unfolding ref_at_def by blast
    with made show ?thesis by metis
  next
    case False
    then have "r \<in> set (extract_generic_references source tree file (str_lines source))"
      using assms by (auto simp: extract_references_def split: language.split_asm)
    then obtain n where "r = make_ref file (str_lines source) None Call n"
      by (auto simp: extract_generic_references_def walk_generic_live generic_ref_use split: if_split_asm)
    with made show ?thesis by metis
  qed
qed

end
