(* ===== verification/Resolver.thy ===== *)
theory Resolver
  imports Project Refs
begin

text \<open>
  codequery-resolve: the rules of a language and their process-level cache
  (\<open>plugin_rules.rs\<close>, \<open>rules.rs\<close>), graph construction (\<open>graph.rs\<close>), turning complete
  paths into references (\<open>resolve.rs\<close>) and the facade that groups files by language and falls
  back to syntactic references (\<open>resolver.rs\<close>). The stack-graph and grammar crates are
  parameters: the record \<open>stack_graphs\<close> has one field per call the code makes.
\<close>

section \<open>Results and errors\<close>

datatype resolve_error = RuleLoadError string | ResolutionTimeout string

primrec resolve_error_display :: "resolve_error \<Rightarrow> string" where
  "resolve_error_display (RuleLoadError m) = ''failed to load stack graph rules: '' @ m"
| "resolve_error_display (ResolutionTimeout d) = ''resolution timed out after '' @ d"

record resolved_reference =
  rr_file :: path
  rr_line :: nat
  rr_column :: nat
  rr_symbol :: string
  rr_def_file :: "path option"
  rr_def_line :: "nat option"
  rr_def_column :: "nat option"
  rr_resolution :: resolution

record resolution_result =
  res_references :: "resolved_reference list"
  res_warnings :: "string list"

section \<open>Rules of a language\<close>

text \<open>What the loader reads: the languages directory, the file system, the grammar loader and
  the rule compiler.\<close>

record 'l rules_env =
  re_languages_dir :: "path option"
  re_exists :: "path \<Rightarrow> bool"
  re_read :: "path \<Rightarrow> string option"
  re_grammar :: "string \<Rightarrow> string option"
  re_compile :: "string \<Rightarrow> string \<Rightarrow> string + 'l"

definition rules_path :: "path \<Rightarrow> string \<Rightarrow> path" where
  "rules_path dir name =
     path_join (path_join dir (path_of_string name)) [Normal ''stack-graphs.tsg'']"

definition has_plugin_rules :: "('l, 'z) rules_env_scheme \<Rightarrow> string \<Rightarrow> bool" where
  "has_plugin_rules env name =
     (case re_languages_dir env of None \<Rightarrow> False | Some dir \<Rightarrow> re_exists env (rules_path dir name))"

definition has_rules :: "('l, 'z) rules_env_scheme \<Rightarrow> language \<Rightarrow> bool" where
  "has_rules env lang = has_plugin_rules env (language_name lang)"

text \<open>The lines of a rule file that belong to a dialect; the others are left empty. The filter
  state is none outside a block.\<close>

definition dialect_step :: "string \<Rightarrow> bool option \<times> string \<Rightarrow> string \<Rightarrow> bool option \<times> string" where
  "dialect_step dialect st line =
     (case st of (flt, output) \<Rightarrow>
        let trimmed = str_trim (strip_all (white_space @ ['';'']) line) in
        if starts_with ''#dialect'' trimmed
        then (Some (str_trim (drop 8 trimmed) = dialect), output @ [CHR 0x0A])
        else if starts_with ''#end'' trimmed then (None, output @ [CHR 0x0A])
        else if (case flt of None \<Rightarrow> True | Some b \<Rightarrow> b) then (flt, output @ line @ [CHR 0x0A])
        else (flt, output @ [CHR 0x0A]))"

definition preprocess_dialect :: "string \<Rightarrow> string \<Rightarrow> string" where
  "preprocess_dialect source dialect =
     snd (foldl (dialect_step dialect) (None, []) (str_lines source))"

definition load_tsg_source :: "('l, 'z) rules_env_scheme \<Rightarrow> string \<Rightarrow> string option" where
  "load_tsg_source env name =
     (case re_languages_dir env of
        None \<Rightarrow> None
      | Some dir \<Rightarrow>
          (case re_read env (rules_path dir name) of
             None \<Rightarrow> None
           | Some source \<Rightarrow>
               if name = ''typescript'' then Some (preprocess_dialect source ''typescript'')
               else Some source))"

text \<open>The process-level cache is a map; \<open>None\<close> as a result means that no rules are
  installed. \<open>re_grammar\<close> gives the error of a grammar that does not load, if any.\<close>

type_synonym 'l plugin_cache = "string \<rightharpoonup> 'l"

definition load_plugin_rules ::
  "('l, 'z) rules_env_scheme \<Rightarrow> 'l plugin_cache \<Rightarrow> string \<Rightarrow> (resolve_error + 'l) option \<times> 'l plugin_cache" where
  "load_plugin_rules env cache name =
     (case cache name of
        Some cached \<Rightarrow> (Some (Inr cached), cache)
      | None \<Rightarrow>
          (case load_tsg_source env name of
             None \<Rightarrow> (None, cache)
           | Some tsg_source \<Rightarrow>
               (case re_grammar env name of
                  Some e \<Rightarrow> (Some (Inl (RuleLoadError (name @ '': failed to load grammar: '' @ e))), cache)
                | None \<Rightarrow>
                    (case re_compile env name tsg_source of
                       Inl e \<Rightarrow>
                         (Some (Inl (RuleLoadError (name @ '': failed to load TSG rules: '' @ e))), cache)
                     | Inr sgl \<Rightarrow> (Some (Inr sgl), cache(name \<mapsto> sgl))))))"

definition invalidate_cache :: "'l plugin_cache \<Rightarrow> string \<Rightarrow> 'l plugin_cache" where
  "invalidate_cache cache name = cache(name := None)"

definition invalidate_all :: "'l plugin_cache \<Rightarrow> 'l plugin_cache" where
  "invalidate_all cache = Map.empty"

section \<open>Graphs\<close>

record ('l, 'g, 'n) stack_graphs = "'l rules_env" +
  sg_new :: 'g
  sg_build_into :: "'l \<Rightarrow> 'g \<Rightarrow> path \<Rightarrow> string \<Rightarrow> node \<Rightarrow> 'g \<times> string option"
  sg_nodes :: "'g \<Rightarrow> 'n list"
  sg_is_reference :: "'g \<Rightarrow> 'n \<Rightarrow> bool"
  sg_symbol :: "'g \<Rightarrow> 'n \<Rightarrow> string option"
  sg_file_name :: "'g \<Rightarrow> 'n \<Rightarrow> string option"
  sg_span_start :: "'g \<Rightarrow> 'n \<Rightarrow> (nat \<times> nat) option"
  sg_complete_paths :: "'g \<Rightarrow> 'n \<Rightarrow> 'n list"

type_synonym graph_warning = "path \<times> string"

fun build_files ::
  "('l, 'g, 'n, 'z) stack_graphs_scheme \<Rightarrow> 'l \<Rightarrow> (path \<times> string \<times> node) list \<Rightarrow> 'g \<Rightarrow> graph_warning list
    \<Rightarrow> 'g \<times> graph_warning list" where
  "build_files env sgl [] graph warnings = (graph, warnings)"
| "build_files env sgl ((p, source, tree) # rest) graph warnings =
     (case sg_build_into env sgl graph p source tree of
        (graph', None) \<Rightarrow> build_files env sgl rest graph' warnings
      | (graph', Some err) \<Rightarrow> build_files env sgl rest graph' (warnings @ [(p, err)]))"

definition build_graph_by_name ::
  "('l, 'g, 'n, 'z) stack_graphs_scheme \<Rightarrow> 'l plugin_cache \<Rightarrow> (path \<times> string \<times> node) list \<Rightarrow> string
    \<Rightarrow> (resolve_error + 'g \<times> graph_warning list) \<times> 'l plugin_cache" where
  "build_graph_by_name env cache inputs lang_name =
     (case load_plugin_rules env cache lang_name of
        (None, cache') \<Rightarrow>
          (Inl (RuleLoadError (lang_name @ '': no stack graph rules available'')), cache')
      | (Some (Inl e), cache') \<Rightarrow>
          (Inl (RuleLoadError (lang_name @ '': '' @ resolve_error_display e)), cache')
      | (Some (Inr sgl), cache') \<Rightarrow> (Inr (build_files env sgl inputs (sg_new env) []), cache'))"

section \<open>References of a graph\<close>

definition find_reference_nodes ::
  "('l, 'g, 'n, 'z) stack_graphs_scheme \<Rightarrow> 'g \<Rightarrow> string \<Rightarrow> 'n list" where
  "find_reference_nodes env graph symbol_name =
     filter (\<lambda>n. sg_is_reference env graph n \<and> sg_symbol env graph n = Some symbol_name) (sg_nodes env graph)"

type_synonym location_triple = "path \<times> nat \<times> nat"
type_synonym dedup_key = "location_triple option \<times> location_triple"

definition extract_node_location ::
  "('l, 'g, 'n, 'z) stack_graphs_scheme \<Rightarrow> 'g \<Rightarrow> 'n \<Rightarrow> location_triple option" where
  "extract_node_location env graph n =
     (case sg_file_name env graph n of
        None \<Rightarrow> None
      | Some file_name \<Rightarrow>
          (case sg_span_start env graph n of
             None \<Rightarrow> None
           | Some (line, column) \<Rightarrow> Some (path_of_string file_name, line + 1, column)))"

definition resolved_ref :: "string \<Rightarrow> location_triple option \<Rightarrow> location_triple \<Rightarrow> resolved_reference" where
  "resolved_ref symbol_name ref_loc def_loc =
     (case (case ref_loc of None \<Rightarrow> (path_of_string ''<unknown>'', 0, 0) | Some l \<Rightarrow> l) of
        (rf, rl, rc) \<Rightarrow>
          (case def_loc of (def_file, def_line, def_col) \<Rightarrow>
             \<lparr>rr_file = rf, rr_line = rl, rr_column = rc, rr_symbol = symbol_name,
              rr_def_file = Some def_file, rr_def_line = Some def_line,
              rr_def_column = Some def_col, rr_resolution = Resolved\<rparr>))"

definition collect_resolved_path ::
  "('l, 'g, 'n, 'z) stack_graphs_scheme \<Rightarrow> 'g \<Rightarrow> location_triple option \<Rightarrow> string \<Rightarrow> 'n
    \<Rightarrow> dedup_key set \<times> resolved_reference list \<Rightarrow> dedup_key set \<times> resolved_reference list" where
  "collect_resolved_path env graph ref_loc symbol_name def_node st =
     (case st of (seen, results) \<Rightarrow>
        (case extract_node_location env graph def_node of
           None \<Rightarrow> (seen, results)
         | Some def_loc \<Rightarrow>
             if (ref_loc, def_loc) \<in> seen then (seen, results)
             else (insert (ref_loc, def_loc) seen, results @ [resolved_ref symbol_name ref_loc def_loc])))"

definition stitch_node ::
  "('l, 'g, 'n, 'z) stack_graphs_scheme \<Rightarrow> 'g \<Rightarrow> string \<Rightarrow> 'n
    \<Rightarrow> dedup_key set \<times> resolved_reference list \<Rightarrow> dedup_key set \<times> resolved_reference list" where
  "stitch_node env graph symbol_name ref_node st =
     fold (collect_resolved_path env graph (extract_node_location env graph ref_node) symbol_name)
       (sg_complete_paths env graph ref_node) st"

definition stitch_references ::
  "('l, 'g, 'n, 'z) stack_graphs_scheme \<Rightarrow> 'g \<Rightarrow> 'n list \<Rightarrow> string \<Rightarrow> resolved_reference list" where
  "stitch_references env graph reference_nodes symbol_name =
     snd (fold (stitch_node env graph symbol_name) reference_nodes ({}, []))"

definition resolve_references ::
  "('l, 'g, 'n, 'z) stack_graphs_scheme \<Rightarrow> 'g \<Rightarrow> string \<Rightarrow> resolve_error + resolved_reference list" where
  "resolve_references env graph symbol_name =
     (let reference_nodes = find_reference_nodes env graph symbol_name in
      if reference_nodes = [] then Inr []
      else Inr (stitch_references env graph reference_nodes symbol_name))"

section \<open>The facade\<close>

text \<open>The environment of the resolver adds the table of file extensions and the Unicode
  tables.\<close>

record ('l, 'g, 'n) resolver_env = "('l, 'g, 'n) stack_graphs" +
  rv_exts :: "string \<rightharpoonup> string"
  rv_alnum :: "string \<Rightarrow> bool"

definition MAX_STACK_GRAPH_FILES :: nat where
  "MAX_STACK_GRAPH_FILES = 200"

text \<open>The \<open>Debug\<close> form of a language, as the warnings print it.\<close>

primrec language_debug :: "language \<Rightarrow> string" where
  "language_debug Rust = ''Rust''"
| "language_debug TypeScript = ''TypeScript''"
| "language_debug JavaScript = ''JavaScript''"
| "language_debug Python = ''Python''"
| "language_debug Go = ''Go''"
| "language_debug C = ''C''"
| "language_debug Cpp = ''Cpp''"
| "language_debug Java = ''Java''"
| "language_debug Ruby = ''Ruby''"
| "language_debug Php = ''Php''"
| "language_debug CSharp = ''CSharp''"
| "language_debug Swift = ''Swift''"
| "language_debug Kotlin = ''Kotlin''"
| "language_debug Scala = ''Scala''"
| "language_debug Zig = ''Zig''"
| "language_debug Lua = ''Lua''"
| "language_debug Bash = ''Bash''"
| "language_debug Html = ''Html''"
| "language_debug Css = ''Css''"
| "language_debug Json = ''Json''"
| "language_debug Yaml = ''Yaml''"
| "language_debug Toml = ''Toml''"

type_synonym groups = "(language \<times> file_symbols list) list"

fun push_group :: "language \<Rightarrow> file_symbols \<Rightarrow> groups \<Rightarrow> groups" where
  "push_group lang fs [] = [(lang, [fs])]"
| "push_group lang fs ((l, fss) # gs) =
     (if l = lang then (l, fss @ [fs]) # gs else (l, fss) # push_group lang fs gs)"

definition group_by_language :: "(string \<rightharpoonup> string) \<Rightarrow> file_symbols list \<Rightarrow> groups" where
  "group_by_language exts scan_results =
     fold (\<lambda>fs gs. case language_for_file exts (fs_file fs) of
             None \<Rightarrow> gs | Some lang \<Rightarrow> push_group lang fs gs) scan_results []"

definition extract_ref_text :: "(string \<Rightarrow> bool) \<Rightarrow> string \<Rightarrow> nat \<Rightarrow> nat \<Rightarrow> string option" where
  "extract_ref_text alnum source line column =
     (case get_nth (str_lines source) (line - 1) of
        None \<Rightarrow> Some []
      | Some line_text \<Rightarrow>
          if length line_text \<le> column then Some []
          else map_option (ident_prefix alnum) (slice_from line_text column))"

definition syntactic_ref :: "string \<Rightarrow> reference \<Rightarrow> resolved_reference" where
  "syntactic_ref symbol r =
     \<lparr>rr_file = ref_file r, rr_line = ref_line r, rr_column = ref_column r, rr_symbol = symbol,
      rr_def_file = None, rr_def_line = None, rr_def_column = None, rr_resolution = Syntactic\<rparr>"

text \<open>The loop over the extracted references; none when a slice panics.\<close>

fun keep_refs ::
  "(string \<Rightarrow> bool) \<Rightarrow> string \<Rightarrow> string \<Rightarrow> (nat \<times> nat) option \<Rightarrow> reference list
    \<Rightarrow> resolved_reference list option" where
  "keep_refs alnum source symbol rng [] = Some []"
| "keep_refs alnum source symbol rng (r # rs) =
     (case extract_ref_text alnum source (ref_line r) (ref_column r) of
        None \<Rightarrow> None
      | Some ref_text \<Rightarrow>
          (case keep_refs alnum source symbol rng rs of
             None \<Rightarrow> None
           | Some results \<Rightarrow>
               if ref_text \<noteq> symbol then Some results
               else if (case rng of None \<Rightarrow> False
                        | Some (start, end_line) \<Rightarrow> ref_line r < start \<or> end_line < ref_line r)
               then Some results
               else Some (syntactic_ref symbol r # results)))"

definition syntactic_refs_for_file ::
  "('l, 'g, 'n, 'z) resolver_env_scheme \<Rightarrow> file_symbols \<Rightarrow> string \<Rightarrow> (nat \<times> nat) option
    \<Rightarrow> resolved_reference list option" where
  "syntactic_refs_for_file env fs symbol line_range =
     (case language_for_file (rv_exts env) (fs_file fs) of
        None \<Rightarrow> Some []
      | Some lang \<Rightarrow>
          keep_refs (rv_alnum env) (fs_source fs) symbol line_range
            (extract_references (fs_source fs) (fs_tree fs) (fs_file fs) lang))"

fun syntactic_refs_for_group ::
  "('l, 'g, 'n, 'z) resolver_env_scheme \<Rightarrow> file_symbols list \<Rightarrow> string \<Rightarrow> resolved_reference list option" where
  "syntactic_refs_for_group env [] symbol = Some []"
| "syntactic_refs_for_group env (fs # rest) symbol =
     (case language_for_file (rv_exts env) (fs_file fs) of
        None \<Rightarrow> syntactic_refs_for_group env rest symbol
      | Some lang \<Rightarrow>
          (case keep_refs (rv_alnum env) (fs_source fs) symbol None
                  (extract_references (fs_source fs) (fs_tree fs) (fs_file fs) lang) of
             None \<Rightarrow> None
           | Some results \<Rightarrow>
               map_option (\<lambda>more. results @ more) (syntactic_refs_for_group env rest symbol)))"

definition relevant_files :: "file_symbols list \<Rightarrow> string \<Rightarrow> file_symbols list" where
  "relevant_files fss symbol = filter (\<lambda>fs. contains_sub (fs_source fs) symbol) fss"

definition capped_warning :: "string \<Rightarrow> nat \<Rightarrow> graph_warning" where
  "capped_warning symbol n =
     (path_of_string ''<resolver>'',
      ''stack graph limited to '' @ dec MAX_STACK_GRAPH_FILES @ '' of '' @ dec n
      @ '' files containing '' @ CHR 0x27 # symbol @ CHR 0x27
      # ''. Use --semantic for full resolution on large projects.'')"

definition resolve_language_group ::
  "('l, 'g, 'n, 'z) resolver_env_scheme \<Rightarrow> 'l plugin_cache \<Rightarrow> file_symbols list \<Rightarrow> language \<Rightarrow> string
    \<Rightarrow> (resolve_error + resolved_reference list \<times> string list) \<times> 'l plugin_cache" where
  "resolve_language_group env cache fss lang symbol =
     (let relevant = relevant_files fss symbol;
          capped = (MAX_STACK_GRAPH_FILES < length relevant);
          graph_files = (if capped then take MAX_STACK_GRAPH_FILES relevant else relevant);
          graph_input = map (\<lambda>fs. (fs_file fs, fs_source fs, fs_tree fs)) graph_files in
      case build_graph_by_name env cache graph_input (language_name lang) of
        (Inl e, cache') \<Rightarrow> (Inl e, cache')
      | (Inr (graph, warnings), cache') \<Rightarrow>
          (let warnings' = (if capped then warnings @ [capped_warning symbol (length relevant)] else warnings);
               graph_warnings = map (\<lambda>(f, m). path_display f @ '': '' @ m) warnings' in
           case resolve_references env graph symbol of
             Inl e \<Rightarrow> (Inl e, cache')
           | Inr refs \<Rightarrow> (Inr (refs, graph_warnings), cache')))"

text \<open>One language group of \<open>resolve_internal\<close>: the references and warnings it adds and whether
  it used the syntactic fallback; none on a panic.\<close>

definition resolve_group ::
  "('l, 'g, 'n, 'z) resolver_env_scheme \<Rightarrow> 'l plugin_cache \<Rightarrow> language \<Rightarrow> file_symbols list \<Rightarrow> string
    \<Rightarrow> (resolved_reference list \<times> string list \<times> bool) option \<times> 'l plugin_cache" where
  "resolve_group env cache lang fss symbol =
     (if has_rules env lang then
        (case resolve_language_group env cache fss lang symbol of
           (Inr (refs, group_warnings), cache') \<Rightarrow>
             if refs = [] then
               (map_option (\<lambda>syntactic.
                  if syntactic \<noteq> [] then
                    (syntactic,
                     (language_debug lang @ '': stack graph found no references, using syntactic fallback'')
                     # group_warnings, True)
                  else ([], group_warnings, False)) (syntactic_refs_for_group env fss symbol), cache')
             else (Some (refs, group_warnings, False), cache')
         | (Inl e, cache') \<Rightarrow>
             (map_option (\<lambda>syntactic.
                (syntactic,
                 [language_debug lang @ '': stack graph failed ('' @ resolve_error_display e
                  @ ''), using syntactic fallback''], True)) (syntactic_refs_for_group env fss symbol), cache'))
      else
        (map_option (\<lambda>syntactic. (syntactic, [], True)) (syntactic_refs_for_group env fss symbol), cache))"

definition fallback_warning :: "bool \<Rightarrow> string list \<Rightarrow> string list" where
  "fallback_warning any_syntactic warnings =
     (if any_syntactic \<and> \<not> list_ex (\<lambda>w. contains_sub w ''syntactic fallback'') warnings
      then warnings @ [''some languages used syntactic fallback''] else warnings)"

text \<open>\<open>groups\<close> lists the entries of the hash map in the order it iterates.\<close>

fun resolve_groups ::
  "('l, 'g, 'n, 'z) resolver_env_scheme \<Rightarrow> 'l plugin_cache \<Rightarrow> groups \<Rightarrow> string
    \<Rightarrow> resolved_reference list \<times> string list \<times> bool \<Rightarrow> (resolved_reference list \<times> string list \<times> bool) option" where
  "resolve_groups env cache [] symbol acc = Some acc"
| "resolve_groups env cache ((lang, fss) # gs) symbol (all_refs, warnings, any_syntactic) =
     (case resolve_group env cache lang fss symbol of
        (None, cache') \<Rightarrow> None
      | (Some (refs, ws, syn), cache') \<Rightarrow>
          resolve_groups env cache' gs symbol (all_refs @ refs, warnings @ ws, any_syntactic \<or> syn))"

definition finish_result :: "resolved_reference list \<times> string list \<times> bool \<Rightarrow> resolution_result" where
  "finish_result t =
     (case t of (refs, warnings, any_syntactic) \<Rightarrow>
        \<lparr>res_references = refs, res_warnings = fallback_warning any_syntactic warnings\<rparr>)"

definition resolve_internal ::
  "('l, 'g, 'n, 'z) resolver_env_scheme \<Rightarrow> 'l plugin_cache \<Rightarrow> (groups \<Rightarrow> groups) \<Rightarrow> file_symbols list \<Rightarrow> string
    \<Rightarrow> resolution_result option" where
  "resolve_internal env cache order scan_results symbol =
     map_option finish_result
       (resolve_groups env cache (order (group_by_language (rv_exts env) scan_results)) symbol ([], [], False))"

definition resolve_refs ::
  "('l, 'g, 'n, 'z) resolver_env_scheme \<Rightarrow> 'l plugin_cache \<Rightarrow> (groups \<Rightarrow> groups) \<Rightarrow> file_symbols list \<Rightarrow> string
    \<Rightarrow> resolution_result option" where
  "resolve_refs env cache order scan_results symbol = resolve_internal env cache order scan_results symbol"

definition resolve_callers ::
  "('l, 'g, 'n, 'z) resolver_env_scheme \<Rightarrow> 'l plugin_cache \<Rightarrow> (groups \<Rightarrow> groups) \<Rightarrow> file_symbols list \<Rightarrow> string
    \<Rightarrow> resolution_result option" where
  "resolve_callers env cache order scan_results symbol =
     map_option (\<lambda>result. result\<lparr>res_references :=
         filter (\<lambda>r. rr_resolution r = Resolved) (res_references result)\<rparr>)
       (resolve_internal env cache order scan_results symbol)"

definition resolve_deps ::
  "('l, 'g, 'n, 'z) resolver_env_scheme \<Rightarrow> 'l plugin_cache \<Rightarrow> file_symbols list \<Rightarrow> path \<Rightarrow> nat \<times> nat \<Rightarrow> string
    \<Rightarrow> resolution_result option" where
  "resolve_deps env cache scan_results target_file rng symbol =
     (case List.find (\<lambda>fs. fs_file fs = target_file) scan_results of
        None \<Rightarrow>
          Some \<lparr>res_references = [],
            res_warnings = [''target file not found in scan results: '' @ path_display target_file]\<rparr>
      | Some target_fs \<Rightarrow>
          map_option finish_result
          (case language_for_file (rv_exts env) (fs_file target_fs) of
             None \<Rightarrow> Some ([], [], False)
           | Some lang \<Rightarrow>
               if has_rules env lang then
                 (case map_of (group_by_language (rv_exts env) scan_results) lang of
                    None \<Rightarrow> Some ([], [], False)
                  | Some fss \<Rightarrow>
                      (case fst (resolve_language_group env cache fss lang symbol) of
                         Inr (refs, group_warnings) \<Rightarrow>
                           (let filtered = filter (\<lambda>r. rr_file r = target_file
                                  \<and> fst rng \<le> rr_line r \<and> rr_line r \<le> snd rng) refs in
                            if filtered = [] then
                              map_option (\<lambda>syntactic.
                                if syntactic \<noteq> [] then
                                  (syntactic,
                                   (language_debug lang
                                    @ '': stack graph found no references, using syntactic fallback'')
                                   # group_warnings, True)
                                else ([], group_warnings, False))
                                (syntactic_refs_for_file env target_fs symbol (Some rng))
                            else Some (filtered, group_warnings, False))
                       | Inl e \<Rightarrow>
                           map_option (\<lambda>syntactic.
                             (syntactic, [language_debug lang @ '': '' @ resolve_error_display e], True))
                             (syntactic_refs_for_file env target_fs symbol (Some rng))))
               else
                 map_option (\<lambda>syntactic. (syntactic, [], True))
                   (syntactic_refs_for_file env target_fs symbol (Some rng))))"

section \<open>The rule cache\<close>

lemma load_plugin_rules_result_cong:
  "c name = c' name \<Longrightarrow> fst (load_plugin_rules env c name) = fst (load_plugin_rules env c' name)"
  by (simp add: load_plugin_rules_def split: option.splits sum.splits)

lemma load_plugin_rules_other:
  "n \<noteq> name \<Longrightarrow> snd (load_plugin_rules env c name) n = c n"
  by (simp add: load_plugin_rules_def split: option.splits sum.splits)

lemma build_graph_result_cong:
  assumes "c name = c' name"
  shows "fst (build_graph_by_name env c inputs name) = fst (build_graph_by_name env c' inputs name)"
proof -
  obtain x d where d: "load_plugin_rules env c name = (x, d)" by force
  moreover obtain d' where "load_plugin_rules env c' name = (x, d')"
    using load_plugin_rules_result_cong[of c name c' env, OF assms] d by (cases "load_plugin_rules env c' name") auto
  ultimately show ?thesis by (simp add: build_graph_by_name_def split: option.split sum.split)
qed

lemma build_graph_other:
  assumes "n \<noteq> name"
  shows "snd (build_graph_by_name env c inputs name) n = c n"
proof -
  obtain x d where d: "load_plugin_rules env c name = (x, d)" by force
  with load_plugin_rules_other[OF assms, of env c] have "d n = c n" by simp
  with d show ?thesis by (simp add: build_graph_by_name_def split: option.split sum.split)
qed

lemma resolve_references_Inr [simp]: "resolve_references env graph symbol \<noteq> Inl e"
  by (simp add: resolve_references_def Let_def)

lemma language_group_result_cong:
  assumes "c (language_name lang) = c' (language_name lang)"
  shows "fst (resolve_language_group env c fss lang symbol) = fst (resolve_language_group env c' fss lang symbol)"
proof -
  define inp where "inp = map (\<lambda>fs. (fs_file fs, fs_source fs, fs_tree fs))
    (if MAX_STACK_GRAPH_FILES < length (relevant_files fss symbol)
     then take MAX_STACK_GRAPH_FILES (relevant_files fss symbol) else relevant_files fss symbol)"
  obtain x d where d: "build_graph_by_name env c inp (language_name lang) = (x, d)" by force
  moreover obtain d' where "build_graph_by_name env c' inp (language_name lang) = (x, d')"
    using build_graph_result_cong[of c "language_name lang" c' env inp, OF assms] d
    by (cases "build_graph_by_name env c' inp (language_name lang)") auto
  ultimately show ?thesis
    by (simp add: resolve_language_group_def Let_def flip: inp_def split: sum.split prod.split)
qed

lemma language_group_other:
  assumes "n \<noteq> language_name lang"
  shows "snd (resolve_language_group env c fss lang symbol) n = c n"
proof -
  define inp where "inp = map (\<lambda>fs. (fs_file fs, fs_source fs, fs_tree fs))
    (if MAX_STACK_GRAPH_FILES < length (relevant_files fss symbol)
     then take MAX_STACK_GRAPH_FILES (relevant_files fss symbol) else relevant_files fss symbol)"
  obtain x d where d: "build_graph_by_name env c inp (language_name lang) = (x, d)" by force
  with build_graph_other[OF assms, of env c inp] have "d n = c n" by simp
  with d show ?thesis
    by (simp add: resolve_language_group_def Let_def flip: inp_def split: sum.split prod.split)
qed

lemma resolve_group_result_cong:
  assumes "c (language_name lang) = c' (language_name lang)"
  shows "fst (resolve_group env c lang fss symbol) = fst (resolve_group env c' lang fss symbol)"
proof -
  obtain x d where d: "resolve_language_group env c fss lang symbol = (x, d)" by force
  moreover obtain d' where "resolve_language_group env c' fss lang symbol = (x, d')"
    using language_group_result_cong[of c lang c' env fss symbol, OF assms] d
    by (cases "resolve_language_group env c' fss lang symbol") auto
  ultimately show ?thesis by (simp add: resolve_group_def split: sum.split prod.split)
qed

lemma resolve_group_other:
  assumes "n \<noteq> language_name lang"
  shows "snd (resolve_group env c lang fss symbol) n = c n"
proof -
  obtain x d where d: "resolve_language_group env c fss lang symbol = (x, d)" by force
  with language_group_other[OF assms, of env c fss symbol] have "d n = c n" by simp
  with d show ?thesis by (simp add: resolve_group_def split: sum.split prod.split)
qed

section \<open>The groups\<close>

text \<open>The groups run one by one, each on the starting cache.\<close>

definition group_result ::
  "('l, 'g, 'n, 'z) resolver_env_scheme \<Rightarrow> 'l plugin_cache \<Rightarrow> string \<Rightarrow> language \<times> file_symbols list
    \<Rightarrow> (resolved_reference list \<times> string list \<times> bool) option" where
  "group_result env cache symbol g = fst (resolve_group env cache (fst g) (snd g) symbol)"

definition join_results ::
  "resolved_reference list \<times> string list \<times> bool \<Rightarrow> (resolved_reference list \<times> string list \<times> bool) list
    \<Rightarrow> resolved_reference list \<times> string list \<times> bool" where
  "join_results acc rs =
     (fst acc @ concat (map fst rs), fst (snd acc) @ concat (map (fst \<circ> snd) rs),
      snd (snd acc) \<or> list_ex (snd \<circ> snd) rs)"

lemma resolve_groups_all:
  assumes "distinct (map fst gs)" "\<forall>g \<in> set gs. c (language_name (fst g)) = cache (language_name (fst g))"
  shows "resolve_groups env c gs symbol acc =
    (if None \<in> set (map (group_result env cache symbol) gs) then None
     else Some (join_results acc (map (the \<circ> group_result env cache symbol) gs)))"
  using assms
proof (induction gs arbitrary: c acc)
  case Nil
  then show ?case by (cases acc) (simp add: join_results_def)
next
  case (Cons g gs)
  obtain lang fss where g: "g = (lang, fss)" by force
  obtain all_refs ws syn where acc: "acc = (all_refs, ws, syn)" by (cases acc) auto
  obtain x d where d: "resolve_group env c lang fss symbol = (x, d)" by force
  have x: "x = group_result env cache symbol g"
    using resolve_group_result_cong[of c lang cache env fss symbol] Cons.prems(2) d g
    by (simp add: group_result_def)
  have rest: "\<forall>g \<in> set gs. d (language_name (fst g)) = cache (language_name (fst g))"
  proof
    fix h assume h: "h \<in> set gs"
    then have "fst h \<noteq> lang" using Cons.prems(1) g by auto
    then have "language_name (fst h) \<noteq> language_name lang" using language_name_inj by blast
    from resolve_group_other[OF this, of env c fss symbol] d
    have "d (language_name (fst h)) = c (language_name (fst h))" by simp
    then show "d (language_name (fst h)) = cache (language_name (fst h))" using Cons.prems(2) h by simp
  qed
  show ?case
  proof (cases x)
    case None
    have "resolve_groups env c (g # gs) symbol acc = None" by (simp add: acc g d None)
    moreover have "None \<in> set (map (group_result env cache symbol) (g # gs))"
      using x None by simp
    ultimately show ?thesis by (simp only: if_True)
  next
    case (Some y)
    obtain r w s where y: "y = (r, w, s)" by (cases y) auto
    have now: "group_result env cache symbol g = Some (r, w, s)" using x Some y by simp
    have step: "resolve_groups env c (g # gs) symbol acc =
        resolve_groups env d gs symbol (all_refs @ r, ws @ w, syn \<or> s)"
      by (simp add: acc g d Some y)
    have join: "join_results acc (map (the \<circ> group_result env cache symbol) (g # gs)) =
        join_results (all_refs @ r, ws @ w, syn \<or> s) (map (the \<circ> group_result env cache symbol) gs)"
      by (simp add: join_results_def now acc)
    have none: "None \<in> set (map (group_result env cache symbol) (g # gs)) \<longleftrightarrow>
        None \<in> set (map (group_result env cache symbol) gs)"
      by (simp add: now)
    show ?thesis
      unfolding step join none using Cons.prems(1) by (intro Cons.IH rest) simp
  qed
qed

lemma push_group_fst:
  "map fst (push_group lang fs gs) = map fst gs @ (if lang \<in> set (map fst gs) then [] else [lang])"
proof (induction gs)
  case (Cons g gs)
  then show ?case by (cases g; cases "lang \<in> set (map fst gs)") simp_all
qed simp

lemma push_group_distinct: "distinct (map fst gs) \<Longrightarrow> distinct (map fst (push_group lang fs gs))"
  by (simp add: push_group_fst)

lemma group_by_language_distinct: "distinct (map fst (group_by_language exts scan_results))"
proof -
  define step where "step = (\<lambda>fs gs. case language_for_file exts (fs_file fs) of
      None \<Rightarrow> gs | Some lang \<Rightarrow> push_group lang fs gs)"
  have "distinct (map fst (fold step xs gs))" if "distinct (map fst gs)" for xs :: "file_symbols list" and gs
    using that
    by (induction xs arbitrary: gs) (auto simp: step_def push_group_distinct split: option.split)
  then show ?thesis by (simp add: group_by_language_def flip: step_def)
qed

lemma mset_join_results:
  assumes "mset rs = mset rs'"
  shows "mset (fst (join_results acc rs)) = mset (fst (join_results acc rs'))"
    "mset (fst (snd (join_results acc rs))) = mset (fst (snd (join_results acc rs')))"
    "snd (snd (join_results acc rs)) = snd (snd (join_results acc rs'))"
proof -
  have "mset (concat (map f rs)) = mset (concat (map f rs'))" for f :: "_ \<Rightarrow> 'a list"
    using assms by (simp add: mset_concat) (metis mset_map sum_mset_sum_list)
  note this[of fst]
  then show "mset (fst (join_results acc rs)) = mset (fst (join_results acc rs'))"
    by (simp add: join_results_def)
next
  have "mset (concat (map f rs)) = mset (concat (map f rs'))" for f :: "_ \<Rightarrow> 'a list"
    using assms by (simp add: mset_concat) (metis mset_map sum_mset_sum_list)
  then show "mset (fst (snd (join_results acc rs))) = mset (fst (snd (join_results acc rs')))"
    by (simp add: join_results_def)
next
  show "snd (snd (join_results acc rs)) = snd (snd (join_results acc rs'))"
    using mset_eq_setD[OF assms] by (simp add: join_results_def list_ex_iff)
qed

lemma fallback_warning_mset:
  assumes "mset ws = mset ws'"
  shows "mset (fallback_warning b ws) = mset (fallback_warning b ws')"
  using assms mset_eq_setD[OF assms] by (simp add: fallback_warning_def list_ex_iff)

lemma resolve_internal_mset:
  assumes "mset gs = mset (group_by_language (rv_exts env) scan_results)"
    "mset gs' = mset (group_by_language (rv_exts env) scan_results)"
  shows "rel_option (\<lambda>a b. mset (fst a) = mset (fst b) \<and> mset (fst (snd a)) = mset (fst (snd b)) \<and>
      snd (snd a) = snd (snd b))
    (resolve_groups env cache gs symbol acc) (resolve_groups env cache gs' symbol acc)"
proof -
  have d: "distinct (map fst h)" if "mset h = mset (group_by_language (rv_exts env) scan_results)" for h
    using mset_eq_imp_distinct_iff[of "map fst h" "map fst (group_by_language (rv_exts env) scan_results)"]
      that group_by_language_distinct by simp
  have m: "mset (map f gs) = mset (map f gs')" for f :: "_ \<Rightarrow> 'x" using assms by simp
  have none: "None \<in> set (map (group_result env cache symbol) gs)
      \<longleftrightarrow> None \<in> set (map (group_result env cache symbol) gs')"
    by (simp only: mset_eq_setD[OF m[of "group_result env cache symbol"]])
  define rs where "rs = map (the \<circ> group_result env cache symbol) gs"
  define rs' where "rs' = map (the \<circ> group_result env cache symbol) gs'"
  have rs: "mset rs = mset rs'" unfolding rs_def rs'_def by (rule m)
  have run: "resolve_groups env cache h symbol acc =
      (if None \<in> set (map (group_result env cache symbol) h) then None
       else Some (join_results acc (map (the \<circ> group_result env cache symbol) h)))"
    if "mset h = mset (group_by_language (rv_exts env) scan_results)" for h
    by (rule resolve_groups_all[OF d[OF that]]) simp
  show ?thesis
    unfolding run[OF assms(1)] run[OF assms(2)] none rs_def[symmetric] rs'_def[symmetric]
    using mset_join_results[OF rs, of acc] by simp
qed

text \<open>
  C11: the order in which the hash map of language groups iterates does not change what
  \<open>resolve_refs\<close> reports: for any two orders the references and the warnings are the same up
  to order, and one run panics exactly when the other does, although every group may load rules
  into the process-level cache that later groups read.
\<close>

theorem resolve_refs_order_independent:
  assumes "mset (order1 (group_by_language (rv_exts env) scan_results)) =
      mset (group_by_language (rv_exts env) scan_results)"
    and "mset (order2 (group_by_language (rv_exts env) scan_results)) =
      mset (group_by_language (rv_exts env) scan_results)"
  shows "rel_option (\<lambda>a b. mset (res_references a) = mset (res_references b)
        \<and> mset (res_warnings a) = mset (res_warnings b))
      (resolve_refs env cache order1 scan_results symbol) (resolve_refs env cache order2 scan_results symbol)"
proof -
  note internal = resolve_internal_mset[OF assms, of cache symbol "([], [], False)"]
  show ?thesis
    unfolding resolve_refs_def resolve_internal_def option.rel_map
    by (rule option.rel_mono_strong[OF internal])
      (auto simp: finish_result_def case_prod_beta intro!: fallback_warning_mset)
qed

text \<open>Two languages without rules, and the two orders of their groups.\<close>

definition no_rules_env :: "(unit, unit, unit) resolver_env" where
  "no_rules_env =
     \<lparr>re_languages_dir = None, re_exists = (\<lambda>_. False), re_read = (\<lambda>_. None), re_grammar = (\<lambda>_. None),
      re_compile = (\<lambda>_ _. Inr ()), sg_new = (), sg_build_into = (\<lambda>_ g _ _ _. (g, None)),
      sg_nodes = (\<lambda>_. []), sg_is_reference = (\<lambda>_ _. False), sg_symbol = (\<lambda>_ _. None),
      sg_file_name = (\<lambda>_ _. None), sg_span_start = (\<lambda>_ _. None), sg_complete_paths = (\<lambda>_ _. []),
      rv_exts = [''rs'' \<mapsto> ''rust'', ''go'' \<mapsto> ''go''], rv_alnum = (\<lambda>_. False)\<rparr>"

definition call_scan :: "string \<Rightarrow> string \<Rightarrow> file_symbols" where
  "call_scan name kind =
     \<lparr>fs_file = [Normal name], fs_symbols = [], fs_source = ''g()'',
      fs_tree = Node kind None True False False 0 0 0 3 0 3
        [Node ''identifier'' (Some ''function'') True False False 0 0 0 1 0 1 []]\<rparr>"

definition two_scans :: "file_symbols list" where
  "two_scans = [call_scan ''a.rs'' ''call_expression'', call_scan ''b.go'' ''call_expression'']"

theorem resolve_refs_order_independent_witness:
  "group_by_language (rv_exts no_rules_env) two_scans =
     [(Rust, [hd two_scans]), (Go, tl two_scans)] \<and>
   rel_option (\<lambda>a b. mset (res_references a) = mset (res_references b)
        \<and> mset (res_warnings a) = mset (res_warnings b))
      (resolve_refs no_rules_env Map.empty id two_scans ''g'')
      (resolve_refs no_rules_env Map.empty rev two_scans ''g'')"
proof
  show "group_by_language (rv_exts no_rules_env) two_scans = [(Rust, [hd two_scans]), (Go, tl two_scans)]"
    by code_simp
  show "rel_option (\<lambda>a b. mset (res_references a) = mset (res_references b)
        \<and> mset (res_warnings a) = mset (res_warnings b))
      (resolve_refs no_rules_env Map.empty id two_scans ''g'')
      (resolve_refs no_rules_env Map.empty rev two_scans ''g'')"
    by (rule resolve_refs_order_independent) simp_all
qed

section \<open>Callers\<close>

lemma keep_refs_syntactic:
  "keep_refs alnum source symbol rng rs = Some out \<Longrightarrow>
     list_all (\<lambda>r. rr_resolution r = Syntactic \<and> rr_symbol r = symbol \<and> rr_def_file r = None) out"
  by (induction rs arbitrary: out)
    (auto simp: syntactic_ref_def split: option.splits if_splits prod.splits)

lemma syntactic_refs_for_group_syntactic:
  "syntactic_refs_for_group env fss symbol = Some out \<Longrightarrow>
     list_all (\<lambda>r. rr_resolution r = Syntactic \<and> rr_symbol r = symbol \<and> rr_def_file r = None) out"
  by (induction fss arbitrary: out) (auto split: option.splits dest: keep_refs_syntactic)

lemma resolve_groups_no_rules:
  assumes "\<forall>lang. \<not> has_rules env lang"
    and "resolve_groups env cache gs symbol acc = Some out"
    and "list_all (\<lambda>r. rr_resolution r = Syntactic) (fst acc)"
  shows "list_all (\<lambda>r. rr_resolution r = Syntactic) (fst out)"
  using assms(2,3)
proof (induction gs arbitrary: cache acc)
  case (Cons g gs)
  obtain lang fss where g: "g = (lang, fss)" by force
  obtain refs ws syn where acc: "acc = (refs, ws, syn)" by (cases acc) auto
  obtain more where more: "syntactic_refs_for_group env fss symbol = Some more"
    and rest: "resolve_groups env cache gs symbol (refs @ more, ws @ [], syn \<or> True) = Some out"
    using Cons.prems(1) assms(1) by (auto simp: g acc resolve_group_def split: option.splits)
  have "list_all (\<lambda>r. rr_resolution r = Syntactic) more"
    using syntactic_refs_for_group_syntactic[OF more] by (auto simp: list_all_iff)
  with Cons.IH[OF rest] Cons.prems(2) show ?case by (simp add: acc)
qed simp

text \<open>
  When no language has stack-graph rules installed, \<open>resolve_callers\<close> reports no caller at
  all: the syntactic calls that \<open>resolve_refs\<close> finds are dropped with every other reference that
  is not resolved.
\<close>

theorem callers_without_rules_empty:
  assumes "\<forall>lang. \<not> has_rules env lang"
    and "resolve_callers env cache order scan_results symbol = Some result"
  shows "res_references result = []"
proof -
  from assms(2) obtain out where
    out: "resolve_groups env cache (order (group_by_language (rv_exts env) scan_results)) symbol ([], [], False) = Some out"
    and result: "res_references result = filter (\<lambda>r. rr_resolution r = Resolved) (fst out)"
    by (auto simp: resolve_callers_def resolve_internal_def finish_result_def case_prod_beta)
  from resolve_groups_no_rules[OF assms(1) out] show ?thesis
    by (auto simp: result list_all_iff filter_empty_conv)
qed

theorem callers_without_rules_empty_witness:
  "map_option (\<lambda>r. length (res_references r)) (resolve_refs no_rules_env Map.empty id two_scans ''g'') = Some 2 \<and>
   (\<exists>result. resolve_callers no_rules_env Map.empty id two_scans ''g'' = Some result \<and> res_references result = [])"
proof -
  have two: "map_option (\<lambda>r. length (res_references r)) (resolve_refs no_rules_env Map.empty id two_scans ''g'') = Some 2"
    by code_simp
  then obtain result where "resolve_callers no_rules_env Map.empty id two_scans ''g'' = Some result"
    by (auto simp: resolve_callers_def resolve_refs_def)
  moreover have "\<forall>lang. \<not> has_rules no_rules_env lang"
    by (simp add: has_rules_def has_plugin_rules_def no_rules_env_def)
  ultimately show ?thesis using two callers_without_rules_empty by blast
qed

section \<open>Resolved references\<close>

lemma resolved_ref_inj:
  assumes "resolved_ref s (extract_node_location env g n) d = resolved_ref s (extract_node_location env g n') d'"
  shows "extract_node_location env g n = extract_node_location env g n' \<and> d = d'"
proof -
  have pos: "\<exists>f l c. l > 0 \<and> loc = (f, l, c)" if "extract_node_location env g m = Some loc" for m loc
    using that by (auto simp: extract_node_location_def split: option.splits)
  show ?thesis
    using assms pos[of n] pos[of n']
    by (cases "extract_node_location env g n"; cases "extract_node_location env g n'"; cases d; cases d')
      (auto simp: resolved_ref_def split: prod.splits)
qed

text \<open>What the stitching has collected: every pair it saw, once.\<close>

definition stitched ::
  "('l, 'g, 'n, 'z) stack_graphs_scheme \<Rightarrow> 'g \<Rightarrow> string \<Rightarrow> (location_triple option \<times> location_triple) set
    \<Rightarrow> dedup_key set \<times> resolved_reference list \<Rightarrow> bool" where
  "stitched env graph symbol_name keys st \<longleftrightarrow>
     fst st = keys \<and> distinct (snd st) \<and>
     set (snd st) = (\<lambda>(r, d). resolved_ref symbol_name r d) ` keys \<and>
     fst ` keys \<subseteq> range (extract_node_location env graph)"

lemma collect_stitched:
  assumes "stitched env graph s keys st"
  shows "stitched env graph s
    (keys \<union> (case extract_node_location env graph m of None \<Rightarrow> {} | Some d \<Rightarrow> {(extract_node_location env graph n, d)}))
    (collect_resolved_path env graph (extract_node_location env graph n) s m st)"
proof (cases "extract_node_location env graph m")
  case None
  with assms show ?thesis by (cases st) (simp add: collect_resolved_path_def)
next
  case (Some d)
  obtain seen results where st: "st = (seen, results)" by force
  let ?l = "extract_node_location env graph n"
  from assms have seen: "seen = keys" and dist: "distinct results"
    and res: "set results = (\<lambda>(r, d). resolved_ref s r d) ` keys"
    and rng: "fst ` keys \<subseteq> range (extract_node_location env graph)"
    by (auto simp: stitched_def st)
  have new: "resolved_ref s ?l d \<notin> set results" if "(?l, d) \<notin> keys"
  proof
    assume "resolved_ref s ?l d \<in> set results"
    then obtain r e where k: "(r, e) \<in> keys" "resolved_ref s ?l d = resolved_ref s r e"
      by (auto simp: res)
    moreover from k(1) rng obtain n' where "r = extract_node_location env graph n'" by force
    ultimately show False using resolved_ref_inj[of s env graph n d n' e] that by auto
  qed
  show ?thesis
    using new dist rng
    by (cases "(?l, d) \<in> keys") (auto simp: stitched_def st collect_resolved_path_def Some seen res)
qed

definition loc_pair ::
  "('l, 'g, 'n, 'z) stack_graphs_scheme \<Rightarrow> 'g \<Rightarrow> 'n \<Rightarrow> 'n \<Rightarrow> dedup_key set" where
  "loc_pair env graph n m =
     (case extract_node_location env graph m of None \<Rightarrow> {}
      | Some d \<Rightarrow> {(extract_node_location env graph n, d)})"

lemma stitch_node_stitched:
  assumes "stitched env graph s keys st"
  shows "stitched env graph s (keys \<union> (\<Union>m \<in> set ms. loc_pair env graph n m))
    (fold (collect_resolved_path env graph (extract_node_location env graph n) s) ms st)"
  using assms
proof (induction ms arbitrary: keys st)
  case (Cons m ms)
  from Cons.IH[OF collect_stitched[OF Cons.prems, of n m]] show ?case
    by (simp add: Un_assoc flip: loc_pair_def)
qed simp

lemma stitch_stitched:
  assumes "stitched env graph s keys st"
  shows "stitched env graph s
    (keys \<union> (\<Union>n \<in> set ns. \<Union>m \<in> set (sg_complete_paths env graph n). loc_pair env graph n m))
    (fold (stitch_node env graph s) ns st)"
  using assms
proof (induction ns arbitrary: keys st)
  case (Cons n ns)
  from Cons.IH[OF stitch_node_stitched[OF Cons.prems, of n "sg_complete_paths env graph n"]]
  show ?case by (simp add: Un_assoc stitch_node_def)
qed simp

lemma loc_pair_mem:
  "(r, d) \<in> loc_pair env graph n m \<longleftrightarrow>
     r = extract_node_location env graph n \<and> extract_node_location env graph m = Some d"
  by (auto simp: loc_pair_def split: option.splits)

lemma image_loc_pairs:
  "(\<lambda>(r, d). f r d) ` (\<Union>n \<in> N. \<Union>m \<in> M n. loc_pair env graph n m) =
     {f (extract_node_location env graph n) d | n d m.
        n \<in> N \<and> m \<in> M n \<and> extract_node_location env graph m = Some d}" (is "?A = ?B")
proof (rule set_eqI)
  fix x
  have "x \<in> ?A \<longleftrightarrow> (\<exists>n \<in> N. \<exists>m \<in> M n. \<exists>r d. (r, d) \<in> loc_pair env graph n m \<and> x = f r d)"
    by (simp only: image_iff UN_iff Bex_def split_paired_Ex prod.case) blast
  also have "\<dots> \<longleftrightarrow> x \<in> ?B" by (simp only: loc_pair_mem) blast
  finally show "x \<in> ?A \<longleftrightarrow> x \<in> ?B" .
qed

text \<open>
  C18: resolving a symbol in a graph always succeeds, and reports exactly the pairs of a
  reference node of that name and a definition that a complete path from it reaches and that has
  a location, each pair of locations once.
\<close>

theorem resolve_references_exact:
  "\<exists>refs. resolve_references env graph s = Inr refs \<and> distinct refs \<and>
     set refs = {resolved_ref s (extract_node_location env graph n) d | n d m.
       n \<in> set (sg_nodes env graph) \<and> sg_is_reference env graph n \<and> sg_symbol env graph n = Some s \<and>
       m \<in> set (sg_complete_paths env graph n) \<and> extract_node_location env graph m = Some d}"
proof -
  have "stitched env graph s {} ({}, [])" by (simp add: stitched_def)
  from stitch_stitched[OF this, of "find_reference_nodes env graph s"]
  have "distinct (stitch_references env graph (find_reference_nodes env graph s) s) \<and>
      set (stitch_references env graph (find_reference_nodes env graph s) s) =
        {resolved_ref s (extract_node_location env graph n) d | n d m.
          n \<in> set (find_reference_nodes env graph s) \<and>
          m \<in> set (sg_complete_paths env graph n) \<and> extract_node_location env graph m = Some d}"
    by (simp add: stitched_def stitch_references_def image_loc_pairs)
  then show ?thesis
    by (cases "find_reference_nodes env graph s = []")
      (auto simp: resolve_references_def find_reference_nodes_def filter_empty_conv)
qed

section \<open>Dialects keep line numbers\<close>

lemma dialect_step_output:
  "\<exists>k. snd (dialect_step dialect st line) = snd st @ (if k then line else []) @ [CHR 0x0A]"
proof -
  have "\<exists>k. snd st @ [CHR 0x0A] = snd st @ (if k then line else []) @ [CHR 0x0A]"
    by (rule exI[of _ False]) simp
  moreover have "\<exists>k. snd st @ line @ [CHR 0x0A] = snd st @ (if k then line else []) @ [CHR 0x0A]"
    by (rule exI[of _ True]) simp
  ultimately show ?thesis by (simp only: dialect_step_def case_prod_beta Let_def snd_conv split: if_split) blast
qed

lemma dialect_fold_output:
  "\<exists>keep. length keep = length ls \<and>
     snd (foldl (dialect_step dialect) st ls) =
       snd st @ concat (map (\<lambda>(k, l). (if k then l else []) @ [CHR 0x0A]) (zip keep ls))"
proof (induction ls arbitrary: st)
  case (Cons l ls)
  obtain k where k: "snd (dialect_step dialect st l) = snd st @ (if k then l else []) @ [CHR 0x0A]"
    using dialect_step_output by blast
  from Cons.IH[of "dialect_step dialect st l"] obtain keep where
    keep: "length keep = length ls" "snd (foldl (dialect_step dialect) (dialect_step dialect st l) ls) =
      snd (dialect_step dialect st l) @ concat (map (\<lambda>(k, l). (if k then l else []) @ [CHR 0x0A]) (zip keep ls))"
    by blast
  show ?case by (rule exI[of _ "k # keep"]) (simp add: keep k)
qed simp

lemma lines_from_no_newline:
  "CHR 0x0A \<notin> set acc \<Longrightarrow> l \<in> set (lines_from acc s) \<Longrightarrow> CHR 0x0A \<notin> set l"
proof (induction acc s rule: lines_from.induct)
  case (2 acc c cs)
  have "set (strip_cr (rev acc)) \<subseteq> set acc"
    using in_set_butlastD[of _ "rev acc"] by (auto simp: strip_cr_def)
  with 2 show ?case by (auto split: if_splits)
qed (auto split: if_splits)

lemma split_on_lines:
  assumes "\<forall>l \<in> set ls. CHR 0x0A \<notin> set l"
  shows "split_on CHR 0x0A (concat (map (\<lambda>l. l @ [CHR 0x0A]) ls)) = ls @ [[]]"
  using assms by (induction ls) (auto simp: split_on_append)

text \<open>
  Keeping one dialect of a rule file keeps its line numbers: the output has one line per
  source line, each the source line or empty, so that an error position in the output is one in
  the file.
\<close>

theorem preprocess_dialect_lines:
  "\<exists>keep. length keep = length (str_lines source) \<and>
     split_on CHR 0x0A (preprocess_dialect source dialect) =
       map (\<lambda>(k, l). if k then l else []) (zip keep (str_lines source)) @ [[]]"
proof -
  from dialect_fold_output[of "str_lines source" dialect "(None, [])"] obtain keep where
    keep: "length keep = length (str_lines source)"
    and out: "preprocess_dialect source dialect =
      concat (map (\<lambda>(k, l). (if k then l else []) @ [CHR 0x0A]) (zip keep (str_lines source)))"
    by (auto simp: preprocess_dialect_def)
  let ?ls = "map (\<lambda>(k, l). if k then l else []) (zip keep (str_lines source))"
  have "\<forall>l \<in> set (str_lines source). CHR 0x0A \<notin> set l"
    using lines_from_no_newline[of "[]"] by (simp add: str_lines_def)
  then have "\<forall>l \<in> set ?ls. CHR 0x0A \<notin> set l" by (auto dest: set_zip_rightD)
  moreover have "preprocess_dialect source dialect = concat (map (\<lambda>l. l @ [CHR 0x0A]) ?ls)"
    unfolding out map_map by (intro arg_cong[of _ _ concat] map_cong) auto
  ultimately show ?thesis using keep by (intro exI[of _ keep]) (simp only: split_on_lines)
qed

end
