(* ===== verification/Wire.thy ===== *)
theory Wire
  imports Core_Types "HOL-Library.Word"
begin

text \<open>
  The daemon's wire protocol in codequery-lsp: errors (\<open>error.rs\<close>), the LSP positions
  (\<open>types.rs\<close>), requests and responses with the JSON values serde derives for them, and the
  length-prefixed frames (\<open>socket.rs\<close>). Printing and parsing JSON text is a parameter. A
  \<open>reader\<close> holds the bytes that will still arrive and whether the peer keeps the connection
  open after them: a blocking read of more than that hangs.
\<close>

section \<open>Outcomes and errors\<close>

datatype 'a outcome = Returns 'a | Hangs | Panics

fun outcome_bind :: "'a outcome \<Rightarrow> ('a \<Rightarrow> 'b outcome) \<Rightarrow> 'b outcome" where
  "outcome_bind (Returns a) f = f a"
| "outcome_bind Hangs f = Hangs"
| "outcome_bind Panics f = Panics"

datatype lsp_error =
    ServerNotFound string
  | ServerCrashed string
  | InitializeFailed string
  | RequestFailed string string
  | Timeout nat
  | DaemonNotRunning
  | ConnectionFailed string
  | Io io_error
  | JsonErr string

text \<open>The messages; \<open>dur\<close> prints a duration and \<open>ioe\<close> an I/O error as the standard library
  does.\<close>

fun lsp_error_display :: "(nat \<Rightarrow> string) \<Rightarrow> (io_error \<Rightarrow> string) \<Rightarrow> lsp_error \<Rightarrow> string" where
  "lsp_error_display dur ioe (ServerNotFound s) = ''language server not found: '' @ s"
| "lsp_error_display dur ioe (ServerCrashed s) = ''language server crashed: '' @ s"
| "lsp_error_display dur ioe (InitializeFailed s) = ''initialize failed: '' @ s"
| "lsp_error_display dur ioe (RequestFailed m s) = ''request failed: '' @ m @ '': '' @ s"
| "lsp_error_display dur ioe (Timeout d) = ''request timed out after '' @ dur d"
| "lsp_error_display dur ioe DaemonNotRunning = ''daemon not running''"
| "lsp_error_display dur ioe (ConnectionFailed s) = ''connection failed: '' @ s"
| "lsp_error_display dur ioe (Io e) = ioe e"
| "lsp_error_display dur ioe (JsonErr s) = s"

section \<open>Positions\<close>

record position =
  pos_line :: "32 word"
  pos_character :: "32 word"

record rng =
  range_start :: position
  range_end :: position

record lsp_location =
  loc_uri :: string
  loc_range :: rng

record location_link =
  link_origin :: "rng option"
  link_target_uri :: string
  link_target_range :: rng
  link_target_selection_range :: rng

section \<open>Reading fields of a JSON value\<close>

text \<open>A derived deserializer takes an object, ignores unknown fields, and refuses a known field
  that occurs twice.\<close>

definition struct_fields :: "string list \<Rightarrow> json \<Rightarrow> (string \<times> json) list option" where
  "struct_fields known j =
     (case j of
        JObj kvs \<Rightarrow>
          if distinct (filter (\<lambda>k. k \<in> set known) (map fst kvs)) then Some kvs else None
      | _ \<Rightarrow> None)"

definition field_str :: "(string \<times> json) list \<Rightarrow> string \<Rightarrow> string option" where
  "field_str kvs k = Option.bind (map_of kvs k) json_as_str"

definition json_nat :: "nat \<Rightarrow> json \<Rightarrow> nat option" where
  "json_nat limit j =
     (case j of JInt i \<Rightarrow> if 0 \<le> i \<and> i \<le> int limit then Some (nat i) else None | _ \<Rightarrow> None)"

definition field_nat :: "nat \<Rightarrow> (string \<times> json) list \<Rightarrow> string \<Rightarrow> nat option" where
  "field_nat limit kvs k = Option.bind (map_of kvs k) (json_nat limit)"

text \<open>An optional field: absent and null are none.\<close>

definition field_opt :: "(json \<Rightarrow> 'a option) \<Rightarrow> (string \<times> json) list \<Rightarrow> string \<Rightarrow> 'a option option" where
  "field_opt decf kvs k =
     (case map_of kvs k of
        None \<Rightarrow> Some None
      | Some JNull \<Rightarrow> Some None
      | Some v \<Rightarrow> map_option Some (decf v))"

definition u32_max :: nat where "u32_max = 2 ^ 32 - 1"

fun decode_all :: "(json \<Rightarrow> 'a option) \<Rightarrow> json list \<Rightarrow> 'a list option" where
  "decode_all decf [] = Some []"
| "decode_all decf (j # js) =
     (case decf j of
        None \<Rightarrow> None
      | Some x \<Rightarrow> map_option (\<lambda>xs. x # xs) (decode_all decf js))"

lemma decode_all_map: "(\<And>x. x \<in> set xs \<Longrightarrow> decf (enc x) = Some x) \<Longrightarrow> decode_all decf (map enc xs) = Some xs"
  by (induction xs) auto

definition position_json :: "position \<Rightarrow> json" where
  "position_json p =
     JObj [(''line'', JInt (uint (pos_line p))), (''character'', JInt (uint (pos_character p)))]"

definition position_of_json :: "json \<Rightarrow> position option" where
  "position_of_json j =
     (case struct_fields [''line'', ''character''] j of
        None \<Rightarrow> None
      | Some kvs \<Rightarrow>
          (case (field_nat u32_max kvs ''line'', field_nat u32_max kvs ''character'') of
             (Some l, Some c) \<Rightarrow> Some \<lparr>pos_line = word_of_nat l, pos_character = word_of_nat c\<rparr>
           | _ \<Rightarrow> None))"

definition range_json :: "rng \<Rightarrow> json" where
  "range_json r = JObj [(''start'', position_json (range_start r)), (''end'', position_json (range_end r))]"

definition range_of_json :: "json \<Rightarrow> rng option" where
  "range_of_json j =
     (case struct_fields [''start'', ''end''] j of
        None \<Rightarrow> None
      | Some kvs \<Rightarrow>
          (case (Option.bind (map_of kvs ''start'') position_of_json,
                 Option.bind (map_of kvs ''end'') position_of_json) of
             (Some s, Some e) \<Rightarrow> Some \<lparr>range_start = s, range_end = e\<rparr>
           | _ \<Rightarrow> None))"

definition location_json :: "lsp_location \<Rightarrow> json" where
  "location_json l = JObj [(''uri'', JStr (loc_uri l)), (''range'', range_json (loc_range l))]"

definition location_of_json :: "json \<Rightarrow> lsp_location option" where
  "location_of_json j =
     (case struct_fields [''uri'', ''range''] j of
        None \<Rightarrow> None
      | Some kvs \<Rightarrow>
          (case (field_str kvs ''uri'', Option.bind (map_of kvs ''range'') range_of_json) of
             (Some u, Some r) \<Rightarrow> Some \<lparr>loc_uri = u, loc_range = r\<rparr>
           | _ \<Rightarrow> None))"

definition location_link_of_json :: "json \<Rightarrow> location_link option" where
  "location_link_of_json j =
     (case struct_fields [''originSelectionRange'', ''targetUri'', ''targetRange'', ''targetSelectionRange''] j of
        None \<Rightarrow> None
      | Some kvs \<Rightarrow>
          (case (field_opt range_of_json kvs ''originSelectionRange'', field_str kvs ''targetUri'',
                 Option.bind (map_of kvs ''targetRange'') range_of_json,
                 Option.bind (map_of kvs ''targetSelectionRange'') range_of_json) of
             (Some r0, Some u, Some r, Some s) \<Rightarrow>
               Some \<lparr>link_origin = r0, link_target_uri = u, link_target_range = r,
                     link_target_selection_range = s\<rparr>
           | _ \<Rightarrow> None))"

section \<open>Requests and responses\<close>

datatype daemon_request =
    QueryReq (rq_project: path) (rq_language: string) (rq_operation: string) (rq_file: path)
      (rq_line: nat) (rq_column: nat) (rq_symbol: "string option")
  | StatusReq
  | ShutdownReq
  | AuthenticateReq string

record server_info =
  si_project :: path
  si_language :: string
  si_uptime_secs :: nat

datatype daemon_response =
    Locations "lsp_location list"
  | HoverResp "string option"
  | StatusResp "server_info list" nat
  | OkResp
  | AuthOk
  | ErrorResp string

definition opt_json :: "('a \<Rightarrow> json) \<Rightarrow> 'a option \<Rightarrow> json" where
  "opt_json enc x = (case x of None \<Rightarrow> JNull | Some a \<Rightarrow> enc a)"

fun request_json :: "daemon_request \<Rightarrow> json" where
  "request_json (QueryReq p l oper f ln col s) =
     JObj [(''Query'', JObj
       [(''project'', JStr (path_display p)), (''language'', JStr l), (''operation'', JStr oper),
        (''file'', JStr (path_display f)), (''line'', JInt (int ln)), (''column'', JInt (int col)),
        (''symbol'', opt_json JStr s)])]"
| "request_json StatusReq = JStr ''Status''"
| "request_json ShutdownReq = JStr ''Shutdown''"
| "request_json (AuthenticateReq t) = JObj [(''Authenticate'', JObj [(''token'', JStr t)])]"

definition query_of_json :: "json \<Rightarrow> daemon_request option" where
  "query_of_json j =
     (case struct_fields [''project'', ''language'', ''operation'', ''file'', ''line'', ''column'', ''symbol''] j of
        None \<Rightarrow> None
      | Some kvs \<Rightarrow>
          (case (field_str kvs ''project'', field_str kvs ''language'', field_str kvs ''operation'',
                 field_str kvs ''file'', field_nat usize_max kvs ''line'', field_nat usize_max kvs ''column'',
                 field_opt json_as_str kvs ''symbol'') of
             (Some p, Some l, Some oper, Some f, Some ln, Some col, Some s) \<Rightarrow>
               Some (QueryReq (path_of_string p) l oper (path_of_string f) ln col s)
           | _ \<Rightarrow> None))"

text \<open>An externally tagged enum: a unit variant is its name, another one an object with one
  entry.\<close>

definition request_of_json :: "json \<Rightarrow> daemon_request option" where
  "request_of_json j =
     (case j of
        JStr t \<Rightarrow>
          if t = ''Status'' then Some StatusReq else if t = ''Shutdown'' then Some ShutdownReq else None
      | JObj [(t, v)] \<Rightarrow>
          if t = ''Query'' then query_of_json v
          else if t = ''Authenticate'' then
            Option.bind (struct_fields [''token''] v)
              (\<lambda>kvs. map_option AuthenticateReq (field_str kvs ''token''))
          else if t = ''Status'' \<and> v = JNull then Some StatusReq
          else if t = ''Shutdown'' \<and> v = JNull then Some ShutdownReq
          else None
      | _ \<Rightarrow> None)"

definition server_info_json :: "server_info \<Rightarrow> json" where
  "server_info_json s =
     JObj [(''project'', JStr (path_display (si_project s))), (''language'', JStr (si_language s)),
           (''uptime_secs'', JInt (int (si_uptime_secs s)))]"

definition server_info_of_json :: "json \<Rightarrow> server_info option" where
  "server_info_of_json j =
     (case struct_fields [''project'', ''language'', ''uptime_secs''] j of
        None \<Rightarrow> None
      | Some kvs \<Rightarrow>
          (case (field_str kvs ''project'', field_str kvs ''language'', field_nat usize_max kvs ''uptime_secs'') of
             (Some p, Some l, Some u) \<Rightarrow>
               Some \<lparr>si_project = path_of_string p, si_language = l, si_uptime_secs = u\<rparr>
           | _ \<Rightarrow> None))"

fun response_json :: "daemon_response \<Rightarrow> json" where
  "response_json (Locations ls) = JObj [(''Locations'', JArr (map location_json ls))]"
| "response_json (HoverResp t) = JObj [(''Hover'', opt_json JStr t)]"
| "response_json (StatusResp ss u) =
     JObj [(''Status'', JObj [(''servers'', JArr (map server_info_json ss)), (''uptime_secs'', JInt (int u))])]"
| "response_json OkResp = JStr ''Ok''"
| "response_json AuthOk = JStr ''AuthOk''"
| "response_json (ErrorResp m) = JObj [(''Error'', JStr m)]"

definition status_of_json :: "json \<Rightarrow> daemon_response option" where
  "status_of_json j =
     (case struct_fields [''servers'', ''uptime_secs''] j of
        None \<Rightarrow> None
      | Some kvs \<Rightarrow>
          (case (Option.bind (Option.bind (map_of kvs ''servers'') json_as_array) (decode_all server_info_of_json),
                 field_nat usize_max kvs ''uptime_secs'') of
             (Some ss, Some u) \<Rightarrow> Some (StatusResp ss u)
           | _ \<Rightarrow> None))"

definition response_of_json :: "json \<Rightarrow> daemon_response option" where
  "response_of_json j =
     (case j of
        JStr t \<Rightarrow> if t = ''Ok'' then Some OkResp else if t = ''AuthOk'' then Some AuthOk else None
      | JObj [(t, v)] \<Rightarrow>
          if t = ''Locations'' then
            map_option Locations (Option.bind (json_as_array v) (decode_all location_of_json))
          else if t = ''Hover'' then
            (case v of JNull \<Rightarrow> Some (HoverResp None) | JStr s \<Rightarrow> Some (HoverResp (Some s)) | _ \<Rightarrow> None)
          else if t = ''Status'' then status_of_json v
          else if t = ''Error'' then map_option ErrorResp (json_as_str v)
          else if t = ''Ok'' \<and> v = JNull then Some OkResp
          else if t = ''AuthOk'' \<and> v = JNull then Some AuthOk
          else None
      | _ \<Rightarrow> None)"

section \<open>Streams\<close>

text \<open>A writer keeps what the peer has received and how many more bytes it takes before writes
  fail, if they do.\<close>

record writer =
  wr_bytes :: string
  wr_room :: "nat option"

record reader =
  rd_bytes :: string
  rd_open :: bool

definition write_all :: "writer \<Rightarrow> string \<Rightarrow> lsp_error option \<times> writer" where
  "write_all w bs =
     (case wr_room w of
        None \<Rightarrow> (None, w\<lparr>wr_bytes := wr_bytes w @ bs\<rparr>)
      | Some n \<Rightarrow>
          if length bs \<le> n then (None, w\<lparr>wr_bytes := wr_bytes w @ bs, wr_room := Some (n - length bs)\<rparr>)
          else (Some (Io (OtherIo ''broken pipe'')),
                w\<lparr>wr_bytes := wr_bytes w @ take n bs, wr_room := Some 0\<rparr>))"

definition read_exact :: "reader \<Rightarrow> nat \<Rightarrow> ((io_error + string) \<times> reader) outcome" where
  "read_exact r n =
     (if n \<le> length (rd_bytes r) then
        Returns (Inr (take n (rd_bytes r)), r\<lparr>rd_bytes := drop n (rd_bytes r)\<rparr>)
      else if rd_open r then Hangs
      else Returns (Inl UnexpectedEof, r\<lparr>rd_bytes := []\<rparr>))"

record json_codec =
  jc_print :: "json \<Rightarrow> string"
  jc_parse :: "string \<Rightarrow> string + json"

section \<open>Length-prefixed frames\<close>

definition to_be_bytes :: "32 word \<Rightarrow> string" where
  "to_be_bytes w = map (\<lambda>k. char_of (unat w div 2 ^ k)) [24, 16, 8, 0]"

definition from_be_bytes :: "string \<Rightarrow> 32 word" where
  "from_be_bytes bs = word_of_nat (foldl (\<lambda>a b. 256 * a + byte b) 0 bs)"

definition MAX_MESSAGE_SIZE :: nat where
  "MAX_MESSAGE_SIZE = 16 * 1024 * 1024"

text \<open>Writing: the length is cut to 32 bits.\<close>

definition frame :: "string \<Rightarrow> string" where
  "frame json = to_be_bytes (word_of_nat (length json)) @ json"

definition write_message :: "json_codec \<Rightarrow> writer \<Rightarrow> json \<Rightarrow> lsp_error option \<times> writer" where
  "write_message c w message =
     (let json = jc_print c message in
      case write_all w (to_be_bytes (word_of_nat (length json))) of
        (Some e, w') \<Rightarrow> (Some e, w')
      | (None, w') \<Rightarrow> write_all w' json)"

definition read_message ::
  "json_codec \<Rightarrow> (json \<Rightarrow> 'a option) \<Rightarrow> reader \<Rightarrow> ((lsp_error + 'a) \<times> reader) outcome" where
  "read_message c decf r =
     outcome_bind (read_exact r 4) (\<lambda>(res, r1).
       case res of
         Inl e \<Rightarrow>
           Returns (Inl (if e = UnexpectedEof then ConnectionFailed ''connection closed'' else Io e), r1)
       | Inr len_bytes \<Rightarrow>
           (let len = unat (from_be_bytes len_bytes) in
            if MAX_MESSAGE_SIZE < len then
              Returns (Inl (ConnectionFailed
                (''message too large: '' @ dec len @ '' bytes (max '' @ dec MAX_MESSAGE_SIZE @ '')'')), r1)
            else
              outcome_bind (read_exact r1 len) (\<lambda>(res2, r2).
                case res2 of
                  Inl e \<Rightarrow> Returns (Inl (Io e), r2)
                | Inr buf \<Rightarrow>
                    (case jc_parse c buf of
                       Inl e \<Rightarrow> Returns (Inl (JsonErr e), r2)
                     | Inr j \<Rightarrow>
                         (case decf j of
                            None \<Rightarrow> Returns (Inl (JsonErr ''invalid type''), r2)
                          | Some m \<Rightarrow> Returns (Inr m, r2))))))"

section \<open>Framed channels\<close>

text \<open>What both wire formats promise: a frame followed by anything is read back, and what
  follows is left.\<close>

locale framed_channel =
  fixes put :: "'m \<Rightarrow> 'b list"
    and get :: "'b list \<Rightarrow> ('m \<times> 'b list) option"
    and fits :: "'m \<Rightarrow> bool"
  assumes get_put: "fits m \<Longrightarrow> get (put m @ rest) = Some (m, rest)"
begin

fun get_many :: "nat \<Rightarrow> 'b list \<Rightarrow> ('m list \<times> 'b list) option" where
  "get_many 0 s = Some ([], s)"
| "get_many (Suc n) s =
     (case get s of
        None \<Rightarrow> None
      | Some (m, s') \<Rightarrow> map_option (\<lambda>(ms, r). (m # ms, r)) (get_many n s'))"

lemma get_many_put:
  "list_all fits ms \<Longrightarrow> get_many (length ms) (concat (map put ms) @ rest) = Some (ms, rest)"
proof (induction ms)
  case (Cons m ms)
  then show ?case by (simp add: get_put)
qed simp

lemma put_inj: "fits m \<Longrightarrow> fits n \<Longrightarrow> put m @ r = put n @ s \<Longrightarrow> m = n \<and> r = s"
proof -
  assume fits: "fits m" "fits n" and same: "put m @ r = put n @ s"
  from get_put[OF fits(1), of r] get_put[OF fits(2), of s] have "Some (m, r) = Some (n, s)"
    unfolding same by (rule trans[OF sym])
  then show "m = n \<and> r = s" by simp
qed

lemma concat_put_inj:
  assumes "list_all fits ms" "list_all fits ns" "concat (map put ms) = concat (map put ns)"
    "length ms = length ns"
  shows "ms = ns"
proof -
  have "get_many (length ns) (concat (map put ns)) = Some (ms, [])"
    using get_many_put[OF assms(1), of "[]"] by (simp only: assms(3,4) append_Nil2)
  moreover have "get_many (length ns) (concat (map put ns)) = Some (ns, [])"
    using get_many_put[OF assms(2), of "[]"] by (simp only: append_Nil2)
  ultimately show ?thesis by simp
qed

end

lemma byte_char_of [simp]: "byte (char_of (n :: nat)) = n mod 256"
  by (simp add: byte_def)

lemma length_to_be_bytes [simp]: "length (to_be_bytes w) = 4"
  by (simp add: to_be_bytes_def)

lemma be_digits:
  assumes "n < 2 ^ 32"
  shows "256 * (256 * (256 * (n div 2 ^ 24 mod 256) + n div 2 ^ 16 mod 256) + n div 2 ^ 8 mod 256) + n mod 256 = (n :: nat)"
proof -
  have a: "n div 2 ^ 24 mod 256 = n div 2 ^ 24" using assms by simp
  have b: "256 * (n div 2 ^ 24) + n div 2 ^ 16 mod 256 = n div 2 ^ 16"
    using mult_div_mod_eq[of 256 "n div 2 ^ 16"] by (simp add: div_mult2_eq[symmetric])
  have c: "256 * (n div 2 ^ 16) + n div 2 ^ 8 mod 256 = n div 2 ^ 8"
    using mult_div_mod_eq[of 256 "n div 2 ^ 8"] by (simp add: div_mult2_eq[symmetric])
  have d: "256 * (n div 2 ^ 8) + n mod 256 = n"
    using mult_div_mod_eq[of 256 n] by simp
  show ?thesis by (simp only: a b c d)
qed

lemma foldl_be_bytes:
  "n < 2 ^ 32 \<Longrightarrow> foldl (\<lambda>a b. 256 * a + byte b) 0 (map (\<lambda>k. char_of (n div 2 ^ k)) [24, 16, 8, 0]) = n"
  using be_digits[of n] by simp

lemma from_to_be_bytes [simp]: "from_be_bytes (to_be_bytes w) = w"
proof -
  have "unat w < 2 ^ LENGTH(32)" by (rule unsigned_less)
  then have "unat w < 2 ^ 32" by simp
  from foldl_be_bytes[OF this] show ?thesis
    unfolding from_be_bytes_def to_be_bytes_def by (simp only: of_nat_unat ucast_id)
qed

text \<open>The payloads of the daemon's frames form a framed channel: bytes up to the limit.\<close>

definition frame_fits :: "string \<Rightarrow> bool" where
  "frame_fits s \<longleftrightarrow> length s \<le> MAX_MESSAGE_SIZE"

definition unframe :: "string \<Rightarrow> (string \<times> string) option" where
  "unframe s =
     (case read_message \<lparr>jc_print = (\<lambda>_. []), jc_parse = (\<lambda>b. Inr (JStr b))\<rparr> json_as_str
             \<lparr>rd_bytes = s, rd_open = False\<rparr> of
        Returns (Inr m, r) \<Rightarrow> Some (m, rd_bytes r)
      | _ \<Rightarrow> None)"

lemma unat_length_small: "length s \<le> MAX_MESSAGE_SIZE \<Longrightarrow> unat (word_of_nat (length s) :: 32 word) = length s"
  by (simp add: MAX_MESSAGE_SIZE_def unsigned_of_nat take_bit_nat_eq_self)

lemma read_message_frame:
  assumes "length s \<le> MAX_MESSAGE_SIZE"
  shows "read_message c decf \<lparr>rd_bytes = frame s @ rest, rd_open = op\<rparr> =
    (case jc_parse c s of
       Inl e \<Rightarrow> Returns (Inl (JsonErr e), \<lparr>rd_bytes = rest, rd_open = op\<rparr>)
     | Inr j \<Rightarrow>
         (case decf j of
            None \<Rightarrow> Returns (Inl (JsonErr ''invalid type''), \<lparr>rd_bytes = rest, rd_open = op\<rparr>)
          | Some m \<Rightarrow> Returns (Inr m, \<lparr>rd_bytes = rest, rd_open = op\<rparr>)))"
  using assms by (simp add: read_message_def read_exact_def frame_def unat_length_small)

interpretation daemon_frames: framed_channel frame unframe frame_fits
  by unfold_locales (simp add: unframe_def frame_fits_def read_message_frame)

lemma write_message_frame:
  "wr_room w = None \<Longrightarrow>
     write_message c w m = (None, w\<lparr>wr_bytes := wr_bytes w @ frame (jc_print c m)\<rparr>)"
  by (simp add: write_message_def write_all_def frame_def Let_def)

section \<open>Messages survive the wire\<close>

definition path_text_ok :: "path \<Rightarrow> bool" where
  "path_text_ok p \<longleftrightarrow> path_of_string (path_display p) = p"

fun request_ok :: "daemon_request \<Rightarrow> bool" where
  "request_ok (QueryReq p l oper f ln col s) \<longleftrightarrow>
     path_text_ok p \<and> path_text_ok f \<and> ln \<le> usize_max \<and> col \<le> usize_max"
| "request_ok _ \<longleftrightarrow> True"

fun response_ok :: "daemon_response \<Rightarrow> bool" where
  "response_ok (StatusResp ss u) \<longleftrightarrow>
     u \<le> usize_max \<and> list_all (\<lambda>s. path_text_ok (si_project s) \<and> si_uptime_secs s \<le> usize_max) ss"
| "response_ok _ \<longleftrightarrow> True"

lemma json_nat_int [simp]: "json_nat limit (JInt (int n)) = (if n \<le> limit then Some n else None)"
  by (simp add: json_nat_def)

lemma opt_json_round: "field_opt json_as_str kvs k = Some s"
  if "map_of kvs k = Some (opt_json JStr s)"
  using that by (cases s) (auto simp: field_opt_def opt_json_def)

lemma request_json_round [simp]: "request_ok q \<Longrightarrow> request_of_json (request_json q) = Some q"
proof (cases q)
  case (QueryReq p l oper f ln col s)
  assume "request_ok q"
  with QueryReq have ok: "path_text_ok p" "path_text_ok f" "ln \<le> usize_max" "col \<le> usize_max" by auto
  have "field_opt json_as_str
      [(''project'', JStr (path_display p)), (''language'', JStr l), (''operation'', JStr oper),
        (''file'', JStr (path_display f)), (''line'', JInt (int ln)), (''column'', JInt (int col)),
        (''symbol'', opt_json JStr s)] ''symbol'' = Some s"
    by (rule opt_json_round) simp
  with ok show ?thesis
    by (simp add: QueryReq request_of_json_def query_of_json_def struct_fields_def field_str_def
        field_nat_def path_text_ok_def)
qed (simp_all add: request_of_json_def struct_fields_def field_str_def)

lemma json_nat_uint: "json_nat u32_max (JInt (uint (w :: 32 word))) = Some (nat (uint w))"
proof -
  have "uint w < 2 ^ LENGTH(32)" by (rule unsigned_less)
  then have "uint w \<le> 2 ^ 32 - 1" by simp
  then show ?thesis by (simp add: json_nat_def u32_max_def)
qed

lemma position_json_round [simp]: "position_of_json (position_json p) = Some p"
  by (cases p) (simp add: position_of_json_def position_json_def struct_fields_def field_nat_def json_nat_uint)

lemma range_json_round [simp]: "range_of_json (range_json r) = Some r"
  by (cases r) (simp add: range_of_json_def range_json_def struct_fields_def)

lemma location_json_round [simp]: "location_of_json (location_json l) = Some l"
  by (cases l) (simp add: location_of_json_def location_json_def struct_fields_def field_str_def)

lemma server_info_json_round:
  "path_text_ok (si_project s) \<Longrightarrow> si_uptime_secs s \<le> usize_max \<Longrightarrow>
     server_info_of_json (server_info_json s) = Some s"
  by (cases s) (simp add: server_info_of_json_def server_info_json_def struct_fields_def field_str_def
      field_nat_def path_text_ok_def)

lemma response_json_round [simp]: "response_ok a \<Longrightarrow> response_of_json (response_json a) = Some a"
proof (cases a)
  case (Locations ls)
  then show ?thesis
    using decode_all_map[of ls location_of_json location_json] by (simp add: response_of_json_def)
next
  case (HoverResp t)
  then show ?thesis by (cases t) (simp_all add: response_of_json_def opt_json_def)
next
  case (StatusResp ss u)
  assume "response_ok a"
  then have "decode_all server_info_of_json (map server_info_json ss) = Some ss"
    by (intro decode_all_map) (auto simp: StatusResp list_all_iff server_info_json_round)
  with \<open>response_ok a\<close> show ?thesis
    by (simp add: StatusResp response_of_json_def status_of_json_def struct_fields_def field_nat_def)
qed (simp_all add: response_of_json_def)

text \<open>
  C15: a request and a response written to a working connection are read back as they were sent,
  whatever follows them in the stream, if their JSON text is at most 16 MiB, the JSON library
  prints and parses them faithfully and their paths have a normal text form.
\<close>

theorem daemon_messages_round_trip:
  assumes "request_ok q" "response_ok a"
    and "jc_parse c (jc_print c (request_json q)) = Inr (request_json q)"
    and "jc_parse c (jc_print c (response_json a)) = Inr (response_json a)"
    and "length (jc_print c (request_json q)) \<le> MAX_MESSAGE_SIZE"
    and "length (jc_print c (response_json a)) \<le> MAX_MESSAGE_SIZE"
  shows "\<exists>sent reply.
      write_message c \<lparr>wr_bytes = before, wr_room = None\<rparr> (request_json q)
        = (None, \<lparr>wr_bytes = before @ sent, wr_room = None\<rparr>) \<and>
      read_message c request_of_json \<lparr>rd_bytes = sent @ rest, rd_open = op\<rparr>
        = Returns (Inr q, \<lparr>rd_bytes = rest, rd_open = op\<rparr>) \<and>
      write_message c \<lparr>wr_bytes = before, wr_room = None\<rparr> (response_json a)
        = (None, \<lparr>wr_bytes = before @ reply, wr_room = None\<rparr>) \<and>
      read_message c response_of_json \<lparr>rd_bytes = reply @ rest, rd_open = op\<rparr>
        = Returns (Inr a, \<lparr>rd_bytes = rest, rd_open = op\<rparr>)"
  using assms
  by (intro exI[of _ "frame (jc_print c (request_json q))"] exI[of _ "frame (jc_print c (response_json a))"])
    (simp add: write_message_frame read_message_frame)

text \<open>A printer and a parser that agree on two messages.\<close>

definition table_codec :: "json \<Rightarrow> json \<Rightarrow> json_codec" where
  "table_codec j k =
     \<lparr>jc_print = (\<lambda>x. if x = j then ''j'' else ''k''),
      jc_parse = (\<lambda>s. if s = ''j'' then Inr j else if s = ''k'' then Inr k else Inl ''syntax'')\<rparr>"

theorem daemon_messages_round_trip_witness:
  "\<exists>sent. read_message (table_codec (request_json StatusReq) (response_json (HoverResp (Some ''t''))))
      request_of_json \<lparr>rd_bytes = sent @ ''x'', rd_open = False\<rparr>
    = Returns (Inr StatusReq, \<lparr>rd_bytes = ''x'', rd_open = False\<rparr>)"
proof -
  let ?c = "table_codec (request_json StatusReq) (response_json (HoverResp (Some ''t'')))"
  have "request_ok StatusReq" "response_ok (HoverResp (Some ''t''))"
    "jc_parse ?c (jc_print ?c (request_json StatusReq)) = Inr (request_json StatusReq)"
    "jc_parse ?c (jc_print ?c (response_json (HoverResp (Some ''t'')))) = Inr (response_json (HoverResp (Some ''t'')))"
    "length (jc_print ?c (request_json StatusReq)) \<le> MAX_MESSAGE_SIZE"
    "length (jc_print ?c (response_json (HoverResp (Some ''t'')))) \<le> MAX_MESSAGE_SIZE"
    by (simp_all add: table_codec_def MAX_MESSAGE_SIZE_def)
  from daemon_messages_round_trip[OF this, of "[]" "''x''" False] show ?thesis by blast
qed

text \<open>
  A message between 16 MiB and 4 GiB is written without an error, but the other side refuses
  it and leaves its body in the stream, where the next read takes it for a frame.
\<close>

theorem oversized_message_lost:
  assumes "MAX_MESSAGE_SIZE < length (jc_print c m)" "length (jc_print c m) < 2 ^ 32"
  shows "\<exists>sent e.
      write_message c \<lparr>wr_bytes = before, wr_room = None\<rparr> m
        = (None, \<lparr>wr_bytes = before @ sent, wr_room = None\<rparr>) \<and>
      read_message c decf \<lparr>rd_bytes = sent @ rest, rd_open = op\<rparr>
        = Returns (Inl (ConnectionFailed e), \<lparr>rd_bytes = jc_print c m @ rest, rd_open = op\<rparr>)"
proof -
  have "unat (word_of_nat (length (jc_print c m)) :: 32 word) = length (jc_print c m)"
    using assms(2) by (simp add: unsigned_of_nat take_bit_nat_eq_self)
  with assms(1) show ?thesis
    by (intro exI[of _ "frame (jc_print c m)"] exI)
      (simp add: write_message_frame read_message_def read_exact_def frame_def)
qed

theorem oversized_message_lost_witness:
  "\<exists>sent e body. length body = MAX_MESSAGE_SIZE + 1 \<and>
     write_message \<lparr>jc_print = (\<lambda>_. body), jc_parse = Inl\<rparr> \<lparr>wr_bytes = [], wr_room = None\<rparr> JNull
       = (None, \<lparr>wr_bytes = [] @ sent, wr_room = None\<rparr>) \<and>
     read_message \<lparr>jc_print = (\<lambda>_. body), jc_parse = Inl\<rparr> request_of_json \<lparr>rd_bytes = sent @ [], rd_open = False\<rparr>
       = Returns (Inl (ConnectionFailed e), \<lparr>rd_bytes = body @ [], rd_open = False\<rparr>)"
proof -
  define body where "body = replicate (MAX_MESSAGE_SIZE + 1) CHR ''a''"
  let ?c = "\<lparr>jc_print = (\<lambda>_. body), jc_parse = Inl\<rparr> :: json_codec"
  have len: "length body = MAX_MESSAGE_SIZE + 1" unfolding body_def by (rule length_replicate)
  have "MAX_MESSAGE_SIZE < length (jc_print ?c JNull)" "length (jc_print ?c JNull) < 2 ^ 32"
    by (simp_all add: len) (simp add: MAX_MESSAGE_SIZE_def)
  from oversized_message_lost[OF this, of "[]" request_of_json "[]" False] len show ?thesis by auto
qed

end
