(* ===== verification/Transport.thy ===== *)
theory Transport
  imports Wire
begin

text \<open>
  JSON-RPC over the pipes of a language server: messages and request ids (\<open>protocol.rs\<close>) and
  the \<open>Content-Length\<close> framing, the request loop and the notifications (\<open>transport.rs\<close>).
  The clock, the readiness of the pipe and JSON text are oracles of the environment; the
  world counts how often the clock and the pipe were looked at and holds the process-wide
  request counter. The reader of a transport holds everything the server will ever write.
\<close>

section \<open>Environment and world\<close>

record lsp_env =
  le_codec :: json_codec
  le_clock :: "nat \<Rightarrow> nat"
  le_buffered :: "nat \<Rightarrow> bool"
  le_poll :: "nat \<Rightarrow> io_error + bool"

record world =
  w_ticks :: nat
  w_looks :: nat
  w_next_id :: "64 word"

definition read_clock :: "'z lsp_env_scheme \<Rightarrow> 'y world_scheme \<Rightarrow> nat \<times> 'y world_scheme" where
  "read_clock env w = (le_clock env (w_ticks w), w\<lparr>w_ticks := Suc (w_ticks w)\<rparr>)"

definition next_request_id :: "'y world_scheme \<Rightarrow> 64 word \<times> 'y world_scheme" where
  "next_request_id w = (w_next_id w, w\<lparr>w_next_id := w_next_id w + 1\<rparr>)"

section \<open>JSON-RPC messages\<close>

record rpc_error =
  rpc_code :: int
  rpc_message :: string
  rpc_data :: "json option"

record rpc_response =
  rsp_jsonrpc :: string
  rsp_id :: nat
  rsp_result :: "json option"
  rsp_error :: "rpc_error option"

definition is_success :: "rpc_response \<Rightarrow> bool" where
  "is_success r \<longleftrightarrow> rsp_error r = None"

definition is_error :: "rpc_response \<Rightarrow> bool" where
  "is_error r \<longleftrightarrow> rsp_error r \<noteq> None"

text \<open>A request or notification without parameters leaves the field out.\<close>

definition params_field :: "json option \<Rightarrow> (string \<times> json) list" where
  "params_field params = (case params of None \<Rightarrow> [] | Some p \<Rightarrow> [(''params'', p)])"

definition rpc_request_json :: "64 word \<Rightarrow> string \<Rightarrow> json option \<Rightarrow> json" where
  "rpc_request_json i meth params =
     JObj ([(''jsonrpc'', JStr ''2.0''), (''id'', JInt (uint i)), (''method'', JStr meth)] @ params_field params)"

definition rpc_notification_json :: "string \<Rightarrow> json option \<Rightarrow> json" where
  "rpc_notification_json meth params =
     JObj ([(''jsonrpc'', JStr ''2.0''), (''method'', JStr meth)] @ params_field params)"

definition json_i64 :: "json \<Rightarrow> int option" where
  "json_i64 j =
     (case j of JInt i \<Rightarrow> if - (2 ^ 63) \<le> i \<and> i < 2 ^ 63 then Some i else None | _ \<Rightarrow> None)"

definition rpc_error_of_json :: "json \<Rightarrow> rpc_error option" where
  "rpc_error_of_json j =
     (case struct_fields [''code'', ''message'', ''data''] j of
        None \<Rightarrow> None
      | Some kvs \<Rightarrow>
          (case (Option.bind (map_of kvs ''code'') json_i64, field_str kvs ''message'',
                 field_opt Some kvs ''data'') of
             (Some c, Some m, Some d) \<Rightarrow> Some \<lparr>rpc_code = c, rpc_message = m, rpc_data = d\<rparr>
           | _ \<Rightarrow> None))"

definition rpc_response_of_json :: "json \<Rightarrow> rpc_response option" where
  "rpc_response_of_json j =
     (case struct_fields [''jsonrpc'', ''id'', ''result'', ''error''] j of
        None \<Rightarrow> None
      | Some kvs \<Rightarrow>
          (case (field_str kvs ''jsonrpc'', field_nat usize_max kvs ''id'', field_opt Some kvs ''result'',
                 field_opt rpc_error_of_json kvs ''error'') of
             (Some v, Some i, Some r, Some e) \<Rightarrow>
               Some \<lparr>rsp_jsonrpc = v, rsp_id = i, rsp_result = r, rsp_error = e\<rparr>
           | _ \<Rightarrow> None))"

section \<open>Content-Length frames\<close>

definition crlf :: string where
  "crlf = [CHR 0x0D, CHR 0x0A]"

definition header_line :: "nat \<Rightarrow> string" where
  "header_line n = ''Content-Length: '' @ dec n @ crlf"

definition write_lsp :: "writer \<Rightarrow> string \<Rightarrow> lsp_error option \<times> writer" where
  "write_lsp w json =
     (case write_all w (header_line (length json) @ crlf) of
        (Some e, w') \<Rightarrow> (Some e, w')
      | (None, w') \<Rightarrow> write_all w' json)"

text \<open>\<open>BufRead::read_line\<close>: up to and with the next newline, or to the end of the stream; the
  bytes are gone also when they are no UTF-8.\<close>

definition read_line :: "reader \<Rightarrow> ((io_error + string) \<times> reader) outcome" where
  "read_line r =
     (let line = takeWhile (\<lambda>c. c \<noteq> CHR 0x0A) (rd_bytes r);
          more = dropWhile (\<lambda>c. c \<noteq> CHR 0x0A) (rd_bytes r) in
      if more = [] \<and> rd_open r then Hangs
      else
        (let got = (case more of [] \<Rightarrow> line | nl # _ \<Rightarrow> line @ [nl]);
             r' = r\<lparr>rd_bytes := tl more\<rparr> in
         if utf8_valid got then Returns (Inr got, r') else Returns (Inl InvalidData, r')))"

text \<open>The messages of \<open>ParseIntError\<close>, found from left to right.\<close>

fun digits_error :: "nat \<Rightarrow> nat \<Rightarrow> string \<Rightarrow> string" where
  "digits_error limit acc [] = ''invalid digit found in string''"
| "digits_error limit acc (c # cs) =
     (if \<not> is_ascii_digit c then ''invalid digit found in string''
      else if limit < 10 * acc + (byte c - 48) then ''number too large to fit in target type''
      else digits_error limit (10 * acc + (byte c - 48)) cs)"

definition parse_int_error :: "nat \<Rightarrow> string \<Rightarrow> string" where
  "parse_int_error limit s =
     (if s = [] then ''cannot parse integer from empty string''
      else digits_error limit 0 (if hd s = CHR ''+'' then tl s else s))"

lemma read_line_Inr:
  assumes "read_line r = Returns (Inr line, r')"
  shows "rd_bytes r = line @ rd_bytes r' \<and> rd_open r' = rd_open r"
proof -
  define more where "more = dropWhile (\<lambda>c. c \<noteq> CHR 0x0A) (rd_bytes r)"
  define got where "got = (case more of [] \<Rightarrow> takeWhile (\<lambda>c. c \<noteq> CHR 0x0A) (rd_bytes r)
    | nl # _ \<Rightarrow> takeWhile (\<lambda>c. c \<noteq> CHR 0x0A) (rd_bytes r) @ [nl])"
  have "read_line r = (if more = [] \<and> rd_open r then Hangs
      else if utf8_valid got then Returns (Inr got, r\<lparr>rd_bytes := tl more\<rparr>)
      else Returns (Inl InvalidData, r\<lparr>rd_bytes := tl more\<rparr>))"
    unfolding read_line_def Let_def more_def[symmetric] got_def[symmetric] by (rule refl)
  with assms have eq: "line = got" "r' = r\<lparr>rd_bytes := tl more\<rparr>"
    by (simp_all split: if_split_asm)
  have "rd_bytes r = takeWhile (\<lambda>c. c \<noteq> CHR 0x0A) (rd_bytes r) @ more"
    unfolding more_def by (rule takeWhile_dropWhile_id[symmetric])
  then show ?thesis unfolding eq got_def by (cases more) simp_all
qed

lemma read_line_less:
  "read_line r = Returns (Inr line, r') \<Longrightarrow> line \<noteq> [] \<Longrightarrow> length (rd_bytes r') < length (rd_bytes r)"
  using read_line_Inr by fastforce

function read_headers :: "reader \<Rightarrow> nat option \<Rightarrow> ((lsp_error + nat) \<times> reader) outcome" where
  "read_headers r content_length =
     (case read_line r of
        Hangs \<Rightarrow> Hangs
      | Panics \<Rightarrow> Panics
      | Returns (Inl e, r') \<Rightarrow> Returns (Inl (Io e), r')
      | Returns (Inr line, r') \<Rightarrow>
          if line = [] then
            Returns (Inl (ConnectionFailed ''unexpected end of stream while reading headers''), r')
          else
            (let trimmed = str_trim line in
             if trimmed = [] then
               (case content_length of
                  None \<Rightarrow> Returns (Inl (ConnectionFailed ''missing Content-Length header''), r')
                | Some n \<Rightarrow> Returns (Inr n, r'))
             else if starts_with ''Content-Length:'' trimmed then
               (let value = str_trim (drop 15 trimmed) in
                case parse_unsigned usize_max value of
                  None \<Rightarrow>
                    Returns (Inl (ConnectionFailed
                      (''invalid Content-Length: '' @ parse_int_error usize_max value)), r')
                | Some n \<Rightarrow> read_headers r' (Some n))
             else read_headers r' content_length))"
  by pat_completeness auto
termination
  by (relation "measure (\<lambda>(r, n). length (rd_bytes r))") (auto dest: read_line_less)

declare read_headers.simps [simp del]

text \<open>A buffer of more than \<open>isize::MAX\<close> bytes panics. The detail that the error message on
  invalid UTF-8 ends with is left out.\<close>

definition read_lsp :: "reader \<Rightarrow> ((lsp_error + string) \<times> reader) outcome" where
  "read_lsp r =
     outcome_bind (read_headers r None) (\<lambda>(res, r1).
       case res of
         Inl e \<Rightarrow> Returns (Inl e, r1)
       | Inr n \<Rightarrow>
           if 2 ^ 63 \<le> n then Panics
           else
             outcome_bind (read_exact r1 n) (\<lambda>(res2, r2).
               case res2 of
                 Inl e \<Rightarrow> Returns (Inl (Io e), r2)
               | Inr body \<Rightarrow>
                   if utf8_valid body then Returns (Inr body, r2)
                   else Returns (Inl (ConnectionFailed ''invalid UTF-8 in response body''), r2)))"

lemma read_headers_less:
  "read_headers r n = Returns (Inr k, r') \<Longrightarrow> length (rd_bytes r') < length (rd_bytes r)"
proof (induction r n rule: read_headers.induct)
  case (1 r n)
  show ?case
  proof (cases "read_line r")
    case (Returns x)
    obtain res r1 where x: "x = (res, r1)" by force
    show ?thesis
    proof (cases res)
      case (Inl e)
      with 1(3) show ?thesis by (simp add: read_headers.simps[of r n] Returns x)
    next
      case (Inr line)
      show ?thesis
      proof (cases "line = []")
        case True
        with 1(3) Inr show ?thesis by (simp add: read_headers.simps[of r n] Returns x)
      next
        case False
        have less: "length (rd_bytes r1) < length (rd_bytes r)"
          using read_line_less[OF Returns[unfolded x Inr] False] .
        consider (stop) "read_headers r n = Returns (Inr k, r1)"
          | (hdr) v where "read_headers r1 (Some v) = Returns (Inr k, r')"
              "str_trim line \<noteq> []" "starts_with ''Content-Length:'' (str_trim line)"
              "parse_unsigned usize_max (str_trim (drop 15 (str_trim line))) = Some v"
          | (other) "read_headers r1 n = Returns (Inr k, r')" "str_trim line \<noteq> []"
              "\<not> starts_with ''Content-Length:'' (str_trim line)"
          using 1(3) unfolding read_headers.simps[of r n] Returns x Inr outcome.case prod.case sum.case
            if_not_P[OF False] Let_def
          by (auto split: if_split_asm option.split_asm)
        then show ?thesis
        proof cases
          case stop
          with 1(3) less show ?thesis by simp
        next
          case hdr
          from 1(1)[OF Returns x[symmetric] Inr False refl hdr(2,3) refl hdr(4,1)] less show ?thesis by simp
        next
          case other
          from 1(2)[OF Returns x[symmetric] Inr False refl other(2,3,1)] less show ?thesis by simp
        qed
      qed
    qed
  qed (use 1(3) in \<open>simp_all add: read_headers.simps[of r n]\<close>)
qed

lemma read_exact_le: "read_exact r n = Returns (res, r') \<Longrightarrow> length (rd_bytes r') \<le> length (rd_bytes r)"
  by (auto simp: read_exact_def split: if_splits)

lemma read_lsp_less:
  assumes "read_lsp r = Returns (Inr msg, r')"
  shows "length (rd_bytes r') < length (rd_bytes r)"
proof -
  obtain res r1 where h: "read_headers r None = Returns (res, r1)"
    using assms by (cases "read_headers r None") (auto simp: read_lsp_def)
  then obtain n where n: "res = Inr n" using assms by (cases res) (auto simp: read_lsp_def)
  from read_headers_less[OF h[unfolded n]] have less: "length (rd_bytes r1) < length (rd_bytes r)" .
  obtain res2 r2 where b: "read_exact r1 n = Returns (res2, r2)" and r': "r' = r2"
    using assms h n by (cases "read_exact r1 n") (auto simp: read_lsp_def split: if_splits sum.splits)
  from read_exact_le[OF b] less r' show ?thesis by simp
qed

section \<open>The transport\<close>

record transport =
  tr_out :: writer
  tr_in :: reader
  tr_timeout :: nat

definition DEFAULT_TIMEOUT :: nat where
  "DEFAULT_TIMEOUT = 30 * 10 ^ 9"

definition transport_new :: "writer \<Rightarrow> reader \<Rightarrow> transport" where
  "transport_new stdin stdout = \<lparr>tr_out = stdin, tr_in = stdout, tr_timeout = DEFAULT_TIMEOUT\<rparr>"

definition set_timeout :: "transport \<Rightarrow> nat \<Rightarrow> transport" where
  "set_timeout t timeout = t\<lparr>tr_timeout := timeout\<rparr>"

text \<open>The response to request \<open>i\<close> that a message is, if it is one.\<close>

definition response_for :: "json_codec \<Rightarrow> 64 word \<Rightarrow> string \<Rightarrow> rpc_response option" where
  "response_for c i msg =
     (case jc_parse c msg of
        Inl e \<Rightarrow> None
      | Inr j \<Rightarrow>
          (case rpc_response_of_json j of
             None \<Rightarrow> None
           | Some response \<Rightarrow> if rsp_id response = unat i then Some response else None))"

definition response_result :: "string \<Rightarrow> rpc_response \<Rightarrow> lsp_error + json" where
  "response_result meth response =
     (case rsp_error response of
        Some err \<Rightarrow> Inl (RequestFailed meth (rpc_message err))
      | None \<Rightarrow> Inr (case rsp_result response of None \<Rightarrow> JNull | Some j \<Rightarrow> j))"

function await_response ::
  "'z lsp_env_scheme \<Rightarrow> 64 word \<Rightarrow> string \<Rightarrow> nat \<Rightarrow> nat \<Rightarrow> reader \<Rightarrow> 'y world_scheme
    \<Rightarrow> ((lsp_error + json) \<times> reader \<times> 'y world_scheme) outcome" where
  "await_response env i meth timeout deadline r w =
     (let (now, w1) = read_clock env w in
      if deadline \<le> now then Returns (Inl (Timeout timeout), r, w1)
      else
        (case read_lsp r of
           Hangs \<Rightarrow> Hangs
         | Panics \<Rightarrow> Panics
         | Returns (Inl e, r1) \<Rightarrow> Returns (Inl e, r1, w1)
         | Returns (Inr msg, r1) \<Rightarrow>
             (case response_for (le_codec env) i msg of
                Some response \<Rightarrow> Returns (response_result meth response, r1, w1)
              | None \<Rightarrow> await_response env i meth timeout deadline r1 w1)))"
  by pat_completeness auto
termination
  by (relation "measure (\<lambda>(env, i, m, t, d, r, w). length (rd_bytes r))") (auto dest: read_lsp_less)

declare await_response.simps [simp del]

definition send_request ::
  "'z lsp_env_scheme \<Rightarrow> transport \<Rightarrow> string \<Rightarrow> json \<Rightarrow> 'y world_scheme
    \<Rightarrow> ((lsp_error + json) \<times> transport \<times> 'y world_scheme) outcome" where
  "send_request env t meth params w =
     (let (i, w1) = next_request_id w;
          text_out = jc_print (le_codec env) (rpc_request_json i meth (Some params)) in
      case write_lsp (tr_out t) text_out of
        (Some e, out) \<Rightarrow> Returns (Inl e, t\<lparr>tr_out := out\<rparr>, w1)
      | (None, out) \<Rightarrow>
          (let (now, w2) = read_clock env w1 in
           outcome_bind (await_response env i meth (tr_timeout t) (now + tr_timeout t) (tr_in t) w2)
             (\<lambda>(res, r, w3). Returns (res, t\<lparr>tr_out := out, tr_in := r\<rparr>, w3))))"

definition poll_readable :: "'z lsp_env_scheme \<Rightarrow> 'y world_scheme \<Rightarrow> (io_error + bool) \<times> 'y world_scheme" where
  "poll_readable env w = (le_poll env (w_looks w), w\<lparr>w_looks := Suc (w_looks w)\<rparr>)"

definition try_read_message ::
  "'z lsp_env_scheme \<Rightarrow> transport \<Rightarrow> 'y world_scheme
    \<Rightarrow> ((lsp_error + string option) \<times> transport \<times> 'y world_scheme) outcome" where
  "try_read_message env t w =
     (let read = (\<lambda>w'. outcome_bind (read_lsp (tr_in t))
            (\<lambda>(res, r). Returns (map_sum id Some res, t\<lparr>tr_in := r\<rparr>, w'))) in
      if le_buffered env (w_looks w) then read w
      else
        (case poll_readable env w of
           (Inl e, w') \<Rightarrow> Returns (Inl (Io e), t, w')
         | (Inr True, w') \<Rightarrow> read w'
         | (Inr False, w') \<Rightarrow> Returns (Inr None, t, w')))"

definition write_raw :: "transport \<Rightarrow> string \<Rightarrow> lsp_error option \<times> transport" where
  "write_raw t json =
     (case write_lsp (tr_out t) json of (e, out) \<Rightarrow> (e, t\<lparr>tr_out := out\<rparr>))"

definition send_notification ::
  "'z lsp_env_scheme \<Rightarrow> transport \<Rightarrow> string \<Rightarrow> json \<Rightarrow> lsp_error option \<times> transport" where
  "send_notification env t meth params =
     (case write_lsp (tr_out t) (jc_print (le_codec env) (rpc_notification_json meth (Some params))) of
        (e, out) \<Rightarrow> (e, t\<lparr>tr_out := out\<rparr>))"

section \<open>Reading a header back\<close>

lemma byte_inj: "byte a = byte b \<longleftrightarrow> a = b"
  by (simp add: byte_def)

lemma strip_one_None_hd:
  "list_all (\<lambda>w. w \<noteq> [] \<and> byte (hd w) \<noteq> byte c) ws \<Longrightarrow> strip_one ws (c # s) = None"
proof (induction ws)
  case (Cons w ws)
  then obtain x w' where "w = x # w'" "x \<noteq> c" by (cases w) auto
  with Cons show ?case by (simp add: starts_with_def)
qed simp

lemma white_space_no_digit:
  "list_all (\<lambda>w. w \<noteq> [] \<and> \<not> is_ascii_digit (hd w)) white_space"
  "list_all (\<lambda>w. w \<noteq> [] \<and> \<not> is_ascii_digit (hd w)) (map rev white_space)"
  by (simp_all add: white_space_def is_ascii_digit_def)

lemma strip_all_digit:
  assumes "is_ascii_digit d"
  shows "strip_all white_space (d # s) = d # s" "strip_all (map rev white_space) (d # s) = d # s"
proof -
  have "list_all (\<lambda>w. w \<noteq> [] \<and> byte (hd w) \<noteq> byte d) white_space"
    "list_all (\<lambda>w. w \<noteq> [] \<and> byte (hd w) \<noteq> byte d) (map rev white_space)"
    using white_space_no_digit assms by (auto simp: list_all_iff byte_inj)
  then show "strip_all white_space (d # s) = d # s" "strip_all (map rev white_space) (d # s) = d # s"
    by (simp_all add: strip_all_id strip_one_None_hd)
qed

lemma strip_one_single:
  "list_all (\<lambda>w. w \<noteq> [] \<and> (byte (hd w) = byte c \<longrightarrow> length w = 1)) ws \<Longrightarrow>
     list_ex (\<lambda>w. map byte w = [byte c]) ws \<Longrightarrow> strip_one ws (c # s) = Some s"
proof (induction ws)
  case (Cons w ws)
  obtain x w' where w: "w = x # w'" using Cons.prems(1) by (cases w) auto
  show ?case
  proof (cases "x = c")
    case True
    with Cons.prems(1) w show ?thesis by (simp add: starts_with_def)
  next
    case False
    with Cons w show ?thesis by (simp add: starts_with_def byte_inj)
  qed
qed simp

lemma strip_newline:
  "strip_one (map rev white_space) (CHR 0x0A # s) = Some s" "strip_one white_space (CHR 0x0A # s) = Some s"
  by (rule strip_one_single; simp add: white_space_def byte_def)+

lemma strip_return:
  "strip_one (map rev white_space) (CHR 0x0D # s) = Some s" "strip_one white_space (CHR 0x0D # s) = Some s"
  by (rule strip_one_single; simp add: white_space_def byte_def)+

lemma strip_space: "strip_one white_space (CHR '' '' # s) = Some s"
  by (rule strip_one_single; simp add: white_space_def byte_def)

lemma strip_C: "strip_one white_space (CHR ''C'' # s) = None"
  by (rule strip_one_None_hd) (simp add: white_space_def byte_def)

lemma strip_one_Nil: "list_all (\<lambda>w. w \<noteq> []) ws \<Longrightarrow> strip_one ws [] = None"
  by (induction ws) (auto simp: starts_with_def)

lemma strip_all_Nil: "strip_all white_space [] = []" "strip_all (map rev white_space) [] = []"
  using white_space_no_digit by (auto intro!: strip_all_id strip_one_Nil simp: list_all_iff)

lemma rev_dec: obtains d ds where "rev (dec n) = d # ds" "is_ascii_digit d"
proof -
  obtain d ds where d: "rev (dec n) = d # ds" using dec_nonempty[of n] by (cases "rev (dec n)") auto
  then have "d \<in> set (dec n)" by (metis list.set_intros(1) set_rev)
  then have "is_ascii_digit d" using dec_digits[of n] by (simp add: list_all_iff)
  with d that show thesis by blast
qed

lemma strip_end_dec: "strip_all (map rev white_space) (rev (dec n) @ s) = rev (dec n) @ s"
proof -
  obtain d ds where "rev (dec n) = d # ds" "is_ascii_digit d" by (rule rev_dec)
  then show ?thesis by (simp add: strip_all_digit)
qed

lemma strip_start_dec: "strip_all white_space (dec n) = dec n"
proof -
  obtain d ds where d: "dec n = d # ds" by (cases "dec n") auto
  then have "is_ascii_digit d" using dec_digits[of n] by simp
  with d show ?thesis by (simp add: strip_all_digit)
qed

lemma trim_header_line: "str_trim (header_line n) = ''Content-Length: '' @ dec n"
proof -
  have start: "strip_all white_space (header_line n) = header_line n"
    by (rule strip_all_id) (simp add: header_line_def strip_C)
  have "strip_all (map rev white_space) (rev (header_line n)) = rev (dec n) @ rev ''Content-Length: ''"
    unfolding header_line_def crlf_def
    by (simp add: strip_all.simps[of _ "CHR 0x0A # _"] strip_all.simps[of _ "CHR 0x0D # _"]
        strip_newline strip_return strip_end_dec)
  then show ?thesis unfolding str_trim_def start by simp
qed

lemma trim_header_value: "str_trim ('' '' @ dec n) = dec n"
proof -
  have "strip_all white_space ('' '' @ dec n) = dec n"
    by (simp add: strip_all.simps[of _ "CHR '' '' # _"] strip_space strip_start_dec)
  then show ?thesis
    using strip_end_dec[of n "[]"] by (simp add: str_trim_def)
qed

lemma dec_no_newline: "CHR 0x0A \<notin> set (dec n)"
proof
  assume "CHR 0x0A \<in> set (dec n)"
  then have "is_ascii_digit (CHR 0x0A)" using dec_digits[of n] by (simp add: list_all_iff)
  then show False by (simp add: is_ascii_digit_def byte_def)
qed

lemma dec_ascii: "is_ascii (dec n)"
  using dec_digits[of n] by (auto simp: is_ascii_def list_all_iff is_ascii_digit_def)

lemma read_line_known:
  assumes "CHR 0x0A \<notin> set l" "is_ascii l"
  shows "read_line \<lparr>rd_bytes = l @ CHR 0x0A # rest, rd_open = op\<rparr> =
    Returns (Inr (l @ [CHR 0x0A]), \<lparr>rd_bytes = rest, rd_open = op\<rparr>)"
proof -
  have ok: "\<And>x. x \<in> set l \<Longrightarrow> x \<noteq> CHR 0x0A" using assms(1) by blast
  have t: "takeWhile (\<lambda>c. c \<noteq> CHR 0x0A) (l @ CHR 0x0A # rest) = l"
    by (subst takeWhile_append2) (use ok in auto)
  have d: "dropWhile (\<lambda>c. c \<noteq> CHR 0x0A) (l @ CHR 0x0A # rest) = CHR 0x0A # rest"
    by (subst dropWhile_append2) (use ok in auto)
  have "utf8_valid (l @ [CHR 0x0A])"
    using assms(2) by (intro utf8_valid_ascii) (auto simp: is_ascii_def byte_def)
  with t d show ?thesis by (simp add: read_line_def)
qed

lemma read_header_line:
  "read_line \<lparr>rd_bytes = header_line n @ rest, rd_open = op\<rparr> =
    Returns (Inr (header_line n), \<lparr>rd_bytes = rest, rd_open = op\<rparr>)"
  using read_line_known[of "''Content-Length: '' @ dec n @ [CHR 0x0D]" rest op] dec_no_newline dec_ascii[of n]
  by (simp add: header_line_def crlf_def is_ascii_def byte_def ball_Un)

lemma read_blank_line:
  "read_line \<lparr>rd_bytes = crlf @ rest, rd_open = op\<rparr> = Returns (Inr crlf, \<lparr>rd_bytes = rest, rd_open = op\<rparr>)"
  using read_line_known[of "[CHR 0x0D]" rest op] by (simp add: crlf_def is_ascii_def byte_def)

lemma trim_crlf: "str_trim crlf = []"
  by (simp add: str_trim_def crlf_def strip_all.simps[of _ "CHR 0x0A # _"] strip_all.simps[of _ "CHR 0x0D # _"]
      strip_newline strip_return strip_all_Nil)

lemma header_line_nonempty: "header_line n \<noteq> []" "crlf \<noteq> []"
  by (simp_all add: header_line_def crlf_def)

lemma read_headers_known:
  assumes "n \<le> usize_max"
  shows "read_headers \<lparr>rd_bytes = header_line n @ crlf @ rest, rd_open = op\<rparr> None =
    Returns (Inr n, \<lparr>rd_bytes = rest, rd_open = op\<rparr>)"
proof -
  have d: "drop 15 (''Content-Length: '' @ dec n) = '' '' @ dec n" by simp
  have s: "starts_with ''Content-Length:'' (''Content-Length: '' @ dec n)" by (simp add: starts_with_def)
  show ?thesis
    using assms d s
    by (simp add: read_headers.simps[of "\<lparr>rd_bytes = header_line n @ crlf @ rest, rd_open = op\<rparr>"]
        read_headers.simps[of "\<lparr>rd_bytes = crlf @ rest, rd_open = op\<rparr>"]
        read_header_line read_blank_line trim_header_line trim_crlf header_line_nonempty
        trim_header_value[simplified] parse_unsigned_dec)
qed

section \<open>The frames form a channel\<close>

definition lsp_frame :: "string \<Rightarrow> string" where
  "lsp_frame json = header_line (length json) @ crlf @ json"

definition lsp_fits :: "string \<Rightarrow> bool" where
  "lsp_fits s \<longleftrightarrow> utf8_valid s \<and> length s < 2 ^ 63"

definition unlsp :: "string \<Rightarrow> (string \<times> string) option" where
  "unlsp s =
     (case read_lsp \<lparr>rd_bytes = s, rd_open = False\<rparr> of
        Returns (Inr m, r) \<Rightarrow> Some (m, rd_bytes r)
      | _ \<Rightarrow> None)"

lemma read_lsp_frame:
  assumes "lsp_fits m"
  shows "read_lsp \<lparr>rd_bytes = lsp_frame m @ rest, rd_open = op\<rparr> =
    Returns (Inr m, \<lparr>rd_bytes = rest, rd_open = op\<rparr>)"
proof -
  have "length m \<le> usize_max" "utf8_valid m" "length m < 2 ^ 63"
    using assms by (auto simp: lsp_fits_def usize_max_def)
  then show ?thesis
    by (simp add: read_lsp_def lsp_frame_def read_headers_known read_exact_def)
qed

lemma write_lsp_frame:
  "wr_room w = None \<Longrightarrow> write_lsp w m = (None, w\<lparr>wr_bytes := wr_bytes w @ lsp_frame m\<rparr>)"
  by (simp add: write_lsp_def write_all_def lsp_frame_def)

interpretation lsp_frames: framed_channel lsp_frame unlsp lsp_fits
  by unfold_locales (simp add: unlsp_def read_lsp_frame)

lemma read_lsp_silent: "read_lsp \<lparr>rd_bytes = [], rd_open = True\<rparr> = Hangs"
  by (simp add: read_lsp_def read_headers.simps[of "\<lparr>rd_bytes = [], rd_open = True\<rparr>"] read_line_def)

text \<open>
  Messages framed one after the other come back in order and whole, up to what follows them,
  and the frame is what writing a message to a working pipe appends.
\<close>

theorem lsp_messages_round_trip:
  assumes "list_all lsp_fits ms" "wr_room w = None"
  shows "foldl (\<lambda>(e, w) m. write_lsp w m) (None, w) ms
      = (None, w\<lparr>wr_bytes := wr_bytes w @ concat (map lsp_frame ms)\<rparr>)
    \<and> lsp_frames.get_many (length ms) (concat (map lsp_frame ms) @ rest) = Some (ms, rest)"
proof
  show "lsp_frames.get_many (length ms) (concat (map lsp_frame ms) @ rest) = Some (ms, rest)"
    using assms(1) by (rule lsp_frames.get_many_put)
  show "foldl (\<lambda>(e, w) m. write_lsp w m) (None, w) ms
      = (None, w\<lparr>wr_bytes := wr_bytes w @ concat (map lsp_frame ms)\<rparr>)"
    using assms(2) by (induction ms arbitrary: w) (simp_all add: write_lsp_frame)
qed

theorem lsp_messages_round_trip_witness:
  "lsp_frames.get_many 2 (lsp_frame ''{}'' @ lsp_frame ''[1]'' @ ''x'') = Some ([''{}'', ''[1]''], ''x'')"
proof -
  have "list_all lsp_fits [''{}'', ''[1]'']"
    by (simp add: lsp_fits_def byte_def)
  from lsp_messages_round_trip[OF this, of "\<lparr>wr_bytes = [], wr_room = None\<rparr>" "''x''"]
  show ?thesis by (simp add: numeral_2_eq_2)
qed

section \<open>Waiting for a response\<close>

lemma await_skip:
  assumes "list_all (\<lambda>m. lsp_fits m \<and> response_for (le_codec env) i m = None) ms"
    and "\<forall>k < length ms. le_clock env (w_ticks w + k) < deadline"
  shows "await_response env i meth timeout deadline \<lparr>rd_bytes = concat (map lsp_frame ms) @ rest, rd_open = op\<rparr> w =
    await_response env i meth timeout deadline \<lparr>rd_bytes = rest, rd_open = op\<rparr>
      (w\<lparr>w_ticks := w_ticks w + length ms\<rparr>)"
  using assms
proof (induction ms arbitrary: w)
  case (Cons m ms)
  have now: "le_clock env (w_ticks w) < deadline" using Cons.prems(2) by force
  have later: "\<forall>k < length ms. le_clock env (w_ticks (w\<lparr>w_ticks := Suc (w_ticks w)\<rparr>) + k) < deadline"
    using Cons.prems(2) by auto
  from Cons.IH[OF _ later] Cons.prems(1) now show ?case
    by (simp add: await_response.simps[of env i meth timeout deadline
          "\<lparr>rd_bytes = lsp_frame m @ concat (map lsp_frame ms) @ rest, rd_open = op\<rparr>" w]
        read_clock_def read_lsp_frame)
qed simp

text \<open>
  A request gets the first response with its id: whatever notifications, responses to other
  requests or text that is no JSON the server sends before it are skipped, as long as the clock
  has not passed the deadline at the reads, and exactly those messages are taken from the pipe.
\<close>

theorem send_request_finds_response:
  assumes "list_all (\<lambda>m. lsp_fits m \<and> response_for (le_codec env) (w_next_id w) m = None) ms"
    and "lsp_fits m" "response_for (le_codec env) (w_next_id w) m = Some response"
    and "\<forall>k \<le> length ms. le_clock env (Suc (w_ticks w + k)) < le_clock env (w_ticks w) + tr_timeout t"
    and "tr_in t = \<lparr>rd_bytes = concat (map lsp_frame ms) @ lsp_frame m @ rest, rd_open = op\<rparr>"
    and "wr_room (tr_out t) = None"
  shows "\<exists>sent w'. send_request env t meth params w =
      Returns (response_result meth response,
        t\<lparr>tr_out := (tr_out t)\<lparr>wr_bytes := wr_bytes (tr_out t) @ sent\<rparr>, tr_in := \<lparr>rd_bytes = rest, rd_open = op\<rparr>\<rparr>, w')"
proof -
  define deadline where "deadline = le_clock env (w_ticks w) + tr_timeout t"
  define w2 where "w2 = w\<lparr>w_next_id := w_next_id w + 1, w_ticks := Suc (w_ticks w)\<rparr>"
  have clock: "\<forall>k < length ms. le_clock env (w_ticks w2 + k) < deadline"
    "le_clock env (w_ticks w2 + length ms) < deadline"
    using assms(4) by (auto simp: w2_def deadline_def)
  have "await_response env (w_next_id w) meth (tr_timeout t) deadline (tr_in t) w2 =
      Returns (response_result meth response, \<lparr>rd_bytes = rest, rd_open = op\<rparr>,
        w2\<lparr>w_ticks := Suc (w_ticks w2 + length ms)\<rparr>)"
    unfolding assms(5) await_skip[OF assms(1) clock(1)]
    using clock(2) assms(2,3)
    by (simp add: await_response.simps[of env _ meth _ deadline "\<lparr>rd_bytes = lsp_frame m @ rest, rd_open = op\<rparr>"]
        read_clock_def read_lsp_frame)
  then show ?thesis
    by (simp add: send_request_def next_request_id_def read_clock_def write_lsp_frame[OF assms(6)]
        flip: deadline_def w2_def) blast
qed

text \<open>A server that sends one notification and then the response to request 1.\<close>

definition demo_codec :: json_codec where
  "demo_codec =
     \<lparr>jc_print = (\<lambda>_. ''q''),
      jc_parse = (\<lambda>s. if s = ''r'' then Inr (JObj [(''jsonrpc'', JStr ''2.0''), (''id'', JInt 1), (''result'', JStr ''ok'')])
                       else Inr (rpc_notification_json ''n'' None))\<rparr>"

definition demo_env :: lsp_env where
  "demo_env = \<lparr>le_codec = demo_codec, le_clock = (\<lambda>k. k), le_buffered = (\<lambda>_. False), le_poll = (\<lambda>_. Inr True)\<rparr>"

definition demo_world :: world where
  "demo_world = \<lparr>w_ticks = 0, w_looks = 0, w_next_id = 1\<rparr>"

definition demo_transport :: "string list \<Rightarrow> bool \<Rightarrow> transport" where
  "demo_transport ms op =
     transport_new \<lparr>wr_bytes = [], wr_room = None\<rparr> \<lparr>rd_bytes = concat (map lsp_frame ms), rd_open = op\<rparr>"

definition demo_response :: rpc_response where
  "demo_response = \<lparr>rsp_jsonrpc = ''2.0'', rsp_id = 1, rsp_result = Some (JStr ''ok''), rsp_error = None\<rparr>"

lemma demo_responses:
  "response_for demo_codec 1 ''n'' = None" "response_for demo_codec 1 ''r'' = Some demo_response"
  by (simp_all add: response_for_def demo_codec_def rpc_notification_json_def params_field_def
      rpc_response_of_json_def struct_fields_def field_str_def field_nat_def field_opt_def json_nat_def
      demo_response_def usize_max_def)

lemma demo_fits: "lsp_fits ''n''" "lsp_fits ''r''"
  by (simp_all add: lsp_fits_def byte_def)

theorem send_request_finds_response_witness:
  "\<exists>t' w'. send_request demo_env (demo_transport [''n'', ''r''] True) ''m'' JNull demo_world
     = Returns (Inr (JStr ''ok''), t', w')"
proof -
  have "list_all (\<lambda>m. lsp_fits m \<and> response_for (le_codec demo_env) (w_next_id demo_world) m = None) [''n'']"
    "response_for (le_codec demo_env) (w_next_id demo_world) ''r'' = Some demo_response"
    by (simp_all add: demo_env_def demo_world_def demo_responses demo_fits)
  moreover have "\<forall>k \<le> length [''n'']. le_clock demo_env (Suc (w_ticks demo_world + k)) <
      le_clock demo_env (w_ticks demo_world) + tr_timeout (demo_transport [''n'', ''r''] True)"
    by (simp add: demo_env_def demo_world_def demo_transport_def transport_new_def DEFAULT_TIMEOUT_def)
  moreover have "tr_in (demo_transport [''n'', ''r''] True) =
      \<lparr>rd_bytes = concat (map lsp_frame [''n'']) @ lsp_frame ''r'' @ [], rd_open = True\<rparr>"
    "wr_room (tr_out (demo_transport [''n'', ''r''] True)) = None"
    by (simp_all add: demo_transport_def transport_new_def)
  ultimately show ?thesis
    using send_request_finds_response[of demo_env demo_world "[''n'']" "''r''" demo_response
        "demo_transport [''n'', ''r''] True" "[]" True "''m''" JNull] demo_fits(2)
    by (fastforce simp: response_result_def demo_response_def)
qed

text \<open>
  The timeout does not bound a request: if the server stays alive but sends only other
  messages before the deadline and then nothing, the call never returns, whatever the timeout is,
  because the deadline is looked at between messages only and the read blocks.
\<close>

theorem send_request_hangs_on_silence:
  assumes "list_all (\<lambda>m. lsp_fits m \<and> response_for (le_codec env) (w_next_id w) m = None) ms"
    and "\<forall>k \<le> length ms. le_clock env (Suc (w_ticks w + k)) < le_clock env (w_ticks w) + tr_timeout t"
    and "tr_in t = \<lparr>rd_bytes = concat (map lsp_frame ms), rd_open = True\<rparr>"
    and "wr_room (tr_out t) = None"
  shows "send_request env t meth params w = Hangs"
proof -
  define deadline where "deadline = le_clock env (w_ticks w) + tr_timeout t"
  define w2 where "w2 = w\<lparr>w_next_id := w_next_id w + 1, w_ticks := Suc (w_ticks w)\<rparr>"
  have clock: "\<forall>k < length ms. le_clock env (w_ticks w2 + k) < deadline"
    "le_clock env (w_ticks w2 + length ms) < deadline"
    using assms(2) by (auto simp: w2_def deadline_def)
  have "await_response env (w_next_id w) meth (tr_timeout t) deadline (tr_in t) w2 = Hangs"
    using await_skip[OF assms(1) clock(1), of meth "tr_timeout t" "[]" True] clock(2)
    by (simp add: assms(3) await_response.simps[of env _ meth _ deadline "\<lparr>rd_bytes = [], rd_open = True\<rparr>"]
        read_clock_def read_lsp_silent)
  then show ?thesis
    by (simp add: send_request_def next_request_id_def read_clock_def write_lsp_frame[OF assms(4)]
        flip: deadline_def w2_def)
qed

theorem send_request_hangs_on_silence_witness:
  "send_request demo_env (demo_transport [''n''] True) ''m'' JNull demo_world = Hangs"
  by (rule send_request_hangs_on_silence[where ms = "[''n'']"])
    (simp_all add: demo_env_def demo_world_def demo_transport_def transport_new_def DEFAULT_TIMEOUT_def
      demo_responses demo_fits)

end
