(* ===== verification/Lsp_Config.thy ===== *)
theory Lsp_Config
  imports Languages
begin

text \<open>
  \<open>config.rs\<close> of codequery-lsp: the built-in language servers, the overrides of
  \<open>.cq.toml\<close> and of the environment, and how they merge. The overrides come as the list
  of entries in the order the hash map iterates.
\<close>

record server_config =
  sc_binary :: string
  sc_args :: "string list"
  sc_env :: "(string \<times> string) list"

record server_override =
  so_binary :: "string option"
  so_args :: "string list option"

type_synonym registry = "(language \<times> server_config) list"

definition builtin_servers :: "(language \<times> string \<times> string list) list" where
  "builtin_servers =
     [(Rust, ''rust-analyzer'', []),
      (TypeScript, ''typescript-language-server'', [''--stdio'']),
      (JavaScript, ''typescript-language-server'', [''--stdio'']),
      (Python, ''pyright-langserver'', [''--stdio'']),
      (Go, ''gopls'', [''serve'']),
      (C, ''clangd'', []),
      (Cpp, ''clangd'', []),
      (Java, ''jdtls'', []),
      (Ruby, ''solargraph'', [''stdio'']),
      (CSharp, ''OmniSharp'', [''--languageserver'']),
      (Swift, ''sourcekit-lsp'', []),
      (Kotlin, ''kotlin-language-server'', []),
      (Php, ''intelephense'', [''--stdio'']),
      (Zig, ''zls'', []),
      (Lua, ''lua-language-server'', []),
      (Bash, ''bash-language-server'', [''start''])]"

definition registry_new :: registry where
  "registry_new =
     map (\<lambda>(l, b, args). (l, \<lparr>sc_binary = b, sc_args = args, sc_env = []\<rparr>)) builtin_servers"

definition config_for :: "registry \<Rightarrow> language \<Rightarrow> server_config option" where
  "config_for reg lang = map_option snd (List.find (\<lambda>e. fst e = lang) reg)"

definition merge_config :: "server_config \<Rightarrow> server_override \<Rightarrow> server_config" where
  "merge_config config ov =
     (let c1 = (case so_binary ov of None \<Rightarrow> config | Some b \<Rightarrow> config\<lparr>sc_binary := b\<rparr>) in
      case so_args ov of None \<Rightarrow> c1 | Some a \<Rightarrow> c1\<lparr>sc_args := a\<rparr>)"

text \<open>\<open>iter_mut().find\<close>: the first entry of the language is changed in place.\<close>

fun update_first :: "registry \<Rightarrow> language \<Rightarrow> server_override \<Rightarrow> registry option" where
  "update_first [] lang ov = None"
| "update_first ((l, c) # reg) lang ov =
     (if l = lang then Some ((l, merge_config c ov) # reg)
      else map_option (\<lambda>r. (l, c) # r) (update_first reg lang ov))"

definition apply_override :: "registry \<Rightarrow> language \<Rightarrow> server_override \<Rightarrow> registry" where
  "apply_override reg lang ov =
     (case update_first reg lang ov of
        Some reg' \<Rightarrow> reg'
      | None \<Rightarrow>
          (case so_binary ov of
             Some b \<Rightarrow>
               reg @ [(lang, \<lparr>sc_binary = b,
                 sc_args = (case so_args ov of None \<Rightarrow> [] | Some a \<Rightarrow> a), sc_env = []\<rparr>)]
           | None \<Rightarrow> reg))"

definition env_var_languages :: "(language \<times> string) list" where
  "env_var_languages =
     [(Rust, ''RUST''), (TypeScript, ''TYPESCRIPT''), (JavaScript, ''JAVASCRIPT''),
      (Python, ''PYTHON''), (Go, ''GO''), (C, ''C''), (Cpp, ''CPP''), (Java, ''JAVA''),
      (Ruby, ''RUBY''), (CSharp, ''CSHARP''), (Swift, ''SWIFT''), (Kotlin, ''KOTLIN''),
      (Php, ''PHP''), (Zig, ''ZIG''), (Lua, ''LUA''), (Bash, ''BASH'')]"

definition apply_toml :: "registry \<Rightarrow> string \<times> server_override \<Rightarrow> registry" where
  "apply_toml reg e =
     (case from_name (fst e) of None \<Rightarrow> reg | Some lang \<Rightarrow> apply_override reg lang (snd e))"

definition apply_env :: "(string \<Rightarrow> string option) \<Rightarrow> registry \<Rightarrow> language \<times> string \<Rightarrow> registry" where
  "apply_env env reg e =
     (case env (''CQ_LSP_'' @ snd e) of
        None \<Rightarrow> reg
      | Some b \<Rightarrow> apply_override reg (fst e) \<lparr>so_binary = Some b, so_args = None\<rparr>)"

definition with_overrides ::
  "(string \<times> server_override) list \<Rightarrow> (string \<Rightarrow> string option) \<Rightarrow> registry" where
  "with_overrides overrides env =
     foldl (apply_env env) (foldl apply_toml registry_new overrides) env_var_languages"

section \<open>What an override does\<close>

definition merge_option :: "server_config option \<Rightarrow> server_override \<Rightarrow> server_config option" where
  "merge_option c ov =
     (case c of
        Some config \<Rightarrow> Some (merge_config config ov)
      | None \<Rightarrow>
          map_option (\<lambda>b. \<lparr>sc_binary = b,
            sc_args = (case so_args ov of None \<Rightarrow> [] | Some a \<Rightarrow> a), sc_env = []\<rparr>) (so_binary ov))"

lemma update_first_config:
  "(case update_first reg lang ov of
      None \<Rightarrow> config_for reg lang = None
    | Some reg' \<Rightarrow>
        config_for reg' lang = map_option (\<lambda>c. merge_config c ov) (config_for reg lang) \<and>
        config_for reg lang \<noteq> None \<and>
        (\<forall>l. l \<noteq> lang \<longrightarrow> config_for reg' l = config_for reg l))"
  by (induction reg) (auto simp: config_for_def split: option.splits)

lemma config_for_append:
  "config_for (reg @ [(l, c)]) lang =
     (case config_for reg lang of None \<Rightarrow> if l = lang then Some c else None | Some d \<Rightarrow> Some d)"
  by (induction reg) (auto simp: config_for_def split: option.split)

lemma config_for_apply:
  "config_for (apply_override reg l ov) lang =
     (if l = lang then merge_option (config_for reg lang) ov else config_for reg lang)"
proof (cases "update_first reg l ov")
  case (Some reg')
  with update_first_config[of reg l ov] show ?thesis
    by (auto simp: apply_override_def merge_option_def)
next
  case None
  with update_first_config[of reg l ov] have none: "config_for reg l = None" by simp
  show ?thesis
    using None none
    by (cases "so_binary ov") (auto simp: apply_override_def merge_option_def config_for_append split: option.split)
qed

definition toml_override :: "(string \<times> server_override) list \<Rightarrow> language \<Rightarrow> server_override option" where
  "toml_override overrides lang =
     map_option snd (List.find (\<lambda>e. from_name (fst e) = Some lang) overrides)"

definition opt_merge :: "server_config option \<Rightarrow> server_override option \<Rightarrow> server_config option" where
  "opt_merge c ov = (case ov of None \<Rightarrow> c | Some x \<Rightarrow> merge_option c x)"

lemma config_for_toml:
  assumes "distinct (filter (\<lambda>l. l \<noteq> None) (map (from_name \<circ> fst) overrides))"
  shows "config_for (foldl apply_toml reg overrides) lang =
    opt_merge (config_for reg lang) (toml_override overrides lang)"
  using assms
proof (induction overrides arbitrary: reg)
  case Nil
  then show ?case by (simp add: toml_override_def opt_merge_def)
next
  case (Cons e es)
  have rest: "toml_override es lang = None" if "from_name (fst e) = Some lang"
    using Cons.prems that
    by (auto simp: toml_override_def find_None_iff image_iff)
  show ?case
  proof (cases "from_name (fst e) = Some lang")
    case True
    with Cons rest show ?thesis
      by (simp add: apply_toml_def config_for_apply toml_override_def opt_merge_def)
  next
    case False
    have "config_for (apply_toml reg e) lang = config_for reg lang"
      using False by (auto simp: apply_toml_def config_for_apply split: option.split)
    moreover have "toml_override (e # es) lang = toml_override es lang"
      using False by (simp add: toml_override_def)
    moreover have "distinct (filter (\<lambda>l. l \<noteq> None) (map (from_name \<circ> fst) es))"
      using Cons.prems by (auto simp: comp_def split: if_splits)
    ultimately show ?thesis using Cons.IH[of "apply_toml reg e"] by (simp only: foldl_Cons)
  qed
qed

lemma config_for_env:
  assumes "distinct (map fst es)"
  shows "config_for (foldl (apply_env env) reg es) lang =
    opt_merge (config_for reg lang)
      (Option.bind (map_of es lang) (\<lambda>s. map_option (\<lambda>b. \<lparr>so_binary = Some b, so_args = None\<rparr>) (env (''CQ_LSP_'' @ s))))"
  using assms
proof (induction es arbitrary: reg)
  case Nil
  then show ?case by (simp add: opt_merge_def)
next
  case (Cons e es)
  obtain l s where e: "e = (l, s)" by force
  have "map_of es lang = None" if "l = lang" using Cons.prems that e by (simp add: map_of_eq_None_iff)
  with Cons e show ?case
    by (auto simp: apply_env_def config_for_apply opt_merge_def split: option.split)
qed

lemma env_var_languages_distinct: "distinct (map fst env_var_languages)"
  by code_simp

text \<open>
  If no two keys of the overrides name the same language, the configuration of a language is
  the built-in one, changed by its \<open>.cq.toml\<close> override, then by \<open>CQ_LSP_<LANG>\<close>, whose value
  replaces the binary only; a language without a built-in server gets one when an override names a
  binary. In particular the order of the overrides does not matter.
\<close>

theorem config_precedence:
  assumes "distinct (filter (\<lambda>l. l \<noteq> None) (map (from_name \<circ> fst) overrides))"
  shows "config_for (with_overrides overrides env) lang =
    opt_merge (opt_merge (config_for registry_new lang) (toml_override overrides lang))
      (Option.bind (map_of env_var_languages lang)
        (\<lambda>s. map_option (\<lambda>b. \<lparr>so_binary = Some b, so_args = None\<rparr>) (env (''CQ_LSP_'' @ s))))"
  unfolding with_overrides_def config_for_env[OF env_var_languages_distinct] config_for_toml[OF assms] ..

theorem config_precedence_witness:
  "config_for (with_overrides [(''go'', \<lparr>so_binary = Some ''g'', so_args = Some [''x'']\<rparr>)]
      (\<lambda>v. if v = ''CQ_LSP_GO'' then Some ''h'' else None)) Go
    = Some \<lparr>sc_binary = ''h'', sc_args = [''x''], sc_env = []\<rparr>"
proof -
  have "distinct (filter (\<lambda>l. l \<noteq> None)
      (map (from_name \<circ> fst) [(''go'', \<lparr>so_binary = Some ''g'', so_args = Some [''x'']\<rparr>)]))"
    by simp
  from config_precedence[OF this, of "\<lambda>v. if v = ''CQ_LSP_GO'' then Some ''h'' else None" Go]
  show ?thesis
  proof (rule trans)
    show "opt_merge (opt_merge (config_for registry_new Go)
          (toml_override [(''go'', \<lparr>so_binary = Some ''g'', so_args = Some [''x'']\<rparr>)] Go))
        (Option.bind (map_of env_var_languages Go)
          (\<lambda>s. map_option (\<lambda>b. \<lparr>so_binary = Some b, so_args = None\<rparr>)
            (if ''CQ_LSP_'' @ s = ''CQ_LSP_GO'' then Some ''h'' else None)))
      = Some \<lparr>sc_binary = ''h'', sc_args = [''x''], sc_env = []\<rparr>"
      by code_simp
  qed
qed

text \<open>With two names of one language the order decides.\<close>

lemma override_order_matters:
  "config_for (with_overrides [(''rust'', \<lparr>so_binary = Some ''a'', so_args = None\<rparr>),
       (''rs'', \<lparr>so_binary = Some ''b'', so_args = None\<rparr>)] (\<lambda>_. None)) Rust
     \<noteq> config_for (with_overrides [(''rs'', \<lparr>so_binary = Some ''b'', so_args = None\<rparr>),
       (''rust'', \<lparr>so_binary = Some ''a'', so_args = None\<rparr>)] (\<lambda>_. None)) Rust"
  by code_simp

end
