(* ===== verification/Lsp_Server.thy ===== *)
theory Lsp_Server
  imports Transport Lsp_Config
begin

text \<open>
  One language server: spawning it and the initialize handshake, waiting until it is ready,
  shutting it down (\<open>server.rs\<close>), and the queries on it (\<open>queries.rs\<close>). The operating
  system is an oracle of the environment (\<open>which\<close>, the spawned process, \<open>canonicalize\<close>);
  a child process answers \<open>try_wait\<close> from an oracle indexed by the number of calls. Loops
  that wait for the clock are partial functions; \<open>None\<close> means that they do not return.
\<close>

section \<open>Processes and the environment\<close>

datatype wait_status = StillRunning | Exited string | WaitFailed io_error

record child =
  ch_status :: "nat \<Rightarrow> wait_status"
  ch_polls :: nat
  ch_kill_error :: "io_error option"
  ch_wait_error :: "io_error option"
  ch_killed :: bool

definition try_wait :: "child \<Rightarrow> wait_status \<times> child" where
  "try_wait c =
     (if ch_killed c then Exited ''signal: 9 (SIGKILL)'' else ch_status c (ch_polls c),
      c\<lparr>ch_polls := Suc (ch_polls c)\<rparr>)"

definition kill_child :: "child \<Rightarrow> io_error option \<times> child" where
  "kill_child c =
     (case ch_kill_error c of Some e \<Rightarrow> (Some e, c) | None \<Rightarrow> (None, c\<lparr>ch_killed := True\<rparr>))"

record spawned =
  sp_stdin :: "writer option"
  sp_stdout :: "reader option"
  sp_child :: child

record srv_env = lsp_env +
  se_which :: "string \<Rightarrow> bool"
  se_spawn :: "server_config \<Rightarrow> nat \<Rightarrow> io_error + spawned"
  se_pid :: nat
  se_canonicalize :: "path \<Rightarrow> path option"
  se_duration :: "nat \<Rightarrow> string"
  se_io_text :: "io_error \<Rightarrow> string"

text \<open>The world also counts the spawned processes.\<close>

record srv_world = world +
  w_spawns :: nat

definition error_text :: "'z srv_env_scheme \<Rightarrow> lsp_error \<Rightarrow> string" where
  "error_text env e = lsp_error_display (se_duration env) (se_io_text env) e"

section \<open>Paths and positions\<close>

definition path_to_uri :: "'z srv_env_scheme \<Rightarrow> path \<Rightarrow> string" where
  "path_to_uri env p =
     ''file://'' @ path_display (case se_canonicalize env p of None \<Rightarrow> p | Some a \<Rightarrow> a)"

definition uri_to_path :: "string \<Rightarrow> path" where
  "uri_to_path uri =
     path_of_string (case strip_prefix_str ''file://'' uri of None \<Rightarrow> uri | Some s \<Rightarrow> s)"

definition cq_line_to_lsp :: "nat \<Rightarrow> 32 word" where
  "cq_line_to_lsp line = word_of_nat (line - 1)"

definition cq_column_to_lsp :: "nat \<Rightarrow> 32 word" where
  "cq_column_to_lsp column = word_of_nat column"

section \<open>Capabilities\<close>

record client_capabilities =
  cc_text_document :: "json option"
  cc_work_done_progress :: "bool option"
  cc_has_window :: bool

definition default_capabilities :: client_capabilities where
  "default_capabilities =
     \<lparr>cc_text_document = None, cc_work_done_progress = None, cc_has_window = False\<rparr>"

definition with_progress :: client_capabilities where
  "with_progress =
     \<lparr>cc_text_document = None, cc_work_done_progress = Some True, cc_has_window = True\<rparr>"

definition opt_field :: "string \<Rightarrow> json option \<Rightarrow> (string \<times> json) list" where
  "opt_field k v = (case v of None \<Rightarrow> [] | Some j \<Rightarrow> [(k, j)])"

definition client_capabilities_json :: "client_capabilities \<Rightarrow> json" where
  "client_capabilities_json c =
     JObj (opt_field ''textDocument'' (cc_text_document c)
       @ (if cc_has_window c
          then [(''window'', JObj (opt_field ''workDoneProgress'' (map_option JBool (cc_work_done_progress c))))]
          else []))"

record server_capabilities =
  sv_definition :: "json option"
  sv_references :: "json option"
  sv_hover :: "json option"
  sv_document_symbol :: "json option"

definition server_capabilities_of_json :: "json \<Rightarrow> server_capabilities option" where
  "server_capabilities_of_json j =
     (case struct_fields [''definitionProvider'', ''referencesProvider'', ''hoverProvider'',
              ''documentSymbolProvider''] j of
        None \<Rightarrow> None
      | Some kvs \<Rightarrow>
          (case (field_opt Some kvs ''definitionProvider'', field_opt Some kvs ''referencesProvider'',
                 field_opt Some kvs ''hoverProvider'', field_opt Some kvs ''documentSymbolProvider'') of
             (Some d, Some r, Some h, Some s) \<Rightarrow>
               Some \<lparr>sv_definition = d, sv_references = r, sv_hover = h, sv_document_symbol = s\<rparr>
           | _ \<Rightarrow> None))"

text \<open>The detail that the message on malformed capabilities ends with is left out.\<close>

definition parse_capabilities :: "json \<Rightarrow> lsp_error + server_capabilities" where
  "parse_capabilities result =
     (let caps_value = (case json_get ''capabilities'' result of None \<Rightarrow> result | Some c \<Rightarrow> c) in
      case server_capabilities_of_json caps_value of
        None \<Rightarrow> Inl (InitializeFailed ''failed to parse capabilities'')
      | Some c \<Rightarrow> Inr c)"

section \<open>Starting\<close>

record lsp_server =
  srv_transport :: transport
  srv_process :: child
  srv_capabilities :: server_capabilities
  srv_root_uri :: string
  srv_opened_docs :: "string set"

definition check_binary_exists :: "'z srv_env_scheme \<Rightarrow> string \<Rightarrow> lsp_error option" where
  "check_binary_exists env binary = (if se_which env binary then None else Some (ServerNotFound binary))"

text \<open>A JSON value keeps the entries of an object sorted by key.\<close>

definition initialize_params :: "'z srv_env_scheme \<Rightarrow> string \<Rightarrow> client_capabilities \<Rightarrow> json" where
  "initialize_params env root_uri caps =
     JObj [(''capabilities'', client_capabilities_json caps), (''processId'', JInt (int (se_pid env))),
           (''rootUri'', JStr root_uri)]"

text \<open>A failed start gives the error and the process it leaves behind, if it had spawned one:
  dropping the handle does not stop it.\<close>

definition start_with_capabilities ::
  "'z srv_env_scheme \<Rightarrow> server_config \<Rightarrow> path \<Rightarrow> client_capabilities \<Rightarrow> 'y srv_world_scheme
    \<Rightarrow> ((lsp_error \<times> child option + lsp_server) \<times> 'y srv_world_scheme) outcome" where
  "start_with_capabilities env config project_root caps w =
     (case check_binary_exists env (sc_binary config) of
        Some e \<Rightarrow> Returns (Inl (e, None), w)
      | None \<Rightarrow>
          (let w0 = w\<lparr>w_spawns := Suc (w_spawns w)\<rparr> in
           case se_spawn env config (w_spawns w) of
             Inl NotFound \<Rightarrow> Returns (Inl (ServerNotFound (sc_binary config), None), w0)
           | Inl e \<Rightarrow> Returns (Inl (Io e, None), w0)
           | Inr sp \<Rightarrow>
               (case (sp_stdin sp, sp_stdout sp) of
                  (None, _) \<Rightarrow>
                    Returns (Inl (InitializeFailed ''failed to capture server stdin'', Some (sp_child sp)), w0)
                | (Some _, None) \<Rightarrow>
                    Returns (Inl (InitializeFailed ''failed to capture server stdout'', Some (sp_child sp)), w0)
                | (Some stdin, Some stdout) \<Rightarrow>
                    (let root_uri = path_to_uri env project_root in
                     outcome_bind
                       (send_request env (transport_new stdin stdout) ''initialize''
                          (initialize_params env root_uri caps) w0)
                       (\<lambda>(res, t1, w1).
                          case res of
                            Inl e \<Rightarrow>
                              (case try_wait (sp_child sp) of
                                 (Exited status, c) \<Rightarrow>
                                   Returns (Inl (ServerCrashed (sc_binary config @ '' exited with '' @ status
                                     @ '' during initialization''), Some c), w1)
                               | (_, c) \<Rightarrow>
                                   Returns (Inl (InitializeFailed
                                     (''initialize request failed: '' @ error_text env e), Some c), w1))
                          | Inr result \<Rightarrow>
                              (case parse_capabilities result of
                                 Inl e \<Rightarrow> Returns (Inl (e, Some (sp_child sp)), w1)
                               | Inr sc \<Rightarrow>
                                   (case send_notification env t1 ''initialized'' (JObj []) of
                                      (Some e, t2) \<Rightarrow>
                                        Returns (Inl (InitializeFailed
                                          (''initialized notification failed: '' @ error_text env e),
                                          Some (sp_child sp)), w1)
                                    | (None, t2) \<Rightarrow>
                                        Returns (Inr \<lparr>srv_transport = t2, srv_process = sp_child sp,
                                          srv_capabilities = sc, srv_root_uri = root_uri,
                                          srv_opened_docs = {}\<rparr>, w1))))))))"

definition start_server ::
  "'z srv_env_scheme \<Rightarrow> server_config \<Rightarrow> path \<Rightarrow> 'y srv_world_scheme
    \<Rightarrow> ((lsp_error \<times> child option + lsp_server) \<times> 'y srv_world_scheme) outcome" where
  "start_server env config project_root w =
     start_with_capabilities env config project_root default_capabilities w"

definition is_ready :: "lsp_server \<Rightarrow> bool \<times> lsp_server" where
  "is_ready s =
     (case try_wait (srv_process s) of (st, c) \<Rightarrow> (st = StillRunning, s\<lparr>srv_process := c\<rparr>))"

section \<open>Stopping\<close>

definition SHUTDOWN_TIMEOUT :: nat where
  "SHUTDOWN_TIMEOUT = 5 * 10 ^ 9"

text \<open>\<open>kill\<close>, then \<open>wait\<close>, each with its error.\<close>

definition kill_and_wait :: "child \<Rightarrow> lsp_error option \<times> child" where
  "kill_and_wait c =
     (case kill_child c of
        (Some e, c') \<Rightarrow> (Some (Io e), c')
      | (None, c') \<Rightarrow> (map_option Io (ch_wait_error c'), c'))"

partial_function (option) wait_exit_loop ::
  "'z srv_env_scheme \<Rightarrow> nat \<Rightarrow> nat \<Rightarrow> child \<Rightarrow> 'y srv_world_scheme
    \<Rightarrow> (lsp_error option \<times> child \<times> 'y srv_world_scheme) option" where
  "wait_exit_loop env start timeout c w =
     (case try_wait c of (st, c1) \<Rightarrow>
        (case st of
           WaitFailed e \<Rightarrow> Some (Some (Io e), c1, w)
         | Exited s \<Rightarrow> Some (None, c1, w)
         | StillRunning \<Rightarrow>
             (case read_clock env w of (now, w1) \<Rightarrow>
                if timeout \<le> now - start then
                  (case kill_and_wait c1 of (e, c2) \<Rightarrow> Some (e, c2, w1))
                else wait_exit_loop env start timeout c1 w1)))"

definition wait_for_exit ::
  "'z srv_env_scheme \<Rightarrow> child \<Rightarrow> nat \<Rightarrow> 'y srv_world_scheme
    \<Rightarrow> (lsp_error option \<times> child \<times> 'y srv_world_scheme) outcome" where
  "wait_for_exit env c timeout w =
     (case read_clock env w of (start, w1) \<Rightarrow>
        (case wait_exit_loop env start timeout c w1 of None \<Rightarrow> Hangs | Some r \<Rightarrow> Returns r))"

text \<open>Dropping a server kills a process that still runs.\<close>

definition drop_server :: "child \<Rightarrow> child" where
  "drop_server c =
     (case try_wait c of (st, c1) \<Rightarrow> if st = StillRunning then snd (kill_child c1) else c1)"

text \<open>Shutting down consumes the server; what is left is the child process.\<close>

definition shutdown_server ::
  "'z srv_env_scheme \<Rightarrow> lsp_server \<Rightarrow> 'y srv_world_scheme
    \<Rightarrow> (lsp_error option \<times> child \<times> 'y srv_world_scheme) outcome" where
  "shutdown_server env s w =
     outcome_bind (send_request env (srv_transport s) ''shutdown'' JNull w)
       (\<lambda>(shutdown_result, t1, w1).
          case send_notification env t1 ''exit'' JNull of (_, t2) \<Rightarrow>
            outcome_bind (wait_for_exit env (srv_process s) SHUTDOWN_TIMEOUT w1)
              (\<lambda>(e, c, w2).
                 case e of
                   Some err \<Rightarrow> Returns (Some err, drop_server c, w2)
                 | None \<Rightarrow>
                     Returns (case shutdown_result of Inl err \<Rightarrow> Some err | Inr _ \<Rightarrow> None,
                       drop_server c, w2)))"

section \<open>Waiting until the server is ready\<close>

definition json_str_or :: "json option \<Rightarrow> string" where
  "json_str_or j = (case Option.bind j json_as_str of None \<Rightarrow> [] | Some s \<Rightarrow> s)"

definition message_method :: "json \<Rightarrow> string" where
  "message_method j = json_str_or (json_get ''method'' j)"

text \<open>Token and kind of the parameters of a progress notification.\<close>

definition progress_token :: "'z srv_env_scheme \<Rightarrow> json \<Rightarrow> string" where
  "progress_token env params =
     (case json_get ''token'' params of None \<Rightarrow> [] | Some t \<Rightarrow> jc_print (le_codec env) t)"

definition progress_kind :: "json \<Rightarrow> string" where
  "progress_kind params = json_str_or (Option.bind (json_get ''value'' params) (json_get ''kind''))"

text \<open>The answer to a request of the server to create a progress token.\<close>

definition answer_create :: "'z srv_env_scheme \<Rightarrow> json \<Rightarrow> transport \<Rightarrow> transport" where
  "answer_create env j t =
     (case json_get ''id'' j of
        None \<Rightarrow> t
      | Some i \<Rightarrow>
          snd (write_raw t (jc_print (le_codec env)
            (JObj [(''id'', i), (''jsonrpc'', JStr ''2.0''), (''result'', JNull)]))))"

record progress =
  pg_active :: "string set"
  pg_seen :: bool

definition progress_update :: "'z srv_env_scheme \<Rightarrow> json \<Rightarrow> string set \<Rightarrow> string set" where
  "progress_update env params active =
     (if progress_kind params = ''begin'' then insert (progress_token env params) active
      else if progress_kind params = ''end'' then active - {progress_token env params}
      else active)"

definition ready_message ::
  "'z srv_env_scheme \<Rightarrow> string \<Rightarrow> progress \<Rightarrow> transport \<Rightarrow> progress \<times> transport" where
  "ready_message env msg pg t =
     (case jc_parse (le_codec env) msg of
        Inl e \<Rightarrow> (pg, t)
      | Inr j \<Rightarrow>
          if message_method j = ''$/progress'' then
            (case json_get ''params'' j of
               None \<Rightarrow> (pg\<lparr>pg_seen := True\<rparr>, t)
             | Some params \<Rightarrow>
                 (\<lparr>pg_active = progress_update env params (pg_active pg), pg_seen = True\<rparr>, t))
          else if message_method j = ''window/workDoneProgress/create'' then
            (pg\<lparr>pg_seen := True\<rparr>, answer_create env j t)
          else (pg, t))"

text \<open>One message of the drain window: the progress, the transport, whether a new phase showed
  and whether the loop stops.\<close>

definition drain_message ::
  "'z srv_env_scheme \<Rightarrow> string \<Rightarrow> string set \<Rightarrow> transport \<Rightarrow> bool \<Rightarrow> string set \<times> transport \<times> bool \<times> bool" where
  "drain_message env msg active t new_progress =
     (case jc_parse (le_codec env) msg of
        Inl e \<Rightarrow> (active, t, new_progress, False)
      | Inr j \<Rightarrow>
          if message_method j = ''$/progress'' then
            (case json_get ''params'' j of
               None \<Rightarrow> (active, t, new_progress, False)
             | Some params \<Rightarrow>
                 if progress_kind params = ''begin''
                 then (insert (progress_token env params) active, t, True, True)
                 else (active, t, new_progress, False))
          else if message_method j = ''window/workDoneProgress/create'' then
            (active, answer_create env j t, True, False)
          else (active, t, new_progress, False))"

partial_function (option) drain_loop ::
  "'z srv_env_scheme \<Rightarrow> nat \<Rightarrow> nat \<Rightarrow> string set \<Rightarrow> transport \<Rightarrow> bool \<Rightarrow> 'y srv_world_scheme
    \<Rightarrow> (string set \<times> transport \<times> bool \<times> 'y srv_world_scheme) outcome option" where
  "drain_loop env drain_deadline deadline active t new_progress w =
     (case read_clock env w of (now, w1) \<Rightarrow>
        if drain_deadline \<le> now then Some (Returns (active, t, new_progress, w1))
        else
          (case read_clock env w1 of (now2, w2) \<Rightarrow>
             if deadline \<le> now2 then Some (Returns (active, t, new_progress, w2))
             else
               (case try_read_message env t w2 of
                  Hangs \<Rightarrow> Some Hangs
                | Panics \<Rightarrow> Some Panics
                | Returns r \<Rightarrow>
                    (case r of (res, t1, w3) \<Rightarrow>
                       (case res of
                          Inl e \<Rightarrow> Some (Returns (active, t1, new_progress, w3))
                        | Inr got \<Rightarrow>
                            (case got of
                               None \<Rightarrow> drain_loop env drain_deadline deadline active t1 new_progress w3
                             | Some msg \<Rightarrow>
                                 (case drain_message env msg active t1 new_progress of (active', t2, np, stop) \<Rightarrow>
                                    if stop then Some (Returns (active', t2, np, w3))
                                    else drain_loop env drain_deadline deadline active' t2 np w3)))))))"

text \<open>The state machine of \<open>wait_for_ready\<close>, turn by turn: a turn stops the wait or gives the next
  state.\<close>

definition quiet_turn ::
  "'z srv_env_scheme \<Rightarrow> nat \<Rightarrow> nat \<Rightarrow> progress \<Rightarrow> transport \<Rightarrow> 'y srv_world_scheme
    \<Rightarrow> (bool \<times> progress \<times> transport \<times> 'y srv_world_scheme) outcome option" where
  "quiet_turn env deadline grace_deadline pg t w =
     (case (if pg_seen pg then (False, w)
            else (case read_clock env w of (now, w1) \<Rightarrow> (grace_deadline \<le> now, w1))) of
        (True, w1) \<Rightarrow> Some (Returns (True, pg, t, w1))
      | (False, w1) \<Rightarrow>
          if pg_seen pg \<and> pg_active pg = {} then
            (case read_clock env w1 of (now, w2) \<Rightarrow>
               map_option (\<lambda>out. outcome_bind out (\<lambda>(active, t1, new_progress, w3).
                   Returns (\<not> new_progress, pg\<lparr>pg_active := active\<rparr>, t1, w3)))
                 (drain_loop env (now + 500 * 10 ^ 6) deadline (pg_active pg) t False w2))
          else Some (Returns (False, pg, t, w1)))"

definition ready_turn ::
  "'z srv_env_scheme \<Rightarrow> nat \<Rightarrow> nat \<Rightarrow> progress \<Rightarrow> transport \<Rightarrow> 'y srv_world_scheme
    \<Rightarrow> (bool \<times> progress \<times> transport \<times> 'y srv_world_scheme) outcome option" where
  "ready_turn env deadline grace_deadline pg t w =
     (case read_clock env w of (now, w1) \<Rightarrow>
        if deadline \<le> now then Some (Returns (True, pg, t, w1))
        else
          (case try_read_message env t w1 of
             Hangs \<Rightarrow> Some Hangs
           | Panics \<Rightarrow> Some Panics
           | Returns (Inl e, t1, w2) \<Rightarrow> Some (Returns (True, pg, t1, w2))
           | Returns (Inr (Some msg), t1, w2) \<Rightarrow>
               (case ready_message env msg pg t1 of (pg', t2) \<Rightarrow> Some (Returns (False, pg', t2, w2)))
           | Returns (Inr None, t1, w2) \<Rightarrow> quiet_turn env deadline grace_deadline pg t1 w2))"

partial_function (option) ready_loop ::
  "'z srv_env_scheme \<Rightarrow> nat \<Rightarrow> nat \<Rightarrow> progress \<Rightarrow> transport \<Rightarrow> 'y srv_world_scheme
    \<Rightarrow> (progress \<times> transport \<times> 'y srv_world_scheme) outcome option" where
  "ready_loop env deadline grace_deadline pg t w =
     Option.bind (ready_turn env deadline grace_deadline pg t w) (\<lambda>out.
       case out of
         Hangs \<Rightarrow> Some Hangs
       | Panics \<Rightarrow> Some Panics
       | Returns r \<Rightarrow>
           (case r of (stop, pg', t', w') \<Rightarrow>
              if stop then Some (Returns (pg', t', w'))
              else ready_loop env deadline grace_deadline pg' t' w'))"

text \<open>The result of \<open>wait_for_ready\<close> is always \<open>Ok\<close>; the server changes.\<close>

definition wait_for_ready ::
  "'z srv_env_scheme \<Rightarrow> lsp_server \<Rightarrow> nat \<Rightarrow> 'y srv_world_scheme \<Rightarrow> (lsp_server \<times> 'y srv_world_scheme) outcome" where
  "wait_for_ready env s timeout w =
     (case read_clock env w of (now, w1) \<Rightarrow>
        (case read_clock env w1 of (now2, w2) \<Rightarrow>
           (case ready_loop env (now + timeout) (now2 + 2 * 10 ^ 9) \<lparr>pg_active = {}, pg_seen = False\<rparr>
                   (srv_transport s) w2 of
              None \<Rightarrow> Hangs
            | Some out \<Rightarrow>
                outcome_bind out (\<lambda>(pg, t, w3). Returns (s\<lparr>srv_transport := t\<rparr>, w3)))))"

section \<open>Queries\<close>

definition position_value :: "nat \<Rightarrow> nat \<Rightarrow> json" where
  "position_value line column =
     JObj [(''character'', JInt (uint (cq_column_to_lsp column))), (''line'', JInt (uint (cq_line_to_lsp line)))]"

definition text_document :: "string \<Rightarrow> string \<times> json" where
  "text_document uri = (''textDocument'', JObj [(''uri'', JStr uri)])"

definition open_document ::
  "'z srv_env_scheme \<Rightarrow> lsp_server \<Rightarrow> path \<Rightarrow> string \<Rightarrow> string \<Rightarrow> lsp_error option \<times> lsp_server" where
  "open_document env s p source language_id =
     (let uri = path_to_uri env p in
      if uri \<in> srv_opened_docs s then (None, s)
      else
        (case send_notification env (srv_transport s) ''textDocument/didOpen''
            (JObj [(''textDocument'', JObj [(''languageId'', JStr language_id), (''text'', JStr source),
               (''uri'', JStr uri), (''version'', JInt 1)])]) of
           (Some e, t) \<Rightarrow> (Some e, s\<lparr>srv_transport := t\<rparr>)
         | (None, t) \<Rightarrow> (None, s\<lparr>srv_transport := t, srv_opened_docs := insert uri (srv_opened_docs s)\<rparr>)))"

text \<open>The details that the messages on malformed responses end with are left out.\<close>

definition parse_definition_response :: "json \<Rightarrow> lsp_error + lsp_location list" where
  "parse_definition_response result =
     (case result of
        JNull \<Rightarrow> Inr []
      | JArr [] \<Rightarrow> Inr []
      | JArr (first # rest) \<Rightarrow>
          if json_get ''targetUri'' first \<noteq> None then
            (case decode_all location_link_of_json (first # rest) of
               None \<Rightarrow> Inl (ConnectionFailed ''failed to parse LocationLink[]'')
             | Some links \<Rightarrow>
                 Inr (map (\<lambda>l. \<lparr>loc_uri = link_target_uri l, loc_range = link_target_selection_range l\<rparr>) links))
          else
            (case decode_all location_of_json (first # rest) of
               None \<Rightarrow> Inl (ConnectionFailed ''failed to parse Location[]'')
             | Some locations \<Rightarrow> Inr locations)
      | _ \<Rightarrow>
          (case location_of_json result of
             None \<Rightarrow> Inl (ConnectionFailed ''failed to parse Location'')
           | Some l \<Rightarrow> Inr [l]))"

definition parse_locations_response :: "json \<Rightarrow> lsp_error + lsp_location list" where
  "parse_locations_response result =
     (case result of
        JNull \<Rightarrow> Inr []
      | JArr js \<Rightarrow>
          (case decode_all location_of_json js of
             None \<Rightarrow> Inl (ConnectionFailed ''failed to parse Location[]'')
           | Some locations \<Rightarrow> Inr locations)
      | _ \<Rightarrow> Inl (ConnectionFailed ''failed to parse Location[]''))"

text \<open>The text of one item of a \<open>MarkedString\<close> array.\<close>

definition marked_text :: "json \<Rightarrow> string option" where
  "marked_text item =
     (case json_as_str item of
        Some t \<Rightarrow> Some t
      | None \<Rightarrow> Option.bind (json_get ''value'' item) json_as_str)"

definition parse_hover_contents :: "'z srv_env_scheme \<Rightarrow> json \<Rightarrow> string" where
  "parse_hover_contents env result =
     (let contents = (case json_get ''contents'' result of None \<Rightarrow> result | Some c \<Rightarrow> c) in
      case Option.bind (json_get ''value'' contents) json_as_str of
        Some t \<Rightarrow> t
      | None \<Rightarrow>
          (case json_as_str contents of
             Some t \<Rightarrow> t
           | None \<Rightarrow>
               (let parts = (case json_as_array contents of
                      None \<Rightarrow> [] | Some arr \<Rightarrow> List.map_filter marked_text arr) in
                if parts \<noteq> [] then join_with [CHR 0x0A, CHR 0x0A] parts
                else jc_print (le_codec env) contents)))"

text \<open>A request on the server's transport, and what its result is parsed to.\<close>

definition server_request ::
  "'z srv_env_scheme \<Rightarrow> lsp_server \<Rightarrow> string \<Rightarrow> json \<Rightarrow> (json \<Rightarrow> lsp_error + 'a) \<Rightarrow> 'y srv_world_scheme
    \<Rightarrow> ((lsp_error + 'a) \<times> lsp_server \<times> 'y srv_world_scheme) outcome" where
  "server_request env s method params parse w =
     outcome_bind (send_request env (srv_transport s) method params w)
       (\<lambda>(res, t, w1).
          Returns (case res of Inl e \<Rightarrow> Inl e | Inr result \<Rightarrow> parse result, s\<lparr>srv_transport := t\<rparr>, w1))"

definition find_definition ::
  "'z srv_env_scheme \<Rightarrow> lsp_server \<Rightarrow> path \<Rightarrow> nat \<Rightarrow> nat \<Rightarrow> 'y srv_world_scheme
    \<Rightarrow> ((lsp_error + lsp_location list) \<times> lsp_server \<times> 'y srv_world_scheme) outcome" where
  "find_definition env s p line column w =
     server_request env s ''textDocument/definition''
       (JObj [(''position'', position_value line column), text_document (path_to_uri env p)])
       parse_definition_response w"

definition find_references ::
  "'z srv_env_scheme \<Rightarrow> lsp_server \<Rightarrow> path \<Rightarrow> nat \<Rightarrow> nat \<Rightarrow> bool \<Rightarrow> 'y srv_world_scheme
    \<Rightarrow> ((lsp_error + lsp_location list) \<times> lsp_server \<times> 'y srv_world_scheme) outcome" where
  "find_references env s p line column include_declaration w =
     server_request env s ''textDocument/references''
       (JObj [(''context'', JObj [(''includeDeclaration'', JBool include_declaration)]),
              (''position'', position_value line column), text_document (path_to_uri env p)])
       parse_locations_response w"

definition hover ::
  "'z srv_env_scheme \<Rightarrow> lsp_server \<Rightarrow> path \<Rightarrow> nat \<Rightarrow> nat \<Rightarrow> 'y srv_world_scheme
    \<Rightarrow> ((lsp_error + string option) \<times> lsp_server \<times> 'y srv_world_scheme) outcome" where
  "hover env s p line column w =
     server_request env s ''textDocument/hover''
       (JObj [(''position'', position_value line column), text_document (path_to_uri env p)])
       (\<lambda>result. Inr (if result = JNull then None else Some (parse_hover_contents env result))) w"

section \<open>The wait for a process ends\<close>

definition gone :: "child \<Rightarrow> bool" where
  "gone c \<longleftrightarrow> ch_killed c \<or> (\<exists>k < ch_polls c. \<exists>s. ch_status c k = Exited s)"

lemma wait_exit_loop_ends:
  assumes "timeout \<le> le_clock env (w_ticks w + n) - start"
  shows "\<exists>e c' w'. wait_exit_loop env start timeout c w = Some (e, c', w') \<and> (e = None \<longrightarrow> gone c')"
  using assms
proof (induction n arbitrary: c w)
  case 0
  show ?case
  proof (cases "fst (try_wait c)")
    case StillRunning
    then have "\<not> ch_killed c" by (auto simp: try_wait_def split: if_splits)
    with 0 StillRunning show ?thesis
      by (subst wait_exit_loop.simps)
        (auto simp: try_wait_def read_clock_def kill_and_wait_def kill_child_def gone_def split: option.splits)
  next
    case (Exited s)
    then show ?thesis
      by (subst wait_exit_loop.simps) (auto simp: try_wait_def gone_def split: if_splits)
  next
    case (WaitFailed e)
    then show ?thesis by (subst wait_exit_loop.simps) (auto simp: try_wait_def split: if_splits)
  qed
next
  case (Suc n)
  show ?case
  proof (cases "fst (try_wait c)")
    case StillRunning
    then have run: "\<not> ch_killed c" by (auto simp: try_wait_def split: if_splits)
    from Suc.IH[of "w\<lparr>w_ticks := Suc (w_ticks w)\<rparr>" "c\<lparr>ch_polls := Suc (ch_polls c)\<rparr>"] Suc.prems
    obtain e c' w' where next_turn: "wait_exit_loop env start timeout (c\<lparr>ch_polls := Suc (ch_polls c)\<rparr>)
        (w\<lparr>w_ticks := Suc (w_ticks w)\<rparr>) = Some (e, c', w')" "e = None \<longrightarrow> gone c'"
      by auto
    show ?thesis
      using StillRunning run next_turn
      by (subst wait_exit_loop.simps)
        (auto simp: try_wait_def read_clock_def kill_and_wait_def kill_child_def gone_def split: option.splits)
  next
    case (Exited s)
    then show ?thesis
      by (subst wait_exit_loop.simps) (auto simp: try_wait_def gone_def split: if_splits)
  next
    case (WaitFailed e)
    then show ?thesis by (subst wait_exit_loop.simps) (auto simp: try_wait_def split: if_splits)
  qed
qed

text \<open>
  C26: waiting for a server process to exit always returns if the clock reaches the timeout at
  some later read, and if it reports success the process is gone: it exited by itself or was
  killed.
\<close>

theorem wait_for_exit_ends:
  assumes "timeout \<le> le_clock env (Suc (w_ticks w + n)) - le_clock env (w_ticks w)"
  shows "\<exists>e c' w'. wait_for_exit env c timeout w = Returns (e, c', w') \<and> (e = None \<longrightarrow> gone c')"
proof -
  have "timeout \<le> le_clock env (w_ticks (w\<lparr>w_ticks := Suc (w_ticks w)\<rparr>) + n) - le_clock env (w_ticks w)"
    using assms by simp
  from wait_exit_loop_ends[OF this, of c] obtain e c' w' where
    "wait_exit_loop env (le_clock env (w_ticks w)) timeout c (w\<lparr>w_ticks := Suc (w_ticks w)\<rparr>) = Some (e, c', w')"
    "e = None \<longrightarrow> gone c'" by blast
  then show ?thesis by (simp add: wait_for_exit_def read_clock_def)
qed

text \<open>An environment whose clock moves one second per read, and a process that keeps running.\<close>

definition slow_env :: srv_env where
  "slow_env =
     \<lparr>le_codec = demo_codec, le_clock = (\<lambda>k. k * 10 ^ 9), le_buffered = (\<lambda>_. False), le_poll = (\<lambda>_. Inr False),
      se_which = (\<lambda>_. True), se_spawn = (\<lambda>_ _. Inl NotFound), se_pid = 1, se_canonicalize = Some,
      se_duration = dec, se_io_text = (\<lambda>_. ''io'')\<rparr>"

definition slow_world :: srv_world where
  "slow_world = \<lparr>w_ticks = 0, w_looks = 0, w_next_id = 1, w_spawns = 0\<rparr>"

definition busy_child :: child where
  "busy_child = \<lparr>ch_status = (\<lambda>_. StillRunning), ch_polls = 0, ch_kill_error = None, ch_wait_error = None,
     ch_killed = False\<rparr>"

theorem wait_for_exit_ends_witness:
  "\<exists>e c' w'. wait_for_exit slow_env busy_child SHUTDOWN_TIMEOUT slow_world = Returns (e, c', w') \<and>
     (e = None \<longrightarrow> gone c')"
  by (rule wait_for_exit_ends[where n = 5]) (simp add: slow_env_def slow_world_def SHUTDOWN_TIMEOUT_def)

section \<open>Progress tokens\<close>

definition read_messages ::
  "'z srv_env_scheme \<Rightarrow> string list \<Rightarrow> progress \<times> transport \<Rightarrow> progress \<times> transport" where
  "read_messages env msgs st = foldl (\<lambda>(pg, t) msg. ready_message env msg pg t) st msgs"

text \<open>The token a message begins (true) or ends (false).\<close>

definition progress_event :: "'z srv_env_scheme \<Rightarrow> string \<Rightarrow> (string \<times> bool) option" where
  "progress_event env msg =
     (case jc_parse (le_codec env) msg of
        Inl e \<Rightarrow> None
      | Inr j \<Rightarrow>
          if message_method j = ''$/progress'' then
            Option.bind (json_get ''params'' j) (\<lambda>params.
              if progress_kind params = ''begin'' then Some (progress_token env params, True)
              else if progress_kind params = ''end'' then Some (progress_token env params, False)
              else None)
          else None)"

definition token_events :: "'z srv_env_scheme \<Rightarrow> string \<Rightarrow> string list \<Rightarrow> bool list" where
  "token_events env tok msgs =
     map snd (filter (\<lambda>e. fst e = tok) (List.map_filter (progress_event env) msgs))"

lemma ready_message_active:
  "tok \<in> pg_active (fst (ready_message env msg pg t)) \<longleftrightarrow>
     (case progress_event env msg of
        None \<Rightarrow> tok \<in> pg_active pg
      | Some (tok', b) \<Rightarrow> if tok' = tok then b else tok \<in> pg_active pg)"
  by (auto simp: ready_message_def progress_event_def progress_update_def split: sum.split option.split)

lemma read_messages_snoc:
  "read_messages env (msgs @ [msg]) st =
     ready_message env msg (fst (read_messages env msgs st)) (snd (read_messages env msgs st))"
  by (simp add: read_messages_def case_prod_beta)

lemma token_events_snoc:
  "token_events env tok (msgs @ [msg]) =
     token_events env tok msgs @
       (case progress_event env msg of
          None \<Rightarrow> [] | Some (tok', b) \<Rightarrow> if tok' = tok then [b] else [])"
  by (auto simp: token_events_def List.map_filter_def split: option.split)

text \<open>
  While the server reports progress, a token counts as active exactly when the last begin or
  end message about it was a begin, so the wait ends only when every phase that began has ended.
\<close>

theorem ready_tracks_progress:
  "tok \<in> pg_active (fst (read_messages env msgs (\<lparr>pg_active = {}, pg_seen = False\<rparr>, t))) \<longleftrightarrow>
     token_events env tok msgs \<noteq> [] \<and> last (token_events env tok msgs)"
proof (induction msgs rule: rev_induct)
  case Nil
  then show ?case by (simp add: read_messages_def token_events_def List.map_filter_def)
next
  case (snoc msg msgs)
  then show ?case
    by (auto simp: read_messages_snoc ready_message_active token_events_snoc split: option.split if_splits)
qed

end
