(* ===== verification/Daemon_File.thy ===== *)
theory Daemon_File
  imports Project Cache Lsp_Server
begin

text \<open>
  \<open>daemon_file.rs\<close>: the info file of a running daemon (port, token, process id, project, start
  time) under the daemons directory, the name it gets from a hash of the project path, and the
  authentication token. The hash function of the standard library and JSON text are parameters;
  files live on the \<open>disk\<close> of the cache component.
\<close>

record daemon_info =
  di_port :: nat
  di_token :: string
  di_pid :: nat
  di_project :: path
  di_started :: string

definition u16_max :: nat where "u16_max = 65535"

definition daemon_info_json :: "daemon_info \<Rightarrow> json" where
  "daemon_info_json i =
     JObj [(''port'', JInt (int (di_port i))), (''token'', JStr (di_token i)), (''pid'', JInt (int (di_pid i))),
           (''project'', JStr (path_display (di_project i))), (''started'', JStr (di_started i))]"

definition daemon_info_of_json :: "json \<Rightarrow> daemon_info option" where
  "daemon_info_of_json j =
     (case struct_fields [''port'', ''token'', ''pid'', ''project'', ''started''] j of
        None \<Rightarrow> None
      | Some kvs \<Rightarrow>
          (case (field_nat u16_max kvs ''port'', field_str kvs ''token'', field_nat u32_max kvs ''pid'',
                 field_str kvs ''project'', field_str kvs ''started'') of
             (Some p, Some t, Some i, Some r, Some s) \<Rightarrow>
               Some \<lparr>di_port = p, di_token = t, di_pid = i, di_project = path_of_string r, di_started = s\<rparr>
           | _ \<Rightarrow> None))"

text \<open>What the functions of this file read: the environment variables and the home directory, the
  hash of a path, and the JSON library (with the pretty printer).\<close>

record file_env =
  fe_env :: env
  fe_home :: "path option"
  fe_hash_path :: "path \<Rightarrow> 64 word"
  fe_codec :: json_codec
  fe_pretty :: "json \<Rightarrow> string"
  fe_create_dir :: "path \<Rightarrow> io_error option"
  fe_read_dir :: "path \<Rightarrow> path option list option"
  fe_tcp_connect :: "nat \<Rightarrow> bool"

definition hex_digit :: "nat \<Rightarrow> char" where
  "hex_digit d = (if d < 10 then char_of (48 + d) else char_of (87 + d))"

text \<open>\<open>{:016x}\<close> of a 64-bit number.\<close>

definition hex16 :: "64 word \<Rightarrow> string" where
  "hex16 w = map (\<lambda>k. hex_digit (unat w div 16 ^ k mod 16)) (rev [0..<16])"

definition project_hash :: "file_env \<Rightarrow> path \<Rightarrow> string" where
  "project_hash fe project_root = hex16 (fe_hash_path fe project_root)"

definition fe_daemons_dir :: "file_env \<Rightarrow> path option" where
  "fe_daemons_dir fe = daemons_dir (fe_env fe) (fe_home fe)"

definition daemon_file_path :: "file_env \<Rightarrow> path \<Rightarrow> path option" where
  "daemon_file_path fe project_root =
     map_option (\<lambda>dir. path_join dir [Normal (project_hash fe project_root @ ''.json'')]) (fe_daemons_dir fe)"

definition parse_info :: "file_env \<Rightarrow> string \<Rightarrow> daemon_info option" where
  "parse_info fe contents =
     (if utf8_valid contents then
        (case jc_parse (fe_codec fe) contents of Inl e \<Rightarrow> None | Inr j \<Rightarrow> daemon_info_of_json j)
      else None)"

definition read_daemon_info :: "file_env \<Rightarrow> disk \<Rightarrow> path \<Rightarrow> daemon_info option" where
  "read_daemon_info fe d project_root =
     (case daemon_file_path fe project_root of
        None \<Rightarrow> None
      | Some p \<Rightarrow> (case disk_read d p of Inl e \<Rightarrow> None | Inr contents \<Rightarrow> parse_info fe contents))"

definition write_daemon_info :: "file_env \<Rightarrow> disk \<Rightarrow> daemon_info \<Rightarrow> io_error option \<times> disk" where
  "write_daemon_info fe d info =
     (case fe_daemons_dir fe of
        None \<Rightarrow> (Some NotFound, d)
      | Some dir \<Rightarrow>
          (case fe_create_dir fe dir of
             Some e \<Rightarrow> (Some e, d)
           | None \<Rightarrow>
               disk_write d (path_join dir [Normal (project_hash fe (di_project info) @ ''.json'')])
                 (fe_pretty fe (daemon_info_json info))))"

definition remove_daemon_file :: "file_env \<Rightarrow> disk \<Rightarrow> path \<Rightarrow> disk" where
  "remove_daemon_file fe d project_root =
     (case daemon_file_path fe project_root of None \<Rightarrow> d | Some p \<Rightarrow> snd (disk_remove d p))"

text \<open>The hashes behind the token: of the time and the process id, and of the first hash.\<close>

definition generate_token ::
  "(nat \<Rightarrow> nat \<Rightarrow> 64 word) \<Rightarrow> (64 word \<Rightarrow> 64 word \<Rightarrow> 64 word) \<Rightarrow> nat \<Rightarrow> nat \<Rightarrow> string" where
  "generate_token hash1 hash2 nanos pid =
     (let h1 = hash1 nanos pid; h2 = hash2 h1 42 in hex16 h1 @ hex16 h2)"

definition is_daemon_running :: "file_env \<Rightarrow> disk \<Rightarrow> path \<Rightarrow> bool" where
  "is_daemon_running fe d project_root =
     (case read_daemon_info fe d project_root of None \<Rightarrow> False | Some info \<Rightarrow> fe_tcp_connect fe (di_port info))"

definition read_listed :: "file_env \<Rightarrow> disk \<Rightarrow> path option \<Rightarrow> daemon_info option" where
  "read_listed fe d entry =
     (case entry of
        None \<Rightarrow> None
      | Some p \<Rightarrow>
          if path_extension p \<noteq> Some ''json'' then None
          else (case disk_read d p of Inl e \<Rightarrow> None | Inr contents \<Rightarrow> parse_info fe contents))"

definition list_all_daemons :: "file_env \<Rightarrow> disk \<Rightarrow> daemon_info list" where
  "list_all_daemons fe d =
     (case fe_daemons_dir fe of
        None \<Rightarrow> []
      | Some dir \<Rightarrow>
          (case fe_read_dir fe dir of None \<Rightarrow> [] | Some entries \<Rightarrow> List.map_filter (read_listed fe d) entries))"

section \<open>Lemmas\<close>

lemma length_hex16 [simp]: "length (hex16 w) = 16"
  by (simp add: hex16_def)

lemma hex_digit_lower: "d < 16 \<Longrightarrow> hex_digit d \<in> set ''0123456789abcdef''"
proof -
  assume "d < 16"
  then have "d \<in> set [0..<16]" by simp
  moreover have "list_all (\<lambda>d. hex_digit d \<in> set ''0123456789abcdef'') [0..<16]" by code_simp
  ultimately show ?thesis by (simp only: list_all_iff)
qed

lemma hex16_lower: "set (hex16 w) \<subseteq> set ''0123456789abcdef''"
  unfolding hex16_def by (auto simp del: set_simps intro!: hex_digit_lower)

lemma generate_token_shape:
  "length (generate_token h1 h2 n p) = 32 \<and> set (generate_token h1 h2 n p) \<subseteq> set ''0123456789abcdef''"
  using hex16_lower by (simp add: generate_token_def Let_def del: set_simps)

definition info_ok :: "daemon_info \<Rightarrow> bool" where
  "info_ok i \<longleftrightarrow> di_port i \<le> u16_max \<and> di_pid i \<le> u32_max \<and> path_text_ok (di_project i)"

lemma daemon_info_round: "info_ok i \<Longrightarrow> daemon_info_of_json (daemon_info_json i) = Some i"
  by (cases i) (simp add: info_ok_def daemon_info_of_json_def daemon_info_json_def struct_fields_def
      field_nat_def field_str_def path_text_ok_def)

lemma disk_read_write:
  "disk_write d p data = (None, d') \<Longrightarrow> read_fault d p = None \<Longrightarrow> disk_read d' p = Inr data"
  by (auto simp: disk_write_def disk_read_def split: option.splits)

lemma read_written_info:
  assumes "write_daemon_info fe d info = (None, d')" "info_ok info"
    and "jc_parse (fe_codec fe) (fe_pretty fe (daemon_info_json info)) = Inr (daemon_info_json info)"
    and "utf8_valid (fe_pretty fe (daemon_info_json info))" "\<forall>p. read_fault d p = None"
  shows "read_daemon_info fe d' (di_project info) = Some info"
proof -
  obtain dir where dir: "fe_daemons_dir fe = Some dir"
    using assms(1) by (auto simp: write_daemon_info_def split: option.splits)
  then have "disk_write d (path_join dir [Normal (project_hash fe (di_project info) @ ''.json'')])
      (fe_pretty fe (daemon_info_json info)) = (None, d')"
    using assms(1) by (auto simp: write_daemon_info_def split: option.splits)
  from disk_read_write[OF this] assms(2-5) dir show ?thesis
    by (simp add: read_daemon_info_def daemon_file_path_def parse_info_def daemon_info_round)
qed

end
