(* ===== verification/Server_Processes.thy ===== *)
theory Server_Processes
  imports Lsp_Server
begin

text \<open>
  What the functions on one language server (\<open>server.rs\<close>, \<open>queries.rs\<close>) leave of the world, and
  when its process is stopped: shared by the daemon, which keeps a pool of servers, and by the
  one-shot queries, which start one of their own.
\<close>

lemma outcome_bind_Returns:
  "outcome_bind x f = Returns r \<longleftrightarrow> (\<exists>a. x = Returns a \<and> f a = Returns r)"
  by (cases x) auto

lemma outcome_bind_elim:
  assumes "outcome_bind x f = Returns r"
  obtains a where "x = Returns a" "f a = Returns r"
  using assms by (auto simp: outcome_bind_Returns)

section \<open>What the calls on a server leave alone\<close>

text \<open>The clock, the looks at a pipe, the request ids and the number of spawned processes apart, the
  functions on one language server do not change the world.\<close>

named_theorems rest

lemma read_clock_rest [rest]: "read_clock env w = (now, w') \<Longrightarrow> world.more w' = world.more w"
  by (auto simp: read_clock_def)

lemma await_response_rest [rest]:
  "await_response env i meth timeout deadline r w = Returns (res, r', w') \<Longrightarrow> world.more w' = world.more w"
proof (induction env i meth timeout deadline r w rule: await_response.induct)
  case (1 env i meth timeout deadline r w)
  obtain now w1 where c: "read_clock env w = (now, w1)" by force
  note run = 1(2)[unfolded await_response.simps[of env i meth timeout deadline r w]]
  show ?case
  proof (cases "deadline \<le> now")
    case True
    with run c show ?thesis by (simp add: read_clock_rest)
  next
    case False
    with run c obtain m r1 where l: "read_lsp r = Returns (m, r1)"
      by (cases "read_lsp r") auto
    show ?thesis
    proof (cases m)
      case (Inl e)
      with run c False l show ?thesis by (simp add: read_clock_rest)
    next
      case (Inr msg)
      show ?thesis
      proof (cases "response_for (le_codec env) i msg")
        case None
        with run c False l Inr have "await_response env i meth timeout deadline r1 w1 = Returns (res, r', w')"
          by simp
        with 1(1)[OF c[symmetric] refl False l refl Inr None] c show ?thesis by (simp add: read_clock_rest)
      next
        case (Some a)
        with run c False l Inr show ?thesis by (simp add: read_clock_rest)
      qed
    qed
  qed
qed

lemma send_request_rest [rest]:
  "send_request env t m params w = Returns (res, t', w') \<Longrightarrow> world.more w' = world.more w"
  by (auto simp: send_request_def next_request_id_def read_clock_def Let_def dest!: await_response_rest
      elim!: outcome_bind_elim split: prod.split_asm option.split_asm)

lemma try_read_message_rest [rest]:
  "try_read_message env t w = Returns (res, t', w') \<Longrightarrow> world.more w' = world.more w"
  by (auto simp: try_read_message_def poll_readable_def Let_def elim!: outcome_bind_elim
      split: if_split_asm sum.split_asm bool.split_asm prod.split_asm)

lemma drain_loop_rest_all:
  assumes "drain_loop env dd dl active t np w = Some out"
  shows "\<forall>a' t' n' w'. out = Returns (a', t', n', w') \<longrightarrow> world.more w' = world.more w"
  using assms
proof (induction rule: drain_loop.raw_induct[rotated 1, consumes 1])
  case (1 drain_loop env dd dl active t np w out)
  from 1(2) show ?case
    by (auto dest!: read_clock_rest try_read_message_rest 1(1)
        split: prod.split_asm if_split_asm outcome.split_asm sum.split_asm option.split_asm)
qed

lemma drain_loop_rest [rest]:
  "drain_loop env dd dl active t np w = Some (Returns (a', t', n', w')) \<Longrightarrow> world.more w' = world.more w"
  using drain_loop_rest_all by fastforce

lemma wait_exit_loop_rest [rest]:
  assumes "wait_exit_loop env start timeout c w = Some out" "out = (e, c', w')"
  shows "world.more w' = world.more w"
  using assms
proof (induction arbitrary: e c' w' rule: wait_exit_loop.raw_induct[rotated 1, consumes 1])
  case (1 wait_exit_loop env start timeout c w out)
  from 1(2,3) show ?case
    by (auto dest!: read_clock_rest 1(1) split: prod.split_asm if_split_asm wait_status.split_asm)
qed

lemma quiet_turn_rest [rest]:
  "quiet_turn env dl gd pg t w = Some (Returns (stop, pg', t', w')) \<Longrightarrow> world.more w' = world.more w"
  by (auto simp: quiet_turn_def dest!: read_clock_rest drain_loop_rest elim!: outcome_bind_elim
      split: prod.split_asm if_split_asm bool.split_asm)

lemma ready_turn_rest [rest]:
  "ready_turn env dl gd pg t w = Some (Returns (stop, pg', t', w')) \<Longrightarrow> world.more w' = world.more w"
  by (auto simp: ready_turn_def dest!: read_clock_rest try_read_message_rest quiet_turn_rest
      split: prod.split_asm if_split_asm outcome.split_asm sum.split_asm option.split_asm)

lemma ready_loop_rest [rest]:
  assumes "ready_loop env dl gd pg t w = Some out" "out = Returns (pg', t', w')"
  shows "world.more w' = world.more w"
  using assms
proof (induction arbitrary: pg' t' w' rule: ready_loop.raw_induct[rotated 1, consumes 1])
  case (1 ready_loop env dl gd pg t w out)
  from 1(2) obtain turn where t: "ready_turn env dl gd pg t w = Some turn"
    by (auto simp: bind_eq_Some_conv)
  with 1(2,3) show ?case
    by (auto dest!: ready_turn_rest 1(1) split: outcome.split_asm prod.split_asm if_split_asm)
qed

lemma wait_for_exit_rest [rest]:
  "wait_for_exit env c timeout w = Returns (e, c', w') \<Longrightarrow> world.more w' = world.more w"
  by (auto simp: wait_for_exit_def dest!: read_clock_rest wait_exit_loop_rest
      split: prod.split_asm option.split_asm)

lemma shutdown_server_rest [rest]:
  "shutdown_server env s w = Returns (e, c, w') \<Longrightarrow> world.more w' = world.more w"
  by (auto simp: shutdown_server_def dest!: send_request_rest wait_for_exit_rest elim!: outcome_bind_elim
      split: prod.split_asm option.split_asm)

lemma wait_for_ready_rest [rest]:
  "wait_for_ready env s timeout w = Returns (s', w') \<Longrightarrow> world.more w' = world.more w"
  by (auto simp: wait_for_ready_def dest!: read_clock_rest ready_loop_rest elim!: outcome_bind_elim
      split: prod.split_asm option.split_asm)

lemma server_request_rest [rest]:
  "server_request env s m params parse w = Returns (res, s', w') \<Longrightarrow> world.more w' = world.more w"
  by (auto simp: server_request_def dest!: send_request_rest elim!: outcome_bind_elim)

lemma queries_rest [rest]:
  "find_references env s p line column b w = Returns (res, s', w') \<Longrightarrow> world.more w' = world.more w"
  "find_definition env s p line column w = Returns (res', s', w') \<Longrightarrow> world.more w' = world.more w"
  by (simp_all add: find_references_def find_definition_def server_request_rest)

lemma hover_rest [rest]: "hover env s p line column w = Returns (res, s', w') \<Longrightarrow> world.more w' = world.more w"
  by (simp add: hover_def server_request_rest)

section \<open>Stopped processes\<close>

text \<open>A process that is stopped as far as its handle can tell: it is gone, or killing it failed, or
  its state could not be read.\<close>

definition stopped :: "child \<Rightarrow> bool" where
  "stopped c \<longleftrightarrow> gone c \<or> ch_kill_error c \<noteq> None \<or> (\<exists>k < ch_polls c. \<exists>e. ch_status c k = WaitFailed e)"

lemma drop_server_stopped: "stopped (drop_server c)"
proof (cases "ch_status c (ch_polls c)")
  case StillRunning
  then show ?thesis
    by (auto simp: stopped_def gone_def drop_server_def try_wait_def kill_child_def split: option.splits)
next
  case (Exited s)
  then show ?thesis
    by (auto simp: stopped_def gone_def drop_server_def try_wait_def kill_child_def intro: exI[of _ "ch_polls c"])
next
  case (WaitFailed e)
  then show ?thesis
    by (auto simp: stopped_def gone_def drop_server_def try_wait_def kill_child_def intro: exI[of _ "ch_polls c"])
qed

lemma shutdown_server_stopped: "shutdown_server env s w = Returns (e, c, w') \<Longrightarrow> stopped c"
  by (auto simp: shutdown_server_def drop_server_stopped elim!: outcome_bind_elim
      split: prod.split_asm option.split_asm)

section \<open>Starting\<close>

text \<open>A start that gets past the look for the program counts as one attempt to spawn; its process, if
  there is one, is that of the new server or is handed out with the error.\<close>

definition spawns_succeed :: "'z srv_env_scheme \<Rightarrow> bool" where
  "spawns_succeed env \<longleftrightarrow> (\<forall>config k. \<exists>sp. se_spawn env config k = Inr sp)"

lemma start_process:
  assumes "start_with_capabilities env config root caps w = Returns (res, w')"
  shows "srv_world.more w' = srv_world.more w \<and>
    (spawns_succeed env \<longrightarrow> w_spawns w' = w_spawns w +
       (case res of Inl (e, left) \<Rightarrow> (case left of None \<Rightarrow> 0 | Some c \<Rightarrow> 1) | Inr s \<Rightarrow> 1))"
proof -
  have spawned: "srv_world.more w1 = srv_world.more w \<and> w_spawns w1 = Suc (w_spawns w)"
    if "send_request env t m params (w\<lparr>w_spawns := Suc (w_spawns w)\<rparr>) = Returns (r, t1, w1)" for t m params r t1 w1
    using send_request_rest[OF that] by (cases w; cases w1) simp
  have none: "\<not> spawns_succeed env" if "se_spawn env config k = Inl e" for k e
    using that by (auto simp: spawns_succeed_def) (metis Inl_Inr_False)
  from assms show ?thesis
    by (auto simp: start_with_capabilities_def Let_def none dest!: spawned elim!: outcome_bind_elim
        split: option.split_asm sum.split_asm io_error.split_asm prod.split_asm wait_status.split_asm)
qed

end
