(* ===== verification/Daemon.thy ===== *)
theory Daemon
  imports Daemon_File Resolver Server_Processes
begin

text \<open>
  \<open>daemon.rs\<close>: the pool of language servers of the background daemon, the requests it
  answers, the authenticated connection, eviction, the accept loop and the run of the whole
  process. The hash map of servers is a map; the order in which it iterates is an oracle of the
  environment. Processes whose handle is dropped are kept in the world's \<open>w_left\<close>.
\<close>

section \<open>State\<close>

type_synonym server_key = "path \<times> language"

record pooled_server =
  ps_server :: lsp_server
  ps_last_used :: nat
  ps_started :: nat

record daemon =
  d_servers :: "server_key \<rightharpoonup> pooled_server"
  d_registry :: registry
  d_idle_timeout :: nat
  d_start_time :: nat
  d_project_root :: path
  d_token :: string

record daemon_env = srv_env +
  de_iter :: "server_key set \<Rightarrow> server_key list"
  de_read_file :: "path \<Rightarrow> string option"
  de_files :: file_env
  de_hash_time :: "nat \<Rightarrow> nat \<Rightarrow> 64 word"
  de_hash_mix :: "64 word \<Rightarrow> 64 word \<Rightarrow> 64 word"
  de_now_nanos :: nat

record daemon_world = srv_world +
  w_left :: "child list"
  w_disk :: disk

datatype pool_state = Ready | Dead | Missing

definition DEFAULT_IDLE_TIMEOUT_SECS :: nat where
  "DEFAULT_IDLE_TIMEOUT_SECS = 30 * 60"

definition nanos_of_secs :: "nat \<Rightarrow> nat" where
  "nanos_of_secs s = s * 10 ^ 9"

definition daemon_new ::
  "daemon_env \<Rightarrow> nat \<Rightarrow> path \<Rightarrow> daemon_world \<Rightarrow> daemon \<times> daemon_world" where
  "daemon_new env idle_timeout project_root w =
     (case read_clock env w of (now, w1) \<Rightarrow>
        (\<lparr>d_servers = Map.empty, d_registry = registry_new, d_idle_timeout = idle_timeout,
          d_start_time = now, d_project_root = project_root,
          d_token = generate_token (de_hash_time env) (de_hash_mix env) (de_now_nanos env) (se_pid env)\<rparr>, w1))"

text \<open>\<open>cwd\<close> is the current directory, if it can be determined.\<close>

definition from_env ::
  "daemon_env \<Rightarrow> path option \<Rightarrow> daemon_world \<Rightarrow> daemon \<times> daemon_world" where
  "from_env env cwd w =
     (let vars = fe_env (de_files env);
          timeout_secs =
            (case Option.bind (vars ''CQ_LSP_TIMEOUT'') (parse_unsigned usize_max) of
               None \<Rightarrow> DEFAULT_IDLE_TIMEOUT_SECS | Some n \<Rightarrow> n);
          project_root =
            (case vars ''CQ_DAEMON_PROJECT'' of
               Some p \<Rightarrow> path_of_string p
             | None \<Rightarrow> (case cwd of Some c \<Rightarrow> c | None \<Rightarrow> path_of_string ''.''))
      in daemon_new env (nanos_of_secs timeout_secs) project_root w)"

section \<open>The pool\<close>

definition forget :: "child list \<Rightarrow> daemon_world \<Rightarrow> daemon_world" where
  "forget cs w = w\<lparr>w_left := w_left w @ cs\<rparr>"

text \<open>\<open>is_ready\<close> asks the process; a live server is marked as used now.\<close>

definition probe_server ::
  "daemon_env \<Rightarrow> daemon \<Rightarrow> server_key \<Rightarrow> daemon_world \<Rightarrow> pool_state \<times> daemon \<times> daemon_world" where
  "probe_server env d key w =
     (case d_servers d key of
        None \<Rightarrow> (Missing, d, w)
      | Some pooled \<Rightarrow>
          (case is_ready (ps_server pooled) of
             (True, s) \<Rightarrow>
               (case read_clock env w of (now, w1) \<Rightarrow>
                  (Ready, d\<lparr>d_servers := (d_servers d)(key \<mapsto> pooled\<lparr>ps_server := s, ps_last_used := now\<rparr>)\<rparr>, w1))
           | (False, s) \<Rightarrow> (Dead, d\<lparr>d_servers := (d_servers d)(key \<mapsto> pooled\<lparr>ps_server := s\<rparr>)\<rparr>, w)))"

definition remove_dead :: "daemon \<Rightarrow> server_key \<Rightarrow> daemon_world \<Rightarrow> daemon \<times> daemon_world" where
  "remove_dead d key w =
     (case d_servers d key of
        None \<Rightarrow> (d, w)
      | Some pooled \<Rightarrow>
          (d\<lparr>d_servers := (d_servers d)(key := None)\<rparr>, forget [drop_server (srv_process (ps_server pooled))] w))"

definition start_pooled ::
  "daemon_env \<Rightarrow> daemon \<Rightarrow> server_key \<Rightarrow> daemon_world
    \<Rightarrow> (lsp_error option \<times> daemon \<times> daemon_world) outcome" where
  "start_pooled env d key w =
     (case config_for (d_registry d) (snd key) of
        None \<Rightarrow>
          Returns (Some (ServerNotFound
            (''no language server configured for '' @ language_debug (snd key))), d, w)
      | Some config \<Rightarrow>
          outcome_bind (start_server env config (fst key) w)
            (\<lambda>(res, w1).
               case res of
                 Inl (e, leftover) \<Rightarrow>
                   Returns (Some e, d, forget (case leftover of None \<Rightarrow> [] | Some c \<Rightarrow> [c]) w1)
               | Inr s \<Rightarrow>
                   (case read_clock env w1 of (now, w2) \<Rightarrow>
                      Returns (None,
                        d\<lparr>d_servers := (d_servers d)(key \<mapsto>
                            \<lparr>ps_server = s, ps_last_used = now, ps_started = now\<rparr>)\<rparr>, w2))))"

text \<open>The result is the error, or none when the pool holds the server under the key.\<close>

definition get_or_start_server ::
  "daemon_env \<Rightarrow> daemon \<Rightarrow> path \<Rightarrow> language \<Rightarrow> daemon_world
    \<Rightarrow> (lsp_error option \<times> daemon \<times> daemon_world) outcome" where
  "get_or_start_server env d project lang w =
     (case probe_server env d (project, lang) w of
        (Ready, d1, w1) \<Rightarrow> Returns (None, d1, w1)
      | (Dead, d1, w1) \<Rightarrow>
          (case remove_dead d1 (project, lang) w1 of (d2, w2) \<Rightarrow> start_pooled env d2 (project, lang) w2)
      | (Missing, d1, w1) \<Rightarrow> start_pooled env d1 (project, lang) w1)"

text \<open>Which servers are idle: the clock is read once for each.\<close>

fun idle_keys ::
  "daemon_env \<Rightarrow> (server_key \<rightharpoonup> pooled_server) \<Rightarrow> nat \<Rightarrow> server_key list \<Rightarrow> daemon_world
    \<Rightarrow> server_key list \<times> daemon_world" where
  "idle_keys env servers timeout [] w = ([], w)"
| "idle_keys env servers timeout (k # ks) w =
     (case servers k of
        None \<Rightarrow> idle_keys env servers timeout ks w
      | Some pooled \<Rightarrow>
          (case read_clock env w of (now, w1) \<Rightarrow>
             (case idle_keys env servers timeout ks w1 of (rest, w2) \<Rightarrow>
                (if timeout < now - ps_last_used pooled then k # rest else rest, w2))))"

fun shutdown_keys ::
  "daemon_env \<Rightarrow> daemon \<Rightarrow> server_key list \<Rightarrow> daemon_world \<Rightarrow> (daemon \<times> daemon_world) outcome" where
  "shutdown_keys env d [] w = Returns (d, w)"
| "shutdown_keys env d (k # ks) w =
     (case d_servers d k of
        None \<Rightarrow> shutdown_keys env d ks w
      | Some pooled \<Rightarrow>
          outcome_bind (shutdown_server env (ps_server pooled) w)
            (\<lambda>(e, c, w1).
               shutdown_keys env (d\<lparr>d_servers := (d_servers d)(k := None)\<rparr>) ks (forget [c] w1)))"

definition evict_idle_servers ::
  "daemon_env \<Rightarrow> daemon \<Rightarrow> daemon_world \<Rightarrow> (daemon \<times> daemon_world) outcome" where
  "evict_idle_servers env d w =
     (case idle_keys env (d_servers d) (d_idle_timeout d) (de_iter env (dom (d_servers d))) w of
        (to_remove, w1) \<Rightarrow> shutdown_keys env d to_remove w1)"

definition shutdown_all_servers ::
  "daemon_env \<Rightarrow> daemon \<Rightarrow> daemon_world \<Rightarrow> (daemon \<times> daemon_world) outcome" where
  "shutdown_all_servers env d w = shutdown_keys env d (de_iter env (dom (d_servers d))) w"

section \<open>Requests\<close>

fun status_entries ::
  "daemon_env \<Rightarrow> (server_key \<rightharpoonup> pooled_server) \<Rightarrow> server_key list \<Rightarrow> daemon_world
    \<Rightarrow> server_info list \<times> daemon_world" where
  "status_entries env servers [] w = ([], w)"
| "status_entries env servers (k # ks) w =
     (case servers k of
        None \<Rightarrow> status_entries env servers ks w
      | Some pooled \<Rightarrow>
          (case read_clock env w of (now, w1) \<Rightarrow>
             (case status_entries env servers ks w1 of (rest, w2) \<Rightarrow>
                (\<lparr>si_project = fst k, si_language = to_lowercase (language_debug (snd k)),
                  si_uptime_secs = (now - ps_started pooled) div 10 ^ 9\<rparr> # rest, w2))))"

definition handle_status :: "daemon_env \<Rightarrow> daemon \<Rightarrow> daemon_world \<Rightarrow> daemon_response \<times> daemon_world" where
  "handle_status env d w =
     (case status_entries env (d_servers d) (de_iter env (dom (d_servers d))) w of (servers, w1) \<Rightarrow>
        (case read_clock env w1 of (now, w2) \<Rightarrow>
           (StatusResp servers ((now - d_start_time d) div 10 ^ 9), w2)))"

text \<open>The query on the server, by the name of the operation.\<close>

definition run_operation ::
  "daemon_env \<Rightarrow> lsp_server \<Rightarrow> string \<Rightarrow> path \<Rightarrow> nat \<Rightarrow> nat \<Rightarrow> daemon_world
    \<Rightarrow> (daemon_response \<times> lsp_server \<times> daemon_world) outcome" where
  "run_operation env s operation file line column w =
     (if operation = ''definition'' then
        outcome_bind (find_definition env s file line column w) (\<lambda>(res, s1, w1).
          Returns (case res of
              Inr locations \<Rightarrow> Locations locations
            | Inl e \<Rightarrow> ErrorResp (''definition failed: '' @ error_text env e), s1, w1))
      else if operation = ''references'' then
        outcome_bind (find_references env s file line column True w) (\<lambda>(res, s1, w1).
          Returns (case res of
              Inr locations \<Rightarrow> Locations locations
            | Inl e \<Rightarrow> ErrorResp (''references failed: '' @ error_text env e), s1, w1))
      else if operation = ''hover'' then
        outcome_bind (hover env s file line column w) (\<lambda>(res, s1, w1).
          Returns (case res of
              Inr t \<Rightarrow> HoverResp t
            | Inl e \<Rightarrow> ErrorResp (''hover failed: '' @ error_text env e), s1, w1))
      else Returns (ErrorResp (''unknown operation: '' @ operation), s, w))"

definition put_server :: "daemon \<Rightarrow> server_key \<Rightarrow> lsp_server \<Rightarrow> daemon" where
  "put_server d key s =
     d\<lparr>d_servers := (d_servers d)(key := map_option (\<lambda>p. p\<lparr>ps_server := s\<rparr>) (d_servers d key))\<rparr>"

text \<open>A query once its language is known; the server is told the name that the client sent.\<close>

definition query_server ::
  "daemon_env \<Rightarrow> daemon \<Rightarrow> path \<Rightarrow> language \<Rightarrow> string \<Rightarrow> string \<Rightarrow> path \<Rightarrow> nat \<Rightarrow> nat \<Rightarrow> daemon_world
    \<Rightarrow> (daemon_response \<times> daemon \<times> daemon_world) outcome" where
  "query_server env d project lang language operation file line column w =
     outcome_bind (get_or_start_server env d project lang w) (\<lambda>(err, d1, w1).
       case err of
         Some e \<Rightarrow> Returns (ErrorResp (''failed to start server: '' @ error_text env e), d1, w1)
       | None \<Rightarrow>
           (case d_servers d1 (project, lang) of
              None \<Rightarrow> Panics
            | Some pooled \<Rightarrow>
                (let source = (case de_read_file env file of None \<Rightarrow> [] | Some s \<Rightarrow> s) in
                 case open_document env (ps_server pooled) file source language of
                   (Some e, s1) \<Rightarrow>
                     Returns (ErrorResp (''failed to open document: '' @ error_text env e),
                       put_server d1 (project, lang) s1, w1)
                 | (None, s1) \<Rightarrow>
                     outcome_bind (run_operation env s1 operation file line column w1)
                       (\<lambda>(response, s2, w2). Returns (response, put_server d1 (project, lang) s2, w2)))))"

definition handle_query ::
  "daemon_env \<Rightarrow> daemon \<Rightarrow> path \<Rightarrow> string \<Rightarrow> string \<Rightarrow> path \<Rightarrow> nat \<Rightarrow> nat \<Rightarrow> daemon_world
    \<Rightarrow> (daemon_response \<times> daemon \<times> daemon_world) outcome" where
  "handle_query env d project language operation file line column w =
     (case from_name language of
        None \<Rightarrow> Returns (ErrorResp (''unsupported language: '' @ language), d, w)
      | Some lang \<Rightarrow> query_server env d project lang language operation file line column w)"

text \<open>The response, and whether the daemon should stop.\<close>

definition handle_request ::
  "daemon_env \<Rightarrow> daemon \<Rightarrow> daemon_request \<Rightarrow> daemon_world
    \<Rightarrow> ((daemon_response \<times> bool) \<times> daemon \<times> daemon_world) outcome" where
  "handle_request env d req w =
     (case req of
        QueryReq project language operation file line column _ \<Rightarrow>
          outcome_bind (handle_query env d project language operation file line column w)
            (\<lambda>(response, d1, w1). Returns ((response, False), d1, w1))
      | StatusReq \<Rightarrow> (case handle_status env d w of (response, w1) \<Rightarrow> Returns ((response, False), d, w1))
      | ShutdownReq \<Rightarrow> Returns ((OkResp, True), d, w)
      | AuthenticateReq _ \<Rightarrow> Returns ((ErrorResp ''unexpected authenticate request'', False), d, w))"

section \<open>Connections\<close>

record connection =
  cn_out :: writer
  cn_in :: reader

definition reply :: "daemon_env \<Rightarrow> connection \<Rightarrow> daemon_response \<Rightarrow> connection" where
  "reply env cn response =
     cn\<lparr>cn_out := snd (write_message (le_codec env) (cn_out cn) (response_json response))\<rparr>"

definition recv_request ::
  "daemon_env \<Rightarrow> connection \<Rightarrow> ((lsp_error + daemon_request) \<times> connection) outcome" where
  "recv_request env cn =
     outcome_bind (read_message (le_codec env) request_of_json (cn_in cn))
       (\<lambda>(res, r). Returns (res, cn\<lparr>cn_in := r\<rparr>))"

definition handle_connection ::
  "daemon_env \<Rightarrow> daemon \<Rightarrow> connection \<Rightarrow> daemon_world
    \<Rightarrow> (bool \<times> daemon \<times> connection \<times> daemon_world) outcome" where
  "handle_connection env d cn w =
     outcome_bind (recv_request env cn) (\<lambda>(auth, cn1).
       case auth of
         Inl e \<Rightarrow> Returns (False, d, cn1, w)
       | Inr (AuthenticateReq token) \<Rightarrow>
           if token = d_token d then
             (let cn2 = reply env cn1 AuthOk in
              outcome_bind (recv_request env cn2) (\<lambda>(request, cn3).
                case request of
                  Inl e \<Rightarrow> Returns (False, d, cn3, w)
                | Inr req \<Rightarrow>
                    outcome_bind (handle_request env d req w) (\<lambda>((response, should_stop), d1, w1).
                      Returns (should_stop, d1, reply env cn3 response, w1))))
           else Returns (False, d, reply env cn1 (ErrorResp ''authentication failed''), w)
       | Inr _ \<Rightarrow> Returns (False, d, reply env cn1 (ErrorResp ''authentication failed''), w))"

section \<open>The accept loop and the run\<close>

datatype accept_event = Accepted connection | NoConnection | AcceptFailed io_error

text \<open>The turns of the loop: whether a signal has arrived, and what \<open>accept\<close> gives. The result
  says whether the loop has stopped; when the turns run out it still runs.\<close>

fun accept_loop ::
  "daemon_env \<Rightarrow> daemon \<Rightarrow> (bool \<times> accept_event) list \<Rightarrow> daemon_world
    \<Rightarrow> (bool \<times> daemon \<times> daemon_world) outcome" where
  "accept_loop env d [] w = Returns (False, d, w)"
| "accept_loop env d ((signalled, ev) # evs) w =
     (if signalled then Returns (True, d, w)
      else
        outcome_bind (evict_idle_servers env d w) (\<lambda>(d1, w1).
          case ev of
            Accepted cn \<Rightarrow>
              outcome_bind (handle_connection env d1 cn w1) (\<lambda>(should_stop, d2, cn', w2).
                if should_stop then Returns (True, d2, w2) else accept_loop env d2 evs w2)
          | NoConnection \<Rightarrow> accept_loop env d1 evs w1
          | AcceptFailed e \<Rightarrow> accept_loop env d1 evs w1))"

definition pad2 :: "nat \<Rightarrow> string" where
  "pad2 n = (if n < 10 then CHR ''0'' # dec n else dec n)"

definition started_text :: "nat \<Rightarrow> string" where
  "started_text secs =
     dec (1970 + secs div 31536000) @ ''-'' @ pad2 (secs mod 31536000 div 2592000 + 1) @ ''-''
     @ pad2 (secs mod 2592000 div 86400 + 1) @ ''T'' @ pad2 (secs mod 86400 div 3600) @ '':''
     @ pad2 (secs mod 3600 div 60) @ '':'' @ pad2 (secs mod 60) @ ''Z''"

text \<open>\<open>bind\<close> gives an error text or the port; the daemon's result is none when the turns end before
  it stops.\<close>

definition daemon_run ::
  "daemon_env \<Rightarrow> string + nat \<Rightarrow> nat \<Rightarrow> io_error option \<Rightarrow> daemon \<Rightarrow> (bool \<times> accept_event) list \<Rightarrow> daemon_world
    \<Rightarrow> (lsp_error option option \<times> daemon \<times> daemon_world) outcome" where
  "daemon_run env bound secs nonblocking_error d evs w =
     (case bound of
        Inl e \<Rightarrow> Returns (Some (Some (ConnectionFailed (''failed to bind TCP listener: '' @ e))), d, w)
      | Inr port \<Rightarrow>
          (let info = \<lparr>di_port = port, di_token = d_token d, di_pid = se_pid env,
                 di_project = d_project_root d, di_started = started_text secs\<rparr> in
           case write_daemon_info (de_files env) (w_disk w) info of
             (Some e, disk') \<Rightarrow>
               Returns (Some (Some (ConnectionFailed
                 (''failed to write daemon info file: '' @ se_io_text env e))), d, w\<lparr>w_disk := disk'\<rparr>)
           | (None, disk') \<Rightarrow>
               (case nonblocking_error of
                  Some e \<Rightarrow> Returns (Some (Some (Io e)), d, w\<lparr>w_disk := disk'\<rparr>)
                | None \<Rightarrow>
                    outcome_bind (accept_loop env d evs (w\<lparr>w_disk := disk'\<rparr>)) (\<lambda>(stopped, d1, w1).
                      if \<not> stopped then Returns (None, d1, w1)
                      else
                        outcome_bind (shutdown_all_servers env d1 w1) (\<lambda>(d2, w2).
                          Returns (Some None, d2,
                            w2\<lparr>w_disk := remove_daemon_file (de_files env) (w_disk w2) (d_project_root d2)\<rparr>))))))"

section \<open>Authentication\<close>

definition auth_failed :: daemon_response where
  "auth_failed = ErrorResp ''authentication failed''"

text \<open>A message as it stands in a stream, and what the JSON library must do with it.\<close>

definition request_frame :: "json_codec \<Rightarrow> daemon_request \<Rightarrow> string" where
  "request_frame c q = frame (jc_print c (request_json q))"

definition response_frame :: "json_codec \<Rightarrow> daemon_response \<Rightarrow> string" where
  "response_frame c a = frame (jc_print c (response_json a))"

definition sendable :: "json_codec \<Rightarrow> daemon_request \<Rightarrow> bool" where
  "sendable c q \<longleftrightarrow> request_ok q \<and> length (jc_print c (request_json q)) \<le> MAX_MESSAGE_SIZE \<and>
     jc_parse c (jc_print c (request_json q)) = Inr (request_json q)"

lemma recv_frame:
  assumes "sendable (le_codec env) q"
    and "cn_in cn = \<lparr>rd_bytes = request_frame (le_codec env) q @ rest, rd_open = op\<rparr>"
  shows "recv_request env cn = Returns (Inr q, cn\<lparr>cn_in := \<lparr>rd_bytes = rest, rd_open = op\<rparr>\<rparr>)"
  using assms by (simp add: recv_request_def sendable_def request_frame_def read_message_frame)

lemma reply_frame:
  "wr_room (cn_out cn) = None \<Longrightarrow>
     reply env cn a =
       cn\<lparr>cn_out := (cn_out cn)\<lparr>wr_bytes := wr_bytes (cn_out cn) @ response_frame (le_codec env) a\<rparr>\<rparr>"
  by (simp add: reply_def write_message_frame response_frame_def)

text \<open>What the daemon makes of the first message of a connection, given the body of its frame.\<close>

definition first_request :: "json_codec \<Rightarrow> string \<Rightarrow> daemon_request option" where
  "first_request c body =
     (if MAX_MESSAGE_SIZE < length body then None
      else (case jc_parse c body of Inl e \<Rightarrow> None | Inr j \<Rightarrow> request_of_json j))"

lemma first_request_sent: "sendable c q \<Longrightarrow> first_request c (jc_print c (request_json q)) = Some q"
  by (simp add: first_request_def sendable_def)

lemma unat_prefix: "n < 2 ^ 32 \<Longrightarrow> unat (word_of_nat n :: 32 word) = n"
  by (simp add: unat_of_nat)

lemma recv_first:
  assumes "cn_in cn = \<lparr>rd_bytes = frame body @ rest, rd_open = op\<rparr>" "length body < 2 ^ 32"
  shows "\<exists>r. recv_request env cn = Returns (r, cn\<lparr>cn_in :=
      \<lparr>rd_bytes = if MAX_MESSAGE_SIZE < length body then body @ rest else rest, rd_open = op\<rparr>\<rparr>) \<and>
    (case first_request (le_codec env) body of None \<Rightarrow> \<exists>e. r = Inl e | Some q \<Rightarrow> r = Inr q)"
proof (cases "MAX_MESSAGE_SIZE < length body")
  case True
  then show ?thesis using assms
    by (simp add: recv_request_def first_request_def read_message_def read_exact_def frame_def unat_prefix)
next
  case False
  then show ?thesis using assms(1)
    by (cases "jc_parse (le_codec env) body")
      (auto simp: recv_request_def first_request_def read_message_frame split: option.split)
qed

text \<open>
  C13: a connection (one that takes replies) whose first message, in whatever bytes, is anything but an
  authentication with the daemon's token is dropped: a request of another kind or with another token gets the error
  \<open>authentication failed\<close>, a message that is too long or cannot be decoded gets no answer. The daemon,
  its servers and the world are as before, the daemon goes on, and nothing after that message is read.
\<close>

theorem unauthenticated_connection_rejected:
  assumes "cn_in cn = \<lparr>rd_bytes = frame body @ rest, rd_open = op\<rparr>" "length body < 2 ^ 32"
    and "first_request (le_codec env) body \<noteq> Some (AuthenticateReq (d_token d))"
    and "wr_room (cn_out cn) = None"
  shows "handle_connection env d cn w =
    Returns (False, d,
      \<lparr>cn_out = (cn_out cn)\<lparr>wr_bytes := wr_bytes (cn_out cn) @
         (if first_request (le_codec env) body = None then [] else response_frame (le_codec env) auth_failed)\<rparr>,
       cn_in = \<lparr>rd_bytes = if MAX_MESSAGE_SIZE < length body then body @ rest else rest, rd_open = op\<rparr>\<rparr>, w)"
proof (cases "first_request (le_codec env) body")
  case None
  with recv_first[OF assms(1,2), of env] show ?thesis
    by (cases cn) (auto simp: handle_connection_def)
next
  case (Some q)
  with recv_first[OF assms(1,2), of env] assms(3,4) show ?thesis
    by (cases q; cases cn) (auto simp: handle_connection_def reply_frame auth_failed_def)
qed

definition demo_daemon_env :: daemon_env where
  "demo_daemon_env =
     \<lparr>le_codec = table_codec (request_json StatusReq) (request_json (AuthenticateReq ''t'')),
      le_clock = (\<lambda>k. k), le_buffered = (\<lambda>_. False), le_poll = (\<lambda>_. Inr False),
      se_which = (\<lambda>_. True), se_spawn = (\<lambda>_ _. Inl NotFound), se_pid = 1, se_canonicalize = Some,
      se_duration = dec, se_io_text = (\<lambda>_. ''io''), de_iter = (\<lambda>_. []), de_read_file = (\<lambda>_. None),
      de_files = \<lparr>fe_env = (\<lambda>_. None), fe_home = Some [RootDir], fe_hash_path = (\<lambda>_. 7),
        fe_codec = table_codec JNull JNull, fe_pretty = (\<lambda>_. ''x''), fe_create_dir = (\<lambda>_. None),
        fe_read_dir = (\<lambda>_. None), fe_tcp_connect = (\<lambda>_. True)\<rparr>,
      de_hash_time = (\<lambda>_ _. 1), de_hash_mix = (\<lambda>_ _. 2), de_now_nanos = 0\<rparr>"

definition demo_daemon :: "string \<Rightarrow> daemon" where
  "demo_daemon token =
     \<lparr>d_servers = Map.empty, d_registry = [], d_idle_timeout = 5, d_start_time = 0,
      d_project_root = [RootDir], d_token = token\<rparr>"

definition demo_disk :: disk where
  "demo_disk = \<lparr>disk_files = Map.empty, read_fault = (\<lambda>_. None), create_fault = (\<lambda>_. None),
     write_fault = (\<lambda>_. None), remove_fault = (\<lambda>_. None)\<rparr>"

definition demo_daemon_world :: daemon_world where
  "demo_daemon_world = \<lparr>w_ticks = 0, w_looks = 0, w_next_id = 1, w_spawns = 0, w_left = [], w_disk = demo_disk\<rparr>"

definition demo_connection :: "string \<Rightarrow> connection" where
  "demo_connection bytes = \<lparr>cn_out = \<lparr>wr_bytes = [], wr_room = None\<rparr>, cn_in = \<lparr>rd_bytes = bytes, rd_open = True\<rparr>\<rparr>"

lemma demo_sendable:
  "sendable (le_codec demo_daemon_env) StatusReq"
  "sendable (le_codec demo_daemon_env) (AuthenticateReq ''t'')"
  by (simp_all add: sendable_def demo_daemon_env_def table_codec_def MAX_MESSAGE_SIZE_def)

theorem unauthenticated_connection_rejected_witness:
  "\<exists>cn'. handle_connection demo_daemon_env (demo_daemon ''t'')
      (demo_connection (request_frame (le_codec demo_daemon_env) StatusReq @ ''more'')) demo_daemon_world
    = Returns (False, demo_daemon ''t'', cn', demo_daemon_world) \<and> rd_bytes (cn_in cn') = ''more''"
proof -
  have "length (jc_print (le_codec demo_daemon_env) (request_json StatusReq)) < 2 ^ 32"
    using demo_sendable(1) by (simp add: sendable_def MAX_MESSAGE_SIZE_def)
  from unauthenticated_connection_rejected[OF _ this, of _ "''more''" True demo_daemon_env "demo_daemon ''t''"]
    first_request_sent[OF demo_sendable(1)] demo_sendable(1)
  show ?thesis by (simp add: demo_connection_def request_frame_def sendable_def)
qed

lemma connection_exchange:
  assumes "sendable (le_codec env) (AuthenticateReq (d_token d))" "sendable (le_codec env) q"
    and "cn_in cn = \<lparr>rd_bytes = request_frame (le_codec env) (AuthenticateReq (d_token d))
        @ request_frame (le_codec env) q @ rest, rd_open = op\<rparr>"
    and "wr_room (cn_out cn) = None"
    and "handle_request env d q w = Returns ((response, should_stop), d', w')"
  shows "handle_connection env d cn w =
    Returns (should_stop, d',
      \<lparr>cn_out = (cn_out cn)\<lparr>wr_bytes := wr_bytes (cn_out cn) @ response_frame (le_codec env) AuthOk
         @ response_frame (le_codec env) response\<rparr>,
       cn_in = \<lparr>rd_bytes = rest, rd_open = op\<rparr>\<rparr>, w')"
proof -
  have auth: "recv_request env cn = Returns (Inr (AuthenticateReq (d_token d)),
      cn\<lparr>cn_in := \<lparr>rd_bytes = request_frame (le_codec env) q @ rest, rd_open = op\<rparr>\<rparr>)"
    by (rule recv_frame[OF assms(1)]) (simp add: assms(3))
  have req: "recv_request env c2 = Returns (Inr q, c2\<lparr>cn_in := \<lparr>rd_bytes = rest, rd_open = op\<rparr>\<rparr>)"
    if "cn_in c2 = \<lparr>rd_bytes = request_frame (le_codec env) q @ rest, rd_open = op\<rparr>" for c2
    using that by (rule recv_frame[OF assms(2)])
  show ?thesis
    using auth assms(4,5)
    by (cases cn) (simp add: handle_connection_def reply_frame req)
qed

text \<open>
  On an authenticated connection the daemon acknowledges, handles exactly one request and
  answers it; whatever the client sends after it is never read, so a second query on the same
  connection gets no answer.
\<close>

theorem one_request_per_connection:
  assumes "sendable (le_codec env) (AuthenticateReq (d_token d))" "sendable (le_codec env) q"
    and "cn_in cn = \<lparr>rd_bytes = request_frame (le_codec env) (AuthenticateReq (d_token d))
        @ request_frame (le_codec env) q @ rest, rd_open = op\<rparr>"
    and "wr_room (cn_out cn) = None"
    and "handle_request env d q w = Returns ((response, should_stop), d', w')"
  shows "handle_connection env d cn w =
    Returns (should_stop, d',
      \<lparr>cn_out = (cn_out cn)\<lparr>wr_bytes := wr_bytes (cn_out cn) @ response_frame (le_codec env) AuthOk
         @ response_frame (le_codec env) response\<rparr>,
       cn_in = \<lparr>rd_bytes = rest, rd_open = op\<rparr>\<rparr>, w')"
  using assms by (rule connection_exchange)

theorem one_request_per_connection_witness:
  "\<exists>cn'. handle_connection demo_daemon_env (demo_daemon ''t'')
      (demo_connection (request_frame (le_codec demo_daemon_env) (AuthenticateReq ''t'')
        @ request_frame (le_codec demo_daemon_env) StatusReq
        @ request_frame (le_codec demo_daemon_env) StatusReq)) demo_daemon_world
    = Returns (False, demo_daemon ''t'', cn', demo_daemon_world\<lparr>w_ticks := 1\<rparr>) \<and>
      rd_bytes (cn_in cn') = request_frame (le_codec demo_daemon_env) StatusReq"
proof -
  have auth: "sendable (le_codec demo_daemon_env) (AuthenticateReq (d_token (demo_daemon ''t'')))"
    using demo_sendable(2) by (simp add: demo_daemon_def)
  have status: "handle_request demo_daemon_env (demo_daemon ''t'') StatusReq demo_daemon_world
      = Returns ((StatusResp [] 0, False), demo_daemon ''t'', demo_daemon_world\<lparr>w_ticks := 1\<rparr>)"
    by (simp add: handle_request_def handle_status_def demo_daemon_env_def demo_daemon_def
        demo_daemon_world_def read_clock_def)
  from one_request_per_connection[OF auth demo_sendable(1) _ _ status,
      of "demo_connection (request_frame (le_codec demo_daemon_env) (AuthenticateReq ''t'')
        @ request_frame (le_codec demo_daemon_env) StatusReq
        @ request_frame (le_codec demo_daemon_env) StatusReq)"
        "request_frame (le_codec demo_daemon_env) StatusReq" True]
  show ?thesis by (simp add: demo_connection_def demo_daemon_def)
qed

section \<open>One client can block the daemon\<close>

text \<open>
  A client that connects and sends nothing stops the daemon: the accept loop never returns,
  whatever connections, signals or idle servers come after it, since the read has no timeout.
\<close>

theorem silent_client_blocks_daemon:
  assumes "cn_in cn = \<lparr>rd_bytes = partial, rd_open = True\<rparr>" "length partial < 4"
    and "evict_idle_servers env d w = Returns (d1, w1)"
  shows "accept_loop env d ((False, Accepted cn) # evs) w = Hangs"
proof -
  have "recv_request env cn = Hangs"
    using assms(1,2) by (simp add: recv_request_def read_message_def read_exact_def)
  then have "handle_connection env d1 cn w1 = Hangs" by (simp add: handle_connection_def)
  with assms(3) show ?thesis by simp
qed

theorem silent_client_blocks_daemon_witness:
  "accept_loop demo_daemon_env (demo_daemon ''t'')
     [(False, Accepted (demo_connection [])), (True, NoConnection)] demo_daemon_world = Hangs"
  by (rule silent_client_blocks_daemon[where partial = "[]" and ?d1.0 = "demo_daemon ''t''"
        and ?w1.0 = demo_daemon_world])
    (simp_all add: demo_connection_def evict_idle_servers_def demo_daemon_env_def)

section \<open>Eviction\<close>

lemma idle_keys_idle:
  "k \<in> set (fst (idle_keys env servers timeout ks w)) \<Longrightarrow>
     k \<in> set ks \<and> (\<exists>p n. servers k = Some p \<and> timeout < le_clock env (w_ticks w + n) - ps_last_used p)"
proof (induction ks arbitrary: w)
  case (Cons a ks)
  show ?case
  proof (cases "servers a")
    case None
    with Cons show ?thesis by auto
  next
    case (Some p)
    let ?w1 = "w\<lparr>w_ticks := Suc (w_ticks w)\<rparr>"
    from Cons.prems Some consider "k = a" "timeout < le_clock env (w_ticks w) - ps_last_used p"
      | "k \<in> set (fst (idle_keys env servers timeout ks ?w1))"
      by (auto simp: read_clock_def split: prod.splits if_splits)
    then show ?thesis
    proof cases
      case 1
      with Some show ?thesis by (intro conjI exI[of _ p] exI[of _ 0]) auto
    next
      case 2
      from Cons.IH[OF this] obtain q n where
        q: "k \<in> set ks" "servers k = Some q" "timeout < le_clock env (w_ticks w + Suc n) - ps_last_used q" by auto
      then show ?thesis by (intro conjI exI[of _ q] exI[of _ "Suc n"]) simp_all
    qed
  qed
qed simp

lemma idle_keys_kept:
  "k \<in> set ks \<Longrightarrow> servers k = Some p \<Longrightarrow> k \<notin> set (fst (idle_keys env servers timeout ks w)) \<Longrightarrow>
     \<exists>n. le_clock env (w_ticks w + n) - ps_last_used p \<le> timeout"
proof (induction ks arbitrary: w)
  case (Cons a ks)
  let ?w1 = "w\<lparr>w_ticks := Suc (w_ticks w)\<rparr>"
  show ?case
  proof (cases "k = a")
    case True
    with Cons.prems have "\<not> timeout < le_clock env (w_ticks w) - ps_last_used p"
      by (auto simp: read_clock_def split: prod.splits if_splits)
    then show ?thesis by (intro exI[of _ 0]) simp
  next
    case False
    have "\<exists>n v. w_ticks v = w_ticks w + n \<and> k \<notin> set (fst (idle_keys env servers timeout ks v))"
    proof (cases "servers a")
      case None
      with Cons.prems show ?thesis by (intro exI[of _ 0] exI[of _ w]) simp
    next
      case (Some q)
      with Cons.prems show ?thesis
        by (intro exI[of _ 1] exI[of _ ?w1]) (auto simp: read_clock_def split: prod.splits if_splits)
    qed
    then obtain n v where v: "w_ticks v = w_ticks w + n" "k \<notin> set (fst (idle_keys env servers timeout ks v))"
      by blast
    from Cons.IH[OF _ Cons.prems(2) v(2)] Cons.prems(1) False v(1) show ?thesis
      by (auto simp: add.assoc)
  qed
qed simp

lemma shutdown_keys_servers:
  "shutdown_keys env d ks w = Returns (d', w') \<Longrightarrow>
     d' = d\<lparr>d_servers := (\<lambda>k. if k \<in> set ks then None else d_servers d k)\<rparr>"
proof (induction ks arbitrary: d w)
  case (Cons a ks)
  show ?case
  proof (cases "d_servers d a")
    case None
    with Cons.IH[of d w] Cons.prems show ?thesis by (auto simp: fun_eq_iff)
  next
    case (Some p)
    then obtain e c w1 where
      "shutdown_keys env (d\<lparr>d_servers := (d_servers d)(a := None)\<rparr>) ks (forget [c] w1) = Returns (d', w')"
      using Cons.prems by (auto simp: outcome_bind_Returns)
    from Cons.IH[OF this] show ?thesis by (auto simp: fun_eq_iff)
  qed
qed (simp add: fun_eq_iff)

definition fair_order :: "daemon_env \<Rightarrow> bool" where
  "fair_order env \<longleftrightarrow> (\<forall>K. finite K \<longrightarrow> set (de_iter env K) = K \<and> distinct (de_iter env K))"

text \<open>
  Eviction removes exactly the idle servers and touches nothing else of the daemon: a server
  that stays is the one it was and was idle for at most the timeout when the clock was read for it;
  one that is gone had been idle for longer.
\<close>

theorem eviction_exact:
  assumes "evict_idle_servers env d w = Returns (d', w')" "fair_order env" "finite (dom (d_servers d))"
  shows "(\<forall>k. d_servers d' k = None \<or> d_servers d' k = d_servers d k) \<and>
    (\<forall>k p. d_servers d' k = Some p \<longrightarrow>
       (\<exists>n. le_clock env (w_ticks w + n) - ps_last_used p \<le> d_idle_timeout d)) \<and>
    (\<forall>k p. d_servers d k = Some p \<and> d_servers d' k = None \<longrightarrow>
       (\<exists>n. d_idle_timeout d < le_clock env (w_ticks w + n) - ps_last_used p))"
proof -
  let ?ks = "de_iter env (dom (d_servers d))"
  let ?idle = "fst (idle_keys env (d_servers d) (d_idle_timeout d) ?ks w)"
  have ks: "set ?ks = dom (d_servers d)" using assms(2,3) by (simp add: fair_order_def)
  obtain w1 where "shutdown_keys env d ?idle w1 = Returns (d', w')"
    using assms(1) by (auto simp: evict_idle_servers_def split: prod.splits)
  then have d': "d_servers d' = (\<lambda>k. if k \<in> set ?idle then None else d_servers d k)"
    by (auto dest: shutdown_keys_servers)
  have stay: "\<exists>n. le_clock env (w_ticks w + n) - ps_last_used p \<le> d_idle_timeout d"
    if "d_servers d' k = Some p" for k p
  proof -
    from that have "k \<notin> set ?idle" "d_servers d k = Some p" by (auto simp: d' split: if_splits)
    with idle_keys_kept[of k ?ks "d_servers d" p] ks show ?thesis by blast
  qed
  have go: "\<exists>n. d_idle_timeout d < le_clock env (w_ticks w + n) - ps_last_used p"
    if "d_servers d k = Some p" "d_servers d' k = None" for k p
  proof -
    from that have "k \<in> set ?idle" by (auto simp: d' split: if_splits)
    from idle_keys_idle[OF this] that(1) show ?thesis by auto
  qed
  show ?thesis using stay go by (auto simp: d')
qed

text \<open>The keys in the order of the paths and the language names.\<close>

definition sorted_keys :: "server_key set \<Rightarrow> server_key list" where
  "sorted_keys K =
     map (\<lambda>(p, n). (p, the (from_name n))) (sorted_list_of_set ((\<lambda>(p, l). (p, language_name l)) ` K))"

lemma sorted_keys_fair: "finite K \<Longrightarrow> set (sorted_keys K) = K \<and> distinct (sorted_keys K)"
proof -
  assume "finite K"
  let ?f = "\<lambda>(p, l). (p, language_name l)" and ?g = "\<lambda>(p, n). (p, the (from_name n))"
  have gf: "?g (?f k) = k" for k by (cases k) simp
  have set: "set (sorted_keys K) = ?g ` ?f ` K" using \<open>finite K\<close> by (simp add: sorted_keys_def)
  have "inj_on ?g (?f ` K)" by (rule inj_on_inverseI[of _ ?f]) (auto simp: gf)
  then have "distinct (sorted_keys K)"
    using \<open>finite K\<close> by (simp add: sorted_keys_def distinct_map)
  with set show ?thesis by (simp add: image_image gf)
qed

text \<open>A daemon with one idle server, whose process has exited.\<close>

definition dead_child :: child where
  "dead_child = \<lparr>ch_status = (\<lambda>_. Exited ''0''), ch_polls = 0, ch_kill_error = None, ch_wait_error = None,
     ch_killed = False\<rparr>"

definition idle_env :: daemon_env where
  "idle_env = demo_daemon_env\<lparr>de_iter := sorted_keys, le_clock := (\<lambda>k. 100 * k),
     se_spawn := (\<lambda>_ _. Inr \<lparr>sp_stdin = None, sp_stdout = None, sp_child = dead_child\<rparr>)\<rparr>"

definition idle_server :: pooled_server where
  "idle_server =
     \<lparr>ps_server = \<lparr>srv_transport = transport_new \<lparr>wr_bytes = [], wr_room = Some 0\<rparr> \<lparr>rd_bytes = [], rd_open = False\<rparr>,
        srv_process = dead_child,
        srv_capabilities = \<lparr>sv_definition = None, sv_references = None, sv_hover = None, sv_document_symbol = None\<rparr>,
        srv_root_uri = [], srv_opened_docs = {}\<rparr>,
      ps_last_used = 0, ps_started = 0\<rparr>"

definition idle_daemon :: daemon where
  "idle_daemon = (demo_daemon ''t'')\<lparr>d_servers := [([RootDir], Rust) \<mapsto> idle_server]\<rparr>"

definition idle_world :: daemon_world where
  "idle_world = demo_daemon_world\<lparr>w_ticks := 1\<rparr>"

lemma idle_shutdown:
  "\<exists>e c w'. shutdown_server idle_env (ps_server idle_server) w = Returns (e, c, w')"
  for w :: daemon_world
proof -
  have loop: "wait_exit_loop idle_env n m dead_child v = Some (None, dead_child\<lparr>ch_polls := 1\<rparr>, v)"
    for n m and v :: daemon_world
    by (subst wait_exit_loop.simps) (simp add: try_wait_def dead_child_def)
  show ?thesis
    by (simp add: shutdown_server_def send_request_def next_request_id_def write_lsp_def write_all_def
        idle_server_def transport_new_def header_line_def send_notification_def wait_for_exit_def
        read_clock_def loop split: prod.split)
qed

lemma idle_eviction:
  "\<exists>d' w'. evict_idle_servers idle_env idle_daemon idle_world = Returns (d', w') \<and>
     d_servers d' = (d_servers idle_daemon)(([RootDir], Rust) := None)"
proof -
  let ?k = "([RootDir], Rust) :: server_key"
  have dom: "dom (d_servers idle_daemon) = {?k}" by (simp add: idle_daemon_def)
  have "the (from_name ''rust'') = Rust" using from_name_language_name[of Rust] by simp
  then have iter: "de_iter idle_env {?k} = [?k]" by (simp add: idle_env_def sorted_keys_def)
  obtain e c w1 where stop: "shutdown_server idle_env (ps_server idle_server) (idle_world\<lparr>w_ticks := 2\<rparr>) = Returns (e, c, w1)"
    using idle_shutdown by blast
  have keys: "idle_keys idle_env (d_servers idle_daemon) (d_idle_timeout idle_daemon) [?k] idle_world
      = ([?k], idle_world\<lparr>w_ticks := 2\<rparr>)"
    by (simp add: read_clock_def idle_env_def idle_daemon_def demo_daemon_def idle_world_def idle_server_def
        numeral_2_eq_2)
  have "evict_idle_servers idle_env idle_daemon idle_world =
      Returns (idle_daemon\<lparr>d_servers := (d_servers idle_daemon)(?k := None)\<rparr>, forget [c] w1)"
    unfolding evict_idle_servers_def dom iter keys prod.case using stop
    by (simp add: idle_daemon_def)
  then show ?thesis by simp
qed

theorem eviction_exact_witness:
  "\<exists>d' w'. evict_idle_servers idle_env idle_daemon idle_world = Returns (d', w') \<and>
     d_servers d' ([RootDir], Rust) = None \<and>
     (\<exists>n. d_idle_timeout idle_daemon < le_clock idle_env (w_ticks idle_world + n) - ps_last_used idle_server)"
proof -
  have dom: "dom (d_servers idle_daemon) = {([RootDir], Rust)}" by (simp add: idle_daemon_def)
  obtain d' w' where run: "evict_idle_servers idle_env idle_daemon idle_world = Returns (d', w')"
      "d_servers d' = (d_servers idle_daemon)(([RootDir], Rust) := None)"
    using idle_eviction by blast
  have "fair_order idle_env" by (simp add: fair_order_def idle_env_def sorted_keys_fair)
  from eviction_exact[OF run(1) this] dom run(2)
  have "\<exists>n. d_idle_timeout idle_daemon < le_clock idle_env (w_ticks idle_world + n) - ps_last_used idle_server"
    by (simp add: idle_daemon_def)
  with run show ?thesis by simp
qed

section \<open>Reachable states\<close>

text \<open>One turn of the loop that neither a signal nor a shutdown request ends, and the states the
  daemon gets to. The second result of \<open>turn_connection\<close> says that the client asked it to stop.\<close>

inductive daemon_turn ::
  "daemon_env \<Rightarrow> daemon \<times> daemon_world \<Rightarrow> accept_event \<Rightarrow> bool \<Rightarrow> daemon \<times> daemon_world \<Rightarrow> bool"
  for env where
  turn_quiet: "evict_idle_servers env d w = Returns (d1, w1) \<Longrightarrow>
     daemon_turn env (d, w) NoConnection False (d1, w1)"
| turn_failed: "evict_idle_servers env d w = Returns (d1, w1) \<Longrightarrow>
     daemon_turn env (d, w) (AcceptFailed e) False (d1, w1)"
| turn_connection: "evict_idle_servers env d w = Returns (d1, w1) \<Longrightarrow>
     handle_connection env d1 cn w1 = Returns (stop, d2, cn', w2) \<Longrightarrow>
     daemon_turn env (d, w) (Accepted cn) stop (d2, w2)"

inductive daemon_reach :: "daemon_env \<Rightarrow> daemon \<times> daemon_world \<Rightarrow> daemon \<times> daemon_world \<Rightarrow> bool"
  for env s where
  reach_start: "daemon_reach env s s"
| reach_turn: "daemon_reach env s t \<Longrightarrow> daemon_turn env t ev stop u \<Longrightarrow> daemon_reach env s u"

inductive_cases daemon_turnE: "daemon_turn env s ev stop u"

lemma daemon_reach_trans:
  "daemon_reach env t u \<Longrightarrow> daemon_reach env s t \<Longrightarrow> daemon_reach env s u"
  by (induction rule: daemon_reach.induct) (auto intro: reach_turn)

lemma accept_loop_reach:
  "accept_loop env d evs w = Returns (b, d', w') \<Longrightarrow> daemon_reach env (d, w) (d', w')"
proof (induction evs arbitrary: d w)
  case (Cons e evs)
  obtain signalled ev where e: "e = (signalled, ev)" by force
  show ?case
  proof (cases signalled)
    case True
    with Cons.prems e show ?thesis by (auto intro: reach_start)
  next
    case False
    with Cons.prems e obtain d1 w1 where evict: "evict_idle_servers env d w = Returns (d1, w1)"
      by (auto simp: outcome_bind_Returns)
    from evict False Cons.prems e consider
        (quiet) "ev = NoConnection \<or> (\<exists>x. ev = AcceptFailed x)" "accept_loop env d1 evs w1 = Returns (b, d', w')"
      | (conn) cn stop d2 cn' w2 where "ev = Accepted cn" "handle_connection env d1 cn w1 = Returns (stop, d2, cn', w2)"
          "(if stop then Returns (True, d2, w2) else accept_loop env d2 evs w2) = Returns (b, d', w')"
      by (cases ev) (auto simp: outcome_bind_Returns)
    then show ?thesis
    proof cases
      case quiet
      have "daemon_reach env (d, w) (d1, w1)"
        using quiet(1) evict by (auto intro: reach_turn[OF reach_start] turn_quiet turn_failed)
      with Cons.IH[OF quiet(2)] show ?thesis by (rule daemon_reach_trans)
    next
      case conn
      have one: "daemon_reach env (d, w) (d2, w2)"
        using turn_connection[OF evict conn(2)] by (rule reach_turn[OF reach_start])
      show ?thesis
      proof (cases stop)
        case True
        with conn(3) one show ?thesis by simp
      next
        case False
        with conn(3) have "accept_loop env d2 evs w2 = Returns (b, d', w')" by simp
        from daemon_reach_trans[OF Cons.IH[OF this] one] show ?thesis .
      qed
    qed
  qed
qed (auto intro: reach_start)

text \<open>What no operation of the daemon changes, and that its pool stays finite.\<close>

definition keeps :: "daemon \<Rightarrow> daemon \<Rightarrow> bool" where
  "keeps d d' \<longleftrightarrow> d_token d' = d_token d \<and> d_registry d' = d_registry d \<and>
     d_project_root d' = d_project_root d \<and> d_idle_timeout d' = d_idle_timeout d \<and>
     d_start_time d' = d_start_time d \<and> (finite (dom (d_servers d)) \<longrightarrow> finite (dom (d_servers d')))"

lemma keeps_refl [simp, intro]: "keeps d d"
  by (simp add: keeps_def)

lemma keeps_trans: "keeps d d1 \<Longrightarrow> keeps d1 d2 \<Longrightarrow> keeps d d2"
  by (auto simp: keeps_def)

lemma keeps_servers: "(finite (dom (d_servers d)) \<longrightarrow> finite (dom m)) \<Longrightarrow> keeps d (d\<lparr>d_servers := m\<rparr>)"
  by (simp add: keeps_def)

lemma finite_dom_upd: "finite (dom m) \<Longrightarrow> finite (dom (m(k := v)))"
  by (rule finite_subset[of _ "insert k (dom m)"]) (auto split: if_splits)

lemma keeps_upd: "keeps d (d\<lparr>d_servers := (d_servers d)(k := v)\<rparr>)"
  by (rule keeps_servers) (auto intro: finite_dom_upd)

lemma probe_server_keeps: "probe_server env d key w = (st, d1, w1) \<Longrightarrow> keeps d d1"
  by (auto simp: probe_server_def intro: keeps_upd split: option.splits prod.splits bool.splits)

lemma remove_dead_keeps: "remove_dead d key w = (d1, w1) \<Longrightarrow> keeps d d1"
  by (auto simp: remove_dead_def intro: keeps_upd split: option.splits)

lemma start_pooled_keeps:
  assumes "start_pooled env d key w = Returns (e, d1, w1)"
  shows "keeps d d1"
proof (cases "config_for (d_registry d) (snd key)")
  case None
  with assms show ?thesis by (simp add: start_pooled_def)
next
  case (Some config)
  with assms obtain res w2 where s: "start_server env config (fst key) w = Returns (res, w2)"
    by (auto simp: start_pooled_def outcome_bind_Returns)
  show ?thesis
  proof (cases res)
    case (Inl x)
    with assms Some s show ?thesis by (cases x) (simp add: start_pooled_def)
  next
    case (Inr srv)
    with assms Some s show ?thesis by (auto simp: start_pooled_def case_prod_beta intro: keeps_upd)
  qed
qed

lemma get_or_start_keeps:
  assumes "get_or_start_server env d project lang w = Returns (e, d1, w1)"
  shows "keeps d d1"
proof -
  obtain st dp wp where p: "probe_server env d (project, lang) w = (st, dp, wp)" by (cases rule: prod_cases3)
  have k: "keeps d dp" using probe_server_keeps[OF p] .
  show ?thesis
  proof (cases st)
    case Ready
    with assms p k show ?thesis by (simp add: get_or_start_server_def)
  next
    case Dead
    obtain dr wr where r: "remove_dead dp (project, lang) wp = (dr, wr)" by force
    with assms p Dead have "start_pooled env dr (project, lang) wr = Returns (e, d1, w1)"
      by (simp add: get_or_start_server_def)
    from start_pooled_keeps[OF this] remove_dead_keeps[OF r] k show ?thesis by (blast intro: keeps_trans)
  next
    case Missing
    with assms p have "start_pooled env dp (project, lang) wp = Returns (e, d1, w1)"
      by (simp add: get_or_start_server_def)
    from start_pooled_keeps[OF this] k show ?thesis by (blast intro: keeps_trans)
  qed
qed

lemma put_server_keeps: "keeps d (put_server d key s)"
  unfolding put_server_def by (rule keeps_upd)

lemma handle_query_keeps:
  assumes "handle_query env d project language operation file line column w = Returns (r, d', w')"
  shows "keeps d d'"
proof (cases "from_name language")
  case None
  with assms show ?thesis by (simp add: handle_query_def)
next
  case (Some lang)
  with assms obtain err d1 w1 where g: "get_or_start_server env d project lang w = Returns (err, d1, w1)"
    by (auto simp: handle_query_def query_server_def outcome_bind_Returns)
  have "d' = d1 \<or> (\<exists>s. d' = put_server d1 (project, lang) s)"
    using assms g Some
    by (auto simp: handle_query_def query_server_def outcome_bind_Returns Let_def split: option.splits prod.splits)
  with get_or_start_keeps[OF g] put_server_keeps[of d1] show ?thesis by (auto intro: keeps_trans)
qed

lemma handle_request_keeps: "handle_request env d q w = Returns (r, d', w') \<Longrightarrow> keeps d d'"
  by (cases q) (auto simp: handle_request_def outcome_bind_Returns dest: handle_query_keeps split: prod.splits)

lemma handle_connection_keeps:
  assumes "handle_connection env d cn w = Returns (stop, d', cn', w')"
  shows "keeps d d'"
proof -
  obtain auth cn1 where a: "recv_request env cn = Returns (auth, cn1)"
    using assms by (auto simp: handle_connection_def outcome_bind_Returns)
  consider (bad) "\<nexists>t. auth = Inr (AuthenticateReq t)" | (auth) t where "auth = Inr (AuthenticateReq t)"
    by blast
  then show ?thesis
  proof cases
    case bad
    with assms a show ?thesis
      by (auto simp: handle_connection_def split: sum.splits daemon_request.splits)
  next
    case (auth t)
    show ?thesis
    proof (cases "t = d_token d")
      case False
      with assms a auth show ?thesis by (simp add: handle_connection_def)
    next
      case True
      with assms a auth obtain request cn3 where r: "recv_request env (reply env cn1 AuthOk) = Returns (request, cn3)"
        by (auto simp: handle_connection_def outcome_bind_Returns Let_def)
      show ?thesis
      proof (cases request)
        case (Inl e)
        with assms a auth True r show ?thesis by (simp add: handle_connection_def)
      next
        case (Inr q)
        with assms a auth True r obtain x w1 where "handle_request env d q w = Returns (x, d', w1)"
          by (auto simp: handle_connection_def outcome_bind_Returns case_prod_beta)
        then show ?thesis by (rule handle_request_keeps)
      qed
    qed
  qed
qed

lemma shutdown_keys_keeps: "shutdown_keys env d ks w = Returns (d', w') \<Longrightarrow> keeps d d'"
  by (drule shutdown_keys_servers)
    (auto intro!: keeps_servers intro: finite_subset[of _ "dom (d_servers d)"] split: if_splits)

lemma evict_keeps: "evict_idle_servers env d w = Returns (d', w') \<Longrightarrow> keeps d d'"
  by (auto simp: evict_idle_servers_def dest: shutdown_keys_keeps split: prod.splits)

lemma daemon_turn_keeps: "daemon_turn env s ev stop u \<Longrightarrow> keeps (fst s) (fst u)"
  by (erule daemon_turnE) (auto dest!: evict_keeps handle_connection_keeps intro: keeps_trans)

section \<open>No process is lost\<close>

text \<open>What becomes of the server processes between two states: those out of the pool are stopped, or come
  from a start that failed, and none is forgotten.\<close>

definition failed_start :: "daemon_env \<Rightarrow> child \<Rightarrow> bool" where
  "failed_start env c \<longleftrightarrow>
     (\<exists>config root e w w'. start_server env config root (w :: daemon_world) = Returns (Inl (e, Some c), w'))"

definition accounted :: "daemon_env \<Rightarrow> daemon \<times> daemon_world \<Rightarrow> daemon \<times> daemon_world \<Rightarrow> bool" where
  "accounted env s t \<longleftrightarrow>
     finite (dom (d_servers (fst t))) \<and>
     (\<exists>left. w_left (snd t) = w_left (snd s) @ left \<and> (\<forall>c \<in> set left. stopped c \<or> failed_start env c) \<and>
       (spawns_succeed env \<longrightarrow>
          card (dom (d_servers (fst t))) + length left + w_spawns (snd s) =
          card (dom (d_servers (fst s))) + w_spawns (snd t)))"

lemma accounted_refl: "finite (dom (d_servers (fst s))) \<Longrightarrow> accounted env s s"
  by (simp add: accounted_def)

lemma accounted_trans:
  assumes "accounted env s t" "accounted env t u"
  shows "accounted env s u"
proof -
  from assms obtain l1 l2 where l: "w_left (snd t) = w_left (snd s) @ l1" "w_left (snd u) = w_left (snd t) @ l2"
    "\<forall>c \<in> set l1. stopped c \<or> failed_start env c" "\<forall>c \<in> set l2. stopped c \<or> failed_start env c"
    "spawns_succeed env \<Longrightarrow> card (dom (d_servers (fst t))) + length l1 + w_spawns (snd s) =
       card (dom (d_servers (fst s))) + w_spawns (snd t)"
    "spawns_succeed env \<Longrightarrow> card (dom (d_servers (fst u))) + length l2 + w_spawns (snd t) =
       card (dom (d_servers (fst t))) + w_spawns (snd u)"
    unfolding accounted_def by blast
  then show ?thesis using assms(2) unfolding accounted_def by (intro conjI exI[of _ "l1 @ l2"]) auto
qed

lemma accounted_same:
  assumes "finite (dom (d_servers d))" "dom (d_servers d') = dom (d_servers d)"
    "w_left w' = w_left w" "w_spawns w' = w_spawns w"
  shows "accounted env (d, w) (d', w')"
  using assms by (simp add: accounted_def)

lemma same_world:
  "world.more w' = world.more w \<Longrightarrow> w_left w' = w_left w \<and> w_spawns w' = w_spawns w" for w :: daemon_world
  by (cases w; cases w') simp

lemma accounted_removed:
  assumes "finite (dom (d_servers d))" "d_servers d k = Some p" "stopped c" "w_left w' = w_left w" "w_spawns w' = w_spawns w"
  shows "accounted env (d, w) (d\<lparr>d_servers := (d_servers d)(k := None)\<rparr>, forget [c] w')"
proof -
  have "k \<in> dom (d_servers d)" using assms(2) by blast
  from card_Suc_Diff1[OF assms(1) this] assms(1,3-5) show ?thesis
    unfolding accounted_def forget_def by (intro conjI exI[of _ "[c]"]) (simp_all del: card_Diff_insert)
qed

lemma probe_accounted:
  assumes "probe_server env d key w = (st, d1, w1)" "finite (dom (d_servers d))"
  shows "accounted env (d, w) (d1, w1) \<and> (st = Missing \<longleftrightarrow> d_servers d1 key = None)"
proof (cases "d_servers d key")
  case None
  with assms show ?thesis by (simp add: probe_server_def accounted_refl)
next
  case (Some p)
  with assms(1) obtain s q where "d1 = d\<lparr>d_servers := (d_servers d)(key \<mapsto> q)\<rparr>" "st \<noteq> Missing"
    "w_left w1 = w_left w" "w_spawns w1 = w_spawns w"
    by (auto simp: probe_server_def read_clock_def split: prod.split_asm bool.split_asm)
  moreover from this Some have "dom (d_servers d1) = dom (d_servers d)" by (auto split: if_splits)
  ultimately show ?thesis using accounted_same[OF assms(2), of d1 w1 w env] Some by auto
qed

lemma remove_dead_accounted:
  assumes "remove_dead d key w = (d1, w1)" "finite (dom (d_servers d))"
  shows "accounted env (d, w) (d1, w1) \<and> d_servers d1 key = None"
proof (cases "d_servers d key")
  case None
  with assms show ?thesis by (simp add: remove_dead_def accounted_refl)
next
  case (Some p)
  with assms(1) accounted_removed[OF assms(2) Some drop_server_stopped[of "srv_process (ps_server p)"] refl refl, of env w]
  show ?thesis by (auto simp: remove_dead_def)
qed

lemma start_pooled_accounted:
  assumes "start_pooled env d key w = Returns (e, d1, w1)" "finite (dom (d_servers d))" "d_servers d key = None"
  shows "accounted env (d, w) (d1, w1)"
proof (cases "config_for (d_registry d) (snd key)")
  case None
  with assms show ?thesis by (simp add: start_pooled_def accounted_refl)
next
  case (Some config)
  with assms obtain res w2 where s: "start_server env config (fst key) w = Returns (res, w2)"
    by (auto simp: start_pooled_def outcome_bind_Returns)
  from start_process[OF s[unfolded start_server_def]]
  have left: "w_left w2 = w_left w" by (cases w; cases w2) simp
  have spawns: "spawns_succeed env \<Longrightarrow> w_spawns w2 = w_spawns w +
       (case res of Inl (e, l) \<Rightarrow> (case l of None \<Rightarrow> 0 | Some c \<Rightarrow> 1) | Inr s \<Rightarrow> 1)"
    using start_process[OF s[unfolded start_server_def]] by blast
  show ?thesis
  proof (cases res)
    case (Inl x)
    obtain f l where x: "x = (f, l)" by force
    from assms Some s Inl x have "d1 = d" "w1 = forget (case l of None \<Rightarrow> [] | Some c \<Rightarrow> [c]) w2"
      by (auto simp: start_pooled_def)
    moreover have "failed_start env c" if "l = Some c" for c
      unfolding failed_start_def using s Inl x that by blast
    ultimately show ?thesis using left spawns assms(2) Inl x
      by (cases l) (auto simp: accounted_def forget_def)
  next
    case (Inr srv)
    from assms Some s Inr obtain p where "d1 = d\<lparr>d_servers := (d_servers d)(key \<mapsto> p)\<rparr>" "w1 = w2\<lparr>w_ticks := Suc (w_ticks w2)\<rparr>"
      by (auto simp: start_pooled_def read_clock_def)
    moreover have "card (insert key (dom (d_servers d))) = Suc (card (dom (d_servers d)))"
      using assms(2,3) by (auto intro: card_insert_disjoint)
    ultimately show ?thesis using left spawns assms(2) Inr by (simp add: accounted_def)
  qed
qed

lemma get_or_start_accounted:
  assumes "get_or_start_server env d project lang w = Returns (e, d1, w1)" "finite (dom (d_servers d))"
  shows "accounted env (d, w) (d1, w1)"
proof -
  obtain st dp wp where p: "probe_server env d (project, lang) w = (st, dp, wp)" by (cases rule: prod_cases3)
  note probed = probe_accounted[OF p assms(2)]
  then have fin: "finite (dom (d_servers dp))" by (simp add: accounted_def)
  show ?thesis
  proof (cases st)
    case Ready
    with assms p probed show ?thesis by (simp add: get_or_start_server_def)
  next
    case Dead
    obtain dr wr where r: "remove_dead dp (project, lang) wp = (dr, wr)" by force
    note removed = remove_dead_accounted[OF r fin, of env]
    from assms p Dead r have "start_pooled env dr (project, lang) wr = Returns (e, d1, w1)"
      by (simp add: get_or_start_server_def)
    from start_pooled_accounted[OF this] removed have "accounted env (dr, wr) (d1, w1)" by (simp add: accounted_def)
    with probed removed show ?thesis by (blast intro: accounted_trans)
  next
    case Missing
    with assms p have "start_pooled env dp (project, lang) wp = Returns (e, d1, w1)"
      by (simp add: get_or_start_server_def)
    from start_pooled_accounted[OF this fin] probed Missing show ?thesis by (auto intro: accounted_trans)
  qed
qed

lemma accounted_put:
  assumes "finite (dom (d_servers d))" "w_left w' = w_left w" "w_spawns w' = w_spawns w"
  shows "accounted env (d, w) (put_server d key s, w')"
proof (rule accounted_same[OF assms(1) _ assms(2,3)])
  show "dom (d_servers (put_server d key s)) = dom (d_servers d)" by (auto simp: put_server_def split: if_splits)
qed

lemma run_operation_world:
  "run_operation env s operation file line column w = Returns (r, s', w') \<Longrightarrow> w_left w' = w_left w \<and> w_spawns w' = w_spawns w"
  unfolding run_operation_def
  by (auto simp: outcome_bind_Returns dest!: queries_rest hover_rest same_world split: if_split_asm)

lemma handle_query_accounted:
  assumes "handle_query env d project language operation file line column w = Returns (r, d', w')" "finite (dom (d_servers d))"
  shows "accounted env (d, w) (d', w')"
proof (cases "from_name language")
  case None
  with assms show ?thesis by (simp add: handle_query_def accounted_refl)
next
  case (Some lang)
  with assms obtain err d1 w1 where g: "get_or_start_server env d project lang w = Returns (err, d1, w1)"
    by (auto simp: handle_query_def query_server_def outcome_bind_Returns)
  note started = get_or_start_accounted[OF g assms(2)]
  then have fin: "finite (dom (d_servers d1))" by (simp add: accounted_def)
  have "(d' = d1 \<or> (\<exists>s. d' = put_server d1 (project, lang) s)) \<and> w_left w' = w_left w1 \<and> w_spawns w' = w_spawns w1"
    using assms(1) g Some
    by (auto simp: handle_query_def query_server_def outcome_bind_Returns Let_def dest!: run_operation_world
        split: option.split_asm prod.split_asm)
  then have "accounted env (d1, w1) (d', w')"
    using accounted_put[OF fin] accounted_same[OF fin refl] by auto
  with started show ?thesis by (rule accounted_trans)
qed

lemma status_entries_world:
  "w_left (snd (status_entries env servers ks w)) = w_left w \<and> w_spawns (snd (status_entries env servers ks w)) = w_spawns w"
proof (induction ks arbitrary: w)
  case (Cons k ks)
  have "w_left (snd (status_entries env servers ks (w\<lparr>w_ticks := Suc (w_ticks w)\<rparr>))) = w_left w \<and>
      w_spawns (snd (status_entries env servers ks (w\<lparr>w_ticks := Suc (w_ticks w)\<rparr>))) = w_spawns w"
    using Cons[of "w\<lparr>w_ticks := Suc (w_ticks w)\<rparr>"] by simp
  with Cons[of w] show ?case by (auto simp: read_clock_def split: option.split prod.split)
qed simp

lemma handle_request_accounted:
  assumes "handle_request env d q w = Returns (r, d', w')" "finite (dom (d_servers d))"
  shows "accounted env (d, w) (d', w')"
proof (cases q)
  case StatusReq
  with assms status_entries_world[of env "d_servers d" "de_iter env (dom (d_servers d))" w] show ?thesis
    by (auto simp: handle_request_def handle_status_def read_clock_def intro!: accounted_same split: prod.split_asm)
next
  case QueryReq
  with assms show ?thesis by (auto simp: handle_request_def outcome_bind_Returns intro: handle_query_accounted)
qed (use assms in \<open>auto simp: handle_request_def accounted_refl\<close>)

lemma handle_connection_accounted:
  assumes "handle_connection env d cn w = Returns (stop, d', cn', w')" "finite (dom (d_servers d))"
  shows "accounted env (d, w) (d', w')"
proof -
  obtain auth cn1 where a: "recv_request env cn = Returns (auth, cn1)"
    using assms by (auto simp: handle_connection_def outcome_bind_Returns)
  consider (bad) "\<nexists>t. auth = Inr (AuthenticateReq t)" | (auth) t where "auth = Inr (AuthenticateReq t)"
    by blast
  then have "(d', w') = (d, w) \<or> (\<exists>q x. handle_request env d q w = Returns (x, d', w'))"
  proof cases
    case bad
    with assms(1) a show ?thesis
      by (auto simp: handle_connection_def split: sum.splits daemon_request.splits)
  next
    case (auth t)
    show ?thesis
    proof (cases "t = d_token d")
      case False
      with assms(1) a auth show ?thesis by (simp add: handle_connection_def)
    next
      case True
      with assms(1) a auth obtain request cn3 where r: "recv_request env (reply env cn1 AuthOk) = Returns (request, cn3)"
        by (auto simp: handle_connection_def outcome_bind_Returns Let_def)
      with assms(1) a auth True show ?thesis
        by (cases request) (auto simp: handle_connection_def outcome_bind_Returns case_prod_beta)
    qed
  qed
  then show ?thesis using assms(2) by (auto intro: accounted_refl handle_request_accounted)
qed

lemma shutdown_keys_accounted:
  "shutdown_keys env d ks w = Returns (d', w') \<Longrightarrow> finite (dom (d_servers d)) \<Longrightarrow> accounted env (d, w) (d', w')"
proof (induction ks arbitrary: d w)
  case (Cons k ks)
  show ?case
  proof (cases "d_servers d k")
    case None
    with Cons show ?thesis by simp
  next
    case (Some p)
    let ?d = "d\<lparr>d_servers := (d_servers d)(k := None)\<rparr>"
    from Some Cons.prems(1) obtain e c w1 where s: "shutdown_server env (ps_server p) w = Returns (e, c, w1)"
      and rest: "shutdown_keys env ?d ks (forget [c] w1) = Returns (d', w')"
      by (auto simp: outcome_bind_Returns)
    have "accounted env (d, w) (?d, forget [c] w1)"
      using accounted_removed[OF Cons.prems(2) Some shutdown_server_stopped[OF s]]
        same_world[OF shutdown_server_rest[OF s]] by blast
    moreover from this have "accounted env (?d, forget [c] w1) (d', w')"
      by (intro Cons.IH[OF rest]) (simp only: accounted_def fst_conv)
    ultimately show ?thesis by (rule accounted_trans)
  qed
qed (simp add: accounted_refl)

lemma idle_keys_world:
  "idle_keys env servers timeout ks w = (r, w') \<Longrightarrow> w_left w' = w_left w \<and> w_spawns w' = w_spawns w"
  by (induction ks arbitrary: w r) (auto simp: read_clock_def split: option.split_asm prod.split_asm if_split_asm)

lemma evict_accounted:
  assumes "evict_idle_servers env d w = Returns (d', w')" "finite (dom (d_servers d))"
  shows "accounted env (d, w) (d', w')"
proof -
  obtain ks w1 where i: "idle_keys env (d_servers d) (d_idle_timeout d) (de_iter env (dom (d_servers d))) w = (ks, w1)"
    and s: "shutdown_keys env d ks w1 = Returns (d', w')"
    using assms(1) by (auto simp: evict_idle_servers_def split: prod.splits)
  show ?thesis
    by (rule accounted_trans[OF accounted_same[OF assms(2) refl] shutdown_keys_accounted[OF s assms(2)]])
      (simp_all add: idle_keys_world[OF i])
qed

lemma daemon_turn_accounted:
  assumes "daemon_turn env s ev stop u" "finite (dom (d_servers (fst s)))"
  shows "accounted env s u"
  using assms
proof (cases rule: daemon_turn.cases)
  case (turn_connection d w d1 w1 cn d2 cn' w2)
  with assms(2) have e: "accounted env (d, w) (d1, w1)" by (simp add: evict_accounted)
  then have "accounted env (d1, w1) (d2, w2)"
    using turn_connection by (intro handle_connection_accounted) (auto simp: accounted_def)
  with e turn_connection show ?thesis by (auto intro: accounted_trans)
qed (auto intro: evict_accounted)

text \<open>
  C14: the daemon loses no language server process, whatever clients connect and whatever they send: in
  every state that its accept loop reaches, each process that is no longer in the pool has been stopped
  (or its start had failed), and, when spawning succeeds, the processes in the pool and those left
  behind are exactly the ones there were and the ones that were spawned since. The pool stays finite.
\<close>

theorem daemon_processes_accounted:
  assumes "daemon_reach env s t" "finite (dom (d_servers (fst s)))"
  shows "accounted env s t"
  using assms
proof (induction rule: daemon_reach.induct)
  case reach_start
  then show ?case by (rule accounted_refl)
next
  case (reach_turn t ev stop u)
  then have "accounted env s t" by simp
  moreover from this have "finite (dom (d_servers (fst t)))" unfolding accounted_def by blast
  ultimately show ?case using daemon_turn_accounted[OF reach_turn.hyps(2)] accounted_trans by blast
qed

theorem daemon_processes_accounted_witness:
  "\<exists>t left. daemon_reach idle_env (idle_daemon, idle_world) t \<and> d_servers (fst t) = Map.empty \<and>
     w_left (snd t) = left \<and> length left = Suc (w_spawns (snd t)) \<and> (\<forall>c \<in> set left. stopped c \<or> failed_start idle_env c)"
proof -
  obtain d' w' where
    e: "evict_idle_servers idle_env idle_daemon idle_world = Returns (d', w')"
      "d_servers d' = (d_servers idle_daemon)(([RootDir], Rust) := None)"
    using idle_eviction by blast
  have r: "daemon_reach idle_env (idle_daemon, idle_world) (d', w')"
    by (rule reach_turn[OF reach_start turn_quiet[OF e(1)]])
  have fin: "finite (dom (d_servers (fst (idle_daemon, idle_world))))" by (simp add: idle_daemon_def)
  have empty: "d_servers d' = Map.empty" using e(2) by (simp add: idle_daemon_def fun_eq_iff)
  have one: "dom (d_servers idle_daemon) = {([RootDir], Rust)}" by (simp add: idle_daemon_def)
  have "spawns_succeed idle_env" by (simp add: spawns_succeed_def idle_env_def)
  with daemon_processes_accounted[OF r fin] empty one r show ?thesis
    by (intro exI[of _ "(d', w')"]) (auto simp: accounted_def idle_world_def demo_daemon_world_def)
qed

section \<open>The run cleans up\<close>

lemma disk_remove_gone:
  "remove_fault d p = None \<Longrightarrow> disk_files (snd (disk_remove d p)) p = None"
  by (simp add: disk_remove_def split: option.split)

lemma disk_remove_faults [simp]: "remove_fault (snd (disk_remove d p)) = remove_fault d"
  by (simp add: disk_remove_def split: option.split)

lemma remove_daemon_file_faults [simp]: "remove_fault (remove_daemon_file fe d root) = remove_fault d"
  by (simp add: remove_daemon_file_def split: option.split)

lemma remove_daemon_file_gone:
  "remove_fault (remove_daemon_file fe d root) p = None \<Longrightarrow> daemon_file_path fe root = Some p \<Longrightarrow>
     disk_files (remove_daemon_file fe d root) p = None"
  by (simp add: remove_daemon_file_def disk_remove_gone)

text \<open>
  C25: when the daemon's run ends by a signal or a shutdown request, every language server has been
  taken out of the pool and the info file of its project is gone, unless removing it fails.
\<close>

theorem run_cleans_up:
  assumes "daemon_run env (Inr port) secs None d evs w = Returns (Some None, d', w')"
    and "fair_order env" "finite (dom (d_servers d))"
    and "daemon_file_path (de_files env) (d_project_root d) = Some p" "remove_fault (w_disk w') p = None"
  shows "d_servers d' = Map.empty \<and> disk_files (w_disk w') p = None"
proof -
  obtain disk' where "write_daemon_info (de_files env) (w_disk w)
      \<lparr>di_port = port, di_token = d_token d, di_pid = se_pid env, di_project = d_project_root d,
       di_started = started_text secs\<rparr> = (None, disk')"
    using assms(1) by (auto simp: daemon_run_def Let_def split: prod.splits option.splits)
  with assms(1) obtain d1 w1 w2 where
    loop: "accept_loop env d evs (w\<lparr>w_disk := disk'\<rparr>) = Returns (True, d1, w1)"
    and down: "shutdown_all_servers env d1 w1 = Returns (d', w2)"
    and w': "w' = w2\<lparr>w_disk := remove_daemon_file (de_files env) (w_disk w2) (d_project_root d')\<rparr>"
    by (auto simp: daemon_run_def Let_def outcome_bind_Returns split: if_splits)
  have reach: "daemon_reach env (d, w\<lparr>w_disk := disk'\<rparr>) (d1, w1)" using accept_loop_reach[OF loop] .
  have "keeps (fst (d, w\<lparr>w_disk := disk'\<rparr>)) (fst (d1, w1))"
    using reach by (induction rule: daemon_reach.induct) (auto intro: keeps_trans daemon_turn_keeps)
  then have k: "keeps d d1" by simp
  then have fin: "finite (dom (d_servers d1))" using assms(3) by (simp add: keeps_def)
  then have order: "set (de_iter env (dom (d_servers d1))) = dom (d_servers d1)"
    using assms(2) by (simp add: fair_order_def)
  from down have "d' = d1\<lparr>d_servers := (\<lambda>k. if k \<in> dom (d_servers d1) then None else d_servers d1 k)\<rparr>"
    unfolding shutdown_all_servers_def by (drule_tac shutdown_keys_servers) (simp add: order)
  then have "d_servers d' = Map.empty" by (auto simp: fun_eq_iff domIff)
  moreover have "keeps d d'"
    using k shutdown_keys_keeps[of env d1 "de_iter env (dom (d_servers d1))" w1 d' w2] down
    by (auto simp: shutdown_all_servers_def intro: keeps_trans)
  then have "d_project_root d' = d_project_root d" by (simp add: keeps_def)
  ultimately show ?thesis
    using assms(4,5) remove_daemon_file_gone[of "de_files env" "w_disk w2" "d_project_root d" p] by (simp add: w')
qed

theorem run_cleans_up_witness:
  "\<exists>d' w' p. daemon_run idle_env (Inr 1) 0 None (demo_daemon ''t'') [(True, NoConnection)] idle_world
      = Returns (Some None, d', w') \<and> d_servers d' = Map.empty \<and> disk_files (w_disk w') p = None"
proof -
  have empty: "de_iter idle_env {} = []" by (simp add: idle_env_def sorted_keys_def)
  have fe: "de_files idle_env = de_files demo_daemon_env" by (simp add: idle_env_def)
  obtain p where path: "daemon_file_path (de_files idle_env) (d_project_root (demo_daemon ''t'')) = Some p"
    by (simp add: fe daemon_file_path_def fe_daemons_dir_def daemons_dir_def cache_dir_def demo_daemon_env_def)
  have "fst (write_daemon_info (de_files idle_env) (w_disk idle_world) i) = None
      \<and> remove_fault (snd (write_daemon_info (de_files idle_env) (w_disk idle_world) i)) q = None" for i q
    by (simp add: fe write_daemon_info_def fe_daemons_dir_def daemons_dir_def cache_dir_def demo_daemon_env_def
        idle_world_def demo_daemon_world_def demo_disk_def disk_write_def)
  then obtain disk' where written: "write_daemon_info (de_files idle_env) (w_disk idle_world)
      \<lparr>di_port = 1, di_token = d_token (demo_daemon ''t''), di_pid = se_pid idle_env,
       di_project = d_project_root (demo_daemon ''t''), di_started = started_text 0\<rparr> = (None, disk')"
    and faults: "remove_fault disk' p = None"
    by (metis prod.collapse)
  have run: "daemon_run idle_env (Inr 1) 0 None (demo_daemon ''t'') [(True, NoConnection)] idle_world =
      Returns (Some None, demo_daemon ''t'', idle_world\<lparr>w_disk :=
        remove_daemon_file (de_files idle_env) disk' (d_project_root (demo_daemon ''t''))\<rparr>)"
    using written empty by (simp add: daemon_run_def shutdown_all_servers_def demo_daemon_def)
  have "fair_order idle_env" by (simp add: fair_order_def idle_env_def sorted_keys_fair)
  from run_cleans_up[OF run this _ path] faults show ?thesis
    using run by (auto simp: demo_daemon_def)
qed

text \<open>The month of the start time runs from 1 to 13.\<close>

lemma started_month_13: "started_text 31104000 = ''1970-13-01T00:00:00Z''"
  by (simp add: started_text_def pad2_def dec.simps digit_of_def char_of_def bit_iff_odd)

end
