(* ===== verification/Client.thy ===== *)
theory Client
  imports Daemon
begin

text \<open>
  The command line's side of the daemon (\<open>client.rs\<close>), the one-shot queries that start a language
  server of their own (\<open>oneshot.rs\<close>) and the cascade that picks between them and stack graphs
  (\<open>cascade.rs\<close>). Other processes change the disk between two looks of this one
  (\<open>ke_others\<close>), and a port may be open at one look and closed at the next (\<open>ke_reach\<close>,
  \<open>ke_dial\<close>). Child processes whose handle is gone are kept in \<open>kw_left\<close>.
\<close>

section \<open>The daemon client\<close>

record client_env = srv_env +
  ke_files :: file_env
  ke_others :: "nat \<Rightarrow> disk \<Rightarrow> disk"
  ke_reach :: "nat \<Rightarrow> nat \<Rightarrow> bool"
  ke_dial :: "nat \<Rightarrow> nat \<Rightarrow> string + connection"
  ke_spawn_cq :: "string \<Rightarrow> string list \<Rightarrow> bool"
  ke_read_source :: "path \<Rightarrow> io_error + string"
  ke_debug :: "daemon_response \<Rightarrow> string"

record client_world = srv_world +
  kw_disk :: disk
  kw_looks :: nat
  kw_left :: "child list"

definition look :: "client_env \<Rightarrow> client_world \<Rightarrow> client_world" where
  "look env w = w\<lparr>kw_disk := ke_others env (kw_looks w) (kw_disk w), kw_looks := Suc (kw_looks w)\<rparr>"

definition daemon_running :: "client_env \<Rightarrow> path \<Rightarrow> client_world \<Rightarrow> bool \<times> client_world" where
  "daemon_running env root w =
     (let w1 = look env w in
      (is_daemon_running ((ke_files env)\<lparr>fe_tcp_connect := ke_reach env (kw_looks w)\<rparr>) (kw_disk w1) root, w1))"

text \<open>A message of the client, and the answer it waits for.\<close>

definition send_message :: "client_env \<Rightarrow> connection \<Rightarrow> daemon_request \<Rightarrow> lsp_error option \<times> connection" where
  "send_message env cn q =
     (case write_message (le_codec env) (cn_out cn) (request_json q) of
        (e, out) \<Rightarrow> (e, cn\<lparr>cn_out := out\<rparr>))"

definition recv_response ::
  "client_env \<Rightarrow> connection \<Rightarrow> ((lsp_error + daemon_response) \<times> connection) outcome" where
  "recv_response env cn =
     outcome_bind (read_message (le_codec env) response_of_json (cn_in cn))
       (\<lambda>(res, r). Returns (res, cn\<lparr>cn_in := r\<rparr>))"

definition exchange ::
  "client_env \<Rightarrow> connection \<Rightarrow> daemon_request \<Rightarrow> ((lsp_error + daemon_response) \<times> connection) outcome" where
  "exchange env cn q =
     (case send_message env cn q of
        (Some e, cn1) \<Rightarrow> Returns (Inl e, cn1)
      | (None, cn1) \<Rightarrow> recv_response env cn1)"

definition auth_result :: "daemon_response \<Rightarrow> lsp_error option" where
  "auth_result response =
     (case response of
        AuthOk \<Rightarrow> None
      | ErrorResp msg \<Rightarrow> Some (ConnectionFailed (''daemon authentication failed: '' @ msg))
      | _ \<Rightarrow> Some (ConnectionFailed ''unexpected response during authentication''))"

definition connect ::
  "client_env \<Rightarrow> path \<Rightarrow> client_world \<Rightarrow> ((lsp_error + connection) \<times> client_world) outcome" where
  "connect env project_root w =
     (let w1 = look env w in
      case read_daemon_info (ke_files env) (kw_disk w1) project_root of
        None \<Rightarrow> Returns (Inl DaemonNotRunning, w1)
      | Some info \<Rightarrow>
          (case ke_dial env (kw_looks w) (di_port info) of
             Inl e \<Rightarrow>
               Returns (Inl (ConnectionFailed
                   (''failed to connect to daemon at 127.0.0.1:'' @ dec (di_port info) @ '': '' @ e)),
                 w1\<lparr>kw_disk := remove_daemon_file (ke_files env) (kw_disk w1) project_root\<rparr>)
           | Inr cn \<Rightarrow>
               outcome_bind (exchange env cn (AuthenticateReq (di_token info))) (\<lambda>(res, cn1).
                 Returns (case res of
                     Inl e \<Rightarrow> Inl e
                   | Inr response \<Rightarrow>
                       (case auth_result response of Some e \<Rightarrow> Inl e | None \<Rightarrow> Inr cn1), w1))))"

text \<open>The client's name of a language: its debug form in lower case.\<close>

definition language_to_daemon_string :: "language \<Rightarrow> string" where
  "language_to_daemon_string l = to_lowercase (language_debug l)"

definition response_locations :: "client_env \<Rightarrow> daemon_response \<Rightarrow> lsp_error + lsp_location list" where
  "response_locations env response =
     (case response of
        Locations locs \<Rightarrow> Inr locs
      | ErrorResp msg \<Rightarrow> Inl (ConnectionFailed (''daemon query error: '' @ msg))
      | other \<Rightarrow> Inl (ConnectionFailed (''unexpected daemon response: '' @ ke_debug env other)))"

definition send_and_receive_locations ::
  "client_env \<Rightarrow> connection \<Rightarrow> daemon_request \<Rightarrow> ((lsp_error + lsp_location list) \<times> connection) outcome" where
  "send_and_receive_locations env cn request =
     outcome_bind (exchange env cn request) (\<lambda>(res, cn1).
       Returns (case res of Inl e \<Rightarrow> Inl e | Inr response \<Rightarrow> response_locations env response, cn1))"

definition query_refs ::
  "client_env \<Rightarrow> connection \<Rightarrow> path \<Rightarrow> language \<Rightarrow> path \<Rightarrow> nat \<Rightarrow> nat
    \<Rightarrow> ((lsp_error + lsp_location list) \<times> connection) outcome" where
  "query_refs env cn project lang file line column =
     send_and_receive_locations env cn
       (QueryReq project (language_to_daemon_string lang) ''references'' file line column None)"

definition query_definition ::
  "client_env \<Rightarrow> connection \<Rightarrow> path \<Rightarrow> language \<Rightarrow> path \<Rightarrow> nat \<Rightarrow> nat
    \<Rightarrow> ((lsp_error + lsp_location list) \<times> connection) outcome" where
  "query_definition env cn project lang file line column =
     send_and_receive_locations env cn
       (QueryReq project (language_to_daemon_string lang) ''definition'' file line column None)"

definition client_status ::
  "client_env \<Rightarrow> connection \<Rightarrow> ((lsp_error + daemon_response) \<times> connection) outcome" where
  "client_status env cn = exchange env cn StatusReq"

definition client_shutdown :: "client_env \<Rightarrow> connection \<Rightarrow> (lsp_error option \<times> connection) outcome" where
  "client_shutdown env cn =
     outcome_bind (exchange env cn ShutdownReq) (\<lambda>(res, cn1).
       Returns (case res of
           Inl e \<Rightarrow> Some e
         | Inr (ErrorResp msg) \<Rightarrow> Some (ConnectionFailed msg)
         | Inr _ \<Rightarrow> None, cn1))"

section \<open>One-shot queries\<close>

definition DEFAULT_INDEX_WAIT :: nat where
  "DEFAULT_INDEX_WAIT = 30 * 10 ^ 9"

primrec lsp_language_id :: "language \<Rightarrow> string" where
  "lsp_language_id Rust = ''rust''"
| "lsp_language_id TypeScript = ''typescript''"
| "lsp_language_id JavaScript = ''javascript''"
| "lsp_language_id Python = ''python''"
| "lsp_language_id Go = ''go''"
| "lsp_language_id C = ''c''"
| "lsp_language_id Cpp = ''cpp''"
| "lsp_language_id Java = ''java''"
| "lsp_language_id Ruby = ''ruby''"
| "lsp_language_id Php = ''php''"
| "lsp_language_id CSharp = ''csharp''"
| "lsp_language_id Swift = ''swift''"
| "lsp_language_id Kotlin = ''kotlin''"
| "lsp_language_id Scala = ''scala''"
| "lsp_language_id Zig = ''zig''"
| "lsp_language_id Lua = ''lua''"
| "lsp_language_id Bash = ''shellscript''"
| "lsp_language_id Html = ''html''"
| "lsp_language_id Css = ''css''"
| "lsp_language_id Json = ''json''"
| "lsp_language_id Yaml = ''yaml''"
| "lsp_language_id Toml = ''toml''"

definition read_file_source :: "client_env \<Rightarrow> path \<Rightarrow> lsp_error + string" where
  "read_file_source env p = (case ke_read_source env p of Inl e \<Rightarrow> Inl (Io e) | Inr s \<Rightarrow> Inr s)"

text \<open>None is the panic of slicing the line at a column that is past its end or inside a
  character.\<close>

definition find_identifier_column :: "string \<Rightarrow> nat \<Rightarrow> nat \<Rightarrow> string \<Rightarrow> nat option" where
  "find_identifier_column source line original_column name =
     (case get_nth (str_lines source) (line - 1) of
        None \<Rightarrow> Some original_column
      | Some line_text \<Rightarrow>
          (case slice_from line_text original_column of
             None \<Rightarrow> None
           | Some rest \<Rightarrow>
               (case find_sub name rest of
                  None \<Rightarrow> Some original_column
                | Some off \<Rightarrow>
                    (let pos = original_column + off;
                         end_pos = pos + length name;
                         before_ok = (pos = 0 \<or> \<not> is_ascii_alphanumeric (line_text ! (pos - 1)));
                         after_ok = (length line_text \<le> end_pos \<or> \<not> is_ascii_alphanumeric (line_text ! end_pos))
                     in Some (if before_ok \<and> after_ok then pos else original_column)))))"

definition left_over :: "child list \<Rightarrow> client_world \<Rightarrow> client_world" where
  "left_over cs w = w\<lparr>kw_left := kw_left w @ cs\<rparr>"

text \<open>What the two one-shot queries share: a server of their own, started with the progress
  capability, the document opened in it, and the wait for its index. An early return drops the
  server, which kills it.\<close>

definition start_opened ::
  "client_env \<Rightarrow> path \<Rightarrow> language \<Rightarrow> path \<Rightarrow> nat \<Rightarrow> client_world
    \<Rightarrow> ((lsp_error + lsp_server \<times> path \<times> string) \<times> client_world) outcome" where
  "start_opened env project_root lang file index_wait w =
     (case config_for registry_new lang of
        None \<Rightarrow> Returns (Inl (ServerNotFound (''no LSP config for '' @ language_debug lang)), w)
      | Some config \<Rightarrow>
          outcome_bind (start_with_capabilities env config project_root with_progress w) (\<lambda>(res, w1).
            case res of
              Inl (e, leftover) \<Rightarrow>
                Returns (Inl e, left_over (case leftover of None \<Rightarrow> [] | Some c \<Rightarrow> [c]) w1)
            | Inr server \<Rightarrow>
                (let full_file = (if is_absolute file then file else path_join project_root file) in
                 case read_file_source env full_file of
                   Inl e \<Rightarrow> Returns (Inl e, left_over [drop_server (srv_process server)] w1)
                 | Inr source \<Rightarrow>
                     (case open_document env server full_file source (lsp_language_id lang) of
                        (Some e, s1) \<Rightarrow> Returns (Inl e, left_over [drop_server (srv_process s1)] w1)
                      | (None, s1) \<Rightarrow>
                          if index_wait = 0 then Returns (Inr (s1, full_file, source), w1)
                          else outcome_bind (wait_for_ready env s1 index_wait w1) (\<lambda>(s2, w2).
                            Returns (Inr (s2, full_file, source), w2))))))"

text \<open>The query's result is kept while the server is shut down, whose own result is ignored.\<close>

definition finish_query ::
  "client_env \<Rightarrow> (lsp_error + lsp_location list) \<times> lsp_server \<times> client_world
    \<Rightarrow> ((lsp_error + lsp_location list) \<times> client_world) outcome" where
  "finish_query env t =
     (case t of (res, s, w) \<Rightarrow>
        outcome_bind (shutdown_server env s w) (\<lambda>(_, c, w1). Returns (res, left_over [c] w1)))"

definition semantic_ref :: "path \<Rightarrow> nat \<Rightarrow> nat \<Rightarrow> string \<Rightarrow> path \<Rightarrow> nat \<Rightarrow> nat \<Rightarrow> resolved_reference" where
  "semantic_ref rfile rline rcolumn symbol dfile dline dcolumn =
     \<lparr>rr_file = rfile, rr_line = rline, rr_column = rcolumn, rr_symbol = symbol,
      rr_def_file = Some dfile, rr_def_line = Some dline, rr_def_column = Some dcolumn,
      rr_resolution = Semantic\<rparr>"

definition location_line :: "lsp_location \<Rightarrow> nat" where
  "location_line loc = unat (pos_line (range_start (loc_range loc))) + 1"

definition location_column :: "lsp_location \<Rightarrow> nat" where
  "location_column loc = unat (pos_character (range_start (loc_range loc)))"

definition oneshot_ref :: "path \<Rightarrow> string \<Rightarrow> path \<Rightarrow> nat \<Rightarrow> nat \<Rightarrow> lsp_location \<Rightarrow> resolved_reference" where
  "oneshot_ref project_root symbol symbol_file symbol_line symbol_column loc =
     (let abs_file = uri_to_path (loc_uri loc);
          rfile = (case strip_prefix_path abs_file project_root of None \<Rightarrow> abs_file | Some r \<Rightarrow> r)
      in semantic_ref rfile (location_line loc) (location_column loc) symbol symbol_file symbol_line symbol_column)"

definition semantic_refs_with_wait ::
  "client_env \<Rightarrow> path \<Rightarrow> language \<Rightarrow> string \<Rightarrow> path \<Rightarrow> nat \<Rightarrow> nat \<Rightarrow> nat \<Rightarrow> client_world
    \<Rightarrow> ((lsp_error + resolved_reference list) \<times> client_world) outcome" where
  "semantic_refs_with_wait env project_root lang symbol symbol_file symbol_line symbol_column index_wait w =
     outcome_bind (start_opened env project_root lang symbol_file index_wait w) (\<lambda>(res, w1).
       case res of
         Inl e \<Rightarrow> Returns (Inl e, w1)
       | Inr (server, full_file, source) \<Rightarrow>
           (case find_identifier_column source symbol_line symbol_column symbol of
              None \<Rightarrow> Panics
            | Some query_column \<Rightarrow>
                outcome_bind (find_references env server full_file symbol_line query_column True w1) (\<lambda>t.
                outcome_bind (finish_query env t) (\<lambda>(res2, w2).
                  Returns (case res2 of
                      Inl e \<Rightarrow> Inl e
                    | Inr locs \<Rightarrow>
                        Inr (map (oneshot_ref project_root symbol symbol_file symbol_line symbol_column) locs), w2)))))"

definition semantic_refs ::
  "client_env \<Rightarrow> path \<Rightarrow> language \<Rightarrow> string \<Rightarrow> path \<Rightarrow> nat \<Rightarrow> nat \<Rightarrow> client_world
    \<Rightarrow> ((lsp_error + resolved_reference list) \<times> client_world) outcome" where
  "semantic_refs env project_root lang symbol symbol_file symbol_line symbol_column w =
     semantic_refs_with_wait env project_root lang symbol symbol_file symbol_line symbol_column
       DEFAULT_INDEX_WAIT w"

definition definition_ref :: "path \<Rightarrow> nat \<Rightarrow> nat \<Rightarrow> lsp_location \<Rightarrow> resolved_reference" where
  "definition_ref file line column loc =
     semantic_ref file line column [] (uri_to_path (loc_uri loc)) (location_line loc) (location_column loc)"

definition semantic_definition_with_wait ::
  "client_env \<Rightarrow> path \<Rightarrow> language \<Rightarrow> path \<Rightarrow> nat \<Rightarrow> nat \<Rightarrow> nat \<Rightarrow> client_world
    \<Rightarrow> ((lsp_error + resolved_reference list) \<times> client_world) outcome" where
  "semantic_definition_with_wait env project_root lang file line column index_wait w =
     outcome_bind (start_opened env project_root lang file index_wait w) (\<lambda>(res, w1).
       case res of
         Inl e \<Rightarrow> Returns (Inl e, w1)
       | Inr (server, full_file, source) \<Rightarrow>
           outcome_bind (find_definition env server full_file line column w1) (\<lambda>t.
           outcome_bind (finish_query env t) (\<lambda>(res2, w2).
             Returns (case res2 of
                 Inl e \<Rightarrow> Inl e
               | Inr locs \<Rightarrow> Inr (map (definition_ref file line column) locs), w2))))"

definition semantic_definition ::
  "client_env \<Rightarrow> path \<Rightarrow> language \<Rightarrow> path \<Rightarrow> nat \<Rightarrow> nat \<Rightarrow> client_world
    \<Rightarrow> ((lsp_error + resolved_reference list) \<times> client_world) outcome" where
  "semantic_definition env project_root lang file line column w =
     semantic_definition_with_wait env project_root lang file line column DEFAULT_INDEX_WAIT w"

section \<open>The cascade\<close>

datatype semantic_mode = ModeOff | ModeOneshot | ModeDaemon

fun poll_daemon :: "client_env \<Rightarrow> path \<Rightarrow> nat \<Rightarrow> client_world \<Rightarrow> bool \<times> client_world" where
  "poll_daemon env root 0 w = (False, w)"
| "poll_daemon env root (Suc n) w =
     (case daemon_running env root w of
        (True, w1) \<Rightarrow> (True, w1)
      | (False, w1) \<Rightarrow> poll_daemon env root n w1)"

definition try_auto_start_daemon :: "client_env \<Rightarrow> path \<Rightarrow> client_world \<Rightarrow> bool \<times> client_world" where
  "try_auto_start_daemon env root w =
     (let cq_bin = (case fe_env (ke_files env) ''CQ_BIN'' of Some b \<Rightarrow> b | None \<Rightarrow> ''cq'') in
      if \<not> ke_spawn_cq env cq_bin [''daemon'', ''start'', ''--project'', path_display root] then (False, w)
      else poll_daemon env root 30 w)"

definition daemon_ref :: "string \<Rightarrow> path \<Rightarrow> nat \<Rightarrow> nat \<Rightarrow> lsp_location \<Rightarrow> resolved_reference" where
  "daemon_ref symbol symbol_file symbol_line symbol_column loc =
     semantic_ref (uri_to_path (loc_uri loc)) (location_line loc) (location_column loc) symbol
       symbol_file symbol_line symbol_column"

definition try_daemon_refs ::
  "client_env \<Rightarrow> path \<Rightarrow> language \<Rightarrow> string \<Rightarrow> path \<Rightarrow> nat \<Rightarrow> nat \<Rightarrow> client_world
    \<Rightarrow> ((lsp_error + resolution_result) \<times> client_world) outcome" where
  "try_daemon_refs env project_root lang symbol symbol_file symbol_line symbol_column w =
     outcome_bind (connect env project_root w) (\<lambda>(res, w1).
       case res of
         Inl e \<Rightarrow> Returns (Inl e, w1)
       | Inr cn \<Rightarrow>
           outcome_bind (query_refs env cn project_root lang symbol_file symbol_line symbol_column)
             (\<lambda>(res2, cn1).
                Returns (case res2 of
                    Inl e \<Rightarrow> Inl e
                  | Inr locs \<Rightarrow>
                      Inr \<lparr>res_references = map (daemon_ref symbol symbol_file symbol_line symbol_column) locs,
                           res_warnings = []\<rparr>, w1)))"

definition try_oneshot_refs ::
  "client_env \<Rightarrow> path \<Rightarrow> language \<Rightarrow> string \<Rightarrow> path \<Rightarrow> nat \<Rightarrow> nat \<Rightarrow> client_world
    \<Rightarrow> ((lsp_error + resolution_result) \<times> client_world) outcome" where
  "try_oneshot_refs env project_root lang symbol symbol_file symbol_line symbol_column w =
     outcome_bind (semantic_refs env project_root lang symbol symbol_file symbol_line symbol_column w)
       (\<lambda>(res, w1).
          Returns (case res of
              Inl e \<Rightarrow> Inl e
            | Inr refs \<Rightarrow> Inr \<lparr>res_references = refs, res_warnings = []\<rparr>, w1))"

text \<open>The steps of the cascade before stack graphs: a result, or none to fall through.\<close>

definition daemon_step ::
  "client_env \<Rightarrow> path \<Rightarrow> language \<Rightarrow> string \<Rightarrow> path \<Rightarrow> nat \<Rightarrow> nat \<Rightarrow> semantic_mode \<Rightarrow> client_world
    \<Rightarrow> (resolution_result option \<times> client_world) outcome" where
  "daemon_step env root lang symbol file line column mode w =
     (if mode = ModeOff then Returns (None, w)
      else
        (case daemon_running env root w of (up, w1) \<Rightarrow>
           (case (if \<not> up \<and> mode = ModeDaemon then try_auto_start_daemon env root w1 else (up, w1)) of
              (up2, w2) \<Rightarrow>
                if up2 then
                  outcome_bind (try_daemon_refs env root lang symbol file line column w2) (\<lambda>(res, w3).
                    Returns (case res of Inl e \<Rightarrow> None | Inr result \<Rightarrow> Some result, w3))
                else Returns (None, w2))))"

definition oneshot_step ::
  "client_env \<Rightarrow> path \<Rightarrow> language \<Rightarrow> string \<Rightarrow> path \<Rightarrow> nat \<Rightarrow> nat \<Rightarrow> semantic_mode \<Rightarrow> client_world
    \<Rightarrow> (resolution_result option \<times> client_world) outcome" where
  "oneshot_step env root lang symbol file line column mode w =
     (if mode = ModeOneshot \<or> mode = ModeDaemon then
        outcome_bind (try_oneshot_refs env root lang symbol file line column w) (\<lambda>(res, w1).
          Returns (case res of
              Inr result \<Rightarrow> if res_references result \<noteq> [] then Some result else None
            | Inl e \<Rightarrow> None, w1))
      else Returns (None, w))"

definition resolve_with_cascade ::
  "client_env \<Rightarrow> ('l, 'g, 'n, 'z) resolver_env_scheme \<Rightarrow> 'l plugin_cache \<Rightarrow> (groups \<Rightarrow> groups) \<Rightarrow> path
    \<Rightarrow> language \<Rightarrow> string \<Rightarrow> path \<Rightarrow> nat \<Rightarrow> nat \<Rightarrow> file_symbols list \<Rightarrow> semantic_mode \<Rightarrow> client_world
    \<Rightarrow> (resolution_result \<times> client_world) outcome" where
  "resolve_with_cascade env renv cache order root lang symbol file line column scan_results mode w =
     outcome_bind (daemon_step env root lang symbol file line column mode w) (\<lambda>(r1, w1).
       case r1 of
         Some result \<Rightarrow> Returns (result, w1)
       | None \<Rightarrow>
           outcome_bind (oneshot_step env root lang symbol file line column mode w1) (\<lambda>(r2, w2).
             case r2 of
               Some result \<Rightarrow> Returns (result, w2)
             | None \<Rightarrow>
                 (case resolve_refs renv cache order scan_results symbol of
                    None \<Rightarrow> Panics
                  | Some result \<Rightarrow> Returns (result, w2))))"

section \<open>The client and the daemon understand each other\<close>

text \<open>
  The name under which the client asks for a language is one that the daemon's \<open>from_name\<close>
  takes for that language, and so is the language's own name.
\<close>

lemma client_language_understood:
  "from_name (language_to_daemon_string l) = Some l"
  by (induct l; code_simp)

lemma read_response_frame:
  assumes "response_ok a" "length (jc_print c (response_json a)) \<le> MAX_MESSAGE_SIZE"
    and "jc_parse c (jc_print c (response_json a)) = Inr (response_json a)"
  shows "read_message c response_of_json \<lparr>rd_bytes = response_frame c a @ rest, rd_open = op\<rparr> =
    Returns (Inr a, \<lparr>rd_bytes = rest, rd_open = op\<rparr>)"
  using assms by (simp add: response_frame_def read_message_frame)

definition answerable :: "json_codec \<Rightarrow> daemon_response \<Rightarrow> bool" where
  "answerable c a \<longleftrightarrow> response_ok a \<and> length (jc_print c (response_json a)) \<le> MAX_MESSAGE_SIZE \<and>
     jc_parse c (jc_print c (response_json a)) = Inr (response_json a)"

lemma exchange_frame:
  assumes "answerable (le_codec env) a" "wr_room (cn_out cn) = None"
    and "cn_in cn = \<lparr>rd_bytes = response_frame (le_codec env) a @ rest, rd_open = op\<rparr>"
  shows "exchange env cn q = Returns (Inr a,
    \<lparr>cn_out = (cn_out cn)\<lparr>wr_bytes := wr_bytes (cn_out cn) @ request_frame (le_codec env) q\<rparr>,
     cn_in = \<lparr>rd_bytes = rest, rd_open = op\<rparr>\<rparr>)"
  using assms unfolding answerable_def
  by (cases cn) (simp add: exchange_def send_message_def write_message_frame recv_response_def
      read_response_frame request_frame_def)

text \<open>
  C23: a client and the daemon it has the token of complete a query: the bytes the client writes make
  the daemon write exactly the bytes the client reads, and the client's result is what the server of
  the client's language answers: from the name that the client sends for its language the daemon finds
  that language again.
\<close>

theorem daemon_query_answered:
  assumes info: "read_daemon_info (ke_files env) (kw_disk (look env kw)) root = Some info"
    and token: "di_token info = d_token d" and codec: "le_codec env = c" "le_codec denv = c"
    and q: "q = QueryReq root (language_to_daemon_string lang) ''references'' file line column None"
    and ok: "sendable c (AuthenticateReq (d_token d))" "sendable c q" "answerable c AuthOk" "answerable c a"
    and answer: "query_server denv d root lang (language_to_daemon_string lang) ''references'' file line column w =
      Returns (a, d', w')"
    and dial: "ke_dial env (kw_looks kw) (di_port info) =
      Inr \<lparr>cn_out = \<lparr>wr_bytes = [], wr_room = None\<rparr>,
           cn_in = \<lparr>rd_bytes = response_frame c AuthOk @ response_frame c a, rd_open = op\<rparr>\<rparr>"
  shows "\<exists>cn1 cn2 cn3.
    connect env root kw = Returns (Inr cn1, look env kw) \<and>
    query_refs env cn1 root lang file line column = Returns (response_locations env a, cn2) \<and>
    handle_connection denv d
        \<lparr>cn_out = \<lparr>wr_bytes = [], wr_room = None\<rparr>,
         cn_in = \<lparr>rd_bytes = wr_bytes (cn_out cn2), rd_open = op\<rparr>\<rparr> w = Returns (False, d', cn3, w') \<and>
    wr_bytes (cn_out cn3) = response_frame c AuthOk @ response_frame c a"
proof -
  let ?auth = "AuthenticateReq (d_token d)"
  let ?cn1 = "\<lparr>cn_out = \<lparr>wr_bytes = request_frame c ?auth, wr_room = None\<rparr>,
      cn_in = \<lparr>rd_bytes = response_frame c a, rd_open = op\<rparr>\<rparr>"
  let ?cn2 = "\<lparr>cn_out = \<lparr>wr_bytes = request_frame c ?auth @ request_frame c q, wr_room = None\<rparr>,
      cn_in = \<lparr>rd_bytes = [], rd_open = op\<rparr>\<rparr>"
  have handled: "handle_request denv d q w = Returns ((a, False), d', w')"
    by (simp add: q handle_request_def handle_query_def client_language_understood answer)
  have "connect env root kw = Returns (Inr ?cn1, look env kw)"
    using info dial ok(3) token codec
    by (simp add: connect_def Let_def exchange_frame[where a = AuthOk and rest = "response_frame c a" and op = op]
        auth_result_def)
  moreover have "query_refs env ?cn1 root lang file line column = Returns (response_locations env a, ?cn2)"
    using ok(4) codec q
    by (simp add: query_refs_def send_and_receive_locations_def
        exchange_frame[where a = a and rest = "[]" and op = op])
  moreover have "handle_connection denv d
        \<lparr>cn_out = \<lparr>wr_bytes = [], wr_room = None\<rparr>,
         cn_in = \<lparr>rd_bytes = wr_bytes (cn_out ?cn2), rd_open = op\<rparr>\<rparr> w =
      Returns (False, d', \<lparr>cn_out = \<lparr>wr_bytes = response_frame c AuthOk @ response_frame c a, wr_room = None\<rparr>,
         cn_in = \<lparr>rd_bytes = [], rd_open = op\<rparr>\<rparr>, w')"
    using ok(1,2) codec handled
    by (subst connection_exchange[where q = q and rest = "[]" and op = op]) auto
  ultimately show ?thesis
    by (intro exI[of _ ?cn1] exI[of _ ?cn2] exI[of _ "\<lparr>cn_out = \<lparr>wr_bytes = response_frame c AuthOk
      @ response_frame c a, wr_room = None\<rparr>, cn_in = \<lparr>rd_bytes = [], rd_open = op\<rparr>\<rparr>"]) simp
qed

section \<open>The cascade\<close>

lemma try_daemon_refs_semantic:
  assumes "try_daemon_refs env root lang symbol file line column w = Returns (Inr result, w')"
  shows "\<forall>r \<in> set (res_references result). rr_resolution r = Semantic"
proof -
  from assms obtain cn w1 where "outcome_bind (query_refs env cn root lang file line column)
      (\<lambda>(res2, cn1). Returns (case res2 of Inl e \<Rightarrow> Inl e
         | Inr locs \<Rightarrow> Inr \<lparr>res_references = map (daemon_ref symbol file line column) locs, res_warnings = []\<rparr>, w1))
      = Returns (Inr result, w')"
    unfolding try_daemon_refs_def by (elim outcome_bind_elim) (auto split: sum.split_asm)
  then obtain locs where "result = \<lparr>res_references = map (daemon_ref symbol file line column) locs, res_warnings = []\<rparr>"
    by (elim outcome_bind_elim) (auto split: sum.split_asm)
  then show ?thesis by (auto simp: daemon_ref_def semantic_ref_def)
qed

lemma daemon_step_semantic:
  assumes "daemon_step env root lang symbol file line column mode w = Returns (Some result, w')"
  shows "mode \<noteq> ModeOff \<and> (\<forall>r \<in> set (res_references result). rr_resolution r = Semantic)"
proof -
  from assms obtain w2 where m: "mode \<noteq> ModeOff"
    and t: "outcome_bind (try_daemon_refs env root lang symbol file line column w2) (\<lambda>(res, w3).
      Returns (case res of Inl e \<Rightarrow> None | Inr result \<Rightarrow> Some result, w3)) = Returns (Some result, w')"
    by (auto simp: daemon_step_def split: if_split_asm prod.split_asm)
  from t have "try_daemon_refs env root lang symbol file line column w2 = Returns (Inr result, w')"
    by (elim outcome_bind_elim) (auto split: sum.split_asm)
  with m try_daemon_refs_semantic show ?thesis by blast
qed

lemma semantic_refs_semantic:
  assumes "semantic_refs env root lang symbol file line column w = Returns (Inr refs, w')"
  shows "\<forall>r \<in> set refs. rr_resolution r = Semantic"
proof -
  from assms obtain locs where "refs = map (oneshot_ref root symbol file line column) locs"
    unfolding semantic_refs_def semantic_refs_with_wait_def
    by (elim outcome_bind_elim)
      (auto split: sum.split_asm option.split_asm prod.split_asm elim!: outcome_bind_elim)
  then show ?thesis by (auto simp: oneshot_ref_def semantic_ref_def Let_def)
qed

lemma oneshot_step_semantic:
  assumes "oneshot_step env root lang symbol file line column mode w = Returns (Some result, w')"
  shows "mode \<noteq> ModeOff \<and> (\<forall>r \<in> set (res_references result). rr_resolution r = Semantic)"
proof -
  from assms have m: "mode \<noteq> ModeOff"
    and t: "outcome_bind (try_oneshot_refs env root lang symbol file line column w) (\<lambda>(res, w1).
      Returns (case res of Inr result \<Rightarrow> if res_references result \<noteq> [] then Some result else None
        | Inl e \<Rightarrow> None, w1)) = Returns (Some result, w')"
    by (auto simp: oneshot_step_def split: if_split_asm)
  from t have "try_oneshot_refs env root lang symbol file line column w = Returns (Inr result, w')"
    by (elim outcome_bind_elim) (auto split: sum.split_asm if_split_asm)
  then have "semantic_refs env root lang symbol file line column w = Returns (Inr (res_references result), w')"
    unfolding try_oneshot_refs_def by (elim outcome_bind_elim) (auto split: sum.split_asm)
  with m semantic_refs_semantic show ?thesis by blast
qed

lemma cascade_off:
  "resolve_with_cascade env renv cache order root lang symbol file line column scan_results ModeOff w =
     (case resolve_refs renv cache order scan_results symbol of None \<Rightarrow> Panics | Some result \<Rightarrow> Returns (result, w))"
  by (simp add: resolve_with_cascade_def daemon_step_def oneshot_step_def)

text \<open>
  Whatever the daemon and the language servers do, a cascade that returns gives either their
  answer, in which every reference has semantic precision, or exactly what stack graphs give for
  the scan; it never reports an error or a mixture. With semantic resolution off it is the latter,
  and neither the disk nor any process is touched.
\<close>

theorem cascade_result_tiers:
  assumes "resolve_with_cascade env renv cache order root lang symbol file line column scan_results mode w
      = Returns (result, w')"
  shows "(mode \<noteq> ModeOff \<and> (\<forall>r \<in> set (res_references result). rr_resolution r = Semantic)) \<or>
    (resolve_refs renv cache order scan_results symbol = Some result \<and> (mode = ModeOff \<longrightarrow> w' = w))"
proof (cases "mode = ModeOff")
  case True
  with assms show ?thesis by (auto simp: cascade_off split: option.splits)
next
  case False
  from assms obtain r1 w1 where d: "daemon_step env root lang symbol file line column mode w = Returns (r1, w1)"
    and more: "(case r1 of Some x \<Rightarrow> Returns (x, w1) | None \<Rightarrow>
      outcome_bind (oneshot_step env root lang symbol file line column mode w1) (\<lambda>(r2, w2).
        case r2 of Some x \<Rightarrow> Returns (x, w2)
        | None \<Rightarrow> (case resolve_refs renv cache order scan_results symbol of
            None \<Rightarrow> Panics | Some x \<Rightarrow> Returns (x, w2)))) = Returns (result, w')"
    unfolding resolve_with_cascade_def by (elim outcome_bind_elim) auto
  show ?thesis
  proof (cases r1)
    case None
    with more obtain r2 w2 where o: "oneshot_step env root lang symbol file line column mode w1 = Returns (r2, w2)"
      and last: "(case r2 of Some x \<Rightarrow> Returns (x, w2)
        | None \<Rightarrow> (case resolve_refs renv cache order scan_results symbol of
            None \<Rightarrow> Panics | Some x \<Rightarrow> Returns (x, w2))) = Returns (result, w')"
      by (auto elim!: outcome_bind_elim)
    then show ?thesis
      using oneshot_step_semantic False by (cases r2) (auto split: option.split_asm)
  qed (use d more daemon_step_semantic in auto)
qed

section \<open>Processes left behind\<close>

lemma world_more_left:
  "world.more w' = world.more w \<Longrightarrow> kw_left w' = kw_left w \<and> kw_disk w' = kw_disk w \<and> kw_looks w' = kw_looks w"
  for w :: client_world
  by (cases w; cases w') simp

lemma start_left:
  fixes w :: client_world
  assumes "start_with_capabilities env config root caps w = Returns (res, w')"
  shows "kw_left w' = kw_left w"
proof -
  let ?w0 = "w\<lparr>w_spawns := Suc (w_spawns w)\<rparr>"
  have spawned: "kw_left w1 = kw_left w"
    if "send_request env t m params ?w0 = Returns (r, t1, w1)" for t m params r t1 and w1 :: client_world
    using send_request_rest[OF that] by (cases w; cases w1) simp
  from assms show ?thesis
    by (auto simp: start_with_capabilities_def Let_def dest!: spawned elim!: outcome_bind_elim
        split: option.split_asm sum.split_asm io_error.split_asm prod.split_asm wait_status.split_asm)
qed

section \<open>One-shot queries stop their server\<close>

text \<open>The processes a failed start leaves behind, which nobody stops.\<close>

definition start_leaves :: "client_env \<Rightarrow> path \<Rightarrow> language \<Rightarrow> client_world \<Rightarrow> child \<Rightarrow> bool" where
  "start_leaves env root lang w c \<longleftrightarrow>
     (\<exists>config e w1. config_for registry_new lang = Some config \<and>
        start_with_capabilities env config root with_progress w = Returns (Inl (e, Some c), w1))"

lemma start_opened_left:
  assumes "start_opened env root lang file index_wait w = Returns (res, w')"
  shows "(\<forall>s. res = Inr s \<longrightarrow> kw_left w' = kw_left w) \<and>
    (\<forall>e. res = Inl e \<longrightarrow> (\<exists>left. kw_left w' = kw_left w @ left \<and> length left \<le> 1 \<and>
       (\<forall>c \<in> set left. stopped c \<or> start_leaves env root lang w c)))"
proof (cases "config_for registry_new lang")
  case None
  with assms show ?thesis by (auto simp: start_opened_def)
next
  case (Some config)
  with assms obtain start w1 where st: "start_with_capabilities env config root with_progress w = Returns (start, w1)"
    unfolding start_opened_def by (auto elim!: outcome_bind_elim)
  have left1: "kw_left w1 = kw_left w" by (rule start_left[OF st])
  show ?thesis
  proof (cases start)
    case (Inl f)
    obtain e l where f: "f = (e, l)" by force
    have "\<forall>c. l = Some c \<longrightarrow> start_leaves env root lang w c"
      using Some st Inl f by (auto simp: start_leaves_def)
    with assms Some st Inl f left1 show ?thesis
      by (auto simp: start_opened_def left_over_def split: option.splits)
  next
    case (Inr server)
    define full where "full = (if is_absolute file then file else path_join root file)"
    show ?thesis
    proof (cases "read_file_source env full")
      case (Inl e)
      with assms Some st Inr left1 show ?thesis
        by (auto simp: start_opened_def left_over_def full_def Let_def drop_server_stopped)
    next
      case (Inr source)
      obtain err s1 where o: "open_document env server full source (lsp_language_id lang) = (err, s1)" by force
      show ?thesis
      proof (cases err)
        case None
        then show ?thesis
          using assms Some st \<open>start = Inr server\<close> Inr o left1
          by (auto simp: start_opened_def full_def Let_def elim!: outcome_bind_elim split: if_split_asm
              dest!: wait_for_ready_rest world_more_left)
      next
        case (Some e)
        then show ?thesis
          using assms \<open>config_for registry_new lang = Some config\<close> st \<open>start = Inr server\<close> Inr o left1
          by (auto simp: start_opened_def left_over_def full_def Let_def drop_server_stopped)
      qed
    qed
  qed
qed

lemma finish_query_left:
  assumes "finish_query env (res, s, w) = Returns (res', w')"
  shows "\<exists>c. kw_left w' = kw_left w @ [c] \<and> stopped c"
proof -
  from assms obtain e c w1 where down: "shutdown_server env s w = Returns (e, c, w1)" and "w' = left_over [c] w1"
    by (auto simp: finish_query_def elim!: outcome_bind_elim)
  then show ?thesis
    using shutdown_server_stopped[OF down] world_more_left[OF shutdown_server_rest[OF down]]
    by (auto simp: left_over_def)
qed

text \<open>
  C24: a one-shot query that returns, with references or with an error, leaves at most one process
  behind, and that process is stopped, unless the server had failed to start; a query that finds
  its references leaves exactly one, stopped.
\<close>

theorem oneshot_stops_its_server:
  assumes "semantic_refs_with_wait env root lang symbol file line column index_wait w = Returns (res, w')"
  shows "\<exists>left. kw_left w' = kw_left w @ left \<and> length left \<le> 1 \<and>
    (\<forall>c \<in> set left. stopped c \<or> start_leaves env root lang w c) \<and>
    (\<forall>refs. res = Inr refs \<longrightarrow> (\<exists>c. left = [c] \<and> stopped c))"
proof -
  from assms obtain r1 w1 where s: "start_opened env root lang file index_wait w = Returns (r1, w1)"
    unfolding semantic_refs_with_wait_def by (auto elim!: outcome_bind_elim)
  show ?thesis
  proof (cases r1)
    case (Inl e)
    with assms s have "res = Inl e" "w' = w1" by (auto simp: semantic_refs_with_wait_def)
    then show ?thesis using start_opened_left[OF s] Inl by auto
  next
    case (Inr t)
    obtain server full source where t: "t = (server, full, source)" by (cases t)
    from assms s Inr t obtain q where q: "find_identifier_column source line column symbol = Some q"
      by (auto simp: semantic_refs_with_wait_def split: option.split_asm)
    from assms s Inr t q obtain res1 s1 w2 res2 where
      r: "find_references env server full line q True w1 = Returns (res1, s1, w2)"
      and f: "finish_query env (res1, s1, w2) = Returns (res2, w')"
      by (auto simp: semantic_refs_with_wait_def elim!: outcome_bind_elim)
    have "kw_left w1 = kw_left w" using start_opened_left[OF s] Inr by blast
    moreover have "kw_left w2 = kw_left w1" using world_more_left queries_rest(1)[OF r] by blast
    moreover obtain c where "kw_left w' = kw_left w2 @ [c]" "stopped c" using finish_query_left[OF f] by blast
    ultimately show ?thesis by (intro exI[of _ "[c]"]) simp
  qed
qed

section \<open>Witnesses\<close>

definition solo_codec :: json_codec where
  "solo_codec = \<lparr>jc_print = (\<lambda>_. ''q''),
     jc_parse = (\<lambda>_. Inr (JObj [(''jsonrpc'', JStr ''2.0''), (''id'', JInt 1), (''result'', JObj [])]))\<rparr>"

text \<open>A language server that answers the handshake only, on a machine without a daemon.\<close>

definition solo_env :: client_env where
  "solo_env =
     \<lparr>le_codec = solo_codec, le_clock = (\<lambda>k. k), le_buffered = (\<lambda>_. False), le_poll = (\<lambda>_. Inr False),
      se_which = (\<lambda>_. True),
      se_spawn = (\<lambda>_ _. Inr \<lparr>sp_stdin = Some \<lparr>wr_bytes = [], wr_room = None\<rparr>,
        sp_stdout = Some \<lparr>rd_bytes = lsp_frame ''r'' @ [], rd_open = True\<rparr>, sp_child = busy_child\<rparr>),
      se_pid = 1, se_canonicalize = Some, se_duration = dec, se_io_text = (\<lambda>_. ''io''),
      ke_files = de_files demo_daemon_env, ke_others = (\<lambda>_ d. d), ke_reach = (\<lambda>_ _. False),
      ke_dial = (\<lambda>_ _. Inl ''refused''), ke_spawn_cq = (\<lambda>_ _. False), ke_read_source = (\<lambda>_. Inl NotFound),
      ke_debug = (\<lambda>_. [])\<rparr>"

definition solo_world :: client_world where
  "solo_world = \<lparr>w_ticks = 0, w_looks = 0, w_next_id = 1, w_spawns = 0, kw_disk = demo_disk, kw_looks = 0, kw_left = []\<rparr>"

lemma solo_response:
  "response_for solo_codec 1 ''r'' = Some \<lparr>rsp_jsonrpc = ''2.0'', rsp_id = 1, rsp_result = Some (JObj []), rsp_error = None\<rparr>"
  by (simp add: response_for_def solo_codec_def rpc_response_of_json_def struct_fields_def field_str_def
      field_nat_def field_opt_def json_nat_def usize_max_def)

lemma solo_start:
  "\<exists>s w'. start_with_capabilities solo_env config root with_progress (solo_world\<lparr>kw_looks := k\<rparr>) = Returns (Inr s, w')
     \<and> kw_left w' = []"
proof -
  have read: "read_lsp \<lparr>rd_bytes = lsp_frame ''r'' @ [], rd_open = True\<rparr> = Returns (Inr ''r'', \<lparr>rd_bytes = [], rd_open = True\<rparr>)"
    by (rule read_lsp_frame) (simp add: lsp_fits_def byte_def)
  show ?thesis
    by (simp add: start_with_capabilities_def check_binary_exists_def solo_env_def solo_world_def send_request_def
        next_request_id_def read_clock_def write_lsp_def write_all_def transport_new_def DEFAULT_TIMEOUT_def
        await_response.simps[of _ 1] read[simplified] solo_response response_result_def parse_capabilities_def
        server_capabilities_of_json_def struct_fields_def field_opt_def send_notification_def Let_def)
qed

lemma solo_query:
  "\<exists>w'. semantic_refs_with_wait solo_env [RootDir] Rust ''f'' [Normal ''a.rs''] 1 0 0 (solo_world\<lparr>kw_looks := k\<rparr>)
     = Returns (Inl (Io NotFound), w')"
proof -
  have "config_for registry_new Rust \<noteq> None" by code_simp
  then obtain config where c: "config_for registry_new Rust = Some config" by blast
  obtain s w' where "start_with_capabilities solo_env config [RootDir] with_progress (solo_world\<lparr>kw_looks := k\<rparr>)
      = Returns (Inr s, w')"
    using solo_start by blast
  then show ?thesis
    by (simp add: semantic_refs_with_wait_def start_opened_def c Let_def read_file_source_def solo_env_def)
qed

theorem oneshot_stops_its_server_witness:
  "\<exists>w' c. semantic_refs_with_wait solo_env [RootDir] Rust ''f'' [Normal ''a.rs''] 1 0 0 solo_world
     = Returns (Inl (Io NotFound), w') \<and> length (kw_left w') \<le> 1 \<and> (\<forall>c \<in> set (kw_left w'). stopped c)"
proof -
  have w: "solo_world\<lparr>kw_looks := 0\<rparr> = solo_world" by (simp add: solo_world_def)
  obtain w' where run: "semantic_refs_with_wait solo_env [RootDir] Rust ''f'' [Normal ''a.rs''] 1 0 0 solo_world
     = Returns (Inl (Io NotFound), w')"
    using solo_query[of 0] unfolding w by blast
  have "\<not> start_leaves solo_env [RootDir] Rust solo_world c" for c
    using solo_start[of _ "[RootDir]" 0] unfolding w start_leaves_def by (metis Inl_Inr_False old.prod.inject outcome.inject)
  with oneshot_stops_its_server[OF run] run show ?thesis by (auto simp: solo_world_def)
qed

lemma solo_no_daemon:
  "daemon_step solo_env [RootDir] Rust ''g'' [Normal ''a.rs''] 1 0 ModeDaemon solo_world
     = Returns (None, solo_world\<lparr>kw_looks := 1\<rparr>)"
  by (simp add: daemon_step_def daemon_running_def look_def solo_env_def solo_world_def is_daemon_running_def
      read_daemon_info_def demo_daemon_env_def daemon_file_path_def fe_daemons_dir_def daemons_dir_def
      cache_dir_def disk_read_def demo_disk_def try_auto_start_daemon_def Let_def)

theorem cascade_result_tiers_witness:
  "\<exists>result w'. resolve_with_cascade solo_env no_rules_env Map.empty id [RootDir] Rust ''g'' [Normal ''a.rs''] 1 0
      two_scans ModeOff solo_world = Returns (result, w') \<and>
    resolve_refs no_rules_env Map.empty id two_scans ''g'' = Some result \<and> w' = solo_world"
proof -
  have "resolve_refs no_rules_env Map.empty id two_scans ''g'' \<noteq> None" by code_simp
  then obtain result where r: "resolve_refs no_rules_env Map.empty id two_scans ''g'' = Some result" by blast
  have run: "resolve_with_cascade solo_env no_rules_env Map.empty id [RootDir] Rust ''g'' [Normal ''a.rs''] 1 0
      two_scans ModeOff solo_world = Returns (result, solo_world)"
    by (simp add: cascade_off r)
  from cascade_result_tiers[OF run] run r show ?thesis by auto
qed

text \<open>A JSON library that knows the values of a list and prints each as its position.\<close>

definition list_codec :: "json list \<Rightarrow> json_codec" where
  "list_codec js =
     \<lparr>jc_print = (\<lambda>x. replicate (length (takeWhile (\<lambda>y. y \<noteq> x) js)) CHR ''j''),
      jc_parse = (\<lambda>s. if length s < length js then Inr (js ! length s) else Inl ''syntax'')\<rparr>"

lemma list_codec_round:
  "x \<in> set js \<Longrightarrow> jc_parse (list_codec js) (jc_print (list_codec js) x) = Inr x"
proof -
  assume "x \<in> set js"
  then have "length (takeWhile (\<lambda>y. y \<noteq> x) js) < length js" by (induction js) auto
  then show ?thesis using nth_length_takeWhile[of "\<lambda>y. y \<noteq> x" js] by (simp add: list_codec_def)
qed

lemma list_codec_length: "length (jc_print (list_codec js) x) \<le> length js"
  by (simp add: list_codec_def length_takeWhile_le)

definition pair_request :: daemon_request where
  "pair_request = QueryReq [RootDir] (language_to_daemon_string Rust) ''references'' [Normal ''a.rs''] 1 0 None"

definition pair_answer :: daemon_response where
  "pair_answer = ErrorResp (''failed to start server: '' @ error_text demo_daemon_env
     (ServerNotFound ''no language server configured for Rust''))"

definition pair_codec :: json_codec where
  "pair_codec = list_codec [request_json (AuthenticateReq ''t''), request_json pair_request,
     response_json AuthOk, response_json pair_answer]"

definition pair_info :: daemon_info where
  "pair_info = \<lparr>di_port = 7, di_token = ''t'', di_pid = 1, di_project = [RootDir], di_started = []\<rparr>"

definition pair_files :: file_env where
  "pair_files = (de_files demo_daemon_env)\<lparr>fe_codec := list_codec [daemon_info_json pair_info]\<rparr>"

definition pair_env :: client_env where
  "pair_env = solo_env\<lparr>le_codec := pair_codec, ke_files := pair_files,
     ke_dial := (\<lambda>_ _. Inr \<lparr>cn_out = \<lparr>wr_bytes = [], wr_room = None\<rparr>,
       cn_in = \<lparr>rd_bytes = response_frame pair_codec AuthOk @ response_frame pair_codec pair_answer,
                rd_open = True\<rparr>\<rparr>)\<rparr>"

definition pair_world :: client_world where
  "pair_world = solo_world\<lparr>kw_disk := demo_disk\<lparr>disk_files :=
     [the (daemon_file_path pair_files [RootDir]) \<mapsto> []]\<rparr>\<rparr>"

definition pair_daemon_env :: daemon_env where
  "pair_daemon_env = demo_daemon_env\<lparr>le_codec := pair_codec\<rparr>"

lemma pair_codec_ok:
  "sendable pair_codec (AuthenticateReq ''t'')" "sendable pair_codec pair_request"
  "answerable pair_codec AuthOk" "answerable pair_codec pair_answer"
proof -
  have len: "length (jc_print pair_codec x) \<le> MAX_MESSAGE_SIZE" for x
    using list_codec_length unfolding pair_codec_def MAX_MESSAGE_SIZE_def by (rule le_trans) simp
  have ok: "request_ok pair_request"
    by (simp add: pair_request_def path_text_ok_def usize_max_def) code_simp
  show "sendable pair_codec (AuthenticateReq ''t'')" "sendable pair_codec pair_request"
    using len ok by (simp_all add: sendable_def pair_codec_def list_codec_round)
  show "answerable pair_codec AuthOk" "answerable pair_codec pair_answer"
    using len by (simp_all add: answerable_def pair_codec_def list_codec_round pair_answer_def)
qed

lemma pair_info_read: "read_daemon_info pair_files (kw_disk (look pair_env pair_world)) [RootDir] = Some pair_info"
proof -
  have "info_ok pair_info" by (simp add: info_ok_def pair_info_def u16_max_def u32_max_def path_text_ok_def) code_simp
  then have "parse_info pair_files [] = Some pair_info"
    by (simp add: parse_info_def pair_files_def list_codec_def daemon_info_round)
  moreover have "daemon_file_path pair_files [RootDir] \<noteq> None"
    by (simp add: daemon_file_path_def fe_daemons_dir_def pair_files_def daemons_dir_def cache_dir_def
        demo_daemon_env_def)
  ultimately show ?thesis
    by (auto simp: read_daemon_info_def look_def pair_env_def pair_world_def solo_env_def solo_world_def
        disk_read_def demo_disk_def)
qed

lemma pair_handled:
  "query_server pair_daemon_env (demo_daemon ''t'') [RootDir] Rust (language_to_daemon_string Rust) ''references''
       [Normal ''a.rs''] 1 0 demo_daemon_world
     = Returns (pair_answer, demo_daemon ''t'', demo_daemon_world)"
  by (simp add: query_server_def get_or_start_server_def probe_server_def demo_daemon_def start_pooled_def config_for_def
      pair_answer_def error_text_def pair_daemon_env_def)

theorem daemon_query_answered_witness:
  "\<exists>cn1 cn2. connect pair_env [RootDir] pair_world = Returns (Inr cn1, look pair_env pair_world) \<and>
     query_refs pair_env cn1 [RootDir] Rust [Normal ''a.rs''] 1 0 =
       Returns (response_locations pair_env pair_answer, cn2)"
proof -
  have dial: "ke_dial pair_env (kw_looks pair_world) (di_port pair_info) =
      Inr \<lparr>cn_out = \<lparr>wr_bytes = [], wr_room = None\<rparr>,
           cn_in = \<lparr>rd_bytes = response_frame pair_codec AuthOk @ response_frame pair_codec pair_answer, rd_open = True\<rparr>\<rparr>"
    by (simp add: pair_env_def)
  have "read_daemon_info (ke_files pair_env) (kw_disk (look pair_env pair_world)) [RootDir] = Some pair_info"
    using pair_info_read by (simp add: pair_env_def)
  from daemon_query_answered[OF this _ _ _ pair_request_def _ _ _ _ pair_handled dial] pair_codec_ok
  show ?thesis
    by (auto simp: pair_info_def demo_daemon_def pair_env_def pair_daemon_env_def)
qed

end
