(* ===== verification/Analysis.thy ===== *)
theory Analysis
  imports Refs Symbol_Index Languages
begin

text \<open>
  The two whole-project analyses of the command line: symbols that no reference names
  (\<open>dead.rs\<close>), and the tree of callers of a symbol (\<open>callchain.rs\<close>). Both start from a finished
  scan, its index and the references of each file; the hash sets are sets and the caller map is a
  map to the list of calls in scan order.
\<close>

section \<open>Names at positions\<close>

definition ident_byte :: "char \<Rightarrow> bool" where
  "ident_byte c \<longleftrightarrow> is_ascii_alphanumeric c \<or> c = CHR ''_''"

definition extract_name_at_column :: "string \<Rightarrow> nat \<Rightarrow> string option" where
  "extract_name_at_column line column =
     (if length line \<le> column then None
      else (let w = takeWhile ident_byte (drop column line) in if w = [] then None else Some w))"

text \<open>The language whose references are extracted from a scanned file.\<close>

definition scan_language :: "(string \<rightharpoonup> string) \<Rightarrow> path \<Rightarrow> language option" where
  "scan_language exts p =
     (case language_for_file exts p of
        Some lang \<Rightarrow> Some lang
      | None \<Rightarrow> Option.bind (language_name_for_file exts p) from_name)"

section \<open>Dead code\<close>

definition file_names :: "(string \<rightharpoonup> string) \<Rightarrow> path \<Rightarrow> file_symbols \<Rightarrow> string list" where
  "file_names exts root fs =
     (case scan_language exts (path_join root (fs_file fs)) of
        None \<Rightarrow> []
      | Some lang \<Rightarrow>
          List.map_filter (\<lambda>r. extract_name_at_column (ref_context r) (ref_column r))
            (extract_references (fs_source fs) (fs_tree fs) (fs_file fs) lang))"

definition referenced_names :: "(string \<rightharpoonup> string) \<Rightarrow> path \<Rightarrow> file_symbols list \<Rightarrow> string set" where
  "referenced_names exts root scan = set (concat (map (file_names exts root) scan))"

definition kind_arms :: "(string list \<times> symbol_kind) list" where
  "kind_arms =
     [([''function''], Function), ([''method''], Method), ([''struct''], Struct), ([''class''], Class),
      ([''trait''], Trait), ([''interface''], Interface), ([''enum''], Enum),
      ([''type'', ''type_alias''], Type), ([''const'', ''constant''], Const), ([''static''], Static),
      ([''module''], Module)]"

definition parse_kind :: "string \<Rightarrow> string + symbol_kind" where
  "parse_kind s =
     (case match_arms kind_arms (to_lowercase s) of
        Some k \<Rightarrow> Inr k
      | None \<Rightarrow> Inl (''unknown symbol kind: '' @ s @ ''. valid kinds: function, method, struct, class, ''
          @ ''trait, interface, enum, type, const, static, module''))"

definition is_dead :: "string set \<Rightarrow> symbol_kind option \<Rightarrow> symbol \<Rightarrow> bool" where
  "is_dead referenced kind_filter s \<longleftrightarrow>
     (case kind_filter of Some k \<Rightarrow> sym_kind s = k | None \<Rightarrow> True) \<and>
     sym_kind s \<noteq> Impl \<and> sym_kind s \<noteq> Test \<and> sym_name s \<noteq> ''main'' \<and> sym_name s \<notin> referenced"

definition sym_position :: "symbol \<Rightarrow> path \<times> nat" where
  "sym_position s = (sym_file s, sym_line s)"

definition truncate_to :: "nat option \<Rightarrow> 'a list \<Rightarrow> 'a list" where
  "truncate_to limit xs = (case limit of None \<Rightarrow> xs | Some n \<Rightarrow> take n xs)"

definition dead_symbols ::
  "(string \<rightharpoonup> string) \<Rightarrow> path \<Rightarrow> file_symbols list \<Rightarrow> string option \<Rightarrow> nat option \<Rightarrow> string + symbol list" where
  "dead_symbols exts root scan kind limit =
     (let referenced = referenced_names exts root scan in
      case (case kind of None \<Rightarrow> Inr None | Some k \<Rightarrow> map_sum id Some (parse_kind k)) of
        Inl e \<Rightarrow> Inl e
      | Inr kind_filter \<Rightarrow>
          Inr (truncate_to limit
            (sort_key sym_position
              (filter (is_dead referenced kind_filter) (all_symbols (from_scan scan))))))"

definition is_pub_warning :: "symbol list \<Rightarrow> bool" where
  "is_pub_warning ss = list_ex (\<lambda>s. sym_visibility s = Public) ss"

section \<open>Call chains\<close>

type_synonym caller_entry = "string \<times> symbol_kind \<times> path \<times> nat \<times> nat"

type_synonym caller_map = "string \<rightharpoonup> caller_entry list"

definition add_call :: "reference \<Rightarrow> caller_map \<Rightarrow> caller_map" where
  "add_call r m =
     (if ref_kind r \<noteq> Call then m
      else
        (case ref_caller r of
           None \<Rightarrow> m
         | Some caller_name \<Rightarrow>
             (let caller_kind = (case ref_caller_kind r of Some k \<Rightarrow> k | None \<Rightarrow> Function) in
              case extract_name_at_column (ref_context r) (ref_column r) of
                None \<Rightarrow> m
              | Some called \<Rightarrow>
                  m(called \<mapsto> (case m called of None \<Rightarrow> [] | Some es \<Rightarrow> es)
                    @ [(caller_name, caller_kind, ref_file r, ref_line r, ref_column r)]))))"

definition add_file_calls :: "(string \<rightharpoonup> string) \<Rightarrow> file_symbols \<Rightarrow> caller_map \<Rightarrow> caller_map" where
  "add_file_calls exts fs m =
     (case scan_language exts (fs_file fs) of
        None \<Rightarrow> m
      | Some lang \<Rightarrow> fold add_call (extract_references (fs_source fs) (fs_tree fs) (fs_file fs) lang) m)"

definition build_caller_map :: "(string \<rightharpoonup> string) \<Rightarrow> file_symbols list \<Rightarrow> caller_map" where
  "build_caller_map exts scan = fold (add_file_calls exts) scan Map.empty"

text \<open>Kind and position of a caller: those of its first definition, if the index has one.\<close>

definition caller_position :: "symbol_index \<Rightarrow> caller_entry \<Rightarrow> symbol_kind \<times> path \<times> nat \<times> nat" where
  "caller_position ix e =
     (case e of (name, kind, file, line, col) \<Rightarrow>
        (case find_by_name ix name of
           s # _ \<Rightarrow> (sym_kind s, sym_file s, sym_line s, sym_column s)
         | [] \<Rightarrow> (kind, file, line, col)))"

text \<open>A node and the callers under it, passing the set of visited names through. The depth comes
  first, so that each call of the other function with a smaller depth ends.\<close>

function build_chain_node ::
  "caller_map \<Rightarrow> symbol_index \<Rightarrow> nat \<Rightarrow> string \<Rightarrow> symbol_kind \<times> path \<times> nat \<times> nat \<Rightarrow> string set
    \<Rightarrow> call_chain_node \<times> string set"
and build_callers ::
  "caller_map \<Rightarrow> symbol_index \<Rightarrow> nat \<Rightarrow> caller_entry list \<Rightarrow> string set \<Rightarrow> string set
    \<Rightarrow> call_chain_node list \<times> string set" where
  "build_chain_node cm ix remaining_depth name (kind, file, line, col) visited =
     (if remaining_depth = 0 \<or> name \<in> visited
      then (CallChainNode name kind file line col [], visited)
      else
        (case cm name of
           None \<Rightarrow> (CallChainNode name kind file line col [], insert name visited - {name})
         | Some callers \<Rightarrow>
             (case build_callers cm ix (remaining_depth - 1) callers {} (insert name visited) of
                (nodes, visited') \<Rightarrow> (CallChainNode name kind file line col nodes, visited' - {name}))))"
| "build_callers cm ix depth [] seen visited = ([], visited)"
| "build_callers cm ix depth (e # es) seen visited =
     (if fst e \<in> seen then build_callers cm ix depth es seen visited
      else
        (case build_chain_node cm ix depth (fst e) (caller_position ix e) visited of
           (child, visited1) \<Rightarrow>
             (case build_callers cm ix depth es (insert (fst e) seen) visited1 of
                (rest, visited2) \<Rightarrow> (child # rest, visited2))))"
  by pat_completeness auto
termination
  by (relation "measures
    [case_sum (\<lambda>(cm, ix, d, n, p, v). 2 * d) (\<lambda>(cm, ix, d, es, s, v). Suc (2 * d)),
     case_sum (\<lambda>(cm, ix, d, n, p, v). 0) (\<lambda>(cm, ix, d, es, s, v). Suc (length es))]") auto

text \<open>The chain of a symbol: its first definition, or a placeholder when the index has none.\<close>

definition call_chain :: "(string \<rightharpoonup> string) \<Rightarrow> file_symbols list \<Rightarrow> string \<Rightarrow> nat \<Rightarrow> call_chain_node" where
  "call_chain exts scan name depth =
     (let ix = from_scan scan;
          position = (case find_by_name ix name of
              s # _ \<Rightarrow> (sym_kind s, sym_file s, sym_line s, sym_column s)
            | [] \<Rightarrow> (Function, path_of_string ''<unknown>'', 0, 0))
      in fst (build_chain_node (build_caller_map exts scan) ix depth name position {}))"

section \<open>Lemmas on dead code\<close>

lemma extract_name_spec:
  "extract_name_at_column line column = Some w \<Longrightarrow>
     w \<noteq> [] \<and> list_all ident_byte w \<and> occurs_at w line column"
proof -
  assume a: "extract_name_at_column line column = Some w"
  then have "column < length line" and w: "w = takeWhile ident_byte (drop column line)" "w \<noteq> []"
    by (auto simp: extract_name_at_column_def Let_def split: if_splits)
  moreover have "list_all ident_byte w" unfolding w(1) by (auto simp: list_all_iff dest: set_takeWhileD)
  moreover have "take (length w) (drop column line) = w" unfolding w(1) by (metis takeWhile_eq_take)
  moreover have "column + length w \<le> length line"
    using \<open>column < length line\<close> length_takeWhile_le[of ident_byte "drop column line"] unfolding w(1) by simp
  ultimately show ?thesis by (simp add: occurs_at_def)
qed

lemma mem_referenced_names:
  "name \<in> referenced_names exts root scan \<longleftrightarrow>
     (\<exists>fs lang r. fs \<in> set scan \<and> scan_language exts (path_join root (fs_file fs)) = Some lang \<and>
        r \<in> set (extract_references (fs_source fs) (fs_tree fs) (fs_file fs) lang) \<and>
        extract_name_at_column (ref_context r) (ref_column r) = Some name)"
  by (force simp: referenced_names_def file_names_def split: option.splits)

text \<open>
  C22: the dead-code report holds, sorted by file and line, exactly the indexed symbols (each as often
  as it is indexed) of the wanted kind that are no impl block, no test and not named \<open>main\<close>, and whose
  name stands at no reference of any scanned file; a limit keeps the first of the sorted report. An
  unknown kind is the only error.
\<close>

theorem dead_symbols_exact:
  "(case dead_symbols exts root scan kind limit of
      Inl e \<Rightarrow> \<exists>k. kind = Some k \<and> parse_kind k = Inl e
    | Inr ss \<Rightarrow>
        (\<exists>all. ss = truncate_to limit all \<and> sorted (map sym_position all) \<and>
          mset all = filter_mset (\<lambda>s.
             (case kind of None \<Rightarrow> True | Some k \<Rightarrow> parse_kind k = Inr (sym_kind s)) \<and>
             sym_kind s \<noteq> Impl \<and> sym_kind s \<noteq> Test \<and> sym_name s \<noteq> ''main'' \<and>
             \<not> (\<exists>fs lang r. fs \<in> set scan \<and> scan_language exts (path_join root (fs_file fs)) = Some lang \<and>
                  r \<in> set (extract_references (fs_source fs) (fs_tree fs) (fs_file fs) lang) \<and>
                  extract_name_at_column (ref_context r) (ref_column r) = Some (sym_name s)))
            (mset (all_symbols (from_scan scan)))))"
proof -
  define names where "names = referenced_names exts root scan"
  define found where "found f = sort_key sym_position (filter (is_dead names f) (all_symbols (from_scan scan)))" for f
  have found: "sorted (map sym_position (found f))"
    "mset (found f) = filter_mset (is_dead names f) (mset (all_symbols (from_scan scan)))" for f
    by (simp_all add: found_def)
  consider (err) k e where "kind = Some k" "parse_kind k = Inl e" | (all) "kind = None"
    | (one) k x where "kind = Some k" "parse_kind k = Inr x"
    by (metis not_None_eq obj_sumE)
  then show ?thesis
  proof cases
    case err
    then show ?thesis by (simp add: dead_symbols_def Let_def)
  next
    case all
    then have "dead_symbols exts root scan kind limit = Inr (truncate_to limit (found None))"
      by (simp add: dead_symbols_def Let_def found_def names_def)
    then show ?thesis
      using found[of None] all
      by (auto simp: is_dead_def names_def mem_referenced_names intro!: exI[of _ "found None"] filter_mset_cong)
  next
    case one
    then have "dead_symbols exts root scan kind limit = Inr (truncate_to limit (found (Some x)))"
      by (simp add: dead_symbols_def Let_def found_def names_def)
    then show ?thesis
      using found[of "Some x"] one
      by (auto simp: is_dead_def names_def mem_referenced_names intro!: exI[of _ "found (Some x)"] filter_mset_cong)
  qed
qed

section \<open>Lemmas on call chains\<close>

lemma chain_restores_visited:
  "snd (build_chain_node cm ix d name p visited) = visited"
  "snd (build_callers cm ix d es seen visited) = visited"
proof (induction cm ix d name p visited and cm ix d es seen visited rule: build_chain_node_build_callers.induct)
  case (1 cm ix d name kind f line col visited)
  then show ?case by (auto split: option.split prod.split)
next
  case (3 cm ix d e es seen visited)
  then show ?case by (auto split: prod.split)
qed simp

text \<open>The names along every way from the root of a chain to one of its nodes.\<close>

fun chain_paths :: "call_chain_node \<Rightarrow> string list list" where
  "chain_paths (CallChainNode name kind file line col callers) =
     [name] # map ((#) name) (concat (map chain_paths callers))"

definition caller_names :: "caller_map \<Rightarrow> string \<Rightarrow> string set" where
  "caller_names cm name = (case cm name of None \<Rightarrow> {} | Some es \<Rightarrow> fst ` set es)"

fun linked :: "caller_map \<Rightarrow> string list \<Rightarrow> bool" where
  "linked cm (a # b # r) \<longleftrightarrow> b \<in> caller_names cm a \<and> linked cm (b # r)"
| "linked cm _ \<longleftrightarrow> True"

definition chain_path :: "caller_map \<Rightarrow> nat \<Rightarrow> string set \<Rightarrow> string \<Rightarrow> string list \<Rightarrow> bool" where
  "chain_path cm d visited name ps \<longleftrightarrow>
     (\<exists>q. ps = name # q \<and> length q \<le> d) \<and> distinct (butlast ps) \<and> set (butlast ps) \<inter> visited = {} \<and> linked cm ps"

lemma chain_path_single [simp]: "chain_path cm d visited name [name]"
  by (simp add: chain_path_def)

lemma chain_path_stop: "d = 0 \<or> name \<in> visited \<Longrightarrow> chain_path cm d visited name ps \<longleftrightarrow> ps = [name]"
  by (cases ps; cases "tl ps") (auto simp: chain_path_def)

lemma chain_path_step:
  assumes "name \<notin> visited"
  shows "chain_path cm (Suc d) visited name ps \<longleftrightarrow> ps = [name] \<or>
    (\<exists>b q. ps = name # q \<and> b \<in> caller_names cm name \<and> chain_path cm d (insert name visited) b q)"
proof (cases ps)
  case (Cons a q)
  then show ?thesis using assms by (cases q) (auto simp: chain_path_def)
qed (simp add: chain_path_def)

lemma chain_paths_exact:
  "ps \<in> set (chain_paths (fst (build_chain_node cm ix d name p visited))) \<longleftrightarrow> chain_path cm d visited name ps"
  "(\<exists>n \<in> set (fst (build_callers cm ix d es seen visited)). ps \<in> set (chain_paths n)) \<longleftrightarrow>
     (\<exists>b \<in> fst ` set es - seen. chain_path cm d visited b ps)"
proof (induction cm ix d name p visited and cm ix d es seen visited arbitrary: ps and ps
    rule: build_chain_node_build_callers.induct)
  case (1 cm ix d name kind f line col visited)
  show ?case
  proof (cases "d = 0 \<or> name \<in> visited")
    case True
    then show ?thesis by (simp add: chain_path_stop)
  next
    case False
    then obtain d' where d: "d = Suc d'" "name \<notin> visited" by (cases d) auto
    show ?thesis
    proof (cases "cm name")
      case None
      then show ?thesis using d by (simp add: chain_path_step caller_names_def)
    next
      case (Some callers)
      obtain nodes v where b: "build_callers cm ix d' callers {} (insert name visited) = (nodes, v)" by force
      have ih: "(\<exists>n \<in> set nodes. q \<in> set (chain_paths n)) \<longleftrightarrow>
          (\<exists>b \<in> fst ` set callers. chain_path cm d' (insert name visited) b q)" for q
        using 1[OF False Some] d b by simp
      have "ps \<in> set (chain_paths (fst (build_chain_node cm ix d name (kind, f, line, col) visited))) \<longleftrightarrow>
          ps = [name] \<or> (\<exists>q. ps = name # q \<and> (\<exists>n \<in> set nodes. q \<in> set (chain_paths n)))"
        using False Some d b by auto
      then show ?thesis using d Some by (auto simp: ih chain_path_step caller_names_def)
    qed
  qed
next
  case (3 cm ix d e es seen visited)
  show ?case
  proof (cases "fst e \<in> seen")
    case True
    then show ?thesis using 3(1) by auto
  next
    case False
    obtain child v1 where c: "build_chain_node cm ix d (fst e) (caller_position ix e) visited = (child, v1)" by force
    have v1: "v1 = visited"
      using chain_restores_visited(1)[of cm ix d "fst e" "caller_position ix e" visited] c by simp
    obtain rest v2 where r: "build_callers cm ix d es (insert (fst e) seen) visited = (rest, v2)" by force
    have "\<And>q. (\<exists>n \<in> set rest. q \<in> set (chain_paths n)) \<longleftrightarrow>
        (\<exists>b \<in> fst ` set es - insert (fst e) seen. chain_path cm d visited b q)"
      using 3(3)[OF False c[symmetric]] r v1 by simp
    moreover have "\<And>q. q \<in> set (chain_paths child) \<longleftrightarrow> chain_path cm d visited (fst e) q"
      using 3(2)[OF False] c by simp
    ultimately show ?thesis using False c r v1 by auto
  qed
qed simp

definition call_of :: "reference \<Rightarrow> string \<Rightarrow> string \<Rightarrow> bool" where
  "call_of r caller called \<longleftrightarrow> ref_kind r = Call \<and> ref_caller r = Some caller \<and>
     extract_name_at_column (ref_context r) (ref_column r) = Some called"

text \<open>Some scanned file holds a call of one name inside the function of the other.\<close>

definition calls :: "(string \<rightharpoonup> string) \<Rightarrow> file_symbols list \<Rightarrow> string \<Rightarrow> string \<Rightarrow> bool" where
  "calls exts scan caller called \<longleftrightarrow>
     (\<exists>fs lang r. fs \<in> set scan \<and> scan_language exts (fs_file fs) = Some lang \<and>
        r \<in> set (extract_references (fs_source fs) (fs_tree fs) (fs_file fs) lang) \<and> call_of r caller called)"

lemma add_call_names: "caller_names (add_call r m) a = caller_names m a \<union> {b. call_of r b a}"
  by (auto simp: add_call_def caller_names_def call_of_def Let_def split: option.splits)

lemma fold_add_call_names:
  "caller_names (fold add_call rs m) a = caller_names m a \<union> {b. \<exists>r \<in> set rs. call_of r b a}"
  by (induction rs arbitrary: m) (auto simp: add_call_names)

lemma add_file_calls_names:
  "caller_names (add_file_calls exts fs m) a = caller_names m a \<union> {b. calls exts [fs] b a}"
  by (auto simp: add_file_calls_def fold_add_call_names calls_def split: option.splits)

lemma caller_map_names: "caller_names (build_caller_map exts scan) a = {b. calls exts scan b a}"
proof -
  have "caller_names (fold (add_file_calls exts) scan m) a = caller_names m a \<union> {b. calls exts scan b a}" for m
    by (induction scan arbitrary: m) (auto simp: add_file_calls_names calls_def)
  then show ?thesis by (simp add: build_caller_map_def caller_names_def)
qed

lemma linked_successively: "linked cm ps = successively (\<lambda>a b. b \<in> caller_names cm a) ps"
  by (induction cm ps rule: linked.induct) auto

text \<open>
  C21: the call-chain tree shows exactly the call paths into the symbol: the ways from its root are
  the sequences of names that start with the symbol, have at most \<open>depth\<close> further names, repeat a
  name at most as their last, and in which each name is that of a function with a call of the name
  before it in a scanned file. So recursive calls end the search and no caller is missed.
\<close>

theorem call_chain_exact:
  "ps \<in> set (chain_paths (call_chain exts scan name depth)) \<longleftrightarrow>
     ps \<noteq> [] \<and> hd ps = name \<and> length ps \<le> Suc depth \<and> distinct (butlast ps) \<and>
     successively (\<lambda>called caller. calls exts scan caller called) ps"
proof -
  have "ps \<in> set (chain_paths (call_chain exts scan name depth)) \<longleftrightarrow>
      chain_path (build_caller_map exts scan) depth {} name ps"
    by (simp add: call_chain_def Let_def chain_paths_exact(1) del: build_chain_node.simps)
  also have "\<dots> \<longleftrightarrow> ps \<noteq> [] \<and> hd ps = name \<and> length ps \<le> Suc depth \<and> distinct (butlast ps) \<and>
      linked (build_caller_map exts scan) ps"
    by (cases ps) (auto simp: chain_path_def)
  finally show ?thesis by (simp add: linked_successively caller_map_names)
qed

end
