(* ===== verification/Rename.thy ===== *)
theory Rename
  imports Analysis Cache
begin

text \<open>
  The only command that writes source files (\<open>rename.rs\<close> of the command line): the edits it
  computes from the references and definitions of a name, and their application to the files.
  The hash map of files iterates in an order that is a parameter. None is the panic of replacing
  a range that does not start and end at character boundaries.
\<close>

section \<open>Computing the edits\<close>

record text_edit =
  te_file :: path
  te_line :: nat
  te_column :: nat
  te_end_line :: nat
  te_end_column :: nat
  te_new_text :: string

definition name_edit :: "path \<Rightarrow> nat \<Rightarrow> nat \<Rightarrow> string \<Rightarrow> string \<Rightarrow> text_edit" where
  "name_edit file line column old_name new_name =
     \<lparr>te_file = file, te_line = line, te_column = column, te_end_line = line,
      te_end_column = column + length old_name, te_new_text = new_name\<rparr>"

definition reference_edits ::
  "(string \<rightharpoonup> string) \<Rightarrow> path \<Rightarrow> language option \<Rightarrow> string \<Rightarrow> string \<Rightarrow> file_symbols \<Rightarrow> text_edit list" where
  "reference_edits exts root lang_filter old_name new_name fs =
     (case scan_language exts (path_join root (fs_file fs)) of
        None \<Rightarrow> []
      | Some lang \<Rightarrow>
          if (case lang_filter of Some l \<Rightarrow> lang \<noteq> l | None \<Rightarrow> False) then []
          else
            map (\<lambda>r. name_edit (ref_file r) (ref_line r) (ref_column r) old_name new_name)
              (filter (\<lambda>r. extract_name_at_column (ref_context r) (ref_column r) = Some old_name)
                (extract_references (fs_source fs) (fs_tree fs) (fs_file fs) lang)))"

definition source_map :: "file_symbols list \<Rightarrow> path \<rightharpoonup> string" where
  "source_map scan = fold (\<lambda>fs m. m(fs_file fs \<mapsto> fs_source fs)) scan Map.empty"

text \<open>The edit of a definition: at the first place where its line holds the name as a substring.\<close>

definition definition_edit :: "(path \<rightharpoonup> string) \<Rightarrow> string \<Rightarrow> string \<Rightarrow> symbol \<Rightarrow> text_edit option" where
  "definition_edit sources old_name new_name s =
     (if sym_kind s = Impl then None
      else
        (case sources (sym_file s) of
           None \<Rightarrow> None
         | Some source \<Rightarrow>
             (case get_nth (str_lines source) (sym_line s - 1) of
                None \<Rightarrow> None
              | Some line_text \<Rightarrow>
                  map_option (\<lambda>col. name_edit (sym_file s) (sym_line s) col old_name new_name)
                    (find_sub old_name line_text))))"

definition edit_position :: "text_edit \<Rightarrow> path \<times> nat \<times> nat" where
  "edit_position e = (te_file e, te_line e, te_column e)"

text \<open>\<open>dedup_by\<close>: of neighbours with the same key the first stays.\<close>

fun dedup_key :: "('a \<Rightarrow> 'k) \<Rightarrow> 'a list \<Rightarrow> 'a list" where
  "dedup_key f (x # y # xs) = (if f x = f y then dedup_key f (x # xs) else x # dedup_key f (y # xs))"
| "dedup_key f xs = xs"

definition rename_edits ::
  "(string \<rightharpoonup> string) \<Rightarrow> path \<Rightarrow> file_symbols list \<Rightarrow> language option \<Rightarrow> string \<Rightarrow> string \<Rightarrow> text_edit list" where
  "rename_edits exts root scan lang_filter old_name new_name =
     dedup_key edit_position
       (sort_key edit_position
         (concat (map (reference_edits exts root lang_filter old_name new_name) scan)
          @ List.map_filter (definition_edit (source_map scan) old_name new_name)
              (find_by_name (from_scan scan) old_name)))"

section \<open>Applying them\<close>

definition edit_line :: "text_edit \<Rightarrow> string \<Rightarrow> string option" where
  "edit_line e line =
     (if te_column e + (te_end_column e - te_column e) \<le> length line then
        (if boundary line (te_column e) \<and> boundary line (te_end_column e)
         then Some (take (te_column e) line @ te_new_text e @ drop (te_end_column e) line)
         else None)
      else Some line)"

definition apply_edit :: "text_edit \<Rightarrow> string list \<Rightarrow> string list option" where
  "apply_edit e lines =
     (let line_idx = te_line e - 1 in
      if line_idx < length lines
      then map_option (\<lambda>l. lines[line_idx := l]) (edit_line e (lines ! line_idx))
      else Some lines)"

text \<open>Last line first, and in a line the last column first.\<close>

definition edit_order :: "text_edit list \<Rightarrow> text_edit list" where
  "edit_order es = sort_key (\<lambda>e. (- int (te_line e), - int (te_column e))) es"

definition edit_lines :: "text_edit list \<Rightarrow> string list \<Rightarrow> string list option" where
  "edit_lines es lines = fold (\<lambda>e ls. Option.bind ls (apply_edit e)) (edit_order es) (Some lines)"

definition apply_file_edits :: "string \<Rightarrow> text_edit list \<Rightarrow> string option" where
  "apply_file_edits content es =
     map_option (\<lambda>lines.
         (let new_content = join_with [CHR 0x0A] lines in
          if ends_with_char (CHR 0x0A) content \<and> \<not> ends_with_char (CHR 0x0A) new_content
          then new_content @ [CHR 0x0A] else new_content))
       (edit_lines es (str_lines content))"

text \<open>The files in turn, until one cannot be read or written.\<close>

fun apply_files ::
  "path \<Rightarrow> text_edit list \<Rightarrow> path list \<Rightarrow> disk \<Rightarrow> (io_error option \<times> disk) option" where
  "apply_files root edits [] d = Some (None, d)"
| "apply_files root edits (f # fs) d =
     (case disk_read d (path_join root f) of
        Inl e \<Rightarrow> Some (Some e, d)
      | Inr content \<Rightarrow>
          if \<not> utf8_valid content then Some (Some InvalidData, d)
          else
            (case apply_file_edits content (filter (\<lambda>e. te_file e = f) edits) of
               None \<Rightarrow> None
             | Some new_content \<Rightarrow>
                 (case disk_write d (path_join root f) new_content of
                    (Some e, d') \<Rightarrow> Some (Some e, d')
                  | (None, d') \<Rightarrow> apply_files root edits fs d')))"

definition apply_edits ::
  "(path set \<Rightarrow> path list) \<Rightarrow> path \<Rightarrow> text_edit list \<Rightarrow> disk \<Rightarrow> (io_error option \<times> disk) option" where
  "apply_edits order root edits d = apply_files root edits (order (te_file ` set edits)) d"

section \<open>The command\<close>

record rename_result =
  rn_old_name :: string
  rn_new_name :: string
  rn_edits :: "text_edit list"
  rn_files_affected :: nat
  rn_applied :: bool
  rn_resolution :: resolution

datatype rename_error = SymbolNotFound string | RenameIo io_error

definition should_apply :: "bool \<Rightarrow> bool \<Rightarrow> resolution \<Rightarrow> bool" where
  "should_apply force_apply dry_run r =
     (if force_apply then True else if dry_run then False else r = Semantic \<or> r = Resolved)"

definition rename_run ::
  "(string \<rightharpoonup> string) \<Rightarrow> (path set \<Rightarrow> path list) \<Rightarrow> path \<Rightarrow> file_symbols list \<Rightarrow> language option
    \<Rightarrow> string \<Rightarrow> string \<Rightarrow> bool \<Rightarrow> bool \<Rightarrow> disk \<Rightarrow> ((rename_error + rename_result) \<times> disk) option" where
  "rename_run exts order root scan lang_filter old_name new_name force_apply dry_run d =
     (if find_by_name (from_scan scan) old_name = [] then Some (Inl (SymbolNotFound old_name), d)
      else
        (let edits = rename_edits exts root scan lang_filter old_name new_name;
             apply = should_apply force_apply dry_run Syntactic;
             result = \<lparr>rn_old_name = old_name, rn_new_name = new_name, rn_edits = edits,
               rn_files_affected = card (te_file ` set edits), rn_applied = apply, rn_resolution = Syntactic\<rparr> in
         if apply then
           (case apply_edits order root edits d of
              None \<Rightarrow> None
            | Some (Some e, d') \<Rightarrow> Some (Inl (RenameIo e), d')
            | Some (None, d') \<Rightarrow> Some (Inr result, d'))
         else Some (Inr result, d)))"

section \<open>The edits hit the name\<close>

lemma set_dedup_key: "set (dedup_key f xs) \<subseteq> set xs"
  by (induction f xs rule: dedup_key.induct) (auto split: if_splits)

lemma hd_dedup_key: "xs \<noteq> [] \<Longrightarrow> dedup_key f xs \<noteq> [] \<and> f (hd (dedup_key f xs)) = f (hd xs)"
  by (induction f xs rule: dedup_key.induct) auto

lemma sorted_dedup_key: "sorted (map f xs) \<Longrightarrow> sorted_wrt (<) (map f (dedup_key f xs))"
proof (induction f xs rule: dedup_key.induct)
  case (1 f x y xs)
  show ?case
  proof (cases "f x = f y")
    case True
    with 1 show ?thesis by auto
  next
    case False
    then have lt: "f x < f y" using 1(3) by (auto simp: less_le)
    have "f y \<le> f z" if "z \<in> set (dedup_key f (y # xs))" for z
      using that 1(3) set_dedup_key[of f "y # xs"] by auto
    with lt False 1 show ?thesis by (auto intro: less_le_trans)
  qed
qed auto

lemma extract_name_occurs:
  "extract_name_at_column line column = Some w \<Longrightarrow> occurs_at w line column"
  using extract_name_spec by blast

lemma source_map_fold:
  "fold (\<lambda>fs m. m(fs_file fs \<mapsto> fs_source fs)) scan m p = Some s \<Longrightarrow>
     m p = Some s \<or> (\<exists>fs \<in> set scan. fs_file fs = p \<and> fs_source fs = s)"
  by (induction scan arbitrary: m) (force split: if_split_asm)+

text \<open>
  C19: the edits of a rename are in strictly increasing position, and each replaces, on one line of a
  scanned file, bytes that are the old name by the new name.
\<close>

theorem rename_edits_hit_name:
  "sorted_wrt (<) (map edit_position (rename_edits exts root scan lang_filter old_name new_name)) \<and>
   (\<forall>e \<in> set (rename_edits exts root scan lang_filter old_name new_name).
      te_new_text e = new_name \<and> te_end_line e = te_line e \<and> te_end_column e = te_column e + length old_name \<and>
      (\<exists>fs \<in> set scan. te_file e = fs_file fs \<and>
         occurs_at old_name (line_at (str_lines (fs_source fs)) (te_line e - 1)) (te_column e)))"
proof -
  define refs where "refs = concat (map (reference_edits exts root lang_filter old_name new_name) scan)"
  define defs where "defs = List.map_filter (definition_edit (source_map scan) old_name new_name)
      (find_by_name (from_scan scan) old_name)"
  define good where "good e \<longleftrightarrow> te_new_text e = new_name \<and> te_end_line e = te_line e \<and>
      te_end_column e = te_column e + length old_name \<and>
      (\<exists>fs \<in> set scan. te_file e = fs_file fs \<and>
         occurs_at old_name (line_at (str_lines (fs_source fs)) (te_line e - 1)) (te_column e))" for e :: text_edit
  have e: "rename_edits exts root scan lang_filter old_name new_name =
      dedup_key edit_position (sort_key edit_position (refs @ defs))"
    by (simp add: rename_edits_def refs_def defs_def)
  have "good x" if "x \<in> set refs" for x
  proof -
    from that obtain fs lang r where fs: "fs \<in> set scan"
      and r: "r \<in> set (extract_references (fs_source fs) (fs_tree fs) (fs_file fs) lang)"
      and n: "extract_name_at_column (ref_context r) (ref_column r) = Some old_name"
      and x: "x = name_edit (ref_file r) (ref_line r) (ref_column r) old_name new_name"
      by (auto simp: refs_def reference_edits_def split: option.split_asm if_split_asm)
    from extract_references_context[OF r] extract_name_occurs[OF n] fs show "good x"
      by (auto simp: good_def x name_edit_def)
  qed
  moreover have "good x" if "x \<in> set defs" for x
  proof -
    from that obtain s source line col where
      src: "source_map scan (sym_file s) = Some source"
      and l: "get_nth (str_lines source) (sym_line s - 1) = Some line" and c: "find_sub old_name line = Some col"
      and x: "x = name_edit (sym_file s) (sym_line s) col old_name new_name"
      by (auto simp: defs_def definition_edit_def split: option.split_asm if_split_asm)
    have "occurs_at old_name line col" using c by (simp add: find_sub_Some)
    moreover have "line_at (str_lines source) (sym_line s - 1) = line"
      unfolding line_at_def l by simp
    moreover obtain fs where "fs \<in> set scan" "fs_file fs = sym_file s" "fs_source fs = source"
      using source_map_fold[of scan Map.empty "sym_file s" source] src by (auto simp: source_map_def)
    ultimately show "good x"
      unfolding good_def x name_edit_def by (intro conjI bexI[of _ fs]) simp_all
  qed
  ultimately have "\<forall>x \<in> set (dedup_key edit_position (sort_key edit_position (refs @ defs))). good x"
    using set_dedup_key[of edit_position "sort_key edit_position (refs @ defs)"] by auto
  moreover have "sorted_wrt (<) (map edit_position (dedup_key edit_position (sort_key edit_position (refs @ defs))))"
    by (rule sorted_dedup_key) simp
  ultimately show ?thesis unfolding e good_def by blast
qed

text \<open>Renaming \<open>foo\<close>, whose definition is all there is.\<close>

definition demo_scan :: "file_symbols list" where
  "demo_scan =
     [\<lparr>fs_file = [Normal ''a.rs''],
       fs_symbols = [Symbol ''foo'' Function [Normal ''a.rs''] 1 0 1 Private [] None None None],
       fs_source = ''fn foo() {}'', fs_tree = Node ''source_file'' None True False False 0 0 0 11 0 11 []\<rparr>]"

theorem rename_edits_hit_name_witness:
  "rename_edits Map.empty [] demo_scan None ''foo'' ''bar'' = [name_edit [Normal ''a.rs''] 1 3 ''foo'' ''bar''] \<and>
   occurs_at ''foo'' ''fn foo() {}'' 3"
proof -
  have e: "rename_edits Map.empty [] demo_scan None ''foo'' ''bar'' =
      [name_edit [Normal ''a.rs''] 1 3 ''foo'' ''bar'']" by code_simp
  have l: "line_at (str_lines ''fn foo() {}'') 0 = ''fn foo() {}''" by code_simp
  show ?thesis
    using rename_edits_hit_name[of Map.empty "[]" demo_scan None "''foo''" "''bar''"] e
    by (simp add: demo_scan_def name_edit_def l)
qed

section \<open>Applying the edits substitutes\<close>

text \<open>A line with its edits, first to last, put in from a position on.\<close>

fun splice :: "nat \<Rightarrow> text_edit list \<Rightarrow> string \<Rightarrow> string" where
  "splice pos [] line = drop pos line"
| "splice pos (e # es) line =
     take (te_column e - pos) (drop pos line) @ te_new_text e @ splice (te_end_column e) es line"

text \<open>Edits of a line from left to right, apart from each other, inside the line and at boundaries.\<close>

fun spaced :: "nat \<Rightarrow> text_edit list \<Rightarrow> string \<Rightarrow> bool" where
  "spaced pos [] line \<longleftrightarrow> True"
| "spaced pos (e # es) line \<longleftrightarrow> pos \<le> te_column e \<and> te_column e \<le> te_end_column e \<and>
     te_end_column e \<le> length line \<and> boundary line (te_column e) \<and> boundary line (te_end_column e) \<and>
     spaced (Suc (te_end_column e)) es line"

lemma splice_split:
  assumes "spaced p es line" "pos \<le> p" "p \<le> length line"
  shows "splice pos es line = take (p - pos) (drop pos line) @ splice p es line"
proof (cases es)
  case Nil
  then show ?thesis using assms by simp (metis append_take_drop_id drop_drop le_add_diff_inverse2)
next
  case (Cons e r)
  have "take (te_column e - pos) (drop pos line) =
      take (p - pos) (drop pos line) @ take (te_column e - p) (drop p line)"
    using assms Cons take_add[of "p - pos" "te_column e - p" "drop pos line"] by (simp add: algebra_simps)
  then show ?thesis using Cons by simp
qed

lemma spaced_mono: "spaced p es line \<Longrightarrow> q \<le> p \<Longrightarrow> spaced q es line"
  by (cases es) auto

lemma boundary_prefix:
  "boundary s i \<Longrightarrow> i < length s \<Longrightarrow> take (Suc i) t = take (Suc i) s \<Longrightarrow> boundary t i"
proof -
  assume a: "boundary s i" "i < length s" "take (Suc i) t = take (Suc i) s"
  then have "i < length t" by (metis Suc_le_eq length_take min.absorb_iff2 min.commute)
  moreover have "t ! i = s ! i" using a by (metis lessI nth_take)
  ultimately show ?thesis using a(1,2) by (auto simp: boundary_def slice_from_def split: if_splits)
qed

lemma boundary_end [simp]: "boundary s (length s)"
  by (simp add: boundary_def slice_from_def)

text \<open>Editing a line whose later edits are in place.\<close>

lemma edit_line_splice:
  assumes "spaced 0 (e # es) line"
  shows "edit_line e (splice 0 es line) = Some (splice 0 (e # es) line)"
proof -
  let ?c = "te_column e" and ?d = "te_end_column e"
  from assms have c: "?c \<le> ?d" "?d \<le> length line" "boundary line ?c" "boundary line ?d"
    and sp: "spaced (Suc ?d) es line" by auto
  show ?thesis
  proof (cases es)
    case Nil
    with c show ?thesis by (simp add: edit_line_def)
  next
    case (Cons f r)
    with sp have d: "Suc ?d \<le> length line" by auto
    have out: "splice 0 es line = take (Suc ?d) line @ splice (Suc ?d) es line"
      using splice_split[OF sp le0 d] by simp
    have out2: "splice 0 es line = take ?d line @ splice ?d es line"
      using splice_split[OF spaced_mono[OF sp le_SucI[OF order_refl]] le0] d by simp
    have pre: "take (Suc ?d) (splice 0 es line) = take (Suc ?d) line"
      unfolding out using d by simp
    have shorter: "take k x = take k (take (Suc ?d) x)" if "k \<le> Suc ?d" for k and x :: string
      using that by (simp add: min_absorb1)
    have pre': "take (Suc ?c) (splice 0 es line) = take (Suc ?c) line"
      using c(1) pre shorter[of "Suc ?c"] by (metis Suc_le_mono)
    have "boundary (splice 0 es line) ?c" "boundary (splice 0 es line) ?d"
      using boundary_prefix[OF c(3) _ pre'] boundary_prefix[OF c(4) _ pre] c d by auto
    moreover have "take ?c (splice 0 es line) = take ?c line"
      using c(1) pre shorter[of ?c] by (metis le_SucI)
    moreover have "drop ?d (splice 0 es line) = splice ?d es line" unfolding out2 using d by simp
    moreover have "?d \<le> length (splice 0 es line)" unfolding out2 using d by simp
    ultimately show ?thesis using c(1) by (simp add: edit_line_def)
  qed
qed

lemma spaced_tl: "spaced 0 (e # es) line \<Longrightarrow> spaced 0 es line"
  by (auto intro: spaced_mono)

lemma edit_order_rev:
  assumes "sorted_wrt (\<lambda>a b. (te_line a, te_column a) < (te_line b, te_column b)) es"
  shows "edit_order es = rev es"
  unfolding edit_order_def
proof (rule sort_key_inj_key_eq)
  let ?k = "\<lambda>e. (- int (te_line e), - int (te_column e))"
  have "sorted_wrt (\<lambda>a b. ?k b < ?k a) es"
    by (rule sorted_wrt_mono_rel[OF _ assms]) auto
  then show "sorted (map ?k (rev es))"
    by (simp only: sorted_wrt_map sorted_wrt_rev) (erule sorted_wrt_mono_rel[rotated], rule less_imp_le)
  have "inj_on (\<lambda>e. (te_line e, te_column e)) (set es) \<and> distinct es"
    using assms by (induction es) (fastforce simp: inj_on_def)+
  then show "inj_on ?k (set es)" by (auto simp: inj_on_def)
qed simp

lemma edit_lines_spaced:
  assumes "\<And>i. i < length lines \<Longrightarrow> spaced 0 (filter (\<lambda>e. te_line e - 1 = i) es) (lines ! i)"
  shows "foldr (\<lambda>e ls. Option.bind ls (apply_edit e)) es (Some lines) =
    Some (map (\<lambda>i. splice 0 (filter (\<lambda>e. te_line e - 1 = i) es) (lines ! i)) [0..<length lines])"
  using assms
proof (induction es)
  case Nil
  then show ?case by (simp add: map_nth)
next
  case (Cons e es)
  let ?out = "\<lambda>es. map (\<lambda>i. splice 0 (filter (\<lambda>e. te_line e - 1 = i) es) (lines ! i)) [0..<length lines]"
  let ?i = "te_line e - 1"
  have "spaced 0 (filter (\<lambda>e. te_line e - 1 = i) es) (lines ! i)" if "i < length lines" for i
    using Cons.prems[OF that] spaced_tl by (cases "?i = i") auto
  then have ih: "foldr (\<lambda>e ls. Option.bind ls (apply_edit e)) es (Some lines) = Some (?out es)"
    by (rule Cons.IH)
  show ?case
  proof (cases "?i < length lines")
    case True
    then have "edit_line e (?out es ! ?i) =
        Some (splice 0 (e # filter (\<lambda>x. te_line x - 1 = ?i) es) (lines ! ?i))"
      using Cons.prems[OF True] by (simp del: spaced.simps splice.simps add: edit_line_splice)
    moreover have "(?out es)[?i := splice 0 (e # filter (\<lambda>x. te_line x - 1 = ?i) es) (lines ! ?i)] = ?out (e # es)"
      by (rule nth_equalityI) (auto simp: nth_list_update simp del: splice.simps)
    ultimately have "apply_edit e (?out es) = Some (?out (e # es))"
      using True by (simp only: apply_edit_def Let_def length_map length_upt diff_zero if_True option.map)
    then show ?thesis using ih by (simp only: foldr.simps comp_apply bind.bind_lunit)
  next
    case False
    then have "?out (e # es) = ?out es" by (auto simp del: splice.simps)
    moreover have "apply_edit e (?out es) = Some (?out es)" using False by (simp add: apply_edit_def)
    ultimately show ?thesis using ih by (simp only: foldr.simps comp_apply bind.bind_lunit)
  qed
qed

text \<open>
  C20: applying to a file edits that are in order of position and lie apart on each line replaces,
  in every line and at once, each edited range of the original line by its new text.
\<close>

theorem apply_file_edits_substitutes:
  assumes "sorted_wrt (\<lambda>a b. (te_line a, te_column a) < (te_line b, te_column b)) es"
    and "\<And>i. i < length (str_lines content) \<Longrightarrow>
      spaced 0 (filter (\<lambda>e. te_line e - 1 = i) es) (str_lines content ! i)"
  shows "apply_file_edits content es = Some
    (let out = join_with [CHR 0x0A] (map (\<lambda>i. splice 0 (filter (\<lambda>e. te_line e - 1 = i) es) (str_lines content ! i))
        [0..<length (str_lines content)])
     in if ends_with_char (CHR 0x0A) content \<and> \<not> ends_with_char (CHR 0x0A) out then out @ [CHR 0x0A] else out)"
  using edit_lines_spaced[OF assms(2)] edit_order_rev[OF assms(1)]
  by (simp add: apply_file_edits_def edit_lines_def foldr_conv_fold Let_def)

text \<open>A call and the name of a definition on one line, renamed; a second line without edits.\<close>

definition demo_edits :: "text_edit list" where
  "demo_edits = [name_edit [Normal ''a''] 1 3 ''f'' ''gg'', name_edit [Normal ''a''] 1 7 ''f'' ''gg'']"

theorem apply_file_edits_substitutes_witness:
  "apply_file_edits (''fn f() f'' @ [CHR 0x0A] @ ''x'' @ [CHR 0x0A]) demo_edits =
     Some (''fn gg() gg'' @ [CHR 0x0A] @ ''x'' @ [CHR 0x0A])"
proof -
  let ?c = "''fn f() f'' @ [CHR 0x0A] @ ''x'' @ [CHR 0x0A]"
  have l: "str_lines ?c = [''fn f() f'', ''x'']" by code_simp
  have ascii: "\<not> utf8_cont (CHR ''f'')" "\<not> utf8_cont (CHR ''('')" by code_simp+
  have s: "sorted_wrt (\<lambda>a b. (te_line a, te_column a) < (te_line b, te_column b)) demo_edits"
    by (simp add: demo_edits_def name_edit_def)
  have sp: "spaced 0 (filter (\<lambda>e. te_line e - 1 = i) demo_edits) (str_lines ?c ! i)"
    if "i < length (str_lines ?c)" for i
    using that unfolding l
    by (auto simp: less_Suc_eq demo_edits_def name_edit_def boundary_def slice_from_def ascii)
  note apply_file_edits_substitutes[OF s sp]
  also have "(let out = join_with [CHR 0x0A] (map (\<lambda>i. splice 0 (filter (\<lambda>e. te_line e - 1 = i) demo_edits)
        (str_lines ?c ! i)) [0..<length (str_lines ?c)])
     in if ends_with_char (CHR 0x0A) ?c \<and> \<not> ends_with_char (CHR 0x0A) out then out @ [CHR 0x0A] else out) =
     ''fn gg() gg'' @ [CHR 0x0A] @ ''x'' @ [CHR 0x0A]"
    unfolding l by code_simp
  finally show ?thesis .
qed

section \<open>What the command does to the disk\<close>

text \<open>The resolution is always syntactic: without \<open>--apply\<close> no file is written.\<close>

lemma rename_previews:
  "rename_run exts order root scan lang_filter old_name new_name False dry_run d = Some (r, d') \<Longrightarrow> d' = d"
  by (auto simp: rename_run_def should_apply_def Let_def split: if_split_asm)

text \<open>The first substring may not be the name: here the keyword before it is edited.\<close>

lemma definition_edit_hits_keyword:
  "definition_edit [[Normal ''a''] \<mapsto> ''fn n() {}''] ''n'' ''m''
     (Symbol ''n'' Function [Normal ''a''] 1 0 1 Private [] None None None)
   = Some (name_edit [Normal ''a''] 1 1 ''n'' ''m'')"
  by code_simp

text \<open>Applying no edit is not the identity: a blank last line and carriage returns are lost.\<close>

lemma apply_no_edits_loses_bytes:
  "apply_file_edits (''a'' @ [CHR 0x0A, CHR 0x0A]) [] = Some (''a'' @ [CHR 0x0A])"
  "apply_file_edits (''a'' @ [CHR 0x0D, CHR 0x0A]) [] = Some (''a'' @ [CHR 0x0A])"
  by code_simp+

end
