(* ===== verification/Extract_Base.thy ===== *)
theory Extract_Base
  imports Syntax_Tree
begin

text \<open>
  What the symbol extractors of codequery-parse share. An extractor returns the symbols it pushes,
  in order; None is a panic (a slice of the source that does not lie at character boundaries). A
  node whose name cannot be read yields no symbol. Where the code asks a node for its previous
  siblings, the list of them, nearest first, is passed along. The last section holds the contract
  every extractor keeps, and the rules that prove it.
\<close>

named_theorems extraction "rules for the contract of the extractors"

section \<open>Reading nodes\<close>

definition field_text :: "node \<Rightarrow> string \<Rightarrow> string \<Rightarrow> string option" where
  "field_text n field source = Option.bind (child_by_field_name n field) (\<lambda>c. node_text c source)"

definition with_some :: "'a option \<Rightarrow> ('a \<Rightarrow> 'b list option) \<Rightarrow> 'b list option" where
  "with_some x f = (case x of None \<Rightarrow> Some [] | Some a \<Rightarrow> f a)"

definition with_field :: "node \<Rightarrow> string \<Rightarrow> (node \<Rightarrow> 'b list option) \<Rightarrow> 'b list option" where
  "with_field n field f = with_some (child_by_field_name n field) f"

text \<open>\<open>extract_body\<close>: the source of a node.\<close>

definition extract_body :: "string \<Rightarrow> node \<Rightarrow> string option" where
  "extract_body source n = str_slice source (start_byte n) (end_byte n)"

definition with_body :: "string \<Rightarrow> node \<Rightarrow> (string \<Rightarrow> 'a option) \<Rightarrow> 'a option" where
  "with_body source n f = Option.bind (extract_body source n) f"

fun gather :: "'a list option list \<Rightarrow> 'a list option" where
  "gather [] = Some []"
| "gather (r # rs) = Option.bind r (\<lambda>xs. map_option ((@) xs) (gather rs))"

text \<open>The nodes of a list, each with the ones before it, nearest first.\<close>

fun with_prev :: "node list \<Rightarrow> node list \<Rightarrow> (node list \<times> node) list" where
  "with_prev prev [] = []"
| "with_prev prev (n # ns) = (prev, n) # with_prev (n # prev) ns"

definition broken :: "node \<Rightarrow> bool" where
  "broken n \<longleftrightarrow> node_is_error n \<or> node_is_missing n"

definition each_child :: "(node list \<Rightarrow> node \<Rightarrow> 'a list option) \<Rightarrow> node \<Rightarrow> 'a list option" where
  "each_child f n = gather (map (\<lambda>(prev, c). f prev c) (with_prev [] (node_children n)))"

definition each_sound_child :: "(node list \<Rightarrow> node \<Rightarrow> 'a list option) \<Rightarrow> node \<Rightarrow> 'a list option" where
  "each_sound_child f n = each_child (\<lambda>prev c. if broken c then Some [] else f prev c) n"

definition child_of_kind :: "node \<Rightarrow> string list \<Rightarrow> node option" where
  "child_of_kind n kinds = List.find (\<lambda>c. node_kind c \<in> set kinds) (node_children n)"

definition with_kind :: "node \<Rightarrow> string list \<Rightarrow> (node \<Rightarrow> 'b list option) \<Rightarrow> 'b list option" where
  "with_kind n kinds f = with_some (child_of_kind n kinds) f"

definition first_some :: "('a \<Rightarrow> 'b option) \<Rightarrow> 'a list \<Rightarrow> 'b option" where
  "first_some f xs = (case List.map_filter f xs of [] \<Rightarrow> None | y # _ \<Rightarrow> Some y)"

definition symbol_at ::
  "node \<Rightarrow> path \<Rightarrow> string \<Rightarrow> symbol_kind \<Rightarrow> visibility \<Rightarrow> symbol list \<Rightarrow> string option \<Rightarrow> string
    \<Rightarrow> string option \<Rightarrow> symbol" where
  "symbol_at n file name kind vis children doc body sig =
     Symbol name kind file (start_row n + 1) (start_column n) (end_row n + 1) vis children doc (Some body) sig"

definition has_child_kind :: "string \<Rightarrow> node \<Rightarrow> bool" where
  "has_child_kind kind n \<longleftrightarrow> list_ex (\<lambda>c. node_kind c = kind) (node_children n)"

text \<open>The text of a node, empty where it is no UTF-8.\<close>

definition text_or_empty :: "node \<Rightarrow> string \<Rightarrow> string" where
  "text_or_empty n source = (case node_text n source of Some t \<Rightarrow> t | None \<Rightarrow> [])"

text \<open>The symbol of a node, with the source of the node as its body.\<close>

definition emit ::
  "string \<Rightarrow> path \<Rightarrow> node \<Rightarrow> string \<Rightarrow> symbol_kind \<Rightarrow> visibility \<Rightarrow> symbol list \<Rightarrow> string option
    \<Rightarrow> (string \<Rightarrow> string option) \<Rightarrow> symbol list option" where
  "emit source file n name kind vis children doc sig_of =
     with_body source n (\<lambda>body. Some [symbol_at n file name kind vis children doc body (sig_of body)])"

text \<open>The text of the first child of some kind.\<close>

definition kind_text :: "node \<Rightarrow> string list \<Rightarrow> string \<Rightarrow> string option" where
  "kind_text n kinds source = Option.bind (child_of_kind n kinds) (\<lambda>c. node_text c source)"

section \<open>Texts\<close>

definition is_ascii_uppercase :: "char \<Rightarrow> bool" where
  "is_ascii_uppercase c \<longleftrightarrow> 65 \<le> byte c \<and> byte c \<le> 90"

text \<open>\<open>body.find('{')\<close>.\<close>

definition find_char :: "char \<Rightarrow> string \<Rightarrow> nat option" where
  "find_char c s = find_sub [c] s"


text \<open>
  The first target character outside angle brackets (and outside parentheses, where the code counts
  them). The depths saturate at 32 bits.
\<close>

fun depth_scan :: "char \<times> char \<Rightarrow> bool \<Rightarrow> char \<Rightarrow> nat \<Rightarrow> nat \<Rightarrow> nat \<Rightarrow> string \<Rightarrow> nat option" where
  "depth_scan angles parens target i angle paren [] = None"
| "depth_scan angles parens target i angle paren (c # cs) =
     (if c = fst angles then depth_scan angles parens target (Suc i) (min (Suc angle) (2 ^ 32 - 1)) paren cs
      else if c = snd angles then depth_scan angles parens target (Suc i) (angle - 1) paren cs
      else if parens \<and> c = CHR ''('' then
        depth_scan angles parens target (Suc i) angle (min (Suc paren) (2 ^ 32 - 1)) cs
      else if parens \<and> c = CHR '')'' then depth_scan angles parens target (Suc i) angle (paren - 1) cs
      else if c = target \<and> angle = 0 \<and> paren = 0 then Some i
      else depth_scan angles parens target (Suc i) angle paren cs)"

definition find_top_level :: "char \<times> char \<Rightarrow> bool \<Rightarrow> char \<Rightarrow> string \<Rightarrow> nat option" where
  "find_top_level angles parens target s = depth_scan angles parens target 0 0 0 s"

definition find_top_level_brace :: "string \<Rightarrow> nat option" where
  "find_top_level_brace s = find_top_level (CHR ''<'', CHR ''>'') False (CHR ''{'') s"

text \<open>\<open>body[..pos].trim()\<close>, where the position is that of an ASCII character.\<close>

definition before_or :: "nat option \<Rightarrow> string \<Rightarrow> string \<Rightarrow> string" where
  "before_or pos body otherwise = (case pos of Some p \<Rightarrow> str_trim (take p body) | None \<Rightarrow> otherwise)"

text \<open>\<open>trim().trim_end_matches(';').trim()\<close>, and the same on the first line.\<close>

definition trim_semicolons :: "string \<Rightarrow> string" where
  "trim_semicolons s = str_trim (trim_end_char (CHR '';'') (str_trim s))"

definition first_line_trimmed :: "string \<Rightarrow> string" where
  "first_line_trimmed s = str_trim (trim_end_char (CHR '';'') (first_line s))"

text \<open>
  The comments before a node: siblings of the given kind whose trimmed text is accepted, back to the
  first sibling that is neither such a comment nor of a kind to skip.
\<close>

fun doc_lines :: "string \<Rightarrow> (string \<Rightarrow> bool) \<Rightarrow> string list \<Rightarrow> string \<Rightarrow> node list \<Rightarrow> string list" where
  "doc_lines kind accept skip source [] = []"
| "doc_lines kind accept skip source (sib # rest) =
     (if node_kind sib = kind then
        (case node_text sib source of
           Some t \<Rightarrow>
             (if accept (trim_end t) then trim_end t # doc_lines kind accept skip source rest else [])
         | None \<Rightarrow> [])
      else if node_kind sib \<in> set skip then doc_lines kind accept skip source rest
      else [])"

definition doc_comment ::
  "string \<Rightarrow> (string \<Rightarrow> bool) \<Rightarrow> string list \<Rightarrow> string \<Rightarrow> node list \<Rightarrow> string option" where
  "doc_comment kind accept skip source prev =
     (case doc_lines kind accept skip source prev of
        [] \<Rightarrow> None
      | ls \<Rightarrow> Some (join_with [CHR 0x0A] (rev ls)))"

text \<open>The nearest block comment, line comments aside, if it is one of documentation.\<close>

fun block_doc :: "string \<Rightarrow> string list \<Rightarrow> string \<Rightarrow> node list \<Rightarrow> string option" where
  "block_doc kind skip source [] = None"
| "block_doc kind skip source (sib # rest) =
     (if node_kind sib = kind then
        Option.bind (node_text sib source) (\<lambda>t.
          if starts_with ''/**'' (str_trim t) then Some (str_trim t) else None)
      else if node_kind sib \<in> set skip then block_doc kind skip source rest
      else None)"

section \<open>The contract\<close>

text \<open>A tree that belongs to a source: every node is a slice of it.\<close>

definition well_formed :: "string \<Rightarrow> node \<Rightarrow> bool" where
  "well_formed source root \<longleftrightarrow> list_all (\<lambda>n. extract_body source n \<noteq> None) (subtrees root)"

definition node_bytes :: "string \<Rightarrow> node \<Rightarrow> string" where
  "node_bytes source n = take (end_byte n - start_byte n) (drop (start_byte n) source)"

text \<open>A symbol of a file that stands at a node of its tree, with the source of that node as its body,
  and whose children do, too.\<close>

fun located :: "string \<Rightarrow> path \<Rightarrow> node \<Rightarrow> symbol \<Rightarrow> bool" where
  "located source file root (Symbol name kind f line col endl vis children doc body sig) \<longleftrightarrow>
     f = file \<and>
     (\<exists>n \<in> set (subtrees root). line = start_row n + 1 \<and> col = start_column n \<and> endl = end_row n + 1 \<and>
        body = Some (node_bytes source n)) \<and>
     (\<forall>c \<in> set children. located source file root c)"

definition sound :: "string \<Rightarrow> path \<Rightarrow> node \<Rightarrow> symbol list option \<Rightarrow> bool" where
  "sound source file root r \<longleftrightarrow> (\<exists>ss. r = Some ss \<and> (\<forall>s \<in> set ss. located source file root s))"

text \<open>What a caller may rely on. \<open>ok\<close> is what an extractor needs of its trees beyond that.\<close>

locale extractor =
  fixes ok :: "string \<Rightarrow> node \<Rightarrow> bool"
    and extr :: "string \<Rightarrow> node \<Rightarrow> path \<Rightarrow> symbol list option"
  assumes contract: "well_formed source root \<Longrightarrow> ok source root \<Longrightarrow> sound source file root (extr source root file)"
begin

lemma no_panic: "well_formed source root \<Longrightarrow> ok source root \<Longrightarrow> extr source root file \<noteq> None"
  using contract by (fastforce simp: sound_def)

lemma extracted_located:
  "well_formed source root \<Longrightarrow> ok source root \<Longrightarrow> extr source root file = Some ss \<Longrightarrow> s \<in> set ss \<Longrightarrow>
     located source file root s"
  using contract by (fastforce simp: sound_def)

end

abbreviation any_tree :: "string \<Rightarrow> node \<Rightarrow> bool" where
  "any_tree \<equiv> \<lambda>_ _. True"

section \<open>Rules\<close>

lemma extract_body_bytes: "extract_body source n = Some t \<Longrightarrow> t = node_bytes source n"
  by (auto simp: extract_body_def str_slice_def node_bytes_def split: if_split_asm)

lemma well_formed_body:
  "well_formed source root \<Longrightarrow> n \<in> set (subtrees root) \<Longrightarrow> extract_body source n = Some (node_bytes source n)"
  using extract_body_bytes by (force simp: well_formed_def list_all_iff)

lemma subtree_child:
  "n \<in> set (subtrees root) \<Longrightarrow> c \<in> set (node_children n) \<Longrightarrow> c \<in> set (subtrees root)"
  using subtrees_trans[of c n root] subtrees_child[of c n] subtrees_self[of c] by blast

lemma subtree_field:
  "n \<in> set (subtrees root) \<Longrightarrow> child_by_field_name n f = Some c \<Longrightarrow> c \<in> set (subtrees root)"
  using child_by_field_name_child subtree_child by blast

lemma subtree_kind:
  "n \<in> set (subtrees root) \<Longrightarrow> child_of_kind n ks = Some c \<Longrightarrow> c \<in> set (subtrees root)"
  using subtree_child by (force simp: child_of_kind_def find_Some_iff)

lemma sound_Nil [simp]: "sound source file root (Some [])"
  by (simp add: sound_def)

lemma sound_single [simp]: "sound source file root (Some [s]) \<longleftrightarrow> located source file root s"
  by (simp add: sound_def)

lemma sound_with_some [extraction]:
  "(\<And>a. x = Some a \<Longrightarrow> sound source file root (f a)) \<Longrightarrow> sound source file root (with_some x f)"
  by (simp add: with_some_def split: option.split)

lemma sound_with_body [extraction]:
  "well_formed source root \<Longrightarrow> n \<in> set (subtrees root) \<Longrightarrow>
     sound source file root (f (node_bytes source n)) \<Longrightarrow> sound source file root (with_body source n f)"
  by (simp add: with_body_def well_formed_body)

lemma sound_gather [extraction]:
  "(\<And>r. r \<in> set rs \<Longrightarrow> sound source file root r) \<Longrightarrow> sound source file root (gather rs)"
proof (induction rs)
  case (Cons r rs)
  then have "sound source file root r" "sound source file root (gather rs)" by auto
  then show ?case by (auto simp: sound_def)
qed simp

lemma sound_bind [extraction]:
  "sound source file root r \<Longrightarrow>
     (\<And>ss. \<forall>s \<in> set ss. located source file root s \<Longrightarrow> sound source file root (f ss)) \<Longrightarrow>
     sound source file root (Option.bind r f)"
  by (auto simp: sound_def)

declare gather.simps [simp del]

lemma with_prev_children: "(prev, c) \<in> set (with_prev p ns) \<Longrightarrow> c \<in> set ns"
  by (induction p ns rule: with_prev.induct) auto

lemma sound_each_child [extraction]:
  assumes "n \<in> set (subtrees root)"
    and "\<And>prev c. c \<in> set (subtrees root) \<Longrightarrow> c \<in> set (node_children n) \<Longrightarrow> sound source file root (f prev c)"
  shows "sound source file root (each_child f n)"
  unfolding each_child_def
  by (rule sound_gather) (auto intro!: assms(2) subtree_child[OF assms(1)] dest!: with_prev_children)

lemma sound_each_sound_child [extraction]:
  "n \<in> set (subtrees root) \<Longrightarrow>
     (\<And>prev c. c \<in> set (subtrees root) \<Longrightarrow> c \<in> set (node_children n) \<Longrightarrow> \<not> broken c \<Longrightarrow>
        sound source file root (f prev c)) \<Longrightarrow>
     sound source file root (each_sound_child f n)"
  unfolding each_sound_child_def by (rule sound_each_child) simp_all

lemma sound_with_field [extraction]:
  "n \<in> set (subtrees root) \<Longrightarrow>
     (\<And>c. c \<in> set (subtrees root) \<Longrightarrow> c \<in> set (node_children n) \<Longrightarrow> sound source file root (f c)) \<Longrightarrow>
     sound source file root (with_field n field f)"
  unfolding with_field_def by (rule sound_with_some) (auto dest: subtree_field child_by_field_name_child)

lemma sound_with_kind [extraction]:
  "n \<in> set (subtrees root) \<Longrightarrow>
     (\<And>c. c \<in> set (subtrees root) \<Longrightarrow> sound source file root (f c)) \<Longrightarrow>
     sound source file root (with_kind n kinds f)"
  unfolding with_kind_def by (rule sound_with_some) (auto dest: subtree_kind)

lemma located_symbol_at [extraction]:
  "n \<in> set (subtrees root) \<Longrightarrow> \<forall>c \<in> set children. located source file root c \<Longrightarrow>
     located source file root (symbol_at n file name kind vis children doc (node_bytes source n) sig)"
  by (auto simp: symbol_at_def)

lemma sound_emit [extraction]:
  "well_formed source root \<Longrightarrow> n \<in> set (subtrees root) \<Longrightarrow>
     \<forall>c \<in> set children. located source file root c \<Longrightarrow>
     sound source file root (emit source file n name kind vis children doc sig_of)"
  unfolding emit_def by (auto intro!: extraction)

text \<open>Recursion over the children of a node.\<close>

lemma each_child_cong [fundef_cong]:
  assumes "n = n'" and "\<And>prev c. c \<in> set (node_children n') \<Longrightarrow> f prev c = g prev c"
  shows "each_child f n = each_child g n'"
  using assms with_prev_children by (force simp: each_child_def intro!: arg_cong[of _ _ gather])

lemma each_sound_child_cong [fundef_cong]:
  "n = n' \<Longrightarrow> (\<And>prev c. c \<in> set (node_children n') \<Longrightarrow> f prev c = g prev c) \<Longrightarrow>
     each_sound_child f n = each_sound_child g n'"
  unfolding each_sound_child_def by (rule each_child_cong) simp_all

lemma with_some_cong [fundef_cong]:
  "x = x' \<Longrightarrow> (\<And>a. x' = Some a \<Longrightarrow> f a = g a) \<Longrightarrow> with_some x f = with_some x' g"
  by (simp add: with_some_def split: option.split)

lemma size_child [termination_simp]: "c \<in> set (node_children n) \<Longrightarrow> size c < size n"
  by (cases n) (auto dest!: size_list_estimation'[of _ _ "size c" size])

lemma with_field_cong [fundef_cong]:
  "n = n' \<Longrightarrow> field = field' \<Longrightarrow> (\<And>c. c \<in> set (node_children n') \<Longrightarrow> f c = g c) \<Longrightarrow>
     with_field n field f = with_field n' field' g"
  unfolding with_field_def by (rule with_some_cong) (auto dest: child_by_field_name_child)

end
