(* ===== verification/Extract_Rust.thy ===== *)
theory Extract_Rust
  imports Extract_Base
begin

text \<open>
  \<open>languages/rust.rs\<close> of codequery-parse: the definitions at the top level of a Rust file, the
  methods of its impl blocks, their signatures, visibilities, doc comments and test attributes.
\<close>

section \<open>Signatures\<close>

definition rust_fn_signature :: "string \<Rightarrow> string" where
  "rust_fn_signature body = before_or (find_top_level_brace body) body (trim_semicolons body)"

definition rust_impl_signature :: "string \<Rightarrow> string" where
  "rust_impl_signature body = before_or (find_top_level_brace body) body (str_trim (first_line body))"

definition rust_mod_signature :: "string \<Rightarrow> string" where
  "rust_mod_signature body = before_or (find_top_level_brace body) body (first_line_trimmed body)"

definition rust_signature :: "symbol_kind \<Rightarrow> string \<Rightarrow> string" where
  "rust_signature kind body =
     (if kind \<in> {Function, Method, Test} then rust_fn_signature body
      else if kind \<in> {Struct, Enum, Trait, Class, Interface} then body
      else if kind = Impl then rust_impl_signature body
      else if kind = Module then rust_mod_signature body
      else first_line_trimmed body)"

section \<open>Visibility, tests and comments\<close>

definition rust_modifier :: "string \<Rightarrow> node \<Rightarrow> visibility option" where
  "rust_modifier source c =
     (if node_kind c = ''visibility_modifier'' then
        (let text = text_or_empty c source in
         if starts_with ''pub(crate)'' text \<or> starts_with ''pub(super)'' text \<or> starts_with ''pub(in'' text
         then Some Crate
         else if text = ''pub'' then Some Public else None)
      else None)"

definition rust_visibility :: "node \<Rightarrow> string \<Rightarrow> visibility" where
  "rust_visibility n source =
     (case first_some (rust_modifier source) (node_children n) of Some v \<Rightarrow> v | None \<Rightarrow> Private)"

definition attribute_contains_test :: "node \<Rightarrow> string \<Rightarrow> bool" where
  "attribute_contains_test attr source \<longleftrightarrow>
     list_ex (\<lambda>c. node_kind c = ''attribute'' \<and>
         list_ex (\<lambda>i. node_kind i = ''identifier'' \<and> node_text i source = Some ''test'') (node_children c))
       (node_children attr)"

fun has_test_attribute :: "string \<Rightarrow> node list \<Rightarrow> bool" where
  "has_test_attribute source [] \<longleftrightarrow> False"
| "has_test_attribute source (sib # rest) \<longleftrightarrow>
     (if node_kind sib = ''attribute_item''
      then attribute_contains_test sib source \<or> has_test_attribute source rest
      else if node_kind sib = ''line_comment'' \<or> node_kind sib = ''block_comment''
      then has_test_attribute source rest
      else False)"

definition rust_doc_comment :: "string \<Rightarrow> node list \<Rightarrow> string option" where
  "rust_doc_comment source prev =
     doc_comment ''line_comment'' (starts_with ''///'') [''attribute_item''] source prev"

section \<open>Definitions\<close>

definition rust_symbol ::
  "string \<Rightarrow> path \<Rightarrow> node list \<Rightarrow> node \<Rightarrow> string \<Rightarrow> symbol_kind \<Rightarrow> visibility \<Rightarrow> symbol list
    \<Rightarrow> symbol list option" where
  "rust_symbol source file prev n name kind vis children =
     emit source file n name kind vis children (rust_doc_comment source prev)
       (\<lambda>body. Some (rust_signature kind body))"

definition rust_impl_name :: "node \<Rightarrow> string \<Rightarrow> string option" where
  "rust_impl_name n source =
     Option.bind (field_text n ''type'' source) (\<lambda>type_name.
       case child_by_field_name n ''trait'' of
         Some t \<Rightarrow> map_option (\<lambda>trait_name. trait_name @ '' for '' @ type_name) (node_text t source)
       | None \<Rightarrow> Some type_name)"

definition rust_impl_methods :: "string \<Rightarrow> path \<Rightarrow> node \<Rightarrow> symbol list option" where
  "rust_impl_methods source file n =
     with_field n ''body''
       (each_sound_child (\<lambda>prev c.
          if node_kind c = ''function_item'' then
            with_some (field_text c ''name'' source) (\<lambda>name.
              rust_symbol source file prev c name Method (rust_visibility c source) [])
          else Some []))"

definition rust_item_kinds :: "(string \<times> symbol_kind) list" where
  "rust_item_kinds =
     [(''struct_item'', Struct), (''enum_item'', Enum), (''trait_item'', Trait), (''type_item'', Type),
      (''const_item'', Const), (''static_item'', Static), (''mod_item'', Module)]"

definition rust_top_level :: "string \<Rightarrow> path \<Rightarrow> node list \<Rightarrow> node \<Rightarrow> symbol list option" where
  "rust_top_level source file prev n =
     (if node_kind n = ''function_item'' then
        with_some (field_text n ''name'' source) (\<lambda>name.
          rust_symbol source file prev n name (if has_test_attribute source prev then Test else Function)
            (rust_visibility n source) [])
      else if node_kind n = ''impl_item'' then
        with_some (rust_impl_name n source) (\<lambda>name.
          Option.bind (rust_impl_methods source file n) (\<lambda>children.
            rust_symbol source file prev n name Impl Private children))
      else
        (case map_of rust_item_kinds (node_kind n) of
           None \<Rightarrow> Some []
         | Some kind \<Rightarrow>
             with_some (field_text n ''name'' source) (\<lambda>name.
               rust_symbol source file prev n name kind (rust_visibility n source) [])))"

definition rust_extract :: "string \<Rightarrow> node \<Rightarrow> path \<Rightarrow> symbol list option" where
  "rust_extract source root file = each_sound_child (rust_top_level source file) root"

section \<open>The contract\<close>

lemma rust_symbol_sound [extraction]:
  "well_formed source root \<Longrightarrow> n \<in> set (subtrees root) \<Longrightarrow>
     \<forall>c \<in> set children. located source file root c \<Longrightarrow>
     sound source file root (rust_symbol source file prev n name kind vis children)"
  unfolding rust_symbol_def by (auto intro!: extraction)

lemma rust_impl_methods_sound [extraction]:
  "well_formed source root \<Longrightarrow> n \<in> set (subtrees root) \<Longrightarrow> sound source file root (rust_impl_methods source file n)"
  unfolding rust_impl_methods_def by (auto intro!: extraction)

lemma rust_top_level_sound:
  "well_formed source root \<Longrightarrow> n \<in> set (subtrees root) \<Longrightarrow> sound source file root (rust_top_level source file prev n)"
  unfolding rust_top_level_def by (auto intro!: extraction split: option.split)

interpretation rust: extractor any_tree rust_extract
  by unfold_locales (auto simp: rust_extract_def intro!: extraction rust_top_level_sound)

end
