(* ===== verification/Extract_Scripting.thy ===== *)
theory Extract_Scripting
  imports Extract_Base
begin

text \<open>
  The extractors of the scripting languages: \<open>python.rs\<close>, \<open>ruby.rs\<close>, \<open>php.rs\<close>,
  \<open>lua.rs\<close> and \<open>bash.rs\<close> under \<open>languages/\<close> of codequery-parse.
\<close>

section \<open>Python\<close>

text \<open>The first line that starts with a keyword once its indentation is gone, or the first line.\<close>

definition keyword_line :: "string \<Rightarrow> string \<Rightarrow> string" where
  "keyword_line keyword body =
     (case List.find (starts_with keyword) (map trim_start (str_lines body)) of
        Some l \<Rightarrow> trim_end l
      | None \<Rightarrow> trim_end (first_line body))"

definition py_signature :: "symbol_kind \<Rightarrow> string \<Rightarrow> string" where
  "py_signature kind body =
     (if kind \<in> {Function, Method, Test} then keyword_line ''def '' body
      else if kind = Class then keyword_line ''class '' body
      else if kind = Const then trim_end (first_line body)
      else first_line body)"

definition underscore_visibility :: "string \<Rightarrow> visibility" where
  "underscore_visibility name = (if starts_with ''_'' name then Private else Public)"

definition py_is_test :: "string \<Rightarrow> bool" where
  "py_is_test name \<longleftrightarrow> starts_with ''test_'' name"

text \<open>The first statement of the body, comments aside, if it is a string.\<close>

definition py_docstring :: "string \<Rightarrow> node \<Rightarrow> string option" where
  "py_docstring source n =
     Option.bind (child_by_field_name n ''body'') (\<lambda>body.
       case dropWhile (\<lambda>c. node_kind c = ''comment'') (node_children body) of
         [] \<Rightarrow> None
       | c # _ \<Rightarrow>
           if node_kind c = ''expression_statement''
           then kind_text c [''string'', ''concatenated_string''] source
           else None)"

definition py_function :: "string \<Rightarrow> path \<Rightarrow> node \<Rightarrow> bool \<Rightarrow> symbol list option" where
  "py_function source file n is_method =
     with_some (field_text n ''name'' source) (\<lambda>name.
       let kind = (if py_is_test name then Test else if is_method then Method else Function) in
       emit source file n name kind (underscore_visibility name) [] (py_docstring source n)
         (\<lambda>body. Some (py_signature kind body)))"

text \<open>
  A decorated definition: position and body are those of the decorated node, the signature is that
  of the definition in it.
\<close>

definition py_decorated_symbol ::
  "string \<Rightarrow> path \<Rightarrow> node \<Rightarrow> node \<Rightarrow> string \<Rightarrow> symbol_kind \<Rightarrow> symbol list \<Rightarrow> symbol list option" where
  "py_decorated_symbol source file n c name kind children =
     with_body source n (\<lambda>_. with_body source c (\<lambda>text.
       emit source file n name kind (underscore_visibility name) children (py_docstring source c)
         (\<lambda>_. Some (py_signature kind text))))"

definition py_decorated_method :: "string \<Rightarrow> path \<Rightarrow> node \<Rightarrow> symbol list option" where
  "py_decorated_method source file n =
     each_child (\<lambda>_ c.
       if node_kind c = ''function_definition'' then
         with_some (field_text c ''name'' source) (\<lambda>name.
           py_decorated_symbol source file n c name Method [])
       else Some []) n"

definition py_class_methods :: "string \<Rightarrow> path \<Rightarrow> node \<Rightarrow> symbol list option" where
  "py_class_methods source file n =
     with_field n ''body''
       (each_sound_child (\<lambda>_ c.
          if node_kind c = ''function_definition'' then py_function source file c True
          else if node_kind c = ''decorated_definition'' then py_decorated_method source file c
          else Some []))"

definition py_class :: "string \<Rightarrow> path \<Rightarrow> node \<Rightarrow> symbol list option" where
  "py_class source file n =
     with_some (field_text n ''name'' source) (\<lambda>name.
       Option.bind (py_class_methods source file n) (\<lambda>children.
         emit source file n name Class (underscore_visibility name) children (py_docstring source n)
           (\<lambda>body. Some (py_signature Class body))))"

definition py_decorated :: "string \<Rightarrow> path \<Rightarrow> node \<Rightarrow> symbol list option" where
  "py_decorated source file n =
     each_child (\<lambda>_ c.
       if node_kind c = ''function_definition'' then
         with_some (field_text c ''name'' source) (\<lambda>name.
           py_decorated_symbol source file n c name (if py_is_test name then Test else Function) [])
       else if node_kind c = ''class_definition'' then
         with_some (field_text c ''name'' source) (\<lambda>name.
           Option.bind (py_class_methods source file c) (\<lambda>children.
             py_decorated_symbol source file n c name Class children))
       else Some []) n"

definition is_screaming_snake_case :: "string \<Rightarrow> bool" where
  "is_screaming_snake_case name \<longleftrightarrow> name \<noteq> [] \<and>
     list_all (\<lambda>c. is_ascii_uppercase c \<or> is_ascii_digit c \<or> c = CHR ''_'') name \<and>
     list_ex is_ascii_uppercase name"

definition py_module_constant :: "string \<Rightarrow> path \<Rightarrow> node \<Rightarrow> symbol list option" where
  "py_module_constant source file n =
     with_kind n [''assignment''] (\<lambda>c.
       with_field c ''left'' (\<lambda>left.
         if node_kind left \<noteq> ''identifier'' then Some []
         else
           with_some (node_text left source) (\<lambda>name.
             if \<not> is_screaming_snake_case name then Some []
             else emit source file n name Const (underscore_visibility name) [] None
               (\<lambda>body. Some (py_signature Const body)))))"

definition py_top_level :: "string \<Rightarrow> path \<Rightarrow> node list \<Rightarrow> node \<Rightarrow> symbol list option" where
  "py_top_level source file prev n =
     (if node_kind n = ''function_definition'' then py_function source file n False
      else if node_kind n = ''class_definition'' then py_class source file n
      else if node_kind n = ''decorated_definition'' then py_decorated source file n
      else if node_kind n = ''expression_statement'' then py_module_constant source file n
      else Some [])"

definition py_extract :: "string \<Rightarrow> node \<Rightarrow> path \<Rightarrow> symbol list option" where
  "py_extract source root file = each_sound_child (py_top_level source file) root"

lemmas py_defs = py_function_def py_decorated_symbol_def py_decorated_method_def py_class_methods_def
  py_class_def py_decorated_def py_module_constant_def py_top_level_def py_extract_def

interpretation py: extractor any_tree py_extract
  by unfold_locales (auto simp: py_defs Let_def intro!: extraction)

section \<open>Ruby\<close>

definition ruby_signature :: "symbol_kind \<Rightarrow> string \<Rightarrow> string" where
  "ruby_signature kind body =
     (if kind = Class then keyword_line ''class'' body
      else if kind = Module then keyword_line ''module'' body
      else if kind \<in> {Function, Method, Const} then trim_end (first_line body)
      else first_line body)"

definition ruby_comment :: "string \<Rightarrow> node list \<Rightarrow> string option" where
  "ruby_comment source prev = doc_comment ''comment'' (\<lambda>_. True) [] source prev"

definition ruby_symbol ::
  "string \<Rightarrow> path \<Rightarrow> node list \<Rightarrow> node \<Rightarrow> string \<Rightarrow> symbol_kind \<Rightarrow> symbol list \<Rightarrow> symbol list option" where
  "ruby_symbol source file prev n name kind children =
     emit source file n name kind (underscore_visibility name) children (ruby_comment source prev)
       (\<lambda>body. Some (ruby_signature kind body))"

definition ruby_method :: "string \<Rightarrow> path \<Rightarrow> node list \<Rightarrow> node \<Rightarrow> bool \<Rightarrow> symbol list option" where
  "ruby_method source file prev n is_method =
     with_some (kind_text n [''identifier''] source) (\<lambda>name.
       ruby_symbol source file prev n name (if is_method then Method else Function) [])"

definition ruby_singleton_method :: "string \<Rightarrow> path \<Rightarrow> node list \<Rightarrow> node \<Rightarrow> symbol list option" where
  "ruby_singleton_method source file prev n =
     with_some (kind_text n [''identifier''] source) (\<lambda>name.
       ruby_symbol source file prev n name Function [])"

definition ruby_constant_assignment :: "string \<Rightarrow> path \<Rightarrow> node \<Rightarrow> symbol list option" where
  "ruby_constant_assignment source file n =
     (case node_children n of
        [] \<Rightarrow> Some []
      | left # _ \<Rightarrow>
          if node_kind left \<noteq> ''constant'' then Some []
          else
            with_some (node_text left source) (\<lambda>name.
              emit source file n name Const Public [] None (\<lambda>body. Some (ruby_signature Const body))))"

text \<open>Classes nest: \<open>extract_class\<close> and \<open>extract_body_methods\<close> call each other.\<close>

function ruby_class :: "string \<Rightarrow> path \<Rightarrow> node list \<Rightarrow> node \<Rightarrow> symbol list option"
and ruby_body_methods :: "string \<Rightarrow> path \<Rightarrow> node \<Rightarrow> symbol list option" where
  "ruby_class source file prev n =
     with_some (kind_text n [''constant'', ''scope_resolution''] source) (\<lambda>name.
       Option.bind (ruby_body_methods source file n) (\<lambda>children.
         ruby_symbol source file prev n name Class children))"
| "ruby_body_methods source file n =
     each_child (\<lambda>_ c.
       if node_kind c = ''body_statement'' then
         each_sound_child (\<lambda>prev b.
           if node_kind b = ''method'' then ruby_method source file prev b True
           else if node_kind b = ''singleton_method'' then ruby_singleton_method source file prev b
           else if node_kind b = ''class'' then ruby_class source file prev b
           else if node_kind b = ''assignment'' then ruby_constant_assignment source file b
           else Some []) c
       else Some []) n"
  by pat_completeness auto
termination
  by (relation "measure (case_sum (\<lambda>(s, f, p, n). Suc (2 * size n)) (\<lambda>(s, f, n). 2 * size n))")
    (auto dest!: size_child)

declare ruby_class.simps [simp del] ruby_body_methods.simps [simp del]

definition ruby_module :: "string \<Rightarrow> path \<Rightarrow> node list \<Rightarrow> node \<Rightarrow> symbol list option" where
  "ruby_module source file prev n =
     with_some (kind_text n [''constant'', ''scope_resolution''] source) (\<lambda>name.
       Option.bind (ruby_body_methods source file n) (\<lambda>children.
         ruby_symbol source file prev n name Module children))"

definition ruby_top_level :: "string \<Rightarrow> path \<Rightarrow> node list \<Rightarrow> node \<Rightarrow> symbol list option" where
  "ruby_top_level source file prev n =
     (if node_kind n = ''method'' then ruby_method source file prev n False
      else if node_kind n = ''singleton_method'' then ruby_singleton_method source file prev n
      else if node_kind n = ''class'' then ruby_class source file prev n
      else if node_kind n = ''module'' then ruby_module source file prev n
      else if node_kind n = ''assignment'' then ruby_constant_assignment source file n
      else Some [])"

definition ruby_extract :: "string \<Rightarrow> node \<Rightarrow> path \<Rightarrow> symbol list option" where
  "ruby_extract source root file = each_sound_child (ruby_top_level source file) root"

lemmas ruby_defs = ruby_symbol_def ruby_method_def ruby_singleton_method_def ruby_constant_assignment_def

lemma ruby_nested_sound:
  "well_formed source root \<Longrightarrow> n \<in> set (subtrees root) \<Longrightarrow> sound source q root (ruby_class source q prev n)"
  "well_formed source root \<Longrightarrow> n \<in> set (subtrees root) \<Longrightarrow> sound source q root (ruby_body_methods source q n)"
proof (induction source q prev n and source q n rule: ruby_class_ruby_body_methods.induct)
  case (1 source f prev n)
  then show ?case by (subst ruby_class.simps) (auto simp: ruby_defs intro!: extraction)
next
  case (2 source f n)
  then show ?case
    by (subst ruby_body_methods.simps) (auto simp: ruby_defs intro!: extraction split: list.split)
qed

interpretation ruby: extractor any_tree ruby_extract
  by unfold_locales
    (auto simp: ruby_extract_def ruby_top_level_def ruby_module_def ruby_defs
      intro!: extraction ruby_nested_sound split: list.split)

section \<open>PHP\<close>

definition php_header :: "string \<Rightarrow> string" where
  "php_header body = before_or (find_char (CHR ''{'') body) body (str_trim (first_line body))"

definition php_signature :: "symbol_kind \<Rightarrow> string \<Rightarrow> string" where
  "php_signature kind body =
     (if kind \<in> {Function, Method} then before_or (find_char (CHR ''{'') body) body (trim_semicolons body)
      else if kind \<in> {Class, Interface, Trait} then php_header body
      else if kind \<in> {Const, Module} then str_trim (trim_end_char (CHR '';'') body)
      else first_line body)"

definition php_visibility :: "node \<Rightarrow> string \<Rightarrow> visibility" where
  "php_visibility n source =
     (case kind_text n [''visibility_modifier''] source of
        Some text \<Rightarrow> if text = ''private'' \<or> text = ''protected'' then Private else Public
      | None \<Rightarrow> Public)"

definition php_doc_comment :: "string \<Rightarrow> node list \<Rightarrow> string option" where
  "php_doc_comment source prev =
     (case prev of
        [] \<Rightarrow> None
      | sib # _ \<Rightarrow>
          if node_kind sib = ''comment'' then
            Option.bind (node_text sib source) (\<lambda>text.
              if starts_with ''/**'' text then Some (trim_end text) else None)
          else None)"

definition php_name :: "node \<Rightarrow> string \<Rightarrow> string option" where
  "php_name n source = kind_text n [''name''] source"

definition php_symbol ::
  "string \<Rightarrow> path \<Rightarrow> node list \<Rightarrow> node \<Rightarrow> symbol_kind \<Rightarrow> visibility \<Rightarrow> symbol list \<Rightarrow> symbol list option" where
  "php_symbol source file prev n kind vis children =
     with_some (php_name n source) (\<lambda>name.
       emit source file n name kind vis children (php_doc_comment source prev)
         (\<lambda>body. Some (php_signature kind body)))"

text \<open>One symbol for each element of a constant declaration, all at the declaration.\<close>

definition php_constants :: "string \<Rightarrow> path \<Rightarrow> node \<Rightarrow> visibility \<Rightarrow> symbol list option" where
  "php_constants source file n vis =
     each_child (\<lambda>_ c.
       if node_kind c = ''const_element'' then
         with_some (php_name c source) (\<lambda>name.
           emit source file n name Const vis [] None (\<lambda>body. Some (php_signature Const body)))
       else Some []) n"

definition php_members :: "string \<Rightarrow> path \<Rightarrow> node \<Rightarrow> symbol list option" where
  "php_members source file n =
     each_child (\<lambda>_ c.
       if node_kind c = ''declaration_list'' then
         each_sound_child (\<lambda>prev m.
           if node_kind m = ''method_declaration'' then
             php_symbol source file prev m Method (php_visibility m source) []
           else if node_kind m = ''const_declaration'' then
             php_constants source file m (php_visibility m source)
           else Some []) c
       else Some []) n"

text \<open>Classes, interfaces and traits: nothing is computed when the name is missing.\<close>

definition php_container :: "string \<Rightarrow> path \<Rightarrow> node list \<Rightarrow> node \<Rightarrow> symbol_kind \<Rightarrow> symbol list option" where
  "php_container source file prev n kind =
     with_some (php_name n source) (\<lambda>_.
       Option.bind (php_members source file n) (\<lambda>children.
         php_symbol source file prev n kind Public children))"

definition php_namespace :: "string \<Rightarrow> path \<Rightarrow> node \<Rightarrow> symbol list option" where
  "php_namespace source file n =
     with_some (kind_text n [''namespace_name''] source) (\<lambda>name.
       emit source file n name Module Public [] None (\<lambda>body. Some (php_signature Module body)))"

definition php_top_level :: "string \<Rightarrow> path \<Rightarrow> node list \<Rightarrow> node \<Rightarrow> symbol list option" where
  "php_top_level source file prev n =
     (if node_kind n = ''function_definition'' then php_symbol source file prev n Function Public []
      else if node_kind n = ''class_declaration'' then php_container source file prev n Class
      else if node_kind n = ''interface_declaration'' then php_container source file prev n Interface
      else if node_kind n = ''trait_declaration'' then php_container source file prev n Trait
      else if node_kind n = ''const_declaration'' then php_constants source file n Public
      else if node_kind n = ''namespace_definition'' then php_namespace source file n
      else Some [])"

definition php_extract :: "string \<Rightarrow> node \<Rightarrow> path \<Rightarrow> symbol list option" where
  "php_extract source root file = each_sound_child (php_top_level source file) root"

lemma php_members_sound [extraction]:
  "well_formed source root \<Longrightarrow> n \<in> set (subtrees root) \<Longrightarrow> sound source q root (php_members source q n)"
  unfolding php_members_def php_symbol_def php_constants_def by (auto intro!: extraction)

interpretation php: extractor any_tree php_extract
  by unfold_locales
    (auto simp: php_extract_def php_top_level_def php_container_def php_namespace_def php_constants_def
      php_symbol_def intro!: extraction)

section \<open>Lua\<close>

definition has_local_child :: "node \<Rightarrow> bool" where
  "has_local_child n \<longleftrightarrow> has_child_kind ''local'' n"

definition lua_function_name :: "node \<Rightarrow> string \<Rightarrow> string" where
  "lua_function_name n source =
     (case child_by_field_name n ''name'' of
        Some c \<Rightarrow>
          if node_kind c \<in> {''identifier'', ''dot_index_expression''} then text_or_empty c source
          else ''anonymous''
      | None \<Rightarrow> ''anonymous'')"

definition lua_doc_comment :: "string \<Rightarrow> node list \<Rightarrow> string option" where
  "lua_doc_comment source prev = doc_comment ''comment'' (starts_with ''--'') [] source prev"

definition lua_signature :: "string \<Rightarrow> string" where
  "lua_signature body = trim_end (first_line body)"

text \<open>The last identifier on the left of an assignment, and whether a table is on its right.\<close>

definition parse_assignment_statement :: "node \<Rightarrow> string \<Rightarrow> string option \<times> bool" where
  "parse_assignment_statement n source =
     (fold (\<lambda>c name.
          if node_kind c = ''variable_list''
          then fold (\<lambda>i name. if node_kind i = ''identifier'' then node_text i source else name)
                 (node_children c) name
          else name) (node_children n) None,
      list_ex (\<lambda>c. node_kind c = ''expression_list'' \<and>
          list_ex (\<lambda>i. node_kind i = ''table_constructor'') (node_children c)) (node_children n))"

definition lua_variable_symbol :: "string \<Rightarrow> path \<Rightarrow> node list \<Rightarrow> node \<Rightarrow> symbol list option" where
  "lua_variable_symbol source file prev n =
     each_child (\<lambda>_ c.
       if node_kind c = ''assignment_statement'' then
         (case parse_assignment_statement c source of
            (name, has_table) \<Rightarrow>
              if has_table then
                with_some name (\<lambda>name.
                  if name \<noteq> [] then
                    emit source file n name Module Private [] (lua_doc_comment source prev)
                      (\<lambda>body. Some (lua_signature body))
                  else Some [])
              else Some [])
       else Some []) n"

definition lua_top_level :: "string \<Rightarrow> path \<Rightarrow> node list \<Rightarrow> node \<Rightarrow> symbol list option" where
  "lua_top_level source file prev n =
     (if node_kind n = ''function_declaration'' then
        emit source file n (lua_function_name n source) Function
          (if has_local_child n then Private else Public) [] (lua_doc_comment source prev)
          (\<lambda>body. Some (lua_signature body))
      else if node_kind n = ''variable_declaration'' then lua_variable_symbol source file prev n
      else Some [])"

definition lua_extract :: "string \<Rightarrow> node \<Rightarrow> path \<Rightarrow> symbol list option" where
  "lua_extract source root file = each_sound_child (lua_top_level source file) root"

interpretation lua: extractor any_tree lua_extract
  by unfold_locales
    (auto simp: lua_extract_def lua_top_level_def lua_variable_symbol_def intro!: extraction split: prod.split)

section \<open>Bash\<close>

definition bash_signature :: "string \<Rightarrow> string" where
  "bash_signature body = before_or (find_char (CHR ''{'') body) body (trim_end (first_line body))"

definition bash_top_level :: "string \<Rightarrow> path \<Rightarrow> node list \<Rightarrow> node \<Rightarrow> symbol list option" where
  "bash_top_level source file prev n =
     (if node_kind n = ''function_definition'' then
        with_some (field_text n ''name'' source) (\<lambda>name.
          emit source file n name Function Public []
            (doc_comment ''comment'' (starts_with ''#'') [] source prev) (\<lambda>body. Some (bash_signature body)))
      else Some [])"

definition bash_extract :: "string \<Rightarrow> node \<Rightarrow> path \<Rightarrow> symbol list option" where
  "bash_extract source root file = each_sound_child (bash_top_level source file) root"

interpretation bash: extractor any_tree bash_extract
  by unfold_locales (auto simp: bash_extract_def bash_top_level_def intro!: extraction)

end
