(* ===== verification/Extract_Objects.thy ===== *)
theory Extract_Objects
  imports Extract_Base
begin

text \<open>
  The extractors of Java, C#, TypeScript (and JavaScript) and Go: \<open>java.rs\<close>, \<open>csharp.rs\<close>,
  \<open>typescript.rs\<close> and \<open>go.rs\<close> under \<open>languages/\<close> of codequery-parse.
\<close>

section \<open>Java\<close>

definition java_signature :: "symbol_kind \<Rightarrow> string \<Rightarrow> string" where
  "java_signature kind body =
     (if kind = Method then before_or (find_top_level_brace body) body (trim_semicolons body)
      else if kind \<in> {Class, Interface, Enum, Type}
      then before_or (find_top_level_brace body) body (str_trim (first_line body))
      else if kind \<in> {Const, Static} then first_line_trimmed body
      else if kind = Module then str_trim (trim_end_char (CHR '';'') body)
      else body)"

definition java_modifier :: "node \<Rightarrow> visibility option" where
  "java_modifier c =
     (if node_kind c = ''public'' then Some Public
      else if node_kind c = ''private'' then Some Private
      else if node_kind c = ''protected'' then Some Crate else None)"

definition java_visibility :: "node \<Rightarrow> visibility" where
  "java_visibility n =
     (case Option.bind (child_of_kind n [''modifiers'']) (\<lambda>m. first_some java_modifier (node_children m)) of
        Some v \<Rightarrow> v | None \<Rightarrow> Crate)"

definition javadoc :: "string \<Rightarrow> node list \<Rightarrow> string option" where
  "javadoc source prev = block_doc ''block_comment'' [''line_comment''] source prev"

definition java_symbol ::
  "string \<Rightarrow> path \<Rightarrow> node list \<Rightarrow> node \<Rightarrow> string \<Rightarrow> symbol_kind \<Rightarrow> symbol list \<Rightarrow> symbol list option" where
  "java_symbol source file prev n name kind children =
     emit source file n name kind (java_visibility n) children (javadoc source prev)
       (\<lambda>body. Some (java_signature kind body))"

definition java_package :: "string \<Rightarrow> path \<Rightarrow> node \<Rightarrow> symbol list option" where
  "java_package source file n =
     with_some (kind_text n [''scoped_identifier'', ''identifier''] source) (\<lambda>name.
       emit source file n name Module Public [] None (\<lambda>body. Some (java_signature Module body)))"

definition java_method :: "string \<Rightarrow> path \<Rightarrow> node list \<Rightarrow> node \<Rightarrow> symbol list option" where
  "java_method source file prev n =
     with_some (field_text n ''name'' source) (\<lambda>name. java_symbol source file prev n name Method [])"

text \<open>The name of the first declarator that has one.\<close>

definition java_field_name :: "node \<Rightarrow> string \<Rightarrow> string option" where
  "java_field_name n source =
     Option.bind
       (first_some (\<lambda>c. if node_kind c = ''variable_declarator'' then child_by_field_name c ''name'' else None)
         (node_children n))
       (\<lambda>c. node_text c source)"

definition java_field :: "string \<Rightarrow> path \<Rightarrow> node list \<Rightarrow> node \<Rightarrow> symbol list option" where
  "java_field source file prev n =
     with_some (child_of_kind n [''modifiers'']) (\<lambda>m.
       if \<not> has_child_kind ''static'' m then Some []
       else
         with_some (java_field_name n source) (\<lambda>name.
           java_symbol source file prev n name (if has_child_kind ''final'' m then Const else Static) []))"

definition java_class_members :: "string \<Rightarrow> path \<Rightarrow> node \<Rightarrow> symbol list option" where
  "java_class_members source file n =
     with_field n ''body''
       (each_sound_child (\<lambda>prev c.
          if node_kind c \<in> {''method_declaration'', ''constructor_declaration''} then
            java_method source file prev c
          else if node_kind c = ''field_declaration'' then java_field source file prev c
          else Some []))"

definition java_interface_members :: "string \<Rightarrow> path \<Rightarrow> node \<Rightarrow> symbol list option" where
  "java_interface_members source file n =
     with_field n ''body''
       (each_sound_child (\<lambda>prev c.
          if node_kind c = ''method_declaration'' then java_method source file prev c else Some []))"

definition java_type_declaration :: "string \<Rightarrow> path \<Rightarrow> node list \<Rightarrow> node \<Rightarrow> symbol list option" where
  "java_type_declaration source file prev n =
     with_some (field_text n ''name'' source) (\<lambda>name.
       if node_kind n = ''class_declaration'' then
         Option.bind (java_class_members source file n) (java_symbol source file prev n name Class)
       else if node_kind n = ''interface_declaration'' then
         Option.bind (java_interface_members source file n) (java_symbol source file prev n name Interface)
       else if node_kind n = ''enum_declaration'' then java_symbol source file prev n name Enum []
       else if node_kind n = ''annotation_type_declaration'' then java_symbol source file prev n name Type []
       else Some [])"

definition java_top_level :: "string \<Rightarrow> path \<Rightarrow> node list \<Rightarrow> node \<Rightarrow> symbol list option" where
  "java_top_level source file prev n =
     (if node_kind n = ''package_declaration'' then java_package source file n
      else if node_kind n \<in> {''class_declaration'', ''interface_declaration'', ''enum_declaration'',
          ''annotation_type_declaration''} then java_type_declaration source file prev n
      else Some [])"

definition java_extract :: "string \<Rightarrow> node \<Rightarrow> path \<Rightarrow> symbol list option" where
  "java_extract source root file = each_sound_child (java_top_level source file) root"

lemma java_members_sound [extraction]:
  "well_formed source root \<Longrightarrow> n \<in> set (subtrees root) \<Longrightarrow> sound source q root (java_class_members source q n)"
  "well_formed source root \<Longrightarrow> n \<in> set (subtrees root) \<Longrightarrow> sound source q root (java_interface_members source q n)"
  unfolding java_class_members_def java_interface_members_def java_method_def java_field_def java_symbol_def
  by (auto intro!: extraction)

interpretation java: extractor any_tree java_extract
  by unfold_locales
    (auto simp: java_extract_def java_top_level_def java_package_def java_type_declaration_def java_symbol_def
      intro!: extraction)

section \<open>C#\<close>

definition cs_signature :: "symbol_kind \<Rightarrow> string \<Rightarrow> string" where
  "cs_signature kind body =
     (if kind \<in> {Function, Method} then before_or (find_char (CHR ''{'') body) body (trim_semicolons body)
      else if kind \<in> {Class, Struct, Interface, Enum, Module}
      then before_or (find_char (CHR ''{'') body) body (str_trim (first_line body))
      else first_line body)"

definition cs_modifier :: "string \<Rightarrow> node \<Rightarrow> visibility option" where
  "cs_modifier source c =
     (if node_kind c = ''modifier'' then
        Option.bind (node_text c source) (\<lambda>text.
          if text = ''public'' then Some Public
          else if text = ''internal'' then Some Crate
          else if text = ''private'' \<or> text = ''protected'' then Some Private else None)
      else None)"

definition cs_visibility :: "node \<Rightarrow> string \<Rightarrow> visibility" where
  "cs_visibility n source =
     (case first_some (cs_modifier source) (node_children n) of Some v \<Rightarrow> v | None \<Rightarrow> Private)"

definition cs_doc_comment :: "string \<Rightarrow> node list \<Rightarrow> string option" where
  "cs_doc_comment source prev = doc_comment ''comment'' (starts_with ''///'') [] source prev"

text \<open>The name is the first identifier among the children.\<close>

definition cs_symbol ::
  "string \<Rightarrow> path \<Rightarrow> node list \<Rightarrow> node \<Rightarrow> symbol_kind \<Rightarrow> symbol list \<Rightarrow> (string \<Rightarrow> string) \<Rightarrow> symbol list option" where
  "cs_symbol source file prev n kind children sig_of =
     with_some (kind_text n [''identifier''] source) (\<lambda>name.
       emit source file n name kind (cs_visibility n source) children (cs_doc_comment source prev)
         (\<lambda>body. Some (sig_of body)))"

definition cs_class_members :: "string \<Rightarrow> path \<Rightarrow> node \<Rightarrow> symbol list option" where
  "cs_class_members source file n =
     each_child (\<lambda>_ c.
       if node_kind c = ''declaration_list'' then
         each_sound_child (\<lambda>prev m.
           if node_kind m \<in> {''method_declaration'', ''constructor_declaration''} then
             cs_symbol source file prev m Method [] (cs_signature Method)
           else if node_kind m = ''property_declaration'' then
             cs_symbol source file prev m Static [] (\<lambda>body. str_trim (first_line body))
           else Some []) c
       else Some []) n"

definition cs_container :: "string \<Rightarrow> path \<Rightarrow> node list \<Rightarrow> node \<Rightarrow> symbol_kind \<Rightarrow> symbol list option" where
  "cs_container source file prev n kind =
     with_some (kind_text n [''identifier''] source) (\<lambda>_.
       Option.bind (cs_class_members source file n) (\<lambda>children.
         cs_symbol source file prev n kind children (cs_signature kind)))"

definition cs_namespace :: "string \<Rightarrow> path \<Rightarrow> node \<Rightarrow> symbol list option" where
  "cs_namespace source file n =
     with_some (kind_text n [''qualified_name'', ''identifier''] source) (\<lambda>name.
       emit source file n name Module Public [] None (\<lambda>body. Some (cs_signature Module body)))"

text \<open>A namespace yields its symbol and then the declarations in it.\<close>

function cs_from_node :: "string \<Rightarrow> path \<Rightarrow> bool \<Rightarrow> node \<Rightarrow> symbol list option"
and cs_namespace_body :: "string \<Rightarrow> path \<Rightarrow> node \<Rightarrow> symbol list option" where
  "cs_from_node source file top_level n =
     each_sound_child (\<lambda>prev c.
       if node_kind c = ''namespace_declaration'' then
         gather [cs_namespace source file c, cs_namespace_body source file c]
       else if node_kind c = ''class_declaration'' then cs_container source file prev c Class
       else if node_kind c = ''struct_declaration'' then cs_container source file prev c Struct
       else if node_kind c = ''interface_declaration'' then cs_container source file prev c Interface
       else if node_kind c = ''enum_declaration'' then
         cs_symbol source file prev c Enum [] (cs_signature Enum)
       else if top_level then cs_from_node source file False c
       else Some []) n"
| "cs_namespace_body source file n =
     each_child (\<lambda>_ c.
       if node_kind c = ''declaration_list'' then cs_from_node source file False c else Some []) n"
  by pat_completeness auto
termination
  by (relation "measure (case_sum (\<lambda>(s, f, t, n). size n) (\<lambda>(s, f, n). size n))") (auto dest!: size_child)

declare cs_from_node.simps [simp del] cs_namespace_body.simps [simp del]

definition cs_extract :: "string \<Rightarrow> node \<Rightarrow> path \<Rightarrow> symbol list option" where
  "cs_extract source root file = cs_from_node source file True root"

lemma cs_parts_sound [extraction]:
  "well_formed source root \<Longrightarrow> n \<in> set (subtrees root) \<Longrightarrow> sound source q root (cs_namespace source q n)"
  "well_formed source root \<Longrightarrow> n \<in> set (subtrees root) \<Longrightarrow> sound source q root (cs_container source q prev n kind)"
  "well_formed source root \<Longrightarrow> n \<in> set (subtrees root) \<Longrightarrow> sound source q root (cs_symbol source q prev n kind [] sg)"
  unfolding cs_namespace_def cs_container_def cs_class_members_def cs_symbol_def
  by (auto intro!: extraction)

lemma cs_nested_sound:
  "well_formed source root \<Longrightarrow> n \<in> set (subtrees root) \<Longrightarrow> sound source q root (cs_from_node source q b n)"
  "well_formed source root \<Longrightarrow> n \<in> set (subtrees root) \<Longrightarrow> sound source q root (cs_namespace_body source q n)"
proof (induction source q b n and source q n rule: cs_from_node_cs_namespace_body.induct)
  case (1 source q b n)
  then show ?case
    by (subst cs_from_node.simps) (auto intro!: sound_each_sound_child sound_gather cs_parts_sound)
next
  case (2 source q n)
  then show ?case by (subst cs_namespace_body.simps) (auto intro!: extraction)
qed

interpretation csharp: extractor any_tree cs_extract
  by unfold_locales (simp add: cs_extract_def cs_nested_sound)

section \<open>TypeScript and JavaScript\<close>

definition ts_brace :: "string \<Rightarrow> nat option" where
  "ts_brace body = find_top_level (CHR ''<'', CHR ''>'') True (CHR ''{'') body"

definition ts_class_signature :: "string \<Rightarrow> string" where
  "ts_class_signature body =
     (case ts_brace body of
        Some p \<Rightarrow> str_trim (take p body) @ '' { ... }''
      | None \<Rightarrow> str_trim (first_line body))"

definition ts_signature :: "symbol_kind \<Rightarrow> string \<Rightarrow> string" where
  "ts_signature kind body =
     (if kind \<in> {Function, Method} then before_or (ts_brace body) body (trim_semicolons body)
      else if kind = Class then ts_class_signature body
      else if kind \<in> {Type, Const} then first_line_trimmed body
      else body)"

definition ts_doc_comment :: "string \<Rightarrow> node list \<Rightarrow> string option" where
  "ts_doc_comment source prev =
     doc_comment ''comment'' (\<lambda>t. starts_with ''///'' t \<or> starts_with ''/**'' t \<or> starts_with ''//'' t) []
       source prev"

text \<open>Inside an export statement the comments before the statement count.\<close>

definition ts_doc_siblings :: "node \<Rightarrow> node list \<Rightarrow> node list \<Rightarrow> node list" where
  "ts_doc_siblings parent parent_prev prev =
     (if node_kind parent = ''export_statement'' then parent_prev else prev)"

definition ts_method_modifier :: "string \<Rightarrow> node \<Rightarrow> visibility option" where
  "ts_method_modifier source c =
     (if node_kind c = ''accessibility_modifier'' then
        Option.bind (node_text c source) (\<lambda>text.
          if text = ''public'' then Some Public
          else if text = ''private'' \<or> text = ''protected'' then Some Private else None)
      else None)"

definition ts_method_visibility :: "node \<Rightarrow> string \<Rightarrow> visibility" where
  "ts_method_visibility n source =
     (case first_some (ts_method_modifier source) (node_children n) of Some v \<Rightarrow> v | None \<Rightarrow> Public)"

definition ts_symbol ::
  "string \<Rightarrow> path \<Rightarrow> node list \<Rightarrow> node \<Rightarrow> string \<Rightarrow> symbol_kind \<Rightarrow> visibility \<Rightarrow> symbol list
    \<Rightarrow> symbol list option" where
  "ts_symbol source file prev n name kind vis children =
     emit source file n name kind vis children (ts_doc_comment source prev)
       (\<lambda>body. Some (ts_signature kind body))"

text \<open>The children before the body of a class, nearest first.\<close>

definition siblings_before :: "node \<Rightarrow> string \<Rightarrow> node list" where
  "siblings_before n field = rev (takeWhile (\<lambda>c. node_field c \<noteq> Some field) (node_children n))"

definition ts_class_methods :: "string \<Rightarrow> path \<Rightarrow> node \<Rightarrow> symbol list option" where
  "ts_class_methods source file n =
     with_field n ''body'' (\<lambda>body.
       each_sound_child (\<lambda>prev c.
         if node_kind c = ''method_definition'' then
           with_some (field_text c ''name'' source) (\<lambda>name.
             ts_symbol source file (ts_doc_siblings body (siblings_before n ''body'') prev) c name Method
               (ts_method_visibility c source) [])
         else Some []) body)"

definition ts_lexical_declaration :: "string \<Rightarrow> path \<Rightarrow> visibility \<Rightarrow> node list \<Rightarrow> node \<Rightarrow> symbol list option" where
  "ts_lexical_declaration source file vis prev n =
     (if \<not> has_child_kind ''const'' n then Some []
      else
        each_child (\<lambda>_ c.
          if node_kind c = ''variable_declarator'' then
            with_some (field_text c ''name'' source) (\<lambda>name.
              let is_arrow = (case child_by_field_name c ''value'' of
                  Some v \<Rightarrow> node_kind v = ''arrow_function'' | None \<Rightarrow> False) in
              ts_symbol source file prev n name (if is_arrow then Function else Const) vis [])
          else Some []) n)"

definition ts_named_kinds :: "(string \<times> symbol_kind) list" where
  "ts_named_kinds =
     [(''function_declaration'', Function), (''interface_declaration'', Interface),
      (''type_alias_declaration'', Type), (''enum_declaration'', Enum)]"

definition ts_declaration :: "string \<Rightarrow> path \<Rightarrow> visibility \<Rightarrow> node list \<Rightarrow> node \<Rightarrow> symbol list option" where
  "ts_declaration source file vis prev n =
     (if node_kind n = ''class_declaration'' then
        with_some (field_text n ''name'' source) (\<lambda>name.
          Option.bind (ts_class_methods source file n) (\<lambda>children.
            ts_symbol source file prev n name Class vis children))
      else if node_kind n = ''lexical_declaration'' then ts_lexical_declaration source file vis prev n
      else
        (case map_of ts_named_kinds (node_kind n) of
           None \<Rightarrow> Some []
         | Some kind \<Rightarrow>
             with_some (field_text n ''name'' source) (\<lambda>name. ts_symbol source file prev n name kind vis [])))"

definition ts_top_level :: "string \<Rightarrow> path \<Rightarrow> node \<Rightarrow> node list \<Rightarrow> node \<Rightarrow> symbol list option" where
  "ts_top_level source file root prev n =
     (if node_kind n = ''export_statement'' then
        with_field n ''declaration'' (\<lambda>decl.
          ts_declaration source file Public (ts_doc_siblings n prev (siblings_before n ''declaration'')) decl)
      else ts_declaration source file Private (ts_doc_siblings root [] prev) n)"

definition ts_extract :: "string \<Rightarrow> node \<Rightarrow> path \<Rightarrow> symbol list option" where
  "ts_extract source root file = each_sound_child (ts_top_level source file root) root"

lemma ts_parts_sound [extraction]:
  "well_formed source root \<Longrightarrow> n \<in> set (subtrees root) \<Longrightarrow> sound source q root (ts_class_methods source q n)"
  "well_formed source root \<Longrightarrow> n \<in> set (subtrees root) \<Longrightarrow>
     sound source q root (ts_lexical_declaration source q vis prev n)"
  unfolding ts_class_methods_def ts_lexical_declaration_def ts_symbol_def Let_def by (auto intro!: extraction)

lemma ts_declaration_sound [extraction]:
  "well_formed source root \<Longrightarrow> n \<in> set (subtrees root) \<Longrightarrow>
     sound source q root (ts_declaration source q vis prev n)"
  unfolding ts_declaration_def ts_symbol_def by (auto intro!: extraction split: option.split)

interpretation ts: extractor any_tree ts_extract
  by unfold_locales (auto simp: ts_extract_def ts_top_level_def intro!: extraction)

section \<open>Go\<close>

definition go_signature :: "symbol_kind \<Rightarrow> string \<Rightarrow> string" where
  "go_signature kind body =
     (if kind \<in> {Function, Method, Test} then before_or (find_char (CHR ''{'') body) body (str_trim body)
      else if kind \<in> {Type, Const, Static} then str_trim (first_line body)
      else body)"

text \<open>\<open>upper\<close> is \<open>char::is_uppercase\<close> on the characters outside ASCII, given by their bytes.\<close>

definition go_visibility :: "(string \<Rightarrow> bool) \<Rightarrow> string \<Rightarrow> visibility" where
  "go_visibility upper name =
     (case name of
        [] \<Rightarrow> Private
      | c # _ \<Rightarrow>
          if (if byte c \<le> 127 then is_ascii_uppercase c else upper (take (char_len c) name))
          then Public else Private)"

definition go_doc_comment :: "string \<Rightarrow> node list \<Rightarrow> string option" where
  "go_doc_comment source prev = doc_comment ''comment'' (starts_with ''//'') [] source prev"

definition go_symbol ::
  "(string \<Rightarrow> bool) \<Rightarrow> string \<Rightarrow> path \<Rightarrow> node list \<Rightarrow> node \<Rightarrow> string \<Rightarrow> symbol_kind \<Rightarrow> symbol list option" where
  "go_symbol upper source file prev n name kind =
     emit source file n name kind (go_visibility upper name) [] (go_doc_comment source prev)
       (\<lambda>body. Some (go_signature kind body))"

text \<open>A spec inside a declaration has the comments of the declaration.\<close>

definition go_spec ::
  "(string \<Rightarrow> bool) \<Rightarrow> string \<Rightarrow> path \<Rightarrow> node list \<Rightarrow> node \<Rightarrow> symbol_kind \<Rightarrow> symbol list option" where
  "go_spec upper source file decl_prev spec kind =
     with_some (field_text spec ''name'' source) (\<lambda>name. go_symbol upper source file decl_prev spec name kind)"

definition go_type_kind :: "node \<Rightarrow> symbol_kind" where
  "go_type_kind spec =
     (case child_by_field_name spec ''type'' of
        Some t \<Rightarrow>
          if node_kind t = ''struct_type'' then Struct
          else if node_kind t = ''interface_type'' then Interface else Type
      | None \<Rightarrow> Type)"

definition go_type_declaration ::
  "(string \<Rightarrow> bool) \<Rightarrow> string \<Rightarrow> path \<Rightarrow> node list \<Rightarrow> node \<Rightarrow> symbol list option" where
  "go_type_declaration upper source file prev n =
     each_child (\<lambda>_ c.
       if node_kind c = ''type_spec'' then go_spec upper source file prev c (go_type_kind c)
       else if node_kind c = ''type_alias'' then go_spec upper source file prev c Type
       else Some []) n"

definition go_const_declaration ::
  "(string \<Rightarrow> bool) \<Rightarrow> string \<Rightarrow> path \<Rightarrow> node list \<Rightarrow> node \<Rightarrow> symbol list option" where
  "go_const_declaration upper source file prev n =
     each_child (\<lambda>_ c.
       if node_kind c = ''const_spec'' then go_spec upper source file prev c Const else Some []) n"

definition go_var_declaration ::
  "(string \<Rightarrow> bool) \<Rightarrow> string \<Rightarrow> path \<Rightarrow> node list \<Rightarrow> node \<Rightarrow> symbol list option" where
  "go_var_declaration upper source file prev n =
     each_child (\<lambda>_ c.
       if node_kind c = ''var_spec'' then go_spec upper source file prev c Static
       else if node_kind c = ''var_spec_list'' then
         each_child (\<lambda>_ i.
           if node_kind i = ''var_spec'' then go_spec upper source file prev i Static else Some []) c
       else Some []) n"

definition go_top_level ::
  "(string \<Rightarrow> bool) \<Rightarrow> string \<Rightarrow> path \<Rightarrow> bool \<Rightarrow> node list \<Rightarrow> node \<Rightarrow> symbol list option" where
  "go_top_level upper source file is_test_file prev n =
     (if node_kind n = ''function_declaration'' then
        with_some (field_text n ''name'' source) (\<lambda>name.
          go_symbol upper source file prev n name
            (if is_test_file \<and> starts_with ''Test'' name then Test else Function))
      else if node_kind n = ''method_declaration'' then
        with_some (field_text n ''name'' source) (\<lambda>name. go_symbol upper source file prev n name Method)
      else if node_kind n = ''type_declaration'' then go_type_declaration upper source file prev n
      else if node_kind n = ''const_declaration'' then go_const_declaration upper source file prev n
      else if node_kind n = ''var_declaration'' then go_var_declaration upper source file prev n
      else Some [])"

definition go_is_test_file :: "path \<Rightarrow> bool" where
  "go_is_test_file file =
     (case path_file_name file of
        Some f \<Rightarrow> utf8_valid f \<and> starts_with (rev ''_test.go'') (rev f) | None \<Rightarrow> False)"

definition go_extract :: "(string \<Rightarrow> bool) \<Rightarrow> string \<Rightarrow> node \<Rightarrow> path \<Rightarrow> symbol list option" where
  "go_extract upper source root file =
     each_sound_child (go_top_level upper source file (go_is_test_file file)) root"

interpretation go: extractor any_tree "go_extract upper" for upper
  by unfold_locales
    (auto simp: go_extract_def go_top_level_def go_type_declaration_def go_const_declaration_def
      go_var_declaration_def go_spec_def go_symbol_def intro!: extraction)

end
