(* ===== verification/Extract_Jvm_Swift.thy ===== *)
theory Extract_Jvm_Swift
  imports Extract_Base
begin

text \<open>
  The extractors of Swift, Kotlin and Scala: \<open>swift.rs\<close>, \<open>kotlin.rs\<close> and \<open>scala.rs\<close> under
  \<open>languages/\<close> of codequery-parse.
\<close>

section \<open>Modifiers\<close>

text \<open>The visibility of the first modifiers child, read off the texts of its parts.\<close>

definition modifiers_visibility ::
  "string \<Rightarrow> (string \<Rightarrow> visibility option) \<Rightarrow> visibility \<Rightarrow> node \<Rightarrow> string \<Rightarrow> visibility" where
  "modifiers_visibility part read otherwise n source =
     (case Option.bind (child_of_kind n [''modifiers''])
         (\<lambda>m. first_some (\<lambda>c. if node_kind c = part then read (text_or_empty c source) else None)
            (node_children m)) of
        Some v \<Rightarrow> v | None \<Rightarrow> otherwise)"

text \<open>The members in a body of some kind.\<close>

definition body_members ::
  "string \<Rightarrow> (node list \<Rightarrow> node \<Rightarrow> symbol list option) \<Rightarrow> node \<Rightarrow> symbol list option" where
  "body_members body_kind member n =
     each_child (\<lambda>_ c. if node_kind c = body_kind then each_sound_child member c else Some []) n"

lemma sound_body_members [extraction]:
  "n \<in> set (subtrees root) \<Longrightarrow>
     (\<And>prev c. c \<in> set (subtrees root) \<Longrightarrow> sound source q root (member prev c)) \<Longrightarrow>
     sound source q root (body_members body_kind member n)"
  unfolding body_members_def by (auto intro!: sound_each_child sound_each_sound_child)

section \<open>Swift\<close>

definition swift_signature :: "symbol_kind \<Rightarrow> string \<Rightarrow> string" where
  "swift_signature kind body =
     (if kind \<in> {Function, Method} then before_or (find_top_level_brace body) body (trim_semicolons body)
      else if kind \<in> {Class, Struct, Enum, Interface, Module}
      then before_or (find_top_level_brace body) body (str_trim (first_line body))
      else body)"

definition swift_modifier :: "string \<Rightarrow> visibility option" where
  "swift_modifier text =
     (if contains_sub text ''public'' then Some Public
      else if contains_sub text ''private'' \<or> contains_sub text ''fileprivate'' then Some Private
      else if contains_sub text ''internal'' then Some Crate else None)"

definition swift_visibility :: "node \<Rightarrow> string \<Rightarrow> visibility" where
  "swift_visibility n source = modifiers_visibility ''visibility_modifier'' swift_modifier Crate n source"

definition swift_doc_comment :: "string \<Rightarrow> node list \<Rightarrow> string option" where
  "swift_doc_comment source prev = doc_comment ''comment'' (starts_with ''///'') [] source prev"

definition swift_symbol ::
  "string \<Rightarrow> path \<Rightarrow> node list \<Rightarrow> node \<Rightarrow> string \<Rightarrow> symbol_kind \<Rightarrow> symbol list \<Rightarrow> symbol list option" where
  "swift_symbol source file prev n name kind children =
     emit source file n name kind (swift_visibility n source) children (swift_doc_comment source prev)
       (\<lambda>body. Some (swift_signature kind body))"

definition swift_method :: "string \<Rightarrow> path \<Rightarrow> node list \<Rightarrow> node \<Rightarrow> symbol list option" where
  "swift_method source file prev n =
     with_some (kind_text n [''simple_identifier''] source) (\<lambda>name.
       swift_symbol source file prev n name Method [])"

definition swift_protocol_method :: "string \<Rightarrow> path \<Rightarrow> node list \<Rightarrow> node \<Rightarrow> symbol list option" where
  "swift_protocol_method source file prev n =
     with_some (kind_text n [''simple_identifier''] source) (\<lambda>name.
       emit source file n name Method Public [] (swift_doc_comment source prev)
         (\<lambda>body. Some (trim_semicolons body)))"

definition swift_class_members :: "string \<Rightarrow> path \<Rightarrow> node \<Rightarrow> symbol list option" where
  "swift_class_members source file =
     body_members ''class_body'' (\<lambda>prev c.
       if node_kind c = ''function_declaration'' then swift_method source file prev c else Some [])"

definition swift_protocol_members :: "string \<Rightarrow> path \<Rightarrow> node \<Rightarrow> symbol list option" where
  "swift_protocol_members source file =
     body_members ''protocol_body'' (\<lambda>prev c.
       if node_kind c = ''protocol_function_declaration'' then swift_protocol_method source file prev c
       else Some [])"

text \<open>The last of the keywords decides the kind; the name is the first type that can be read.\<close>

definition swift_keywords :: "string list" where
  "swift_keywords = [''class'', ''struct'', ''enum'', ''extension'']"

definition swift_keyword :: "node \<Rightarrow> string option" where
  "swift_keyword n =
     (case rev (filter (\<lambda>k. k \<in> set swift_keywords) (map node_kind (node_children n))) of
        [] \<Rightarrow> None | k # _ \<Rightarrow> Some k)"

definition swift_type_name :: "node \<Rightarrow> string \<Rightarrow> string option" where
  "swift_type_name n source =
     first_some (\<lambda>c. if node_kind c \<in> {''type_identifier'', ''user_type''} then node_text c source else None)
       (node_children n)"

definition swift_class_declaration :: "string \<Rightarrow> path \<Rightarrow> node list \<Rightarrow> node \<Rightarrow> symbol list option" where
  "swift_class_declaration source file prev n =
     with_some (swift_type_name n source) (\<lambda>name.
     with_some (swift_keyword n) (\<lambda>keyword.
       if keyword = ''enum'' then swift_symbol source file prev n name Enum []
       else
         Option.bind (swift_class_members source file n)
           (swift_symbol source file prev n name
             (if keyword = ''class'' then Class else if keyword = ''struct'' then Struct else Module))))"

definition swift_top_level :: "string \<Rightarrow> path \<Rightarrow> node list \<Rightarrow> node \<Rightarrow> symbol list option" where
  "swift_top_level source file prev n =
     (if node_kind n = ''function_declaration'' then
        with_some (kind_text n [''simple_identifier''] source) (\<lambda>name.
          swift_symbol source file prev n name Function [])
      else if node_kind n = ''class_declaration'' then swift_class_declaration source file prev n
      else if node_kind n = ''protocol_declaration'' then
        with_some (kind_text n [''type_identifier''] source) (\<lambda>name.
          Option.bind (swift_protocol_members source file n) (swift_symbol source file prev n name Interface))
      else Some [])"

definition swift_extract :: "string \<Rightarrow> node \<Rightarrow> path \<Rightarrow> symbol list option" where
  "swift_extract source root file = each_sound_child (swift_top_level source file) root"

lemma swift_members_sound [extraction]:
  "well_formed source root \<Longrightarrow> n \<in> set (subtrees root) \<Longrightarrow> sound source q root (swift_class_members source q n)"
  "well_formed source root \<Longrightarrow> n \<in> set (subtrees root) \<Longrightarrow>
     sound source q root (swift_protocol_members source q n)"
  by (auto simp: swift_class_members_def swift_protocol_members_def swift_method_def
      swift_protocol_method_def swift_symbol_def intro!: extraction)

interpretation swift: extractor any_tree swift_extract
  by unfold_locales
    (auto simp: swift_extract_def swift_top_level_def swift_class_declaration_def swift_symbol_def
      intro!: extraction)

section \<open>Kotlin\<close>

definition kotlin_find :: "char \<Rightarrow> string \<Rightarrow> nat option" where
  "kotlin_find target body = find_top_level (CHR ''<'', CHR ''>'') True target body"

definition kotlin_fn_signature :: "string \<Rightarrow> string" where
  "kotlin_fn_signature body =
     before_or (kotlin_find (CHR ''{'') body) body
       (before_or (kotlin_find (CHR ''='') body) body (trim_semicolons body))"

definition kotlin_signature :: "symbol_kind \<Rightarrow> string \<Rightarrow> string" where
  "kotlin_signature kind body =
     (if kind \<in> {Function, Method} then kotlin_fn_signature body
      else if kind \<in> {Class, Interface, Enum, Struct, Module}
      then before_or (kotlin_find (CHR ''{'') body) body (str_trim body)
      else if kind = Const then str_trim (first_line body)
      else body)"

definition kotlin_modifier :: "string \<Rightarrow> visibility option" where
  "kotlin_modifier text =
     (if contains_sub text ''private'' then Some Private
      else if contains_sub text ''protected'' \<or> contains_sub text ''internal'' then Some Crate
      else if contains_sub text ''public'' then Some Public else None)"

definition kotlin_visibility :: "node \<Rightarrow> string \<Rightarrow> visibility" where
  "kotlin_visibility n source = modifiers_visibility ''visibility_modifier'' kotlin_modifier Public n source"

definition kotlin_doc_comment :: "string \<Rightarrow> node list \<Rightarrow> string option" where
  "kotlin_doc_comment source prev = block_doc ''multiline_comment'' [''line_comment''] source prev"

definition kotlin_identifier :: "node \<Rightarrow> string \<Rightarrow> string option" where
  "kotlin_identifier n source = kind_text n [''identifier'', ''simple_identifier''] source"

definition kotlin_symbol ::
  "string \<Rightarrow> path \<Rightarrow> node list \<Rightarrow> node \<Rightarrow> string \<Rightarrow> symbol_kind \<Rightarrow> symbol list \<Rightarrow> symbol list option" where
  "kotlin_symbol source file prev n name kind children =
     emit source file n name kind (kotlin_visibility n source) children (kotlin_doc_comment source prev)
       (\<lambda>body. Some (kotlin_signature kind body))"

definition kotlin_named ::
  "string \<Rightarrow> path \<Rightarrow> node list \<Rightarrow> node \<Rightarrow> symbol_kind \<Rightarrow> symbol list option" where
  "kotlin_named source file prev n kind =
     with_some (kotlin_identifier n source) (\<lambda>name. kotlin_symbol source file prev n name kind [])"

definition kotlin_property :: "string \<Rightarrow> path \<Rightarrow> node list \<Rightarrow> node \<Rightarrow> symbol list option" where
  "kotlin_property source file prev n =
     with_some (kind_text n [''variable_declaration''] source) (\<lambda>name.
       kotlin_symbol source file prev n name Const [])"

definition kotlin_members :: "string \<Rightarrow> path \<Rightarrow> node \<Rightarrow> symbol list option" where
  "kotlin_members source file =
     body_members ''class_body'' (\<lambda>prev c.
       if node_kind c = ''function_declaration'' then kotlin_named source file prev c Method
       else if node_kind c = ''property_declaration'' then kotlin_property source file prev c
       else Some [])"

definition class_modifier_has :: "string \<Rightarrow> string \<Rightarrow> node \<Rightarrow> bool" where
  "class_modifier_has word source n \<longleftrightarrow>
     list_ex (\<lambda>c. node_kind c = ''modifiers'' \<and>
         list_ex (\<lambda>m. node_kind m = ''class_modifier'' \<and> contains_sub (text_or_empty m source) word)
           (node_children c))
       (node_children n)"

definition kotlin_class_declaration :: "string \<Rightarrow> path \<Rightarrow> node list \<Rightarrow> node \<Rightarrow> symbol list option" where
  "kotlin_class_declaration source file prev n =
     with_some (kotlin_identifier n source) (\<lambda>name.
       if class_modifier_has ''enum'' source n then kotlin_symbol source file prev n name Enum []
       else if has_child_kind ''interface'' n then
         Option.bind (kotlin_members source file n) (kotlin_symbol source file prev n name Interface)
       else if class_modifier_has ''data'' source n then kotlin_symbol source file prev n name Struct []
       else Option.bind (kotlin_members source file n) (kotlin_symbol source file prev n name Class))"

definition kotlin_top_level :: "string \<Rightarrow> path \<Rightarrow> node list \<Rightarrow> node \<Rightarrow> symbol list option" where
  "kotlin_top_level source file prev n =
     (if node_kind n = ''function_declaration'' then kotlin_named source file prev n Function
      else if node_kind n = ''class_declaration'' then kotlin_class_declaration source file prev n
      else if node_kind n = ''object_declaration'' then
        with_some (kotlin_identifier n source) (\<lambda>name.
          Option.bind (kotlin_members source file n) (kotlin_symbol source file prev n name Module))
      else Some [])"

definition kotlin_extract :: "string \<Rightarrow> node \<Rightarrow> path \<Rightarrow> symbol list option" where
  "kotlin_extract source root file = each_sound_child (kotlin_top_level source file) root"

lemma kotlin_members_sound [extraction]:
  "well_formed source root \<Longrightarrow> n \<in> set (subtrees root) \<Longrightarrow> sound source q root (kotlin_members source q n)"
  by (auto simp: kotlin_members_def kotlin_property_def kotlin_named_def kotlin_symbol_def intro!: extraction)

interpretation kotlin: extractor any_tree kotlin_extract
  by unfold_locales
    (auto simp: kotlin_extract_def kotlin_top_level_def kotlin_class_declaration_def kotlin_named_def
      kotlin_symbol_def intro!: extraction)

section \<open>Scala\<close>

definition scala_find :: "char \<Rightarrow> string \<Rightarrow> nat option" where
  "scala_find target body = find_top_level (CHR ''['', CHR '']'') True target body"

definition scala_fn_signature :: "string \<Rightarrow> string" where
  "scala_fn_signature body =
     before_or (scala_find (CHR ''='') body) body
       (before_or (scala_find (CHR ''{'') body) body (str_trim body))"

definition scala_signature :: "symbol_kind \<Rightarrow> string \<Rightarrow> string" where
  "scala_signature kind body =
     (if kind \<in> {Function, Method} then scala_fn_signature body
      else if kind \<in> {Class, Struct, Trait, Module}
      then before_or (scala_find (CHR ''{'') body) body (str_trim body)
      else if kind = Const then str_trim (first_line body)
      else body)"

definition scala_modifier :: "string \<Rightarrow> visibility option" where
  "scala_modifier text =
     (if contains_sub text ''private'' then Some Private
      else if contains_sub text ''protected'' then Some Crate else None)"

definition scala_visibility :: "node \<Rightarrow> string \<Rightarrow> visibility" where
  "scala_visibility n source = modifiers_visibility ''access_modifier'' scala_modifier Public n source"

definition scala_doc_comment :: "string \<Rightarrow> node list \<Rightarrow> string option" where
  "scala_doc_comment source prev = block_doc ''comment'' [] source prev"

definition scala_symbol ::
  "string \<Rightarrow> path \<Rightarrow> node list \<Rightarrow> node \<Rightarrow> string \<Rightarrow> symbol_kind \<Rightarrow> symbol list \<Rightarrow> symbol list option" where
  "scala_symbol source file prev n name kind children =
     emit source file n name kind (scala_visibility n source) children (scala_doc_comment source prev)
       (\<lambda>body. Some (scala_signature kind body))"

definition scala_named ::
  "string \<Rightarrow> path \<Rightarrow> node list \<Rightarrow> node \<Rightarrow> symbol_kind \<Rightarrow> symbol list option" where
  "scala_named source file prev n kind =
     with_some (kind_text n [''identifier''] source) (\<lambda>name. scala_symbol source file prev n name kind [])"

definition scala_members :: "string \<Rightarrow> path \<Rightarrow> node \<Rightarrow> symbol list option" where
  "scala_members source file =
     body_members ''template_body'' (\<lambda>prev c.
       if node_kind c \<in> {''function_definition'', ''function_declaration''} then scala_named source file prev c Method
       else if node_kind c = ''val_definition'' then scala_named source file prev c Const
       else Some [])"

definition scala_container ::
  "string \<Rightarrow> path \<Rightarrow> node list \<Rightarrow> node \<Rightarrow> symbol_kind \<Rightarrow> symbol list option" where
  "scala_container source file prev n kind =
     with_some (kind_text n [''identifier''] source) (\<lambda>name.
       Option.bind (scala_members source file n) (scala_symbol source file prev n name kind))"

definition scala_class_definition :: "string \<Rightarrow> path \<Rightarrow> node list \<Rightarrow> node \<Rightarrow> symbol list option" where
  "scala_class_definition source file prev n =
     (if has_child_kind ''case'' n then scala_named source file prev n Struct
      else scala_container source file prev n Class)"

definition scala_top_level :: "string \<Rightarrow> path \<Rightarrow> node list \<Rightarrow> node \<Rightarrow> symbol list option" where
  "scala_top_level source file prev n =
     (if node_kind n = ''class_definition'' then scala_class_definition source file prev n
      else if node_kind n = ''trait_definition'' then scala_container source file prev n Trait
      else if node_kind n = ''object_definition'' then scala_container source file prev n Module
      else if node_kind n = ''function_definition'' then scala_named source file prev n Function
      else if node_kind n = ''val_definition'' then scala_named source file prev n Const
      else Some [])"

definition scala_extract :: "string \<Rightarrow> node \<Rightarrow> path \<Rightarrow> symbol list option" where
  "scala_extract source root file = each_sound_child (scala_top_level source file) root"

lemma scala_members_sound [extraction]:
  "well_formed source root \<Longrightarrow> n \<in> set (subtrees root) \<Longrightarrow> sound source q root (scala_members source q n)"
  by (auto simp: scala_members_def scala_named_def scala_symbol_def intro!: extraction)

interpretation scala: extractor any_tree scala_extract
  by unfold_locales
    (auto simp: scala_extract_def scala_top_level_def scala_class_definition_def scala_container_def
      scala_named_def scala_symbol_def intro!: extraction)

end
