(* ===== verification/Extract_Native.thy ===== *)
theory Extract_Native
  imports Extract_Base
begin

text \<open>
  The extractors of C, C++ and Zig: \<open>c.rs\<close>, \<open>cpp.rs\<close> and \<open>zig.rs\<close> under
  \<open>languages/\<close> of codequery-parse.
\<close>

section \<open>C\<close>

definition c_signature :: "symbol_kind \<Rightarrow> string \<Rightarrow> string" where
  "c_signature kind body =
     (if kind = Function then before_or (find_char (CHR ''{'') body) body (trim_semicolons body)
      else if kind \<in> {Type, Static, Const} then first_line_trimmed body
      else body)"

definition any_comment :: "string \<Rightarrow> node list \<Rightarrow> string option" where
  "any_comment source prev = doc_comment ''comment'' (\<lambda>_. True) [] source prev"

text \<open>Through pointer declarators to what they declare.\<close>

function strip_pointers :: "node \<Rightarrow> node option" where
  "strip_pointers n =
     (if node_kind n = ''pointer_declarator'' then Option.bind (child_by_field_name n ''declarator'') strip_pointers
      else Some n)"
  by pat_completeness auto
termination
  by (relation "measure size") (auto dest!: child_by_field_name_child size_child)

declare strip_pointers.simps [simp del]

definition innermost_identifier :: "node \<Rightarrow> string \<Rightarrow> string option" where
  "innermost_identifier n source = Option.bind (strip_pointers n) (\<lambda>d. node_text d source)"

definition c_function_name :: "node \<Rightarrow> string \<Rightarrow> string option" where
  "c_function_name n source =
     Option.bind (child_by_field_name n ''declarator'') (\<lambda>d.
     Option.bind (strip_pointers d) (\<lambda>f.
     Option.bind (child_by_field_name f ''declarator'') (\<lambda>c. innermost_identifier c source)))"

definition typedef_name :: "node \<Rightarrow> string \<Rightarrow> string option" where
  "typedef_name n source =
     Option.bind (child_by_field_name n ''declarator'') (\<lambda>d.
       if node_kind d = ''function_declarator'' then
         Option.bind (child_by_field_name d ''declarator'') (\<lambda>inner.
           map_option (\<lambda>text. trim_end_char (CHR '')'')
               (trim_start_char (CHR ''*'') (trim_start_char (CHR ''('') text)))
             (node_text inner source))
       else node_text d source)"

definition c_declaration_name :: "node \<Rightarrow> string \<Rightarrow> string option" where
  "c_declaration_name n source =
     Option.bind (child_by_field_name n ''declarator'') (\<lambda>d.
       if node_kind d = ''init_declarator'' then
         Option.bind (child_by_field_name d ''declarator'') (\<lambda>c. innermost_identifier c source)
       else if node_kind d = ''identifier'' then node_text d source
       else innermost_identifier d source)"

definition c_symbol ::
  "string \<Rightarrow> path \<Rightarrow> node list \<Rightarrow> node \<Rightarrow> string option \<Rightarrow> symbol_kind \<Rightarrow> symbol list option" where
  "c_symbol source file prev n name kind =
     with_some name (\<lambda>name.
       emit source file n name kind Public [] (any_comment source prev) (\<lambda>body. Some (c_signature kind body)))"

text \<open>Structs and enums count only with a body.\<close>

definition c_bodied ::
  "string \<Rightarrow> path \<Rightarrow> node list \<Rightarrow> node \<Rightarrow> symbol_kind \<Rightarrow> symbol list option" where
  "c_bodied source file prev n kind =
     (if child_by_field_name n ''body'' = None then Some []
      else c_symbol source file prev n (field_text n ''name'' source) kind)"

definition c_top_level :: "string \<Rightarrow> path \<Rightarrow> node list \<Rightarrow> node \<Rightarrow> symbol list option" where
  "c_top_level source file prev n =
     (if node_kind n = ''function_definition'' then
        c_symbol source file prev n (c_function_name n source) Function
      else if node_kind n = ''struct_specifier'' then c_bodied source file prev n Struct
      else if node_kind n = ''enum_specifier'' then c_bodied source file prev n Enum
      else if node_kind n = ''type_definition'' then
        c_symbol source file prev n (typedef_name n source) Type
      else if node_kind n = ''declaration'' then
        c_symbol source file prev n (c_declaration_name n source) Static
      else if node_kind n \<in> {''preproc_def'', ''preproc_function_def''} then
        c_symbol source file prev n (field_text n ''name'' source) Const
      else Some [])"

definition preproc_blocks :: "string list" where
  "preproc_blocks = [''preproc_ifdef'', ''preproc_if'', ''preproc_elif'']"

function c_walk :: "string \<Rightarrow> path \<Rightarrow> node \<Rightarrow> symbol list option" where
  "c_walk source file n =
     each_sound_child (\<lambda>prev c.
       if node_kind c \<in> set preproc_blocks then c_walk source file c
       else c_top_level source file prev c) n"
  by pat_completeness auto
termination
  by (relation "measure (\<lambda>(s, f, n). size n)") (auto dest!: size_child)

declare c_walk.simps [simp del]

definition c_extract :: "string \<Rightarrow> node \<Rightarrow> path \<Rightarrow> symbol list option" where
  "c_extract source root file = c_walk source file root"

lemma c_top_level_sound [extraction]:
  "well_formed source root \<Longrightarrow> n \<in> set (subtrees root) \<Longrightarrow> sound source q root (c_top_level source q prev n)"
  unfolding c_top_level_def c_bodied_def c_symbol_def by (auto intro!: extraction)

lemma c_walk_sound:
  "well_formed source root \<Longrightarrow> n \<in> set (subtrees root) \<Longrightarrow> sound source q root (c_walk source q n)"
  by (induction source q n rule: c_walk.induct) (subst c_walk.simps, auto intro!: extraction)

interpretation c: extractor any_tree c_extract
  by unfold_locales (simp add: c_extract_def c_walk_sound)

section \<open>C++\<close>

definition cpp_signature :: "symbol_kind \<Rightarrow> string \<Rightarrow> string" where
  "cpp_signature kind body =
     (if kind \<in> {Function, Method} then before_or (find_top_level_brace body) body (trim_semicolons body)
      else if kind = Module then before_or (find_top_level_brace body) body (str_trim (first_line body))
      else if kind \<in> {Type, Static, Const} then first_line_trimmed body
      else body)"

text \<open>The first function declarator of a subtree, parents first.\<close>

definition find_function_declarator :: "node \<Rightarrow> node option" where
  "find_function_declarator n = List.find (\<lambda>m. node_kind m = ''function_declarator'') (subtrees n)"

definition cpp_function_name :: "node \<Rightarrow> string \<Rightarrow> string option" where
  "cpp_function_name n source =
     Option.bind (child_by_field_name n ''declarator'') (\<lambda>d.
     Option.bind (find_function_declarator d) (\<lambda>f.
       field_text f ''declarator'' source))"

definition cpp_declaration_name :: "node \<Rightarrow> string \<Rightarrow> string option" where
  "cpp_declaration_name n source =
     Option.bind (child_by_field_name n ''declarator'') (\<lambda>d.
       if node_kind d = ''init_declarator'' then field_text d ''declarator'' source else node_text d source)"

definition parse_access_specifier :: "node \<Rightarrow> string \<Rightarrow> visibility" where
  "parse_access_specifier n source =
     (let text = str_trim (trim_end_char (CHR '':'') (text_or_empty n source)) in
      if text = ''public'' then Public else if text = ''protected'' then Crate else Private)"

definition cpp_symbol ::
  "string \<Rightarrow> path \<Rightarrow> node list \<Rightarrow> node \<Rightarrow> string option \<Rightarrow> symbol_kind \<Rightarrow> visibility \<Rightarrow> symbol list
    \<Rightarrow> symbol list option" where
  "cpp_symbol source file prev n name kind vis children =
     with_some name (\<lambda>name.
       emit source file n name kind vis children (any_comment source prev)
         (\<lambda>body. Some (cpp_signature kind body)))"

definition cpp_method_declaration ::
  "string \<Rightarrow> path \<Rightarrow> node list \<Rightarrow> node \<Rightarrow> visibility \<Rightarrow> symbol list option" where
  "cpp_method_declaration source file prev n vis =
     with_some (cpp_function_name n source) (\<lambda>name.
       emit source file n name Method vis [] (any_comment source prev) (\<lambda>body. Some (first_line_trimmed body)))"

text \<open>The members of a class: an access specifier sets the visibility of what follows it.\<close>

fun cpp_members :: "string \<Rightarrow> path \<Rightarrow> visibility \<Rightarrow> (node list \<times> node) list \<Rightarrow> symbol list option" where
  "cpp_members source file vis [] = Some []"
| "cpp_members source file vis ((prev, c) # rest) =
     (if broken c then cpp_members source file vis rest
      else if node_kind c = ''access_specifier'' then
        cpp_members source file (parse_access_specifier c source) rest
      else
        gather
          [if node_kind c = ''function_definition'' then
             cpp_symbol source file prev c (cpp_function_name c source) Method vis []
           else if node_kind c \<in> {''declaration'', ''field_declaration''} then
             cpp_method_declaration source file prev c vis
           else Some [],
           cpp_members source file vis rest])"

definition cpp_class_members :: "string \<Rightarrow> path \<Rightarrow> node \<Rightarrow> symbol list option" where
  "cpp_class_members source file n =
     with_field n ''body'' (\<lambda>body. cpp_members source file Private (with_prev [] (node_children body)))"

text \<open>A definition; namespaces nest, and what is in them is public.\<close>

function cpp_node ::
  "string \<Rightarrow> path \<Rightarrow> visibility \<Rightarrow> node list \<Rightarrow> node \<Rightarrow> symbol list option" where
  "cpp_node source file vis prev n =
     (if node_kind n = ''function_definition'' then
        with_some (cpp_function_name n source) (\<lambda>name.
          if contains_sub name ''::'' then Some []
          else cpp_symbol source file prev n (Some name) Function vis [])
      else if node_kind n = ''class_specifier'' then
        with_some (field_text n ''name'' source) (\<lambda>name.
          Option.bind (cpp_class_members source file n) (cpp_symbol source file prev n (Some name) Class vis))
      else if node_kind n \<in> {''struct_specifier'', ''enum_specifier''} then
        (if child_by_field_name n ''body'' = None then Some []
         else cpp_symbol source file prev n (field_text n ''name'' source)
           (if node_kind n = ''struct_specifier'' then Struct else Enum) vis [])
      else if node_kind n = ''namespace_definition'' then
        with_some (field_text n ''name'' source) (\<lambda>name.
          Option.bind
            (with_field n ''body'' (each_sound_child (\<lambda>prev c. cpp_node source file Public prev c)))
            (cpp_symbol source file prev n (Some name) Module Public))
      else if node_kind n = ''type_definition'' then
        cpp_symbol source file prev n (typedef_name n source) Type vis []
      else if node_kind n = ''alias_declaration'' then
        cpp_symbol source file prev n (field_text n ''name'' source) Type vis []
      else if node_kind n = ''declaration'' then
        cpp_symbol source file prev n (cpp_declaration_name n source) Static vis []
      else if node_kind n \<in> {''preproc_def'', ''preproc_function_def''} then
        cpp_symbol source file prev n (field_text n ''name'' source) Const Public []
      else Some [])"
  by pat_completeness auto
termination
  by (relation "measure (\<lambda>(s, f, v, p, n). size n)") (auto dest!: size_child)

declare cpp_node.simps [simp del]

function cpp_walk :: "string \<Rightarrow> path \<Rightarrow> visibility \<Rightarrow> node \<Rightarrow> symbol list option" where
  "cpp_walk source file vis n =
     each_sound_child (\<lambda>prev c.
       if node_kind c \<in> set preproc_blocks then cpp_walk source file vis c
       else cpp_node source file vis prev c) n"
  by pat_completeness auto
termination
  by (relation "measure (\<lambda>(s, f, v, n). size n)") (auto dest!: size_child)

declare cpp_walk.simps [simp del]

definition cpp_extract :: "string \<Rightarrow> node \<Rightarrow> path \<Rightarrow> symbol list option" where
  "cpp_extract source root file = cpp_walk source file Public root"

lemma cpp_symbol_sound [extraction]:
  "well_formed source root \<Longrightarrow> n \<in> set (subtrees root) \<Longrightarrow> \<forall>c \<in> set children. located source q root c \<Longrightarrow>
     sound source q root (cpp_symbol source q prev n name kind vis children)"
  unfolding cpp_symbol_def by (auto intro!: extraction)

lemma cpp_members_sound:
  "well_formed source root \<Longrightarrow> \<forall>(prev, c) \<in> set ms. c \<in> set (subtrees root) \<Longrightarrow>
     sound source q root (cpp_members source q vis ms)"
proof (induction source q vis ms rule: cpp_members.induct)
  case (2 source q vis prev c rest)
  then show ?case
    by (auto simp: cpp_method_declaration_def intro!: sound_gather cpp_symbol_sound sound_with_some sound_emit)
qed simp

lemma cpp_class_members_sound [extraction]:
  "well_formed source root \<Longrightarrow> n \<in> set (subtrees root) \<Longrightarrow> sound source q root (cpp_class_members source q n)"
  unfolding cpp_class_members_def
  by (auto intro!: sound_with_field cpp_members_sound dest!: with_prev_children intro: subtree_child)

lemma cpp_node_sound [extraction]:
  "well_formed source root \<Longrightarrow> n \<in> set (subtrees root) \<Longrightarrow> sound source q root (cpp_node source q vis prev n)"
proof (induction source q vis prev n rule: cpp_node.induct)
  case (1 source q vis prev n)
  then show ?case by (subst cpp_node.simps) (auto intro!: extraction)
qed

lemma cpp_walk_sound:
  "well_formed source root \<Longrightarrow> n \<in> set (subtrees root) \<Longrightarrow> sound source q root (cpp_walk source q vis n)"
  by (induction source q vis n rule: cpp_walk.induct) (subst cpp_walk.simps, auto intro!: extraction)

interpretation cpp: extractor any_tree cpp_extract
  by unfold_locales (simp add: cpp_extract_def cpp_walk_sound)

section \<open>Zig\<close>

definition zig_signature :: "symbol_kind \<Rightarrow> string \<Rightarrow> string" where
  "zig_signature kind body =
     (if kind \<in> {Function, Test} then before_or (find_char (CHR ''{'') body) body (str_trim body)
      else if kind = Const then first_line_trimmed body
      else body)"

text \<open>Three kinds of comments count alike.\<close>

fun zig_doc_lines :: "string \<Rightarrow> node list \<Rightarrow> string list" where
  "zig_doc_lines source [] = []"
| "zig_doc_lines source (sib # rest) =
     (if node_kind sib \<in> {''doc_comment'', ''line_comment'', ''comment''} then
        (case node_text sib source of
           Some t \<Rightarrow> if starts_with ''///'' (trim_end t) then trim_end t # zig_doc_lines source rest else []
         | None \<Rightarrow> [])
      else [])"

definition zig_doc_comment :: "string \<Rightarrow> node list \<Rightarrow> string option" where
  "zig_doc_comment source prev =
     (case zig_doc_lines source prev of [] \<Rightarrow> None | ls \<Rightarrow> Some (join_with [CHR 0x0A] (rev ls)))"

definition has_pub_child :: "node \<Rightarrow> string \<Rightarrow> bool" where
  "has_pub_child n source \<longleftrightarrow>
     list_ex (\<lambda>c. node_kind c = ''pub'' \<or>
         node_kind c = ''visibility_qualifier'' \<and>
         (case node_text c source of Some t \<Rightarrow> starts_with ''pub'' t | None \<Rightarrow> False))
       (node_children n)"

definition zig_kind_of_child :: "node \<Rightarrow> symbol_kind option option" where
  "zig_kind_of_child c =
     (if node_kind c \<in> {''struct_declaration'', ''union_declaration''} then Some (Some Struct)
      else if node_kind c = ''enum_declaration'' then Some (Some Enum)
      else if node_kind c = ''builtin_function'' then Some None
      else None)"

definition determine_variable_kind :: "node \<Rightarrow> symbol_kind option" where
  "determine_variable_kind n =
     (case first_some zig_kind_of_child (node_children n) of Some k \<Rightarrow> k | None \<Rightarrow> Some Const)"

definition zig_symbol ::
  "string \<Rightarrow> path \<Rightarrow> node list \<Rightarrow> node \<Rightarrow> string \<Rightarrow> symbol_kind \<Rightarrow> visibility \<Rightarrow> symbol list option" where
  "zig_symbol source file prev n name kind vis =
     emit source file n name kind vis [] (zig_doc_comment source prev) (\<lambda>body. Some (zig_signature kind body))"

definition pub_visibility :: "node \<Rightarrow> string \<Rightarrow> visibility" where
  "pub_visibility n source = (if has_pub_child n source then Public else Private)"

definition zig_variable_declaration :: "string \<Rightarrow> path \<Rightarrow> node list \<Rightarrow> node \<Rightarrow> symbol list option" where
  "zig_variable_declaration source file prev n =
     with_some (kind_text n [''identifier''] source) (\<lambda>name.
     with_some (determine_variable_kind n) (\<lambda>kind.
       zig_symbol source file prev n name kind (pub_visibility n source)))"

definition zig_test_name :: "node \<Rightarrow> string \<Rightarrow> string" where
  "zig_test_name n source =
     (case child_of_kind n [''string''] of
        Some c \<Rightarrow> trim_end_char (CHR 0x22) (trim_start_char (CHR 0x22) (text_or_empty c source))
      | None \<Rightarrow> ''unnamed_test'')"

definition zig_top_level :: "string \<Rightarrow> path \<Rightarrow> node list \<Rightarrow> node \<Rightarrow> symbol list option" where
  "zig_top_level source file prev n =
     (if node_kind n = ''function_declaration'' then
        with_some (field_text n ''name'' source) (\<lambda>name.
          zig_symbol source file prev n name Function (pub_visibility n source))
      else if node_kind n = ''variable_declaration'' then zig_variable_declaration source file prev n
      else if node_kind n = ''test_declaration'' then
        zig_symbol source file prev n (zig_test_name n source) Test Private
      else Some [])"

definition zig_extract :: "string \<Rightarrow> node \<Rightarrow> path \<Rightarrow> symbol list option" where
  "zig_extract source root file = each_sound_child (zig_top_level source file) root"

interpretation zig: extractor any_tree zig_extract
  by unfold_locales
    (auto simp: zig_extract_def zig_top_level_def zig_variable_declaration_def zig_symbol_def intro!: extraction)

end
