(* ===== verification/Extract_Data.thy ===== *)
theory Extract_Data
  imports Extract_Base
begin

text \<open>
  The extractors of markup and data formats: \<open>html.rs\<close>, \<open>css.rs\<close>, \<open>json.rs\<close>,
  \<open>yaml.rs\<close> and \<open>toml.rs\<close> under \<open>languages/\<close> of codequery-parse.
\<close>

section \<open>HTML\<close>

definition html_max_depth :: nat where
  "html_max_depth = 64"

definition structural_tags :: "string list" where
  "structural_tags =
     [''html'', ''head'', ''body'', ''header'', ''footer'', ''main'', ''nav'', ''section'', ''article'',
      ''aside'', ''form'', ''table'', ''script'', ''style'', ''template'']"

text \<open>
  The value of an attribute. An attribute whose name cannot be read, and the wanted one without a
  value, end the search with nothing.
\<close>

fun find_attribute :: "string \<Rightarrow> string \<Rightarrow> node list \<Rightarrow> string option" where
  "find_attribute attr source [] = None"
| "find_attribute attr source (c # cs) =
     (if node_kind c = ''attribute'' then
        Option.bind (kind_text c [''attribute_name''] source) (\<lambda>name.
          if name = attr then
            Option.bind
              (case child_of_kind c [''quoted_attribute_value''] of
                 Some v \<Rightarrow> Some v | None \<Rightarrow> child_of_kind c [''attribute_value''])
              (\<lambda>v. map_option (\<lambda>t. trim_char (CHR 0x27) (trim_char (CHR 0x22) t)) (node_text v source))
          else find_attribute attr source cs)
      else find_attribute attr source cs)"

definition find_attribute_value :: "node \<Rightarrow> string \<Rightarrow> string \<Rightarrow> string option" where
  "find_attribute_value tag attr source = find_attribute attr source (node_children tag)"

definition html_tag_node :: "node \<Rightarrow> node" where
  "html_tag_node n =
     (case child_of_kind n [''start_tag''] of
        Some t \<Rightarrow> t
      | None \<Rightarrow> (case child_of_kind n [''self_closing_tag''] of Some t \<Rightarrow> t | None \<Rightarrow> n))"

definition html_name :: "node \<Rightarrow> string \<Rightarrow> (string \<times> symbol_kind) option" where
  "html_name tag source =
     (let tag_name = (case kind_text tag [''tag_name''] source of Some t \<Rightarrow> t | None \<Rightarrow> ''unknown'') in
      case find_attribute_value tag ''id'' source of
        Some i \<Rightarrow> Some (tag_name @ ''#'' @ i, Type)
      | None \<Rightarrow>
          (case find_attribute_value tag ''class'' source of
             Some cl \<Rightarrow> Some (tag_name @ ''.'' @ cl, Type)
           | None \<Rightarrow> if tag_name \<in> set structural_tags then Some (tag_name, Module) else None))"

definition html_element :: "string \<Rightarrow> path \<Rightarrow> node \<Rightarrow> symbol list option" where
  "html_element source file n =
     (let tag = html_tag_node n in
      with_some (html_name tag source) (\<lambda>(name, kind).
        with_body source n (\<lambda>_. with_body source tag (\<lambda>signature.
          emit source file n name kind Public [] None (\<lambda>_. Some signature)))))"

function html_recursive :: "string \<Rightarrow> path \<Rightarrow> nat \<Rightarrow> node \<Rightarrow> symbol list option" where
  "html_recursive source file depth n =
     (if depth > html_max_depth then Some []
      else
        gather
          [if node_kind n \<in> {''element'', ''self_closing_tag''} then html_element source file n else Some [],
           each_sound_child (\<lambda>_ c. html_recursive source file (depth + 1) c) n])"
  by pat_completeness auto
termination
  by (relation "measure (\<lambda>(s, f, d, n). size n)") (auto dest!: size_child)

declare html_recursive.simps [simp del]

definition html_extract :: "string \<Rightarrow> node \<Rightarrow> path \<Rightarrow> symbol list option" where
  "html_extract source root file = html_recursive source file 0 root"

lemma subtree_child_of_kind:
  "n \<in> set (subtrees root) \<Longrightarrow> html_tag_node n \<in> set (subtrees root)"
  by (auto simp: html_tag_node_def dest: subtree_kind split: option.split)

lemma html_element_sound [extraction]:
  "well_formed source root \<Longrightarrow> n \<in> set (subtrees root) \<Longrightarrow> sound source q root (html_element source q n)"
  unfolding html_element_def Let_def by (auto intro!: extraction subtree_child_of_kind split: prod.split)

lemma html_recursive_sound:
  "well_formed source root \<Longrightarrow> n \<in> set (subtrees root) \<Longrightarrow> sound source q root (html_recursive source q d n)"
proof (induction source q d n rule: html_recursive.induct)
  case (1 source q d n)
  then show ?case by (subst html_recursive.simps) (auto intro!: extraction)
qed

interpretation html: extractor any_tree html_extract
  by unfold_locales (simp add: html_extract_def html_recursive_sound)

text \<open>
  The name of an element with an id is composed, so its file need not hold it as text: a search that
  looks for the name in the text first does not find the element.
\<close>

lemma html_ids_not_in_source:
  "map_option (map sym_name)
     (html_extract ''<p id=a>''
       (Node ''element'' None True False False 0 0 0 8 0 8
         [Node ''start_tag'' None True False False 0 0 0 8 0 8
            [Node ''tag_name'' None True False False 0 1 0 2 1 2 [],
             Node ''attribute'' None True False False 0 3 0 7 3 7
               [Node ''attribute_name'' None True False False 0 3 0 5 3 5 [],
                Node ''attribute_value'' None True False False 0 6 0 7 6 7 []]]]) [RootDir]) = Some [''p#a''] \<and>
   \<not> contains_sub ''<p id=a>'' ''p#a''"
  by code_simp

section \<open>CSS\<close>

definition css_rule_set :: "string \<Rightarrow> path \<Rightarrow> node \<Rightarrow> symbol list option" where
  "css_rule_set source file n =
     with_some (kind_text n [''selectors''] source) (\<lambda>text.
       emit source file n (str_trim text) Type Public [] None (\<lambda>_. Some (str_trim text)))"

definition css_media_signature :: "string \<Rightarrow> string" where
  "css_media_signature body =
     (case find_char (CHR ''{'') body of
        Some p \<Rightarrow> str_trim (take p body)
      | None \<Rightarrow> (case str_lines body of [] \<Rightarrow> ''@media'' | l # _ \<Rightarrow> l))"

definition css_media_query :: "string \<Rightarrow> path \<Rightarrow> node \<Rightarrow> symbol list option" where
  "css_media_query source file n =
     with_body source n (\<lambda>body.
       emit source file n (css_media_signature body) Module Public [] None
         (\<lambda>_. Some (css_media_signature body)))"

definition css_keyframes :: "string \<Rightarrow> path \<Rightarrow> node \<Rightarrow> symbol list option" where
  "css_keyframes source file n =
     with_some (kind_text n [''keyframes_name''] source) (\<lambda>text.
       emit source file n (''@keyframes '' @ str_trim text) Type Public [] None
         (\<lambda>_. Some (''@keyframes '' @ str_trim text)))"

definition css_custom_property :: "string \<Rightarrow> path \<Rightarrow> node \<Rightarrow> symbol list option" where
  "css_custom_property source file n =
     with_some (kind_text n [''property_name''] source) (\<lambda>name.
       if \<not> starts_with ''--'' name then Some []
       else emit source file n name Const Public [] None (\<lambda>body. Some (str_trim body)))"

definition css_top_level :: "string \<Rightarrow> path \<Rightarrow> node \<Rightarrow> symbol list option" where
  "css_top_level source file n =
     gather
       [if node_kind n = ''rule_set'' then css_rule_set source file n
        else if node_kind n = ''media_statement'' then css_media_query source file n
        else if node_kind n = ''keyframes_statement'' then css_keyframes source file n
        else if node_kind n = ''declaration'' then css_custom_property source file n
        else Some [],
        if node_kind n = ''rule_set'' then
          with_kind n [''block'']
            (each_child (\<lambda>_ c.
               if node_kind c = ''declaration'' then css_custom_property source file c else Some []))
        else Some []]"

definition css_extract :: "string \<Rightarrow> node \<Rightarrow> path \<Rightarrow> symbol list option" where
  "css_extract source root file = each_sound_child (\<lambda>_. css_top_level source file) root"

lemma css_top_level_sound [extraction]:
  "well_formed source root \<Longrightarrow> n \<in> set (subtrees root) \<Longrightarrow> sound source q root (css_top_level source q n)"
  unfolding css_top_level_def css_rule_set_def css_media_query_def css_keyframes_def css_custom_property_def
  by (auto intro!: extraction)

interpretation css: extractor any_tree css_extract
  by unfold_locales (auto simp: css_extract_def intro!: extraction)

section \<open>JSON\<close>

definition json_pair :: "string \<Rightarrow> path \<Rightarrow> node \<Rightarrow> symbol list option" where
  "json_pair source file n =
     with_some (field_text n ''key'' source) (\<lambda>key.
     with_some (child_by_field_name n ''value'') (\<lambda>v.
       emit source file n (trim_char (CHR 0x22) key)
         (if node_kind v = ''object'' then Module else if node_kind v = ''array'' then Type else Const)
         Public [] None (\<lambda>_. None)))"

definition json_value_node :: "node \<Rightarrow> node option" where
  "json_value_node root =
     (if node_kind root = ''document'' then child_of_kind root [''object'', ''array'']
      else if node_kind root \<in> {''object'', ''array''} then Some root
      else None)"

definition json_extract :: "string \<Rightarrow> node \<Rightarrow> path \<Rightarrow> symbol list option" where
  "json_extract source root file =
     with_some (json_value_node root) (\<lambda>v.
       if node_kind v = ''object'' then
         each_child (\<lambda>_ c. if node_kind c = ''pair'' then json_pair source file c else Some []) v
       else Some [])"

interpretation json: extractor any_tree json_extract
proof
  fix source root q
  assume wf: "well_formed source root"
  have "v \<in> set (subtrees root)" if "json_value_node root = Some v" for v
    using that subtree_kind[OF subtrees_self] by (auto simp: json_value_node_def split: if_split_asm)
  with wf show "sound source q root (json_extract source root q)"
    by (auto simp: json_extract_def json_pair_def intro!: extraction)
qed

section \<open>YAML\<close>

definition yaml_max_depth :: nat where
  "yaml_max_depth = 4"

definition yaml_collection :: "node \<Rightarrow> symbol_kind option" where
  "yaml_collection c =
     (if node_kind c \<in> {''block_mapping'', ''flow_mapping''} then Some Module
      else if node_kind c \<in> {''block_sequence'', ''flow_sequence''} then Some Type else None)"

definition classify_yaml_value :: "node \<Rightarrow> symbol_kind" where
  "classify_yaml_value n =
     (case yaml_collection n of
        Some k \<Rightarrow> k
      | None \<Rightarrow>
          if node_kind n = ''block_node'' then
            (case first_some yaml_collection (node_children n) of Some k \<Rightarrow> k | None \<Rightarrow> Module)
          else Const)"

definition yaml_mapping_pair :: "string \<Rightarrow> path \<Rightarrow> nat \<Rightarrow> node \<Rightarrow> symbol list option" where
  "yaml_mapping_pair source file depth n =
     (if depth > yaml_max_depth then Some []
      else
        with_some (field_text n ''key'' source) (\<lambda>key.
          if str_trim key = [] then Some []
          else
            emit source file n (str_trim key)
              (case child_by_field_name n ''value'' of Some v \<Rightarrow> classify_yaml_value v | None \<Rightarrow> Const)
              Public [] None (\<lambda>_. None)))"

text \<open>The body of an anchor is its own text, which slices the source like any other.\<close>

definition yaml_anchor :: "string \<Rightarrow> path \<Rightarrow> node \<Rightarrow> symbol list option" where
  "yaml_anchor source file n =
     with_some (node_text n source) (\<lambda>text.
     with_some (strip_prefix_str ''&'' text) (\<lambda>rest.
       if str_trim rest = [] then Some []
       else Some [symbol_at n file (''&'' @ str_trim rest) Const Public [] None text None]))"

text \<open>The depth is passed on unchanged: it never grows.\<close>

function yaml_from_node :: "string \<Rightarrow> path \<Rightarrow> nat \<Rightarrow> node \<Rightarrow> symbol list option" where
  "yaml_from_node source file depth n =
     (if depth > yaml_max_depth then Some []
      else
        each_sound_child (\<lambda>_ c.
          if node_kind c \<in> {''block_mapping_pair'', ''flow_pair''} then yaml_mapping_pair source file depth c
          else if node_kind c = ''anchor'' then yaml_anchor source file c
          else yaml_from_node source file depth c) n)"
  by pat_completeness auto
termination
  by (relation "measure (\<lambda>(s, f, d, n). size n)") (auto dest!: size_child)

declare yaml_from_node.simps [simp del]

definition yaml_extract :: "string \<Rightarrow> node \<Rightarrow> path \<Rightarrow> symbol list option" where
  "yaml_extract source root file = yaml_from_node source file 0 root"

lemma yaml_anchor_sound [extraction]:
  "n \<in> set (subtrees root) \<Longrightarrow> sound source q root (yaml_anchor source q n)"
  unfolding yaml_anchor_def
  by (auto simp: symbol_at_def node_text_def node_bytes_def Let_def intro!: sound_with_some
      split: if_split_asm)

lemma yaml_from_node_sound:
  "well_formed source root \<Longrightarrow> n \<in> set (subtrees root) \<Longrightarrow> sound source q root (yaml_from_node source q d n)"
proof (induction source q d n rule: yaml_from_node.induct)
  case (1 source q d n)
  then show ?case
    by (subst yaml_from_node.simps) (auto simp: yaml_mapping_pair_def intro!: extraction)
qed

interpretation yaml: extractor any_tree yaml_extract
  by unfold_locales (simp add: yaml_extract_def yaml_from_node_sound)

section \<open>TOML\<close>

text \<open>A slice between two places found in a string, which are character boundaries: it panics when
  they are the wrong way round.\<close>

definition slice_between :: "string \<Rightarrow> nat \<Rightarrow> nat \<Rightarrow> string option" where
  "slice_between s a b = (if a \<le> b then Some (take (b - a) (drop a s)) else None)"

definition toml_key :: "node \<Rightarrow> node option" where
  "toml_key n = List.find (\<lambda>c. contains_sub (node_kind c) ''key'') (node_children n)"

text \<open>The name between brackets on the first line.\<close>

definition bracketed :: "string \<Rightarrow> string \<Rightarrow> string \<Rightarrow> (string \<Rightarrow> symbol list option) \<Rightarrow> symbol list option" where
  "bracketed opening closing line f =
     with_some (find_sub opening line) (\<lambda>a.
     with_some (find_sub closing line) (\<lambda>b.
       Option.bind (slice_between line (a + length opening) b) (\<lambda>t. f (str_trim t))))"

definition toml_table :: "string \<Rightarrow> path \<Rightarrow> node \<Rightarrow> symbol list option" where
  "toml_table source file n =
     (let table = (\<lambda>name. emit source file n name Module Public [] None (\<lambda>body. Some (first_line body))) in
      case toml_key n of
        Some h \<Rightarrow> with_some (node_text h source) (\<lambda>text. table (str_trim text))
      | None \<Rightarrow> with_body source n (\<lambda>body. bracketed ''['' '']'' (first_line body) table))"

definition toml_table_array :: "string \<Rightarrow> path \<Rightarrow> node \<Rightarrow> symbol list option" where
  "toml_table_array source file n =
     with_body source n (\<lambda>body.
       bracketed ''[['' '']]'' (first_line body) (\<lambda>name.
         emit source file n name Type Public [] None (\<lambda>body. Some (first_line body))))"

definition toml_pair :: "string \<Rightarrow> path \<Rightarrow> node \<Rightarrow> symbol list option" where
  "toml_pair source file n =
     with_some (toml_key n) (\<lambda>k.
     with_some (node_text k source) (\<lambda>text.
       if str_trim text = [] then Some []
       else emit source file n (str_trim text) Const Public [] None (\<lambda>body. Some (str_trim body))))"

definition toml_top_level :: "string \<Rightarrow> path \<Rightarrow> node \<Rightarrow> symbol list option" where
  "toml_top_level source file n =
     (if node_kind n = ''table'' then toml_table source file n
      else if node_kind n = ''table_array_element'' then toml_table_array source file n
      else if node_kind n = ''pair'' then toml_pair source file n
      else Some [])"

definition toml_extract :: "string \<Rightarrow> node \<Rightarrow> path \<Rightarrow> symbol list option" where
  "toml_extract source root file = each_sound_child (\<lambda>_. toml_top_level source file) root"

text \<open>The TOML grammar: a table starts with its bracket, an array of tables with two.\<close>

definition toml_headers :: "string \<Rightarrow> node \<Rightarrow> bool" where
  "toml_headers source root \<longleftrightarrow>
     list_all (\<lambda>n.
       (node_kind n = ''table'' \<longrightarrow> starts_with ''['' (first_line (node_bytes source n))) \<and>
       (node_kind n = ''table_array_element'' \<longrightarrow> starts_with ''[['' (first_line (node_bytes source n))))
       (subtrees root)"

lemma bracketed_sound:
  assumes "starts_with opening line" "opening \<noteq> []"
    and apart: "\<And>b. b < length opening \<Longrightarrow> \<not> occurs_at closing line b"
    and f: "\<And>t. sound source q root (f t)"
  shows "sound source q root (bracketed opening closing line f)"
proof -
  have "find_sub opening line = Some 0" using assms(1,2) by (cases line) (auto simp: starts_with_def)
  moreover have "length opening \<le> b" if "find_sub closing line = Some b" for b
    using find_sub_Some[OF that] apart not_le_imp_less by blast
  ultimately show ?thesis
    using f by (auto simp: bracketed_def slice_between_def intro!: sound_with_some)
qed

lemma single_bracket_apart: "starts_with ''['' line \<Longrightarrow> b < length ''['' \<Longrightarrow> \<not> occurs_at '']'' line b"
  by (cases line) (auto simp: starts_with_def occurs_at_def)

lemma double_bracket_apart: "starts_with ''[['' line \<Longrightarrow> b < length ''[['' \<Longrightarrow> \<not> occurs_at '']]'' line b"
  by (cases line; cases "tl line") (auto simp: starts_with_def occurs_at_def less_Suc_eq numeral_2_eq_2)

interpretation toml: extractor toml_headers toml_extract
proof
  fix source root q
  assume wf: "well_formed source root" and h: "toml_headers source root"
  have "sound source q root (toml_top_level source q n)" if n: "n \<in> set (subtrees root)" for n
  proof -
    note emit = sound_emit[OF wf n]
    have "sound source q root (toml_table source q n)" if "node_kind n = ''table''"
      using that h n wf single_bracket_apart
      by (auto simp: toml_table_def Let_def toml_headers_def list_all_iff split: option.split
          intro!: bracketed_sound extraction)
    moreover have "sound source q root (toml_table_array source q n)" if "node_kind n = ''table_array_element''"
      using that h n wf double_bracket_apart
      by (auto simp: toml_table_array_def toml_headers_def list_all_iff intro!: bracketed_sound extraction)
    ultimately show ?thesis
      using n wf by (auto simp: toml_top_level_def toml_pair_def intro!: extraction)
  qed
  then show "sound source q root (toml_extract source root q)"
    by (auto simp: toml_extract_def intro!: extraction)
qed

end
