(* ===== verification/Extract_Engine.thy ===== *)
theory Extract_Engine
  imports Extract_Base Languages Project
begin

text \<open>
  Extraction for plugin languages: \<open>extract_config.rs\<close> of codequery-core and
  \<open>extract_engine.rs\<close> of codequery-parse. Compiling a tree-sitter query and running it are
  parameters: a compiled query has the names of its captures, and lists for a tree the matches, each
  the captured nodes with the index of their capture. A captured node is given by the way to it from
  the root, so that its parents and siblings are known. Warnings are returned as values.
\<close>

section \<open>Configuration\<close>

record language_info =
  li_name :: string
  li_extensions :: "string list"

record symbol_rule =
  rl_kind :: string
  rl_query :: string
  rl_name :: string
  rl_body :: "string option"
  rl_doc :: "string option"
  rl_visibility :: "string option"

record extract_config =
  ec_language :: language_info
  ec_symbols :: "symbol_rule list"

definition symbol_kind_arms :: "(string list \<times> symbol_kind) list" where
  "symbol_kind_arms =
     [([''function''], Function), ([''method''], Method), ([''struct''], Struct), ([''class''], Class),
      ([''trait''], Trait), ([''interface''], Interface), ([''enum''], Enum),
      ([''type'', ''type_alias'', ''module_type''], Type), ([''const'', ''constant''], Const),
      ([''static''], Static), ([''module''], Module), ([''impl''], Impl), ([''test''], Test),
      ([''macro'', ''directive''], Macro), ([''variable'', ''var'', ''binding''], Variable),
      ([''namespace''], Namespace), ([''package''], Package), ([''record''], Record),
      ([''signature'', ''type_signature''], Signature), ([''mixin''], Mixin),
      ([''extension'', ''category''], Extension), ([''export''], Export), ([''port''], Port),
      ([''exception''], Exception), ([''event''], Event),
      ([''resource''], Resource), ([''data'', ''data_source''], Data), ([''output''], Output),
      ([''config'', ''configuration''], Config), ([''rule''], Rule), ([''stage''], Stage),
      ([''label''], Label), ([''route'', ''location''], Route), ([''block''], Block),
      ([''service''], Service), ([''message''], Message),
      ([''section'', ''heading''], Section), ([''element''], Element), ([''environment''], Environment),
      ([''property''], Property), ([''table''], Table), ([''view''], View),
      ([''procedure'', ''stored_procedure''], Procedure), ([''index''], Index), ([''field''], Field),
      ([''file''], File), ([''hunk''], Hunk), ([''alias''], Alias)]"

definition parse_symbol_kind :: "string \<Rightarrow> symbol_kind option" where
  "parse_symbol_kind s = match_arms symbol_kind_arms (to_lowercase s)"

definition load_extract_config :: "(string \<Rightarrow> string + extract_config) \<Rightarrow> string \<Rightarrow> string + extract_config" where
  "load_extract_config from_toml toml =
     map_sum (\<lambda>e. ''failed to parse extract.toml: '' @ e) id (from_toml toml)"

section \<open>Compiled rules\<close>

record query =
  q_names :: "string list"
  q_matches :: "node \<Rightarrow> string \<Rightarrow> (nat \<times> nat list) list list"

record compiled_rule =
  cr_kind :: symbol_kind
  cr_query :: query
  cr_name :: string
  cr_body :: "string option"
  cr_doc :: "string option"
  cr_visibility :: "string option"

definition strip_at :: "string \<Rightarrow> string" where
  "strip_at s = (case strip_prefix_str ''@'' s of Some r \<Rightarrow> r | None \<Rightarrow> s)"

definition quoted :: "string \<Rightarrow> string" where
  "quoted s = [CHR 0x27] @ s @ [CHR 0x27]"

definition compile_rule ::
  "(string \<Rightarrow> string + query) \<Rightarrow> symbol_rule \<Rightarrow> string + compiled_rule" where
  "compile_rule new_query r =
     (case parse_symbol_kind (rl_kind r) of
        None \<Rightarrow> Inl (''cq: extract.toml warning: unknown symbol kind '' @ quoted (rl_kind r) @ '', skipping rule'')
      | Some kind \<Rightarrow>
          (case new_query (rl_query r) of
             Inr q \<Rightarrow>
               Inr \<lparr>cr_kind = kind, cr_query = q, cr_name = strip_at (rl_name r),
                 cr_body = map_option strip_at (rl_body r), cr_doc = rl_doc r, cr_visibility = rl_visibility r\<rparr>
           | Inl e \<Rightarrow>
               Inl (''cq: extract.toml warning: query for '' @ quoted (rl_kind r) @ '' failed to compile: '' @ e
                 @ '', skipping rule'')))"

text \<open>The rules that compile, and the warnings about the others.\<close>

definition compile_extractor ::
  "(string \<Rightarrow> string + query) \<Rightarrow> extract_config \<Rightarrow> compiled_rule list \<times> string list" where
  "compile_extractor new_query config =
     (let rs = map (compile_rule new_query) (ec_symbols config) in
      (List.map_filter (case_sum (\<lambda>_. None) Some) rs, List.map_filter (case_sum Some (\<lambda>_. None)) rs))"

definition validate_config ::
  "(string \<Rightarrow> string + query) \<Rightarrow> extract_config \<Rightarrow> (nat \<times> string) list" where
  "validate_config new_query config =
     List.map_filter (\<lambda>(i, r).
         if parse_symbol_kind (rl_kind r) = None
         then Some (i, ''unknown symbol kind: '' @ quoted (rl_kind r))
         else
           (case new_query (rl_query r) of
              Inl e \<Rightarrow> Some (i, ''query compilation failed: '' @ e) | Inr _ \<Rightarrow> None))
       (enumerate 0 (ec_symbols config))"

section \<open>Places in a tree\<close>

fun node_at :: "node \<Rightarrow> nat list \<Rightarrow> node option" where
  "node_at n [] = Some n"
| "node_at n (i # is) = Option.bind (get_nth (node_children n) i) (\<lambda>c. node_at c is)"

text \<open>\<open>prev_sibling\<close> of the node at a place.\<close>

definition prev_sibling :: "node \<Rightarrow> nat list \<Rightarrow> node option" where
  "prev_sibling root p =
     (if p = [] \<or> last p = 0 then None else node_at root (butlast p @ [last p - 1]))"

definition is_comment :: "node \<Rightarrow> bool" where
  "is_comment n \<longleftrightarrow> node_kind n = ''comment'' \<or> node_kind n = ''line_comment''"

text \<open>From a node upwards: the first comment right before one of its ancestors.\<close>

function comment_above :: "node \<Rightarrow> string \<Rightarrow> nat list \<Rightarrow> string option" where
  "comment_above root source p =
     (if p = [] then None
      else
        (case prev_sibling root (butlast p) of
           Some prev \<Rightarrow>
             (if is_comment prev then
                (case node_text prev source of
                   Some t \<Rightarrow> Some t | None \<Rightarrow> comment_above root source (butlast p))
              else comment_above root source (butlast p))
         | None \<Rightarrow> comment_above root source (butlast p)))"
  by pat_completeness auto
termination
  by (relation "measure (\<lambda>(r, s, p). length p)") auto

declare comment_above.simps [simp del]

text \<open>The comments before a node, else the one before an ancestor.\<close>

definition extract_preceding_comments :: "node \<Rightarrow> string \<Rightarrow> nat list \<Rightarrow> string option" where
  "extract_preceding_comments root source p =
     (if p = [] then None
      else
        Option.bind (node_at root (butlast p)) (\<lambda>parent.
          case List.map_filter (\<lambda>s. node_text s source)
              (takeWhile is_comment (rev (take (last p) (node_children parent)))) of
            [] \<Rightarrow> comment_above root source p
          | comments \<Rightarrow> Some (join_with [CHR 0x0A] (rev comments))))"

section \<open>Matches and symbols\<close>

type_synonym query_match = "(nat \<times> nat list) list"

definition name_index :: "string \<Rightarrow> string list \<Rightarrow> nat option" where
  "name_index name names =
     (case filter (\<lambda>(i, n). n = name) (enumerate 0 names) of [] \<Rightarrow> None | (i, _) # _ \<Rightarrow> Some i)"

definition capture_place :: "query \<Rightarrow> query_match \<Rightarrow> string \<Rightarrow> nat list option" where
  "capture_place q m name =
     Option.bind (name_index name (q_names q)) (\<lambda>idx.
       map_option snd (List.find (\<lambda>c. fst c = idx) m))"

definition capture_node :: "query \<Rightarrow> node \<Rightarrow> query_match \<Rightarrow> string \<Rightarrow> node option" where
  "capture_node q root m name = Option.bind (capture_place q m name) (node_at root)"

definition capture_text :: "query \<Rightarrow> node \<Rightarrow> query_match \<Rightarrow> string \<Rightarrow> string \<Rightarrow> string option" where
  "capture_text q root m name source =
     Option.bind (capture_node q root m name) (\<lambda>n. node_text n source)"

definition determine_visibility :: "compiled_rule \<Rightarrow> string \<Rightarrow> visibility" where
  "determine_visibility rule name =
     (if cr_visibility rule = Some ''underscore_prefix'' \<and> starts_with ''_'' name then Private else Public)"

definition extract_doc :: "compiled_rule \<Rightarrow> node \<Rightarrow> query_match \<Rightarrow> string \<Rightarrow> string option" where
  "extract_doc rule root m source =
     (case cr_doc rule of
        None \<Rightarrow> None
      | Some strategy \<Rightarrow>
          if strategy = ''preceding_comment'' then
            Option.bind (capture_place (cr_query rule) m (cr_name rule)) (extract_preceding_comments root source)
          else if strategy = ''docstring'' then capture_text (cr_query rule) root m ''doc'' source
          else None)"

text \<open>Line, column and last line of the symbol of a match: the last line is that of the body, if the
  rule has one and the match captured it.\<close>

definition match_position :: "compiled_rule \<Rightarrow> node \<Rightarrow> query_match \<Rightarrow> nat \<times> nat \<times> nat" where
  "match_position rule root m =
     (case capture_node (cr_query rule) root m (cr_name rule) of
        None \<Rightarrow> (1, 0, 1)
      | Some n \<Rightarrow>
          (start_row n + 1, start_column n,
           (case Option.bind (cr_body rule) (capture_node (cr_query rule) root m) of
              Some b \<Rightarrow> end_row b + 1 | None \<Rightarrow> end_row n + 1)))"

definition match_symbol :: "compiled_rule \<Rightarrow> string \<Rightarrow> node \<Rightarrow> path \<Rightarrow> query_match \<Rightarrow> symbol option" where
  "match_symbol rule source root file m =
     map_option (\<lambda>name.
         (case match_position rule root m of
            (line, column, end_line) \<Rightarrow>
              Symbol name (cr_kind rule) file line column end_line (determine_visibility rule name) []
                (extract_doc rule root m source)
                (Option.bind (cr_body rule) (\<lambda>cap. capture_text (cr_query rule) root m cap source)) None))
       (capture_text (cr_query rule) root m (cr_name rule) source)"

definition extract_with_rule :: "compiled_rule \<Rightarrow> string \<Rightarrow> node \<Rightarrow> path \<Rightarrow> symbol list" where
  "extract_with_rule rule source root file =
     List.map_filter (match_symbol rule source root file) (q_matches (cr_query rule) root source)"

definition run_extractor :: "compiled_rule list \<Rightarrow> string \<Rightarrow> node \<Rightarrow> path \<Rightarrow> symbol list" where
  "run_extractor rules source root file = concat (map (\<lambda>r. extract_with_rule r source root file) rules)"

section \<open>The cache of compiled extractors\<close>

type_synonym compiled_cache = "string \<rightharpoonup> compiled_rule list"

text \<open>The key is the name of the language alone. Warnings appear when something is compiled.\<close>

definition get_or_compile ::
  "(string \<Rightarrow> string + query) \<Rightarrow> extract_config \<Rightarrow> compiled_cache
    \<Rightarrow> compiled_rule list \<times> string list \<times> compiled_cache" where
  "get_or_compile new_query config cache =
     (let key = li_name (ec_language config) in
      case cache key of
        Some rules \<Rightarrow> (rules, [], cache)
      | None \<Rightarrow>
          (case compile_extractor new_query config of
             (rules, warnings) \<Rightarrow> (rules, warnings, cache(key \<mapsto> rules))))"

definition extract_with_config ::
  "(string \<Rightarrow> string + query) \<Rightarrow> extract_config \<Rightarrow> string \<Rightarrow> node \<Rightarrow> path \<Rightarrow> compiled_cache
    \<Rightarrow> symbol list \<times> string list \<times> compiled_cache" where
  "extract_with_config new_query config source root file cache =
     (case get_or_compile new_query config cache of
        (rules, warnings, cache') \<Rightarrow> (run_extractor rules source root file, warnings, cache'))"

definition extract_with_config_uncached ::
  "(string \<Rightarrow> string + query) \<Rightarrow> extract_config \<Rightarrow> string \<Rightarrow> node \<Rightarrow> path \<Rightarrow> symbol list \<times> string list" where
  "extract_with_config_uncached new_query config source root file =
     (case compile_extractor new_query config of
        (rules, warnings) \<Rightarrow> (run_extractor rules source root file, warnings))"

section \<open>Lemmas\<close>

text \<open>
  Every kind of symbol is read back from the name it is displayed with, so an \<open>extract.toml\<close> can
  use the names that cq prints.
\<close>

theorem kind_names_round_trip: "parse_symbol_kind (kind_display k) = Some k"
  by (cases k; hypsubst; code_simp)

lemma compile_rule_error:
  "(\<exists>w. compile_rule nq r = Inl w) \<longleftrightarrow>
     parse_symbol_kind (rl_kind r) = None \<or> (\<exists>e. nq (rl_query r) = Inl e)"
  by (auto simp: compile_rule_def split: option.split sum.split)

lemma map_filter_enumerate:
  "map fst (List.map_filter (\<lambda>(i, r). map_option (Pair i) (f r)) (enumerate k rs)) =
     filter (\<lambda>i. f (rs ! (i - k)) \<noteq> None) [k..<k + length rs]"
proof (induction rs arbitrary: k)
  case (Cons r rs)
  have "filter (\<lambda>i. f ((r # rs) ! (i - k)) \<noteq> None) [Suc k..<Suc k + length rs] =
      filter (\<lambda>i. f (rs ! (i - Suc k)) \<noteq> None) [Suc k..<Suc k + length rs]"
    by (rule filter_cong) (auto simp: nth_Cons' Suc_diff_Suc diff_Suc split: nat.split)
  moreover have "[k..<k + length (r # rs)] = k # [Suc k..<Suc k + length rs]"
    by (subst upt_conv_Cons) simp_all
  ultimately show ?case using Cons[of "Suc k"] by (auto simp: map_filter_simps split: option.split)
qed (simp add: List.map_filter_def)

definition rule_error :: "(string \<Rightarrow> string + query) \<Rightarrow> symbol_rule \<Rightarrow> string option" where
  "rule_error nq r =
     (if parse_symbol_kind (rl_kind r) = None then Some (''unknown symbol kind: '' @ quoted (rl_kind r))
      else case nq (rl_query r) of Inl e \<Rightarrow> Some (''query compilation failed: '' @ e) | Inr _ \<Rightarrow> None)"

lemma validate_config_rule_error:
  "validate_config nq config =
     List.map_filter (\<lambda>(i, r). map_option (Pair i) (rule_error nq r)) (enumerate 0 (ec_symbols config))"
  unfolding validate_config_def
  by (rule arg_cong[where f = "\<lambda>f. List.map_filter f (enumerate 0 (ec_symbols config))"])
    (auto simp: rule_error_def fun_eq_iff split: sum.split)

lemma rule_error_compile: "rule_error nq r \<noteq> None \<longleftrightarrow> (\<exists>w. compile_rule nq r = Inl w)"
  unfolding compile_rule_error by (auto simp: rule_error_def split: sum.split)

lemma length_map_filter_sum:
  "length (List.map_filter (case_sum (\<lambda>_. None) Some) rs) + length (List.map_filter (case_sum Some (\<lambda>_. None)) rs)
     = length rs"
  by (induction rs) (auto simp: List.map_filter_def split: sum.split)

lemma length_errors:
  "length (List.map_filter (case_sum Some (\<lambda>_. None)) rs) = length (filter (\<lambda>r. \<exists>w. r = Inl w) rs)"
  by (induction rs) (auto simp: List.map_filter_def split: sum.split)

text \<open>
  Validation reports exactly the rules that compilation leaves out: the reported indices are those
  of the rules that do not compile, in order, each with a warning, and every other rule is compiled.
\<close>

theorem validation_predicts_compilation:
  "map fst (validate_config nq config) =
     filter (\<lambda>i. \<exists>w. compile_rule nq (ec_symbols config ! i) = Inl w) [0..<length (ec_symbols config)] \<and>
   length (snd (compile_extractor nq config)) = length (validate_config nq config) \<and>
   length (fst (compile_extractor nq config)) = length (ec_symbols config) - length (validate_config nq config)"
proof -
  let ?rs = "ec_symbols config"
  have idx: "map fst (validate_config nq config) =
      filter (\<lambda>i. \<exists>w. compile_rule nq (?rs ! i) = Inl w) [0..<length ?rs]"
    using map_filter_enumerate[of "rule_error nq" 0 ?rs]
    by (simp only: validate_config_rule_error rule_error_compile diff_zero add_0)
  have "length (validate_config nq config) = length (map fst (validate_config nq config))" by simp
  also have "\<dots> = length (filter (\<lambda>r. \<exists>w. compile_rule nq r = Inl w) ?rs)"
    unfolding idx by (simp add: length_filter_conv_card cong: conj_cong)
  also have "\<dots> = length (snd (compile_extractor nq config))"
    by (simp add: compile_extractor_def Let_def length_errors filter_map o_def)
  finally have w: "length (snd (compile_extractor nq config)) = length (validate_config nq config)" by simp
  moreover have "length (fst (compile_extractor nq config)) + length (snd (compile_extractor nq config)) = length ?rs"
    using length_map_filter_sum[of "map (compile_rule nq) ?rs"] by (simp add: compile_extractor_def Let_def)
  ultimately show ?thesis using idx by simp
qed

text \<open>The cache holds what compiling the one configuration of each language gives.\<close>

definition cache_agrees ::
  "(string \<Rightarrow> string \<Rightarrow> string + query) \<Rightarrow> (string \<Rightarrow> extract_config) \<Rightarrow> compiled_cache \<Rightarrow> bool" where
  "cache_agrees nq config_of cache \<longleftrightarrow>
     (\<forall>name rules. cache name = Some rules \<longrightarrow> rules = fst (compile_extractor (nq name) (config_of name)))"

lemma extract_with_config_cached:
  assumes "cache_agrees nq config_of cache" "li_name (ec_language (config_of name)) = name"
  shows "fst (extract_with_config (nq name) (config_of name) source root q cache) =
      fst (extract_with_config_uncached (nq name) (config_of name) source root q)"
    and "cache_agrees nq config_of (snd (snd (extract_with_config (nq name) (config_of name) source root q cache)))"
proof -
  have hit: "rules = fst (compile_extractor (nq name) (config_of name))" if "cache name = Some rules" for rules
    using assms(1) that by (simp add: cache_agrees_def)
  show "fst (extract_with_config (nq name) (config_of name) source root q cache) =
      fst (extract_with_config_uncached (nq name) (config_of name) source root q)"
    using hit by (cases "cache name")
      (simp_all add: extract_with_config_def extract_with_config_uncached_def get_or_compile_def Let_def
        assms(2) split: prod.split)
  show "cache_agrees nq config_of (snd (snd (extract_with_config (nq name) (config_of name) source root q cache)))"
    using assms
    by (auto simp: extract_with_config_def get_or_compile_def cache_agrees_def Let_def
        split: option.split prod.split)
qed

text \<open>A comment of the enclosing construct is taken for that of an undocumented symbol in it.\<close>

definition nested_tree :: node where
  "nested_tree =
     Node ''module'' None True False False 0 0 1 9 0 19
       [Node ''comment'' None True False False 0 0 0 9 0 9 [],
        Node ''class'' None True False False 1 0 1 9 10 19
          [Node ''method'' None True False False 1 6 1 9 16 19
             [Node ''identifier'' None True False False 1 6 1 7 16 17 []]]]"

lemma comment_of_enclosing_class:
  "extract_preceding_comments nested_tree ''// class
class m()'' [1, 0, 0] = Some ''// class
''"
  by code_simp

end
