(* ===== verification/Extract.thy ===== *)
theory Extract
  imports Extract_Rust Extract_Scripting Extract_Objects Extract_Jvm_Swift Extract_Native Extract_Data
    Extract_Engine Scanner Symbol_Index Refs
begin

text \<open>
  \<open>extract.rs\<close> of codequery-parse: the extractor of a language, and extraction by the name of a
  language, which for a plugin loads its configuration and grammar on first use. The theorems say
  what all extractors promise together, and what a scan and its index inherit from it.
\<close>

section \<open>The dispatch\<close>

definition extract_symbols ::
  "(string \<Rightarrow> bool) \<Rightarrow> string \<Rightarrow> node \<Rightarrow> path \<Rightarrow> language \<Rightarrow> symbol list option" where
  "extract_symbols upper source root file lang =
     (case lang of
        Rust \<Rightarrow> rust_extract source root file
      | Python \<Rightarrow> py_extract source root file
      | Go \<Rightarrow> go_extract upper source root file
      | Java \<Rightarrow> java_extract source root file
      | TypeScript \<Rightarrow> ts_extract source root file
      | JavaScript \<Rightarrow> ts_extract source root file
      | C \<Rightarrow> c_extract source root file
      | Cpp \<Rightarrow> cpp_extract source root file
      | Ruby \<Rightarrow> ruby_extract source root file
      | Php \<Rightarrow> php_extract source root file
      | CSharp \<Rightarrow> cs_extract source root file
      | Swift \<Rightarrow> swift_extract source root file
      | Kotlin \<Rightarrow> kotlin_extract source root file
      | Scala \<Rightarrow> scala_extract source root file
      | Zig \<Rightarrow> zig_extract source root file
      | Lua \<Rightarrow> lua_extract source root file
      | Bash \<Rightarrow> bash_extract source root file
      | Html \<Rightarrow> html_extract source root file
      | Css \<Rightarrow> css_extract source root file
      | Json \<Rightarrow> json_extract source root file
      | Yaml \<Rightarrow> yaml_extract source root file
      | Toml \<Rightarrow> toml_extract source root file)"

text \<open>
  What is installed for plugins: the languages directory, reading a file as text, TOML, and the
  grammar of a language as the function that compiles its queries.
\<close>

record plugin_env =
  pl_dir :: "path option"
  pl_read :: "path \<Rightarrow> string option"
  pl_toml :: "string \<Rightarrow> string + extract_config"
  pl_grammar :: "string \<Rightarrow> (string \<Rightarrow> string + query) option"

definition load_runtime_extract_config :: "plugin_env \<Rightarrow> string \<Rightarrow> extract_config option" where
  "load_runtime_extract_config env lang_name =
     Option.bind (pl_dir env) (\<lambda>dir.
     Option.bind (pl_read env (path_join (path_join dir (path_of_string lang_name)) [Normal ''extract.toml''])) (\<lambda>toml.
       case load_extract_config (pl_toml env) toml of Inl _ \<Rightarrow> None | Inr config \<Rightarrow> Some config))"

definition extract_symbols_by_name ::
  "plugin_env \<Rightarrow> (string \<Rightarrow> bool) \<Rightarrow> string \<Rightarrow> node \<Rightarrow> path \<Rightarrow> string \<Rightarrow> compiled_cache
    \<Rightarrow> (symbol list \<times> string list \<times> compiled_cache) option" where
  "extract_symbols_by_name env upper source root file lang_name cache =
     (case from_name lang_name of
        Some lang \<Rightarrow> map_option (\<lambda>ss. (ss, [], cache)) (extract_symbols upper source root file lang)
      | None \<Rightarrow>
          (case cache lang_name of
             Some rules \<Rightarrow> Some (run_extractor rules source root file, [], cache)
           | None \<Rightarrow>
               (case load_runtime_extract_config env lang_name of
                  None \<Rightarrow> Some ([], [], cache)
                | Some config \<Rightarrow>
                    (case pl_grammar env lang_name of
                       None \<Rightarrow> Some ([], [], cache)
                     | Some nq \<Rightarrow> Some (extract_with_config nq config source root file cache)))))"

section \<open>What all extractors promise\<close>

lemma extract_symbols_located_lemma:
  assumes wf: "well_formed source root" and toml: "toml_headers source root \<or> lang \<noteq> Toml"
  shows "\<exists>ss. extract_symbols upper source root q lang = Some ss \<and> (\<forall>s \<in> set ss. located source q root s)"
proof -
  note contracts = rust.contract py.contract go.contract java.contract ts.contract c.contract cpp.contract
    ruby.contract php.contract csharp.contract swift.contract kotlin.contract scala.contract zig.contract
    lua.contract bash.contract html.contract css.contract json.contract yaml.contract
  have "sound source q root (extract_symbols upper source root q lang)"
    using toml toml.contract[OF wf]
    by (cases lang) (simp_all add: extract_symbols_def contracts[OF wf])
  then show ?thesis by (simp add: sound_def)
qed

text \<open>
  C6: on a tree that belongs to its source, the extractor of every built-in language returns (it does
  not panic), and every symbol it returns, and every child of one, is a symbol of the file that stands
  at a node of the tree: line, column and last line are the node's, and the body is its source text.
  Only TOML asks for more: its table headers must start with their brackets.
\<close>

theorem extract_symbols_located:
  assumes "well_formed source root" and "lang = Toml \<Longrightarrow> toml_headers source root"
  shows "\<exists>ss. extract_symbols upper source root q lang = Some ss \<and> (\<forall>s \<in> set ss. located source q root s)"
  using extract_symbols_located_lemma assms by blast

text \<open>A Rust file with a public struct.\<close>

definition struct_source :: string where
  "struct_source = ''pub struct A {}''"

definition struct_example :: node where
  "struct_example =
     Node ''source_file'' None True False False 0 0 0 15 0 15
       [Node ''struct_item'' None True False False 0 0 0 15 0 15
          [Node ''visibility_modifier'' None True False False 0 0 0 3 0 3 [],
           Node ''type_identifier'' (Some ''name'') True False False 0 11 0 12 11 12 [],
           Node ''field_declaration_list'' (Some ''body'') True False False 0 13 0 15 13 15 []]]"

theorem extract_symbols_located_witness:
  "\<exists>ss. extract_symbols (\<lambda>_. False) struct_source struct_example [Normal ''a.rs''] Rust = Some ss \<and>
     map (\<lambda>s. (sym_name s, sym_kind s, sym_visibility s)) ss = [(''A'', Struct, Public)] \<and>
     (\<forall>s \<in> set ss. located struct_source [Normal ''a.rs''] struct_example s)"
proof -
  have wf: "well_formed struct_source struct_example" by code_simp
  have "map_option (map (\<lambda>s. (sym_name s, sym_kind s, sym_visibility s)))
      (extract_symbols (\<lambda>_. False) struct_source struct_example [Normal ''a.rs''] Rust) = Some [(''A'', Struct, Public)]"
    by code_simp
  with extract_symbols_located[OF wf, of Rust "\<lambda>_. False" "[Normal ''a.rs'']"] show ?thesis by auto
qed

section \<open>What scans and the index inherit\<close>

text \<open>A scan that uses these extractors on trees that belong to their files.\<close>

definition extracts :: "(string \<Rightarrow> bool) \<Rightarrow> scan_env \<Rightarrow> bool" where
  "extracts upper env \<longleftrightarrow>
     (\<forall>source tree p lang. Some (se_extract env source tree p lang) = extract_symbols upper source tree p lang \<or>
        extract_symbols upper source tree p lang = None)"

definition parses_well :: "scan_env \<Rightarrow> bool" where
  "parses_well env \<longleftrightarrow>
     (\<forall>lang p source tree. se_parse_file env lang p = Some (source, tree) \<longrightarrow>
        well_formed source tree \<and> toml_headers source tree)"

lemma located_preorder:
  "\<forall>s \<in> set ss. located source q root s \<Longrightarrow> s \<in> set (preorder ss) \<Longrightarrow> located source q root s"
  by (induction ss rule: preorder.induct) auto

lemma scan_file_located:
  assumes "extracts upper env" "parses_well env" "scan_single_file env root p = Some fs" "s \<in> set (fs_symbols fs)"
  shows "located (fs_source fs) (fs_file fs) (fs_tree fs) s"
proof -
  from assms(3) obtain lang where
    pf: "se_parse_file env lang (path_join root p) = Some (fs_source fs, fs_tree fs)"
    and fs: "fs_symbols fs = se_extract env (fs_source fs) (fs_tree fs) p lang" "fs_file fs = p"
    by (auto simp: scan_single_file_def Let_def split: option.split_asm)
  from pf assms(2) have "well_formed (fs_source fs) (fs_tree fs)" "toml_headers (fs_source fs) (fs_tree fs)"
    by (auto simp: parses_well_def)
  from extract_symbols_located_lemma[OF this(1) disjI1[OF this(2)], of upper p lang] obtain ss where
    ss: "extract_symbols upper (fs_source fs) (fs_tree fs) p lang = Some ss"
      "\<forall>s \<in> set ss. located (fs_source fs) p (fs_tree fs) s" by auto
  with assms(1) have "fs_symbols fs = ss" unfolding fs extracts_def by (metis option.distinct(1) option.inject)
  with ss(2) assms(4) fs(2) show ?thesis by simp
qed

text \<open>
  Every symbol that the index of a scan finds under a name, at any depth, stands in one of the
  scanned files: at the start of a node of that file's tree, with the source text of the node as its
  body.
\<close>

theorem indexed_symbols_located:
  assumes ex: "extracts upper env" and pw: "parses_well env"
    and scan: "scan_project env root scope = Inr rs" and found: "s \<in> set (find_by_name (from_scan rs) name)"
  shows "sym_name s = name \<and>
    (\<exists>fs \<in> set rs. sym_file s = fs_file fs \<and>
       (\<exists>n \<in> set (subtrees (fs_tree fs)). sym_line s = start_row n + 1 \<and> sym_column s = start_column n \<and>
          sym_end_line s = end_row n + 1 \<and> sym_body s = Some (node_bytes (fs_source fs) n)))"
proof -
  have s: "s \<in> set (preorder (concat (map fs_symbols rs)))" "sym_name s = name"
    using found by (simp_all add: find_by_name_index[OF from_scan_ok] from_scan_symbols)
  then obtain fs where fs: "fs \<in> set rs" "s \<in> set (preorder (fs_symbols fs))"
    by (auto simp: preorder_concat)
  from scan fs(1) obtain fl where "env_discover env root scope = Inr fl" "scan_single_file env root (fs_file fs) = Some fs"
    by (auto simp: scan_project_def set_scan_files split: sum.split_asm)
  then have "\<forall>t \<in> set (fs_symbols fs). located (fs_source fs) (fs_file fs) (fs_tree fs) t"
    using scan_file_located[OF ex pw] by blast
  from located_preorder[OF this fs(2)] have "located (fs_source fs) (fs_file fs) (fs_tree fs) s" .
  with s(2) fs(1) show ?thesis by (cases s) auto
qed

definition located_env :: scan_env where
  "located_env = scan_demo_env
     \<lparr>se_parse_file := \<lambda>_ _. Some (struct_source, struct_example),
      se_extract := \<lambda>source tree p lang.
        case extract_symbols (\<lambda>_. False) source tree p lang of Some ss \<Rightarrow> ss | None \<Rightarrow> []\<rparr>"

theorem indexed_symbols_located_witness:
  "\<exists>rs. scan_project located_env [RootDir] (Some [Normal ''src'']) = Inr rs \<and>
     map (\<lambda>s. (sym_file s, sym_line s)) (find_by_name (from_scan rs) ''A'') = [([Normal ''src'', Normal ''b.rs''], 1)] \<and>
     (\<forall>s \<in> set (find_by_name (from_scan rs) ''A''). \<exists>fs \<in> set rs. \<exists>n \<in> set (subtrees (fs_tree fs)).
        sym_body s = Some (node_bytes (fs_source fs) n))"
proof -
  have ex: "extracts (\<lambda>_. False) located_env"
    by (auto simp: extracts_def located_env_def split: option.split)
  have pw: "parses_well located_env"
    unfolding parses_well_def located_env_def by simp code_simp
  obtain rs where rs: "scan_project located_env [RootDir] (Some [Normal ''src'']) = Inr rs"
    and found: "map (\<lambda>s. (sym_file s, sym_line s)) (find_by_name (from_scan rs) ''A'')
      = [([Normal ''src'', Normal ''b.rs''], 1)]"
  proof -
    have "(case scan_project located_env [RootDir] (Some [Normal ''src'']) of
        Inl _ \<Rightarrow> [] | Inr rs \<Rightarrow> map (\<lambda>s. (sym_file s, sym_line s)) (find_by_name (from_scan rs) ''A''))
      = [([Normal ''src'', Normal ''b.rs''], 1)]" by code_simp
    then show ?thesis using that by (auto split: sum.split_asm)
  qed
  moreover have "\<exists>fs \<in> set rs. \<exists>n \<in> set (subtrees (fs_tree fs)). sym_body s = Some (node_bytes (fs_source fs) n)"
    if "s \<in> set (find_by_name (from_scan rs) ''A'')" for s
    using indexed_symbols_located[OF ex pw rs that] by blast
  ultimately show ?thesis by (intro exI[of _ rs] conjI ballI)
qed

section \<open>Plugins and their cache\<close>

text \<open>Every compiled extractor in the cache comes from the installed package of its language.\<close>

definition plugins_cached :: "plugin_env \<Rightarrow> compiled_cache \<Rightarrow> bool" where
  "plugins_cached env cache \<longleftrightarrow>
     (\<forall>name rules. cache name = Some rules \<longrightarrow>
        (\<exists>config nq. load_runtime_extract_config env name = Some config \<and> pl_grammar env name = Some nq \<and>
           rules = fst (compile_extractor nq config)))"

text \<open>
  If every installed package has the name of its directory, extraction by name never depends on
  what was extracted before: with a cache filled by earlier calls it returns the symbols that a fresh
  process returns, and it leaves the cache such that this stays true.
\<close>

theorem extract_by_name_cache_transparent:
  assumes named: "\<forall>name config. name_ok name \<and> load_runtime_extract_config env name = Some config \<longrightarrow>
      li_name (ec_language config) = name"
    and plain: "name_ok lang_name"
    and cached: "plugins_cached env cache"
    and run: "extract_symbols_by_name env upper source root q lang_name cache = Some (ss, ws, cache')"
  shows "plugins_cached env cache' \<and>
    (\<exists>ws0 cache0. extract_symbols_by_name env upper source root q lang_name Map.empty = Some (ss, ws0, cache0))"
proof (cases "from_name lang_name")
  case (Some lang)
  with run cached show ?thesis by (auto simp: extract_symbols_by_name_def)
next
  case builtin: None
  show ?thesis
  proof (cases "cache lang_name")
    case (Some rules)
    with cached obtain config nq where
      "load_runtime_extract_config env lang_name = Some config" "pl_grammar env lang_name = Some nq"
      "rules = fst (compile_extractor nq config)"
      unfolding plugins_cached_def by blast
    with run cached builtin Some named plain show ?thesis
      by (auto simp: extract_symbols_by_name_def extract_with_config_def get_or_compile_def Let_def
          split: prod.split)
  next
    case None
    with run cached builtin named plain show ?thesis
      by (auto simp: extract_symbols_by_name_def extract_with_config_def get_or_compile_def Let_def
          plugins_cached_def split: option.split_asm option.split prod.split_asm prod.split if_split_asm)
  qed
qed

lemma path_of_string_name: "name_ok s \<Longrightarrow> path_of_string s = [Normal s]"
  by (cases s) (auto simp: path_of_string_def Let_def split_on_no_sep name_ok_def segment_component_def)

text \<open>A package for Elixir whose one rule matches the first child of the root.\<close>

definition demo_config :: extract_config where
  "demo_config =
     \<lparr>ec_language = \<lparr>li_name = ''elixir'', li_extensions = [''.ex'']\<rparr>,
      ec_symbols = [\<lparr>rl_kind = ''Module'', rl_query = ''(alias) @name'', rl_name = ''@name'', rl_body = None,
        rl_doc = None, rl_visibility = None\<rparr>]\<rparr>"

definition demo_query :: "string \<Rightarrow> string + query" where
  "demo_query text = Inr \<lparr>q_names = [''name''], q_matches = \<lambda>root source. [[(0, [0])]]\<rparr>"

definition demo_plugins :: plugin_env where
  "demo_plugins =
     \<lparr>pl_dir = Some [RootDir],
      pl_read = \<lambda>p. if p = [RootDir, Normal ''elixir'', Normal ''extract.toml''] then Some ''t'' else None,
      pl_toml = \<lambda>_. Inr demo_config, pl_grammar = \<lambda>_. Some demo_query\<rparr>"

theorem extract_by_name_cache_transparent_witness:
  "\<exists>ws0 cache0. extract_symbols_by_name demo_plugins (\<lambda>_. False) struct_source struct_example [Normal ''a.ex'']
     ''elixir'' Map.empty =
     Some ([Symbol ''pub struct A {}'' Module [Normal ''a.ex''] 1 0 1 Public [] None None None], ws0, cache0)"
proof -
  let ?rules = "fst (compile_extractor demo_query demo_config)"
  let ?s = "Symbol ''pub struct A {}'' Module [Normal ''a.ex''] 1 0 1 Public [] None None None"
  have named: "\<forall>name config. name_ok name \<and> load_runtime_extract_config demo_plugins name = Some config \<longrightarrow>
      li_name (ec_language config) = name"
  proof (intro allI impI, elim conjE)
    fix name config
    assume ok: "name_ok name" and ld: "load_runtime_extract_config demo_plugins name = Some config"
    have "path_of_string name = [Normal name]" using ok by (simp add: path_of_string_name)
    with ld show "li_name (ec_language config) = name"
      by (auto simp: load_runtime_extract_config_def demo_plugins_def path_join_def is_absolute_def
          load_extract_config_def demo_config_def split: if_split_asm)
  qed
  have load: "load_runtime_extract_config demo_plugins ''elixir'' = Some demo_config" by code_simp
  then have cached: "plugins_cached demo_plugins [''elixir'' \<mapsto> ?rules]"
    by (auto simp: plugins_cached_def demo_plugins_def split: if_split_asm)
  have "from_name ''elixir'' = None" by code_simp
  moreover have "run_extractor ?rules struct_source struct_example [Normal ''a.ex''] = [?s]" by code_simp
  ultimately have run: "extract_symbols_by_name demo_plugins (\<lambda>_. False) struct_source struct_example [Normal ''a.ex'']
      ''elixir'' [''elixir'' \<mapsto> ?rules] = Some ([?s], [], [''elixir'' \<mapsto> ?rules])"
    by (simp add: extract_symbols_by_name_def)
  have "name_ok ''elixir''" by code_simp
  from extract_by_name_cache_transparent[OF named this cached run] show ?thesis by blast
qed

end
