(* ===== verification/Imports.thy ===== *)
theory Imports
  imports Languages Extract_Base
begin

text \<open>
  \<open>imports.rs\<close> of codequery-parse: the import statements of a file, one extractor for each
  language that has imports, and the dispatcher. None is a panic, as for symbols. The last section
  states what every extractor keeps: an import stands at a node of the tree, and its path is a
  contiguous piece of the source of a node at or below it.
\<close>

named_theorems importing "rules for the contract of the import extractors"

record import_info =
  im_source :: string
  im_kind :: string
  im_line :: nat
  im_external :: bool

section \<open>Texts\<close>

text \<open>\<open>trim_start_matches\<close> of a string, and the trims of a set of characters.\<close>

definition trim_start_str :: "string \<Rightarrow> string \<Rightarrow> string" where
  "trim_start_str p s = strip_all [p] s"

definition trim_start_chars :: "string \<Rightarrow> string \<Rightarrow> string" where
  "trim_start_chars cs s = dropWhile (\<lambda>c. c \<in> set cs) s"

definition trim_end_chars :: "string \<Rightarrow> string \<Rightarrow> string" where
  "trim_end_chars cs s = rev (dropWhile (\<lambda>c. c \<in> set cs) (rev s))"

definition ends_with :: "string \<Rightarrow> string \<Rightarrow> bool" where
  "ends_with p s \<longleftrightarrow> starts_with (rev p) (rev s)"

abbreviation quotes :: string where
  "quotes \<equiv> [CHR 0x22, CHR 0x27]"

definition unquoted :: "string \<Rightarrow> string" where
  "unquoted s = trim_end_chars quotes (trim_start_chars quotes s)"

definition import_at :: "node \<Rightarrow> string \<Rightarrow> string \<Rightarrow> bool \<Rightarrow> import_info" where
  "import_at n kind path external =
     \<lparr>im_source = path, im_kind = kind, im_line = start_row n + 1, im_external = external\<rparr>"

text \<open>The imports of the children of one kind, from their text.\<close>

definition text_imports ::
  "string \<Rightarrow> string \<Rightarrow> (node \<Rightarrow> string \<Rightarrow> import_info) \<Rightarrow> node \<Rightarrow> import_info list option" where
  "text_imports source kind f root =
     each_child (\<lambda>_ c. if node_kind c = kind then with_body source c (\<lambda>t. Some [f c t]) else Some []) root"

section \<open>Languages\<close>

definition rust_import :: "node \<Rightarrow> string \<Rightarrow> import_info" where
  "rust_import n t =
     (let path = str_trim (trim_end_char (CHR '';'') (trim_start_str ''use '' (trim_start_str ''pub(super) ''
            (trim_start_str ''pub(crate) '' (trim_start_str ''pub '' t))))) in
      import_at n (if ends_with ''::*'' path then ''wildcard'' else ''use'') path
        (\<not> starts_with ''crate::'' path \<and> \<not> starts_with ''self::'' path \<and> \<not> starts_with ''super::'' path))"

definition extract_rust_imports :: "string \<Rightarrow> node \<Rightarrow> import_info list option" where
  "extract_rust_imports source root = text_imports source ''use_declaration'' rust_import root"

definition extract_ts_import_source :: "string \<Rightarrow> node \<Rightarrow> string option" where
  "extract_ts_import_source source n =
     (case child_of_kind n [''string''] of
        Some c \<Rightarrow> map_option unquoted (extract_body source c)
      | None \<Rightarrow>
          map_option (\<lambda>t. str_trim (trim_end_char (CHR '';'') (trim_start_str ''import '' t))) (extract_body source n))"

definition extract_ts_imports :: "string \<Rightarrow> node \<Rightarrow> import_info list option" where
  "extract_ts_imports source root =
     each_child (\<lambda>_ c.
       if node_kind c = ''import_statement'' then
         Option.bind (extract_ts_import_source source c) (\<lambda>path.
           Some [import_at c ''import'' path (\<not> starts_with ''.'' path \<and> \<not> starts_with ''/'' path)])
       else Some []) root"

text \<open>The module of \<open>from M import x\<close>: the first name or relative import after \<open>from\<close>.\<close>

fun from_module :: "bool \<Rightarrow> node list \<Rightarrow> node option" where
  "from_module found_from [] = None"
| "from_module found_from (c # cs) =
     (if node_kind c = ''from'' then from_module True cs
      else if found_from \<and> (node_kind c = ''dotted_name'' \<or> node_kind c = ''relative_import'') then Some c
      else from_module found_from cs)"

definition extract_python_from_module :: "string \<Rightarrow> node \<Rightarrow> string option" where
  "extract_python_from_module source n =
     (case from_module False (node_children n) of
        Some c \<Rightarrow> extract_body source c
      | None \<Rightarrow>
          map_option (\<lambda>t.
            let stripped = trim_start_str ''from '' t in
            case find_sub '' import'' stripped of
              Some i \<Rightarrow> str_trim (take i stripped)
            | None \<Rightarrow> stripped) (extract_body source n))"

definition extract_python_imports :: "string \<Rightarrow> node \<Rightarrow> import_info list option" where
  "extract_python_imports source root =
     each_child (\<lambda>_ c.
       if node_kind c = ''import_statement'' then
         with_body source c (\<lambda>t.
           let path = str_trim (trim_end_char (CHR '';'') (trim_start_str ''import '' t)) in
           Some [import_at c ''import'' path (\<not> starts_with ''.'' path)])
       else if node_kind c = ''import_from_statement'' then
         Option.bind (extract_python_from_module source c) (\<lambda>m.
           Some [import_at c ''from'' m (\<not> starts_with ''.'' m)])
       else Some []) root"

definition extract_go_single_import :: "string \<Rightarrow> node \<Rightarrow> import_info list option" where
  "extract_go_single_import source n =
     with_kind n [''interpreted_string_literal''] (\<lambda>c.
       with_body source c (\<lambda>t. Some [import_at n ''import'' (trim_char (CHR 0x22) t) True]))"

definition extract_go_import_specs :: "string \<Rightarrow> node \<Rightarrow> import_info list option" where
  "extract_go_import_specs source n =
     each_child (\<lambda>_ c.
       if node_kind c = ''import_spec'' then extract_go_single_import source c
       else if node_kind c = ''import_spec_list'' then
         each_child (\<lambda>_ spec.
           if node_kind spec = ''import_spec'' then extract_go_single_import source spec else Some []) c
       else Some []) n"

definition extract_go_imports :: "string \<Rightarrow> node \<Rightarrow> import_info list option" where
  "extract_go_imports source root =
     each_child (\<lambda>_ c.
       if node_kind c = ''import_declaration'' then extract_go_import_specs source c else Some []) root"

definition extract_c_single_include :: "string \<Rightarrow> node \<Rightarrow> import_info list option" where
  "extract_c_single_include source n =
     with_kind n [''system_lib_string'', ''string_literal''] (\<lambda>c.
       with_body source c (\<lambda>t.
         Some [if node_kind c = ''system_lib_string''
               then import_at n ''include'' (trim_end_char (CHR ''>'') (trim_start_char (CHR ''<'') t)) True
               else import_at n ''include'' (trim_char (CHR 0x22) t) False]))"

definition extract_c_imports :: "string \<Rightarrow> node \<Rightarrow> import_info list option" where
  "extract_c_imports source root =
     each_child (\<lambda>_ c.
       if node_kind c = ''preproc_include'' then extract_c_single_include source c else Some []) root"

definition java_import :: "node \<Rightarrow> string \<Rightarrow> import_info" where
  "java_import n t =
     (let path = str_trim (trim_end_char (CHR '';'') (trim_start_str ''static '' (trim_start_str ''import '' t)));
          kind = (if ends_with ''.*'' path \<or> contains_sub t ''.*'' then ''wildcard''
                  else if starts_with ''static '' (trim_start_str ''import '' t) then ''static''
                  else ''import'') in
      import_at n kind path True)"

definition extract_java_imports :: "string \<Rightarrow> node \<Rightarrow> import_info list option" where
  "extract_java_imports source root = text_imports source ''import_declaration'' java_import root"

text \<open>The first quoted string of a call, else what is left without the keyword.\<close>

definition extract_ruby_string_arg :: "string \<Rightarrow> string" where
  "extract_ruby_string_arg t =
     (let start = length (takeWhile (\<lambda>c. c \<notin> set quotes) t);
          rest = drop (start + 1) t;
          otherwise = str_trim (trim_end_char (CHR '')'') (trim_start_char (CHR ''('') (str_trim
            (trim_start_str ''require'' (trim_start_str ''require_relative'' t))))) in
      if start < length t then
        (case find_char (t ! start) rest of Some e \<Rightarrow> take e rest | None \<Rightarrow> otherwise)
      else otherwise)"

definition ruby_call_import :: "node \<Rightarrow> string \<Rightarrow> import_info list" where
  "ruby_call_import n t =
     (if starts_with ''require_relative '' t \<or> starts_with ''require_relative('' t
      then [import_at n ''require_relative'' (extract_ruby_string_arg t) False]
      else if starts_with ''require '' t \<or> starts_with ''require('' t
      then [import_at n ''require'' (extract_ruby_string_arg t) True]
      else [])"

definition extract_ruby_imports :: "string \<Rightarrow> node \<Rightarrow> import_info list option" where
  "extract_ruby_imports source root =
     each_child (\<lambda>_ c.
       if node_kind c = ''call'' \<or> node_kind c = ''command''
       then with_body source c (\<lambda>t. Some (ruby_call_import c t)) else Some []) root"

definition php_import :: "node \<Rightarrow> string \<Rightarrow> import_info" where
  "php_import n t = import_at n ''use'' (str_trim (trim_end_char (CHR '';'') (trim_start_str ''use '' t))) True"

definition extract_php_imports :: "string \<Rightarrow> node \<Rightarrow> import_info list option" where
  "extract_php_imports source root = text_imports source ''namespace_use_declaration'' php_import root"

definition csharp_import :: "node \<Rightarrow> string \<Rightarrow> import_info" where
  "csharp_import n t =
     import_at n ''using''
       (str_trim (trim_end_char (CHR '';'') (trim_start_str ''static '' (trim_start_str ''using '' t)))) True"

definition extract_csharp_imports :: "string \<Rightarrow> node \<Rightarrow> import_info list option" where
  "extract_csharp_imports source root = text_imports source ''using_directive'' csharp_import root"

definition swift_import :: "node \<Rightarrow> string \<Rightarrow> import_info" where
  "swift_import n t = import_at n ''import'' (str_trim (trim_start_str ''import '' t)) True"

definition extract_swift_imports :: "string \<Rightarrow> node \<Rightarrow> import_info list option" where
  "extract_swift_imports source root = text_imports source ''import_declaration'' swift_import root"

definition kotlin_import :: "node \<Rightarrow> string \<Rightarrow> import_info" where
  "kotlin_import n t = import_at n ''import'' (str_trim (trim_end (trim_start_str ''import '' t))) True"

definition extract_kotlin_imports :: "string \<Rightarrow> node \<Rightarrow> import_info list option" where
  "extract_kotlin_imports source root =
     each_child (\<lambda>_ c.
       if node_kind c = ''import_list'' then text_imports source ''import_header'' kotlin_import c
       else if node_kind c = ''import_header'' then with_body source c (\<lambda>t. Some [kotlin_import c t])
       else Some []) root"

definition scala_import :: "node \<Rightarrow> string \<Rightarrow> import_info" where
  "scala_import n t =
     (let path = str_trim (trim_start_str ''import '' t) in
      import_at n (if ends_with ''._'' path then ''wildcard'' else ''import'') path True)"

definition extract_scala_imports :: "string \<Rightarrow> node \<Rightarrow> import_info list option" where
  "extract_scala_imports source root = text_imports source ''import_declaration'' scala_import root"

text \<open>The string arguments of a call, in order.\<close>

definition string_args :: "node \<Rightarrow> node list" where
  "string_args n =
     concat (map (\<lambda>c. filter (\<lambda>a. node_kind a = ''string'') (node_children c))
       (filter (\<lambda>c. node_kind c = ''arguments'') (node_children n)))"

definition zig_import :: "node \<Rightarrow> string \<Rightarrow> import_info" where
  "zig_import n t =
     (let path = trim_char (CHR 0x22) t in
      import_at n ''import'' path
        (\<not> starts_with ''.'' path \<and> \<not> starts_with ''./'' path \<and> \<not> starts_with ''../'' path))"

fun extract_zig_single_import :: "string \<Rightarrow> node \<Rightarrow> node list \<Rightarrow> import_info list option" where
  "extract_zig_single_import source n [] = Some []"
| "extract_zig_single_import source n (c # cs) =
     (if node_kind c = ''builtin_function'' then
        with_body source c (\<lambda>t.
          if starts_with ''@import'' t then
            (case string_args c of
               a # _ \<Rightarrow> with_body source a (\<lambda>t'. Some [zig_import n t'])
             | [] \<Rightarrow> extract_zig_single_import source n cs)
          else extract_zig_single_import source n cs)
      else extract_zig_single_import source n cs)"

definition extract_zig_imports :: "string \<Rightarrow> node \<Rightarrow> import_info list option" where
  "extract_zig_imports source root =
     each_child (\<lambda>_ c.
       if node_kind c = ''variable_declaration''
       then extract_zig_single_import source c (node_children c) else Some []) root"

function extract_lua_require_from_node :: "string \<Rightarrow> node \<Rightarrow> import_info list option" where
  "extract_lua_require_from_node source n =
     (let recurse = each_child (\<lambda>_ c. extract_lua_require_from_node source c) n in
      if node_kind n = ''function_call'' then
        with_body source n (\<lambda>t.
          if starts_with ''require'' t then
            (case string_args n of
               a # _ \<Rightarrow> with_body source a (\<lambda>t'. Some [import_at n ''require'' (unquoted t') True])
             | [] \<Rightarrow> recurse)
          else recurse)
      else recurse)"
  by pat_completeness auto
termination
  by (relation "measure (\<lambda>(source, n). size n)") (auto dest!: size_child)

declare extract_lua_require_from_node.simps [simp del]

definition extract_lua_imports :: "string \<Rightarrow> node \<Rightarrow> import_info list option" where
  "extract_lua_imports source root = each_child (\<lambda>_ c. extract_lua_require_from_node source c) root"

text \<open>The words of a command, after a name that sources a script; the last one counts.\<close>

fun bash_scan :: "string \<Rightarrow> bool \<Rightarrow> string option \<Rightarrow> node list \<Rightarrow> (bool \<times> string option) option" where
  "bash_scan source is_source path [] = Some (is_source, path)"
| "bash_scan source is_source path (c # cs) =
     (if node_kind c = ''command_name'' then
        with_body source c (\<lambda>t.
          bash_scan source (is_source \<or> str_trim t = ''source'' \<or> str_trim t = ''.'') path cs)
      else if is_source \<and> node_kind c = ''word'' then
        with_body source c (\<lambda>t. bash_scan source is_source (Some t) cs)
      else bash_scan source is_source path cs)"

definition extract_bash_source_command :: "string \<Rightarrow> node \<Rightarrow> import_info list option" where
  "extract_bash_source_command source n =
     Option.bind (bash_scan source False None (node_children n)) (\<lambda>r.
       Some (case r of
         (True, Some p) \<Rightarrow> [import_at n ''source'' p False]
       | _ \<Rightarrow> []))"

definition extract_bash_imports :: "string \<Rightarrow> node \<Rightarrow> import_info list option" where
  "extract_bash_imports source root =
     each_child (\<lambda>_ c. if node_kind c = ''command'' then extract_bash_source_command source c else Some []) root"

definition extract_imports :: "string \<Rightarrow> node \<Rightarrow> language \<Rightarrow> import_info list option" where
  "extract_imports source root lang =
     (case lang of
        Rust \<Rightarrow> extract_rust_imports source root
      | TypeScript \<Rightarrow> extract_ts_imports source root
      | JavaScript \<Rightarrow> extract_ts_imports source root
      | Python \<Rightarrow> extract_python_imports source root
      | Go \<Rightarrow> extract_go_imports source root
      | C \<Rightarrow> extract_c_imports source root
      | Cpp \<Rightarrow> extract_c_imports source root
      | Java \<Rightarrow> extract_java_imports source root
      | Ruby \<Rightarrow> extract_ruby_imports source root
      | Php \<Rightarrow> extract_php_imports source root
      | CSharp \<Rightarrow> extract_csharp_imports source root
      | Swift \<Rightarrow> extract_swift_imports source root
      | Kotlin \<Rightarrow> extract_kotlin_imports source root
      | Scala \<Rightarrow> extract_scala_imports source root
      | Zig \<Rightarrow> extract_zig_imports source root
      | Lua \<Rightarrow> extract_lua_imports source root
      | Bash \<Rightarrow> extract_bash_imports source root
      | _ \<Rightarrow> Some [])"


section \<open>The contract\<close>

text \<open>The path of an import is a contiguous piece of the text of a node at or below the import's.\<close>

definition import_located :: "string \<Rightarrow> node \<Rightarrow> import_info \<Rightarrow> bool" where
  "import_located source root i \<longleftrightarrow>
     (\<exists>n \<in> set (subtrees root). im_line i = start_row n + 1 \<and>
        (\<exists>m \<in> set (subtrees n). sublist (im_source i) (node_bytes source m)))"

definition imports_ok :: "string \<Rightarrow> node \<Rightarrow> import_info list option \<Rightarrow> bool" where
  "imports_ok source root r \<longleftrightarrow> (\<exists>is. r = Some is \<and> (\<forall>i \<in> set is. import_located source root i))"

locale import_extractor =
  fixes extr :: "string \<Rightarrow> node \<Rightarrow> import_info list option"
  assumes contract: "well_formed source root \<Longrightarrow> imports_ok source root (extr source root)"
begin

lemma imports_no_panic: "well_formed source root \<Longrightarrow> extr source root \<noteq> None"
  using contract by (fastforce simp: imports_ok_def)

lemma imports_within: "well_formed source root \<Longrightarrow> extr source root = Some is \<Longrightarrow> i \<in> set is \<Longrightarrow>
    import_located source root i"
  using contract by (fastforce simp: imports_ok_def)

end

lemma strip_one_suffix: "strip_one ws s = Some r \<Longrightarrow> suffix r s"
  by (induction ws) (auto split: if_splits simp: suffix_drop)

lemma strip_all_suffix: "suffix (strip_all ws s) s"
proof (induction ws s rule: strip_all.induct)
  case (1 ws s)
  show ?case
  proof (cases "strip_one ws s")
    case None
    then show ?thesis by (simp add: strip_all_id)
  next
    case (Some r)
    then have "strip_all ws s = strip_all ws r" by (subst strip_all.simps) simp
    with 1[OF Some] strip_one_suffix[OF Some] show ?thesis by (auto elim: suffix_order.order_trans)
  qed
qed

lemma piece_strip_all [importing]: "sublist s t \<Longrightarrow> sublist (strip_all ws s) t"
  using strip_all_suffix[of ws s] by (auto intro: sublist_order.order_trans)

lemma piece_rev [importing]: "sublist (rev s) t \<Longrightarrow> sublist s (rev t)"
  by (simp add: sublist_rev_left)

lemma piece_trims [importing]:
  assumes "sublist s t"
  shows "sublist (str_trim s) t" "sublist (trim_end s) t" "sublist (trim_start_str p s) t"
    "sublist (trim_start_chars cs s) t" "sublist (trim_end_chars cs s) t"
    "sublist (trim_start_char c s) t" "sublist (trim_end_char c s) t" "sublist (trim_char c s) t"
    "sublist (take k s) t" "sublist (drop k s) t"
proof -
  have rev_strip: "sublist (rev (strip_all ws (rev x))) x" for ws x
    using piece_strip_all[of "rev x" "rev x" ws] by (simp add: sublist_rev_left)
  have rev_drop: "sublist (rev (dropWhile P (rev x))) x" for P and x :: string
    by (simp add: sublist_rev_left)
  note parts = sublist_order.order_trans[OF _ assms]
  show "sublist (trim_end s) t" unfolding trim_end_def by (rule parts[OF rev_strip])
  show "sublist (str_trim s) t" unfolding str_trim_def
    by (rule sublist_order.order_trans[OF rev_strip piece_strip_all[OF assms]])
  show "sublist (trim_start_str p s) t" unfolding trim_start_str_def by (rule piece_strip_all[OF assms])
  show "sublist (trim_start_chars cs s) t" "sublist (trim_start_char c s) t" "sublist (take k s) t"
    "sublist (drop k s) t"
    by (auto simp: trim_start_chars_def trim_start_char_def intro: parts)
  show "sublist (trim_end_chars cs s) t" "sublist (trim_end_char c s) t"
    by (auto simp: trim_end_chars_def trim_end_char_def intro: parts rev_drop)
  show "sublist (trim_char c s) t" unfolding trim_char_def trim_end_char_def trim_start_char_def
    by (rule sublist_order.order_trans[OF rev_drop parts[OF sublist_dropWhile]])
qed

lemma piece_unquoted [importing]: "sublist s t \<Longrightarrow> sublist (unquoted s) t"
  unfolding unquoted_def by (intro piece_trims)

lemma piece_ruby [importing]: "sublist s t \<Longrightarrow> sublist (extract_ruby_string_arg s) t"
  by (auto simp: extract_ruby_string_arg_def Let_def split: option.split intro!: importing)


lemma imports_ok_Some [importing]:
  "(\<And>i. i \<in> set is \<Longrightarrow> import_located source root i) \<Longrightarrow> imports_ok source root (Some is)"
  by (simp add: imports_ok_def)

lemma imports_ok_none [importing, simp]: "imports_ok source root (Some [])"
  by (simp add: imports_ok_def)

lemma imports_gather [importing]:
  "\<forall>r \<in> set rs. imports_ok source root r \<Longrightarrow> imports_ok source root (gather rs)"
proof (induction rs)
  case (Cons r rs)
  then obtain xs ys where "r = Some xs" "gather rs = Some ys"
    "\<forall>i \<in> set xs. import_located source root i" "\<forall>i \<in> set ys. import_located source root i"
    by (auto simp: imports_ok_def)
  then show ?case by (auto simp: imports_ok_def gather.simps)
qed (simp add: gather.simps)

lemma imports_each_child [importing]:
  assumes "n \<in> set (subtrees root)"
    and "\<And>prev c. c \<in> set (subtrees root) \<Longrightarrow> c \<in> set (node_children n) \<Longrightarrow> imports_ok source root (f prev c)"
  shows "imports_ok source root (each_child f n)"
  unfolding each_child_def
  by (rule imports_gather) (auto intro!: assms(2) subtree_child[OF assms(1)] dest!: with_prev_children)

lemma imports_with_body [importing]:
  "well_formed source root \<Longrightarrow> n \<in> set (subtrees root) \<Longrightarrow>
     imports_ok source root (f (node_bytes source n)) \<Longrightarrow> imports_ok source root (with_body source n f)"
  by (simp add: with_body_def well_formed_body)

lemma imports_with_kind [importing]:
  assumes "n \<in> set (subtrees root)"
    and "\<And>c. c \<in> set (subtrees root) \<Longrightarrow> c \<in> set (node_children n) \<Longrightarrow> imports_ok source root (f c)"
  shows "imports_ok source root (with_kind n kinds f)"
  using assms subtree_child[OF assms(1)]
  by (auto simp: with_kind_def with_some_def child_of_kind_def find_Some_iff split: option.split)

lemma import_at_located:
  "n \<in> set (subtrees root) \<Longrightarrow> m \<in> set (subtrees n) \<Longrightarrow> sublist path (node_bytes source m) \<Longrightarrow>
     import_located source root (import_at n kind path external)"
  by (auto simp: import_located_def import_at_def)

lemma import_at_node [importing]:
  "n \<in> set (subtrees root) \<Longrightarrow> sublist path (node_bytes source n) \<Longrightarrow>
     import_located source root (import_at n kind path external)"
  by (rule import_at_located) simp_all

lemma import_at_child:
  "n \<in> set (subtrees root) \<Longrightarrow> c \<in> set (node_children n) \<Longrightarrow> sublist path (node_bytes source c) \<Longrightarrow>
     import_located source root (import_at n kind path external)"
  using subtree_child[of n n c] by (auto intro: import_at_located)

lemma imports_text [importing]:
  "well_formed source root \<Longrightarrow> n \<in> set (subtrees root) \<Longrightarrow>
     (\<And>c. c \<in> set (subtrees root) \<Longrightarrow> import_located source root (f c (node_bytes source c))) \<Longrightarrow>
     imports_ok source root (text_imports source kind f n)"
  unfolding text_imports_def by (auto intro!: importing)

lemma root_subtree [importing]: "root \<in> set (subtrees root)"
  by simp

interpretation rust_imports: import_extractor extract_rust_imports
  by unfold_locales (auto simp: extract_rust_imports_def rust_import_def Let_def intro!: importing)

interpretation java_imports: import_extractor extract_java_imports
  by unfold_locales (auto simp: extract_java_imports_def java_import_def Let_def intro!: importing)

interpretation php_imports: import_extractor extract_php_imports
  by unfold_locales (auto simp: extract_php_imports_def php_import_def intro!: importing)

interpretation csharp_imports: import_extractor extract_csharp_imports
  by unfold_locales (auto simp: extract_csharp_imports_def csharp_import_def intro!: importing)

interpretation swift_imports: import_extractor extract_swift_imports
  by unfold_locales (auto simp: extract_swift_imports_def swift_import_def intro!: importing)

interpretation kotlin_imports: import_extractor extract_kotlin_imports
  by unfold_locales (auto simp: extract_kotlin_imports_def kotlin_import_def intro!: importing)

interpretation scala_imports: import_extractor extract_scala_imports
  by unfold_locales (auto simp: extract_scala_imports_def scala_import_def Let_def intro!: importing)

interpretation ruby_imports: import_extractor extract_ruby_imports
  by unfold_locales
    (auto simp: extract_ruby_imports_def ruby_call_import_def intro!: importing split: if_splits)

lemma go_single_import [importing]:
  "well_formed source root \<Longrightarrow> n \<in> set (subtrees root) \<Longrightarrow>
     imports_ok source root (extract_go_single_import source n)"
  unfolding extract_go_single_import_def
  by (intro importing) (auto intro!: import_at_child piece_trims)

interpretation go_imports: import_extractor extract_go_imports
  by unfold_locales (auto simp: extract_go_imports_def extract_go_import_specs_def intro!: importing)

lemma c_single_include [importing]:
  "well_formed source root \<Longrightarrow> n \<in> set (subtrees root) \<Longrightarrow>
     imports_ok source root (extract_c_single_include source n)"
  unfolding extract_c_single_include_def
  by (intro importing) (auto split: if_splits intro!: import_at_child piece_trims)

interpretation c_imports: import_extractor extract_c_imports
  by unfold_locales (auto simp: extract_c_imports_def intro!: importing)


text \<open>A text that a helper reads off the text of a node at or below the import's.\<close>

definition piece_of :: "string \<Rightarrow> node \<Rightarrow> string option \<Rightarrow> bool" where
  "piece_of source n r \<longleftrightarrow>
     (\<exists>path. r = Some path \<and> (\<exists>m \<in> set (subtrees n). sublist path (node_bytes source m)))"

lemma piece_own_text [importing]:
  "well_formed source root \<Longrightarrow> n \<in> set (subtrees root) \<Longrightarrow> sublist (f (node_bytes source n)) (node_bytes source n) \<Longrightarrow>
     piece_of source n (map_option f (extract_body source n))"
  by (auto simp: piece_of_def well_formed_body intro!: bexI[of _ n])

lemma piece_child_text:
  "well_formed source root \<Longrightarrow> n \<in> set (subtrees root) \<Longrightarrow> c \<in> set (node_children n) \<Longrightarrow>
     sublist (f (node_bytes source c)) (node_bytes source c) \<Longrightarrow>
     piece_of source n (map_option f (extract_body source c))"
  using subtree_child[of n root c] subtree_child[of n n c] by (auto simp: piece_of_def well_formed_body)

lemma imports_bind_piece [importing]:
  "n \<in> set (subtrees root) \<Longrightarrow> piece_of source n r \<Longrightarrow>
     imports_ok source root (Option.bind r (\<lambda>p. Some [import_at n kind p (external p)]))"
  by (auto simp: piece_of_def intro!: imports_ok_Some import_at_located)

lemma ts_import_source [importing]:
  "well_formed source root \<Longrightarrow> n \<in> set (subtrees root) \<Longrightarrow> piece_of source n (extract_ts_import_source source n)"
  unfolding extract_ts_import_source_def
  by (auto simp: child_of_kind_def find_Some_iff split: option.split
      intro!: piece_own_text piece_child_text piece_trims piece_unquoted)

interpretation ts_imports: import_extractor extract_ts_imports
  by unfold_locales (auto simp: extract_ts_imports_def intro!: importing)

lemma from_module_child: "from_module b cs = Some c \<Longrightarrow> c \<in> set cs"
  by (induction b cs rule: from_module.induct) (auto split: if_splits)

lemma python_from_module [importing]:
  assumes wf: "well_formed source root" and n: "n \<in> set (subtrees root)"
  shows "piece_of source n (extract_python_from_module source n)"
proof (cases "from_module False (node_children n)")
  case None
  then show ?thesis unfolding extract_python_from_module_def
    by (auto simp: Let_def split: option.split intro!: piece_own_text[OF wf n] piece_trims)
next
  case (Some c)
  have "piece_of source n (map_option (\<lambda>t. t) (extract_body source c))"
    by (rule piece_child_text[OF wf n from_module_child[OF Some]]) simp
  with Some show ?thesis unfolding extract_python_from_module_def by (simp add: option.map_ident)
qed

interpretation python_imports: import_extractor extract_python_imports
  by unfold_locales (auto simp: extract_python_imports_def Let_def intro!: importing)

lemma string_args_subtree: "a \<in> set (string_args n) \<Longrightarrow> a \<in> set (subtrees n)"
  unfolding string_args_def using subtree_child[of n n] subtree_child[of _ n] by fastforce

lemma zig_single_import:
  assumes "well_formed source root" "n \<in> set (subtrees root)"
  shows "set cs \<subseteq> set (node_children n) \<Longrightarrow> imports_ok source root (extract_zig_single_import source n cs)"
proof (induction cs)
  case (Cons c cs)
  then have c: "c \<in> set (subtrees n)" using subtree_child[of n n c] by auto
  have arg: "a \<in> set (subtrees n)" if "string_args c = a # as" for a as
    using string_args_subtree[of a c] that subtrees_trans[OF _ c] by simp
  have "imports_ok source root (with_body source a (\<lambda>t'. Some [zig_import n t']))"
    if "string_args c = a # as" for a as
    using assms arg[OF that] subtrees_trans[OF arg[OF that] assms(2)]
    by (auto simp: zig_import_def Let_def intro!: imports_with_body imports_ok_Some import_at_located[of n _ a]
        piece_trims)
  with Cons assms subtrees_trans[OF c assms(2)] show ?case
    by (auto split: list.split intro!: imports_with_body)
qed simp

interpretation zig_imports: import_extractor extract_zig_imports
  by unfold_locales (auto simp: extract_zig_imports_def intro!: importing zig_single_import)

lemma lua_require [importing]:
  "well_formed source root \<Longrightarrow> n \<in> set (subtrees root) \<Longrightarrow>
     imports_ok source root (extract_lua_require_from_node source n)"
proof (induction source n rule: extract_lua_require_from_node.induct)
  case (1 source n)
  have rec: "imports_ok source root (each_child (\<lambda>_ c. extract_lua_require_from_node source c) n)"
    using 1 by (auto intro!: imports_each_child)
  have "imports_ok source root (with_body source a (\<lambda>t'. Some [import_at n ''require'' (unquoted t') True]))"
    if "string_args n = a # as" for a as
    using string_args_subtree[of a n] that "1.prems" subtrees_trans[of a n root]
    by (auto intro!: imports_with_body imports_ok_Some import_at_located[of n _ a] piece_unquoted)
  with rec "1.prems" show ?case
    by (subst extract_lua_require_from_node.simps) (auto simp: Let_def split: list.split intro!: imports_with_body)
qed

interpretation lua_imports: import_extractor extract_lua_imports
  by unfold_locales (auto simp: extract_lua_imports_def intro!: importing)


lemma bash_scan_path:
  assumes "well_formed source root" "n \<in> set (subtrees root)"
  shows "set cs \<subseteq> set (node_children n) \<Longrightarrow>
    (\<forall>p. path = Some p \<longrightarrow> (\<exists>m \<in> set (subtrees n). sublist p (node_bytes source m))) \<Longrightarrow>
    \<exists>b q. bash_scan source is_source path cs = Some (b, q) \<and>
      (\<forall>p. q = Some p \<longrightarrow> (\<exists>m \<in> set (subtrees n). sublist p (node_bytes source m)))"
proof (induction cs arbitrary: is_source path)
  case (Cons c cs)
  then have c: "c \<in> set (subtrees n)" using subtree_child[of n n c] by auto
  then have body: "extract_body source c = Some (node_bytes source c)"
    using assms subtrees_trans well_formed_body by blast
  have own: "\<forall>p. Some (node_bytes source c) = Some p \<longrightarrow> (\<exists>m \<in> set (subtrees n). sublist p (node_bytes source m))"
    using c by auto
  show ?case using Cons.IH[OF _ Cons.prems(2)] Cons.IH[OF _ own] Cons.prems(1) body by (simp add: with_body_def)
qed simp

lemma bash_source_command [importing]:
  assumes "well_formed source root" "n \<in> set (subtrees root)"
  shows "imports_ok source root (extract_bash_source_command source n)"
proof -
  obtain b q where "bash_scan source False None (node_children n) = Some (b, q)"
    "\<forall>p. q = Some p \<longrightarrow> (\<exists>m \<in> set (subtrees n). sublist p (node_bytes source m))"
    using bash_scan_path[OF assms, of "node_children n" None False] by auto
  with assms(2) show ?thesis unfolding extract_bash_source_command_def
    by (auto split: bool.split option.split intro!: imports_ok_Some import_at_located)
qed

interpretation bash_imports: import_extractor extract_bash_imports
  by unfold_locales (auto simp: extract_bash_imports_def intro!: importing)


section \<open>What is reported\<close>

text \<open>
  C7: For a tree that belongs to its source, reading the imports never panics, whatever the language.
  Every import reported stands at a node of the tree (its line is the node's, counted from one) and
  its path is a contiguous piece of the source of that node or of one below it.
\<close>
theorem extract_imports_located:
  assumes "well_formed source root"
  shows "\<exists>is. extract_imports source root lang = Some is \<and> (\<forall>i \<in> set is. import_located source root i)"
proof -
  have "imports_ok source root (extract_imports source root lang)"
    unfolding extract_imports_def
    using rust_imports.contract[OF assms] ts_imports.contract[OF assms] python_imports.contract[OF assms]
      go_imports.contract[OF assms] c_imports.contract[OF assms] java_imports.contract[OF assms]
      ruby_imports.contract[OF assms] php_imports.contract[OF assms] csharp_imports.contract[OF assms]
      swift_imports.contract[OF assms] kotlin_imports.contract[OF assms] scala_imports.contract[OF assms]
      zig_imports.contract[OF assms] lua_imports.contract[OF assms] bash_imports.contract[OF assms]
    by (cases lang) simp_all
  then show ?thesis by (simp add: imports_ok_def)
qed

text \<open>An import of TypeScript.\<close>

definition leaf :: "string \<Rightarrow> nat \<Rightarrow> nat \<Rightarrow> nat \<Rightarrow> node" where
  "leaf kind row from until = Node kind None True False False row 0 row (until - from) from until []"

definition ts_example_source :: string where
  "ts_example_source = ''import '' @ [CHR 0x22] @ ''./m'' @ [CHR 0x22] @ '';''"

definition ts_example :: node where
  "ts_example = Node ''program'' None True False False 0 0 0 13 0 13
     [Node ''import_statement'' None True False False 0 0 0 13 0 13 [leaf ''string'' 0 7 12]]"

theorem extract_imports_located_witness:
  "extract_imports ts_example_source ts_example TypeScript =
     Some [\<lparr>im_source = ''./m'', im_kind = ''import'', im_line = 1, im_external = False\<rparr>] \<and>
   import_located ts_example_source ts_example
     \<lparr>im_source = ''./m'', im_kind = ''import'', im_line = 1, im_external = False\<rparr>"
proof -
  have "well_formed ts_example_source ts_example" by code_simp
  from extract_imports_located[OF this, of TypeScript]
  obtain "is" where "extract_imports ts_example_source ts_example TypeScript = Some is"
    "\<forall>i \<in> set is. import_located ts_example_source ts_example i" by blast
  moreover have "extract_imports ts_example_source ts_example TypeScript =
     Some [\<lparr>im_source = ''./m'', im_kind = ''import'', im_line = 1, im_external = False\<rparr>]" by code_simp
  ultimately show ?thesis by (metis list.set_intros(1) option.inject)
qed

text \<open>Ruby's requires are looked for among the children of the root only, although the helper is
  documented to recurse.\<close>

lemma gather_none: "\<forall>r \<in> set rs. r = Some [] \<Longrightarrow> gather rs = Some []"
  by (induction rs) (simp_all add: gather.simps)

lemma nested_require_missed:
  assumes "\<forall>c \<in> set (node_children root). node_kind c \<noteq> ''call'' \<and> node_kind c \<noteq> ''command''"
  shows "extract_ruby_imports source root = Some []"
  unfolding extract_ruby_imports_def each_child_def
  by (rule gather_none) (use assms in \<open>auto dest!: with_prev_children\<close>)

text \<open>A Zig file imported by its name counts as external.\<close>

lemma zig_local_file_external: "im_external (zig_import n ([CHR 0x22] @ ''util.zig'' @ [CHR 0x22]))"
  by (simp add: zig_import_def import_at_def trim_char_def trim_end_char_def trim_start_char_def starts_with_def)

end
