(* ===== verification/Tree_Queries.thy ===== *)
theory Tree_Queries
  imports Extract_Engine
begin

text \<open>
  The smaller analyses of a parse tree in codequery-parse: supertype relations (\<open>hierarchy.rs\<close>), the
  type at a position (\<open>types.rs\<close>), structural search (\<open>search.rs\<close>) and syntax errors
  (\<open>diagnostics.rs\<close>, with the data of \<open>diagnostic.rs\<close>). Parameters stand for the calls into
  tree-sitter: compiling and running a query, the deepest node at a point, \<open>has_error\<close>.
\<close>

section \<open>Supertype relations\<close>

record supertype_relation =
  rel_subtype :: string
  rel_supertype :: string
  rel_file :: path
  rel_line :: nat

text \<open>\<open>if let Some(x) = ...\<close> around a push.\<close>

definition given :: "'a option \<Rightarrow> ('a \<Rightarrow> 'b list) \<Rightarrow> 'b list" where
  "given x f = (case x of None \<Rightarrow> [] | Some a \<Rightarrow> f a)"

definition named_children :: "node \<Rightarrow> node list" where
  "named_children n = filter node_is_named (node_children n)"

definition find_child_of_kind :: "node \<Rightarrow> string \<Rightarrow> node option" where
  "find_child_of_kind n kind = List.find (\<lambda>c. node_kind c = kind) (node_children n)"

definition relation_at :: "node \<Rightarrow> path \<Rightarrow> string \<Rightarrow> string \<Rightarrow> supertype_relation" where
  "relation_at n file sub super =
     \<lparr>rel_subtype = sub, rel_supertype = super, rel_file = file, rel_line = start_row n + 1\<rparr>"

definition rust_relations :: "string \<Rightarrow> path \<Rightarrow> node \<Rightarrow> supertype_relation list" where
  "rust_relations source file n =
     (if node_kind n = ''impl_item'' then
        given (child_by_field_name n ''trait'') (\<lambda>trait_node.
        given (child_by_field_name n ''type'') (\<lambda>type_node.
        given (node_text trait_node source) (\<lambda>super.
        given (node_text type_node source) (\<lambda>sub. [relation_at n file sub super]))))
      else [])"

text \<open>The base name of a generic type, the text of any other.\<close>

definition extract_type_name :: "node \<Rightarrow> string \<Rightarrow> string option" where
  "extract_type_name n source =
     (if node_kind n = ''generic_type'' then
        (case field_text n ''name'' source of
           Some t \<Rightarrow> Some t
         | None \<Rightarrow> (case named_children n of [] \<Rightarrow> None | c # _ \<Rightarrow> node_text c source))
      else node_text n source)"

definition typed_children :: "string \<Rightarrow> path \<Rightarrow> string \<Rightarrow> node \<Rightarrow> node \<Rightarrow> supertype_relation list" where
  "typed_children source file sub n list =
     concat (map (\<lambda>c. given (extract_type_name c source) (\<lambda>super. [relation_at n file sub super]))
       (named_children list))"

definition ts_relations :: "string \<Rightarrow> path \<Rightarrow> node \<Rightarrow> supertype_relation list" where
  "ts_relations source file n =
     (if node_kind n = ''class_declaration'' then
        given (field_text n ''name'' source) (\<lambda>sub.
        given (find_child_of_kind n ''class_heritage'') (\<lambda>heritage.
          concat (map (typed_children source file sub n)
            (filter (\<lambda>clause. node_kind clause = ''extends_clause'' \<or> node_kind clause = ''implements_clause'')
              (named_children heritage)))))
      else [])"

definition python_relations :: "string \<Rightarrow> path \<Rightarrow> node \<Rightarrow> supertype_relation list" where
  "python_relations source file n =
     (if node_kind n = ''class_definition'' then
        given (field_text n ''name'' source) (\<lambda>sub.
        given (child_by_field_name n ''superclasses'') (\<lambda>args.
          concat (map (\<lambda>arg. given (node_text arg source) (\<lambda>super. [relation_at n file sub super]))
            (filter (\<lambda>arg. node_kind arg \<noteq> ''keyword_argument'') (named_children args)))))
      else [])"

definition java_relations :: "string \<Rightarrow> path \<Rightarrow> node \<Rightarrow> supertype_relation list" where
  "java_relations source file n =
     (if node_kind n = ''class_declaration'' then
        given (field_text n ''name'' source) (\<lambda>sub.
          given (child_by_field_name n ''superclass'') (typed_children source file sub n)
            @ given (child_by_field_name n ''interfaces'') (typed_children source file sub n))
      else [])"

definition go_relations :: "string \<Rightarrow> path \<Rightarrow> node \<Rightarrow> supertype_relation list" where
  "go_relations source file n =
     (if node_kind n = ''type_spec'' then
        given (field_text n ''name'' source) (\<lambda>sub.
        given (child_by_field_name n ''type'') (\<lambda>struct_type.
          if node_kind struct_type = ''struct_type'' then
            given (find_child_of_kind struct_type ''field_declaration_list'') (\<lambda>fields.
              concat (map (\<lambda>field.
                  if node_kind field = ''field_declaration'' \<and> child_by_field_name field ''name'' = None
                  then given (field_text field ''type'' source) (\<lambda>super. [relation_at field file sub super])
                  else [])
                (named_children fields)))
          else []))
      else [])"

text \<open>The five collectors recurse alike: first the node, then its children in order.\<close>

fun collect_relations :: "(node \<Rightarrow> 'a list) \<Rightarrow> node \<Rightarrow> 'a list" where
  "collect_relations f (Node k fd nm er mi r c re ce sb eb ch) =
     f (Node k fd nm er mi r c re ce sb eb ch) @ concat (map (collect_relations f) ch)"

definition node_relations :: "language \<Rightarrow> string \<Rightarrow> path \<Rightarrow> node \<Rightarrow> supertype_relation list" where
  "node_relations lang source file =
     (case lang of
        Rust \<Rightarrow> rust_relations source file
      | TypeScript \<Rightarrow> ts_relations source file
      | JavaScript \<Rightarrow> ts_relations source file
      | Python \<Rightarrow> python_relations source file
      | Java \<Rightarrow> java_relations source file
      | Go \<Rightarrow> go_relations source file
      | _ \<Rightarrow> (\<lambda>n. []))"

definition extract_supertype_relations ::
  "string \<Rightarrow> node \<Rightarrow> path \<Rightarrow> language \<Rightarrow> supertype_relation list" where
  "extract_supertype_relations source root file lang = collect_relations (node_relations lang source file) root"

section \<open>The type at a position\<close>

definition extract_rust_type :: "node \<Rightarrow> string \<Rightarrow> string option" where
  "extract_rust_type n source =
     (if node_kind n = ''let_declaration'' then field_text n ''type'' source
      else if node_kind n = ''parameter'' then field_text n ''type'' source
      else if node_kind n = ''function_item'' then field_text n ''return_type'' source
      else None)"

definition extract_python_type :: "node \<Rightarrow> string \<Rightarrow> string option" where
  "extract_python_type n source =
     (if node_kind n = ''typed_parameter'' \<or> node_kind n = ''typed_default_parameter''
      then field_text n ''type'' source
      else if node_kind n = ''function_definition'' then field_text n ''return_type'' source
      else None)"

text \<open>The first named child that has a text, else the annotation without its colons.\<close>

definition type_annotation_text :: "node \<Rightarrow> string \<Rightarrow> string option" where
  "type_annotation_text n source =
     (case first_some (\<lambda>c. node_text c source) (named_children n) of
        Some t \<Rightarrow> Some t
      | None \<Rightarrow>
          Option.bind (node_text n source) (\<lambda>full.
            let trimmed = str_trim (trim_start_char (CHR '':'') full) in
            if trimmed = [] then None else Some trimmed))"

definition annotation_child :: "node \<Rightarrow> string \<Rightarrow> string \<Rightarrow> string option" where
  "annotation_child n kind source =
     Option.bind (find_child_of_kind n kind) (\<lambda>ann. type_annotation_text ann source)"

definition extract_typescript_type :: "node \<Rightarrow> string \<Rightarrow> string option" where
  "extract_typescript_type n source =
     (if node_kind n = ''variable_declarator'' then annotation_child n ''type_annotation'' source
      else if node_kind n = ''required_parameter'' \<or> node_kind n = ''optional_parameter''
      then annotation_child n ''type_annotation'' source
      else if node_kind n = ''function_declaration'' then
        (case annotation_child n ''return_type'' source of
           Some t \<Rightarrow> Some t
         | None \<Rightarrow> annotation_child n ''type_annotation'' source)
      else None)"

definition extract_type_from_node :: "node \<Rightarrow> string \<Rightarrow> language \<Rightarrow> string option" where
  "extract_type_from_node n source lang =
     (case lang of
        Rust \<Rightarrow> extract_rust_type n source
      | Python \<Rightarrow> extract_python_type n source
      | TypeScript \<Rightarrow> extract_typescript_type n source
      | JavaScript \<Rightarrow> extract_typescript_type n source
      | _ \<Rightarrow> None)"

text \<open>From the node at a place up to the root: \<open>parent\<close> drops the last step of the place.\<close>

function type_upwards :: "node \<Rightarrow> string \<Rightarrow> language \<Rightarrow> nat list \<Rightarrow> string option" where
  "type_upwards root source lang p =
     (case Option.bind (node_at root p) (\<lambda>n. extract_type_from_node n source lang) of
        Some t \<Rightarrow> Some t
      | None \<Rightarrow> (if p = [] then None else type_upwards root source lang (butlast p)))"
  by pat_completeness auto
termination
  by (relation "measure (\<lambda>(root, source, lang, p). length p)") auto

declare type_upwards.simps [simp del]

text \<open>\<open>descend root (row, column)\<close> is the place of the deepest node there, if any.\<close>

definition extract_type_at_position ::
  "(node \<Rightarrow> nat \<times> nat \<Rightarrow> nat list option) \<Rightarrow> string \<Rightarrow> node \<Rightarrow> nat \<Rightarrow> nat \<Rightarrow> language \<Rightarrow> string option" where
  "extract_type_at_position descend source root line column lang =
     (if line = 0 then None
      else Option.bind (descend root (line - 1, column)) (type_upwards root source lang))"

section \<open>Structural search\<close>

record search_match =
  sm_file :: path
  sm_line :: nat
  sm_column :: nat
  sm_end_line :: nat
  sm_end_column :: nat
  sm_matched_text :: string
  sm_pattern :: string

definition match_of :: "string \<Rightarrow> string \<Rightarrow> path \<Rightarrow> node \<Rightarrow> search_match" where
  "match_of pattern source file n =
     \<lparr>sm_file = file, sm_line = start_row n, sm_column = start_column n, sm_end_line = end_row n,
       sm_end_column = end_column n,
       sm_matched_text = (case node_text n source of Some t \<Rightarrow> t | None \<Rightarrow> ''<invalid utf8>''),
       sm_pattern = pattern\<rparr>"

text \<open>The first capture of each match; matches without captures are skipped. A left value is the
  query error.\<close>

definition search_file ::
  "(string \<Rightarrow> string + query) \<Rightarrow> string \<Rightarrow> string \<Rightarrow> node \<Rightarrow> path \<Rightarrow> string + search_match list" where
  "search_file new_query pattern source root file =
     map_sum id (\<lambda>q.
       concat (map (\<lambda>m.
           case m of
             [] \<Rightarrow> []
           | (_, place) # _ \<Rightarrow> given (node_at root place) (\<lambda>n. [match_of pattern source file n]))
         (q_matches q root source))) (new_query pattern)"

section \<open>Syntax errors\<close>

datatype diagnostic_severity = SevError | SevWarning | SevInformation | SevHint

datatype diagnostic_source = SrcSyntax | SrcLsp

record diagnostic =
  dg_file :: path
  dg_line :: nat
  dg_column :: nat
  dg_end_line :: nat
  dg_end_column :: nat
  dg_severity :: diagnostic_severity
  dg_message :: string
  dg_source :: diagnostic_source
  dg_code :: "string option"

definition error_at :: "path \<Rightarrow> node \<Rightarrow> diagnostic" where
  "error_at file n =
     \<lparr>dg_file = file, dg_line = start_row n + 1, dg_column = start_column n, dg_end_line = end_row n + 1,
       dg_end_column = end_column n, dg_severity = SevError,
       dg_message = (if node_is_error n then ''unexpected syntax'' else ''missing '' @ node_kind n),
       dg_source = SrcSyntax, dg_code = None\<rparr>"

text \<open>Error nodes and missing nodes are reported and not entered.\<close>

function collect_errors :: "(node \<Rightarrow> bool) \<Rightarrow> path \<Rightarrow> node \<Rightarrow> diagnostic list" where
  "collect_errors has_error file n =
     (if node_is_error n then [error_at file n]
      else if node_is_missing n then [error_at file n]
      else if has_error n then concat (map (collect_errors has_error file) (node_children n))
      else [])"
  by pat_completeness auto
termination
  by (relation "measure (\<lambda>(has_error, file, n). size n)") (auto dest!: size_child)

declare collect_errors.simps [simp del]

definition extract_syntax_errors :: "(node \<Rightarrow> bool) \<Rightarrow> node \<Rightarrow> path \<Rightarrow> diagnostic list" where
  "extract_syntax_errors has_error root file =
     (if has_error root then collect_errors has_error file root else [])"


section \<open>Relations come from nodes of the tree\<close>

lemma collect_relations_subtrees: "collect_relations f n = concat (map f (subtrees n))"
proof (induction f n rule: collect_relations.induct)
  case (1 f k fd nm er mi r c re ce sb eb ch)
  then have "concat (map (collect_relations f) ch) = concat (map (\<lambda>x. concat (map f (subtrees x))) ch)"
    by (metis (mono_tags, lifting) map_eq_conv)
  also have "\<dots> = concat (map f (concat (map subtrees ch)))"
    by (induction ch) simp_all
  finally show ?case by simp
qed

lemma set_given [simp]: "y \<in> set (given x f) \<longleftrightarrow> (\<exists>a. x = Some a \<and> y \<in> set (f a))"
  by (auto simp: given_def split: option.split)

lemma find_child_subtree: "find_child_of_kind n kind = Some c \<Longrightarrow> c \<in> set (subtrees n)"
  using subtree_child[of n n c] by (auto simp: find_child_of_kind_def find_Some_iff)

text \<open>A text of the tree: that of some node below the given one.\<close>

definition text_below :: "string \<Rightarrow> node \<Rightarrow> string \<Rightarrow> bool" where
  "text_below source n t \<longleftrightarrow> (\<exists>c \<in> set (subtrees n). node_text c source = Some t)"

lemma text_below_field: "field_text n field source = Some t \<Longrightarrow> text_below source n t"
  by (auto simp: field_text_def text_below_def bind_eq_Some_conv dest!: child_by_field_name_subtree)

lemma text_below_trans: "text_below source c t \<Longrightarrow> c \<in> set (subtrees n) \<Longrightarrow> text_below source n t"
  unfolding text_below_def using subtrees_trans by blast

lemma named_child_subtree: "c \<in> set (named_children n) \<Longrightarrow> c \<in> set (subtrees n)"
  using subtree_child[of n n c] by (auto simp: named_children_def)

lemma text_below_type_name:
  assumes "extract_type_name n source = Some t"
  shows "text_below source n t"
proof (cases "node_kind n = ''generic_type'' \<and> field_text n ''name'' source = None")
  case True
  with assms obtain c cs where "named_children n = c # cs" "node_text c source = Some t"
    by (auto simp: extract_type_name_def split: list.splits)
  then show ?thesis using named_child_subtree[of c n] by (auto simp: text_below_def)
next
  case False
  with assms show ?thesis
    by (auto simp: extract_type_name_def text_below_def text_below_field[unfolded text_below_def]
        split: if_splits option.splits)
qed

text \<open>A relation at a node whose names are texts below it.\<close>

definition relation_ok :: "string \<Rightarrow> path \<Rightarrow> node \<Rightarrow> supertype_relation \<Rightarrow> bool" where
  "relation_ok source file root r \<longleftrightarrow> rel_file r = file \<and>
     (\<exists>n \<in> set (subtrees root). rel_line r = start_row n + 1) \<and>
     text_below source root (rel_subtype r) \<and> text_below source root (rel_supertype r)"

lemma relation_okI [intro]:
  "m \<in> set (subtrees root) \<Longrightarrow> text_below source root sub \<Longrightarrow> text_below source root super \<Longrightarrow>
     relation_ok source file root (relation_at m file sub super)"
  by (auto simp: relation_ok_def relation_at_def)

lemma relation_ok_lift:
  "relation_ok source file n r \<Longrightarrow> n \<in> set (subtrees root) \<Longrightarrow> relation_ok source file root r"
  unfolding relation_ok_def using text_below_trans subtrees_trans by blast

lemma rust_relation_ok: "r \<in> set (rust_relations source file n) \<Longrightarrow> relation_ok source file n r"
  by (auto simp: rust_relations_def text_below_def split: if_splits
      intro!: relation_okI dest!: child_by_field_name_subtree)

lemma typed_children_ok:
  assumes "r \<in> set (typed_children source file sub n list)" "list \<in> set (subtrees n)" "text_below source n sub"
  shows "relation_ok source file n r"
proof -
  from assms(1) obtain c super where c: "c \<in> set (named_children list)"
    "extract_type_name c source = Some super" and r: "r = relation_at n file sub super"
    by (auto simp: typed_children_def)
  then have "text_below source n super"
    using text_below_trans[OF text_below_type_name] named_child_subtree subtrees_trans assms(2) by blast
  with assms(3) r show ?thesis by auto
qed

lemma ts_relation_ok: "r \<in> set (ts_relations source file n) \<Longrightarrow> relation_ok source file n r"
  using find_child_subtree named_child_subtree subtrees_trans
  by (fastforce simp: ts_relations_def split: if_splits intro: typed_children_ok text_below_field)

lemma java_relation_ok: "r \<in> set (java_relations source file n) \<Longrightarrow> relation_ok source file n r"
  by (auto simp: java_relations_def split: if_splits
      intro: typed_children_ok text_below_field child_by_field_name_subtree)

lemma python_relation_ok:
  assumes "r \<in> set (python_relations source file n)"
  shows "relation_ok source file n r"
proof -
  from assms obtain sub args arg super where sub: "field_text n ''name'' source = Some sub"
    and args: "child_by_field_name n ''superclasses'' = Some args" "arg \<in> set (named_children args)"
    and super: "node_text arg source = Some super" and r: "r = relation_at n file sub super"
    by (auto simp: python_relations_def split: if_splits)
  have "arg \<in> set (subtrees n)"
    using args child_by_field_name_subtree named_child_subtree subtrees_trans by blast
  with super have "text_below source n super" by (auto simp: text_below_def)
  with r text_below_field[OF sub] show ?thesis by auto
qed

lemma go_relation_ok:
  assumes "r \<in> set (go_relations source file n)"
  shows "relation_ok source file n r"
proof -
  from assms obtain sub st fields field super where sub: "field_text n ''name'' source = Some sub"
    and f: "child_by_field_name n ''type'' = Some st" "find_child_of_kind st ''field_declaration_list'' = Some fields"
      "field \<in> set (named_children fields)"
    and super: "field_text field ''type'' source = Some super" and r: "r = relation_at field file sub super"
    by (auto simp: go_relations_def split: if_splits)
  have field: "field \<in> set (subtrees n)"
    using child_by_field_name_subtree[OF f(1)] find_child_subtree[OF f(2)] named_child_subtree[OF f(3)]
      subtrees_trans by metis
  with r text_below_field[OF sub] text_below_trans[OF text_below_field[OF super]] show ?thesis by auto
qed

lemma node_relation_ok: "r \<in> set (node_relations lang source file n) \<Longrightarrow> relation_ok source file n r"
  by (cases lang) (auto simp: node_relations_def dest: rust_relation_ok ts_relation_ok python_relation_ok
      java_relation_ok go_relation_ok)

lemma relations_ok: "r \<in> set (extract_supertype_relations source root file lang) \<Longrightarrow> relation_ok source file root r"
  by (auto simp: extract_supertype_relations_def collect_relations_subtrees
      intro: relation_ok_lift node_relation_ok)


section \<open>Syntax errors are the outermost broken nodes\<close>

function outermost :: "(node \<Rightarrow> bool) \<Rightarrow> node \<Rightarrow> node list" where
  "outermost P n = (if P n then [n] else concat (map (outermost P) (node_children n)))"
  by pat_completeness auto
termination
  by (relation "measure (\<lambda>(P, n). size n)") (auto dest!: size_child)

declare outermost.simps [simp del]

lemma subtrees_children: "set (subtrees n) = insert n (\<Union>c \<in> set (node_children n). set (subtrees c))"
  by (cases n) auto

lemma outermost_covers: "m \<in> set (subtrees n) \<Longrightarrow> P m \<Longrightarrow> \<exists>a \<in> set (outermost P n). m \<in> set (subtrees a)"
proof (induction P n rule: outermost.induct)
  case (1 P n)
  show ?case
  proof (cases "P n")
    case True
    with "1.prems"(1) show ?thesis by (subst outermost.simps) simp
  next
    case False
    with "1.prems" obtain c where c: "c \<in> set (node_children n)" "m \<in> set (subtrees c)"
      using subtrees_children[of n] by auto
    from "1.IH"[OF False c(1) c(2) "1.prems"(2)] c(1) False show ?thesis
      by (subst outermost.simps) auto
  qed
qed

lemma outermost_sound: "a \<in> set (outermost P n) \<Longrightarrow> P a \<and> a \<in> set (subtrees n)"
proof (induction P n rule: outermost.induct)
  case (1 P n)
  then show ?case using subtrees_children[of n] by (cases "P n") (auto simp: outermost.simps[of P n])
qed

lemma outermost_none: "(\<And>m. m \<in> set (subtrees n) \<Longrightarrow> \<not> P m) \<Longrightarrow> outermost P n = []"
  using outermost_sound[of _ P n] by (cases "outermost P n") auto

text \<open>What tree-sitter documents of \<open>has_error\<close>.\<close>

definition error_flag :: "(node \<Rightarrow> bool) \<Rightarrow> bool" where
  "error_flag has_error \<longleftrightarrow> (\<forall>n. has_error n = list_ex broken (subtrees n))"

lemma collect_errors_outermost:
  "error_flag has_error \<Longrightarrow> collect_errors has_error q n = map (error_at q) (outermost broken n)"
proof (induction has_error q n rule: collect_errors.induct)
  case (1 has_error q n)
  show ?case
  proof (cases "broken n \<or> \<not> has_error n")
    case True
    then consider "broken n" | "\<not> broken n" "\<not> has_error n" by blast
    then show ?thesis
    proof cases
      case 1
      then show ?thesis
        by (subst collect_errors.simps, subst outermost.simps) (auto simp: broken_def)
    next
      case 2
      with "1.prems" have "outermost broken n = []"
        by (intro outermost_none) (auto simp: error_flag_def list_ex_iff)
      with 2 show ?thesis by (subst collect_errors.simps) (auto simp: broken_def)
    qed
  next
    case False
    then have plain: "\<not> node_is_error n" "\<not> node_is_missing n" by (auto simp: broken_def)
    with False "1.IH" "1.prems" have "map (collect_errors has_error q) (node_children n) =
        map (\<lambda>c. map (error_at q) (outermost broken c)) (node_children n)" by simp
    with False plain show ?thesis
      by (subst collect_errors.simps, subst outermost.simps) (simp add: map_concat comp_def cong: map_cong)
  qed
qed

text \<open>
  C8: When tree-sitter keeps its documented promise on \<open>has_error\<close>, the reported syntax
  errors are exactly the outermost broken nodes in document order, each once, with its position, and
  every broken node lies in one of them: skipping subtrees without the flag loses nothing. A broken node
  inside another gets no report of its own, although the comment on the function promises one for every
  node that is an error or missing (see the findings).
\<close>
theorem syntax_errors_exact:
  assumes "error_flag has_error"
  shows "extract_syntax_errors has_error root file = map (error_at file) (outermost broken root) \<and>
    (\<forall>m \<in> set (subtrees root). broken m \<longrightarrow> (\<exists>n \<in> set (outermost broken root). m \<in> set (subtrees n)))"
proof
  show "extract_syntax_errors has_error root file = map (error_at file) (outermost broken root)"
    using assms outermost_none[of root broken] collect_errors_outermost[OF assms]
    by (auto simp: extract_syntax_errors_def error_flag_def list_ex_iff)
qed (use outermost_covers in blast)

definition broken_example :: node where
  "broken_example = Node ''source_file'' None True False False 0 0 2 1 0 9
     [Node ''ERROR'' None True True False 0 0 0 3 0 3 [Node '';'' None False False True 0 3 0 3 3 3 []],
      Node ''function_item'' None True False False 1 0 2 1 4 9
        [Node ''}'' None False False True 2 0 2 0 8 8 []]]"

theorem syntax_errors_exact_witness:
  "map (\<lambda>d. (dg_line d, dg_message d))
      (extract_syntax_errors (\<lambda>n. list_ex broken (subtrees n)) broken_example [Normal ''a.rs'']) =
     [(1, ''unexpected syntax''), (3, ''missing }'')]"
proof -
  have "error_flag (\<lambda>n. list_ex broken (subtrees n))" by (simp add: error_flag_def)
  from syntax_errors_exact[OF this, of broken_example "[Normal ''a.rs'']"]
  have "extract_syntax_errors (\<lambda>n. list_ex broken (subtrees n)) broken_example [Normal ''a.rs''] =
      map (error_at [Normal ''a.rs'']) (outermost broken broken_example)" by blast
  also have "outermost broken broken_example =
      [Node ''ERROR'' None True True False 0 0 0 3 0 3 [Node '';'' None False False True 0 3 0 3 3 3 []],
       Node ''}'' None False False True 2 0 2 0 8 8 []]"
    by (simp add: broken_example_def outermost.simps broken_def)
  finally show ?thesis by (simp add: error_at_def)
qed

section \<open>The nearest type\<close>

definition type_of_place :: "node \<Rightarrow> string \<Rightarrow> language \<Rightarrow> nat list \<Rightarrow> string option" where
  "type_of_place root source lang p = Option.bind (node_at root p) (\<lambda>n. extract_type_from_node n source lang)"

lemmas type_upwards_step = type_upwards.simps[folded type_of_place_def]
lemmas type_upwards_induct = type_upwards.induct[folded type_of_place_def]

lemma type_upwards_nearest:
  "type_upwards root source lang p = Some t \<longleftrightarrow>
     (\<exists>k \<le> length p. type_of_place root source lang (take k p) = Some t \<and>
        (\<forall>j \<in> {k<..length p}. type_of_place root source lang (take j p) = None))"
proof (induction root source lang p rule: type_upwards_induct)
  case (1 root source lang p)
  show ?case
  proof (cases "type_of_place root source lang p")
    case (Some u)
    have top: "k = length p" if "k \<le> length p" "\<forall>j \<in> {k<..length p}. type_of_place root source lang (take j p) = None" for k
      using that Some by (cases "k = length p") (auto dest!: bspec[of _ _ "length p"])
    have "(\<exists>k \<le> length p. type_of_place root source lang (take k p) = Some t \<and>
        (\<forall>j \<in> {k<..length p}. type_of_place root source lang (take j p) = None)) \<longleftrightarrow> u = t"
      using Some by (auto intro!: exI[of _ "length p"] dest: top)
    with Some show ?thesis by (subst type_upwards_step) simp
  next
    case None
    show ?thesis
    proof (cases "p = []")
      case True
      with None show ?thesis by (subst type_upwards_step) simp
    next
      case False
      let ?f = "\<lambda>k. type_of_place root source lang (take k p)"
      have short: "take k (butlast p) = take k p" if "k \<le> length p - 1" for k
          using that False by (intro take_butlast) (cases p, auto)
      have "type_upwards root source lang p = type_upwards root source lang (butlast p)"
        using None False by (subst type_upwards_step) simp
      also have "\<dots> = Some t \<longleftrightarrow> (\<exists>k \<le> length p - 1. ?f k = Some t \<and> (\<forall>j \<in> {k<..length p - 1}. ?f j = None))"
        using "1.IH"[OF None False] short by auto
      also have "\<dots> \<longleftrightarrow> (\<exists>k \<le> length p. ?f k = Some t \<and> (\<forall>j \<in> {k<..length p}. ?f j = None))" (is "?l = ?r")
      proof
        assume ?l
        then obtain k where k: "k \<le> length p - 1" "?f k = Some t" "\<forall>j \<in> {k<..length p - 1}. ?f j = None" by blast
        have "?f j = None" if "j \<in> {k<..length p}" for j
          using that k(3) None by (cases "j = length p") auto
        with k show ?r by (auto intro!: exI[of _ k])
      next
        assume ?r
        then obtain k where k: "k \<le> length p" "?f k = Some t" "\<forall>j \<in> {k<..length p}. ?f j = None" by blast
        with None have "k \<noteq> length p" by auto
        with k show ?l by (auto intro!: exI[of _ k])
      qed
      finally show ?thesis .
    qed
  qed
qed

text \<open>
  The type shown for a position is that of the nearest node, going up from the deepest one there,
  that has a type annotation: no node between them has one. For line zero, where no node is
  found, and where no ancestor has an annotation there is none.
\<close>
theorem type_at_position_nearest:
  "extract_type_at_position descend source root line column lang = Some t \<longleftrightarrow>
     line \<noteq> 0 \<and> (\<exists>p. descend root (line - 1, column) = Some p \<and>
       (\<exists>k \<le> length p. type_of_place root source lang (take k p) = Some t \<and>
          {j \<in> {k<..length p}. type_of_place root source lang (take j p) \<noteq> None} = {}))"
  by (auto simp: extract_type_at_position_def type_upwards_nearest bind_eq_Some_conv set_eq_iff
      simp del: greaterThanAtMost_iff)

end
