(* ===== verification/Find_Symbols.thy ===== *)
theory Find_Symbols
  imports Analysis Project Scanner Extract_Rust
begin

text \<open>
  The search by name that \<open>def\<close>, \<open>body\<close>, \<open>sig\<close> and \<open>deps\<close> share (\<open>common.rs\<close>),
  the narrowing of \<open>def.rs\<close>, and the listings of \<open>symbols.rs\<close> and \<open>tree.rs\<close>. Reading
  files, making a parser and extracting symbols are parameters. The parser made last is kept, one for
  built-in languages and one for plugins; a parser that cannot be made ends the command for a
  built-in language and skips the file for a plugin.
\<close>

section \<open>The model\<close>

type_synonym parser = "string \<Rightarrow> node option"

record find_env =
  fx_exists :: "path \<Rightarrow> bool"
  fx_canonicalize :: "path \<Rightarrow> string + path"
  fx_walk :: walk
  fx_exts :: "string \<rightharpoonup> string"
  fx_read :: "path \<Rightarrow> string option"
  fx_for_language :: "language \<Rightarrow> string + parser"
  fx_for_name :: "string \<Rightarrow> string + parser"
  fx_extract :: "string \<Rightarrow> node \<Rightarrow> path \<Rightarrow> language \<Rightarrow> symbol list"
  fx_extract_by_name :: "string \<Rightarrow> node \<Rightarrow> path \<Rightarrow> string \<Rightarrow> symbol list"

datatype find_error = FindCore core_error | FindParser string

record parsers =
  current_parser :: "(language \<times> parser) option"
  runtime_parser :: "(string \<times> parser) option"

definition no_parsers :: parsers where
  "no_parsers = \<lparr>current_parser = None, runtime_parser = None\<rparr>"

definition get_or_create_parser ::
  "find_env \<Rightarrow> language \<Rightarrow> parsers \<Rightarrow> string + parser \<times> parsers" where
  "get_or_create_parser env lang st =
     (let create = map_sum id (\<lambda>p. (p, st\<lparr>current_parser := Some (lang, p)\<rparr>)) (fx_for_language env lang) in
      case current_parser st of
        Some (l, p) \<Rightarrow> (if l = lang then Inr (p, st) else create)
      | None \<Rightarrow> create)"

definition get_or_create_runtime_parser ::
  "find_env \<Rightarrow> string \<Rightarrow> parsers \<Rightarrow> string + parser \<times> parsers" where
  "get_or_create_runtime_parser env name st =
     (let create = map_sum id (\<lambda>p. (p, st\<lparr>runtime_parser := Some (name, p)\<rparr>)) (fx_for_name env name) in
      case runtime_parser st of
        Some (n, p) \<Rightarrow> (if n = name then Inr (p, st) else create)
      | None \<Rightarrow> create)"

text \<open>One file: its symbols and its source, unless it is skipped.\<close>

definition search_file_symbols ::
  "find_env \<Rightarrow> path \<Rightarrow> string \<Rightarrow> language option \<Rightarrow> path \<Rightarrow> parsers
    \<Rightarrow> find_error + (symbol list \<times> string) option \<times> parsers" where
  "search_file_symbols env root name lang_filter relative st =
     (let absolute = path_join root relative in
      case language_for_file (fx_exts env) relative of
        Some lang \<Rightarrow>
          (if lang_filter \<noteq> None \<and> lang_filter \<noteq> Some lang then Inr (None, st)
           else
             (case fx_read env absolute of
                None \<Rightarrow> Inr (None, st)
              | Some source \<Rightarrow>
                  (if \<not> contains_sub source name then Inr (None, st)
                   else
                     (case get_or_create_parser env lang st of
                        Inl e \<Rightarrow> Inl (FindParser e)
                      | Inr (parse, st') \<Rightarrow>
                          (case parse source of
                             None \<Rightarrow> Inr (None, st')
                           | Some tree \<Rightarrow>
                               Inr (Some (fx_extract env source tree relative lang, source), st'))))))
      | None \<Rightarrow>
          (case language_name_for_file (fx_exts env) relative of
             None \<Rightarrow> Inr (None, st)
           | Some lang_name \<Rightarrow>
               (if lang_filter \<noteq> None then Inr (None, st)
                else
                  (case fx_read env absolute of
                     None \<Rightarrow> Inr (None, st)
                   | Some source \<Rightarrow>
                       (if \<not> contains_sub source name then Inr (None, st)
                        else
                          (case get_or_create_runtime_parser env lang_name st of
                             Inl e \<Rightarrow> Inr (None, st)
                           | Inr (parse, st') \<Rightarrow>
                               (case parse source of
                                  None \<Rightarrow> Inr (None, st')
                                | Some tree \<Rightarrow>
                                    Inr (Some (fx_extract_by_name env source tree relative lang_name, source), st'))))))))"

definition symbol_matches :: "string \<Rightarrow> symbol \<Rightarrow> symbol list" where
  "symbol_matches q s =
     (if sym_kind s \<noteq> Impl \<and> sym_name s = q then [s] else [])
       @ filter (\<lambda>c. sym_name c = q) (sym_children s)"

definition collect_matching_symbols :: "symbol list \<Rightarrow> string \<Rightarrow> symbol list" where
  "collect_matching_symbols ss q = concat (map (symbol_matches q) ss)"

fun search_files_for_symbol ::
  "find_env \<Rightarrow> path \<Rightarrow> string \<Rightarrow> language option \<Rightarrow> parsers \<Rightarrow> path list \<Rightarrow> find_error + symbol list" where
  "search_files_for_symbol env root name lang_filter st [] = Inr []"
| "search_files_for_symbol env root name lang_filter st (p # ps) =
     (case search_file_symbols env root name lang_filter p st of
        Inl e \<Rightarrow> Inl e
      | Inr (found, st') \<Rightarrow>
          map_sum id
            ((@) (case found of None \<Rightarrow> [] | Some (ss, _) \<Rightarrow> collect_matching_symbols ss name))
            (search_files_for_symbol env root name lang_filter st' ps))"

definition find_symbols_by_name ::
  "find_env \<Rightarrow> path \<Rightarrow> string \<Rightarrow> path option \<Rightarrow> path option \<Rightarrow> language option \<Rightarrow> find_error + symbol list" where
  "find_symbols_by_name env cwd name project scope lang_filter =
     (case detect_project_root_or (fx_canonicalize env) (fx_exists env) cwd project of
        Inl e \<Rightarrow> Inl (FindCore e)
      | Inr root \<Rightarrow>
          (case discover_files (fx_exists env) (fx_walk env) (fx_exts env) root scope of
             Inl e \<Rightarrow> Inl (FindCore e)
           | Inr files \<Rightarrow>
               map_sum id (sort_key sym_position)
                 (search_files_for_symbol env root name lang_filter no_parsers files)))"

text \<open>The first match, with the source of its file.\<close>

fun find_first_symbol_with_source ::
  "find_env \<Rightarrow> path \<Rightarrow> string \<Rightarrow> language option \<Rightarrow> parsers \<Rightarrow> path list
    \<Rightarrow> find_error + (symbol \<times> string) option" where
  "find_first_symbol_with_source env root name lang_filter st [] = Inr None"
| "find_first_symbol_with_source env root name lang_filter st (p # ps) =
     (case search_file_symbols env root name lang_filter p st of
        Inl e \<Rightarrow> Inl e
      | Inr (found, st') \<Rightarrow>
          (case found of
             None \<Rightarrow> find_first_symbol_with_source env root name lang_filter st' ps
           | Some (ss, source) \<Rightarrow>
               (case collect_matching_symbols ss name of
                  s # _ \<Rightarrow> Inr (Some (s, source))
                | [] \<Rightarrow> find_first_symbol_with_source env root name lang_filter st' ps)))"

text \<open>\<open>def\<close>: several matches are narrowed to the place a running daemon's server gives, if it is one
  of them. The answer of the server is a parameter: none stands for every failure before it.\<close>

definition disambiguate_with_lsp ::
  "symbol list \<Rightarrow> bool \<Rightarrow> (path \<times> nat) list option \<Rightarrow> symbol list option" where
  "disambiguate_with_lsp matches daemon_running lsp_results =
     (if \<not> daemon_running \<or> matches = [] then None
      else
        (case lsp_results of
           Some [place] \<Rightarrow>
             (let narrowed = filter (\<lambda>m. sym_position m = place) matches in
              if narrowed \<noteq> [] then Some narrowed else None)
         | _ \<Rightarrow> None))"

definition def_matches ::
  "symbol list \<Rightarrow> bool \<Rightarrow> bool \<Rightarrow> (path \<times> nat) list option \<Rightarrow> symbol list" where
  "def_matches matches semantic_off daemon_running lsp_results =
     (if \<not> semantic_off \<and> 1 < length matches
      then (case disambiguate_with_lsp matches daemon_running lsp_results of
              Some ms \<Rightarrow> ms | None \<Rightarrow> matches)
      else matches)"

section \<open>Listings\<close>

definition symbols_kind_arms :: "(string list \<times> symbol_kind) list" where
  "symbols_kind_arms =
     [([''function''], Function), ([''method''], Method), ([''struct''], Struct), ([''class''], Class),
      ([''trait''], Trait), ([''interface''], Interface), ([''enum''], Enum), ([''type''], Type),
      ([''const''], Const), ([''static''], Static), ([''module''], Module), ([''impl''], Impl),
      ([''test''], Test)]"

definition symbols_parse_kind :: "string \<Rightarrow> string + symbol_kind" where
  "symbols_parse_kind s =
     (case match_arms symbols_kind_arms (to_lowercase s) of
        Some k \<Rightarrow> Inr k
      | None \<Rightarrow> Inl (''unknown symbol kind: '' @ s @ ''. valid kinds: function, method, struct, class, trait, ''
          @ ''interface, enum, type, const, static, module, impl, test''))"

definition list_symbols ::
  "file_symbols list \<Rightarrow> string option \<Rightarrow> nat option \<Rightarrow> string + symbol list" where
  "list_symbols scan kind limit =
     (let ix = from_scan scan in
      map_sum id (\<lambda>ss. truncate_to limit (sort_key sym_position ss))
        (case kind of
           Some k \<Rightarrow> map_sum id (find_by_kind ix) (symbols_parse_kind k)
         | None \<Rightarrow> Inr (all_symbols ix)))"

text \<open>\<open>tree --depth\<close>: children below the limit are dropped.\<close>

fun truncate_children :: "nat \<Rightarrow> nat \<Rightarrow> symbol list \<Rightarrow> symbol list" where
  "truncate_children current_depth max_depth [] = []"
| "truncate_children current_depth max_depth (Symbol name kind f line col endl vis children doc body sig # ss) =
     Symbol name kind f line col endl vis
       (if max_depth \<le> current_depth then [] else truncate_children (current_depth + 1) max_depth children)
       doc body sig
     # truncate_children current_depth max_depth ss"

definition limit_depth :: "file_symbols list \<Rightarrow> nat \<Rightarrow> file_symbols list" where
  "limit_depth scan max_depth = map (\<lambda>fs. fs\<lparr>fs_symbols := truncate_children 1 max_depth (fs_symbols fs)\<rparr>) scan"


section \<open>The search is that of a plain definition\<close>

text \<open>The symbols of a file without the text filter and without keeping parsers.\<close>

definition parsed_file :: "find_env \<Rightarrow> path \<Rightarrow> language option \<Rightarrow> path \<Rightarrow> (symbol list \<times> string) option" where
  "parsed_file env root lang_filter relative =
     (case language_for_file (fx_exts env) relative of
        Some lang \<Rightarrow>
          if lang_filter \<noteq> None \<and> lang_filter \<noteq> Some lang then None
          else Option.bind (fx_read env (path_join root relative)) (\<lambda>source.
            case fx_for_language env lang of
              Inl e \<Rightarrow> None
            | Inr parse \<Rightarrow> map_option (\<lambda>tree. (fx_extract env source tree relative lang, source)) (parse source))
      | None \<Rightarrow>
          if lang_filter \<noteq> None then None
          else Option.bind (language_name_for_file (fx_exts env) relative) (\<lambda>lang_name.
            Option.bind (fx_read env (path_join root relative)) (\<lambda>source.
            case fx_for_name env lang_name of
              Inl e \<Rightarrow> None
            | Inr parse \<Rightarrow> map_option (\<lambda>tree. (fx_extract_by_name env source tree relative lang_name, source)) (parse source))))"

definition matches_of :: "string \<Rightarrow> (symbol list \<times> string) option \<Rightarrow> symbol list" where
  "matches_of q found = (case found of None \<Rightarrow> [] | Some (ss, _) \<Rightarrow> collect_matching_symbols ss q)"

text \<open>The text filter.\<close>

definition holds_text :: "find_env \<Rightarrow> path \<Rightarrow> string \<Rightarrow> path \<Rightarrow> bool" where
  "holds_text env root q relative \<longleftrightarrow>
     (case fx_read env (path_join root relative) of None \<Rightarrow> False | Some source \<Rightarrow> contains_sub source q)"

text \<open>Kept parsers are those that would be made.\<close>

definition parsers_ok :: "find_env \<Rightarrow> parsers \<Rightarrow> bool" where
  "parsers_ok env st \<longleftrightarrow>
     (\<forall>l p. current_parser st = Some (l, p) \<longrightarrow> fx_for_language env l = Inr p) \<and>
     (\<forall>n p. runtime_parser st = Some (n, p) \<longrightarrow> fx_for_name env n = Inr p)"

lemma no_parsers_ok [simp]: "parsers_ok env no_parsers"
  by (simp add: parsers_ok_def no_parsers_def)

lemma get_or_create_parser_spec:
  "parsers_ok env st \<Longrightarrow>
     (case get_or_create_parser env lang st of
        Inl e \<Rightarrow> fx_for_language env lang = Inl e
      | Inr (p, st') \<Rightarrow> fx_for_language env lang = Inr p \<and> parsers_ok env st')"
  by (cases "fx_for_language env lang")
    (auto simp: get_or_create_parser_def parsers_ok_def Let_def split: option.split prod.split)

lemma get_or_create_runtime_parser_spec:
  "parsers_ok env st \<Longrightarrow>
     (case get_or_create_runtime_parser env name st of
        Inl e \<Rightarrow> fx_for_name env name = Inl e
      | Inr (p, st') \<Rightarrow> fx_for_name env name = Inr p \<and> parsers_ok env st')"
  by (cases "fx_for_name env name")
    (auto simp: get_or_create_runtime_parser_def parsers_ok_def Let_def split: option.split prod.split)

lemma search_file_symbols_spec:
  assumes "parsers_ok env st" "\<forall>lang. \<exists>p. fx_for_language env lang = Inr p"
  shows "\<exists>found st'. search_file_symbols env root q lang_filter p st = Inr (found, st') \<and>
    parsers_ok env st' \<and>
    matches_of q found = (if holds_text env root q p then matches_of q (parsed_file env root lang_filter p) else [])"
proof (cases "language_for_file (fx_exts env) p")
  case (Some lang)
  show ?thesis
  proof (cases "fx_read env (path_join root p)")
    case None
    with Some assms(1) show ?thesis by (simp add: search_file_symbols_def parsed_file_def matches_of_def holds_text_def)
  next
    case (Some source)
    note read = Some
    obtain parse st' where made: "get_or_create_parser env lang st = Inr (parse, st')"
      "fx_for_language env lang = Inr parse" "parsers_ok env st'"
      using get_or_create_parser_spec[OF assms(1), of lang] assms(2)
      by (cases "get_or_create_parser env lang st") (auto, metis Inl_Inr_False)
    from \<open>language_for_file (fx_exts env) p = Some lang\<close> read made assms show ?thesis
      by (cases "contains_sub source q"; cases "parse source")
        (auto simp: search_file_symbols_def parsed_file_def matches_of_def holds_text_def)
  qed
next
  case None
  note builtin = None
  show ?thesis
  proof (cases "language_name_for_file (fx_exts env) p")
    case None
    with builtin assms(1) show ?thesis
      by (auto simp: search_file_symbols_def parsed_file_def matches_of_def holds_text_def)
  next
    case (Some nm)
    note named = Some
    show ?thesis
    proof (cases "fx_read env (path_join root p)")
      case None
      with builtin named assms(1) show ?thesis
        by (auto simp: search_file_symbols_def parsed_file_def matches_of_def holds_text_def)
    next
      case (Some source)
      note read = Some and made = get_or_create_runtime_parser_spec[OF assms(1), of nm]
      show ?thesis
      proof (cases "get_or_create_runtime_parser env nm st")
        case (Inl e)
        with builtin named read made assms show ?thesis
          by (cases "contains_sub source q")
            (auto simp: search_file_symbols_def parsed_file_def matches_of_def holds_text_def)
      next
        case (Inr r)
        then obtain parse st' where "get_or_create_runtime_parser env nm st = Inr (parse, st')"
          by (cases r) auto
        with builtin named read made assms show ?thesis
          by (cases "contains_sub source q"; cases "parse source")
            (auto simp: search_file_symbols_def parsed_file_def matches_of_def holds_text_def)
      qed
    qed
  qed
qed

lemma search_files_plain:
  assumes "\<forall>lang. \<exists>p. fx_for_language env lang = Inr p"
  shows "parsers_ok env st \<Longrightarrow>
    search_files_for_symbol env root q lang_filter st ps =
      Inr (concat (map (\<lambda>p. matches_of q (parsed_file env root lang_filter p)) (filter (holds_text env root q) ps)))"
proof (induction ps arbitrary: st)
  case (Cons p ps)
  obtain found st' where step: "search_file_symbols env root q lang_filter p st = Inr (found, st')"
    "parsers_ok env st'"
    "matches_of q found = (if holds_text env root q p then matches_of q (parsed_file env root lang_filter p) else [])"
    using search_file_symbols_spec[OF Cons.prems assms] by blast
  with Cons.IH[OF step(2)] show ?case by (simp add: matches_of_def)
qed simp

text \<open>The names of Rust symbols are texts of nodes; those of impl blocks, which the search leaves out, are
  composed.\<close>

definition named_in :: "string \<Rightarrow> symbol \<Rightarrow> bool" where
  "named_in source s \<longleftrightarrow>
     (sym_kind s \<noteq> Impl \<longrightarrow> contains_sub source (sym_name s)) \<and>
     (\<forall>c \<in> set (sym_children s). contains_sub source (sym_name c))"

lemma node_text_in: "node_text n source = Some t \<Longrightarrow> contains_sub source t"
  unfolding contains_sub_iff
  by (intro exI[of _ "min (start_byte n) (length source)"])
    (auto simp: node_text_def Let_def occurs_at_def min_def split: if_split_asm)

lemma field_text_in: "field_text n f source = Some t \<Longrightarrow> contains_sub source t"
  by (auto simp: field_text_def bind_eq_Some_conv intro: node_text_in)

lemma gather_member: "gather rs = Some ss \<Longrightarrow> s \<in> set ss \<Longrightarrow> \<exists>xs. Some xs \<in> set rs \<and> s \<in> set xs"
proof (induction rs arbitrary: ss)
  case (Cons r rs)
  then obtain xs ys where "r = Some xs" "gather rs = Some ys" "ss = xs @ ys"
    by (auto simp: gather.simps bind_eq_Some_conv)
  with Cons show ?case by auto
qed (simp add: gather.simps)

lemma each_sound_child_member:
  assumes "each_sound_child f n = Some ss" "s \<in> set ss"
  shows "\<exists>prev c xs. f prev c = Some xs \<and> s \<in> set xs"
  using gather_member[OF assms(1)[unfolded each_sound_child_def each_child_def] assms(2)]
  by (auto split: if_split_asm) metis

lemma rust_symbol_named:
  assumes "rust_symbol source file prev n name kind vis children = Some ss" "s \<in> set ss"
  shows "sym_name s = name \<and> sym_kind s = kind \<and> sym_children s = children"
  using assms by (auto simp: rust_symbol_def emit_def with_body_def bind_eq_Some_conv symbol_at_def)

lemma rust_methods_named:
  assumes "rust_impl_methods source file n = Some ss" "s \<in> set ss"
  shows "contains_sub source (sym_name s)"
proof -
  from assms obtain b where "each_sound_child (\<lambda>prev c.
          if node_kind c = ''function_item'' then
            with_some (field_text c ''name'' source) (\<lambda>name.
              rust_symbol source file prev c name Method (rust_visibility c source) [])
          else Some []) b = Some ss"
    by (auto simp: rust_impl_methods_def with_field_def with_some_def split: option.split_asm)
  from each_sound_child_member[OF this assms(2)] show ?thesis
    by (auto simp: with_some_def dest: rust_symbol_named field_text_in split: if_split_asm option.split_asm)
qed

lemma rust_extract_named:
  assumes "rust_extract source root file = Some ss" "s \<in> set ss"
  shows "named_in source s"
proof -
  from each_sound_child_member[OF assms(1)[unfolded rust_extract_def] assms(2)]
  obtain prev c xs where "rust_top_level source file prev c = Some xs" "s \<in> set xs" by blast
  then show ?thesis
    by (auto simp: rust_top_level_def named_in_def with_some_def bind_eq_Some_conv
        dest: rust_symbol_named rust_methods_named field_text_in split: if_split_asm option.split_asm)
qed

lemma named_matches: "\<forall>s \<in> set ss. named_in source s \<Longrightarrow> \<not> contains_sub source q \<Longrightarrow> collect_matching_symbols ss q = []"
  by (induction ss) (auto simp: collect_matching_symbols_def symbol_matches_def named_in_def filter_empty_conv)

text \<open>A search environment whose symbols of Rust files are those of the extractor.\<close>

definition extracts_rust :: "find_env \<Rightarrow> bool" where
  "extracts_rust env \<longleftrightarrow>
     (\<forall>source tree p. fx_extract env source tree p Rust =
        (case rust_extract source tree p of None \<Rightarrow> [] | Some ss \<Rightarrow> ss))"

lemma rust_filter_complete:
  assumes "extracts_rust env" "\<not> holds_text env root q p"
  shows "matches_of q (parsed_file env root (Some Rust) p) = []"
proof (cases "language_for_file (fx_exts env) p = Some Rust")
  case True
  have "collect_matching_symbols (fx_extract env source tree p Rust) q = []" if "\<not> contains_sub source q" for source tree
    using assms(1) that named_matches rust_extract_named
    by (auto simp: extracts_rust_def collect_matching_symbols_def split: option.split) (metis collect_matching_symbols_def)
  with True assms(2) show ?thesis
    by (cases "fx_read env (path_join root p)"; cases "fx_for_language env Rust")
      (auto simp: parsed_file_def matches_of_def holds_text_def split: option.split)
next
  case False
  then show ?thesis by (auto simp: parsed_file_def matches_of_def split: option.split)
qed


text \<open>
  When the search over all files succeeds, the target that \<open>deps\<close> picks is the first match of
  that search in discovery order, and there is none exactly when the search is empty.
\<close>
theorem first_symbol_is_first_match:
  assumes "search_files_for_symbol env root q lang_filter st files = Inr ms"
  shows "\<exists>r. find_first_symbol_with_source env root q lang_filter st files = Inr r \<and>
    map_option fst r = (case ms of [] \<Rightarrow> None | m # _ \<Rightarrow> Some m)"
  using assms
proof (induction files arbitrary: st ms)
  case (Cons p ps)
  then obtain found st' where step: "search_file_symbols env root q lang_filter p st = Inr (found, st')"
    by (auto split: sum.splits)
  with Cons.prems obtain rest where rest: "search_files_for_symbol env root q lang_filter st' ps = Inr rest"
    "ms = (case found of None \<Rightarrow> [] | Some (ss, _) \<Rightarrow> collect_matching_symbols ss q) @ rest"
    by (cases "search_files_for_symbol env root q lang_filter st' ps") auto
  from Cons.IH[OF rest(1)] rest(2) step show ?case by (auto split: option.splits list.splits)
qed simp


text \<open>Two files with a function each, one of them without the name.\<close>

definition go_tree :: node where
  "go_tree =
     Node ''source_file'' None True False False 0 0 0 9 0 9
       [Node ''struct_item'' None True False False 0 0 0 9 0 9
          [Node ''type_identifier'' (Some ''name'') True False False 0 7 0 9 7 9 []]]"

definition find_demo_env :: find_env where
  "find_demo_env =
     \<lparr>fx_exists = (\<lambda>_. True), fx_canonicalize = Inr,
      fx_walk = (\<lambda>r. [Inr \<lparr>entry_path = [RootDir, Normal ''b.rs''], entry_is_file = Some True\<rparr>,
                     Inr \<lparr>entry_path = [RootDir, Normal ''a.rs''], entry_is_file = Some True\<rparr>]),
      fx_exts = [''rs'' \<mapsto> ''rust''],
      fx_read = (\<lambda>p. if p = [RootDir, Normal ''a.rs''] then Some ''struct go'' else Some ''struct no''),
      fx_for_language = (\<lambda>_. Inr (\<lambda>_. Some go_tree)),
      fx_for_name = (\<lambda>_. Inl ''no grammar''),
      fx_extract = (\<lambda>source tree p _. case rust_extract source tree p of None \<Rightarrow> [] | Some ss \<Rightarrow> ss),
      fx_extract_by_name = (\<lambda>_ _ _ _. [])\<rparr>"

definition go_symbol :: symbol where
  "go_symbol = Symbol ''go'' Struct [Normal ''a.rs''] 1 0 1 Private [] None (Some ''struct go'') (Some ''struct go'')"


theorem first_symbol_is_first_match_witness:
  "find_first_symbol_with_source find_demo_env [RootDir] ''go'' None no_parsers
      [[Normal ''b.rs''], [Normal ''a.rs'']] =
     Inr (Some (go_symbol, ''struct go''))"
proof -
  have "search_files_for_symbol find_demo_env [RootDir] ''go'' None no_parsers [[Normal ''b.rs''], [Normal ''a.rs'']]
    = Inr [go_symbol]" by code_simp
  from first_symbol_is_first_match[OF this]
  have "\<exists>src. find_first_symbol_with_source find_demo_env [RootDir] ''go'' None no_parsers
      [[Normal ''b.rs''], [Normal ''a.rs'']] =
     Inr (Some (go_symbol, src))" by auto
  moreover have "find_first_symbol_with_source find_demo_env [RootDir] ''go'' None no_parsers
      [[Normal ''b.rs''], [Normal ''a.rs'']] \<noteq> Inr None \<and>
    map_sum id (map_option snd) (find_first_symbol_with_source find_demo_env [RootDir] ''go'' None no_parsers
      [[Normal ''b.rs''], [Normal ''a.rs'']]) = Inr (Some ''struct go'')" by code_simp
  ultimately show ?thesis by auto
qed

text \<open>Unlike the index, the search looks no deeper than the children of the top-level symbols.\<close>

lemma grandchildren_missed:
  assumes "q \<noteq> ''A'' " "q \<noteq> ''B''"
  shows "collect_matching_symbols
      [Symbol ''A'' Class p 1 0 9 Public [Symbol ''B'' Class p 2 0 8 Public
        [Symbol q Method p 3 0 4 Public [] None None None] None None None] None None None] q = []"
  using assms by (simp add: collect_matching_symbols_def symbol_matches_def)

section \<open>Listings are exact\<close>

lemma find_by_kind_symbols:
  "find_by_kind (from_scan scan) k = filter (\<lambda>s. sym_kind s = k) (all_symbols (from_scan scan))"
  using from_scan_ok[of scan] by (simp add: find_by_kind_index all_symbols_def)

lemma list_symbols_exact:
  "list_symbols scan kind limit =
     (case kind of
        None \<Rightarrow> Inr (truncate_to limit (sort_key sym_position (preorder (concat (map fs_symbols scan)))))
      | Some k \<Rightarrow>
          map_sum id (\<lambda>kd. truncate_to limit (sort_key sym_position
            (filter (\<lambda>s. sym_kind s = kd) (preorder (concat (map fs_symbols scan)))))) (symbols_parse_kind k))"
  by (cases kind; cases "symbols_parse_kind (the kind)")
    (simp_all add: list_symbols_def Let_def find_by_kind_symbols all_symbols_def from_scan_symbols)

text \<open>The ways down from a list of symbols, by name.\<close>

fun name_paths :: "symbol list \<Rightarrow> string list list" where
  "name_paths [] = []"
| "name_paths (Symbol name k f l c e v children d b sg # ss) =
     [name] # map ((#) name) (name_paths children) @ name_paths ss"

lemma name_paths_nonempty: "ps \<in> set (name_paths ss) \<Longrightarrow> ps \<noteq> []"
  by (induction ss arbitrary: ps rule: name_paths.induct) auto

lemma truncate_children_paths:
  "c \<le> m \<Longrightarrow> name_paths (truncate_children c m ss) = filter (\<lambda>ps. length ps \<le> m - c + 1) (name_paths ss)"
proof (induction c m ss rule: truncate_children.induct)
  case (2 c m name kind f line col endl vis children doc body sig ss)
  show ?case
  proof (cases "m = c")
    case True
    have "filter (\<lambda>ps. length ps \<le> 1) (map ((#) name) (name_paths children)) = []"
      using name_paths_nonempty by (auto simp: filter_empty_conv Suc_le_eq)
    with 2 True show ?thesis by simp
  next
    case False
    with "2.prems" have "filter (\<lambda>ps. length ps \<le> m - c + 1) (map ((#) name) (name_paths children)) =
        map ((#) name) (filter (\<lambda>ps. length ps \<le> m - Suc c + 1) (name_paths children))"
      by (auto simp: filter_map comp_def intro!: arg_cong[of _ _ "map ((#) name)"] filter_cong)
    with 2 False show ?thesis by simp
  qed
qed simp

text \<open>
  The depth limit of \<open>tree\<close> keeps exactly the symbols whose chain of names is at most that long,
  in their order, and changes no file; a limit of zero behaves like a limit of one.
\<close>
theorem limit_depth_exact:
  "map fs_file (limit_depth scan d) = map fs_file scan \<and>
   map (\<lambda>fs. name_paths (fs_symbols fs)) (limit_depth scan d) =
     map (\<lambda>fs. filter (\<lambda>ps. length ps \<le> max 1 d) (name_paths (fs_symbols fs))) scan"
proof -
  have zero: "truncate_children c 0 ss = truncate_children c (Suc 0) ss" if "1 \<le> c" for c ss
    using that by (induction c "0::nat" ss rule: truncate_children.induct) auto
  have "name_paths (truncate_children 1 d ss) = filter (\<lambda>ps. length ps \<le> max 1 d) (name_paths ss)" for ss
    using truncate_children_paths[of 1 d ss] truncate_children_paths[of 1 1 ss] zero[of 1 ss]
    by (cases d) auto
  then show ?thesis by (simp add: limit_depth_def comp_def)
qed

end
