(* ===== verification/Ref_Commands.thy ===== *)
theory Ref_Commands
  imports Client Find_Symbols
begin

text \<open>
  The commands that report references: \<open>refs.rs\<close>, \<open>callers.rs\<close> and \<open>deps.rs\<close>. Each takes a
  finished scan, the index over it and the answer of the resolution cascade, and merges that answer
  with the references read off the trees. The hash map of those is iterated in an order that the
  standard library draws at random: \<open>order\<close> permutes its keys. None is a panic of a slice.
\<close>

section \<open>References by name\<close>

type_synonym place = "path \<times> nat \<times> nat"

definition ref_place :: "reference \<Rightarrow> place" where
  "ref_place r = (ref_file r, ref_line r, ref_column r)"

definition rr_place :: "resolved_reference \<Rightarrow> place" where
  "rr_place r = (rr_file r, rr_line r, rr_column r)"

definition ref_name_matches :: "(string \<Rightarrow> bool) \<Rightarrow> reference \<Rightarrow> string \<Rightarrow> string \<Rightarrow> bool option" where
  "ref_name_matches alnum r source symbol =
     (if ref_line r = 0 then None
      else
        (case get_nth (str_lines source) (ref_line r - 1) of
           None \<Rightarrow> Some False
         | Some line_text \<Rightarrow>
             if length line_text \<le> ref_column r then Some False
             else map_option (\<lambda>rest. ident_prefix alnum rest = symbol) (slice_from line_text (ref_column r))))"

fun named_refs :: "(string \<Rightarrow> bool) \<Rightarrow> string \<Rightarrow> string \<Rightarrow> reference list \<Rightarrow> reference list option" where
  "named_refs alnum source symbol [] = Some []"
| "named_refs alnum source symbol (r # rs) =
     Option.bind (ref_name_matches alnum r source symbol) (\<lambda>m.
       map_option (\<lambda>rest. if m then r # rest else rest) (named_refs alnum source symbol rs))"

text \<open>What is inserted into the syntactic map, file by file; \<open>callers\<close> looks at calls only.\<close>

definition file_named_refs ::
  "(string \<rightharpoonup> string) \<Rightarrow> (string \<Rightarrow> bool) \<Rightarrow> bool \<Rightarrow> string \<Rightarrow> file_symbols \<Rightarrow> reference list option" where
  "file_named_refs exts alnum calls_only symbol fs =
     (case scan_language exts (fs_file fs) of
        None \<Rightarrow> Some []
      | Some lang \<Rightarrow>
          named_refs alnum (fs_source fs) symbol
            (filter (\<lambda>r. \<not> calls_only \<or> ref_kind r = Call)
              (extract_references (fs_source fs) (fs_tree fs) (fs_file fs) lang)))"

fun collect_lists :: "'a list option list \<Rightarrow> 'a list option" where
  "collect_lists [] = Some []"
| "collect_lists (r # rs) = Option.bind r (\<lambda>xs. map_option ((@) xs) (collect_lists rs))"

definition scan_named_refs ::
  "(string \<rightharpoonup> string) \<Rightarrow> (string \<Rightarrow> bool) \<Rightarrow> bool \<Rightarrow> string \<Rightarrow> file_symbols list \<Rightarrow> reference list option" where
  "scan_named_refs exts alnum calls_only symbol scan =
     collect_lists (map (file_named_refs exts alnum calls_only symbol) scan)"

definition syntactic_map :: "reference list \<Rightarrow> place \<rightharpoonup> reference" where
  "syntactic_map rs = map_of (rev (map (\<lambda>r. (ref_place r, r)) rs))"

definition map_places :: "reference list \<Rightarrow> place list" where
  "map_places rs = remdups (map ref_place rs)"

section \<open>Merging\<close>

definition source_line :: "file_symbols list \<Rightarrow> path \<Rightarrow> nat \<Rightarrow> string" where
  "source_line scan p line =
     (case Option.bind (map_of (rev (map (\<lambda>fs. (fs_file fs, fs_source fs)) scan)) p)
             (\<lambda>src. get_nth (str_lines src) (line - 1)) of
        Some l \<Rightarrow> l
      | None \<Rightarrow> [])"

definition plain_reference :: "file_symbols list \<Rightarrow> place \<Rightarrow> reference_kind \<Rightarrow> reference" where
  "plain_reference scan pl kind =
     (case pl of (p, line, column) \<Rightarrow>
        \<lparr>ref_file = p, ref_line = line, ref_column = column, ref_kind = kind,
         ref_context = source_line scan p line, ref_caller = None, ref_caller_kind = None\<rparr>)"

definition enriched :: "file_symbols list \<Rightarrow> reference list \<Rightarrow> resolved_reference \<Rightarrow> reference" where
  "enriched scan named rr =
     (case syntactic_map named (rr_place rr) of
        Some r \<Rightarrow> r
      | None \<Rightarrow> plain_reference scan (rr_place rr) Call)"

definition ref_position :: "reference \<Rightarrow> path \<times> nat" where
  "ref_position r = (ref_file r, ref_line r)"

text \<open>The answer of the cascade, then what the syntactic map has at other places, sorted.\<close>

definition merge_refs ::
  "(place list \<Rightarrow> place list) \<Rightarrow> file_symbols list \<Rightarrow> reference list \<Rightarrow> resolved_reference list \<Rightarrow> reference list" where
  "merge_refs order scan named rrs =
     (let cascade = map (enriched scan named) rrs;
          missed = filter (\<lambda>pl. pl \<notin> set (map ref_place cascade)) (order (map_places named)) in
      sort_key ref_position (cascade @ List.map_filter (syntactic_map named) missed))"

definition top_resolution :: "resolved_reference list \<Rightarrow> resolution" where
  "top_resolution rrs =
     (if list_ex (\<lambda>r. rr_resolution r = Semantic) rrs then Semantic
      else if list_ex (\<lambda>r. rr_resolution r = Resolved) rrs then Resolved
      else Syntactic)"

section \<open>\<open>refs\<close>\<close>

text \<open>A resolved reference stays when its definition lies in a file that defines the symbol, or in its
  own.\<close>

definition keeps_ref :: "symbol list \<Rightarrow> resolved_reference \<Rightarrow> bool" where
  "keeps_ref definitions rr \<longleftrightarrow>
     (rr_resolution rr = Resolved \<longrightarrow>
        (case rr_def_file rr of
           Some df \<Rightarrow> df \<in> set (map sym_file definitions) \<or> df = rr_file rr
         | None \<Rightarrow> True))"

definition kept_refs :: "symbol list \<Rightarrow> resolved_reference list \<Rightarrow> resolved_reference list" where
  "kept_refs definitions rrs = (if definitions = [] then rrs else filter (keeps_ref definitions) rrs)"

text \<open>Definitions on lines without a reference are added.\<close>

definition add_definitions :: "file_symbols list \<Rightarrow> symbol list \<Rightarrow> reference list \<Rightarrow> reference list" where
  "add_definitions scan definitions refs =
     sort_key ref_position
       (refs @ map (\<lambda>d. plain_reference scan (sym_file d, sym_line d, sym_column d) Definition)
          (filter (\<lambda>d. sym_position d \<notin> set (map ref_position refs)) definitions))"

definition refs_report ::
  "(place list \<Rightarrow> place list) \<Rightarrow> file_symbols list \<Rightarrow> symbol list \<Rightarrow> reference list
    \<Rightarrow> resolved_reference list \<Rightarrow> reference list \<times> resolution" where
  "refs_report order scan definitions named rrs =
     (let kept = kept_refs definitions rrs in
      (add_definitions scan definitions (merge_refs order scan named kept), top_resolution kept))"

text \<open>The whole command after the scan. The language of a definition that has none counts as Rust.\<close>

definition def_language :: "(string \<rightharpoonup> string) \<Rightarrow> path \<Rightarrow> language" where
  "def_language exts p = (case scan_language exts p of Some lang \<Rightarrow> lang | None \<Rightarrow> Rust)"

definition refs_run ::
  "client_env \<Rightarrow> ('l, 'g, 'n) resolver_env \<Rightarrow> 'l plugin_cache \<Rightarrow> (groups \<Rightarrow> groups) \<Rightarrow> (place list \<Rightarrow> place list)
    \<Rightarrow> path \<Rightarrow> string \<Rightarrow> file_symbols list \<Rightarrow> semantic_mode \<Rightarrow> client_world
    \<Rightarrow> ((symbol list \<times> reference list \<times> resolution) \<times> client_world) outcome" where
  "refs_run env renv cache group_order order root symbol scan mode w =
     (let definitions = find_by_name (from_scan scan) symbol in
      case scan_named_refs (rv_exts renv) (rv_alnum renv) False symbol scan of
        None \<Rightarrow> Panics
      | Some named \<Rightarrow>
          outcome_bind
            (case definitions of
               d # _ \<Rightarrow>
                 resolve_with_cascade env renv cache group_order root (def_language (rv_exts renv) (sym_file d))
                   symbol (sym_file d) (sym_line d) (sym_column d) scan mode w
             | [] \<Rightarrow>
                 (case resolve_refs renv cache group_order scan symbol of
                    None \<Rightarrow> Panics | Some result \<Rightarrow> Returns (result, w)))
            (\<lambda>(result, w'). Returns ((definitions, refs_report order scan definitions named (res_references result)), w')))"

section \<open>\<open>callers\<close>\<close>

definition callers_report ::
  "(place list \<Rightarrow> place list) \<Rightarrow> file_symbols list \<Rightarrow> reference list \<Rightarrow> resolved_reference list
    \<Rightarrow> reference list \<times> resolution" where
  "callers_report order scan named rrs = (merge_refs order scan named rrs, top_resolution rrs)"

definition callers_run ::
  "client_env \<Rightarrow> ('l, 'g, 'n) resolver_env \<Rightarrow> 'l plugin_cache \<Rightarrow> (groups \<Rightarrow> groups) \<Rightarrow> (place list \<Rightarrow> place list)
    \<Rightarrow> path \<Rightarrow> string \<Rightarrow> file_symbols list \<Rightarrow> semantic_mode \<Rightarrow> client_world
    \<Rightarrow> ((symbol list \<times> reference list \<times> resolution) \<times> client_world) outcome" where
  "callers_run env renv cache group_order order root symbol scan mode w =
     (let definitions = find_by_name (from_scan scan) symbol in
      case scan_named_refs (rv_exts renv) (rv_alnum renv) True symbol scan of
        None \<Rightarrow> Panics
      | Some named \<Rightarrow>
          outcome_bind
            (case definitions of
               d # _ \<Rightarrow>
                 outcome_bind
                   (resolve_with_cascade env renv cache group_order root (def_language (rv_exts renv) (sym_file d))
                     symbol (sym_file d) (sym_line d) (sym_column d) scan mode w)
                   (\<lambda>(result, w').
                     Returns (filter (\<lambda>r. rr_resolution r = Resolved \<or> rr_resolution r = Semantic)
                       (res_references result), w'))
             | [] \<Rightarrow>
                 (case resolve_callers renv cache group_order scan symbol of
                    None \<Rightarrow> Panics | Some result \<Rightarrow> Returns (res_references result, w)))
            (\<lambda>(rrs, w'). Returns ((definitions, callers_report order scan named rrs), w')))"

section \<open>\<open>deps\<close>\<close>

record dependency =
  dep_name :: string
  dep_kind :: string
  dep_defined_in :: "string option"
  dep_resolution :: resolution

definition ref_kind_label :: "reference_kind \<Rightarrow> string" where
  "ref_kind_label kind =
     (case kind of
        Call \<Rightarrow> ''call''
      | TypeUsage \<Rightarrow> ''type_reference''
      | Import \<Rightarrow> ''import''
      | Assignment \<Rightarrow> ''assignment''
      | Definition \<Rightarrow> ''definition'')"

text \<open>The outer option is the panic, the inner one the result.\<close>

definition extract_ref_name :: "(string \<Rightarrow> bool) \<Rightarrow> string \<Rightarrow> nat \<Rightarrow> nat \<Rightarrow> string option option" where
  "extract_ref_name alnum source line column =
     (if line = 0 then Some None
      else
        (case get_nth (str_lines source) (line - 1) of
           None \<Rightarrow> Some None
         | Some line_text \<Rightarrow>
             if length line_text \<le> column then Some None
             else map_option (\<lambda>rest. let w = ident_prefix alnum rest in if w = [] then None else Some w)
               (slice_from line_text column)))"

text \<open>The loop over the references of the body: each new name is looked up once.\<close>

fun deps_loop ::
  "(string \<Rightarrow> bool) \<Rightarrow> (string \<Rightarrow> string option \<times> resolution) \<Rightarrow> string \<Rightarrow> string \<Rightarrow> string set \<Rightarrow> reference list
    \<Rightarrow> dependency list option" where
  "deps_loop alnum lookup source symbol seen [] = Some []"
| "deps_loop alnum lookup source symbol seen (r # rs) =
     Option.bind (extract_ref_name alnum source (ref_line r) (ref_column r)) (\<lambda>found.
       case found of
         None \<Rightarrow> deps_loop alnum lookup source symbol seen rs
       | Some name \<Rightarrow>
           if name = symbol then deps_loop alnum lookup source symbol seen rs
           else if name \<in> seen then deps_loop alnum lookup source symbol seen rs
           else
             map_option ((#)
                 \<lparr>dep_name = name, dep_kind = ref_kind_label (ref_kind r),
                  dep_defined_in = fst (lookup name), dep_resolution = snd (lookup name)\<rparr>)
               (deps_loop alnum lookup source symbol (insert name seen) rs))"

definition index_lookup :: "file_symbols list \<Rightarrow> string \<Rightarrow> string option \<times> resolution" where
  "index_lookup scan name =
     ((case find_by_name (from_scan scan) name of
         [] \<Rightarrow> None
       | s # _ \<Rightarrow> Some (path_display (sym_file s))), Syntactic)"

definition resolve_syntactic ::
  "(string \<Rightarrow> bool) \<Rightarrow> string \<Rightarrow> reference list \<Rightarrow> string \<Rightarrow> file_symbols list \<Rightarrow> dependency list option" where
  "resolve_syntactic alnum source body_refs symbol scan =
     deps_loop alnum (index_lookup scan) source symbol {} body_refs"

text \<open>The first resolved reference of a name counts.\<close>

definition resolved_map :: "resolved_reference list \<Rightarrow> string \<rightharpoonup> string option" where
  "resolved_map rrs = map_of (map (\<lambda>rr. (rr_symbol rr, map_option path_display (rr_def_file rr))) rrs)"

text \<open>None is a panic, \<open>Some None\<close> the signal to fall back.\<close>

definition resolve_with_stack_graphs ::
  "('l, 'g, 'n, 'z) resolver_env_scheme \<Rightarrow> 'l plugin_cache \<Rightarrow> file_symbols list \<Rightarrow> symbol \<Rightarrow> string \<Rightarrow> string
    \<Rightarrow> reference list \<Rightarrow> dependency list option option" where
  "resolve_with_stack_graphs renv cache scan target symbol source body_refs =
     Option.bind (resolve_deps renv cache scan (sym_file target) (sym_line target, sym_end_line target) symbol)
       (\<lambda>result.
         if res_references result = [] then Some None
         else
           map_option Some
             (deps_loop (rv_alnum renv)
               (\<lambda>name. case resolved_map (res_references result) name of
                  Some d \<Rightarrow> (d, Resolved)
                | None \<Rightarrow> index_lookup scan name)
               source symbol {} body_refs))"

text \<open>\<open>catch_unwind\<close> turns a panic of the first attempt into the fallback.\<close>

definition dependencies_of ::
  "('l, 'g, 'n, 'z) resolver_env_scheme \<Rightarrow> 'l plugin_cache \<Rightarrow> file_symbols list \<Rightarrow> symbol \<Rightarrow> string \<Rightarrow> string
    \<Rightarrow> reference list \<Rightarrow> dependency list option" where
  "dependencies_of renv cache scan target symbol source body_refs =
     (case resolve_with_stack_graphs renv cache scan target symbol source body_refs of
        Some (Some deps) \<Rightarrow> Some deps
      | _ \<Rightarrow> resolve_syntactic (rv_alnum renv) source body_refs symbol scan)"

definition extract_body_references :: "find_env \<Rightarrow> string \<Rightarrow> symbol \<Rightarrow> string + reference list" where
  "extract_body_references env source target =
     (case scan_language (fx_exts env) (sym_file target) of
        None \<Rightarrow> Inr []
      | Some lang \<Rightarrow>
          (case fx_for_language env lang of
             Inl e \<Rightarrow> Inl e
           | Inr parse \<Rightarrow>
               (case parse source of
                  None \<Rightarrow> Inl ''tree-sitter parse returned no tree for: unknown source''
                | Some tree \<Rightarrow>
                    Inr (filter (\<lambda>r. sym_line target \<le> ref_line r \<and> ref_line r \<le> sym_end_line target)
                      (extract_references source tree (sym_file target) lang)))))"

text \<open>The command after the discovery of the files: the target, if any, and its dependencies. The scan
  of the project is taken when there is a body to look at. None is a panic.\<close>

definition deps_run ::
  "find_env \<Rightarrow> ('l, 'g, 'n, 'z) resolver_env_scheme \<Rightarrow> 'l plugin_cache \<Rightarrow> path \<Rightarrow> path list
    \<Rightarrow> (index_error + file_symbols list) \<Rightarrow> string \<Rightarrow> language option
    \<Rightarrow> ((find_error + index_error) + (symbol \<times> dependency list) option) option" where
  "deps_run env renv cache root files scan_result symbol lang_filter =
     (case find_first_symbol_with_source env root symbol lang_filter no_parsers files of
        Inl e \<Rightarrow> Some (Inl (Inl e))
      | Inr None \<Rightarrow> Some (Inr None)
      | Inr (Some (target, source)) \<Rightarrow>
          (if sym_body target = None then Some (Inr (Some (target, [])))
           else
             (case extract_body_references env source target of
                Inl e \<Rightarrow> Some (Inl (Inl (FindParser e)))
              | Inr body_refs \<Rightarrow>
                  (case scan_result of
                     Inl e \<Rightarrow> Some (Inl (Inr e))
                   | Inr scan \<Rightarrow>
                       map_option (\<lambda>deps. Inr (Some (target, deps)))
                         (dependencies_of renv cache scan target symbol source body_refs)))))"


section \<open>What \<open>refs\<close> and \<open>callers\<close> report\<close>

lemma syntactic_map_place: "syntactic_map named pl = Some r \<Longrightarrow> r \<in> set named \<and> ref_place r = pl"
  by (auto simp: syntactic_map_def dest!: map_of_SomeD)

lemma syntactic_map_dom: "(syntactic_map named pl = None) = (pl \<notin> ref_place ` set named)"
  by (auto simp: syntactic_map_def map_of_eq_None_iff image_iff)

lemma ref_place_plain [simp]: "ref_place (plain_reference scan pl kind) = pl"
  by (cases pl) (simp add: plain_reference_def ref_place_def)

lemma ref_place_enriched [simp]: "ref_place (enriched scan named rr) = rr_place rr"
  by (auto simp: enriched_def dest: syntactic_map_place split: option.split)

definition place_line :: "place \<Rightarrow> path \<times> nat" where
  "place_line pl = (fst pl, fst (snd pl))"

lemma ref_position_place: "ref_position r = place_line (ref_place r)"
  by (simp add: ref_position_def ref_place_def place_line_def)

definition fair :: "(place list \<Rightarrow> place list) \<Rightarrow> bool" where
  "fair order \<longleftrightarrow> (\<forall>ks. mset (order ks) = mset ks)"

lemma fair_set: "fair order \<Longrightarrow> set (order ks) = set ks"
  unfolding fair_def by (metis set_mset_mset)

lemma merge_refs_places:
  assumes "fair order"
  shows "ref_place ` set (merge_refs order scan named rrs) = rr_place ` set rrs \<union> ref_place ` set named"
proof -
  let ?missed = "filter (\<lambda>pl. pl \<notin> rr_place ` set rrs) (order (map_places named))"
  have "ref_place ` set (List.map_filter (syntactic_map named) ?missed) =
      {pl. pl \<in> ref_place ` set named \<and> pl \<notin> rr_place ` set rrs}"
  proof (rule set_eqI, rule iffI)
    fix pl
    assume "pl \<in> {pl. pl \<in> ref_place ` set named \<and> pl \<notin> rr_place ` set rrs}"
    moreover from this obtain r where "syntactic_map named pl = Some r"
      using syntactic_map_dom[of named pl] by auto
    moreover from calculation have "pl \<in> set ?missed"
      using fair_set[OF assms] by (auto simp: map_places_def)
    ultimately show "pl \<in> ref_place ` set (List.map_filter (syntactic_map named) ?missed)"
      using syntactic_map_place[of named pl r] by (intro rev_image_eqI[of r]) (auto simp del: split_paired_Ex)
  next
    fix pl
    assume "pl \<in> ref_place ` set (List.map_filter (syntactic_map named) ?missed)"
    then obtain r k where "pl = ref_place r" "k \<in> set ?missed" "syntactic_map named k = Some r"
      by (auto simp del: split_paired_Ex)
    with syntactic_map_place[of named k r] show "pl \<in> {pl. pl \<in> ref_place ` set named \<and> pl \<notin> rr_place ` set rrs}"
      by auto
  qed
  then show ?thesis by (auto simp: merge_refs_def Let_def image_Un image_image)
qed

lemma enriched_named: "rr_place rr \<in> ref_place ` set named \<Longrightarrow> enriched scan named rr \<in> set named"
  using syntactic_map_dom[of named "rr_place rr"]
  by (auto simp: enriched_def dest: syntactic_map_place split: option.split)

lemma merge_refs_named:
  "r \<in> set (merge_refs order scan named rrs) \<Longrightarrow> ref_place r \<in> ref_place ` set named \<Longrightarrow> r \<in> set named"
  by (auto simp: merge_refs_def Let_def dest: syntactic_map_place intro: enriched_named)

definition def_place :: "symbol \<Rightarrow> place" where
  "def_place d = (sym_file d, sym_line d, sym_column d)"

lemma place_line_def_place [simp]: "place_line (def_place d) = sym_position d"
  by (simp add: place_line_def def_place_def sym_position_def)

lemma set_add_definitions:
  "set (add_definitions scan definitions refs) = set refs \<union>
     (\<lambda>d. plain_reference scan (def_place d) Definition) ` {d \<in> set definitions. sym_position d \<notin> ref_position ` set refs}"
  by (simp add: add_definitions_def def_place_def)

lemma add_definitions_places:
  "ref_place ` set (add_definitions scan definitions refs) = ref_place ` set refs \<union>
     def_place ` {d \<in> set definitions. sym_position d \<notin> ref_position ` set refs}"
  unfolding set_add_definitions image_Un image_image by simp

lemma add_definitions_own:
  assumes "r \<in> set (add_definitions scan definitions refs)" "ref_place r \<in> ref_place ` set refs"
  shows "r \<in> set refs"
proof (rule ccontr)
  assume "r \<notin> set refs"
  with assms(1) obtain d where d: "r = plain_reference scan (def_place d) Definition"
    "sym_position d \<notin> ref_position ` set refs"
    unfolding set_add_definitions by blast
  from d(1) assms(2) have "def_place d \<in> ref_place ` set refs" by simp
  then have "place_line (def_place d) \<in> place_line ` ref_place ` set refs" by (rule imageI)
  with d(2) show False by (simp add: image_image ref_position_place)
qed

text \<open>
  C29: Whatever order the hash map is iterated in, the references that \<open>refs\<close> reports are sorted by
  file and line, and stand exactly at the places of the references the cascade kept, of the references
  in the trees that bear the name, and of the definitions on whose line there is no other; at a
  place known from a tree the reference reported is the tree's own, with its kind and caller.
\<close>
theorem refs_report_exact:
  assumes "fair order" and "refs_report order scan definitions named rrs = (refs, tier)"
  shows "sorted (map ref_position refs) \<and>
    (let merged = rr_place ` set (kept_refs definitions rrs) \<union> ref_place ` set named in
     ref_place ` set refs = merged \<union> def_place ` {d \<in> set definitions. sym_position d \<notin> place_line ` merged}) \<and>
    (\<forall>r \<in> set refs. ref_place r \<in> ref_place ` set named \<longrightarrow> r \<in> set named)"
proof -
  let ?kept = "kept_refs definitions rrs"
  let ?m = "merge_refs order scan named ?kept"
  from assms(2) have refs: "refs = add_definitions scan definitions ?m"
    by (simp add: refs_report_def Let_def)
  note places = merge_refs_places[OF assms(1), of scan named ?kept]
  have positions: "ref_position ` set ?m = place_line ` (rr_place ` set ?kept \<union> ref_place ` set named)"
    unfolding places[symmetric] image_image ref_position_place ..
  have sorted: "sorted (map ref_position refs)" unfolding refs add_definitions_def by simp
  note exact = add_definitions_places[of scan definitions ?m, unfolded places positions, folded refs]
  have "r \<in> set named" if "r \<in> set refs" "ref_place r \<in> ref_place ` set named" for r
  proof (rule merge_refs_named)
    from that(2) have "ref_place r \<in> ref_place ` set ?m" unfolding places by blast
    with that(1) show "r \<in> set ?m" unfolding refs by (rule add_definitions_own)
  qed (rule that(2))
  then have own: "\<forall>r \<in> set refs. ref_place r \<in> ref_place ` set named \<longrightarrow> r \<in> set named" by blast
  from sorted exact own show ?thesis by (simp only: Let_def simp_thms)
qed

lemma map_filter_perm: "mset xs = mset ys \<Longrightarrow> mset (List.map_filter f xs) = mset (List.map_filter f ys)"
  unfolding List.map_filter_def by (simp add: mset_filter)

lemma sorted_positions: "mset xs = mset ys \<Longrightarrow> map f (sort_key f xs) = map f (sort_key f ys)"
  for f :: "_ \<Rightarrow> _ :: linorder"
proof -
  assume "mset xs = mset ys"
  then have "mset (map f (sort_key f ys)) = mset (map f (sort_key f xs))" by simp
  from properties_for_sort[OF this] show ?thesis by (simp add: sorted_sort_id)
qed

lemma merge_refs_perm:
  assumes "fair order" "fair order'"
  shows "mset (merge_refs order scan named rrs) = mset (merge_refs order' scan named rrs)"
proof -
  have "mset (order (map_places named)) = mset (order' (map_places named))"
    using assms by (simp add: fair_def)
  then have "mset (filter P (order (map_places named))) = mset (filter P (order' (map_places named)))" for P
    by (simp add: mset_filter)
  then show ?thesis by (simp add: merge_refs_def Let_def map_filter_perm)
qed

text \<open>
  The order in which the hash map is iterated decides only how references on one line of a file
  follow each other: for any two orders \<open>refs\<close> reports the same references, with the same sequence
  of files and lines and the same quality.
\<close>
theorem refs_order_ties:
  assumes "fair order" and "fair order'"
  shows "mset (fst (refs_report order scan definitions named rrs)) =
      mset (fst (refs_report order' scan definitions named rrs)) \<and>
    map ref_position (fst (refs_report order scan definitions named rrs)) =
      map ref_position (fst (refs_report order' scan definitions named rrs)) \<and>
    snd (refs_report order scan definitions named rrs) = snd (refs_report order' scan definitions named rrs)"
proof -
  let ?kept = "kept_refs definitions rrs"
  note perm = merge_refs_perm[OF assms, of scan named ?kept]
  then have same: "set (merge_refs order scan named ?kept) = set (merge_refs order' scan named ?kept)"
    by (rule mset_eq_setD)
  have "mset (add_definitions scan definitions (merge_refs order scan named ?kept)) =
      mset (add_definitions scan definitions (merge_refs order' scan named ?kept))"
    using perm same by (simp add: add_definitions_def)
  moreover have "map ref_position (add_definitions scan definitions (merge_refs order scan named ?kept)) =
      map ref_position (add_definitions scan definitions (merge_refs order' scan named ?kept))"
    unfolding add_definitions_def by (rule sorted_positions) (use perm same in simp)
  ultimately show ?thesis by (simp add: refs_report_def Let_def)
qed


definition demo_ref :: "nat \<Rightarrow> nat \<Rightarrow> reference" where
  "demo_ref line column =
     \<lparr>ref_file = [Normal ''a.rs''], ref_line = line, ref_column = column, ref_kind = Call, ref_context = ''f(f())'',
      ref_caller = Some ''g'', ref_caller_kind = Some Function\<rparr>"

definition demo_resolved :: resolved_reference where
  "demo_resolved =
     \<lparr>rr_file = [Normal ''a.rs''], rr_line = 2, rr_column = 0, rr_symbol = ''f'', rr_def_file = Some [Normal ''b.rs''],
      rr_def_line = Some 1, rr_def_column = Some 0, rr_resolution = Resolved\<rparr>"

definition demo_definition :: symbol where
  "demo_definition = Symbol ''f'' Function [Normal ''b.rs''] 1 0 1 Public [] None None None"

theorem refs_report_exact_witness:
  "fair rev \<and>
   (case refs_report rev [] [demo_definition] [demo_ref 2 0, demo_ref 2 2] [demo_resolved] of (refs, tier) \<Rightarrow>
      ref_place ` set refs = {([Normal ''a.rs''], 2, 0), ([Normal ''a.rs''], 2, 2), ([Normal ''b.rs''], 1, 0)} \<and>
      tier = Resolved)"
proof -
  have f: "fair rev" by (simp add: fair_def)
  obtain refs tier where r: "refs_report rev [] [demo_definition] [demo_ref 2 0, demo_ref 2 2] [demo_resolved] = (refs, tier)"
    by force
  have "tier = snd (refs_report rev [] [demo_definition] [demo_ref 2 0, demo_ref 2 2] [demo_resolved])"
    using r by simp
  also have "\<dots> = Resolved" by code_simp
  finally have "tier = Resolved" .
  moreover have "ref_place ` set refs = (let merged = {([Normal ''a.rs''], 2, 0), ([Normal ''a.rs''], 2, 2)} in
      merged \<union> def_place ` {d \<in> set [demo_definition]. sym_position d \<notin> place_line ` merged})"
    using refs_report_exact[OF f r]
    by (auto simp: Let_def kept_refs_def keeps_ref_def demo_resolved_def demo_definition_def demo_ref_def
        ref_place_def rr_place_def)
  then have "ref_place ` set refs = {([Normal ''a.rs''], 2, 0), ([Normal ''a.rs''], 2, 2), ([Normal ''b.rs''], 1, 0)}"
    by (auto simp: Let_def demo_definition_def def_place_def sym_position_def place_line_def)
  ultimately show ?thesis using f r by simp
qed

text \<open>Two references on one line come out in the order of the hash map, which differs between runs.\<close>

lemma same_line_order_varies:
  "map ref_column (fst (refs_report id [] [] [demo_ref 2 0, demo_ref 2 2] [])) = [0, 2] \<and>
   map ref_column (fst (refs_report rev [] [] [demo_ref 2 0, demo_ref 2 2] [])) = [2, 0]"
  by code_simp

theorem refs_order_ties_witness:
  "fair id \<and> fair rev \<and>
   mset (fst (refs_report id [] [] [demo_ref 2 0, demo_ref 2 2] [])) =
     mset (fst (refs_report rev [] [] [demo_ref 2 0, demo_ref 2 2] []))"
proof -
  have "fair id" "fair rev" by (simp_all add: fair_def)
  with refs_order_ties[OF this, of "[]" "[]" "[demo_ref 2 0, demo_ref 2 2]" "[]"] show ?thesis by blast
qed

section \<open>What \<open>deps\<close> reports\<close>

lemma collect_symbol:
  "\<forall>r \<in> set (snd st). rr_symbol r = symbol \<Longrightarrow>
     \<forall>r \<in> set (snd (collect_resolved_path env graph ref_loc symbol n st)). rr_symbol r = symbol"
  by (auto simp: collect_resolved_path_def resolved_ref_def split: prod.splits option.splits)

lemma collect_fold_symbol:
  "\<forall>r \<in> set (snd st). rr_symbol r = symbol \<Longrightarrow>
     \<forall>r \<in> set (snd (fold (collect_resolved_path env graph ref_loc symbol) ns st)). rr_symbol r = symbol"
proof (induction ns arbitrary: st)
  case (Cons n ns)
  from Cons.IH[OF collect_symbol[OF Cons.prems]] show ?case by simp
qed simp

lemma stitch_fold_symbol:
  "\<forall>r \<in> set (snd st). rr_symbol r = symbol \<Longrightarrow>
     \<forall>r \<in> set (snd (fold (stitch_node env graph symbol) ns st)). rr_symbol r = symbol"
proof (induction ns arbitrary: st)
  case (Cons n ns)
  have "\<forall>r \<in> set (snd (stitch_node env graph symbol n st)). rr_symbol r = symbol"
    unfolding stitch_node_def by (rule collect_fold_symbol[OF Cons.prems])
  from Cons.IH[OF this] show ?case by simp
qed simp

lemma resolve_references_symbol:
  "resolve_references env graph symbol = Inr refs \<Longrightarrow> r \<in> set refs \<Longrightarrow> rr_symbol r = symbol"
  using stitch_fold_symbol[of "({}, [])" symbol env graph "find_reference_nodes env graph symbol"]
  by (auto simp: resolve_references_def stitch_references_def Let_def split: if_splits)

lemma language_group_symbol:
  "fst (resolve_language_group env cache fss lang symbol) = Inr (refs, ws) \<Longrightarrow> r \<in> set refs \<Longrightarrow> rr_symbol r = symbol"
  by (auto simp: resolve_language_group_def Let_def split: prod.splits sum.splits
      dest: resolve_references_symbol)

lemma syntactic_file_symbol:
  "syntactic_refs_for_file env fs symbol rng = Some out \<Longrightarrow> r \<in> set out \<Longrightarrow> rr_symbol r = symbol"
  by (auto simp: syntactic_refs_for_file_def list_all_iff split: option.splits dest!: keep_refs_syntactic)

lemma resolve_deps_symbol:
  assumes "resolve_deps env cache scan target rng symbol = Some result" "r \<in> set (res_references result)"
  shows "rr_symbol r = symbol"
  using assms
  by (auto simp: resolve_deps_def finish_result_def Let_def split: option.splits if_splits sum.splits
      dest: language_group_symbol syntactic_file_symbol)

lemma deps_loop_cong:
  "(\<And>name. name \<noteq> symbol \<Longrightarrow> f name = g name) \<Longrightarrow>
     deps_loop alnum f source symbol seen rs = deps_loop alnum g source symbol seen rs"
proof (induction rs arbitrary: seen)
  case (Cons r rs)
  from Cons.IH[OF Cons.prems] Cons.prems show ?case
    by (cases "extract_ref_name alnum source (ref_line r) (ref_column r)") (auto split: option.split)
qed simp

lemma dependencies_syntactic:
  "dependencies_of renv cache scan target symbol source body_refs =
     resolve_syntactic (rv_alnum renv) source body_refs symbol scan"
proof (cases "resolve_deps renv cache scan (sym_file target) (sym_line target, sym_end_line target) symbol")
  case (Some result)
  let ?lookup = "\<lambda>name. case resolved_map (res_references result) name of
      Some d \<Rightarrow> (d, Resolved) | None \<Rightarrow> index_lookup scan name"
  have "?lookup name = index_lookup scan name" if "name \<noteq> symbol" for name
  proof -
    have "resolved_map (res_references result) name = None"
      using resolve_deps_symbol[OF Some] that by (auto simp: resolved_map_def map_of_eq_None_iff)
    then show ?thesis by simp
  qed
  then have "deps_loop (rv_alnum renv) ?lookup source symbol {} body_refs =
      resolve_syntactic (rv_alnum renv) source body_refs symbol scan"
    unfolding resolve_syntactic_def by (rule deps_loop_cong)
  with Some show ?thesis
    by (simp add: dependencies_of_def resolve_with_stack_graphs_def split: option.split)
qed (simp add: dependencies_of_def resolve_with_stack_graphs_def)

text \<open>
  The stack graph attempt of \<open>deps\<close> never adds anything: the resolver is asked for references to
  the analysed symbol itself, and those are the ones the report leaves out. Whatever the rules, the
  dependencies reported are those of the purely syntactic lookup, and none is marked as resolved.
\<close>
theorem deps_never_resolved:
  "dependencies_of renv cache scan target symbol source body_refs =
     resolve_syntactic (rv_alnum renv) source body_refs symbol scan"
  by (rule dependencies_syntactic)

text \<open>The names of the references, in order, where no slice panics.\<close>

fun ref_names :: "(string \<Rightarrow> bool) \<Rightarrow> string \<Rightarrow> reference list \<Rightarrow> string list option" where
  "ref_names alnum source [] = Some []"
| "ref_names alnum source (r # rs) =
     Option.bind (extract_ref_name alnum source (ref_line r) (ref_column r)) (\<lambda>found.
       map_option (\<lambda>ns. case found of None \<Rightarrow> ns | Some n \<Rightarrow> n # ns) (ref_names alnum source rs))"

text \<open>First occurrences.\<close>

fun firsts :: "'a set \<Rightarrow> 'a list \<Rightarrow> 'a list" where
  "firsts seen [] = []"
| "firsts seen (x # xs) = (if x \<in> seen then firsts seen xs else x # firsts (insert x seen) xs)"

lemma set_firsts: "set (firsts seen xs) = set xs - seen"
  by (induction seen xs rule: firsts.induct) auto

lemma distinct_firsts: "distinct (firsts seen xs)"
  by (induction seen xs rule: firsts.induct) (auto simp: set_firsts)

lemma deps_loop_names:
  "map_option (map dep_name) (deps_loop alnum lookup source symbol seen rs) =
     map_option (\<lambda>ns. firsts seen (filter (\<lambda>n. n \<noteq> symbol) ns)) (ref_names alnum source rs)"
proof (induction rs arbitrary: seen)
  case (Cons r rs)
  show ?case
  proof (cases "extract_ref_name alnum source (ref_line r) (ref_column r)")
    case (Some found)
    show ?thesis
    proof (cases found)
      case None
      with Some Cons.IH[of seen] show ?thesis by (simp add: option.map_ident)
    next
      case (Some name)
      with \<open>extract_ref_name _ _ _ _ = Some found\<close> Cons.IH[of seen] Cons.IH[of "insert name seen"] show ?thesis
        by (cases "deps_loop alnum lookup source symbol seen rs";
            cases "deps_loop alnum lookup source symbol (insert name seen) rs";
            cases "ref_names alnum source rs") auto
    qed
  qed simp
qed simp

lemma deps_loop_lookup:
  "deps_loop alnum lookup source symbol seen rs = Some deps \<Longrightarrow> d \<in> set deps \<Longrightarrow>
     (dep_defined_in d, dep_resolution d) = lookup (dep_name d)"
proof (induction rs arbitrary: seen deps)
  case (Cons r rs)
  then show ?case by (fastforce split: option.splits if_splits simp: bind_eq_Some_conv)
qed simp

text \<open>
  The dependencies of a symbol are the identifiers at the references in its body, the symbol's own
  name left out, each once and in the order of first occurrence; each is located at the first
  definition the index has for the name, or nowhere. The report fails only where reading a name
  panics.
\<close>
theorem deps_exact:
  "map_option (map (\<lambda>d. (dep_name d, dep_defined_in d, dep_resolution d)))
      (dependencies_of renv cache scan target symbol source body_refs) =
    map_option (\<lambda>ns. map (\<lambda>n. (n, index_lookup scan n)) (firsts {} (filter (\<lambda>n. n \<noteq> symbol) ns)))
      (ref_names (rv_alnum renv) source body_refs)"
proof (cases "resolve_syntactic (rv_alnum renv) source body_refs symbol scan")
  case None
  with deps_loop_names[of "rv_alnum renv" "index_lookup scan" source symbol "{}" body_refs] show ?thesis
    by (simp add: dependencies_syntactic resolve_syntactic_def)
next
  case (Some deps)
  then have "map (\<lambda>d. (dep_name d, dep_defined_in d, dep_resolution d)) deps =
      map (\<lambda>n. (n, index_lookup scan n)) (map dep_name deps)"
    using deps_loop_lookup[of "rv_alnum renv" "index_lookup scan" source symbol "{}" body_refs deps]
    by (auto simp: resolve_syntactic_def)
  note located = this
  from Some deps_loop_names[of "rv_alnum renv" "index_lookup scan" source symbol "{}" body_refs]
  obtain ns where "ref_names (rv_alnum renv) source body_refs = Some ns"
    "map dep_name deps = firsts {} (filter (\<lambda>n. n \<noteq> symbol) ns)"
    by (cases "ref_names (rv_alnum renv) source body_refs") (simp_all add: resolve_syntactic_def)
  with Some located show ?thesis by (simp only: dependencies_syntactic option.map)
qed


section \<open>\<open>callers\<close> reports more than calls\<close>

text \<open>A resolved reference that is no call in the trees (an import, say) is reported, as a call.\<close>

lemma non_call_reported_as_call:
  assumes "rr \<in> set rrs" "rr_place rr \<notin> ref_place ` set call_refs"
  shows "\<exists>r \<in> set (fst (callers_report order scan call_refs rrs)). ref_place r = rr_place rr \<and> ref_kind r = Call"
proof -
  have "enriched scan call_refs rr = plain_reference scan (rr_place rr) Call"
    using assms(2) syntactic_map_dom[of call_refs "rr_place rr"] by (auto simp: enriched_def split: option.split)
  moreover have "ref_kind (plain_reference scan (rr_place rr) Call) = Call"
    by (simp add: plain_reference_def split: prod.split)
  moreover have "enriched scan call_refs rr \<in> set (fst (callers_report order scan call_refs rrs))"
    using assms(1) by (simp add: callers_report_def merge_refs_def Let_def)
  ultimately show ?thesis by (intro bexI[of _ "enriched scan call_refs rr"]) simp_all
qed

end
