(* ===== verification/Type_Commands.thy ===== *)
theory Type_Commands
  imports Find_Symbols Tree_Queries
begin

text \<open>
  The commands \<open>hierarchy.rs\<close> (supertypes and subtypes of a type), \<open>context.rs\<close> and
  \<open>hover.rs\<close> (the symbol around a position), from the scan or the symbols of the file.
\<close>

section \<open>\<open>hierarchy\<close>\<close>

record type_node =
  tn_name :: string
  tn_kind :: symbol_kind
  tn_file :: path
  tn_line :: nat
  tn_column :: nat

record type_hierarchy =
  th_target :: type_node
  th_supertypes :: "type_node list"
  th_subtypes :: "type_node list"

definition node_of_symbol :: "symbol \<Rightarrow> type_node" where
  "node_of_symbol s =
     \<lparr>tn_name = sym_name s, tn_kind = sym_kind s, tn_file = sym_file s, tn_line = sym_line s,
      tn_column = sym_column s\<rparr>"

definition type_like :: "symbol_kind \<Rightarrow> bool" where
  "type_like k \<longleftrightarrow> k \<in> {Struct, Class, Trait, Interface, Enum}"

definition hierarchy_target :: "symbol_index \<Rightarrow> string \<Rightarrow> type_node" where
  "hierarchy_target ix symbol =
     (let definitions = find_by_name ix symbol in
      case List.find (\<lambda>d. type_like (sym_kind d)) definitions of
        Some d \<Rightarrow> node_of_symbol d
      | None \<Rightarrow>
          (case definitions of
             d # _ \<Rightarrow> node_of_symbol d
           | [] \<Rightarrow> \<lparr>tn_name = symbol, tn_kind = Class, tn_file = path_of_string ''<unknown>'', tn_line = 0,
                    tn_column = 0\<rparr>))"

text \<open>The first definition of a name, else a node at the relation.\<close>

definition related_node :: "symbol_index \<Rightarrow> string \<Rightarrow> symbol_kind \<Rightarrow> supertype_relation \<Rightarrow> type_node" where
  "related_node ix name kind rel =
     (case find_by_name ix name of
        d # _ \<Rightarrow> node_of_symbol d
      | [] \<Rightarrow> \<lparr>tn_name = name, tn_kind = kind, tn_file = rel_file rel, tn_line = rel_line rel, tn_column = 0\<rparr>)"

definition file_relations ::
  "(string \<rightharpoonup> string) \<Rightarrow> path \<Rightarrow> language option \<Rightarrow> file_symbols \<Rightarrow> supertype_relation list" where
  "file_relations exts root lang_filter fs =
     (case scan_language exts (path_join root (fs_file fs)) of
        None \<Rightarrow> []
      | Some lang \<Rightarrow>
          if lang_filter \<noteq> None \<and> lang_filter \<noteq> Some lang then []
          else extract_supertype_relations (fs_source fs) (fs_tree fs) (fs_file fs) lang)"

text \<open>\<open>dedup_by\<close> keeps the first of neighbours with one name.\<close>

fun dedup_by :: "('a \<Rightarrow> 'b) \<Rightarrow> 'a list \<Rightarrow> 'a list" where
  "dedup_by f (x # y # ys) = (if f x = f y then dedup_by f (x # ys) else x # dedup_by f (y # ys))"
| "dedup_by f xs = xs"

definition hierarchy_of ::
  "(string \<rightharpoonup> string) \<Rightarrow> path \<Rightarrow> language option \<Rightarrow> file_symbols list \<Rightarrow> string \<Rightarrow> type_hierarchy" where
  "hierarchy_of exts root lang_filter scan symbol =
     (let ix = from_scan scan;
          rels = concat (map (file_relations exts root lang_filter) scan);
          supers = map (\<lambda>rel. related_node ix (rel_supertype rel) Trait rel)
            (filter (\<lambda>rel. rel_subtype rel = symbol) rels);
          subs = map (\<lambda>rel. related_node ix (rel_subtype rel) Struct rel)
            (filter (\<lambda>rel. rel_supertype rel = symbol) rels) in
      \<lparr>th_target = hierarchy_target ix symbol,
       th_supertypes = dedup_by tn_name (sort_key tn_name supers),
       th_subtypes = dedup_by tn_name (sort_key tn_name subs)\<rparr>)"

lemma set_dedup_by: "set (map f (dedup_by f xs)) = set (map f xs)"
  by (induction f xs rule: dedup_by.induct) auto

lemma dedup_by_subset: "set (dedup_by f xs) \<subseteq> set xs"
  by (induction f xs rule: dedup_by.induct) auto

lemma dedup_by_sorted:
  fixes f :: "'a \<Rightarrow> 'b :: linorder"
  shows "sorted (map f xs) \<Longrightarrow> sorted_wrt (<) (map f (dedup_by f xs))"
proof (induction f xs rule: dedup_by.induct)
  case (1 f x y ys)
  show ?case
  proof (cases "f x = f y")
    case False
    with 1 have rest: "sorted_wrt (<) (map f (dedup_by f (y # ys)))" "f x < f y" by auto
    have "f x < b" if "b \<in> set (map f (dedup_by f (y # ys)))" for b
    proof -
      from that have "b \<in> set (map f (y # ys))" by (simp only: set_dedup_by)
      with "1.prems" rest(2) show ?thesis by auto
    qed
    with False rest show ?thesis by simp
  qed (use 1 in simp)
qed simp_all

lemma dedup_names: "f ` set (dedup_by f (sort_key f xs)) = f ` set xs"
  using set_dedup_by[of f "sort_key f xs"] by simp

lemma find_by_name_names: "d \<in> set (find_by_name (from_scan scan) name) \<Longrightarrow> sym_name d = name"
  using find_by_name_index[OF from_scan_ok] by auto

lemma related_node_name [simp]: "tn_name (related_node (from_scan scan) name kind rel) = name"
  using find_by_name_names[of _ scan name] by (auto simp: related_node_def node_of_symbol_def split: list.split)

text \<open>
  The supertypes that \<open>hierarchy\<close> lists are, each name once and in the order of names, exactly
  those that some relation of the project's files gives to the symbol, and the subtypes exactly those
  to which a relation gives it; a type that the project defines is shown where it is defined.
\<close>
theorem hierarchy_exact:
  "let rels = concat (map (file_relations exts root lang_filter) scan);
       h = hierarchy_of exts root lang_filter scan symbol in
   set (map tn_name (th_supertypes h)) = {rel_supertype r | r. r \<in> set rels \<and> rel_subtype r = symbol} \<and>
   set (map tn_name (th_subtypes h)) = {rel_subtype r | r. r \<in> set rels \<and> rel_supertype r = symbol} \<and>
   sorted_wrt (<) (map tn_name (th_supertypes h)) \<and> sorted_wrt (<) (map tn_name (th_subtypes h)) \<and>
   {t \<in> set (th_supertypes h @ th_subtypes h). find_by_name (from_scan scan) (tn_name t) \<noteq> [] \<and>
      t \<noteq> node_of_symbol (hd (find_by_name (from_scan scan) (tn_name t)))} = {}"
proof -
  let ?rels = "concat (map (file_relations exts root lang_filter) scan)"
  let ?supers = "map (\<lambda>rel. related_node (from_scan scan) (rel_supertype rel) Trait rel)
      (filter (\<lambda>rel. rel_subtype rel = symbol) ?rels)"
  let ?subs = "map (\<lambda>rel. related_node (from_scan scan) (rel_subtype rel) Struct rel)
      (filter (\<lambda>rel. rel_supertype rel = symbol) ?rels)"
  have h: "th_supertypes (hierarchy_of exts root lang_filter scan symbol) = dedup_by tn_name (sort_key tn_name ?supers)"
    "th_subtypes (hierarchy_of exts root lang_filter scan symbol) = dedup_by tn_name (sort_key tn_name ?subs)"
    by (simp_all add: hierarchy_of_def Let_def)
  have names: "set (map tn_name (dedup_by tn_name (sort_key tn_name ?supers))) =
        {rel_supertype r | r. r \<in> set ?rels \<and> rel_subtype r = symbol}"
    "set (map tn_name (dedup_by tn_name (sort_key tn_name ?subs))) =
        {rel_subtype r | r. r \<in> set ?rels \<and> rel_supertype r = symbol}"
    unfolding dedup_names set_map set_filter image_image related_node_name by blast+
  have "t = node_of_symbol (hd (find_by_name (from_scan scan) (tn_name t)))"
    if "t \<in> set ?supers \<union> set ?subs" "find_by_name (from_scan scan) (tn_name t) \<noteq> []" for t
  proof -
    from that(1) obtain name kind rel where t: "t = related_node (from_scan scan) name kind rel" by auto
    then have "tn_name t = name" by simp
    with that(2) t show ?thesis by (simp add: related_node_def split: list.split)
  qed
  note located = this
  have incl: "set (dedup_by tn_name (sort_key tn_name xs)) \<subseteq> set xs" for xs :: "type_node list"
    using dedup_by_subset[of tn_name "sort_key tn_name xs"] by simp
  have own: "{t \<in> set (dedup_by tn_name (sort_key tn_name ?supers) @ dedup_by tn_name (sort_key tn_name ?subs)).
      find_by_name (from_scan scan) (tn_name t) \<noteq> [] \<and>
      t \<noteq> node_of_symbol (hd (find_by_name (from_scan scan) (tn_name t)))} = {}"
    unfolding set_append using located incl[of ?supers] incl[of ?subs] by blast
  have "sorted_wrt (<) (map tn_name (dedup_by tn_name (sort_key tn_name xs)))" for xs :: "type_node list"
    by (rule dedup_by_sorted) simp
  with names own show ?thesis unfolding Let_def h by (intro conjI) assumption+
qed


section \<open>Locations\<close>

text \<open>\<open>rfind(':')\<close> and the text on both sides; \<open>file:line\<close> for \<open>context\<close>.\<close>

definition rsplit_colon :: "string \<Rightarrow> (string \<times> string) option" where
  "rsplit_colon s =
     (if CHR '':'' \<in> set s
      then (let after = rev (takeWhile (\<lambda>c. c \<noteq> CHR '':'') (rev s)) in
            Some (take (length s - length after - 1) s, after))
      else None)"

definition context_location :: "string \<Rightarrow> (string \<times> nat) option" where
  "context_location location =
     Option.bind (rsplit_colon location) (\<lambda>(file_part, line_part).
       if file_part = [] then None
       else
         Option.bind (parse_unsigned usize_max line_part) (\<lambda>line.
           if line = 0 then None else Some (file_part, line)))"

text \<open>\<open>file:line\<close> or \<open>file:line:col\<close> for \<open>hover\<close>.\<close>

definition two_part :: "string \<Rightarrow> nat \<Rightarrow> (string \<times> nat \<times> nat) option" where
  "two_part rest last_num = (if last_num = 0 then None else if rest = [] then None else Some (rest, last_num, 0))"

definition hover_location :: "string \<Rightarrow> (string \<times> nat \<times> nat) option" where
  "hover_location location =
     Option.bind (rsplit_colon location) (\<lambda>(rest, last_part).
       if rest = [] then None
       else
         (case parse_unsigned usize_max last_part of
            None \<Rightarrow> None
          | Some last_num \<Rightarrow>
              (case rsplit_colon rest of
                 None \<Rightarrow> two_part rest last_num
               | Some (file_part, line_part) \<Rightarrow>
                   (if file_part = [] then two_part rest last_num
                    else
                      (case parse_unsigned usize_max line_part of
                         Some line \<Rightarrow> if line = 0 then None else Some (file_part, line, last_num)
                       | None \<Rightarrow> two_part rest last_num)))))"

section \<open>The symbol around a line\<close>

definition spans :: "nat \<Rightarrow> symbol \<Rightarrow> bool" where
  "spans line s \<longleftrightarrow> sym_line s \<le> line \<and> line \<le> sym_end_line s"

text \<open>\<open>hover\<close>: every symbol that contains the line replaces the one found before.\<close>

fun find_enclosing_recursive :: "nat \<Rightarrow> symbol list \<Rightarrow> symbol option \<Rightarrow> symbol option" where
  "find_enclosing_recursive line [] best = best"
| "find_enclosing_recursive line (Symbol n k f l c e v ch d b sg # ss) best =
     (let s = Symbol n k f l c e v ch d b sg in
      find_enclosing_recursive line ss
        (if spans line s then find_enclosing_recursive line ch (Some s) else best))"

definition find_enclosing_symbol :: "symbol list \<Rightarrow> nat \<Rightarrow> symbol option" where
  "find_enclosing_symbol ss line = find_enclosing_recursive line ss None"

text \<open>\<open>context\<close>: the chain is replaced by longer ones only.\<close>

fun walk_symbols :: "nat \<Rightarrow> symbol list \<Rightarrow> symbol list \<Rightarrow> symbol list \<Rightarrow> symbol list" where
  "walk_symbols line [] current best = best"
| "walk_symbols line (Symbol n k f l c e v ch d b sg # ss) current best =
     (let s = Symbol n k f l c e v ch d b sg in
      walk_symbols line ss current
        (if spans line s then
           walk_symbols line ch (current @ [s])
             (if length best < length (current @ [s]) then current @ [s] else best)
         else best))"

definition find_enclosing_chain :: "symbol list \<Rightarrow> nat \<Rightarrow> symbol list" where
  "find_enclosing_chain ss line = walk_symbols line ss [] []"

text \<open>What \<open>context\<close> prints: nothing, a symbol, or a panic on an empty slice of the chain.\<close>

datatype context_result = NoContext | ContextSymbol symbol | ContextPanic

definition context_symbol :: "symbol list \<Rightarrow> nat \<Rightarrow> nat option \<Rightarrow> context_result" where
  "context_symbol ss line depth =
     (let context_chain = find_enclosing_chain ss line in
      if context_chain = [] then NoContext
      else
        (let chain = (case depth of
               Some d \<Rightarrow> drop (length context_chain - d) context_chain
             | None \<Rightarrow> drop (length context_chain - 1) context_chain) in
         if chain = [] then ContextPanic else ContextSymbol (last chain)))"

record hover_info =
  hi_type_info :: "string option"
  hi_docs :: "string option"
  hi_signature :: "string option"
  hi_file :: path
  hi_line :: nat
  hi_column :: nat

definition hover_info_of ::
  "(node \<Rightarrow> nat \<times> nat \<Rightarrow> nat list option) \<Rightarrow> string \<Rightarrow> node \<Rightarrow> path \<Rightarrow> language option \<Rightarrow> symbol list \<Rightarrow> nat \<Rightarrow> nat
    \<Rightarrow> hover_info" where
  "hover_info_of descend source tree p builtin_language ss line column =
     (let enclosing = find_enclosing_symbol ss line in
      \<lparr>hi_type_info = Option.bind builtin_language (extract_type_at_position descend source tree line column),
       hi_docs = Option.bind enclosing sym_doc, hi_signature = Option.bind enclosing sym_signature,
       hi_file = p, hi_line = line, hi_column = column\<rparr>)"


section \<open>Locations are read back\<close>

lemma rsplit_colon_last [simp]:
  assumes "CHR '':'' \<notin> set w"
  shows "rsplit_colon (p @ CHR '':'' # w) = Some (p, w)"
proof -
  have "takeWhile (\<lambda>c. c \<noteq> CHR '':'') (rev w @ CHR '':'' # rev p) = rev w"
    using assms by (simp add: takeWhile_append takeWhile_eq_all_conv[THEN iffD2])
  then show ?thesis by (simp add: rsplit_colon_def)
qed

lemma dec_no_colon [simp]: "CHR '':'' \<notin> set (dec n)"
  using dec_digits[of n] by (auto simp: list_all_iff is_ascii_digit_def byte_def)

lemma parse_dec [simp]: "n \<le> usize_max \<Longrightarrow> parse_unsigned usize_max (dec n) = Some n"
  by (simp add: parse_unsigned_dec)

text \<open>
  Locations are read back: for a file name of any bytes that is not empty, a line from 1 and a
  column, \<open>hover\<close> reads \<open>file:line:column\<close> as these three, even when the name holds colons, and
  \<open>context\<close> reads \<open>file:line\<close>. \<open>hover\<close> reads \<open>file:line\<close> with column 0 unless the name itself ends
  in a colon and a number.
\<close>
theorem locations_round_trip:
  assumes "file_part \<noteq> []" "0 < line" "line \<le> usize_max" "column \<le> usize_max"
  shows "hover_location (file_part @ '':'' @ dec line @ '':'' @ dec column) = Some (file_part, line, column) \<and>
    context_location (file_part @ '':'' @ dec line) = Some (file_part, line) \<and>
    (Option.bind (rsplit_colon file_part) (\<lambda>(f, w). if f = [] then None else parse_unsigned usize_max w) = None \<longrightarrow>
       hover_location (file_part @ '':'' @ dec line) = Some (file_part, line, 0))"
proof (intro conjI impI)
  have "hover_location ((file_part @ CHR '':'' # dec line) @ CHR '':'' # dec column) = Some (file_part, line, column)"
    using assms unfolding hover_location_def rsplit_colon_last[OF dec_no_colon] by simp
  then show "hover_location (file_part @ '':'' @ dec line @ '':'' @ dec column) = Some (file_part, line, column)"
    by simp
  show "context_location (file_part @ '':'' @ dec line) = Some (file_part, line)"
    using assms by (simp add: context_location_def)
  assume "Option.bind (rsplit_colon file_part) (\<lambda>(f, w). if f = [] then None else parse_unsigned usize_max w) = None"
  then show "hover_location (file_part @ '':'' @ dec line) = Some (file_part, line, 0)"
    using assms by (auto simp: hover_location_def two_part_def split: option.split prod.splits if_splits)
qed

theorem locations_round_trip_witness:
  "hover_location ''C:a.rs:12:3'' = Some (''C:a.rs'', 12, 3) \<and> context_location ''C:a.rs:12'' = Some (''C:a.rs'', 12) \<and>
   hover_location ''C:a.rs:12'' = Some (''C:a.rs'', 12, 0)"
proof -
  have bounds: "(12::nat) \<le> usize_max" "(3::nat) \<le> usize_max" by (simp_all add: usize_max_def)
  have d: "dec 12 = ''12''" "dec 3 = ''3''" by code_simp+
  have "parse_unsigned usize_max ''a.rs'' = None"
    by (simp add: parse_unsigned_def is_ascii_digit_def byte_def)
  then have "Option.bind (rsplit_colon ''C:a.rs'') (\<lambda>(f, w). if f = [] then None else parse_unsigned usize_max w) = None"
    using rsplit_colon_last[of "''a.rs''" "''C''"] by simp
  with locations_round_trip[OF _ _ bounds, of "''C:a.rs''"] show ?thesis unfolding d by simp
qed

section \<open>The innermost symbol\<close>

text \<open>A way down through symbols that contain the line.\<close>

fun line_chain :: "nat \<Rightarrow> symbol list \<Rightarrow> symbol list \<Rightarrow> bool" where
  "line_chain line ss [] = True"
| "line_chain line ss (c # cs) = (c \<in> set ss \<and> spans line c \<and> line_chain line (sym_children c) cs)"

lemma line_chain_mono: "line_chain line ss cs \<Longrightarrow> set ss \<subseteq> set ss' \<Longrightarrow> line_chain line ss' cs"
  by (cases cs) auto

lemma line_chain_Cons:
  "line_chain line (s # ss) cs \<longleftrightarrow>
     line_chain line ss cs \<or> (\<exists>cs'. cs = s # cs' \<and> spans line s \<and> line_chain line (sym_children s) cs')"
  by (cases cs) auto

lemma walk_symbols_spec:
  "let r = walk_symbols line ss current best in
     length best \<le> length r \<and> (r = best \<or> (\<exists>cs. cs \<noteq> [] \<and> r = current @ cs \<and> line_chain line ss cs)) \<and>
     (\<forall>cs. cs \<noteq> [] \<longrightarrow> line_chain line ss cs \<longrightarrow> length (current @ cs) \<le> length r)"
proof (induction line ss current best rule: walk_symbols.induct)
  case (1 line current best)
  then show ?case by (auto simp: neq_Nil_conv)
next
  case (2 line n k f l c e v ch d b sg ss current best)
  let ?s = "Symbol n k f l c e v ch d b sg"
  let ?b1 = "if length best < length (current @ [?s]) then current @ [?s] else best"
  let ?b2 = "if spans line ?s then walk_symbols line ch (current @ [?s]) ?b1 else best"
  let ?r = "walk_symbols line ss current ?b2"
  note rest = "2.IH"(2)[OF refl, unfolded Let_def]
  have chains: "line_chain line (?s # ss) cs \<longleftrightarrow>
      line_chain line ss cs \<or> (\<exists>cs'. cs = ?s # cs' \<and> spans line ?s \<and> line_chain line ch cs')" for cs
    by (simp add: line_chain_Cons)
  have inner: "length best \<le> length ?b2 \<and>
      (?b2 = best \<or> (\<exists>cs. cs \<noteq> [] \<and> ?b2 = current @ cs \<and> line_chain line (?s # ss) cs)) \<and>
      (\<forall>cs'. spans line ?s \<longrightarrow> line_chain line ch cs' \<longrightarrow> length (current @ ?s # cs') \<le> length ?b2)"
  proof (cases "spans line ?s")
    case True
    note ih = "2.IH"(1)[OF refl True, unfolded Let_def]
    have "length (current @ ?s # cs') \<le> length ?b2" if "line_chain line ch cs'" for cs'
      using ih that True by (cases "cs' = []") (auto split: if_splits)
    moreover have "?b2 = best \<or> (\<exists>cs. cs \<noteq> [] \<and> ?b2 = current @ cs \<and> line_chain line (?s # ss) cs)"
    proof -
      from ih consider "?b2 = ?b1" | cs where "?b2 = (current @ [?s]) @ cs" "line_chain line ch cs"
        using True by auto
      then show ?thesis
      proof cases
        case 1
        then show ?thesis using True by (auto split: if_splits intro!: exI[of _ "[?s]"])
      next
        case 2
        then show ?thesis using True by (auto intro!: exI[of _ "?s # cs"])
      qed
    qed
    ultimately show ?thesis using ih True by (auto split: if_splits)
  qed simp
  have "length (current @ cs) \<le> length ?r" if "cs \<noteq> []" "line_chain line (?s # ss) cs" for cs
  proof -
    from that(2) consider "line_chain line ss cs"
      | cs' where "cs = ?s # cs'" "spans line ?s" "line_chain line ch cs'"
      unfolding chains by blast
    then show ?thesis
    proof cases
      case 1
      with rest that(1) show ?thesis by blast
    next
      case 2
      with inner have "length (current @ cs) \<le> length ?b2" by blast
      also have "\<dots> \<le> length ?r" using rest by blast
      finally show ?thesis .
    qed
  qed
  moreover have "?r = best \<or> (\<exists>cs. cs \<noteq> [] \<and> ?r = current @ cs \<and> line_chain line (?s # ss) cs)"
  proof -
    from rest have "?r = ?b2 \<or> (\<exists>cs. cs \<noteq> [] \<and> ?r = current @ cs \<and> line_chain line ss cs)" by blast
    then show ?thesis
    proof
      assume eq: "?r = ?b2"
      show ?thesis unfolding eq using inner by blast
    next
      assume "\<exists>cs. cs \<noteq> [] \<and> ?r = current @ cs \<and> line_chain line ss cs"
      then show ?thesis unfolding chains by blast
    qed
  qed
  moreover have "length best \<le> length ?r" using rest inner by linarith
  ultimately show ?case by (simp add: Let_def)
qed

text \<open>
  The chain that \<open>context\<close> finds leads from a symbol of the file down through children, every
  symbol in it contains the line, and no such chain is longer: its last symbol is the innermost one.
\<close>
theorem enclosing_chain_deepest:
  "line_chain line ss (find_enclosing_chain ss line) \<and>
   {cs. line_chain line ss cs \<and> length (find_enclosing_chain ss line) < length cs} = {}"
proof -
  have "line_chain line ss (find_enclosing_chain ss line)"
    using walk_symbols_spec[of line ss "[]" "[]"] by (auto simp: find_enclosing_chain_def Let_def)
  moreover have "length cs \<le> length (find_enclosing_chain ss line)" if "line_chain line ss cs" for cs
    using walk_symbols_spec[of line ss "[]" "[]"] that
    by (cases "cs = []") (auto simp: find_enclosing_chain_def Let_def)
  ultimately show ?thesis by (auto simp: not_less)
qed


lemma context_symbol_chain:
  "context_symbol ss line depth =
     (let c = find_enclosing_chain ss line in
      if c = [] then NoContext else if depth = Some 0 then ContextPanic else ContextSymbol (last c))"
proof (cases "find_enclosing_chain ss line")
  case (Cons a c)
  have "drop (length (a # c) - d) (a # c) = [] \<longleftrightarrow> d = 0" for d
    by (simp only: drop_eq_Nil) (cases d; simp)
  with Cons show ?thesis by (cases depth) (auto simp: context_symbol_def Let_def last_drop)
qed (simp add: context_symbol_def)

text \<open>
  The depth option of \<open>context\<close> never changes the symbol that is shown: with any depth from 1 it
  is the innermost one, as without the option, and a depth of 0 panics wherever there is a symbol.
\<close>
theorem context_depth_ignored:
  "context_symbol ss line (Some depth) =
     (if find_enclosing_chain ss line \<noteq> [] \<and> depth = 0 then ContextPanic else context_symbol ss line None)"
  by (simp add: context_symbol_chain Let_def)

text \<open>At most one of several siblings contains the line, at every level.\<close>

fun one_at :: "nat \<Rightarrow> symbol list \<Rightarrow> bool" where
  "one_at line [] = True"
| "one_at line (Symbol n k f l c e v ch d b sg # ss) =
     ((spans line (Symbol n k f l c e v ch d b sg) \<longrightarrow> list_all (\<lambda>t. \<not> spans line t) ss) \<and>
      one_at line ch \<and> one_at line ss)"

fun the_chain :: "nat \<Rightarrow> symbol list \<Rightarrow> symbol list" where
  "the_chain line [] = []"
| "the_chain line (Symbol n k f l c e v ch d b sg # ss) =
     (let s = Symbol n k f l c e v ch d b sg in if spans line s then s # the_chain line ch else the_chain line ss)"

lemma recursive_none: "list_all (\<lambda>t. \<not> spans line t) ss \<Longrightarrow> find_enclosing_recursive line ss best = best"
proof (induction ss)
  case (Cons s ss)
  then show ?case by (cases s) simp
qed simp

lemma walk_none: "list_all (\<lambda>t. \<not> spans line t) ss \<Longrightarrow> walk_symbols line ss current best = best"
proof (induction ss)
  case (Cons s ss)
  then show ?case by (cases s) simp
qed simp

lemma recursive_chain:
  "one_at line ss \<Longrightarrow> find_enclosing_recursive line ss best =
     (if the_chain line ss = [] then best else Some (last (the_chain line ss)))"
proof (induction line ss best rule: find_enclosing_recursive.induct)
  case (2 line n k f l c e v ch d b sg ss best)
  then show ?case
    by (cases "spans line (Symbol n k f l c e v ch d b sg)") (auto simp: Let_def recursive_none)
qed simp

lemma walk_chain:
  "one_at line ss \<Longrightarrow> walk_symbols line ss current best =
     (if the_chain line ss \<noteq> [] \<and> length best < length (current @ the_chain line ss)
      then current @ the_chain line ss else best)"
proof (induction line ss current best rule: walk_symbols.induct)
  case (2 line n k f l c e v ch d b sg ss current best)
  let ?s = "Symbol n k f l c e v ch d b sg"
  show ?case
  proof (cases "spans line ?s")
    case True
    with "2.prems" have "walk_symbols line ss current x = x" for x
      by (intro walk_none) simp
    with True "2.prems" "2.IH"(1)[OF refl True] show ?thesis by (auto simp: Let_def)
  next
    case False
    with "2.prems" "2.IH"(2)[OF refl] show ?thesis by (simp add: Let_def)
  qed
qed simp

text \<open>
  Where no two sibling symbols share the line, at any level, \<open>hover\<close> and \<open>context\<close> agree on
  the symbol around it.
\<close>
theorem hover_context_agree:
  assumes "one_at line ss"
  shows "find_enclosing_symbol ss line =
    (case context_symbol ss line None of ContextSymbol s \<Rightarrow> Some s | _ \<Rightarrow> None)"
proof -
  have "find_enclosing_chain ss line = the_chain line ss"
    using walk_chain[OF assms, of "[]" "[]"] by (auto simp: find_enclosing_chain_def)
  then show ?thesis
    using recursive_chain[OF assms, of None]
    by (simp add: find_enclosing_symbol_def context_symbol_chain Let_def)
qed

definition on_line :: "string \<Rightarrow> nat \<Rightarrow> nat \<Rightarrow> symbol list \<Rightarrow> symbol" where
  "on_line name line until children = Symbol name Function [] line 0 until Public children None None None"

theorem hover_context_agree_witness:
  "map_option sym_name (find_enclosing_symbol [on_line ''a'' 1 9 [on_line ''b'' 2 5 []], on_line ''c'' 10 12 []] 3) =
     Some ''b''"
proof -
  let ?ss = "[on_line ''a'' 1 9 [on_line ''b'' 2 5 []], on_line ''c'' 10 12 []]"
  have "one_at 3 ?ss" by (simp add: on_line_def spans_def)
  from hover_context_agree[OF this] show ?thesis
    by (simp add: context_symbol_chain find_enclosing_chain_def on_line_def spans_def Let_def)
qed

text \<open>Two functions on one line: \<open>context\<close> shows the first, \<open>hover\<close> the second.\<close>

lemma one_line_functions_differ:
  "find_enclosing_symbol [on_line ''a'' 1 1 [], on_line ''b'' 1 1 []] 1 = Some (on_line ''b'' 1 1 []) \<and>
   context_symbol [on_line ''a'' 1 1 [], on_line ''b'' 1 1 []] 1 None = ContextSymbol (on_line ''a'' 1 1 [])"
  by (simp add: find_enclosing_symbol_def context_symbol_chain find_enclosing_chain_def on_line_def spans_def)

end
