(* ===== verification/Output.thy ===== *)
theory Output
  imports Ref_Commands Type_Commands Rename Imports Extract_Engine
begin

text \<open>
  The text output of the command line (\<open>output.rs\<close>, the formatters of \<open>hover.rs\<close>): framed and raw.
  A text is its bytes; characters outside ASCII are written out in UTF-8. \<open>write!\<close> into a string
  cannot fail. The JSON output is in \<open>Output_Json\<close>.
\<close>

abbreviation nl :: string where
  "nl \<equiv> [CHR 0x0A]"

abbreviation quote :: string where
  "quote \<equiv> [CHR 0x22]"

definition em_dash :: string where
  "em_dash = [CHR 0xE2, CHR 0x80, CHR 0x94]"

definition arrow_left :: string where
  "arrow_left = [CHR 0xE2, CHR 0x86, CHR 0x90]"

definition arrow_up :: string where
  "arrow_up = [CHR 0xE2, CHR 0x86, CHR 0x91]"

definition arrow_right :: string where
  "arrow_right = [CHR 0xE2, CHR 0x86, CHR 0x92]"

definition arrow_down :: string where
  "arrow_down = [CHR 0xE2, CHR 0x86, CHR 0x93]"

section \<open>Shared helpers\<close>

definition position_text :: "path \<Rightarrow> nat \<Rightarrow> nat \<Rightarrow> string" where
  "position_text p line column = path_display p @ '':'' @ dec line @ '':'' @ dec column"

text \<open>\<open>file:line:col kind name\<close>.\<close>

definition symbol_line :: "symbol \<Rightarrow> string" where
  "symbol_line s =
     position_text (sym_file s) (sym_line s) (sym_column s) @ '' '' @ kind_display (sym_kind s) @ '' '' @ sym_name s"

definition format_frame_header :: "symbol \<Rightarrow> string" where
  "format_frame_header s = ''@@ '' @ symbol_line s @ '' @@''"

definition format_meta_header :: "resolution \<Rightarrow> completeness \<Rightarrow> nat \<Rightarrow> string option \<Rightarrow> string" where
  "format_meta_header res compl n_results note =
     ''@@ meta resolution='' @ resolution_display res @ '' completeness='' @ completeness_display compl @
     '' total='' @ dec n_results @
     (case note of Some n \<Rightarrow> '' note='' @ quote @ n @ quote | None \<Rightarrow> []) @ '' @@''"

definition format_meta_comment :: "resolution \<Rightarrow> completeness \<Rightarrow> nat \<Rightarrow> string" where
  "format_meta_comment res compl n_results =
     ''# meta resolution='' @ resolution_display res @ '' completeness='' @ completeness_display compl @
     '' total='' @ dec n_results"

definition prepend_meta_framed :: "string \<Rightarrow> string \<Rightarrow> string" where
  "prepend_meta_framed meta content = (if content = [] then meta else meta @ nl @ nl @ content)"

definition prepend_meta_raw :: "string \<Rightarrow> string \<Rightarrow> string" where
  "prepend_meta_raw meta content = (if content = [] then meta else meta @ nl @ content)"

definition spaces_of :: "nat \<Rightarrow> string" where
  "spaces_of indent = replicate (indent * 2) CHR '' ''"

definition format_outline_entry :: "symbol \<Rightarrow> nat \<Rightarrow> string" where
  "format_outline_entry s indent =
     spaces_of indent @ sym_name s @ '' ('' @ kind_display (sym_kind s) @ '', '' @
     visibility_display (sym_visibility s) @ '') :'' @ dec (sym_line s)"

fun format_outline_symbol :: "symbol \<Rightarrow> nat \<Rightarrow> string" where
  "format_outline_symbol (Symbol n k f l c e v ch d b sg) indent =
     format_outline_entry (Symbol n k f l c e v ch d b sg) indent @
     concat (map (\<lambda>child. nl @ format_outline_symbol child (indent + 1)) ch)"

text \<open>The meta header over results that come from the trees alone, and cover all of them.\<close>

definition syntactic_header :: "nat \<Rightarrow> string" where
  "syntactic_header n = format_meta_header Syntactic Exhaustive n None"

definition syntactic_comment :: "nat \<Rightarrow> string" where
  "syntactic_comment n = format_meta_comment Syntactic Exhaustive n"

section \<open>\<open>def\<close>, \<open>body\<close>, \<open>sig\<close>, \<open>symbols\<close>\<close>

definition format_def_results :: "symbol list \<Rightarrow> string" where
  "format_def_results ss =
     prepend_meta_framed (syntactic_header (length ss)) (join_with (nl @ nl) (map format_frame_header ss))"

definition format_def_raw :: "symbol list \<Rightarrow> string" where
  "format_def_raw ss = prepend_meta_raw (syntactic_comment (length ss)) (join_with nl (map symbol_line ss))"

definition format_body_framed :: "symbol list \<Rightarrow> string" where
  "format_body_framed ss =
     prepend_meta_framed (syntactic_header (length ss))
       (join_with (nl @ nl)
         (map (\<lambda>s. format_frame_header s @ (case sym_body s of Some body \<Rightarrow> nl @ body | None \<Rightarrow> [])) ss))"

definition format_body_raw :: "symbol list \<Rightarrow> string" where
  "format_body_raw ss =
     prepend_meta_raw (syntactic_comment (length ss))
       (join_with (nl @ nl) (map (\<lambda>s. case sym_body s of Some body \<Rightarrow> body | None \<Rightarrow> []) ss))"

definition format_sig_framed :: "symbol list \<Rightarrow> string" where
  "format_sig_framed ss =
     prepend_meta_framed (syntactic_header (length ss))
       (join_with (nl @ nl)
         (map (\<lambda>s. format_frame_header s @ (case sym_signature s of Some sig \<Rightarrow> nl @ sig | None \<Rightarrow> [])) ss))"

definition format_sig_raw :: "symbol list \<Rightarrow> string" where
  "format_sig_raw ss =
     prepend_meta_raw (syntactic_comment (length ss))
       (join_with (nl @ nl) (map (\<lambda>s. case sym_signature s of Some sig \<Rightarrow> sig | None \<Rightarrow> []) ss))"

definition format_symbols_framed :: "symbol list \<Rightarrow> string" where
  "format_symbols_framed ss =
     prepend_meta_framed (syntactic_header (length ss)) (join_with nl (map format_frame_header ss))"

definition format_symbols_raw :: "symbol list \<Rightarrow> string" where
  "format_symbols_raw ss = prepend_meta_raw (syntactic_comment (length ss)) (join_with nl (map symbol_line ss))"

section \<open>\<open>outline\<close>, \<open>imports\<close>, \<open>tree\<close>\<close>

definition format_outline :: "path \<Rightarrow> symbol list \<Rightarrow> string" where
  "format_outline p ss =
     prepend_meta_framed (syntactic_header (length ss))
       (''@@ '' @ path_display p @ '' @@'' @ concat (map (\<lambda>s. nl @ format_outline_symbol s 1) ss))"

definition format_outline_raw :: "symbol list \<Rightarrow> string" where
  "format_outline_raw ss =
     prepend_meta_raw (syntactic_comment (length ss)) (join_with nl (map (\<lambda>s. format_outline_symbol s 0) ss))"

definition format_imports_framed :: "path \<Rightarrow> import_info list \<Rightarrow> string" where
  "format_imports_framed p imports =
     prepend_meta_framed (syntactic_header (length imports))
       (''@@ '' @ path_display p @ '' @@'' @
        concat (map (\<lambda>i. nl @ ''  @@ '' @ path_display p @ '':'' @ dec (im_line i) @ '' '' @ im_kind i @ '' '' @
          im_source i @ '' @@'') imports))"

definition format_imports_raw :: "import_info list \<Rightarrow> string" where
  "format_imports_raw imports =
     prepend_meta_raw (syntactic_comment (length imports))
       (join_with nl (map (\<lambda>i. '':'' @ dec (im_line i) @ '' '' @ im_kind i @ '' '' @ im_source i) imports))"

fun format_tree_symbol :: "symbol \<Rightarrow> nat \<Rightarrow> string" where
  "format_tree_symbol (Symbol n k f l c e v ch d b sg) indent =
     spaces_of indent @ n @ '' ('' @ kind_display k @ '', '' @ visibility_display v @ '') :'' @ dec l @
     concat (map (\<lambda>child. nl @ format_tree_symbol child (indent + 1)) ch)"

fun count_symbols_recursive :: "symbol list \<Rightarrow> nat" where
  "count_symbols_recursive [] = 0"
| "count_symbols_recursive (Symbol n k f l c e v ch d b sg # ss) =
     1 + count_symbols_recursive ch + count_symbols_recursive ss"

definition total_symbols :: "file_symbols list \<Rightarrow> nat" where
  "total_symbols scan = sum_list (map (\<lambda>fs. count_symbols_recursive (fs_symbols fs)) scan)"

definition tree_file :: "file_symbols \<Rightarrow> string" where
  "tree_file fs =
     path_display (fs_file fs) @ concat (map (\<lambda>s. nl @ format_tree_symbol s 1) (fs_symbols fs))"

definition format_tree_framed :: "file_symbols list \<Rightarrow> path option \<Rightarrow> string" where
  "format_tree_framed scan scope =
     prepend_meta_framed (syntactic_header (total_symbols scan))
       ((case scope of Some p \<Rightarrow> ''@@ '' @ path_display p @ '' @@'' | None \<Rightarrow> ''@@ . @@'') @
        concat (map (\<lambda>fs. nl @ tree_file fs) scan))"

definition format_tree_raw :: "file_symbols list \<Rightarrow> string" where
  "format_tree_raw scan =
     prepend_meta_raw (syntactic_comment (total_symbols scan)) (join_with nl (map tree_file scan))"


section \<open>\<open>context\<close>\<close>

definition insert_line_marker :: "string \<Rightarrow> nat \<Rightarrow> nat \<Rightarrow> string" where
  "insert_line_marker body body_start_line target_line =
     join_with nl
       (map (\<lambda>(i, line). if i = target_line - body_start_line then line @ ''    // <- line '' @ dec target_line else line)
         (List.enumerate 0 (str_lines body)))"

definition format_context_framed :: "symbol option \<Rightarrow> nat \<Rightarrow> path \<Rightarrow> string" where
  "format_context_framed found target_line p =
     prepend_meta_framed (syntactic_header (case found of Some _ \<Rightarrow> 1 | None \<Rightarrow> 0))
       (case found of
          Some s \<Rightarrow>
            ''@@ '' @ symbol_line s @ '' (contains line '' @ dec target_line @ '') @@'' @
            (case sym_body s of
               Some body \<Rightarrow> nl @ insert_line_marker body (sym_line s) target_line
             | None \<Rightarrow> [])
        | None \<Rightarrow> ''@@ '' @ path_display p @ '':'' @ dec target_line @ '' (no enclosing symbol) @@'')"

definition format_context_raw :: "symbol option \<Rightarrow> nat \<Rightarrow> string" where
  "format_context_raw found target_line =
     prepend_meta_raw (syntactic_comment (case found of Some _ \<Rightarrow> 1 | None \<Rightarrow> 0))
       (case found of
          Some s \<Rightarrow>
            (case sym_body s of
               Some body \<Rightarrow> insert_line_marker body (sym_line s) target_line
             | None \<Rightarrow> symbol_line s)
        | None \<Rightarrow> [])"

section \<open>\<open>refs\<close> and \<open>callers\<close>\<close>

text \<open>The lines around a reference, from \<open>refs.rs\<close>.\<close>

definition get_context_lines :: "string \<Rightarrow> nat \<Rightarrow> nat \<Rightarrow> string list" where
  "get_context_lines source line around_lines =
     (if around_lines = 0 then []
      else
        (let ls = str_lines source; n = length ls in
         if line = 0 \<or> n < line then []
         else
           (let idx = line - 1; start = idx - around_lines; until = min (idx + around_lines + 1) n in
            take (until - start) (drop start ls))))"

text \<open>What follows the line of a reference: the lines around it when some are asked for and the file
  is known.\<close>

definition around :: "(path \<rightharpoonup> string) \<Rightarrow> nat \<Rightarrow> reference \<Rightarrow> string" where
  "around sources context_lines r =
     (case sources (ref_file r) of
        Some source \<Rightarrow> concat (map (\<lambda>line. nl @ line) (get_context_lines source (ref_line r) context_lines))
      | None \<Rightarrow> [])"

definition ref_context_text :: "(path \<rightharpoonup> string) \<Rightarrow> nat \<Rightarrow> reference \<Rightarrow> string" where
  "ref_context_text sources context_lines r =
     (if 0 < context_lines then around sources context_lines r
      else nl @ ''    '' @ trim_start (ref_context r))"

definition ref_position_text :: "reference \<Rightarrow> string" where
  "ref_position_text r = position_text (ref_file r) (ref_line r) (ref_column r)"

definition name_based_note :: "resolution \<Rightarrow> string option" where
  "name_based_note res = (case res of Resolved \<Rightarrow> None | _ \<Rightarrow> Some ''name-based matching; may include false positives'')"

text \<open>The last line: how many, and how they were found.\<close>

definition summary_line :: "nat \<Rightarrow> string \<Rightarrow> resolution \<Rightarrow> string" where
  "summary_line n noun res =
     nl @ dec n @ '' '' @ noun @ (if n = 1 then [] else ''s'') @ '' ('' @
     (case res of Resolved \<Rightarrow> ''resolved'' | _ \<Rightarrow> ''syntactic match '' @ em_dash @ '' may be incomplete'') @ '')''"

definition definition_header :: "symbol \<Rightarrow> string" where
  "definition_header s = ''@@ '' @ symbol_line s @ '' (definition) @@''"

text \<open>Entries on lines of their own, and the summary after an empty line, unless there are none.\<close>

definition with_summary :: "string list \<Rightarrow> string \<Rightarrow> string" where
  "with_summary entries summary =
     (let content = join_with nl entries in (if content \<noteq> [] then content @ nl else content) @ summary)"

definition format_refs_framed ::
  "symbol list \<Rightarrow> reference list \<Rightarrow> nat \<Rightarrow> (path \<rightharpoonup> string) \<Rightarrow> resolution \<Rightarrow> string" where
  "format_refs_framed definitions refs context_lines sources res =
     prepend_meta_framed (format_meta_header res BestEffort (length refs) (name_based_note res))
       (with_summary
         (map definition_header definitions @
          map (\<lambda>r. ''@@ '' @ ref_position_text r @ '' '' @ reference_kind_display (ref_kind r) @ '' @@'' @
            ref_context_text sources context_lines r) refs)
         (summary_line (length refs) ''reference'' res))"

definition format_refs_raw ::
  "symbol list \<Rightarrow> reference list \<Rightarrow> nat \<Rightarrow> (path \<rightharpoonup> string) \<Rightarrow> resolution \<Rightarrow> string" where
  "format_refs_raw definitions refs context_lines sources res =
     prepend_meta_raw (format_meta_comment res BestEffort (length refs))
       (join_with nl
         (map (\<lambda>d. symbol_line d @ '' (definition)'') definitions @
          map (\<lambda>r. ref_position_text r @ '' '' @ reference_kind_display (ref_kind r) @
            (if 0 < context_lines then around sources context_lines r else [])) refs))"

definition caller_info :: "reference \<Rightarrow> string" where
  "caller_info r = (case ref_caller r of Some name \<Rightarrow> '' (in '' @ name @ '')'' | None \<Rightarrow> [])"

definition format_callers_framed ::
  "symbol list \<Rightarrow> reference list \<Rightarrow> nat \<Rightarrow> (path \<rightharpoonup> string) \<Rightarrow> resolution \<Rightarrow> string" where
  "format_callers_framed definitions callers context_lines sources res =
     prepend_meta_framed (format_meta_header res BestEffort (length callers) (name_based_note res))
       (with_summary
         (map definition_header definitions @
          map (\<lambda>r. ''@@ '' @ ref_position_text r @ '' call'' @ caller_info r @ '' @@'' @
            ref_context_text sources context_lines r) callers)
         (summary_line (length callers) ''caller'' res))"

definition format_callers_raw :: "reference list \<Rightarrow> nat \<Rightarrow> (path \<rightharpoonup> string) \<Rightarrow> resolution \<Rightarrow> string" where
  "format_callers_raw callers context_lines sources res =
     prepend_meta_raw (format_meta_comment res BestEffort (length callers))
       (join_with nl
         (map (\<lambda>r. ref_position_text r @ '' call'' @ caller_info r @
            (if 0 < context_lines then around sources context_lines r else [])) callers))"

section \<open>\<open>deps\<close>, \<open>search\<close>, \<open>dead\<close>, \<open>diagnostics\<close>\<close>

definition deps_resolution :: "dependency list \<Rightarrow> resolution" where
  "deps_resolution deps = (if list_ex (\<lambda>d. dep_resolution d = Resolved) deps then Resolved else Syntactic)"

definition dep_text :: "dependency \<Rightarrow> string" where
  "dep_text d =
     dep_name d @ '' ('' @ dep_kind d @ '') -> '' @
     (case dep_defined_in d of Some p \<Rightarrow> p | None \<Rightarrow> ''<unresolved>'')"

definition format_deps_framed :: "symbol option \<Rightarrow> dependency list \<Rightarrow> string" where
  "format_deps_framed target deps =
     prepend_meta_framed (format_meta_header (deps_resolution deps) BestEffort (length deps) None)
       ((case target of Some s \<Rightarrow> format_frame_header s | None \<Rightarrow> []) @
        concat (map (\<lambda>d. nl @ ''  '' @ dep_text d) deps))"

definition format_deps_raw :: "dependency list \<Rightarrow> string" where
  "format_deps_raw deps =
     prepend_meta_raw (format_meta_comment (deps_resolution deps) BestEffort (length deps))
       (join_with nl (map dep_text deps))"

definition format_search_framed :: "search_match list \<Rightarrow> string" where
  "format_search_framed ms =
     prepend_meta_framed (syntactic_header (length ms))
       (join_with (nl @ nl)
         (map (\<lambda>m. ''@@ '' @ position_text (sm_file m) (sm_line m) (sm_column m) @ '' @@'' @ nl @ sm_matched_text m) ms))"

definition format_search_raw :: "search_match list \<Rightarrow> string" where
  "format_search_raw ms =
     prepend_meta_raw (syntactic_comment (length ms)) (join_with (nl @ nl) (map sm_matched_text ms))"

definition dead_note :: "bool \<Rightarrow> string option" where
  "dead_note has_public =
     (if has_public
      then Some ''structural analysis; public symbols may have external callers not visible to cq'' else None)"

definition format_dead_framed :: "symbol list \<Rightarrow> bool \<Rightarrow> string" where
  "format_dead_framed ss has_public =
     prepend_meta_framed (format_meta_header Syntactic BestEffort (length ss) (dead_note has_public))
       (join_with nl
         (map (\<lambda>s. ''@@ '' @ symbol_line s @ (if sym_visibility s = Public then '' (pub)'' else []) @ '' '' @
            em_dash @ '' zero references @@'') ss))"

definition format_dead_raw :: "symbol list \<Rightarrow> bool \<Rightarrow> string" where
  "format_dead_raw ss has_public =
     prepend_meta_raw (format_meta_comment Syntactic BestEffort (length ss)) (join_with nl (map symbol_line ss))"

definition format_severity :: "diagnostic_severity \<Rightarrow> string" where
  "format_severity s =
     (case s of
        SevError \<Rightarrow> ''error'' | SevWarning \<Rightarrow> ''warning'' | SevInformation \<Rightarrow> ''info'' | SevHint \<Rightarrow> ''hint'')"

definition format_source :: "diagnostic_source \<Rightarrow> string" where
  "format_source s = (case s of SrcSyntax \<Rightarrow> ''syntax'' | SrcLsp \<Rightarrow> ''lsp'')"

definition diagnostic_position :: "diagnostic \<Rightarrow> string" where
  "diagnostic_position d = position_text (dg_file d) (dg_line d) (dg_column d)"

definition format_diagnostics_framed :: "diagnostic list \<Rightarrow> string" where
  "format_diagnostics_framed ds =
     prepend_meta_framed (syntactic_header (length ds))
       (join_with nl
         (map (\<lambda>d. ''@@ '' @ diagnostic_position d @ '' '' @ format_severity (dg_severity d) @ '' '' @
            format_source (dg_source d) @ '' '' @ dg_message d @ '' @@'') ds))"

definition format_diagnostics_raw :: "diagnostic list \<Rightarrow> string" where
  "format_diagnostics_raw ds =
     prepend_meta_raw (syntactic_comment (length ds))
       (join_with nl
         (map (\<lambda>d. diagnostic_position d @ '' '' @ format_severity (dg_severity d) @ '' '' @ dg_message d) ds))"


section \<open>\<open>callchain\<close>, \<open>hierarchy\<close>, \<open>rename\<close>, \<open>hover\<close>\<close>

fun count_callchain_nodes :: "call_chain_node \<Rightarrow> nat" where
  "count_callchain_nodes (CallChainNode n k f l c callers) = 1 + sum_list (map count_callchain_nodes callers)"

fun format_callchain_framed :: "call_chain_node \<Rightarrow> nat \<Rightarrow> string" where
  "format_callchain_framed (CallChainNode n k f l c callers) indent =
     spaces_of indent @ (if 0 < indent then arrow_left @ '' '' else []) @ n @ '' ('' @ kind_display k @ '') '' @
     path_display f @ '':'' @ dec l @
     concat (map (\<lambda>caller. nl @ format_callchain_framed caller (indent + 1)) callers)"

definition callchain_note :: string where
  "callchain_note = ''recursive caller analysis; may miss indirect calls''"

definition callchain_framed :: "call_chain_node \<Rightarrow> string" where
  "callchain_framed root =
     prepend_meta_framed (format_meta_header Syntactic BestEffort (count_callchain_nodes root) (Some callchain_note))
       (format_callchain_framed root 0)"

definition callchain_raw :: "call_chain_node \<Rightarrow> string" where
  "callchain_raw root =
     prepend_meta_raw (format_meta_comment Syntactic BestEffort (count_callchain_nodes root))
       (format_callchain_framed root 0)"

definition type_node_text :: "type_node \<Rightarrow> string" where
  "type_node_text t =
     tn_name t @ '' ('' @ kind_display (tn_kind t) @ '') '' @ path_display (tn_file t) @ '':'' @ dec (tn_line t)"

definition format_hierarchy_framed :: "type_hierarchy \<Rightarrow> string" where
  "format_hierarchy_framed h =
     ''@@ '' @ type_node_text (th_target h) @ '' @@'' @
     (if th_supertypes h \<noteq> []
      then nl @ nl @ ''Supertypes:'' @
        concat (map (\<lambda>t. nl @ ''  '' @ arrow_up @ '' '' @ type_node_text t) (th_supertypes h)) else []) @
     (if th_subtypes h \<noteq> []
      then nl @ nl @ ''Subtypes:'' @
        concat (map (\<lambda>t. nl @ ''  '' @ arrow_down @ '' '' @ type_node_text t) (th_subtypes h)) else [])"

definition hierarchy_total :: "type_hierarchy \<Rightarrow> nat" where
  "hierarchy_total h = 1 + length (th_supertypes h) + length (th_subtypes h)"

definition hierarchy_framed :: "type_hierarchy \<Rightarrow> string" where
  "hierarchy_framed h =
     prepend_meta_framed (format_meta_header Syntactic BestEffort (hierarchy_total h) None) (format_hierarchy_framed h)"

definition hierarchy_raw :: "type_hierarchy \<Rightarrow> string" where
  "hierarchy_raw h =
     prepend_meta_raw (format_meta_comment Syntactic BestEffort (hierarchy_total h)) (format_hierarchy_framed h)"

text \<open>The edits of a preview; the file is named when it differs from that of the edit before.\<close>

fun preview_edits :: "string \<Rightarrow> path option \<Rightarrow> text_edit list \<Rightarrow> string" where
  "preview_edits old_name current_file [] = []"
| "preview_edits old_name current_file (e # es) =
     (if current_file \<noteq> Some (te_file e)
      then nl @ nl @ ''--- '' @ path_display (te_file e) @ nl @ ''+++ '' @ path_display (te_file e) else []) @
     nl @ ''@@ -'' @ dec (te_line e) @ '':'' @ dec (te_column e) @ '' @@'' @ nl @ ''-'' @ old_name @ nl @ ''+'' @
     te_new_text e @
     preview_edits old_name (Some (te_file e)) es"

definition format_rename_framed :: "rename_result \<Rightarrow> string" where
  "format_rename_framed r =
     (if rn_applied r
      then ''Renamed '' @ rn_old_name r @ '' '' @ arrow_right @ '' '' @ rn_new_name r @ '' across '' @
        dec (rn_files_affected r) @ '' files ('' @ dec (length (rn_edits r)) @ '' edits) ['' @
        resolution_display (rn_resolution r) @ '']''
      else ''Rename '' @ rn_old_name r @ '' '' @ arrow_right @ '' '' @ rn_new_name r @ '': '' @
        dec (length (rn_edits r)) @ '' edits across '' @ dec (rn_files_affected r) @ '' files ['' @
        resolution_display (rn_resolution r) @ '' '' @ em_dash @ '' preview only]'' @ nl @
        ''Run with --apply or use a higher precision tier (daemon) to apply.'' @
        preview_edits (rn_old_name r) None (rn_edits r))"

definition rename_note :: "resolution \<Rightarrow> string option" where
  "rename_note res =
     (if res = Syntactic then Some ''syntactic name matching; may include false positives'' else None)"

definition rename_framed :: "rename_result \<Rightarrow> string" where
  "rename_framed r =
     prepend_meta_framed
       (format_meta_header (rn_resolution r) BestEffort (length (rn_edits r)) (rename_note (rn_resolution r)))
       (format_rename_framed r)"

definition rename_raw :: "rename_result \<Rightarrow> string" where
  "rename_raw r =
     prepend_meta_raw (format_meta_comment (rn_resolution r) BestEffort (length (rn_edits r)))
       (format_rename_framed r)"

definition hover_total :: "hover_info \<Rightarrow> nat" where
  "hover_total info = length (filter (\<lambda>f. f \<noteq> None) [hi_type_info info, hi_signature info, hi_docs info])"

definition hover_section :: "hover_info \<Rightarrow> string \<Rightarrow> string option \<Rightarrow> string list" where
  "hover_section info title found =
     (case found of
        Some t \<Rightarrow>
          [''@@ '' @ position_text (hi_file info) (hi_line info) (hi_column info) @ '' '' @ title @ '' @@'' @ nl @ t]
      | None \<Rightarrow> [])"

definition format_hover_framed :: "hover_info \<Rightarrow> string" where
  "format_hover_framed info =
     (let meta = syntactic_header (hover_total info);
          content = join_with (nl @ nl)
            (hover_section info ''type'' (hi_type_info info) @ hover_section info ''signature'' (hi_signature info) @
             hover_section info ''docs'' (hi_docs info)) in
      if content = [] then meta else meta @ nl @ nl @ content)"

definition format_hover_raw :: "hover_info \<Rightarrow> string" where
  "format_hover_raw info =
     (let meta = syntactic_comment (hover_total info);
          content = (case hi_type_info info of
              Some t \<Rightarrow> t
            | None \<Rightarrow>
                (case hi_signature info of
                   Some sig \<Rightarrow> sig
                 | None \<Rightarrow> (case hi_docs info of Some doc \<Rightarrow> doc | None \<Rightarrow> []))) in
      if content = [] then meta else meta @ nl @ content)"



section \<open>The meta line\<close>

lemma digits_prefix:
  assumes "list_all is_ascii_digit a" "list_all is_ascii_digit b" "\<not> is_ascii_digit x" "\<not> is_ascii_digit y"
    "a @ x # xs = b @ y # ys"
  shows "a = b \<and> x # xs = y # ys"
proof -
  have "takeWhile is_ascii_digit (a @ x # xs) = a" "takeWhile is_ascii_digit (b @ y # ys) = b"
    using assms(1-4) by (simp_all add: takeWhile_append list_all_iff)
  with assms(5) have "a = b" by simp
  with assms(5) show ?thesis by simp
qed

lemma dec_inject [simp]: "dec m = dec n \<longleftrightarrow> m = n"
  using digits_val_dec by metis

lemma space_no_digit [simp]: "\<not> is_ascii_digit CHR '' ''" "\<not> is_ascii_digit CHR '':''"
  by (simp_all add: is_ascii_digit_def byte_def)

lemma dec_space_inject: "dec m @ CHR '' '' # xs = dec n @ CHR '' '' # ys \<longleftrightarrow> m = n \<and> xs = ys"
  using digits_prefix[OF dec_digits dec_digits space_no_digit(1) space_no_digit(1), of m xs n ys] by auto

lemma note_inject:
  "(case nt of Some n \<Rightarrow> '' note='' @ quote @ n @ quote | None \<Rightarrow> []) @ '' @@'' =
     (case nt' of Some n \<Rightarrow> '' note='' @ quote @ n @ quote | None \<Rightarrow> []) @ '' @@'' \<longleftrightarrow> nt = nt'"
  by (auto split: option.splits)

lemma total_inject:
  "dec m @ (case nt of Some n \<Rightarrow> '' note='' @ quote @ n @ quote | None \<Rightarrow> []) @ '' @@'' =
     dec k @ (case nt' of Some n \<Rightarrow> '' note='' @ quote @ n @ quote | None \<Rightarrow> []) @ '' @@'' \<longleftrightarrow>
     m = k \<and> nt = nt'"
proof -
  define rest where "rest = (\<lambda>nt. tl ((case nt of Some n \<Rightarrow> '' note='' @ quote @ n @ quote | None \<Rightarrow> []) @ '' @@''))"
  have r: "(case nt of Some n \<Rightarrow> '' note='' @ quote @ n @ quote | None \<Rightarrow> []) @ '' @@'' = CHR '' '' # rest nt" for nt :: "string option"
    by (simp add: rest_def split: option.split)
  from note_inject[of nt nt'] show ?thesis by (simp only: r dec_space_inject list.inject simp_thms)
qed

text \<open>
  The meta line of framed output determines everything it stands for: two meta lines are equal
  only when quality, completeness, number of results and note are, whatever bytes the notes hold.
\<close>
theorem meta_header_determines:
  "format_meta_header res compl n note = format_meta_header res' compl' n' note' \<longleftrightarrow>
     (res, compl, n, note) = (res', compl', n', note')"
  by (cases res; cases res'; cases compl; cases compl') (simp_all add: format_meta_header_def total_inject[simplified])

section \<open>Frames are read back\<close>

text \<open>The last word of a text and what stands before the space in front of it.\<close>

definition split_last_word :: "string \<Rightarrow> string \<times> string" where
  "split_last_word t =
     (let w = rev (takeWhile (\<lambda>c. c \<noteq> CHR '' '') (rev t)) in (take (length t - length w - 1) t, w))"

text \<open>Location, kind and name of a frame.\<close>

definition frame_fields :: "string \<Rightarrow> string \<times> string \<times> string" where
  "frame_fields h =
     (case split_last_word (take (length h - 6) (drop 3 h)) of
        (rest, name) \<Rightarrow> (case split_last_word rest of (loc, kind) \<Rightarrow> (loc, kind, name)))"

lemma split_last_word_append [simp]:
  assumes "CHR '' '' \<notin> set w"
  shows "split_last_word (p @ CHR '' '' # w) = (p, w)"
proof -
  have "takeWhile (\<lambda>c. c \<noteq> CHR '' '') (rev w @ CHR '' '' # rev p) = rev w"
    using assms by (simp add: takeWhile_append takeWhile_eq_all_conv[THEN iffD2])
  then show ?thesis by (simp add: split_last_word_def)
qed

lemma kind_one_word [simp]: "CHR '' '' \<notin> set (kind_display k)"
  by (cases k) simp_all

lemma frame_fields_header:
  assumes "CHR '' '' \<notin> set (sym_name s)"
  shows "frame_fields (format_frame_header s) =
    (position_text (sym_file s) (sym_line s) (sym_column s), kind_display (sym_kind s), sym_name s)"
proof -
  let ?loc = "position_text (sym_file s) (sym_line s) (sym_column s)"
  have "take (length (format_frame_header s) - 6) (drop 3 (format_frame_header s)) = symbol_line s"
    by (simp add: format_frame_header_def)
  moreover have "symbol_line s = (?loc @ CHR '' '' # kind_display (sym_kind s)) @ CHR '' '' # sym_name s"
    by (simp add: symbol_line_def)
  ultimately show ?thesis
    by (simp only: frame_fields_def prod.case split_last_word_append[OF assms] split_last_word_append[OF kind_one_word])
qed

lemma hover_location_position:
  assumes "path_display p \<noteq> []" "0 < line" "line \<le> usize_max" "column \<le> usize_max"
  shows "hover_location (position_text p line column) = Some (path_display p, line, column)"
proof -
  have "position_text p line column = (path_display p @ CHR '':'' # dec line) @ CHR '':'' # dec column"
    by (simp add: position_text_def)
  then show ?thesis
    using assms unfolding hover_location_def by (simp only: rsplit_colon_last[OF dec_no_colon]) simp
qed

text \<open>
  C33: The frame of a symbol leads back to it: cut at its last two spaces it gives the symbol's kind
  and name and a location that \<open>hover\<close> reads as the symbol's file, line and column. The name must
  hold no space; the file name may hold spaces and colons.
\<close>
theorem frame_leads_to_symbol:
  assumes "CHR '' '' \<notin> set (sym_name s)" "path_display (sym_file s) \<noteq> []"
    "0 < sym_line s" "sym_line s \<le> usize_max" "sym_column s \<le> usize_max"
  shows "(case frame_fields (format_frame_header s) of (loc, kind, name) \<Rightarrow>
      hover_location loc = Some (path_display (sym_file s), sym_line s, sym_column s) \<and>
      kind = kind_display (sym_kind s) \<and> name = sym_name s)"
  using hover_location_position[OF assms(2-5)] by (simp add: frame_fields_header[OF assms(1)])

theorem frame_leads_to_symbol_witness:
  "(case frame_fields ''@@ a b:c.rs:12:3 function go @@'' of (loc, kind, name) \<Rightarrow>
      hover_location loc = Some (''a b:c.rs'', 12, 3) \<and> kind = ''function'' \<and> name = ''go'')"
proof -
  let ?s = "Symbol ''go'' Function [Normal ''a b:c.rs''] 12 3 14 Public [] None None None"
  have d: "dec 12 = ''12''" "dec 3 = ''3''" by code_simp+
  have "format_frame_header ?s = ''@@ a b:c.rs:12:3 function go @@''"
    by (simp add: format_frame_header_def symbol_line_def position_text_def d)
  moreover have "(12 :: nat) \<le> usize_max" "(3 :: nat) \<le> usize_max" by (simp_all add: usize_max_def)
  ultimately show ?thesis using frame_leads_to_symbol[of ?s] by simp
qed

text \<open>\<open>search\<close> prints rows from 0: the place of a match on the first line of a file is one that
  \<open>hover\<close> rejects.\<close>

lemma search_place_rejected:
  assumes "path_display p \<noteq> []"
  shows "hover_location (position_text p 0 column) = None"
proof -
  have "position_text p 0 column = (path_display p @ CHR '':'' # dec 0) @ CHR '':'' # dec column"
    by (simp add: position_text_def)
  then show ?thesis
    using assms parse_dec[of 0] unfolding hover_location_def
    by (simp only: rsplit_colon_last[OF dec_no_colon]) (simp add: two_part_def split: option.split)
qed


section \<open>Listings\<close>

text \<open>The symbols of a list in the order of the listing, each with its depth.\<close>

fun with_depth :: "nat \<Rightarrow> symbol list \<Rightarrow> (nat \<times> symbol) list" where
  "with_depth d [] = []"
| "with_depth d (Symbol n k f l c e v ch b1 b2 b3 # ss) =
     (d, Symbol n k f l c e v ch b1 b2 b3) # with_depth (d + 1) ch @ with_depth d ss"

lemma with_depth_preorder [simp]: "map snd (with_depth d ss) = preorder ss"
  by (induction d ss rule: with_depth.induct) simp_all

lemma with_depth_append: "with_depth d (xs @ ys) = with_depth d xs @ with_depth d ys"
  by (induction d xs rule: with_depth.induct) simp_all

lemma with_depth_concat: "with_depth d ss = concat (map (\<lambda>s. with_depth d [s]) ss)"
proof (induction ss)
  case (Cons s ss)
  then show ?case using with_depth_append[of d "[s]" ss] by simp
qed simp

lemma join_with_Cons: "join_with sep (x # xs) = x @ concat (map (\<lambda>y. sep @ y) xs)"
  by (induction xs arbitrary: x) simp_all

definition entry_lines :: "nat \<Rightarrow> symbol list \<Rightarrow> string list" where
  "entry_lines d ss = map (\<lambda>(d, s). format_outline_entry s d) (with_depth d ss)"

lemma entry_lines_concat: "entry_lines d ss = concat (map (\<lambda>s. entry_lines d [s]) ss)"
  by (simp add: entry_lines_def with_depth_concat[of d ss] map_concat comp_def)

lemma entry_lines_Symbol:
  "entry_lines d [Symbol n k f l c e v ch b1 b2 b3] =
     format_outline_entry (Symbol n k f l c e v ch b1 b2 b3) d # entry_lines (d + 1) ch"
  by (simp add: entry_lines_def)

lemma concat_lines: "concat (map (\<lambda>y. nl @ y) (concat (map g ss))) = concat (map (\<lambda>s. concat (map (\<lambda>y. nl @ y) (g s))) ss)"
  by (induction ss) simp_all

lemma outline_symbol_lines:
  "nl @ format_outline_symbol s d = concat (map (\<lambda>y. nl @ y) (entry_lines d [s]))"
proof (induction s arbitrary: d)
  case (Symbol n k f l c e v ch b1 b2 b3)
  have "concat (map (\<lambda>child. nl @ format_outline_symbol child (d + 1)) ch) =
      concat (map (\<lambda>y. nl @ y) (entry_lines (d + 1) ch))"
    unfolding entry_lines_concat[of "d + 1" ch] concat_lines using Symbol.IH
    by (intro arg_cong[of _ _ concat] map_cong refl) blast
  then show ?case by (simp add: entry_lines_Symbol)
qed

lemma outline_symbols_lines:
  "concat (map (\<lambda>s. nl @ format_outline_symbol s d) ss) = concat (map (\<lambda>y. nl @ y) (entry_lines d ss))"
  unfolding entry_lines_concat[of d ss] concat_lines outline_symbol_lines ..

lemma tree_symbol_is_outline: "format_tree_symbol s d = format_outline_symbol s d"
proof (induction s arbitrary: d)
  case (Symbol n k f l c e v ch b1 b2 b3)
  then have "map (\<lambda>child. nl @ format_tree_symbol child (d + 1)) ch = map (\<lambda>child. nl @ format_outline_symbol child (d + 1)) ch"
    by (intro map_cong) auto
  then show ?case by (simp add: format_outline_entry_def del: map_eq_conv)
qed

lemma count_symbols_preorder: "count_symbols_recursive ss = length (preorder ss)"
  by (induction ss rule: count_symbols_recursive.induct) simp_all

lemma total_symbols_preorder: "total_symbols scan = length (preorder (concat (map fs_symbols scan)))"
  by (simp add: total_symbols_def count_symbols_preorder preorder_concat length_concat comp_def)

lemma tree_file_lines: "tree_file fs = join_with nl (path_display (fs_file fs) # entry_lines 1 (fs_symbols fs))"
  by (simp only: tree_file_def tree_symbol_is_outline outline_symbols_lines join_with_Cons)

lemma join_with_concat:
  assumes "\<And>x. x \<in> set xs \<Longrightarrow> f x \<noteq> []"
  shows "join_with sep (map (\<lambda>x. join_with sep (f x)) xs) = join_with sep (concat (map f xs))"
proof -
  have app: "join_with sep (a @ b) = join_with sep a @ sep @ join_with sep b" if "a \<noteq> []" "b \<noteq> []" for a b
  proof -
    from that obtain x a' y b' where "a = x # a'" "b = y # b'" by (meson list.exhaust)
    then show ?thesis by (simp add: join_with_Cons)
  qed
  from assms show ?thesis
  proof (induction xs)
    case (Cons x xs)
    show ?case
    proof (cases xs)
      case (Cons y ys)
      with Cons.prems have "concat (map f xs) \<noteq> []" by auto
      with Cons Cons.IH Cons.prems app[of "f x" "concat (map f xs)"] show ?thesis by simp
    qed simp
  qed simp
qed

text \<open>
  C32: The raw listing of \<open>tree\<close> has one line for each file and then one for each symbol of the file at
  any depth, in the order of the preorder and indented by its depth, and the number in its first
  line is the number of symbols of the index.
\<close>
theorem tree_lists_every_symbol:
  "format_tree_raw scan =
     prepend_meta_raw (syntactic_comment (length (symbols (from_scan scan))))
       (join_with nl
         (concat (map (\<lambda>fs. path_display (fs_file fs) #
            map (\<lambda>(d, s). format_outline_entry s d) (with_depth 1 (fs_symbols fs))) scan))) \<and>
   concat (map (\<lambda>fs. map snd (with_depth 1 (fs_symbols fs))) scan) = symbols (from_scan scan)"
proof
  have "map tree_file scan =
      map (\<lambda>fs. join_with nl (path_display (fs_file fs) # entry_lines 1 (fs_symbols fs))) scan"
    by (simp add: tree_file_lines)
  then show "format_tree_raw scan =
     prepend_meta_raw (syntactic_comment (length (symbols (from_scan scan))))
       (join_with nl
         (concat (map (\<lambda>fs. path_display (fs_file fs) #
            map (\<lambda>(d, s). format_outline_entry s d) (with_depth 1 (fs_symbols fs))) scan)))"
    by (simp only: format_tree_raw_def total_symbols_preorder from_scan_symbols join_with_concat[of scan]
        list.distinct simp_thms entry_lines_def)
  show "concat (map (\<lambda>fs. map snd (with_depth 1 (fs_symbols fs))) scan) = symbols (from_scan scan)"
    by (simp add: from_scan_symbols preorder_concat comp_def)
qed

section \<open>Lines around a reference\<close>

lemma take_drop_nths: "take k (drop i xs) = nths xs {i ..< i + k}"
proof (induction i arbitrary: xs)
  case 0
  then show ?case by (simp add: atLeast0LessThan)
next
  case (Suc i)
  have "{j. Suc j \<in> {Suc i ..< Suc i + k}} = {i ..< i + k}" by auto
  with Suc show ?case by (cases xs) (simp_all add: nths_Cons)
qed

text \<open>
  C35: The lines shown around a reference are exactly those whose number is at most the given
  distance from it, cut off at both ends of the file; a line number outside the file gives none.
\<close>
theorem context_lines_exact:
  "get_context_lines source line distance =
     (if distance = 0 \<or> line = 0 \<or> length (str_lines source) < line then []
      else nths (str_lines source) {i. line \<le> i + 1 + distance \<and> i + 1 \<le> line + distance})"
proof -
  let ?n = "length (str_lines source)"
  have "nths (str_lines source) {line - 1 - distance ..< line - 1 - distance + (min (line - 1 + distance + 1) ?n - (line - 1 - distance))} =
      nths (str_lines source) {i. line \<le> i + 1 + distance \<and> i + 1 \<le> line + distance}" if "0 < line" "line \<le> ?n"
    unfolding nths_def using that
    by (intro arg_cong[of _ _ "map fst"] filter_cong refl) (auto dest!: set_zip_rightD)
  then show ?thesis by (auto simp: get_context_lines_def Let_def take_drop_nths)
qed

section \<open>What the texts say of the quality\<close>

text \<open>The note and the last line of \<open>refs\<close> and \<open>callers\<close> call results of a language server name-based
  and incomplete: only \<open>Resolved\<close> is told apart.\<close>

lemma semantic_called_name_based:
  "name_based_note Semantic = name_based_note Syntactic \<and> summary_line n noun Semantic = summary_line n noun Syntactic"
  by (simp add: name_based_note_def summary_line_def)

text \<open>The marker of \<open>context\<close> changes one line.\<close>

lemma insert_line_marker_update:
  "insert_line_marker body start line =
     join_with nl ((str_lines body)[line - start := (str_lines body ! (line - start)) @ ''    // <- line '' @ dec line])"
  unfolding insert_line_marker_def
  by (intro arg_cong[of _ _ "join_with nl"] nth_equalityI) (auto simp: nth_list_update nth_enumerate_eq)

end
