(* ===== verification/Output_Json.thy ===== *)
theory Output_Json
  imports Output
begin

text \<open>
  The JSON output of the command line: the payload structures of \<open>output.rs\<close> and of codequery-core
  as serde's derived code turns them into JSON (\<open>skip_serializing_if\<close>, \<open>rename_all\<close>, \<open>flatten\<close>), and
  the choice of the output mode. An object keeps the order of its fields and may hold a key twice.
  serde refuses a path that is not UTF-8: then there is no value (None) and the text is empty.
  Writing a value as text, compact or indented, belongs to serde_json and is a parameter.
\<close>

section \<open>Objects and lists\<close>

fun obj_fields :: "(string \<times> json option) list \<Rightarrow> (string \<times> json) list option" where
  "obj_fields [] = Some []"
| "obj_fields ((k, v) # fs) = Option.bind v (\<lambda>j. map_option ((#) (k, j)) (obj_fields fs))"

definition jobj :: "(string \<times> json option) list \<Rightarrow> json option" where
  "jobj fs = map_option JObj (obj_fields fs)"

fun all_values :: "json option list \<Rightarrow> json list option" where
  "all_values [] = Some []"
| "all_values (v # vs) = Option.bind v (\<lambda>j. map_option ((#) j) (all_values vs))"

definition jarr :: "json option list \<Rightarrow> json option" where
  "jarr vs = map_option JArr (all_values vs)"

definition jstr :: "string \<Rightarrow> json option" where
  "jstr s = Some (JStr s)"

definition jnum :: "nat \<Rightarrow> json option" where
  "jnum n = Some (JInt (int n))"

definition path_json :: "path \<Rightarrow> json option" where
  "path_json p = (if utf8_valid (path_display p) then Some (JStr (path_display p)) else None)"

text \<open>A field that is skipped when there is nothing to write.\<close>

definition opt_field :: "string \<Rightarrow> ('a \<Rightarrow> json option) \<Rightarrow> 'a option \<Rightarrow> (string \<times> json option) list" where
  "opt_field k f v = (case v of Some a \<Rightarrow> [(k, f a)] | None \<Rightarrow> [])"

definition list_field :: "string \<Rightarrow> ('a \<Rightarrow> json option) \<Rightarrow> 'a list \<Rightarrow> (string \<times> json option) list" where
  "list_field k f vs = (if vs = [] then [] else [(k, jarr (map f vs))])"

section \<open>Core data\<close>

definition kind_json :: "symbol_kind \<Rightarrow> json option" where
  "kind_json k = jstr (kind_display k)"

fun symbol_json :: "symbol \<Rightarrow> json option" where
  "symbol_json (Symbol n k f l c e v ch d b sg) =
     jobj ([(''name'', jstr n), (''kind'', kind_json k), (''file'', path_json f), (''line'', jnum l),
        (''column'', jnum c), (''end_line'', jnum e), (''visibility'', jstr (visibility_display v)),
        (''children'', jarr (map symbol_json ch))] @
       opt_field ''doc'' jstr d @ opt_field ''body'' jstr b @ opt_field ''signature'' jstr sg)"

definition reference_json :: "reference \<Rightarrow> json option" where
  "reference_json r =
     jobj ([(''file'', path_json (ref_file r)), (''line'', jnum (ref_line r)), (''column'', jnum (ref_column r)),
        (''kind'', jstr (reference_kind_display (ref_kind r))), (''context'', jstr (ref_context r))] @
       opt_field ''caller'' jstr (ref_caller r) @ opt_field ''caller_kind'' kind_json (ref_caller_kind r))"

fun call_chain_json :: "call_chain_node \<Rightarrow> json option" where
  "call_chain_json (CallChainNode n k f l c callers) =
     jobj ([(''name'', jstr n), (''kind'', kind_json k), (''file'', path_json f), (''line'', jnum l),
        (''column'', jnum c)] @
       (if callers = [] then [] else [(''callers'', jarr (map call_chain_json callers))]))"

definition severity_json :: "diagnostic_severity \<Rightarrow> json option" where
  "severity_json s =
     jstr (case s of
        SevError \<Rightarrow> ''error'' | SevWarning \<Rightarrow> ''warning'' | SevInformation \<Rightarrow> ''information'' | SevHint \<Rightarrow> ''hint'')"

definition diagnostic_source_json :: "diagnostic_source \<Rightarrow> json option" where
  "diagnostic_source_json s = jstr (case s of SrcSyntax \<Rightarrow> ''syntax'' | SrcLsp \<Rightarrow> ''lsp'')"

definition diagnostic_json :: "diagnostic \<Rightarrow> json option" where
  "diagnostic_json d =
     jobj ([(''file'', path_json (dg_file d)), (''line'', jnum (dg_line d)), (''column'', jnum (dg_column d)),
        (''end_line'', jnum (dg_end_line d)), (''end_column'', jnum (dg_end_column d)),
        (''severity'', severity_json (dg_severity d)), (''message'', jstr (dg_message d)),
        (''source'', diagnostic_source_json (dg_source d))] @
       opt_field ''code'' jstr (dg_code d))"

definition type_node_json :: "type_node \<Rightarrow> json option" where
  "type_node_json t =
     jobj [(''name'', jstr (tn_name t)), (''kind'', kind_json (tn_kind t)), (''file'', path_json (tn_file t)),
       (''line'', jnum (tn_line t)), (''column'', jnum (tn_column t))]"

definition type_hierarchy_fields :: "type_hierarchy \<Rightarrow> (string \<times> json option) list" where
  "type_hierarchy_fields h =
     [(''target'', type_node_json (th_target h))] @ list_field ''supertypes'' type_node_json (th_supertypes h) @
     list_field ''subtypes'' type_node_json (th_subtypes h)"

definition hover_info_json :: "hover_info \<Rightarrow> json option" where
  "hover_info_json i =
     jobj (opt_field ''type_info'' jstr (hi_type_info i) @ opt_field ''docs'' jstr (hi_docs i) @
       opt_field ''signature'' jstr (hi_signature i) @
       [(''file'', path_json (hi_file i)), (''line'', jnum (hi_line i)), (''column'', jnum (hi_column i))])"

definition text_edit_json :: "text_edit \<Rightarrow> json option" where
  "text_edit_json e =
     jobj [(''file'', path_json (te_file e)), (''line'', jnum (te_line e)), (''column'', jnum (te_column e)),
       (''end_line'', jnum (te_end_line e)), (''end_column'', jnum (te_end_column e)),
       (''new_text'', jstr (te_new_text e))]"

definition resolution_json :: "resolution \<Rightarrow> json option" where
  "resolution_json res = jstr (resolution_display res)"

definition rename_result_fields :: "rename_result \<Rightarrow> (string \<times> json option) list" where
  "rename_result_fields r =
     [(''old_name'', jstr (rn_old_name r)), (''new_name'', jstr (rn_new_name r)),
      (''edits'', jarr (map text_edit_json (rn_edits r))), (''files_affected'', jnum (rn_files_affected r)),
      (''applied'', Some (JBool (rn_applied r))), (''resolution'', resolution_json (rn_resolution r))]"

definition import_json :: "import_info \<Rightarrow> json option" where
  "import_json i =
     jobj [(''source'', jstr (im_source i)), (''kind'', jstr (im_kind i)), (''line'', jnum (im_line i)),
       (''external'', Some (JBool (im_external i)))]"

definition dependency_json :: "dependency \<Rightarrow> json option" where
  "dependency_json d =
     jobj [(''name'', jstr (dep_name d)), (''kind'', jstr (dep_kind d)),
       (''defined_in'', (case dep_defined_in d of Some p \<Rightarrow> jstr p | None \<Rightarrow> Some JNull)),
       (''resolution'', resolution_json (dep_resolution d))]"

definition search_match_json :: "search_match \<Rightarrow> json option" where
  "search_match_json m =
     jobj [(''file'', jstr (path_display (sm_file m))), (''line'', jnum (sm_line m)), (''column'', jnum (sm_column m)),
       (''end_line'', jnum (sm_end_line m)), (''end_column'', jnum (sm_end_column m)),
       (''matched_text'', jstr (sm_matched_text m))]"

text \<open>\<open>QueryResult\<close>: the payload's fields follow in the same object.\<close>

definition query_result ::
  "resolution \<Rightarrow> completeness \<Rightarrow> string option \<Rightarrow> (string \<times> json option) list \<Rightarrow> json option" where
  "query_result res compl nt data =
     jobj ([(''resolution'', resolution_json res), (''completeness'', jstr (completeness_display compl))] @
       opt_field ''note'' jstr nt @ data)"

definition serialize_json :: "(bool \<Rightarrow> json \<Rightarrow> string) \<Rightarrow> bool \<Rightarrow> bool \<Rightarrow> json option \<Rightarrow> string" where
  "serialize_json render tty force_pretty v = (case v of Some j \<Rightarrow> render (force_pretty \<or> tty) j | None \<Rightarrow> [])"

section \<open>The results of each command\<close>

definition symbols_field :: "string \<Rightarrow> symbol list \<Rightarrow> string \<times> json option" where
  "symbols_field k ss = (k, jarr (map symbol_json ss))"

definition def_json :: "symbol list \<Rightarrow> string \<Rightarrow> json option" where
  "def_json ss symbol_name =
     query_result Syntactic Exhaustive None
       [(''symbol'', jstr symbol_name), symbols_field ''definitions'' ss, (''total'', jnum (length ss))]"

definition body_json :: "symbol list \<Rightarrow> string \<Rightarrow> json option" where
  "body_json ss symbol_name =
     query_result Syntactic Exhaustive None
       [(''symbol'', jstr symbol_name), symbols_field ''definitions'' ss, (''total'', jnum (length ss))]"

definition sig_json :: "symbol list \<Rightarrow> string \<Rightarrow> json option" where
  "sig_json ss symbol_name =
     query_result Syntactic Exhaustive None
       [(''symbol'', jstr symbol_name), symbols_field ''signatures'' ss, (''total'', jnum (length ss))]"

definition symbols_json :: "symbol list \<Rightarrow> json option" where
  "symbols_json ss =
     query_result Syntactic Exhaustive None [symbols_field ''symbols'' ss, (''total'', jnum (length ss))]"

definition outline_json :: "path \<Rightarrow> symbol list \<Rightarrow> json option" where
  "outline_json p ss =
     query_result Syntactic Exhaustive None [(''file'', jstr (path_display p)), symbols_field ''symbols'' ss]"

definition imports_json :: "path \<Rightarrow> import_info list \<Rightarrow> json option" where
  "imports_json p imports =
     query_result Syntactic Exhaustive None
       [(''file'', jstr (path_display p)), (''imports'', jarr (map import_json imports)),
        (''total'', jnum (length imports))]"

definition context_json :: "symbol option \<Rightarrow> nat \<Rightarrow> path \<Rightarrow> json option" where
  "context_json found target_line p =
     query_result Syntactic Exhaustive None
       ([(''file'', jstr (path_display p)), (''target_line'', jnum target_line)] @ opt_field ''symbol'' symbol_json found)"

definition tree_json :: "file_symbols list \<Rightarrow> path option \<Rightarrow> json option" where
  "tree_json scan scope =
     query_result Syntactic Exhaustive None
       (opt_field ''scope'' (\<lambda>p. jstr (path_display p)) scope @
        [(''files'', jarr (map (\<lambda>fs. jobj [(''file'', jstr (path_display (fs_file fs))),
            symbols_field ''symbols'' (fs_symbols fs)]) scan)),
         (''total_files'', jnum (length scan)), (''total_symbols'', jnum (total_symbols scan))])"


definition json_name_based_note :: "resolution \<Rightarrow> string option" where
  "json_name_based_note res =
     (case res of
        Resolved \<Rightarrow> None
      | _ \<Rightarrow> Some ''name-based matching; may include false positives or miss renamed symbols'')"

definition refs_json :: "symbol list \<Rightarrow> reference list \<Rightarrow> string \<Rightarrow> resolution \<Rightarrow> json option" where
  "refs_json definitions refs symbol_name res =
     query_result res BestEffort (json_name_based_note res)
       [(''symbol'', jstr symbol_name), symbols_field ''definitions'' definitions,
        (''references'', jarr (map reference_json refs)), (''total'', jnum (length refs))]"

definition callers_json :: "symbol list \<Rightarrow> reference list \<Rightarrow> string \<Rightarrow> resolution \<Rightarrow> json option" where
  "callers_json definitions callers symbol_name res =
     query_result res BestEffort (json_name_based_note res)
       [(''symbol'', jstr symbol_name), symbols_field ''definitions'' definitions,
        (''callers'', jarr (map reference_json callers)), (''total'', jnum (length callers))]"

definition deps_json :: "symbol option \<Rightarrow> dependency list \<Rightarrow> string \<Rightarrow> json option" where
  "deps_json target deps symbol_name =
     query_result (deps_resolution deps) BestEffort None
       ([(''symbol'', jstr symbol_name)] @ opt_field ''definition'' symbol_json target @
        [(''dependencies'', jarr (map dependency_json deps)), (''total'', jnum (length deps))])"

definition search_json :: "search_match list \<Rightarrow> string \<Rightarrow> json option" where
  "search_json ms pattern =
     query_result Syntactic Exhaustive None
       [(''pattern'', jstr pattern), (''matches'', jarr (map search_match_json ms)), (''total'', jnum (length ms))]"

definition dead_json :: "symbol list \<Rightarrow> bool \<Rightarrow> json option" where
  "dead_json ss has_public =
     query_result Syntactic BestEffort (dead_note has_public)
       [symbols_field ''dead_symbols'' ss, (''total'', jnum (length ss))]"

definition diagnostics_json :: "diagnostic list \<Rightarrow> json option" where
  "diagnostics_json ds =
     query_result Syntactic Exhaustive None
       [(''diagnostics'', jarr (map diagnostic_json ds)), (''total'', jnum (length ds))]"

definition callchain_json :: "call_chain_node \<Rightarrow> nat \<Rightarrow> json option" where
  "callchain_json root depth =
     query_result Syntactic BestEffort (Some callchain_note) [(''root'', call_chain_json root), (''depth'', jnum depth)]"

definition hierarchy_json :: "type_hierarchy \<Rightarrow> json option" where
  "hierarchy_json h =
     query_result Syntactic BestEffort (Some ''structural AST matching; may miss complex generic relationships'')
       (type_hierarchy_fields h)"

definition rename_json :: "rename_result \<Rightarrow> json option" where
  "rename_json r = query_result (rn_resolution r) BestEffort (rename_note (rn_resolution r)) (rename_result_fields r)"

definition hover_json :: "hover_info \<Rightarrow> json option" where
  "hover_json info = query_result Syntactic Exhaustive None [(''hover'', hover_info_json info)]"

section \<open>The output mode\<close>

datatype output_mode = Framed | Json | Raw

text \<open>How JSON is written: the writer, whether standard output is a terminal, and \<open>--pretty\<close>.\<close>

record json_style =
  js_render :: "bool \<Rightarrow> json \<Rightarrow> string"
  js_tty :: bool
  js_pretty :: bool

definition json_text :: "json_style \<Rightarrow> json option \<Rightarrow> string" where
  "json_text js v = serialize_json (js_render js) (js_tty js) (js_pretty js) v"

definition format_def :: "json_style \<Rightarrow> symbol list \<Rightarrow> string \<Rightarrow> output_mode \<Rightarrow> string" where
  "format_def js ss symbol_name mode =
     (case mode of
        Framed \<Rightarrow> format_def_results ss
      | Json \<Rightarrow> json_text js (def_json ss symbol_name)
      | Raw \<Rightarrow> format_def_raw ss)"

definition format_body :: "json_style \<Rightarrow> symbol list \<Rightarrow> string \<Rightarrow> output_mode \<Rightarrow> string" where
  "format_body js ss symbol_name mode =
     (case mode of
        Framed \<Rightarrow> format_body_framed ss
      | Json \<Rightarrow> json_text js (body_json ss symbol_name)
      | Raw \<Rightarrow> format_body_raw ss)"

definition format_sig :: "json_style \<Rightarrow> symbol list \<Rightarrow> string \<Rightarrow> output_mode \<Rightarrow> string" where
  "format_sig js ss symbol_name mode =
     (case mode of
        Framed \<Rightarrow> format_sig_framed ss
      | Json \<Rightarrow> json_text js (sig_json ss symbol_name)
      | Raw \<Rightarrow> format_sig_raw ss)"

definition format_symbols :: "json_style \<Rightarrow> symbol list \<Rightarrow> output_mode \<Rightarrow> string" where
  "format_symbols js ss mode =
     (case mode of
        Framed \<Rightarrow> format_symbols_framed ss
      | Json \<Rightarrow> json_text js (symbols_json ss)
      | Raw \<Rightarrow> format_symbols_raw ss)"

definition format_outline_output :: "json_style \<Rightarrow> path \<Rightarrow> symbol list \<Rightarrow> output_mode \<Rightarrow> string" where
  "format_outline_output js p ss mode =
     (case mode of
        Framed \<Rightarrow> format_outline p ss
      | Json \<Rightarrow> json_text js (outline_json p ss)
      | Raw \<Rightarrow> format_outline_raw ss)"

definition format_imports_output :: "json_style \<Rightarrow> path \<Rightarrow> import_info list \<Rightarrow> output_mode \<Rightarrow> string" where
  "format_imports_output js p imports mode =
     (case mode of
        Framed \<Rightarrow> format_imports_framed p imports
      | Json \<Rightarrow> json_text js (imports_json p imports)
      | Raw \<Rightarrow> format_imports_raw imports)"

definition format_context_output :: "json_style \<Rightarrow> symbol option \<Rightarrow> nat \<Rightarrow> path \<Rightarrow> output_mode \<Rightarrow> string" where
  "format_context_output js found target_line p mode =
     (case mode of
        Framed \<Rightarrow> format_context_framed found target_line p
      | Json \<Rightarrow> json_text js (context_json found target_line p)
      | Raw \<Rightarrow> format_context_raw found target_line)"

definition format_tree_output :: "json_style \<Rightarrow> file_symbols list \<Rightarrow> path option \<Rightarrow> output_mode \<Rightarrow> string" where
  "format_tree_output js scan scope mode =
     (case mode of
        Framed \<Rightarrow> format_tree_framed scan scope
      | Json \<Rightarrow> json_text js (tree_json scan scope)
      | Raw \<Rightarrow> format_tree_raw scan)"

definition format_refs ::
  "json_style \<Rightarrow> symbol list \<Rightarrow> reference list \<Rightarrow> string \<Rightarrow> output_mode \<Rightarrow> nat \<Rightarrow> (path \<rightharpoonup> string) \<Rightarrow> resolution
    \<Rightarrow> string" where
  "format_refs js definitions refs symbol_name mode context_lines sources res =
     (case mode of
        Framed \<Rightarrow> format_refs_framed definitions refs context_lines sources res
      | Json \<Rightarrow> json_text js (refs_json definitions refs symbol_name res)
      | Raw \<Rightarrow> format_refs_raw definitions refs context_lines sources res)"

definition format_callers ::
  "json_style \<Rightarrow> symbol list \<Rightarrow> reference list \<Rightarrow> string \<Rightarrow> output_mode \<Rightarrow> nat \<Rightarrow> (path \<rightharpoonup> string) \<Rightarrow> resolution
    \<Rightarrow> string" where
  "format_callers js definitions callers symbol_name mode context_lines sources res =
     (case mode of
        Framed \<Rightarrow> format_callers_framed definitions callers context_lines sources res
      | Json \<Rightarrow> json_text js (callers_json definitions callers symbol_name res)
      | Raw \<Rightarrow> format_callers_raw callers context_lines sources res)"

definition format_deps :: "json_style \<Rightarrow> symbol option \<Rightarrow> dependency list \<Rightarrow> string \<Rightarrow> output_mode \<Rightarrow> string" where
  "format_deps js target deps symbol_name mode =
     (case mode of
        Framed \<Rightarrow> format_deps_framed target deps
      | Json \<Rightarrow> json_text js (deps_json target deps symbol_name)
      | Raw \<Rightarrow> format_deps_raw deps)"

definition format_search :: "json_style \<Rightarrow> search_match list \<Rightarrow> string \<Rightarrow> output_mode \<Rightarrow> string" where
  "format_search js ms pattern mode =
     (case mode of
        Framed \<Rightarrow> format_search_framed ms
      | Json \<Rightarrow> json_text js (search_json ms pattern)
      | Raw \<Rightarrow> format_search_raw ms)"

definition format_dead :: "json_style \<Rightarrow> symbol list \<Rightarrow> bool \<Rightarrow> output_mode \<Rightarrow> string" where
  "format_dead js ss has_public mode =
     (case mode of
        Framed \<Rightarrow> format_dead_framed ss has_public
      | Json \<Rightarrow> json_text js (dead_json ss has_public)
      | Raw \<Rightarrow> format_dead_raw ss has_public)"

definition format_diagnostics :: "json_style \<Rightarrow> diagnostic list \<Rightarrow> output_mode \<Rightarrow> string" where
  "format_diagnostics js ds mode =
     (case mode of
        Framed \<Rightarrow> format_diagnostics_framed ds
      | Json \<Rightarrow> json_text js (diagnostics_json ds)
      | Raw \<Rightarrow> format_diagnostics_raw ds)"

definition format_callchain :: "json_style \<Rightarrow> call_chain_node \<Rightarrow> nat \<Rightarrow> output_mode \<Rightarrow> string" where
  "format_callchain js root depth mode =
     (case mode of
        Framed \<Rightarrow> callchain_framed root
      | Json \<Rightarrow> json_text js (callchain_json root depth)
      | Raw \<Rightarrow> callchain_raw root)"

definition format_hierarchy :: "json_style \<Rightarrow> type_hierarchy \<Rightarrow> output_mode \<Rightarrow> string" where
  "format_hierarchy js h mode =
     (case mode of
        Framed \<Rightarrow> hierarchy_framed h
      | Json \<Rightarrow> json_text js (hierarchy_json h)
      | Raw \<Rightarrow> hierarchy_raw h)"

definition format_rename :: "json_style \<Rightarrow> rename_result \<Rightarrow> output_mode \<Rightarrow> string" where
  "format_rename js r mode =
     (case mode of
        Framed \<Rightarrow> rename_framed r
      | Json \<Rightarrow> json_text js (rename_json r)
      | Raw \<Rightarrow> rename_raw r)"

definition format_hover_output :: "json_style \<Rightarrow> hover_info \<Rightarrow> output_mode \<Rightarrow> string" where
  "format_hover_output js info mode =
     (case mode of
        Framed \<Rightarrow> format_hover_framed info
      | Json \<Rightarrow> json_text js (hover_json info)
      | Raw \<Rightarrow> format_hover_raw info)"


section \<open>What can be written\<close>

lemma obj_fields_Some: "obj_fields fs = Some kvs \<longleftrightarrow> fs = map (\<lambda>(k, j). (k, Some j)) kvs"
proof (induction fs arbitrary: kvs)
  case (Cons f fs)
  show ?case
  proof (cases f)
    case (Pair k v)
    with Cons show ?thesis by (cases v; cases kvs) (auto simp: bind_eq_Some_conv)
  qed
qed auto

lemma all_values_Some: "all_values vs = Some js \<longleftrightarrow> vs = map Some js"
proof (induction vs arbitrary: js)
  case (Cons v vs)
  then show ?case by (cases v; cases js) (auto simp: bind_eq_Some_conv)
qed auto

lemma jobj_Some: "jobj fs = Some j \<longleftrightarrow> (\<exists>kvs. j = JObj kvs \<and> fs = map (\<lambda>(k, j). (k, Some j)) kvs)"
  by (auto simp: jobj_def obj_fields_Some)

lemma jarr_Some: "jarr vs = Some j \<longleftrightarrow> (\<exists>js. j = JArr js \<and> vs = map Some js)"
  by (auto simp: jarr_def all_values_Some)

lemma obj_fields_None: "obj_fields fs = None \<longleftrightarrow> list_ex (\<lambda>(k, v). v = None) fs"
proof (induction fs rule: obj_fields.induct)
  case (2 k v fs)
  then show ?case by (cases v) simp_all
qed simp

lemma all_values_None: "all_values vs = None \<longleftrightarrow> list_ex (\<lambda>v. v = None) vs"
proof (induction vs rule: all_values.induct)
  case (2 v vs)
  then show ?case by (cases v) simp_all
qed simp

lemma jobj_None: "jobj fs = None \<longleftrightarrow> list_ex (\<lambda>(k, v). v = None) fs"
  by (simp add: jobj_def obj_fields_None)

lemma jarr_None: "jarr vs = None \<longleftrightarrow> list_ex (\<lambda>v. v = None) vs"
  by (simp add: jarr_def all_values_None)

lemma plain_values [simp]: "jstr s \<noteq> None" "jnum n \<noteq> None" "kind_json k \<noteq> None" "resolution_json res \<noteq> None"
  by (simp_all add: jstr_def jnum_def kind_json_def resolution_json_def)

lemma opt_field_jstr [simp]: "\<not> list_ex (\<lambda>(k, v). v = None) (opt_field k jstr v)"
  by (simp add: opt_field_def split: option.split)

definition foreign_path :: "symbol \<Rightarrow> bool" where
  "foreign_path s \<longleftrightarrow> \<not> utf8_valid (path_display (sym_file s))"

lemma path_json_None: "path_json p = None \<longleftrightarrow> \<not> utf8_valid (path_display p)"
  by (simp add: path_json_def)

lemma list_ex_preorder: "list_ex P (preorder ss) \<longleftrightarrow> list_ex (\<lambda>s. list_ex P (preorder [s])) ss"
proof (induction ss)
  case (Cons s ss)
  have "preorder (s # ss) = preorder [s] @ preorder ss" using preorder_append[of "[s]" ss] by simp
  with Cons show ?case by simp
qed simp

lemma symbol_json_None: "symbol_json s = None \<longleftrightarrow> list_ex foreign_path (preorder [s])"
proof (induction s)
  case (Symbol n k f l c e v ch d b sg)
  have "list_ex (\<lambda>v. v = None) (map symbol_json ch) \<longleftrightarrow> list_ex foreign_path (preorder ch)"
    unfolding list_ex_preorder[of foreign_path ch] using Symbol.IH by (simp add: list_ex_iff image_iff eq_commute[of None] del: not_None_eq preorder.simps)
  moreover have "foreign_path (Symbol n k f l c e v ch d b sg) \<longleftrightarrow> \<not> utf8_valid (path_display f)"
    by (simp add: foreign_path_def)
  ultimately show ?case by (simp add: jobj_None jarr_None path_json_None del: not_None_eq)
qed

lemma symbols_field_None: "snd (symbols_field k ss) = None \<longleftrightarrow> list_ex foreign_path (preorder ss)"
  unfolding list_ex_preorder[of foreign_path ss]
  by (simp add: symbols_field_def jarr_None symbol_json_None list_ex_iff image_iff eq_commute[of None]
      del: not_None_eq preorder.simps)

text \<open>
  JSON output is lost as a whole as soon as one symbol of a result, at any depth, lies in a file
  whose path is not UTF-8: \<open>def\<close> then prints nothing and still succeeds. No other result is lost.
\<close>
theorem json_lost_on_foreign_path:
  "(def_json ss symbol_name = None \<longleftrightarrow> list_ex foreign_path (preorder ss)) \<and> json_text js None = []"
  using symbols_field_None[of "''definitions''" ss]
  by (simp_all add: def_json_def query_result_def jobj_None opt_field_def json_text_def serialize_json_def
      split_beta del: not_None_eq)


section \<open>Nothing is lost otherwise\<close>

lemma kind_display_inject [simp]: "kind_display a = kind_display b \<longleftrightarrow> a = b"
  using kind_names_round_trip by (metis option.inject)

lemma visibility_display_inject [simp]: "visibility_display a = visibility_display b \<longleftrightarrow> a = b"
  by (cases a; cases b) simp_all

text \<open>A path that is read back from its text, as those of a scan are.\<close>

definition readable :: "symbol \<Rightarrow> bool" where
  "readable s \<longleftrightarrow> path_of_string (path_display (sym_file s)) = sym_file s"

lemma jobj_inject: "jobj fs = Some j \<Longrightarrow> jobj gs = Some j \<Longrightarrow> fs = gs"
  by (auto simp: jobj_Some)

lemma opt_field_inject:
  "opt_field k jstr v @ rest = opt_field k jstr w @ rest' \<longleftrightarrow> v = w \<and> rest = rest'"
  if "\<not> list_ex (\<lambda>(k', x). k' = k) rest" "\<not> list_ex (\<lambda>(k', x). k' = k) rest'"
  using that by (cases v; cases w; cases rest; cases rest') (auto simp: opt_field_def jstr_def)

lemma opt_field_key [simp]: "list_ex (\<lambda>(k', x). k' = k) (opt_field q f v) \<longleftrightarrow> v \<noteq> None \<and> q = k"
  by (auto simp: opt_field_def split: option.split)

lemma optional_fields_inject:
  "opt_field ''doc'' jstr d @ opt_field ''body'' jstr b @ opt_field ''signature'' jstr sg =
     opt_field ''doc'' jstr d' @ opt_field ''body'' jstr b' @ opt_field ''signature'' jstr sg' \<longleftrightarrow>
     d = d' \<and> b = b' \<and> sg = sg'"
proof -
  have "opt_field ''signature'' jstr sg = opt_field ''signature'' jstr sg' \<longleftrightarrow> sg = sg'"
    using opt_field_inject[of "''signature''" "[]" "[]"] by simp
  then show ?thesis by (simp add: opt_field_inject)
qed

lemma jarr_map_inject:
  assumes "jarr (map f xs) = Some j" "jarr (map f ys) = Some j"
    "\<And>x y w. x \<in> set xs \<Longrightarrow> y \<in> set ys \<Longrightarrow> f x = Some w \<Longrightarrow> f y = Some w \<Longrightarrow> x = y"
  shows "xs = ys"
proof -
  from assms(1,2) obtain js where "map f xs = map Some js" "map f ys = map Some js" by (auto simp: jarr_Some)
  then show ?thesis using assms(3)
  proof (induction xs arbitrary: ys js)
    case (Cons x xs)
    then show ?case by (cases js; cases ys) fastforce+
  qed simp
qed

lemma readable_preorder_Symbol:
  "list_all readable (preorder [Symbol n k f l c e v ch d b sg]) \<longleftrightarrow>
     path_of_string (path_display f) = f \<and> list_all readable (preorder ch)"
  by (simp add: readable_def)

lemma preorder_member: "s \<in> set ss \<Longrightarrow> set (preorder [s]) \<subseteq> set (preorder ss)"
proof (induction ss)
  case (Cons t ss)
  have "preorder (t # ss) = preorder [t] @ preorder ss" using preorder_append[of "[t]" ss] by simp
  with Cons show ?case by auto
qed simp

lemma path_json_inject:
  "path_json f = Some j \<Longrightarrow> path_json g = Some j \<Longrightarrow> path_of_string (path_display f) = f \<Longrightarrow>
     path_of_string (path_display g) = g \<Longrightarrow> f = g"
  unfolding path_json_def by (metis json.inject(4) option.distinct(1) option.inject)

lemma symbol_json_inject:
  assumes "symbol_json s = Some j" "symbol_json t = Some j"
    "list_all readable (preorder [s])" "list_all readable (preorder [t])"
  shows "s = t"
  using assms
proof (induction s arbitrary: t j)
  case (Symbol n k f l c e v ch d b sg)
  obtain n' k' f' l' c' e' v' ch' d' b' sg' where t: "t = Symbol n' k' f' l' c' e' v' ch' d' b' sg'" by (cases t)
  note fields = jobj_inject[OF Symbol.prems(1)[unfolded symbol_json.simps] Symbol.prems(2)[unfolded t symbol_json.simps]]
  from fields have eqs: "n = n'" "k = k'" "l = l'" "c = c'" "e = e'" "v = v'" "path_json f = path_json f'"
    "jarr (map symbol_json ch) = jarr (map symbol_json ch')" "d = d'" "b = b'" "sg = sg'"
    by (simp_all add: optional_fields_inject jstr_def jnum_def kind_json_def)
  have "path_json f \<noteq> None" "jarr (map symbol_json ch) \<noteq> None"
    using Symbol.prems(1) by (auto simp: jobj_Some)
  then obtain pj aj where some: "path_json f = Some pj" "jarr (map symbol_json ch) = Some aj" by blast
  have "f = f'"
    using path_json_inject[OF some(1)] some(1) eqs(7) Symbol.prems(3,4)
    by (simp add: t readable_preorder_Symbol del: preorder.simps)
  moreover have "ch = ch'"
  proof (rule jarr_map_inject[OF some(2)])
    show "jarr (map symbol_json ch') = Some aj" using some(2) eqs(8) by simp
    fix x y w assume m: "x \<in> set ch" "y \<in> set ch'" and w: "symbol_json x = Some w" "symbol_json y = Some w"
    have "list_all readable (preorder ch)" "list_all readable (preorder ch')"
      using Symbol.prems(3,4) by (simp_all add: t readable_preorder_Symbol del: preorder.simps)
    then have "list_all readable (preorder [x])" "list_all readable (preorder [y])"
      using preorder_member[OF m(1)] preorder_member[OF m(2)] by (auto simp: list_all_iff simp del: preorder.simps)
    with Symbol.IH[OF m(1) w] show "x = y" .
  qed
  ultimately show ?case using eqs by (simp add: t)
qed

text \<open>
  C34: The JSON of a symbol determines it: two symbols with the same JSON are equal, with their
  children, documentation, body and signature, when the paths in them can be read back from their
  text, as the paths of a scan can.
\<close>
theorem symbol_json_faithful:
  assumes "symbol_json s = Some j" and "symbol_json t = Some j"
    and "list_all readable (preorder [s])" and "list_all readable (preorder [t])"
  shows "s = t"
  using symbol_json_inject[OF assms] .

definition documented :: "string option \<Rightarrow> symbol" where
  "documented doc =
     Symbol ''a'' Struct [Normal ''a.rs''] 1 0 9 Public
       [Symbol ''b'' Function [Normal ''a.rs''] 2 4 3 Private [] doc None None] None None (Some ''struct a'')"

theorem symbol_json_faithful_witness:
  "symbol_json (documented None) \<noteq> symbol_json (documented (Some ''text''))"
proof
  assume eq: "symbol_json (documented None) = symbol_json (documented (Some ''text''))"
  have "\<not> list_ex foreign_path (preorder [documented None])" by code_simp
  then obtain j where j: "symbol_json (documented None) = Some j"
    using symbol_json_None by blast
  have "list_all readable (preorder [documented None])" "list_all readable (preorder [documented (Some ''text'')])"
    by code_simp+
  from symbol_json_faithful[OF j _ this] eq j have "documented None = documented (Some ''text'')" by simp
  then show False by (simp add: documented_def)
qed

text \<open>The result of \<open>rename\<close> carries its quality itself: flattened into the common object, the key
  comes twice.\<close>

lemma rename_json_repeats_key:
  "rename_json r = Some (JObj kvs) \<Longrightarrow> length (filter (\<lambda>(k, v). k = ''resolution'') kvs) = 2"
  by (auto simp: rename_json_def query_result_def rename_result_fields_def jobj_Some opt_field_def
      map_eq_Cons_conv map_eq_append_conv split: option.splits)

end
