(* ===== verification/Commands.thy ===== *)
theory Commands
  imports Output_Json
begin

text \<open>
  The commands of cq that answer queries, from their arguments to what they print and the exit code
  (\<open>commands/*.rs\<close>), on top of the scans, searches and reports of the other theories. What a
  command prints is kept apart for standard output and standard error; an error that \<open>run\<close> returns
  is its text. The world that commands change is that of the client: the disk, the daemon, the
  language servers. The current directory can be read.
\<close>

section \<open>Results and environment\<close>

datatype exit_code = ExitSuccess | ExitUsageError | ExitProjectError | ExitParseWarning

datatype ran = Exits string string exit_code | Fails string | Crashes | Waits

record ('l, 'g, 'n) cmd_env =
  cm_cwd :: path
  cm_find :: find_env
  cm_read_error :: "path \<Rightarrow> string"
  cm_scan :: scan_env
  cm_cache :: cache_cfg
  cm_client :: client_env
  cm_resolver :: "('l, 'g, 'n) resolver_env"
  cm_plugins :: "'l plugin_cache"
  cm_group_order :: "groups \<Rightarrow> groups"
  cm_ref_order :: "place list \<Rightarrow> place list"
  cm_edit_order :: "path set \<Rightarrow> path list"
  cm_has_error :: "node \<Rightarrow> bool"
  cm_descend :: "node \<Rightarrow> nat \<times> nat \<Rightarrow> nat list option"
  cm_new_query :: "node \<Rightarrow> string \<Rightarrow> string + query"
  cm_render :: "bool \<Rightarrow> json \<Rightarrow> string"
  cm_tty :: bool
  cm_var :: "string \<Rightarrow> string option"

abbreviation cm_exts :: "('l, 'g, 'n) cmd_env \<Rightarrow> string \<rightharpoonup> string" where
  "cm_exts env \<equiv> fx_exts (cm_find env)"

fun core_error_display :: "core_error \<Rightarrow> string" where
  "core_error_display (ProjectNotFound p) = ''no project root found from '' @ path_display p"
| "core_error_display (NoSourceFiles p) = ''no source files found in '' @ path_display p"
| "core_error_display (CoreIo e) = io_error_display e"
| "core_error_display (PathError m) = m"
| "core_error_display (ConfigError m) = m"

fun index_error_display :: "index_error \<Rightarrow> string" where
  "index_error_display (IndexCore e) = core_error_display e"
| "index_error_display (IndexParse m) = m"
| "index_error_display (IndexIo e) = io_error_display e"

fun find_error_display :: "find_error \<Rightarrow> string" where
  "find_error_display (FindCore e) = core_error_display e"
| "find_error_display (FindParser m) = m"

text \<open>\<open>println!\<close>, also when it is skipped for an empty text.\<close>

definition println :: "string \<Rightarrow> string" where
  "println s = s @ nl"

definition print_output :: "string \<Rightarrow> string" where
  "print_output s = (if s = [] then [] else println s)"

text \<open>How most commands end: without results there is nothing to print, except in JSON.\<close>

definition print_results :: "bool \<Rightarrow> output_mode \<Rightarrow> string \<Rightarrow> ran" where
  "print_results no_results mode output =
     (if no_results \<and> mode \<noteq> Json then Exits [] [] ExitSuccess else Exits (print_output output) [] ExitSuccess)"

definition style_of :: "('l, 'g, 'n) cmd_env \<Rightarrow> bool \<Rightarrow> json_style" where
  "style_of env pretty = \<lparr>js_render = cm_render env, js_tty = cm_tty env, js_pretty = pretty\<rparr>"

definition with_root :: "('l, 'g, 'n) cmd_env \<Rightarrow> path option \<Rightarrow> (path \<Rightarrow> ran) \<Rightarrow> ran" where
  "with_root env project k =
     (case detect_project_root_or (fx_canonicalize (cm_find env)) (fx_exists (cm_find env)) (cm_cwd env) project of
        Inl e \<Rightarrow> Fails (core_error_display e)
      | Inr root \<Rightarrow> k root)"

text \<open>The project root and the scan that the wide commands start with.\<close>

definition with_scan ::
  "('l, 'g, 'n) cmd_env \<Rightarrow> path option \<Rightarrow> path option \<Rightarrow> bool \<Rightarrow> client_world
    \<Rightarrow> (path \<Rightarrow> file_symbols list \<Rightarrow> client_world \<Rightarrow> ran \<times> client_world) \<Rightarrow> ran \<times> client_world" where
  "with_scan env project scope use_cache w k =
     (case detect_project_root_or (fx_canonicalize (cm_find env)) (fx_exists (cm_find env)) (cm_cwd env) project of
        Inl e \<Rightarrow> (Fails (core_error_display e), w)
      | Inr root \<Rightarrow>
          (case scan_project_cached (cm_scan env) (cm_cache env) (kw_disk w) root scope use_cache of
             (Inl e, d) \<Rightarrow> (Fails (index_error_display e), w\<lparr>kw_disk := d\<rparr>)
           | (Inr scan, d) \<Rightarrow> k root scan (w\<lparr>kw_disk := d\<rparr>)))"

section \<open>\<open>body\<close>, \<open>sig\<close>, \<open>def\<close>\<close>

definition search_run ::
  "('l, 'g, 'n) cmd_env \<Rightarrow> string \<Rightarrow> path option \<Rightarrow> path option \<Rightarrow> output_mode \<Rightarrow> language option
    \<Rightarrow> (symbol list \<Rightarrow> string) \<Rightarrow> ran" where
  "search_run env symbol project scope mode lang_filter show =
     (case find_symbols_by_name (cm_find env) (cm_cwd env) symbol project scope lang_filter of
        Inl e \<Rightarrow> Fails (find_error_display e)
      | Inr matches \<Rightarrow> print_results (matches = []) mode (show matches))"

definition body_run ::
  "('l, 'g, 'n) cmd_env \<Rightarrow> string \<Rightarrow> path option \<Rightarrow> path option \<Rightarrow> output_mode \<Rightarrow> bool \<Rightarrow> language option \<Rightarrow> ran" where
  "body_run env symbol project scope mode pretty lang_filter =
     search_run env symbol project scope mode lang_filter (\<lambda>ms. format_body (style_of env pretty) ms symbol mode)"

definition sig_run ::
  "('l, 'g, 'n) cmd_env \<Rightarrow> string \<Rightarrow> path option \<Rightarrow> path option \<Rightarrow> output_mode \<Rightarrow> bool \<Rightarrow> language option \<Rightarrow> ran" where
  "sig_run env symbol project scope mode pretty lang_filter =
     search_run env symbol project scope mode lang_filter (\<lambda>ms. format_sig (style_of env pretty) ms symbol mode)"

text \<open>The narrowing of \<open>def\<close> with the answer of a language server, which is asked at the first match.
  None: all matches stay.\<close>

definition disambiguate ::
  "('l, 'g, 'n) cmd_env \<Rightarrow> symbol list \<Rightarrow> path option \<Rightarrow> client_world
    \<Rightarrow> (symbol list option \<times> client_world) outcome" where
  "disambiguate env matches project w =
     (case detect_project_root_or (fx_canonicalize (cm_find env)) (fx_exists (cm_find env)) (cm_cwd env) project of
        Inl e \<Rightarrow> Returns (None, w)
      | Inr root \<Rightarrow>
          (case daemon_running (cm_client env) root w of
             (False, w1) \<Rightarrow> Returns (None, w1)
           | (True, w1) \<Rightarrow>
               (case matches of
                  [] \<Rightarrow> Returns (None, w1)
                | first # _ \<Rightarrow>
                    (case scan_language (cm_exts env) (sym_file first) of
                       None \<Rightarrow> Returns (None, w1)
                     | Some lang \<Rightarrow>
                         outcome_bind
                           (semantic_definition (cm_client env) root lang (sym_file first) (sym_line first)
                             (sym_column first) w1)
                           (\<lambda>(answer, w2).
                             case answer of
                               Inl e \<Rightarrow> Returns (None, w2)
                             | Inr lsp_results \<Rightarrow>
                                 Returns (disambiguate_with_lsp matches True
                                   (Some (map (\<lambda>r. (rr_file r, rr_line r)) lsp_results)), w2))))))"

definition settle :: "('a \<Rightarrow> ran) \<Rightarrow> client_world \<Rightarrow> ('a \<times> client_world) outcome \<Rightarrow> ran \<times> client_world" where
  "settle show w result =
     (case result of
        Returns (a, w') \<Rightarrow> (show a, w')
      | Hangs \<Rightarrow> (Waits, w)
      | Panics \<Rightarrow> (Crashes, w))"

definition def_run ::
  "('l, 'g, 'n) cmd_env \<Rightarrow> string \<Rightarrow> path option \<Rightarrow> path option \<Rightarrow> output_mode \<Rightarrow> bool \<Rightarrow> language option
    \<Rightarrow> semantic_mode \<Rightarrow> client_world \<Rightarrow> ran \<times> client_world" where
  "def_run env symbol project scope mode pretty lang_filter semantic w =
     (case find_symbols_by_name (cm_find env) (cm_cwd env) symbol project scope lang_filter of
        Inl e \<Rightarrow> (Fails (find_error_display e), w)
      | Inr matches \<Rightarrow>
          settle
            (\<lambda>narrowed.
              let ms = (case narrowed of Some ms \<Rightarrow> ms | None \<Rightarrow> matches) in
              print_results (ms = []) mode (format_def (style_of env pretty) ms symbol mode))
            w
            (if semantic \<noteq> ModeOff \<and> 1 < length matches then disambiguate env matches project w
             else Returns (None, w)))"


section \<open>Commands over a scan\<close>

definition symbols_run ::
  "('l, 'g, 'n) cmd_env \<Rightarrow> path option \<Rightarrow> path option \<Rightarrow> string option \<Rightarrow> nat option \<Rightarrow> output_mode \<Rightarrow> bool \<Rightarrow> bool
    \<Rightarrow> client_world \<Rightarrow> ran \<times> client_world" where
  "symbols_run env project scope kind limit mode pretty use_cache w =
     with_scan env project scope use_cache w (\<lambda>root scan w'.
       (case list_symbols scan kind limit of
          Inl e \<Rightarrow> Fails e
        | Inr ss \<Rightarrow> print_results (ss = []) mode (format_symbols (style_of env pretty) ss mode), w'))"

definition tree_run ::
  "('l, 'g, 'n) cmd_env \<Rightarrow> path option \<Rightarrow> path option \<Rightarrow> path option \<Rightarrow> output_mode \<Rightarrow> bool \<Rightarrow> nat option \<Rightarrow> bool
    \<Rightarrow> client_world \<Rightarrow> ran \<times> client_world" where
  "tree_run env p project scope mode pretty depth use_cache w =
     (let effective_scope = (case p of Some q \<Rightarrow> Some q | None \<Rightarrow> scope) in
      with_scan env project effective_scope use_cache w (\<lambda>root scan w'.
        let shown = (case depth of Some d \<Rightarrow> limit_depth scan d | None \<Rightarrow> scan) in
        (Exits (print_output (format_tree_output (style_of env pretty) shown effective_scope mode)) [] ExitSuccess,
         w')))"

text \<open>A query that one grammar refuses is skipped; when every grammar refuses it, it is an error. A
  built-in language given by \<open>--lang\<close> selects by the file name.\<close>

definition searched :: "('l, 'g, 'n) cmd_env \<Rightarrow> path \<Rightarrow> language option \<Rightarrow> file_symbols \<Rightarrow> bool" where
  "searched env root lang_filter fs =
     (case lang_filter of
        None \<Rightarrow> True
      | Some lang \<Rightarrow> language_for_file (cm_exts env) (path_join root (fs_file fs)) = Some lang)"

definition search_answers ::
  "('l, 'g, 'n) cmd_env \<Rightarrow> path \<Rightarrow> string \<Rightarrow> language option \<Rightarrow> file_symbols list
    \<Rightarrow> (string + search_match list) list" where
  "search_answers env root pattern lang_filter scan =
     map (\<lambda>fs. search_file (cm_new_query env (fs_tree fs)) pattern (fs_source fs) (fs_tree fs) (fs_file fs))
       (filter (searched env root lang_filter) scan)"

definition match_key :: "search_match \<Rightarrow> path \<times> nat \<times> nat" where
  "match_key m = (sm_file m, sm_line m, sm_column m)"

definition search_matches ::
  "('l, 'g, 'n) cmd_env \<Rightarrow> path \<Rightarrow> string \<Rightarrow> language option \<Rightarrow> nat option \<Rightarrow> file_symbols list
    \<Rightarrow> string + search_match list" where
  "search_matches env root pattern lang_filter limit scan =
     (let answers = search_answers env root pattern lang_filter scan;
          found = List.map_filter (case_sum (\<lambda>_. None) Some) answers;
          errors = List.map_filter (case_sum Some (\<lambda>_. None)) answers in
      if found = [] \<and> errors \<noteq> [] then Inl (''query error: '' @ last errors)
      else Inr (truncate_to limit (sort_key match_key (concat found))))"

definition search_cmd_run ::
  "('l, 'g, 'n) cmd_env \<Rightarrow> string \<Rightarrow> path option \<Rightarrow> path option \<Rightarrow> output_mode \<Rightarrow> bool \<Rightarrow> nat option \<Rightarrow> bool
    \<Rightarrow> language option \<Rightarrow> client_world \<Rightarrow> ran \<times> client_world" where
  "search_cmd_run env pattern project scope mode pretty limit use_cache lang_filter w =
     with_scan env project scope use_cache w (\<lambda>root scan w'.
       (case search_matches env root pattern lang_filter limit scan of
          Inl e \<Rightarrow> Fails e
        | Inr ms \<Rightarrow> print_results (ms = []) mode (format_search (style_of env pretty) ms pattern mode), w'))"

definition dead_run ::
  "('l, 'g, 'n) cmd_env \<Rightarrow> path option \<Rightarrow> path option \<Rightarrow> string option \<Rightarrow> nat option \<Rightarrow> output_mode \<Rightarrow> bool \<Rightarrow> bool
    \<Rightarrow> client_world \<Rightarrow> ran \<times> client_world" where
  "dead_run env project scope kind limit mode pretty use_cache w =
     with_scan env project scope use_cache w (\<lambda>root scan w'.
       (case dead_symbols (cm_exts env) root scan kind limit of
          Inl e \<Rightarrow> Fails e
        | Inr ss \<Rightarrow>
            if ss = [] \<and> mode \<noteq> Json then
              Exits []
                (println (''0 unreferenced symbols found (scanned '' @
                   dec (sum_list (map (\<lambda>fs. length (fs_symbols fs)) scan)) @ '' symbols across '' @ dec (length scan) @
                   '' files)''))
                ExitSuccess
            else
              Exits
                (print_output
                  (format_dead (style_of env pretty) ss (list_ex (\<lambda>s. sym_visibility s = Public) ss) mode))
                [] ExitSuccess, w'))"

definition callchain_run ::
  "('l, 'g, 'n) cmd_env \<Rightarrow> string \<Rightarrow> nat \<Rightarrow> path option \<Rightarrow> path option \<Rightarrow> output_mode \<Rightarrow> bool \<Rightarrow> bool
    \<Rightarrow> client_world \<Rightarrow> ran \<times> client_world" where
  "callchain_run env symbol depth project scope mode pretty use_cache w =
     with_scan env project scope use_cache w (\<lambda>root scan w'.
       let chain = call_chain (cm_exts env) scan symbol depth in
       (print_results (ccn_callers chain = []) mode (format_callchain (style_of env pretty) chain depth mode), w'))"

definition hierarchy_run ::
  "('l, 'g, 'n) cmd_env \<Rightarrow> string \<Rightarrow> path option \<Rightarrow> path option \<Rightarrow> language option \<Rightarrow> output_mode \<Rightarrow> bool \<Rightarrow> bool
    \<Rightarrow> client_world \<Rightarrow> ran \<times> client_world" where
  "hierarchy_run env symbol project scope lang_filter mode pretty use_cache w =
     with_scan env project scope use_cache w (\<lambda>root scan w'.
       let h = hierarchy_of (cm_exts env) root lang_filter scan symbol in
       (print_results (th_supertypes h = [] \<and> th_subtypes h = []) mode (format_hierarchy (style_of env pretty) h mode),
        w'))"

text \<open>The sources of a scan by file; the last entry of a file counts.\<close>

definition scan_sources :: "file_symbols list \<Rightarrow> path \<rightharpoonup> string" where
  "scan_sources scan = map_of (rev (map (\<lambda>fs. (fs_file fs, fs_source fs)) scan))"

definition refs_cmd_run ::
  "('l, 'g, 'n) cmd_env \<Rightarrow> string \<Rightarrow> path option \<Rightarrow> path option \<Rightarrow> output_mode \<Rightarrow> bool \<Rightarrow> nat \<Rightarrow> bool
    \<Rightarrow> semantic_mode \<Rightarrow> client_world \<Rightarrow> ran \<times> client_world" where
  "refs_cmd_run env symbol project scope mode pretty context_lines use_cache semantic w =
     with_scan env project scope use_cache w (\<lambda>root scan w'.
       settle
         (\<lambda>(definitions, refs, res).
           if definitions = [] \<and> refs = [] \<and> mode \<noteq> Json then Exits [] [] ExitSuccess
           else
             Exits
               (print_output
                 (format_refs (style_of env pretty) definitions refs symbol mode context_lines (scan_sources scan) res))
               [] ExitSuccess)
         w'
         (refs_run (cm_client env) (cm_resolver env) (cm_plugins env) (cm_group_order env) (cm_ref_order env)
           root symbol scan semantic w'))"

definition callers_cmd_run ::
  "('l, 'g, 'n) cmd_env \<Rightarrow> string \<Rightarrow> path option \<Rightarrow> path option \<Rightarrow> output_mode \<Rightarrow> bool \<Rightarrow> nat \<Rightarrow> bool
    \<Rightarrow> semantic_mode \<Rightarrow> client_world \<Rightarrow> ran \<times> client_world" where
  "callers_cmd_run env symbol project scope mode pretty context_lines use_cache semantic w =
     with_scan env project scope use_cache w (\<lambda>root scan w'.
       settle
         (\<lambda>(definitions, refs, res).
           if definitions = [] \<and> refs = [] \<and> mode \<noteq> Json then Exits [] [] ExitSuccess
           else
             Exits
               (print_output
                 (format_callers (style_of env pretty) definitions refs symbol mode context_lines (scan_sources scan) res))
               [] ExitSuccess)
         w'
         (callers_run (cm_client env) (cm_resolver env) (cm_plugins env) (cm_group_order env) (cm_ref_order env)
           root symbol scan semantic w'))"


text \<open>The project is scanned only when there is a body to look at, and then as a whole.\<close>

definition deps_cmd_run ::
  "('l, 'g, 'n) cmd_env \<Rightarrow> string \<Rightarrow> path option \<Rightarrow> path option \<Rightarrow> output_mode \<Rightarrow> bool \<Rightarrow> language option \<Rightarrow> bool
    \<Rightarrow> client_world \<Rightarrow> ran \<times> client_world" where
  "deps_cmd_run env symbol project scope mode pretty lang_filter use_cache w =
     (let show = (\<lambda>target deps.
            Exits (print_output (format_deps (style_of env pretty) target deps symbol mode)) [] ExitSuccess) in
      case detect_project_root_or (fx_canonicalize (cm_find env)) (fx_exists (cm_find env)) (cm_cwd env) project of
        Inl e \<Rightarrow> (Fails (core_error_display e), w)
      | Inr root \<Rightarrow>
          (case discover_files (fx_exists (cm_find env)) (fx_walk (cm_find env)) (cm_exts env) root scope of
             Inl e \<Rightarrow> (Fails (core_error_display e), w)
           | Inr files \<Rightarrow>
               (case find_first_symbol_with_source (cm_find env) root symbol lang_filter no_parsers files of
                  Inl e \<Rightarrow> (Fails (find_error_display e), w)
                | Inr None \<Rightarrow> (if mode = Json then show None [] else Exits [] [] ExitSuccess, w)
                | Inr (Some (target, source)) \<Rightarrow>
                    (if sym_body target = None then (show (Some target) [], w)
                     else
                       (case extract_body_references (cm_find env) source target of
                          Inl e \<Rightarrow> (Fails e, w)
                        | Inr body_refs \<Rightarrow>
                            (case scan_project_cached (cm_scan env) (cm_cache env) (kw_disk w) root None use_cache of
                               (Inl e, d) \<Rightarrow> (Fails (index_error_display e), w\<lparr>kw_disk := d\<rparr>)
                             | (Inr scan, d) \<Rightarrow>
                                 (case dependencies_of (cm_resolver env) (cm_plugins env) scan target symbol source body_refs of
                                    None \<Rightarrow> Crashes
                                  | Some deps \<Rightarrow> show (Some target) deps, w\<lparr>kw_disk := d\<rparr>)))))))"

definition rename_cmd_run ::
  "('l, 'g, 'n) cmd_env \<Rightarrow> string \<Rightarrow> string \<Rightarrow> bool \<Rightarrow> bool \<Rightarrow> path option \<Rightarrow> path option \<Rightarrow> language option
    \<Rightarrow> output_mode \<Rightarrow> bool \<Rightarrow> bool \<Rightarrow> client_world \<Rightarrow> ran \<times> client_world" where
  "rename_cmd_run env old_name new_name force_apply dry_run project scope lang_filter mode pretty use_cache w =
     with_scan env project scope use_cache w (\<lambda>root scan w'.
       case rename_run (cm_exts env) (cm_edit_order env) root scan lang_filter old_name new_name force_apply dry_run
              (kw_disk w') of
         None \<Rightarrow> (Crashes, w')
       | Some (Inl (SymbolNotFound n), d) \<Rightarrow> (Fails (''symbol not found: '' @ n), w'\<lparr>kw_disk := d\<rparr>)
       | Some (Inl (RenameIo e), d) \<Rightarrow> (Fails (io_error_display e), w'\<lparr>kw_disk := d\<rparr>)
       | Some (Inr result, d) \<Rightarrow>
           (Exits (print_output (format_rename (style_of env pretty) result mode)) [] ExitSuccess, w'\<lparr>kw_disk := d\<rparr>))"

section \<open>Commands on a file\<close>

text \<open>Relative files are taken from the current directory; the path shown is relative to the project
  when the file lies in it, after links are resolved. The parser is chosen by the file name.\<close>

definition absolute_file :: "('l, 'g, 'n) cmd_env \<Rightarrow> path \<Rightarrow> path" where
  "absolute_file env file = (if is_absolute file then file else path_join (cm_cwd env) file)"

definition not_found :: "path \<Rightarrow> ran" where
  "not_found file = Exits [] (println (''error: file not found: '' @ path_display file)) ExitProjectError"

definition unsupported :: "path \<Rightarrow> ran" where
  "unsupported absolute = Exits [] (println (''error: unsupported file type: '' @ path_display absolute)) ExitProjectError"

definition unreadable :: "('l, 'g, 'n) cmd_env \<Rightarrow> path \<Rightarrow> ran" where
  "unreadable env absolute = Exits [] (println (''error: cannot read file: '' @ cm_read_error env absolute)) ExitProjectError"

definition parse_failed :: string where
  "parse_failed = ''tree-sitter parse returned no tree for: unknown source''"

definition parse_file :: "('l, 'g, 'n) cmd_env \<Rightarrow> parser \<Rightarrow> path \<Rightarrow> (string \<Rightarrow> node \<Rightarrow> ran) \<Rightarrow> ran" where
  "parse_file env parse absolute k =
     (case fx_read (cm_find env) absolute of
        None \<Rightarrow> unreadable env absolute
      | Some source \<Rightarrow>
          (case parse source of None \<Rightarrow> Fails parse_failed | Some tree \<Rightarrow> k source tree))"

definition with_file ::
  "('l, 'g, 'n) cmd_env \<Rightarrow> (path \<Rightarrow> (string + parser) option) \<Rightarrow> path \<Rightarrow> path option
    \<Rightarrow> (path \<Rightarrow> path \<Rightarrow> string \<Rightarrow> node \<Rightarrow> ran) \<Rightarrow> ran" where
  "with_file env parser_for file project k =
     with_root env project (\<lambda>root.
       let absolute = absolute_file env file in
       if \<not> fx_exists (cm_find env) absolute then not_found file
       else
         (case parser_for absolute of
            None \<Rightarrow> unsupported absolute
          | Some made \<Rightarrow>
              (case fx_canonicalize (cm_find env) absolute of
                 Inl e \<Rightarrow> Fails e
               | Inr real_file \<Rightarrow>
                   (case fx_canonicalize (cm_find env) root of
                      Inl e \<Rightarrow> Fails e
                    | Inr real_root \<Rightarrow>
                        (case made of
                           Inl e \<Rightarrow> Fails e
                         | Inr parse \<Rightarrow>
                             parse_file env parse absolute
                               (k absolute (case strip_prefix_path real_file real_root of Some r \<Rightarrow> r | None \<Rightarrow> file)))))))"

text \<open>By registered name alone, or by built-in language first.\<close>

definition named_parser :: "('l, 'g, 'n) cmd_env \<Rightarrow> path \<Rightarrow> (string + parser) option" where
  "named_parser env p = map_option (fx_for_name (cm_find env)) (language_name_for_file (cm_exts env) p)"

definition builtin_parser :: "('l, 'g, 'n) cmd_env \<Rightarrow> path \<Rightarrow> (string + parser) option" where
  "builtin_parser env p =
     (case language_for_file (cm_exts env) p of
        Some lang \<Rightarrow> Some (fx_for_language (cm_find env) lang)
      | None \<Rightarrow> named_parser env p)"

definition warn_code :: "('l, 'g, 'n) cmd_env \<Rightarrow> node \<Rightarrow> exit_code" where
  "warn_code env tree = (if cm_has_error env tree then ExitParseWarning else ExitSuccess)"

definition outline_run ::
  "('l, 'g, 'n) cmd_env \<Rightarrow> path \<Rightarrow> path option \<Rightarrow> output_mode \<Rightarrow> bool \<Rightarrow> ran" where
  "outline_run env file project mode pretty =
     with_file env (named_parser env) file project (\<lambda>absolute relative source tree.
       let lang_name = the (language_name_for_file (cm_exts env) absolute);
           ss = fx_extract_by_name (cm_find env) source tree relative lang_name in
       Exits (println (format_outline_output (style_of env pretty) relative ss mode)) []
         (if ss = [] then ExitSuccess else warn_code env tree))"

definition imports_run ::
  "('l, 'g, 'n) cmd_env \<Rightarrow> path \<Rightarrow> path option \<Rightarrow> output_mode \<Rightarrow> bool \<Rightarrow> ran" where
  "imports_run env file project mode pretty =
     with_file env (builtin_parser env) file project (\<lambda>absolute relative source tree.
       case (case language_for_file (cm_exts env) absolute of
               Some lang \<Rightarrow> extract_imports source tree lang
             | None \<Rightarrow> Some []) of
         None \<Rightarrow> Crashes
       | Some imports \<Rightarrow>
           Exits (println (format_imports_output (style_of env pretty) relative imports mode)) []
             (if imports = [] then ExitSuccess else warn_code env tree))"

definition context_run ::
  "('l, 'g, 'n) cmd_env \<Rightarrow> string \<Rightarrow> path option \<Rightarrow> output_mode \<Rightarrow> bool \<Rightarrow> nat option \<Rightarrow> ran" where
  "context_run env loc project mode pretty depth =
     (case context_location loc of
        None \<Rightarrow> Exits [] (println ''error: invalid location format, expected file:line'') ExitUsageError
      | Some (file_str, line) \<Rightarrow>
          with_file env (named_parser env) (path_of_string file_str) project (\<lambda>absolute relative source tree.
            let lang_name = the (language_name_for_file (cm_exts env) absolute);
                ss = fx_extract_by_name (cm_find env) source tree relative lang_name in
            case context_symbol ss line depth of
              NoContext \<Rightarrow>
                Exits (if mode = Json then println (format_context_output (style_of env pretty) None line relative mode) else [])
                  [] ExitSuccess
            | ContextPanic \<Rightarrow> Crashes
            | ContextSymbol s \<Rightarrow>
                Exits (println (format_context_output (style_of env pretty) (Some s) line relative mode)) []
                  (warn_code env tree)))"

definition hover_run ::
  "('l, 'g, 'n) cmd_env \<Rightarrow> string \<Rightarrow> path option \<Rightarrow> output_mode \<Rightarrow> bool \<Rightarrow> ran" where
  "hover_run env loc project mode pretty =
     (case hover_location loc of
        None \<Rightarrow> Exits [] (println ''error: invalid location format, expected file:line[:col]'') ExitUsageError
      | Some (file_str, line, column) \<Rightarrow>
          with_file env (builtin_parser env) (path_of_string file_str) project (\<lambda>absolute relative source tree.
            let builtin = language_for_file (cm_exts env) absolute;
                ss = (case builtin of
                    Some lang \<Rightarrow> fx_extract (cm_find env) source tree relative lang
                  | None \<Rightarrow>
                      fx_extract_by_name (cm_find env) source tree relative
                        (the (language_name_for_file (cm_exts env) absolute)));
                info = hover_info_of (cm_descend env) source tree relative builtin ss line column;
                text = println (format_hover_output (style_of env pretty) info mode) in
            if hi_type_info info = None \<and> hi_docs info = None \<and> hi_signature info = None
            then Exits (if mode = Json then text else []) [] ExitSuccess
            else Exits text [] (warn_code env tree)))"

section \<open>\<open>diagnostics\<close>\<close>

primrec severity_rank :: "diagnostic_severity \<Rightarrow> nat" where
  "severity_rank SevError = 0"
| "severity_rank SevWarning = 1"
| "severity_rank SevInformation = 2"
| "severity_rank SevHint = 3"

definition diagnostic_key :: "diagnostic \<Rightarrow> nat \<times> path \<times> nat \<times> nat" where
  "diagnostic_key d = (severity_rank (dg_severity d), dg_file d, dg_line d, dg_column d)"

definition report_diagnostics :: "('l, 'g, 'n) cmd_env \<Rightarrow> output_mode \<Rightarrow> bool \<Rightarrow> diagnostic list \<Rightarrow> ran" where
  "report_diagnostics env mode pretty found =
     (let ds = sort_key diagnostic_key found in
      if ds = [] \<and> mode \<noteq> Json then Exits [] [] ExitSuccess
      else
        Exits (print_output (format_diagnostics (style_of env pretty) ds mode)) []
          (if ds = [] then ExitSuccess
           else if list_ex (\<lambda>d. dg_severity d = SevError) ds then ExitParseWarning else ExitSuccess))"

definition diagnostics_run ::
  "('l, 'g, 'n) cmd_env \<Rightarrow> path option \<Rightarrow> path option \<Rightarrow> path option \<Rightarrow> output_mode \<Rightarrow> bool \<Rightarrow> bool
    \<Rightarrow> client_world \<Rightarrow> ran \<times> client_world" where
  "diagnostics_run env file project scope mode pretty use_cache w =
     (case file of
        Some p \<Rightarrow>
          (with_root env project (\<lambda>root.
             let absolute = absolute_file env p in
             if \<not> fx_exists (cm_find env) absolute then not_found p
             else
               (case builtin_parser env absolute of
                  None \<Rightarrow> unsupported absolute
                | Some (Inl e) \<Rightarrow> Fails e
                | Some (Inr parse) \<Rightarrow>
                    parse_file env parse absolute (\<lambda>source tree.
                      report_diagnostics env mode pretty
                        (extract_syntax_errors (cm_has_error env) tree
                          (case strip_prefix_path absolute root of Some r \<Rightarrow> r | None \<Rightarrow> absolute))))), w)
      | None \<Rightarrow>
          with_scan env project scope use_cache w (\<lambda>root scan w'.
            (report_diagnostics env mode pretty
               (concat (map (\<lambda>fs. extract_syntax_errors (cm_has_error env) (fs_tree fs) (fs_file fs)) scan)), w')))"


section \<open>What is printed and the exit code\<close>

text \<open>Whole lines on one of the two outputs; a failure says something on standard error only.\<close>

definition whole_lines :: "string \<Rightarrow> bool" where
  "whole_lines s \<longleftrightarrow> s = [] \<or> suffix nl s"

definition exit_contract :: "ran \<Rightarrow> bool" where
  "exit_contract r \<longleftrightarrow>
     (case r of
        Exits out err code \<Rightarrow>
          whole_lines out \<and> whole_lines err \<and> (out = [] \<or> err = []) \<and>
          (code = ExitUsageError \<or> code = ExitProjectError \<longrightarrow> out = [] \<and> err \<noteq> [])
      | _ \<Rightarrow> True)"

lemma whole_lines_simps [simp]:
  "whole_lines []" "whole_lines (println s)" "whole_lines (print_output s)" "println s \<noteq> []"
  by (simp_all add: whole_lines_def println_def print_output_def suffix_def)

lemma exit_contract_simps [simp]:
  "exit_contract (Fails e)" "exit_contract Crashes" "exit_contract Waits"
  "exit_contract (Exits [] [] ExitSuccess)"
  "whole_lines out \<Longrightarrow> code = ExitSuccess \<or> code = ExitParseWarning \<Longrightarrow> exit_contract (Exits out [] code)"
  "exit_contract (Exits [] (println e) code)"
  by (auto simp: exit_contract_def)

lemma warn_code_fine [simp]: "warn_code env tree = ExitSuccess \<or> warn_code env tree = ExitParseWarning"
  by (simp add: warn_code_def)

lemma print_results_contract [simp]: "exit_contract (print_results none mode s)"
  by (simp add: print_results_def)

lemma with_root_contract: "(\<And>root. exit_contract (k root)) \<Longrightarrow> exit_contract (with_root env project k)"
  by (simp add: with_root_def split: sum.split)

lemma with_scan_contract:
  "(\<And>root scan w'. exit_contract (fst (k root scan w'))) \<Longrightarrow> exit_contract (fst (with_scan env project scope uc w k))"
  by (simp add: with_scan_def split: sum.split prod.split)

lemma parse_file_contract:
  "(\<And>source tree. exit_contract (k source tree)) \<Longrightarrow> exit_contract (parse_file env parse absolute k)"
  by (simp add: parse_file_def unreadable_def split: option.split)

lemma with_file_contract:
  assumes "\<And>a r source tree. exit_contract (k a r source tree)"
  shows "exit_contract (with_file env parser_for p project k)"
  unfolding with_file_def Let_def
  by (intro with_root_contract)
    (auto simp: not_found_def unsupported_def assms intro!: parse_file_contract split: option.split sum.split)

lemma settle_contract: "(\<And>a. exit_contract (show a)) \<Longrightarrow> exit_contract (fst (settle show w result))"
  by (simp add: settle_def split: outcome.split prod.split)

lemma search_run_contract: "exit_contract (search_run env symbol project scope mode lang_filter show)"
  by (simp add: search_run_def split: sum.split)

lemma report_diagnostics_contract: "exit_contract (report_diagnostics env mode pretty found)"
  by (simp add: report_diagnostics_def Let_def)

lemma file_commands_contract:
  "exit_contract (outline_run env p project mode pretty)"
  "exit_contract (imports_run env p project mode pretty)"
  "exit_contract (context_run env loc project mode pretty depth)"
  "exit_contract (hover_run env loc project mode pretty)"
proof -
  show "exit_contract (outline_run env p project mode pretty)"
    unfolding outline_run_def by (rule with_file_contract) (simp add: Let_def)
  show "exit_contract (imports_run env p project mode pretty)"
    unfolding imports_run_def by (rule with_file_contract) (simp split: option.split)
  show "exit_contract (context_run env loc project mode pretty depth)"
    unfolding context_run_def
    by (auto intro!: with_file_contract simp: Let_def split: option.split context_result.split)
  show "exit_contract (hover_run env loc project mode pretty)"
    unfolding hover_run_def
    by (auto intro!: with_file_contract simp: Let_def split: option.split)
qed

lemma search_commands_contract:
  "exit_contract (body_run env symbol project scope mode pretty lang_filter)"
  "exit_contract (sig_run env symbol project scope mode pretty lang_filter)"
  "exit_contract (fst (def_run env symbol project scope mode pretty lang_filter semantic w))"
  by (simp_all add: body_run_def sig_run_def search_run_contract def_run_def Let_def settle_contract split: sum.split)

lemma scan_commands_contract:
  "exit_contract (fst (symbols_run env project scope kind limit mode pretty uc w))"
  "exit_contract (fst (tree_run env p project scope mode pretty depth uc w))"
  "exit_contract (fst (search_cmd_run env pattern project scope mode pretty limit uc lang_filter w))"
  "exit_contract (fst (dead_run env project scope kind limit mode pretty uc w))"
  "exit_contract (fst (callchain_run env symbol n project scope mode pretty uc w))"
  "exit_contract (fst (hierarchy_run env symbol project scope lang_filter mode pretty uc w))"
  unfolding symbols_run_def tree_run_def search_cmd_run_def dead_run_def callchain_run_def hierarchy_run_def Let_def
  by (rule with_scan_contract; simp split: sum.split)+

lemma reference_commands_contract:
  "exit_contract (fst (refs_cmd_run env symbol project scope mode pretty n uc semantic w))"
  "exit_contract (fst (callers_cmd_run env symbol project scope mode pretty n uc semantic w))"
  unfolding refs_cmd_run_def callers_cmd_run_def
  by (rule with_scan_contract, rule settle_contract, simp split: prod.split)+

lemma rename_contract:
  "exit_contract (fst (rename_cmd_run env old new apl dry project scope lang_filter mode pretty uc w))"
  unfolding rename_cmd_run_def
  by (rule with_scan_contract) (simp split: option.split sum.split prod.split rename_error.split)

lemma deps_contract: "exit_contract (fst (deps_cmd_run env symbol project scope mode pretty lang_filter uc w))"
  by (simp add: deps_cmd_run_def Let_def split: option.split sum.split prod.split)

lemma diagnostics_contract: "exit_contract (fst (diagnostics_run env p project scope mode pretty uc w))"
proof (cases p)
  case None
  then show ?thesis
    by (simp add: diagnostics_run_def with_scan_contract report_diagnostics_contract)
next
  case (Some q)
  then show ?thesis
    by (auto simp: diagnostics_run_def Let_def not_found_def unsupported_def
        intro!: with_root_contract parse_file_contract report_diagnostics_contract split: option.split sum.split)
qed

lemmas command_contracts =
  file_commands_contract search_commands_contract scan_commands_contract reference_commands_contract
  rename_contract deps_contract diagnostics_contract


section \<open>The narrowing of \<open>def\<close>\<close>

lemma definition_answers_at_query:
  assumes "semantic_definition env root lang p line column w = Returns (Inr rs, w')" "r \<in> set rs"
  shows "rr_file r = p \<and> rr_line r = line"
proof -
  obtain started w1 where s: "start_opened env root lang p DEFAULT_INDEX_WAIT w = Returns (started, w1)"
    using assms(1) by (cases "start_opened env root lang p DEFAULT_INDEX_WAIT w")
      (auto simp: semantic_definition_def semantic_definition_with_wait_def)
  with assms(1) obtain server full_file source where "started = Inr (server, full_file, source)"
    by (cases started) (auto simp: semantic_definition_def semantic_definition_with_wait_def)
  with assms(1) s obtain t where t: "find_definition env server full_file line column w1 = Returns t"
    by (cases "find_definition env server full_file line column w1")
      (auto simp: semantic_definition_def semantic_definition_with_wait_def)
  with assms(1) s \<open>started = _\<close> obtain res w2 where f: "finish_query env t = Returns (res, w2)"
    by (cases "finish_query env t") (auto simp: semantic_definition_def semantic_definition_with_wait_def)
  with assms(1) s t \<open>started = _\<close> obtain locs where "res = Inr locs" "rs = map (definition_ref p line column) locs"
    by (cases res) (auto simp: semantic_definition_def semantic_definition_with_wait_def)
  with assms(2) show ?thesis by (auto simp: definition_ref_def semantic_ref_def Let_def)
qed

lemma disambiguate_first:
  assumes "disambiguate env matches project w = Returns (Some ms, w')"
  shows "ms = filter (\<lambda>m. sym_position m = sym_position (hd matches)) matches"
proof -
  obtain root where root: "detect_project_root_or (fx_canonicalize (cm_find env)) (fx_exists (cm_find env)) (cm_cwd env) project
      = Inr root"
    using assms by (auto simp: disambiguate_def split: sum.splits)
  obtain w1 where running: "daemon_running (cm_client env) root w = (True, w1)"
    using assms root by (cases "daemon_running (cm_client env) root w") (auto simp: disambiguate_def split: bool.splits)
  obtain first rest where m: "matches = first # rest"
    using assms root running by (cases matches) (auto simp: disambiguate_def)
  obtain lang where lang: "scan_language (cm_exts env) (sym_file first) = Some lang"
    using assms root running m by (cases "scan_language (cm_exts env) (sym_file first)") (auto simp: disambiguate_def)
  let ?ask = "semantic_definition (cm_client env) root lang (sym_file first) (sym_line first) (sym_column first) w1"
  obtain answer w2 where a: "?ask = Returns (answer, w2)"
    using assms root running m lang by (cases ?ask) (auto simp: disambiguate_def)
  with assms root running m lang obtain rs where rs: "answer = Inr rs"
    and "disambiguate_with_lsp matches True (Some (map (\<lambda>r. (rr_file r, rr_line r)) rs)) = Some ms"
    by (cases answer) (auto simp: disambiguate_def)
  then obtain r where "rs = [r]" and ms: "ms = filter (\<lambda>m. sym_position m = (rr_file r, rr_line r)) matches"
    by (auto simp: disambiguate_with_lsp_def Let_def split: list.splits if_splits)
  with definition_answers_at_query[of "cm_client env" root lang "sym_file first" "sym_line first" "sym_column first" w1 rs w2 r]
    a rs m
  show ?thesis by (simp add: sym_position_def)
qed

text \<open>
  C31: \<open>def\<close> with several matches and a language server shows either all of them or those at the
  place of the first one: the place that the server answers with is never used, because an answer is
  recorded under the place that was asked about and the narrowing compares with that.
\<close>
theorem def_ignores_answer:
  "case find_symbols_by_name (cm_find env) (cm_cwd env) symbol project scope lang_filter of
     Inl e \<Rightarrow> fst (def_run env symbol project scope mode pretty lang_filter semantic w) = Fails (find_error_display e)
   | Inr matches \<Rightarrow>
       fst (def_run env symbol project scope mode pretty lang_filter semantic w) \<in>
         {Waits, Crashes,
          print_results (matches = []) mode (format_def (style_of env pretty) matches symbol mode),
          print_results False mode
            (format_def (style_of env pretty)
              (filter (\<lambda>m. sym_position m = sym_position (hd matches)) matches) symbol mode)}"
proof (cases "find_symbols_by_name (cm_find env) (cm_cwd env) symbol project scope lang_filter")
  case (Inl e)
  then show ?thesis by (simp add: def_run_def)
next
  case (Inr matches)
  let ?asked = "semantic \<noteq> ModeOff \<and> 1 < length matches"
  show ?thesis
  proof (cases ?asked)
    case False
    with Inr show ?thesis by (auto simp: def_run_def settle_def Let_def)
  next
    case True
    show ?thesis
    proof (cases "disambiguate env matches project w")
      case (Returns res)
      obtain narrowed w' where res: "res = (narrowed, w')" by (cases res)
      show ?thesis
      proof (cases narrowed)
        case None
        with True Inr Returns res show ?thesis by (simp add: def_run_def settle_def)
      next
        case (Some ms)
        from disambiguate_first[of env matches project w ms w'] Returns res Some
        have ms: "ms = filter (\<lambda>m. sym_position m = sym_position (hd matches)) matches" by simp
        moreover have "ms \<noteq> []"
        proof -
          have "hd matches \<in> set ms" using True ms by (cases matches) auto
          then show ?thesis by auto
        qed
        then have "fst (def_run env symbol project scope mode pretty lang_filter semantic w) =
            print_results False mode (format_def (style_of env pretty) ms symbol mode)"
          using True Inr Returns res Some by (simp add: def_run_def settle_def)
        ultimately show ?thesis using Inr by simp
      qed
    qed (use True Inr in \<open>simp_all add: def_run_def settle_def\<close>)
  qed
qed

section \<open>Searching\<close>

text \<open>
  C30: A structural search over a project reports exactly the matches of the files whose grammar
  accepts the query, in the order of file, line and column, cut at the limit; it fails exactly when
  there were files to ask and every one of them refused, with the reason of the last.
\<close>
theorem search_reports_accepted:
  "case search_matches env root pattern lang_filter limit scan of
     Inl e \<Rightarrow> (\<exists>answers a.
       search_answers env root pattern lang_filter scan = map Inl (answers @ [a]) \<and> e = ''query error: '' @ a)
   | Inr ms \<Rightarrow>
       list_all isl (search_answers env root pattern lang_filter scan) =
         (search_answers env root pattern lang_filter scan = []) \<and>
       (\<exists>all. ms = (case limit of None \<Rightarrow> all | Some n \<Rightarrow> take n all) \<and> sorted (map match_key all) \<and>
       mset all = (\<Sum>a \<leftarrow> search_answers env root pattern lang_filter scan. case a of Inl _ \<Rightarrow> {#} | Inr found \<Rightarrow> mset found))"
proof -
  define answers where "answers = search_answers env root pattern lang_filter scan"
  let ?found = "List.map_filter (case_sum (\<lambda>_. None) Some) answers"
  let ?errors = "List.map_filter (case_sum Some (\<lambda>_. None)) answers"
  have "mset (concat ?found) = (\<Sum>a \<leftarrow> answers. case a of Inl _ \<Rightarrow> {#} | Inr found \<Rightarrow> mset found)"
    by (induction answers) (auto simp: map_filter_simps split: sum.split)
  moreover have "\<exists>as. answers = map Inl as @ [Inl (last ?errors)]" if none: "?found = []" "?errors \<noteq> []"
  proof -
    have "answers = map Inl ?errors"
      using none(1) by (induction answers) (auto simp: map_filter_simps split: sum.splits)
    also have "\<dots> = map Inl (butlast ?errors @ [last ?errors])" by (subst append_butlast_last_id[OF none(2)]) (rule refl)
    finally show ?thesis by auto
  qed
  moreover have "list_all isl answers \<longleftrightarrow> ?found = []"
    by (induction answers) (auto simp: map_filter_simps split: sum.splits)
  moreover have "?found = [] \<Longrightarrow> ?errors = [] \<longleftrightarrow> answers = []"
    by (induction answers) (auto simp: map_filter_simps split: sum.splits)
  ultimately show ?thesis
    unfolding search_matches_def Let_def answers_def[symmetric]
    by (auto simp: truncate_to_def split: option.split intro!: exI[of _ "sort_key match_key (concat ?found)"])
qed


section \<open>What queries write\<close>

text \<open>The worlds that differ at most in the cache files; without a cache they are equal.\<close>

definition cache_only :: "('l, 'g, 'n) cmd_env \<Rightarrow> bool \<Rightarrow> client_world \<Rightarrow> client_world \<Rightarrow> bool" where
  "cache_only env uc w w' \<longleftrightarrow>
     (\<exists>d. w' = w\<lparr>kw_disk := d\<rparr> \<and>
       (\<forall>q. (\<forall>root. cc_path (cm_cache env) root \<noteq> Some q) \<longrightarrow> disk_files d q = disk_files (kw_disk w) q) \<and>
       (\<not> uc \<longrightarrow> d = kw_disk w))"

lemma cache_only_refl [simp]: "cache_only env uc w w"
  by (auto simp: cache_only_def intro!: exI[of _ "kw_disk w"])

lemma cache_store_elsewhere: "q \<noteq> p \<Longrightarrow> disk_files (snd (cache_store serialize d p fs)) q = disk_files d q"
  by (auto simp: cache_store_def disk_write_def split: sum.split option.split prod.split)

lemma scan_writes:
  assumes "scan_project_cached se cfg d root scope uc = (res, d')" and "\<And>r. cc_path cfg r \<noteq> Some q"
  shows "disk_files d' q = disk_files d q"
  using assms(1) cache_store_elsewhere[of q] assms(2)[of root]
  by (auto simp: scan_project_cached_def split: if_splits option.splits sum.splits)

lemma scanned_cache_only:
  assumes "scan_project_cached se (cm_cache env) (kw_disk w) root scope uc = (res, d)"
  shows "cache_only env uc w (w\<lparr>kw_disk := d\<rparr>)"
  using scan_writes[OF assms] assms
  by (auto simp: cache_only_def scan_project_cached_def intro!: exI[of _ d])

lemma with_scan_cache_only:
  assumes "\<And>root scan w'. snd (k root scan w') = w'"
  shows "cache_only env uc w (snd (with_scan env project scope uc w k))"
  using assms by (auto simp: with_scan_def scanned_cache_only split: sum.split prod.split)

lemma queries_change_cache:
  "list_all (\<lambda>(uc, w'). cache_only env uc w w')
     [(uc, snd (symbols_run env project scope kind limit mode pretty uc w)),
      (uc, snd (tree_run env dir project scope mode pretty depth uc w)),
      (uc, snd (search_cmd_run env pattern project scope mode pretty limit uc lang_filter w)),
      (uc, snd (dead_run env project scope kind limit mode pretty uc w)),
      (uc, snd (callchain_run env symbol n project scope mode pretty uc w)),
      (uc, snd (hierarchy_run env symbol project scope lang_filter mode pretty uc w)),
      (uc, snd (deps_cmd_run env symbol project scope mode pretty lang_filter uc w)),
      (uc, snd (diagnostics_run env checked project scope mode pretty uc w))]"
proof -
  have "cache_only env uc w (snd (deps_cmd_run env symbol project scope mode pretty lang_filter uc w))"
    by (auto simp: deps_cmd_run_def Let_def scanned_cache_only split: sum.split option.split prod.split)
  moreover have "cache_only env uc w (snd (diagnostics_run env checked project scope mode pretty uc w))"
    by (auto simp: diagnostics_run_def intro!: with_scan_cache_only split: option.split)
  ultimately show ?thesis
    by (auto simp: symbols_run_def tree_run_def search_cmd_run_def dead_run_def callchain_run_def hierarchy_run_def
        Let_def intro!: with_scan_cache_only)
qed

end
