(* ===== verification/Grammar_Packages.thy ===== *)
theory Grammar_Packages
  imports Extract_Engine "HOL-Library.AList"
begin

text \<open>
  The language packages of \<open>cq grammar\<close> (\<open>commands/grammar.rs\<close>): the registry, listing, installing,
  updating, removing and validating. The packages live in a directory tree, kept as a list of its
  entries with directories marked; the operating system resolves \<open>..\<close> in a path by dropping the
  component before it (there are no links). \<open>curl\<close>, \<open>tar\<close>, failures of the file system and the
  decoding of the registry and of \<open>extract.toml\<close> are parameters.
\<close>

section \<open>Directory trees\<close>

type_synonym dir_tree = "(path \<times> string option) list"

fun resolve_dots :: "path \<Rightarrow> path \<Rightarrow> path" where
  "resolve_dots acc [] = acc"
| "resolve_dots acc (ParentDir # cs) = resolve_dots (if acc = [] \<or> acc = [RootDir] then acc else butlast acc) cs"
| "resolve_dots acc (CurDir # cs) = resolve_dots acc cs"
| "resolve_dots acc (c # cs) = resolve_dots (acc @ [c]) cs"

definition real_path :: "path \<Rightarrow> path" where
  "real_path p = resolve_dots [] p"

definition tree_exists :: "dir_tree \<Rightarrow> path \<Rightarrow> bool" where
  "tree_exists t p \<longleftrightarrow> map_of t (real_path p) \<noteq> None"

definition tree_read :: "dir_tree \<Rightarrow> path \<Rightarrow> string option" where
  "tree_read t p = Option.bind (map_of t (real_path p)) id"

text \<open>The names of the directories in a directory, sorted; \<open>entry.path().is_dir()\<close>.\<close>

definition child_dirs :: "dir_tree \<Rightarrow> path \<Rightarrow> string list" where
  "child_dirs t p =
     sort (List.map_filter (\<lambda>(q, e).
       if e = None \<and> path_parent q = Some (real_path p) then path_file_name q else None) t)"

definition remove_tree :: "dir_tree \<Rightarrow> path \<Rightarrow> dir_tree" where
  "remove_tree t p = filter (\<lambda>(q, e). \<not> path_starts_with q (real_path p)) t"

definition put_entry :: "dir_tree \<Rightarrow> path \<times> string option \<Rightarrow> dir_tree" where
  "put_entry t qe = (case qe of (q, e) \<Rightarrow> if map_of t q = None then t @ [qe] else AList.update q e t)"

text \<open>The directory and those above it that are missing.\<close>

definition make_dirs :: "dir_tree \<Rightarrow> path \<Rightarrow> dir_tree" where
  "make_dirs t p =
     t @ map (\<lambda>q. (q, None)) (filter (\<lambda>q. q \<noteq> [] \<and> map_of t q = None) (prefixes (real_path p)))"

section \<open>The registry\<close>

record language_package =
  lp_name :: string
  lp_display_name :: string
  lp_description :: string
  lp_extensions :: "string list"
  lp_capabilities :: "string list"
  lp_lsp_server :: "string option"
  lp_grammar_repo :: "string option"

record registry =
  rg_version :: string
  rg_grammar_release_tag :: string
  rg_languages :: "language_package list"

definition DEFAULT_GRAMMAR_RELEASE_TAG :: string where
  "DEFAULT_GRAMMAR_RELEASE_TAG = ''grammars-v1''"

definition REGISTRY_URL :: string where
  "REGISTRY_URL = ''https://raw.githubusercontent.com/jmfirth/codequery/main/languages/registry.json''"

definition RELEASE_BASE_URL :: string where
  "RELEASE_BASE_URL = ''https://github.com/jmfirth/codequery/releases/download''"

text \<open>The outside: \<open>curl\<close> gives the bytes at an address or fails; \<open>tar\<close>, run on an archive with a
  directory to unpack to, gives the entries it wrote (by their whole paths, wherever they are) and
  whether it succeeded.\<close>

record package_env =
  pe_registry_json :: string
  pe_parse_registry :: "string \<Rightarrow> string + registry"
  pe_languages_dir :: "path option"
  pe_registry_cache :: "path option"
  pe_curl :: "string \<Rightarrow> string option"
  pe_curl_writes :: "path \<Rightarrow> bool"
  pe_tar :: "path \<Rightarrow> string \<Rightarrow> (path \<times> string option) list \<times> bool"
  pe_mkdir_error :: "path \<Rightarrow> string option"
  pe_remove_error :: "path \<Rightarrow> string option"

record package_world =
  gw_tree :: dir_tree
  gw_out :: string
  gw_err :: string

abbreviation line_end :: string where
  "line_end \<equiv> [CHR 0x0A]"

definition say :: "string \<Rightarrow> package_world \<Rightarrow> package_world" where
  "say s w = w\<lparr>gw_out := gw_out w @ s @ line_end\<rparr>"

definition warn :: "string \<Rightarrow> package_world \<Rightarrow> package_world" where
  "warn s w = w\<lparr>gw_err := gw_err w @ s @ line_end\<rparr>"

text \<open>Exit codes, and the error that ends the command.\<close>

datatype package_code = PkgSuccess | PkgUsageError | PkgProjectError

definition load_registry :: "package_env \<Rightarrow> dir_tree \<Rightarrow> string + registry" where
  "load_registry env t =
     (let baked_in = map_sum (\<lambda>e. ''failed to parse language registry: '' @ e) id
            (pe_parse_registry env (pe_registry_json env)) in
      case pe_registry_cache env of
        None \<Rightarrow> baked_in
      | Some p \<Rightarrow>
          (case tree_read t p of
             None \<Rightarrow> baked_in
           | Some cached \<Rightarrow>
               (case pe_parse_registry env cached of Inr r \<Rightarrow> Inr r | Inl _ \<Rightarrow> baked_in)))"

definition find_package :: "registry \<Rightarrow> string \<Rightarrow> language_package option" where
  "find_package r name = List.find (\<lambda>l. lp_name l = name) (rg_languages r)"

definition find_package_for_extension :: "package_env \<Rightarrow> dir_tree \<Rightarrow> string \<Rightarrow> string option" where
  "find_package_for_extension env t ext =
     (case load_registry env t of
        Inl _ \<Rightarrow> None
      | Inr r \<Rightarrow>
          (let dot_ext = (if starts_with ''.'' ext then ext else ''.'' @ ext) in
           map_option lp_name (List.find (\<lambda>l. dot_ext \<in> set (lp_extensions l)) (rg_languages r))))"

definition find_package_for_extension_or_name :: "package_env \<Rightarrow> dir_tree \<Rightarrow> string \<Rightarrow> string option" where
  "find_package_for_extension_or_name env t query =
     (case load_registry env t of
        Inl _ \<Rightarrow> None
      | Inr r \<Rightarrow>
          (case find_package r query of
             Some p \<Rightarrow> Some (lp_name p)
           | None \<Rightarrow> find_package_for_extension env t query))"

section \<open>Listing\<close>

definition find_installed :: "dir_tree \<Rightarrow> path \<Rightarrow> string list" where
  "find_installed t ldir = child_dirs t ldir"

definition installed_packages :: "package_env \<Rightarrow> dir_tree \<Rightarrow> string list" where
  "installed_packages env t = (case pe_languages_dir env of Some d \<Rightarrow> find_installed t d | None \<Rightarrow> [])"

text \<open>\<open>{:<12}\<close> pads on the right to twelve characters.\<close>

definition pad12 :: "string \<Rightarrow> string" where
  "pad12 s = s @ replicate (12 - length s) CHR '' ''"

definition package_line :: "language_package \<Rightarrow> string" where
  "package_line p =
     ''  '' @ pad12 (lp_name p) @ lp_description p @ '' ('' @ join_with '' + '' (lp_capabilities p) @ '')''"

definition says :: "string list \<Rightarrow> package_world \<Rightarrow> package_world" where
  "says ls w = fold say ls w"

definition run_list :: "package_env \<Rightarrow> package_world \<Rightarrow> (string + package_code) \<times> package_world" where
  "run_list env w =
     (case load_registry env (gw_tree w) of
        Inl e \<Rightarrow> (Inl e, w)
      | Inr r \<Rightarrow>
          (let installed = installed_packages env (gw_tree w);
               available = filter (\<lambda>l. lp_name l \<notin> set installed) (rg_languages r) in
           (Inr PkgSuccess,
            says
              ([''Installed:''] @
               (if installed = [] then [''  (none)'']
                else map (\<lambda>name. case find_package r name of Some p \<Rightarrow> package_line p | None \<Rightarrow> ''  '' @ name) installed) @
               [[], ''Available ('' @ dec (length (rg_languages r)) @ '' languages '' @
                    [CHR 0xE2, CHR 0x80, CHR 0x94] @ '' auto-install on first use):''] @
               (if available = [] then [''  (all packages installed)''] else map package_line available)) w)))"


section \<open>Installing\<close>

definition check_mark :: string where
  "check_mark = [CHR 0xE2, CHR 0x9C, CHR 0x93]"

definition package_dir :: "path \<Rightarrow> string \<Rightarrow> path" where
  "package_dir ldir language = path_join ldir (path_of_string language)"

definition archive_url :: "string \<Rightarrow> string \<Rightarrow> string" where
  "archive_url tag language = RELEASE_BASE_URL @ ''/'' @ tag @ ''/lang-'' @ language @ ''.tar.gz''"

text \<open>What \<open>tar\<close> wrote.\<close>

definition unpack :: "dir_tree \<Rightarrow> (path \<times> string option) list \<Rightarrow> dir_tree" where
  "unpack t entries = fold (\<lambda>e t. put_entry t e) entries t"

definition present_parts :: "dir_tree \<Rightarrow> path \<Rightarrow> string list" where
  "present_parts t p =
     (case tree_read t (p @ [Normal ''grammar.wasm'']) of
        Some c \<Rightarrow> if 100 < length c then [''  grammar.wasm    '' @ check_mark] else []
      | None \<Rightarrow> []) @
     (if tree_exists t (p @ [Normal ''extract.toml'']) then [''  extract.toml    '' @ check_mark] else []) @
     (if tree_exists t (p @ [Normal ''lsp.toml'']) then [''  lsp.toml        '' @ check_mark] else []) @
     (if tree_exists t (p @ [Normal ''stack-graphs.tsg'']) then [''  stack-graphs.tsg '' @ check_mark] else [])"

text \<open>\<open>let _ = remove_dir_all(..)\<close>.\<close>

definition try_remove :: "package_env \<Rightarrow> path \<Rightarrow> dir_tree \<Rightarrow> dir_tree" where
  "try_remove env p t = (if pe_remove_error env p = None then remove_tree t p else t)"

definition warns :: "string list \<Rightarrow> package_world \<Rightarrow> package_world" where
  "warns ls w = fold warn ls w"

definition run_install ::
  "package_env \<Rightarrow> string \<Rightarrow> string option \<Rightarrow> package_world \<Rightarrow> (string + package_code) \<times> package_world" where
  "run_install env language tag_override w =
     (case load_registry env (gw_tree w) of
        Inl e \<Rightarrow> (Inl e, w)
      | Inr r \<Rightarrow>
          (if find_package r language = None then
             (Inr PkgUsageError,
              warns [''unknown language: '' @ language, ''available: '' @ join_with '', '' (map lp_name (rg_languages r))] w)
           else
             (case pe_languages_dir env of
                None \<Rightarrow> (Inl ''cannot determine languages directory'', w)
              | Some ldir \<Rightarrow>
                  (let p = package_dir ldir language in
                   if tree_exists (gw_tree w) p then
                     (Inr PkgSuccess, warn (language @ '' is already installed at '' @ path_display p) w)
                   else
                     (let tag = (case tag_override of Some t \<Rightarrow> t | None \<Rightarrow> rg_grammar_release_tag r);
                          url = archive_url tag language;
                          w1 = warns [''Downloading '' @ language @ '' language package (tag '' @ tag @ '')...'',
                                      ''  from: '' @ url] w in
                      case pe_curl env url of
                        None \<Rightarrow>
                          (Inr PkgProjectError,
                           warns
                             [''error: failed to download '' @ language @ '' language package.'',
                              ''Release tag '' @ [CHR 0x27] @ tag @ [CHR 0x27] @ '' may not exist yet.'', [],
                              ''All 71 languages auto-install as WASM plugins on first use.'',
                              ''If you have a language server installed, use --semantic'',
                              ''for '' @ language @ '' support without a grammar package.''] w1)
                      | Some archive \<Rightarrow>
                          (case pe_mkdir_error env p of
                             Some e \<Rightarrow> (Inl (''failed to create directory: '' @ e), w1)
                           | None \<Rightarrow>
                               (case pe_tar env (real_path p) archive of
                                  (entries, ok) \<Rightarrow>
                                    (let t = unpack (make_dirs (gw_tree w1) p) entries in
                                     if ok then
                                       (Inr PkgSuccess,
                                        warns (present_parts t p @ [''Installed to '' @ path_display p @ ''/''])
                                          (w1\<lparr>gw_tree := t\<rparr>))
                                     else
                                       (Inr PkgProjectError,
                                        warn (''error: failed to extract language package for '' @ language)
                                          (w1\<lparr>gw_tree := try_remove env p t\<rparr>))))))))))"

fun install_missing ::
  "package_env \<Rightarrow> path \<Rightarrow> string option \<Rightarrow> language_package list \<Rightarrow> nat \<Rightarrow> package_world
    \<Rightarrow> (string + nat) \<times> package_world" where
  "install_missing env ldir tag [] n w = (Inr n, w)"
| "install_missing env ldir tag (p # ps) n w =
     (if tree_exists (gw_tree w) (package_dir ldir (lp_name p))
      then install_missing env ldir tag ps n w
      else
        (case run_install env (lp_name p) tag w of
           (Inl e, w') \<Rightarrow> (Inl e, w')
         | (Inr _, w') \<Rightarrow> install_missing env ldir tag ps (n + 1) w'))"

definition run_install_all ::
  "package_env \<Rightarrow> string option \<Rightarrow> package_world \<Rightarrow> (string + package_code) \<times> package_world" where
  "run_install_all env tag w =
     (case load_registry env (gw_tree w) of
        Inl e \<Rightarrow> (Inl e, w)
      | Inr r \<Rightarrow>
          (case pe_languages_dir env of
             None \<Rightarrow> (Inl ''cannot determine languages directory'', w)
           | Some d \<Rightarrow>
               (case install_missing env d tag (rg_languages r) 0 w of
                  (Inl e, w') \<Rightarrow> (Inl e, w')
                | (Inr n, w') \<Rightarrow>
                    (Inr PkgSuccess,
                     warn (if n = 0 then ''all available packages are already installed''
                       else ''Installed '' @ dec n @ '' package(s)'') w'))))"

section \<open>Updating and removing\<close>

definition refresh_registry :: "package_env \<Rightarrow> package_world \<Rightarrow> package_world" where
  "refresh_registry env w =
     (case pe_registry_cache env of
        None \<Rightarrow> w
      | Some p \<Rightarrow>
          (case pe_curl env REGISTRY_URL of
             Some bytes \<Rightarrow>
               if pe_curl_writes env p
               then warn (''  registry updated from '' @ REGISTRY_URL)
                 (w\<lparr>gw_tree := put_entry (gw_tree w) (real_path p, Some bytes)\<rparr>)
               else warn ''  registry refresh failed (using baked-in version)'' w
           | None \<Rightarrow> warn ''  registry refresh failed (using baked-in version)'' w))"

definition remove_failed :: "path \<Rightarrow> string \<Rightarrow> string" where
  "remove_failed p e = ''failed to remove '' @ path_display p @ '': '' @ e"

fun reinstall ::
  "package_env \<Rightarrow> path \<Rightarrow> string list \<Rightarrow> package_world \<Rightarrow> (string + unit) \<times> package_world" where
  "reinstall env ldir [] w = (Inr (), w)"
| "reinstall env ldir (name # names) w =
     (let p = package_dir ldir name; there = tree_exists (gw_tree w) p in
      case (if there then pe_remove_error env p else None) of
        Some e \<Rightarrow> (Inl (remove_failed p e), w)
      | None \<Rightarrow>
          (case run_install env name None (if there then w\<lparr>gw_tree := remove_tree (gw_tree w) p\<rparr> else w) of
             (Inl e, w') \<Rightarrow> (Inl e, w')
           | (Inr _, w') \<Rightarrow> reinstall env ldir names w'))"

definition run_update :: "package_env \<Rightarrow> package_world \<Rightarrow> (string + package_code) \<times> package_world" where
  "run_update env w =
     (let w1 = refresh_registry env (warn ''Refreshing language registry...'' w) in
      case pe_languages_dir env of
        None \<Rightarrow> (Inl ''cannot determine languages directory'', w1)
      | Some d \<Rightarrow>
          (let installed = find_installed (gw_tree w1) d in
           if installed = [] then
             (Inr PkgSuccess, warn ''No language packages installed. Use: cq grammar install <lang>'' w1)
           else
             (case load_registry env (gw_tree w1) of
                Inl e \<Rightarrow> (Inl e, w1)
              | Inr r \<Rightarrow>
                  (case reinstall env d installed
                          (warn (''Updating '' @ dec (length installed) @ '' package(s) (tag '' @
                             rg_grammar_release_tag r @ '')...'') w1) of
                     (Inl e, w2) \<Rightarrow> (Inl e, w2)
                   | (Inr _, w2) \<Rightarrow> (Inr PkgSuccess, warn ''Update complete'' w2)))))"

definition run_remove :: "package_env \<Rightarrow> string \<Rightarrow> package_world \<Rightarrow> (string + package_code) \<times> package_world" where
  "run_remove env language w =
     (case pe_languages_dir env of
        None \<Rightarrow> (Inl ''cannot determine languages directory'', w)
      | Some d \<Rightarrow>
          (let p = package_dir d language in
           if \<not> tree_exists (gw_tree w) p then (Inr PkgSuccess, warn (language @ '' is not installed'') w)
           else
             (case pe_remove_error env p of
                Some e \<Rightarrow> (Inl (remove_failed p e), w)
              | None \<Rightarrow> (Inr PkgSuccess, warn (''Removed '' @ language) (w\<lparr>gw_tree := remove_tree (gw_tree w) p\<rparr>)))))"

definition run_info :: "package_env \<Rightarrow> string \<Rightarrow> package_world \<Rightarrow> (string + package_code) \<times> package_world" where
  "run_info env language w =
     (case load_registry env (gw_tree w) of
        Inl e \<Rightarrow> (Inl e, w)
      | Inr r \<Rightarrow>
          (case find_package r language of
             None \<Rightarrow> (Inr PkgSuccess, warn (''unknown language: '' @ language) w)
           | Some p \<Rightarrow>
               (let installed = (case pe_languages_dir env of
                     Some d \<Rightarrow> tree_exists (gw_tree w) (package_dir d language) | None \<Rightarrow> False) in
                (Inr PkgSuccess,
                 says
                   ([''Language:     '' @ lp_display_name p, ''Description:  '' @ lp_description p,
                     ''Extensions:   '' @ join_with '', '' (lp_extensions p),
                     ''Capabilities: '' @ join_with '', '' (lp_capabilities p)] @
                    (case lp_lsp_server p of Some lsp \<Rightarrow> [''LSP server:   '' @ lsp] | None \<Rightarrow> []) @
                    [''Status:       '' @ (if installed then ''installed'' else ''not installed'')]) w))))"


section \<open>Validating\<close>

text \<open>Files relative to the current directory or below the languages directory; the decoder of TOML, the
  grammar with its query compiler, and the outcome of loading the stack graph rules.\<close>

record validate_env =
  ve_exists :: "path \<Rightarrow> bool"
  ve_read :: "path \<Rightarrow> string + string"
  ve_from_toml :: "string \<Rightarrow> string + extract_config"
  ve_grammar :: "string \<Rightarrow> string + (string \<Rightarrow> string + query)"
  ve_rules :: "string \<Rightarrow> (string + unit) option"

datatype validate_result = Checked "string list" "string list" | Builtin

definition in_quotes :: "string \<Rightarrow> string" where
  "in_quotes s = [CHR 0x27] @ s @ [CHR 0x27]"

definition read_from :: "validate_env \<Rightarrow> path \<Rightarrow> string + string" where
  "read_from ve p = map_sum (\<lambda>e. ''cannot read '' @ path_display p @ '': '' @ e) id (ve_read ve p)"

text \<open>The file of the source tree comes first, then that of the installed package.\<close>

definition load_package_file ::
  "package_env \<Rightarrow> validate_env \<Rightarrow> path \<Rightarrow> string \<Rightarrow> string \<Rightarrow> string + string" where
  "load_package_file env ve source_path name file =
     (if ve_exists ve source_path then read_from ve source_path
      else
        (case pe_languages_dir env of
           Some d \<Rightarrow>
             (let p = path_join (package_dir d name) [Normal file] in
              if ve_exists ve p then read_from ve p else Inl (''no '' @ file @ '' found for '' @ in_quotes name))
         | None \<Rightarrow> Inl (''no '' @ file @ '' found for '' @ in_quotes name)))"

definition load_tsg_file :: "package_env \<Rightarrow> validate_env \<Rightarrow> string \<Rightarrow> string + string" where
  "load_tsg_file env ve name =
     load_package_file env ve
       (path_join (path_join (map Normal [''crates'', ''codequery-resolve'', ''tsg'']) (path_of_string name))
         [Normal ''stack-graphs.tsg'']) name ''stack-graphs.tsg''"

definition load_extract_toml :: "package_env \<Rightarrow> validate_env \<Rightarrow> string \<Rightarrow> string + string" where
  "load_extract_toml env ve name =
     load_package_file env ve
       (path_join (path_join [Normal ''languages''] (path_of_string name)) [Normal ''extract.toml'']) name ''extract.toml''"

definition validate_language :: "package_env \<Rightarrow> validate_env \<Rightarrow> string \<Rightarrow> string + validate_result" where
  "validate_language env ve name =
     (case load_extract_toml env ve name of
        Inl _ \<Rightarrow> if from_name name \<noteq> None then Inr Builtin else Inl (''no extract.toml found for '' @ in_quotes name)
      | Inr toml \<Rightarrow>
          (case load_extract_config (ve_from_toml ve) toml of
             Inl e \<Rightarrow> Inl (''invalid extract.toml: '' @ e)
           | Inr config \<Rightarrow>
               (case ve_grammar ve name of
                  Inl e \<Rightarrow> Inl (''grammar not available: '' @ e)
                | Inr new_query \<Rightarrow>
                    (let warnings = map (\<lambda>r. ''unknown symbol kind '' @ in_quotes (rl_kind r))
                           (filter (\<lambda>r. parse_symbol_kind (rl_kind r) = None) (ec_symbols config));
                         errors = map (\<lambda>(i, msg). ''rule '' @ dec i @ '' ('' @ rl_kind (ec_symbols config ! i) @ ''): '' @ msg)
                           (validate_config new_query config);
                         rule_errors = (case load_tsg_file env ve name of
                             Inl _ \<Rightarrow> []
                           | Inr _ \<Rightarrow>
                               (case ve_rules ve name of Some (Inl e) \<Rightarrow> [''stack-graphs.tsg: '' @ e] | _ \<Rightarrow> [])) in
                     Inr (Checked (errors @ rule_errors) warnings)))))"

definition finding_lines :: "string \<Rightarrow> string list \<Rightarrow> string list \<Rightarrow> string list" where
  "finding_lines name errors warnings =
     map (\<lambda>m. name @ '': warning: '' @ m) warnings @ map (\<lambda>m. name @ '': error: '' @ m) errors"

definition run_validate ::
  "package_env \<Rightarrow> validate_env \<Rightarrow> string \<Rightarrow> package_world \<Rightarrow> (string + package_code) \<times> package_world" where
  "run_validate env ve name w =
     (case validate_language env ve name of
        Inl e \<Rightarrow> (Inl e, w)
      | Inr Builtin \<Rightarrow> (Inr PkgSuccess, say (name @ '': ok (native extractor)'') w)
      | Inr (Checked errors warnings) \<Rightarrow>
          (Inr PkgSuccess,
           if errors = [] \<and> warnings = [] then say (name @ '': ok'') w
           else
             says
               (finding_lines name errors warnings @
                [name @ '': '' @ (if errors = [] then ''warnings'' else ''FAILED'') @ '' ('' @ dec (length errors) @
                 '' errors, '' @ dec (length warnings) @ '' warnings)'']) w))"

text \<open>All languages that are installed, and the built-in ones of the registry.\<close>

fun add_languages :: "registry \<Rightarrow> string list \<Rightarrow> string list \<Rightarrow> language_package list \<Rightarrow> string list" where
  "add_languages r installed langs [] = langs"
| "add_languages r installed langs (p # ps) =
     add_languages r installed
       (if lp_name p \<notin> set langs \<and> (from_name (lp_name p) \<noteq> None \<or> lp_name p \<in> set installed)
        then langs @ [lp_name p] else langs) ps"

definition validate_lines :: "package_env \<Rightarrow> validate_env \<Rightarrow> string \<Rightarrow> string list" where
  "validate_lines env ve name =
     (case validate_language env ve name of
        Inl e \<Rightarrow> [name @ '': skip ('' @ e @ '')'']
      | Inr Builtin \<Rightarrow> [name @ '': ok (native extractor)'']
      | Inr (Checked errors warnings) \<Rightarrow>
          if errors = [] \<and> warnings = [] then [name @ '': ok''] else finding_lines name errors warnings)"

definition findings_of :: "package_env \<Rightarrow> validate_env \<Rightarrow> string \<Rightarrow> string list \<times> string list" where
  "findings_of env ve name =
     (case validate_language env ve name of Inr (Checked errors warnings) \<Rightarrow> (errors, warnings) | _ \<Rightarrow> ([], []))"

definition run_validate_all ::
  "package_env \<Rightarrow> validate_env \<Rightarrow> package_world \<Rightarrow> (string + package_code) \<times> package_world" where
  "run_validate_all env ve w =
     (case load_registry env (gw_tree w) of
        Inl e \<Rightarrow> (Inl e, w)
      | Inr r \<Rightarrow>
          (let installed = installed_packages env (gw_tree w);
               langs = sort (add_languages r installed installed (rg_languages r));
               failed = filter (\<lambda>l. fst (findings_of env ve l) \<noteq> []) langs;
               warned = filter (\<lambda>l. fst (findings_of env ve l) = [] \<and> snd (findings_of env ve l) \<noteq> []) langs;
               n_errors = sum_list (map (\<lambda>l. length (fst (findings_of env ve l))) langs);
               n_warnings = sum_list (map (\<lambda>l. length (snd (findings_of env ve l))) langs) in
           (Inr PkgSuccess,
            says
              (concat (map (validate_lines env ve) langs) @
               [[], ''Validated '' @ dec (length langs) @ '' languages: '' @
                    dec (length langs - length failed - length warned) @ '' ok, '' @ dec (length warned) @
                    '' warned, '' @ dec (length failed) @ '' failed''] @
               (if failed \<noteq> [] then [''Failed: '' @ join_with '', '' failed] else []) @
               (if 0 < n_errors then [''Total: '' @ dec n_errors @ '' errors, '' @ dec n_warnings @ '' warnings''] else []))
              w)))"



section \<open>Lemmas on trees\<close>

lemma map_of_remove_tree:
  "map_of (remove_tree t p) q = (if path_starts_with q (real_path p) then None else map_of t q)"
  by (induction t) (auto simp: remove_tree_def)

lemma map_of_put_entry: "map_of (put_entry t (q, e)) x = (if x = q then Some e else map_of t x)"
  by (auto simp: put_entry_def map_add_def update_conv' split: option.split)

lemma map_of_make_dirs:
  "\<not> prefix x (real_path p) \<Longrightarrow> map_of (make_dirs t p) x = map_of t x"
proof -
  assume outside: "\<not> prefix x (real_path p)"
  define added :: dir_tree where
    "added = map (\<lambda>q. (q, None)) (filter (\<lambda>q. q \<noteq> [] \<and> map_of t q = None) (prefixes (real_path p)))"
  have "x \<notin> fst ` set added" using outside by (auto simp: added_def)
  then have "map_of added x = None" by (simp add: map_of_eq_None_iff)
  moreover have "make_dirs t p = t @ added" by (simp add: make_dirs_def added_def)
  ultimately show ?thesis by (cases "map_of t x") (simp_all add: map_add_def)
qed

text \<open>The documented behaviour of \<open>tar -C\<close>: it strips a leading \<open>/\<close> from the names in an archive and
  refuses those with \<open>..\<close>, so that it writes below the directory only.\<close>

definition tar_confined :: "'z package_env_scheme \<Rightarrow> bool" where
  "tar_confined env \<longleftrightarrow>
     (\<forall>p archive. \<forall>(q, e) \<in> set (fst (pe_tar env p archive)). path_starts_with q p)"

lemma map_of_unpack_other: "x \<notin> fst ` set entries \<Longrightarrow> map_of (unpack t entries) x = map_of t x"
proof (induction entries arbitrary: t)
  case (Cons qe entries)
  obtain q e where "qe = (q, e)" by (cases qe)
  with Cons.IH[of "put_entry t qe"] Cons.prems show ?case by (simp add: unpack_def map_of_put_entry)
qed (simp add: unpack_def)

lemma map_of_unpack:
  assumes "tar_confined env" "pe_tar env (real_path p) archive = (entries, ok)" "\<not> path_starts_with x (real_path p)"
  shows "map_of (unpack t entries) x = map_of t x"
proof (rule map_of_unpack_other)
  have "set entries = set (fst (pe_tar env (real_path p) archive))" by (simp add: assms(2))
  with assms(1,3) show "x \<notin> fst ` set entries" by (fastforce simp: tar_confined_def)
qed

lemma resolve_dots_names: "resolve_dots acc (map Normal ns) = acc @ map Normal ns"
  by (induction ns arbitrary: acc) simp_all

lemma real_path_canonical: "canonical_path p \<Longrightarrow> real_path p = p"
  by (auto simp: canonical_path_def real_path_def resolve_dots_names)

lemma path_of_name: "name_ok n \<Longrightarrow> path_of_string n = [Normal n]"
  by (cases n) (auto simp: path_of_string_def name_ok_def split_on_no_sep segment_component_def)

lemma package_dir_name: "canonical_path d \<Longrightarrow> name_ok n \<Longrightarrow> package_dir d n = d @ [Normal n]"
  by (auto simp: package_dir_def path_of_name path_join_def is_absolute_def canonical_path_def)

lemma canonical_path_snoc: "canonical_path d \<Longrightarrow> name_ok n \<Longrightarrow> canonical_path (d @ [Normal n])"
proof -
  assume "canonical_path d" "name_ok n"
  then obtain names where "d = RootDir # map Normal names" "\<forall>s \<in> set names. name_ok s"
    by (auto simp: canonical_path_def)
  with \<open>name_ok n\<close> show ?thesis unfolding canonical_path_def by (intro exI[of _ "names @ [n]"]) auto
qed

lemma real_package_dir: "canonical_path d \<Longrightarrow> name_ok n \<Longrightarrow> real_path (package_dir d n) = d @ [Normal n]"
  by (simp add: package_dir_name real_path_canonical[OF canonical_path_snoc])

lemma gw_warns [simp]: "gw_tree (warns ls w) = gw_tree w"
  by (induction ls arbitrary: w) (simp_all add: warns_def warn_def)

lemma gw_warn [simp]: "gw_tree (warn s w) = gw_tree w"
  by (simp add: warn_def)

section \<open>Removing a package\<close>

text \<open>
  \<open>grammar remove\<close> deletes exactly the entries in the directory that its argument leads to from
  the directory of the packages, and nothing when that does not exist. The argument may be any path:
  with an absolute one the packages play no part and that directory is deleted as a whole.
\<close>
theorem remove_package_exact:
  assumes "pe_languages_dir env = Some d" and "pe_remove_error env = (\<lambda>_. None)"
  shows "map_of (gw_tree (snd (run_remove env name w))) q =
      (if tree_exists (gw_tree w) (package_dir d name) \<and> path_starts_with q (real_path (package_dir d name))
       then None else map_of (gw_tree w) q) \<and>
    fst (run_remove env name w) = Inr PkgSuccess \<and>
    (canonical_path p \<longrightarrow> real_path (package_dir d (path_display p)) = p)"
proof (intro conjI impI)
  show "map_of (gw_tree (snd (run_remove env name w))) q =
      (if tree_exists (gw_tree w) (package_dir d name) \<and> path_starts_with q (real_path (package_dir d name))
       then None else map_of (gw_tree w) q)"
    using assms by (simp add: run_remove_def Let_def map_of_remove_tree)
  show "fst (run_remove env name w) = Inr PkgSuccess"
    using assms by (simp add: run_remove_def Let_def)
  assume p: "canonical_path p"
  then have "is_absolute p" by (auto simp: canonical_path_def is_absolute_def)
  with p show "real_path (package_dir d (path_display p)) = p"
    by (simp add: package_dir_def path_of_string_display path_join_def real_path_canonical)
qed

definition demo_package_env :: package_env where
  "demo_package_env =
     \<lparr>pe_registry_json = ''baked in'',
      pe_parse_registry = (\<lambda>_. Inr \<lparr>rg_version = ''1'', rg_grammar_release_tag = ''grammars-v1'',
        rg_languages = [\<lparr>lp_name = ''elixir'', lp_display_name = ''Elixir'', lp_description = ''Elixir'',
          lp_extensions = [''.ex''], lp_capabilities = [''grammar''], lp_lsp_server = None,
          lp_grammar_repo = None\<rparr>]\<rparr>),
      pe_languages_dir = Some [RootDir, Normal ''cq''], pe_registry_cache = None, pe_curl = (\<lambda>_. None),
      pe_curl_writes = (\<lambda>_. True), pe_tar = (\<lambda>_ _. ([], False)), pe_mkdir_error = (\<lambda>_. None),
      pe_remove_error = (\<lambda>_. None)\<rparr>"

definition demo_package_world :: package_world where
  "demo_package_world =
     \<lparr>gw_tree = [([RootDir], None), ([RootDir, Normal ''cq''], None), ([RootDir, Normal ''cq'', Normal ''elixir''], None),
        ([RootDir, Normal ''cq'', Normal ''elixir'', Normal ''grammar.wasm''], Some ''code''),
        ([RootDir, Normal ''home''], None), ([RootDir, Normal ''home'', Normal ''thesis''], Some ''text'')],
      gw_out = [], gw_err = []\<rparr>"

theorem remove_package_exact_witness:
  "map_of (gw_tree (snd (run_remove demo_package_env ''/home'' demo_package_world)))
     [RootDir, Normal ''home'', Normal ''thesis''] = None"
proof -
  have env: "pe_languages_dir demo_package_env = Some [RootDir, Normal ''cq'']"
    "pe_remove_error demo_package_env = (\<lambda>_. None)"
    by (simp_all add: demo_package_env_def)
  have "tree_exists (gw_tree demo_package_world) (package_dir [RootDir, Normal ''cq''] ''/home'')"
    "path_starts_with [RootDir, Normal ''home'', Normal ''thesis''] (real_path (package_dir [RootDir, Normal ''cq''] ''/home''))"
    by code_simp+
  with remove_package_exact[OF env, of "''/home''" demo_package_world "[RootDir, Normal ''home'', Normal ''thesis'']"]
  show ?thesis by simp
qed

section \<open>Installing a package\<close>

text \<open>
  C36: Installing a package changes nothing outside its own directory, apart from directories that
  lead to it, whatever the download and the archive are and however the installation ends, as long as
  \<open>tar\<close> keeps to the directory it is told to unpack to; a package that is already there is left as it
  is.
\<close>
theorem install_touches_own_directory:
  assumes "pe_languages_dir env = Some d" and "canonical_path d" and "name_ok name" and "tar_confined env"
  shows "(\<not> path_starts_with q (d @ [Normal name]) \<and> \<not> prefix q (d @ [Normal name]) \<longrightarrow>
      map_of (gw_tree (snd (run_install env name tag w))) q = map_of (gw_tree w) q) \<and>
    (tree_exists (gw_tree w) (package_dir d name) \<longrightarrow> gw_tree (snd (run_install env name tag w)) = gw_tree w)"
proof -
  note real = real_package_dir[OF assms(2,3)]
  have "map_of (gw_tree (snd (run_install env name tag w))) q = map_of (gw_tree w) q"
    if q: "\<not> path_starts_with q (d @ [Normal name])" "\<not> prefix q (d @ [Normal name])"
    using q assms(1) map_of_unpack[OF assms(4), of "package_dir d name" _ _ _ q, unfolded real, OF _ q(1)]
    by (auto simp: run_install_def Let_def try_remove_def map_of_remove_tree map_of_make_dirs real
        split: sum.split option.split prod.split)
  moreover have "gw_tree (snd (run_install env name tag w)) = gw_tree w"
    if "tree_exists (gw_tree w) (package_dir d name)"
    using that assms(1) by (auto simp: run_install_def Let_def split: sum.split option.split)
  ultimately show ?thesis by blast
qed

definition demo_online_env :: package_env where
  "demo_online_env =
     demo_package_env\<lparr>pe_curl := (\<lambda>_. Some ''archive''),
       pe_tar := (\<lambda>p _. ([(p @ [Normal ''grammar.wasm''], Some ''code'')], True))\<rparr>"

theorem install_touches_own_directory_witness:
  "map_of (gw_tree (snd (run_install demo_online_env ''elixir'' None
     (demo_package_world\<lparr>gw_tree := [([RootDir, Normal ''home'', Normal ''thesis''], Some ''text'')]\<rparr>))))
     [RootDir, Normal ''home'', Normal ''thesis''] = Some (Some ''text'')"
proof -
  let ?w = "demo_package_world\<lparr>gw_tree := [([RootDir, Normal ''home'', Normal ''thesis''], Some ''text'')]\<rparr>"
  have d: "pe_languages_dir demo_online_env = Some [RootDir, Normal ''cq'']"
    by (simp add: demo_online_env_def demo_package_env_def)
  have "canonical_path [RootDir, Normal ''cq'']"
    unfolding canonical_path_def by (intro exI[of _ "[''cq'']"]) (simp add: name_ok_def)
  moreover have "name_ok ''elixir''" by (simp add: name_ok_def)
  moreover have "tar_confined demo_online_env"
    by (simp add: tar_confined_def demo_online_env_def path_starts_with_def starts_with_def)
  ultimately have "map_of (gw_tree (snd (run_install demo_online_env ''elixir'' None ?w)))
      [RootDir, Normal ''home'', Normal ''thesis''] = map_of (gw_tree ?w) [RootDir, Normal ''home'', Normal ''thesis'']"
    using install_touches_own_directory[OF d, of "''elixir''" "[RootDir, Normal ''home'', Normal ''thesis'']" None ?w]
    by (simp add: path_starts_with_def starts_with_def)
  then show ?thesis by simp
qed

section \<open>Updating without a network\<close>

lemma load_registry_baked:
  "pe_parse_registry env (pe_registry_json env) = Inr r \<Longrightarrow> \<exists>r'. load_registry env t = Inr r'"
  by (auto simp: load_registry_def Let_def split: option.split sum.split)

lemma install_offline:
  assumes "pe_parse_registry env (pe_registry_json env) = Inr r" "pe_languages_dir env = Some d" "pe_curl env = (\<lambda>_. None)"
  shows "gw_tree (snd (run_install env name tag w)) = gw_tree w \<and> (\<exists>c. fst (run_install env name tag w) = Inr c)"
  using load_registry_baked[OF assms(1), of "gw_tree w"] assms(2,3)
  by (auto simp: run_install_def Let_def split: option.split)

definition drop_package :: "path \<Rightarrow> string \<Rightarrow> dir_tree \<Rightarrow> dir_tree" where
  "drop_package d name t = (if tree_exists t (package_dir d name) then remove_tree t (package_dir d name) else t)"

lemma reinstall_offline:
  assumes "pe_parse_registry env (pe_registry_json env) = Inr r" "pe_languages_dir env = Some d"
    "pe_curl env = (\<lambda>_. None)" "pe_remove_error env = (\<lambda>_. None)"
  shows "fst (reinstall env d names w) = Inr () \<and> gw_tree (snd (reinstall env d names w)) = fold (drop_package d) names (gw_tree w)"
proof (induction names arbitrary: w)
  case (Cons name names)
  let ?w = "if tree_exists (gw_tree w) (package_dir d name)
      then w\<lparr>gw_tree := remove_tree (gw_tree w) (package_dir d name)\<rparr> else w"
  obtain c w' where i: "run_install env name None ?w = (Inr c, w')" "gw_tree w' = gw_tree ?w"
    using install_offline[OF assms(1-3), of name None ?w] by (cases "run_install env name None ?w") auto
  have "gw_tree ?w = drop_package d name (gw_tree w)" by (simp add: drop_package_def)
  moreover have "reinstall env d (name # names) w = reinstall env d names w'"
    using i(1) assms(4) by (cases "tree_exists (gw_tree w) (package_dir d name)") (simp_all add: Let_def)
  ultimately show ?case using i(2) Cons.IH[of w'] by simp
qed simp

lemma map_of_drop_package:
  "map_of (drop_package d name t) q = None \<or> map_of (drop_package d name t) q = map_of t q"
  by (simp add: drop_package_def map_of_remove_tree)

lemma map_of_drop_packages:
  "map_of t q = None \<Longrightarrow> map_of (fold (drop_package d) names t) q = None"
proof (induction names arbitrary: t)
  case (Cons name names)
  then show ?case using map_of_drop_package[of d name t q] by auto
qed simp

lemma dropped_packages:
  assumes "canonical_path d" "name_ok n" "n \<in> set names"
  shows "map_of (fold (drop_package d) names t) (d @ [Normal n]) = None"
  using assms(3)
proof (induction names arbitrary: t)
  case (Cons name names)
  show ?case
  proof (cases "n = name")
    case True
    have "map_of (drop_package d name t) (d @ [Normal n]) = None"
      using real_package_dir[OF assms(1,2)] True
      by (simp add: drop_package_def tree_exists_def map_of_remove_tree path_starts_with_def)
    then show ?thesis by (simp add: map_of_drop_packages)
  next
    case False
    with Cons show ?thesis by simp
  qed
qed simp

lemma child_dirs_entry:
  assumes "n \<in> set (child_dirs t d)" "canonical_path d"
  shows "map_of t (d @ [Normal n]) \<noteq> None"
proof -
  from assms obtain q where q: "(q, None) \<in> set t" "path_parent q = Some d" "path_file_name q = Some n"
    by (auto simp: child_dirs_def real_path_canonical split: if_splits)
  then have "q \<noteq> []" "butlast q = d" "last q = Normal n"
    by (auto simp: path_parent_def path_file_name_def split: list.splits component.splits if_splits)
  then have "q = d @ [Normal n]" by (metis append_butlast_last_id)
  with q(1) have "d @ [Normal n] \<in> fst ` set t" by force
  then show ?thesis by (simp add: map_of_eq_None_iff del: not_None_eq)
qed

lemma drop_packages_subset: "set (fold (drop_package d) names t) \<subseteq> set t"
proof (induction names arbitrary: t)
  case (Cons name names)
  have "set (drop_package d name t) \<subseteq> set t" by (auto simp: drop_package_def remove_tree_def)
  with Cons[of "drop_package d name t"] show ?case by simp
qed simp

lemma child_dirs_mono: "set t \<subseteq> set t' \<Longrightarrow> set (child_dirs t d) \<subseteq> set (child_dirs t' d)"
  unfolding child_dirs_def set_sort set_map_filter by blast

text \<open>
  Without a network \<open>grammar update\<close> loses every installed package: each is removed before its
  download is tried, failures of the download do not stop it, and it ends with success.
\<close>
theorem update_offline_loses_packages:
  assumes "pe_parse_registry env (pe_registry_json env) = Inr r" "pe_languages_dir env = Some d"
    "canonical_path d" "pe_curl env = (\<lambda>_. None)" "pe_remove_error env = (\<lambda>_. None)"
    "list_all name_ok (find_installed (gw_tree w) d)"
  shows "fst (run_update env w) = Inr PkgSuccess \<and> find_installed (gw_tree (snd (run_update env w))) d = []"
proof -
  let ?w = "refresh_registry env (warn ''Refreshing language registry...'' w)"
  have t: "gw_tree ?w = gw_tree w" by (simp add: refresh_registry_def assms(4) split: option.split)
  obtain r' where r': "load_registry env (gw_tree w) = Inr r'" using load_registry_baked[OF assms(1)] by blast
  let ?names = "find_installed (gw_tree w) d"
  let ?after = "fold (drop_package d) ?names (gw_tree w)"
  have "set (child_dirs ?after d) = {}"
  proof (rule equals0I)
    fix n assume n: "n \<in> set (child_dirs ?after d)"
    then have "n \<in> set ?names"
      using child_dirs_mono[OF drop_packages_subset[of d ?names "gw_tree w"], of d] by (auto simp: find_installed_def)
    with assms(6) have "name_ok n" by (simp add: list_all_iff)
    from dropped_packages[OF assms(3) this \<open>n \<in> set ?names\<close>, of "gw_tree w"] child_dirs_entry[OF n assms(3)]
    show False by simp
  qed
  note gone = this
  show ?thesis
  proof (cases "?names = []")
    case True
    then show ?thesis using assms(2) t by (simp add: run_update_def Let_def)
  next
    case False
    let ?w2 = "warn (''Updating '' @ dec (length ?names) @ '' package(s) (tag '' @ rg_grammar_release_tag r' @ '')...'') ?w"
    obtain w3 where w3: "reinstall env d ?names ?w2 = (Inr (), w3)" "gw_tree w3 = ?after"
      using reinstall_offline[OF assms(1,2,4,5), of ?names ?w2] t by (cases "reinstall env d ?names ?w2") auto
    then have "run_update env w = (Inr PkgSuccess, warn ''Update complete'' w3)"
      using assms(2) t r' False by (simp add: run_update_def Let_def)
    with w3(2) gone show ?thesis by (simp add: find_installed_def)
  qed
qed

theorem update_offline_loses_packages_witness:
  "find_installed (gw_tree demo_package_world) [RootDir, Normal ''cq''] = [''elixir''] \<and>
   find_installed (gw_tree (snd (run_update demo_package_env demo_package_world))) [RootDir, Normal ''cq''] = []"
proof -
  have before: "find_installed (gw_tree demo_package_world) [RootDir, Normal ''cq''] = [''elixir'']" by code_simp
  obtain r where "pe_parse_registry demo_package_env (pe_registry_json demo_package_env) = Inr r"
    by (simp add: demo_package_env_def)
  moreover have "pe_languages_dir demo_package_env = Some [RootDir, Normal ''cq'']"
    "pe_curl demo_package_env = (\<lambda>_. None)" "pe_remove_error demo_package_env = (\<lambda>_. None)"
    by (simp_all add: demo_package_env_def)
  moreover have "canonical_path [RootDir, Normal ''cq'']"
    unfolding canonical_path_def by (intro exI[of _ "[''cq'']"]) (simp add: name_ok_def)
  moreover have "list_all name_ok (find_installed (gw_tree demo_package_world) [RootDir, Normal ''cq''])"
    by (simp add: before name_ok_def)
  ultimately show ?thesis
    using before update_offline_loses_packages[of demo_package_env r "[RootDir, Normal ''cq'']" demo_package_world] by blast
qed

text \<open>\<open>grammar install --all\<close> counts packages that could not be downloaded as installed.\<close>

lemma install_all_counts_failures:
  "gw_tree (snd (run_install_all demo_package_env None (demo_package_world\<lparr>gw_tree := []\<rparr>))) = [] \<and>
   suffix (''Installed 1 package(s)'' @ line_end)
     (gw_err (snd (run_install_all demo_package_env None (demo_package_world\<lparr>gw_tree := []\<rparr>))))"
  by code_simp

end
