(* ===== verification/Grammar_Loading.thy ===== *)
theory Grammar_Loading
  imports Grammar_Packages Cache
begin

text \<open>
  How a parser gets its grammar (\<open>parser.rs\<close>, \<open>wasm_loader.rs\<close>, \<open>runtime_grammar.rs\<close> of
  codequery-parse): native libraries first, then WASM packages, then one attempt per process to
  download the package. The state is the directory tree, the languages tried and standard error.
  Opening a library, the WASM store of tree-sitter and its compiler are parameters; a grammar is a
  value of an unknown type.
\<close>

datatype parse_error =
    LanguageError string
  | ParseIo io_error
  | ParseFailed string
  | QueryError string
  | PatternError string
  | WasmError string

primrec parse_error_display :: "parse_error \<Rightarrow> string" where
  "parse_error_display (LanguageError m) = ''failed to load language grammar: '' @ m"
| "parse_error_display (ParseIo e) = io_error_display e"
| "parse_error_display (ParseFailed m) = ''tree-sitter parse returned no tree for: '' @ m"
| "parse_error_display (QueryError m) = ''invalid tree-sitter query: '' @ m"
| "parse_error_display (PatternError m) = ''pattern failed to parse: '' @ m"
| "parse_error_display (WasmError m) = ''wasm grammar error: '' @ m"

record 'g load_env = package_env +
  gl_vars :: env
  gl_registry :: "json option"
  gl_cwasm_dir :: "path option"
  gl_version :: string
  gl_dlopen :: "path \<Rightarrow> string + (string \<Rightarrow> string + 'g)"
  gl_set_language :: "'g \<Rightarrow> string option"
  gl_new_store :: "string option"
  gl_store_load :: "string \<Rightarrow> string \<Rightarrow> string + 'g"
  gl_set_store :: "string option"
  gl_precompile :: "string \<Rightarrow> string option"
  gl_write_ok :: "path \<Rightarrow> bool"
  gl_read_error :: "path \<Rightarrow> string"

record load_state =
  ls_tree :: dir_tree
  ls_attempted :: "string list"
  ls_err :: string

section \<open>Native libraries\<close>

definition LIB_EXT :: string where
  "LIB_EXT = ''so''"

definition grammar_dir :: "env \<Rightarrow> path option" where
  "grammar_dir vars =
     (case vars ''XDG_DATA_HOME'' of
        Some xdg \<Rightarrow> Some (path_join (path_of_string xdg) (path_of_string ''cq/grammars''))
      | None \<Rightarrow>
          (case vars ''HOME'' of
             Some home \<Rightarrow> Some (path_join (path_of_string home) (path_of_string ''.local/share/cq/grammars''))
           | None \<Rightarrow> None))"

definition library_file :: "string \<Rightarrow> string" where
  "library_file name = ''tree-sitter-'' @ name @ ''.'' @ LIB_EXT"

definition load_grammar_from_path :: "'g load_env \<Rightarrow> path \<Rightarrow> string \<Rightarrow> parse_error + 'g" where
  "load_grammar_from_path env p name =
     (case gl_dlopen env p of
        Inl e \<Rightarrow> Inl (LanguageError (''failed to load grammar library '' @ path_display p @ '': '' @ e))
      | Inr lookup \<Rightarrow>
          (case lookup (''tree_sitter_'' @ name) of
             Inl e \<Rightarrow>
               Inl (LanguageError (''symbol `tree_sitter_'' @ name @ ''` not found in '' @ path_display p @ '': '' @ e))
           | Inr g \<Rightarrow> Inr g))"

definition load_runtime_grammar :: "'g load_env \<Rightarrow> dir_tree \<Rightarrow> string \<Rightarrow> parse_error + 'g" where
  "load_runtime_grammar env t name =
     (case grammar_dir (gl_vars env) of
        None \<Rightarrow> Inl (LanguageError ''cannot determine grammar directory: neither XDG_DATA_HOME nor HOME is set'')
      | Some dir \<Rightarrow>
          (let p = path_join dir (path_of_string (library_file name)) in
           if \<not> tree_exists t p then Inl (LanguageError (''runtime grammar not found: '' @ path_display p))
           else load_grammar_from_path env p name))"

text \<open>The names of all entries of a directory.\<close>

definition child_names :: "dir_tree \<Rightarrow> path \<Rightarrow> string list" where
  "child_names t p =
     List.map_filter (\<lambda>(q, e). if path_parent q = Some (real_path p) then path_file_name q else None) t"

definition library_name :: "string \<Rightarrow> string option" where
  "library_name file =
     (case strip_prefix_str ''tree-sitter-'' file of
        None \<Rightarrow> None
      | Some rest \<Rightarrow>
          (case strip_prefix_str (rev (''.'' @ LIB_EXT)) (rev rest) of
             None \<Rightarrow> None
           | Some back \<Rightarrow> if back = [] then None else Some (rev back)))"

definition is_tree_dir :: "dir_tree \<Rightarrow> path \<Rightarrow> bool" where
  "is_tree_dir t p \<longleftrightarrow> map_of t (real_path p) = Some None"

definition list_runtime_grammars :: "env \<Rightarrow> dir_tree \<Rightarrow> string list" where
  "list_runtime_grammars vars t =
     (case grammar_dir vars of
        None \<Rightarrow> []
      | Some dir \<Rightarrow> if \<not> is_tree_dir t dir then [] else sort (List.map_filter library_name (child_names t dir)))"

section \<open>WASM packages\<close>

record wasm_grammar_info =
  wi_name :: string
  wi_wasm_path :: path

definition discover_wasm_grammars :: "package_env \<Rightarrow> dir_tree \<Rightarrow> wasm_grammar_info list" where
  "discover_wasm_grammars env t =
     (case pe_languages_dir env of
        None \<Rightarrow> []
      | Some d \<Rightarrow>
          map (\<lambda>n. \<lparr>wi_name = n, wi_wasm_path = d @ [Normal n, Normal ''grammar.wasm'']\<rparr>)
            (filter (\<lambda>n. tree_exists t (d @ [Normal n, Normal ''grammar.wasm''])) (child_dirs t d)))"

definition find_wasm_grammar :: "'z package_env_scheme \<Rightarrow> dir_tree \<Rightarrow> string \<Rightarrow> wasm_grammar_info option" where
  "find_wasm_grammar env t name =
     (case pe_languages_dir env of
        None \<Rightarrow> None
      | Some d \<Rightarrow>
          (let p = path_join (package_dir d name) [Normal ''grammar.wasm''] in
           if tree_exists t p then Some \<lparr>wi_name = name, wi_wasm_path = p\<rparr> else None))"


text \<open>The names a WASM module may export its grammar under, without duplicates.\<close>

definition add_candidate :: "string \<Rightarrow> string list \<Rightarrow> string list" where
  "add_candidate name cs = (if name \<in> set cs then cs else cs @ [name])"

definition resolve_wasm_name :: "json option \<Rightarrow> dir_tree \<Rightarrow> string \<Rightarrow> path \<Rightarrow> string list" where
  "resolve_wasm_name parsed_registry t lang_name wasm_path =
     (let c1 = (case wasm_name_for_language parsed_registry lang_name of
            Some n \<Rightarrow> add_candidate n [] | None \<Rightarrow> []);
          c2 = (case path_parent wasm_path of
              Some dir \<Rightarrow>
                (case tree_read t (path_join dir [Normal ''wasm_name'']) of
                   Some content \<Rightarrow>
                     (let n = str_trim content in if n = [] then c1 else add_candidate n c1)
                 | None \<Rightarrow> c1)
            | None \<Rightarrow> c1);
          c3 = (if CHR ''-'' \<in> set lang_name
            then add_candidate (filter (\<lambda>c. c \<noteq> CHR ''-'') lang_name)
              (add_candidate (map (\<lambda>c. if c = CHR ''-'' then CHR ''_'' else c) lang_name) c2)
            else c2) in
      add_candidate lang_name c3)"

fun try_candidates :: "(string \<Rightarrow> string + 'g) \<Rightarrow> string \<Rightarrow> string list \<Rightarrow> string + 'g" where
  "try_candidates load last_err [] = Inl last_err"
| "try_candidates load last_err (c # cs) =
     (case load c of Inr g \<Rightarrow> Inr g | Inl e \<Rightarrow> try_candidates load e cs)"

definition load_language_with_fallback ::
  "'g load_env \<Rightarrow> dir_tree \<Rightarrow> string \<Rightarrow> path \<Rightarrow> string \<Rightarrow> string + 'g" where
  "load_language_with_fallback env t lang_name wasm_path wasm_bytes =
     (let candidates = resolve_wasm_name (gl_registry env) t lang_name wasm_path in
      map_sum
        (\<lambda>last_err. ''load language '' @ in_quotes lang_name @ '': '' @ last_err @ '' (tried: '' @
           join_with '', '' candidates @ '')'') id
        (try_candidates (\<lambda>c. gl_store_load env c wasm_bytes) [] candidates))"

definition version_file :: "path \<Rightarrow> path" where
  "version_file dir = path_join dir [Normal ''.cq-version'']"

definition cwasm_file :: "path \<Rightarrow> string \<Rightarrow> path" where
  "cwasm_file dir lang_name = path_join dir (path_of_string (lang_name @ ''.cwasm''))"

definition try_load_cwasm :: "'g load_env \<Rightarrow> dir_tree \<Rightarrow> string \<Rightarrow> string option" where
  "try_load_cwasm env t lang_name =
     Option.bind (gl_cwasm_dir env) (\<lambda>dir.
     Option.bind (tree_read t (version_file dir)) (\<lambda>version.
       if str_trim version \<noteq> gl_version env then None else tree_read t (cwasm_file dir lang_name)))"

definition write_file :: "'g load_env \<Rightarrow> path \<Rightarrow> string \<Rightarrow> dir_tree \<Rightarrow> dir_tree" where
  "write_file env p bytes t = (if gl_write_ok env p then put_entry t (real_path p, Some bytes) else t)"

definition try_save_cwasm :: "'g load_env \<Rightarrow> string \<Rightarrow> string \<Rightarrow> dir_tree \<Rightarrow> dir_tree" where
  "try_save_cwasm env lang_name wasm_bytes t =
     (case gl_cwasm_dir env of
        None \<Rightarrow> t
      | Some dir \<Rightarrow>
          (if pe_mkdir_error env dir \<noteq> None then t
           else
             (let t1 = write_file env (version_file dir) (gl_version env) (make_dirs t dir) in
              case gl_precompile env wasm_bytes of
                None \<Rightarrow> t1
              | Some cwasm \<Rightarrow> write_file env (cwasm_file dir lang_name) cwasm t1)))"

definition lang_of_wasm :: "path \<Rightarrow> string" where
  "lang_of_wasm wasm_path =
     (case Option.bind (path_parent wasm_path) path_file_name of Some n \<Rightarrow> n | None \<Rightarrow> ''unknown'')"

text \<open>Reading, storing and setting; the compiled form is saved in between, whatever happens after.\<close>

definition load_wasm_language :: "'g load_env \<Rightarrow> path \<Rightarrow> dir_tree \<Rightarrow> parse_error + 'g" where
  "load_wasm_language env wasm_path t =
     (case tree_read t wasm_path of
        None \<Rightarrow> Inl (WasmError (''failed to read wasm grammar '' @ path_display wasm_path @ '': '' @
            gl_read_error env wasm_path))
      | Some wasm_bytes \<Rightarrow>
          (case gl_new_store env of
             Some e \<Rightarrow> Inl (WasmError (''wasm store: '' @ e))
           | None \<Rightarrow>
               (case load_language_with_fallback env t (lang_of_wasm wasm_path) wasm_path wasm_bytes of
                  Inl e \<Rightarrow> Inl (WasmError e)
                | Inr g \<Rightarrow>
                    (case gl_set_store env of
                       Some e \<Rightarrow> Inl (WasmError (''set wasm store: '' @ e))
                     | None \<Rightarrow>
                         (case gl_set_language env g of
                            Some e \<Rightarrow> Inl (WasmError (''set language: '' @ e))
                          | None \<Rightarrow> Inr g)))))"

definition load_wasm_language_cached ::
  "'g load_env \<Rightarrow> path \<Rightarrow> dir_tree \<Rightarrow> (parse_error + 'g) \<times> dir_tree" where
  "load_wasm_language_cached env wasm_path t =
     (case tree_read t wasm_path of
        None \<Rightarrow>
          (Inl (WasmError (''failed to read wasm grammar '' @ path_display wasm_path @ '': '' @
            gl_read_error env wasm_path)), t)
      | Some wasm_bytes \<Rightarrow>
          (case gl_new_store env of
             Some e \<Rightarrow> (Inl (WasmError (''wasm store: '' @ e)), t)
           | None \<Rightarrow>
               (case load_language_with_fallback env t (lang_of_wasm wasm_path) wasm_path wasm_bytes of
                  Inl e \<Rightarrow> (Inl (WasmError e), t)
                | Inr g \<Rightarrow>
                    (let t' = try_save_cwasm env (lang_of_wasm wasm_path) wasm_bytes t in
                     case gl_set_store env of
                       Some e \<Rightarrow> (Inl (WasmError (''set wasm store: '' @ e)), t')
                     | None \<Rightarrow>
                         (case gl_set_language env g of
                            Some e \<Rightarrow> (Inl (WasmError (''set language: '' @ e)), t')
                          | None \<Rightarrow> (Inr g, t'))))))"

section \<open>The download on first use\<close>

definition auto_install_url :: "string \<Rightarrow> string" where
  "auto_install_url name =
     ''https://github.com/jmfirth/codequery/releases/download/'' @ DEFAULT_GRAMMAR_RELEASE_TAG @ ''/lang-'' @ name @
     ''.tar.gz''"

definition note_err :: "string \<Rightarrow> load_state \<Rightarrow> load_state" where
  "note_err s st = st\<lparr>ls_err := ls_err st @ s @ line_end\<rparr>"

text \<open>After the language has been marked as tried.\<close>

definition fetch_grammar :: "'g load_env \<Rightarrow> string \<Rightarrow> load_state \<Rightarrow> bool \<times> load_state" where
  "fetch_grammar env name st =
     (let st1 = note_err (''cq: auto-installing '' @ name @ '' language support...'') st in
      case pe_languages_dir env of
        None \<Rightarrow> (False, st1)
      | Some d \<Rightarrow>
          (let p = package_dir d name in
           if pe_mkdir_error env p \<noteq> None then (False, st1)
           else
             (let t1 = make_dirs (ls_tree st1) p;
                  give_up = (\<lambda>t. (False, st1\<lparr>ls_tree := if pe_remove_error env p = None then remove_tree t p else t\<rparr>)) in
              case pe_curl env (auto_install_url name) of
                None \<Rightarrow> give_up t1
              | Some archive \<Rightarrow>
                  (case pe_tar env (real_path p) archive of
                     (entries, ok) \<Rightarrow>
                       (let t2 = unpack t1 entries in
                        if \<not> ok then give_up t2
                        else
                          (case tree_read t2 (path_join p [Normal ''grammar.wasm'']) of
                             Some wasm \<Rightarrow>
                               if 100 < length wasm
                               then (True, note_err (''cq: '' @ name @ '' installed successfully'') (st1\<lparr>ls_tree := t2\<rparr>))
                               else give_up t2
                           | None \<Rightarrow> give_up t2))))))"

definition auto_install_grammar :: "'g load_env \<Rightarrow> string \<Rightarrow> load_state \<Rightarrow> bool \<times> load_state" where
  "auto_install_grammar env name st =
     (if name \<in> set (ls_attempted st) then (False, st)
      else fetch_grammar env name (st\<lparr>ls_attempted := ls_attempted st @ [name]\<rparr>))"

section \<open>Parsers\<close>

text \<open>A parser is its grammar and the language it was made for.\<close>

definition load_cached :: "'g load_env \<Rightarrow> path \<Rightarrow> language \<Rightarrow> load_state \<Rightarrow> (parse_error + 'g \<times> language) \<times> load_state" where
  "load_cached env p lang st =
     (case load_wasm_language_cached env p (ls_tree st) of
        (res, t) \<Rightarrow> (map_sum id (\<lambda>g. (g, lang)) res, st\<lparr>ls_tree := t\<rparr>))"

definition no_grammar :: "string \<Rightarrow> parse_error" where
  "no_grammar name =
     LanguageError (''no grammar available for language '' @ in_quotes name @ '': not a builtin language, no runtime '' @
       ''grammar, and auto-install failed. Try: cq grammar install '' @ name)"

definition from_runtime_or_wasm ::
  "'g load_env \<Rightarrow> string \<Rightarrow> language \<Rightarrow> load_state \<Rightarrow> (parse_error + 'g \<times> language) \<times> load_state" where
  "from_runtime_or_wasm env name lang st =
     (case load_runtime_grammar env (ls_tree st) name of
        Inr g \<Rightarrow>
          (case gl_set_language env g of
             Some e \<Rightarrow> (Inl (LanguageError e), st)
           | None \<Rightarrow> (Inr (g, lang), st))
      | Inl _ \<Rightarrow>
          (case find_wasm_grammar env (ls_tree st) name of
             Some info \<Rightarrow> load_cached env (wi_wasm_path info) lang st
           | None \<Rightarrow>
               (case auto_install_grammar env name st of
                  (False, st') \<Rightarrow> (Inl (no_grammar name), st')
                | (True, st') \<Rightarrow>
                    (case find_wasm_grammar env (ls_tree st') name of
                       Some info \<Rightarrow> load_cached env (wi_wasm_path info) lang st'
                     | None \<Rightarrow> (Inl (no_grammar name), st')))))"

definition for_language ::
  "'g load_env \<Rightarrow> language \<Rightarrow> load_state \<Rightarrow> (parse_error + 'g \<times> language) \<times> load_state" where
  "for_language env lang st = from_runtime_or_wasm env (language_name lang) lang st"

definition for_name :: "'g load_env \<Rightarrow> string \<Rightarrow> load_state \<Rightarrow> (parse_error + 'g \<times> language) \<times> load_state" where
  "for_name env name st =
     (case from_name name of
        Some lang \<Rightarrow> for_language env lang st
      | None \<Rightarrow> from_runtime_or_wasm env name Rust st)"

definition grammar_or_wasm ::
  "'g load_env \<Rightarrow> string \<Rightarrow> string \<Rightarrow> dir_tree \<Rightarrow> (parse_error + 'g) \<times> dir_tree" where
  "grammar_or_wasm env name otherwise t =
     (case load_runtime_grammar env t name of
        Inr g \<Rightarrow> (Inr g, t)
      | Inl _ \<Rightarrow>
          (case find_wasm_grammar env t name of
             Some info \<Rightarrow> load_wasm_language_cached env (wi_wasm_path info) t
           | None \<Rightarrow> (Inl (LanguageError otherwise), t)))"

definition grammar_for_language :: "'g load_env \<Rightarrow> language \<Rightarrow> dir_tree \<Rightarrow> (parse_error + 'g) \<times> dir_tree" where
  "grammar_for_language env lang t =
     grammar_or_wasm env (language_name lang)
       (''no grammar available for '' @ in_quotes (language_name lang) @ '': no runtime or WASM grammar installed. '' @
        ''Try: cq grammar install '' @ language_name lang) t"

definition grammar_for_name :: "'g load_env \<Rightarrow> string \<Rightarrow> dir_tree \<Rightarrow> (parse_error + 'g) \<times> dir_tree" where
  "grammar_for_name env name t =
     (case from_name name of
        Some lang \<Rightarrow> grammar_for_language env lang t
      | None \<Rightarrow> grammar_or_wasm env name (''no grammar available for language '' @ in_quotes name) t)"


section \<open>What loading writes\<close>

lemma canonical_path_child:
  "canonical_path d \<Longrightarrow> name_ok n \<Longrightarrow> real_path (path_join d [Normal n]) = d @ [Normal n]"
  by (auto simp: path_join_def is_absolute_def canonical_path_def
      intro!: real_path_canonical[OF canonical_path_snoc, unfolded canonical_path_def])

lemma name_ok_append: "name_ok a \<Longrightarrow> CHR ''/'' \<notin> set b \<Longrightarrow> a @ b \<noteq> ''.'' \<Longrightarrow> a @ b \<noteq> ''..'' \<Longrightarrow> name_ok (a @ b)"
  by (auto simp: name_ok_def)

lemma map_of_write_file:
  "x \<noteq> real_path p \<Longrightarrow> map_of (write_file env p bytes t) x = map_of t x"
  by (simp add: write_file_def map_of_put_entry)

lemma fetch_touches:
  assumes "pe_languages_dir env = Some d" "canonical_path d" "name_ok name" "tar_confined env"
    and "\<not> path_starts_with q (d @ [Normal name])" "\<not> prefix q (d @ [Normal name])"
  shows "map_of (ls_tree (snd (fetch_grammar env name st))) q = map_of (ls_tree st) q"
  using assms(1,5,6) real_package_dir[OF assms(2,3)]
    map_of_unpack[OF assms(4), of "package_dir d name" _ _ _ q, unfolded real_package_dir[OF assms(2,3)], OF _ assms(5)]
  by (auto simp: fetch_grammar_def note_err_def Let_def map_of_remove_tree map_of_make_dirs
      split: option.split prod.split)

lemma save_touches:
  assumes "gl_cwasm_dir env = Some c" "canonical_path c" "name_ok name"
    and "\<not> path_starts_with q c" "\<not> prefix q c"
  shows "map_of (try_save_cwasm env name bytes t) q = map_of t q"
proof -
  have "name_ok (name @ ''.cwasm'')"
    using assms(3) by (cases name) (auto simp: name_ok_def)
  then have "real_path (cwasm_file c name) = c @ [Normal (name @ ''.cwasm'')]"
    using assms(2) by (simp add: cwasm_file_def path_of_name canonical_path_child)
  moreover have "real_path (version_file c) = c @ [Normal ''.cq-version'']"
    using assms(2) by (simp add: version_file_def canonical_path_child name_ok_def)
  moreover have "q \<noteq> c @ [x]" for x using assms(4) by (auto simp: path_starts_with_def starts_with_def)
  ultimately show ?thesis
    using assms(1,5) real_path_canonical[OF assms(2)]
    by (simp add: try_save_cwasm_def Let_def map_of_write_file map_of_make_dirs split: option.split)
qed

lemma cached_touches:
  assumes "gl_cwasm_dir env = Some c" "canonical_path c" "name_ok (lang_of_wasm p)"
    and "\<not> path_starts_with q c" "\<not> prefix q c"
  shows "map_of (ls_tree (snd (load_cached env p lang st))) q = map_of (ls_tree st) q"
  using save_touches[OF assms]
  by (auto simp: load_cached_def load_wasm_language_cached_def Let_def split: option.split sum.split)

lemma lang_of_package:
  assumes "find_wasm_grammar env t name = Some info" "pe_languages_dir env = Some d" "canonical_path d" "name_ok name"
  shows "lang_of_wasm (wi_wasm_path info) = name"
proof -
  have "wi_wasm_path info = d @ [Normal name, Normal ''grammar.wasm'']"
    using assms
    by (auto simp: find_wasm_grammar_def Let_def package_dir_name path_join_def is_absolute_def split: if_splits)
  then show ?thesis
    using assms(3) by (auto simp: lang_of_wasm_def path_parent_def path_file_name_def canonical_path_def butlast_append)
qed

lemma loader_touches:
  assumes d: "pe_languages_dir env = Some d" "canonical_path d" "name_ok name" "tar_confined env"
    and c: "gl_cwasm_dir env = Some c" "canonical_path c"
    and q: "\<not> path_starts_with q (d @ [Normal name])" "\<not> prefix q (d @ [Normal name])"
      "\<not> path_starts_with q c" "\<not> prefix q c"
  shows "map_of (ls_tree (snd (from_runtime_or_wasm env name lang st))) q = map_of (ls_tree st) q"
proof -
  have cached: "map_of (ls_tree (snd (load_cached env (wi_wasm_path info) lang s))) q = map_of (ls_tree s) q"
    if "find_wasm_grammar env t name = Some info" for info s t
    using cached_touches[OF c _ q(3,4)] lang_of_package[OF that d(1-3)] d(3) by simp
  have install: "map_of (ls_tree (snd (auto_install_grammar env name st))) q = map_of (ls_tree st) q"
    using fetch_touches[OF d q(1,2)] by (simp add: auto_install_grammar_def)
  show ?thesis
  proof (cases "load_runtime_grammar env (ls_tree st) name")
    case (Inr g)
    then show ?thesis by (simp add: from_runtime_or_wasm_def split: option.split)
  next
    case missing: (Inl e)
    show ?thesis
    proof (cases "find_wasm_grammar env (ls_tree st) name")
      case (Some info)
      with missing cached[OF Some, of st] show ?thesis by (simp add: from_runtime_or_wasm_def)
    next
      case None
      obtain ok st' where i: "auto_install_grammar env name st = (ok, st')" by fastforce
      show ?thesis
      proof (cases "ok \<and> find_wasm_grammar env (ls_tree st') name \<noteq> None")
        case True
        then obtain info where info: "find_wasm_grammar env (ls_tree st') name = Some info" "ok" by blast
        with missing None i cached[OF info(1), of st'] install show ?thesis by (simp add: from_runtime_or_wasm_def)
      next
        case False
        with missing None i install show ?thesis
          by (cases ok) (simp_all add: from_runtime_or_wasm_def)
      qed
    qed
  qed
qed

text \<open>
  Making a parser for a language, by its name, changes nothing on disk outside the directory of
  that language's package and the directory of compiled grammars (and directories that lead to
  them), whatever is downloaded and however the attempt ends. Names that stand for the same built-in
  language share its package.
\<close>
theorem loading_touches_package:
  assumes "pe_languages_dir env = Some d" "canonical_path d" "gl_cwasm_dir env = Some c" "canonical_path c"
    and "tar_confined env" "name_ok package" "package = (case from_name name of Some lang \<Rightarrow> language_name lang | None \<Rightarrow> name)"
    and "\<not> path_starts_with q (d @ [Normal package])" "\<not> prefix q (d @ [Normal package])"
    and "\<not> path_starts_with q c" "\<not> prefix q c"
  shows "map_of (ls_tree (snd (for_name env name st))) q = map_of (ls_tree st) q"
  using loader_touches[OF assms(1,2,6,5,3,4,8-11)] assms(7)
  by (auto simp: for_name_def for_language_def split: option.splits)

definition demo_load_env :: "string load_env" where
  "demo_load_env =
     \<lparr>pe_registry_json = [], pe_parse_registry = (\<lambda>_. Inl ''unused''),
      pe_languages_dir = Some [RootDir, Normal ''languages''], pe_registry_cache = None,
      pe_curl = (\<lambda>_. Some ''archive''), pe_curl_writes = (\<lambda>_. True),
      pe_tar = (\<lambda>p _. ([(p @ [Normal ''grammar.wasm''], Some (replicate 101 CHR ''w''))], True)),
      pe_mkdir_error = (\<lambda>_. None), pe_remove_error = (\<lambda>_. None),
      gl_vars = (\<lambda>_. None), gl_registry = None, gl_cwasm_dir = Some [RootDir, Normal ''cwasm''],
      gl_version = ''1'', gl_dlopen = (\<lambda>_. Inl ''no library''), gl_set_language = (\<lambda>_. None),
      gl_new_store = None, gl_store_load = (\<lambda>name bytes. Inr name), gl_set_store = None,
      gl_precompile = (\<lambda>_. Some ''compiled''), gl_write_ok = (\<lambda>_. True),
      gl_read_error = (\<lambda>_. ''no such file'')\<rparr>"

definition demo_load_state :: load_state where
  "demo_load_state =
     \<lparr>ls_tree = [([RootDir], None), ([RootDir, Normal ''home''], Some ''kept'')], ls_attempted = [], ls_err = []\<rparr>"

theorem loading_touches_package_witness:
  "map_of (ls_tree (snd (for_name demo_load_env ''elixir'' demo_load_state))) [RootDir, Normal ''home''] =
     Some (Some ''kept'') \<and>
   fst (for_name demo_load_env ''elixir'' demo_load_state) = Inr (''elixir'', Rust)"
proof
  have "canonical_path [RootDir, Normal n]" if "name_ok n" for n
    using that unfolding canonical_path_def by (intro exI[of _ "[n]"]) simp
  then have dirs: "canonical_path [RootDir, Normal ''languages'']" "canonical_path [RootDir, Normal ''cwasm'']"
    by (simp_all add: name_ok_def)
  have "map_of (ls_tree (snd (for_name demo_load_env ''elixir'' demo_load_state))) [RootDir, Normal ''home''] =
      map_of (ls_tree demo_load_state) [RootDir, Normal ''home'']"
  proof (rule loading_touches_package[where env = demo_load_env and package = "''elixir''", OF _ dirs(1) _ dirs(2)])
    have "from_name ''elixir'' = None" by code_simp
    then show "''elixir'' = (case from_name ''elixir'' of Some lang \<Rightarrow> language_name lang | None \<Rightarrow> ''elixir'')" by simp
  qed (simp_all add: demo_load_env_def name_ok_def path_starts_with_def starts_with_def tar_confined_def)
  then show "map_of (ls_tree (snd (for_name demo_load_env ''elixir'' demo_load_state))) [RootDir, Normal ''home''] =
      Some (Some ''kept'')"
    by (simp add: demo_load_state_def)
  show "fst (for_name demo_load_env ''elixir'' demo_load_state) = Inr (''elixir'', Rust)" by code_simp
qed

section \<open>The download by several threads\<close>

text \<open>
  A scan makes parsers in the threads of a pool. The look at the list of tried languages and the mark
  in it hold the lock one after the other, so other threads may run in between; the download that
  follows holds none.
\<close>

datatype install_stage = Idle | Unseen | Marked | Got bool

inductive install_step ::
  "'g load_env \<Rightarrow> string \<Rightarrow> (nat \<Rightarrow> install_stage) \<times> load_state \<Rightarrow> (nat \<Rightarrow> install_stage) \<times> load_state \<Rightarrow> bool"
  for env :: "'g load_env" and name :: string where
  look_seen:
    "th i = Idle \<Longrightarrow> name \<in> set (ls_attempted st) \<Longrightarrow> install_step env name (th, st) (th(i := Got False), st)"
| look_unseen:
    "th i = Idle \<Longrightarrow> name \<notin> set (ls_attempted st) \<Longrightarrow> install_step env name (th, st) (th(i := Unseen), st)"
| mark:
    "th i = Unseen \<Longrightarrow>
     install_step env name (th, st) (th(i := Marked), st\<lparr>ls_attempted := ls_attempted st @ [name]\<rparr>)"
| download:
    "th i = Marked \<Longrightarrow> fetch_grammar env name st = (ok, st') \<Longrightarrow> install_step env name (th, st) (th(i := Got ok), st')"

inductive_cases install_stepE: "install_step env name (th, st) (th', st')"

lemma fetch_keeps_attempted: "ls_attempted (snd (fetch_grammar env name st)) = ls_attempted st"
  by (auto simp: fetch_grammar_def note_err_def Let_def split: option.split prod.split)

lemma fetch_finds:
  assumes "fetch_grammar env name st = (True, st')"
  shows "find_wasm_grammar env (ls_tree st') name \<noteq> None"
proof (cases "pe_languages_dir env")
  case None
  with assms show ?thesis by (simp add: fetch_grammar_def Let_def)
next
  case (Some d)
  with assms show ?thesis
    by (auto simp: fetch_grammar_def note_err_def find_wasm_grammar_def tree_exists_def tree_read_def Let_def
        bind_eq_Some_conv split: option.splits prod.splits if_splits)
qed

text \<open>Alone, a thread does what \<open>auto_install_grammar\<close> does.\<close>

lemma install_alone:
  assumes "th i = Idle"
  shows "(install_step env name)\<^sup>*\<^sup>* (th, st)
    (th(i := Got (fst (auto_install_grammar env name st))), snd (auto_install_grammar env name st))"
proof (cases "name \<in> set (ls_attempted st)")
  case True
  then show ?thesis using look_seen[where st = st and th = th, OF assms, of name env]
    by (simp add: auto_install_grammar_def r_into_rtranclp)
next
  case False
  let ?st = "st\<lparr>ls_attempted := ls_attempted st @ [name]\<rparr>"
  obtain ok st' where f: "fetch_grammar env name ?st = (ok, st')" by fastforce
  have "(install_step env name)\<^sup>*\<^sup>* (th, st) (th, st)" by simp
  also have "install_step env name (th, st) (th(i := Unseen), st)" using False assms by (rule look_unseen[rotated])
  also have "install_step env name (th(i := Unseen), st) (th(i := Marked), ?st)"
    using mark[of "th(i := Unseen)" i env name st] by simp
  also have "install_step env name (th(i := Marked), ?st) (th(i := Got ok), st')"
    using download[of "th(i := Marked)" i env name ?st ok st'] f by simp
  finally show ?thesis using f False by (simp add: auto_install_grammar_def)
qed

text \<open>
  C37: Threads that need the same missing grammar race for it. While one is downloading, another that
  looks is told that the grammar cannot be had; the download then succeeds, the package is installed,
  and the second thread has given up for good. Without such an overlap the steps are those of the
  sequential function.
\<close>
theorem install_race_loses_thread:
  assumes "i \<noteq> j" and "name \<notin> set (ls_attempted st)"
    and "fetch_grammar env name (st\<lparr>ls_attempted := ls_attempted st @ [name]\<rparr>) = (True, st')"
  shows "(install_step env name)\<^sup>*\<^sup>* (\<lambda>_. Idle, st) ((\<lambda>_. Idle)(i := Got True, j := Got False), st') \<and>
    find_wasm_grammar env (ls_tree st') name \<noteq> None \<and>
    (install_step env name)\<^sup>*\<^sup>* (\<lambda>_. Idle, st)
      ((\<lambda>_. Idle)(i := Got (fst (auto_install_grammar env name st))), snd (auto_install_grammar env name st))"
proof (intro conjI)
  let ?st = "st\<lparr>ls_attempted := ls_attempted st @ [name]\<rparr>"
  let ?t = "\<lambda>s r. (\<lambda>_. Idle)(i := s, j := r)"
  have "(install_step env name)\<^sup>*\<^sup>* (\<lambda>_. Idle, st) (\<lambda>_. Idle, st)" by simp
  also have "install_step env name (\<lambda>_. Idle, st) (?t Unseen Idle, st)"
    using look_unseen[of "\<lambda>_. Idle" i name st env] assms(1,2) by (simp add: fun_upd_twist fun_upd_idem)
  also have "install_step env name (?t Unseen Idle, st) (?t Marked Idle, ?st)"
    using mark[of "?t Unseen Idle" i env name st] assms(1) by (simp add: fun_upd_twist)
  also have "install_step env name (?t Marked Idle, ?st) (?t Marked (Got False), ?st)"
    using look_seen[of "?t Marked Idle" j name ?st env] by simp
  also have "install_step env name (?t Marked (Got False), ?st) (?t (Got True) (Got False), st')"
    using download[of "?t Marked (Got False)" i env name ?st True st'] assms(1,3) by (simp add: fun_upd_twist)
  finally show "(install_step env name)\<^sup>*\<^sup>* (\<lambda>_. Idle, st) (?t (Got True) (Got False), st')" .
  show "find_wasm_grammar env (ls_tree st') name \<noteq> None" by (rule fetch_finds[OF assms(3)])
qed (simp add: install_alone)

theorem install_race_loses_thread_witness:
  "\<exists>st'. (install_step demo_load_env ''elixir'')\<^sup>*\<^sup>* (\<lambda>_. Idle, demo_load_state)
     ((\<lambda>_. Idle)(0 := Got True, 1 := Got False), st') \<and>
     find_wasm_grammar demo_load_env (ls_tree st') ''elixir'' \<noteq> None"
proof -
  let ?r = "fetch_grammar demo_load_env ''elixir'' (demo_load_state\<lparr>ls_attempted := ls_attempted demo_load_state @ [''elixir'']\<rparr>)"
  have "fst ?r" by code_simp
  then have "?r = (True, snd ?r)" by (simp add: prod_eq_iff)
  moreover have "''elixir'' \<notin> set (ls_attempted demo_load_state)" by (simp add: demo_load_state_def)
  ultimately show ?thesis using install_race_loses_thread[of 0 1 "''elixir''" demo_load_state demo_load_env "snd ?r"] by auto
qed

text \<open>
  What holds under every interleaving: a language that some thread has tried is in the list, so a
  thread that looks later never downloads it again.
\<close>

definition install_noted :: "string \<Rightarrow> (nat \<Rightarrow> install_stage) \<times> load_state \<Rightarrow> bool" where
  "install_noted name s \<longleftrightarrow>
     (case s of (th, st) \<Rightarrow> (\<forall>i. th i = Marked \<or> (\<exists>ok. th i = Got ok) \<longrightarrow> name \<in> set (ls_attempted st)))"

lemma install_noted_step:
  assumes "install_step env name s s'" "install_noted name s"
  shows "install_noted name s'"
  using assms
proof cases
  case (download th i st ok st')
  then show ?thesis
    using assms(2) fetch_keeps_attempted[of env name st] by (auto simp: install_noted_def split: if_splits)
qed (auto simp: install_noted_def split: if_splits)

lemma install_noted_reachable:
  "(install_step env name)\<^sup>*\<^sup>* (\<lambda>_. Idle, st) s \<Longrightarrow> install_noted name s"
proof (induction rule: rtranclp_induct)
  case base
  show ?case by (simp add: install_noted_def)
next
  case (step y z)
  then show ?case by (blast intro: install_noted_step)
qed

lemma no_later_download:
  assumes "(install_step env name)\<^sup>*\<^sup>* (\<lambda>_. Idle, st0) (th, st)" "th i = Got ok" "th j = Idle"
    and "install_step env name (th, st) (th', st')" "th' j \<noteq> Idle"
  shows "th' j = Got False"
proof -
  have "name \<in> set (ls_attempted st)"
    using install_noted_reachable[OF assms(1)] assms(2) by (auto simp: install_noted_def)
  with assms(3-5) show ?thesis by (auto elim!: install_stepE split: if_splits)
qed

section \<open>The names tried in a WASM module\<close>

lemma add_candidate_distinct: "distinct cs \<Longrightarrow> distinct (add_candidate n cs)"
  and set_add_candidate: "set (add_candidate n cs) = insert n (set cs)"
  by (auto simp: add_candidate_def)

lemma candidates_distinct: "distinct (resolve_wasm_name r t lang p) \<and> lang \<in> set (resolve_wasm_name r t lang p)"
  by (auto simp: resolve_wasm_name_def Let_def set_add_candidate
      intro!: add_candidate_distinct split: option.split)

lemma try_candidates_first:
  "try_candidates load e cs = Inr g \<longleftrightarrow>
     (case dropWhile (\<lambda>c. isl (load c)) cs of [] \<Rightarrow> False | c # _ \<Rightarrow> load c = Inr g)"
  by (induction cs arbitrary: e) (auto split: sum.split)

end
