(* ===== verification/Cli.thy ===== *)
theory Cli
  imports Commands Grammar_Loading
begin

text \<open>
  The cq program (\<open>main.rs\<close>, \<open>args.rs\<close>, \<open>commands/daemon.rs\<close>, \<open>commands/upgrade.rs\<close>): from the
  parsed arguments to what the process prints and its exit status. Parsing the command line is the
  work of a library; the arguments are given as the record that it fills.

  The commands look at parsers as functions (\<open>fx_for_language\<close>, \<open>fx_for_name\<close>, \<open>se_parse_file\<close>).
  What making a parser does besides (downloading a missing grammar, saving the compiled form of one,
  compiling the rules of a plugin, and the lines on standard error that go with it) is run here on the
  directory tree, with the functions of \<open>Grammar_Loading\<close> and \<open>Extract_Engine\<close>. Which parsers a run
  makes, in which order, is the list \<open>cli_events\<close>: any list, so what is proved holds for the one that
  the files of a project lead to.
\<close>

section \<open>Arguments\<close>

datatype daemon_action = Start | Stop | ShowStatus

datatype grammar_action =
    GrammarList
  | GrammarInstall "string option" bool "string option"
  | GrammarUpdate
  | GrammarRemove string
  | GrammarInfo string
  | GrammarValidate "string option" bool

datatype command =
    CmdOutline path
  | CmdDef string
  | CmdBody string
  | CmdSig string
  | CmdRefs string
  | CmdCallers string
  | CmdDeps string
  | CmdSymbols
  | CmdImports path
  | CmdContext string
  | CmdTree "path option"
  | CmdSearch string
  | CmdDead
  | CmdDiagnostics "path option"
  | CmdHover string
  | CmdRename string string bool bool
  | CmdCallchain string
  | CmdHierarchy string
  | CmdCacheClear
  | CmdDaemon daemon_action
  | CmdDaemonRun "path option"
  | CmdGrammar grammar_action
  | CmdUpgrade

record cq_args =
  ca_project :: "path option"
  ca_scope :: "path option"
  ca_json :: bool
  ca_raw :: bool
  ca_pretty :: bool
  ca_kind :: "string option"
  ca_lang :: "string option"
  ca_semantic :: bool
  ca_no_semantic :: bool
  ca_cache :: bool
  ca_no_cache :: bool
  ca_context :: nat
  ca_depth :: "nat option"
  ca_limit :: "nat option"
  ca_command :: command

definition output_mode_of :: "cq_args \<Rightarrow> output_mode" where
  "output_mode_of args = (if ca_json args then Json else if ca_raw args then Raw else Framed)"

definition semantic_mode_of :: "(string \<Rightarrow> string option) \<Rightarrow> cq_args \<Rightarrow> semantic_mode" where
  "semantic_mode_of var args =
     (if ca_no_semantic args then ModeOff
      else if ca_semantic args then ModeOneshot
      else
        (case var ''CQ_SEMANTIC'' of
           Some v \<Rightarrow>
             if v = ''1'' \<or> v = ''on'' then ModeOneshot
             else if v = ''daemon'' then ModeDaemon
             else ModeOff
         | None \<Rightarrow> ModeOff))"

definition use_cache :: "(string \<Rightarrow> string option) \<Rightarrow> cq_args \<Rightarrow> bool" where
  "use_cache var args =
     (if ca_no_cache args then False
      else if ca_cache args then True
      else (case var ''CQ_CACHE'' of Some v \<Rightarrow> v = ''1'' | None \<Rightarrow> False))"

section \<open>The program\<close>

text \<open>What a run does with grammars: making a parser by the name of a language (\<open>Parser::for_language\<close>,
  \<open>Parser::for_name\<close>), loading a grammar for queries (\<open>grammar_for_name\<close>), and compiling the rules of
  a plugin.\<close>

datatype parser_event =
    MakesParser string
  | LoadsGrammar string
  | CompilesRules "string \<Rightarrow> string + query" extract_config

text \<open>\<open>cli_curl\<close>: why \<open>curl\<close> could not be run, or whether it succeeded, its output and its errors.
  Removing the cache directory may fail after some files are gone; \<open>cli_survives\<close> are those left.\<close>

record ('l, 'g, 'n, 'p) cli_env =
  cli_cmd :: "('l, 'g, 'n) cmd_env"
  cli_packages :: package_env
  cli_validate :: validate_env
  cli_exe :: "string + string"
  cli_spawn :: "string \<Rightarrow> path \<Rightarrow> string + nat"
  cli_curl :: "string + bool \<times> string \<times> string"
  cli_json :: "string \<Rightarrow> json option"
  cli_vars :: env
  cli_home :: "path option"
  cli_rmdir_error :: "path \<Rightarrow> io_error option"
  cli_survives :: "path \<Rightarrow> bool"
  cli_daemon :: daemon_env
  cli_bound :: "string + nat"
  cli_unix_secs :: nat
  cli_nonblocking :: "io_error option"
  cli_turns :: "(bool \<times> accept_event) list"
  cli_load :: "'p load_env"
  cli_events :: "parser_event list"

record cli_world =
  cw_client :: client_world
  cw_tree :: dir_tree
  cw_daemon :: daemon_world

text \<open>How the process ends. A panic gives no more output here; 101 is the status of one.\<close>

datatype process = Ended string string nat | Waiting

primrec exit_status :: "exit_code \<Rightarrow> nat" where
  "exit_status ExitSuccess = 0"
| "exit_status ExitUsageError = 2"
| "exit_status ExitProjectError = 3"
| "exit_status ExitParseWarning = 4"

text \<open>\<open>main\<close>: an error goes to standard error, after what was printed before, and is status 3.\<close>

definition finish :: "string \<Rightarrow> string \<Rightarrow> string + exit_code \<Rightarrow> process" where
  "finish out err res =
     (case res of
        Inl e \<Rightarrow> Ended out (err @ println (''error: '' @ e)) (exit_status ExitProjectError)
      | Inr code \<Rightarrow> Ended out err (exit_status code))"

fun end_of :: "ran \<Rightarrow> process" where
  "end_of (Exits out err code) = finish out err (Inr code)"
| "end_of (Fails e) = finish [] [] (Inl e)"
| "end_of Crashes = Ended [] [] 101"
| "end_of Waits = Waiting"

definition lang_names :: string where
  "lang_names =
     ''rust, typescript, ts, javascript, js, python, py, go, c, cpp, c++, java, ruby, rb, php, csharp, c#, cs, swift, '' @
     ''kotlin, kt, scala, zig, lua, bash, sh''"

definition parse_lang_filter ::
  "package_env \<Rightarrow> dir_tree \<Rightarrow> string option \<Rightarrow> string + language option" where
  "parse_lang_filter env t lang =
     (case lang of
        None \<Rightarrow> Inr None
      | Some s \<Rightarrow>
          (case from_name s of
             Some l \<Rightarrow> Inr (Some l)
           | None \<Rightarrow>
               (case find_package_for_extension_or_name env t s of
                  Some pkg \<Rightarrow>
                    Inl (in_quotes s @ '' requires the '' @ pkg @ '' package. Install with: cq grammar install '' @ pkg)
                | None \<Rightarrow> Inl (''unknown language: '' @ s @ ''. valid languages: '' @ lang_names))))"


section \<open>\<open>cq daemon\<close>\<close>

definition with_project_root ::
  "('l, 'g, 'n, 'p) cli_env \<Rightarrow> path option \<Rightarrow> client_world \<Rightarrow> (path \<Rightarrow> ran \<times> client_world) \<Rightarrow> ran \<times> client_world" where
  "with_project_root env project w k =
     (let ce = cli_cmd env in
      case detect_project_root_or (fx_canonicalize (cm_find ce)) (fx_exists (cm_find ce)) (cm_cwd ce) project of
        Inl e \<Rightarrow> (Fails (''failed to detect project root: '' @ core_error_display e), w)
      | Inr root \<Rightarrow> k root)"

definition note_only :: "string \<Rightarrow> ran" where
  "note_only s = Exits [] (println s) ExitSuccess"

definition run_start :: "('l, 'g, 'n, 'p) cli_env \<Rightarrow> path option \<Rightarrow> client_world \<Rightarrow> ran \<times> client_world" where
  "run_start env project w =
     with_project_root env project w (\<lambda>root.
       let ke = cm_client (cli_cmd env) in
       case daemon_running ke root w of
         (True, w1) \<Rightarrow>
           (let w2 = look ke w1 in
            (note_only
               (case read_daemon_info (ke_files ke) (kw_disk w2) root of
                  Some info \<Rightarrow>
                    ''daemon already running (pid '' @ dec (di_pid info) @ '', port '' @ dec (di_port info) @ '')''
                | None \<Rightarrow> ''daemon already running''), w2))
       | (False, w1) \<Rightarrow>
           (case cli_exe env of
              Inl e \<Rightarrow> Fails (''cannot find cq binary: '' @ e)
            | Inr exe \<Rightarrow>
                (case cli_spawn env exe root of
                   Inl e \<Rightarrow> Fails (''failed to spawn daemon: '' @ e)
                 | Inr pid \<Rightarrow> note_only (''daemon started (pid '' @ dec pid @ '')'')), w1))"

text \<open>A request over a connection of its own; the outcome of waiting for the answer.\<close>

definition ask_daemon ::
  "('l, 'g, 'n, 'p) cli_env \<Rightarrow> path \<Rightarrow> client_world \<Rightarrow> (connection \<Rightarrow> (lsp_error + 'a) outcome) \<Rightarrow> string \<Rightarrow> ('a \<Rightarrow> ran)
    \<Rightarrow> ran \<times> client_world" where
  "ask_daemon env root w request failure show =
     (let ke = cm_client (cli_cmd env) in
      settle id w
        (outcome_bind (connect ke root w) (\<lambda>(connected, w1).
           case connected of
             Inl e \<Rightarrow> Returns (Fails (''failed to connect to daemon: '' @ error_text ke e), w1)
           | Inr cn \<Rightarrow>
               outcome_bind (request cn) (\<lambda>answer.
                 Returns (case answer of Inl e \<Rightarrow> Fails (failure @ error_text ke e) | Inr a \<Rightarrow> show a, w1)))))"

definition run_stop :: "('l, 'g, 'n, 'p) cli_env \<Rightarrow> path option \<Rightarrow> client_world \<Rightarrow> ran \<times> client_world" where
  "run_stop env project w =
     with_project_root env project w (\<lambda>root.
       let ke = cm_client (cli_cmd env) in
       case daemon_running ke root w of
         (False, w1) \<Rightarrow> (note_only ''daemon is not running'', w1)
       | (True, w1) \<Rightarrow>
           ask_daemon env root w1
             (\<lambda>cn. outcome_bind (client_shutdown ke cn) (\<lambda>(failed, _).
                Returns (case failed of Some e \<Rightarrow> Inl e | None \<Rightarrow> Inr ())))
             ''shutdown request failed: '' (\<lambda>_. note_only ''daemon stopped''))"

definition status_lines :: "server_info list \<Rightarrow> nat \<Rightarrow> string" where
  "status_lines servers uptime_secs =
     println (''daemon running (uptime: '' @ dec uptime_secs @ ''s)'') @
     (if servers = [] then println ''  no active language servers''
      else concat (map (\<lambda>s. println (''  '' @ path_display (si_project s) @ '' ('' @ si_language s @ '') '' @ em_dash @
             '' up '' @ dec (si_uptime_secs s) @ ''s'')) servers))"

definition other_daemons :: "daemon_info list \<Rightarrow> string" where
  "other_daemons infos =
     (if infos = [] then println ''daemon is not running''
      else
        println (''daemon is not running for this project, but '' @ dec (length infos) @ '' daemon(s) found:'') @
        concat (map (\<lambda>i. println (''  pid '' @ dec (di_pid i) @ '' '' @ em_dash @ '' '' @ path_display (di_project i) @
          '' (port '' @ dec (di_port i) @ '')'')) infos))"

definition run_status :: "('l, 'g, 'n, 'p) cli_env \<Rightarrow> path option \<Rightarrow> client_world \<Rightarrow> ran \<times> client_world" where
  "run_status env project w =
     with_project_root env project w (\<lambda>root.
       let ke = cm_client (cli_cmd env) in
       case daemon_running ke root w of
         (False, w1) \<Rightarrow>
           (let w2 = look ke w1 in
            (Exits [] (other_daemons (list_all_daemons (ke_files ke) (kw_disk w2))) ExitSuccess, w2))
       | (True, w1) \<Rightarrow>
           ask_daemon env root w1
             (\<lambda>cn. outcome_bind (client_status ke cn) (\<lambda>(answer, _). Returns answer))
             ''status request failed: ''
             (\<lambda>response.
                case response of
                  StatusResp servers uptime_secs \<Rightarrow> Exits [] (status_lines servers uptime_secs) ExitSuccess
                | _ \<Rightarrow> Fails ''unexpected response from daemon''))"

text \<open>The daemon itself; it waits when its turns run out. \<open>--project\<close> of the hidden command is not
  looked at.\<close>

definition run_foreground :: "('l, 'g, 'n, 'p) cli_env \<Rightarrow> daemon_world \<Rightarrow> ran \<times> daemon_world" where
  "run_foreground env w =
     (case from_env (cli_daemon env) (Some (cm_cwd (cli_cmd env))) w of
        (d, w1) \<Rightarrow>
          (case daemon_run (cli_daemon env) (cli_bound env) (cli_unix_secs env) (cli_nonblocking env) d (cli_turns env) w1 of
             Returns (Some (Some e), _, w2) \<Rightarrow> (Fails (''daemon error: '' @ error_text (cli_daemon env) e), w2)
           | Returns (Some None, _, w2) \<Rightarrow> (Exits [] [] ExitSuccess, w2)
           | Returns (None, _, w2) \<Rightarrow> (Waits, w2)
           | Hangs \<Rightarrow> (Waits, w1)
           | Panics \<Rightarrow> (Crashes, w1)))"

section \<open>\<open>cq cache clear\<close>, \<open>cq upgrade\<close>\<close>

definition clear_all_caches ::
  "env \<Rightarrow> path option \<Rightarrow> (path \<Rightarrow> io_error option) \<Rightarrow> (path \<Rightarrow> bool) \<Rightarrow> disk \<Rightarrow> (io_error + bool) \<times> disk" where
  "clear_all_caches vars home rmdir_error survives d =
     (case resolve_cache_dir vars home of
        None \<Rightarrow> (Inr False, d)
      | Some dir \<Rightarrow>
          (case rmdir_error dir of
             Some e \<Rightarrow>
               if e = NotFound then (Inr False, d)
               else (Inl e, d\<lparr>disk_files := (\<lambda>q. if path_starts_with q dir \<and> \<not> survives q then None else disk_files d q)\<rparr>)
           | None \<Rightarrow> (Inr True, d\<lparr>disk_files := (\<lambda>q. if path_starts_with q dir then None else disk_files d q)\<rparr>)))"

definition cache_clear_run :: "('l, 'g, 'n, 'p) cli_env \<Rightarrow> client_world \<Rightarrow> ran \<times> client_world" where
  "cache_clear_run env w =
     (case clear_all_caches (cli_vars env) (cli_home env) (cli_rmdir_error env) (cli_survives env) (kw_disk w) of
        (res, d) \<Rightarrow>
          (case res of
             Inr True \<Rightarrow> note_only ''cache cleared''
           | Inr False \<Rightarrow> note_only ''no cache to clear''
           | Inl e \<Rightarrow> Fails (''failed to clear cache: '' @ io_error_display e), w\<lparr>kw_disk := d\<rparr>))"

definition GITHUB_REPO :: string where
  "GITHUB_REPO = ''jmfirth/codequery''"

definition CURRENT_VERSION :: string where
  "CURRENT_VERSION = ''1.0.0''"

definition manual_check :: string where
  "manual_check = ''Check https://github.com/'' @ GITHUB_REPO @ ''/releases manually''"

definition upgrade_lines :: "('l, 'g, 'n, 'p) cli_env \<Rightarrow> string list" where
  "upgrade_lines env =
     (case cli_curl env of
        Inl e \<Rightarrow> [''Could not run curl: '' @ e, manual_check]
      | Inr (ok, body, errors) \<Rightarrow>
          if ok then
            (case Option.bind (Option.bind (cli_json env body) (json_get ''tag_name'')) json_as_str of
               Some tag \<Rightarrow>
                 (let latest = (case strip_prefix_str ''v'' tag of Some v \<Rightarrow> v | None \<Rightarrow> tag) in
                  if latest = CURRENT_VERSION then [''Already up to date (v'' @ CURRENT_VERSION @ '')'']
                  else
                    [''New version available: v'' @ latest @ '' (current: v'' @ CURRENT_VERSION @ '')'', [],
                     ''To upgrade:'',
                     ''  cargo install --git https://github.com/'' @ GITHUB_REPO @ '' codequery-cli'', [],
                     ''Or download from:'',
                     ''  https://github.com/'' @ GITHUB_REPO @ ''/releases/tag/v'' @ latest])
             | None \<Rightarrow> [''No releases found for '' @ GITHUB_REPO, manual_check])
          else [''Failed to check for updates: '' @ errors, manual_check])"

definition upgrade_run :: "('l, 'g, 'n, 'p) cli_env \<Rightarrow> ran" where
  "upgrade_run env =
     Exits []
       (concat (map println
         ([''Current version: v'' @ CURRENT_VERSION, ''Checking for updates...''] @ upgrade_lines env)))
       ExitSuccess"


section \<open>\<open>run\<close> and \<open>main\<close>\<close>

primrec package_exit :: "package_code \<Rightarrow> exit_code" where
  "package_exit PkgSuccess = ExitSuccess"
| "package_exit PkgUsageError = ExitUsageError"
| "package_exit PkgProjectError = ExitProjectError"

definition which_language :: string where
  "which_language = ''error: provide a language name or use --all''"

definition grammar_run ::
  "('l, 'g, 'n, 'p) cli_env \<Rightarrow> grammar_action \<Rightarrow> package_world \<Rightarrow> (string + package_code) \<times> package_world" where
  "grammar_run env action w =
     (let pe = cli_packages env in
      case action of
        GrammarList \<Rightarrow> run_list pe w
      | GrammarInstall language all_of_them tag \<Rightarrow>
          if all_of_them then run_install_all pe tag w
          else (case language of Some l \<Rightarrow> run_install pe l tag w | None \<Rightarrow> (Inr PkgUsageError, warn which_language w))
      | GrammarUpdate \<Rightarrow> run_update pe w
      | GrammarRemove l \<Rightarrow> run_remove pe l w
      | GrammarInfo l \<Rightarrow> run_info pe l w
      | GrammarValidate language all_of_them \<Rightarrow>
          if all_of_them then run_validate_all pe (cli_validate env) w
          else
            (case language of
               Some l \<Rightarrow> run_validate pe (cli_validate env) l w
             | None \<Rightarrow> (Inr PkgUsageError, warn which_language w)))"

definition grammar_process :: "('l, 'g, 'n, 'p) cli_env \<Rightarrow> grammar_action \<Rightarrow> dir_tree \<Rightarrow> process \<times> dir_tree" where
  "grammar_process env action t =
     (case grammar_run env action \<lparr>gw_tree = t, gw_out = [], gw_err = []\<rparr> of
        (res, w) \<Rightarrow> (finish (gw_out w) (gw_err w) (map_sum id package_exit res), gw_tree w))"

definition daemon_action_run ::
  "('l, 'g, 'n, 'p) cli_env \<Rightarrow> path option \<Rightarrow> daemon_action \<Rightarrow> client_world \<Rightarrow> ran \<times> client_world" where
  "daemon_action_run env project action w =
     (case action of
        Start \<Rightarrow> run_start env project w
      | Stop \<Rightarrow> run_stop env project w
      | ShowStatus \<Rightarrow> run_status env project w)"

text \<open>The commands that work with the client's world.\<close>

definition query_run ::
  "('l, 'g, 'n, 'p) cli_env \<Rightarrow> cq_args \<Rightarrow> language option \<Rightarrow> client_world \<Rightarrow> ran \<times> client_world" where
  "query_run env args lang_filter w =
     (let ce = cli_cmd env; mode = output_mode_of args; pretty = ca_pretty args;
          semantic = semantic_mode_of (cm_var ce) args; uc = use_cache (cm_var ce) args;
          project = ca_project args; scope = ca_scope args in
      case ca_command args of
        CmdOutline p \<Rightarrow> (outline_run ce p project mode pretty, w)
      | CmdDef s \<Rightarrow> def_run ce s project scope mode pretty lang_filter semantic w
      | CmdBody s \<Rightarrow> (body_run ce s project scope mode pretty lang_filter, w)
      | CmdSig s \<Rightarrow> (sig_run ce s project scope mode pretty lang_filter, w)
      | CmdImports p \<Rightarrow> (imports_run ce p project mode pretty, w)
      | CmdContext l \<Rightarrow> (context_run ce l project mode pretty (ca_depth args), w)
      | CmdSymbols \<Rightarrow> symbols_run ce project scope (ca_kind args) (ca_limit args) mode pretty uc w
      | CmdTree p \<Rightarrow> tree_run ce p project scope mode pretty (ca_depth args) uc w
      | CmdRefs s \<Rightarrow> refs_cmd_run ce s project scope mode pretty (ca_context args) uc semantic w
      | CmdDeps s \<Rightarrow> deps_cmd_run ce s project scope mode pretty lang_filter uc w
      | CmdCallers s \<Rightarrow> callers_cmd_run ce s project scope mode pretty (ca_context args) uc semantic w
      | CmdSearch q \<Rightarrow> search_cmd_run ce q project scope mode pretty (ca_limit args) uc lang_filter w
      | CmdDead \<Rightarrow> dead_run ce project scope (ca_kind args) (ca_limit args) mode pretty uc w
      | CmdDiagnostics p \<Rightarrow> diagnostics_run ce p project scope mode pretty uc w
      | CmdHover l \<Rightarrow> (hover_run ce l project mode pretty, w)
      | CmdRename old new apl dry \<Rightarrow> rename_cmd_run ce old new apl dry project scope lang_filter mode pretty uc w
      | CmdCallchain s \<Rightarrow>
          callchain_run ce s (case ca_depth args of Some d \<Rightarrow> d | None \<Rightarrow> 3) project scope mode pretty uc w
      | CmdHierarchy s \<Rightarrow> hierarchy_run ce s project scope lang_filter mode pretty uc w
      | CmdCacheClear \<Rightarrow> cache_clear_run env w
      | CmdDaemon action \<Rightarrow> daemon_action_run env project action w
      | CmdUpgrade \<Rightarrow> (upgrade_run env, w)
      | _ \<Rightarrow> (Waits, w))"

text \<open>The commands that make parsers or load grammars.\<close>

fun makes_parsers :: "command \<Rightarrow> bool" where
  "makes_parsers CmdCacheClear = False"
| "makes_parsers (CmdDaemon action) = False"
| "makes_parsers (CmdDaemonRun p) = False"
| "makes_parsers CmdUpgrade = False"
| "makes_parsers (CmdGrammar action) = (case action of GrammarValidate l b \<Rightarrow> True | _ \<Rightarrow> False)"
| "makes_parsers _ = True"

primrec parser_event_run :: "'p load_env \<Rightarrow> parser_event \<Rightarrow> load_state \<Rightarrow> load_state" where
  "parser_event_run env (MakesParser name) st = snd (for_name env name st)"
| "parser_event_run env (LoadsGrammar name) st = st\<lparr>ls_tree := snd (grammar_for_name env name (ls_tree st))\<rparr>"
| "parser_event_run env (CompilesRules new_query config) st =
     fold note_err (snd (compile_extractor new_query config)) st"

definition load_events :: "('l, 'g, 'n, 'p) cli_env \<Rightarrow> dir_tree \<Rightarrow> load_state" where
  "load_events env t =
     fold (parser_event_run (cli_load env)) (cli_events env) \<lparr>ls_tree = t, ls_attempted = [], ls_err = []\<rparr>"

text \<open>Parsers are made before a command prints, so their lines come first.\<close>

definition note_first :: "string \<Rightarrow> process \<Rightarrow> process" where
  "note_first notes p = (case p of Ended out err status \<Rightarrow> Ended out (notes @ err) status | Waiting \<Rightarrow> Waiting)"

definition with_parsers ::
  "('l, 'g, 'n, 'p) cli_env \<Rightarrow> command \<Rightarrow> process \<times> cli_world \<Rightarrow> process \<times> cli_world" where
  "with_parsers env cmd result =
     (if makes_parsers cmd then
        (case result of (p, w) \<Rightarrow>
           (case load_events env (cw_tree w) of st \<Rightarrow> (note_first (ls_err st) p, w\<lparr>cw_tree := ls_tree st\<rparr>)))
      else result)"

definition run_command :: "('l, 'g, 'n, 'p) cli_env \<Rightarrow> cq_args \<Rightarrow> cli_world \<Rightarrow> process \<times> cli_world" where
  "run_command env args w =
     (case parse_lang_filter (cli_packages env) (cw_tree w) (ca_lang args) of
        Inl e \<Rightarrow> (finish [] [] (Inl e), w)
      | Inr lang_filter \<Rightarrow>
          with_parsers env (ca_command args)
            (case ca_command args of
               CmdGrammar action \<Rightarrow>
                 (case grammar_process env action (cw_tree w) of (p, t) \<Rightarrow> (p, w\<lparr>cw_tree := t\<rparr>))
             | CmdDaemonRun _ \<Rightarrow>
                 (case run_foreground env (cw_daemon w) of (r, d) \<Rightarrow> (end_of r, w\<lparr>cw_daemon := d\<rparr>))
             | _ \<Rightarrow> (case query_run env args lang_filter (cw_client w) of (r, c) \<Rightarrow> (end_of r, w\<lparr>cw_client := c\<rparr>))))"

section \<open>The contract of the process\<close>

lemma whole_lines_append: "whole_lines b \<Longrightarrow> b \<noteq> [] \<Longrightarrow> whole_lines (a @ b)"
  by (auto simp: whole_lines_def suffix_def)

lemma whole_lines_join [simp]: "whole_lines a \<Longrightarrow> whole_lines b \<Longrightarrow> whole_lines (a @ b)"
  using whole_lines_append[of b a] by (cases "b = []") simp_all

lemma println_lines [simp]: "whole_lines (concat (map (\<lambda>x. println (f x)) xs))"
  by (induction xs) simp_all

lemma note_only_contract [simp]: "exit_contract (note_only s)"
  by (simp add: note_only_def)

lemma err_only_contract: "whole_lines s \<Longrightarrow> exit_contract (Exits [] s ExitSuccess)"
  by (simp add: exit_contract_def)

lemma ask_daemon_contract:
  assumes "\<And>a. exit_contract (show a)"
  shows "exit_contract (fst (ask_daemon env root w request failure show))"
proof -
  have "exit_contract (fst (settle id w result))"
    if "\<And>r w'. result = Returns (r, w') \<Longrightarrow> exit_contract r" for result :: "(ran \<times> client_world) outcome"
    using that by (simp add: settle_def split: outcome.split prod.split)
  moreover have "exit_contract r"
    if "outcome_bind (connect (cm_client (cli_cmd env)) root w) (\<lambda>(connected, w1).
           case connected of
             Inl e \<Rightarrow> Returns (Fails (''failed to connect to daemon: '' @ error_text (cm_client (cli_cmd env)) e), w1)
           | Inr cn \<Rightarrow>
               outcome_bind (request cn) (\<lambda>answer.
                 Returns (case answer of Inl e \<Rightarrow> Fails (failure @ error_text (cm_client (cli_cmd env)) e) | Inr a \<Rightarrow> show a,
                   w1))) = Returns (r, w')" for r w'
    using that assms
    by (cases "connect (cm_client (cli_cmd env)) root w")
      (auto split: prod.splits sum.splits elim!: outcome_bind.elims)
  ultimately show ?thesis unfolding ask_daemon_def Let_def by blast
qed


lemma with_project_root_contract:
  "(\<And>root. exit_contract (fst (k root))) \<Longrightarrow> exit_contract (fst (with_project_root env project w k))"
  by (simp add: with_project_root_def Let_def split: sum.split)

lemma daemon_action_contract: "exit_contract (fst (daemon_action_run env project action w))"
proof -
  have "exit_contract (fst (run_start env project w))"
    unfolding run_start_def Let_def
    by (rule with_project_root_contract) (simp split: prod.split bool.split sum.split)
  moreover have "exit_contract (fst (run_stop env project w))"
    unfolding run_stop_def Let_def
    by (rule with_project_root_contract) (simp add: ask_daemon_contract split: prod.split bool.split)
  moreover have "exit_contract (fst (run_status env project w))"
    unfolding run_status_def Let_def
    by (rule with_project_root_contract)
      (auto simp: other_daemons_def status_lines_def intro!: err_only_contract ask_daemon_contract
        split: prod.split bool.split daemon_response.split)
  ultimately show ?thesis by (simp add: daemon_action_run_def split: daemon_action.split)
qed

lemma upgrade_contract: "exit_contract (upgrade_run env)"
  unfolding upgrade_run_def by (rule err_only_contract) simp

lemma query_contract: "exit_contract (fst (query_run env args lang_filter w))"
proof -
  have "exit_contract (fst (cache_clear_run env w))"
    by (simp add: cache_clear_run_def split: prod.split sum.split bool.split)
  then show ?thesis
    unfolding query_run_def Let_def
    by (cases "ca_command args") (simp_all add: command_contracts daemon_action_contract upgrade_contract)
qed

lemma foreground_contract: "exit_contract (fst (run_foreground env w))"
  by (simp add: run_foreground_def split: prod.split outcome.split option.split)

text \<open>What the contract of a command says of the process.\<close>

definition process_contract :: "process \<Rightarrow> bool" where
  "process_contract p \<longleftrightarrow>
     (case p of
        Waiting \<Rightarrow> True
      | Ended out err status \<Rightarrow>
          whole_lines out \<and> whole_lines err \<and> status \<in> {0, 2, 3, 4, 101} \<and>
          (status = 2 \<or> status = 3 \<longrightarrow> out = [] \<and> err \<noteq> []) \<and> (out = [] \<or> err = []))"

lemma process_contract_of: "exit_contract r \<Longrightarrow> process_contract (end_of r)"
  by (cases r; cases "snd (snd (case r of Exits out err code \<Rightarrow> (out, err, code)))")
    (auto simp: process_contract_def exit_contract_def finish_def)


text \<open>The package commands write lines on one of the two outputs.\<close>

definition warned :: "package_world \<Rightarrow> package_world \<Rightarrow> bool" where
  "warned w w' \<longleftrightarrow> gw_out w' = gw_out w \<and> (\<exists>ls. gw_err w' = gw_err w @ concat (map println ls))"

lemma println_append: "whole_lines a \<Longrightarrow> whole_lines (a @ concat (map println ls))"
  using println_lines[of "\<lambda>x. x" ls] by simp

lemma says_out: "gw_out (says ls w) = gw_out w @ concat (map println ls)" "gw_err (says ls w) = gw_err w"
  by (induction ls arbitrary: w) (simp_all add: says_def say_def println_def)

lemma warns_err: "gw_err (warns ls w) = gw_err w @ concat (map println ls)" "gw_out (warns ls w) = gw_out w"
  by (induction ls arbitrary: w) (simp_all add: warns_def warn_def println_def)

lemma say_out: "gw_out (say s w) = gw_out w @ println s" "gw_err (say s w) = gw_err w"
  by (simp_all add: say_def println_def)

lemma warn_err: "gw_err (warn s w) = gw_err w @ println s" "gw_out (warn s w) = gw_out w"
  by (simp_all add: warn_def println_def)

lemma warned_refl [simp]: "warned w w"
  by (auto simp: warned_def intro!: exI[of _ "[]"])

lemma warned_trans: "warned a b \<Longrightarrow> warned b c \<Longrightarrow> warned a c"
  unfolding warned_def by (auto simp flip: concat_append map_append)

lemma warned_warns [simp]: "warned w (warns ls w)"
  by (auto simp: warned_def warns_err)

lemma warned_warn [simp]: "warned w (warn s w)"
  using warned_warns[of w "[s]"] by (simp add: warns_def)

lemma warned_tree [simp]: "warned w (w'\<lparr>gw_tree := t\<rparr>) = warned w w'" "warned (w\<lparr>gw_tree := t\<rparr>) w' = warned w w'"
  by (simp_all add: warned_def)

lemma warned_then [intro]: "warned w w' \<Longrightarrow> warned w (warn s w')" "warned w w' \<Longrightarrow> warned w (warns ls w')"
  using warned_trans warned_warn warned_warns by blast+

lemma install_warned:
  "warned w (snd (run_install env language tag w)) \<and>
   (case fst (run_install env language tag w) of
      Inr c \<Rightarrow> c \<noteq> PkgSuccess \<longrightarrow> gw_err (snd (run_install env language tag w)) \<noteq> [] | Inl _ \<Rightarrow> True)"
  by (auto simp: run_install_def Let_def warns_err warn_err split: sum.split option.split prod.split)

lemma install_missing_warned: "warned w (snd (install_missing env d tag ps n w))"
proof (induction env d tag ps n w rule: install_missing.induct)
  case (2 env d tag p ps n w)
  show ?case
  proof (cases "tree_exists (gw_tree w) (package_dir d (lp_name p))")
    case False
    obtain res w' where i: "run_install env (lp_name p) tag w = (res, w')" by fastforce
    with install_warned[of w env "lp_name p" tag] have "warned w w'" by simp
    then show ?thesis using False i 2(2)[OF False i[symmetric]] by (cases res) (auto intro: warned_trans)
  qed (use 2(1) in simp)
qed simp

lemma reinstall_warned: "warned w (snd (reinstall env d names w))"
proof (induction names arbitrary: w)
  case (Cons name names)
  let ?there = "tree_exists (gw_tree w) (package_dir d name)"
  let ?w = "if ?there then w\<lparr>gw_tree := remove_tree (gw_tree w) (package_dir d name)\<rparr> else w"
  obtain res w' where i: "run_install env name None ?w = (res, w')" by fastforce
  with install_warned[of ?w env name None] have "warned ?w w'" by simp
  then have "warned w w'" by (simp split: if_splits)
  then show ?case using i Cons.IH[of w']
    by (cases res) (auto simp: Let_def intro: warned_trans split: option.split)
qed simp

lemma update_warned: "warned w (snd (run_update env w))"
proof -
  have r: "warned w (refresh_registry env (warn s w))" for s
    by (auto simp: refresh_registry_def split: option.split)
  have "warned w (snd (reinstall env d names (warn s' (refresh_registry env (warn s w)))))" for d names s s'
    using warned_trans[OF warned_then(1)[OF r] reinstall_warned] by blast
  then show ?thesis using r
    by (auto simp: run_update_def Let_def split: option.split sum.split prod.split) (metis snd_conv warned_then(1))+
qed


text \<open>From empty outputs: errors and warnings stay off standard output.\<close>

definition package_contract :: "(string + package_code) \<times> package_world \<Rightarrow> bool" where
  "package_contract r \<longleftrightarrow>
     (case r of (res, w) \<Rightarrow>
        whole_lines (gw_out w) \<and> whole_lines (gw_err w) \<and> (gw_out w = [] \<or> gw_err w = []) \<and>
        (case res of
           Inl e \<Rightarrow> gw_out w = []
         | Inr c \<Rightarrow> c = PkgSuccess \<or> (gw_out w = [] \<and> gw_err w \<noteq> [])))"

lemma warned_contract:
  assumes "warned w w'" "gw_out w = []" "gw_err w = []"
    and "case res of Inl e \<Rightarrow> True | Inr c \<Rightarrow> c = PkgSuccess \<or> gw_err w' \<noteq> []"
  shows "package_contract (res, w')"
  using assms by (auto simp: package_contract_def warned_def split: sum.splits)

lemma said_contract:
  "gw_out w = [] \<Longrightarrow> gw_err w = [] \<Longrightarrow> package_contract (Inr PkgSuccess, says ls w)"
  using println_lines[of "\<lambda>x. x" ls] by (simp add: package_contract_def says_out)

lemma quiet_contract: "gw_out w = [] \<Longrightarrow> gw_err w = [] \<Longrightarrow> package_contract (Inl e, w)"
  by (simp add: package_contract_def)

lemma grammar_contract:
  assumes "gw_out w = []" "gw_err w = []"
  shows "package_contract (grammar_run env action w)"
proof -
  let ?pe = "cli_packages env"
  note quiet = quiet_contract[OF assms] and said = said_contract[OF assms]
  have one: "package_contract (Inr PkgSuccess, say s w)" for s
    using said[of "[s]"] by (simp add: says_def)
  have none: "package_contract (Inr c, warn s w)" for c s
    by (rule warned_contract[of w]) (simp_all add: assms warn_err)
  have list: "package_contract (run_list ?pe w)"
    by (simp add: run_list_def Let_def quiet said split: sum.split)
  have info: "package_contract (run_info ?pe l w)" for l
    by (auto simp: run_info_def Let_def quiet said none split: sum.split option.split)
  have remove: "package_contract (run_remove ?pe l w)" for l
    by (auto simp: run_remove_def Let_def quiet none assms intro!: warned_contract[of w] split: option.split)
  have validate: "package_contract (run_validate ?pe (cli_validate env) l w)" for l
    by (simp add: run_validate_def quiet said one split: sum.split validate_result.split)
  have validate_all: "package_contract (run_validate_all ?pe (cli_validate env) w)"
    by (simp add: run_validate_all_def Let_def quiet said split: sum.split)
  have install: "package_contract (run_install ?pe l tag w)" for l tag
    using install_warned[of w ?pe l tag] assms
    by (cases "run_install ?pe l tag w") (auto intro!: warned_contract[of w] split: sum.splits)
  have install_all: "package_contract (run_install_all ?pe tag w)" for tag
  proof -
    have "warned w w'" if "install_missing ?pe d tag ps 0 w = (r, w')" for d ps r w'
      using install_missing_warned[of w ?pe d tag ps 0] that by simp
    then show ?thesis
      by (auto simp: run_install_all_def quiet assms intro!: warned_contract[of w] split: sum.split option.split prod.split)
  qed
  have update: "package_contract (run_update ?pe w)"
  proof -
    have "case fst (run_update ?pe w) of Inl e \<Rightarrow> True | Inr c \<Rightarrow> c = PkgSuccess"
      by (simp add: run_update_def Let_def split: option.split sum.split prod.split)
    then show ?thesis
      using update_warned[of w ?pe] assms
      by (cases "run_update ?pe w") (auto intro!: warned_contract[of w] split: sum.splits)
  qed
  show ?thesis
    unfolding grammar_run_def Let_def
    by (auto simp: list info remove validate validate_all install install_all update none
        split: grammar_action.split option.split)
qed

lemma grammar_process_contract: "process_contract (fst (grammar_process env action t))"
proof -
  obtain res w where g: "grammar_run env action \<lparr>gw_tree = t, gw_out = [], gw_err = []\<rparr> = (res, w)" by fastforce
  with grammar_contract[of "\<lparr>gw_tree = t, gw_out = [], gw_err = []\<rparr>" env action]
  have c: "package_contract (res, w)" by simp
  have exits: "exit_status (package_exit code) \<in> {0, 2, 3, 4, 101} \<and>
      (exit_status (package_exit code) = 2 \<or> exit_status (package_exit code) = 3 \<longrightarrow> code \<noteq> PkgSuccess)" for code
    by (cases code) simp_all
  show ?thesis
    using c exits
    by (cases res)
      (auto simp: grammar_process_def g finish_def package_contract_def process_contract_def)
qed

section \<open>What loading grammars adds\<close>

text \<open>Notes are lines of cq about its grammars.\<close>

definition are_notes :: "string \<Rightarrow> bool" where
  "are_notes s \<longleftrightarrow> (\<exists>ls. s = concat (map println ls) \<and> (\<forall>l \<in> set ls. starts_with ''cq: '' l))"

definition noted :: "load_state \<Rightarrow> load_state \<Rightarrow> bool" where
  "noted st st' \<longleftrightarrow> (\<exists>s. ls_err st' = ls_err st @ s \<and> are_notes s)"

lemma are_notes_simps [simp]: "are_notes []" "are_notes a \<Longrightarrow> are_notes b \<Longrightarrow> are_notes (a @ b)"
proof -
  show "are_notes []" by (auto simp: are_notes_def intro: exI[of _ "[]"])
  assume "are_notes a" "are_notes b"
  then obtain k l where "a = concat (map println k)" "b = concat (map println l)" "\<forall>x \<in> set (k @ l). starts_with ''cq: '' x"
    unfolding are_notes_def by auto
  then show "are_notes (a @ b)" unfolding are_notes_def by (intro exI[of _ "k @ l"]) simp
qed

lemma are_notes_line: "starts_with ''cq: '' l \<Longrightarrow> are_notes (l @ line_end)"
  unfolding are_notes_def by (intro exI[of _ "[l]"]) (simp add: println_def)

lemma are_notes_whole: "are_notes s \<Longrightarrow> whole_lines s"
  using println_lines[of "\<lambda>x. x"] by (auto simp: are_notes_def)

lemma noted_refl [simp]: "noted st st" "ls_err st' = ls_err st \<Longrightarrow> noted st st'"
  by (auto simp: noted_def intro: exI[of _ "[]"])

lemma noted_trans: "noted a b \<Longrightarrow> noted b c \<Longrightarrow> noted a c"
  by (auto simp: noted_def)

lemma noted_tree [simp]: "noted st (st'\<lparr>ls_tree := t\<rparr>) = noted st st'"
  by (simp add: noted_def)

lemma noted_note: "starts_with ''cq: '' l \<Longrightarrow> noted st st' \<Longrightarrow> noted st (note_err l st')"
  by (auto simp: noted_def note_err_def are_notes_line)

lemma fetch_noted: "noted st (snd (fetch_grammar env name st))"
proof -
  let ?st1 = "note_err (''cq: auto-installing '' @ name @ '' language support...'') st"
  have one: "noted st ?st1" by (rule noted_note) (simp_all add: starts_with_def)
  have two: "noted st (note_err (''cq: '' @ name @ '' installed successfully'') (?st1\<lparr>ls_tree := t\<rparr>))" for t
    by (rule noted_note) (use one in \<open>simp_all add: starts_with_def\<close>)
  show ?thesis using one two by (simp add: fetch_grammar_def Let_def split: option.split prod.split)
qed

lemma loader_noted: "noted st (snd (from_runtime_or_wasm env name lang st))"
proof -
  have install: "noted st (snd (auto_install_grammar env name st))"
    using fetch_noted[of "st\<lparr>ls_attempted := ls_attempted st @ [name]\<rparr>" env name]
    by (simp add: auto_install_grammar_def noted_def)
  have cached: "noted st (snd (load_cached env p lang s))" if "noted st s" for p s
    using that by (simp add: load_cached_def split: prod.split)
  show ?thesis
    using install cached
    by (auto simp: from_runtime_or_wasm_def split: sum.split option.split prod.split bool.split)
qed

lemma rules_noted: "\<forall>l \<in> set ls. starts_with ''cq: '' l \<Longrightarrow> noted st (fold note_err ls st)"
proof (induction ls arbitrary: st)
  case (Cons l ls)
  then have "noted (note_err l st) (fold note_err ls (note_err l st))" by simp
  with noted_note[of l st st] Cons.prems show ?case by (auto intro: noted_trans)
qed simp

lemma event_noted: "noted st (parser_event_run env ev st)"
proof (cases ev)
  case (MakesParser name)
  then show ?thesis using loader_noted by (auto simp: for_name_def for_language_def split: option.split)
next
  case (CompilesRules new_query config)
  have "\<forall>l \<in> set (snd (compile_extractor new_query config)). starts_with ''cq: '' l"
    by (auto simp: compile_extractor_def Let_def map_filter_def compile_rule_def starts_with_def
        split: option.splits sum.splits)
  then show ?thesis using CompilesRules by (simp add: rules_noted)
qed simp

lemma load_events_notes: "are_notes (ls_err (load_events env t))"
proof -
  have "noted st (fold (parser_event_run (cli_load env)) evs st)" for evs st
    by (induction evs arbitrary: st) (auto intro: noted_trans event_noted)
  from this[of "\<lparr>ls_tree = t, ls_attempted = [], ls_err = []\<rparr>" "cli_events env"] show ?thesis
    by (auto simp: noted_def load_events_def)
qed

text \<open>The contract of a process: notes about grammars, if it may give any, and what it says itself.\<close>

definition noted_contract :: "bool \<Rightarrow> process \<Rightarrow> bool" where
  "noted_contract may_note p \<longleftrightarrow>
     (case p of
        Waiting \<Rightarrow> True
      | Ended out err status \<Rightarrow>
          (\<exists>notes own. err = notes @ own \<and> are_notes notes \<and> (may_note \<or> notes = []) \<and>
            process_contract (Ended out own status)))"

lemma noted_contractI: "process_contract p \<Longrightarrow> are_notes notes \<Longrightarrow> noted_contract True (note_first notes p)"
  by (cases p) (auto simp: noted_contract_def note_first_def)

lemma unnoted_contract: "process_contract p \<Longrightarrow> noted_contract may p"
proof (cases p)
  case (Ended out err status)
  assume "process_contract p"
  with Ended show ?thesis
    unfolding noted_contract_def by (simp, intro exI[of _ "[]"] exI[of _ err]) simp
qed (simp add: noted_contract_def)

lemma with_parsers_contract:
  "process_contract (fst r) \<Longrightarrow> noted_contract (makes_parsers cmd) (fst (with_parsers env cmd r))"
  by (cases "makes_parsers cmd"; cases r)
    (simp_all add: with_parsers_def noted_contractI load_events_notes unnoted_contract)

lemma plain_command_contract:
  "process_contract (fst (case ca_command args of
      CmdGrammar action \<Rightarrow> (case grammar_process env action (cw_tree w) of (p, t) \<Rightarrow> (p, w\<lparr>cw_tree := t\<rparr>))
    | CmdDaemonRun _ \<Rightarrow> (case run_foreground env (cw_daemon w) of (r, d) \<Rightarrow> (end_of r, w\<lparr>cw_daemon := d\<rparr>))
    | _ \<Rightarrow> (case query_run env args lang_filter (cw_client w) of (r, c) \<Rightarrow> (end_of r, w\<lparr>cw_client := c\<rparr>))))"
proof -
  have query: "process_contract (end_of r)" if "query_run env args lang_filter (cw_client w) = (r, c)" for r c
    using process_contract_of query_contract[of env args lang_filter "cw_client w"] that by simp
  have foreground: "process_contract (end_of r)" if "run_foreground env (cw_daemon w) = (r, d)" for r d
    using process_contract_of foreground_contract[of env "cw_daemon w"] that by simp
  have grammar: "process_contract p" if "grammar_process env action (cw_tree w) = (p, t)" for p t action
    using grammar_process_contract[of env action "cw_tree w"] that by simp
  show ?thesis using query foreground grammar by (auto split: command.split prod.split)
qed

lemma run_command_unnoted:
  assumes "cli_events env = []"
  shows "process_contract (fst (run_command env args w))"
proof (cases "parse_lang_filter (cli_packages env) (cw_tree w) (ca_lang args)")
  case (Inl e)
  then show ?thesis using process_contract_of[of "Fails e"] by (simp add: run_command_def)
next
  case (Inr lang_filter)
  have "note_first [] p = p" for p by (simp add: note_first_def split: process.split)
  then show ?thesis
    using plain_command_contract[where args = args and env = env and w = w and lang_filter = lang_filter]
    by (simp only: run_command_def Inr with_parsers_def sum.case case_prod_beta fst_conv load_events_def assms fold.simps
        id_apply load_state.simps split: if_split) blast
qed


section \<open>Options\<close>

text \<open>
  The precedence of the options: \<open>--no-semantic\<close> wins over \<open>--semantic\<close>, and that over
  \<open>CQ_SEMANTIC\<close>; likewise for the cache; \<open>--json\<close> wins over \<open>--raw\<close>. The variables alone turn the
  features on exactly for the documented values.
\<close>
theorem options_precedence:
  "semantic_mode_of var args =
     (if ca_no_semantic args then ModeOff else if ca_semantic args then ModeOneshot
      else if var ''CQ_SEMANTIC'' \<in> Some ` {''1'', ''on''} then ModeOneshot
      else if var ''CQ_SEMANTIC'' = Some ''daemon'' then ModeDaemon else ModeOff) \<and>
   use_cache var args = (\<not> ca_no_cache args \<and> (ca_cache args \<or> var ''CQ_CACHE'' = Some ''1'')) \<and>
   (output_mode_of args = Json) = ca_json args"
  by (auto simp: semantic_mode_of_def use_cache_def output_mode_of_def split: option.split)

end
