(* ===== verification/Cli_Effects.thy ===== *)
theory Cli_Effects
  imports Cli
begin

text \<open>
  What a run of cq leaves behind: which files the queries may write (their caches, and the packages of
  the grammars they make parsers from), and what clearing the cache does to the daemons of the user.
\<close>

abbreviation client_of :: "('l, 'g, 'n, 'p) cli_env \<Rightarrow> client_env" where
  "client_of env \<equiv> cm_client (cli_cmd env)"

section \<open>What making parsers writes\<close>

text \<open>The package that a parser or grammar comes from, by the name it is asked for.\<close>

definition package_of :: "string \<Rightarrow> string" where
  "package_of name = (case from_name name of Some lang \<Rightarrow> language_name lang | None \<Rightarrow> name)"

primrec event_package :: "parser_event \<Rightarrow> string option" where
  "event_package (MakesParser name) = Some (package_of name)"
| "event_package (LoadsGrammar name) = Some (package_of name)"
| "event_package (CompilesRules new_query config) = None"

definition asked_packages :: "('l, 'g, 'n, 'p) cli_env \<Rightarrow> string list" where
  "asked_packages env = List.map_filter event_package (cli_events env)"

text \<open>The places for these packages below \<open>d\<close> and for compiled grammars at \<open>c\<close>, with the directories
  that lead there.\<close>

definition grammar_place :: "path \<Rightarrow> path \<Rightarrow> string list \<Rightarrow> path \<Rightarrow> bool" where
  "grammar_place d c names q \<longleftrightarrow>
     path_starts_with q c \<or> prefix q c \<or>
     (\<exists>n \<in> set names. path_starts_with q (d @ [Normal n]) \<or> prefix q (d @ [Normal n]))"

lemma wasm_cached_touches:
  assumes "gl_cwasm_dir env = Some c" "canonical_path c" "name_ok (lang_of_wasm p)"
    and "\<not> path_starts_with q c" "\<not> prefix q c"
  shows "map_of (snd (load_wasm_language_cached env p t)) q = map_of t q"
  using save_touches[OF assms]
  by (auto simp: load_wasm_language_cached_def Let_def split: option.split sum.split)

lemma grammar_for_name_touches:
  assumes d: "pe_languages_dir env = Some d" "canonical_path d" "name_ok (package_of name)"
    and c: "gl_cwasm_dir env = Some c" "canonical_path c" "\<not> path_starts_with q c" "\<not> prefix q c"
  shows "map_of (snd (grammar_for_name env name t)) q = map_of t q"
proof -
  have touches: "map_of (snd (grammar_or_wasm env (package_of name) m t)) q = map_of t q" for m
    using wasm_cached_touches[OF c(1,2) _ c(3,4)] lang_of_package[OF _ d] d(3)
    by (auto simp: grammar_or_wasm_def split: sum.split option.split)
  show ?thesis
  proof (cases "from_name name")
    case None
    then have "package_of name = name" by (simp add: package_of_def)
    with touches None show ?thesis by (simp only: grammar_for_name_def option.case)
  next
    case (Some lang)
    then have "package_of name = language_name lang" by (simp add: package_of_def)
    with touches Some show ?thesis by (simp only: grammar_for_name_def grammar_for_language_def option.case)
  qed
qed

lemma event_touches:
  assumes d: "pe_languages_dir env = Some d" "canonical_path d" "tar_confined env"
    and c: "gl_cwasm_dir env = Some c" "canonical_path c"
    and names: "set_option (event_package ev) \<subseteq> set names" "list_all name_ok names"
    and q: "\<not> grammar_place d c names q"
  shows "map_of (ls_tree (parser_event_run env ev st)) q = map_of (ls_tree st) q"
proof (cases ev)
  case (MakesParser name)
  then have n: "name_ok (package_of name)" "package_of name \<in> set names" using names by (auto simp: list_all_iff)
  with q have "map_of (ls_tree (snd (for_name env name st))) q = map_of (ls_tree st) q"
    by (intro loading_touches_package[OF d(1,2) c d(3) n(1) package_of_def]) (auto simp: grammar_place_def)
  then show ?thesis using MakesParser by simp
next
  case (LoadsGrammar name)
  then have "name_ok (package_of name)" using names by (auto simp: list_all_iff)
  with q LoadsGrammar show ?thesis
    by (auto simp: grammar_place_def intro!: grammar_for_name_touches[OF d(1,2) _ c])
next
  case (CompilesRules new_query config)
  have "ls_tree (fold note_err ls st) = ls_tree st" for ls
    by (induction ls arbitrary: st) (simp_all add: note_err_def)
  then show ?thesis using CompilesRules by simp
qed

text \<open>Native libraries are used as they are.\<close>

lemma event_native:
  assumes "\<forall>n \<in> set_option (event_package ev). \<exists>g. load_runtime_grammar env (ls_tree st) n = Inr g"
  shows "ls_tree (parser_event_run env ev st) = ls_tree st"
proof (cases ev)
  case (CompilesRules new_query config)
  have "ls_tree (fold note_err ls st) = ls_tree st" for ls
    by (induction ls arbitrary: st) (simp_all add: note_err_def)
  then show ?thesis using CompilesRules by simp
qed (use assms in \<open>auto simp: for_name_def for_language_def grammar_for_name_def grammar_for_language_def
       from_runtime_or_wasm_def grammar_or_wasm_def package_of_def split: option.splits\<close>)

lemma asked_packages_run:
  assumes d: "pe_languages_dir (cli_load env) = Some d" "canonical_path d" "tar_confined (cli_load env)"
    and c: "gl_cwasm_dir (cli_load env) = Some c" "canonical_path c"
    and names: "list_all name_ok (asked_packages env)"
  shows "map_of (ls_tree (load_events env t)) q \<noteq> map_of t q \<Longrightarrow> grammar_place d c (asked_packages env) q"
    and "\<forall>n \<in> set (asked_packages env). \<exists>g. load_runtime_grammar (cli_load env) t n = Inr g \<Longrightarrow>
      ls_tree (load_events env t) = t"
proof -
  let ?run = "\<lambda>evs st. fold (parser_event_run (cli_load env)) evs st"
  have asked: "set_option (event_package ev) \<subseteq> set (asked_packages env)" if "ev \<in> set (cli_events env)" for ev
    using that by (force simp: asked_packages_def map_filter_def)
  have "map_of (ls_tree (?run evs st)) q = map_of (ls_tree st) q"
    if "set evs \<subseteq> set (cli_events env)" "\<not> grammar_place d c (asked_packages env) q" for evs st
    using that by (induction evs arbitrary: st) (simp_all add: event_touches[OF d c asked names])
  then show "map_of (ls_tree (load_events env t)) q \<noteq> map_of t q \<Longrightarrow> grammar_place d c (asked_packages env) q"
    unfolding load_events_def by fastforce
  have "ls_tree (?run evs st) = ls_tree st"
    if "set evs \<subseteq> set (cli_events env)"
      "\<forall>n \<in> set (asked_packages env). \<exists>g. load_runtime_grammar (cli_load env) (ls_tree st) n = Inr g" for evs st
    using that
  proof (induction evs arbitrary: st)
    case (Cons ev evs)
    then have "ls_tree (parser_event_run (cli_load env) ev st) = ls_tree st"
      using asked[of ev] by (intro event_native) auto
    with Cons show ?case by simp
  qed simp
  from this[of "cli_events env" "\<lparr>ls_tree = t, ls_attempted = [], ls_err = []\<rparr>"]
  show "\<forall>n \<in> set (asked_packages env). \<exists>g. load_runtime_grammar (cli_load env) t n = Inr g \<Longrightarrow>
      ls_tree (load_events env t) = t"
    by (simp add: load_events_def)
qed

section \<open>What queries write\<close>

fun only_reads :: "command \<Rightarrow> bool" where
  "only_reads (CmdOutline p) = True"
| "only_reads (CmdBody s) = True"
| "only_reads (CmdSig s) = True"
| "only_reads (CmdImports p) = True"
| "only_reads (CmdContext l) = True"
| "only_reads (CmdHover l) = True"
| "only_reads CmdSymbols = True"
| "only_reads (CmdTree p) = True"
| "only_reads (CmdSearch q) = True"
| "only_reads CmdDead = True"
| "only_reads (CmdCallchain s) = True"
| "only_reads (CmdHierarchy s) = True"
| "only_reads (CmdDeps s) = True"
| "only_reads (CmdDiagnostics p) = True"
| "only_reads _ = False"

lemma query_changes_cache:
  assumes "only_reads (ca_command args)"
  shows "cache_only (cli_cmd env) (use_cache (cm_var (cli_cmd env)) args) w (snd (query_run env args lang_filter w))"
  using assms
  by (cases "ca_command args") (simp_all add: query_run_def Let_def queries_change_cache[simplified])


definition demo_cmd_env :: "(unit, unit, unit) cmd_env" where
  "demo_cmd_env =
     \<lparr>cm_cwd = [RootDir],
      cm_find = find_demo_env\<lparr>fx_for_name := (\<lambda>_. Inr (\<lambda>_. Some demo_tree)),
        fx_extract_by_name := (\<lambda>_ _ p _. [Symbol ''go'' Function p 1 0 1 Public [] None None None])\<rparr>,
      cm_read_error = (\<lambda>_. ''io''), cm_scan = scan_demo_env, cm_cache = demo_cfg (demo_manifest []),
      cm_client = solo_env, cm_resolver = no_rules_env, cm_plugins = Map.empty, cm_group_order = id,
      cm_ref_order = id, cm_edit_order = (\<lambda>_. []), cm_has_error = (\<lambda>_. True), cm_descend = (\<lambda>_ _. None),
      cm_new_query = (\<lambda>_ _. Inl ''no query''), cm_render = (\<lambda>_ _. []), cm_tty = False, cm_var = (\<lambda>_. None)\<rparr>"

definition demo_cli_env :: "(unit, unit, unit, string) cli_env" where
  "demo_cli_env =
     \<lparr>cli_cmd = demo_cmd_env, cli_packages = demo_package_env,
      cli_validate = \<lparr>ve_exists = (\<lambda>_. False), ve_read = (\<lambda>_. Inl ''io''), ve_from_toml = (\<lambda>_. Inl ''toml''),
        ve_grammar = (\<lambda>_. Inl ''none''), ve_rules = (\<lambda>_. None)\<rparr>,
      cli_exe = Inl ''unknown'', cli_spawn = (\<lambda>_ _. Inl ''no''), cli_curl = Inl ''no curl'', cli_json = (\<lambda>_. None),
      cli_vars = (\<lambda>_. None), cli_home = None, cli_rmdir_error = (\<lambda>_. None), cli_survives = (\<lambda>_. False),
      cli_daemon = demo_daemon_env, cli_bound = Inl ''port'', cli_unix_secs = 0, cli_nonblocking = None,
      cli_turns = [], cli_load = demo_load_env, cli_events = []\<rparr>"

definition outline_args :: cq_args where
  "outline_args =
     \<lparr>ca_project = Some [RootDir], ca_scope = None, ca_json = False, ca_raw = False, ca_pretty = False, ca_kind = None,
      ca_lang = None, ca_semantic = False, ca_no_semantic = False, ca_cache = False, ca_no_cache = False,
      ca_context = 0, ca_depth = None, ca_limit = None, ca_command = CmdOutline [RootDir, Normal ''a.rs'']\<rparr>"

definition demo_cli_world :: cli_world where
  "demo_cli_world = \<lparr>cw_client = solo_world, cw_tree = ls_tree demo_load_state, cw_daemon = demo_daemon_world\<rparr>"


section \<open>Clearing the cache\<close>

lemma read_info_connect [simp]:
  "read_daemon_info (fe\<lparr>fe_tcp_connect := reach\<rparr>) d root = read_daemon_info fe d root"
proof -
  have "parse_info (fe\<lparr>fe_tcp_connect := reach\<rparr>) = parse_info fe" by (simp add: fun_eq_iff parse_info_def)
  moreover have "daemon_file_path (fe\<lparr>fe_tcp_connect := reach\<rparr>) root = daemon_file_path fe root"
    by (simp add: daemon_file_path_def fe_daemons_dir_def project_hash_def)
  ultimately show ?thesis by (simp only: read_daemon_info_def)
qed

lemma cleared_infos:
  assumes "fe_env fe ''CQ_CACHE_DIR'' \<noteq> Some []" "fe_env fe ''XDG_CACHE_HOME'' \<noteq> Some []"
    and "clear_all_caches (fe_env fe) (fe_home fe) rmdir_error survives d = (Inr True, d')"
  shows "read_daemon_info fe d' root = None"
    and "(\<And>dir entries p. fe_read_dir fe dir = Some entries \<Longrightarrow> Some p \<in> set entries \<Longrightarrow> path_starts_with p dir) \<Longrightarrow>
      list_all_daemons fe d' = []"
proof -
  from assms(1,2) have same: "resolve_cache_dir (fe_env fe) (fe_home fe) = cache_dir (fe_env fe) (fe_home fe)"
    by (rule cache_dirs_agree)
  have gone: "disk_files d' p = None" if "cache_dir (fe_env fe) (fe_home fe) = Some dir" "path_starts_with p dir" for dir p
    using assms(3) same that by (auto simp: clear_all_caches_def split: option.splits if_splits)
  have below: "path_starts_with p dir" if "path_starts_with p (path_join dir [Normal ''daemons''])" for p dir
  proof -
    have "take (length a) q = a" if "take (length (a @ b)) q = a @ b" for a b q :: path
      using arg_cong[OF that, of "take (length a)"] by simp
    from this[of dir "[Normal ''daemons'']" p] that show ?thesis
      by (auto simp: path_join_def is_absolute_def path_starts_with_def starts_with_def split: if_splits)
  qed
  have unread: "(case disk_read d' p of Inl e \<Rightarrow> None | Inr contents \<Rightarrow> parse_info fe contents) = None"
    if "fe_daemons_dir fe = Some dd" "path_starts_with p dd" for dd p
    using that gone below
    by (auto simp: fe_daemons_dir_def daemons_dir_def disk_read_def split: option.splits sum.split)
  show "read_daemon_info fe d' root = None"
  proof (cases "fe_daemons_dir fe")
    case (Some dd)
    have "path_starts_with (path_join dd [Normal (project_hash fe root @ ''.json'')]) dd"
      by (simp add: path_join_def is_absolute_def path_starts_with_def starts_with_def)
    with unread[OF Some this] Some show ?thesis by (simp add: read_daemon_info_def daemon_file_path_def)
  qed (simp add: read_daemon_info_def daemon_file_path_def)
  assume listed: "\<And>dir entries p. fe_read_dir fe dir = Some entries \<Longrightarrow> Some p \<in> set entries \<Longrightarrow> path_starts_with p dir"
  have "List.map_filter (read_listed fe d') entries = []"
    if "fe_daemons_dir fe = Some dd" "fe_read_dir fe dd = Some entries" for dd entries
  proof -
    have "read_listed fe d' entry = None" if "entry \<in> set entries" for entry
    proof (cases entry)
      case (Some p)
      with that \<open>fe_read_dir fe dd = Some entries\<close> have "path_starts_with p dd" by (blast intro: listed)
      with unread[OF \<open>fe_daemons_dir fe = Some dd\<close>] show ?thesis by (simp add: read_listed_def Some)
    qed (simp add: read_listed_def)
    then show ?thesis by (simp add: map_filter_def filter_empty_conv)
  qed
  then show "list_all_daemons fe d' = []" by (simp add: list_all_daemons_def split: option.split)
qed


text \<open>A machine with a daemon for the root directory.\<close>

definition running_cli_env :: "(unit, unit, unit, string) cli_env" where
  "running_cli_env =
     demo_cli_env\<lparr>cli_cmd := demo_cmd_env\<lparr>cm_client := pair_env\<lparr>ke_reach := (\<lambda>_ _. True)\<rparr>\<rparr>,
       cli_vars := fe_env pair_files, cli_home := fe_home pair_files, cli_exe := Inr ''cq'',
       cli_spawn := (\<lambda>_ _. Inr 2)\<rparr>"

definition running_cli_world :: cli_world where
  "running_cli_world = demo_cli_world\<lparr>cw_client := pair_world\<rparr>"


end
