(* ===== verification/Mcp.thy ===== *)
theory Mcp
  imports Cli_Effects
begin

text \<open>
  The MCP server (codequery-mcp): a loop over the lines of standard input that answers JSON-RPC
  requests, and the tools, which run the cq program as a child process or edit a file. The state is
  the disk, which child processes change too. Decoding and printing JSON, the texts of their errors
  and the child processes are parameters. Objects are given with their keys in the order in which the
  JSON library keeps them.
\<close>

section \<open>Messages\<close>

text \<open>A process that ran: its exit code, if it has one, its status as text, and what it printed.\<close>

record sub_output =
  so_code :: "int option"
  so_status :: string
  so_stdout :: string
  so_stderr :: string

record mcp_env =
  mc_var :: "string \<Rightarrow> string option"
  mc_cq :: "string \<Rightarrow> string list \<Rightarrow> disk \<Rightarrow> (string + sub_output) \<times> disk"
  mc_parse :: "string \<Rightarrow> string + json"
  mc_request_error :: "json \<Rightarrow> string"
  mc_params_error :: "json \<Rightarrow> string"
  mc_print :: "json \<Rightarrow> string"
  mc_io_text :: "io_error \<Rightarrow> string"

record rpc_call =
  rq_id :: "json option"
  rq_method :: string
  rq_params :: json

record rpc_failure =
  rf_code :: int
  rf_message :: string

record rpc_answer =
  ra_id :: "json option"
  ra_result :: "json option"
  ra_error :: "rpc_failure option"

definition METHOD_NOT_FOUND :: int where "METHOD_NOT_FOUND = - 32601"

definition INVALID_PARAMS :: int where "INVALID_PARAMS = - 32602"

definition INTERNAL_ERROR :: int where "INTERNAL_ERROR = - 32603"

definition PARSE_ERROR :: int where "PARSE_ERROR = - 32700"

definition answer_success :: "json option \<Rightarrow> json \<Rightarrow> rpc_answer" where
  "answer_success i result = \<lparr>ra_id = i, ra_result = Some result, ra_error = None\<rparr>"

definition answer_error :: "json option \<Rightarrow> int \<Rightarrow> string \<Rightarrow> rpc_answer" where
  "answer_error i code message =
     \<lparr>ra_id = i, ra_result = None, ra_error = Some \<lparr>rf_code = code, rf_message = message\<rparr>\<rparr>"

definition answer_json :: "rpc_answer \<Rightarrow> json" where
  "answer_json a =
     JObj
       ([(''jsonrpc'', JStr ''2.0'')] @
        (case ra_id a of Some i \<Rightarrow> [(''id'', i)] | None \<Rightarrow> []) @
        (case ra_result a of Some r \<Rightarrow> [(''result'', r)] | None \<Rightarrow> []) @
        (case ra_error a of
           Some e \<Rightarrow> [(''error'', JObj [(''code'', JInt (rf_code e)), (''message'', JStr (rf_message e))])]
         | None \<Rightarrow> []))"

text \<open>An optional field: null counts as absent.\<close>

definition not_null :: "json option \<Rightarrow> json option" where
  "not_null j = (case j of Some JNull \<Rightarrow> None | _ \<Rightarrow> j)"

text \<open>A request is an object, or an array of its fields in order; the parameters may be missing.\<close>

definition rpc_call_of :: "json option \<Rightarrow> json option \<Rightarrow> json option \<Rightarrow> json option \<Rightarrow> rpc_call option" where
  "rpc_call_of version i meth params =
     (case (Option.bind version json_as_str, Option.bind meth json_as_str) of
        (Some _, Some m) \<Rightarrow>
          Some \<lparr>rq_id = not_null i, rq_method = m, rq_params = (case params of Some p \<Rightarrow> p | None \<Rightarrow> JNull)\<rparr>
      | _ \<Rightarrow> None)"

definition rpc_call_of_json :: "json \<Rightarrow> rpc_call option" where
  "rpc_call_of_json j =
     (case j of
        JArr [version, i, meth] \<Rightarrow> rpc_call_of (Some version) (Some i) (Some meth) None
      | JArr [version, i, meth, params] \<Rightarrow> rpc_call_of (Some version) (Some i) (Some meth) (Some params)
      | _ \<Rightarrow>
          (case struct_fields [''jsonrpc'', ''id'', ''method'', ''params''] j of
             None \<Rightarrow> None
           | Some kvs \<Rightarrow>
               rpc_call_of (map_of kvs ''jsonrpc'') (map_of kvs ''id'') (map_of kvs ''method'') (map_of kvs ''params'')))"

text \<open>In a value that was kept as JSON the last of equal keys counts.\<close>

definition value_get :: "string \<Rightarrow> json \<Rightarrow> json option" where
  "value_get k j = (case j of JObj kvs \<Rightarrow> map_of (rev kvs) k | _ \<Rightarrow> None)"

record tool_call_params =
  tc_name :: string
  tc_arguments :: json

definition tool_call_params_of_json :: "json \<Rightarrow> tool_call_params option" where
  "tool_call_params_of_json j =
     (let made = (\<lambda>name arguments. map_option
            (\<lambda>n. \<lparr>tc_name = n, tc_arguments = (case arguments of Some a \<Rightarrow> a | None \<Rightarrow> JNull)\<rparr>)
            (Option.bind name json_as_str)) in
      case j of
        JObj _ \<Rightarrow> made (value_get ''name'' j) (value_get ''arguments'' j)
      | JArr [name] \<Rightarrow> made (Some name) None
      | JArr [name, arguments] \<Rightarrow> made (Some name) (Some arguments)
      | _ \<Rightarrow> None)"

section \<open>The tools offered\<close>

record tool_definition =
  td_name :: string
  td_description :: string
  td_input_schema :: json

definition input_schema :: "(string \<times> string \<times> string) list \<Rightarrow> string list option \<Rightarrow> json" where
  "input_schema properties required =
     JObj
       ([(''properties'', JObj (map (\<lambda>(k, kind, what).
           (k, JObj [(''description'', JStr what), (''type'', JStr kind)])) properties))] @
        (case required of Some names \<Rightarrow> [(''required'', JArr (map JStr names))] | None \<Rightarrow> []) @
        [(''type'', JStr ''object'')])"

definition tool ::
  "string \<Rightarrow> string \<Rightarrow> (string \<times> string \<times> string) list \<Rightarrow> string list option \<Rightarrow> tool_definition" where
  "tool name description properties required =
     \<lparr>td_name = name, td_description = description, td_input_schema = input_schema properties required\<rparr>"

definition project_property :: "string \<times> string \<times> string" where
  "project_property = (''project'', ''string'', ''Project root directory (defaults to cwd)'')"

definition scope_property :: "string \<times> string \<times> string" where
  "scope_property = (''scope'', ''string'', ''Restrict search to a subdirectory or file'')"

definition lang_property :: "string \<times> string \<times> string" where
  "lang_property = (''lang'', ''string'', ''Filter by language (e.g. rust, python, typescript)'')"

definition base_tools :: "tool_definition list" where
  "base_tools =
   [tool ''cq_def''
      (''Find where a symbol is defined across the project'')
      [lang_property,
       project_property,
       (''scope'', ''string'', ''Restrict search to a subdirectory or file (e.g. '' @ [CHR 0x27] @
         ''src/lib'' @ [CHR 0x27] @ '')''),
       (''symbol'', ''string'', ''Symbol name to find (supports qualified names like Struct::method)'')]
      (Some [''symbol'']),
    tool ''cq_body''
      (''Extract the full source body of a symbol definition'')
      [lang_property,
       project_property,
       scope_property,
       (''symbol'', ''string'', ''Symbol name to extract (supports qualified names)'')]
      (Some [''symbol'']),
    tool ''cq_sig''
      (''Extract the type signature of a symbol (without body)'')
      [lang_property,
       project_property,
       scope_property,
       (''symbol'', ''string'', ''Symbol name to extract signature for'')]
      (Some [''symbol'']),
    tool ''cq_refs''
      (''Find all references to a symbol across the project'')
      [project_property,
       scope_property,
       (''symbol'', ''string'', ''Symbol name to find references for'')]
      (Some [''symbol'']),
    tool ''cq_callers''
      (''Find all call sites of a function across the project'')
      [project_property,
       scope_property,
       (''symbol'', ''string'', ''Function name to find callers for'')]
      (Some [''symbol'']),
    tool ''cq_outline''
      (''List all symbols in a file with their kinds and nesting'')
      [(''file'', ''string'', ''File path to outline (relative or absolute)''),
       project_property]
      (Some [''file'']),
    tool ''cq_symbols''
      (''List all symbols in the project'')
      [(''kind'', ''string'', ''Filter by symbol kind (function, struct, class, etc.)''),
       project_property,
       (''scope'', ''string'', ''Restrict to a subdirectory or file (e.g. '' @ [CHR 0x27] @
         ''crates/codequery-core'' @ [CHR 0x27] @ '')'')]
      (None),
    tool ''cq_imports''
      (''List imports and use statements in a file'')
      [(''file'', ''string'', ''File path to list imports for''),
       project_property]
      (Some [''file'']),
    tool ''cq_search''
      (''Structural search using tree-sitter S-expression queries. Use cq_tree to explore node types for a language.'')
      [lang_property,
       (''pattern'', ''string'', ''Tree-sitter S-expression query (e.g. '' @ [CHR 0x27] @
         ''(function_item name: (identifier) @name)'' @ [CHR 0x27] @ '')''),
       project_property,
       scope_property]
      (Some [''pattern'']),
    tool ''cq_context''
      (''Show the enclosing symbol context around a file location'')
      [(''location'', ''string'', ''Location as file:line (e.g. src/main.rs:42)''),
       project_property]
      (Some [''location'']),
    tool ''cq_tree''
      (''Show project file and directory structure'')
      [(''path'', ''string'', ''Root path to display (defaults to project root)''),
       project_property,
       (''scope'', ''string'', ''Restrict to a subdirectory'')]
      (None),
    tool ''cq_deps''
      (''Show dependency relationships for a symbol'')
      [lang_property,
       project_property,
       scope_property,
       (''symbol'', ''string'', ''Symbol name to show dependencies for'')]
      (Some [''symbol'']),
    tool ''cq_hover''
      (''Show type info, docs, and signature at a source location'')
      [(''location'', ''string'', ''Location as file:line[:column]''),
       project_property]
      (Some [''location'']),
    tool ''cq_diagnostics''
      (''Show syntax errors and language server diagnostics for a file or project'')
      [(''file'', ''string'', ''File to check (omit for whole project)''),
       project_property,
       scope_property]
      (None),
    tool ''cq_rename''
      (''Rename a symbol across the project. Dry-run at syntactic precision, applies at semantic/resolved.'')
      [(''apply'', ''boolean'', ''Force apply changes regardless of precision tier''),
       (''dry_run'', ''boolean'', ''Force preview mode without applying''),
       lang_property,
       (''new'', ''string'', ''New symbol name''),
       (''old'', ''string'', ''Current symbol name''),
       project_property,
       scope_property]
      (Some [''old'', ''new'']),
    tool ''cq_dead''
      (''Find unreferenced (dead) symbols in the project'')
      [(''kind'', ''string'', ''Filter by symbol kind''),
       project_property,
       scope_property]
      (None),
    tool ''cq_callchain''
      (''Trace multi-level call hierarchy for a symbol'')
      [(''depth'', ''integer'', ''Maximum depth, default 3''),
       project_property,
       scope_property,
       (''symbol'', ''string'', ''Symbol name to trace'')]
      (Some [''symbol'']),
    tool ''cq_hierarchy''
      (''Show type hierarchy '' @ em_dash @ '' supertypes and subtypes'')
      [lang_property,
       project_property,
       scope_property,
       (''symbol'', ''string'', ''Type name to show hierarchy for'')]
      (Some [''symbol''])]"

definition edit_tool :: tool_definition where
  "edit_tool =
    tool ''cq_edit''
      (''Edit a file by replacing an exact string match. Does not require reading the file first '' @ em_dash @
         '' use after cq_body to make surgical edits.'')
      [(''file_path'', ''string'', ''Absolute path to the file to edit''),
       (''new_string'', ''string'', ''Replacement string''),
       (''old_string'', ''string'', ''Exact string to find and replace (must be unique in file unless replace_all is true)''),
       (''replace_all'', ''boolean'', ''Replace all occurrences (default: false)'')]
      (Some [''file_path'', ''old_string'', ''new_string''])"

definition all_tools :: "(string \<Rightarrow> string option) \<Rightarrow> tool_definition list" where
  "all_tools var = base_tools @ (if var ''CQ_MCP_EDIT'' = Some ''1'' then [edit_tool] else [])"

definition tool_json :: "tool_definition \<Rightarrow> json" where
  "tool_json t =
     JObj [(''description'', JStr (td_description t)), (''inputSchema'', td_input_schema t), (''name'', JStr (td_name t))]"


section \<open>Running the program\<close>

definition arg_str :: "string \<Rightarrow> json \<Rightarrow> string option" where
  "arg_str k args = Option.bind (value_get k args) json_as_str"

definition arg_flag :: "string \<Rightarrow> json \<Rightarrow> bool" where
  "arg_flag k args = (case value_get k args of Some (JBool b) \<Rightarrow> b | _ \<Rightarrow> False)"

definition dec_int :: "int \<Rightarrow> string" where
  "dec_int i = (if i < 0 then CHR ''-'' # dec (nat (- i)) else dec (nat i))"

definition option_args :: "string \<Rightarrow> string option \<Rightarrow> string list" where
  "option_args flag v = (case v of Some s \<Rightarrow> [flag, s] | None \<Rightarrow> [])"

definition cq_arguments :: "(string \<Rightarrow> string option) \<Rightarrow> string list \<Rightarrow> json \<Rightarrow> string list" where
  "cq_arguments var cmd_args tool_args =
     (if var ''CQ_CACHE'' \<noteq> Some ''1'' then [''--no-cache''] else []) @
     option_args ''--project'' (arg_str ''project'' tool_args) @
     option_args ''--in'' (arg_str ''scope'' tool_args) @
     option_args ''--lang'' (arg_str ''lang'' tool_args) @ cmd_args"

text \<open>The output of a run that succeeded; else the first of its errors, its output and its status
  that says something.\<close>

definition cq_result :: "sub_output \<Rightarrow> string + string" where
  "cq_result o' =
     (if so_code o' = Some 0 then Inr (so_stdout o')
      else
        Inl (if so_stderr o' = [] then
               if so_stdout o' = [] then ''cq exited with status '' @ so_status o' else so_stdout o'
             else so_stderr o'))"

definition call_cq :: "mcp_env \<Rightarrow> string list \<Rightarrow> json \<Rightarrow> disk \<Rightarrow> (string + string) \<times> disk" where
  "call_cq env cmd_args tool_args d =
     (let cq_bin = (case mc_var env ''CQ_BIN'' of Some b \<Rightarrow> b | None \<Rightarrow> ''cq'') in
      case mc_cq env cq_bin (cq_arguments (mc_var env) cmd_args tool_args) d of
        (Inl e, d') \<Rightarrow> (Inl (''Failed to execute '' @ cq_bin @ '': '' @ e), d')
      | (Inr out, d') \<Rightarrow> (cq_result out, d'))"

text \<open>A required argument.\<close>

definition with_arg ::
  "string \<Rightarrow> json \<Rightarrow> disk \<Rightarrow> (string \<Rightarrow> (string + string) \<times> disk) \<Rightarrow> (string + string) \<times> disk" where
  "with_arg k args d f =
     (case arg_str k args of Some s \<Rightarrow> f s | None \<Rightarrow> (Inl (''Missing required argument: '' @ k), d))"

definition run_symbol_command :: "mcp_env \<Rightarrow> string \<Rightarrow> json \<Rightarrow> disk \<Rightarrow> (string + string) \<times> disk" where
  "run_symbol_command env subcommand args d =
     with_arg ''symbol'' args d (\<lambda>s. call_cq env [subcommand, s] args d)"

definition run_file_command :: "mcp_env \<Rightarrow> string \<Rightarrow> json \<Rightarrow> disk \<Rightarrow> (string + string) \<times> disk" where
  "run_file_command env subcommand args d =
     with_arg ''file'' args d (\<lambda>f. call_cq env [subcommand, f] args d)"

definition run_symbols_command :: "mcp_env \<Rightarrow> json \<Rightarrow> disk \<Rightarrow> (string + string) \<times> disk" where
  "run_symbols_command env args d =
     call_cq env (option_args ''--kind'' (arg_str ''kind'' args) @ [''symbols'']) args d"

definition run_search_command :: "mcp_env \<Rightarrow> json \<Rightarrow> disk \<Rightarrow> (string + string) \<times> disk" where
  "run_search_command env args d = with_arg ''pattern'' args d (\<lambda>p. call_cq env [''search'', p] args d)"

definition run_context_command :: "mcp_env \<Rightarrow> json \<Rightarrow> disk \<Rightarrow> (string + string) \<times> disk" where
  "run_context_command env args d = with_arg ''location'' args d (\<lambda>l. call_cq env [''context'', l] args d)"

definition run_tree_command :: "mcp_env \<Rightarrow> json \<Rightarrow> disk \<Rightarrow> (string + string) \<times> disk" where
  "run_tree_command env args d =
     call_cq env (''tree'' # (case arg_str ''path'' args of Some p \<Rightarrow> [p] | None \<Rightarrow> [])) args d"

definition run_hover_command :: "mcp_env \<Rightarrow> json \<Rightarrow> disk \<Rightarrow> (string + string) \<times> disk" where
  "run_hover_command env args d = with_arg ''location'' args d (\<lambda>l. call_cq env [''hover'', l] args d)"

definition run_diagnostics_command :: "mcp_env \<Rightarrow> json \<Rightarrow> disk \<Rightarrow> (string + string) \<times> disk" where
  "run_diagnostics_command env args d =
     call_cq env (''diagnostics'' # (case arg_str ''file'' args of Some f \<Rightarrow> [f] | None \<Rightarrow> [])) args d"

definition run_rename_command :: "mcp_env \<Rightarrow> json \<Rightarrow> disk \<Rightarrow> (string + string) \<times> disk" where
  "run_rename_command env args d =
     with_arg ''old'' args d (\<lambda>old.
     with_arg ''new'' args d (\<lambda>new.
       call_cq env
         ([''rename'', old, new] @
          (if arg_flag ''apply'' args then [''--apply'']
           else if arg_flag ''dry_run'' args then [''--dry-run''] else [])) args d))"

definition run_dead_command :: "mcp_env \<Rightarrow> json \<Rightarrow> disk \<Rightarrow> (string + string) \<times> disk" where
  "run_dead_command env args d =
     call_cq env (option_args ''--kind'' (arg_str ''kind'' args) @ [''dead'']) args d"

definition run_callchain_command :: "mcp_env \<Rightarrow> json \<Rightarrow> disk \<Rightarrow> (string + string) \<times> disk" where
  "run_callchain_command env args d =
     with_arg ''symbol'' args d (\<lambda>s.
       call_cq env
         ([''callchain'', s] @
          option_args ''--depth'' (map_option dec_int (Option.bind (value_get ''depth'' args) json_i64))) args d)"

section \<open>Editing a file\<close>

text \<open>The pieces of a text between the matches of a pattern, which do not overlap: those of
  \<open>str::split\<close>. The empty pattern matches around every character.\<close>

lemma dropWhile_shorter [termination_simp]: "length (dropWhile P xs) < Suc (length xs)"
  by (simp add: le_imp_less_Suc length_dropWhile_le)

fun utf8_chars :: "string \<Rightarrow> string list" where
  "utf8_chars [] = []"
| "utf8_chars (c # cs) = (c # takeWhile utf8_cont cs) # utf8_chars (dropWhile utf8_cont cs)"

function pieces :: "string \<Rightarrow> string \<Rightarrow> string list" where
  "pieces old s =
     (if old = [] then [[]] @ utf8_chars s @ [[]]
      else
        (case find_sub old s of
           None \<Rightarrow> [s]
         | Some i \<Rightarrow> take i s # pieces old (drop (i + length old) s)))"
  by pat_completeness auto

lemma find_sub_fits: "find_sub old s = Some i \<Longrightarrow> i + length old \<le> length s"
  using find_sub_Some[of old s i] by (simp add: occurs_at_def)

termination pieces
proof (relation "measure (\<lambda>(old, s). length s)")
  fix old s :: string and i
  assume "old \<noteq> []" and found: "find_sub old s = Some i"
  then obtain a as where "old = a # as" by (cases old) auto
  with find_sub_fits[OF found] show "((old, drop (i + length old) s), old, s) \<in> measure (\<lambda>(old, s). length s)" by simp
qed simp

declare pieces.simps [simp del]

definition count_matches :: "string \<Rightarrow> string \<Rightarrow> nat" where
  "count_matches old s = length (pieces old s) - 1"

definition replace_matches :: "string \<Rightarrow> string \<Rightarrow> string \<Rightarrow> string" where
  "replace_matches old new s = join_with new (pieces old s)"

definition replace_first :: "string \<Rightarrow> string \<Rightarrow> string \<Rightarrow> string" where
  "replace_first old new s =
     (case pieces old s of p # q # ps \<Rightarrow> p @ new @ join_with old (q # ps) | _ \<Rightarrow> s)"

definition invalid_utf8 :: string where
  "invalid_utf8 = ''stream did not contain valid UTF-8''"

definition read_text :: "mcp_env \<Rightarrow> disk \<Rightarrow> path \<Rightarrow> string + string" where
  "read_text env d p =
     (case disk_read d p of
        Inl e \<Rightarrow> Inl (mc_io_text env e)
      | Inr s \<Rightarrow> if utf8_valid s then Inr s else Inl invalid_utf8)"

definition run_edit :: "mcp_env \<Rightarrow> json \<Rightarrow> disk \<Rightarrow> (string + string) \<times> disk" where
  "run_edit env args d =
     with_arg ''file_path'' args d (\<lambda>file_path.
     with_arg ''old_string'' args d (\<lambda>old_string.
     with_arg ''new_string'' args d (\<lambda>new_string.
       let replace_all = arg_flag ''replace_all'' args; p = path_of_string file_path in
       case read_text env d p of
         Inl e \<Rightarrow> (Inl (''Failed to read '' @ file_path @ '': '' @ e), d)
       | Inr content \<Rightarrow>
           (let n = count_matches old_string content in
            if n = 0 then (Inl (''old_string not found in '' @ file_path), d)
            else if 1 < n \<and> \<not> replace_all then
              (Inl (''old_string found '' @ dec n @ '' times in '' @ file_path @
                 ''. Provide more context to make it unique, or set replace_all: true''), d)
            else
              (let first_offset = (case find_sub old_string content of Some i \<Rightarrow> i | None \<Rightarrow> 0);
                   line_number = length (str_lines (take first_offset content)) + 1;
                   new_content = (if replace_all then replace_matches old_string new_string content
                     else replace_first old_string new_string content) in
               case disk_write d p new_content of
                 (Some e, d') \<Rightarrow> (Inl (''Failed to write '' @ file_path @ '': '' @ mc_io_text env e), d')
               | (None, d') \<Rightarrow>
                   (Inr (''Edited '' @ file_path @ '': replaced '' @ dec n @ '' occurrence(s) starting at line '' @
                      dec line_number), d'))))))"

section \<open>Dispatch\<close>

definition run_tool :: "mcp_env \<Rightarrow> string \<Rightarrow> json \<Rightarrow> disk \<Rightarrow> (string + string) \<times> disk" where
  "run_tool env name args d =
     (if name = ''cq_def'' then run_symbol_command env ''def'' args d
      else if name = ''cq_body'' then run_symbol_command env ''body'' args d
      else if name = ''cq_sig'' then run_symbol_command env ''sig'' args d
      else if name = ''cq_refs'' then run_symbol_command env ''refs'' args d
      else if name = ''cq_callers'' then run_symbol_command env ''callers'' args d
      else if name = ''cq_deps'' then run_symbol_command env ''deps'' args d
      else if name = ''cq_outline'' then run_file_command env ''outline'' args d
      else if name = ''cq_imports'' then run_file_command env ''imports'' args d
      else if name = ''cq_symbols'' then run_symbols_command env args d
      else if name = ''cq_search'' then run_search_command env args d
      else if name = ''cq_context'' then run_context_command env args d
      else if name = ''cq_tree'' then run_tree_command env args d
      else if name = ''cq_hover'' then run_hover_command env args d
      else if name = ''cq_diagnostics'' then run_diagnostics_command env args d
      else if name = ''cq_rename'' then run_rename_command env args d
      else if name = ''cq_dead'' then run_dead_command env args d
      else if name = ''cq_callchain'' then run_callchain_command env args d
      else if name = ''cq_hierarchy'' then run_symbol_command env ''hierarchy'' args d
      else if name = ''cq_edit'' then run_edit env args d
      else (Inl (''Unknown tool: '' @ name), d))"

text \<open>What the tool said, and the mark of an error.\<close>

definition tool_result_json :: "string + string \<Rightarrow> json" where
  "tool_result_json res =
     (let content = (\<lambda>s. (''content'', JArr [JObj [(''text'', JStr s), (''type'', JStr ''text'')]])) in
      case res of
        Inr s \<Rightarrow> JObj [content s]
      | Inl s \<Rightarrow> JObj [content s, (''isError'', JBool True)])"

definition execute_tool :: "mcp_env \<Rightarrow> string \<Rightarrow> json \<Rightarrow> disk \<Rightarrow> json \<times> disk" where
  "execute_tool env name args d = (case run_tool env name args d of (res, d') \<Rightarrow> (tool_result_json res, d'))"


section \<open>The server\<close>

definition initialize_result :: json where
  "initialize_result =
     JObj [(''capabilities'', JObj [(''tools'', JObj [(''listChanged'', JBool False)])]),
           (''protocolVersion'', JStr ''2024-11-05''),
           (''serverInfo'', JObj [(''name'', JStr ''cq-mcp''), (''version'', JStr ''1.0.0'')])]"

definition handle_initialize :: "json option \<Rightarrow> rpc_answer" where
  "handle_initialize i = answer_success i initialize_result"

definition handle_tools_list :: "mcp_env \<Rightarrow> json option \<Rightarrow> rpc_answer" where
  "handle_tools_list env i =
     answer_success i (JObj [(''tools'', JArr (map tool_json (all_tools (mc_var env))))])"

definition handle_tools_call :: "mcp_env \<Rightarrow> json option \<Rightarrow> json \<Rightarrow> disk \<Rightarrow> rpc_answer \<times> disk" where
  "handle_tools_call env i params d =
     (case tool_call_params_of_json params of
        None \<Rightarrow> (answer_error i INVALID_PARAMS (''Invalid tool call params: '' @ mc_params_error env params), d)
      | Some call \<Rightarrow>
          (case execute_tool env (tc_name call) (tc_arguments call) d of (result, d') \<Rightarrow> (answer_success i result, d')))"

text \<open>None for a notification.\<close>

definition handle_message :: "mcp_env \<Rightarrow> string \<Rightarrow> disk \<Rightarrow> rpc_answer option \<times> disk" where
  "handle_message env raw d =
     (let invalid = (\<lambda>e. Some (answer_error None PARSE_ERROR (''Invalid JSON: '' @ e))) in
      case mc_parse env raw of
        Inl e \<Rightarrow> (invalid e, d)
      | Inr j \<Rightarrow>
          (case rpc_call_of_json j of
             None \<Rightarrow> (invalid (mc_request_error env j), d)
           | Some request \<Rightarrow>
               (let i = rq_id request; meth = rq_method request in
                if i = None then (None, d)
                else if meth = ''initialize'' then (Some (handle_initialize i), d)
                else if meth = ''tools/list'' then (Some (handle_tools_list env i), d)
                else if meth = ''tools/call'' then
                  (case handle_tools_call env i (rq_params request) d of (a, d') \<Rightarrow> (Some a, d'))
                else if meth = ''ping'' then (Some (answer_success i (JObj [])), d)
                else (Some (answer_error i METHOD_NOT_FOUND (''Unknown method: '' @ meth)), d))))"

text \<open>The loop over the lines, until they end or one cannot be read. The answers are the lines of
  standard output.\<close>

fun serve :: "mcp_env \<Rightarrow> (string + string) list \<Rightarrow> disk \<Rightarrow> string list \<times> string list \<times> disk" where
  "serve env [] d = ([], [], d)"
| "serve env (Inl e # lines) d = ([], [''cq-mcp: stdin read error: '' @ e], d)"
| "serve env (Inr line # lines) d =
     (if str_trim line = [] then serve env lines d
      else
        (case handle_message env (str_trim line) d of
           (response, d') \<Rightarrow>
             (case serve env lines d' of
                (out, err, d'') \<Rightarrow>
                  ((case response of Some a \<Rightarrow> [mc_print env (answer_json a)] | None \<Rightarrow> []) @ out, err, d''))))"

definition daemon_control :: "mcp_env \<Rightarrow> string \<Rightarrow> disk \<Rightarrow> disk" where
  "daemon_control env action d = snd (mc_cq env ''cq'' [''daemon'', action] d)"

definition start_daemon :: "mcp_env \<Rightarrow> disk \<Rightarrow> string \<times> disk" where
  "start_daemon env d = (''cq-mcp: daemon started'', daemon_control env ''start'' d)"

definition stop_daemon :: "mcp_env \<Rightarrow> disk \<Rightarrow> string \<times> disk" where
  "stop_daemon env d = (''cq-mcp: daemon stopped'', daemon_control env ''stop'' d)"

definition mcp_main :: "mcp_env \<Rightarrow> (string + string) list \<Rightarrow> disk \<Rightarrow> string list \<times> string list \<times> disk" where
  "mcp_main env lines d =
     (case start_daemon env d of
        (first_words, d1) \<Rightarrow>
          (case serve env lines d1 of
             (out, err, d2) \<Rightarrow>
               (case stop_daemon env d2 of (last_words, d3) \<Rightarrow> (out, [first_words] @ err @ [last_words], d3))))"

section \<open>Answers\<close>

text \<open>The answer that a line calls for: none for an empty line and for a notification.\<close>

definition answered_id :: "mcp_env \<Rightarrow> string \<Rightarrow> json option option" where
  "answered_id env line =
     (if str_trim line = [] then None
      else
        (case mc_parse env (str_trim line) of
           Inl _ \<Rightarrow> Some None
         | Inr j \<Rightarrow>
             (case rpc_call_of_json j of
                None \<Rightarrow> Some None
              | Some request \<Rightarrow> (case rq_id request of None \<Rightarrow> None | Some i \<Rightarrow> Some (Some i)))))"

lemma answer_ids [simp]:
  "ra_id (answer_success i r) = i" "ra_id (answer_error i c m) = i" "ra_id (handle_initialize i) = i"
  "ra_id (handle_tools_list env i) = i"
  by (simp_all add: answer_success_def answer_error_def handle_initialize_def handle_tools_list_def)

lemma tools_call_id: "handle_tools_call env i params d = (a, d') \<Longrightarrow> ra_id a = i"
  by (auto simp: handle_tools_call_def split: option.splits prod.splits)

lemma handle_message_id:
  "str_trim line \<noteq> [] \<Longrightarrow> map_option ra_id (fst (handle_message env (str_trim line) d)) = answered_id env line"
  by (auto simp: handle_message_def answered_id_def Let_def tools_call_id split: sum.split option.split prod.split)

text \<open>
  C39: The server writes one answer, in order, for each request it reads and for each message that it
  cannot decode, with the identifier of the request (none for the latter), and none for
  notifications and empty lines, up to the first line that cannot be read, where it ends.
\<close>
theorem mcp_answers_requests:
  "\<exists>answers. fst (serve env lines d) = map (\<lambda>a. mc_print env (answer_json a)) answers \<and>
     map ra_id answers = List.map_filter (answered_id env) (map projr (takeWhile (\<lambda>l. \<not> isl l) lines))"
proof (induction env lines d rule: serve.induct)
  case (3 env line lines d)
  let ?line = "str_trim line"
  let ?ids = "List.map_filter (answered_id env) (map projr (takeWhile (\<lambda>l. \<not> isl l) lines))"
  show ?case
  proof (cases "?line = []")
    case True
    then have "answered_id env line = None" by (simp add: answered_id_def)
    with True 3(1) show ?thesis by (simp add: map_filter_simps)
  next
    case False
    obtain response d' where h: "handle_message env ?line d = (response, d')" by fastforce
    with 3(2)[OF False, of response d'] obtain as where as: "fst (serve env lines d') =
        map (\<lambda>a. mc_print env (answer_json a)) as" "map ra_id as = ?ids" by auto
    have ids: "answered_id env line = map_option ra_id response" using handle_message_id[OF False, of env d] h by simp
    then show ?thesis
      using False h as
      by (intro exI[of _ "(case response of Some a \<Rightarrow> [a] | None \<Rightarrow> []) @ as"])
        (auto simp: map_filter_simps ids split: option.splits prod.split)
  qed
qed (simp_all add: map_filter_simps)

section \<open>Editing\<close>

lemma join_pieces: "join_with old (pieces old s) = s"
proof (induction old s rule: pieces.induct)
  case (1 old s)
  show ?case
  proof (cases "old = []")
    case True
    have "concat (utf8_chars r) = r" for r by (induction r rule: utf8_chars.induct) simp_all
    moreover have "join_with [] ps = concat ps" for ps by (induction ps rule: induct_list012) simp_all
    ultimately show ?thesis using True by (subst pieces.simps) simp
  next
    case False
    show ?thesis
    proof (cases "find_sub old s")
      case None
      with False show ?thesis by (subst pieces.simps) simp
    next
      case (Some i)
      from find_sub_Some[OF Some] have here: "take (length old) (drop i s) = old" by (simp add: occurs_at_def)
      let ?rest = "drop (i + length old) s"
      have "pieces old ?rest \<noteq> []" by (subst pieces.simps) (simp split: option.split)
      then have "join_with old (take i s # pieces old ?rest) = take i s @ old @ join_with old (pieces old ?rest)"
        by (cases "pieces old ?rest") simp_all
      also have "\<dots> = take i s @ take (length old) (drop i s) @ drop (length old) (drop i s)"
        using 1(1)[OF False Some] here by (simp add: add.commute)
      also have "\<dots> = s" by (simp only: append_take_drop_id)
      finally show ?thesis using False Some by (subst pieces.simps) simp
    qed
  qed
qed

lemma one_match:
  assumes "old \<noteq> []" "count_matches old s = 1"
  obtains i where "find_sub old s = Some i" "pieces old s = [take i s, drop (i + length old) s]"
    "find_sub old (drop (i + length old) s) = None"
proof -
  obtain i where i: "find_sub old s = Some i"
    using assms by (cases "find_sub old s") (simp_all add: count_matches_def pieces.simps[of old s])
  let ?rest = "drop (i + length old) s"
  have "find_sub old ?rest = None"
  proof (rule ccontr)
    assume "find_sub old ?rest \<noteq> None"
    then obtain j where j: "find_sub old ?rest = Some j" by blast
    have "pieces old (drop (j + length old) ?rest) \<noteq> []" by (subst pieces.simps) (simp split: option.split)
    then have "1 < length (pieces old ?rest)" using assms(1) j by (subst pieces.simps) simp
    then show False using assms i by (simp add: count_matches_def pieces.simps[of old s])
  qed
  moreover from this have "pieces old s = [take i s, ?rest]"
    using assms(1) i by (simp add: pieces.simps[of old s] pieces.simps[of old ?rest])
  ultimately show ?thesis using that i by blast
qed

lemma length_str_lines:
  "length (str_lines s) = count_list s (CHR 0x0A) + (if s = [] \<or> last s = CHR 0x0A then 0 else 1)"
proof -
  have "length (lines_from acc s) =
      count_list s (CHR 0x0A) + (if s = [] then (if acc = [] then 0 else 1) else if last s = CHR 0x0A then 0 else 1)" for acc
    by (induction acc s rule: lines_from.induct) auto
  then show ?thesis by (simp add: str_lines_def)
qed


lemma run_edit_once:
  assumes "run_edit env args d = (Inr msg, d')" "\<not> arg_flag ''replace_all'' args"
    and "arg_str ''file_path'' args = Some f" "arg_str ''old_string'' args = Some old" "old \<noteq> []"
    and "arg_str ''new_string'' args = Some new"
  obtains content i where "disk_files d (path_of_string f) = Some content" "find_sub old content = Some i"
    "find_sub old (drop (i + length old) content) = None"
    "disk_files d' = (disk_files d)(path_of_string f \<mapsto> take i content @ new @ drop (i + length old) content)"
    "msg = ''Edited '' @ f @ '': replaced 1 occurrence(s) starting at line '' @ dec (length (str_lines (take i content)) + 1)"
proof -
  let ?p = "path_of_string f"
  obtain content where c: "read_text env d ?p = Inr content"
    using assms by (cases "read_text env d ?p") (auto simp: run_edit_def with_arg_def Let_def)
  then have disk: "disk_files d ?p = Some content"
    by (auto simp: read_text_def disk_read_def split: sum.splits option.splits if_splits)
  have "count_matches old content \<noteq> 0"
  proof
    assume "count_matches old content = 0"
    with assms(1) c assms(2-4,6) show False by (simp add: run_edit_def with_arg_def)
  qed
  moreover have "\<not> 1 < count_matches old content"
  proof
    assume "1 < count_matches old content"
    with assms(1) c assms(2-4,6) show False by (simp add: run_edit_def with_arg_def)
  qed
  ultimately have n: "count_matches old content = 1" by simp
  from one_match[OF assms(5) n] obtain i where i: "find_sub old content = Some i"
    "pieces old content = [take i content, drop (i + length old) content]"
    "find_sub old (drop (i + length old) content) = None" .
  let ?new = "take i content @ new @ drop (i + length old) content"
  have "replace_first old new content = ?new" using i(2) by (simp add: replace_first_def)
  moreover have "dec 1 = ''1''" by code_simp
  ultimately have written: "disk_write d ?p ?new = (None, d')"
    and msg: "msg = ''Edited '' @ f @ '': replaced 1 occurrence(s) starting at line '' @ dec (length (str_lines (take i content)) + 1)"
    using assms(1) c assms(2-4,6) n i(1)
    by (cases "disk_write d ?p ?new"; cases "fst (disk_write d ?p ?new)"; simp add: run_edit_def with_arg_def)+
  from written have "disk_files d' = (disk_files d)(?p \<mapsto> ?new)"
    by (auto simp: disk_write_def split: option.splits prod.splits)
  with disk i(1,3) msg that show ?thesis by blast
qed

text \<open>
  C40: An edit without \<open>replace_all\<close> that succeeds changes one file: the text before the first place of
  the old string and after it is kept and the new string stands between, and the rest holds no further
  copy. The line it reports is the line of that place only when the place starts a line, else it is
  one too many.
\<close>
theorem edit_replaces_once:
  assumes "run_edit env args d = (Inr msg, d')" "\<not> arg_flag ''replace_all'' args"
    and "arg_str ''file_path'' args = Some f" "arg_str ''old_string'' args = Some old" "old \<noteq> []"
    and "arg_str ''new_string'' args = Some new"
  shows "\<exists>before after.
    disk_files d (path_of_string f) = Some (before @ old @ after) \<and> find_sub old after = None \<and>
    find_sub old (before @ old @ after) = Some (length before) \<and>
    disk_files d' = (disk_files d)(path_of_string f \<mapsto> before @ new @ after) \<and>
    msg = ''Edited '' @ f @ '': replaced 1 occurrence(s) starting at line '' @
      dec (1 + count_list before (CHR 0x0A) + (if before = [] \<or> last before = CHR 0x0A then 0 else 1))"
proof -
  from run_edit_once[OF assms] obtain content i where e: "disk_files d (path_of_string f) = Some content"
    "find_sub old content = Some i" "find_sub old (drop (i + length old) content) = None"
    "disk_files d' = (disk_files d)(path_of_string f \<mapsto> take i content @ new @ drop (i + length old) content)"
    "msg = ''Edited '' @ f @ '': replaced 1 occurrence(s) starting at line '' @ dec (length (str_lines (take i content)) + 1)" .
  from find_sub_Some[OF e(2)] have o': "i + length old \<le> length content" "take (length old) (drop i content) = old"
    by (simp_all add: occurs_at_def)
  have "content = take i content @ take (length old) (drop i content) @ drop (length old) (drop i content)"
    by (simp only: append_take_drop_id)
  with o'(2) have c: "content = take i content @ old @ drop (i + length old) content" by (simp add: add.commute)
  have len: "length (take i content) = i" using o'(1) by simp
  show ?thesis
    by (rule exI[of _ "take i content"], rule exI[of _ "drop (i + length old) content"])
      (use e c len in \<open>simp add: length_str_lines\<close>)
qed

text \<open>An edit that fails leaves the disk as it was, unless the write itself stopped half way.\<close>

lemma edit_failure:
  assumes "run_edit env args d = (Inl e, d')" "\<And>p. write_fault d p = None"
  shows "d' = d"
  using assms
  by (auto simp: run_edit_def with_arg_def Let_def disk_write_def split: option.splits sum.splits if_splits prod.splits)

text \<open>
  The switch \<open>CQ_MCP_EDIT\<close> hides the edit tool from the list but does not turn it off: a call edits
  the file whatever the variable says.
\<close>
theorem edit_not_gated:
  "(''cq_edit'' \<in> td_name ` set (all_tools var)) = (var ''CQ_MCP_EDIT'' = Some ''1'') \<and>
   execute_tool (env\<lparr>mc_var := var\<rparr>) ''cq_edit'' args d =
     (tool_result_json (fst (run_edit env args d)), snd (run_edit env args d))"
proof
  have "''cq_edit'' \<notin> td_name ` set base_tools" by (simp add: base_tools_def tool_def)
  then show "(''cq_edit'' \<in> td_name ` set (all_tools var)) = (var ''CQ_MCP_EDIT'' = Some ''1'')"
    by (auto simp: all_tools_def edit_tool_def tool_def)
  have "read_text (env\<lparr>mc_var := var\<rparr>) = read_text env" by (simp add: read_text_def fun_eq_iff split: sum.split)
  then have "run_edit (env\<lparr>mc_var := var\<rparr>) args d = run_edit env args d"
    by (simp add: run_edit_def with_arg_def Let_def split: option.split sum.split prod.split)
  then show "execute_tool (env\<lparr>mc_var := var\<rparr>) ''cq_edit'' args d =
      (tool_result_json (fst (run_edit env args d)), snd (run_edit env args d))"
    by (simp add: execute_tool_def run_tool_def split: prod.split)
qed

text \<open>
  Results that come with a parse warning reach the client of the server as an error: when the
  program ends with status 4 after printing its results, the tool's answer is marked as an error. When
  no grammar is loaded on the way its message is those results.
\<close>
theorem parse_warning_is_tool_error:
  assumes "fst (run_command cenv cargs cw) = Ended out err 4" "out \<noteq> []" "cli_events cenv = []"
    and "mc_cq env (case mc_var env ''CQ_BIN'' of Some b \<Rightarrow> b | None \<Rightarrow> ''cq'')
           (cq_arguments (mc_var env) cmd_args args) d =
         (Inr \<lparr>so_code = Some 4, so_status = status, so_stdout = out, so_stderr = err\<rparr>, d')"
  shows "call_cq env cmd_args args d = (Inl out, d') \<and>
    value_get ''isError'' (tool_result_json (fst (call_cq env cmd_args args d))) = Some (JBool True)"
proof -
  have "process_contract (Ended out err 4)" using run_command_unnoted[OF assms(3), of cargs cw] assms(1) by simp
  with assms(2) have "err = []" by (simp add: process_contract_def)
  with assms(2,4) have "call_cq env cmd_args args d = (Inl out, d')" by (simp add: call_cq_def cq_result_def)
  then show ?thesis by (simp add: tool_result_json_def value_get_def)
qed


section \<open>The properties at concrete inputs\<close>

definition demo_mcp_env :: mcp_env where
  "demo_mcp_env =
     \<lparr>mc_var = (\<lambda>_. None), mc_cq = (\<lambda>_ _ d. (Inl ''no program'', d)), mc_parse = (\<lambda>_. Inl ''no JSON''),
      mc_request_error = (\<lambda>_. ''bad request''), mc_params_error = (\<lambda>_. ''bad parameters''), mc_print = (\<lambda>_. []),
      mc_io_text = io_error_display\<rparr>"

definition edit_disk :: disk where
  "edit_disk = plain_disk\<lparr>disk_files := [[RootDir, Normal ''a''] \<mapsto> ''one two'']\<rparr>"

definition edit_args :: json where
  "edit_args = JObj [(''file_path'', JStr ''/a''), (''old_string'', JStr ''two''), (''new_string'', JStr ''2'')]"

theorem edit_replaces_once_witness:
  "disk_files (snd (run_edit demo_mcp_env edit_args edit_disk)) [RootDir, Normal ''a''] = Some ''one 2'' \<and>
   fst (run_edit demo_mcp_env edit_args edit_disk) = Inr ''Edited /a: replaced 1 occurrence(s) starting at line 2''"
proof -
  have p: "path_of_string ''/a'' = [RootDir, Normal ''a'']" by code_simp
  have "isl (fst (run_edit demo_mcp_env edit_args edit_disk)) = False" by code_simp
  then obtain msg d' where r: "run_edit demo_mcp_env edit_args edit_disk = (Inr msg, d')"
    by (cases "run_edit demo_mcp_env edit_args edit_disk"; cases "fst (run_edit demo_mcp_env edit_args edit_disk)") auto
  have args: "\<not> arg_flag ''replace_all'' edit_args" "arg_str ''file_path'' edit_args = Some ''/a''"
    "arg_str ''old_string'' edit_args = Some ''two''" "arg_str ''new_string'' edit_args = Some ''2''"
    by code_simp+
  from edit_replaces_once[OF r args(1-3) _ args(4)] p obtain before after where e:
    "disk_files edit_disk [RootDir, Normal ''a''] = Some (before @ ''two'' @ after)"
    "find_sub ''two'' (before @ ''two'' @ after) = Some (length before)"
    "disk_files d' = (disk_files edit_disk)([RootDir, Normal ''a''] \<mapsto> before @ ''2'' @ after)"
    "msg = ''Edited '' @ ''/a'' @ '': replaced 1 occurrence(s) starting at line '' @
      dec (1 + count_list before (CHR 0x0A) + (if before = [] \<or> last before = CHR 0x0A then 0 else 1))"
    by auto
  have whole: "before @ ''two'' @ after = ''one two''" using e(1) by (simp add: edit_disk_def plain_disk_def)
  moreover have "find_sub ''two'' ''one two'' = Some 4" by code_simp
  ultimately have "length before = 4" using e(2) by simp
  moreover from whole have "before = take (length before) ''one two'' \<and> ''two'' @ after = drop (length before) ''one two''"
    by (simp only: append_eq_conv_conj)
  ultimately have b: "before = ''one ''" "after = []" by simp_all
  have "dec (Suc (Suc 0)) = ''2''" by code_simp
  with e(3,4) b r show ?thesis by simp
qed

definition demo_outline :: string where
  "demo_outline = println (format_outline [Normal ''a.rs'']
     [Symbol ''go'' Function [Normal ''a.rs''] 1 0 1 Public [] None None None])"

lemma outline_warns: "fst (run_command demo_cli_env outline_args demo_cli_world) = Ended demo_outline [] 4"
proof -
  have lang: "language_name_for_file [''rs'' \<mapsto> ''rust''] [RootDir, Normal ''a.rs''] = Some ''rust''" by code_simp
  have "absolute_file demo_cmd_env [RootDir, Normal ''a.rs''] = [RootDir, Normal ''a.rs'']" by code_simp
  moreover have "strip_prefix_path [RootDir, Normal ''a.rs''] [RootDir] = Some [Normal ''a.rs'']" by code_simp
  ultimately show ?thesis
    using lang
    by (simp add: run_command_def parse_lang_filter_def query_run_def outline_args_def demo_cli_env_def outline_run_def
        with_file_def with_root_def detect_project_root_or_def demo_cmd_env_def find_demo_env_def named_parser_def
        parse_file_def warn_code_def finish_def output_mode_of_def demo_outline_def format_outline_output_def
        style_of_def demo_cli_world_def with_parsers_def load_events_def note_first_def Let_def)
qed

theorem parse_warning_is_tool_error_witness:
  "fst (call_cq
      (demo_mcp_env\<lparr>mc_cq := (\<lambda>_ _ d.
         (Inr \<lparr>so_code = Some 4, so_status = ''exit status: 4'', so_stdout = demo_outline, so_stderr = []\<rparr>, d))\<rparr>)
      [''outline'', ''a.rs''] JNull plain_disk) = Inl demo_outline \<and> demo_outline \<noteq> []"
proof
  show some: "demo_outline \<noteq> []" by (simp add: demo_outline_def)
  let ?env = "demo_mcp_env\<lparr>mc_cq := (\<lambda>_ _ d.
         (Inr \<lparr>so_code = Some 4, so_status = ''exit status: 4'', so_stdout = demo_outline, so_stderr = []\<rparr>, d))\<rparr>"
  have "call_cq ?env [''outline'', ''a.rs''] JNull plain_disk = (Inl demo_outline, plain_disk)"
    by (rule conjunct1[OF parse_warning_is_tool_error[OF outline_warns some]]) (simp_all add: demo_cli_env_def)
  then show "fst (call_cq ?env [''outline'', ''a.rs''] JNull plain_disk) = Inl demo_outline" by simp
qed

end
