(* ===== verification/Tsg_Values.thy ===== *)
theory Tsg_Values
  imports Core_Types "HOL-Library.Word" "HOL-Library.AList"
begin

text \<open>
  The data of the graph language (tree-sitter-graph): locations and identifiers
  (\<open>parser.rs\<close>, \<open>lib.rs\<close>), values with the order that Rust derives for them, attributes, the
  graph (\<open>graph.rs\<close>), environments of variables (\<open>variables.rs\<close>) and the errors of an
  execution (\<open>execution/error.rs\<close>). A node of the syntax tree is what the tree-sitter library
  says of it, its chain of parents included. An operation that can fail or panic is a function
  from a state to an outcome and a state; \<open>and_then\<close> is the operator \<open>?\<close>.
\<close>

type_synonym u32 = "32 word"

type_synonym ident = string

section \<open>Locations\<close>

datatype loc = Location (loc_row: nat) (loc_column: nat)

definition advance :: "bool \<Rightarrow> loc \<Rightarrow> loc" where
  "advance newline l =
     (if newline then Location (loc_row l + 1) 0 else Location (loc_row l) (loc_column l + 1))"

definition to_column_range :: "loc \<Rightarrow> nat \<times> nat" where
  "to_column_range l = (loc_column l, loc_column l + 1)"

definition show_loc :: "loc \<Rightarrow> string" where
  "show_loc l = ''('' @ dec (loc_row l + 1) @ '', '' @ dec (loc_column l + 1) @ '')''"

section \<open>Outcomes\<close>

datatype ('e, 'a) run = Val 'a | Fails 'e | Panics string

definition and_then ::
  "('s \<Rightarrow> ('e, 'a) run \<times> 's) \<Rightarrow> ('a \<Rightarrow> 's \<Rightarrow> ('e, 'b) run \<times> 's) \<Rightarrow> 's \<Rightarrow> ('e, 'b) run \<times> 's" where
  "and_then m f s =
     (case m s of (Val a, t) \<Rightarrow> f a t | (Fails e, t) \<Rightarrow> (Fails e, t) | (Panics p, t) \<Rightarrow> (Panics p, t))"

definition give :: "'a \<Rightarrow> 's \<Rightarrow> ('e, 'a) run \<times> 's" where
  "give a s = (Val a, s)"

definition fail :: "'e \<Rightarrow> 's \<Rightarrow> ('e, 'a) run \<times> 's" where
  "fail e s = (Fails e, s)"

definition panic :: "string \<Rightarrow> 's \<Rightarrow> ('e, 'a) run \<times> 's" where
  "panic p s = (Panics p, s)"

definition from_sum :: "'e + 'a \<Rightarrow> 's \<Rightarrow> ('e, 'a) run \<times> 's" where
  "from_sum r = (case r of Inl e \<Rightarrow> fail e | Inr a \<Rightarrow> give a)"

fun map_run :: "('a \<Rightarrow> 's \<Rightarrow> ('e, 'b) run \<times> 's) \<Rightarrow> 'a list \<Rightarrow> 's \<Rightarrow> ('e, 'b list) run \<times> 's" where
  "map_run f [] s = give [] s"
| "map_run f (x # xs) s =
     and_then (f x) (\<lambda>y. and_then (map_run f xs) (\<lambda>ys. give (y # ys))) s"

fun each_run :: "('a \<Rightarrow> 's \<Rightarrow> ('e, unit) run \<times> 's) \<Rightarrow> 'a list \<Rightarrow> 's \<Rightarrow> ('e, unit) run \<times> 's" where
  "each_run f [] s = give () s"
| "each_run f (x # xs) s = and_then (f x) (\<lambda>_. each_run f xs) s"

lemma and_then_cong [fundef_cong]:
  "m s = m' s' \<Longrightarrow> s = s' \<Longrightarrow> (\<And>a t. m' s' = (Val a, t) \<Longrightarrow> f a t = f' a t) \<Longrightarrow>
    and_then m f s = and_then m' f' s'"
  by (auto simp: and_then_def split: prod.split run.split)

lemma map_run_cong [fundef_cong]:
  "xs = ys \<Longrightarrow> s = t \<Longrightarrow> (\<And>x u. x \<in> set ys \<Longrightarrow> f x u = g x u) \<Longrightarrow> map_run f xs s = map_run g ys t"
  by (induction xs arbitrary: ys s t) (auto intro!: and_then_cong)

lemma each_run_cong [fundef_cong]:
  "xs = ys \<Longrightarrow> s = t \<Longrightarrow> (\<And>x u. x \<in> set ys \<Longrightarrow> f x u = g x u) \<Longrightarrow> each_run f xs s = each_run g ys t"
  by (induction xs arbitrary: ys s t) (auto intro!: and_then_cong)

lemma and_then_simps [simp]:
  "and_then (give a) f s = f a s"
  "and_then (fail e) f s = (Fails e, s)"
  "and_then (panic p) f s = (Panics p, s)"
  by (simp_all add: and_then_def give_def fail_def panic_def)

lemma and_then_assoc: "and_then (and_then m f) g = and_then m (\<lambda>a. and_then (f a) g)"
  by (rule ext) (auto simp: and_then_def split: prod.split run.split)

section \<open>Nodes of the syntax tree\<close>

text \<open>\<open>id\<close>, \<open>kind\<close>, \<open>start_position\<close>, \<open>end_position\<close>, \<open>byte_range\<close>, the identities of the
  named children, and \<open>parent\<close> of a \<open>tree_sitter::Node\<close>.\<close>

datatype ts_node = TsNode (n_id: "64 word") (n_kind: string) (n_start: "nat \<times> nat") (n_end: "nat \<times> nat")
  (n_bytes: "nat \<times> nat") (n_named: "64 word list") (n_parent: "ts_node option")

datatype syntax_ref = SyntaxRef (sr_index: u32) (sr_kind: string) (sr_row: nat) (sr_col: nat)

definition ref_key :: "syntax_ref \<Rightarrow> u32 \<times> string \<times> nat \<times> nat" where
  "ref_key r = (sr_index r, sr_kind r, sr_row r, sr_col r)"

definition node_index :: "ts_node \<Rightarrow> u32" where
  "node_index n = ucast (n_id n)"

definition show_syntax_ref :: "syntax_ref \<Rightarrow> string" where
  "show_syntax_ref r =
     ''[syntax node '' @ sr_kind r @ '' ('' @ dec (sr_row r + 1) @ '', '' @ dec (sr_col r + 1) @ '')]''"

definition show_graph_ref :: "u32 \<Rightarrow> string" where
  "show_graph_ref g = ''[graph node '' @ dec (unat g) @ '']''"

section \<open>Values\<close>

text \<open>A \<open>BTreeSet\<close> is the sorted list of its elements.\<close>

datatype gval = Null | Boolean bool | Integer u32 | StringV string | ListV "gval list"
  | SetV "gval list" | SyntaxNode syntax_ref | GraphNode u32

fun value_rank :: "gval \<Rightarrow> nat" where
  "value_rank Null = 0"
| "value_rank (Boolean _) = 1"
| "value_rank (Integer _) = 2"
| "value_rank (StringV _) = 3"
| "value_rank (ListV _) = 4"
| "value_rank (SetV _) = 5"
| "value_rank (SyntaxNode _) = 6"
| "value_rank (GraphNode _) = 7"

fun value_lt :: "gval \<Rightarrow> gval \<Rightarrow> bool" and values_lt :: "gval list \<Rightarrow> gval list \<Rightarrow> bool" where
  "value_lt (Boolean a) (Boolean b) = (\<not> a \<and> b)"
| "value_lt (Integer a) (Integer b) = (a < b)"
| "value_lt (StringV a) (StringV b) = (a < b)"
| "value_lt (ListV a) (ListV b) = values_lt a b"
| "value_lt (SetV a) (SetV b) = values_lt a b"
| "value_lt (SyntaxNode a) (SyntaxNode b) = (ref_key a < ref_key b)"
| "value_lt (GraphNode a) (GraphNode b) = (a < b)"
| "value_lt a b = (value_rank a < value_rank b)"
| "values_lt [] ys = (ys \<noteq> [])"
| "values_lt (x # xs) [] = False"
| "values_lt (x # xs) (y # ys) = (value_lt x y \<or> x = y \<and> values_lt xs ys)"

lemma values_lt_irrefl: "(\<And>v. v \<in> set xs \<Longrightarrow> \<not> value_lt v v) \<Longrightarrow> \<not> values_lt xs xs"
  by (induction xs) auto

lemma value_lt_irrefl: "\<not> value_lt v v"
proof (induction v)
  case (ListV xs)
  then show ?case using values_lt_irrefl[of xs] by simp
next
  case (SetV xs)
  then show ?case using values_lt_irrefl[of xs] by simp
qed simp_all

lemma values_lt_trans:
  "(\<And>x y z. x \<in> set xs \<Longrightarrow> value_lt x y \<Longrightarrow> value_lt y z \<Longrightarrow> value_lt x z) \<Longrightarrow>
    values_lt xs ys \<Longrightarrow> values_lt ys zs \<Longrightarrow> values_lt xs zs"
proof (induction xs arbitrary: ys zs)
  case Nil
  then show ?case by (cases ys; cases zs) auto
next
  case (Cons x xs)
  from Cons.prems(2) obtain y ys' where ys: "ys = y # ys'" by (cases ys) auto
  with Cons.prems(3) obtain z zs' where zs: "zs = z # zs'" by (cases zs) auto
  have tr: "value_lt x y \<Longrightarrow> value_lt y z \<Longrightarrow> value_lt x z" using Cons.prems(1)[of x] by simp
  have "values_lt xs ys' \<Longrightarrow> values_lt ys' zs' \<Longrightarrow> values_lt xs zs'"
    using Cons.IH[of ys' zs'] Cons.prems(1) by (meson list.set_intros(2))
  with tr Cons.prems(2,3) show ?case unfolding ys zs by auto
qed

lemma value_lt_rank: "value_lt a b \<Longrightarrow> value_rank a \<le> value_rank b"
  by (cases a; cases b) simp_all

lemma value_lt_ranks: "value_rank a < value_rank b \<Longrightarrow> value_lt a b"
  by (cases a; cases b) simp_all

lemma value_lt_trans: "value_lt a b \<Longrightarrow> value_lt b c \<Longrightarrow> value_lt a c"
proof (induction a arbitrary: b c)
  case Null
  then show ?case by (cases b; cases c) auto
next
  case (Boolean x)
  then show ?case by (cases b; cases c) auto
next
  case (Integer x)
  then show ?case by (cases b; cases c) auto
next
  case (StringV x)
  then show ?case by (cases b; cases c) auto
next
  case (SyntaxNode x)
  then show ?case by (cases b; cases c) auto
next
  case (GraphNode x)
  then show ?case by (cases b; cases c) auto
next
  case (ListV xs)
  have "values_lt xs ys \<Longrightarrow> values_lt ys zs \<Longrightarrow> values_lt xs zs" for ys zs
    using values_lt_trans[of xs ys zs] ListV.IH by blast
  with ListV.prems show ?case by (cases b; cases c) simp_all
next
  case (SetV xs)
  have "values_lt xs ys \<Longrightarrow> values_lt ys zs \<Longrightarrow> values_lt xs zs" for ys zs
    using values_lt_trans[of xs ys zs] SetV.IH by blast
  with SetV.prems show ?case by (cases b; cases c) simp_all
qed

lemma values_lt_total:
  "(\<And>x y. x \<in> set xs \<Longrightarrow> value_lt x y \<or> x = y \<or> value_lt y x) \<Longrightarrow>
    values_lt xs ys \<or> xs = ys \<or> values_lt ys xs"
proof (induction xs arbitrary: ys)
  case Nil
  then show ?case by (cases ys) auto
next
  case (Cons x xs)
  then show ?case
  proof (cases ys)
    case (Cons y ys')
    have "values_lt xs ys' \<or> xs = ys' \<or> values_lt ys' xs"
      using Cons.IH[of ys'] Cons.prems by (meson list.set_intros(2))
    moreover have "value_lt x y \<or> x = y \<or> value_lt y x" using Cons.prems[of x y] by simp
    ultimately show ?thesis unfolding Cons by auto
  qed auto
qed

lemma ref_key_inject: "ref_key a = ref_key b \<Longrightarrow> a = b"
  by (cases a; cases b) (simp add: ref_key_def)

lemma value_lt_total: "value_lt a b \<or> a = b \<or> value_lt b a"
proof (induction a arbitrary: b)
  case Null
  then show ?case by (cases b) auto
next
  case (Boolean x)
  then show ?case by (cases b) auto
next
  case (Integer x)
  then show ?case by (cases b) (auto simp: neq_iff)
next
  case (StringV x)
  then show ?case by (cases b) (auto simp: neq_iff)
next
  case (GraphNode x)
  then show ?case by (cases b) (auto simp: neq_iff)
next
  case (SyntaxNode r)
  have "ref_key r < ref_key q \<or> r = q \<or> ref_key q < ref_key r" for q
    using ref_key_inject by (metis linorder_neqE)
  then show ?case by (cases b) auto
next
  case (ListV xs)
  have "values_lt xs ys \<or> xs = ys \<or> values_lt ys xs" for ys
    using values_lt_total[of xs ys] ListV.IH by blast
  then show ?case by (cases b) auto
next
  case (SetV xs)
  have "values_lt xs ys \<or> xs = ys \<or> values_lt ys xs" for ys
    using values_lt_total[of xs ys] SetV.IH by blast
  then show ?case by (cases b) auto
qed

instantiation gval :: linorder
begin

definition less_gval :: "gval \<Rightarrow> gval \<Rightarrow> bool" where
  "a < b \<longleftrightarrow> value_lt a b"

definition less_eq_gval :: "gval \<Rightarrow> gval \<Rightarrow> bool" where
  "a \<le> b \<longleftrightarrow> a = b \<or> value_lt a b"

instance
  by standard (auto simp: less_gval_def less_eq_gval_def value_lt_irrefl
      dest: value_lt_trans intro: value_lt_trans, (metis value_lt_irrefl value_lt_trans value_lt_total)+)

end

text \<open>\<open>collect\<close> into a \<open>BTreeSet\<close>.\<close>

definition set_value :: "gval list \<Rightarrow> gval" where
  "set_value vs = SetV (sort (remdups vs))"

text \<open>The display form, and the debug form with its quoted strings. \<open>{:?}\<close> of a string escapes
  quotes, backslashes and the ASCII control characters; bytes outside ASCII are taken as
  printable.\<close>

fun show_value :: "gval \<Rightarrow> string" where
  "show_value Null = ''#null''"
| "show_value (Boolean b) = (if b then ''#true'' else ''#false'')"
| "show_value (Integer n) = dec (unat n)"
| "show_value (StringV s) = s"
| "show_value (ListV vs) = ''['' @ join_with '', '' (map show_value vs) @ '']''"
| "show_value (SetV vs) = ''{'' @ join_with '', '' (map show_value vs) @ ''}''"
| "show_value (SyntaxNode r) = show_syntax_ref r"
| "show_value (GraphNode g) = show_graph_ref g"

definition hex_digit :: "nat \<Rightarrow> char" where
  "hex_digit d = (if d < 10 then char_of (48 + d) else char_of (87 + d))"

definition hex_byte :: "nat \<Rightarrow> string" where
  "hex_byte n = (if n < 16 then [hex_digit n] else [hex_digit (n div 16), hex_digit (n mod 16)])"

definition debug_char :: "char \<Rightarrow> string" where
  "debug_char c =
     (if c = CHR 0x00 then [CHR 0x5C, CHR ''0''] else if c = CHR 0x09 then [CHR 0x5C, CHR ''t'']
      else if c = CHR 0x0A then [CHR 0x5C, CHR ''n''] else if c = CHR 0x0D then [CHR 0x5C, CHR ''r'']
      else if c = CHR 0x22 \<or> c = CHR 0x5C then [CHR 0x5C, c]
      else if byte c < 32 \<or> byte c = 127 then [CHR 0x5C, CHR ''u'', CHR ''{''] @ hex_byte (byte c) @ ''}''
      else [c])"

definition debug_str :: "string \<Rightarrow> string" where
  "debug_str s = [CHR 0x22] @ concat (map debug_char s) @ [CHR 0x22]"

fun debug_value :: "gval \<Rightarrow> string" where
  "debug_value Null = ''#null''"
| "debug_value (Boolean b) = (if b then ''#true'' else ''#false'')"
| "debug_value (Integer n) = dec (unat n)"
| "debug_value (StringV s) = debug_str s"
| "debug_value (ListV vs) = ''['' @ join_with '', '' (map debug_value vs) @ '']''"
| "debug_value (SetV vs) = ''{'' @ join_with '', '' (map debug_value vs) @ ''}''"
| "debug_value (SyntaxNode r) = show_syntax_ref r"
| "debug_value (GraphNode g) = show_graph_ref g"

text \<open>The serialised form.\<close>

fun value_json :: "gval \<Rightarrow> json" where
  "value_json Null = JObj [(''type'', JStr ''null'')]"
| "value_json (Boolean b) = JObj [(''type'', JStr ''bool''), (''bool'', JBool b)]"
| "value_json (Integer n) = JObj [(''type'', JStr ''int''), (''int'', JInt (int (unat n)))]"
| "value_json (StringV s) = JObj [(''type'', JStr ''string''), (''string'', JStr s)]"
| "value_json (ListV vs) = JObj [(''type'', JStr ''list''), (''values'', JArr (map value_json vs))]"
| "value_json (SetV vs) = JObj [(''type'', JStr ''set''), (''values'', JArr (map value_json vs))]"
| "value_json (SyntaxNode r) = JObj [(''type'', JStr ''syntaxNode''), (''id'', JInt (int (unat (sr_index r))))]"
| "value_json (GraphNode g) = JObj [(''type'', JStr ''graphNode''), (''id'', JInt (int (unat g)))]"

lemma set_value_order [simp]: "set_value vs = set_value ws \<longleftrightarrow> set vs = set ws"
  by (simp add: set_value_def) (metis distinct_remdups set_remdups sorted_list_of_set_sort_remdups set_sort)

end
