(* ===== verification/Tsg_Graph.thy ===== *)
theory Tsg_Graph
  imports Tsg_Values
begin

text \<open>
  Errors of an execution (\<open>execution/error.rs\<close>), the coercions of values, attributes, graph
  nodes with their sorted edges, and the graph (\<open>graph.rs\<close>); environments of variables
  (\<open>variables.rs\<close>). An environment is the list of its scopes, innermost first: the code links
  each nested \<open>VariableMap\<close> to the one around it. The three errors that name a variable say which
  kind of variable it is; \<open>culprit_text\<close> is what the message shows.
\<close>

section \<open>Errors\<close>

datatype statement_context = StatementContext (sc_statement: string) (sc_location: loc)
  (sc_stanza: loc) (sc_source: loc) (sc_kind: string)

datatype err_context = StatementCtx "statement_context list" | OtherCtx string

datatype culprit = LocalVar ident | GlobalVar ident | OtherVar string

datatype exec_error = Cancelled string
  | CannotAssignImmutableVariable culprit | CannotAssignScopedVariable string
  | CannotDefineMutableScopedVariable string | DuplicateAttribute string | DuplicateEdge string
  | DuplicateVariable culprit | ExpectedGraphNode string | ExpectedList string
  | ExpectedBoolean string | ExpectedInteger string | ExpectedString string
  | ExpectedSyntaxNode string | InvalidParameters string | InvalidVariableScope string
  | MissingGlobalVariable string | RecursivelyDefinedScopedVariable string
  | RecursivelyDefinedVariable string | UndefinedCapture string | UndefinedFunction string
  | UndefinedRegexCapture string | UndefinedScopedVariable string | EmptyRegexCapture string
  | UndefinedEdge string | UndefinedVariable culprit | VariableScopesAlreadyForced string
  | FunctionFailed string string | InContext err_context exec_error

type_synonym ('s, 'a) exec = "'s \<Rightarrow> (exec_error, 'a) run \<times> 's"

text \<open>\<open>with_context\<close>: a statement's context is added once, on top of contexts of other kinds.\<close>

fun with_context :: "err_context \<Rightarrow> exec_error \<Rightarrow> exec_error" where
  "with_context c (Cancelled at) = Cancelled at"
| "with_context c (InContext (OtherCtx m) e) = InContext c (InContext (OtherCtx m) e)"
| "with_context c (InContext (StatementCtx ss) e) = InContext (StatementCtx ss) e"
| "with_context c e = InContext c e"

definition in_context :: "err_context \<Rightarrow> ('s, 'a) exec \<Rightarrow> ('s, 'a) exec" where
  "in_context c m s =
     (case m s of (Fails e, t) \<Rightarrow> (Fails (with_context c e), t) | r \<Rightarrow> r)"

fun root_cause :: "exec_error \<Rightarrow> exec_error" where
  "root_cause (InContext c e) = root_cause e"
| "root_cause e = e"

definition marked_text :: "culprit \<Rightarrow> string" where
  "marked_text c = (case c of LocalVar x \<Rightarrow> '' local '' @ x | GlobalVar x \<Rightarrow> '' global '' @ x | OtherVar t \<Rightarrow> t)"

definition plain_text :: "culprit \<Rightarrow> string" where
  "plain_text c = (case c of LocalVar x \<Rightarrow> x | GlobalVar x \<Rightarrow> '' global '' @ x | OtherVar t \<Rightarrow> t)"

definition show_statement_context :: "bool \<Rightarrow> statement_context \<Rightarrow> string" where
  "show_statement_context first c =
     (if first then ''Error executing'' else '' and executing'') @ '' '' @ sc_statement c
     @ '' in stanza at '' @ show_loc (sc_stanza c) @ '' matching ('' @ sc_kind c @ '') node at ''
     @ show_loc (sc_source c)"

fun show_context :: "err_context \<Rightarrow> string" where
  "show_context (OtherCtx m) = m"
| "show_context (StatementCtx []) = []"
| "show_context (StatementCtx (c # cs)) =
     show_statement_context True c @ concat (map (show_statement_context False) cs)"

fun error_text :: "exec_error \<Rightarrow> string" where
  "error_text (Cancelled at) = ''Cancelled at '' @ [CHR 0x22] @ at @ [CHR 0x22]"
| "error_text (CannotAssignImmutableVariable c) = ''Cannot assign immutable variable '' @ plain_text c"
| "error_text (CannotAssignScopedVariable m) = ''Cannot assign scoped variable '' @ m"
| "error_text (CannotDefineMutableScopedVariable m) = ''Cannot define mutable scoped variable '' @ m"
| "error_text (DuplicateAttribute m) = ''Duplicate attribute '' @ m"
| "error_text (DuplicateEdge m) = ''Duplicate edge '' @ m"
| "error_text (DuplicateVariable c) = ''Duplicate variable '' @ marked_text c"
| "error_text (ExpectedGraphNode m) = ''Expected a graph node reference '' @ m"
| "error_text (ExpectedList m) = ''Expected a list '' @ m"
| "error_text (ExpectedBoolean m) = ''Expected a boolean '' @ m"
| "error_text (ExpectedInteger m) = ''Expected an integer '' @ m"
| "error_text (ExpectedString m) = ''Expected a string '' @ m"
| "error_text (ExpectedSyntaxNode m) = ''Expected a syntax node '' @ m"
| "error_text (InvalidParameters m) = ''Invalid parameters '' @ m"
| "error_text (InvalidVariableScope m) = ''Scoped variables can only be attached to syntax nodes '' @ m"
| "error_text (MissingGlobalVariable m) = ''Missing global variable '' @ m"
| "error_text (RecursivelyDefinedScopedVariable m) = ''Recursively defined scoped variable '' @ m"
| "error_text (RecursivelyDefinedVariable m) = ''Recursively defined variable '' @ m"
| "error_text (UndefinedCapture m) = ''Undefined capture '' @ m"
| "error_text (UndefinedFunction m) = ''Undefined function '' @ m"
| "error_text (UndefinedRegexCapture m) = ''Undefined regex capture '' @ m"
| "error_text (UndefinedScopedVariable m) = ''Undefined scoped variable '' @ m"
| "error_text (EmptyRegexCapture m) = ''Empty regex capture '' @ m"
| "error_text (UndefinedEdge m) = ''Undefined edge '' @ m"
| "error_text (UndefinedVariable c) = ''Undefined variable '' @ plain_text c"
| "error_text (VariableScopesAlreadyForced m) = ''Cannot add scoped variable after being forced '' @ m"
| "error_text (FunctionFailed f m) = ''Function '' @ f @ '' failed: '' @ m"
| "error_text (InContext c e) = show_context c @ ''. Caused by: '' @ error_text e"

lemma root_cause_with_context [simp]: "root_cause (with_context c e) = root_cause e"
  by (induction c e rule: with_context.induct) simp_all

section \<open>Coercions\<close>

definition got :: "gval \<Rightarrow> string" where
  "got v = ''got '' @ show_value v"

definition is_null :: "gval \<Rightarrow> bool" where
  "is_null v \<longleftrightarrow> v = Null"

definition into_boolean :: "gval \<Rightarrow> exec_error + bool" where
  "into_boolean v = (case v of Boolean b \<Rightarrow> Inr b | _ \<Rightarrow> Inl (ExpectedBoolean (got v)))"

definition into_integer :: "gval \<Rightarrow> exec_error + u32" where
  "into_integer v = (case v of Integer n \<Rightarrow> Inr n | _ \<Rightarrow> Inl (ExpectedInteger (got v)))"

definition into_string :: "gval \<Rightarrow> exec_error + string" where
  "into_string v = (case v of StringV s \<Rightarrow> Inr s | _ \<Rightarrow> Inl (ExpectedString (got v)))"

definition into_list :: "gval \<Rightarrow> exec_error + gval list" where
  "into_list v = (case v of ListV vs \<Rightarrow> Inr vs | _ \<Rightarrow> Inl (ExpectedList (got v)))"

definition into_graph_node_ref :: "gval \<Rightarrow> exec_error + u32" where
  "into_graph_node_ref v = (case v of GraphNode g \<Rightarrow> Inr g | _ \<Rightarrow> Inl (ExpectedGraphNode (got v)))"

definition into_syntax_node_ref :: "gval \<Rightarrow> exec_error + syntax_ref" where
  "into_syntax_node_ref v = (case v of SyntaxNode r \<Rightarrow> Inr r | _ \<Rightarrow> Inl (ExpectedSyntaxNode (got v)))"

section \<open>Attributes\<close>

text \<open>The hash map as an association list with distinct keys.\<close>

type_synonym attributes = "(ident \<times> gval) list"

definition attr_add :: "ident \<Rightarrow> gval \<Rightarrow> attributes \<Rightarrow> (gval + unit) \<times> attributes" where
  "attr_add name v attrs =
     (case map_of attrs name of
        Some old \<Rightarrow> if old \<noteq> v then (Inl old, AList.update name v attrs) else (Inr (), attrs)
      | None \<Rightarrow> (Inr (), AList.update name v attrs))"

definition attr_get :: "attributes \<Rightarrow> ident \<Rightarrow> gval option" where
  "attr_get attrs name = map_of attrs name"

definition show_attributes :: "attributes \<Rightarrow> string" where
  "show_attributes attrs =
     concat (map (\<lambda>k. ''  '' @ k @ '': '' @ debug_value (the (map_of attrs k)) @ [CHR 0x0A])
       (sort (map fst attrs)))"

definition attributes_json :: "attributes \<Rightarrow> json" where
  "attributes_json attrs = JObj (map (\<lambda>(k, v). (k, value_json v)) attrs)"

section \<open>Graph nodes and the graph\<close>

record gnode =
  gn_edges :: "(u32 \<times> attributes) list"
  gn_attrs :: attributes

record graph =
  gr_syntax :: "(u32 \<times> ts_node) list"
  gr_nodes :: "gnode list"

definition new_graph :: graph where
  "new_graph = \<lparr>gr_syntax = [], gr_nodes = []\<rparr>"

definition new_gnode :: gnode where
  "new_gnode = \<lparr>gn_edges = [], gn_attrs = []\<rparr>"

definition add_syntax_node :: "ts_node \<Rightarrow> graph \<Rightarrow> syntax_ref \<times> graph" where
  "add_syntax_node n g =
     (SyntaxRef (node_index n) (n_kind n) (fst (n_start n)) (snd (n_start n)),
      case map_of (gr_syntax g) (node_index n) of
        Some _ \<Rightarrow> g | None \<Rightarrow> g\<lparr>gr_syntax := AList.update (node_index n) n (gr_syntax g)\<rparr>)"

definition add_graph_node :: "graph \<Rightarrow> u32 \<times> graph" where
  "add_graph_node g = (of_nat (length (gr_nodes g)), g\<lparr>gr_nodes := gr_nodes g @ [new_gnode]\<rparr>)"

definition iter_nodes :: "graph \<Rightarrow> u32 list" where
  "iter_nodes g = map of_nat [0..<unat (of_nat (length (gr_nodes g)) :: u32)]"

definition node_count :: "graph \<Rightarrow> nat" where
  "node_count g = length (gr_nodes g)"

text \<open>Indexing a graph panics where there is no such node.\<close>

definition graph_node :: "graph \<Rightarrow> u32 \<Rightarrow> gnode option" where
  "graph_node g r = get_nth (gr_nodes g) (unat r)"

definition set_graph_node :: "u32 \<Rightarrow> gnode \<Rightarrow> graph \<Rightarrow> graph" where
  "set_graph_node r n g = g\<lparr>gr_nodes := (gr_nodes g)[unat r := n]\<rparr>"

definition syntax_node :: "graph \<Rightarrow> syntax_ref \<Rightarrow> ts_node option" where
  "syntax_node g r = map_of (gr_syntax g) (sr_index r)"

text \<open>\<open>binary_search_by_key\<close> on the sorted edges: the place of the edge, or where it belongs.\<close>

definition edge_search :: "u32 \<Rightarrow> (u32 \<times> attributes) list \<Rightarrow> nat + nat" where
  "edge_search sink es =
     (let i = length (takeWhile (\<lambda>e. fst e < sink) es) in
      if i < length es \<and> fst (es ! i) = sink then Inr i else Inl i)"

definition add_edge :: "u32 \<Rightarrow> gnode \<Rightarrow> (nat + nat) \<times> gnode" where
  "add_edge sink n =
     (case edge_search sink (gn_edges n) of
        Inr i \<Rightarrow> (Inl i, n)
      | Inl i \<Rightarrow> (Inr i, n\<lparr>gn_edges := take i (gn_edges n) @ (sink, []) # drop i (gn_edges n)\<rparr>))"

definition get_edge :: "u32 \<Rightarrow> gnode \<Rightarrow> attributes option" where
  "get_edge sink n =
     (case edge_search sink (gn_edges n) of Inr i \<Rightarrow> Some (snd (gn_edges n ! i)) | Inl _ \<Rightarrow> None)"

definition set_edge :: "u32 \<Rightarrow> attributes \<Rightarrow> gnode \<Rightarrow> gnode" where
  "set_edge sink attrs n =
     (case edge_search sink (gn_edges n) of
        Inr i \<Rightarrow> n\<lparr>gn_edges := (gn_edges n)[i := (sink, attrs)]\<rparr> | Inl _ \<Rightarrow> n)"

definition edge_count :: "gnode \<Rightarrow> nat" where
  "edge_count n = length (gn_edges n)"

definition pretty_node :: "nat \<times> gnode \<Rightarrow> string" where
  "pretty_node = (\<lambda>(i, n).
     ''node '' @ dec i @ [CHR 0x0A] @ show_attributes (gn_attrs n)
     @ concat (map (\<lambda>(sink, attrs). ''edge '' @ dec i @ '' -> '' @ dec (unat sink) @ [CHR 0x0A] @ show_attributes attrs)
         (gn_edges n)))"

definition pretty_print :: "graph \<Rightarrow> string" where
  "pretty_print g = concat (map pretty_node (List.enumerate 0 (gr_nodes g)))"

definition edge_json :: "u32 \<times> attributes \<Rightarrow> json" where
  "edge_json = (\<lambda>(sink, attrs). JObj [(''sink'', JInt (int (unat sink))), (''attrs'', attributes_json attrs)])"

definition graph_node_json :: "nat \<times> gnode \<Rightarrow> json" where
  "graph_node_json = (\<lambda>(i, n). JObj [(''id'', JInt (int i)), (''edges'', JArr (map edge_json (gn_edges n))),
     (''attrs'', attributes_json (gn_attrs n))])"

definition graph_json :: "graph \<Rightarrow> json" where
  "graph_json g = JArr (map graph_node_json (List.enumerate 0 (gr_nodes g)))"

section \<open>Environments of variables\<close>

datatype var_error = CannotAssignImmutable string | VariableAlreadyDefined string | NoSuchVariable string

type_synonym 'v scope = "ident \<rightharpoonup> 'v \<times> bool"

type_synonym 'v env = "'v scope list"

fun var_get :: "ident \<Rightarrow> 'v env \<Rightarrow> 'v option" where
  "var_get x [] = None"
| "var_get x (f # fs) = (case f x of Some (v, _) \<Rightarrow> Some v | None \<Rightarrow> var_get x fs)"

fun var_add :: "ident \<Rightarrow> 'v \<Rightarrow> bool \<Rightarrow> 'v env \<Rightarrow> var_error + 'v env" where
  "var_add x v m [] = Inl (VariableAlreadyDefined x)"
| "var_add x v m (f # fs) =
     (case f x of None \<Rightarrow> Inr (f(x \<mapsto> (v, m)) # fs) | Some _ \<Rightarrow> Inl (VariableAlreadyDefined x))"

fun var_set :: "ident \<Rightarrow> 'v \<Rightarrow> 'v env \<Rightarrow> var_error + 'v env" where
  "var_set x v [] = Inl (NoSuchVariable x)"
| "var_set x v (f # fs) =
     (case f x of
        Some (_, m) \<Rightarrow> if m then Inr (f(x \<mapsto> (v, m)) # fs) else Inl (CannotAssignImmutable x)
      | None \<Rightarrow> (case var_set x v fs of Inl e \<Rightarrow> Inl e | Inr fs' \<Rightarrow> Inr (f # fs')))"

text \<open>The immutable environment of globals: its own variables, and those of its contexts.\<close>

type_synonym globals = "(ident \<times> gval) list list"

fun globals_get :: "ident \<Rightarrow> globals \<Rightarrow> gval option" where
  "globals_get x [] = None"
| "globals_get x (vs # gs) = (case map_of vs x of Some v \<Rightarrow> Some v | None \<Rightarrow> globals_get x gs)"

definition globals_nested :: "globals \<Rightarrow> globals" where
  "globals_nested gs = [] # gs"

fun globals_add :: "ident \<Rightarrow> gval \<Rightarrow> globals \<Rightarrow> var_error + globals" where
  "globals_add x v [] = Inr [[(x, v)]]"
| "globals_add x v (vs # gs) =
     (case map_of vs x of None \<Rightarrow> Inr (AList.update x v vs # gs) | Some _ \<Rightarrow> Inl (VariableAlreadyDefined x))"

fun globals_remove :: "ident \<Rightarrow> globals \<Rightarrow> globals" where
  "globals_remove x [] = []"
| "globals_remove x (vs # gs) = AList.delete x vs # gs"

fun globals_clear :: "globals \<Rightarrow> globals" where
  "globals_clear [] = []"
| "globals_clear (vs # gs) = [] # gs"

fun globals_iter :: "globals \<Rightarrow> (ident \<times> gval) list" where
  "globals_iter [] = []"
| "globals_iter (vs # gs) = vs"

definition globals_is_empty :: "globals \<Rightarrow> bool" where
  "globals_is_empty gs \<longleftrightarrow> globals_iter gs = []"

section \<open>Edges are sorted, and behave as a map\<close>

definition edges_ok :: "gnode \<Rightarrow> bool" where
  "edges_ok n \<longleftrightarrow> sorted_wrt (<) (map fst (gn_edges n))"

lemma edge_search_parts:
  assumes "sorted_wrt (<) (map fst es)" "i = length (takeWhile (\<lambda>e. fst e < (sink :: u32)) es)"
  shows "take i es = takeWhile (\<lambda>e. fst e < sink) es" "\<forall>e \<in> set (take i es). fst e < sink"
    "\<forall>e \<in> set (drop i es). sink \<le> fst e" "i \<le> length es"
proof -
  have le: "\<forall>e \<in> set (dropWhile (\<lambda>e. fst e < sink) es). sink \<le> fst e"
    using assms(1)
  proof (induction es)
    case (Cons e es)
    show ?case
    proof (cases "fst e < sink")
      case False
      then have "sink \<le> fst e" by simp
      moreover have "\<forall>x \<in> set es. fst e < fst x" using Cons.prems by simp
      ultimately show ?thesis using False by (auto dest: order_le_less_trans)
    qed (use Cons in simp)
  qed simp
  show t: "take i es = takeWhile (\<lambda>e. fst e < sink) es" unfolding assms(2) by (rule takeWhile_eq_take[symmetric])
  have "e \<in> set (takeWhile (\<lambda>e. fst e < sink) es) \<Longrightarrow> fst e < sink" for e
    using set_takeWhileD by fastforce
  then show "\<forall>e \<in> set (take i es). fst e < sink" unfolding t by blast
  have "drop i es = dropWhile (\<lambda>e. fst e < sink) es" unfolding assms(2) by (rule dropWhile_eq_drop[symmetric])
  then show "\<forall>e \<in> set (drop i es). sink \<le> fst e" using le by simp
  show "i \<le> length es" using assms(2) by (simp add: length_takeWhile_le)
qed

lemma edge_search_Inr:
  assumes "edges_ok n" "edge_search sink (gn_edges n) = Inr i"
  shows "i < length (gn_edges n)" "fst (gn_edges n ! i) = sink"
    "map_of (gn_edges n) sink = Some (snd (gn_edges n ! i))"
proof -
  from assms(2) show i: "i < length (gn_edges n)" and f: "fst (gn_edges n ! i) = sink"
    by (auto simp: edge_search_def Let_def split: if_splits)
  have "distinct (map fst (gn_edges n))" using assms(1) strict_sorted_iff by (auto simp: edges_ok_def)
  moreover have "(sink, snd (gn_edges n ! i)) \<in> set (gn_edges n)"
    using nth_mem[OF i] f by (metis prod.collapse)
  ultimately show "map_of (gn_edges n) sink = Some (snd (gn_edges n ! i))" by simp
qed

lemma edge_search_Inl:
  assumes "edges_ok n" "edge_search sink (gn_edges n) = Inl i"
  shows "i \<le> length (gn_edges n)" "\<forall>e \<in> set (take i (gn_edges n)). fst e < sink"
    "\<forall>e \<in> set (drop i (gn_edges n)). sink < fst e" "map_of (gn_edges n) sink = None"
proof -
  let ?es = "gn_edges n"
  from assms(2) have i: "i = length (takeWhile (\<lambda>e. fst e < sink) ?es)"
    and no: "\<not> (i < length ?es \<and> fst (?es ! i) = sink)"
    by (auto simp: edge_search_def Let_def split: if_splits)
  note parts = edge_search_parts[OF assms(1)[unfolded edges_ok_def] i]
  show "i \<le> length ?es" "\<forall>e \<in> set (take i ?es). fst e < sink" by (rule parts(4), rule parts(2))
  show gt: "\<forall>e \<in> set (drop i ?es). sink < fst e"
  proof (cases "drop i ?es")
    case (Cons e rest)
    then have len: "i < length ?es" by (metis drop_all leI list.distinct(1))
    with Cons have e: "e = ?es ! i" by (metis hd_drop_conv_nth list.sel(1))
    have "sink \<le> fst e" using parts(3) Cons by simp
    with no len e have "sink < fst e" by auto
    moreover have "sorted_wrt (<) (map fst (drop i ?es))"
      using assms(1) by (simp add: edges_ok_def drop_map sorted_wrt_drop flip: drop_map)
    ultimately show ?thesis unfolding Cons by auto
  qed simp
  have "fst e \<noteq> sink" if "e \<in> set ?es" for e
    using that gt parts(2) by (metis Un_iff append_take_drop_id less_irrefl set_append)
  then show "map_of ?es sink = None" by (auto simp: map_of_eq_None_iff)
qed

lemma get_edge_map: "edges_ok n \<Longrightarrow> get_edge sink n = map_of (gn_edges n) sink"
  by (auto simp: get_edge_def edge_search_Inr edge_search_Inl(4) split: sum.split)

lemma edges_ok_new [simp]: "edges_ok new_gnode"
  by (simp add: edges_ok_def new_gnode_def)

lemma edges_ok_attrs [simp]: "edges_ok (n\<lparr>gn_attrs := a\<rparr>) = edges_ok n"
  by (simp add: edges_ok_def)

lemma set_edge_keys: "edges_ok n \<Longrightarrow> map fst (gn_edges (set_edge sink attrs n)) = map fst (gn_edges n)"
proof (cases "edge_search sink (gn_edges n)")
  case (Inr i)
  assume "edges_ok n"
  note f = edge_search_Inr[OF this Inr]
  then have "(map fst (gn_edges n))[i := sink] = map fst (gn_edges n)"
    by (metis length_map list_update_id nth_map)
  with Inr show ?thesis by (simp add: set_edge_def map_update)
qed (simp add: set_edge_def)

lemma set_edge_ok: "edges_ok n \<Longrightarrow> edges_ok (set_edge sink attrs n)"
  by (simp add: edges_ok_def set_edge_keys)

lemma map_of_insert:
  "\<forall>e \<in> set xs. fst e \<noteq> k \<Longrightarrow> map_of (xs @ (k, v) # ys) = (map_of (xs @ ys))(k \<mapsto> v)"
  by (induction xs) (auto simp: fun_eq_iff)

text \<open>What \<open>add_edge\<close> does to the map of the outgoing edges: nothing to an edge that exists, and a
  new one has no attributes.\<close>

lemma add_edge_map:
  assumes "edges_ok n" "add_edge sink n = (r, n')"
  shows "edges_ok n'"
    "map_of (gn_edges n') = (if sink \<in> dom (map_of (gn_edges n)) then map_of (gn_edges n)
                             else (map_of (gn_edges n))(sink \<mapsto> []))"
    "isl r \<longleftrightarrow> sink \<in> dom (map_of (gn_edges n))" "gn_attrs n' = gn_attrs n"
proof -
  let ?es = "gn_edges n"
  have "edges_ok n' \<and> map_of (gn_edges n') = (if sink \<in> dom (map_of ?es) then map_of ?es
          else (map_of ?es)(sink \<mapsto> [])) \<and> (isl r \<longleftrightarrow> sink \<in> dom (map_of ?es)) \<and> gn_attrs n' = gn_attrs n"
  proof (cases "edge_search sink ?es")
    case (Inr i)
    with assms edge_search_Inr(3)[OF assms(1) Inr] show ?thesis by (auto simp: add_edge_def)
  next
    case (Inl i)
    note f = edge_search_Inl[OF assms(1) Inl]
    from Inl assms(2) have n': "n' = n\<lparr>gn_edges := take i ?es @ (sink, []) # drop i ?es\<rparr>" "r = Inr i"
      by (auto simp: add_edge_def)
    have "sorted_wrt (<) (map fst (take i ?es)) \<and> sorted_wrt (<) (map fst (drop i ?es))"
      using assms(1) by (auto simp: edges_ok_def simp flip: take_map drop_map intro: sorted_wrt_take sorted_wrt_drop)
    moreover have "fst x < fst y" if "x \<in> set (take i ?es)" "y \<in> set (drop i ?es)" for x y
      using f(2,3) that by (meson less_trans)
    ultimately have "edges_ok n'" using f(2,3) n' by (auto simp: edges_ok_def sorted_wrt_append)
    moreover have "\<forall>e \<in> set (take i ?es). fst e \<noteq> sink" using f(2) by auto
    then have "map_of (take i ?es @ (sink, []) # drop i ?es) = (map_of ?es)(sink \<mapsto> [])"
      using map_of_insert by (metis append_take_drop_id)
    ultimately show ?thesis using f(4) n' by (auto simp: domIff)
  qed
  then show "edges_ok n'"
    "map_of (gn_edges n') = (if sink \<in> dom (map_of (gn_edges n)) then map_of (gn_edges n)
                             else (map_of (gn_edges n))(sink \<mapsto> []))"
    "isl r \<longleftrightarrow> sink \<in> dom (map_of (gn_edges n))" "gn_attrs n' = gn_attrs n" by blast+
qed

end
