(* ===== verification/Tsg_Ast.thy ===== *)
theory Tsg_Ast
  imports Tsg_Graph
begin

text \<open>
  The syntax of graph language files (\<open>ast.rs\<close>) with the display forms that error contexts and
  debug attributes quote, and what the language reads from a tree-sitter query: its capture
  names, whose positions are the capture indices, and the quantifier of a capture in a pattern.
\<close>

section \<open>Queries and matches\<close>

datatype quantifier = QZero | QZeroOrOne | QZeroOrMore | QOne | QOneOrMore

record ts_query =
  tq_captures :: "string list"
  tq_patterns :: nat
  tq_quantifiers :: "nat \<Rightarrow> nat \<Rightarrow> quantifier"

definition capture_index_for_name :: "ts_query \<Rightarrow> string \<Rightarrow> nat option" where
  "capture_index_for_name q name =
     (let i = length (takeWhile (\<lambda>c. c \<noteq> name) (tq_captures q)) in
      if i < length (tq_captures q) then Some i else None)"

record ts_match =
  tm_pattern :: nat
  tm_captures :: "(nat \<times> ts_node) list"

definition nodes_for_capture_index :: "ts_match \<Rightarrow> nat \<Rightarrow> ts_node list" where
  "nodes_for_capture_index m i = map snd (filter (\<lambda>c. fst c = i) (tm_captures m))"

section \<open>Expressions\<close>

datatype uvar = UnscopedVariable (uv_name: ident) (uv_loc: loc)

datatype capture = Capture (cap_name: ident) (cap_quantifier: quantifier) (cap_file_index: nat)
  (cap_stanza_index: nat) (cap_loc: loc)

datatype expr = FalseLiteral | NullLiteral | TrueLiteral
  | IntegerConstant u32 | StringConstant string
  | ListLiteral "expr list" | SetLiteral "expr list"
  | ListComprehension expr uvar expr loc | SetComprehension expr uvar expr loc
  | CaptureExpr capture | VariableExpr variable | CallExpr ident "expr list" | RegexCapture nat
and variable = Scoped expr ident loc | Unscoped uvar

datatype attribute = Attribute (at_name: ident) (at_value: expr)

datatype condition = CondSome expr loc | CondNone expr loc | CondBool expr loc

fun show_expr :: "expr \<Rightarrow> string" and show_variable :: "variable \<Rightarrow> string" where
  "show_expr FalseLiteral = ''false''"
| "show_expr NullLiteral = ''#null''"
| "show_expr TrueLiteral = ''true''"
| "show_expr (IntegerConstant n) = dec (unat n)"
| "show_expr (StringConstant s) = debug_str s"
| "show_expr (ListLiteral es) = ''['' @ join_with '', '' (map show_expr es) @ '']''"
| "show_expr (SetLiteral es) = ''{'' @ join_with '', '' (map show_expr es) @ ''}''"
| "show_expr (ListComprehension e x v l) =
     ''[ '' @ show_expr e @ '' for '' @ uv_name x @ '' in '' @ show_expr v @ '' ]''"
| "show_expr (SetComprehension e x v l) =
     ''{ '' @ show_expr e @ '' for '' @ uv_name x @ '' in '' @ show_expr v @ '' }''"
| "show_expr (CaptureExpr c) = ''@'' @ cap_name c"
| "show_expr (VariableExpr v) = show_variable v"
| "show_expr (CallExpr f es) = ''('' @ f @ concat (map (\<lambda>e. '' '' @ show_expr e) es) @ '')''"
| "show_expr (RegexCapture i) = ''$'' @ dec i"
| "show_variable (Scoped e x l) = show_expr e @ ''.'' @ x"
| "show_variable (Unscoped x) = uv_name x"

definition show_attribute :: "attribute \<Rightarrow> string" where
  "show_attribute a = at_name a @ '' = '' @ show_expr (at_value a)"

fun show_condition :: "condition \<Rightarrow> string" where
  "show_condition (CondSome e l) = ''some '' @ show_expr e"
| "show_condition (CondNone e l) = ''none '' @ show_expr e"
| "show_condition (CondBool e l) = show_expr e"

definition show_conditions :: "condition list \<Rightarrow> string" where
  "show_conditions cs = join_with '', '' (map show_condition cs)"

section \<open>Statements\<close>

datatype statement =
    DeclareImmutable variable expr loc | DeclareMutable variable expr loc | Assign variable expr loc
  | CreateGraphNode variable loc | AddGraphNodeAttribute expr "attribute list" loc
  | CreateEdge expr expr loc | AddEdgeAttribute expr expr "attribute list" loc
  | Scan expr "scan_arm list" loc | Print "expr list" loc | If "if_arm list" loc
  | ForIn uvar expr "statement list" loc
and scan_arm = ScanArm string "statement list" loc
and if_arm = IfArm "condition list" "statement list" loc

fun statement_location :: "statement \<Rightarrow> loc" where
  "statement_location (DeclareImmutable _ _ l) = l"
| "statement_location (DeclareMutable _ _ l) = l"
| "statement_location (Assign _ _ l) = l"
| "statement_location (CreateGraphNode _ l) = l"
| "statement_location (AddGraphNodeAttribute _ _ l) = l"
| "statement_location (CreateEdge _ _ l) = l"
| "statement_location (AddEdgeAttribute _ _ _ l) = l"
| "statement_location (Scan _ _ l) = l"
| "statement_location (Print _ l) = l"
| "statement_location (If _ l) = l"
| "statement_location (ForIn _ _ _ l) = l"

definition block_dots :: string where
  "block_dots = '' { ... }''"

definition at_loc :: "loc \<Rightarrow> string" where
  "at_loc l = '' at '' @ show_loc l"

fun show_if_arm :: "bool \<Rightarrow> if_arm \<Rightarrow> string" where
  "show_if_arm first (IfArm cs ss l) =
     (if first then ''if '' @ show_conditions cs @ block_dots
      else if cs \<noteq> [] then '' elif '' @ show_conditions cs @ block_dots else '' else'' @ block_dots)"

fun show_if_arms :: "if_arm list \<Rightarrow> string" where
  "show_if_arms [] = []"
| "show_if_arms (a # as) = show_if_arm True a @ concat (map (show_if_arm False) as)"

fun show_statement :: "statement \<Rightarrow> string" where
  "show_statement (DeclareImmutable x e l) = ''let '' @ show_variable x @ '' = '' @ show_expr e @ at_loc l"
| "show_statement (DeclareMutable x e l) = ''var '' @ show_variable x @ '' = '' @ show_expr e @ at_loc l"
| "show_statement (Assign x e l) = ''set '' @ show_variable x @ '' = '' @ show_expr e @ at_loc l"
| "show_statement (CreateGraphNode x l) = ''node '' @ show_variable x @ at_loc l"
| "show_statement (AddGraphNodeAttribute e as l) =
     ''attr ('' @ show_expr e @ '')'' @ concat (map (\<lambda>a. '' '' @ show_attribute a) as) @ at_loc l"
| "show_statement (CreateEdge e f l) = ''edge '' @ show_expr e @ '' -> '' @ show_expr f @ at_loc l"
| "show_statement (AddEdgeAttribute e f as l) =
     ''attr ('' @ show_expr e @ '' -> '' @ show_expr f @ '')''
     @ concat (map (\<lambda>a. '' '' @ show_attribute a) as) @ at_loc l"
| "show_statement (Scan e arms l) = ''scan '' @ show_expr e @ block_dots @ at_loc l"
| "show_statement (Print es l) = ''print'' @ concat (map (\<lambda>e. '' '' @ show_expr e @ '','') es) @ at_loc l"
| "show_statement (If arms l) = show_if_arms arms @ at_loc l"
| "show_statement (ForIn x e ss l) =
     ''for '' @ uv_name x @ '' in '' @ show_expr e @ block_dots @ at_loc l"

section \<open>Files\<close>

record global =
  go_name :: ident
  go_quantifier :: quantifier
  go_default :: "string option"
  go_loc :: loc

record shorthand =
  sh_name :: ident
  sh_variable :: uvar
  sh_attributes :: "attribute list"
  sh_loc :: loc

record stanza =
  sz_query :: ts_query
  sz_statements :: "statement list"
  sz_full_stanza :: nat
  sz_full_file :: nat
  sz_start :: loc
  sz_end :: loc

record dsl_file =
  df_globals :: "global list"
  df_inherited :: "ident list"
  df_query :: "ts_query option"
  df_stanzas :: "stanza list"
  df_shorthands :: "(ident \<times> shorthand) list"

definition new_file :: dsl_file where
  "new_file = \<lparr>df_globals = [], df_inherited = [], df_query = None, df_stanzas = [], df_shorthands = []\<rparr>"

definition add_shorthand :: "shorthand \<Rightarrow> (ident \<times> shorthand) list \<Rightarrow> (ident \<times> shorthand) list" where
  "add_shorthand sh shs = AList.update (sh_name sh) sh shs"

lemma takeWhile_found: "length (takeWhile (\<lambda>c. c \<noteq> x) xs) < length xs \<longleftrightarrow> x \<in> set xs"
  by (induction xs) auto

lemma nth_takeWhile_found: "x \<in> set xs \<Longrightarrow> xs ! length (takeWhile (\<lambda>c. c \<noteq> x) xs) = x"
  by (induction xs) auto

lemma capture_index_for_name_Some:
  "capture_index_for_name q name = Some i \<Longrightarrow> i < length (tq_captures q) \<and> tq_captures q ! i = name"
  by (auto simp: capture_index_for_name_def Let_def takeWhile_found nth_takeWhile_found split: if_splits)

lemma capture_index_for_name_None: "capture_index_for_name q name = None \<longleftrightarrow> name \<notin> set (tq_captures q)"
  by (simp add: capture_index_for_name_def Let_def takeWhile_found)

end
