(* ===== verification/Tsg_Checker.thy ===== *)
theory Tsg_Checker
  imports Tsg_Ast
begin

text \<open>
  The static checker of graph language files (\<open>checker.rs\<close>). It walks a stanza in the order of
  execution with an environment of variables that records, instead of values, whether a variable is
  local to the stanza and how many syntax nodes it may hold. It fills in the capture indices and
  quantifiers of the captures, so each check returns the syntax it leaves behind. The set of used
  captures is a list; the order in which the code's hash set lists the unused ones is a parameter.
\<close>

section \<open>Results and contexts\<close>

datatype check_error = CannotHideGlobalVariable string loc | CannotSetGlobalVariable string loc
  | DuplicateGlobalVariable string loc | ExpectedListValue loc | ExpectedLocalValue loc
  | ExpectedOptionalValue loc | NullableRegex string loc | UndefinedSyntaxCapture string loc
  | UndefinedVariableAt string loc | UnusedCaptures string loc | VariableFault var_error string loc

fun var_error_text :: "var_error \<Rightarrow> string" where
  "var_error_text (CannotAssignImmutable x) = ''Cannot assign immutable variable''"
| "var_error_text (VariableAlreadyDefined x) = ''Variable already defined''"
| "var_error_text (NoSuchVariable x) = ''Undefined variable''"

fun check_error_text :: "check_error \<Rightarrow> string" where
  "check_error_text (CannotHideGlobalVariable x l) = ''Cannot hide global variable '' @ x @ at_loc l"
| "check_error_text (CannotSetGlobalVariable x l) = ''Cannot set global variable '' @ x @ at_loc l"
| "check_error_text (DuplicateGlobalVariable x l) = ''Duplicate global variable '' @ x @ at_loc l"
| "check_error_text (ExpectedListValue l) = ''Expected list value'' @ at_loc l"
| "check_error_text (ExpectedLocalValue l) = ''Expected local value'' @ at_loc l"
| "check_error_text (ExpectedOptionalValue l) = ''Expected optional value'' @ at_loc l"
| "check_error_text (NullableRegex r l) = ''Nullable regular expression /'' @ r @ ''/'' @ at_loc l"
| "check_error_text (UndefinedSyntaxCapture x l) = ''Undefined syntax capture @'' @ x @ at_loc l"
| "check_error_text (UndefinedVariableAt x l) = ''Undefined variable '' @ x @ at_loc l"
| "check_error_text (UnusedCaptures xs l) =
     ''Unused capture(s) '' @ xs @ at_loc l @ ''. Remove or prefix with _.''"
| "check_error_text (VariableFault e x l) = var_error_text e @ '': '' @ x @ at_loc l"

record var_result =
  vr_local :: bool
  vr_quantifier :: quantifier

record expr_result =
  er_local :: bool
  er_quantifier :: quantifier
  er_used :: "ident list"

text \<open>\<open>ck_nullable\<close> says whether a regular expression matches the empty string.\<close>

record check_ctx =
  ck_globals :: "var_result env"
  ck_file_query :: ts_query
  ck_stanza_index :: nat
  ck_stanza_query :: ts_query
  ck_nullable :: "string \<Rightarrow> bool"

type_synonym 'a check = "var_result env \<Rightarrow> (check_error, 'a) run \<times> var_result env"

definition one_value :: expr_result where
  "one_value = \<lparr>er_local = True, er_quantifier = QOne, er_used = []\<rparr>"

definition to_var :: "expr_result \<Rightarrow> var_result" where
  "to_var r = \<lparr>vr_local = er_local r, vr_quantifier = er_quantifier r\<rparr>"

definition of_var :: "var_result \<Rightarrow> expr_result" where
  "of_var v = \<lparr>er_local = vr_local v, er_quantifier = vr_quantifier v, er_used = []\<rparr>"

definition many_values :: "expr_result list \<Rightarrow> quantifier \<Rightarrow> expr_result" where
  "many_values rs q =
     \<lparr>er_local = list_all er_local rs, er_quantifier = q, er_used = concat (map er_used rs)\<rparr>"

text \<open>\<open>VariableMap::nested\<close>: a scope around the current ones for as long as a check lasts.\<close>

definition nested :: "('v env \<Rightarrow> ('e, 'a) run \<times> 'v env) \<Rightarrow> 'v env \<Rightarrow> ('e, 'a) run \<times> 'v env" where
  "nested m s = (case m (Map.empty # s) of (r, t) \<Rightarrow> (r, tl t))"

lemma nested_cong [fundef_cong]:
  "s = t \<Longrightarrow> m (Map.empty # t) = m' (Map.empty # t) \<Longrightarrow> nested m s = nested m' t"
  by (simp add: nested_def)

section \<open>Variables\<close>

definition check_add_unscoped :: "check_ctx \<Rightarrow> uvar \<Rightarrow> var_result \<Rightarrow> bool \<Rightarrow> unit check" where
  "check_add_unscoped ctx x v mutable s =
     (if var_get (uv_name x) (ck_globals ctx) \<noteq> None
      then fail (CannotHideGlobalVariable (uv_name x) (uv_loc x)) s
      else case var_add (uv_name x) (if mutable then v\<lparr>vr_local := False\<rparr> else v) mutable s of
             Inl e \<Rightarrow> fail (VariableFault e (uv_name x) (uv_loc x)) s
           | Inr t \<Rightarrow> (Val (), t))"

definition check_set_unscoped :: "check_ctx \<Rightarrow> uvar \<Rightarrow> var_result \<Rightarrow> unit check" where
  "check_set_unscoped ctx x v s =
     (if var_get (uv_name x) (ck_globals ctx) \<noteq> None
      then fail (CannotSetGlobalVariable (uv_name x) (uv_loc x)) s
      else case var_set (uv_name x) (v\<lparr>vr_local := False\<rparr>) s of
             Inl e \<Rightarrow> fail (VariableFault e (uv_name x) (uv_loc x)) s
           | Inr t \<Rightarrow> (Val (), t))"

definition check_get_unscoped :: "check_ctx \<Rightarrow> uvar \<Rightarrow> expr_result check" where
  "check_get_unscoped ctx x s =
     (case (case var_get (uv_name x) (ck_globals ctx) of Some r \<Rightarrow> Some r | None \<Rightarrow> var_get (uv_name x) s) of
        Some r \<Rightarrow> give (of_var r) s
      | None \<Rightarrow> fail (UndefinedVariableAt (uv_name x) (uv_loc x)) s)"

definition check_capture :: "check_ctx \<Rightarrow> capture \<Rightarrow> (capture \<times> expr_result) check" where
  "check_capture ctx c s =
     (case capture_index_for_name (ck_stanza_query ctx) (cap_name c) of
        None \<Rightarrow> fail (UndefinedSyntaxCapture (cap_name c) (cap_loc c)) s
      | Some i \<Rightarrow>
          (case capture_index_for_name (ck_file_query ctx) (cap_name c) of
             None \<Rightarrow> panic ''missing capture index for name'' s
           | Some j \<Rightarrow>
               (let q = tq_quantifiers (ck_file_query ctx) (ck_stanza_index ctx) j in
                give (Capture (cap_name c) q j i (cap_loc c),
                      \<lparr>er_local = True, er_quantifier = q, er_used = [cap_name c]\<rparr>) s)))"

text \<open>The value a loop runs over must be local and a list.\<close>

definition check_list_value :: "expr_result \<Rightarrow> loc \<Rightarrow> unit check" where
  "check_list_value r l s =
     (if \<not> er_local r then fail (ExpectedLocalValue l) s
      else if er_quantifier r \<noteq> QZeroOrMore \<and> er_quantifier r \<noteq> QOneOrMore then fail (ExpectedListValue l) s
      else give () s)"

section \<open>Expressions\<close>

definition comprehension_result :: "expr_result \<Rightarrow> expr_result \<Rightarrow> expr_result" where
  "comprehension_result value_r elem_r =
     \<lparr>er_local = er_local elem_r, er_quantifier = QZeroOrMore, er_used = er_used value_r @ er_used elem_r\<rparr>"

fun check_expr :: "check_ctx \<Rightarrow> expr \<Rightarrow> (expr \<times> expr_result) check"
  and check_get :: "check_ctx \<Rightarrow> variable \<Rightarrow> (variable \<times> expr_result) check" where
  "check_expr ctx FalseLiteral s = give (FalseLiteral, one_value) s"
| "check_expr ctx NullLiteral s = give (NullLiteral, one_value) s"
| "check_expr ctx TrueLiteral s = give (TrueLiteral, one_value) s"
| "check_expr ctx (IntegerConstant n) s = give (IntegerConstant n, one_value) s"
| "check_expr ctx (StringConstant t) s = give (StringConstant t, one_value) s"
| "check_expr ctx (ListLiteral es) s =
     and_then (map_run (\<lambda>e u. check_expr ctx e u) es)
       (\<lambda>rs. give (ListLiteral (map fst rs), many_values (map snd rs) QZeroOrMore)) s"
| "check_expr ctx (SetLiteral es) s =
     and_then (map_run (\<lambda>e u. check_expr ctx e u) es)
       (\<lambda>rs. give (SetLiteral (map fst rs), many_values (map snd rs) QZeroOrMore)) s"
| "check_expr ctx (ListComprehension e x v l) s =
     and_then (\<lambda>u. check_expr ctx v u) (\<lambda>rv. and_then (check_list_value (snd rv) l) (\<lambda>_.
       nested (and_then (check_add_unscoped ctx x (to_var (snd rv)) False) (\<lambda>_.
         and_then (\<lambda>u. check_expr ctx e u) (\<lambda>re.
           give (ListComprehension (fst re) x (fst rv) l, comprehension_result (snd rv) (snd re))))))) s"
| "check_expr ctx (SetComprehension e x v l) s =
     and_then (\<lambda>u. check_expr ctx v u) (\<lambda>rv. and_then (check_list_value (snd rv) l) (\<lambda>_.
       nested (and_then (check_add_unscoped ctx x (to_var (snd rv)) False) (\<lambda>_.
         and_then (\<lambda>u. check_expr ctx e u) (\<lambda>re.
           give (SetComprehension (fst re) x (fst rv) l, comprehension_result (snd rv) (snd re))))))) s"
| "check_expr ctx (CaptureExpr c) s =
     and_then (check_capture ctx c) (\<lambda>r. give (CaptureExpr (fst r), snd r)) s"
| "check_expr ctx (VariableExpr x) s =
     and_then (\<lambda>u. check_get ctx x u) (\<lambda>r. give (VariableExpr (fst r), snd r)) s"
| "check_expr ctx (CallExpr f es) s =
     and_then (map_run (\<lambda>e u. check_expr ctx e u) es)
       (\<lambda>rs. give (CallExpr f (map fst rs), many_values (map snd rs) QOne)) s"
| "check_expr ctx (RegexCapture i) s = give (RegexCapture i, one_value) s"
| "check_get ctx (Unscoped x) s =
     and_then (check_get_unscoped ctx x) (\<lambda>r. give (Unscoped x, r)) s"
| "check_get ctx (Scoped e x l) s =
     and_then (\<lambda>u. check_expr ctx e u)
       (\<lambda>r. give (Scoped (fst r) x l, \<lparr>er_local = False, er_quantifier = QOne, er_used = er_used (snd r)\<rparr>)) s"

fun check_add :: "check_ctx \<Rightarrow> variable \<Rightarrow> var_result \<Rightarrow> bool \<Rightarrow> (variable \<times> ident list) check" where
  "check_add ctx (Unscoped x) v mutable s =
     and_then (check_add_unscoped ctx x v mutable) (\<lambda>_. give (Unscoped x, [])) s"
| "check_add ctx (Scoped e x l) v mutable s =
     and_then (check_expr ctx e) (\<lambda>r. give (Scoped (fst r) x l, er_used (snd r))) s"

fun check_set :: "check_ctx \<Rightarrow> variable \<Rightarrow> var_result \<Rightarrow> (variable \<times> ident list) check" where
  "check_set ctx (Unscoped x) v s = and_then (check_set_unscoped ctx x v) (\<lambda>_. give (Unscoped x, [])) s"
| "check_set ctx (Scoped e x l) v s =
     and_then (check_expr ctx e) (\<lambda>r. give (Scoped (fst r) x l, er_used (snd r))) s"

definition check_attribute :: "check_ctx \<Rightarrow> attribute \<Rightarrow> (attribute \<times> ident list) check" where
  "check_attribute ctx a =
     and_then (check_expr ctx (at_value a)) (\<lambda>r. give (Attribute (at_name a) (fst r), er_used (snd r)))"

section \<open>Statements\<close>

definition check_optional :: "expr_result \<Rightarrow> loc \<Rightarrow> unit check" where
  "check_optional r l s =
     (if \<not> er_local r then fail (ExpectedLocalValue l) s
      else if er_quantifier r \<noteq> QZeroOrOne then fail (ExpectedOptionalValue l) s
      else give () s)"

definition check_local :: "expr_result \<Rightarrow> loc \<Rightarrow> unit check" where
  "check_local r l s = (if \<not> er_local r then fail (ExpectedLocalValue l) s else give () s)"

fun check_condition :: "check_ctx \<Rightarrow> condition \<Rightarrow> (condition \<times> ident list) check" where
  "check_condition ctx (CondNone e l) s =
     and_then (check_expr ctx e) (\<lambda>r. and_then (check_optional (snd r) l)
       (\<lambda>_. give (CondNone (fst r) l, er_used (snd r)))) s"
| "check_condition ctx (CondSome e l) s =
     and_then (check_expr ctx e) (\<lambda>r. and_then (check_optional (snd r) l)
       (\<lambda>_. give (CondSome (fst r) l, er_used (snd r)))) s"
| "check_condition ctx (CondBool e l) s =
     and_then (check_expr ctx e) (\<lambda>r. and_then (check_local (snd r) l)
       (\<lambda>_. give (CondBool (fst r) l, er_used (snd r)))) s"

definition check_declare ::
  "check_ctx \<Rightarrow> variable \<Rightarrow> expr \<Rightarrow> bool \<Rightarrow> ((variable \<times> expr) \<times> ident list) check" where
  "check_declare ctx x e mutable =
     and_then (check_expr ctx e) (\<lambda>r. and_then (check_add ctx x (to_var (snd r)) mutable)
       (\<lambda>rx. give ((fst rx, fst r), er_used (snd r) @ snd rx)))"

definition node_result :: var_result where
  "node_result = \<lparr>vr_local = True, vr_quantifier = QOne\<rparr>"

fun check_statement :: "check_ctx \<Rightarrow> statement \<Rightarrow> (statement \<times> ident list) check"
  and check_scan_arm :: "check_ctx \<Rightarrow> scan_arm \<Rightarrow> (scan_arm \<times> ident list) check"
  and check_if_arm :: "check_ctx \<Rightarrow> if_arm \<Rightarrow> (if_arm \<times> ident list) check" where
  "check_statement ctx (DeclareImmutable x e l) s =
     and_then (check_declare ctx x e False) (\<lambda>r. give (DeclareImmutable (fst (fst r)) (snd (fst r)) l, snd r)) s"
| "check_statement ctx (DeclareMutable x e l) s =
     and_then (check_declare ctx x e True) (\<lambda>r. give (DeclareMutable (fst (fst r)) (snd (fst r)) l, snd r)) s"
| "check_statement ctx (Assign x e l) s =
     and_then (check_expr ctx e) (\<lambda>r. and_then (check_set ctx x (to_var (snd r)))
       (\<lambda>rx. give (Assign (fst rx) (fst r) l, er_used (snd r) @ snd rx))) s"
| "check_statement ctx (CreateGraphNode x l) s =
     and_then (check_add ctx x node_result False) (\<lambda>rx. give (CreateGraphNode (fst rx) l, snd rx)) s"
| "check_statement ctx (AddGraphNodeAttribute e as l) s =
     and_then (check_expr ctx e) (\<lambda>r. and_then (map_run (check_attribute ctx) as)
       (\<lambda>ra. give (AddGraphNodeAttribute (fst r) (map fst ra) l, er_used (snd r) @ concat (map snd ra)))) s"
| "check_statement ctx (CreateEdge e f l) s =
     and_then (check_expr ctx e) (\<lambda>r. and_then (check_expr ctx f)
       (\<lambda>q. give (CreateEdge (fst r) (fst q) l, er_used (snd r) @ er_used (snd q)))) s"
| "check_statement ctx (AddEdgeAttribute e f as l) s =
     and_then (check_expr ctx e) (\<lambda>r. and_then (check_expr ctx f) (\<lambda>q.
       and_then (map_run (check_attribute ctx) as)
       (\<lambda>ra. give (AddEdgeAttribute (fst r) (fst q) (map fst ra) l,
          er_used (snd r) @ er_used (snd q) @ concat (map snd ra))))) s"
| "check_statement ctx (Scan e arms l) s =
     and_then (check_expr ctx e) (\<lambda>r. and_then (check_local (snd r) l) (\<lambda>_.
       and_then (map_run (\<lambda>a u. check_scan_arm ctx a u) arms)
       (\<lambda>ra. give (Scan (fst r) (map fst ra) l, er_used (snd r) @ concat (map snd ra))))) s"
| "check_statement ctx (Print es l) s =
     and_then (map_run (check_expr ctx) es)
       (\<lambda>rs. give (Print (map fst rs) l, concat (map (\<lambda>r. er_used (snd r)) rs))) s"
| "check_statement ctx (If arms l) s =
     and_then (map_run (\<lambda>a u. check_if_arm ctx a u) arms)
       (\<lambda>ra. give (If (map fst ra) l, concat (map snd ra))) s"
| "check_statement ctx (ForIn x e ss l) s =
     and_then (check_expr ctx e) (\<lambda>r. and_then (check_list_value (snd r) l) (\<lambda>_.
       nested (and_then (check_add_unscoped ctx x (to_var (snd r)) False) (\<lambda>_.
         and_then (map_run (\<lambda>t u. check_statement ctx t u) ss)
         (\<lambda>rs. give (ForIn x (fst r) (map fst rs) l, er_used (snd r) @ concat (map snd rs))))))) s"
| "check_scan_arm ctx (ScanArm regex ss l) s =
     (if ck_nullable ctx regex then fail (NullableRegex regex l) s
      else nested (and_then (map_run (\<lambda>t u. check_statement ctx t u) ss)
        (\<lambda>rs. give (ScanArm regex (map fst rs) l, concat (map snd rs)))) s)"
| "check_if_arm ctx (IfArm cs ss l) s =
     and_then (map_run (check_condition ctx) cs) (\<lambda>rc.
       nested (and_then (map_run (\<lambda>t u. check_statement ctx t u) ss)
         (\<lambda>rs. give (IfArm (map fst rc) (map fst rs) l, concat (map snd rc) @ concat (map snd rs))))) s"

section \<open>Stanzas and files\<close>

definition full_match :: string where
  "full_match = ''__tsg__full_match''"

definition unused_captures :: "stanza \<Rightarrow> ident list \<Rightarrow> ident list" where
  "unused_captures z used =
     filter (\<lambda>c. c \<notin> set used \<and> \<not> starts_with ''_'' c)
       (remdups (filter (\<lambda>c. capture_index_for_name (sz_query z) c \<noteq> Some (sz_full_stanza z))
          (tq_captures (sz_query z))))"

definition check_stanza ::
  "(ident list \<Rightarrow> ident list) \<Rightarrow> (string \<Rightarrow> bool) \<Rightarrow> var_result env \<Rightarrow> ts_query \<Rightarrow> nat \<Rightarrow> stanza
    \<Rightarrow> (check_error, stanza) run" where
  "check_stanza order nullable globals file_query index z =
     (case capture_index_for_name file_query full_match of
        None \<Rightarrow> Panics ''missing capture index for full match''
      | Some full \<Rightarrow>
          (let ctx = \<lparr>ck_globals = globals, ck_file_query = file_query, ck_stanza_index = index,
                      ck_stanza_query = sz_query z, ck_nullable = nullable\<rparr> in
           fst (and_then (map_run (check_statement ctx) (sz_statements z)) (\<lambda>rs.
             (let unused = order (unused_captures z (concat (map snd rs))) in
              if unused \<noteq> [] then fail (UnusedCaptures (join_with '' '' (map (\<lambda>c. CHR ''@'' # c) unused)) (sz_start z))
              else give (z\<lparr>sz_statements := map fst rs, sz_full_file := full\<rparr>))) [Map.empty])))"

fun check_globals_of :: "global list \<Rightarrow> unit check" where
  "check_globals_of [] s = give () s"
| "check_globals_of (g # gs) s =
     (case var_add (go_name g) \<lparr>vr_local = True, vr_quantifier = go_quantifier g\<rparr> False s of
        Inl e \<Rightarrow> fail (DuplicateGlobalVariable (go_name g) (go_loc g)) s
      | Inr t \<Rightarrow> check_globals_of gs t)"

fun check_stanzas ::
  "(nat \<Rightarrow> stanza \<Rightarrow> (check_error, stanza) run) \<Rightarrow> nat \<Rightarrow> stanza list \<Rightarrow> (check_error, stanza list) run" where
  "check_stanzas chk i [] = Val []"
| "check_stanzas chk i (z # zs) =
     (case chk i z of
        Val z' \<Rightarrow> (case check_stanzas chk (i + 1) zs of
                     Val zs' \<Rightarrow> Val (z' # zs') | Fails e \<Rightarrow> Fails e | Panics p \<Rightarrow> Panics p)
      | Fails e \<Rightarrow> Fails e | Panics p \<Rightarrow> Panics p)"

definition check_file ::
  "(ident list \<Rightarrow> ident list) \<Rightarrow> (string \<Rightarrow> bool) \<Rightarrow> dsl_file \<Rightarrow> (check_error, dsl_file) run" where
  "check_file order nullable f =
     (case check_globals_of (df_globals f) [Map.empty] of
        (Fails e, _) \<Rightarrow> Fails e
      | (Panics p, _) \<Rightarrow> Panics p
      | (Val _, globals) \<Rightarrow>
          (case df_query f of
             None \<Rightarrow> Panics ''called Option::unwrap() on a None value''
           | Some fq \<Rightarrow>
               (case check_stanzas (check_stanza order nullable globals fq) 0 (df_stanzas f) of
                  Val zs \<Rightarrow> Val (f\<lparr>df_stanzas := zs\<rparr>) | Fails e \<Rightarrow> Fails e | Panics p \<Rightarrow> Panics p)))"

end
