(* ===== verification/Tsg_Functions.thy ===== *)
theory Tsg_Functions
  imports Tsg_Graph
begin

text \<open>
  The functions that graph language files can call (\<open>functions.rs\<close>). A function takes its
  parameters from an iterator and may change the graph, so it runs on the pair of both; what it
  leaves in the iterator is dropped by its caller. Integers are 32 bits wide and wrap, as in a
  release build. Regular expressions are those of the regex crate: parameters.
\<close>

section \<open>Characters of a string\<close>

function chars :: "string \<Rightarrow> string list" where
  "chars [] = []"
| "chars (c # cs) = take (char_len c) (c # cs) # chars (drop (char_len c) (c # cs))"
  by pat_completeness auto
termination
  by (relation "measure length") (auto simp: char_len_def)

lemma char_len_ascii [simp]: "byte c \<le> 127 \<Longrightarrow> char_len c = 1"
  by (simp add: char_len_def)

lemma chars_ascii [simp]: "byte c \<le> 127 \<Longrightarrow> chars (c # cs) = [c] # chars cs"
  by simp

lemma concat_chars [simp]: "concat (chars s) = s"
  by (induction s rule: chars.induct) (simp_all del: take.simps drop.simps)

section \<open>Parameters\<close>

type_synonym 'a call = "(graph \<times> gval list, 'a) exec"

text \<open>\<open>regex_error\<close> is the reason why a pattern does not compile, \<open>captures\<close> the ranges of the
  groups of the first match (the whole match first), \<open>replace_all\<close> the crate's replacement.\<close>

record regex_api =
  regex_error :: "string \<Rightarrow> string option"
  captures :: "string \<Rightarrow> string \<Rightarrow> (nat \<times> nat) option list option"
  replace_all :: "string \<Rightarrow> string \<Rightarrow> string \<Rightarrow> string"

type_synonym fn = "regex_api \<Rightarrow> string \<Rightarrow> gval call"

fun param :: "gval call" where
  "param (g, []) = (Fails (InvalidParameters ''expected more parameters''), (g, []))"
| "param (g, v # vs) = (Val v, (g, vs))"

fun finish_params :: "unit call" where
  "finish_params (g, []) = (Val (), (g, []))"
| "finish_params (g, v # vs) = (Fails (InvalidParameters ''unexpected extra parameter''), (g, vs))"

definition param_as :: "(gval \<Rightarrow> exec_error + 'a) \<Rightarrow> 'a call" where
  "param_as coerce = and_then param (\<lambda>v. from_sum (coerce v))"

definition function_failed :: "string \<Rightarrow> string \<Rightarrow> 'a call" where
  "function_failed name message = fail (FunctionFailed name message)"

section \<open>General functions\<close>

definition same_type :: "gval \<Rightarrow> gval \<Rightarrow> bool" where
  "same_type a b \<longleftrightarrow> value_rank a = value_rank b"

definition fn_eq :: fn where
  "fn_eq rx source =
     and_then param (\<lambda>left. and_then param (\<lambda>right. and_then finish_params (\<lambda>_.
       if left = Null then give (Boolean (right = Null))
       else if right = Null then give (Boolean False)
       else if same_type left right then give (Boolean (left = right))
       else function_failed ''eq''
         (''Cannot compare values of different types: '' @ show_value left @ '' and '' @ show_value right))))"

definition fn_is_null :: fn where
  "fn_is_null rx source = and_then param (\<lambda>v. and_then finish_params (\<lambda>_. give (Boolean (v = Null))))"

section \<open>Functions on the syntax tree\<close>

definition node_param :: "ts_node call" where
  "node_param =
     and_then (param_as into_syntax_node_ref) (\<lambda>r s.
       case syntax_node (fst s) r of None \<Rightarrow> panic ''no entry found for key'' s | Some n \<Rightarrow> give n s)"

definition node_fn :: "(ts_node \<Rightarrow> gval) \<Rightarrow> fn" where
  "node_fn f rx source = and_then node_param (\<lambda>n. and_then finish_params (\<lambda>_. give (f n)))"

definition fn_named_child_index :: fn where
  "fn_named_child_index rx source =
     and_then node_param (\<lambda>n. and_then finish_params (\<lambda>_.
       case n_parent n of
         None \<Rightarrow> function_failed ''named-child-index'' ''Cannot call named-child-index on the root node''
       | Some p \<Rightarrow>
           (let i = length (takeWhile (\<lambda>c. c \<noteq> n_id n) (n_named p)) in
            if i < length (n_named p) then give (Integer (of_nat i))
            else function_failed ''named-child-index'' ''Called named-child-index on a non-named child'')))"

definition fn_source_text :: fn where
  "fn_source_text rx source =
     and_then node_param (\<lambda>n. and_then finish_params (\<lambda>_.
       case str_slice source (fst (n_bytes n)) (snd (n_bytes n)) of
         None \<Rightarrow> panic ''byte index out of bounds'' | Some t \<Rightarrow> give (StringV t)))"

definition fn_start_row :: fn where
  "fn_start_row = node_fn (\<lambda>n. Integer (of_nat (fst (n_start n))))"

definition fn_start_column :: fn where
  "fn_start_column = node_fn (\<lambda>n. Integer (of_nat (snd (n_start n))))"

definition fn_end_row :: fn where
  "fn_end_row = node_fn (\<lambda>n. Integer (of_nat (fst (n_end n))))"

definition fn_end_column :: fn where
  "fn_end_column = node_fn (\<lambda>n. Integer (of_nat (snd (n_end n))))"

definition fn_node_type :: fn where
  "fn_node_type = node_fn (\<lambda>n. StringV (n_kind n))"

definition fn_named_child_count :: fn where
  "fn_named_child_count = node_fn (\<lambda>n. Integer (of_nat (length (n_named n))))"

section \<open>Functions on the graph, booleans and integers\<close>

definition fn_node :: fn where
  "fn_node rx source =
     and_then finish_params (\<lambda>_ (g, vs). case add_graph_node g of (r, g') \<Rightarrow> (Val (GraphNode r), (g', vs)))"

definition fn_not :: fn where
  "fn_not rx source =
     and_then (param_as into_boolean) (\<lambda>b. and_then finish_params (\<lambda>_. give (Boolean (\<not> b))))"

text \<open>\<open>while let Ok(parameter) = parameters.param()\<close>.\<close>

fun fold_params :: "(gval \<Rightarrow> exec_error + 'a) \<Rightarrow> ('b \<Rightarrow> 'a \<Rightarrow> 'b) \<Rightarrow> 'b \<Rightarrow> graph \<Rightarrow> gval list
    \<Rightarrow> (exec_error, 'b) run \<times> (graph \<times> gval list)" where
  "fold_params coerce f b g [] = (Val b, (g, []))"
| "fold_params coerce f b g (v # vs) =
     (case coerce v of Inl e \<Rightarrow> (Fails e, (g, vs)) | Inr a \<Rightarrow> fold_params coerce f (f b a) g vs)"

definition fn_and :: fn where
  "fn_and rx source =
     and_then (\<lambda>(g, vs). fold_params into_boolean (\<lambda>r b. r \<and> b) True g vs) (\<lambda>b. give (Boolean b))"

definition fn_or :: fn where
  "fn_or rx source =
     and_then (\<lambda>(g, vs). fold_params into_boolean (\<lambda>r b. r \<or> b) False g vs) (\<lambda>b. give (Boolean b))"

definition fn_plus :: fn where
  "fn_plus rx source =
     and_then (\<lambda>(g, vs). fold_params into_integer (+) 0 g vs) (\<lambda>n. give (Integer n))"

section \<open>Functions on strings\<close>

definition quoted :: "string \<Rightarrow> string" where
  "quoted s = ''`'' @ s @ ''`''"

definition stray_open :: "string \<Rightarrow> nat \<Rightarrow> string \<Rightarrow> string" where
  "stray_open c i text =
     ''Unexpected character '' @ quoted c @ '' after '' @ quoted ''{'' @ '' at position '' @ dec (i + 1)
     @ '' in format string '' @ quoted text @ ''. Expected '' @ quoted ''{'' @ '' or '' @ quoted ''}'' @ ''.''"

definition stray_close :: "string \<Rightarrow> nat \<Rightarrow> string \<Rightarrow> string" where
  "stray_close c i text =
     ''Unexpected character '' @ quoted c @ '' after '' @ quoted ''}'' @ '' at position '' @ dec (i + 1)
     @ '' in format string '' @ quoted text @ ''. Expected '' @ quoted ''}'' @ ''.''"

definition end_open :: "string \<Rightarrow> string" where
  "end_open text =
     ''Unexpected end of format string '' @ quoted text @ '' after '' @ quoted ''{'' @ ''. Expected ''
     @ quoted ''{'' @ '' or '' @ quoted ''}'' @ ''.''"

definition end_close :: "string \<Rightarrow> string" where
  "end_close text =
     ''Unexpected end of format string '' @ quoted text @ '' after `{. Expected '' @ quoted ''}'' @ ''.''"

fun format_loop :: "string \<Rightarrow> nat \<Rightarrow> string \<Rightarrow> string list \<Rightarrow> string call" where
  "format_loop text i result [] s = give result s"
| "format_loop text i result (c # cs) s =
     (if c = ''{'' then
        (case cs of
           [] \<Rightarrow> function_failed ''format'' (end_open text) s
         | d # ds \<Rightarrow>
             if d = ''{'' then format_loop text (i + 2) (result @ ''{'') ds s
             else if d = ''}'' then
               and_then param (\<lambda>v u. format_loop text (i + 2) (result @ show_value v) ds u) s
             else function_failed ''format'' (stray_open d (i + 1) text) s)
      else if c = ''}'' then
        (case cs of
           [] \<Rightarrow> function_failed ''format'' (end_close text) s
         | d # ds \<Rightarrow>
             if d = ''}'' then format_loop text (i + 2) (result @ ''}'') ds s
             else function_failed ''format'' (stray_close d (i + 1) text) s)
      else format_loop text (i + 1) (result @ c) cs s)"

definition fn_format :: fn where
  "fn_format rx source =
     and_then (param_as into_string) (\<lambda>text. and_then (format_loop text 0 [] (chars text)) (\<lambda>result.
       and_then finish_params (\<lambda>_. give (StringV result))))"

definition fn_replace :: fn where
  "fn_replace rx source =
     and_then (param_as into_string) (\<lambda>text. and_then (param_as into_string) (\<lambda>pattern.
       case regex_error rx pattern of
         Some e \<Rightarrow> function_failed ''replace'' e
       | None \<Rightarrow> and_then (param_as into_string) (\<lambda>replacement. and_then finish_params (\<lambda>_.
           give (StringV (replace_all rx pattern text replacement))))))"

section \<open>Functions on lists\<close>

definition fn_concat :: fn where
  "fn_concat rx source =
     and_then (\<lambda>(g, vs). fold_params into_list (@) [] g vs) (\<lambda>vs. give (ListV vs))"

definition fn_is_empty :: fn where
  "fn_is_empty rx source = and_then (param_as into_list) (\<lambda>vs. give (Boolean (vs = [])))"

definition fn_join :: fn where
  "fn_join rx source =
     and_then (param_as into_list) (\<lambda>vs.
       and_then (\<lambda>s. if snd s = [] then give [] s else param_as into_string s) (\<lambda>sep.
         and_then finish_params (\<lambda>_. give (StringV (join_with sep (map show_value vs))))))"

definition fn_length :: fn where
  "fn_length rx source = and_then (param_as into_list) (\<lambda>vs. give (Integer (of_nat (length vs))))"

section \<open>The library\<close>

type_synonym fn_library = "(ident \<times> fn) list"

definition add_function :: "ident \<Rightarrow> fn \<Rightarrow> fn_library \<Rightarrow> fn_library" where
  "add_function name f fs = AList.update name f fs"

definition stdlib :: fn_library where
  "stdlib = fold (\<lambda>(name, f). add_function name f)
     [(''eq'', fn_eq), (''is-null'', fn_is_null),
      (''named-child-index'', fn_named_child_index), (''source-text'', fn_source_text),
      (''start-row'', fn_start_row), (''start-column'', fn_start_column),
      (''end-row'', fn_end_row), (''end-column'', fn_end_column), (''node-type'', fn_node_type),
      (''named-child-count'', fn_named_child_count), (''node'', fn_node),
      (''not'', fn_not), (''and'', fn_and), (''or'', fn_or), (''plus'', fn_plus),
      (''format'', fn_format), (''replace'', fn_replace),
      (''concat'', fn_concat), (''is-empty'', fn_is_empty), (''join'', fn_join), (''length'', fn_length)] []"

definition call_function ::
  "fn_library \<Rightarrow> ident \<Rightarrow> regex_api \<Rightarrow> string \<Rightarrow> graph \<Rightarrow> gval list \<Rightarrow> (exec_error, gval) run \<times> graph" where
  "call_function fs name rx source g vs =
     (case map_of fs name of
        None \<Rightarrow> (Fails (UndefinedFunction name), g)
      | Some f \<Rightarrow> (case f rx source (g, vs) of (r, (g', _)) \<Rightarrow> (r, g')))"

end
