(* ===== verification/Tsg_Strict.thy ===== *)
theory Tsg_Strict
  imports Tsg_Checker Tsg_Functions
begin

text \<open>
  Strict execution of graph language files (\<open>execution.rs\<close>, \<open>execution/strict.rs\<close>): each match of
  a stanza's query runs the statements of the stanza at once. The state holds the graph, the local
  and scoped variables, the buffer of function parameters, what was printed, and how often the
  cancellation flag was read. What an execution only reads is the environment record. An attribute
  shorthand may name itself, and then the code recurses until its stack overflows: \<open>xc_stack\<close> is
  how many expansions fit on the stack, and one more is the panic.
\<close>

section \<open>State and environment\<close>

record xstate =
  xs_graph :: graph
  xs_locals :: "gval env"
  xs_scoped :: "u32 \<rightharpoonup> gval env"
  xs_params :: "gval list"
  xs_printed :: string
  xs_checks :: nat

record xenv =
  xc_source :: string
  xc_regex :: regex_api
  xc_functions :: fn_library
  xc_globals :: globals
  xc_location_attr :: "ident option"
  xc_variable_name_attr :: "ident option"
  xc_match_node_attr :: "ident option"
  xc_inherited :: "ident list"
  xc_shorthands :: "(ident \<times> shorthand) list"
  xc_cancelled :: "nat \<Rightarrow> bool"
  xc_stack :: nat

text \<open>What a statement sees of the match, and of the arms around it.\<close>

record xframe =
  xf_match :: ts_match
  xf_full :: nat
  xf_regex :: "string list"
  xf_stanza_start :: loc
  xf_node :: ts_node

type_synonym 'a strict = "(xstate, 'a) exec"

definition check_flag :: "xenv \<Rightarrow> string \<Rightarrow> unit strict" where
  "check_flag X at s =
     (let t = s\<lparr>xs_checks := xs_checks s + 1\<rparr> in
      if xc_cancelled X (xs_checks s) then fail (Cancelled at) t else give () t)"

definition on_graph :: "(graph \<Rightarrow> 'a \<times> graph) \<Rightarrow> 'a strict" where
  "on_graph f s = (case f (xs_graph s) of (a, g) \<Rightarrow> (Val a, s\<lparr>xs_graph := g\<rparr>))"

text \<open>A scope around the locals for as long as a computation lasts, and fresh locals for it.\<close>

definition nested_locals :: "'a strict \<Rightarrow> 'a strict" where
  "nested_locals m s =
     (case m (s\<lparr>xs_locals := Map.empty # xs_locals s\<rparr>) of (r, t) \<Rightarrow> (r, t\<lparr>xs_locals := tl (xs_locals t)\<rparr>))"

definition fresh_locals :: "'a strict \<Rightarrow> 'a strict" where
  "fresh_locals m s =
     (case m (s\<lparr>xs_locals := [Map.empty]\<rparr>) of (r, t) \<Rightarrow> (r, t\<lparr>xs_locals := xs_locals s\<rparr>))"

lemma nested_locals_cong [fundef_cong]:
  "s = t \<Longrightarrow> m (t\<lparr>xs_locals := Map.empty # xs_locals t\<rparr>) = m' (t\<lparr>xs_locals := Map.empty # xs_locals t\<rparr>) \<Longrightarrow>
    nested_locals m s = nested_locals m' t"
  by (simp add: nested_locals_def)

lemma fresh_locals_cong [fundef_cong]:
  "s = t \<Longrightarrow> m (t\<lparr>xs_locals := [Map.empty]\<rparr>) = m' (t\<lparr>xs_locals := [Map.empty]\<rparr>) \<Longrightarrow>
    fresh_locals m s = fresh_locals m' t"
  by (simp add: fresh_locals_def)

section \<open>Globals\<close>

fun check_globals :: "global list \<Rightarrow> globals \<Rightarrow> exec_error + globals" where
  "check_globals [] gs = Inr gs"
| "check_globals (g # rest) gs =
     (case globals_get (go_name g) gs of
        None \<Rightarrow>
          (case go_default g of
             None \<Rightarrow> Inl (MissingGlobalVariable (go_name g))
           | Some d \<Rightarrow>
               (case globals_add (go_name g) (StringV d) gs of
                  Inl _ \<Rightarrow> Inl (DuplicateVariable (OtherVar (''global variable '' @ go_name g @ '' already defined'')))
                | Inr gs' \<Rightarrow> check_globals rest gs'))
      | Some v \<Rightarrow>
          if (go_quantifier g = QZeroOrMore \<or> go_quantifier g = QOneOrMore) \<and> isl (into_list v)
          then Inl (ExpectedList (go_name g)) else check_globals rest gs)"

section \<open>Captured nodes and debug attributes\<close>

fun add_syntax_nodes :: "ts_node list \<Rightarrow> graph \<Rightarrow> gval list \<times> graph" where
  "add_syntax_nodes [] g = ([], g)"
| "add_syntax_nodes (n # ns) g =
     (case add_syntax_node n g of (r, g1) \<Rightarrow>
        (case add_syntax_nodes ns g1 of (vs, g2) \<Rightarrow> (SyntaxNode r # vs, g2)))"

definition from_nodes :: "ts_node list \<Rightarrow> quantifier \<Rightarrow> (graph, gval) exec" where
  "from_nodes ns q g =
     (case q of
        QZero \<Rightarrow> panic ''internal error: entered unreachable code'' g
      | QOne \<Rightarrow>
          (case ns of [] \<Rightarrow> panic ''missing capture'' g
           | n # _ \<Rightarrow> (case add_syntax_node n g of (r, g') \<Rightarrow> (Val (SyntaxNode r), g')))
      | QZeroOrOne \<Rightarrow>
          (case ns of [] \<Rightarrow> (Val Null, g)
           | n # _ \<Rightarrow> (case add_syntax_node n g of (r, g') \<Rightarrow> (Val (SyntaxNode r), g')))
      | _ \<Rightarrow> (case add_syntax_nodes ns g of (vs, g') \<Rightarrow> (Val (ListV vs), g')))"

definition line_column :: "loc \<Rightarrow> string" where
  "line_column l = ''line '' @ dec (loc_row l + 1) @ '' column '' @ dec (loc_column l + 1)"

definition add_debug_attr :: "ident option \<Rightarrow> string \<Rightarrow> attributes \<Rightarrow> exec_error + attributes" where
  "add_debug_attr name text attrs =
     (case name of
        None \<Rightarrow> Inr attrs
      | Some a \<Rightarrow> (case attr_add a (StringV text) attrs of
                     (Inl _, _) \<Rightarrow> Inl (DuplicateAttribute a) | (Inr _, attrs') \<Rightarrow> Inr attrs'))"

definition edge_debug_attrs :: "xenv \<Rightarrow> loc \<Rightarrow> attributes \<Rightarrow> exec_error + attributes" where
  "edge_debug_attrs X l attrs = add_debug_attr (xc_location_attr X) (line_column l) attrs"

fun variable_location :: "variable \<Rightarrow> loc" where
  "variable_location (Scoped e x l) = l"
| "variable_location (Unscoped x) = uv_loc x"

definition variable_debug_attrs :: "xenv \<Rightarrow> variable \<Rightarrow> attributes \<Rightarrow> exec_error + attributes" where
  "variable_debug_attrs X x attrs =
     (case add_debug_attr (xc_variable_name_attr X) (show_variable x) attrs of
        Inl e \<Rightarrow> Inl e
      | Inr attrs' \<Rightarrow> add_debug_attr (xc_location_attr X) (line_column (variable_location x)) attrs')"

section \<open>Variables\<close>

definition get_unscoped :: "xenv \<Rightarrow> uvar \<Rightarrow> gval strict" where
  "get_unscoped X x s =
     (case (case globals_get (uv_name x) (xc_globals X) of Some v \<Rightarrow> Some v | None \<Rightarrow> var_get (uv_name x) (xs_locals s)) of
        Some v \<Rightarrow> give v s
      | None \<Rightarrow> fail (UndefinedVariable (LocalVar (uv_name x))) s)"

definition add_unscoped :: "xenv \<Rightarrow> uvar \<Rightarrow> gval \<Rightarrow> bool \<Rightarrow> unit strict" where
  "add_unscoped X x v mutable s =
     (if globals_get (uv_name x) (xc_globals X) \<noteq> None then fail (DuplicateVariable (GlobalVar (uv_name x))) s
      else case var_add (uv_name x) v mutable (xs_locals s) of
             Inl _ \<Rightarrow> fail (DuplicateVariable (LocalVar (uv_name x))) s
           | Inr ls \<Rightarrow> (Val (), s\<lparr>xs_locals := ls\<rparr>))"

definition set_unscoped :: "xenv \<Rightarrow> uvar \<Rightarrow> gval \<Rightarrow> unit strict" where
  "set_unscoped X x v s =
     (if globals_get (uv_name x) (xc_globals X) \<noteq> None
      then fail (CannotAssignImmutableVariable (GlobalVar (uv_name x))) s
      else case var_set (uv_name x) v (xs_locals s) of
             Inr ls \<Rightarrow> (Val (), s\<lparr>xs_locals := ls\<rparr>)
           | Inl _ \<Rightarrow>
               if var_get (uv_name x) (xs_locals s) \<noteq> None
               then fail (CannotAssignImmutableVariable (LocalVar (uv_name x))) s
               else fail (UndefinedVariable (LocalVar (uv_name x))) s)"

definition as_scope :: "gval \<Rightarrow> exec_error + syntax_ref" where
  "as_scope v = (case v of SyntaxNode r \<Rightarrow> Inr r | _ \<Rightarrow> Inl (InvalidVariableScope (got v)))"

definition scoped_at :: "xstate \<Rightarrow> ident \<Rightarrow> u32 \<Rightarrow> gval option" where
  "scoped_at s x i = Option.bind (xs_scoped s i) (var_get x)"

text \<open>The search through the parents of a node.\<close>

fun inherited_at :: "xstate \<Rightarrow> ident \<Rightarrow> ts_node \<Rightarrow> gval option" where
  "inherited_at s x (TsNode i k st en by nm p) =
     (case p of
        None \<Rightarrow> None
      | Some q \<Rightarrow>
          (case scoped_at s x (node_index q) of Some v \<Rightarrow> Some v | None \<Rightarrow> inherited_at s x q))"

definition get_scoped :: "xenv \<Rightarrow> variable \<Rightarrow> ident \<Rightarrow> syntax_ref \<Rightarrow> gval strict" where
  "get_scoped X self x r s =
     (case scoped_at s x (sr_index r) of
        Some v \<Rightarrow> give v s
      | None \<Rightarrow>
          (case (if x \<in> set (xc_inherited X) then Option.bind (syntax_node (xs_graph s) r) (inherited_at s x) else None) of
             Some v \<Rightarrow> give v s
           | None \<Rightarrow> fail (UndefinedVariable (OtherVar (show_variable self @ '' on node '' @ show_syntax_ref r))) s))"

definition scope_of :: "xstate \<Rightarrow> u32 \<Rightarrow> gval env" where
  "scope_of s i = (case xs_scoped s i of Some f \<Rightarrow> f | None \<Rightarrow> [Map.empty])"

definition add_scoped :: "variable \<Rightarrow> ident \<Rightarrow> syntax_ref \<Rightarrow> gval \<Rightarrow> bool \<Rightarrow> unit strict" where
  "add_scoped self x r v mutable s =
     (case var_add x v mutable (scope_of s (sr_index r)) of
        Inl _ \<Rightarrow> fail (DuplicateVariable (OtherVar (show_variable self)))
                   (s\<lparr>xs_scoped := (xs_scoped s)(sr_index r \<mapsto> scope_of s (sr_index r))\<rparr>)
      | Inr f \<Rightarrow> (Val (), s\<lparr>xs_scoped := (xs_scoped s)(sr_index r \<mapsto> f)\<rparr>))"

definition set_scoped :: "variable \<Rightarrow> ident \<Rightarrow> syntax_ref \<Rightarrow> gval \<Rightarrow> unit strict" where
  "set_scoped self x r v s =
     (case var_set x v (scope_of s (sr_index r)) of
        Inl _ \<Rightarrow> fail (DuplicateVariable (OtherVar (show_variable self)))
                   (s\<lparr>xs_scoped := (xs_scoped s)(sr_index r \<mapsto> scope_of s (sr_index r))\<rparr>)
      | Inr f \<Rightarrow> (Val (), s\<lparr>xs_scoped := (xs_scoped s)(sr_index r \<mapsto> f)\<rparr>))"

section \<open>Expressions\<close>

definition eval_capture :: "xframe \<Rightarrow> capture \<Rightarrow> gval strict" where
  "eval_capture F c s =
     (case from_nodes (nodes_for_capture_index (xf_match F) (cap_stanza_index c)) (cap_quantifier c) (xs_graph s) of
        (r, g) \<Rightarrow> (r, s\<lparr>xs_graph := g\<rparr>))"

definition eval_regex_capture :: "xframe \<Rightarrow> nat \<Rightarrow> gval strict" where
  "eval_regex_capture F i s =
     (case get_nth (xf_regex F) i of
        Some t \<Rightarrow> give (StringV t) s
      | None \<Rightarrow> fail (UndefinedRegexCapture (show_expr (RegexCapture i))) s)"

definition push_param :: "gval \<Rightarrow> unit strict" where
  "push_param v s = (Val (), s\<lparr>xs_params := xs_params s @ [v]\<rparr>)"

text \<open>A call drains its parameters from the end of the buffer.\<close>

definition call_drained :: "xenv \<Rightarrow> ident \<Rightarrow> nat \<Rightarrow> gval strict" where
  "call_drained X f n s =
     (let start = length (xs_params s) - n in
      case call_function (xc_functions X) f (xc_regex X) (xc_source X) (xs_graph s) (drop start (xs_params s)) of
        (r, g) \<Rightarrow> (r, s\<lparr>xs_graph := g, xs_params := take start (xs_params s)\<rparr>))"

fun eval :: "xenv \<Rightarrow> xframe \<Rightarrow> expr \<Rightarrow> gval strict"
  and eval_variable :: "xenv \<Rightarrow> xframe \<Rightarrow> variable \<Rightarrow> gval strict" where
  "eval X F FalseLiteral s = give (Boolean False) s"
| "eval X F NullLiteral s = give Null s"
| "eval X F TrueLiteral s = give (Boolean True) s"
| "eval X F (IntegerConstant n) s = give (Integer n) s"
| "eval X F (StringConstant t) s = give (StringV t) s"
| "eval X F (ListLiteral es) s =
     and_then (map_run (\<lambda>e u. eval X F e u) es) (\<lambda>vs. give (ListV vs)) s"
| "eval X F (SetLiteral es) s =
     and_then (map_run (\<lambda>e u. eval X F e u) es) (\<lambda>vs. give (set_value vs)) s"
| "eval X F (ListComprehension e x v l) s =
     and_then (\<lambda>u. eval X F v u) (\<lambda>lv. and_then (from_sum (into_list lv)) (\<lambda>vs.
       and_then (map_run (\<lambda>a. nested_locals (and_then (add_unscoped X x a False) (\<lambda>_ u. eval X F e u))) vs)
         (\<lambda>rs. give (ListV rs)))) s"
| "eval X F (SetComprehension e x v l) s =
     and_then (\<lambda>u. eval X F v u) (\<lambda>lv. and_then (from_sum (into_list lv)) (\<lambda>vs.
       and_then (map_run (\<lambda>a. nested_locals (and_then (add_unscoped X x a False) (\<lambda>_ u. eval X F e u))) vs)
         (\<lambda>rs. give (set_value rs)))) s"
| "eval X F (CaptureExpr c) s = eval_capture F c s"
| "eval X F (VariableExpr x) s = eval_variable X F x s"
| "eval X F (CallExpr f es) s =
     and_then (each_run (\<lambda>e. and_then (\<lambda>u. eval X F e u) push_param) es)
       (\<lambda>_. call_drained X f (length es)) s"
| "eval X F (RegexCapture i) s = eval_regex_capture F i s"
| "eval_variable X F (Unscoped x) s = get_unscoped X x s"
| "eval_variable X F (Scoped e x l) s =
     and_then (\<lambda>u. eval X F e u) (\<lambda>v. and_then (from_sum (as_scope v))
       (\<lambda>r. get_scoped X (Scoped e x l) x r)) s"

fun add_variable :: "xenv \<Rightarrow> xframe \<Rightarrow> variable \<Rightarrow> gval \<Rightarrow> bool \<Rightarrow> unit strict" where
  "add_variable X F (Unscoped x) v mutable s = add_unscoped X x v mutable s"
| "add_variable X F (Scoped e x l) v mutable s =
     and_then (eval X F e) (\<lambda>sv. and_then (from_sum (as_scope sv))
       (\<lambda>r. add_scoped (Scoped e x l) x r v mutable)) s"

fun set_variable :: "xenv \<Rightarrow> xframe \<Rightarrow> variable \<Rightarrow> gval \<Rightarrow> unit strict" where
  "set_variable X F (Unscoped x) v s = set_unscoped X x v s"
| "set_variable X F (Scoped e x l) v s =
     and_then (eval X F e) (\<lambda>sv. and_then (from_sum (as_scope sv))
       (\<lambda>r. set_scoped (Scoped e x l) x r v)) s"

section \<open>Attributes\<close>

fun exec_attribute ::
  "nat \<Rightarrow> xenv \<Rightarrow> xframe \<Rightarrow> (ident \<Rightarrow> gval \<Rightarrow> unit strict) \<Rightarrow> attribute \<Rightarrow> unit strict" where
  "exec_attribute 0 X F add a s = panic ''stack overflow'' s"
| "exec_attribute (Suc n) X F add a s =
     and_then (check_flag X ''executing attribute'') (\<lambda>_. and_then (eval X F (at_value a)) (\<lambda>v.
       case map_of (xc_shorthands X) (at_name a) of
         None \<Rightarrow> add (at_name a) v
       | Some sh \<Rightarrow>
           fresh_locals (and_then (add_unscoped X (sh_variable sh) v False)
             (\<lambda>_. each_run (\<lambda>b u. exec_attribute n X F add b u) (sh_attributes sh))))) s"

definition graph_node_at :: "u32 \<Rightarrow> gnode strict" where
  "graph_node_at r s =
     (case graph_node (xs_graph s) r of None \<Rightarrow> panic ''index out of bounds'' s | Some n \<Rightarrow> give n s)"

definition put_graph_node :: "u32 \<Rightarrow> gnode \<Rightarrow> unit strict" where
  "put_graph_node r n s = (Val (), s\<lparr>xs_graph := set_graph_node r n (xs_graph s)\<rparr>)"

definition duplicate_on_node :: "ident \<Rightarrow> u32 \<Rightarrow> statement \<Rightarrow> exec_error" where
  "duplicate_on_node a r self =
     DuplicateAttribute ('' '' @ a @ '' on graph node ('' @ show_graph_ref r @ '') in '' @ show_statement self)"

definition add_node_attribute :: "u32 \<Rightarrow> statement \<Rightarrow> ident \<Rightarrow> gval \<Rightarrow> unit strict" where
  "add_node_attribute r self a v =
     and_then (graph_node_at r) (\<lambda>n.
       case attr_add a v (gn_attrs n) of (res, attrs) \<Rightarrow>
         and_then (put_graph_node r (n\<lparr>gn_attrs := attrs\<rparr>)) (\<lambda>_.
           case res of Inl _ \<Rightarrow> fail (duplicate_on_node a r self) | Inr _ \<Rightarrow> give ()))"

definition show_edge :: "u32 \<Rightarrow> u32 \<Rightarrow> string" where
  "show_edge r q = ''('' @ show_graph_ref r @ '' -> '' @ show_graph_ref q @ '')''"

definition add_edge_attribute :: "u32 \<Rightarrow> u32 \<Rightarrow> statement \<Rightarrow> ident \<Rightarrow> gval \<Rightarrow> unit strict" where
  "add_edge_attribute r q self a v =
     and_then (graph_node_at r) (\<lambda>n.
       case get_edge q n of
         None \<Rightarrow> fail (UndefinedEdge (show_edge r q @ '' in '' @ show_statement self))
       | Some old \<Rightarrow>
           (case attr_add a v old of (res, attrs) \<Rightarrow>
              and_then (put_graph_node r (set_edge q attrs n)) (\<lambda>_.
                case res of
                  Inl _ \<Rightarrow> fail (DuplicateAttribute ('' '' @ a @ '' on edge '' @ show_edge r q @ '' in '' @ show_statement self))
                | Inr _ \<Rightarrow> give ())))"

section \<open>Statements\<close>

fun eval_condition :: "xenv \<Rightarrow> xframe \<Rightarrow> condition \<Rightarrow> bool strict" where
  "eval_condition X F (CondSome e l) s = and_then (eval X F e) (\<lambda>v. give (\<not> is_null v)) s"
| "eval_condition X F (CondNone e l) s = and_then (eval X F e) (\<lambda>v. give (is_null v)) s"
| "eval_condition X F (CondBool e l) s = and_then (eval X F e) (\<lambda>v. from_sum (into_boolean v)) s"

definition context_of :: "xframe \<Rightarrow> statement \<Rightarrow> err_context" where
  "context_of F st =
     StatementCtx [StatementContext (show_statement st) (statement_location st) (xf_stanza_start F)
       (Location (fst (n_start (xf_node F))) (snd (n_start (xf_node F)))) (n_kind (xf_node F))]"

lemma in_context_cong [fundef_cong]:
  "c = c' \<Longrightarrow> s = t \<Longrightarrow> m t = m' t \<Longrightarrow> in_context c m s = in_context c' m' t"
  by (simp add: in_context_def)

definition create_graph_node :: "xenv \<Rightarrow> xframe \<Rightarrow> variable \<Rightarrow> statement \<Rightarrow> u32 strict" where
  "create_graph_node X F x self =
     and_then (on_graph add_graph_node) (\<lambda>r. and_then (graph_node_at r) (\<lambda>n.
       and_then (from_sum (variable_debug_attrs X x (gn_attrs n))) (\<lambda>attrs.
         and_then (put_graph_node r (n\<lparr>gn_attrs := attrs\<rparr>)) (\<lambda>_.
           case xc_match_node_attr X of
             None \<Rightarrow> give r
           | Some a \<Rightarrow>
               (case nodes_for_capture_index (xf_match F) (xf_full F) of
                  [] \<Rightarrow> panic ''missing capture for full match''
                | m # _ \<Rightarrow>
                    and_then (on_graph (add_syntax_node m)) (\<lambda>sr.
                      and_then (add_node_attribute r self a (SyntaxNode sr)) (\<lambda>_. give r)))))))"

definition graph_ref :: "xenv \<Rightarrow> xframe \<Rightarrow> expr \<Rightarrow> u32 strict" where
  "graph_ref X F e = and_then (eval X F e) (\<lambda>v. from_sum (into_graph_node_ref v))"

definition create_edge :: "xenv \<Rightarrow> u32 \<Rightarrow> u32 \<Rightarrow> loc \<Rightarrow> unit strict" where
  "create_edge X r q l =
     and_then (graph_node_at r) (\<lambda>n.
       case add_edge q n of (_, n') \<Rightarrow>
         and_then (put_graph_node r n') (\<lambda>_.
           case get_edge q n' of
             None \<Rightarrow> panic ''index out of bounds''
           | Some attrs \<Rightarrow> and_then (from_sum (edge_debug_attrs X l attrs))
               (\<lambda>attrs'. put_graph_node r (set_edge q attrs' n'))))"

definition print_value :: "xenv \<Rightarrow> xframe \<Rightarrow> expr \<Rightarrow> unit strict" where
  "print_value X F e =
     (case e of
        StringConstant t \<Rightarrow> (\<lambda>s. (Val (), s\<lparr>xs_printed := xs_printed s @ t\<rparr>))
      | _ \<Rightarrow> and_then (eval X F e) (\<lambda>v s. (Val (), s\<lparr>xs_printed := xs_printed s @ debug_value v\<rparr>)))"

text \<open>The scan of a string: all arms are matched at each position, the leftmost match wins, the
  first arm among those that match there.\<close>

fun arm_regex :: "scan_arm \<Rightarrow> string" where
  "arm_regex (ScanArm r ss l) = r"

type_synonym groups = "(nat \<times> nat) option list"

definition whole :: "groups \<Rightarrow> nat \<times> nat" where
  "whole gs = (case gs of Some r # _ \<Rightarrow> r | _ \<Rightarrow> (0, 0))"

fun arm_matches :: "regex_api \<Rightarrow> string \<Rightarrow> nat \<Rightarrow> scan_arm list \<Rightarrow> exec_error + (groups \<times> nat) list" where
  "arm_matches rx text k [] = Inr []"
| "arm_matches rx text k (a # arms) =
     (case captures rx (arm_regex a) text of
        None \<Rightarrow> arm_matches rx text (k + 1) arms
      | Some gs \<Rightarrow>
          if fst (whole gs) \<ge> snd (whole gs)
          then Inl (EmptyRegexCapture (''for regular expression /'' @ arm_regex a @ ''/''))
          else (case arm_matches rx text (k + 1) arms of Inl e \<Rightarrow> Inl e | Inr ms \<Rightarrow> Inr ((gs, k) # ms)))"

definition group_texts :: "string \<Rightarrow> groups \<Rightarrow> string list" where
  "group_texts text gs =
     map (\<lambda>g. case g of None \<Rightarrow> [] | Some (a, b) \<Rightarrow> take (b - a) (drop a text)) gs"

definition first_match :: "(groups \<times> nat) list \<Rightarrow> groups \<times> nat" where
  "first_match ms = hd (sort_key (\<lambda>(gs, k). (fst (whole gs), k)) ms)"

lemma arm_matches_member:
  "arm_matches rx t k arms = Inr ms \<Longrightarrow> (gs, j) \<in> set ms \<Longrightarrow>
    k \<le> j \<and> j < k + length arms \<and> fst (whole gs) < snd (whole gs)"
  by (induction rx t k arms arbitrary: ms rule: arm_matches.induct)
    (fastforce split: option.splits if_splits sum.splits)+

lemma first_match_member: "ms \<noteq> [] \<Longrightarrow> first_match ms \<in> set ms"
  unfolding first_match_def
  by (metis hd_in_set set_sort length_0_conv length_sort)

lemma first_match_nonempty:
  "arm_matches rx t k arms = Inr (m # ms) \<Longrightarrow> (gs, j) = first_match (m # ms) \<Longrightarrow> 0 < snd (whole gs)"
  using arm_matches_member[of rx t k arms "m # ms" gs j] first_match_member[of "m # ms"] by fastforce

function scan_loop ::
  "xenv \<Rightarrow> (scan_arm \<Rightarrow> string list \<Rightarrow> unit strict) \<Rightarrow> scan_arm list \<Rightarrow> string \<Rightarrow> unit strict" where
  "scan_loop X body arms text s =
     (if text = [] then give () s
      else and_then (check_flag X ''processing scan matches'') (\<lambda>_ u.
        case arm_matches (xc_regex X) text 0 arms of
          Inl e \<Rightarrow> fail e u
        | Inr [] \<Rightarrow> give () u
        | Inr (m # ms) \<Rightarrow>
            (case first_match (m # ms) of (gs, k) \<Rightarrow>
               and_then (\<lambda>t. body (arms ! k) (group_texts text gs) t)
                 (\<lambda>_ t. scan_loop X body arms (drop (snd (whole gs)) text) t) u)) s)"
  by pat_completeness auto
termination
  by (relation "measure (\<lambda>(X, body, arms, text, s). length text)")
    (auto dest!: first_match_nonempty)

lemma scan_loop_cong [fundef_cong]:
  assumes "X = Y" "arms = brms" "t = t'" "s = s'"
    "\<And>a caps u. a \<in> set brms \<Longrightarrow> body a caps u = body' a caps u"
  shows "scan_loop X body arms t s = scan_loop Y body' brms t' s'"
proof -
  have "scan_loop X body arms t s = scan_loop X body' arms t s"
  proof (induction "length t" arbitrary: t s rule: less_induct)
    case less
    have step: "and_then (\<lambda>w. body (arms ! k) (group_texts t gs) w)
          (\<lambda>_ w. scan_loop X body arms (drop (snd (whole gs)) t) w) u =
        and_then (\<lambda>w. body' (arms ! k) (group_texts t gs) w)
          (\<lambda>_ w. scan_loop X body' arms (drop (snd (whole gs)) t) w) u"
      if "arm_matches (xc_regex X) t 0 arms = Inr (m # ms)" "first_match (m # ms) = (gs, k)" "t \<noteq> []" for m ms gs k u
    proof (rule and_then_cong)
      have "(gs, k) \<in> set (m # ms)" using first_match_member[of "m # ms"] that(2) by simp
      then have "k < length arms" using arm_matches_member[OF that(1)] by simp
      then show "body (arms ! k) (group_texts t gs) u = body' (arms ! k) (group_texts t gs) u"
        using assms(2,5) by simp
      have "length (drop (snd (whole gs)) t) < length t"
        using first_match_nonempty[OF that(1) that(2)[symmetric]] that(3) by simp
      then show "scan_loop X body arms (drop (snd (whole gs)) t) w = scan_loop X body' arms (drop (snd (whole gs)) t) w" for w
        by (rule less)
    qed simp
    show ?case
    proof (cases "t = []")
      case False
      show ?thesis
        unfolding scan_loop.simps[of X body arms t s] scan_loop.simps[of X body' arms t s]
        using False by (auto intro!: and_then_cong step split: sum.split list.split prod.split)
    qed simp
  qed
  with assms(1-4) show ?thesis by simp
qed

lemma scan_arm_size:
  "ScanArm r ss l \<in> set arms \<Longrightarrow> st \<in> set ss \<Longrightarrow> size st < size_list size arms"
  by (erule size_list_estimation) (simp add: size_list_estimation' less_Suc_eq_le)

lemma block_size: "st \<in> set ss \<Longrightarrow> size st < Suc (size_list size ss + k)"
  using size_list_estimation'[of st ss "size st" size] by simp

function (sequential) exec :: "xenv \<Rightarrow> xframe \<Rightarrow> statement \<Rightarrow> unit strict"
  and exec_arms :: "xenv \<Rightarrow> xframe \<Rightarrow> if_arm list \<Rightarrow> unit strict" where
  "exec X F (DeclareImmutable x e l) s =
     and_then (check_flag X ''executing statement'') (\<lambda>_.
       and_then (eval X F e) (\<lambda>v. add_variable X F x v False)) s"
| "exec X F (DeclareMutable x e l) s =
     and_then (check_flag X ''executing statement'') (\<lambda>_.
       and_then (eval X F e) (\<lambda>v. add_variable X F x v True)) s"
| "exec X F (Assign x e l) s =
     and_then (check_flag X ''executing statement'') (\<lambda>_.
       and_then (eval X F e) (\<lambda>v. set_variable X F x v)) s"
| "exec X F (CreateGraphNode x l) s =
     and_then (check_flag X ''executing statement'') (\<lambda>_.
       and_then (create_graph_node X F x (CreateGraphNode x l))
         (\<lambda>r. add_variable X F x (GraphNode r) False)) s"
| "exec X F (AddGraphNodeAttribute e as l) s =
     and_then (check_flag X ''executing statement'') (\<lambda>_.
       and_then (graph_ref X F e) (\<lambda>r.
         each_run (exec_attribute (xc_stack X) X F (add_node_attribute r (AddGraphNodeAttribute e as l))) as)) s"
| "exec X F (CreateEdge e f l) s =
     and_then (check_flag X ''executing statement'') (\<lambda>_.
       and_then (graph_ref X F e) (\<lambda>r. and_then (graph_ref X F f) (\<lambda>q. create_edge X r q l))) s"
| "exec X F (AddEdgeAttribute e f as l) s =
     and_then (check_flag X ''executing statement'') (\<lambda>_.
       and_then (graph_ref X F e) (\<lambda>r. and_then (graph_ref X F f) (\<lambda>q.
         each_run (exec_attribute (xc_stack X) X F (add_edge_attribute r q (AddEdgeAttribute e f as l))) as))) s"
| "exec X F (Scan e arms l) s =
     and_then (check_flag X ''executing statement'') (\<lambda>_.
       and_then (and_then (eval X F e) (\<lambda>v. from_sum (into_string v))) (\<lambda>t u.
         scan_loop X (\<lambda>a caps v. case a of ScanArm regex ss al \<Rightarrow>
           nested_locals (each_run (\<lambda>st. in_context (context_of F st)
             (in_context (OtherCtx (''matching '' @ t @ '' with arm '' @ [CHR 0x22] @ regex @ [CHR 0x22]))
               (\<lambda>w. exec X (F\<lparr>xf_regex := caps\<rparr>) st w))) ss) v) arms t u)) s"
| "exec X F (Print es l) s =
     and_then (check_flag X ''executing statement'') (\<lambda>_.
       and_then (each_run (print_value X F) es)
         (\<lambda>_ u. (Val (), u\<lparr>xs_printed := xs_printed u @ [CHR 0x0A]\<rparr>))) s"
| "exec X F (If arms l) s =
     and_then (check_flag X ''executing statement'') (\<lambda>_ u. exec_arms X F arms u) s"
| "exec X F (ForIn x e ss l) s =
     and_then (check_flag X ''executing statement'') (\<lambda>_.
       and_then (eval X F e) (\<lambda>lv. and_then (from_sum (into_list lv)) (\<lambda>vs.
         each_run (\<lambda>v. nested_locals (and_then (add_unscoped X x v False) (\<lambda>_.
           each_run (\<lambda>st. in_context (context_of F st) (\<lambda>w. exec X F st w)) ss))) vs))) s"
| "exec_arms X F [] s = give () s"
| "exec_arms X F (IfArm cs ss l # arms) s =
     and_then (map_run (eval_condition X F) cs) (\<lambda>bs u.
       if list_all id bs
       then nested_locals (each_run (\<lambda>st. in_context (context_of F st) (\<lambda>w. exec X F st w)) ss) u
       else exec_arms X F arms u) s"

  by pat_completeness auto
termination
  apply (relation "measure (case_sum (\<lambda>(X, F, st, s). size st) (\<lambda>(X, F, arms, s). size_list size arms))")
      apply simp
     apply (auto dest: scan_arm_size less_SucI intro: block_size block_size[where k = 0, simplified] less_SucI)
  done

section \<open>Stanzas and files\<close>

text \<open>The frame of a match: without a node for the full match, running a statement panics.\<close>

definition frame_of :: "stanza \<Rightarrow> ts_match \<Rightarrow> xframe option" where
  "frame_of z m =
     (case nodes_for_capture_index m (sz_full_stanza z) of
        [] \<Rightarrow> None
      | n # _ \<Rightarrow> Some \<lparr>xf_match = m, xf_full = sz_full_stanza z, xf_regex = [],
                       xf_stanza_start = sz_start z, xf_node = n\<rparr>)"

definition exec_stanza :: "xenv \<Rightarrow> stanza \<Rightarrow> ts_match \<Rightarrow> unit strict" where
  "exec_stanza X z m s =
     each_run (\<lambda>st. case frame_of z m of
         None \<Rightarrow> panic ''missing full capture''
       | Some F \<Rightarrow> in_context (context_of F st) (exec X F st))
       (sz_statements z) (s\<lparr>xs_locals := [Map.empty]\<rparr>)"

text \<open>\<open>QueryCursor::matches\<close> on the tree is the parameter \<open>matches\<close>.\<close>

definition exec_strict ::
  "(ts_query \<Rightarrow> ts_match list) \<Rightarrow> dsl_file \<Rightarrow> xenv \<Rightarrow> unit strict" where
  "exec_strict matches f X s =
     (case check_globals (df_globals f) (globals_nested (xc_globals X)) of
        Inl e \<Rightarrow> fail e s
      | Inr gs \<Rightarrow>
          (let Y = X\<lparr>xc_globals := gs, xc_inherited := df_inherited f, xc_shorthands := df_shorthands f\<rparr> in
           each_run (\<lambda>z. each_run (exec_stanza Y z) (matches (sz_query z))) (df_stanzas f) s))"

definition start_state :: "graph \<Rightarrow> xstate" where
  "start_state g = \<lparr>xs_graph = g, xs_locals = [Map.empty], xs_scoped = Map.empty, xs_params = [],
     xs_printed = [], xs_checks = 0\<rparr>"

definition execute_strict_into ::
  "(ts_query \<Rightarrow> ts_match list) \<Rightarrow> dsl_file \<Rightarrow> xenv \<Rightarrow> graph \<Rightarrow> (exec_error, unit) run \<times> graph" where
  "execute_strict_into matches f X g =
     (case exec_strict matches f X (start_state g) of (r, s) \<Rightarrow> (r, xs_graph s))"

end
