(* ===== verification/Tsg_Safety.thy ===== *)
theory Tsg_Safety
  imports Tsg_Strict
begin

text \<open>
  What the checker promises of strict execution: a checked file never fails because of its own
  variables, and never panics on a missing capture. The checker's environments and those of an
  execution have the same shape: the same names in the same scopes, with the same mutability. A
  small logic of safe computations carries the shape through the combinators.
\<close>

section \<open>Shapes of environments\<close>

definition shape :: "'v env \<Rightarrow> (ident \<Rightarrow> bool option) list" where
  "shape s = map (\<lambda>f x. map_option snd (f x)) s"

lemma shape_Nil [simp]: "shape [] = []" and shape_Cons [simp]:
  "shape (f # s) = (\<lambda>x. map_option snd (f x)) # shape s"
  by (simp_all add: shape_def)

lemma shape_eq_Nil [simp]: "shape s = [] \<longleftrightarrow> s = []" "[] = shape s \<longleftrightarrow> s = []"
  by (auto simp: shape_def)

lemma shape_tl: "shape s = shape t \<Longrightarrow> shape (tl s) = shape (tl t)"
  by (simp add: shape_def map_tl)

lemma scope_shape_eq:
  "(\<lambda>x. map_option snd (f x)) = (\<lambda>x. map_option snd (g x)) \<Longrightarrow> f x = None \<longleftrightarrow> g x = None"
  by (metis option.map_disc_iff)

lemma var_get_shape: "shape s = shape t \<Longrightarrow> var_get x s = None \<longleftrightarrow> var_get x t = None"
proof (induction s arbitrary: t)
  case (Cons f s)
  then obtain g u where t: "t = g # u" "(\<lambda>x. map_option snd (f x)) = (\<lambda>x. map_option snd (g x))" "shape s = shape u"
    by (cases t) auto
  have "f x = None \<longleftrightarrow> g x = None" using scope_shape_eq[OF t(2)] .
  with Cons.IH[OF t(3)] t(1) show ?case by (auto split: option.split)
qed simp

lemma var_add_shape:
  assumes "shape s = shape t" "var_add x v m s = Inr s'"
  obtains t' where "var_add x w m t = Inr t'" "shape s' = shape t'" "shape (tl s') = shape (tl s)" "s' \<noteq> []"
proof (cases s)
  case (Cons f u)
  with assms(1) obtain g w' where t: "t = g # w'" "(\<lambda>x. map_option snd (f x)) = (\<lambda>x. map_option snd (g x))" "shape u = shape w'"
    by (cases t) auto
  from assms(2) Cons have f: "f x = None" "s' = f(x \<mapsto> (v, m)) # u" by (auto split: option.splits)
  then have "g x = None" using scope_shape_eq[OF t(2), of x] by simp
  then have "var_add x w m t = Inr (g(x \<mapsto> (w, m)) # w')" using t(1) by simp
  moreover have "shape s' = shape (g(x \<mapsto> (w, m)) # w')" using f(2) t(2,3) by (auto simp: fun_eq_iff)
  ultimately show ?thesis using that f(2) Cons by simp
qed (use assms in simp)

lemma var_set_keeps_shape: "var_set x v s = Inr s' \<Longrightarrow> shape s' = shape s"
proof (induction s arbitrary: s')
  case (Cons f s)
  show ?case
  proof (cases "f x")
    case None
    with Cons.prems obtain s1 where "var_set x v s = Inr s1" "s' = f # s1" by (auto split: sum.splits)
    with Cons.IH show ?thesis by simp
  next
    case (Some p)
    with Cons.prems have p: "snd p" "s' = f(x \<mapsto> (v, snd p)) # s" by (cases p; simp split: if_splits)+
    have "map_option snd ((f(x \<mapsto> (v, snd p))) y) = map_option snd (f y)" for y using Some by simp
    then show ?thesis using p(2) by simp
  qed
qed simp

lemma var_set_shape:
  "shape s = shape t \<Longrightarrow> var_set x v s = Inr s' \<Longrightarrow> \<exists>t'. var_set x w t = Inr t'"
proof (induction s arbitrary: t s')
  case (Cons f s)
  then obtain g u where t: "t = g # u" "(\<lambda>x. map_option snd (f x)) = (\<lambda>x. map_option snd (g x))" "shape s = shape u"
    by (cases t) auto
  have fg: "map_option snd (f x) = map_option snd (g x)" using t(2) by (rule fun_cong)
  show ?case
  proof (cases "f x")
    case None
    with fg have "g x = None" by simp
    moreover from None Cons.prems(2) obtain s1 where "var_set x v s = Inr s1" by (auto split: sum.splits)
    ultimately show ?thesis using Cons.IH[OF t(3)] t(1) by (auto split: sum.split)
  next
    case (Some p)
    with Cons.prems(2) have "snd p" by (cases p) (auto split: if_splits)
    with Some fg t(1) show ?thesis by (cases p) (auto split: option.split)
  qed
qed simp

section \<open>Results of checks\<close>

lemma and_then_Val:
  assumes "and_then m f s = (Val b, t)"
  obtains a u where "m s = (Val a, u)" "f a u = (Val b, t)"
  using assms by (auto simp: and_then_def split: prod.splits run.splits)

lemma give_Val [simp]: "give a s = (Val b, t) \<longleftrightarrow> b = a \<and> t = s"
  by (auto simp: give_def)

lemma fail_Val [simp]: "fail e s \<noteq> (Val b, t)" "panic p s \<noteq> (Val b, t)"
  by (simp_all add: fail_def panic_def)

lemma nested_Val:
  assumes "nested m s = (Val b, t)"
  obtains u where "m (Map.empty # s) = (Val b, u)" "t = tl u"
  using assms by (auto simp: nested_def split: prod.splits)

lemma map_run_Val:
  "map_run f xs s = (Val ys, t) \<Longrightarrow>
    (\<And>x y u v. x \<in> set xs \<Longrightarrow> f x u = (Val y, v) \<Longrightarrow> v = u) \<Longrightarrow>
    t = s \<and> length ys = length xs \<and> (\<forall>i < length xs. f (xs ! i) s = (Val (ys ! i), s))"
proof (induction xs arbitrary: s ys)
  case (Cons x xs)
  from Cons.prems(1) obtain y u zs where f: "f x s = (Val y, u)" "map_run f xs u = (Val zs, t)" "ys = y # zs"
    by (auto elim!: and_then_Val)
  then have u: "u = s" using Cons.prems(2)[of x s y u] by simp
  have "t = u \<and> length zs = length xs \<and> (\<forall>i < length xs. f (xs ! i) u = (Val (zs ! i), u))"
    using Cons.IH[OF f(2)] Cons.prems(2) by (meson list.set_intros(2))
  with f u show ?case by (auto simp: nth_Cons split: nat.split)
qed simp

lemma check_list_value_Val [simp]: "check_list_value r l s = (Val a, t) \<Longrightarrow> t = s"
  by (auto simp: check_list_value_def split: if_splits)

section \<open>Safe computations\<close>

text \<open>The errors that a checked file cannot cause, and the panics of a capture without a node or
  without a quantifier.\<close>

fun scope_error :: "exec_error \<Rightarrow> bool" where
  "scope_error (DuplicateVariable (OtherVar t)) = False"
| "scope_error (DuplicateVariable c) = True"
| "scope_error (UndefinedVariable (OtherVar t)) = False"
| "scope_error (UndefinedVariable c) = True"
| "scope_error (CannotAssignImmutableVariable c) = True"
| "scope_error e = False"

definition capture_panic :: "string \<Rightarrow> bool" where
  "capture_panic p \<longleftrightarrow> p = ''missing capture'' \<or> p = ''internal error: entered unreachable code''"

definition sound :: "(exec_error, 'a) run \<Rightarrow> bool" where
  "sound r \<longleftrightarrow> (case r of Val a \<Rightarrow> True | Fails e \<Rightarrow> \<not> scope_error (root_cause e) | Panics p \<Rightarrow> \<not> capture_panic p)"

lemma sound_simps [simp]: "sound (Val a)" "sound (Fails e) \<longleftrightarrow> \<not> scope_error (root_cause e)"
  "sound (Panics p) \<longleftrightarrow> \<not> capture_panic p"
  by (simp_all add: sound_def)

definition safe :: "('s \<Rightarrow> bool) \<Rightarrow> ('s, 'a) exec \<Rightarrow> ('a \<Rightarrow> 's \<Rightarrow> bool) \<Rightarrow> bool" where
  "safe P m Q \<longleftrightarrow> (\<forall>s r t. P s \<longrightarrow> m s = (r, t) \<longrightarrow> sound r \<and> (\<forall>a. r = Val a \<longrightarrow> Q a t))"

lemma safeI: "(\<And>s r t. P s \<Longrightarrow> m s = (r, t) \<Longrightarrow> sound r \<and> (\<forall>a. r = Val a \<longrightarrow> Q a t)) \<Longrightarrow> safe P m Q"
  by (simp add: safe_def)

lemma safe_weaken: "safe P m Q \<Longrightarrow> (\<And>s. P' s \<Longrightarrow> P s) \<Longrightarrow> (\<And>a t. Q a t \<Longrightarrow> Q' a t) \<Longrightarrow> safe P' m Q'"
  unfolding safe_def by blast

lemma safe_and_then: "safe P m Q \<Longrightarrow> (\<And>a. safe (Q a) (f a) R) \<Longrightarrow> safe P (and_then m f) R"
proof (rule safeI)
  fix s r t
  assume m: "safe P m Q" and f: "\<And>a. safe (Q a) (f a) R" and p: "P s" and r: "and_then m f s = (r, t)"
  obtain r1 u where u: "m s = (r1, u)" by fastforce
  with m p have q: "sound r1" "r1 = Val a \<Longrightarrow> Q a u" for a by (auto simp: safe_def)
  show "sound r \<and> (\<forall>a. r = Val a \<longrightarrow> R a t)"
  proof (cases r1)
    case (Val a)
    with r u have "f a u = (r, t)" by (simp add: and_then_def)
    with f[of a] q(2)[OF Val] show ?thesis by (simp add: safe_def)
  qed (use r u q(1) in \<open>auto simp: and_then_def\<close>)
qed

lemma safe_give: "(\<And>s. P s \<Longrightarrow> Q a s) \<Longrightarrow> safe P (give a) Q"
  by (simp add: safe_def give_def)

lemma safe_fail: "\<not> scope_error (root_cause e) \<Longrightarrow> safe P (fail e) Q"
  by (simp add: safe_def fail_def)

lemma safe_panic: "\<not> capture_panic p \<Longrightarrow> safe P (panic p) Q"
  by (simp add: safe_def panic_def)

lemma safe_from_sum: "(\<And>e. r = Inl e \<Longrightarrow> \<not> scope_error (root_cause e)) \<Longrightarrow> safe P (from_sum r) (\<lambda>_. P)"
  by (cases r) (auto simp: from_sum_def intro: safe_give safe_fail)

lemma safe_map_run: "(\<And>x. x \<in> set xs \<Longrightarrow> safe P (f x) (\<lambda>_. P)) \<Longrightarrow> safe P (map_run f xs) (\<lambda>_. P)"
proof (induction xs)
  case Nil
  show ?case by (simp add: safe_def give_def)
next
  case (Cons x xs)
  have "safe P (and_then (f x) (\<lambda>y. and_then (map_run f xs) (\<lambda>ys. give (y # ys)))) (\<lambda>_. P)"
    using Cons by (intro safe_and_then[where Q = "\<lambda>_. P"] safe_give) auto
  then show ?case by (simp add: safe_def)
qed

lemma safe_each_run: "(\<And>x. x \<in> set xs \<Longrightarrow> safe P (f x) (\<lambda>_. P)) \<Longrightarrow> safe P (each_run f xs) (\<lambda>_. P)"
proof (induction xs)
  case Nil
  show ?case by (simp add: safe_def give_def)
next
  case (Cons x xs)
  have "safe P (and_then (f x) (\<lambda>_. each_run f xs)) (\<lambda>_. P)"
    using Cons by (intro safe_and_then[where Q = "\<lambda>_. P"]) auto
  then show ?case by (simp add: safe_def)
qed

lemma safe_in_context: "safe P m Q \<Longrightarrow> safe P (in_context c m) Q"
proof (rule safeI)
  fix s r t
  assume m: "safe P m Q" and p: "P s" and r: "in_context c m s = (r, t)"
  obtain r1 u where u: "m s = (r1, u)" by fastforce
  with m p have "sound r1" "r1 = Val a \<Longrightarrow> Q a u" for a by (auto simp: safe_def)
  then show "sound r \<and> (\<forall>a. r = Val a \<longrightarrow> Q a t)" using r u by (cases r1) (auto simp: in_context_def)
qed

lemma safe_ext: "(\<And>s. m s = m' s) \<Longrightarrow> safe P m Q = safe P m' Q"
  by (simp add: safe_def)

text \<open>The locals have the shape of an environment of the checker.\<close>

definition at :: "'v env \<Rightarrow> xstate \<Rightarrow> bool" where
  "at s t \<longleftrightarrow> shape (xs_locals t) = shape s"

lemma safe_nested_locals:
  assumes "safe (at (Map.empty # s)) m (\<lambda>_. at u)" "shape (tl u) = shape s'"
  shows "safe (at s) (nested_locals m) (\<lambda>_. at s')"
proof (rule safeI)
  fix w r t
  assume w: "at s w" and r: "nested_locals m w = (r, t)"
  let ?w = "w\<lparr>xs_locals := Map.empty # xs_locals w\<rparr>"
  obtain r1 v where v: "m ?w = (r1, v)" by fastforce
  have "at (Map.empty # s) ?w" using w by (simp add: at_def)
  with assms(1) v have q: "sound r1" "r1 = Val a \<Longrightarrow> at u v" for a by (auto simp: safe_def)
  have t: "r = r1" "t = v\<lparr>xs_locals := tl (xs_locals v)\<rparr>" using r v by (simp_all add: nested_locals_def)
  have "at s' t" if "at u v"
    using that assms(2) shape_tl[of "xs_locals v" u] t(2) by (simp add: at_def)
  with q t(1) show "sound r \<and> (\<forall>a. r = Val a \<longrightarrow> at s' t)" by auto
qed

lemma safe_fresh_locals:
  assumes "safe (at [Map.empty :: 'v scope]) m (\<lambda>_ _. True)"
  shows "safe (at s) (fresh_locals m) (\<lambda>_. at s)"
proof (rule safeI)
  fix w r t
  assume w: "at s w" and r: "fresh_locals m w = (r, t)"
  obtain r1 v where v: "m (w\<lparr>xs_locals := [Map.empty]\<rparr>) = (r1, v)" by fastforce
  have "at [Map.empty :: 'v scope] (w\<lparr>xs_locals := [Map.empty]\<rparr>)" by (simp add: at_def)
  with assms v have "sound r1" by (auto simp: safe_def)
  with r v w show "sound r \<and> (\<forall>a. r = Val a \<longrightarrow> at s t)" by (auto simp: fresh_locals_def at_def)
qed

section \<open>Expressions\<close>

text \<open>What a checked stanza relies on: the globals that were checked are those of the execution, a
  match has as many nodes for a capture as the quantifier of its pattern says, and the functions
  of the library fail for reasons of their own.\<close>

definition match_fits :: "ts_query \<Rightarrow> nat \<Rightarrow> ts_query \<Rightarrow> ts_match \<Rightarrow> bool" where
  "match_fits file_query k stanza_query m \<longleftrightarrow>
     (\<forall>c i j. capture_index_for_name stanza_query c = Some i \<longrightarrow>
        capture_index_for_name file_query c = Some j \<longrightarrow>
        (case tq_quantifiers file_query k j of
           QZero \<Rightarrow> False | QOne \<Rightarrow> nodes_for_capture_index m i \<noteq> [] | _ \<Rightarrow> True))"

definition library_sound :: "fn_library \<Rightarrow> bool" where
  "library_sound fs \<longleftrightarrow> (\<forall>f rx src g vs. sound (fst (call_function fs f rx src g vs)))"

definition setting :: "check_ctx \<Rightarrow> xenv \<Rightarrow> ts_match \<Rightarrow> bool" where
  "setting ctx X m \<longleftrightarrow>
     (\<forall>x. var_get x (ck_globals ctx) = None \<longleftrightarrow> globals_get x (xc_globals X) = None) \<and>
     match_fits (ck_file_query ctx) (ck_stanza_index ctx) (ck_stanza_query ctx) m \<and> library_sound (xc_functions X)"

lemma eval_eqs:
  "eval X F FalseLiteral = give (Boolean False)"
  "eval X F NullLiteral = give Null"
  "eval X F TrueLiteral = give (Boolean True)"
  "eval X F (IntegerConstant n) = give (Integer n)"
  "eval X F (StringConstant t) = give (StringV t)"
  "eval X F (ListLiteral es) = and_then (map_run (eval X F) es) (\<lambda>vs. give (ListV vs))"
  "eval X F (SetLiteral es) = and_then (map_run (eval X F) es) (\<lambda>vs. give (set_value vs))"
  "eval X F (ListComprehension e x v l) =
     and_then (eval X F v) (\<lambda>lv. and_then (from_sum (into_list lv)) (\<lambda>vs.
       and_then (map_run (\<lambda>a. nested_locals (and_then (add_unscoped X x a False) (\<lambda>_. eval X F e))) vs)
         (\<lambda>rs. give (ListV rs))))"
  "eval X F (SetComprehension e x v l) =
     and_then (eval X F v) (\<lambda>lv. and_then (from_sum (into_list lv)) (\<lambda>vs.
       and_then (map_run (\<lambda>a. nested_locals (and_then (add_unscoped X x a False) (\<lambda>_. eval X F e))) vs)
         (\<lambda>rs. give (set_value rs))))"
  "eval X F (CaptureExpr c) = eval_capture F c"
  "eval X F (VariableExpr y) = eval_variable X F y"
  "eval X F (CallExpr f es) =
     and_then (each_run (\<lambda>e. and_then (eval X F e) push_param) es) (\<lambda>_. call_drained X f (length es))"
  "eval X F (RegexCapture i) = eval_regex_capture F i"
  "eval_variable X F (Unscoped x) = get_unscoped X x"
  "eval_variable X F (Scoped e x' l) =
     and_then (eval X F e) (\<lambda>v. and_then (from_sum (as_scope v)) (get_scoped X (Scoped e x' l) x'))"
  by (rule ext, simp)+

lemma safe_coercions [simp]:
  "safe P (from_sum (into_list v)) (\<lambda>_. P)" "safe P (from_sum (as_scope v)) (\<lambda>_. P)"
  "safe P (from_sum (into_boolean v)) (\<lambda>_. P)" "safe P (from_sum (into_string v)) (\<lambda>_. P)"
  "safe P (from_sum (into_graph_node_ref v)) (\<lambda>_. P)"
  by (rule safe_from_sum; auto simp: into_list_def as_scope_def into_boolean_def into_string_def
      into_graph_node_ref_def split: gval.splits)+

lemma at_graph [simp]: "at s (t\<lparr>xs_graph := g\<rparr>) = at s t" "at s (t\<lparr>xs_scoped := sc\<rparr>) = at s t"
  "at s (t\<lparr>xs_params := ps\<rparr>) = at s t" "at s (t\<lparr>xs_printed := pr\<rparr>) = at s t"
  "at s (t\<lparr>xs_checks := n\<rparr>) = at s t"
  by (simp_all add: at_def)

lemma safe_add_unscoped:
  assumes "setting ctx X m" "check_add_unscoped ctx x w mutable s = (Val u, s')"
  shows "safe (at s) (add_unscoped X x v mutable) (\<lambda>_. at s')"
proof (rule safeI)
  fix t r t'
  assume t: "at s t" and r: "add_unscoped X x v mutable t = (r, t')"
  from assms(2) obtain w' where c: "var_get (uv_name x) (ck_globals ctx) = None"
      "var_add (uv_name x) w' mutable s = Inr s'"
    by (auto simp: check_add_unscoped_def split: if_splits sum.splits)
  with assms(1) have g: "globals_get (uv_name x) (xc_globals X) = None" by (simp add: setting_def)
  have "shape s = shape (xs_locals t)" using t by (simp add: at_def)
  from var_add_shape[OF this c(2)] obtain ls where
    "var_add (uv_name x) v mutable (xs_locals t) = Inr ls" "shape s' = shape ls" by metis
  with g r show "sound r \<and> (\<forall>a. r = Val a \<longrightarrow> at s' t')" by (auto simp: add_unscoped_def at_def)
qed

lemma safe_set_unscoped:
  assumes "setting ctx X m" "check_set_unscoped ctx x w s = (Val u, s')"
  shows "safe (at s) (set_unscoped X x v) (\<lambda>_. at s')" "shape s' = shape s"
proof -
  from assms(2) obtain w' where c: "var_get (uv_name x) (ck_globals ctx) = None"
      "var_set (uv_name x) w' s = Inr s'"
    by (auto simp: check_set_unscoped_def split: if_splits sum.splits)
  show sh: "shape s' = shape s" using var_set_keeps_shape[OF c(2)] .
  show "safe (at s) (set_unscoped X x v) (\<lambda>_. at s')"
  proof (rule safeI)
    fix t r t'
    assume t: "at s t" and r: "set_unscoped X x v t = (r, t')"
    from c(1) assms(1) have g: "globals_get (uv_name x) (xc_globals X) = None" by (simp add: setting_def)
    have "shape s = shape (xs_locals t)" using t by (simp add: at_def)
    from var_set_shape[OF this c(2)] obtain ls where l: "var_set (uv_name x) v (xs_locals t) = Inr ls" by blast
    with g r t sh var_set_keeps_shape[OF l] show "sound r \<and> (\<forall>a. r = Val a \<longrightarrow> at s' t')" by (auto simp: set_unscoped_def at_def)
  qed
qed

lemma safe_get_unscoped:
  assumes "setting ctx X m" "check_get_unscoped ctx x s = (Val u, s')"
  shows "s' = s" "safe (at s) (get_unscoped X x) (\<lambda>_. at s)"
proof -
  show "s' = s" using assms(2) by (auto simp: check_get_unscoped_def split: option.splits)
  have "globals_get (uv_name x) (xc_globals X) \<noteq> None \<or> var_get (uv_name x) s \<noteq> None"
    using assms(2) assms(1)[unfolded setting_def, THEN conjunct1, THEN spec, of "uv_name x"]
    by (auto simp: check_get_unscoped_def split: option.splits)
  then show "safe (at s) (get_unscoped X x) (\<lambda>_. at s)"
  proof (intro safeI)
    fix t r t'
    assume d: "globals_get (uv_name x) (xc_globals X) \<noteq> None \<or> var_get (uv_name x) s \<noteq> None"
      and t: "at s t" and r: "get_unscoped X x t = (r, t')"
    from t have "var_get (uv_name x) (xs_locals t) = None \<longleftrightarrow> var_get (uv_name x) s = None"
      unfolding at_def by (rule var_get_shape)
    with d r t show "sound r \<and> (\<forall>a. r = Val a \<longrightarrow> at s t')"
      by (auto simp: get_unscoped_def give_def fail_def split: option.splits)
  qed
qed

lemma safe_eval_capture:
  assumes "setting ctx X m" "check_capture ctx c s = (Val r, s')" "xf_match F = m"
  shows "s' = s" "safe (at w) (eval_capture F (fst r)) (\<lambda>_. at w)"
proof -
  from assms(2) obtain i j where ij: "capture_index_for_name (ck_stanza_query ctx) (cap_name c) = Some i"
      "capture_index_for_name (ck_file_query ctx) (cap_name c) = Some j"
    and r: "fst r = Capture (cap_name c) (tq_quantifiers (ck_file_query ctx) (ck_stanza_index ctx) j) j i (cap_loc c)"
    and "s' = s"
    by (auto simp: check_capture_def Let_def split: option.splits)
  then show "s' = s" by simp
  let ?q = "tq_quantifiers (ck_file_query ctx) (ck_stanza_index ctx) j"
  have "case ?q of QZero \<Rightarrow> False | QOne \<Rightarrow> nodes_for_capture_index m i \<noteq> [] | _ \<Rightarrow> True"
    using assms(1) ij by (auto simp: setting_def match_fits_def)
  then show "safe (at w) (eval_capture F (fst r)) (\<lambda>_. at w)"
    unfolding r by (auto intro!: safeI simp: eval_capture_def from_nodes_def assms(3)
        split: prod.splits quantifier.splits list.splits)
qed

lemma safe_push_param: "safe (at s) (push_param v) (\<lambda>_. at s)"
  by (auto intro!: safeI simp: push_param_def)

lemma safe_call_drained: "setting ctx X m \<Longrightarrow> safe (at s) (call_drained X f n) (\<lambda>_. at s)"
  by (auto intro!: safeI simp: call_drained_def Let_def setting_def library_sound_def split: prod.splits)
    (metis fst_conv)

lemma safe_regex_capture: "safe (at s) (eval_regex_capture F i) (\<lambda>_. at s)"
  by (auto intro!: safeI simp: eval_regex_capture_def give_def fail_def split: option.splits)

lemma safe_get_scoped: "safe (at s) (get_scoped X self x r) (\<lambda>_. at s)"
  by (auto intro!: safeI simp: get_scoped_def give_def fail_def split: option.splits if_splits)

lemma check_nested_add:
  assumes "nested (and_then (check_add_unscoped ctx x w False) f) s = (Val r, t)"
  obtains u v z where "check_add_unscoped ctx x w False (Map.empty # s) = (Val u, v)" "f u v = (Val r, z)"
    "t = tl z" "tl v = s" "v \<noteq> []"
proof -
  from nested_Val[OF assms] obtain z where z: "and_then (check_add_unscoped ctx x w False) f (Map.empty # s) = (Val r, z)"
    "t = tl z" by blast
  from and_then_Val[OF z(1)] obtain u v where v: "check_add_unscoped ctx x w False (Map.empty # s) = (Val u, v)"
    "f u v = (Val r, z)" by blast
  then have "tl v = s \<and> v \<noteq> []"
    by (auto simp: check_add_unscoped_def split: if_splits sum.splits option.splits)
  with v z(2) that show ?thesis by blast
qed

lemma safe_loop_body:
  assumes "setting ctx X m" "check_add_unscoped ctx x w False (Map.empty # s) = (Val u, v)" "tl v = s"
    "safe (at v) body (\<lambda>_. at v')" "shape (tl v') = shape s"
  shows "safe (at s) (nested_locals (and_then (add_unscoped X x a False) (\<lambda>_. body))) (\<lambda>_. at s)"
  using safe_add_unscoped[OF assms(1,2)] assms(4,5)
  by (intro safe_nested_locals[where u = v'] safe_and_then[where Q = "\<lambda>_. at v"]) auto

lemma safe_values:
  assumes "map_run (check_expr ctx) es s = (Val rs, t)"
    "\<And>e s t r. e \<in> set es \<Longrightarrow> check_expr ctx e s = (Val r, t) \<Longrightarrow>
        t = s \<and> safe (at s) (eval X F (fst r)) (\<lambda>_. at s)"
  shows "t = s" "length rs = length es" "\<And>e. e \<in> set (map fst rs) \<Longrightarrow> safe (at s) (eval X F e) (\<lambda>_. at s)"
proof -
  have m: "t = s \<and> length rs = length es \<and> (\<forall>i < length es. check_expr ctx (es ! i) s = (Val (rs ! i), s))"
    using map_run_Val[OF assms(1)] assms(2) by metis
  then show "t = s" "length rs = length es" by auto
  fix e assume "e \<in> set (map fst rs)"
  then obtain i where "i < length rs" "e = fst (rs ! i)" by (auto simp: in_set_conv_nth)
  with m assms(2) show "safe (at s) (eval X F e) (\<lambda>_. at s)" by (metis nth_mem)
qed

lemma safe_eval:
  assumes "setting ctx X m" "xf_match F = m"
  shows "check_expr ctx e s = (Val r, t) \<Longrightarrow> t = s \<and> safe (at s) (eval X F (fst r)) (\<lambda>_. at s)"
    and "check_get ctx y s = (Val q, t) \<Longrightarrow> t = s \<and> safe (at s) (eval_variable X F (fst q)) (\<lambda>_. at s)"
proof (induction e and y arbitrary: s t r and s t q rule: expr.induct variable.induct)
  case (ListLiteral es)
  then obtain rs where rs: "map_run (check_expr ctx) es s = (Val rs, t)" "fst r = ListLiteral (map fst rs)"
    by (auto elim!: and_then_Val)
  note v = safe_values[OF rs(1) ListLiteral.IH]
  have "safe (at s) (eval X F (fst r)) (\<lambda>_. at s)" unfolding rs(2) eval_eqs
    by (rule safe_and_then[OF safe_map_run[OF v(3)] safe_give])
  with v(1) show ?case by simp
next
  case (SetLiteral es)
  then obtain rs where rs: "map_run (check_expr ctx) es s = (Val rs, t)" "fst r = SetLiteral (map fst rs)"
    by (auto elim!: and_then_Val)
  note v = safe_values[OF rs(1) SetLiteral.IH]
  have "safe (at s) (eval X F (fst r)) (\<lambda>_. at s)" unfolding rs(2) eval_eqs
    by (rule safe_and_then[OF safe_map_run[OF v(3)] safe_give])
  with v(1) show ?case by simp
next
  case (CallExpr f es)
  then obtain rs where rs: "map_run (check_expr ctx) es s = (Val rs, t)" "fst r = CallExpr f (map fst rs)"
    by (auto elim!: and_then_Val)
  note v = safe_values[OF rs(1) CallExpr.IH]
  have "safe (at s) (eval X F (fst r)) (\<lambda>_. at s)" unfolding rs(2) eval_eqs
    by (intro safe_and_then[OF safe_each_run] safe_call_drained[OF assms(1)] safe_and_then[OF v(3)] safe_push_param)
  with v(1) show ?case by simp
next
  case (ListComprehension e x v l)
  from ListComprehension.prems obtain rv u where v: "check_expr ctx v s = (Val rv, u)"
    and n: "nested (and_then (check_add_unscoped ctx x (to_var (snd rv)) False) (\<lambda>_. and_then (check_expr ctx e)
         (\<lambda>re. give (ListComprehension (fst re) x (fst rv) l, comprehension_result (snd rv) (snd re))))) u = (Val r, t)"
    by (auto elim!: and_then_Val dest!: check_list_value_Val)
  from ListComprehension.IH(2)[OF v] have u: "u = s" and sv: "safe (at s) (eval X F (fst rv)) (\<lambda>_. at s)" by auto
  obtain a w re z where c: "check_add_unscoped ctx x (to_var (snd rv)) False (Map.empty # s) = (Val a, w)"
    "check_expr ctx e w = (Val re, z)" "tl w = s" "t = tl z" "fst r = ListComprehension (fst re) x (fst rv) l"
    by (rule check_nested_add[OF n[unfolded u]]) (auto elim!: and_then_Val)
  note ih = ListComprehension.IH(1)[OF c(2)]
  have "safe (at s) (eval X F (fst r)) (\<lambda>_. at s)" unfolding c(5) eval_eqs
    using ih c(3) by (intro safe_and_then[OF sv] safe_and_then[OF safe_coercions(1)] safe_and_then[OF safe_map_run]
        safe_give safe_loop_body[OF assms(1) c(1,3), where v' = w]) auto
  with ih c(3,4) show ?case by simp
next
  case (SetComprehension e x v l)
  from SetComprehension.prems obtain rv u where v: "check_expr ctx v s = (Val rv, u)"
    and n: "nested (and_then (check_add_unscoped ctx x (to_var (snd rv)) False) (\<lambda>_. and_then (check_expr ctx e)
         (\<lambda>re. give (SetComprehension (fst re) x (fst rv) l, comprehension_result (snd rv) (snd re))))) u = (Val r, t)"
    by (auto elim!: and_then_Val dest!: check_list_value_Val)
  from SetComprehension.IH(2)[OF v] have u: "u = s" and sv: "safe (at s) (eval X F (fst rv)) (\<lambda>_. at s)" by auto
  obtain a w re z where c: "check_add_unscoped ctx x (to_var (snd rv)) False (Map.empty # s) = (Val a, w)"
    "check_expr ctx e w = (Val re, z)" "tl w = s" "t = tl z" "fst r = SetComprehension (fst re) x (fst rv) l"
    by (rule check_nested_add[OF n[unfolded u]]) (auto elim!: and_then_Val)
  note ih = SetComprehension.IH(1)[OF c(2)]
  have "safe (at s) (eval X F (fst r)) (\<lambda>_. at s)" unfolding c(5) eval_eqs
    using ih c(3) by (intro safe_and_then[OF sv] safe_and_then[OF safe_coercions(1)] safe_and_then[OF safe_map_run]
        safe_give safe_loop_body[OF assms(1) c(1,3), where v' = w]) auto
  with ih c(3,4) show ?case by simp
next
  case (CaptureExpr c)
  then obtain rc where rc: "check_capture ctx c s = (Val rc, t)" "fst r = CaptureExpr (fst rc)"
    by (auto elim!: and_then_Val)
  with safe_eval_capture[OF assms(1) rc(1) assms(2)] show ?case by (simp add: eval_eqs)
next
  case (VariableExpr y)
  then obtain ry where "check_get ctx y s = (Val ry, t)" "fst r = VariableExpr (fst ry)"
    by (auto elim!: and_then_Val)
  with VariableExpr.IH show ?case by (simp add: eval_eqs)
next
  case (Scoped e x l)
  then obtain re where re: "check_expr ctx e s = (Val re, t)" "fst q = Scoped (fst re) x l"
    by (auto elim!: and_then_Val)
  with Scoped.IH[OF re(1)] show ?case unfolding re(2) eval_eqs
    by (auto intro!: safe_and_then[of "at s" _ "\<lambda>_. at s"] safe_get_scoped safe_coercions)
next
  case (Unscoped x)
  then obtain rx where "check_get_unscoped ctx x s = (Val rx, t)" "fst q = Unscoped x"
    by (auto elim!: and_then_Val)
  with safe_get_unscoped[OF assms(1)] show ?case by (auto simp: eval_eqs)
qed (auto simp: eval_eqs intro: safe_give safe_regex_capture)

section \<open>Statements\<close>

lemma safe_check_flag: "safe (at s) (check_flag X p) (\<lambda>_. at s)"
  by (auto intro!: safeI simp: check_flag_def Let_def fail_def give_def split: if_splits)

lemma safe_value:
  assumes "setting ctx X m" "xf_match F = m" "check_expr ctx e s = (Val r, t)"
  shows "t = s" "safe (at s) (eval X F (fst r)) (\<lambda>_. at s)"
  using safe_eval(1)[OF assms] by auto

lemma variable_eqs:
  "add_variable X F (Unscoped x) v mutable = add_unscoped X x v mutable"
  "add_variable X F (Scoped e x' l) v mutable =
     and_then (eval X F e) (\<lambda>sv. and_then (from_sum (as_scope sv)) (\<lambda>r. add_scoped (Scoped e x' l) x' r v mutable))"
  "set_variable X F (Unscoped x) v = set_unscoped X x v"
  "set_variable X F (Scoped e x' l) v =
     and_then (eval X F e) (\<lambda>sv. and_then (from_sum (as_scope sv)) (\<lambda>r. set_scoped (Scoped e x' l) x' r v))"
  by (rule ext, simp)+

lemma safe_scoped_updates: "safe (at s) (add_scoped self x r v mutable) (\<lambda>_. at s)"
    "safe (at s) (set_scoped self x r v) (\<lambda>_. at s)"
  by (auto intro!: safeI simp: add_scoped_def set_scoped_def fail_def split: sum.splits)

lemma safe_add_variable:
  assumes "setting ctx X m" "xf_match F = m" "check_add ctx x w mutable s = (Val r, t)"
  shows "safe (at s) (add_variable X F (fst r) v mutable) (\<lambda>_. at t)" "s \<noteq> [] \<Longrightarrow> t \<noteq> [] \<and> shape (tl t) = shape (tl s)"
proof -
  have "safe (at s) (add_variable X F (fst r) v mutable) (\<lambda>_. at t) \<and>
      (s \<noteq> [] \<longrightarrow> t \<noteq> [] \<and> shape (tl t) = shape (tl s))"
  proof (cases x)
    case (Unscoped y)
    with assms(3) obtain u where u: "check_add_unscoped ctx y w mutable s = (Val u, t)" "fst r = Unscoped y"
      by (auto elim!: and_then_Val)
    moreover from u(1) obtain w' where "var_add (uv_name y) w' mutable s = Inr t"
      by (auto simp: check_add_unscoped_def split: if_splits sum.splits)
    then have "t \<noteq> [] \<and> shape (tl t) = shape (tl s)"
      by (rule var_add_shape[OF refl]) simp
    ultimately show ?thesis using safe_add_unscoped[OF assms(1) u(1)] by (simp add: variable_eqs)
  next
    case (Scoped e y l)
    with assms(3) obtain re where re: "check_expr ctx e s = (Val re, t)" "fst r = Scoped (fst re) y l"
      by (auto elim!: and_then_Val)
    note v = safe_value[OF assms(1,2) re(1)]
    have "safe (at s) (add_variable X F (fst r) v mutable) (\<lambda>_. at s)"
      unfolding re(2) variable_eqs
      by (intro safe_and_then[OF v(2)] safe_and_then[OF safe_coercions(2)] safe_scoped_updates)
    with v(1) show ?thesis by simp
  qed
  then show "safe (at s) (add_variable X F (fst r) v mutable) (\<lambda>_. at t)"
    "s \<noteq> [] \<Longrightarrow> t \<noteq> [] \<and> shape (tl t) = shape (tl s)" by auto
qed

lemma safe_set_variable:
  assumes "setting ctx X m" "xf_match F = m" "check_set ctx x w s = (Val r, t)"
  shows "safe (at s) (set_variable X F (fst r) v) (\<lambda>_. at t)" "shape t = shape s"
proof -
  have "safe (at s) (set_variable X F (fst r) v) (\<lambda>_. at t) \<and> shape t = shape s"
  proof (cases x)
    case (Unscoped y)
    with assms(3) obtain u where u: "check_set_unscoped ctx y w s = (Val u, t)" "fst r = Unscoped y"
      by (auto elim!: and_then_Val)
    with safe_set_unscoped[OF assms(1) u(1)] show ?thesis by (simp add: variable_eqs)
  next
    case (Scoped e y l)
    with assms(3) obtain re where re: "check_expr ctx e s = (Val re, t)" "fst r = Scoped (fst re) y l"
      by (auto elim!: and_then_Val)
    note v = safe_value[OF assms(1,2) re(1)]
    have "safe (at s) (set_variable X F (fst r) v) (\<lambda>_. at s)"
      unfolding re(2) variable_eqs
      by (intro safe_and_then[OF v(2)] safe_and_then[OF safe_coercions(2)] safe_scoped_updates)
    with v(1) show ?thesis by simp
  qed
  then show "safe (at s) (set_variable X F (fst r) v) (\<lambda>_. at t)" "shape t = shape s" by auto
qed

lemma check_attribute_Val:
  assumes "check_attribute ctx a s = (Val r, t)"
  obtains re where "check_expr ctx (at_value a) s = (Val re, t)" "fst r = Attribute (at_name a) (fst re)"
  using assms by (auto simp: check_attribute_def elim!: and_then_Val)

text \<open>A shorthand is checked when the checker would accept its attributes as they are, in the scope
  that the shorthand opens. The checker of the code never looks at shorthands.\<close>

definition shorthand_checked :: "check_ctx \<Rightarrow> shorthand \<Rightarrow> bool" where
  "shorthand_checked ctx sh \<longleftrightarrow>
     (\<exists>w s u. check_add_unscoped ctx (sh_variable sh) w False [Map.empty] = (Val u, s) \<and>
        (\<forall>b \<in> set (sh_attributes sh). \<exists>us t. check_attribute ctx b s = (Val (b, us), t)))"

lemma exec_attribute_eqs:
  "exec_attribute 0 X F add a = panic ''stack overflow''"
  "exec_attribute (Suc n) X F add a =
     and_then (check_flag X ''executing attribute'') (\<lambda>_. and_then (eval X F (at_value a)) (\<lambda>v.
       case map_of (xc_shorthands X) (at_name a) of
         None \<Rightarrow> add (at_name a) v
       | Some sh \<Rightarrow>
           fresh_locals (and_then (add_unscoped X (sh_variable sh) v False)
             (\<lambda>_. each_run (exec_attribute n X F add) (sh_attributes sh)))))"
  by (rule ext, simp)+

lemma safe_exec_attribute:
  assumes set: "setting ctx X m" "xf_match F = m"
    and sh: "\<And>n h. map_of (xc_shorthands X) n = Some h \<Longrightarrow> shorthand_checked ctx h"
    and add: "\<And>s a v. safe (at s) (add a v) (\<lambda>_. at (s :: var_result env))"
  shows "check_attribute ctx a s = (Val (a', us), t) \<Longrightarrow>
    t = s \<and> safe (at s) (exec_attribute n X F add a') (\<lambda>_. at s)"
proof (induction n arbitrary: a a' s us t)
  case 0
  then obtain re where "check_expr ctx (at_value a) s = (Val re, t)" by (rule check_attribute_Val)
  from safe_value(1)[OF set this] show ?case
    by (auto simp: exec_attribute_eqs capture_panic_def intro!: safe_panic)
next
  case (Suc n)
  from Suc.prems obtain re where re: "check_expr ctx (at_value a) s = (Val re, t)"
    "a' = Attribute (at_name a) (fst re)" by (auto elim: check_attribute_Val)
  note v = safe_value[OF set re(1)]
  have body: "safe (at s) (fresh_locals (and_then (add_unscoped X (sh_variable h) w False)
             (\<lambda>_. each_run (exec_attribute n X F add) (sh_attributes h)))) (\<lambda>_. at s)"
    if h: "map_of (xc_shorthands X) k = Some h" for k h w
  proof -
    from sh[OF h] obtain w' s' u where c: "check_add_unscoped ctx (sh_variable h) w' False [Map.empty] = (Val u, s')"
      and at: "\<forall>b \<in> set (sh_attributes h). \<exists>us t. check_attribute ctx b s' = (Val (b, us), t)"
      by (auto simp: shorthand_checked_def)
    have "safe (at s') (exec_attribute n X F add b) (\<lambda>_. at s')" if "b \<in> set (sh_attributes h)" for b
      using at that Suc.IH[of b s' b] by blast
    then have "safe (at [Map.empty :: var_result scope]) (and_then (add_unscoped X (sh_variable h) w False)
        (\<lambda>_. each_run (exec_attribute n X F add) (sh_attributes h))) (\<lambda>_. at s')"
      by (intro safe_and_then[OF safe_add_unscoped[OF set(1) c]] safe_each_run)
    then have "safe (at [Map.empty :: var_result scope]) (and_then (add_unscoped X (sh_variable h) w False)
        (\<lambda>_. each_run (exec_attribute n X F add) (sh_attributes h))) (\<lambda>_ _. True)"
      by (rule safe_weaken) simp_all
    then show ?thesis by (rule safe_fresh_locals)
  qed
  have "safe (at s) (exec_attribute (Suc n) X F add a') (\<lambda>_. at s)"
    unfolding exec_attribute_eqs re(2)
    by (rule safe_and_then[OF safe_check_flag], simp, rule safe_and_then[OF v(2)])
      (auto intro: add body split: option.split)
  with v(1) show ?case by blast
qed

lemma safe_graph_node_at: "safe (at s) (graph_node_at r) (\<lambda>_. at s)"
  by (auto intro!: safeI simp: graph_node_at_def panic_def give_def capture_panic_def split: option.splits)

lemma safe_put_graph_node: "safe (at s) (put_graph_node r n) (\<lambda>_. at s)"
  by (auto intro!: safeI simp: put_graph_node_def)

lemma safe_add_node_attribute: "safe (at s) (add_node_attribute r self a v) (\<lambda>_. at s)"
  unfolding add_node_attribute_def
  by (intro safe_and_then[OF safe_graph_node_at])
    (auto split: prod.split sum.split simp: duplicate_on_node_def
      intro!: safe_and_then[OF safe_put_graph_node] safe_fail safe_give)

lemma safe_add_edge_attribute: "safe (at s) (add_edge_attribute r q self a v) (\<lambda>_. at s)"
  unfolding add_edge_attribute_def
  by (intro safe_and_then[OF safe_graph_node_at])
    (auto split: prod.split sum.split option.split
      intro!: safe_and_then[OF safe_put_graph_node] safe_fail safe_give)

lemma safe_debug_attrs:
  "add_debug_attr name t attrs = Inl e \<Longrightarrow> \<not> scope_error (root_cause e)"
  by (auto simp: add_debug_attr_def split: option.splits prod.splits sum.splits)

lemma safe_edge_debug: "safe P (from_sum (edge_debug_attrs X l attrs)) (\<lambda>_. P)"
  by (rule safe_from_sum) (simp add: edge_debug_attrs_def safe_debug_attrs)

lemma safe_variable_debug: "safe P (from_sum (variable_debug_attrs X x attrs)) (\<lambda>_. P)"
  by (rule safe_from_sum) (auto simp: variable_debug_attrs_def safe_debug_attrs split: sum.splits)

lemma safe_create_edge: "safe (at s) (create_edge X r q l) (\<lambda>_. at s)"
  unfolding create_edge_def
  by (intro safe_and_then[OF safe_graph_node_at])
    (auto split: prod.split option.split simp: capture_panic_def
      intro!: safe_and_then[OF safe_put_graph_node] safe_and_then[OF safe_edge_debug] safe_panic safe_put_graph_node)

lemma safe_on_graph: "safe (at s) (on_graph f) (\<lambda>_. at s)"
  by (auto intro!: safeI simp: on_graph_def split: prod.splits)

lemma safe_create_graph_node: "safe (at s) (create_graph_node X F x self) (\<lambda>_. at s)"
  unfolding create_graph_node_def
  by (intro safe_and_then[OF safe_on_graph] safe_and_then[OF safe_graph_node_at] safe_and_then[OF safe_variable_debug]
      safe_and_then[OF safe_put_graph_node])
    (auto split: option.split list.split simp: capture_panic_def
      intro!: safe_give safe_panic safe_and_then[OF safe_on_graph] safe_and_then[OF safe_add_node_attribute])

lemma safe_graph_ref:
  assumes "setting ctx X m" "xf_match F = m" "check_expr ctx e s = (Val r, t)"
  shows "safe (at s) (graph_ref X F (fst r)) (\<lambda>_. at s)"
  unfolding graph_ref_def by (rule safe_and_then[OF safe_value(2)[OF assms]]) simp

lemma condition_eqs:
  "eval_condition X F (CondSome e l) = and_then (eval X F e) (\<lambda>v. give (\<not> is_null v))"
  "eval_condition X F (CondNone e l) = and_then (eval X F e) (\<lambda>v. give (is_null v))"
  "eval_condition X F (CondBool e l) = and_then (eval X F e) (\<lambda>v. from_sum (into_boolean v))"
  by (rule ext, simp)+

lemma check_same [dest!]: "check_optional r l s = (Val a, t) \<Longrightarrow> t = s" "check_local r l s = (Val a, t) \<Longrightarrow> t = s"
  by (auto simp: check_optional_def check_local_def split: if_splits)

lemma safe_condition:
  assumes "setting ctx X m" "xf_match F = m" "check_condition ctx c s = (Val r, t)"
  shows "t = s" "safe (at s) (eval_condition X F (fst r)) (\<lambda>_. at s)"
proof -
  have "t = s \<and> safe (at s) (eval_condition X F (fst r)) (\<lambda>_. at s)"
  proof (cases c)
    case (CondSome e l)
    with assms(3) obtain re where re: "check_expr ctx e s = (Val re, t)" "fst r = CondSome (fst re) l"
      by (auto elim!: and_then_Val)
    with safe_value[OF assms(1,2) re(1)] show ?thesis by (auto simp: condition_eqs intro: safe_and_then safe_give)
  next
    case (CondNone e l)
    with assms(3) obtain re where re: "check_expr ctx e s = (Val re, t)" "fst r = CondNone (fst re) l"
      by (auto elim!: and_then_Val)
    with safe_value[OF assms(1,2) re(1)] show ?thesis by (auto simp: condition_eqs intro: safe_and_then safe_give)
  next
    case (CondBool e l)
    with assms(3) obtain re where re: "check_expr ctx e s = (Val re, t)" "fst r = CondBool (fst re) l"
      by (auto elim!: and_then_Val)
    with safe_value[OF assms(1,2) re(1)] show ?thesis by (auto simp: condition_eqs intro: safe_and_then)
  qed
  then show "t = s" "safe (at s) (eval_condition X F (fst r)) (\<lambda>_. at s)" by auto
qed

lemma safe_print_value: "safe (at s) (eval X F e) (\<lambda>_. at s) \<Longrightarrow> safe (at s) (print_value X F e) (\<lambda>_. at s)"
  unfolding print_value_def
  by (cases e) (auto intro!: safe_and_then[of "at s" _ "\<lambda>_. at s"], auto intro!: safeI)

lemma at_shape: "shape s = shape t \<Longrightarrow> at s = at t"
  by (rule ext) (simp add: at_def)

lemma run_eqs: "each_run f [] = give ()" "each_run f (x # xs) = and_then (f x) (\<lambda>_. each_run f xs)"
  by (rule ext, simp)+

lemma arm_matches_sound: "arm_matches rx t k arms = Inl e \<Longrightarrow> \<not> scope_error (root_cause e)"
  by (induction rx t k arms rule: arm_matches.induct) (auto split: option.splits if_splits sum.splits)

lemma safe_scan_loop:
  assumes "\<And>a caps. a \<in> set arms \<Longrightarrow> safe (at s) (body a caps) (\<lambda>_. at s)"
  shows "safe (at s) (scan_loop X body arms t) (\<lambda>_. at s)"
proof (induction "length t" arbitrary: t rule: less_induct)
  case less
  show ?case
  proof (cases "t = []")
    case True
    then show ?thesis by (simp add: safe_def give_def)
  next
    case False
    have rest: "safe (at s) (\<lambda>u. case arm_matches (xc_regex X) t 0 arms of
          Inl e \<Rightarrow> fail e u
        | Inr [] \<Rightarrow> give () u
        | Inr (m # ms) \<Rightarrow>
            (case first_match (m # ms) of (gs, k) \<Rightarrow>
               and_then (\<lambda>v. body (arms ! k) (group_texts t gs) v)
                 (\<lambda>_ v. scan_loop X body arms (drop (snd (whole gs)) t) v) u)) (\<lambda>_. at s)"
    proof (cases "arm_matches (xc_regex X) t 0 arms")
      case (Inl e)
      then show ?thesis using arm_matches_sound safe_fail by (fastforce simp: safe_def)
    next
      case (Inr ms)
      show ?thesis
      proof (cases ms)
        case Nil
        with Inr show ?thesis by (simp add: safe_def give_def)
      next
        case (Cons m ms')
        obtain gs k where gk: "first_match (m # ms') = (gs, k)" by fastforce
        have "(gs, k) \<in> set (m # ms')" using first_match_member[of "m # ms'"] gk by simp
        with arm_matches_member Inr Cons have "k < length arms" by fastforce
        then have b: "safe (at s) (body (arms ! k) (group_texts t gs)) (\<lambda>_. at s)" using assms by simp
        have "length (drop (snd (whole gs)) t) < length t"
          using first_match_nonempty[OF Inr[unfolded Cons] gk[symmetric]] False by simp
        from safe_and_then[OF b less[OF this]] Inr Cons gk show ?thesis by simp
      qed
    qed
    have "safe (at s) (and_then (check_flag X ''processing scan matches'') (\<lambda>_ u. case arm_matches (xc_regex X) t 0 arms of
          Inl e \<Rightarrow> fail e u
        | Inr [] \<Rightarrow> give () u
        | Inr (m # ms) \<Rightarrow>
            (case first_match (m # ms) of (gs, k) \<Rightarrow>
               and_then (\<lambda>v. body (arms ! k) (group_texts t gs) v)
                 (\<lambda>_ v. scan_loop X body arms (drop (snd (whole gs)) t) v) u))) (\<lambda>_. at s)"
      by (rule safe_and_then[OF safe_check_flag rest])
    moreover have "scan_loop X body arms t w = and_then (check_flag X ''processing scan matches'') (\<lambda>_ u. case arm_matches (xc_regex X) t 0 arms of
          Inl e \<Rightarrow> fail e u
        | Inr [] \<Rightarrow> give () u
        | Inr (m # ms) \<Rightarrow>
            (case first_match (m # ms) of (gs, k) \<Rightarrow>
               and_then (\<lambda>v. body (arms ! k) (group_texts t gs) v)
                 (\<lambda>_ v. scan_loop X body arms (drop (snd (whole gs)) t) v) u)) w" for w
      using False by (simp only: scan_loop.simps[of X body arms t w] if_False)
    ultimately show ?thesis by (simp only: safe_def)
  qed
qed

end
