(* ===== verification/Tsg_Soundness.thy ===== *)
theory Tsg_Soundness
  imports Tsg_Safety
begin

text \<open>
  A checked file is sound in strict execution: the statement lemma, by induction on the nested
  statements, and what follows for stanzas and files.
\<close>

section \<open>Statements\<close>

text \<open>The blocks of a statement, each statement in a context of its own.\<close>

definition run_block :: "xenv \<Rightarrow> (statement \<Rightarrow> unit strict \<Rightarrow> unit strict) \<Rightarrow> xframe \<Rightarrow> statement list \<Rightarrow> unit strict" where
  "run_block X wrap F ss = each_run (\<lambda>st. wrap st (exec X F st)) ss"

definition scan_body :: "xenv \<Rightarrow> xframe \<Rightarrow> string \<Rightarrow> scan_arm \<Rightarrow> string list \<Rightarrow> unit strict" where
  "scan_body X F t a caps =
     (case a of ScanArm regex ss al \<Rightarrow>
        nested_locals (run_block X (\<lambda>st m. in_context (context_of F st)
          (in_context (OtherCtx (''matching '' @ t @ '' with arm '' @ [CHR 0x22] @ regex @ [CHR 0x22])) m))
          (F\<lparr>xf_regex := caps\<rparr>) ss))"

lemma scan_body_eq:
  "scan_body X F t = (\<lambda>a caps v. case a of ScanArm regex ss al \<Rightarrow>
     nested_locals (each_run (\<lambda>st. in_context (context_of F st)
       (in_context (OtherCtx (''matching '' @ t @ '' with arm '' @ [CHR 0x22] @ regex @ [CHR 0x22]))
         (\<lambda>w. exec X (F\<lparr>xf_regex := caps\<rparr>) st w))) ss) v)"
  by (intro ext) (simp add: scan_body_def run_block_def split: scan_arm.split)

lemma exec_eqs:
  "exec X F (DeclareImmutable x e l) =
     and_then (check_flag X ''executing statement'') (\<lambda>_. and_then (eval X F e) (\<lambda>v. add_variable X F x v False))"
  "exec X F (DeclareMutable x e l) =
     and_then (check_flag X ''executing statement'') (\<lambda>_. and_then (eval X F e) (\<lambda>v. add_variable X F x v True))"
  "exec X F (Assign x e l) =
     and_then (check_flag X ''executing statement'') (\<lambda>_. and_then (eval X F e) (\<lambda>v. set_variable X F x v))"
  "exec X F (CreateGraphNode x l) =
     and_then (check_flag X ''executing statement'') (\<lambda>_.
       and_then (create_graph_node X F x (CreateGraphNode x l)) (\<lambda>r. add_variable X F x (GraphNode r) False))"
  "exec X F (AddGraphNodeAttribute e as l) =
     and_then (check_flag X ''executing statement'') (\<lambda>_. and_then (graph_ref X F e) (\<lambda>r.
         each_run (exec_attribute (xc_stack X) X F (add_node_attribute r (AddGraphNodeAttribute e as l))) as))"
  "exec X F (CreateEdge e f l) =
     and_then (check_flag X ''executing statement'') (\<lambda>_.
       and_then (graph_ref X F e) (\<lambda>r. and_then (graph_ref X F f) (\<lambda>q. create_edge X r q l)))"
  "exec X F (AddEdgeAttribute e f as l) =
     and_then (check_flag X ''executing statement'') (\<lambda>_.
       and_then (graph_ref X F e) (\<lambda>r. and_then (graph_ref X F f) (\<lambda>q.
         each_run (exec_attribute (xc_stack X) X F (add_edge_attribute r q (AddEdgeAttribute e f as l))) as)))"
  "exec X F (Scan e arms l) =
     and_then (check_flag X ''executing statement'') (\<lambda>_.
       and_then (and_then (eval X F e) (\<lambda>v. from_sum (into_string v))) (\<lambda>t.
         scan_loop X (scan_body X F t) arms t))"
  "exec X F (Print es l) =
     and_then (check_flag X ''executing statement'') (\<lambda>_. and_then (each_run (print_value X F) es)
         (\<lambda>_ u. (Val (), u\<lparr>xs_printed := xs_printed u @ [CHR 0x0A]\<rparr>)))"
  "exec X F (If brms l) = and_then (check_flag X ''executing statement'') (\<lambda>_. exec_arms X F brms)"
  "exec X F (ForIn y e ss l) =
     and_then (check_flag X ''executing statement'') (\<lambda>_.
       and_then (eval X F e) (\<lambda>lv. and_then (from_sum (into_list lv)) (\<lambda>vs.
         each_run (\<lambda>v. nested_locals (and_then (add_unscoped X y v False) (\<lambda>_.
           run_block X (\<lambda>st. in_context (context_of F st)) F ss))) vs)))"
  "exec_arms X F [] = give ()"
  "exec_arms X F (IfArm cs ss al # brms) =
     and_then (map_run (eval_condition X F) cs) (\<lambda>bs.
       if list_all id bs
       then nested_locals (run_block X (\<lambda>st. in_context (context_of F st)) F ss)
       else exec_arms X F brms)"
  by (rule ext, simp add: run_block_def scan_body_eq and_then_def split: prod.split run.split)+

lemma each_checked:
  "map_run f xs s = (Val rs, t) \<Longrightarrow>
    (\<And>x u r v. x \<in> set xs \<Longrightarrow> shape u = shape s \<Longrightarrow> f x u = (Val r, v) \<Longrightarrow> shape v = shape u \<and> P (fst r)) \<Longrightarrow>
    shape t = shape s \<and> (\<forall>y \<in> set (map fst rs). P y)"
proof (induction xs arbitrary: s rs)
  case (Cons x xs)
  from Cons.prems(1) obtain y u zs where f: "f x s = (Val y, u)" "map_run f xs u = (Val zs, t)" "rs = y # zs"
    by (auto elim!: and_then_Val)
  have u: "shape u = shape s" "P (fst y)" using Cons.prems(2)[OF _ refl f(1)] by auto
  have "shape t = shape u \<and> (\<forall>y \<in> set (map fst zs). P y)"
  proof (rule Cons.IH[OF f(2)])
    fix z q r v assume z: "z \<in> set xs" "shape q = shape u" "f z q = (Val r, v)"
    show "shape v = shape q \<and> P (fst r)"
      by (rule Cons.prems(2)[OF _ _ z(3)]) (use z u(1) in simp_all)
  qed
  with u show ?case unfolding f(3) by auto
qed simp

text \<open>What is proved of a statement and of the arms of scans and ifs. An arm has a scope of its own,
  so it leaves the shape of the scopes around it as it was.\<close>

definition statement_ok :: "check_ctx \<Rightarrow> xenv \<Rightarrow> ts_match \<Rightarrow> statement \<Rightarrow> bool" where
  "statement_ok ctx X m st \<longleftrightarrow>
     (\<forall>s r t. check_statement ctx st s = (Val r, t) \<longrightarrow> s \<noteq> [] \<longrightarrow>
        t \<noteq> [] \<and> shape (tl t) = shape (tl s) \<and>
        (\<forall>F. xf_match F = m \<longrightarrow> safe (at s) (exec X F (fst r)) (\<lambda>_. at t)))"

lemma statement_okD:
  "statement_ok ctx X m st \<Longrightarrow> check_statement ctx st s = (Val r, t) \<Longrightarrow> s \<noteq> [] \<Longrightarrow>
    t \<noteq> [] \<and> shape (tl t) = shape (tl s) \<and>
    (\<forall>F. xf_match F = m \<longrightarrow> safe (at s) (exec X F (fst r)) (\<lambda>_. at t))"
  unfolding statement_ok_def by blast

lemma statement_okI:
  assumes "\<And>s r t. check_statement ctx st s = (Val r, t) \<Longrightarrow> s \<noteq> [] \<Longrightarrow>
    t \<noteq> [] \<and> shape (tl t) = shape (tl s) \<and>
    (\<forall>F. xf_match F = m \<longrightarrow> safe (at s) (exec X F (fst r)) (\<lambda>_. at t))"
  shows "statement_ok ctx X m st"
  unfolding statement_ok_def using assms by blast

text \<open>Most statements keep the whole shape.\<close>

lemma statement_ok_flat:
  assumes "\<And>s r t. check_statement ctx st s = (Val r, t) \<Longrightarrow>
    shape t = shape s \<and> (\<forall>F. xf_match F = m \<longrightarrow> safe (at s) (exec X F (fst r)) (\<lambda>_. at s))"
  shows "statement_ok ctx X m st"
proof (rule statement_okI)
  fix s r t assume c: "check_statement ctx st s = (Val r, t)" and s: "s \<noteq> []"
  from assms[OF c] have k: "shape t = shape s"
    "\<forall>F. xf_match F = m \<longrightarrow> safe (at s) (exec X F (fst r)) (\<lambda>_. at s)" by auto
  from k(1) s have "t \<noteq> []" by auto
  moreover have "at s = at t" by (rule at_shape) (simp add: k(1))
  ultimately show "t \<noteq> [] \<and> shape (tl t) = shape (tl s) \<and>
    (\<forall>F. xf_match F = m \<longrightarrow> safe (at s) (exec X F (fst r)) (\<lambda>_. at t))"
    using k shape_tl[OF k(1)] by simp
qed

definition scan_arm_ok :: "check_ctx \<Rightarrow> xenv \<Rightarrow> ts_match \<Rightarrow> scan_arm \<Rightarrow> bool" where
  "scan_arm_ok ctx X m a \<longleftrightarrow>
     (\<forall>s r t. check_scan_arm ctx a s = (Val r, t) \<longrightarrow>
        shape t = shape s \<and>
        (\<forall>F w caps. xf_match F = m \<longrightarrow> safe (at s) (scan_body X F w (fst r) caps) (\<lambda>_. at s)))"

definition if_arm_safe :: "xenv \<Rightarrow> ts_match \<Rightarrow> var_result env \<Rightarrow> if_arm \<Rightarrow> bool" where
  "if_arm_safe X m s a \<longleftrightarrow>
     (case a of IfArm cs ss l \<Rightarrow> \<forall>F. xf_match F = m \<longrightarrow>
        (\<forall>c \<in> set cs. safe (at s) (eval_condition X F c) (\<lambda>_. at s)) \<and>
        safe (at s) (nested_locals (run_block X (\<lambda>st. in_context (context_of F st)) F ss)) (\<lambda>_. at s))"

definition if_arm_ok :: "check_ctx \<Rightarrow> xenv \<Rightarrow> ts_match \<Rightarrow> if_arm \<Rightarrow> bool" where
  "if_arm_ok ctx X m a \<longleftrightarrow>
     (\<forall>s r t. check_if_arm ctx a s = (Val r, t) \<longrightarrow> shape t = shape s \<and> if_arm_safe X m s (fst r))"

lemma if_arm_safe_shape: "shape s = shape t \<Longrightarrow> if_arm_safe X m s = if_arm_safe X m t"
  by (drule at_shape, rule ext) (simp add: if_arm_safe_def split: if_arm.split)

lemma safe_arms: "\<forall>a \<in> set arms. if_arm_safe X m s a \<Longrightarrow> xf_match F = m \<Longrightarrow>
    safe (at s) (exec_arms X F arms) (\<lambda>_. at s)"
proof (induction arms)
  case (Cons a arms)
  obtain cs ss l where a: "a = IfArm cs ss l" by (cases a)
  from Cons a have "\<forall>c \<in> set cs. safe (at s) (eval_condition X F c) (\<lambda>_. at s)"
    "safe (at s) (nested_locals (run_block X (\<lambda>st. in_context (context_of F st)) F ss)) (\<lambda>_. at s)"
    "safe (at s) (exec_arms X F arms) (\<lambda>_. at s)" by (auto simp: if_arm_safe_def)
  then show ?case unfolding a exec_eqs by (intro safe_and_then[OF safe_map_run]) (auto split: if_split)
qed (simp add: exec_eqs safe_give)

lemma safe_block:
  assumes "\<And>st P m Q. safe P m Q \<Longrightarrow> safe P (wrap st m) Q"
  shows "map_run (check_statement ctx) ss s = (Val rs, t) \<Longrightarrow> \<forall>st \<in> set ss. statement_ok ctx X m st \<Longrightarrow> s \<noteq> [] \<Longrightarrow>
    t \<noteq> [] \<and> shape (tl t) = shape (tl s) \<and>
    (xf_match F = m \<longrightarrow> safe (at s) (run_block X wrap F (map fst rs)) (\<lambda>_. at t))"
proof (induction ss arbitrary: s rs)
  case (Cons st ss)
  from Cons.prems(1) obtain y u zs where f: "check_statement ctx st s = (Val y, u)"
    "map_run (check_statement ctx) ss u = (Val zs, t)" "rs = y # zs" by (auto elim!: and_then_Val)
  have "statement_ok ctx X m st" using Cons.prems(2) by simp
  from statement_okD[OF this f(1) Cons.prems(3)] have st: "u \<noteq> []" "shape (tl u) = shape (tl s)"
    "xf_match F = m \<Longrightarrow> safe (at s) (exec X F (fst y)) (\<lambda>_. at u)" by auto
  from Cons.IH[OF f(2) _ st(1)] Cons.prems(2) have ih: "t \<noteq> []" "shape (tl t) = shape (tl u)"
    "xf_match F = m \<Longrightarrow> safe (at u) (run_block X wrap F (map fst zs)) (\<lambda>_. at t)" by auto
  have "safe (at s) (run_block X wrap F (map fst rs)) (\<lambda>_. at t)" if "xf_match F = m"
    using safe_and_then[OF assms[OF st(3)[OF that]] ih(3)[OF that]]
    by (simp add: f(3) run_block_def run_eqs)
  with ih st show ?case by simp
qed (simp add: run_block_def run_eqs safe_give)

lemma check_expr_same:
  assumes "setting ctx X m" "check_expr ctx e s = (Val r, t)"
  shows "t = s"
proof -
  have "xf_match (undefined\<lparr>xf_match := m\<rparr>) = m" by simp
  from safe_value(1)[OF assms(1) this assms(2)] show ?thesis .
qed

lemma safe_attributes:
  assumes "setting ctx X m"
    and "\<And>n h. map_of (xc_shorthands X) n = Some h \<Longrightarrow> shorthand_checked ctx h"
    and "map_run (check_attribute ctx) as s = (Val ra, t)"
  shows "shape t = shape s"
    and "xf_match F = m \<Longrightarrow> (\<And>s a v. safe (at s) (add a v) (\<lambda>_. at (s :: var_result env))) \<Longrightarrow>
      safe (at s) (each_run (exec_attribute n X F add) (map fst ra)) (\<lambda>_. at s)"
proof -
  let ?P = "\<lambda>b. \<forall>F add. xf_match F = m \<longrightarrow> (\<forall>s a v. safe (at s) (add a v) (\<lambda>_. at (s :: var_result env))) \<longrightarrow>
      safe (at s) (exec_attribute n X F add b) (\<lambda>_. at s)"
  have *: "shape t = shape s \<and> (\<forall>b \<in> set (map fst ra). ?P b)"
  proof (rule each_checked[OF assms(3)])
    fix x u r v assume u: "shape u = shape s" and c: "check_attribute ctx x u = (Val r, v)"
    obtain b us where r: "r = (b, us)" by (cases r)
    have "v = u \<and> safe (at u) (exec_attribute n X F add b) (\<lambda>_. at u)"
      if "xf_match F = m" "\<forall>s a v. safe (at s) (add a v) (\<lambda>_. at (s :: var_result env))" for F add
      by (rule safe_exec_attribute[OF assms(1) that(1) assms(2)]) (use that(2) c r in auto)
    moreover have "v = u" using c by (rule check_attribute_Val) (rule check_expr_same[OF assms(1)])
    moreover have "at u = at s" by (rule at_shape) (rule u)
    ultimately show "shape v = shape u \<and> ?P (fst r)" using r by simp
  qed
  then show "shape t = shape s" by simp
  show "safe (at s) (each_run (exec_attribute n X F add) (map fst ra)) (\<lambda>_. at s)"
    if "xf_match F = m" "\<And>s a v. safe (at s) (add a v) (\<lambda>_. at (s :: var_result env))"
    by (rule safe_each_run) (use * that in blast)
qed

lemma declare_ok:
  assumes set: "setting ctx X m" and "check_declare ctx x e mutable s = (Val r, t)" "s \<noteq> []"
  shows "t \<noteq> [] \<and> shape (tl t) = shape (tl s) \<and> (xf_match F = m \<longrightarrow>
    safe (at s) (and_then (eval X F (snd (fst r))) (\<lambda>v. add_variable X F (fst (fst r)) v mutable)) (\<lambda>_. at t))"
proof -
  from assms(2) obtain re u rx where c: "check_expr ctx e s = (Val re, u)"
    "check_add ctx x (to_var (snd re)) mutable u = (Val rx, t)" "fst r = (fst rx, fst re)"
    by (auto simp: check_declare_def elim!: and_then_Val)
  have u: "u = s" by (rule check_expr_same[OF set c(1)])
  have "xf_match (undefined\<lparr>xf_match := m\<rparr>) = m" by simp
  from safe_add_variable(2)[OF set this c(2)[unfolded u] assms(3)]
  have "t \<noteq> [] \<and> shape (tl t) = shape (tl s)" .
  moreover have "safe (at s) (and_then (eval X F (fst re)) (\<lambda>v. add_variable X F (fst rx) v mutable)) (\<lambda>_. at t)"
    if "xf_match F = m"
    by (rule safe_and_then[OF safe_value(2)[OF set that c(1)] safe_add_variable(1)[OF set that c(2)[unfolded u]]])
  ultimately show ?thesis using c(3) by simp
qed

lemma flat_ok:
  "safe (at s) b (\<lambda>_. at s) \<Longrightarrow> safe (at s) (and_then (check_flag X p) (\<lambda>_. b)) (\<lambda>_. at s)"
  by (rule safe_and_then[OF safe_check_flag])

lemma declare_statement_ok:
  assumes "setting ctx X m"
  shows "statement_ok ctx X m (DeclareImmutable x e l)" "statement_ok ctx X m (DeclareMutable x e l)"
proof -
  show "statement_ok ctx X m (DeclareImmutable x e l)"
  proof (rule statement_okI)
    fix s r t assume c: "check_statement ctx (DeclareImmutable x e l) s = (Val r, t)" and s: "s \<noteq> []"
    then obtain rx where rx: "check_declare ctx x e False s = (Val rx, t)"
      "fst r = DeclareImmutable (fst (fst rx)) (snd (fst rx)) l" by (auto elim!: and_then_Val)
    from declare_ok[OF assms rx(1) s] show "t \<noteq> [] \<and> shape (tl t) = shape (tl s) \<and>
        (\<forall>F. xf_match F = m \<longrightarrow> safe (at s) (exec X F (fst r)) (\<lambda>_. at t))"
      unfolding rx(2) exec_eqs by (blast intro: safe_and_then[OF safe_check_flag])
  qed
  show "statement_ok ctx X m (DeclareMutable x e l)"
  proof (rule statement_okI)
    fix s r t assume c: "check_statement ctx (DeclareMutable x e l) s = (Val r, t)" and s: "s \<noteq> []"
    then obtain rx where rx: "check_declare ctx x e True s = (Val rx, t)"
      "fst r = DeclareMutable (fst (fst rx)) (snd (fst rx)) l" by (auto elim!: and_then_Val)
    from declare_ok[OF assms rx(1) s] show "t \<noteq> [] \<and> shape (tl t) = shape (tl s) \<and>
        (\<forall>F. xf_match F = m \<longrightarrow> safe (at s) (exec X F (fst r)) (\<lambda>_. at t))"
      unfolding rx(2) exec_eqs by (blast intro: safe_and_then[OF safe_check_flag])
  qed
qed

lemma assign_ok:
  assumes "setting ctx X m"
  shows "statement_ok ctx X m (Assign x e l)"
proof (rule statement_ok_flat)
  fix s r t assume c: "check_statement ctx (Assign x e l) s = (Val r, t)"
  then obtain re u rx where re: "check_expr ctx e s = (Val re, u)" "check_set ctx x (to_var (snd re)) u = (Val rx, t)"
    "fst r = Assign (fst rx) (fst re) l" by (auto elim!: and_then_Val)
  have u: "u = s" by (rule check_expr_same[OF assms re(1)])
  have "xf_match (undefined\<lparr>xf_match := m\<rparr>) = m" by simp
  from safe_set_variable(2)[OF assms this re(2)] have st: "shape t = shape s" by (simp add: u)
  have "at t = (at s :: xstate \<Rightarrow> bool)" by (rule at_shape) (rule st)
  then have "safe (at s) (exec X F (fst r)) (\<lambda>_. at s)" if "xf_match F = m" for F
    unfolding re(3) exec_eqs
    by (intro flat_ok safe_and_then[OF safe_value(2)[OF assms that re(1)]])
      (use safe_set_variable(1)[OF assms that re(2)] u in simp)
  with st show "shape t = shape s \<and> (\<forall>F. xf_match F = m \<longrightarrow> safe (at s) (exec X F (fst r)) (\<lambda>_. at s))" by blast
qed

lemma create_node_ok:
  assumes "setting ctx X m"
  shows "statement_ok ctx X m (CreateGraphNode x l)"
proof (rule statement_okI)
  fix s r t assume c: "check_statement ctx (CreateGraphNode x l) s = (Val r, t)" and s: "s \<noteq> []"
  then obtain rx where rx: "check_add ctx x node_result False s = (Val rx, t)" "fst r = CreateGraphNode (fst rx) l"
    by (auto elim!: and_then_Val)
  have "xf_match (undefined\<lparr>xf_match := m\<rparr>) = m" by simp
  from safe_add_variable(2)[OF assms this rx(1) s] have "t \<noteq> [] \<and> shape (tl t) = shape (tl s)" .
  moreover have "safe (at s) (exec X F (fst r)) (\<lambda>_. at t)" if "xf_match F = m" for F
    unfolding rx(2) exec_eqs
    by (rule safe_and_then[OF safe_check_flag safe_and_then[OF safe_create_graph_node
            safe_add_variable(1)[OF assms that rx(1)]]])
  ultimately show "t \<noteq> [] \<and> shape (tl t) = shape (tl s) \<and>
      (\<forall>F. xf_match F = m \<longrightarrow> safe (at s) (exec X F (fst r)) (\<lambda>_. at t))" by blast
qed

definition checked_env :: "check_ctx \<Rightarrow> xenv \<Rightarrow> ts_match \<Rightarrow> bool" where
  "checked_env ctx X m \<longleftrightarrow> setting ctx X m \<and>
     (\<forall>n h. map_of (xc_shorthands X) n = Some h \<longrightarrow> shorthand_checked ctx h)"

lemma attributes_checked:
  assumes "checked_env ctx X m" "map_run (check_attribute ctx) as s = (Val ra, t)"
  shows "shape t = shape s"
    and "xf_match F = m \<Longrightarrow> (\<And>s a v. safe (at s) (add a v) (\<lambda>_. at (s :: var_result env))) \<Longrightarrow>
      safe (at s) (each_run (exec_attribute n X F add) (map fst ra)) (\<lambda>_. at s)"
  using safe_attributes[OF _ _ assms(2)] assms(1) unfolding checked_env_def by blast+

lemma graph_statements_ok:
  assumes "checked_env ctx X m"
  shows "statement_ok ctx X m (AddGraphNodeAttribute e as l)" "statement_ok ctx X m (CreateEdge e f l)"
    "statement_ok ctx X m (AddEdgeAttribute e f as l)"
proof -
  have set: "setting ctx X m" using assms by (simp add: checked_env_def)
  show "statement_ok ctx X m (AddGraphNodeAttribute e as l)"
  proof (rule statement_ok_flat)
    fix s r t assume "check_statement ctx (AddGraphNodeAttribute e as l) s = (Val r, t)"
    then obtain re u ra where c: "check_expr ctx e s = (Val re, u)" "map_run (check_attribute ctx) as u = (Val ra, t)"
      "fst r = AddGraphNodeAttribute (fst re) (map fst ra) l" by (auto elim!: and_then_Val)
    have u: "u = s" by (rule check_expr_same[OF set c(1)])
    have "safe (at s) (exec X F (fst r)) (\<lambda>_. at s)" if "xf_match F = m" for F
      unfolding c(3) exec_eqs
      by (intro flat_ok safe_and_then[OF safe_graph_ref[OF set that c(1)]])
        (use attributes_checked(2)[OF assms c(2)[unfolded u] that] safe_add_node_attribute in blast)
    with attributes_checked(1)[OF assms c(2)] u
    show "shape t = shape s \<and> (\<forall>F. xf_match F = m \<longrightarrow> safe (at s) (exec X F (fst r)) (\<lambda>_. at s))" by simp
  qed
  show "statement_ok ctx X m (CreateEdge e f l)"
  proof (rule statement_ok_flat)
    fix s r t assume "check_statement ctx (CreateEdge e f l) s = (Val r, t)"
    then obtain re u q where c: "check_expr ctx e s = (Val re, u)" "check_expr ctx f u = (Val q, t)"
      "fst r = CreateEdge (fst re) (fst q) l" by (auto elim!: and_then_Val)
    have u: "u = s" "t = u" by (rule check_expr_same[OF set c(1)], rule check_expr_same[OF set c(2)])
    have "safe (at s) (exec X F (fst r)) (\<lambda>_. at s)" if "xf_match F = m" for F
      unfolding c(3) exec_eqs
      by (intro flat_ok safe_and_then[OF safe_graph_ref[OF set that c(1)]]
          safe_and_then[OF safe_graph_ref[OF set that c(2)[unfolded u(1)]]] safe_create_edge)
    with u show "shape t = shape s \<and> (\<forall>F. xf_match F = m \<longrightarrow> safe (at s) (exec X F (fst r)) (\<lambda>_. at s))" by simp
  qed
  show "statement_ok ctx X m (AddEdgeAttribute e f as l)"
  proof (rule statement_ok_flat)
    fix s r t assume "check_statement ctx (AddEdgeAttribute e f as l) s = (Val r, t)"
    then obtain re u q v ra where c: "check_expr ctx e s = (Val re, u)" "check_expr ctx f u = (Val q, v)"
      "map_run (check_attribute ctx) as v = (Val ra, t)"
      "fst r = AddEdgeAttribute (fst re) (fst q) (map fst ra) l" by (auto elim!: and_then_Val)
    have u: "u = s" "v = u" by (rule check_expr_same[OF set c(1)], rule check_expr_same[OF set c(2)])
    have "safe (at s) (exec X F (fst r)) (\<lambda>_. at s)" if "xf_match F = m" for F
      unfolding c(4) exec_eqs
      by (intro flat_ok safe_and_then[OF safe_graph_ref[OF set that c(1)]]
          safe_and_then[OF safe_graph_ref[OF set that c(2)[unfolded u(1)]]])
        (use attributes_checked(2)[OF assms c(3)[unfolded u] that] safe_add_edge_attribute in blast)
    with attributes_checked(1)[OF assms c(3)] u
    show "shape t = shape s \<and> (\<forall>F. xf_match F = m \<longrightarrow> safe (at s) (exec X F (fst r)) (\<lambda>_. at s))" by simp
  qed
qed

lemma print_ok:
  assumes "setting ctx X m"
  shows "statement_ok ctx X m (Print es l)"
proof (rule statement_ok_flat)
  fix s r t assume "check_statement ctx (Print es l) s = (Val r, t)"
  then obtain rs where c: "map_run (check_expr ctx) es s = (Val rs, t)" "fst r = Print (map fst rs) l"
    by (auto elim!: and_then_Val)
  have "\<forall>F. xf_match F = m \<longrightarrow> safe (at s) (exec X F (fst r)) (\<lambda>_. at s)"
  proof (intro allI impI)
    fix F :: xframe assume F: "xf_match F = m"
    have v: "safe (at s) (eval X F e) (\<lambda>_. at s)" if "e \<in> set (map fst rs)" for e
      by (rule safe_values(3)[OF c(1) _ that]) (use safe_eval(1)[OF assms F] in blast)
    have "safe (at s) (\<lambda>u. (Val (), u\<lparr>xs_printed := xs_printed u @ [CHR 0x0A]\<rparr>)) (\<lambda>_. at s)"
      by (auto intro!: safeI)
    then show "safe (at s) (exec X F (fst r)) (\<lambda>_. at s)"
      unfolding c(2) exec_eqs by (intro flat_ok safe_and_then[OF safe_each_run[OF safe_print_value[OF v]]])
  qed
  moreover have "shape t = shape s"
    using each_checked[OF c(1), where P = "\<lambda>_. True"] check_expr_same[OF assms] by blast
  ultimately show "shape t = shape s \<and> (\<forall>F. xf_match F = m \<longrightarrow> safe (at s) (exec X F (fst r)) (\<lambda>_. at s))" by simp
qed

lemma scan_ok:
  assumes "setting ctx X m" "\<And>a. a \<in> set arms \<Longrightarrow> scan_arm_ok ctx X m a"
  shows "statement_ok ctx X m (Scan e arms l)"
proof (rule statement_ok_flat)
  fix s r t assume "check_statement ctx (Scan e arms l) s = (Val r, t)"
  then obtain re u ra where c: "check_expr ctx e s = (Val re, u)" "map_run (check_scan_arm ctx) arms u = (Val ra, t)"
    "fst r = Scan (fst re) (map fst ra) l" by (auto elim!: and_then_Val dest!: check_same)
  have u: "u = s" by (rule check_expr_same[OF assms(1) c(1)])
  let ?P = "\<lambda>b. \<forall>F w caps. xf_match F = m \<longrightarrow> safe (at s) (scan_body X F w b caps) (\<lambda>_. at s)"
  have ra: "shape t = shape s \<and> (\<forall>b \<in> set (map fst ra). ?P b)"
  proof (rule each_checked[OF c(2)[unfolded u]])
    fix a v r w assume a: "a \<in> set arms" "shape v = shape s" "check_scan_arm ctx a v = (Val r, w)"
    have "at v = at s" by (rule at_shape) (rule a(2))
    with assms(2)[OF a(1)] a(3) show "shape w = shape v \<and> ?P (fst r)" unfolding scan_arm_ok_def by metis
  qed
  have "safe (at s) (exec X F (fst r)) (\<lambda>_. at s)" if F: "xf_match F = m" for F
    unfolding c(3) exec_eqs
    by (intro flat_ok safe_and_then[OF safe_and_then[OF safe_value(2)[OF assms(1) F c(1)] safe_coercions(4)]]
        safe_scan_loop) (use ra F in blast)
  with ra show "shape t = shape s \<and> (\<forall>F. xf_match F = m \<longrightarrow> safe (at s) (exec X F (fst r)) (\<lambda>_. at s))" by blast
qed

lemma if_ok:
  assumes "\<And>a. a \<in> set brms \<Longrightarrow> if_arm_ok ctx X m a"
  shows "statement_ok ctx X m (If brms l)"
proof (rule statement_ok_flat)
  fix s r t assume "check_statement ctx (If brms l) s = (Val r, t)"
  then obtain ra where c: "map_run (check_if_arm ctx) brms s = (Val ra, t)"
    "fst r = If (map fst ra) l" by (auto elim!: and_then_Val)
  have ra: "shape t = shape s \<and> (\<forall>b \<in> set (map fst ra). if_arm_safe X m s b)"
  proof (rule each_checked[OF c(1)])
    fix a v r w assume a: "a \<in> set brms" "shape v = shape s" "check_if_arm ctx a v = (Val r, w)"
    with assms[OF a(1)] show "shape w = shape v \<and> if_arm_safe X m s (fst r)"
      unfolding if_arm_ok_def if_arm_safe_shape[OF a(2), symmetric] by blast
  qed
  have "safe (at s) (exec X F (fst r)) (\<lambda>_. at s)" if F: "xf_match F = m" for F
    unfolding c(2) exec_eqs by (intro flat_ok safe_arms) (use ra F in auto)
  with ra show "shape t = shape s \<and> (\<forall>F. xf_match F = m \<longrightarrow> safe (at s) (exec X F (fst r)) (\<lambda>_. at s))" by blast
qed

lemma for_ok:
  assumes "setting ctx X m" "\<And>st. st \<in> set ss \<Longrightarrow> statement_ok ctx X m st"
  shows "statement_ok ctx X m (ForIn x e ss l)"
proof (rule statement_ok_flat)
  fix s r t assume "check_statement ctx (ForIn x e ss l) s = (Val r, t)"
  then obtain re u where c: "check_expr ctx e s = (Val re, u)"
    and n: "nested (and_then (check_add_unscoped ctx x (to_var (snd re)) False) (\<lambda>_.
         and_then (map_run (check_statement ctx) ss)
         (\<lambda>rs. give (ForIn x (fst re) (map fst rs) l, er_used (snd re) @ concat (map snd rs))))) u = (Val r, t)"
    by (auto elim!: and_then_Val dest!: check_list_value_Val)
  have u: "u = s" by (rule check_expr_same[OF assms(1) c])
  obtain a w rs z where d: "check_add_unscoped ctx x (to_var (snd re)) False (Map.empty # s) = (Val a, w)"
    "map_run (check_statement ctx) ss w = (Val rs, z)" "tl w = s" "t = tl z" "fst r = ForIn x (fst re) (map fst rs) l"
    "w \<noteq> []"
    by (rule check_nested_add[OF n[unfolded u]]) (auto elim!: and_then_Val)
  have blk: "z \<noteq> [] \<and> shape (tl z) = shape (tl w) \<and> (xf_match F = m \<longrightarrow>
      safe (at w) (run_block X (\<lambda>st. in_context (context_of F st)) F (map fst rs)) (\<lambda>_. at z))" for F
    by (rule safe_block[OF _ d(2) _ d(6)]) (auto intro: safe_in_context assms(2))
  have "safe (at s) (exec X F (fst r)) (\<lambda>_. at s)" if F: "xf_match F = m" for F
    unfolding d(5) exec_eqs
    by (intro flat_ok safe_and_then[OF safe_value(2)[OF assms(1) F c]] safe_and_then[OF safe_coercions(1)]
        safe_each_run safe_loop_body[OF assms(1) d(1,3), where v' = z]) (use blk[of F] F d(3) in auto)
  with blk d(3,4) show "shape t = shape s \<and> (\<forall>F. xf_match F = m \<longrightarrow> safe (at s) (exec X F (fst r)) (\<lambda>_. at s))" by simp
qed

lemma scan_arm_checked:
  assumes "\<And>st. st \<in> set ss \<Longrightarrow> statement_ok ctx X m st"
  shows "scan_arm_ok ctx X m (ScanArm regex ss l)"
  unfolding scan_arm_ok_def
proof (intro allI impI)
  fix s r t assume "check_scan_arm ctx (ScanArm regex ss l) s = (Val r, t)"
  then have "nested (and_then (map_run (check_statement ctx) ss)
      (\<lambda>rs. give (ScanArm regex (map fst rs) l, concat (map snd rs)))) s = (Val r, t)" by (auto split: if_splits)
  then obtain u where n: "and_then (map_run (check_statement ctx) ss)
      (\<lambda>rs. give (ScanArm regex (map fst rs) l, concat (map snd rs))) (Map.empty # s) = (Val r, u)" "t = tl u"
    by (rule nested_Val)
  from n(1) obtain rs where c: "map_run (check_statement ctx) ss (Map.empty # s) = (Val rs, u)"
    "fst r = ScanArm regex (map fst rs) l" by (auto elim!: and_then_Val)
  have blk: "u \<noteq> [] \<and> shape (tl u) = shape (tl (Map.empty # s)) \<and> (xf_match F = m \<longrightarrow>
      safe (at (Map.empty # s)) (run_block X (\<lambda>st p. in_context (context_of G st) (in_context k p)) F (map fst rs)) (\<lambda>_. at u))"
    for F G k by (rule safe_block[OF _ c(1)]) (auto intro: safe_in_context assms)
  show "shape t = shape s \<and> (\<forall>F w caps. xf_match F = m \<longrightarrow> safe (at s) (scan_body X F w (fst r) caps) (\<lambda>_. at s))"
    unfolding c(2) scan_body_def
    using blk n(2) by (auto intro!: safe_nested_locals[where u = u])
qed

lemma if_arm_checked:
  assumes "setting ctx X m" "\<And>st. st \<in> set ss \<Longrightarrow> statement_ok ctx X m st"
  shows "if_arm_ok ctx X m (IfArm cs ss l)"
  unfolding if_arm_ok_def
proof (intro allI impI)
  fix s r t assume "check_if_arm ctx (IfArm cs ss l) s = (Val r, t)"
  then obtain rc v where k: "map_run (check_condition ctx) cs s = (Val rc, v)"
    and "nested (and_then (map_run (check_statement ctx) ss)
      (\<lambda>rs. give (IfArm (map fst rc) (map fst rs) l, concat (map snd rc) @ concat (map snd rs)))) v = (Val r, t)"
    by (auto elim!: and_then_Val)
  from this(2) obtain u where n: "and_then (map_run (check_statement ctx) ss)
      (\<lambda>rs. give (IfArm (map fst rc) (map fst rs) l, concat (map snd rc) @ concat (map snd rs))) (Map.empty # v) = (Val r, u)"
      "t = tl u"
    by (rule nested_Val)
  from n(1) obtain rs where c: "map_run (check_statement ctx) ss (Map.empty # v) = (Val rs, u)"
    "fst r = IfArm (map fst rc) (map fst rs) l" by (auto elim!: and_then_Val)
  have F0: "xf_match (undefined\<lparr>xf_match := m\<rparr>) = m" by simp
  let ?P = "\<lambda>b. \<forall>F. xf_match F = m \<longrightarrow> safe (at s) (eval_condition X F b) (\<lambda>_. at s)"
  have conds: "shape v = shape s \<and> (\<forall>b \<in> set (map fst rc). ?P b)"
  proof (rule each_checked[OF k])
    fix c w q z assume a: "shape w = shape s" "check_condition ctx c w = (Val q, z)"
    have "at w = at s" by (rule at_shape) (rule a(1))
    with safe_condition(2)[OF assms(1) _ a(2)] safe_condition(1)[OF assms(1) F0 a(2)]
    show "shape z = shape w \<and> ?P (fst q)" by simp
  qed
  have "at (Map.empty # v) = at (Map.empty # s)" by (rule at_shape) (use conds in simp)
  moreover have "u \<noteq> [] \<and> shape (tl u) = shape (tl (Map.empty # v)) \<and> (xf_match F = m \<longrightarrow>
      safe (at (Map.empty # v)) (run_block X (\<lambda>st. in_context (context_of F st)) F (map fst rs)) (\<lambda>_. at u))" for F
    by (rule safe_block[OF _ c(1)]) (auto intro: safe_in_context assms(2))
  ultimately have blk: "u \<noteq> [] \<and> shape (tl u) = shape v \<and> (xf_match F = m \<longrightarrow>
      safe (at (Map.empty # s)) (run_block X (\<lambda>st. in_context (context_of F st)) F (map fst rs)) (\<lambda>_. at u))" for F
    by simp
  with conds n(2) show "shape t = shape s \<and> if_arm_safe X m s (fst r)"
    unfolding c(2) if_arm_safe_def by (auto intro!: safe_nested_locals[where u = u])
qed

lemma statements_ok:
  assumes "checked_env ctx X m"
  shows "statement_ok ctx X m st" "scan_arm_ok ctx X m sa" "if_arm_ok ctx X m ia"
proof (induction st and sa and ia rule: statement.induct scan_arm.induct if_arm.induct)
qed (use assms in \<open>simp_all add: declare_statement_ok assign_ok create_node_ok graph_statements_ok print_ok
      scan_ok if_ok for_ok scan_arm_checked if_arm_checked checked_env_def[of ctx X m]\<close>)

section \<open>Stanzas and files\<close>

definition stanza_ctx :: "var_result env \<Rightarrow> (string \<Rightarrow> bool) \<Rightarrow> ts_query \<Rightarrow> nat \<Rightarrow> stanza \<Rightarrow> check_ctx" where
  "stanza_ctx globals nullable fq i z =
     \<lparr>ck_globals = globals, ck_file_query = fq, ck_stanza_index = i, ck_stanza_query = sz_query z,
      ck_nullable = nullable\<rparr>"

lemma check_stanza_Val:
  assumes "check_stanza order nullable globals fq i z = Val z'"
  obtains rs t where "map_run (check_statement (stanza_ctx globals nullable fq i z)) (sz_statements z) [Map.empty] = (Val rs, t)"
    "sz_statements z' = map fst rs" "sz_query z' = sz_query z"
proof -
  let ?ctx = "stanza_ctx globals nullable fq i z"
  obtain full where full: "capture_index_for_name fq full_match = Some full"
    using assms by (auto simp: check_stanza_def split: option.splits)
  let ?m = "and_then (map_run (check_statement ?ctx) (sz_statements z)) (\<lambda>rs.
             (let unused = order (unused_captures z (concat (map snd rs))) in
              if unused \<noteq> [] then fail (UnusedCaptures (join_with '' '' (map (\<lambda>c. CHR ''@'' # c) unused)) (sz_start z))
              else give (z\<lparr>sz_statements := map fst rs, sz_full_file := full\<rparr>)))"
  have "fst (?m [Map.empty]) = Val z'" using assms full by (simp add: check_stanza_def stanza_ctx_def Let_def)
  then obtain t where "?m [Map.empty] = (Val z', t)" by (cases "?m [Map.empty]") auto
  then show ?thesis by (rule and_then_Val) (auto simp: Let_def split: if_splits intro: that)
qed

lemma safe_sound: "safe P m Q \<Longrightarrow> P s \<Longrightarrow> sound (fst (m s))"
  by (cases "m s") (auto simp: safe_def)

lemma safe_always:
  assumes "\<And>s. sound (fst (m s))"
  shows "safe (\<lambda>_. True) m (\<lambda>_ _. True)"
proof (rule safeI)
  fix s r t assume "m s = (r, t)"
  with assms[of s] show "sound r \<and> (\<forall>a. r = Val a \<longrightarrow> True)" by simp
qed

lemma stanza_sound:
  assumes "check_stanza order nullable globals fq i z = Val z'"
    and env: "checked_env (stanza_ctx globals nullable fq i z) X m"
  shows "sound (fst (exec_stanza X z' m s))"
proof -
  let ?ctx = "stanza_ctx globals nullable fq i z"
  obtain rs t where c: "map_run (check_statement ?ctx) (sz_statements z) [Map.empty] = (Val rs, t)"
    "sz_statements z' = map fst rs"
    using check_stanza_Val[OF assms(1)] .
  have w: "at [Map.empty :: var_result scope] (s\<lparr>xs_locals := [Map.empty]\<rparr>)" by (simp add: at_def)
  show ?thesis
  proof (cases "frame_of z' m")
    case None
    have "safe (at [Map.empty :: var_result scope]) (each_run (\<lambda>st. panic ''missing full capture'') (sz_statements z')) (\<lambda>_. at [Map.empty :: var_result scope])"
      by (rule safe_each_run) (simp add: safe_panic capture_panic_def)
    from safe_sound[OF this w] None show ?thesis by (simp add: exec_stanza_def)
  next
    case (Some F)
    then have "xf_match F = m" by (auto simp: frame_of_def split: list.splits)
    moreover have "\<forall>st \<in> set (sz_statements z). statement_ok ?ctx X m st" using statements_ok(1)[OF env] by blast
    ultimately have "safe (at [Map.empty :: var_result scope]) (run_block X (\<lambda>st. in_context (context_of F st)) F (map fst rs)) (\<lambda>_. at t)"
      using safe_block[OF _ c(1), of "\<lambda>st. in_context (context_of F st)" X m F] safe_in_context by blast
    from safe_sound[OF this w] Some show ?thesis by (simp add: exec_stanza_def run_block_def c(2))
  qed
qed

lemma check_stanzas_Val:
  "check_stanzas chk k zs = Val zs' \<Longrightarrow>
    length zs' = length zs \<and> (\<forall>i < length zs. chk (k + i) (zs ! i) = Val (zs' ! i))"
proof (induction zs arbitrary: k zs')
  case (Cons z zs)
  then obtain y ys where "chk k z = Val y" "check_stanzas chk (k + 1) zs = Val ys" "zs' = y # ys"
    by (auto split: run.splits)
  with Cons.IH[OF this(2)] show ?case by (auto simp: nth_Cons split: nat.split)
qed simp

lemma checked_global_names:
  "check_globals_of gs s = (Val u, t) \<Longrightarrow> s \<noteq> [] \<Longrightarrow>
    (var_get x t = None \<longleftrightarrow> var_get x s = None \<and> x \<notin> go_name ` set gs)"
proof (induction gs arbitrary: s)
  case (Cons g gs)
  then obtain s' where s': "var_add (go_name g) \<lparr>vr_local = True, vr_quantifier = go_quantifier g\<rparr> False s = Inr s'"
    "check_globals_of gs s' = (Val u, t)" by (auto split: sum.splits)
  then obtain f r where s: "s = f # r" "f (go_name g) = None"
    "s' = f(go_name g \<mapsto> (\<lparr>vr_local = True, vr_quantifier = go_quantifier g\<rparr>, False)) # r"
    using Cons.prems(2) by (cases s) (auto split: option.splits)
  have "var_get x s' = None \<longleftrightarrow> var_get x s = None \<and> x \<noteq> go_name g" using s by (auto split: option.splits)
  with Cons.IH[OF s'(2)] s(3) show ?case by auto
qed simp

lemma globals_get_add:
  "globals_add y v gs = Inr gs' \<Longrightarrow> globals_get x gs' = (if x = y then Some v else globals_get x gs)"
  by (cases gs) (auto simp: update_conv' split: option.splits)

lemma execution_global_names:
  "check_globals gs g = Inr g' \<Longrightarrow>
    (globals_get x g' = None \<longleftrightarrow> globals_get x g = None \<and> x \<notin> go_name ` set gs)"
proof (induction gs arbitrary: g)
  case (Cons d gs)
  show ?case
  proof (cases "globals_get (go_name d) g")
    case None
    with Cons.prems obtain v g1 where "globals_add (go_name d) v g = Inr g1" "check_globals gs g1 = Inr g'"
      by (auto split: option.splits sum.splits)
    with Cons.IH[OF this(2)] None show ?thesis by (simp add: globals_get_add)
  next
    case (Some v)
    with Cons.prems have "check_globals gs g = Inr g'" by (auto split: if_splits)
    with Cons.IH[OF this] Some show ?thesis by auto
  qed
qed simp

lemma check_globals_sound: "check_globals gs g = Inl e \<Longrightarrow> \<not> scope_error (root_cause e)"
  by (induction gs g rule: check_globals.induct) (auto split: option.splits sum.splits if_splits)

text \<open>The conditions under which a checked file is run: the caller passes no global that the file
  does not declare, the cursor returns matches that fit the quantifiers of the file's query, and
  the shorthands would pass the check that the checker does not make.\<close>

definition declared_globals :: "dsl_file \<Rightarrow> var_result env" where
  "declared_globals f = snd (check_globals_of (df_globals f) [Map.empty])"

definition only_declared :: "dsl_file \<Rightarrow> globals \<Rightarrow> bool" where
  "only_declared f gs \<longleftrightarrow> set (map fst (concat gs)) \<subseteq> go_name ` set (df_globals f)"

definition matches_fit :: "(ts_query \<Rightarrow> ts_match list) \<Rightarrow> dsl_file \<Rightarrow> bool" where
  "matches_fit matches f \<longleftrightarrow>
     (\<forall>(k, z) \<in> set (enumerate 0 (df_stanzas f)). \<forall>m \<in> set (matches (sz_query z)).
        match_fits (the (df_query f)) k (sz_query z) m)"

definition shorthands_checked :: "(string \<Rightarrow> bool) \<Rightarrow> dsl_file \<Rightarrow> bool" where
  "shorthands_checked nullable f \<longleftrightarrow>
     (\<forall>(k, z) \<in> set (enumerate 0 (df_stanzas f)). \<forall>h \<in> set (map snd (df_shorthands f)).
        shorthand_checked (stanza_ctx (declared_globals f) nullable (the (df_query f)) k z) h)"

lemma globals_get_member: "globals_get x gs \<noteq> None \<longleftrightarrow> x \<in> set (map fst (concat gs))"
proof (induction gs)
  case (Cons vs gs)
  show ?case using Cons map_of_eq_None_iff[of vs x] by (cases "map_of vs x") (auto simp: image_Un)
qed simp

lemma check_file_Val:
  assumes "check_file order nullable f = Val f'"
  obtains u fq zs where "check_globals_of (df_globals f) [Map.empty] = (Val u, declared_globals f)"
    "df_query f = Some fq" "f' = f\<lparr>df_stanzas := zs\<rparr>"
    "check_stanzas (check_stanza order nullable (declared_globals f) fq) 0 (df_stanzas f) = Val zs"
  using assms by (auto simp: check_file_def declared_globals_def split: prod.splits run.splits option.splits)

lemma execution_env:
  assumes "check_globals_of (df_globals f) [Map.empty] = (Val u, declared_globals f)"
    "check_globals (df_globals f) (globals_nested gs) = Inr gs'" "only_declared f gs"
  shows "var_get x (declared_globals f) = None \<longleftrightarrow> globals_get x gs' = None"
  using checked_global_names[OF assms(1), of x] execution_global_names[OF assms(2), of x]
    globals_get_member[of x gs] assms(3)
  by (auto simp: globals_nested_def only_declared_def)

lemma file_sound:
  assumes "check_file order nullable f = Val f'" "only_declared f (xc_globals X)" "matches_fit matches f"
    "shorthands_checked nullable f" "library_sound (xc_functions X)"
  shows "sound (fst (exec_strict matches f' X s))"
proof -
  obtain u fq zs where f: "check_globals_of (df_globals f) [Map.empty] = (Val u, declared_globals f)"
    "df_query f = Some fq" "f' = f\<lparr>df_stanzas := zs\<rparr>"
    "check_stanzas (check_stanza order nullable (declared_globals f) fq) 0 (df_stanzas f) = Val zs"
    by (rule check_file_Val[OF assms(1)])
  show ?thesis
  proof (cases "check_globals (df_globals f) (globals_nested (xc_globals X))")
    case (Inl e)
    then show ?thesis by (simp add: exec_strict_def f(3) fail_def check_globals_sound)
  next
    case (Inr gs)
    let ?Y = "X\<lparr>xc_globals := gs, xc_inherited := df_inherited f, xc_shorthands := df_shorthands f\<rparr>"
    have "safe (\<lambda>_. True) (each_run (exec_stanza ?Y z') (matches (sz_query z'))) (\<lambda>_ _. True)"
      if mem: "z' \<in> set zs" for z'
    proof (rule safe_each_run)
      fix m assume m: "m \<in> set (matches (sz_query z'))"
      from mem obtain k where k: "k < length zs" "z' = zs ! k" by (auto simp: in_set_conv_nth)
      with check_stanzas_Val[OF f(4)] have z: "k < length (df_stanzas f)"
        "check_stanza order nullable (declared_globals f) fq k (df_stanzas f ! k) = Val z'" by auto
      have in_file: "(k, df_stanzas f ! k) \<in> set (enumerate 0 (df_stanzas f))"
        using z(1) by (auto simp: in_set_enumerate_eq)
      have sq: "sz_query z' = sz_query (df_stanzas f ! k)" by (rule check_stanza_Val[OF z(2)])
      let ?ctx = "stanza_ctx (declared_globals f) nullable fq k (df_stanzas f ! k)"
      have "match_fits fq k (sz_query (df_stanzas f ! k)) m"
        using assms(3) in_file m sq f(2) by (auto simp: matches_fit_def)
      moreover have "shorthand_checked ?ctx h" if "map_of (df_shorthands f) n = Some h" for n h
      proof -
        have "h \<in> set (map snd (df_shorthands f))" using map_of_SomeD[OF that] by force
        with assms(4) in_file f(2) show ?thesis unfolding shorthands_checked_def by fastforce
      qed
      ultimately have "checked_env ?ctx ?Y m"
        using execution_env[OF f(1) Inr assms(2)] assms(5)
        by (auto simp: checked_env_def setting_def stanza_ctx_def)
      from stanza_sound[OF z(2) this] show "safe (\<lambda>_. True) (exec_stanza ?Y z' m) (\<lambda>_ _. True)"
        by (rule safe_always)
    qed
    then have "safe (\<lambda>_. True) (each_run (\<lambda>z. each_run (exec_stanza ?Y z) (matches (sz_query z))) zs) (\<lambda>_ _. True)"
      by (rule safe_each_run)
    from safe_sound[OF this, of s] show ?thesis by (simp add: exec_strict_def f(3) Inr Let_def)
  qed
qed

section \<open>The standard library fails for reasons of its own\<close>

abbreviation always :: "('s, 'a) exec \<Rightarrow> bool" where
  "always m \<equiv> safe (\<lambda>_. True) m (\<lambda>_ _. True)"

lemma always_and_then [intro]: "always m \<Longrightarrow> (\<And>a. always (f a)) \<Longrightarrow> always (and_then m f)"
  by (rule safe_and_then)

lemma always_give [simp]: "always (give a)"
  by (simp add: safe_give)

lemma always_param [simp]: "always param" "always finish_params"
proof -
  have "sound (fst (param s))" "sound (fst (finish_params s))" for s
    by (cases s rule: param.cases; simp)+
  then show "always param" "always finish_params" by (simp_all add: safe_always)
qed

lemma coercion_errors [simp]:
  "into_boolean v = Inl e \<Longrightarrow> \<not> scope_error (root_cause e)" "into_integer v = Inl e \<Longrightarrow> \<not> scope_error (root_cause e)"
  "into_string v = Inl e \<Longrightarrow> \<not> scope_error (root_cause e)" "into_list v = Inl e \<Longrightarrow> \<not> scope_error (root_cause e)"
  "into_syntax_node_ref v = Inl e \<Longrightarrow> \<not> scope_error (root_cause e)"
  by (auto simp: into_boolean_def into_integer_def into_string_def into_list_def into_syntax_node_ref_def
      split: gval.splits)

lemma always_param_as:
  "(\<And>v e. coerce v = Inl e \<Longrightarrow> \<not> scope_error (root_cause e)) \<Longrightarrow> always (param_as coerce)"
  unfolding param_as_def by (intro always_and_then always_param safe_weaken[OF safe_from_sum]) auto

lemma always_params [simp]:
  "always (param_as into_boolean)" "always (param_as into_string)" "always (param_as into_list)"
  "always (param_as into_syntax_node_ref)"
  by (rule always_param_as, simp)+

lemma always_failed [simp]: "always (function_failed n t)"
  by (simp add: function_failed_def safe_fail)

lemma always_node [simp]: "always node_param"
  unfolding node_param_def
  by (intro always_and_then always_params safe_always)
    (simp add: panic_def give_def capture_panic_def split: option.split)

lemma always_fold_params:
  assumes "\<And>v e. coerce v = Inl e \<Longrightarrow> \<not> scope_error (root_cause e)"
  shows "always (\<lambda>(g, vs). fold_params coerce f b g vs)"
proof (rule safe_always)
  show "sound (fst (case s of (g, vs) \<Rightarrow> fold_params coerce f b g vs))" for s
  proof (cases s)
    case (Pair g vs)
    have "sound (fst (fold_params coerce f b g vs))"
      using assms by (induction coerce f b g vs rule: fold_params.induct) (auto split: sum.split)
    with Pair show ?thesis by simp
  qed
qed

lemma format_loop_eqs:
  "format_loop t i r [] = give r"
  "format_loop t i r (c # cs) =
     (if c = ''{'' then
        (case cs of [] \<Rightarrow> function_failed ''format'' (end_open t)
         | d # ds \<Rightarrow>
             if d = ''{'' then format_loop t (i + 2) (r @ ''{'') ds
             else if d = ''}'' then and_then param (\<lambda>v. format_loop t (i + 2) (r @ show_value v) ds)
             else function_failed ''format'' (stray_open d (i + 1) t))
      else if c = ''}'' then
        (case cs of [] \<Rightarrow> function_failed ''format'' (end_close t)
         | d # ds \<Rightarrow>
             if d = ''}'' then format_loop t (i + 2) (r @ ''}'') ds
             else function_failed ''format'' (stray_close d (i + 1) t))
      else format_loop t (i + 1) (r @ c) cs)"
  by (rule ext, simp split: list.split)+

lemma always_format: "always (format_loop t i r cs)"
proof (induction "length cs" arbitrary: i r cs rule: less_induct)
  case less
  show ?case
  proof (cases cs)
    case (Cons c ds)
    have ih: "always (format_loop t j q es)" if "length es \<le> length ds" for j q es
      using less[of es] that Cons by simp
    show ?thesis unfolding Cons format_loop_eqs
      by (auto split: list.split intro!: ih always_and_then)
  qed (simp add: format_loop_eqs)
qed

definition sound_fn :: "fn \<Rightarrow> bool" where
  "sound_fn f \<longleftrightarrow> (\<forall>rx src. always (f rx src))"

lemma sound_node_fn: "sound_fn (node_fn f)"
  unfolding sound_fn_def node_fn_def[abs_def] by (auto intro!: always_and_then)

lemma sound_functions:
  "sound_fn fn_eq" "sound_fn fn_is_null" "sound_fn fn_named_child_index" "sound_fn fn_source_text"
  "sound_fn fn_node" "sound_fn fn_not" "sound_fn fn_and" "sound_fn fn_or" "sound_fn fn_plus"
  "sound_fn fn_format" "sound_fn fn_replace" "sound_fn fn_concat" "sound_fn fn_is_empty" "sound_fn fn_join"
  "sound_fn fn_length"
proof -
  show "sound_fn fn_eq" "sound_fn fn_is_null"
    by (auto simp: sound_fn_def fn_eq_def fn_is_null_def intro!: always_and_then)
  show "sound_fn fn_named_child_index" "sound_fn fn_source_text"
    by (auto simp: sound_fn_def fn_named_child_index_def fn_source_text_def Let_def capture_panic_def
        intro!: always_and_then safe_panic split: option.split)
  have "always (\<lambda>(g, vs). case add_graph_node g of (r, g') \<Rightarrow> (Val (GraphNode r), g', vs))"
    by (rule safe_always) (simp split: prod.split)
  then show "sound_fn fn_node"
    unfolding sound_fn_def fn_node_def by (auto intro!: always_and_then)
  show "sound_fn fn_not" "sound_fn fn_and" "sound_fn fn_or" "sound_fn fn_plus" "sound_fn fn_concat"
    by (auto simp: sound_fn_def fn_not_def fn_and_def fn_or_def fn_plus_def fn_concat_def
        intro!: always_and_then always_fold_params)
  show "sound_fn fn_format" by (auto simp: sound_fn_def fn_format_def intro!: always_and_then always_format)
  show "sound_fn fn_replace"
    by (auto simp: sound_fn_def fn_replace_def intro!: always_and_then split: option.split)
  show "sound_fn fn_is_empty" "sound_fn fn_length"
    by (auto simp: sound_fn_def fn_is_empty_def fn_length_def intro!: always_and_then)
  have "always (\<lambda>s. if snd s = [] then give [] s else param_as into_string s)"
    by (rule safe_always) (simp add: safe_sound[OF always_params(2)] give_def)
  then show "sound_fn fn_join" unfolding sound_fn_def fn_join_def by (auto intro!: always_and_then)
qed

lemma library_soundI:
  assumes "\<forall>f \<in> set (map snd fs). sound_fn f"
  shows "library_sound fs"
  unfolding library_sound_def
proof (intro allI)
  fix n rx src g vs
  show "sound (fst (call_function fs n rx src g vs))"
  proof (cases "map_of fs n")
    case (Some f)
    then have "sound_fn f" using assms map_of_SomeD[OF Some] by force
    then have "sound (fst (f rx src (g, vs)))" unfolding sound_fn_def by (blast intro: safe_sound)
    with Some show ?thesis by (cases "f rx src (g, vs)") (simp add: call_function_def)
  qed (simp add: call_function_def)
qed

lemma set_add_function: "f \<in> set (map snd (add_function n h fs)) \<Longrightarrow> f = h \<or> f \<in> set (map snd fs)"
  by (induction fs) (auto simp: add_function_def split: if_splits)

lemma library_added:
  "\<forall>f \<in> set (map snd fs). sound_fn f \<Longrightarrow> sound_fn h \<Longrightarrow> \<forall>f \<in> set (map snd (add_function n h fs)). sound_fn f"
  using set_add_function by blast

lemma library_fold:
  "list_all (\<lambda>p. sound_fn (snd p)) nfs \<Longrightarrow> \<forall>f \<in> set (map snd fs). sound_fn f \<Longrightarrow>
    \<forall>f \<in> set (map snd (fold (\<lambda>(n, f). add_function n f) nfs fs)). sound_fn f"
proof (induction nfs arbitrary: fs)
  case (Cons p nfs)
  obtain n f where p: "p = (n, f)" by fastforce
  have "\<forall>f \<in> set (map snd (add_function n f fs)). sound_fn f"
    by (rule library_added[OF Cons.prems(2)]) (use Cons.prems(1) p in simp)
  from Cons.IH[OF _ this] Cons.prems(1) p show ?case by (simp del: set_map)
qed simp

lemma sound_node_functions:
  "sound_fn fn_start_row" "sound_fn fn_start_column" "sound_fn fn_end_row" "sound_fn fn_end_column"
  "sound_fn fn_node_type" "sound_fn fn_named_child_count"
  unfolding fn_start_row_def fn_start_column_def fn_end_row_def fn_end_column_def fn_node_type_def
    fn_named_child_count_def by (rule sound_node_fn)+

lemma stdlib_sound: "library_sound stdlib"
  unfolding stdlib_def
  by (intro library_soundI library_fold)
    (simp_all add: sound_functions sound_node_functions)

end
