(* ===== verification/Tsg_Theorems.thy ===== *)
theory Tsg_Theorems
  imports Tsg_Soundness
begin

text \<open>
  The theorems on graph language files, each with a concrete file that it applies to.
\<close>

section \<open>A small file\<close>

definition origin :: loc where
  "origin = Location 0 0"

definition uvariable :: "ident \<Rightarrow> variable" where
  "uvariable x = Unscoped (UnscopedVariable x origin)"

definition demo_query :: ts_query where
  "demo_query = \<lparr>tq_captures = [''x'', full_match], tq_patterns = 1, tq_quantifiers = \<lambda>p j. QOne\<rparr>"

definition demo_capture :: "quantifier \<Rightarrow> expr" where
  "demo_capture q = CaptureExpr (Capture ''x'' q 0 0 origin)"

definition demo_stanza :: "statement list \<Rightarrow> stanza" where
  "demo_stanza ss = \<lparr>sz_query = demo_query, sz_statements = ss, sz_full_stanza = 1, sz_full_file = 1,
     sz_start = origin, sz_end = origin\<rparr>"

definition demo_statements :: "quantifier \<Rightarrow> statement list" where
  "demo_statements q =
     [CreateGraphNode (uvariable ''n'') origin,
      DeclareMutable (uvariable ''y'') (demo_capture q) origin,
      Assign (uvariable ''y'') (VariableExpr (uvariable ''name'')) origin,
      AddGraphNodeAttribute (VariableExpr (uvariable ''n'')) [Attribute ''at'' (VariableExpr (uvariable ''y''))] origin]"

definition demo_file :: "statement list \<Rightarrow> (ident \<times> shorthand) list \<Rightarrow> dsl_file" where
  "demo_file ss shs = \<lparr>df_globals = [\<lparr>go_name = ''name'', go_quantifier = QOne, go_default = Some ''main'', go_loc = origin\<rparr>],
     df_inherited = [], df_query = Some demo_query, df_stanzas = [demo_stanza ss], df_shorthands = shs\<rparr>"

definition demo_node :: ts_node where
  "demo_node = TsNode 7 ''module'' (0, 0) (0, 4) (0, 4) [] None"

definition demo_matches :: "ts_query \<Rightarrow> ts_match list" where
  "demo_matches q = [\<lparr>tm_pattern = 0, tm_captures = [(0, demo_node), (1, demo_node)]\<rparr>]"

definition demo_env :: "(ident \<times> shorthand) list \<Rightarrow> xenv" where
  "demo_env shs = \<lparr>xc_source = ''main'',
     xc_regex = \<lparr>regex_error = \<lambda>p. None, captures = \<lambda>p t. None, replace_all = \<lambda>p t r. t\<rparr>,
     xc_functions = stdlib, xc_globals = [], xc_location_attr = None, xc_variable_name_attr = None,
     xc_match_node_attr = None, xc_inherited = [], xc_shorthands = shs, xc_cancelled = \<lambda>n. False, xc_stack = 100\<rparr>"

lemmas demo_defs = demo_file_def demo_stanza_def demo_query_def demo_statements_def demo_capture_def
  uvariable_def origin_def full_match_def

lemma demo_checked:
  "check_file id (\<lambda>r. False) (demo_file (demo_statements QZero) []) = Val (demo_file (demo_statements QOne) [])"
  by (simp add: demo_defs check_file_def check_stanza_def capture_index_for_name_def check_declare_def
      check_add_unscoped_def check_set_unscoped_def check_get_unscoped_def check_capture_def check_attribute_def
      and_then_def give_def unused_captures_def Let_def node_result_def to_var_def of_var_def starts_with_def)

lemma demo_runs:
  "fst (execute_strict_into demo_matches (demo_file (demo_statements QOne) []) (demo_env []) new_graph) = Val ()"
  by code_simp

section \<open>A checked file is sound\<close>

lemma demo_conditions:
  "only_declared (demo_file ss shs) (xc_globals (demo_env shs))"
  "matches_fit demo_matches (demo_file ss shs)"
  "shorthands_checked nullable (demo_file ss [])"
  "library_sound (xc_functions (demo_env shs))"
  by (auto simp: only_declared_def demo_env_def matches_fit_def match_fits_def demo_matches_def shorthands_checked_def
      demo_defs capture_index_for_name_def nodes_for_capture_index_def stdlib_sound Let_def split: if_splits)

text \<open>
  C10: strict execution of a file that the checker accepted never fails because of the file's own
  variables (an undefined one, one defined twice, an immutable one assigned, whether local or global)
  and never panics on a capture without a node or quantifier, for any source, tree and cancellation.
  The caller must pass no global that the file does not declare, the matches must fit the quantifiers
  of the query, and the attribute shorthands must satisfy the check that the checker leaves out.
\<close>

theorem checked_file_is_scope_safe:
  assumes "check_file order nullable f = Val f'"
    and "only_declared f (xc_globals X)"
    and "matches_fit matches f"
    and "shorthands_checked nullable f"
    and "library_sound (xc_functions X)"
  shows "sound (fst (execute_strict_into matches f' X g))"
  using file_sound[OF assms, of "start_state g"]
  by (cases "exec_strict matches f' X (start_state g)") (simp add: execute_strict_into_def)

theorem checked_file_is_scope_safe_witness:
  "check_file id (\<lambda>r. False) (demo_file (demo_statements QZero) []) = Val (demo_file (demo_statements QOne) []) \<and>
   sound (fst (execute_strict_into demo_matches (demo_file (demo_statements QOne) []) (demo_env []) new_graph)) \<and>
   fst (execute_strict_into demo_matches (demo_file (demo_statements QOne) []) (demo_env []) new_graph) = Val ()"
  using checked_file_is_scope_safe[OF demo_checked demo_conditions(1)[of _ "[]"] demo_conditions(2,3)
      demo_conditions(4)[of "[]"], of new_graph] demo_checked demo_runs
  by blast

section \<open>What the checker leaves out\<close>

lemma capture_without_quantifier:
  "eval X F (CaptureExpr (Capture c QZero i j l)) s = (Panics ''internal error: entered unreachable code'', s)"
  by (simp add: eval_capture_def from_nodes_def panic_def)

text \<open>A shorthand with a capture passes the checker, which never looks at shorthands, and the first
  use of the shorthand panics: nothing has given the capture its quantifier.\<close>

definition capturing_shorthand :: shorthand where
  "capturing_shorthand = \<lparr>sh_name = ''mark'', sh_variable = UnscopedVariable ''v'' origin,
     sh_attributes = [Attribute ''on'' (demo_capture QZero)], sh_loc = origin\<rparr>"

definition endless_shorthand :: shorthand where
  "endless_shorthand = \<lparr>sh_name = ''mark'', sh_variable = UnscopedVariable ''v'' origin,
     sh_attributes = [Attribute ''mark'' TrueLiteral], sh_loc = origin\<rparr>"

definition marking_statements :: "quantifier \<Rightarrow> statement list" where
  "marking_statements q =
     [CreateGraphNode (uvariable ''n'') origin,
      DeclareImmutable (uvariable ''y'') (demo_capture q) origin,
      AddGraphNodeAttribute (VariableExpr (uvariable ''n'')) [Attribute ''mark'' NullLiteral] origin]"

lemma marking_checked:
  "check_file id (\<lambda>r. False) (demo_file (marking_statements QZero) shs) = Val (demo_file (marking_statements QOne) shs)"
  by (simp add: demo_defs marking_statements_def check_file_def check_stanza_def capture_index_for_name_def check_declare_def
      check_add_unscoped_def check_set_unscoped_def check_get_unscoped_def check_capture_def check_attribute_def
      and_then_def give_def unused_captures_def Let_def node_result_def to_var_def of_var_def starts_with_def)

theorem unchecked_shorthand_panics:
  "check_file id (\<lambda>r. False) (demo_file (marking_statements QZero) [(''mark'', capturing_shorthand)])
     = Val (demo_file (marking_statements QOne) [(''mark'', capturing_shorthand)]) \<and>
   fst (execute_strict_into demo_matches (demo_file (marking_statements QOne) [(''mark'', capturing_shorthand)])
     (demo_env []) new_graph) = Panics ''internal error: entered unreachable code''"
proof (rule conjI[OF marking_checked])
  show "fst (execute_strict_into demo_matches (demo_file (marking_statements QOne) [(''mark'', capturing_shorthand)])
     (demo_env []) new_graph) = Panics ''internal error: entered unreachable code''"
    by code_simp
qed

text \<open>A shorthand that names itself is expanded until the stack is full, however large it is.\<close>

lemma endless_expansion:
  assumes "map_of (xc_shorthands X) ''mark'' = Some endless_shorthand" "globals_get ''v'' (xc_globals X) = None"
    "\<And>k. \<not> xc_cancelled X k"
  shows "fst (exec_attribute n X F add (Attribute ''mark'' TrueLiteral) s) = Panics ''stack overflow''"
proof (induction n arbitrary: s)
  case (Suc n)
  have b: "fst (exec_attribute n X F add (Attribute ''mark'' TrueLiteral) t) = Panics ''stack overflow''" for t
    by (rule Suc)
  show ?case
    by (simp add: and_then_def check_flag_def Let_def assms give_def endless_shorthand_def fresh_locals_def
        add_unscoped_def split: prod.split run.split)
      (metis (no_types, lifting) b fst_conv run.distinct run.inject(3))
qed (simp add: panic_def)

end
