(* ===== verification/Tsg_Parser.thy ===== *)
theory Tsg_Parser
  imports Tsg_Checker Tsg_Functions
begin

text \<open>
  The parser of graph language files (\<open>parser.rs\<close>): a state with the characters that are left, the
  offset and the location, and parsers that take it. The Unicode tables outside ASCII, the regex
  crate and tree-sitter's query compiler are parameters. A parser that calls itself is built from
  one that takes the parser of its parts: \<open>parse_expression n\<close> and \<open>parse_statement n\<close> nest at most
  \<open>n\<close> deep, and a loop runs at most once for each character that is left; beyond that the model has
  the panic \<open>out of fuel\<close>, which a parse never reaches (\<open>Tsg_Parser_Facts\<close>).
\<close>

section \<open>Errors, environment and state\<close>

record query_error =
  qe_row :: nat
  qe_column :: nat
  qe_offset :: nat
  qe_message :: string

datatype parse_error = ExpectedQuantifier loc | ExpectedToken string loc | ExpectedVariable loc
  | ExpectedUnscopedVariable loc | InvalidRegex string loc | InvalidRegexCapture loc
  | QueryError query_error | UnexpectedCharacter string string loc | UnexpectedEOF loc
  | UnexpectedKeyword string loc | UnexpectedLiteral string loc | UnexpectedQueryPatterns loc
  | CheckFailed check_error

fun parse_error_text :: "parse_error \<Rightarrow> string" where
  "parse_error_text (ExpectedQuantifier l) = ''Expected quantifier'' @ at_loc l"
| "parse_error_text (ExpectedToken t l) = ''Expected '' @ [CHR 0x27] @ t @ [CHR 0x27] @ at_loc l"
| "parse_error_text (ExpectedVariable l) = ''Expected variable name'' @ at_loc l"
| "parse_error_text (ExpectedUnscopedVariable l) = ''Expected unscoped variable'' @ at_loc l"
| "parse_error_text (InvalidRegex r l) = ''Invalid regular expression /'' @ r @ ''/'' @ at_loc l"
| "parse_error_text (InvalidRegexCapture l) = ''Expected integer constant in regex capture'' @ at_loc l"
| "parse_error_text (QueryError e) = ''Invalid query pattern: '' @ qe_message e"
| "parse_error_text (UnexpectedCharacter c w l) =
     ''Unexpected character '' @ [CHR 0x27] @ c @ [CHR 0x27] @ '' in '' @ w @ at_loc l"
| "parse_error_text (UnexpectedEOF l) = ''Unexpected end of file'' @ at_loc l"
| "parse_error_text (UnexpectedKeyword k l) = ''Unexpected keyword '' @ [CHR 0x27] @ k @ [CHR 0x27] @ at_loc l"
| "parse_error_text (UnexpectedLiteral t l) =
     ''Unexpected literal '' @ [CHR 0x27] @ ''#'' @ t @ [CHR 0x27] @ at_loc l"
| "parse_error_text (UnexpectedQueryPatterns l) = ''Query contains multiple patterns'' @ at_loc l"
| "parse_error_text (CheckFailed e) = check_error_text e"

record parse_env =
  pe_alphabetic :: "string \<Rightarrow> bool"
  pe_alphanumeric :: "string \<Rightarrow> bool"
  pe_regex_error :: "string \<Rightarrow> string option"
  pe_query :: "string \<Rightarrow> query_error + ts_query"

text \<open>A character is its UTF-8 bytes.\<close>

record pstate =
  ps_source :: string
  ps_rest :: "string list"
  ps_offset :: nat
  ps_location :: loc
  ps_query :: string

type_synonym 'a parser = "pstate \<Rightarrow> (parse_error, 'a) run \<times> pstate"

definition new_parser :: "string \<Rightarrow> pstate" where
  "new_parser source = \<lparr>ps_source = source, ps_rest = chars source, ps_offset = 0,
     ps_location = Location 0 0, ps_query = []\<rparr>"

definition is_ident_start :: "parse_env \<Rightarrow> string \<Rightarrow> bool" where
  "is_ident_start E ch \<longleftrightarrow> ch = ''_'' \<or> (case ch of [c] \<Rightarrow> is_ascii_alphabetic c | _ \<Rightarrow> pe_alphabetic E ch)"

definition is_ident :: "parse_env \<Rightarrow> string \<Rightarrow> bool" where
  "is_ident E ch \<longleftrightarrow> ch = ''_'' \<or> ch = ''-'' \<or>
     (case ch of [c] \<Rightarrow> is_ascii_alphanumeric c | _ \<Rightarrow> pe_alphanumeric E ch)"

definition is_digit :: "string \<Rightarrow> bool" where
  "is_digit ch \<longleftrightarrow> (case ch of [c] \<Rightarrow> is_ascii_digit c | _ \<Rightarrow> False)"

definition is_space :: "string \<Rightarrow> bool" where
  "is_space ch \<longleftrightarrow> ch \<in> set white_space"

section \<open>Characters and tokens\<close>

definition peek :: "string parser" where
  "peek s = (case ps_rest s of [] \<Rightarrow> fail (UnexpectedEOF (ps_location s)) s | c # cs \<Rightarrow> give c s)"

definition try_peek :: "pstate \<Rightarrow> string option" where
  "try_peek s = (case ps_rest s of [] \<Rightarrow> None | c # cs \<Rightarrow> Some c)"

definition next_char :: "string parser" where
  "next_char s =
     (case ps_rest s of
        [] \<Rightarrow> fail (UnexpectedEOF (ps_location s)) s
      | c # cs \<Rightarrow>
          (Val c, s\<lparr>ps_rest := cs, ps_offset := ps_offset s + length c,
                    ps_location := advance (c = [CHR 0x0A]) (ps_location s)\<rparr>))"

abbreviation after :: "'a parser \<Rightarrow> 'b parser \<Rightarrow> 'b parser" where
  "after m k \<equiv> and_then m (\<lambda>_. k)"

definition skip_char :: "unit parser" where
  "skip_char = after next_char (give ())"

text \<open>The loops over characters: what is left decides how often they run.\<close>

function blank_loop :: "bool \<Rightarrow> pstate \<Rightarrow> pstate" where
  "blank_loop in_comment s =
     (case ps_rest s of
        [] \<Rightarrow> s
      | c # cs \<Rightarrow>
          if in_comment then blank_loop (c \<noteq> [CHR 0x0A]) (snd (next_char s))
          else if c = '';'' then blank_loop True (snd (next_char s))
          else if \<not> is_space c then s
          else blank_loop False (snd (next_char s)))"
  by pat_completeness auto
termination
  by (relation "measure (\<lambda>(b, s). length (ps_rest s))") (auto simp: next_char_def)

function while_loop :: "(string \<Rightarrow> bool) \<Rightarrow> pstate \<Rightarrow> pstate" where
  "while_loop f s =
     (case ps_rest s of
        [] \<Rightarrow> s
      | c # cs \<Rightarrow> if f c then while_loop f (snd (next_char s)) else s)"
  by pat_completeness auto
termination
  by (relation "measure (\<lambda>(f, s). length (ps_rest s))") (auto simp: next_char_def)

declare blank_loop.simps [simp del] while_loop.simps [simp del]

definition consume_whitespace :: "unit parser" where
  "consume_whitespace s = (Val (), blank_loop False s)"

definition consume_while :: "(string \<Rightarrow> bool) \<Rightarrow> unit parser" where
  "consume_while f s = (Val (), while_loop f s)"

primrec consume_n :: "nat \<Rightarrow> unit parser" where
  "consume_n 0 = give ()"
| "consume_n (Suc n) = after next_char (consume_n n)"

definition consume_token :: "string \<Rightarrow> unit parser" where
  "consume_token token s =
     (if starts_with token (drop (ps_offset s) (ps_source s)) then consume_n (length token) s
      else fail (ExpectedToken token (ps_location s)) s)"

text \<open>\<open>if let Ok(..) = ..\<close>: the state stays where a failure left it.\<close>

definition attempt :: "'a parser \<Rightarrow> 'a option parser" where
  "attempt m s =
     (case m s of (Val a, t) \<Rightarrow> (Val (Some a), t) | (Fails e, t) \<Rightarrow> (Val None, t) | (Panics p, t) \<Rightarrow> (Panics p, t))"

definition here :: "loc parser" where
  "here s = (Val (ps_location s), s)"

definition slice_from :: "nat \<Rightarrow> string parser" where
  "slice_from start s = (Val (take (ps_offset s - start) (drop start (ps_source s))), s)"

definition offset_here :: "nat parser" where
  "offset_here s = (Val (ps_offset s), s)"

section \<open>Loops over parsers\<close>

primrec repeat_run :: "nat \<Rightarrow> 'a option parser \<Rightarrow> 'a list parser" where
  "repeat_run 0 body = panic ''out of fuel''"
| "repeat_run (Suc n) body =
     and_then body (\<lambda>r. case r of None \<Rightarrow> give [] | Some a \<Rightarrow> and_then (repeat_run n body) (\<lambda>as. give (a # as)))"

definition many :: "'a option parser \<Rightarrow> 'a list parser" where
  "many body s = repeat_run (Suc (length (ps_rest s))) body s"

text \<open>\<open>while self.peek()? != c\<close> and \<open>while self.try_peek() == Some(c)\<close>.\<close>

definition until :: "string \<Rightarrow> 'a parser \<Rightarrow> 'a option parser" where
  "until c body = and_then peek (\<lambda>d. if d = c then give None else and_then body (\<lambda>a. give (Some a)))"

definition while_char :: "string \<Rightarrow> 'a parser \<Rightarrow> 'a option parser" where
  "while_char c body s = (if try_peek s = Some c then and_then body (\<lambda>a. give (Some a)) s else give None s)"

section \<open>Names, strings and numbers\<close>

abbreviation ws :: "unit parser" where
  "ws \<equiv> consume_whitespace"

definition parse_name :: "parse_env \<Rightarrow> string \<Rightarrow> string parser" where
  "parse_name E within =
     and_then offset_here (\<lambda>start. and_then next_char (\<lambda>ch.
       if \<not> is_ident_start E ch then and_then here (\<lambda>l. fail (UnexpectedCharacter ch within l))
       else after (consume_while (is_ident E)) (slice_from start)))"

definition unescape :: "string \<Rightarrow> string" where
  "unescape ch =
     (if ch = ''0'' then [CHR 0x00] else if ch = ''n'' then [CHR 0x0A] else if ch = ''r'' then [CHR 0x0D]
      else if ch = ''t'' then [CHR 0x09] else ch)"

function string_loop :: "bool \<Rightarrow> string \<Rightarrow> string parser" where
  "string_loop escape v s =
     (case ps_rest s of
        [] \<Rightarrow> fail (UnexpectedEOF (ps_location s)) s
      | ch # cs \<Rightarrow>
          (let t = snd (next_char s) in
           if escape then string_loop False (v @ unescape ch) t
           else if ch = [CHR 0x22] then give v t
           else if ch = [CHR 0x5C] then string_loop True v t
           else string_loop False (v @ ch) t))"
  by pat_completeness auto
termination
  by (relation "measure (\<lambda>(b, v, s). length (ps_rest s))") (auto simp: next_char_def)

declare string_loop.simps [simp del]

definition parse_string :: "string parser" where
  "parse_string = after (consume_token [CHR 0x22]) (string_loop False [])"

definition unwrap_number :: "nat \<Rightarrow> string \<Rightarrow> nat parser" where
  "unwrap_number limit ds =
     (case parse_unsigned limit ds of
        Some n \<Rightarrow> give n
      | None \<Rightarrow> panic ''called Result::unwrap() on an Err value: ParseIntError'')"

definition parse_integer_constant :: "expr parser" where
  "parse_integer_constant =
     and_then offset_here (\<lambda>start. after (consume_while is_digit) (and_then (slice_from start) (\<lambda>ds.
       and_then (unwrap_number (2 ^ 32 - 1) ds) (\<lambda>n. give (IntegerConstant (of_nat n))))))"

definition parse_literal :: "parse_env \<Rightarrow> expr parser" where
  "parse_literal E =
     and_then here (\<lambda>l. after (consume_token ''#'') (and_then (parse_name E ''literal'') (\<lambda>name.
       if name = ''false'' then give FalseLiteral
       else if name = ''null'' then give NullLiteral
       else if name = ''true'' then give TrueLiteral
       else fail (UnexpectedLiteral name l))))"

definition parse_capture :: "parse_env \<Rightarrow> capture parser" where
  "parse_capture E =
     and_then here (\<lambda>l. and_then offset_here (\<lambda>start. after (consume_token ''@'') (and_then next_char (\<lambda>ch.
       if \<not> is_ident_start E ch then and_then here (\<lambda>k. fail (UnexpectedCharacter ch ''query capture'' k))
       else after (consume_while (is_ident E)) (and_then (slice_from (start + 1)) (\<lambda>name.
              give (Capture name QZero (2 ^ 64 - 1) (2 ^ 64 - 1) l)))))))"

definition parse_regex_capture :: "expr parser" where
  "parse_regex_capture =
     and_then here (\<lambda>l. after (consume_token ''$'') (and_then offset_here (\<lambda>start.
       after (consume_while is_digit) (and_then offset_here (\<lambda>en.
         if start = en then fail (InvalidRegexCapture l)
         else and_then (slice_from start) (\<lambda>ds. and_then (unwrap_number (2 ^ 64 - 1) ds) (\<lambda>n.
                give (RegexCapture n))))))))"

section \<open>Expressions\<close>

definition parse_call :: "parse_env \<Rightarrow> expr parser \<Rightarrow> expr parser" where
  "parse_call E pe =
     after (consume_token ''('') (after ws (and_then (parse_name E ''function name'') (\<lambda>f. after ws (
       and_then (many (until '')'' (and_then pe (\<lambda>e. after ws (give e))))) (\<lambda>es.
         after (consume_token '')'') (give (CallExpr f es)))))))"

definition parse_sequence :: "expr parser \<Rightarrow> string \<Rightarrow> expr list parser" where
  "parse_sequence pe end_marker =
     many (until end_marker (and_then pe (\<lambda>e. after ws (and_then peek (\<lambda>c.
       if c \<noteq> end_marker then after (consume_token '','') (after ws (give e)) else give e)))))"

definition parse_variable_with :: "expr parser \<Rightarrow> variable parser" where
  "parse_variable_with pe =
     and_then here (\<lambda>l. and_then pe (\<lambda>e. case e of VariableExpr v \<Rightarrow> give v | _ \<Rightarrow> fail (ExpectedVariable l)))"

definition parse_unscoped_with :: "expr parser \<Rightarrow> uvar parser" where
  "parse_unscoped_with pe =
     and_then (parse_variable_with pe) (\<lambda>v. case v of
       Unscoped x \<Rightarrow> give x | Scoped e x l \<Rightarrow> fail (ExpectedUnscopedVariable l))"

text \<open>\<open>parse_list\<close> and \<open>parse_set\<close> differ in the brackets and in what they build.\<close>

definition parse_comprehension ::
  "expr parser \<Rightarrow> string \<Rightarrow> (expr \<Rightarrow> uvar \<Rightarrow> expr \<Rightarrow> loc \<Rightarrow> expr) \<Rightarrow> expr \<Rightarrow> loc \<Rightarrow> expr parser" where
  "parse_comprehension pe closing build e l =
     after (consume_token ''for'') (after ws (and_then (parse_unscoped_with pe) (\<lambda>x. after ws (
       after (consume_token ''in'') (after ws (and_then pe (\<lambda>v. after ws (
         after (consume_token closing) (give (build e x v l))))))))))"

definition parse_bracketed ::
  "expr parser \<Rightarrow> string \<Rightarrow> string \<Rightarrow> (expr list \<Rightarrow> expr) \<Rightarrow> (expr \<Rightarrow> uvar \<Rightarrow> expr \<Rightarrow> loc \<Rightarrow> expr) \<Rightarrow> expr parser" where
  "parse_bracketed pe opening closing literal build =
     and_then here (\<lambda>l. after (consume_token opening) (after ws (
       and_then (attempt (consume_token closing)) (\<lambda>r. case r of
         Some _ \<Rightarrow> give (literal [])
       | None \<Rightarrow>
           and_then pe (\<lambda>e. after ws (and_then (attempt (consume_token closing)) (\<lambda>r. case r of
             Some _ \<Rightarrow> give (literal [e])
           | None \<Rightarrow>
               and_then (attempt (consume_token '','')) (\<lambda>r. case r of
                 Some _ \<Rightarrow>
                   after ws (and_then (parse_sequence pe closing) (\<lambda>es.
                     after ws (after (consume_token closing) (give (literal (e # es))))))
               | None \<Rightarrow> parse_comprehension pe closing build e l))))))))"

definition primary :: "parse_env \<Rightarrow> expr parser \<Rightarrow> string \<Rightarrow> expr parser" where
  "primary E pe ch =
     (if ch = ''#'' then parse_literal E
      else if ch = [CHR 0x22] then and_then parse_string (\<lambda>t. give (StringConstant t))
      else if ch = ''@'' then and_then (parse_capture E) (\<lambda>c. give (CaptureExpr c))
      else if ch = ''$'' then parse_regex_capture
      else if ch = ''('' then parse_call E pe
      else if ch = ''['' then parse_bracketed pe ''['' '']'' ListLiteral ListComprehension
      else if ch = ''{'' then parse_bracketed pe ''{'' ''}'' SetLiteral SetComprehension
      else if is_digit ch then parse_integer_constant
      else if is_ident_start E ch then
        and_then here (\<lambda>l. and_then (parse_name E ''variable name'') (\<lambda>x.
          give (VariableExpr (Unscoped (UnscopedVariable x l)))))
      else and_then here (\<lambda>l. fail (UnexpectedCharacter ch ''expression'' l)))"

definition scoped_names :: "parse_env \<Rightarrow> (ident \<times> loc) list parser" where
  "scoped_names E =
     many (while_char ''.'' (after skip_char (after ws (and_then here (\<lambda>l.
       and_then (parse_name E ''scoped variable name'') (\<lambda>x. after ws (give (x, l))))))))"

definition expression_with :: "parse_env \<Rightarrow> expr parser \<Rightarrow> expr parser" where
  "expression_with E pe =
     and_then peek (\<lambda>ch. and_then (primary E pe ch) (\<lambda>e. after ws (
       and_then (scoped_names E) (\<lambda>xs. give (foldl (\<lambda>e (x, l). VariableExpr (Scoped e x l)) e xs)))))"

primrec parse_expression :: "parse_env \<Rightarrow> nat \<Rightarrow> expr parser" where
  "parse_expression E 0 = panic ''out of fuel''"
| "parse_expression E (Suc n) = expression_with E (parse_expression E n)"

definition expression :: "parse_env \<Rightarrow> expr parser" where
  "expression E s = parse_expression E (Suc (length (ps_rest s))) s"

section \<open>Attributes and conditions\<close>

definition parse_attribute :: "parse_env \<Rightarrow> attribute parser" where
  "parse_attribute E =
     and_then (parse_name E ''attribute name'') (\<lambda>a. after ws (\<lambda>s.
       if try_peek s = Some ''=''
       then after (consume_token ''='') (after ws (and_then (expression E) (\<lambda>e. give (Attribute a e)))) s
       else give (Attribute a TrueLiteral) s))"

definition parse_attributes :: "parse_env \<Rightarrow> attribute list parser" where
  "parse_attributes E =
     and_then (parse_attribute E) (\<lambda>a. after ws (
       and_then (many (while_char '','' (after skip_char (after ws (and_then (parse_attribute E) (\<lambda>b. after ws (give b)))))))
         (\<lambda>as. give (a # as))))"

definition condition_kind :: "parse_env \<Rightarrow> loc \<Rightarrow> condition parser" where
  "condition_kind E l =
     and_then (attempt (consume_token ''some'')) (\<lambda>r. case r of
       Some _ \<Rightarrow> after ws (and_then (expression E) (\<lambda>e. give (CondSome e l)))
     | None \<Rightarrow> and_then (attempt (consume_token ''none'')) (\<lambda>r. case r of
         Some _ \<Rightarrow> after ws (and_then (expression E) (\<lambda>e. give (CondNone e l)))
       | None \<Rightarrow> and_then (attempt (expression E)) (\<lambda>r. case r of
           Some e \<Rightarrow> after ws (give (CondBool e l))
         | None \<Rightarrow> fail (ExpectedToken ''(some|none)? EXPRESSION'' l))))"

definition parse_condition :: "parse_env \<Rightarrow> condition parser" where
  "parse_condition E = and_then here (\<lambda>l. and_then (condition_kind E l) (\<lambda>c. after ws (give c)))"

definition parse_conditions :: "parse_env \<Rightarrow> condition list parser" where
  "parse_conditions E =
     and_then (parse_condition E) (\<lambda>c. after ws (
       and_then (many (while_char '','' (after (consume_token '','') (after ws (
          and_then (parse_condition E) (\<lambda>d. after ws (give d)))))))
         (\<lambda>cs. give (c # cs))))"

section \<open>Statements\<close>

definition block_with :: "statement parser \<Rightarrow> statement list parser" where
  "block_with ps =
     after (consume_token ''{'') (after ws (
       and_then (many (until ''}'' (and_then ps (\<lambda>st. after ws (give st))))) (\<lambda>sts.
         after (consume_token ''}'') (give sts))))"

abbreviation parse_variable :: "parse_env \<Rightarrow> variable parser" where
  "parse_variable E \<equiv> parse_variable_with (expression E)"

abbreviation parse_unscoped_variable :: "parse_env \<Rightarrow> uvar parser" where
  "parse_unscoped_variable E \<equiv> parse_unscoped_with (expression E)"

definition parse_assignment ::
  "parse_env \<Rightarrow> (variable \<Rightarrow> expr \<Rightarrow> loc \<Rightarrow> statement) \<Rightarrow> loc \<Rightarrow> statement parser" where
  "parse_assignment E build l =
     and_then (parse_variable E) (\<lambda>x. after ws (after (consume_token ''='') (after ws (
       and_then (expression E) (\<lambda>e. give (build x e l))))))"

definition parse_attr :: "parse_env \<Rightarrow> loc \<Rightarrow> statement parser" where
  "parse_attr E l =
     after (consume_token ''('') (after ws (and_then (expression E) (\<lambda>e. after ws (and_then peek (\<lambda>c.
       if c = ''-'' then
         after (consume_token ''->'') (after ws (and_then (expression E) (\<lambda>f. after ws (
           after (consume_token '')'') (after ws (and_then (parse_attributes E) (\<lambda>as.
             give (AddEdgeAttribute e f as l))))))))
       else
         after ws (after (consume_token '')'') (after ws (and_then (parse_attributes E) (\<lambda>as.
           give (AddGraphNodeAttribute e as l))))))))))"

definition parse_print :: "parse_env \<Rightarrow> loc \<Rightarrow> statement parser" where
  "parse_print E l =
     and_then (expression E) (\<lambda>e. after ws (
       and_then (many (while_char '','' (after (consume_token '','') (after ws (
          and_then (expression E) (\<lambda>f. after ws (give f)))))))
         (\<lambda>es. after ws (give (Print (e # es) l)))))"

definition parse_scan_arm :: "parse_env \<Rightarrow> statement list parser \<Rightarrow> loc \<Rightarrow> scan_arm parser" where
  "parse_scan_arm E block l =
     and_then here (\<lambda>pl. and_then parse_string (\<lambda>pattern.
       case pe_regex_error E pattern of
         Some _ \<Rightarrow> fail (InvalidRegex pattern pl)
       | None \<Rightarrow> after ws (and_then block (\<lambda>sts. after ws (give (ScanArm pattern sts l))))))"

definition parse_scan :: "parse_env \<Rightarrow> statement list parser \<Rightarrow> loc \<Rightarrow> statement parser" where
  "parse_scan E block l =
     and_then (expression E) (\<lambda>e. after ws (after (consume_token ''{'') (after ws (
       and_then (many (until ''}'' (parse_scan_arm E block l))) (\<lambda>arms.
         after (consume_token ''}'') (give (Scan e arms l)))))))"

definition conditional_arm :: "parse_env \<Rightarrow> statement list parser \<Rightarrow> loc \<Rightarrow> if_arm parser" where
  "conditional_arm E block l =
     after ws (and_then (parse_conditions E) (\<lambda>cs. after ws (
       and_then block (\<lambda>sts. after ws (give (IfArm cs sts l))))))"

definition elif_arm :: "parse_env \<Rightarrow> statement list parser \<Rightarrow> if_arm option parser" where
  "elif_arm E block =
     and_then here (\<lambda>l. and_then (attempt (consume_token ''elif'')) (\<lambda>r. case r of
       None \<Rightarrow> give None
     | Some _ \<Rightarrow> and_then (conditional_arm E block l) (\<lambda>a. after ws (give (Some a)))))"

definition else_arms :: "statement list parser \<Rightarrow> if_arm list parser" where
  "else_arms block =
     and_then here (\<lambda>l. and_then (attempt (consume_token ''else'')) (\<lambda>r. case r of
       None \<Rightarrow> give []
     | Some _ \<Rightarrow> after ws (and_then block (\<lambda>sts. after ws (after ws (give [IfArm [] sts l]))))))"

definition parse_if :: "parse_env \<Rightarrow> statement list parser \<Rightarrow> loc \<Rightarrow> statement parser" where
  "parse_if E block l =
     and_then (conditional_arm E block l) (\<lambda>a. and_then (many (elif_arm E block)) (\<lambda>as.
       and_then (else_arms block) (\<lambda>bs. give (If (a # as @ bs) l))))"

definition parse_for :: "parse_env \<Rightarrow> statement list parser \<Rightarrow> loc \<Rightarrow> statement parser" where
  "parse_for E block l =
     after ws (and_then (parse_unscoped_variable E) (\<lambda>x. after ws (after (consume_token ''in'') (after ws (
       and_then (expression E) (\<lambda>e. after ws (and_then block (\<lambda>sts. give (ForIn x e sts l)))))))))"

definition statement_with :: "parse_env \<Rightarrow> statement list parser \<Rightarrow> statement parser" where
  "statement_with E block =
     and_then here (\<lambda>l. and_then (parse_name E ''keyword'') (\<lambda>keyword. after ws (
       if keyword = ''let'' then parse_assignment E DeclareImmutable l
       else if keyword = ''var'' then parse_assignment E DeclareMutable l
       else if keyword = ''set'' then parse_assignment E Assign l
       else if keyword = ''node'' then and_then (parse_variable E) (\<lambda>x. give (CreateGraphNode x l))
       else if keyword = ''edge'' then
         and_then (expression E) (\<lambda>e. after ws (after (consume_token ''->'') (after ws (
           and_then (expression E) (\<lambda>f. give (CreateEdge e f l))))))
       else if keyword = ''attr'' then parse_attr E l
       else if keyword = ''print'' then parse_print E l
       else if keyword = ''scan'' then parse_scan E block l
       else if keyword = ''if'' then parse_if E block l
       else if keyword = ''for'' then parse_for E block l
       else fail (UnexpectedKeyword keyword l))))"

primrec parse_statement :: "parse_env \<Rightarrow> nat \<Rightarrow> statement parser" where
  "parse_statement E 0 = panic ''out of fuel''"
| "parse_statement E (Suc n) = statement_with E (block_with (parse_statement E n))"

definition parse_statements :: "parse_env \<Rightarrow> statement list parser" where
  "parse_statements E s = block_with (parse_statement E (Suc (length (ps_rest s)))) s"

section \<open>Queries, stanzas and files\<close>

record query_scan =
  qs_depth :: nat
  qs_string :: bool
  qs_escape :: bool
  qs_comment :: bool

definition query_char :: "string \<Rightarrow> query_scan \<Rightarrow> query_scan option" where
  "query_char ch q =
     (if qs_escape q then Some (q\<lparr>qs_escape := False\<rparr>)
      else if qs_string q then
        Some (if ch = [CHR 0x5C] then q\<lparr>qs_escape := True\<rparr>
              else if ch = [CHR 0x22] \<or> ch = [CHR 0x0A] then q\<lparr>qs_string := False\<rparr> else q)
      else if qs_comment q then Some (if ch = [CHR 0x0A] then q\<lparr>qs_comment := False\<rparr> else q)
      else if ch = [CHR 0x22] then Some (q\<lparr>qs_string := True\<rparr>)
      else if ch = ''('' then Some (q\<lparr>qs_depth := qs_depth q + 1\<rparr>)
      else if ch = '')'' then Some (q\<lparr>qs_depth := qs_depth q - 1\<rparr>)
      else if ch = ''{'' then None
      else if ch = '';'' then Some (q\<lparr>qs_comment := True\<rparr>)
      else Some q)"

function query_loop :: "query_scan \<Rightarrow> unit parser" where
  "query_loop q s =
     (case ps_rest s of
        [] \<Rightarrow> fail (UnexpectedEOF (ps_location s)) s
      | ch # cs \<Rightarrow> (case query_char ch q of None \<Rightarrow> give () s | Some q' \<Rightarrow> query_loop q' (snd (next_char s))))"
  by pat_completeness auto
termination
  by (relation "measure (\<lambda>(q, s). length (ps_rest s))") (auto simp: next_char_def)

declare query_loop.simps [simp del]

definition skip_query :: "unit parser" where
  "skip_query = query_loop \<lparr>qs_depth = 0, qs_string = False, qs_escape = False, qs_comment = False\<rparr>"

definition shift_query_error :: "loc \<Rightarrow> nat \<Rightarrow> query_error \<Rightarrow> query_error" where
  "shift_query_error l start e =
     (if qe_row e = 0 then e\<lparr>qe_column := qe_column e + loc_column l\<rparr> else e)
       \<lparr>qe_row := qe_row e + loc_row l, qe_offset := qe_offset e + start\<rparr>"

definition add_query :: "string \<Rightarrow> unit parser" where
  "add_query q s = (Val (), s\<lparr>ps_query := ps_query s @ q @ [CHR 0x0A]\<rparr>)"

definition parse_query :: "parse_env \<Rightarrow> (ts_query \<times> nat) parser" where
  "parse_query E =
     and_then here (\<lambda>l. and_then offset_here (\<lambda>start. after skip_query (and_then (slice_from start) (\<lambda>t.
       after (add_query (t @ ''@'' @ full_match)) (
         case pe_query E (t @ ''@'' @ full_match) of
           Inl e \<Rightarrow> fail (QueryError (shift_query_error l start e))
         | Inr q \<Rightarrow>
             if tq_patterns q > 1 then fail (UnexpectedQueryPatterns l)
             else (case capture_index_for_name q full_match of
                     None \<Rightarrow> panic ''missing capture index for full match''
                   | Some i \<Rightarrow> give (q, i)))))))"

definition parse_stanza :: "parse_env \<Rightarrow> stanza parser" where
  "parse_stanza E =
     and_then here (\<lambda>st. and_then (parse_query E) (\<lambda>r. after ws (and_then (parse_statements E) (\<lambda>ss.
       and_then here (\<lambda>en. give \<lparr>sz_query = fst r, sz_statements = ss, sz_full_stanza = snd r,
         sz_full_file = 2 ^ 64 - 1, sz_start = st, sz_end = en\<rparr>)))))"

definition parse_quantifier :: "quantifier parser" where
  "parse_quantifier s =
     (case try_peek s of
        None \<Rightarrow> give QOne s
      | Some c \<Rightarrow>
          after skip_char (if c = ''?'' then give QZeroOrOne else if c = ''*'' then give QZeroOrMore
            else if c = ''+'' then give QOneOrMore
            else if \<not> is_space c then and_then here (\<lambda>l. fail (ExpectedQuantifier l))
            else give QOne) s)"

definition parse_global :: "parse_env \<Rightarrow> global parser" where
  "parse_global E =
     and_then here (\<lambda>l. and_then (parse_name E ''global variable'') (\<lambda>x. and_then parse_quantifier (\<lambda>q. after ws (
       and_then (attempt (consume_token ''='')) (\<lambda>r. case r of
         Some _ \<Rightarrow> after ws (and_then parse_string (\<lambda>d.
             give \<lparr>go_name = x, go_quantifier = q, go_default = Some d, go_loc = l\<rparr>))
       | None \<Rightarrow> give \<lparr>go_name = x, go_quantifier = q, go_default = None, go_loc = l\<rparr>)))))"

definition parse_shorthand :: "parse_env \<Rightarrow> shorthand parser" where
  "parse_shorthand E =
     and_then here (\<lambda>l. and_then (parse_name E ''shorthand name'') (\<lambda>x. after ws (after (consume_token ''='') (
       after ws (and_then (parse_unscoped_variable E) (\<lambda>v. after ws (after (consume_token ''=>'') (after ws (
         and_then (parse_attributes E) (\<lambda>as.
           give \<lparr>sh_name = x, sh_variable = v, sh_attributes = as, sh_loc = l\<rparr>))))))))))"

text \<open>An item of a file is what it does to the file.\<close>

definition parse_item :: "parse_env \<Rightarrow> (dsl_file \<Rightarrow> dsl_file) parser" where
  "parse_item E =
     and_then (attempt (consume_token ''attribute'')) (\<lambda>r. case r of
       Some _ \<Rightarrow> after ws (and_then (parse_shorthand E) (\<lambda>sh.
         give (\<lambda>f. f\<lparr>df_shorthands := add_shorthand sh (df_shorthands f)\<rparr>)))
     | None \<Rightarrow> and_then (attempt (consume_token ''global'')) (\<lambda>r. case r of
         Some _ \<Rightarrow> after ws (and_then (parse_global E) (\<lambda>g. give (\<lambda>f. f\<lparr>df_globals := df_globals f @ [g]\<rparr>)))
       | None \<Rightarrow> and_then (attempt (consume_token ''inherit'')) (\<lambda>r. case r of
           Some _ \<Rightarrow> after ws (after (consume_token ''.'') (and_then (parse_name E ''inherit'') (\<lambda>x.
             give (\<lambda>f. f\<lparr>df_inherited := List.insert x (df_inherited f)\<rparr>))))
         | None \<Rightarrow> and_then (parse_stanza E) (\<lambda>z. give (\<lambda>f. f\<lparr>df_stanzas := df_stanzas f @ [z]\<rparr>)))))"

definition parse_items :: "parse_env \<Rightarrow> (dsl_file \<Rightarrow> dsl_file) list parser" where
  "parse_items E =
     many (\<lambda>s. if try_peek s = None then give None s
               else and_then (parse_item E) (\<lambda>h. after ws (give (Some h))) s)"

definition parse_into_file :: "parse_env \<Rightarrow> dsl_file \<Rightarrow> dsl_file parser" where
  "parse_into_file E f =
     after ws (and_then (parse_items E) (\<lambda>hs s.
       case pe_query E (ps_query s) of
         Inl e \<Rightarrow> panic ''called Result::unwrap() on an Err value: QueryError'' s
       | Inr q \<Rightarrow> give ((fold (\<lambda>h. h) hs f)\<lparr>df_query := Some q\<rparr>) s))"

definition parse_file :: "parse_env \<Rightarrow> string \<Rightarrow> (parse_error, dsl_file) run" where
  "parse_file E source = fst (parse_into_file E new_file (new_parser source))"

definition file_from_str ::
  "(ident list \<Rightarrow> ident list) \<Rightarrow> (string \<Rightarrow> bool) \<Rightarrow> parse_env \<Rightarrow> string \<Rightarrow> (parse_error, dsl_file) run" where
  "file_from_str order nullable E source =
     (case parse_file E source of
        Val f \<Rightarrow>
          (case check_file order nullable f of
             Val f' \<Rightarrow> Val f' | Fails e \<Rightarrow> Fails (CheckFailed e) | Panics p \<Rightarrow> Panics p)
      | Fails e \<Rightarrow> Fails e | Panics p \<Rightarrow> Panics p)"

end
