(* ===== verification/Tsg_Parser_Facts.thy ===== *)
theory Tsg_Parser_Facts
  imports Tsg_Parser
begin

text \<open>
  A parse always ends: no loop and no nesting goes beyond the characters that are left, so the panic
  \<open>out of fuel\<close> of the model never occurs. What can occur besides a file is an error at a place of
  the source, or one of three panics of the code. A small logic of parsers (\<open>runs\<close>) counts the
  characters that each parser takes.
\<close>

section \<open>Places of a source\<close>

definition place :: "string list \<Rightarrow> loc" where
  "place cs = foldl (\<lambda>l c. advance (c = [CHR 0x0A]) l) (Location 0 0) cs"

lemma place_simps [simp]: "place [] = Location 0 0" "place (cs @ [c]) = advance (c = [CHR 0x0A]) (place cs)"
  by (simp_all add: place_def)

definition place_of :: "string \<Rightarrow> loc \<Rightarrow> bool" where
  "place_of src l \<longleftrightarrow> (\<exists>k \<le> length (chars src). l = place (take k (chars src)))"

fun error_place :: "parse_error \<Rightarrow> loc option" where
  "error_place (ExpectedQuantifier l) = Some l"
| "error_place (ExpectedToken t l) = Some l"
| "error_place (ExpectedVariable l) = Some l"
| "error_place (ExpectedUnscopedVariable l) = Some l"
| "error_place (InvalidRegex r l) = Some l"
| "error_place (InvalidRegexCapture l) = Some l"
| "error_place (QueryError e) = None"
| "error_place (UnexpectedCharacter c w l) = Some l"
| "error_place (UnexpectedEOF l) = Some l"
| "error_place (UnexpectedKeyword k l) = Some l"
| "error_place (UnexpectedLiteral t l) = Some l"
| "error_place (UnexpectedQueryPatterns l) = Some l"
| "error_place (CheckFailed e) = None"

definition located :: "string \<Rightarrow> parse_error \<Rightarrow> bool" where
  "located src e \<longleftrightarrow> (\<forall>l. error_place e = Some l \<longrightarrow> place_of src l)"

definition parser_panics :: "string set" where
  "parser_panics = {''called Result::unwrap() on an Err value: ParseIntError'',
     ''missing capture index for full match'', ''called Result::unwrap() on an Err value: QueryError''}"

text \<open>The state of a parser: what is read and what is left make up the source.\<close>

definition parsing :: "string \<Rightarrow> pstate \<Rightarrow> bool" where
  "parsing src s \<longleftrightarrow> ps_source s = src \<and>
     (\<exists>before. chars src = before @ ps_rest s \<and> ps_offset s = length (concat before) \<and> ps_location s = place before)"

lemma parsing_new: "parsing src (new_parser src)"
  by (simp add: parsing_def new_parser_def)

lemma parsing_place: "parsing src s \<Longrightarrow> place_of src (ps_location s)"
proof -
  assume "parsing src s"
  then obtain before where b: "chars src = before @ ps_rest s" "ps_location s = place before"
    by (auto simp: parsing_def)
  then have "length before \<le> length (chars src) \<and> ps_location s = place (take (length before) (chars src))" by simp
  then show ?thesis unfolding place_of_def by blast
qed

lemma parsing_query [simp]: "parsing src (s\<lparr>ps_query := q\<rparr>) = parsing src s"
  by (simp add: parsing_def)

lemma parsing_step:
  assumes "parsing src s" "ps_rest s = c # cs"
  shows "parsing src (snd (next_char s))"
proof -
  from assms obtain before where b: "ps_source s = src" "chars src = before @ c # cs" "ps_offset s = length (concat before)"
    "ps_location s = place before" by (auto simp: parsing_def)
  then have "chars src = (before @ [c]) @ cs \<and> ps_offset s + length c = length (concat (before @ [c])) \<and>
      advance (c = [CHR 0x0A]) (ps_location s) = place (before @ [c])" by simp
  with b(1) assms(2) show ?thesis unfolding parsing_def next_char_def by fastforce
qed

section \<open>The logic\<close>

definition ends_well :: "string \<Rightarrow> ('a \<Rightarrow> nat \<Rightarrow> bool) \<Rightarrow> pstate \<Rightarrow> (parse_error, 'a) run \<times> pstate \<Rightarrow> bool" where
  "ends_well src Q s out \<longleftrightarrow>
     (case out of (r, t) \<Rightarrow> parsing src t \<and> length (ps_rest t) \<le> length (ps_rest s) \<and>
        (case r of
           Val a \<Rightarrow> Q a (length (ps_rest s) - length (ps_rest t))
         | Fails e \<Rightarrow> located src e
         | Panics p \<Rightarrow> p \<in> parser_panics))"

lemma ends_well_simps [simp]:
  "ends_well src Q s (Val a, t) \<longleftrightarrow> parsing src t \<and> length (ps_rest t) \<le> length (ps_rest s) \<and>
     Q a (length (ps_rest s) - length (ps_rest t))"
  "ends_well src Q s (Fails e, t) \<longleftrightarrow> parsing src t \<and> length (ps_rest t) \<le> length (ps_rest s) \<and> located src e"
  "ends_well src Q s (Panics p, t) \<longleftrightarrow> parsing src t \<and> length (ps_rest t) \<le> length (ps_rest s) \<and> p \<in> parser_panics"
  by (simp_all add: ends_well_def)

lemma ends_well_mono:
  assumes "ends_well src Q s out" "\<And>a d. Q a d \<Longrightarrow> R a d"
  shows "ends_well src R s out"
  using assms by (cases out; cases "fst out") auto

definition runs :: "string \<Rightarrow> nat \<Rightarrow> 'a parser \<Rightarrow> ('a \<Rightarrow> nat \<Rightarrow> bool) \<Rightarrow> bool" where
  "runs src N m Q \<longleftrightarrow> (\<forall>s. parsing src s \<longrightarrow> length (ps_rest s) < N \<longrightarrow> ends_well src Q s (m s))"

abbreviation eats :: "'a \<Rightarrow> nat \<Rightarrow> bool" where
  "eats \<equiv> \<lambda>a d. 1 \<le> d"

abbreviation keeps :: "'a \<Rightarrow> nat \<Rightarrow> bool" where
  "keeps \<equiv> \<lambda>a d. True"

lemma ends_well_step:
  "ends_well src keeps t out \<Longrightarrow> length (ps_rest t) < length (ps_rest s) \<Longrightarrow> ends_well src keeps s out"
  by (cases out; cases "fst out") auto

lemma runsI:
  assumes "\<And>s. parsing src s \<Longrightarrow> length (ps_rest s) < N \<Longrightarrow> ends_well src Q s (m s)"
  shows "runs src N m Q"
  unfolding runs_def using assms by blast

lemma runsD: "runs src N m Q \<Longrightarrow> parsing src s \<Longrightarrow> length (ps_rest s) < N \<Longrightarrow> ends_well src Q s (m s)"
  unfolding runs_def by blast

lemma runs_weaken:
  assumes "runs src N m Q" "M \<le> N" "\<And>a d. Q a d \<Longrightarrow> R a d"
  shows "runs src M m R"
  by (rule runsI, rule ends_well_mono[OF runsD[OF assms(1)] assms(3)]) (use assms(2) in simp_all)

lemma runs_and_then:
  assumes m: "runs src N m Q" and f: "\<And>a d. Q a d \<Longrightarrow> runs src (N - d) (f a) (\<lambda>b e. R b (d + e))"
  shows "runs src N (and_then m f) R"
proof (rule runsI)
  fix s assume s: "parsing src s" "length (ps_rest s) < N"
  obtain r t where t: "m s = (r, t)" by fastforce
  with runsD[OF m s] have mt: "ends_well src Q s (r, t)" by simp
  show "ends_well src R s (and_then m f s)"
  proof (cases r)
    case (Val a)
    let ?d = "length (ps_rest s) - length (ps_rest t)"
    from mt Val have q: "parsing src t" "length (ps_rest t) \<le> length (ps_rest s)" "Q a ?d" by auto
    from f[OF q(3)] q(1) have e: "ends_well src (\<lambda>b e. R b (?d + e)) t (f a t)"
      by (rule runsD) (use s(2) q(2) in arith)
    have "and_then m f s = f a t" using t Val by (simp add: and_then_def)
    moreover obtain r' u where "f a t = (r', u)" by fastforce
    ultimately show ?thesis using e q(2) by (cases r') auto
  qed (use t mt in \<open>simp_all add: and_then_def\<close>)
qed

lemma runs_tail: "runs src N m P \<Longrightarrow> (\<And>a d. P a d \<Longrightarrow> Q a d) \<Longrightarrow> runs src N m Q"
  by (rule runs_weaken[OF _ order_refl])

lemma runs_same: "runs src N m Q \<Longrightarrow> (\<And>s. m' s = m s) \<Longrightarrow> runs src N m' Q"
  by (simp add: runs_def)

lemma runs_give: "Q a 0 \<Longrightarrow> runs src N (give a) Q"
  by (rule runsI) (simp add: give_def)

lemma runs_fail: "located src e \<Longrightarrow> runs src N (fail e) Q"
  by (rule runsI) (simp add: fail_def)

lemma runs_panic: "p \<in> parser_panics \<Longrightarrow> runs src N (panic p) Q"
  by (rule runsI) (simp add: panic_def)

lemma runs_if: "(c \<Longrightarrow> runs src N m Q) \<Longrightarrow> (\<not> c \<Longrightarrow> runs src N m' Q) \<Longrightarrow> runs src N (if c then m else m') Q"
  by simp

lemma runs_option:
  "(r = None \<Longrightarrow> runs src N m Q) \<Longrightarrow> (\<And>a. r = Some a \<Longrightarrow> runs src N (f a) Q) \<Longrightarrow>
    runs src N (case r of None \<Rightarrow> m | Some a \<Rightarrow> f a) Q"
  by (cases r) simp_all

lemma runs_state:
  "(\<And>s. runs src N (f s) Q) \<Longrightarrow> runs src N (\<lambda>s. f s s) Q"
  unfolding runs_def by blast

section \<open>Characters, tokens and loops\<close>

lemma runs_peek: "runs src N peek keeps"
  by (rule runsI) (auto simp: peek_def fail_def give_def located_def parsing_place split: list.split)

lemma runs_here: "runs src N here (\<lambda>l d. place_of src l)"
  by (rule runsI) (simp add: here_def parsing_place)

lemma runs_offset: "runs src N offset_here keeps" "runs src N (slice_from k) keeps"
  by (rule runsI, simp add: offset_here_def slice_from_def)+

lemma runs_next: "runs src N next_char eats"
proof (rule runsI)
  fix s assume s: "parsing src s" "length (ps_rest s) < N"
  show "ends_well src eats s (next_char s)"
  proof (cases "ps_rest s")
    case Nil
    then show ?thesis using s by (simp add: next_char_def fail_def located_def parsing_place)
  next
    case (Cons c cs)
    with parsing_step[OF s(1) Cons] show ?thesis by (simp add: next_char_def)
  qed
qed

lemma runs_skip: "runs src N skip_char eats"
  unfolding skip_char_def by (rule runs_and_then[OF runs_next]) (simp add: runs_give)

lemma blank_loop_parsing:
  "parsing src s \<Longrightarrow> parsing src (blank_loop b s) \<and> length (ps_rest (blank_loop b s)) \<le> length (ps_rest s)"
proof (induction b s rule: blank_loop.induct)
  case (1 b s)
  show ?case
  proof (cases "ps_rest s")
    case (Cons c cs)
    have l: "length (ps_rest (snd (next_char s))) \<le> length (ps_rest s)" using Cons by (simp add: next_char_def)
    note st = parsing_step[OF "1.prems" Cons]
    from "1.IH"(1)[OF Cons _ st] "1.IH"(2)[OF Cons _ _ st] "1.IH"(3)[OF Cons _ _ _ st] "1.prems" l Cons
    show ?thesis unfolding blank_loop.simps[of b s] by (cases b) auto
  qed (simp add: blank_loop.simps "1.prems")
qed

lemma while_loop_parsing:
  "parsing src s \<Longrightarrow> parsing src (while_loop f s) \<and> length (ps_rest (while_loop f s)) \<le> length (ps_rest s)"
proof (induction f s rule: while_loop.induct)
  case (1 f s)
  show ?case
  proof (cases "ps_rest s")
    case (Cons c cs)
    have l: "length (ps_rest (snd (next_char s))) \<le> length (ps_rest s)" using Cons by (simp add: next_char_def)
    from "1.IH"[OF Cons _ parsing_step[OF "1.prems" Cons]] "1.prems" l Cons
    show ?thesis unfolding while_loop.simps[of f s] by auto
  qed (simp add: while_loop.simps "1.prems")
qed

lemma runs_ws: "runs src N consume_whitespace keeps"
  by (rule runsI) (simp add: consume_whitespace_def blank_loop_parsing)

lemma runs_while: "runs src N (consume_while f) keeps"
  by (rule runsI) (simp add: consume_while_def while_loop_parsing)

lemma runs_consume_n: "runs src N (consume_n n) (\<lambda>_ d. n \<le> d)"
proof (induction n arbitrary: N)
  case (Suc n)
  show ?case unfolding consume_n.simps
    by (rule runs_and_then[OF runs_next], rule runs_weaken[OF Suc]) auto
qed (simp add: runs_give)

lemma runs_token: "t \<noteq> [] \<Longrightarrow> runs src N (consume_token t) eats"
proof (rule runsI)
  fix s assume t: "t \<noteq> []" and s: "parsing src s" "length (ps_rest s) < N"
  have "runs src N (consume_n (length t)) eats"
    by (rule runs_tail[OF runs_consume_n]) (use t in \<open>cases t; simp\<close>)
  with s show "ends_well src eats s (consume_token t s)"
    by (auto simp: runs_def consume_token_def fail_def located_def parsing_place)
qed

lemma runs_attempt:
  assumes "runs src N m Q"
  shows "runs src N (attempt m) (\<lambda>r d. case r of None \<Rightarrow> True | Some a \<Rightarrow> Q a d)"
proof (rule runsI)
  fix s assume s: "parsing src s" "length (ps_rest s) < N"
  obtain r t where t: "m s = (r, t)" by fastforce
  with runsD[OF assms s] have "ends_well src Q s (r, t)" by simp
  then show "ends_well src (\<lambda>r d. case r of None \<Rightarrow> True | Some a \<Rightarrow> Q a d) s (attempt m s)"
    by (cases r) (simp_all add: attempt_def t)
qed

text \<open>A body that goes on only when it has taken a character repeats at most once for each of them.\<close>

abbreviation goes_on :: "'a option \<Rightarrow> nat \<Rightarrow> bool" where
  "goes_on \<equiv> \<lambda>r d. r \<noteq> None \<longrightarrow> 1 \<le> d"

lemma runs_repeat:
  "runs src N (body :: 'a option parser) (\<lambda>r d. goes_on r d \<and> pred_option P r) \<Longrightarrow>
    runs src (min n N) (repeat_run n body) (\<lambda>as d. list_all P as)"
proof (induction n arbitrary: N)
  case (Suc n)
  show ?case unfolding repeat_run.simps
  proof (rule runs_and_then)
    show "runs src (min (Suc n) N) body (\<lambda>r d. goes_on r d \<and> pred_option P r)" by (rule runs_weaken[OF Suc.prems]) auto
    fix r :: "'a option" and d :: nat assume g: "goes_on r d \<and> pred_option P r"
    show "runs src (min (Suc n) N - d) (case r of None \<Rightarrow> give [] | Some a \<Rightarrow> and_then (repeat_run n body) (\<lambda>as. give (a # as)))
      (\<lambda>as e. list_all P as)"
    proof (cases r)
      case (Some a)
      with g have "min (Suc n) N - d \<le> min n N" by auto
      then have "runs src (min (Suc n) N - d) (repeat_run n body) (\<lambda>as d. list_all P as)"
        by (rule runs_weaken[OF Suc.IH[OF Suc.prems]])
      then show ?thesis unfolding Some option.case by (rule runs_and_then) (rule runs_give, use g Some in simp)
    qed (simp only: option.case, rule runs_give, simp)
  qed
qed (simp add: runs_def)

lemma runs_many_all:
  assumes "runs src N body (\<lambda>r d. goes_on r d \<and> pred_option P r)"
  shows "runs src N (many body) (\<lambda>as d. list_all P as)"
proof (rule runsI)
  fix s assume s: "parsing src s" "length (ps_rest s) < N"
  have "runs src (min (Suc (length (ps_rest s))) N) (repeat_run (Suc (length (ps_rest s))) body) (\<lambda>as d. list_all P as)"
    by (rule runs_repeat[OF assms])
  from runsD[OF this s(1)] s(2) show "ends_well src (\<lambda>as d. list_all P as) s (many body s)"
    unfolding many_def by simp
qed

lemma runs_many:
  assumes "runs src N body goes_on"
  shows "runs src N (many body) keeps"
  by (rule runs_tail[OF runs_many_all[where P = "\<lambda>_. True", OF runs_tail[OF assms]]]) (auto simp: option.pred_True)

lemma runs_until: "runs src N body eats \<Longrightarrow> runs src N (until c body) goes_on"
  unfolding until_def
  by (rule runs_and_then[OF runs_peek], rule runs_if, simp add: runs_give, rule runs_and_then,
      erule runs_weaken, simp, assumption, simp add: runs_give)

lemma while_char_if: "while_char c body = (\<lambda>s. (if try_peek s = Some c then and_then body (\<lambda>a. give (Some a)) else give None) s)"
  by (rule ext) (simp add: while_char_def)

lemma runs_while_char: "runs src N body eats \<Longrightarrow> runs src N (while_char c body) goes_on"
  unfolding while_char_if
  by (rule runs_state, rule runs_if, rule runs_and_then, assumption) (simp_all add: runs_give)

section \<open>The parsers\<close>

lemma runs_string_loop: "runs src N (string_loop b v) keeps"
proof (rule runsI)
  fix s assume "parsing src s"
  then show "ends_well src keeps s (string_loop b v s)"
  proof (induction "length (ps_rest s)" arbitrary: b v s rule: less_induct)
    case less
    show ?case
    proof (cases "ps_rest s")
      case Nil
      then show ?thesis using less.prems
        by (simp add: string_loop.simps[of b v s] fail_def located_def parsing_place)
    next
      case (Cons c cs)
      let ?t = "snd (next_char s)"
      have t: "parsing src ?t" "length (ps_rest ?t) < length (ps_rest s)"
        using parsing_step[OF less.prems Cons] Cons by (simp_all add: next_char_def)
      note ih = ends_well_step[OF less.hyps[OF t(2,1)] t(2)]
      show ?thesis
        using ih[of False "v @ unescape c"] ih[of True v] ih[of False "v @ c"] t
        unfolding string_loop.simps[of b v s]
        by (simp add: Cons Let_def give_def)
    qed
  qed
qed

lemma runs_query_loop: "runs src N (query_loop q) keeps"
proof (rule runsI)
  fix s assume "parsing src s"
  then show "ends_well src keeps s (query_loop q s)"
  proof (induction "length (ps_rest s)" arbitrary: q s rule: less_induct)
    case less
    show ?case
    proof (cases "ps_rest s")
      case Nil
      then show ?thesis using less.prems
        by (simp add: query_loop.simps[of q s] fail_def located_def parsing_place)
    next
      case (Cons c cs)
      let ?t = "snd (next_char s)"
      have t: "parsing src ?t" "length (ps_rest ?t) < length (ps_rest s)"
        using parsing_step[OF less.prems Cons] Cons by (simp_all add: next_char_def)
      show ?thesis
        using ends_well_step[OF less.hyps[OF t(2,1)] t(2)] less.prems
        unfolding query_loop.simps[of q s]
        by (cases "query_char c q") (simp_all add: Cons give_def)
    qed
  qed
qed

lemma runs_add_query: "runs src N (add_query q) keeps"
  by (rule runsI) (simp add: add_query_def)

lemma located_simps [simp]:
  "place_of src l \<Longrightarrow> error_place e = Some l \<Longrightarrow> located src e"
  "error_place e = None \<Longrightarrow> located src e"
  by (simp_all add: located_def)

lemmas runs_rules = runs_and_then runs_give runs_if runs_option
lemmas runs_parts = runs_ws runs_while runs_next runs_skip runs_peek runs_here
  runs_offset runs_token runs_string_loop runs_query_loop runs_add_query

lemma runs_name: "runs src N (parse_name E w) eats"
  unfolding parse_name_def
  by (rule runs_rules runs_parts runs_fail | (rule runs_tail, rule runs_parts) | (simp; fail))+

lemma runs_parse_string: "runs src N parse_string eats"
  unfolding parse_string_def
  by (rule runs_rules runs_parts | (rule runs_tail, rule runs_parts) | (simp; fail))+

lemma runs_number: "runs src N (unwrap_number k ds) keeps"
  unfolding unwrap_number_def
  by (rule runs_rules runs_panic | (simp add: parser_panics_def; fail))+

lemmas runs_more = runs_parts runs_name runs_parse_string runs_number runs_until runs_while_char runs_many
  runs_attempt[OF runs_token]

text \<open>A number is read only after a look at its first digit.\<close>

definition guarded :: "string \<Rightarrow> 'a parser \<Rightarrow> 'a parser" where
  "guarded ch m s = (if try_peek s = Some ch then m s else fail (UnexpectedEOF (ps_location s)) s)"

lemma peek_guarded:
  "and_then peek (\<lambda>ch. and_then (m ch) k) = and_then peek (\<lambda>ch. and_then (guarded ch (m ch)) k)"
  by (rule ext) (auto simp: and_then_def peek_def guarded_def try_peek_def give_def fail_def split: list.split)

lemma runs_guarded: "runs src N m Q \<Longrightarrow> runs src N (guarded ch m) Q"
  by (rule runsI) (auto simp: guarded_def fail_def located_def parsing_place runsD)

lemma while_loop_takes:
  assumes "parsing src s" "ps_rest s = c # cs" "f c"
  shows "length (ps_rest (while_loop f s)) < length (ps_rest s)"
proof -
  have "length (ps_rest (while_loop f (snd (next_char s)))) \<le> length (ps_rest (snd (next_char s)))"
    using while_loop_parsing[OF parsing_step[OF assms(1,2)]] by simp
  then show ?thesis using assms(2,3) by (simp add: while_loop.simps[of f s] next_char_def)
qed

lemma runs_digits: "is_digit ch \<Longrightarrow> runs src N (guarded ch parse_integer_constant) eats"
proof (rule runsI)
  fix s assume ch: "is_digit ch" and s: "parsing src s" "length (ps_rest s) < N"
  show "ends_well src eats s (guarded ch parse_integer_constant s)"
  proof (cases "try_peek s = Some ch")
    case True
    then obtain cs where "ps_rest s = ch # cs" by (auto simp: try_peek_def split: list.splits)
    from while_loop_takes[of src s ch cs is_digit, OF s(1) this ch] while_loop_parsing[OF s(1), of is_digit]
    show ?thesis
      by (simp add: guarded_def True parse_integer_constant_def and_then_def offset_here_def consume_while_def
          slice_from_def unwrap_number_def give_def panic_def parser_panics_def split: option.split) linarith
  qed (simp add: guarded_def fail_def located_def parsing_place s)
qed

section \<open>Expressions\<close>

text \<open>The parser of unscoped variables rejects a scoped one with the place of its name.\<close>

definition head_placed :: "string \<Rightarrow> expr \<Rightarrow> bool" where
  "head_placed src e \<longleftrightarrow> (\<forall>f x l. e = VariableExpr (Scoped f x l) \<longrightarrow> place_of src l)"

lemma head_placed_simps [simp]:
  "head_placed src (ListLiteral es)" "head_placed src (SetLiteral es)" "head_placed src (CallExpr f es)"
  "head_placed src (ListComprehension e y v k)" "head_placed src (SetComprehension e y v k)"
  "head_placed src (VariableExpr (Unscoped y))" "head_placed src (StringConstant t)" "head_placed src (CaptureExpr c)"
  "head_placed src (VariableExpr (Scoped e x l)) \<longleftrightarrow> place_of src l"
  "head_placed src (IntegerConstant n)" "head_placed src (RegexCapture i)"
  "head_placed src FalseLiteral" "head_placed src TrueLiteral" "head_placed src NullLiteral"
  by (simp_all add: head_placed_def)

definition reads :: "string \<Rightarrow> nat \<Rightarrow> expr parser \<Rightarrow> bool" where
  "reads src n pe \<longleftrightarrow> (\<forall>N \<le> n. runs src N pe (\<lambda>e d. 1 \<le> d \<and> head_placed src e))"

lemma readsD: "reads src n pe \<Longrightarrow> N \<le> n \<Longrightarrow> runs src N pe (\<lambda>e d. 1 \<le> d \<and> head_placed src e)"
  by (simp add: reads_def)

lemma runs_call:
  assumes "reads src n pe" "N \<le> Suc n"
  shows "runs src N (parse_call E pe) (\<lambda>e d. 1 \<le> d \<and> head_placed src e)"
  unfolding parse_call_def
  by (rule runs_rules runs_more readsD[OF assms(1)] | (rule runs_tail, rule runs_more) | (use assms(2) in simp; fail))+

lemma runs_sequence:
  assumes "reads src n pe" "N \<le> n"
  shows "runs src N (parse_sequence pe c) keeps"
  unfolding parse_sequence_def
  by (rule runs_rules runs_more readsD[OF assms(1)] | (rule runs_tail, rule runs_more) | (use assms(2) in simp; fail))+

lemma runs_case_variable:
  "place_of src l \<Longrightarrow> head_placed src e \<Longrightarrow>
    runs src N (case e of VariableExpr v \<Rightarrow> give v | _ \<Rightarrow> fail (ExpectedVariable l))
      (\<lambda>v d. head_placed src (VariableExpr v))"
  by (cases e) (simp_all add: runs_give runs_fail)

lemma runs_variable:
  assumes "reads src n pe" "N \<le> n"
  shows "runs src N (parse_variable_with pe) (\<lambda>v d. 1 \<le> d \<and> head_placed src (VariableExpr v))"
  unfolding parse_variable_with_def
  by (rule runs_rules runs_here readsD[OF assms(1)] | (rule runs_tail, rule runs_case_variable)
      | (use assms(2) in simp; fail))+

lemma runs_case_unscoped:
  "head_placed src (VariableExpr v) \<Longrightarrow>
    runs src N (case v of Unscoped x \<Rightarrow> give x | Scoped e x l \<Rightarrow> fail (ExpectedUnscopedVariable l)) keeps"
  by (cases v) (simp_all add: runs_give runs_fail)

lemma runs_unscoped:
  assumes "reads src n pe" "N \<le> n"
  shows "runs src N (parse_unscoped_with pe) eats"
  unfolding parse_unscoped_with_def
  by (rule runs_rules runs_variable[OF assms(1)] | (rule runs_tail, rule runs_case_unscoped)
      | (use assms(2) in simp; fail))+

lemma runs_comprehension:
  assumes "reads src n pe" "N \<le> n" "closing \<noteq> []" "\<And>x v. head_placed src (build e x v l)"
  shows "runs src N (parse_comprehension pe closing build e l) (\<lambda>e d. head_placed src e)"
  unfolding parse_comprehension_def
  by (rule runs_rules runs_more runs_unscoped[OF assms(1)] readsD[OF assms(1)] | (rule runs_tail, rule runs_more)
      | (use assms(2-4) in simp; fail))+

lemma runs_bracketed:
  assumes "reads src n pe" "N \<le> Suc n" "opening \<noteq> []" "closing \<noteq> []" "\<And>e x v l. head_placed src (build e x v l)"
    "\<And>es. head_placed src (literal es)"
  shows "runs src N (parse_bracketed pe opening closing literal build) (\<lambda>e d. 1 \<le> d \<and> head_placed src e)"
  unfolding parse_bracketed_def
  by (rule runs_rules runs_more runs_sequence[OF assms(1)] readsD[OF assms(1)] | (rule runs_tail, rule runs_more)
      | (rule runs_tail, rule runs_comprehension[OF assms(1)]) | (use assms(2-) in simp; fail))+

lemma runs_literal: "runs src N (parse_literal E) (\<lambda>e d. 1 \<le> d \<and> head_placed src e)"
  unfolding parse_literal_def
  by (rule runs_rules runs_fail runs_more | (rule runs_tail, rule runs_more) | (simp; fail))+

lemma runs_capture: "runs src N (parse_capture E) eats"
  unfolding parse_capture_def
  by (rule runs_rules runs_fail runs_more | (rule runs_tail, rule runs_more) | (simp; fail))+

lemma runs_regex_capture: "runs src N parse_regex_capture (\<lambda>e d. 1 \<le> d \<and> head_placed src e)"
  unfolding parse_regex_capture_def
  by (rule runs_rules runs_fail runs_more | (rule runs_tail, rule runs_more) | (simp; fail))+

lemma integer_headed: "head_placed src e" if "fst (parse_integer_constant s) = Val e"
  using that by (auto simp: parse_integer_constant_def and_then_def offset_here_def consume_while_def slice_from_def
      unwrap_number_def give_def panic_def split: option.splits)

lemma runs_integer: "is_digit ch \<Longrightarrow> runs src N (guarded ch parse_integer_constant) (\<lambda>e d. 1 \<le> d \<and> head_placed src e)"
proof (rule runsI)
  fix s assume ch: "is_digit ch" and s: "parsing src s" "length (ps_rest s) < N"
  obtain r t where t: "guarded ch parse_integer_constant s = (r, t)" by fastforce
  with runsD[OF runs_digits[OF ch] s] integer_headed[of s]
  show "ends_well src (\<lambda>e d. 1 \<le> d \<and> head_placed src e) s (guarded ch parse_integer_constant s)"
    by (cases r) (auto simp: guarded_def fail_def split: if_splits)
qed

lemma runs_primary:
  assumes "reads src n pe" "N \<le> Suc n"
  shows "runs src N (guarded ch (primary E pe ch)) (\<lambda>e d. 1 \<le> d \<and> head_placed src e)"
proof (cases "is_digit ch")
  case True
  have n: "\<not> is_digit ''#''" "\<not> is_digit [CHR 0x22]" "\<not> is_digit ''@''" "\<not> is_digit ''$''" "\<not> is_digit ''(''"
    "\<not> is_digit ''[''" "\<not> is_digit ''{''" by (simp_all add: is_digit_def is_ascii_digit_def byte_def)
  then have "ch \<noteq> ''#''" "ch \<noteq> [CHR 0x22]" "ch \<noteq> ''@''" "ch \<noteq> ''$''" "ch \<noteq> ''(''" "ch \<noteq> ''[''" "ch \<noteq> ''{''"
    using True by metis+
  then have "primary E pe ch = parse_integer_constant" using True by (simp add: primary_def)
  with runs_integer[OF True] show ?thesis by simp
next
  case False
  show ?thesis
    unfolding primary_def if_not_P[OF False]
    by (rule runs_guarded,
        (rule runs_rules runs_fail runs_more runs_literal runs_regex_capture runs_capture
          runs_call[OF assms] runs_bracketed[OF assms] | (rule runs_tail, rule runs_more runs_capture) | (simp; fail))+)
qed

lemma runs_scoped_names: "runs src N (scoped_names E) (\<lambda>xs d. list_all (\<lambda>(x, l). place_of src l) xs)"
proof -
  let ?body = "after skip_char (after ws (and_then here (\<lambda>l. and_then (parse_name E ''scoped variable name'')
    (\<lambda>x. after ws (give (x, l))))))"
  have b: "runs src N ?body (\<lambda>p d. 1 \<le> d \<and> (case p of (x, l) \<Rightarrow> place_of src l))"
    by (rule runs_rules runs_more | (rule runs_tail, rule runs_more) | (simp; fail))+
  have "runs src N (while_char ''.'' ?body) (\<lambda>r d. goes_on r d \<and> pred_option (\<lambda>(x, l). place_of src l) r)"
    unfolding while_char_if
    by (rule runs_state, rule runs_if, rule runs_and_then[OF b]) (auto intro!: runs_give)
  then show ?thesis unfolding scoped_names_def by (rule runs_many_all)
qed

lemma head_placed_foldl:
  "head_placed src e \<Longrightarrow> list_all (\<lambda>(x, l). place_of src l) xs \<Longrightarrow>
    head_placed src (foldl (\<lambda>e (x, l). VariableExpr (Scoped e x l)) e xs)"
  by (induction xs arbitrary: e) auto

lemma reads_expression_with:
  assumes "reads src n pe"
  shows "reads src (Suc n) (expression_with E pe)"
proof -
  have "runs src N (expression_with E pe) (\<lambda>e d. 1 \<le> d \<and> head_placed src e)" if "N \<le> Suc n" for N
    unfolding expression_with_def
    by (subst peek_guarded, rule runs_and_then[OF runs_peek],
        (rule runs_rules runs_ws runs_primary[OF assms] runs_scoped_names
         | (use that in \<open>simp add: head_placed_foldl\<close>; fail))+)
  then show ?thesis by (simp add: reads_def)
qed

lemma reads_parse_expression: "reads src n (parse_expression E n)"
proof (induction n)
  case 0
  show ?case by (simp add: reads_def runs_def)
next
  case (Suc n)
  from reads_expression_with[OF this] show ?case by simp
qed

lemma reads_expression: "reads src n (expression E)"
proof -
  have "runs src N (expression E) (\<lambda>e d. 1 \<le> d \<and> head_placed src e)" for N
  proof (rule runsI)
    fix s assume s: "parsing src s"
    have "runs src (Suc (length (ps_rest s))) (parse_expression E (Suc (length (ps_rest s)))) (\<lambda>e d. 1 \<le> d \<and> head_placed src e)"
      by (rule readsD[OF reads_parse_expression]) simp
    from runsD[OF this s] show "ends_well src (\<lambda>e d. 1 \<le> d \<and> head_placed src e) s (expression E s)"
      by (simp add: expression_def)
  qed
  then show ?thesis by (simp add: reads_def)
qed

section \<open>Statements\<close>

lemmas runs_expression = readsD[OF reads_expression order_refl]

lemmas runs_all = runs_more runs_expression runs_variable[OF reads_expression order_refl]
  runs_unscoped[OF reads_expression order_refl] runs_attempt[OF runs_expression]

lemma runs_attribute: "runs src N (parse_attribute E) eats"
proof -
  have "runs src M (if try_peek s = Some ''='' then after (consume_token ''='') (after ws
      (and_then (expression E) (\<lambda>e. give (Attribute a e)))) else give (Attribute a TrueLiteral)) keeps" for M s a
    by (rule runs_rules runs_all | (rule runs_tail, rule runs_all) | (simp; fail))+
  from runs_state[OF this] have "value": "runs src M (\<lambda>s. if try_peek s = Some ''='' then after (consume_token ''='') (after ws
      (and_then (expression E) (\<lambda>e. give (Attribute a e)))) s else give (Attribute a TrueLiteral) s) keeps" for M a
    by (simp only: if_distribR)
  show ?thesis unfolding parse_attribute_def
    by (rule runs_rules runs_all | (rule runs_tail, rule "value") | (rule runs_tail, rule runs_all) | (simp; fail))+
qed

lemma runs_attributes: "runs src N (parse_attributes E) eats"
  unfolding parse_attributes_def
  by (rule runs_rules runs_all runs_attribute | (rule runs_tail, rule runs_all runs_attribute) | (simp; fail))+

lemma runs_condition_kind: "place_of src l \<Longrightarrow> runs src N (condition_kind E l) eats"
  unfolding condition_kind_def
  by (rule runs_rules runs_all runs_fail | (rule runs_tail, rule runs_all) | (simp; fail))+

lemma runs_condition: "runs src N (parse_condition E) eats"
  unfolding parse_condition_def
  by (rule runs_rules runs_all runs_condition_kind | (rule runs_tail, rule runs_all) | (simp; fail))+

lemma runs_conditions: "runs src N (parse_conditions E) eats"
  unfolding parse_conditions_def
  by (rule runs_rules runs_all runs_condition | (rule runs_tail, rule runs_all runs_condition) | (simp; fail))+

definition takes :: "string \<Rightarrow> nat \<Rightarrow> 'a parser \<Rightarrow> bool" where
  "takes src n m \<longleftrightarrow> (\<forall>N \<le> n. runs src N m eats)"

lemma takesD: "takes src n m \<Longrightarrow> N \<le> n \<Longrightarrow> runs src N m eats"
  by (simp add: takes_def)

lemma takes_block:
  assumes "takes src n ps"
  shows "takes src (Suc n) (block_with ps)"
proof -
  have "runs src N (block_with ps) eats" if "N \<le> Suc n" for N
    unfolding block_with_def
    by (rule runs_rules runs_all takesD[OF assms] | (rule runs_tail, rule runs_all) | (use that in simp; fail))+
  then show ?thesis by (simp add: takes_def)
qed

lemma runs_simple_statements:
  assumes "place_of src l"
  shows "runs src N (parse_assignment E build l) keeps" "runs src N (parse_attr E l) keeps" "runs src N (parse_print E l) keeps"
  unfolding parse_assignment_def parse_attr_def parse_print_def
  by (rule runs_rules runs_all runs_attributes | (rule runs_tail, rule runs_all runs_attributes) | (simp; fail))+

lemma runs_scan_arm:
  assumes "takes src n block" "N \<le> Suc n"
  shows "runs src N (parse_scan_arm E block l) eats"
  unfolding parse_scan_arm_def
  by (rule runs_rules runs_all runs_fail takesD[OF assms(1)] | (rule runs_tail, rule runs_all)
      | (use assms(2) in simp; fail))+

lemma runs_conditional_arm:
  assumes "takes src n block" "N \<le> n"
  shows "runs src N (conditional_arm E block l) eats"
  unfolding conditional_arm_def
  by (rule runs_rules runs_all runs_conditions takesD[OF assms(1)] | (rule runs_tail, rule runs_all)
      | (use assms(2) in simp; fail))+

lemma runs_elif:
  assumes "takes src n block" "N \<le> n"
  shows "runs src N (elif_arm E block) goes_on" "runs src N (else_arms block) keeps"
  unfolding elif_arm_def else_arms_def
  by (rule runs_rules runs_all runs_conditional_arm[OF assms(1)] takesD[OF assms(1)] | (rule runs_tail, rule runs_all)
      | (use assms(2) in simp; fail))+

lemma runs_block_statements:
  assumes "takes src n block" "N \<le> n"
  shows "runs src N (parse_scan E block l) keeps" "runs src N (parse_if E block l) keeps" "runs src N (parse_for E block l) keeps"
  unfolding parse_scan_def parse_if_def parse_for_def
  by (rule runs_rules runs_all runs_scan_arm[OF assms(1)] runs_elif[OF assms(1)] runs_conditional_arm[OF assms(1)]
        takesD[OF assms(1)] runs_many[OF runs_elif(1)[OF assms(1)]]
      | (rule runs_tail, rule runs_all runs_elif[OF assms(1)]) | (use assms(2) in simp; fail))+

lemma runs_statement_with:
  assumes "takes src n block" "N \<le> Suc n"
  shows "runs src N (statement_with E block) eats"
  unfolding statement_with_def
  by (rule runs_rules runs_all runs_fail | (rule runs_tail, rule runs_all runs_simple_statements runs_block_statements[OF assms(1)])
      | (use assms(2) in simp; fail))+

lemma takes_statement: "takes src n (parse_statement E n)"
proof (induction n)
  case (Suc n)
  have "runs src N (parse_statement E (Suc n)) eats" if "N \<le> Suc n" for N
    unfolding parse_statement.simps by (rule runs_statement_with[OF takes_block[OF Suc]]) (use that in simp)
  then show ?case by (simp add: takes_def)
qed (simp add: takes_def runs_def)

lemma runs_statements: "runs src N (parse_statements E) eats"
proof (rule runsI)
  fix s assume s: "parsing src s"
  have "takes src (Suc (Suc (length (ps_rest s)))) (block_with (parse_statement E (Suc (length (ps_rest s)))))"
    by (rule takes_block[OF takes_statement])
  from runsD[OF takesD[OF this order_refl] s] show "ends_well src eats s (parse_statements E s)"
    by (simp add: parse_statements_def)
qed

section \<open>Files\<close>

lemma runs_parse_query: "runs src N (parse_query E) keeps"
proof -
  have "runs src M (case pe_query E t of Inl e \<Rightarrow> fail (QueryError (shift_query_error l k e))
      | Inr q \<Rightarrow> if tq_patterns q > 1 then fail (UnexpectedQueryPatterns l)
          else (case capture_index_for_name q full_match of
                  None \<Rightarrow> panic ''missing capture index for full match'' | Some i \<Rightarrow> give (q, i))) keeps"
    if "place_of src l" for M t l k
    using that by (auto intro!: runs_fail runs_panic runs_give simp: parser_panics_def split: sum.split option.split)
  then show ?thesis unfolding parse_query_def skip_query_def
    by (intro runs_and_then[OF runs_here] runs_and_then[OF runs_offset(1)] runs_and_then[OF runs_query_loop]
        runs_and_then[OF runs_offset(2)] runs_and_then[OF runs_add_query]) simp
qed

lemma runs_stanza: "runs src N (parse_stanza E) eats"
  unfolding parse_stanza_def
  by (rule runs_rules runs_all runs_parse_query runs_statements | (rule runs_tail, rule runs_all) | (simp; fail))+

lemma runs_quantifier: "runs src N parse_quantifier keeps"
proof -
  have "runs src N (case try_peek s of None \<Rightarrow> give QOne
      | Some c \<Rightarrow>
          after skip_char (if c = ''?'' then give QZeroOrOne else if c = ''*'' then give QZeroOrMore
            else if c = ''+'' then give QOneOrMore
            else if \<not> is_space c then and_then here (\<lambda>l. fail (ExpectedQuantifier l))
            else give QOne)) keeps" for s
    by (rule runs_rules runs_all runs_fail | (rule runs_tail, rule runs_all) | (simp; fail))+
  from runs_state[OF this] have "runs src N (\<lambda>s. (case try_peek s of None \<Rightarrow> give QOne
      | Some c \<Rightarrow>
          after skip_char (if c = ''?'' then give QZeroOrOne else if c = ''*'' then give QZeroOrMore
            else if c = ''+'' then give QOneOrMore
            else if \<not> is_space c then and_then here (\<lambda>l. fail (ExpectedQuantifier l))
            else give QOne)) s) keeps" .
  then show ?thesis by (rule runs_same) (simp add: parse_quantifier_def split: option.split)
qed

lemma runs_global: "runs src N (parse_global E) eats"
  unfolding parse_global_def
  by (rule runs_rules runs_all runs_quantifier | (rule runs_tail, rule runs_all) | (simp; fail))+

lemma runs_shorthand: "runs src N (parse_shorthand E) eats"
  unfolding parse_shorthand_def
  by (rule runs_rules runs_all runs_attributes | (rule runs_tail, rule runs_all) | (simp; fail))+

lemma runs_item: "runs src N (parse_item E) eats"
  unfolding parse_item_def
  by (rule runs_rules runs_all runs_global runs_shorthand runs_stanza | (rule runs_tail, rule runs_all) | (simp; fail))+

lemma runs_items: "runs src N (parse_items E) keeps"
proof -
  have "runs src N (if try_peek s = None then give None else and_then (parse_item E) (\<lambda>h. after ws (give (Some h)))) goes_on" for s
    by (rule runs_rules runs_all runs_item | (rule runs_tail, rule runs_all) | (simp; fail))+
  from runs_state[OF this] show ?thesis unfolding parse_items_def
    by (intro runs_many) (simp only: if_distribR)
qed

lemma runs_into_file: "runs src N (parse_into_file E f) keeps"
proof -
  have "runs src M (\<lambda>s. case pe_query E (ps_query s) of
         Inl e \<Rightarrow> panic ''called Result::unwrap() on an Err value: QueryError'' s
       | Inr q \<Rightarrow> give ((fold (\<lambda>h. h) hs f)\<lparr>df_query := Some q\<rparr>) s) keeps" for M hs
    by (rule runsI) (simp add: panic_def give_def parser_panics_def split: sum.split)
  then show ?thesis unfolding parse_into_file_def
    by (intro runs_and_then[OF runs_ws] runs_and_then[OF runs_items])
qed

text \<open>
  Parsing a graph language file ends, whatever the source and the Unicode tables, the regex crate
  and the query compiler say: in a file, in an error whose place is a place of the source, or in one of
  three panics (a number that is too large, a query whose pattern has no index for the full match, or
  patterns that compile one by one and not together).
\<close>

theorem parse_always_ends:
  "case parse_file E src of
     Val f \<Rightarrow> True
   | Fails e \<Rightarrow> located src e
   | Panics p \<Rightarrow> p \<in> parser_panics"
proof -
  obtain r t where "parse_into_file E new_file (new_parser src) = (r, t)" by fastforce
  with runsD[OF runs_into_file[of src _ E new_file] parsing_new, OF lessI] show ?thesis
    by (cases r) (simp_all add: parse_file_def)
qed

section \<open>Surprises\<close>

text \<open>A quantifier takes the character after the name, so an equals sign there is an error, placed
  behind itself.\<close>

lemma default_needs_space:
  "fst (parse_global E (new_parser (''x='' @ [CHR 0x22, CHR 0x22]))) = Fails (ExpectedQuantifier (Location 0 2))"
  by code_simp

end
