(* ===== verification/Tsg_Reading.thy ===== *)
theory Tsg_Reading
  imports Tsg_Parser_Facts
begin

text \<open>
  The display form of an expression parses back to the expression, up to the places that the parser
  records. The logic of this theory (\<open>parses\<close>) follows a parser along a text of ASCII characters:
  what it returns and what it leaves.
\<close>

section \<open>Following a text\<close>

definition single :: "string \<Rightarrow> string list" where
  "single txt = map (\<lambda>c. [c]) txt"

lemma single_simps [simp]: "single [] = []" "single (c # r) = [c] # single r" "single (a @ b) = single a @ single b"
  "concat (single r) = r" "length (single r) = length r"
  by (simp_all add: single_def)

definition reading :: "string \<Rightarrow> pstate \<Rightarrow> string \<Rightarrow> bool" where
  "reading src s txt \<longleftrightarrow> parsing src s \<and> ps_rest s = single txt"

definition parses :: "string \<Rightarrow> 'a parser \<Rightarrow> string \<Rightarrow> ('a \<Rightarrow> bool) \<Rightarrow> string \<Rightarrow> bool" where
  "parses src m txt Q r \<longleftrightarrow>
     (\<forall>s. reading src s txt \<longrightarrow> (\<exists>a t. m s = (Val a, t) \<and> Q a \<and> reading src t r))"

lemma parsesI:
  "(\<And>s. reading src s txt \<Longrightarrow> \<exists>a t. m s = (Val a, t) \<and> Q a \<and> reading src t r) \<Longrightarrow> parses src m txt Q r"
  by (simp add: parses_def)

lemma parses_and_then:
  assumes "parses src m txt Q r" "\<And>a. Q a \<Longrightarrow> parses src (f a) r R r'"
  shows "parses src (and_then m f) txt R r'"
proof (rule parsesI)
  fix s assume "reading src s txt"
  with assms(1) obtain a t where a: "m s = (Val a, t)" "Q a" "reading src t r" unfolding parses_def by blast
  with assms(2)[OF a(2)] obtain b u where "f a t = (Val b, u)" "R b" "reading src u r'" unfolding parses_def by blast
  with a(1) show "\<exists>b u. and_then m f s = (Val b, u) \<and> R b \<and> reading src u r'" by (simp add: and_then_def)
qed

lemma parses_give: "Q a \<Longrightarrow> parses src (give a) r Q r"
  by (rule parsesI) (simp add: give_def)

lemma parses_weaken: "parses src m txt Q r \<Longrightarrow> (\<And>a. Q a \<Longrightarrow> R a) \<Longrightarrow> parses src m txt R r"
  unfolding parses_def by blast

lemma reading_drop: "reading src s txt \<Longrightarrow> drop (ps_offset s) src = txt"
proof -
  assume "reading src s txt"
  then obtain before where b: "chars src = before @ single txt" "ps_offset s = length (concat before)"
    by (auto simp: reading_def parsing_def)
  have "src = concat (chars src)" by simp
  also have "\<dots> = concat before @ txt" unfolding b(1) by simp
  finally show ?thesis using b(2) by (metis append_eq_conv_conj)
qed

lemma reading_slice:
  assumes "reading src s (u @ r)" "reading src t r"
  shows "take (ps_offset t - ps_offset s) (drop (ps_offset s) (ps_source t)) = u"
proof -
  have st: "ps_source t = src" using assms(2) by (simp add: reading_def parsing_def)
  obtain b1 b2 where b: "chars src = b1 @ single (u @ r)" "ps_offset s = length (concat b1)"
    "chars src = b2 @ single r" "ps_offset t = length (concat b2)"
    using assms by (auto simp: reading_def parsing_def)
  from b(1,3) have "b2 = b1 @ single u" by simp
  then have "ps_offset t - ps_offset s = length u" using b(2,4) by simp
  then show ?thesis using reading_drop[OF assms(1)] st by simp
qed

lemma reading_next:
  assumes "reading src s (c # r)"
  shows "next_char s = (Val [c], snd (next_char s))" "reading src (snd (next_char s)) r"
proof -
  have s: "parsing src s" "ps_rest s = [c] # single r" using assms by (simp_all add: reading_def)
  then show "next_char s = (Val [c], snd (next_char s))" by (simp add: next_char_def)
  show "reading src (snd (next_char s)) r" using parsing_step[OF s] s(2) by (simp add: reading_def next_char_def)
qed

lemma parses_next: "parses src next_char (c # r) (\<lambda>x. x = [c]) r"
  by (rule parsesI) (use reading_next in blast)

lemma parses_skip: "parses src skip_char (c # r) (\<lambda>_. True) r"
  unfolding skip_char_def by (rule parses_and_then[OF parses_next]) (simp add: parses_give)

lemma parses_peek: "parses src peek (c # r) (\<lambda>x. x = [c]) (c # r)"
  by (rule parsesI) (simp add: peek_def reading_def give_def)

lemma parses_here: "parses src here r (\<lambda>_. True) r" "parses src offset_here r (\<lambda>_. True) r"
  by (rule parsesI, simp add: here_def offset_here_def)+

lemma parses_consume_n: "parses src (consume_n (length u)) (u @ r) (\<lambda>_. True) r"
proof (induction u)
  case (Cons c u)
  from parses_and_then[OF parses_next[of src c "u @ r"] Cons] show ?case by simp
qed (simp add: parses_give)

lemma starts_with_same [simp]: "starts_with u (u @ r)"
  by (simp add: starts_with_def)

lemma parses_token: "parses src (consume_token u) (u @ r) (\<lambda>_. True) r"
proof (rule parsesI)
  fix s assume s: "reading src s (u @ r)"
  then have "starts_with u (drop (ps_offset s) (ps_source s))"
    using reading_drop[OF s] by (simp add: reading_def parsing_def)
  moreover from parses_consume_n s obtain a t where "consume_n (length u) s = (Val a, t)" "reading src t r"
    unfolding parses_def by blast
  ultimately show "\<exists>a t. consume_token u s = (Val a, t) \<and> True \<and> reading src t r" by (simp add: consume_token_def)
qed

lemma parses_attempt: "parses src m txt Q r \<Longrightarrow> parses src (attempt m) txt (\<lambda>x. \<exists>a. x = Some a \<and> Q a) r"
  unfolding parses_def attempt_def by fastforce

lemma parses_no_token: "\<not> starts_with u txt \<Longrightarrow> parses src (attempt (consume_token u)) txt (\<lambda>x. x = None) txt"
proof (rule parsesI)
  fix s assume u: "\<not> starts_with u txt" and s: "reading src s txt"
  then have "\<not> starts_with u (drop (ps_offset s) (ps_source s))"
    using reading_drop[OF s] by (simp add: reading_def parsing_def)
  with s show "\<exists>a t. attempt (consume_token u) s = (Val a, t) \<and> a = None \<and> reading src t txt"
    by (simp add: attempt_def consume_token_def fail_def)
qed

section \<open>White space, names, numbers and strings\<close>

definition skip_blanks :: "string \<Rightarrow> string" where
  "skip_blanks r = dropWhile (\<lambda>c. c = CHR '' '') r"

definition calm :: "string \<Rightarrow> bool" where
  "calm r \<longleftrightarrow> skip_blanks r = [] \<or> \<not> is_space [hd (skip_blanks r)] \<and> hd (skip_blanks r) \<noteq> CHR '';''"

lemma skip_blanks_simps [simp]: "skip_blanks [] = []" "skip_blanks (CHR '' '' # r) = skip_blanks r"
  "c \<noteq> CHR '' '' \<Longrightarrow> skip_blanks (c # r) = c # r" "skip_blanks (skip_blanks r) = skip_blanks r"
  by (simp_all add: skip_blanks_def)

lemma is_space_single: "is_space [c] \<longleftrightarrow> byte c \<in> {9, 10, 11, 12, 13, 32}"
proof -
  have "[c] = map char_of [n :: nat] \<longleftrightarrow> byte c = n" if "n < 256" for n
    using that by (auto simp: byte_def)
  from this[of 9] this[of 10] this[of 11] this[of 12] this[of 13] this[of 32]
  show ?thesis by (auto simp: is_space_def white_space_def)
qed

lemma blank_is_space: "is_space '' ''"
  by (simp add: is_space_single byte_def)

lemma blank_loop_reading: "reading src s r \<Longrightarrow> calm r \<Longrightarrow> reading src (blank_loop False s) (skip_blanks r)"
proof (induction r arbitrary: s)
  case Nil
  then show ?case by (simp add: blank_loop.simps reading_def)
next
  case (Cons c r)
  from Cons.prems(1) have s: "ps_rest s = [c] # single r" by (simp add: reading_def)
  show ?case
  proof (cases "c = CHR '' ''")
    case True
    then have "blank_loop False s = blank_loop False (snd (next_char s))"
      using s blank_is_space by (subst blank_loop.simps) simp
    with Cons.IH[OF reading_next(2)[OF Cons.prems(1)]] Cons.prems(2) True show ?thesis by (simp add: calm_def)
  next
    case False
    then have "\<not> is_space [c]" "[c] \<noteq> '';''" using Cons.prems(2) by (simp_all add: calm_def)
    then have "blank_loop False s = s" using s by (subst blank_loop.simps) simp
    with Cons.prems(1) False show ?thesis by simp
  qed
qed

lemma parses_ws: "calm r \<Longrightarrow> parses src consume_whitespace r (\<lambda>_. True) (skip_blanks r)"
  by (rule parsesI) (simp add: consume_whitespace_def blank_loop_reading)

lemma while_loop_reading:
  "reading src s (u @ r) \<Longrightarrow> \<forall>c \<in> set u. f [c] \<Longrightarrow> r = [] \<or> \<not> f [hd r] \<Longrightarrow> reading src (while_loop f s) r"
proof (induction u arbitrary: s)
  case Nil
  then show ?case by (cases r) (auto simp: while_loop.simps[of f s] reading_def)
next
  case (Cons c u)
  then have "while_loop f s = while_loop f (snd (next_char s))"
    by (simp add: while_loop.simps[of f s] reading_def)
  with Cons.IH[of "snd (next_char s)"] reading_next(2)[of src s c "u @ r"] Cons.prems show ?case by simp
qed

text \<open>\<open>stops r\<close>: what follows an expression ends a name and a number.\<close>

definition stops :: "string \<Rightarrow> bool" where
  "stops r \<longleftrightarrow> r = [] \<or> hd r \<in> set '' ,])}.''"

lemma stops_ident: "stops r \<Longrightarrow> r = [] \<or> \<not> is_ident E [hd r]"
  by (auto simp: stops_def is_ident_def is_ascii_alphanumeric_def is_ascii_alphabetic_def is_ascii_digit_def byte_def)

lemma stops_digit: "stops r \<Longrightarrow> r = [] \<or> \<not> is_digit [hd r]"
  by (auto simp: stops_def is_digit_def is_ascii_digit_def byte_def)

definition name_char :: "char \<Rightarrow> bool" where
  "name_char c \<longleftrightarrow> c = CHR ''_'' \<or> c = CHR ''-'' \<or> is_ascii_alphanumeric c"

definition plain_name :: "string \<Rightarrow> bool" where
  "plain_name x \<longleftrightarrow> x \<noteq> [] \<and> (hd x = CHR ''_'' \<or> is_ascii_alphabetic (hd x)) \<and> list_all name_char x"

lemma plain_name_ident:
  assumes "plain_name (c # x)"
  shows "is_ident_start E [c]" "\<forall>d \<in> set x. is_ident E [d]"
  using assms by (auto simp: plain_name_def is_ident_start_def is_ident_def name_char_def list_all_iff)

lemma parses_name:
  assumes "plain_name x" "stops r"
  shows "parses src (parse_name E w) (x @ r) (\<lambda>y. y = x) r"
proof (rule parsesI)
  fix s assume s: "reading src s (x @ r)"
  obtain c y where x: "x = c # y" using assms(1) by (cases x) (auto simp: plain_name_def)
  obtain t where n: "next_char s = (Val [c], t)" "reading src t (y @ r)"
    using reading_next[of src s c "y @ r"] s x by simp
  have w: "reading src (while_loop (is_ident E) t) r"
    using while_loop_reading[OF n(2)] plain_name_ident(2)[of c y E] stops_ident[OF assms(2)] assms(1) x by blast
  have "parse_name E w s = (Val x, while_loop (is_ident E) t)"
    using plain_name_ident(1)[of c y E] assms(1) x n(1) reading_slice[OF s w]
    by (simp add: parse_name_def and_then_def offset_here_def consume_while_def slice_from_def)
  with w show "\<exists>a t. parse_name E w s = (Val a, t) \<and> a = x \<and> reading src t r" by blast
qed

text \<open>A number is the slice between two offsets, so its parser is followed state by state.\<close>

lemma digits_reading:
  assumes "stops r" "reading src s (dec n @ r)"
  shows "reading src (while_loop is_digit s) r"
    "slice_from (ps_offset s) (while_loop is_digit s) = (Val (dec n), while_loop is_digit s)"
    "ps_offset s \<noteq> ps_offset (while_loop is_digit s)"
proof -
  have "\<forall>c \<in> set (dec n). is_digit [c]" using dec_digits[of n] by (simp add: list_all_iff is_digit_def)
  then show w: "reading src (while_loop is_digit s) r"
    by (rule while_loop_reading[OF assms(2)]) (rule stops_digit[OF assms(1)])
  show "slice_from (ps_offset s) (while_loop is_digit s) = (Val (dec n), while_loop is_digit s)"
    using reading_slice[OF assms(2) w] by (simp add: slice_from_def)
  show "ps_offset s \<noteq> ps_offset (while_loop is_digit s)"
  proof
    assume "ps_offset s = ps_offset (while_loop is_digit s)"
    then have "dec n = []" using reading_slice[OF assms(2) w] by simp
    then show False by simp
  qed
qed

lemma parses_integer:
  assumes "stops r" "n \<le> 2 ^ 32 - 1"
  shows "parses src parse_integer_constant (dec n @ r) (\<lambda>e. e = IntegerConstant (of_nat n)) r"
proof (rule parsesI)
  fix s assume s: "reading src s (dec n @ r)"
  note d = digits_reading[OF assms(1) s]
  have "parse_integer_constant s = (Val (IntegerConstant (of_nat n)), while_loop is_digit s)"
    using d(2) assms(2)
    by (simp add: parse_integer_constant_def and_then_def offset_here_def consume_while_def unwrap_number_def
        parse_unsigned_dec give_def)
  with d(1) show "\<exists>a t. parse_integer_constant s = (Val a, t) \<and> a = IntegerConstant (of_nat n) \<and> reading src t r" by blast
qed

lemma parses_regex_capture:
  assumes "stops r" "n \<le> 2 ^ 64 - 1"
  shows "parses src parse_regex_capture (''$'' @ dec n @ r) (\<lambda>e. e = RegexCapture n) r"
proof -
  have "parses src (and_then offset_here (\<lambda>start. after (consume_while is_digit) (and_then offset_here (\<lambda>en.
         if start = en then fail (InvalidRegexCapture l)
         else and_then (slice_from start) (\<lambda>ds. and_then (unwrap_number (2 ^ 64 - 1) ds) (\<lambda>n. give (RegexCapture n)))))))
     (dec n @ r) (\<lambda>e. e = RegexCapture n) r" (is "parses src ?m _ _ _") for l
  proof (rule parsesI)
    fix s assume s: "reading src s (dec n @ r)"
    note d = digits_reading[OF assms(1) s]
    have "?m s = (Val (RegexCapture n), while_loop is_digit s)"
      using d(2,3) assms(2)
      by (simp add: and_then_def offset_here_def consume_while_def unwrap_number_def parse_unsigned_dec give_def)
    with d(1) show "\<exists>a t. ?m s = (Val a, t) \<and> a = RegexCapture n \<and> reading src t r" by blast
  qed
  then show ?thesis unfolding parse_regex_capture_def
    by (intro parses_and_then[OF parses_here(1)] parses_and_then[OF parses_token])
qed

text \<open>The characters that the display form of a string writes in a way that the parser reads.\<close>

definition plain_char :: "char \<Rightarrow> bool" where
  "plain_char c \<longleftrightarrow> byte c \<in> {0, 9, 10, 13} \<or> 32 \<le> byte c \<and> byte c < 127"

lemma byte_eq: "byte c = byte d \<longleftrightarrow> c = d"
  by (simp add: byte_def)

lemma debug_char_cases:
  assumes "plain_char c"
  obtains d where "debug_char c = [CHR 0x5C, d]" "unescape [d] = [c]"
  | "debug_char c = [c]" "c \<noteq> CHR 0x22" "c \<noteq> CHR 0x5C"
proof -
  have "byte c = 0 \<longleftrightarrow> c = CHR 0x00" "byte c = 9 \<longleftrightarrow> c = CHR 0x09" "byte c = 10 \<longleftrightarrow> c = CHR 0x0A" "byte c = 13 \<longleftrightarrow> c = CHR 0x0D"
    using byte_eq[of c "CHR 0x00"] byte_eq[of c "CHR 0x09"] byte_eq[of c "CHR 0x0A"] byte_eq[of c "CHR 0x0D"]
    by (simp_all add: byte_def)
  with assms that show thesis
    by (cases "c \<in> {CHR 0x00, CHR 0x09, CHR 0x0A, CHR 0x0D, CHR 0x22, CHR 0x5C}")
      (auto simp: debug_char_def unescape_def plain_char_def)
qed

lemma string_loop_reading:
  "reading src s (concat (map debug_char w) @ CHR 0x22 # r) \<Longrightarrow> list_all plain_char w \<Longrightarrow>
    \<exists>t. string_loop False v s = (Val (v @ w), t) \<and> reading src t r"
proof (induction w arbitrary: s v)
  case Nil
  then have n: "reading src s (CHR 0x22 # r)" by simp
  then have "ps_rest s = [CHR 0x22] # single r" by (simp add: reading_def)
  then have "string_loop False v s = (Val v, snd (next_char s))" by (simp add: string_loop.simps Let_def give_def)
  with reading_next(2)[OF n] show ?case by simp
next
  case (Cons c w)
  let ?u = "concat (map debug_char w) @ CHR 0x22 # r"
  from Cons.prems(2) have "plain_char c" by simp
  then show ?case
  proof (cases rule: debug_char_cases)
    case (1 d)
    with Cons.prems(1) have s: "reading src s (CHR 0x5C # d # ?u)" by simp
    note n = reading_next(2)[OF s] reading_next(2)[OF reading_next(2)[OF s]]
    have "string_loop False v s = string_loop True v (snd (next_char s))"
      using s by (simp add: reading_def string_loop.simps[of False v s] Let_def)
    also have "\<dots> = string_loop False (v @ [c]) (snd (next_char (snd (next_char s))))"
      using n(1) 1(2) by (simp add: reading_def string_loop.simps[of True] Let_def)
    finally show ?thesis using Cons.IH[OF n(2), of "v @ [c]"] Cons.prems(2) by simp
  next
    case 2
    with Cons.prems(1) have s: "reading src s (c # ?u)" by simp
    note n = reading_next(2)[OF s]
    have "string_loop False v s = string_loop False (v @ [c]) (snd (next_char s))"
      using s 2(2,3) by (simp add: reading_def string_loop.simps[of False v s] Let_def)
    then show ?thesis using Cons.IH[OF n, of "v @ [c]"] Cons.prems(2) by simp
  qed
qed

lemma parses_string:
  assumes "list_all plain_char w"
  shows "parses src parse_string (debug_str w @ r) (\<lambda>v. v = w) r"
proof -
  have "parses src (string_loop False []) (concat (map debug_char w) @ CHR 0x22 # r) (\<lambda>v. v = w) r"
    by (rule parsesI) (use string_loop_reading[OF _ assms, of src _ r "[]"] in fastforce)
  then show ?thesis unfolding parse_string_def debug_str_def
    using parses_and_then[OF parses_token[of src "[CHR 0x22]"]] by simp
qed

section \<open>Loops\<close>

lemma parses_repeat:
  assumes "\<And>e es. set (e # es) \<subseteq> S \<Longrightarrow> parses src body (T (e # es)) (\<lambda>x. \<exists>a. x = Some a \<and> Q e a) (T es)"
    and "parses src body (T []) (\<lambda>x. x = None) (T [])"
  shows "set es \<subseteq> S \<Longrightarrow> length es < n \<Longrightarrow> parses src (repeat_run n body) (T es) (list_all2 Q es) (T [])"
proof (induction es arbitrary: n)
  case Nil
  then obtain m where "n = Suc m" by (cases n) auto
  then show ?case by (auto intro!: parses_and_then[OF assms(2)] parses_give)
next
  case (Cons e es)
  then obtain m where n: "n = Suc m" "length es < m" by (cases n) auto
  show ?case unfolding n(1) repeat_run.simps
  proof (rule parses_and_then[OF assms(1)])
    show "set (e # es) \<subseteq> S" by (rule Cons.prems(1))
    fix x assume "\<exists>a. x = Some a \<and> Q e a"
    then obtain a where a: "x = Some a" "Q e a" by blast
    have "parses src (repeat_run m body) (T es) (list_all2 Q es) (T [])" using Cons n(2) by simp
    then show "parses src (case x of None \<Rightarrow> give [] | Some a \<Rightarrow> and_then (repeat_run m body) (\<lambda>as. give (a # as)))
      (T es) (list_all2 Q (e # es)) (T [])"
      unfolding a(1) option.case by (rule parses_and_then) (rule parses_give, use a(2) in simp)
  qed
qed

lemma parses_many:
  assumes "\<And>e es. set (e # es) \<subseteq> S \<Longrightarrow> parses src body (T (e # es)) (\<lambda>x. \<exists>a. x = Some a \<and> Q e a) (T es)"
    and "parses src body (T []) (\<lambda>x. x = None) (T [])" and "set es \<subseteq> S" "length es \<le> length (T es)"
  shows "parses src (many body) (T es) (list_all2 Q es) (T [])"
proof (rule parsesI)
  fix s assume s: "reading src s (T es)"
  then have "length es < Suc (length (ps_rest s))" using assms(4) by (simp add: reading_def)
  from parses_repeat[of S src body T Q, OF assms(1,2,3) this] s
  show "\<exists>a t. many body s = (Val a, t) \<and> list_all2 Q es a \<and> reading src t (T [])"
    unfolding parses_def many_def by blast
qed

lemma parses_until_more:
  assumes "parses src body (c # r) Q r'" "c \<noteq> d"
  shows "parses src (until [d] body) (c # r) (\<lambda>x. \<exists>a. x = Some a \<and> Q a) r'"
  unfolding until_def
proof (rule parses_and_then[OF parses_peek])
  fix x assume "x = [c]"
  then show "parses src (if x = [d] then give None else and_then body (\<lambda>a. give (Some a))) (c # r) (\<lambda>x. \<exists>a. x = Some a \<and> Q a) r'"
    using assms(2) by (auto intro!: parses_and_then[OF assms(1)] parses_give)
qed

lemma parses_until_end: "parses src (until [d] body) (d # r) (\<lambda>x. x = None) (d # r)"
  unfolding until_def by (rule parses_and_then[OF parses_peek]) (simp add: parses_give)

section \<open>Expressions without their places\<close>

definition nowhere :: loc where
  "nowhere = Location 0 0"

fun erase :: "expr \<Rightarrow> expr" and erase_variable :: "variable \<Rightarrow> variable" where
  "erase (ListLiteral es) = ListLiteral (map erase es)"
| "erase (SetLiteral es) = SetLiteral (map erase es)"
| "erase (ListComprehension e x v l) =
     ListComprehension (erase e) (UnscopedVariable (uv_name x) nowhere) (erase v) nowhere"
| "erase (SetComprehension e x v l) =
     SetComprehension (erase e) (UnscopedVariable (uv_name x) nowhere) (erase v) nowhere"
| "erase (CaptureExpr c) = CaptureExpr (Capture (cap_name c) QZero 0 0 nowhere)"
| "erase (VariableExpr y) = VariableExpr (erase_variable y)"
| "erase (CallExpr f es) = CallExpr f (map erase es)"
| "erase e = e"
| "erase_variable (Scoped e x l) = Scoped (erase e) x nowhere"
| "erase_variable (Unscoped x) = Unscoped (UnscopedVariable (uv_name x) nowhere)"

text \<open>The expressions that the display form can render: names in ASCII, strings without other
  control characters, and neither of the literals true and false.\<close>

fun plain_expr :: "expr \<Rightarrow> bool" and plain_variable :: "variable \<Rightarrow> bool" where
  "plain_expr (StringConstant t) = list_all plain_char t"
| "plain_expr (ListLiteral es) = list_all plain_expr es"
| "plain_expr (SetLiteral es) = list_all plain_expr es"
| "plain_expr (ListComprehension e x v l) = (plain_expr e \<and> plain_name (uv_name x) \<and> plain_expr v)"
| "plain_expr (SetComprehension e x v l) = (plain_expr e \<and> plain_name (uv_name x) \<and> plain_expr v)"
| "plain_expr (CaptureExpr c) = plain_name (cap_name c)"
| "plain_expr (VariableExpr y) = plain_variable y"
| "plain_expr (CallExpr f es) = (plain_name f \<and> list_all plain_expr es)"
| "plain_expr (RegexCapture i) = (i < 2 ^ 64)"
| "plain_expr (IntegerConstant n) = True"
| "plain_expr NullLiteral = True"
| "plain_expr TrueLiteral = False"
| "plain_expr FalseLiteral = False"
| "plain_variable (Scoped e x l) = (plain_expr e \<and> plain_name x)"
| "plain_variable (Unscoped x) = plain_name (uv_name x)"

definition head_char :: "char \<Rightarrow> bool" where
  "head_char c \<longleftrightarrow> c \<in> {CHR ''#'', CHR 0x22, CHR ''@'', CHR ''$'', CHR ''('', CHR ''['', CHR ''{'', CHR ''_''} \<or>
     is_ascii_digit c \<or> is_ascii_alphabetic c"

lemma head_char_facts:
  assumes "head_char c"
  shows "\<not> is_space [c]" "c \<noteq> CHR '' ''" "c \<noteq> CHR '';''" "c \<noteq> CHR ''.''"
    "c \<noteq> CHR '',''" "c \<noteq> CHR '']''" "c \<noteq> CHR '')''" "c \<noteq> CHR ''}''"
  using assms by (auto simp: head_char_def is_space_single is_ascii_digit_def is_ascii_alphabetic_def byte_def)

lemma plain_name_head: "plain_name x \<Longrightarrow> x \<noteq> [] \<and> head_char (hd x)"
  by (auto simp: plain_name_def head_char_def)

lemma dec_head: "is_ascii_digit (hd (dec n))"
  using dec_digits[of n] dec_nonempty[of n] by (cases "dec n") auto

lemma shown_head:
  "plain_expr e \<Longrightarrow> show_expr e \<noteq> [] \<and> head_char (hd (show_expr e))"
  "plain_variable y \<Longrightarrow> show_variable y \<noteq> [] \<and> head_char (hd (show_variable y))"
proof (induction e and y rule: expr.induct variable.induct)
  case (IntegerConstant n)
  then show ?case using dec_head[of "unat n"] by (simp add: head_char_def)
next
  case (Scoped e x l)
  then show ?case by (cases "show_expr e") auto
next
  case (Unscoped x)
  then show ?case using plain_name_head by simp
qed (simp_all add: head_char_def debug_str_def)

section \<open>Parts of expressions\<close>

definition follows :: "string \<Rightarrow> bool" where
  "follows r \<longleftrightarrow> (r = [] \<or> hd r \<in> set '' ,])}'') \<and> calm r \<and> (skip_blanks r = [] \<or> hd (skip_blanks r) \<noteq> CHR ''.'')"

text \<open>What is known of the parser of the parts of an expression.\<close>

definition shown :: "string \<Rightarrow> expr parser \<Rightarrow> expr \<Rightarrow> bool" where
  "shown src pe e \<longleftrightarrow>
     (\<forall>r. follows r \<longrightarrow> parses src pe (show_expr e @ r) (\<lambda>e'. erase e' = erase e) (skip_blanks r))"

lemma shownD: "shown src pe e \<Longrightarrow> follows r \<Longrightarrow> parses src pe (show_expr e @ r) (\<lambda>e'. erase e' = erase e) (skip_blanks r)"
  by (simp add: shown_def)

lemma calm_Cons: "c \<noteq> CHR '' '' \<Longrightarrow> calm (c # r) \<longleftrightarrow> \<not> is_space [c] \<and> c \<noteq> CHR '';''"
  by (simp add: calm_def)

lemma calm_blank [simp]: "calm (CHR '' '' # r) = calm r" "calm []"
  by (simp_all add: calm_def)

lemma calm_shown: "plain_expr e \<Longrightarrow> calm (show_expr e @ r) \<and> skip_blanks (show_expr e @ r) = show_expr e @ r"
  using shown_head(1)[of e] head_char_facts[of "hd (show_expr e)"] by (cases "show_expr e") (auto simp: calm_Cons)

lemma calm_name: "plain_name x \<Longrightarrow> calm (x @ r) \<and> skip_blanks (x @ r) = x @ r"
  using plain_name_head[of x] head_char_facts[of "hd x"] by (cases x) (auto simp: calm_Cons)

lemma calm_marks [simp]: "calm (CHR '','' # r)" "calm (CHR '']'' # r)" "calm (CHR '')'' # r)" "calm (CHR ''}'' # r)"
  "calm (CHR ''.'' # r)" "calm (CHR ''f'' # r)" "calm (CHR ''i'' # r)"
  by (simp_all add: calm_Cons is_space_single byte_def)

lemma follows_marks [simp]: "follows (CHR '','' # r)" "follows (CHR '']'' # r)" "follows (CHR '')'' # r)"
  "follows (CHR ''}'' # r)" "follows (CHR '' '' # CHR ''f'' # r)" "follows (CHR '' '' # CHR ''i'' # r)"
  "follows (CHR '' '' # CHR '']'' # r)" "follows (CHR '' '' # CHR ''}'' # r)" "follows []"
  by (simp_all add: follows_def)

lemma follows_shown: "plain_expr e \<Longrightarrow> follows (CHR '' '' # show_expr e @ r)"
  using calm_shown[of e r] shown_head(1)[of e] head_char_facts[of "hd (show_expr e)"]
  by (cases "show_expr e") (auto simp: follows_def)

lemma follows_name: "plain_name x \<Longrightarrow> follows (CHR '' '' # x @ r)"
  using calm_name[of x r] plain_name_head[of x] head_char_facts[of "hd x"]
  by (cases x) (auto simp: follows_def)

lemma follows_stops: "follows r \<Longrightarrow> stops r"
  by (auto simp: follows_def stops_def)

lemma calm_skipped: "follows r \<Longrightarrow> calm (skip_blanks r)"
  by (simp add: follows_def calm_def)

lemma parses_ws_same: "calm r \<Longrightarrow> skip_blanks r = r \<Longrightarrow> parses src consume_whitespace r (\<lambda>_. True) r"
  using parses_ws[of r src] by simp

lemma shown_then_ws:
  assumes "shown src pe e" "follows r"
  shows "parses src (and_then pe (\<lambda>e. after consume_whitespace (give e))) (show_expr e @ r) (\<lambda>a. erase a = erase e) (skip_blanks r)"
proof (rule parses_and_then[OF shownD[OF assms]])
  fix a assume "erase a = erase e"
  then show "parses src (after consume_whitespace (give a)) (skip_blanks r) (\<lambda>a. erase a = erase e) (skip_blanks r)"
    by (intro parses_and_then[OF parses_ws_same[OF calm_skipped[OF assms(2)]]] parses_give) simp_all
qed

lemma shown_not_end:
  assumes "plain_expr e"
  obtains c u where "show_expr e = c # u" "c \<noteq> CHR '')''" "c \<noteq> CHR '']''" "c \<noteq> CHR ''}''" "c \<noteq> CHR '',''"
  using shown_head(1)[OF assms] head_char_facts[of "hd (show_expr e)"] by (cases "show_expr e") auto

lemma erase_list: "list_all2 (\<lambda>e a. erase a = erase e) es as \<Longrightarrow> map erase as = map erase es"
  by (induction rule: list_all2_induct) simp_all

text \<open>The arguments of a call.\<close>

abbreviation arguments :: "expr list \<Rightarrow> string" where
  "arguments es \<equiv> concat (map (\<lambda>e. CHR '' '' # show_expr e) es)"

lemma follows_arguments: "list_all plain_expr es \<Longrightarrow> follows (arguments es @ CHR '')'' # r)"
  by (cases es) (auto simp: follows_shown)

lemma arguments_length: "length es \<le> length (arguments es)"
  by (induction es) auto

lemma parses_arguments:
  assumes "list_all plain_expr es" "\<And>e. e \<in> set es \<Longrightarrow> shown src pe e"
  shows "parses src (many (until '')'' (and_then pe (\<lambda>e. after consume_whitespace (give e)))))
    (skip_blanks (arguments es @ CHR '')'' # r)) (\<lambda>as. map erase as = map erase es) (CHR '')'' # r)"
proof -
  let ?T = "\<lambda>es. skip_blanks (arguments es @ CHR '')'' # r)"
  let ?body = "and_then pe (\<lambda>e. after consume_whitespace (give e))"
  have step: "parses src (until '')'' ?body) (?T (e # ds)) (\<lambda>x. \<exists>a. x = Some a \<and> erase a = erase e) (?T ds)"
    if "set (e # ds) \<subseteq> set es" for e ds
  proof -
    from that assms(1) have p: "plain_expr e" "list_all plain_expr ds" by (auto simp: list_all_iff)
    let ?f = "arguments ds @ CHR '')'' # r"
    have "parses src ?body (show_expr e @ ?f) (\<lambda>a. erase a = erase e) (skip_blanks ?f)"
      by (rule shown_then_ws[OF assms(2) follows_arguments[OF p(2)]]) (use that in simp)
    moreover obtain c u where "show_expr e = c # u" "c \<noteq> CHR '')''" by (rule shown_not_end[OF p(1)])
    ultimately show ?thesis using parses_until_more[of src ?body c "u @ ?f"] calm_shown[OF p(1), of ?f] by simp
  qed
  have fin: "parses src (until '')'' ?body) (?T []) (\<lambda>x. x = None) (?T [])" using parses_until_end by simp
  have len: "length es \<le> length (?T es)"
  proof (cases es)
    case (Cons e ds)
    then have "plain_expr e" using assms(1) by simp
    from shown_head(1)[OF this] calm_shown[OF this, of "arguments ds @ CHR '')'' # r"] arguments_length[of ds] Cons
    show ?thesis by (cases "show_expr e") auto
  qed simp
  have "parses src (many (until '')'' ?body)) (?T es) (list_all2 (\<lambda>e a. erase a = erase e) es) (?T [])"
    by (rule parses_many[of "set es" src _ ?T, OF step fin subset_refl len])
  from parses_weaken[OF this erase_list] show ?thesis by simp
qed

lemma parses_call:
  assumes "plain_name f" "list_all plain_expr es" "\<And>e. e \<in> set es \<Longrightarrow> shown src pe e"
  shows "parses src (parse_call E pe) (''('' @ f @ arguments es @ CHR '')'' # r) (\<lambda>e. erase e = erase (CallExpr f es)) r"
proof -
  let ?f = "arguments es @ CHR '')'' # r"
  have fo: "follows ?f" by (rule follows_arguments[OF assms(2)])
  show ?thesis unfolding parse_call_def
  proof (rule parses_and_then[OF parses_token])
    have ws1: "parses src consume_whitespace (f @ ?f) (\<lambda>_. True) (f @ ?f)"
      using parses_ws_same[of "f @ ?f" src] calm_name[OF assms(1), of ?f] by simp
    have ws2: "parses src consume_whitespace ?f (\<lambda>_. True) (skip_blanks ?f)"
      by (rule parses_ws) (use fo in \<open>simp add: follows_def\<close>)
    have tok: "parses src (consume_token '')'') (CHR '')'' # r) (\<lambda>_. True) r" using parses_token[of src "'')''" r] by simp
    show "parses src (after consume_whitespace (and_then (parse_name E ''function name'') (\<lambda>f. after consume_whitespace (
       and_then (many (until '')'' (and_then pe (\<lambda>e. after consume_whitespace (give e))))) (\<lambda>es.
         after (consume_token '')'') (give (CallExpr f es))))))) (f @ ?f) (\<lambda>e. erase e = erase (CallExpr f es)) r"
      by (intro parses_and_then[OF ws1] parses_and_then[OF parses_name[OF assms(1) follows_stops[OF fo]]]
          parses_and_then[OF ws2] parses_and_then[OF parses_arguments[OF assms(2,3)]] parses_and_then[OF tok] parses_give)
        simp_all
  qed
qed

text \<open>The elements of a list or set after the first.\<close>

abbreviation elements :: "expr list \<Rightarrow> string" where
  "elements es \<equiv> concat (map (\<lambda>e. CHR '','' # CHR '' '' # show_expr e) es)"

definition closer :: "char \<Rightarrow> bool" where
  "closer c \<longleftrightarrow> c = CHR '']'' \<or> c = CHR ''}''"

lemma closer_facts:
  assumes "closer c"
  shows "calm (c # r)" "skip_blanks (c # r) = c # r" "follows (c # r)" "c \<noteq> CHR '',''" "c \<noteq> CHR '' ''"
    "follows (CHR '' '' # c # r)"
  using assms by (auto simp: closer_def)

lemma follows_elements: "closer c \<Longrightarrow> follows (elements es @ c # r)"
  by (cases es) (auto simp: closer_facts)

lemma elements_length: "length es \<le> length (elements es)"
  by (induction es) auto

lemma shown_not_closer:
  assumes "plain_expr e" "closer c"
  obtains d u where "show_expr e = d # u" "d \<noteq> c" "d \<noteq> CHR '',''"
  using shown_not_end[OF assms(1)] assms(2) unfolding closer_def by metis

lemma parses_elements:
  assumes "closer c" "plain_expr e" "list_all plain_expr es" "\<And>d. d \<in> set (e # es) \<Longrightarrow> shown src pe d"
  shows "parses src (parse_sequence pe [c]) (show_expr e @ elements es @ c # r)
    (\<lambda>as. map erase as = map erase (e # es)) (c # r)"
proof -
  let ?T = "\<lambda>es. case es of [] \<Rightarrow> c # r | e # es \<Rightarrow> show_expr e @ elements es @ c # r"
  let ?after = "\<lambda>e. after consume_whitespace (and_then peek (\<lambda>d.
       if d \<noteq> [c] then after (consume_token '','') (after consume_whitespace (give e)) else give e))"
  have rest: "parses src (?after a) (skip_blanks (elements ds @ c # r)) (\<lambda>x. x = a) (?T ds)"
    if "list_all plain_expr ds" for a ds
  proof (cases ds)
    case Nil
    show ?thesis unfolding Nil
      by (simp add: closer_facts[OF assms(1)], rule parses_and_then[OF parses_ws_same],
          simp_all add: closer_facts[OF assms(1)], rule parses_and_then[OF parses_peek]) (simp add: parses_give)
  next
    case (Cons b bs)
    let ?r = "show_expr b @ elements bs @ c # r"
    have b: "calm ?r" "skip_blanks ?r = ?r" using calm_shown[of b] that Cons by simp_all
    have ws: "parses src consume_whitespace (CHR '' '' # ?r) (\<lambda>_. True) ?r"
      using parses_ws[of "CHR '' '' # ?r" src] b by simp
    have tok: "parses src (consume_token '','') (CHR '','' # CHR '' '' # ?r) (\<lambda>_. True) (CHR '' '' # ?r)"
      using parses_token[of src "'',''"] by simp
    have "parses src (if d \<noteq> [c] then after (consume_token '','') (after consume_whitespace (give a)) else give a)
        (CHR '','' # CHR '' '' # ?r) (\<lambda>x. x = a) ?r" if "d = '',''" for d
      using that closer_facts(4)[OF assms(1)]
      by (auto intro!: parses_and_then[OF tok] parses_and_then[OF ws] parses_give)
    then have "parses src (?after a) (CHR '','' # CHR '' '' # ?r) (\<lambda>x. x = a) ?r"
      by (intro parses_and_then[OF parses_ws_same] parses_and_then[OF parses_peek]) simp_all
    then show ?thesis unfolding Cons by simp
  qed
  have step: "parses src (until [c] (and_then pe ?after)) (?T (d # ds)) (\<lambda>x. \<exists>a. x = Some a \<and> erase a = erase d) (?T ds)"
    if "set (d # ds) \<subseteq> set (e # es)" for d ds
  proof -
    from that assms(2,3) have p: "plain_expr d" "list_all plain_expr ds" by (auto simp: list_all_iff)
    let ?f = "elements ds @ c # r"
    have "parses src (and_then pe ?after) (show_expr d @ ?f) (\<lambda>a. erase a = erase d) (?T ds)"
    proof (rule parses_and_then[OF shownD[OF assms(4) follows_elements[OF assms(1)]]])
      show "d \<in> set (e # es)" using that by simp
      fix a assume "erase a = erase d"
      then show "parses src (?after a) (skip_blanks ?f) (\<lambda>a. erase a = erase d) (?T ds)"
        by (intro parses_weaken[OF rest[OF p(2)]]) simp
    qed
    moreover obtain h u where "show_expr d = h # u" "h \<noteq> c" by (rule shown_not_closer[OF p(1) assms(1)])
    ultimately show ?thesis using parses_until_more[of src _ h "u @ ?f"] by simp
  qed
  have fin: "parses src (until [c] (and_then pe ?after)) (?T []) (\<lambda>x. x = None) (?T [])" using parses_until_end by simp
  have len: "length (e # es) \<le> length (?T (e # es))"
    using shown_head(1)[OF assms(2)] elements_length[of es] by (cases "show_expr e") auto
  have "parses src (parse_sequence pe [c]) (?T (e # es)) (list_all2 (\<lambda>e a. erase a = erase e) (e # es)) (?T [])"
    unfolding parse_sequence_def
    by (rule parses_many[of "set (e # es)" src _ ?T, OF step fin subset_refl len])
  then have "parses src (parse_sequence pe [c]) (show_expr e @ elements es @ c # r)
    (list_all2 (\<lambda>e a. erase a = erase e) (e # es)) (c # r)" by simp
  then show ?thesis by (rule parses_weaken) (rule erase_list)
qed

text \<open>Names as expressions, with the dotted names after an expression.\<close>

abbreviation dots :: "ident list \<Rightarrow> string" where
  "dots xs \<equiv> concat (map (\<lambda>x. CHR ''.'' # x) xs)"

definition chain :: "expr \<Rightarrow> ident list \<Rightarrow> expr" where
  "chain e xs = foldl (\<lambda>e x. VariableExpr (Scoped e x nowhere)) e xs"

lemma chain_simps [simp]: "chain e [] = e" "chain e (x # xs) = chain (VariableExpr (Scoped e x nowhere)) xs"
  by (simp_all add: chain_def)

lemma chain_erase:
  "erase e = erase e' \<Longrightarrow> erase (chain e xs) = erase (chain e' xs)"
  by (induction xs arbitrary: e e') simp_all

lemma chain_parsed:
  "erase e' = erase e \<Longrightarrow> map fst ps = xs \<Longrightarrow>
    erase (foldl (\<lambda>e (x, l). VariableExpr (Scoped e x l)) e' ps) = erase (chain e xs)"
proof (induction ps arbitrary: e e' xs)
  case (Cons p ps)
  obtain x l where p: "p = (x, l)" by fastforce
  with Cons.prems(2) obtain ys where xs: "xs = x # ys" "map fst ps = ys" by auto
  have "erase (VariableExpr (Scoped e' x l)) = erase (VariableExpr (Scoped e x nowhere))" using Cons.prems(1) by simp
  from Cons.IH[OF this xs(2)] show ?case by (simp add: p xs(1))
qed simp

lemma stops_dots: "follows r \<Longrightarrow> stops (dots xs @ r)"
  by (cases xs) (auto simp: follows_stops, simp add: stops_def)

lemma calm_dots: "follows r \<Longrightarrow> calm (dots xs @ r)"
  by (cases xs) (auto simp: follows_def)

lemma dots_length: "length xs \<le> length (skip_blanks (dots xs @ r))"
proof -
  have l: "length ys \<le> length (dots ys)" for ys :: "string list" by (induction ys) auto
  show ?thesis
  proof (cases xs)
    case (Cons x ys)
    with l[of ys] show ?thesis by simp
  qed simp
qed

lemma parses_scoped_names:
  assumes "list_all plain_name xs" "follows r"
  shows "parses src (scoped_names E) (skip_blanks (dots xs @ r)) (\<lambda>ps. map fst ps = xs) (skip_blanks r)"
proof -
  let ?T = "\<lambda>xs. skip_blanks (dots xs @ r)"
  let ?body = "after skip_char (after consume_whitespace (and_then here (\<lambda>l.
       and_then (parse_name E ''scoped variable name'') (\<lambda>x. after consume_whitespace (give (x, l))))))"
  have step: "parses src (while_char ''.'' ?body) (?T (x # ys)) (\<lambda>p. \<exists>a. p = Some a \<and> fst a = x) (?T ys)"
    if "set (x # ys) \<subseteq> set xs" for x ys
  proof -
    from that assms(1) have x: "plain_name x" by (auto simp: list_all_iff)
    have ws1: "parses src consume_whitespace (x @ dots ys @ r) (\<lambda>_. True) (x @ dots ys @ r)"
      using parses_ws_same[of "x @ dots ys @ r" src] calm_name[OF x, of "dots ys @ r"] by simp
    have b: "parses src ?body (CHR ''.'' # x @ dots ys @ r) (\<lambda>a. fst a = x) (?T ys)"
      by (intro parses_and_then[OF parses_skip] parses_and_then[OF ws1] parses_and_then[OF parses_here(1)]
          parses_and_then[OF parses_name[OF x stops_dots[OF assms(2)]]]
          parses_and_then[OF parses_ws[OF calm_dots[OF assms(2)]]] parses_give) simp
    have "parses src (and_then ?body (\<lambda>a. give (Some a))) (CHR ''.'' # x @ dots ys @ r)
        (\<lambda>p. \<exists>a. p = Some a \<and> fst a = x) (?T ys)"
      by (intro parses_and_then[OF b] parses_give) simp
    then have "parses src (while_char ''.'' ?body) (CHR ''.'' # x @ dots ys @ r) (\<lambda>p. \<exists>a. p = Some a \<and> fst a = x) (?T ys)"
      unfolding parses_def by (simp add: while_char_def reading_def try_peek_def)
    then show ?thesis by simp
  qed
  have fin: "parses src (while_char ''.'' ?body) (?T []) (\<lambda>x. x = None) (?T [])"
  proof (rule parsesI)
    fix s assume s: "reading src s (?T [])"
    then have "try_peek s \<noteq> Some ''.''" using assms(2) by (cases "skip_blanks r") (auto simp: reading_def try_peek_def follows_def)
    with s show "\<exists>a t. while_char ''.'' ?body s = (Val a, t) \<and> a = None \<and> reading src t (?T [])"
      by (simp add: while_char_def give_def)
  qed
  have "parses src (scoped_names E) (?T xs) (list_all2 (\<lambda>x a. fst a = x) xs) (?T [])"
    unfolding scoped_names_def
    by (rule parses_many[of "set xs" src _ ?T, OF step fin subset_refl dots_length])
  then have "parses src (scoped_names E) (?T xs) (list_all2 (\<lambda>x a. fst a = x) xs) (skip_blanks r)" by simp
  then show ?thesis
  proof (rule parses_weaken)
    fix ps :: "(ident \<times> loc) list" assume "list_all2 (\<lambda>x a. fst a = x) xs ps"
    then show "map fst ps = xs" by (induction rule: list_all2_induct) simp_all
  qed
qed

lemma parses_expression_with:
  assumes "parses src (primary E pe [c]) (c # u @ dots xs @ r) (\<lambda>a. erase a = erase e) (dots xs @ r)"
    "list_all plain_name xs" "follows r"
  shows "parses src (expression_with E pe) (c # u @ dots xs @ r) (\<lambda>a. erase a = erase (chain e xs)) (skip_blanks r)"
  unfolding expression_with_def
proof (rule parses_and_then[OF parses_peek])
  fix ch assume ch: "ch = [c]"
  show "parses src (and_then (primary E pe ch) (\<lambda>e. after consume_whitespace (and_then (scoped_names E)
      (\<lambda>xs. give (foldl (\<lambda>e (x, l). VariableExpr (Scoped e x l)) e xs))))) (c # u @ dots xs @ r)
      (\<lambda>a. erase a = erase (chain e xs)) (skip_blanks r)"
    unfolding ch
    by (intro parses_and_then[OF assms(1)] parses_and_then[OF parses_ws[OF calm_dots[OF assms(3)]]]
        parses_and_then[OF parses_scoped_names[OF assms(2,3)]] parses_give) (rule chain_parsed)
qed

section \<open>Primaries\<close>

text \<open>A capture is read between two offsets, like a number.\<close>

lemma reading_offset: "reading src s txt \<Longrightarrow> ps_offset s + length txt = length src"
proof -
  assume "reading src s txt"
  then obtain before where b: "chars src = before @ single txt" "ps_offset s = length (concat before)"
    by (auto simp: reading_def parsing_def)
  have "src = concat (chars src)" by simp
  also have "\<dots> = concat before @ txt" unfolding b(1) by simp
  finally show ?thesis using b(2) by simp
qed

lemma parses_capture:
  assumes "plain_name x" "stops r"
  shows "parses src (parse_capture E) (CHR ''@'' # x @ r) (\<lambda>c. cap_name c = x) r"
proof (rule parsesI)
  fix s assume s: "reading src s (CHR ''@'' # x @ r)"
  obtain c y where x: "x = c # y" using assms(1) by (cases x) (auto simp: plain_name_def)
  have "parses src (consume_token ''@'') (CHR ''@'' # x @ r) (\<lambda>_. True) (x @ r)" using parses_token[of src "''@''"] by simp
  with s obtain a u where u: "consume_token ''@'' s = (Val a, u)" "reading src u (x @ r)"
    unfolding parses_def by blast
  obtain t where n: "next_char u = (Val [c], t)" "reading src t (y @ r)"
    using reading_next[of src u c "y @ r"] u(2) x by simp
  have w: "reading src (while_loop (is_ident E) t) r"
    using while_loop_reading[OF n(2)] plain_name_ident(2)[of c y E] stops_ident[OF assms(2)] assms(1) x by blast
  have "ps_offset u = ps_offset s + 1" using reading_offset[OF s] reading_offset[OF u(2)] by simp
  with reading_slice[OF u(2) w] have sl: "slice_from (ps_offset s + 1) (while_loop (is_ident E) t) = (Val x, while_loop (is_ident E) t)"
    by (simp add: slice_from_def)
  have "parse_capture E s = (Val (Capture x QZero (2 ^ 64 - 1) (2 ^ 64 - 1) (ps_location s)), while_loop (is_ident E) t)"
    using u(1) n(1) sl plain_name_ident(1)[of c y E] assms(1) x
    by (simp add: parse_capture_def and_then_def here_def offset_here_def consume_while_def give_def)
  with w show "\<exists>a t. parse_capture E s = (Val a, t) \<and> cap_name a = x \<and> reading src t r" by fastforce
qed

lemma parses_null: "stops r \<Longrightarrow> parses src (parse_literal E) (CHR ''#'' # ''null'' @ r) (\<lambda>e. e = NullLiteral) r"
proof -
  assume r: "stops r"
  have "plain_name ''null''"
    by (simp add: plain_name_def name_char_def is_ascii_alphanumeric_def is_ascii_alphabetic_def byte_def)
  note name = parses_name[OF this r, of src E "''literal''"]
  have tok: "parses src (consume_token ''#'') (CHR ''#'' # ''null'' @ r) (\<lambda>_. True) (''null'' @ r)"
    using parses_token[of src "''#''"] by simp
  show ?thesis unfolding parse_literal_def
    by (intro parses_and_then[OF parses_here(1)] parses_and_then[OF tok] parses_and_then[OF name]) (simp add: parses_give)
qed

lemma joined: "join_with '', '' (map show_expr (e # es)) = show_expr e @ elements es"
  by (induction es arbitrary: e) simp_all

lemma not_starts_with: "d \<noteq> c \<Longrightarrow> \<not> starts_with [c] (d # r)"
  by (simp add: starts_with_def)

lemma parses_closed:
  "parses src (attempt (consume_token [c])) (c # r) (\<lambda>x. x = Some ()) r"
  "parses src (consume_token [c]) (c # r) (\<lambda>_. True) r"
proof -
  show "parses src (consume_token [c]) (c # r) (\<lambda>_. True) r" using parses_token[of src "[c]" r] by simp
  then show "parses src (attempt (consume_token [c])) (c # r) (\<lambda>x. x = Some ()) r"
    using parses_weaken[OF parses_attempt] by fastforce
qed

lemma parses_literal_brackets:
  assumes "closer c" "list_all plain_expr es" "\<And>e. e \<in> set es \<Longrightarrow> shown src pe e"
  shows "parses src (parse_bracketed pe [b] [c] literal build) (b # join_with '', '' (map show_expr es) @ c # r)
    (\<lambda>a. \<exists>as. a = literal as \<and> map erase as = map erase es) r"
proof (cases es)
  case Nil
  show ?thesis unfolding Nil parse_bracketed_def
    by (simp, intro parses_and_then[OF parses_here(1)] parses_and_then[OF parses_closed(2)]
        parses_and_then[OF parses_ws_same[OF closer_facts(1,2)[OF assms(1)]]] parses_and_then[OF parses_closed(1)])
      (simp add: parses_give)
next
  case (Cons e ds)
  let ?f = "elements ds @ c # r"
  from assms(2) Cons have p: "plain_expr e" "list_all plain_expr ds" by simp_all
  have fo: "follows ?f" by (rule follows_elements[OF assms(1)])
  have sk: "skip_blanks ?f = ?f" "calm ?f" using closer_facts[OF assms(1)] by (cases ds, simp_all)+
  obtain h u where h: "show_expr e = h # u" "h \<noteq> c" by (rule shown_not_closer[OF p(1) assms(1)])
  have ws: "parses src consume_whitespace (show_expr e @ ?f) (\<lambda>_. True) (show_expr e @ ?f)"
    using parses_ws_same[of "show_expr e @ ?f" src] calm_shown[OF p(1), of ?f] by simp
  have open_: "parses src (attempt (consume_token [c])) (show_expr e @ ?f) (\<lambda>x. x = None) (show_expr e @ ?f)"
    unfolding h(1) by (simp add: parses_no_token not_starts_with h(2))
  have pe: "parses src pe (show_expr e @ ?f) (\<lambda>a. erase a = erase e) ?f"
    using shownD[OF assms(3) fo] Cons sk(1) by simp
  have rest: "parses src (and_then (attempt (consume_token [c])) (\<lambda>r. case r of
             Some _ \<Rightarrow> give (literal [a])
           | None \<Rightarrow>
               and_then (attempt (consume_token '','')) (\<lambda>r. case r of
                 Some _ \<Rightarrow>
                   after consume_whitespace (and_then (parse_sequence pe [c]) (\<lambda>es.
                     after consume_whitespace (after (consume_token [c]) (give (literal (a # es))))))
               | None \<Rightarrow> parse_comprehension pe [c] build a l))) ?f
      (\<lambda>b. \<exists>as. b = literal as \<and> map erase as = map erase es) r" if a: "erase a = erase e" for a l
  proof (cases ds)
    case Nil
    show ?thesis unfolding Nil
      by (simp, rule parses_and_then[OF parses_closed(1)]) (use a Cons Nil in \<open>auto intro!: parses_give\<close>)
  next
    case (Cons d bs)
    let ?g = "show_expr d @ elements bs @ c # r"
    from p(2) Cons have q: "plain_expr d" "list_all plain_expr bs" by simp_all
    have no: "parses src (attempt (consume_token [c])) (CHR '','' # CHR '' '' # ?g) (\<lambda>x. x = None) (CHR '','' # CHR '' '' # ?g)"
      by (rule parses_no_token[OF not_starts_with]) (use closer_facts(4)[OF assms(1)] in blast)
    have ws2: "parses src consume_whitespace (CHR '' '' # ?g) (\<lambda>_. True) ?g"
      using parses_ws[of "CHR '' '' # ?g" src] calm_shown[OF q(1), of "elements bs @ c # r"] by simp
    have sq: "parses src (parse_sequence pe [c]) ?g (\<lambda>as. map erase as = map erase (d # bs)) (c # r)"
      by (rule parses_elements[OF assms(1) q assms(3)]) (use Cons \<open>es = e # ds\<close> in auto)
    have "parses src (after consume_whitespace (and_then (parse_sequence pe [c]) (\<lambda>es.
            after consume_whitespace (after (consume_token [c]) (give (literal (a # es)))))))
        (CHR '' '' # ?g) (\<lambda>b. \<exists>as. b = literal as \<and> map erase as = map erase es) r"
      by (intro parses_and_then[OF ws2] parses_and_then[OF sq] parses_and_then[OF parses_ws_same[OF closer_facts(1,2)[OF assms(1)]]]
          parses_and_then[OF parses_closed(2)] parses_give) (use a Cons \<open>es = e # ds\<close> in auto)
    then show ?thesis unfolding Cons
      by (simp, intro parses_and_then[OF no], simp, intro parses_and_then[OF parses_closed(1)], simp)
  qed
  show ?thesis unfolding Cons joined parse_bracketed_def
    by (simp, intro parses_and_then[OF parses_here(1)] parses_and_then[OF parses_closed(2)] parses_and_then[OF ws]
        parses_and_then[OF open_], simp, intro parses_and_then[OF pe] parses_and_then[OF parses_ws_same[OF sk(2,1)]])
      (use rest Cons in simp)
qed

lemma parses_comprehension_brackets:
  assumes "closer c" "plain_expr e" "plain_name x" "plain_expr v" "shown src pe e" "shown src pe v"
    and name: "\<And>r. follows r \<Longrightarrow>
      parses src pe (x @ r) (\<lambda>a. \<exists>l. a = VariableExpr (Unscoped (UnscopedVariable x l))) (skip_blanks r)"
  shows "parses src (parse_bracketed pe [b] [c] literal build)
    (b # CHR '' '' # show_expr e @ '' for '' @ x @ '' in '' @ show_expr v @ CHR '' '' # c # r)
    (\<lambda>a. \<exists>e' l v' k. a = build e' (UnscopedVariable x l) v' k \<and> erase e' = erase e \<and> erase v' = erase v) r"
proof -
  let ?v = "show_expr v @ CHR '' '' # c # r"
  let ?x = "x @ '' in '' @ ?v"
  let ?f = "'' for '' @ ?x"
  let ?g = "''for '' @ ?x"
  have calm: "skip_blanks (show_expr e @ ?f) = show_expr e @ ?f" "calm (show_expr e @ ?f)"
    "skip_blanks ?v = ?v" "calm ?v" "skip_blanks ?x = ?x" "calm ?x"
    using calm_shown[OF assms(2), of ?f] calm_shown[OF assms(4), of "CHR '' '' # c # r"] calm_name[OF assms(3), of "'' in '' @ ?v"]
    by simp_all
  obtain h u where h: "show_expr e = h # u" "h \<noteq> c" by (rule shown_not_closer[OF assms(2,1)])
  have ws1: "parses src consume_whitespace (CHR '' '' # show_expr e @ ?f) (\<lambda>_. True) (show_expr e @ ?f)"
    using parses_ws[of "CHR '' '' # show_expr e @ ?f" src] calm(1,2) by simp
  have no: "parses src (attempt (consume_token [c])) (show_expr e @ ?f) (\<lambda>x. x = None) (show_expr e @ ?f)"
    unfolding h(1) by (simp add: parses_no_token not_starts_with h(2))
  have pe: "parses src pe (show_expr e @ ?f) (\<lambda>a. erase a = erase e) ?g"
    using shownD[OF assms(5), of ?f] by simp
  have ws2: "parses src consume_whitespace ?g (\<lambda>_. True) ?g" by (rule parses_ws_same) simp_all
  have no2: "parses src (attempt (consume_token [c])) ?g (\<lambda>x. x = None) ?g" "parses src (attempt (consume_token '','')) ?g (\<lambda>x. x = None) ?g"
    using assms(1) by (auto intro!: parses_no_token simp: starts_with_def closer_def)
  have tok_for: "parses src (consume_token ''for'') ?g (\<lambda>_. True) (CHR '' '' # ?x)"
    using parses_token[of src "''for''" "CHR '' '' # ?x"] by simp
  have ws3: "parses src consume_whitespace (CHR '' '' # ?x) (\<lambda>_. True) ?x"
    using parses_ws[of "CHR '' '' # ?x" src] calm(5,6) by simp
  have name': "parses src pe ?x (\<lambda>a. \<exists>l. a = VariableExpr (Unscoped (UnscopedVariable x l))) (''in '' @ ?v)"
    using name[of "'' in '' @ ?v"] by simp
  have var: "parses src (parse_unscoped_with pe) ?x (\<lambda>y. \<exists>l. y = UnscopedVariable x l) (''in '' @ ?v)"
    unfolding parse_unscoped_with_def parse_variable_with_def and_then_assoc
    by (intro parses_and_then[OF parses_here(1)] parses_and_then[OF name']) (auto intro!: parses_give simp: parses_def give_def)
  have ws4: "parses src consume_whitespace (''in '' @ ?v) (\<lambda>_. True) (''in '' @ ?v)" by (rule parses_ws_same) simp_all
  have tok_in: "parses src (consume_token ''in'') (''in '' @ ?v) (\<lambda>_. True) (CHR '' '' # ?v)"
    using parses_token[of src "''in''" "CHR '' '' # ?v"] by simp
  have ws5: "parses src consume_whitespace (CHR '' '' # ?v) (\<lambda>_. True) ?v"
    using parses_ws[of "CHR '' '' # ?v" src] calm(3,4) by simp
  have pv: "parses src pe ?v (\<lambda>a. erase a = erase v) (c # r)"
    using shownD[OF assms(6) closer_facts(6)[OF assms(1)], of r] closer_facts(2)[OF assms(1)] by simp
  have comp: "parses src (parse_comprehension pe [c] build a k) ?g
      (\<lambda>b. \<exists>e' l v' k. b = build e' (UnscopedVariable x l) v' k \<and> erase e' = erase e \<and> erase v' = erase v) r"
    if "erase a = erase e" for a k
    unfolding parse_comprehension_def
    by (intro parses_and_then[OF tok_for] parses_and_then[OF ws3] parses_and_then[OF var] parses_and_then[OF ws4]
        parses_and_then[OF tok_in] parses_and_then[OF ws5] parses_and_then[OF pv]
        parses_and_then[OF parses_ws_same[OF closer_facts(1,2)[OF assms(1)]]] parses_and_then[OF parses_closed(2)] parses_give)
      (use that in blast)
  show ?thesis unfolding parse_bracketed_def
    by (simp, intro parses_and_then[OF parses_here(1)] parses_and_then[OF parses_closed(2)] parses_and_then[OF ws1[simplified]]
        parses_and_then[OF no[simplified]], simp, intro parses_and_then[OF pe[simplified]] parses_and_then[OF ws2[simplified]]
        parses_and_then[OF no2(1)[simplified]], simp, intro parses_and_then[OF no2(2)[simplified]], simp add: comp[simplified])
qed

end
