(* ===== verification/Tsg_Round_Trip.thy ===== *)
theory Tsg_Round_Trip
  imports Tsg_Reading
begin

text \<open>
  The display form of an expression parses back to the expression, up to the places that the parser
  records (\<open>erase\<close>).
\<close>

section \<open>The round trip\<close>

lemma primary_cases:
  "primary E pe ''#'' = parse_literal E"
  "primary E pe [CHR 0x22] = and_then parse_string (\<lambda>t. give (StringConstant t))"
  "primary E pe ''@'' = and_then (parse_capture E) (\<lambda>c. give (CaptureExpr c))"
  "primary E pe ''$'' = parse_regex_capture" "primary E pe ''('' = parse_call E pe"
  "primary E pe ''['' = parse_bracketed pe ''['' '']'' ListLiteral ListComprehension"
  "primary E pe ''{'' = parse_bracketed pe ''{'' ''}'' SetLiteral SetComprehension"
  by (simp_all add: primary_def)

lemma digit_other:
  assumes "is_ascii_digit c"
  shows "c \<noteq> CHR ''#''" "c \<noteq> CHR 0x22" "c \<noteq> CHR ''@''" "c \<noteq> CHR ''$''" "c \<noteq> CHR ''(''" "c \<noteq> CHR ''[''" "c \<noteq> CHR ''{''"
  using assms by (auto simp: is_ascii_digit_def byte_def)

lemma primary_digit: "is_ascii_digit c \<Longrightarrow> primary E pe [c] = parse_integer_constant"
  using digit_other[of c] by (simp add: primary_def is_digit_def)

lemma start_other:
  assumes "plain_name (c # x)"
  shows "c \<noteq> CHR ''#''" "c \<noteq> CHR 0x22" "c \<noteq> CHR ''@''" "c \<noteq> CHR ''$''" "c \<noteq> CHR ''(''" "c \<noteq> CHR ''[''" "c \<noteq> CHR ''{''"
    "\<not> is_ascii_digit c"
  using assms by (auto simp: plain_name_def is_ascii_digit_def is_ascii_alphabetic_def byte_def)

lemma primary_name:
  "plain_name (c # x) \<Longrightarrow> primary E pe [c] =
    and_then here (\<lambda>l. and_then (parse_name E ''variable name'') (\<lambda>x. give (VariableExpr (Unscoped (UnscopedVariable x l)))))"
  using plain_name_ident(1)[of c x E] start_other[of c x] by (simp add: primary_def is_digit_def)

lemma parses_name_primary:
  assumes "plain_name (c # u)" "stops r"
  shows "parses src (primary E pe [c]) (c # u @ r) (\<lambda>a. \<exists>l. a = VariableExpr (Unscoped (UnscopedVariable (c # u) l))) r"
proof -
  have "parses src (parse_name E ''variable name'') (c # u @ r) (\<lambda>y. y = c # u) r"
    using parses_name[OF assms, of src E] by simp
  then show ?thesis unfolding primary_name[OF assms(1)]
    by (intro parses_and_then[OF parses_here(1)]) (erule parses_and_then, rule parses_give, blast)
qed

lemma in_joined: "e \<in> set es \<Longrightarrow> length (show_expr e) \<le> length (join_with '', '' (map show_expr es))"
proof (induction es)
  case (Cons d ds)
  then show ?case by (cases ds) auto
qed simp

lemma in_arguments: "e \<in> set es \<Longrightarrow> length (show_expr e) < length (arguments es)"
  by (induction es) auto

lemma shown_part:
  assumes "\<And>xs r. list_all plain_name xs \<Longrightarrow> follows r \<Longrightarrow> 
    parses src pe (show_expr e @ dots xs @ r) (\<lambda>a. erase a = erase (chain e xs)) (skip_blanks r)"
  shows "shown src pe e"
  unfolding shown_def using assms[of "[]"] by simp

lemma parses_variable_name:
  assumes "plain_name x" "list_all plain_name xs" "follows r"
  shows "parses src (expression_with E pe) (x @ dots xs @ r)
    (\<lambda>a. erase a = erase (chain (VariableExpr (Unscoped (UnscopedVariable x nowhere))) xs)) (skip_blanks r)"
proof -
  obtain c u where x: "x = c # u" using assms(1) by (cases x) (auto simp: plain_name_def)
  have "parses src (primary E pe [c]) (c # u @ dots xs @ r)
    (\<lambda>a. erase a = erase (VariableExpr (Unscoped (UnscopedVariable x nowhere)))) (dots xs @ r)"
    using parses_name_primary[OF assms(1)[unfolded x] stops_dots[OF assms(3)], of src E pe xs]
    by (rule parses_weaken) (auto simp: x)
  from parses_expression_with[OF this assms(2,3)] show ?thesis by (simp add: x)
qed

lemma parses_bare_name:
  assumes "plain_name x" "follows r"
  shows "parses src (parse_expression E (Suc n)) (x @ r) (\<lambda>a. \<exists>l. a = VariableExpr (Unscoped (UnscopedVariable x l))) (skip_blanks r)"
proof -
  obtain c u where x: "x = c # u" using assms(1) by (cases x) (auto simp: plain_name_def)
  have ws: "parses src consume_whitespace r (\<lambda>_. True) (skip_blanks r)"
    by (rule parses_ws) (use assms(2) in \<open>simp add: follows_def\<close>)
  have nm: "parses src (scoped_names E) (skip_blanks r) (\<lambda>ps. ps = []) (skip_blanks r)"
    using parses_weaken[OF parses_scoped_names[of "[]" r src E]] assms(2) by simp
  show ?thesis unfolding x parse_expression.simps expression_with_def append_Cons
  proof (rule parses_and_then[OF parses_peek])
    fix ch assume ch: "ch = [c]"
    show "parses src (and_then (primary E (parse_expression E n) ch) (\<lambda>e. after consume_whitespace (and_then (scoped_names E)
        (\<lambda>xs. give (foldl (\<lambda>e (x, l). VariableExpr (Scoped e x l)) e xs))))) (c # u @ r)
        (\<lambda>a. \<exists>l. a = VariableExpr (Unscoped (UnscopedVariable (c # u) l))) (skip_blanks r)"
      unfolding ch
      by (intro parses_and_then[OF parses_name_primary[OF assms(1)[unfolded x] follows_stops[OF assms(2)]]]
          parses_and_then[OF ws] parses_and_then[OF nm] parses_give) simp
  qed
qed

lemma parses_shown:
  "plain_expr e \<Longrightarrow> list_all plain_name xs \<Longrightarrow> follows r \<Longrightarrow> length (show_expr e) < n \<Longrightarrow>
    parses src (parse_expression E n) (show_expr e @ dots xs @ r) (\<lambda>a. erase a = erase (chain e xs)) (skip_blanks r)"
  "plain_variable y \<Longrightarrow> list_all plain_name xs \<Longrightarrow> follows r \<Longrightarrow> length (show_variable y) < n \<Longrightarrow>
    parses src (parse_expression E n) (show_variable y @ dots xs @ r)
      (\<lambda>a. erase a = erase (chain (VariableExpr y) xs)) (skip_blanks r)"
proof (induction e and y arbitrary: xs r n and xs r n rule: expr.induct variable.induct)
  case (Scoped e x l)
  then have "parses src (parse_expression E n) (show_expr e @ dots (x # xs) @ r) (\<lambda>a. erase a = erase (chain e (x # xs))) (skip_blanks r)"
    by (intro Scoped.IH) auto
  then show ?case by (simp add: chain_erase[of "VariableExpr (Scoped e x l)" "VariableExpr (Scoped e x nowhere)" xs])
next
  case (Unscoped x)
  then obtain m where "n = Suc m" by (cases n) auto
  with parses_variable_name[of "uv_name x" xs r src E "parse_expression E m"] Unscoped.prems
    chain_erase[of "VariableExpr (Unscoped x)" "VariableExpr (Unscoped (UnscopedVariable (uv_name x) nowhere))" xs]
  show ?case by simp
next
  case (VariableExpr y)
  then show ?case by simp
next
  case (StringConstant w)
  then obtain m where n: "n = Suc m" by (cases n) auto
  let ?w = "concat (map debug_char w) @ [CHR 0x22]"
  have "parses src parse_string (CHR 0x22 # ?w @ dots xs @ r) (\<lambda>v. v = w) (dots xs @ r)"
    using parses_string[of w src "dots xs @ r"] StringConstant.prems(1) by (simp add: debug_str_def)
  then have "parses src (primary E (parse_expression E m) [CHR 0x22]) (CHR 0x22 # ?w @ dots xs @ r)
      (\<lambda>a. erase a = erase (StringConstant w)) (dots xs @ r)"
    unfolding primary_cases by (rule parses_and_then) (simp add: parses_give)
  from parses_expression_with[OF this StringConstant.prems(2,3)] show ?case by (simp add: n debug_str_def)
next
  case (IntegerConstant k)
  then obtain m where n: "n = Suc m" by (cases n) auto
  obtain c u where d: "dec (unat k) = c # u" by (cases "dec (unat k)") auto
  then have dig: "is_ascii_digit c" using dec_head[of "unat k"] by simp
  have "unat k \<le> 2 ^ 32 - 1" using unsigned_less[of k, where ?'a = nat] by simp
  from parses_integer[OF stops_dots[OF IntegerConstant.prems(3)] this, of src xs]
  have "parses src (primary E (parse_expression E m) [c]) (c # u @ dots xs @ r) (\<lambda>a. erase a = erase (IntegerConstant k)) (dots xs @ r)"
    unfolding primary_digit[OF dig] by (simp add: d) (erule parses_weaken, simp)
  from parses_expression_with[OF this IntegerConstant.prems(2,3)] show ?case by (simp add: n d)
next
  case NullLiteral
  then obtain m where n: "n = Suc m" by (cases n) auto
  from parses_null[OF stops_dots[OF NullLiteral.prems(3)], of src E xs]
  have "parses src (primary E (parse_expression E m) ''#'') (CHR ''#'' # ''null'' @ dots xs @ r) (\<lambda>a. erase a = erase NullLiteral) (dots xs @ r)"
    unfolding primary_cases by (rule parses_weaken) simp
  from parses_expression_with[OF this NullLiteral.prems(2,3)] show ?case by (simp add: n)
next
  case (CaptureExpr c)
  then obtain m where n: "n = Suc m" by (cases n) auto
  have "parses src (primary E (parse_expression E m) ''@'') (CHR ''@'' # cap_name c @ dots xs @ r) (\<lambda>a. erase a = erase (CaptureExpr c)) (dots xs @ r)"
    unfolding primary_cases
    by (intro parses_and_then[OF parses_capture] parses_give) (use CaptureExpr.prems in \<open>simp_all add: stops_dots\<close>)
  from parses_expression_with[OF this CaptureExpr.prems(2,3)] show ?case by (simp add: n)
next
  case (RegexCapture i)
  then obtain m where n: "n = Suc m" by (cases n) auto
  have "i \<le> 2 ^ 64 - 1" using RegexCapture.prems(1) by simp
  from parses_regex_capture[OF stops_dots[OF RegexCapture.prems(3)] this, of src xs]
  have "parses src (primary E (parse_expression E m) ''$'') (CHR ''$'' # dec i @ dots xs @ r) (\<lambda>a. erase a = erase (RegexCapture i)) (dots xs @ r)"
    unfolding primary_cases by simp (erule parses_weaken, simp)
  from parses_expression_with[OF this RegexCapture.prems(2,3)] show ?case by (simp add: n)
next
  case (CallExpr f es)
  then obtain m where n: "n = Suc m" by (cases n) auto
  have parts: "shown src (parse_expression E m) e" if e: "e \<in> set es" for e
    by (rule shown_part, rule CallExpr.IH[OF e])
      (use e CallExpr.prems(1,4) in_arguments[OF e] n in \<open>auto simp: list_all_iff\<close>)
  have "parses src (parse_call E (parse_expression E m)) (''('' @ f @ arguments es @ CHR '')'' # dots xs @ r)
      (\<lambda>a. erase a = erase (CallExpr f es)) (dots xs @ r)"
    by (rule parses_call[OF _ _ parts]) (use CallExpr.prems(1) in simp_all)
  then have "parses src (primary E (parse_expression E m) ''('') (CHR ''('' # (f @ arguments es @ '')'') @ dots xs @ r)
      (\<lambda>a. erase a = erase (CallExpr f es)) (dots xs @ r)"
    unfolding primary_cases by simp
  from parses_expression_with[OF this CallExpr.prems(2,3)] show ?case by (simp add: n)
next
  case (ListLiteral es)
  then obtain m where n: "n = Suc m" by (cases n) auto
  have parts: "shown src (parse_expression E m) e" if e: "e \<in> set es" for e
    by (rule shown_part, rule ListLiteral.IH[OF e])
      (use e ListLiteral.prems(1,4) in_joined[OF e] n in \<open>auto simp: list_all_iff\<close>)
  have "parses src (primary E (parse_expression E m) ''['')
      (CHR ''['' # join_with '', '' (map show_expr es) @ CHR '']'' # dots xs @ r)
      (\<lambda>a. \<exists>as. a = ListLiteral as \<and> map erase as = map erase es) (dots xs @ r)"
    unfolding primary_cases
    by (rule parses_literal_brackets[OF _ _ parts]) (use ListLiteral.prems(1) in \<open>simp_all add: closer_def\<close>)
  then have "parses src (primary E (parse_expression E m) ''['')
      (CHR ''['' # (join_with '', '' (map show_expr es) @ '']'') @ dots xs @ r)
      (\<lambda>a. erase a = erase (ListLiteral es)) (dots xs @ r)"
    by simp (erule parses_weaken, auto)
  from parses_expression_with[OF this ListLiteral.prems(2,3)] show ?case by (simp add: n)
next
  case (SetLiteral es)
  then obtain m where n: "n = Suc m" by (cases n) auto
  have parts: "shown src (parse_expression E m) e" if e: "e \<in> set es" for e
    by (rule shown_part, rule SetLiteral.IH[OF e])
      (use e SetLiteral.prems(1,4) in_joined[OF e] n in \<open>auto simp: list_all_iff\<close>)
  have "parses src (primary E (parse_expression E m) ''{'')
      (CHR ''{'' # join_with '', '' (map show_expr es) @ CHR ''}'' # dots xs @ r)
      (\<lambda>a. \<exists>as. a = SetLiteral as \<and> map erase as = map erase es) (dots xs @ r)"
    unfolding primary_cases
    by (rule parses_literal_brackets[OF _ _ parts]) (use SetLiteral.prems(1) in \<open>simp_all add: closer_def\<close>)
  then have "parses src (primary E (parse_expression E m) ''{'')
      (CHR ''{'' # (join_with '', '' (map show_expr es) @ ''}'') @ dots xs @ r)
      (\<lambda>a. erase a = erase (SetLiteral es)) (dots xs @ r)"
    by simp (erule parses_weaken, auto)
  from parses_expression_with[OF this SetLiteral.prems(2,3)] show ?case by (simp add: n)
next
  case (ListComprehension e x v l)
  then obtain m k where n: "n = Suc m" "m = Suc k" by (cases n; cases "n - 1") auto
  have parts: "shown src (parse_expression E m) e" "shown src (parse_expression E m) v"
    by (rule shown_part, rule ListComprehension.IH; use ListComprehension.prems(1,4) n in simp)+
  have "parses src (primary E (parse_expression E m) ''['')
      (CHR ''['' # CHR '' '' # show_expr e @ '' for '' @ uv_name x @ '' in '' @ show_expr v @ CHR '' '' # CHR '']'' # dots xs @ r)
      (\<lambda>a. \<exists>e' l v' k. a = ListComprehension e' (UnscopedVariable (uv_name x) l) v' k \<and> erase e' = erase e \<and> erase v' = erase v)
      (dots xs @ r)"
    unfolding primary_cases
    by (rule parses_comprehension_brackets[OF _ _ _ _ parts])
      (use ListComprehension.prems(1) parses_bare_name in \<open>auto simp: closer_def n(2)\<close>)
  then have "parses src (primary E (parse_expression E m) ''['')
      (CHR ''['' # ('' '' @ show_expr e @ '' for '' @ uv_name x @ '' in '' @ show_expr v @ '' ]'') @ dots xs @ r)
      (\<lambda>a. erase a = erase (ListComprehension e x v l)) (dots xs @ r)"
    by simp (erule parses_weaken, auto)
  from parses_expression_with[OF this ListComprehension.prems(2,3)] show ?case by (simp add: n)
next
  case (SetComprehension e x v l)
  then obtain m k where n: "n = Suc m" "m = Suc k" by (cases n; cases "n - 1") auto
  have parts: "shown src (parse_expression E m) e" "shown src (parse_expression E m) v"
    by (rule shown_part, rule SetComprehension.IH; use SetComprehension.prems(1,4) n in simp)+
  have "parses src (primary E (parse_expression E m) ''{'')
      (CHR ''{'' # CHR '' '' # show_expr e @ '' for '' @ uv_name x @ '' in '' @ show_expr v @ CHR '' '' # CHR ''}'' # dots xs @ r)
      (\<lambda>a. \<exists>e' l v' k. a = SetComprehension e' (UnscopedVariable (uv_name x) l) v' k \<and> erase e' = erase e \<and> erase v' = erase v)
      (dots xs @ r)"
    unfolding primary_cases
    by (rule parses_comprehension_brackets[OF _ _ _ _ parts])
      (use SetComprehension.prems(1) parses_bare_name in \<open>auto simp: closer_def n(2)\<close>)
  then have "parses src (primary E (parse_expression E m) ''{'')
      (CHR ''{'' # ('' '' @ show_expr e @ '' for '' @ uv_name x @ '' in '' @ show_expr v @ '' }'') @ dots xs @ r)
      (\<lambda>a. erase a = erase (SetComprehension e x v l)) (dots xs @ r)"
    by simp (erule parses_weaken, auto)
  from parses_expression_with[OF this SetComprehension.prems(2,3)] show ?case by (simp add: n)
qed simp_all


text \<open>The display form is in ASCII, so its characters are its bytes.\<close>

definition ascii :: "string \<Rightarrow> bool" where
  "ascii t \<longleftrightarrow> list_all (\<lambda>c. byte c \<le> 127) t"

lemma ascii_simps [simp]: "ascii []" "ascii (c # t) \<longleftrightarrow> byte c \<le> 127 \<and> ascii t" "ascii (t @ u) \<longleftrightarrow> ascii t \<and> ascii u"
  by (simp_all add: ascii_def)

lemma ascii_chars: "ascii t \<Longrightarrow> chars t = single t"
  by (induction t) simp_all

lemma reading_new: "ascii src \<Longrightarrow> reading src (new_parser src) src"
  by (simp add: reading_def parsing_new, simp add: new_parser_def ascii_chars)

lemma name_char_ascii: "name_char c \<Longrightarrow> byte c \<le> 127"
  unfolding name_char_def is_ascii_alphanumeric_def is_ascii_alphabetic_def is_ascii_digit_def
  by (elim disjE conjE) (simp_all add: byte_def)

lemma ascii_name: "plain_name x \<Longrightarrow> ascii x"
  using name_char_ascii by (auto simp: plain_name_def ascii_def list_all_iff)

lemma ascii_dec: "ascii (dec n)"
  using dec_digits[of n] by (auto simp: ascii_def list_all_iff is_ascii_digit_def)

lemma ascii_join: "(\<And>e. e \<in> set es \<Longrightarrow> ascii (f e)) \<Longrightarrow> ascii (join_with '', '' (map f es))"
proof (induction es)
  case (Cons e es)
  then show ?case by (cases es) (simp_all add: byte_def)
qed simp

lemma ascii_concat: "(\<And>e. e \<in> set es \<Longrightarrow> ascii (f e)) \<Longrightarrow> ascii (concat (map f es))"
  by (induction es) simp_all

lemma ascii_debug:
  assumes "plain_char c"
  shows "ascii (debug_char c)"
proof -
  have c: "byte c \<le> 127" using assms by (auto simp: plain_char_def)
  from assms show ?thesis
  proof (cases rule: debug_char_cases)
    case (1 d)
    with c show ?thesis by (simp add: unescape_def split: if_splits) (simp_all add: byte_def)
  next
    case 2
    with c show ?thesis by simp
  qed
qed

lemma ascii_shown:
  "plain_expr e \<Longrightarrow> ascii (show_expr e)"
  "plain_variable y \<Longrightarrow> ascii (show_variable y)"
proof (induction e and y rule: expr.induct variable.induct)
  case (StringConstant w)
  then show ?case
    using ascii_concat[of w debug_char] ascii_debug by (auto simp: debug_str_def byte_def list_all_iff)
next
  case (CallExpr f es)
  then show ?case
    using ascii_concat[of es "\<lambda>e. CHR '' '' # show_expr e"] ascii_name[of f] by (auto simp: byte_def list_all_iff)
qed (auto intro!: ascii_join simp: ascii_name ascii_dec byte_def list_all_iff)

lemma expression_reads:
  assumes "ascii src" "\<And>n. n = Suc (length src) \<Longrightarrow> parses src (parse_expression E n) src Q []"
  shows "\<exists>e s. expression E (new_parser src) = (Val e, s) \<and> Q e \<and> ps_rest s = []"
proof -
  have r: "reading src (new_parser src) src" by (rule reading_new[OF assms(1)])
  then have "length (ps_rest (new_parser src)) = length src" by (simp add: reading_def)
  with assms(2)[OF refl] r show ?thesis unfolding parses_def expression_def by (fastforce simp: reading_def)
qed

text \<open>
  An expression with ASCII names, whose strings have no other control characters and which holds
  neither of the literals true and false, is displayed as a text that the parser reads to the end and
  turns into the same expression, up to the places and the indices that a parse records.
\<close>

theorem expression_round_trip:
  assumes "plain_expr e"
  shows "\<exists>e' s. expression E (new_parser (show_expr e)) = (Val e', s) \<and> erase e' = erase e \<and> ps_rest s = []"
proof (rule expression_reads[OF ascii_shown(1)[OF assms]])
  fix n assume "n = Suc (length (show_expr e))"
  then show "parses (show_expr e) (parse_expression E n) (show_expr e) (\<lambda>e'. erase e' = erase e) []"
    using parses_shown(1)[OF assms, of "[]" "[]" n "show_expr e" E] by simp
qed

lemma expression_round_trip_witness:
  "\<exists>e' s. expression \<lparr>pe_alphabetic = \<lambda>_. False, pe_alphanumeric = \<lambda>_. False, pe_regex_error = \<lambda>_. None,
       pe_query = \<lambda>_. Inl \<lparr>qe_row = 0, qe_column = 0, qe_offset = 0, qe_message = []\<rparr>\<rparr>
     (new_parser (show_expr (CallExpr ''node-name'' [StringConstant [CHR 0x22, CHR 0x0A],
       VariableExpr (Scoped (CaptureExpr (Capture ''c'' QOne 0 1 nowhere)) ''def'' nowhere)]))) = (Val e', s) \<and>
     erase e' = erase (CallExpr ''node-name'' [StringConstant [CHR 0x22, CHR 0x0A],
       VariableExpr (Scoped (CaptureExpr (Capture ''c'' QOne 0 1 nowhere)) ''def'' nowhere)]) \<and> ps_rest s = []"
  by (rule expression_round_trip) (simp add: plain_name_def plain_char_def name_char_def is_ascii_alphanumeric_def
      is_ascii_alphabetic_def byte_def)

section \<open>Numbers and conditions\<close>

text \<open>
  A decimal number is an integer constant when it fits 32 bits; a larger one ends the parse in a
  panic, where every other mistake of a file is an error.
\<close>

theorem number_at_the_limit:
  "fst (expression E (new_parser (dec n))) =
     (if n < 2 ^ 32 then Val (IntegerConstant (of_nat n))
      else Panics ''called Result::unwrap() on an Err value: ParseIntError'')"
proof -
  let ?src = "dec n"
  let ?s = "new_parser ?src"
  obtain c u where d: "dec n = c # u" by (cases "dec n") auto
  then have dig: "is_ascii_digit c" using dec_head[of n] by simp
  have r: "reading ?src ?s (dec n @ [])" using reading_new[OF ascii_dec] by simp
  show ?thesis
  proof (cases "n < 2 ^ 32")
    case True
    have "\<exists>e s. expression E ?s = (Val e, s) \<and> erase e = IntegerConstant (of_nat n) \<and> ps_rest s = []"
    proof (rule expression_reads[OF ascii_dec])
      fix k assume "k = Suc (length ?src)"
      moreover have "unat (of_nat n :: 32 word) = n" using True by (simp add: unat_of_nat)
      ultimately show "parses ?src (parse_expression E k) ?src (\<lambda>e. erase e = IntegerConstant (of_nat n)) []"
        using parses_shown(1)[of "IntegerConstant (of_nat n)" "[]" "[]" k ?src E] by simp
    qed
    then obtain e s where e: "expression E ?s = (Val e, s)" "erase e = IntegerConstant (of_nat n)" by blast
    from e(2) have "e = IntegerConstant (of_nat n)" by (cases e) auto
    with e(1) True show ?thesis by simp
  next
    case False
    have st: "stops []" by (simp add: stops_def)
    note g = digits_reading[OF st r]
    let ?m = "''called Result::unwrap() on an Err value: ParseIntError''"
    have peek: "peek ?s = (Val [c], ?s)" using r d by (simp add: reading_def peek_def give_def)
    have "fst (parse_integer_constant ?s) = Panics ?m"
      using g(2) False
      by (simp add: parse_integer_constant_def and_then_def offset_here_def consume_while_def unwrap_number_def
          parse_unsigned_dec panic_def)
    then obtain t where t: "parse_integer_constant ?s = (Panics ?m, t)" by (cases "parse_integer_constant ?s") auto
    have "expression_with E pe ?s = (Panics ?m, t)" for pe
    proof -
      have "and_then (primary E pe [c]) k ?s = (Panics ?m, t)" for k
        by (simp add: primary_digit[OF dig] and_then_def t)
      then show ?thesis by (simp add: expression_with_def and_then_def[of peek] peek)
    qed
    then show ?thesis using False by (simp add: expression_def)
  qed
qed

text \<open>A condition that begins with the letters of \<open>some\<close> is read as that keyword: the rest of a longer
  name is the variable that is tested.\<close>

lemma some_prefix:
  assumes "plain_name x"
  shows "\<exists>l s. parse_condition E (new_parser (''some'' @ x)) =
    (Val (CondSome (VariableExpr (Unscoped (UnscopedVariable x l))) (Location 0 0)), s)"
proof -
  let ?src = "''some'' @ x"
  let ?Q = "\<lambda>c k. \<exists>l. c = CondSome (VariableExpr (Unscoped (UnscopedVariable x l))) k"
  have r: "reading ?src (new_parser ?src) ?src"
    by (rule reading_new) (use ascii_name[OF assms] in \<open>simp add: byte_def\<close>)
  have "parses ?src (attempt (consume_token ''some'')) (''some'' @ x) (\<lambda>y. \<exists>a. y = Some a \<and> True) x"
    by (rule parses_attempt[OF parses_token])
  then have tok: "parses ?src (attempt (consume_token ''some'')) ?src (\<lambda>y. y = Some ()) x"
    by (rule parses_weaken) simp
  have ws: "parses ?src consume_whitespace x (\<lambda>_. True) x"
    using parses_ws_same[of x ?src] calm_name[OF assms, of "[]"] by simp
  have ex: "parses ?src (expression E) x (\<lambda>a. \<exists>l. a = VariableExpr (Unscoped (UnscopedVariable x l))) []"
    using parses_bare_name[OF assms, of "[]" ?src E] unfolding parses_def expression_def by simp
  have nil: "parses ?src consume_whitespace [] (\<lambda>_. True) []"
    by (rule parses_ws_same) simp_all
  have tail: "parses ?src (and_then (expression E) (\<lambda>e. and_then (give (CondSome e k)) (\<lambda>c. after consume_whitespace (give c))))
      x (\<lambda>c. ?Q c k) []" for k
  proof (rule parses_and_then[OF ex])
    fix a assume a: "\<exists>l. a = VariableExpr (Unscoped (UnscopedVariable x l))"
    have "and_then (give (CondSome a k)) (\<lambda>c. after consume_whitespace (give c)) =
        after consume_whitespace (give (CondSome a k))" by (rule ext) simp
    moreover have "parses ?src (after consume_whitespace (give (CondSome a k))) [] (\<lambda>c. ?Q c k) []"
      by (rule parses_and_then[OF nil], rule parses_give) (use a in blast)
    ultimately show "parses ?src (and_then (give (CondSome a k)) (\<lambda>c. after consume_whitespace (give c))) [] (\<lambda>c. ?Q c k) []"
      by simp
  qed
  have "parses ?src (and_then (condition_kind E k) (\<lambda>c. after consume_whitespace (give c))) ?src (\<lambda>c. ?Q c k) []" for k
    unfolding condition_kind_def and_then_assoc
  proof (rule parses_and_then[OF tok])
    fix y assume "y = Some ()"
    then show "parses ?src (and_then (case y of
          Some _ \<Rightarrow> after consume_whitespace (and_then (expression E) (\<lambda>e. give (CondSome e k)))
        | None \<Rightarrow> and_then (attempt (consume_token ''none'')) (\<lambda>r. case r of
            Some _ \<Rightarrow> after consume_whitespace (and_then (expression E) (\<lambda>e. give (CondNone e k)))
          | None \<Rightarrow> and_then (attempt (expression E)) (\<lambda>r. case r of
              Some e \<Rightarrow> after consume_whitespace (give (CondBool e k))
            | None \<Rightarrow> fail (ExpectedToken ''(some|none)? EXPRESSION'' k))))
        (\<lambda>c. after consume_whitespace (give c))) x (\<lambda>c. ?Q c k) []"
      by (simp only: option.case and_then_assoc) (rule parses_and_then[OF ws tail])
  qed
  from this[of "Location 0 0"] r obtain c s where
    "and_then (condition_kind E (Location 0 0)) (\<lambda>c. after consume_whitespace (give c)) (new_parser ?src) = (Val c, s)"
    "?Q c (Location 0 0)"
    unfolding parses_def by blast
  moreover have "parse_condition E (new_parser ?src) =
      and_then (condition_kind E (Location 0 0)) (\<lambda>c. after consume_whitespace (give c)) (new_parser ?src)"
    by (simp add: parse_condition_def and_then_def[of here] here_def new_parser_def)
  ultimately show ?thesis by auto
qed

end
