(* ===== verification/Spec2Isabelle.thy ===== *)
theory Spec2Isabelle
  imports Project Grep Symbol_Index Cache Scanner Refs Resolver Wire Transport Lsp_Config
    Lsp_Server Daemon_File Daemon Client Analysis Rename Extract
    Imports Tree_Queries Find_Symbols Ref_Commands Type_Commands Output Output_Json Commands
    Grammar_Packages Grammar_Loading Cli Cli_Effects Mcp Tsg_Theorems Tsg_Round_Trip
begin

text \<open>
  \<^bold>\<open>codequery (cq): a verification library\<close>

  \<^bold>\<open>The program.\<close> cq answers questions about a code base: where a symbol is defined, who refers to
  it, who calls it, what is never used. A query runs through these parts, under
  \<open>src/crates/\<close>. \<open>codequery-core\<close> finds the project root, discovers the source files and
  tells their language. \<open>codequery-index\<close> filters the files by a text search, parses the rest,
  extracts symbols and references, keeps the results in a cache on disk and in an index in memory.
  \<open>codequery-resolve\<close> makes the references precise with stack graphs. \<open>codequery-lsp\<close> asks
  language servers, through a background daemon that keeps them alive or through one that it starts
  for a single query; a cascade tries the daemon, then the server, then stack graphs.
  \<open>codequery-cli\<close> turns the results into commands, reports and renames, prints them framed, raw or
  as JSON, and maps every outcome to an exit code; \<open>codequery-mcp\<close> offers the same commands to an
  agent as tools of a JSON-RPC server. Grammars come as packages that are downloaded into the data
  directory. A parse tree is data for all of it (\<open>Syntax_Tree\<close>): the tree-sitter library that makes
  it is outside.

  \<^bold>\<open>Theories and sources.\<close>
  \<^item> \<open>Prelude\<close>: byte strings, lines, UTF-8 boundaries, paths and stable sorting, as Rust's
    standard library has them.
  \<^item> \<open>Core_Types\<close>: \<open>symbol.rs\<close>, \<open>reference.rs\<close>, \<open>query.rs\<close>, \<open>callchain.rs\<close>,
    \<open>error.rs\<close>, \<open>path_utils.rs\<close> of codequery-core; JSON values.
  \<^item> \<open>Languages\<close>: \<open>discovery.rs\<close> and the project part of \<open>config.rs\<close>: the language tables,
    the registry that is baked in, the extension map, discovery of the files.
  \<^item> \<open>Project\<close>: \<open>project.rs\<close> (walking up to a marker) and \<open>dirs.rs\<close>.
  \<^item> \<open>Grep\<close>: \<open>grep.rs\<close>, the word search that decides which files are parsed.
  \<^item> \<open>Syntax_Tree\<close>, \<open>Scanner\<close>: \<open>scanner.rs\<close>, the plain, the filtered and the cached
    scan. \<open>Symbol_Index\<close>: \<open>index.rs\<close>. \<open>Cache\<close>: \<open>cache.rs\<close>, with the disk as a state.
  \<^item> \<open>Refs\<close>: \<open>refs.rs\<close>, the two walks that extract references.
  \<^item> \<open>Extract_Base\<close>: the contract of symbol extraction and the combinators of the walks.
    \<open>Extract_Rust\<close>, \<open>Extract_Scripting\<close> (Python, Ruby, PHP, Lua, Bash), \<open>Extract_Objects\<close>
    (Java, C#, TypeScript and JavaScript, Go), \<open>Extract_Jvm_Swift\<close> (Swift, Kotlin, Scala),
    \<open>Extract_Native\<close> (C, C++, Zig), \<open>Extract_Data\<close> (HTML, CSS, JSON, YAML, TOML): the files of
    \<open>codequery-parse/src/languages/\<close>. \<open>Extract_Engine\<close>: \<open>extract_engine.rs\<close> and
    \<open>extract_config.rs\<close>. \<open>Extract\<close>: \<open>extract.rs\<close>, composed with the scan and the index.
  \<^item> \<open>Resolver\<close>: all of codequery-resolve. The stack-graph engine is a record of functions.
  \<^item> \<open>Wire\<close>: \<open>socket.rs\<close>, \<open>types.rs\<close>, \<open>error.rs\<close> of codequery-lsp (frames and JSON
    of the daemon protocol). \<open>Transport\<close>: \<open>protocol.rs\<close>, \<open>transport.rs\<close> (JSON-RPC over the
    pipes of a language server). \<open>Lsp_Config\<close>: \<open>config.rs\<close>. \<open>Lsp_Server\<close>: \<open>server.rs\<close>,
    \<open>queries.rs\<close>. \<open>Server_Processes\<close>: what these do to the processes. \<open>Daemon_File\<close>: \<open>daemon_file.rs\<close>. \<open>Daemon\<close>: \<open>daemon.rs\<close>.
    \<open>Client\<close>: \<open>client.rs\<close>, \<open>oneshot.rs\<close>, \<open>cascade.rs\<close>.
  \<^item> \<open>Analysis\<close>: \<open>dead.rs\<close>, \<open>callchain.rs\<close> of the command line. \<open>Rename\<close>:
    \<open>rename.rs\<close> and \<open>edit.rs\<close>.
  \<^item> \<open>Imports\<close>: \<open>imports.rs\<close>, the imports of a file in the seven languages that have them.
    \<open>Tree_Queries\<close>: \<open>search.rs\<close> and the tree walks of the commands. \<open>Find_Symbols\<close>,
    \<open>Ref_Commands\<close>, \<open>Type_Commands\<close>: the results that the commands under
    \<open>codequery-cli/src/commands/\<close> compute (definitions and bodies; references, callers,
    dependencies; type hierarchies). \<open>Commands\<close>: the same commands as actions on the console, the
    cache and the exit code.
  \<^item> \<open>Output\<close>, \<open>Output_Json\<close>: \<open>output.rs\<close>, the frames, raw lines and JSON objects of every
    report.
  \<^item> \<open>Grammar_Packages\<close>: \<open>commands/grammar.rs\<close>, with the grammar directory as a state.
    \<open>Grammar_Loading\<close>: where the parser looks for a grammar and how it installs a missing one,
    alone and interleaved with other threads.
  \<^item> \<open>Cli\<close>: \<open>main.rs\<close>, \<open>args.rs\<close>, \<open>commands/daemon.rs\<close>, \<open>commands/upgrade.rs\<close> and
    the cache command. The commands see parsers as functions; what making them does to disk and standard
    error (downloads, compiled grammars, notes) is run beside, for any list of parsers made.
    \<open>Cli_Effects\<close>: what a run leaves behind. \<open>Mcp\<close>: the crate codequery-mcp.
  \<^item> The fork \<open>src/forks/tree-sitter-graph\<close>, the language in which stack-graph rules are written:
    \<open>Tsg_Values\<close> and \<open>Tsg_Graph\<close> (\<open>graph.rs\<close>, \<open>variables.rs\<close>, \<open>execution/error.rs\<close>: values,
    graphs, environments, errors), \<open>Tsg_Ast\<close> (\<open>ast.rs\<close>), \<open>Tsg_Checker\<close> (\<open>checker.rs\<close>),
    \<open>Tsg_Functions\<close> (\<open>functions.rs\<close>), \<open>Tsg_Strict\<close> (\<open>execution.rs\<close>, \<open>execution/strict.rs\<close>).
    \<open>Tsg_Safety\<close>, \<open>Tsg_Soundness\<close> and \<open>Tsg_Theorems\<close> relate the checker to execution.
    \<open>Tsg_Parser\<close> (\<open>parser.rs\<close>) reads a file; \<open>Tsg_Parser_Facts\<close> shows that it ends, \<open>Tsg_Reading\<close> and
    \<open>Tsg_Round_Trip\<close> that it reads back what \<open>ast.rs\<close> displays.

  \<^bold>\<open>How code becomes definitions.\<close> A struct is a record or a datatype with named fields, an enum a
  datatype, a \<open>Result\<close> a sum, an \<open>Option\<close> an option. A string is the list of its bytes.
  \<open>usize\<close> values that only count or compare are natural numbers with Rust's saturating
  subtraction; the length prefix of a frame wraps as a 32-bit word. A hash map is a map;
  where its order of iteration is visible, the order is a parameter. Files, the clock, processes,
  pipes and environment variables are read through oracles of an environment record, indexed by how
  often they were looked at, and the world that the code changes (disk, processes, requests) is
  passed through. A panic is \<open>None\<close> or \<open>Panics\<close>, a call that blocks forever \<open>Hangs\<close>. Loops that
  wait for the clock or a peer are \<open>partial_function (option)\<close>. Fuel is used for two things. A
  shorthand of the graph language may name itself, so \<open>xc_stack\<close> says how many expansions fit on the
  stack, and one more is the panic that the code dies of. The parser of that language nests and loops
  as often as characters are left and once more, which is enough: \<open>parse_always_ends\<close> says that no
  parse runs out. Everything else is total, and executable wherever its parameters are.

  \<^bold>\<open>What the lemmas show.\<close>
  \<^item> Scanning: the text filter never changes what a filtered scan reports; a scan is the sorted
    list of what each file yields alone; cached results equal fresh ones; the index agrees with a
    linear search. The lemmas on \<open>data_contains_word\<close> rest on the locale of a leftmost substring
    search, those on the index on the locale of a secondary index.
  \<^item> References: positions, contexts and callers of extracted references are those of nodes of the
    tree; the generic walk equals a filter on the tree's nodes in order.
  \<^item> Symbols: whatever the language, every symbol at any depth is that of a node of the tree, its
    body the node's source; each language interprets one locale (\<open>extractor\<close>), and the
    dispatcher, the scan and the index inherit the law. A configuration compiles exactly when its
    validation accepts it.
  \<^item> Resolution: what is reported is exactly what complete paths reach, whatever the order of
    the language groups.
  \<^item> Protocols: everything written is read back; requests find their response; the exact cases in
    which a peer can make a call hang.
  \<^item> Daemon: authentication, an account of every process it ever started, eviction, one request for
    each connection, clean-up; composed with the client: a query is answered with what the daemon computed.
  \<^item> Cascade and one-shot queries: the precision that a result claims is that of the tier it
    came from; no server is left running.
  \<^item> Commands: every command ends in one of the statuses of the code, with its results or its errors
    but not both, a contract that the dispatcher inherits; a query writes nothing but its cache and
    the grammars it needs; clearing the cache cuts the commands off from running daemons; a search
    reports exactly the accepted matches. Reports: a frame and a JSON object give the location of their symbol back, and
    a printed tree lists every symbol.
  \<^item> Grammars: an installation writes nothing outside its own package directory; what concurrent
    installations can and cannot observe.
  \<^item> MCP: each request gets one response, notifications none; an edit replaces one occurrence.
  \<^item> Graph language: what the checker accepts never fails because of its own variables or captures
    when it runs. A state keeps the shape of the checker's environment; a small logic of safe
    computations carries that through the combinators, one lemma for each construct, and an induction
    over the nested statements puts them together. Shorthands are the gap: they are never checked.
    Parsing any source ends, in a file, in an error at a place of the source or in one of three panics;
    an expression that is displayed is read back as itself.
  \<^item> Analyses and renames: dead code and call trees are exactly their specification on the index
    and the references; a rename's edits hit the old name and applying them substitutes each line at
    once.

  \<^bold>\<open>Not modelled.\<close> Parsing of source files (tree-sitter and its grammars, the WASM loader and \<open>dlopen\<close>),
  stack-graph construction from the executed rules and partial paths (\<open>tree-sitter-stack-graphs\<close> under
  \<open>src/forks/\<close>), the text of JSON and the serialisation formats, SHA-256 and the standard
  library's hash are libraries: parameters, with the documented behaviour a property needs as its
  hypothesis. So are the programs that the code starts (\<open>curl\<close>, \<open>tar\<close>, language servers, the command \<open>cq\<close>
  itself seen from the MCP server): an environment record says what they answer and what files they
  leave; what they print by themselves is not part of the console. clap's parsing of an argument
  vector is left out: the model starts at the parsed options. Paths are displayed byte by byte, so
  the replacement of bytes that are not UTF-8 is left out. Threads occur where the code
  has a race that a reader should know (installing a grammar) and in the daemon, as explicit
  interleavings; elsewhere the parallel iterators of the scan are their sequential meaning.
\<close>

end
